(* ===== verification/Uav_Prelude.thy ===== *)
theory Uav_Prelude
  imports Main "HOL-Library.Word"
begin

text \<open>
  Prelude of the development.  It fixes the machine types of
  scratch/uav-secure-fanet/utils/uav-types.h (\<open>u8\<close> ... \<open>u64\<close> are words of that
  width, a \<open>ByteBuffer\<close> or \<open>std::array<u8, n>\<close> is a list of bytes), the exception
  classes of utils/uav-error.h and the result type in which every throwing
  operation returns, and it collects the generic facts the components share:
  reading and writing a slice of a buffer (\<open>get_bytes\<close>, \<open>put_bytes\<close>, collected
  in \<open>wire_simps\<close>) and splitting a word into bytes and gluing it together again.
\<close>

unbundle bit_operations_syntax

text \<open>Integer types and byte buffers of utils/uav-types.h.\<close>
type_synonym u8 = "8 word"
type_synonym u16 = "16 word"
type_synonym u32 = "32 word"
type_synonym u64 = "64 word"
type_synonym bytes = "u8 list"

text \<open>
  The exception classes of utils/uav-error.h, and one constructor for the
  exceptions of the C++ library and of boost (out_of_range, overflow_error).
\<close>

datatype uav_exn =
    UavException
  | CryptoException
  | SerializationException
  | ConfigException
  | FileIOException
  | InvalidArgumentException
  | StdException

type_synonym 'a res = "uav_exn + 'a"

named_theorems wire_simps \<open>reading back what was written into a buffer\<close>
named_theorems fill_simps \<open>writing the next field into a zeroed buffer\<close>
named_theorems parse_simps \<open>reading a field of a concatenation\<close>

definition rbind :: "'a res \<Rightarrow> ('a \<Rightarrow> 'b res) \<Rightarrow> 'b res" where
  "rbind m f = (case m of Inl e \<Rightarrow> Inl e | Inr x \<Rightarrow> f x)"

lemma rbind_simps [simp]:
  "rbind (Inl e) f = Inl e"
  "rbind (Inr x) f = f x"
  by (simp_all add: rbind_def)

lemma rbind_eq_Inr_iff: "rbind m f = Inr y \<longleftrightarrow> (\<exists>x. m = Inr x \<and> f x = Inr y)"
  by (cases m) auto

lemma rbind_assoc [simp]: "rbind (rbind m f) g = rbind m (\<lambda>x. rbind (f x) g)"
  by (cases m) simp_all

lemma rbind_cong: "m = n \<Longrightarrow> (\<And>x. n = Inr x \<Longrightarrow> f x = g x) \<Longrightarrow> rbind m f = rbind n g"
  by (cases n) simp_all

definition get_bytes :: "bytes \<Rightarrow> nat \<Rightarrow> nat \<Rightarrow> bytes" where
  "get_bytes buf off n = take n (drop off buf)"

definition put_bytes :: "bytes \<Rightarrow> nat \<Rightarrow> bytes \<Rightarrow> bytes" where
  "put_bytes buf off bs = take off buf @ bs @ drop (off + length bs) buf"

lemma length_get_bytes [simp]: "off + n \<le> length buf \<Longrightarrow> length (get_bytes buf off n) = n"
  by (simp add: get_bytes_def)

lemma length_put_bytes [simp]:
  "off + length bs \<le> length buf \<Longrightarrow> length (put_bytes buf off bs) = length buf"
  by (simp add: put_bytes_def)

lemma nth_put_bytes:
  "off + length bs \<le> length buf \<Longrightarrow> i < length buf \<Longrightarrow>
   put_bytes buf off bs ! i = (if off \<le> i \<and> i < off + length bs then bs ! (i - off) else buf ! i)"
  by (auto simp: put_bytes_def nth_append min_def)

lemma nth_get_bytes: "off + n \<le> length buf \<Longrightarrow> i < n \<Longrightarrow> get_bytes buf off n ! i = buf ! (off + i)"
  by (simp add: get_bytes_def)

lemma get_put_same [wire_simps]:
  "n = length bs \<Longrightarrow> off + n \<le> length buf \<Longrightarrow> get_bytes (put_bytes buf off bs) off n = bs"
  by (simp add: get_bytes_def put_bytes_def)

lemma get_put_other [wire_simps]:
  "k + n \<le> off \<or> off + length bs \<le> k \<Longrightarrow> off + length bs \<le> length buf \<Longrightarrow> k + n \<le> length buf \<Longrightarrow>
   get_bytes (put_bytes buf off bs) k n = get_bytes buf k n"
  by (rule nth_equalityI) (auto simp: nth_get_bytes nth_put_bytes)

lemma get_bytes_append_left [wire_simps]:
  "off + n \<le> length a \<Longrightarrow> get_bytes (a @ b) off n = get_bytes a off n"
  by (simp add: get_bytes_def)

lemma get_bytes_append_right [wire_simps]:
  "length a \<le> off \<Longrightarrow> get_bytes (a @ b) off n = get_bytes b (off - length a) n"
  by (simp add: get_bytes_def)

lemma get_bytes_all [wire_simps]: "n = length a \<Longrightarrow> get_bytes a 0 n = a"
  by (simp add: get_bytes_def)

lemma nth_eq_get_bytes: "i < length buf \<Longrightarrow> buf ! i = hd (get_bytes buf i 1)"
  by (simp add: get_bytes_def hd_drop_conv_nth take_Suc)

lemma list_update_put: "i < length buf \<Longrightarrow> buf[i := v] = put_bytes buf i [v]"
  by (simp add: put_bytes_def upd_conv_take_nth_drop)

lemma put_bytes_snoc:
  "k = off + length bs \<Longrightarrow> k < length buf \<Longrightarrow>
   put_bytes (put_bytes buf off bs) k [v] = put_bytes buf off (bs @ [v])"
  by (simp add: put_bytes_def)

section \<open>Words as bytes\<close>

lemma word_xor_eq_0: "(a :: 'a::len word) XOR b = 0 \<longleftrightarrow> a = b"
  by (metis xor.assoc xor_self_eq xor.right_neutral xor.left_neutral)

lemma ff_eq_mask8: "(0xFF :: 'a::len word) = mask 8"
  by (simp add: mask_eq_exp_minus_1)

lemma widen_byte:
  "8 \<le> LENGTH('a) \<Longrightarrow>
   (ucast (ucast (drop_bit k v AND 0xFF) :: u8) :: 'a::len word) = take_bit 8 (drop_bit k v)"
  unfolding ff_eq_mask8 take_bit_eq_mask[symmetric]
  by (rule bit_word_eqI) (auto simp: bit_unsigned_iff bit_take_bit_iff)

lemma widen_low_byte:
  "8 \<le> LENGTH('a) \<Longrightarrow> (ucast (ucast (v AND 0xFF) :: u8) :: 'a::len word) = take_bit 8 v"
  using widen_byte[of 0 v] by simp

lemma or_take_bit:
  "push_bit k (take_bit m (drop_bit k v)) OR take_bit k v = take_bit (m + k) (v :: 'a::len word)"
  by (rule bit_word_eqI) (auto simp: bit_or_iff bit_push_bit_iff bit_take_bit_iff bit_drop_bit_eq)

lemma take_bit_full: "LENGTH('a) \<le> n \<Longrightarrow> take_bit n (v :: 'a::len word) = v"
  by (simp add: take_bit_word_eq_self)

lemmas glue_bytes = widen_byte widen_low_byte or_take_bit take_bit_full

lemma uint_drop_bit: "uint (drop_bit n (w :: 'a::len word)) = drop_bit n (uint w)"
  by (rule bit_eqI) (auto simp: bit_drop_bit_eq bit_uint_iff dest: bit_imp_le_length)

lemma unsigned_less_plus:
  "unat (a :: 'a::len word) + unat b < 2 ^ LENGTH('a) \<Longrightarrow> unat (a + b) = unat a + unat b"
  by (simp add: unat_word_ariths)

end
