(* ===== verification/External.thy ===== *)
theory External
  imports Uav_Prelude
begin

text \<open>
  The third-party primitives the program calls and does not define: boost's
  modular exponentiation, gcd, msb and Miller-Rabin test, its printing and parsing
  of numbers in hexadecimal, and OpenSSL's HMAC-SHA256, SHA-256 and AES-256-GCM.  They are the fields of a record that
  every operation using them takes as its first argument.  What the program
  relies on is a named law about each; no other property of them is used.
\<close>

record ext =
  x_powm :: "int \<Rightarrow> int \<Rightarrow> int \<Rightarrow> int"
  x_gcd :: "int \<Rightarrow> int \<Rightarrow> int"
  x_msb :: "int \<Rightarrow> nat"
  x_miller_rabin :: "int \<Rightarrow> nat \<Rightarrow> bool"
  x_hex_str :: "int \<Rightarrow> string option"
  x_hex_val :: "string \<Rightarrow> int option"
  x_hmac_sha256 :: "bytes \<Rightarrow> bytes \<Rightarrow> bytes"
  x_sha256 :: "bytes \<Rightarrow> bytes"
  x_gcm_encrypt :: "bytes \<Rightarrow> bytes \<Rightarrow> bytes \<Rightarrow> bytes \<Rightarrow> bytes \<times> bytes"
  x_gcm_decrypt :: "bytes \<Rightarrow> bytes \<Rightarrow> bytes \<Rightarrow> bytes \<Rightarrow> bytes \<Rightarrow> bytes option"

text \<open>boost::multiprecision::powm on nonnegative arguments and a positive modulus.\<close>

definition powm_law :: "ext \<Rightarrow> bool" where
  "powm_law E \<longleftrightarrow> (\<forall>b e m. 0 \<le> b \<and> 0 \<le> e \<and> 0 < m \<longrightarrow> x_powm E b e m = b ^ nat e mod m)"

definition gcd_law :: "ext \<Rightarrow> bool" where
  "gcd_law E \<longleftrightarrow> (\<forall>a b. x_gcd E a b = gcd a b)"

text \<open>boost::multiprecision::msb: the index of the highest set bit of a positive number.\<close>

definition msb_law :: "ext \<Rightarrow> bool" where
  "msb_law E \<longleftrightarrow> (\<forall>n>0. 2 ^ x_msb E n \<le> n \<and> n < 2 ^ (x_msb E n + 1))"

text \<open>
  \<open>oss << std::hex << n\<close> prints a positive \<open>cpp_int\<close> with hex digits and no leading
  zero (\<open>None\<close> is an exception, as for negative numbers), and \<open>BigInt("0x...")\<close>
  reads such digits back.
\<close>

definition hex_digit :: "char \<Rightarrow> nat option" where
  "hex_digit c =
     (let n = (of_char c :: nat) in
      if 48 \<le> n \<and> n \<le> 57 then Some (n - 48)
      else if 97 \<le> n \<and> n \<le> 102 then Some (n - 87)
      else if 65 \<le> n \<and> n \<le> 70 then Some (n - 55)
      else None)"

definition hex_string :: "string \<Rightarrow> bool" where
  "hex_string s \<longleftrightarrow> (\<forall>c\<in>set s. hex_digit c \<noteq> None)"

definition hex_value :: "string \<Rightarrow> int" where
  "hex_value s = foldl (\<lambda>v c. 16 * v + int (the (hex_digit c))) 0 s"

definition hex_law :: "ext \<Rightarrow> bool" where
  "hex_law E \<longleftrightarrow>
     (\<forall>n>0. \<exists>s. x_hex_str E n = Some s \<and> s \<noteq> [] \<and> hd s \<noteq> CHR ''0'' \<and> hex_string s \<and> hex_value s = n) \<and>
     (\<forall>s. s \<noteq> [] \<and> hex_string s \<longrightarrow> x_hex_val E (''0x'' @ s) = Some (hex_value s))"

definition hmac_law :: "ext \<Rightarrow> bool" where
  "hmac_law E \<longleftrightarrow> (\<forall>k d. length (x_hmac_sha256 E k d) = 32)"

definition sha256_law :: "ext \<Rightarrow> bool" where
  "sha256_law E \<longleftrightarrow> (\<forall>d. length (x_sha256 E d) = 32)"

text \<open>
  AES-256-GCM (arguments: key, IV, AAD, plaintext or ciphertext): the tag has 16
  bytes, the ciphertext the length of the plaintext, and decrypting with the
  same key, IV and AAD gives the plaintext back.
\<close>

definition gcm_law :: "ext \<Rightarrow> bool" where
  "gcm_law E \<longleftrightarrow> (\<forall>k iv aad pt ct tag. x_gcm_encrypt E k iv aad pt = (ct, tag) \<longrightarrow>
     length tag = 16 \<and> length ct = length pt \<and> x_gcm_decrypt E k iv aad ct tag = Some pt)"

section \<open>A concrete instance\<close>

text \<open>
  Arithmetic that satisfies the laws and a toy cipher suite; the witnesses use
  it to show that the laws can hold.
\<close>

fun toy_msb :: "nat \<Rightarrow> nat" where
  "toy_msb n = (if n < 2 then 0 else Suc (toy_msb (n div 2)))"

declare toy_msb.simps [simp del]

fun toy_hex :: "nat \<Rightarrow> string" where
  "toy_hex n = (if n < 16 then [] else toy_hex (n div 16)) @ [''0123456789abcdef'' ! (n mod 16)]"

declare toy_hex.simps [simp del]

definition toy_ext :: ext where
  "toy_ext = \<lparr>
     x_powm = (\<lambda>b e m. b ^ nat e mod m),
     x_gcd = gcd,
     x_msb = (\<lambda>n. toy_msb (nat n)),
     x_miller_rabin = (\<lambda>n k. \<forall>d\<in>{2..<n}. n mod d \<noteq> 0),
     x_hex_str = (\<lambda>n. if n < 0 then None else Some (toy_hex (nat n))),
     x_hex_val = (\<lambda>s. if hex_string (drop 2 s) then Some (hex_value (drop 2 s)) else None),
     x_hmac_sha256 = (\<lambda>k d. replicate 31 0 @ [foldr (+) (k @ d) 0]),
     x_sha256 = (\<lambda>d. replicate 31 1 @ [foldr (+) d 0]),
     x_gcm_encrypt = (\<lambda>k iv aad pt. (map (\<lambda>b. b XOR foldr (+) (k @ iv) 0) pt, replicate 15 0 @ [foldr (+) (k @ aad) 0])),
     x_gcm_decrypt = (\<lambda>k iv aad ct tag.
        if tag = replicate 15 0 @ [foldr (+) (k @ aad) 0]
        then Some (map (\<lambda>b. b XOR foldr (+) (k @ iv) 0) ct) else None) \<rparr>"

lemma toy_msb_bounds: "0 < n \<Longrightarrow> 2 ^ toy_msb n \<le> n \<and> n < 2 ^ (toy_msb n + 1)"
proof (induction n rule: toy_msb.induct)
  case (1 n)
  show ?case
  proof (cases "n < 2")
    case True
    with 1 show ?thesis by (simp add: toy_msb.simps)
  next
    case False
    then have "2 ^ toy_msb (n div 2) \<le> n div 2 \<and> n div 2 < 2 ^ (toy_msb (n div 2) + 1)"
      using "1.IH" by simp
    then have "2 * 2 ^ toy_msb (n div 2) \<le> n \<and> n < 2 * 2 ^ (toy_msb (n div 2) + 1)"
      by linarith
    with False show ?thesis by (simp add: toy_msb.simps[of n])
  qed
qed

lemma toy_powm: "powm_law toy_ext"
  by (simp add: powm_law_def toy_ext_def)

lemma toy_gcd: "gcd_law toy_ext"
  by (simp add: gcd_law_def toy_ext_def)

lemma toy_msb_law: "msb_law toy_ext"
proof -
  have "2 ^ toy_msb (nat n) \<le> n \<and> n < 2 ^ (toy_msb (nat n) + 1)" if "n > 0" for n :: int
  proof -
    have "int (2 ^ toy_msb (nat n)) \<le> int (nat n) \<and> int (nat n) < int (2 ^ (toy_msb (nat n) + 1))"
      using toy_msb_bounds[of "nat n"] that by (simp only: of_nat_le_iff of_nat_less_iff zero_less_nat_eq)
    with that show ?thesis by simp
  qed
  then show ?thesis by (simp add: msb_law_def toy_ext_def)
qed

lemma hex_value_snoc [simp]: "hex_value (s @ [c]) = 16 * hex_value s + int (the (hex_digit c))"
  by (simp add: hex_value_def)

lemma hex_string_append [simp]: "hex_string (s @ t) \<longleftrightarrow> hex_string s \<and> hex_string t"
  by (auto simp: hex_string_def)

lemma toy_digit: "d < 16 \<Longrightarrow> hex_digit (''0123456789abcdef'' ! d) = Some d"
proof -
  have "\<forall>d\<in>set [0..<16]. hex_digit (''0123456789abcdef'' ! d) = Some d" by code_simp
  then show "d < 16 \<Longrightarrow> hex_digit (''0123456789abcdef'' ! d) = Some d" by simp
qed

lemma toy_hex_digits: "hex_string (toy_hex n) \<and> hex_value (toy_hex n) = int n \<and> toy_hex n \<noteq> [] \<and>
  (0 < n \<longrightarrow> hd (toy_hex n) \<noteq> CHR ''0'')"
proof (induction n rule: toy_hex.induct)
  case (1 n)
  let ?c = "''0123456789abcdef'' ! (n mod 16)"
  have c: "hex_digit ?c = Some (n mod 16)" by (rule toy_digit) simp
  have z: "hex_digit (CHR ''0'') = Some 0" by code_simp
  show ?case
  proof (cases "n < 16")
    case True
    then have u: "toy_hex n = [?c]" by (subst toy_hex.simps) simp
    have "0 < n \<Longrightarrow> ?c \<noteq> CHR ''0''" using True c z by (intro notI) simp
    with True c show ?thesis unfolding u by (simp add: hex_string_def hex_value_def)
  next
    case False
    then have u: "toy_hex n = toy_hex (n div 16) @ [?c]" by (subst toy_hex.simps) simp
    from False have "0 < n div 16" by linarith
    moreover have "16 * int (n div 16) + int (n mod 16) = int n"
      using div_mult_mod_eq[of n 16] by linarith
    ultimately show ?thesis
      using 1[OF False] c unfolding u by (simp add: hex_string_def del: nth_Cons)
  qed
qed

lemma toy_hex_law: "hex_law toy_ext"
  using toy_hex_digits by (auto simp: hex_law_def toy_ext_def zero_less_nat_eq)

lemma toy_hmac: "hmac_law toy_ext"
  by (simp add: hmac_law_def toy_ext_def)

lemma toy_sha256: "sha256_law toy_ext"
  by (simp add: sha256_law_def toy_ext_def)

lemma toy_gcm: "gcm_law toy_ext"
  by (auto simp: gcm_law_def toy_ext_def o_def xor.assoc)

lemmas toy_laws = toy_powm toy_gcd toy_msb_law toy_hex_law toy_hmac toy_sha256 toy_gcm

end
