(* ===== verification/Modular_Arith.thy ===== *)
theory Modular_Arith
  imports Complex_Main
begin

text \<open>
  Number theory for the CRT key scheme: primes, Fermat's little theorem, the
  exponent law behind slave decryption (\<open>T ^ k = T\<close> modulo \<open>p * q\<close> for
  \<open>k = 1\<close> modulo \<open>(p - 1) * (q - 1)\<close>) and the residues of a Chinese-remainder sum.
  Congruences are equations between residues, \<open>a mod m = b mod m\<close>.
\<close>

section \<open>Primes\<close>

definition prime_int :: "int \<Rightarrow> bool" where
  "prime_int p \<longleftrightarrow> 1 < p \<and> (\<forall>d. 1 < d \<and> d < p \<longrightarrow> \<not> d dvd p)"

lemma prime_int_gt_1: "prime_int p \<Longrightarrow> 1 < p"
  by (simp add: prime_int_def)

lemma prime_int_code: "prime_int p \<longleftrightarrow> 1 < p \<and> list_all (\<lambda>d. p mod d \<noteq> 0) [2..p - 1]"
  by (auto simp: prime_int_def list_all_iff dvd_eq_mod_eq_0)

lemma prime_coprime:
  assumes "prime_int p" "\<not> p dvd a"
  shows "coprime p a"
proof -
  have "gcd p a dvd p" by simp
  moreover have "gcd p a > 0" using prime_int_gt_1[OF assms(1)] by simp
  moreover have "gcd p a \<noteq> p" using assms(2) by (metis gcd_dvd2)
  moreover have "gcd p a \<le> p" using prime_int_gt_1[OF assms(1)] by (intro zdvd_imp_le) simp_all
  ultimately have "gcd p a = 1"
    using assms(1) unfolding prime_int_def by (smt (verit))
  then show ?thesis by (simp add: coprime_iff_gcd_eq_1)
qed

lemma prime_dvd_mult: "prime_int p \<Longrightarrow> p dvd a * b \<longleftrightarrow> p dvd a \<or> p dvd b"
  using prime_coprime[of p a] by (cases "p dvd a") (auto simp: coprime_dvd_mult_right_iff)

lemma distinct_primes_coprime:
  assumes "prime_int p" "prime_int q" "p \<noteq> q"
  shows "coprime p q"
proof (rule prime_coprime[OF assms(1)])
  show "\<not> p dvd q"
    using assms zdvd_imp_le[of p q] by (auto simp: prime_int_def)
qed

section \<open>Fermat's little theorem\<close>

lemma prime_dvd_choose:
  assumes p: "prime_int (int n)" and k: "0 < k" "k < n"
  shows "int n dvd int (n choose k)"
proof -
  have "int k * int (n choose k) = int n * int ((n - 1) choose (k - 1))"
    using k times_binomial_minus1_eq[of k n] by (metis of_nat_mult)
  then have "int n dvd int k * int (n choose k)" by simp
  moreover have "\<not> int n dvd int k" using k by (auto dest: zdvd_imp_le)
  ultimately show ?thesis using prime_dvd_mult[OF p] by blast
qed

lemma prime_power_sum:
  fixes a :: int
  assumes p: "prime_int (int n)"
  shows "(a + 1) ^ n mod int n = (a ^ n + 1) mod int n"
proof -
  have n: "0 < n" using prime_int_gt_1[OF p] by simp
  have "(a + 1) ^ n = (\<Sum>k\<le>n. of_nat (n choose k) * a ^ k)"
    using binomial_ring[of a 1 n] by simp
  also have "{..n} = insert 0 (insert n {1..<n})" using n by auto
  also have "(\<Sum>k\<in>insert 0 (insert n {1..<n}). of_nat (n choose k) * a ^ k) =
      a ^ n + 1 + (\<Sum>k\<in>{1..<n}. of_nat (n choose k) * a ^ k)"
    using n by simp
  finally have sum: "(a + 1) ^ n = a ^ n + 1 + (\<Sum>k\<in>{1..<n}. of_nat (n choose k) * a ^ k)" .
  have "int n dvd (\<Sum>k\<in>{1..<n}. of_nat (n choose k) * a ^ k)"
    by (rule dvd_sum, rule dvd_mult2, rule prime_dvd_choose[OF p]) auto
  then show ?thesis unfolding sum by (metis dvd_eq_mod_eq_0 mod_add_right_eq add.right_neutral)
qed

lemma fermat_nat: "prime_int (int n) \<Longrightarrow> int a ^ n mod int n = int a mod int n"
proof (induction a)
  case 0
  then show ?case using prime_int_gt_1[OF 0] by (cases n) simp_all
next
  case (Suc a)
  have "int (Suc a) ^ n mod int n = (int a + 1) ^ n mod int n" by (simp add: add.commute)
  also have "\<dots> = (int a ^ n + 1) mod int n" by (rule prime_power_sum[OF Suc.prems])
  also have "\<dots> = (int a + 1) mod int n" using Suc by (metis mod_add_left_eq)
  finally show ?case by (simp add: add.commute)
qed

lemma fermat:
  assumes p: "prime_int p" and a: "\<not> p dvd a"
  shows "a ^ nat (p - 1) mod p = 1"
proof -
  have p1: "1 < p" using prime_int_gt_1[OF p] .
  have "(a mod p) ^ nat p mod p = a mod p"
    using fermat_nat[of "nat p" "nat (a mod p)"] p p1 by simp
  then have "a ^ nat p mod p = a mod p" by (simp add: power_mod)
  moreover have "a ^ nat p = a * a ^ nat (p - 1)"
    using p1 by (simp flip: power_Suc add: Suc_nat_eq_nat_zadd1)
  ultimately have "p dvd a * (a ^ nat (p - 1) - 1)"
    by (simp add: mod_eq_dvd_iff right_diff_distrib)
  then have "p dvd a ^ nat (p - 1) - 1" using prime_dvd_mult[OF p] a by blast
  then have "a ^ nat (p - 1) mod p = 1 mod p" by (simp add: mod_eq_dvd_iff)
  with p1 show ?thesis by simp
qed

section \<open>The exponent law\<close>

lemma mod_mult_coprime:
  fixes m n :: int
  assumes "coprime m n" "a mod m = b mod m" "a mod n = b mod n"
  shows "a mod (m * n) = b mod (m * n)"
  using assms by (simp add: mod_eq_dvd_iff divides_mult)

lemma mod_of_mult:
  fixes m n :: int
  assumes "a mod (m * n) = b mod (m * n)"
  shows "a mod m = b mod m" "a mod n = b mod n"
  using assms by (auto simp: mod_eq_dvd_iff dest: dvd_mult_left dvd_mult_right)

lemma exponent_law_prime:
  assumes p: "prime_int p" and k: "k mod nat (p - 1) = 1 mod nat (p - 1)" and "0 < k"
  shows "T ^ k mod p = T mod p"
proof (cases "p dvd T")
  case True
  then have "p dvd T ^ k" using \<open>0 < k\<close> by (metis dvd_power dvd_trans)
  with True show ?thesis by simp
next
  case False
  have "nat (p - 1) dvd k - 1"
    using mod_eq_dvd_iff_nat[of 1 k "nat (p - 1)"] k \<open>0 < k\<close> by linarith
  then obtain r where "k - 1 = nat (p - 1) * r" by (elim dvdE)
  then have r: "k = Suc (nat (p - 1) * r)" using \<open>0 < k\<close> by simp
  have "(T ^ nat (p - 1)) ^ r mod p = 1 mod p"
    using power_mod[of "T ^ nat (p - 1)" p r] fermat[OF p False] by simp
  then have "T * (T ^ nat (p - 1)) ^ r mod p = T * 1 mod p"
    by (rule mod_mult_cong[OF refl])
  then show ?thesis by (simp add: r power_mult)
qed

lemma exponent_law:
  assumes pq: "prime_int p" "prime_int q" "p \<noteq> q"
    and k: "int k mod ((p - 1) * (q - 1)) = 1 mod ((p - 1) * (q - 1))" "0 < k"
  shows "T ^ k mod (p * q) = T mod (p * q)"
proof (rule mod_mult_coprime[OF distinct_primes_coprime[OF pq]])
  have nat_mod: "k mod nat (r - 1) = 1 mod nat (r - 1)"
    if "prime_int r" "int k mod (r - 1) = 1 mod (r - 1)" for r
  proof -
    have "int (k mod nat (r - 1)) = int (1 mod nat (r - 1))"
      using that prime_int_gt_1[OF that(1)] by (simp add: zmod_int)
    then show ?thesis by (simp only: of_nat_eq_iff)
  qed
  show "T ^ k mod p = T mod p"
    by (rule exponent_law_prime[OF pq(1) nat_mod[OF pq(1)] k(2)]) (rule mod_of_mult(1)[OF k(1)])
  show "T ^ k mod q = T mod q"
    by (rule exponent_law_prime[OF pq(2) nat_mod[OF pq(2)] k(2)]) (rule mod_of_mult(2)[OF k(1)])
qed

section \<open>Residues of a sum over the slaves\<close>

lemma sum_list_mod_others:
  fixes f :: "'a \<Rightarrow> int"
  assumes "distinct xs" "x \<in> set xs" "\<And>y. y \<in> set xs \<Longrightarrow> y \<noteq> x \<Longrightarrow> m dvd f y"
  shows "sum_list (map f xs) mod m = f x mod m"
proof -
  have "m dvd (\<Sum>y\<in>set xs - {x}. f y)"
    using assms(3) by (intro dvd_sum) auto
  moreover have "sum_list (map f xs) = f x + (\<Sum>y\<in>set xs - {x}. f y)"
    using assms(1,2) by (simp add: sum_list_distinct_conv_sum_set sum.remove)
  ultimately show ?thesis by (simp add: mod_eq_dvd_iff)
qed

lemma dvd_prod_list:
  fixes f :: "'a \<Rightarrow> int"
  shows "x \<in> set xs \<Longrightarrow> f x dvd prod_list (map f xs)"
  by (induction xs) auto

end
