(* ===== verification/Bigint.thy ===== *)
theory Bigint
  imports External Modular_Arith "HOL-Library.Signed_Division"
begin

text \<open>
  crypto/uav-bigint.cc: the arithmetic of the CRT key scheme.  A \<open>cpp_int\<close> is an
  \<open>int\<close>; its \<open>/\<close> and \<open>%\<close> truncate towards zero (\<open>sdiv\<close>, \<open>smod\<close>) and throw on a
  zero divisor.  A loop that may run forever is a \<open>partial_function\<close> whose value
  \<open>None\<close> means that it does not return; a random generator is the stream of the
  values it will draw.
\<close>

type_synonym 'a comp = "'a res option"

definition cret :: "'a \<Rightarrow> 'a comp" where "cret x = Some (Inr x)"

definition cbind :: "'a comp \<Rightarrow> ('a \<Rightarrow> 'b comp) \<Rightarrow> 'b comp" where
  "cbind m f = (case m of None \<Rightarrow> None | Some (Inl e) \<Rightarrow> Some (Inl e) | Some (Inr x) \<Rightarrow> f x)"

lemma cbind_simps [simp]:
  "cbind None f = None" "cbind (Some (Inl e)) f = Some (Inl e)" "cbind (Some (Inr x)) f = f x"
  "cbind (cret x) f = f x"
  by (simp_all add: cbind_def cret_def)

section \<open>Modular arithmetic\<close>

definition ModPow :: "ext \<Rightarrow> int \<Rightarrow> int \<Rightarrow> int \<Rightarrow> int res" where
  "ModPow E base ex md =
     (if md = 0 then Inl CryptoException
      else if ex < 0 then Inl CryptoException
      else Inr (x_powm E base ex md))"

definition Mod :: "int \<Rightarrow> int \<Rightarrow> int res" where
  "Mod a m = (if m = 0 then Inl StdException
     else let result = a smod m in Inr (if result < 0 then result + m else result))"

text \<open>The loop of the extended Euclidean algorithm, on \<open>(old_r, r, old_s, s)\<close>.\<close>

function euclid_loop :: "int \<Rightarrow> int \<Rightarrow> int \<Rightarrow> int \<Rightarrow> int \<times> int" where
  "euclid_loop old_r r old_s s =
     (if r = 0 then (old_r, old_s)
      else let q = old_r sdiv r in euclid_loop r (old_r - q * r) s (old_s - q * s))"
  by auto
termination
proof (relation "measure (\<lambda>(old_r, r, old_s, s). nat \<bar>r\<bar>)")
  fix old_r r old_s s q :: int
  assume "r \<noteq> 0" "q = old_r sdiv r"
  then have "old_r - q * r = old_r smod r"
    by (simp add: minus_sdiv_mult_eq_smod)
  moreover have "\<bar>old_r smod r\<bar> < \<bar>r\<bar>"
    using \<open>r \<noteq> 0\<close> by (simp add: signed_modulo_int_def abs_mult sgn_if)
  ultimately show "((r, old_r - q * r, s, old_s - q * s), (old_r, r, old_s, s))
      \<in> measure (\<lambda>(old_r, r, old_s, s). nat \<bar>r\<bar>)"
    using \<open>r \<noteq> 0\<close> by simp
qed simp

declare euclid_loop.simps [simp del]

definition ModInverse :: "int \<Rightarrow> int \<Rightarrow> int res" where
  "ModInverse a m =
     (if m \<le> 1 then Inl CryptoException
      else let (old_r, old_s) = euclid_loop a m 1 0 in
        if old_r \<noteq> 1 then Inl CryptoException
        else Mod old_s m)"

definition Gcd :: "ext \<Rightarrow> int \<Rightarrow> int \<Rightarrow> int" where
  "Gcd E a b = x_gcd E \<bar>a\<bar> \<bar>b\<bar>"

definition Lcm :: "ext \<Rightarrow> int \<Rightarrow> int \<Rightarrow> int" where
  "Lcm E a b = (if a = 0 \<or> b = 0 then 0 else \<bar>a\<bar> sdiv Gcd E a b * \<bar>b\<bar>)"

section \<open>Primality\<close>

definition IsProbablePrime :: "ext \<Rightarrow> int \<Rightarrow> nat \<Rightarrow> bool" where
  "IsProbablePrime E n k =
     (if n < 2 then False else if n = 2 then True else if n = 3 then True
      else if n smod 2 = 0 then False else x_miller_rabin E n k)"

definition IsSafePrime :: "ext \<Rightarrow> int \<Rightarrow> bool" where
  "IsSafePrime E p =
     (if \<not> IsProbablePrime E p 25 then False
      else IsProbablePrime E ((p - 1) sdiv 2) 25)"

section \<open>Random numbers\<close>

text \<open>\<open>RandomBits\<close> consumes the draws from index \<open>k\<close>; the second result is the next index.\<close>

primrec random_words :: "(nat \<Rightarrow> u64) \<Rightarrow> nat \<Rightarrow> nat \<Rightarrow> int \<Rightarrow> int" where
  "random_words rng k 0 acc = acc"
| "random_words rng k (Suc n) acc =
     random_words rng (k + 1) n (push_bit 64 acc OR uint (rng k))"

definition RandomBits :: "nat \<Rightarrow> (nat \<Rightarrow> u64) \<Rightarrow> nat \<Rightarrow> int \<times> nat" where
  "RandomBits bits rng k =
     (if bits = 0 then (0, k)
      else
        let full_words = bits div 64; rem_bits = bits mod 64;
            r1 = random_words rng k full_words 0;
            r2 = (if rem_bits > 0
                  then push_bit rem_bits r1 OR uint (drop_bit (64 - rem_bits) (rng (k + full_words)))
                  else r1);
            k' = k + full_words + (if rem_bits > 0 then 1 else 0)
        in (r2 OR push_bit (bits - 1) 1, k'))"

partial_function (option) random_below_loop ::
    "nat \<Rightarrow> int \<Rightarrow> (nat \<Rightarrow> u64) \<Rightarrow> nat \<Rightarrow> (int \<times> nat) option" where
  "random_below_loop bits upper_bound rng k =
     (let (result, k') = RandomBits bits rng k in
      if result \<ge> upper_bound then random_below_loop bits upper_bound rng k'
      else Some (result, k'))"

definition RandomBelow :: "ext \<Rightarrow> int \<Rightarrow> (nat \<Rightarrow> u64) \<Rightarrow> nat \<Rightarrow> (int \<times> nat) comp" where
  "RandomBelow E upper_bound rng k =
     (if upper_bound \<le> 0 then Some (Inl CryptoException)
      else map_option Inr (random_below_loop (x_msb E upper_bound + 1) upper_bound rng k))"

section \<open>Chinese remainder theorem\<close>

fun pairwise_coprime_check :: "ext \<Rightarrow> int list \<Rightarrow> bool" where
  "pairwise_coprime_check E [] = True"
| "pairwise_coprime_check E (m # ms) =
     (list_all (\<lambda>m'. Gcd E m m' = 1) ms \<and> pairwise_coprime_check E ms)"

fun crt_sum :: "int \<Rightarrow> (int \<times> int) list \<Rightarrow> int \<Rightarrow> int res" where
  "crt_sum M [] result = Inr result"
| "crt_sum M ((r, m) # rest) result =
     (if m = 0 then Inl StdException
      else let Mi = M sdiv m in
      rbind (ModInverse Mi m) (\<lambda>yi. crt_sum M rest (result + r * Mi * yi)))"

definition CRT :: "ext \<Rightarrow> int list \<Rightarrow> int list \<Rightarrow> int res" where
  "CRT E remainders moduli =
     (if length remainders \<noteq> length moduli then Inl CryptoException
      else if remainders = [] then Inl CryptoException
      else if \<not> pairwise_coprime_check E moduli then Inl CryptoException
      else
        let M = prod_list moduli in
        rbind (crt_sum M (zip remainders moduli) 0) (\<lambda>result. Mod result M))"

section \<open>Helpers of the MKE-MGKM scheme\<close>

definition ComputeX :: "int \<Rightarrow> int" where "ComputeX p = (p - 1) sdiv 2"

definition ComputeY :: "int \<Rightarrow> int" where "ComputeY q = (q - 1) sdiv 2"

definition GenerateEi :: "u64 \<Rightarrow> int" where
  "GenerateEi draw = (let R = uint draw + 1 in 4 * R + 1)"

definition ComputeDi :: "ext \<Rightarrow> int \<Rightarrow> int \<Rightarrow> int \<Rightarrow> int res" where
  "ComputeDi E e_i x_i y_i =
     (let modulus = 4 * x_i * y_i; exp_val = 2 * (x_i - 1) * (y_i - 1) - 1
      in ModPow E e_i exp_val modulus)"

definition ComputeMi :: "int \<Rightarrow> int \<Rightarrow> int \<Rightarrow> int res" where
  "ComputeMi n_product x_i y_i =
     (let denom = x_i * y_i in
      if denom = 0 then Inl StdException
      else if n_product smod denom \<noteq> 0 then Inl CryptoException
      else Inr (n_product sdiv denom))"

definition ComputeNi :: "int \<Rightarrow> int \<Rightarrow> int \<Rightarrow> int res" where
  "ComputeNi Mi x_i y_i = ModInverse Mi (x_i * y_i)"

section \<open>Bytes\<close>

text \<open>The loop of \<open>ToBytes\<close> fills the buffer from its end; \<open>i\<close> bytes are left.\<close>

primrec to_bytes_loop :: "nat \<Rightarrow> bytes \<Rightarrow> int \<Rightarrow> bytes \<times> int" where
  "to_bytes_loop 0 buf tmp = (buf, tmp)"
| "to_bytes_loop (Suc i) buf tmp =
     to_bytes_loop i (buf[i := word_of_int (tmp AND 0xFF)]) (drop_bit 8 tmp)"

definition ToBytes :: "int \<Rightarrow> nat \<Rightarrow> bytes res" where
  "ToBytes n bytes =
     (if n < 0 then Inl CryptoException
      else let (buf, tmp) = to_bytes_loop bytes (replicate bytes 0) n in
        if tmp \<noteq> 0 then Inl CryptoException else Inr buf)"

definition FromBytes :: "bytes \<Rightarrow> int" where
  "FromBytes data = foldl (\<lambda>result b. push_bit 8 result OR uint b) 0 data"

section \<open>Number classification of uav-bigint-utils.h\<close>

definition FitsU64 :: "int \<Rightarrow> bool" where
  "FitsU64 n = (n \<ge> 0 \<and> n \<le> 18446744073709551615)"

definition FitsU32 :: "int \<Rightarrow> bool" where
  "FitsU32 n = (n \<ge> 0 \<and> n \<le> 0xFFFFFFFF)"

section \<open>Properties of the arithmetic\<close>

lemma Mod_pos:
  assumes "0 < m"
  shows "Mod a m = Inr (a mod m)"
proof (cases "sgn a \<noteq> sgn m \<and> \<not> m dvd a")
  case True
  then have "a smod m = a mod m - m" by (simp add: signed_modulo_int_eq_modulo_int)
  moreover have "a mod m < m" using assms by simp
  ultimately show ?thesis using assms by (simp add: Mod_def Let_def)
next
  case False
  then have "a smod m = a mod m" by (auto simp: signed_modulo_int_eq_modulo_int)
  moreover have "0 \<le> a mod m" using assms by simp
  ultimately show ?thesis using assms by (simp add: Mod_def Let_def not_less)
qed

lemma sdiv_nonneg: "0 \<le> a \<Longrightarrow> 0 \<le> b \<Longrightarrow> a sdiv b = a div (b :: int)"
  by (auto simp: signed_divide_int_def sgn_if)

lemma ModPow_ok:
  "powm_law E \<Longrightarrow> 0 \<le> b \<Longrightarrow> 0 \<le> e \<Longrightarrow> 0 < m \<Longrightarrow> ModPow E b e m = Inr (b ^ nat e mod m)"
  by (simp add: ModPow_def powm_law_def)

lemma euclid_loop_inv:
  "euclid_loop r0 r1 s0 s1 = (g, s) \<Longrightarrow> m dvd s0 * a - r0 \<Longrightarrow> m dvd s1 * a - r1 \<Longrightarrow> m dvd s * a - g"
proof (induction r0 r1 s0 s1 rule: euclid_loop.induct)
  case (1 old_r r old_s s1)
  show ?case
  proof (cases "r = 0")
    case True
    with 1 show ?thesis by (simp add: euclid_loop.simps)
  next
    case False
    define q where "q = old_r sdiv r"
    have "m dvd (old_s * a - old_r) - q * (s1 * a - r)"
      by (rule dvd_diff[OF "1.prems"(2) dvd_mult[OF "1.prems"(3)]])
    then have "m dvd (old_s - q * s1) * a - (old_r - q * r)" by (simp add: algebra_simps)
    with 1 False show ?thesis
      using euclid_loop.simps[of old_r r old_s s1] by (simp add: q_def Let_def)
  qed
qed

lemma euclid_loop_gcd:
  "0 \<le> r0 \<Longrightarrow> 0 \<le> r1 \<Longrightarrow> fst (euclid_loop r0 r1 s0 s1) = gcd r0 r1"
proof (induction r0 r1 s0 s1 rule: euclid_loop.induct)
  case (1 old_r r old_s s1)
  show ?case
  proof (cases "r = 0")
    case True
    with 1 show ?thesis by (simp add: euclid_loop.simps)
  next
    case False
    have "old_r - old_r sdiv r * r = old_r mod r"
      using 1 by (simp add: sdiv_nonneg minus_div_mult_eq_mod)
    with 1 False show ?thesis
      using euclid_loop.simps[of old_r r old_s s1] gcd_red_int[of old_r r]
      by (simp add: Let_def gcd.commute)
  qed
qed

lemma ModInverse_sound:
  assumes "ModInverse a m = Inr x"
  shows "1 < m" "0 \<le> x" "x < m" "a * x mod m = 1"
proof -
  show m: "1 < m" using assms by (simp add: ModInverse_def split: if_splits)
  obtain g s where loop: "euclid_loop a m 1 0 = (g, s)" by fastforce
  have g: "g = 1" "x = s mod m"
    using assms m by (simp_all add: ModInverse_def loop Mod_pos split: if_splits)
  have "m dvd s * a - 1" using euclid_loop_inv[OF loop, of m a] g by simp
  then have "s * a mod m = 1" using m by (simp add: mod_eq_dvd_iff[symmetric])
  then show "a * x mod m = 1" "0 \<le> x" "x < m"
    using m g by (simp_all add: mod_mult_right_eq mult.commute)
qed

lemma ModInverse_iff:
  assumes "0 \<le> a" "1 < m"
  shows "ModInverse a m = (if coprime a m then Inr (snd (euclid_loop a m 1 0) mod m) else Inl CryptoException)"
  using euclid_loop_gcd[of a m 1 0] assms
  by (auto simp: ModInverse_def split_beta Mod_pos coprime_iff_gcd_eq_1)

lemma ModInverse_ex: "0 \<le> a \<Longrightarrow> 1 < m \<Longrightarrow> coprime a m \<Longrightarrow> \<exists>x. ModInverse a m = Inr x"
  by (simp add: ModInverse_iff)

section \<open>Properties of the random numbers\<close>

lemma int_div_less:
  fixes a b c :: int
  assumes "0 < b" "a < c * b"
  shows "a div b < c"
proof (rule ccontr)
  assume "\<not> a div b < c"
  then have "c * b \<le> a div b * b" using assms by (intro mult_right_mono) simp_all
  also have "\<dots> \<le> a" using div_mult_mod_eq[of a b] pos_mod_sign[OF assms(1), of a] by linarith
  finally show False using assms by simp
qed

lemma push_or_bound:
  assumes "0 \<le> acc" "acc < 2 ^ a" "0 \<le> w" "w < 2 ^ n"
  shows "0 \<le> push_bit n acc OR w \<and> push_bit n acc OR w < (2 :: int) ^ (a + n)"
proof -
  have "push_bit n acc < 2 ^ (a + n)" "w < 2 ^ (a + n)"
    using assms by (simp_all add: push_bit_eq_mult power_add less_le_trans[OF assms(4)] mult_strict_right_mono)
  moreover have "0 \<le> push_bit n acc" using assms by (simp add: push_bit_eq_mult)
  ultimately show ?thesis using assms(3) by (simp add: OR_upper)
qed

lemma random_words_bound:
  "0 \<le> acc \<Longrightarrow> acc < 2 ^ a \<Longrightarrow>
   0 \<le> random_words rng k n acc \<and> random_words rng k n acc < 2 ^ (a + 64 * n)"
proof (induction n arbitrary: k acc a)
  case (Suc n)
  have "uint (rng k) < 2 ^ 64" using uint_lt2p[of "rng k"] by simp
  then have "0 \<le> push_bit 64 acc OR uint (rng k) \<and> push_bit 64 acc OR uint (rng k) < 2 ^ (a + 64)"
    using Suc.prems by (intro push_or_bound) simp_all
  from Suc.IH[OF this[THEN conjunct1] this[THEN conjunct2]] show ?case
    by (simp add: algebra_simps)
qed simp

lemma RandomBits_range:
  assumes "0 < bits"
  shows "2 ^ (bits - 1) \<le> fst (RandomBits bits rng k) \<and> fst (RandomBits bits rng k) < 2 ^ bits"
proof -
  define r1 where "r1 = random_words rng k (bits div 64) 0"
  define r2 where "r2 = (if bits mod 64 > 0
    then push_bit (bits mod 64) r1 OR uint (drop_bit (64 - bits mod 64) (rng (k + bits div 64))) else r1)"
  have r1: "0 \<le> r1" "r1 < 2 ^ (64 * (bits div 64))"
    using random_words_bound[of 0 0 rng k "bits div 64"] by (simp_all add: r1_def)
  have "uint (drop_bit (64 - bits mod 64) w) < 2 ^ (bits mod 64)" for w :: u64
  proof -
    have "uint w < 2 ^ (64 - bits mod 64) * 2 ^ (bits mod 64)"
      using uint_lt2p[of w] by (simp flip: power_add)
    then have "uint w div 2 ^ (64 - bits mod 64) < 2 ^ (bits mod 64)"
      by (intro int_div_less) (simp_all add: mult.commute)
    then show ?thesis
      by (subst uint_drop_bit) (simp only: drop_bit_eq_div)
  qed
  then have "0 \<le> r2 \<and> r2 < 2 ^ (64 * (bits div 64) + bits mod 64)"
    using push_or_bound[OF r1, of "uint (drop_bit (64 - bits mod 64) (rng (k + bits div 64)))" "bits mod 64"] r1
    by (auto simp: r2_def)
  then have r2: "0 \<le> r2" "r2 < 2 ^ bits" by simp_all
  have fst: "fst (RandomBits bits rng k) = r2 OR 2 ^ (bits - 1)"
    using assms by (simp add: RandomBits_def Let_def r1_def r2_def)
  have "(2 :: int) ^ (bits - 1) < 2 ^ bits" using assms by (simp add: power_strict_increasing)
  then show ?thesis
    unfolding fst using r2 OR_upper[of r2 bits "2 ^ (bits - 1)"] or_greater_eq[of r2 "2 ^ (bits - 1)"]
    by (simp add: or.commute)
qed

lemma random_below_loop_range:
  "random_below_loop bits ub rng k = Some p \<Longrightarrow> 0 < bits \<longrightarrow> 2 ^ (bits - 1) \<le> fst p \<and> fst p < ub"
proof (erule random_below_loop.raw_induct[rotated])
  fix loop bits ub rng k p
  assume IH: "\<And>bits ub rng k p. loop bits ub rng k = Some p \<Longrightarrow>
      0 < bits \<longrightarrow> 2 ^ (bits - 1) \<le> fst p \<and> fst p < ub"
    and body: "(let (result, k') = RandomBits bits rng k in
      if ub \<le> result then loop bits ub rng k' else Some (result, k')) = Some p"
  obtain r k' where rk: "RandomBits bits rng k = (r, k')" by fastforce
  show "0 < bits \<longrightarrow> 2 ^ (bits - 1) \<le> fst p \<and> fst p < ub"
    using IH[of bits ub rng k' p] body[unfolded rk] RandomBits_range[of bits rng k, unfolded rk]
    by (auto split: if_splits)
qed

text \<open>With an upper bound \<open>2 ^ n\<close> every candidate has bit \<open>n\<close> set: the loop never returns.\<close>

lemma random_below_loop_diverges:
  assumes "0 < bits" "ub \<le> 2 ^ (bits - 1)"
  shows "random_below_loop bits ub rng k = None"
  using random_below_loop_range[of bits ub rng k] assms
  by (cases "random_below_loop bits ub rng k") fastforce+

section \<open>The Chinese remainder theorem\<close>

lemma crt_residue:
  fixes c M y m :: "nat \<Rightarrow> int"
  assumes "k < n" "\<And>i. i < n \<Longrightarrow> i \<noteq> k \<Longrightarrow> m k dvd M i" "M k * y k mod m k = 1"
  shows "(\<Sum>i<n. c i * M i * y i) mod m k = c k mod m k"
proof -
  have "m k dvd (\<Sum>i\<in>{..<n} - {k}. c i * M i * y i)"
    using assms(2) by (intro dvd_sum) auto
  moreover have "(\<Sum>i<n. c i * M i * y i) = c k * (M k * y k) + (\<Sum>i\<in>{..<n} - {k}. c i * M i * y i)"
    using assms(1) by (simp add: sum.remove mult.assoc)
  ultimately have "(\<Sum>i<n. c i * M i * y i) mod m k = c k * (M k * y k) mod m k"
    by (simp add: mod_eq_dvd_iff)
  also have "\<dots> = c k * (M k * y k mod m k) mod m k" by (simp add: mod_mult_right_eq)
  finally show ?thesis by (simp add: assms(3))
qed

lemma prod_list_div_nth:
  fixes ms :: "int list"
  assumes "j < length ms" "ms ! j \<noteq> 0"
  shows "prod_list ms div ms ! j = prod_list (take j ms @ drop (Suc j) ms)"
proof -
  have "prod_list ms = ms ! j * prod_list (take j ms @ drop (Suc j) ms)"
    by (subst id_take_nth_drop[OF assms(1)]) (simp add: mult.left_commute)
  with assms(2) show ?thesis by simp
qed

lemma nth_dvd_prod_others:
  fixes ms :: "int list"
  assumes "i < length ms" "j < length ms" "i \<noteq> j" "ms ! j \<noteq> 0"
  shows "ms ! i dvd prod_list ms div ms ! j"
proof -
  have "ms ! i \<in> set (take j ms @ drop (Suc j) ms)"
    using assms by (cases "i < j")
      (auto simp: in_set_conv_nth intro: exI[of _ i] exI[of _ "i - Suc j"])
  then show ?thesis
    using dvd_prod_list[of "ms ! i" "take j ms @ drop (Suc j) ms" id] prod_list_div_nth[OF assms(2,4)]
    by (simp del: prod_list.append set_append)
qed

lemma prod_list_pos: "(\<And>x. x \<in> set xs \<Longrightarrow> 0 < x) \<Longrightarrow> 0 < prod_list (xs :: int list)"
  by (induction xs) auto

lemma crt_sum_moduli: "crt_sum M rms acc = Inr x \<Longrightarrow> (r, m) \<in> set rms \<Longrightarrow> 1 < m"
  by (induction M rms acc rule: crt_sum.induct)
    (auto simp: Let_def rbind_eq_Inr_iff dest: ModInverse_sound(1) split: if_splits)

lemma crt_sum_ok:
  assumes "crt_sum M rms acc = Inr x" "0 \<le> M"
  shows "(\<forall>i<length rms. 1 < snd (rms ! i)) \<and>
    (\<exists>y. x = acc + (\<Sum>i<length rms. fst (rms ! i) * (M div snd (rms ! i)) * y i) \<and>
    (\<forall>i<length rms. (M div snd (rms ! i)) * y i mod snd (rms ! i) = 1))"
  using assms
proof (induction M rms acc rule: crt_sum.induct)
  case (2 M r m rest acc)
  obtain y where y: "ModInverse (M sdiv m) m = Inr y"
    and rest: "crt_sum M rest (acc + r * (M sdiv m) * y) = Inr x" and "m \<noteq> 0"
    using "2.prems"(1) by (auto simp: Let_def rbind_eq_Inr_iff split: if_splits)
  have m: "1 < m" "M sdiv m = M div m"
    using ModInverse_sound(1)[OF y] "2.prems"(2) by (simp_all add: sdiv_nonneg)
  obtain ys where ys: "\<forall>i<length rest. 1 < snd (rest ! i)"
    "x = acc + r * (M div m) * y + (\<Sum>i<length rest. fst (rest ! i) * (M div snd (rest ! i)) * ys i)"
    "\<forall>i<length rest. (M div snd (rest ! i)) * ys i mod snd (rest ! i) = 1"
    using "2.IH"[OF \<open>m \<noteq> 0\<close> refl rest "2.prems"(2)] m by auto
  define ys' where "ys' = (\<lambda>i. case i of 0 \<Rightarrow> y | Suc i \<Rightarrow> ys i)"
  have "(\<forall>i<length ((r, m) # rest). 1 < snd (((r, m) # rest) ! i))"
    using ys(1) m by (auto simp: less_Suc_eq_0_disj)
  moreover have "x = acc + (\<Sum>i<length ((r, m) # rest).
      fst (((r, m) # rest) ! i) * (M div snd (((r, m) # rest) ! i)) * ys' i)"
    unfolding ys(2) by (simp add: sum.lessThan_Suc_shift ys'_def del: sum.lessThan_Suc)
  moreover have "\<forall>i<length ((r, m) # rest).
      (M div snd (((r, m) # rest) ! i)) * ys' i mod snd (((r, m) # rest) ! i) = 1"
    using ys(3) ModInverse_sound(4)[OF y] m by (auto simp: less_Suc_eq_0_disj ys'_def)
  ultimately show ?case by blast
qed simp

lemma coprime_prod_list:
  "(\<And>x. x \<in> set xs \<Longrightarrow> coprime x m) \<Longrightarrow> coprime (prod_list xs) (m :: int)"
  by (induction xs) auto

lemma pairwise_coprime_check_nth:
  assumes "gcd_law E" "pairwise_coprime_check E ms" "i < length ms" "j < length ms" "i \<noteq> j"
  shows "coprime (ms ! i) (ms ! j)"
proof -
  have "sorted_wrt coprime ms"
    using assms(1,2) by (induction ms)
      (auto simp: gcd_law_def Gcd_def list_all_iff coprime_iff_gcd_eq_1)
  then show ?thesis
    using assms(3-5) unfolding sorted_wrt_iff_nth_less by (metis coprime_commute linorder_neqE_nat)
qed

lemma coprime_prod_others:
  assumes "\<And>i. i < length ms \<Longrightarrow> i \<noteq> j \<Longrightarrow> coprime (ms ! i) (ms ! j)" "j < length ms" "ms ! j \<noteq> 0"
  shows "coprime (prod_list ms div ms ! j) (ms ! j :: int)"
  unfolding prod_list_div_nth[OF assms(2,3)]
proof (rule coprime_prod_list)
  fix x assume "x \<in> set (take j ms @ drop (Suc j) ms)"
  then consider "x \<in> set (take j ms)" | "x \<in> set (drop (Suc j) ms)" by auto
  then obtain i where "i < length ms" "i \<noteq> j" "x = ms ! i"
  proof cases
    case 1
    then show thesis using that by (auto simp: in_set_conv_nth)
  next
    case 2
    then obtain k where "k < length ms - Suc j" "x = ms ! (Suc j + k)" by (auto simp: in_set_conv_nth)
    then show thesis using that[of "Suc j + k"] by simp
  qed
  then show "coprime x (ms ! j)" using assms(1) by simp
qed

lemma crt_sum_returns:
  "(\<And>r m. (r, m) \<in> set rms \<Longrightarrow> 1 < m \<and> coprime (M div m) m) \<Longrightarrow> 0 \<le> M \<Longrightarrow>
   \<exists>x. crt_sum M rms acc = Inr x"
proof (induction M rms acc rule: crt_sum.induct)
  case (2 M r m rest acc)
  have m: "1 < m" "M sdiv m = M div m" "coprime (M div m) m"
    using "2.prems"(1)[of r m] "2.prems"(2) by (auto simp: sdiv_nonneg)
  moreover have "0 \<le> M div m" using "2.prems"(2) m by (simp add: pos_imp_zdiv_nonneg_iff)
  ultimately obtain y where y: "ModInverse (M sdiv m) m = Inr y" using ModInverse_ex by metis
  have "\<And>r m. (r, m) \<in> set rest \<Longrightarrow> 1 < m \<and> coprime (M div m) m"
    using "2.prems"(1) by (metis list.set_intros(2))
  from "2.IH"[OF _ refl this "2.prems"(2)] m y show ?case by (simp add: Let_def)
qed simp

lemma CRT_returns:
  assumes "gcd_law E" "length remainders = length moduli" "remainders \<noteq> []"
    "\<forall>m\<in>set moduli. 1 < m" "pairwise_coprime_check E moduli"
  shows "\<exists>x. CRT E remainders moduli = Inr x"
proof -
  have "0 < prod_list moduli" using assms(4) by (intro prod_list_pos) fastforce
  moreover have "1 < m \<and> coprime (prod_list moduli div m) m"
    if mem: "(r, m) \<in> set (zip remainders moduli)" for r m
  proof -
    obtain j where j: "j < length moduli" "m = moduli ! j" using mem by (auto simp: in_set_zip)
    then have "1 < moduli ! j" using assms(4) by simp
    then show ?thesis
      using j coprime_prod_others[of moduli j] pairwise_coprime_check_nth[OF assms(1,5)] by fastforce
  qed
  ultimately obtain x where "crt_sum (prod_list moduli) (zip remainders moduli) 0 = Inr x"
    using crt_sum_returns[of "zip remainders moduli" "prod_list moduli" 0] by auto
  then show ?thesis
    using assms \<open>0 < prod_list moduli\<close> by (simp add: CRT_def Let_def Mod_pos)
qed

lemma CRT_sound:
  assumes "CRT E remainders moduli = Inr x"
  shows "0 \<le> x \<and> x < prod_list moduli \<and>
    (\<forall>i<length moduli. x mod moduli ! i = remainders ! i mod moduli ! i)"
proof -
  define M where "M = prod_list moduli"
  define rms where "rms = zip remainders moduli"
  have len: "length remainders = length moduli"
    using assms by (simp add: CRT_def split: if_splits)
  obtain sm where sm: "crt_sum M rms 0 = Inr sm" and x: "Mod sm M = Inr x"
    using assms by (auto simp: CRT_def Let_def M_def rms_def rbind_eq_Inr_iff split: if_splits)
  have pos: "1 < moduli ! i" if "i < length moduli" for i
    using crt_sum_moduli[OF sm] that len by (auto simp: rms_def set_zip)
  then have "0 < M"
    unfolding M_def by (intro prod_list_pos) (force simp: in_set_conv_nth)
  with crt_sum_ok[OF sm] len obtain y
    where sum: "sm = (\<Sum>i<length moduli. remainders ! i * (M div moduli ! i) * y i)"
    and y: "\<forall>i<length moduli. (M div moduli ! i) * y i mod moduli ! i = 1"
    by (auto simp: rms_def)
  have xM: "x = sm mod M" using x \<open>0 < M\<close> by (simp add: Mod_pos)
  have "x mod moduli ! i = remainders ! i mod moduli ! i" if i: "i < length moduli" for i
  proof -
    have "x mod moduli ! i = sm mod moduli ! i"
      using i dvd_prod_list[of "moduli ! i" moduli id] unfolding xM M_def by (simp add: mod_mod_cancel)
    also have "\<dots> = remainders ! i mod moduli ! i"
      unfolding sum
    proof (rule crt_residue[where m = "(!) moduli"])
      show "moduli ! i dvd M div moduli ! j" if "j < length moduli" "j \<noteq> i" for j
        using nth_dvd_prod_others[of i moduli j] i that pos[of j] by (simp add: M_def)
    qed (use i y in auto)
    finally show ?thesis .
  qed
  then show ?thesis using \<open>0 < M\<close> by (simp add: xM M_def[symmetric])
qed

text \<open>
  C8.  Chinese remainder theorem: for as many remainders as moduli (all larger
  than 1) \<open>BigIntOps::CRT\<close> returns exactly when the moduli are pairwise coprime and
  throws \<open>CryptoException\<close> otherwise, and the value it returns is in \<open>[0, M)\<close> for
  the product \<open>M\<close> of the moduli and has the given remainder modulo each of them.
\<close>

theorem CRT_correct:
  assumes "gcd_law E" "length remainders = length moduli" "remainders \<noteq> []" "\<forall>m\<in>set moduli. 1 < m"
  shows "if (\<forall>i<length moduli. \<forall>j<length moduli. i \<noteq> j \<longrightarrow> coprime (moduli ! i) (moduli ! j))
    then \<exists>x. CRT E remainders moduli = Inr x \<and> 0 \<le> x \<and> x < prod_list moduli \<and>
           (\<forall>i<length moduli. x mod moduli ! i = remainders ! i mod moduli ! i)
    else CRT E remainders moduli = Inl CryptoException"
proof -
  have "(\<forall>i<length moduli. \<forall>j<length moduli. i \<noteq> j \<longrightarrow> coprime (moduli ! i) (moduli ! j)) \<longleftrightarrow>
      pairwise_coprime_check E moduli"
  proof
    assume *: "\<forall>i<length moduli. \<forall>j<length moduli. i \<noteq> j \<longrightarrow> coprime (moduli ! i) (moduli ! j)"
    have "sorted_wrt coprime ms \<Longrightarrow> pairwise_coprime_check E ms" for ms
      using assms(1) by (induction ms)
        (auto simp: gcd_law_def Gcd_def list_all_iff coprime_iff_gcd_eq_1)
    with * show "pairwise_coprime_check E moduli" by (auto simp: sorted_wrt_iff_nth_less)
  qed (use pairwise_coprime_check_nth[OF assms(1)] in blast)
  moreover have "CRT E remainders moduli = Inl CryptoException" if "\<not> pairwise_coprime_check E moduli"
    using assms that by (simp add: CRT_def)
  ultimately show ?thesis using CRT_returns[OF assms] CRT_sound by metis
qed

theorem CRT_correct_witness:
  "\<exists>x. CRT toy_ext [2, 3, 2] [3, 5, 7] = Inr x \<and> 0 \<le> x \<and> x < 105 \<and> x mod 3 = 2 \<and> x mod 5 = 3 \<and> x mod 7 = 2"
proof -
  have "coprime (3 :: int) 5" "coprime (3 :: int) 7" "coprime (5 :: int) 7"
    by (simp_all add: coprime_iff_gcd_eq_1 gcd_non_0_int)
  then have "\<forall>i<length [3, 5, 7 :: int]. \<forall>j<length [3, 5, 7 :: int]. i \<noteq> j \<longrightarrow>
      coprime ([3, 5, 7 :: int] ! i) ([3, 5, 7] ! j)"
    by (auto simp: less_Suc_eq coprime_commute numeral_3_eq_3)
  then show ?thesis
    using CRT_correct[OF toy_gcd, of "[2, 3, 2]" "[3, 5, 7]"] by (auto simp: less_Suc_eq numeral_3_eq_3)
qed

section \<open>Ranges of RandomBelow\<close>

lemma msb_power: "msb_law E \<Longrightarrow> x_msb E (2 ^ n) = n"
proof -
  assume "msb_law E"
  then have "(2 :: int) ^ x_msb E (2 ^ n) \<le> 2 ^ n" "(2 :: int) ^ n < 2 ^ (x_msb E (2 ^ n) + 1)"
    unfolding msb_law_def by (metis zero_less_numeral zero_less_power)+
  then have "x_msb E (2 ^ n) \<le> n" "n < x_msb E (2 ^ n) + 1"
    by (simp_all only: power_increasing_iff power_strict_increasing_iff one_less_numeral_iff semiring_norm(76))
  then show ?thesis by simp
qed

text \<open>
  C13.  \<open>BigIntOps::RandomBelow\<close>: for an upper bound that is a power of two it never
  returns, whatever the generator draws, because every candidate of
  \<open>RandomBits\<close> has its top bit set; and a value it returns for another bound
  lies in the upper half \<open>[2 ^ msb, bound)\<close> only, not in \<open>[0, bound)\<close> as documented.
\<close>

theorem RandomBelow_range:
  assumes "msb_law E"
  shows "RandomBelow E (2 ^ n) rng k = None \<and>
    (\<forall>ub r k'. RandomBelow E ub rng k = Some (Inr (r, k')) \<longrightarrow> 2 ^ x_msb E ub \<le> r \<and> r < ub)"
proof (intro conjI allI impI)
  show "RandomBelow E (2 ^ n) rng k = None"
    using random_below_loop_diverges[of "n + 1" "2 ^ n"] msb_power[OF assms, of n]
    by (simp add: RandomBelow_def not_le)
  show "2 ^ x_msb E ub \<le> r" "r < ub" if "RandomBelow E ub rng k = Some (Inr (r, k'))" for ub r k'
    using that random_below_loop_range[of "x_msb E ub + 1" ub rng k "(r, k')"]
    by (auto simp: RandomBelow_def split: if_splits)
qed

theorem RandomBelow_range_witness:
  "RandomBelow toy_ext (2 ^ 10) (\<lambda>_. 0) 0 = None"
  using RandomBelow_range[OF toy_msb_law, of 10 "\<lambda>_. 0" 0] by blast

section \<open>Byte encoding of a number\<close>

text \<open>The base-256 digits of \<open>n\<close>, most significant first, in \<open>i\<close> places.\<close>

primrec be_digits :: "nat \<Rightarrow> int \<Rightarrow> bytes" where
  "be_digits 0 n = []"
| "be_digits (Suc i) n = be_digits i (n div 256) @ [word_of_int n]"

lemma length_be_digits [simp]: "length (be_digits i n) = i"
  by (induction i arbitrary: n) auto

lemma word_of_int_low_byte: "(word_of_int (n AND 255) :: u8) = word_of_int n"
proof -
  have "n AND 255 = take_bit 8 n" using take_bit_eq_mask[of 8 n] by (simp add: mask_eq_exp_minus_1)
  then show ?thesis by (simp add: word_of_int_eq_iff)
qed

lemma to_bytes_loop_digits:
  "i \<le> length buf \<Longrightarrow> to_bytes_loop i buf n = (be_digits i n @ drop i buf, n div 256 ^ i)"
proof (induction i arbitrary: buf n)
  case (Suc i)
  then show ?case
    by (simp add: word_of_int_low_byte drop_bit_eq_div zdiv_zmult2_eq drop_update_swap
        Cons_nth_drop_Suc[symmetric])
qed simp

lemma push_or_byte: "push_bit 8 r OR uint (b :: u8) = r * 256 + uint b"
proof -
  have "push_bit 8 r OR uint b = push_bit 8 r + uint b"
    by (rule disjunctive_add[symmetric]) (auto simp: bit_push_bit_iff bit_uint_iff)
  then show ?thesis by (simp add: push_bit_eq_mult)
qed

lemma FromBytes_snoc [simp]: "FromBytes (xs @ [b]) = FromBytes xs * 256 + uint b"
  by (simp add: FromBytes_def push_or_byte)

lemma FromBytes_nil [simp]: "FromBytes [] = 0"
  by (simp add: FromBytes_def)

lemma FromBytes_digits: "FromBytes (be_digits i n) = n mod 256 ^ i"
proof (induction i arbitrary: n)
  case (Suc i)
  have "uint (word_of_int n :: u8) = n mod 256" by (simp add: uint_word_of_int)
  with Suc show ?case
    by (simp add: mod_mult2_eq' mult.commute) (simp add: zmod_zmult2_eq mult.commute)
qed simp

lemma FromBytes_range: "0 \<le> FromBytes xs \<and> FromBytes xs < 256 ^ length xs"
proof (induction xs rule: rev_induct)
  case (snoc b xs)
  have "uint b < 256" using uint_lt2p[of b] by simp
  with snoc have "FromBytes xs * 256 + uint b < 256 ^ length xs * 256" by linarith
  with snoc show ?case by (simp add: mult.commute)
qed simp

lemma digits_FromBytes: "be_digits (length xs) (FromBytes xs) = xs"
proof (induction xs rule: rev_induct)
  case (snoc b xs)
  have "0 \<le> uint b" "uint b < 256" using uint_lt2p[of b] by simp_all
  then have "(FromBytes xs * 256 + uint b) div 256 = FromBytes xs" by simp
  moreover have "(word_of_int (FromBytes xs * 256 + uint b) :: u8) = b"
  proof -
    have "(256 :: u8) = 0" by simp
    then show ?thesis by (simp only: of_int_add of_int_mult of_int_numeral word_of_int_uint mult_zero_right add_0)
  qed
  ultimately show ?case using snoc by simp
qed simp

lemma ToBytes_iff:
  "ToBytes n k = (if 0 \<le> n \<and> n < 256 ^ k then Inr (be_digits k n) else Inl CryptoException)"
proof (cases "n < 0")
  case False
  then have "n div 256 ^ k = 0 \<longleftrightarrow> n < 256 ^ k"
    by (metis div_pos_pos_trivial not_less pos_imp_zdiv_pos_iff less_irrefl zero_less_numeral zero_less_power)
  with False show ?thesis by (simp add: ToBytes_def to_bytes_loop_digits)
qed (simp add: ToBytes_def)

text \<open>
  C12.  Fixed-width encoding of big integers: \<open>BigIntOps::ToBytes\<close> succeeds exactly on
  the numbers that fit, gives a buffer of the requested width which \<open>FromBytes\<close>
  reads back, and \<open>ToBytes\<close> of a decoded buffer gives that buffer.
\<close>

theorem ToBytes_FromBytes:
  "(if 0 \<le> n \<and> n < 256 ^ width
    then \<exists>buf. ToBytes n width = Inr buf \<and> length buf = width \<and> FromBytes buf = n
    else ToBytes n width = Inl CryptoException)
   \<and> ToBytes (FromBytes data) (length data) = Inr data"
  using FromBytes_range[of data] by (auto simp: ToBytes_iff FromBytes_digits digits_FromBytes)

end
