(* ===== verification/Byte_Utils.thy ===== *)
theory Byte_Utils
  imports Uav_Prelude
begin

text \<open>
  utils/uav-byte-utils.cc: big-endian packing of integers into packet buffers,
  the append helpers, the constant-time comparison and the scrubbing helper.
  A raw pointer \<open>buf.data() + off\<close> is the pair of the buffer and the offset;
  a write returns the updated buffer.  The callers guarantee that the slice is
  inside the buffer, so the lemmas below have that as their hypothesis.
\<close>

section \<open>Writers\<close>

definition WriteU8 :: "bytes \<Rightarrow> nat \<Rightarrow> u8 \<Rightarrow> bytes" where
  "WriteU8 buf off v = buf[off := v]"

definition WriteU16BE :: "bytes \<Rightarrow> nat \<Rightarrow> u16 \<Rightarrow> bytes" where
  "WriteU16BE buf off v = buf
     [off := ucast (drop_bit 8 v AND 0xFF),
      off + 1 := ucast (v AND 0xFF)]"

definition WriteU32BE :: "bytes \<Rightarrow> nat \<Rightarrow> u32 \<Rightarrow> bytes" where
  "WriteU32BE buf off v = buf
     [off := ucast (drop_bit 24 v AND 0xFF),
      off + 1 := ucast (drop_bit 16 v AND 0xFF),
      off + 2 := ucast (drop_bit 8 v AND 0xFF),
      off + 3 := ucast (v AND 0xFF)]"

definition WriteU64BE :: "bytes \<Rightarrow> nat \<Rightarrow> u64 \<Rightarrow> bytes" where
  "WriteU64BE buf off v = buf
     [off := ucast (drop_bit 56 v AND 0xFF),
      off + 1 := ucast (drop_bit 48 v AND 0xFF),
      off + 2 := ucast (drop_bit 40 v AND 0xFF),
      off + 3 := ucast (drop_bit 32 v AND 0xFF),
      off + 4 := ucast (drop_bit 24 v AND 0xFF),
      off + 5 := ucast (drop_bit 16 v AND 0xFF),
      off + 6 := ucast (drop_bit 8 v AND 0xFF),
      off + 7 := ucast (v AND 0xFF)]"

section \<open>Readers\<close>

definition ReadU8 :: "bytes \<Rightarrow> nat \<Rightarrow> u8" where
  "ReadU8 src off = src ! off"

definition ReadU16BE :: "bytes \<Rightarrow> nat \<Rightarrow> u16" where
  "ReadU16BE src off =
     push_bit 8 (ucast (src ! off)) OR
     ucast (src ! (off + 1))"

definition ReadU32BE :: "bytes \<Rightarrow> nat \<Rightarrow> u32" where
  "ReadU32BE src off =
     push_bit 24 (ucast (src ! off)) OR
     push_bit 16 (ucast (src ! (off + 1))) OR
     push_bit 8 (ucast (src ! (off + 2))) OR
     ucast (src ! (off + 3))"

definition ReadU64BE :: "bytes \<Rightarrow> nat \<Rightarrow> u64" where
  "ReadU64BE src off =
     push_bit 56 (ucast (src ! off)) OR
     push_bit 48 (ucast (src ! (off + 1))) OR
     push_bit 40 (ucast (src ! (off + 2))) OR
     push_bit 32 (ucast (src ! (off + 3))) OR
     push_bit 24 (ucast (src ! (off + 4))) OR
     push_bit 16 (ucast (src ! (off + 5))) OR
     push_bit 8 (ucast (src ! (off + 6))) OR
     ucast (src ! (off + 7))"

section \<open>Append helpers\<close>

text \<open>\<open>buf.resize(off + n)\<close> value-initialises the new bytes.\<close>

definition AppendU8 :: "bytes \<Rightarrow> u8 \<Rightarrow> bytes" where
  "AppendU8 buf v = buf @ [v]"

definition AppendU16BE :: "bytes \<Rightarrow> u16 \<Rightarrow> bytes" where
  "AppendU16BE buf v = WriteU16BE (buf @ replicate 2 0) (length buf) v"

definition AppendU32BE :: "bytes \<Rightarrow> u32 \<Rightarrow> bytes" where
  "AppendU32BE buf v = WriteU32BE (buf @ replicate 4 0) (length buf) v"

definition AppendU64BE :: "bytes \<Rightarrow> u64 \<Rightarrow> bytes" where
  "AppendU64BE buf v = WriteU64BE (buf @ replicate 8 0) (length buf) v"

definition AppendBytes :: "bytes \<Rightarrow> bytes \<Rightarrow> bytes" where
  "AppendBytes buf src = buf @ src"

section \<open>Comparison, scrubbing, concatenation\<close>

text \<open>The loop over \<open>i < n\<close> accumulates the differences in \<open>diff\<close>.\<close>

fun ct_diff :: "bytes \<Rightarrow> bytes \<Rightarrow> u8 \<Rightarrow> u8" where
  "ct_diff (a # as) (b # bs) diff = ct_diff as bs (diff OR (a XOR b))"
| "ct_diff _ _ diff = diff"

definition ConstantTimeEquals :: "bytes \<Rightarrow> bytes \<Rightarrow> bool" where
  "ConstantTimeEquals a b = (if length a \<noteq> length b then False else ct_diff a b 0 = 0)"

definition SecureZero :: "bytes \<Rightarrow> bytes" where
  "SecureZero b = replicate (length b) 0"

definition Concat :: "bytes \<Rightarrow> bytes \<Rightarrow> bytes" where
  "Concat a b = a @ b"

section \<open>The wire format of an integer\<close>

definition be16 :: "u16 \<Rightarrow> bytes" where
  "be16 v = [ucast (drop_bit 8 v AND 0xFF), ucast (v AND 0xFF)]"

definition be32 :: "u32 \<Rightarrow> bytes" where
  "be32 v = [ucast (drop_bit 24 v AND 0xFF), ucast (drop_bit 16 v AND 0xFF),
             ucast (drop_bit 8 v AND 0xFF), ucast (v AND 0xFF)]"

definition be64 :: "u64 \<Rightarrow> bytes" where
  "be64 v = [ucast (drop_bit 56 v AND 0xFF), ucast (drop_bit 48 v AND 0xFF),
             ucast (drop_bit 40 v AND 0xFF), ucast (drop_bit 32 v AND 0xFF),
             ucast (drop_bit 24 v AND 0xFF), ucast (drop_bit 16 v AND 0xFF),
             ucast (drop_bit 8 v AND 0xFF), ucast (v AND 0xFF)]"

lemma length_be [simp]: "length (be16 w) = 2" "length (be32 x) = 4" "length (be64 y) = 8"
  by (simp_all add: be16_def be32_def be64_def)

lemma read_be16: "ReadU16BE (be16 v) 0 = v"
  by (simp add: ReadU16BE_def be16_def glue_bytes)

lemma read_be32: "ReadU32BE (be32 v) 0 = v"
  by (simp add: ReadU32BE_def be32_def glue_bytes)

lemma read_be64: "ReadU64BE (be64 v) 0 = v"
  by (simp add: ReadU64BE_def be64_def glue_bytes)

text \<open>
  The bridge to slices: inside the buffer, a write replaces a slice by the
  big-endian bytes and a read depends only on its slice.
\<close>

definition rd16 :: "bytes \<Rightarrow> u16" where "rd16 bs = ReadU16BE bs 0"
definition rd32 :: "bytes \<Rightarrow> u32" where "rd32 bs = ReadU32BE bs 0"
definition rd64 :: "bytes \<Rightarrow> u64" where "rd64 bs = ReadU64BE bs 0"

lemma rd_be [simp]: "rd16 (be16 w) = w" "rd32 (be32 x) = x" "rd64 (be64 y) = y"
  by (simp_all add: rd16_def rd32_def rd64_def read_be16 read_be32 read_be64)

lemma write_as_put [wire_simps]:
  "off + 1 \<le> length buf \<Longrightarrow> WriteU8 buf off u = put_bytes buf off [u]"
  "off + 2 \<le> length buf \<Longrightarrow> WriteU16BE buf off w = put_bytes buf off (be16 w)"
  "off + 4 \<le> length buf \<Longrightarrow> WriteU32BE buf off x = put_bytes buf off (be32 x)"
  "off + 8 \<le> length buf \<Longrightarrow> WriteU64BE buf off y = put_bytes buf off (be64 y)"
  by (simp_all add: WriteU8_def WriteU16BE_def WriteU32BE_def WriteU64BE_def
      be16_def be32_def be64_def list_update_put put_bytes_snoc)

lemma read_as_get [wire_simps]:
  "off + 1 \<le> length buf \<Longrightarrow> ReadU8 buf off = hd (get_bytes buf off 1)"
  "off + 2 \<le> length buf \<Longrightarrow> ReadU16BE buf off = rd16 (get_bytes buf off 2)"
  "off + 4 \<le> length buf \<Longrightarrow> ReadU32BE buf off = rd32 (get_bytes buf off 4)"
  "off + 8 \<le> length buf \<Longrightarrow> ReadU64BE buf off = rd64 (get_bytes buf off 8)"
  by (rule nth_eq_get_bytes[folded ReadU8_def], simp)
    (simp_all add: rd16_def ReadU16BE_def rd32_def ReadU32BE_def rd64_def ReadU64BE_def nth_get_bytes)

lemma append_as_be [simp]:
  "AppendU8 buf u = buf @ [u]"
  "AppendU16BE buf w = buf @ be16 w"
  "AppendU32BE buf x = buf @ be32 x"
  "AppendU64BE buf y = buf @ be64 y"
  "AppendBytes buf bs = buf @ bs"
  by (simp_all add: AppendU8_def AppendU16BE_def AppendU32BE_def AppendU64BE_def AppendBytes_def
      write_as_put put_bytes_def)

lemma length_writes [simp]:
  "length (WriteU8 buf off u) = length buf"
  "length (WriteU16BE buf off w) = length buf"
  "length (WriteU32BE buf off x) = length buf"
  "length (WriteU64BE buf off y) = length buf"
  by (simp_all add: WriteU8_def WriteU16BE_def WriteU32BE_def WriteU64BE_def)

section \<open>Filling a fresh buffer and reading a concatenation\<close>

text \<open>
  The serializers write field after field into a zeroed buffer and the parsers
  read at running offsets.  \<open>fill_simps\<close> turns the former into a concatenation
  of the fields and \<open>parse_simps\<close> reads one field of a concatenation.
\<close>

definition be8 :: "u8 \<Rightarrow> bytes" where
  "be8 v = [v]"

lemma length_be8 [simp]: "length (be8 v) = 1"
  by (simp add: be8_def)

lemma be8_first [simp]: "(be8 v @ xs) ! 0 = v" "be8 v \<noteq> []"
  by (simp_all add: be8_def)

lemma fill_bytes [fill_simps]:
  "length pre \<le> off \<Longrightarrow> off + length bs \<le> length pre + n \<Longrightarrow>
   put_bytes (pre @ replicate n 0) off bs =
   ((pre @ replicate (off - length pre) 0) @ bs) @ replicate (n - (off - length pre) - length bs) 0"
  by (cases "n = 0") (auto simp: put_bytes_def min_def)

lemma fill_writes [fill_simps]:
  "length pre \<le> off \<Longrightarrow> off + 1 \<le> length pre + n \<Longrightarrow>
   WriteU8 (pre @ replicate n 0) off u =
   ((pre @ replicate (off - length pre) 0) @ be8 u) @ replicate (n - (off - length pre) - 1) 0"
  "length pre \<le> off \<Longrightarrow> off + 2 \<le> length pre + n \<Longrightarrow>
   WriteU16BE (pre @ replicate n 0) off w =
   ((pre @ replicate (off - length pre) 0) @ be16 w) @ replicate (n - (off - length pre) - 2) 0"
  "length pre \<le> off \<Longrightarrow> off + 4 \<le> length pre + n \<Longrightarrow>
   WriteU32BE (pre @ replicate n 0) off x =
   ((pre @ replicate (off - length pre) 0) @ be32 x) @ replicate (n - (off - length pre) - 4) 0"
  "length pre \<le> off \<Longrightarrow> off + 8 \<le> length pre + n \<Longrightarrow>
   WriteU64BE (pre @ replicate n 0) off y =
   ((pre @ replicate (off - length pre) 0) @ be64 y) @ replicate (n - (off - length pre) - 8) 0"
  by (simp_all add: write_as_put fill_bytes be8_def del: append_assoc)

lemmas fill_first [fill_simps] = fill_bytes[of "[]", simplified] fill_writes[of "[]", simplified]

lemma parse_skip [parse_simps]:
  "length pre \<le> off \<Longrightarrow> ReadU8 (pre @ suf) off = ReadU8 suf (off - length pre)"
  "length pre \<le> off \<Longrightarrow> ReadU16BE (pre @ suf) off = ReadU16BE suf (off - length pre)"
  "length pre \<le> off \<Longrightarrow> ReadU32BE (pre @ suf) off = ReadU32BE suf (off - length pre)"
  "length pre \<le> off \<Longrightarrow> ReadU64BE (pre @ suf) off = ReadU64BE suf (off - length pre)"
  by (simp_all add: ReadU8_def ReadU16BE_def ReadU32BE_def ReadU64BE_def nth_append Suc_diff_le)

lemma parse_skip_bytes [parse_simps]:
  "length pre \<le> off \<Longrightarrow> get_bytes (pre @ suf) off n = get_bytes suf (off - length pre) n"
  by (rule get_bytes_append_right)

lemma parse_here [parse_simps]:
  "ReadU8 (be8 u @ suf) 0 = u"
  "ReadU16BE (be16 w @ suf) 0 = w"
  "ReadU32BE (be32 x @ suf) 0 = x"
  "ReadU64BE (be64 y @ suf) 0 = y"
  "n = length bs \<Longrightarrow> get_bytes (bs @ suf) 0 n = bs"
  using read_be16[of w] read_be32[of x] read_be64[of y]
  by (simp_all add: be8_def be16_def be32_def be64_def ReadU8_def ReadU16BE_def ReadU32BE_def
      ReadU64BE_def get_bytes_def)

lemma parse_last [parse_simps]:
  "ReadU8 (be8 u) 0 = u" "ReadU16BE (be16 w) 0 = w" "ReadU32BE (be32 x) 0 = x" "ReadU64BE (be64 y) 0 = y"
  by (simp_all add: be8_def ReadU8_def read_be16 read_be32 read_be64)

text \<open>Reading a field and writing it again gives the slice back.\<close>

lemma slice_one: "off < length buf \<Longrightarrow> get_bytes buf off (Suc n) = buf ! off # get_bytes buf (Suc off) n"
  by (simp add: get_bytes_def Cons_nth_drop_Suc[symmetric])

lemma slice_explicit:
  "off + 1 \<le> length buf \<Longrightarrow> get_bytes buf off 1 = [buf ! off]"
  "off + 2 \<le> length buf \<Longrightarrow> get_bytes buf off 2 = [buf ! off, buf ! (off + 1)]"
  "off + 4 \<le> length buf \<Longrightarrow>
   get_bytes buf off 4 = [buf ! off, buf ! (off + 1), buf ! (off + 2), buf ! (off + 3)]"
  "off + 8 \<le> length buf \<Longrightarrow>
   get_bytes buf off 8 = [buf ! off, buf ! (off + 1), buf ! (off + 2), buf ! (off + 3),
     buf ! (off + 4), buf ! (off + 5), buf ! (off + 6), buf ! (off + 7)]"
  by (simp_all add: numeral_eq_Suc slice_one) (simp_all add: get_bytes_def)

lemma be16_bytes: "be16 (push_bit 8 (ucast a) OR ucast b) = [a, b]"
  unfolding be16_def ff_eq_mask8 take_bit_eq_mask[symmetric] list.inject
  by (intro conjI bit_word_eqI) (auto simp: bit_simps dest: bit_imp_le_length)

lemma be32_bytes:
  "be32 (push_bit 24 (ucast a) OR push_bit 16 (ucast b) OR push_bit 8 (ucast c) OR ucast d) = [a, b, c, d]"
  unfolding be32_def ff_eq_mask8 take_bit_eq_mask[symmetric] list.inject
  by (intro conjI bit_word_eqI) (auto simp: bit_simps dest: bit_imp_le_length)

lemma be64_bytes:
  "be64 (push_bit 56 (ucast a) OR push_bit 48 (ucast b) OR push_bit 40 (ucast c) OR push_bit 32 (ucast d) OR
     push_bit 24 (ucast e) OR push_bit 16 (ucast f) OR push_bit 8 (ucast g) OR ucast h) = [a, b, c, d, e, f, g, h]"
  unfolding be64_def ff_eq_mask8 take_bit_eq_mask[symmetric] list.inject
  by (intro conjI bit_word_eqI) (auto simp: bit_simps dest: bit_imp_le_length)

lemma be_read:
  "off + 1 \<le> length buf \<Longrightarrow> be8 (ReadU8 buf off) = get_bytes buf off 1"
  "off + 2 \<le> length buf \<Longrightarrow> be16 (ReadU16BE buf off) = get_bytes buf off 2"
  "off + 4 \<le> length buf \<Longrightarrow> be32 (ReadU32BE buf off) = get_bytes buf off 4"
  "off + 8 \<le> length buf \<Longrightarrow> be64 (ReadU64BE buf off) = get_bytes buf off 8"
  by (simp add: be8_def ReadU8_def slice_one, simp add: get_bytes_def)
    (simp_all add: ReadU16BE_def ReadU32BE_def ReadU64BE_def slice_explicit
      be16_bytes be32_bytes be64_bytes)

text \<open>Consecutive slices.\<close>

fun slices :: "bytes \<Rightarrow> nat \<Rightarrow> nat list \<Rightarrow> bytes" where
  "slices buf off [] = []"
| "slices buf off (n # ns) = get_bytes buf off n @ slices buf (off + n) ns"

lemma slices_eq: "slices buf off ns = get_bytes buf off (sum_list ns)"
  by (induction ns arbitrary: off) (simp_all add: get_bytes_def take_add add.commute)

section \<open>The comparison is equality\<close>

lemma ct_diff_zero_iff: "length a = length b \<Longrightarrow> ct_diff a b d = 0 \<longleftrightarrow> d = 0 \<and> a = b"
  by (induction a b d rule: ct_diff.induct) (auto simp: or_eq_0_iff word_xor_eq_0)

lemma ConstantTimeEquals_iff [simp]: "ConstantTimeEquals a b \<longleftrightarrow> a = b"
  by (auto simp: ConstantTimeEquals_def ct_diff_zero_iff)

end
