(* ===== verification/Hmac_Aes.thy ===== *)
theory Hmac_Aes
  imports Byte_Utils External
begin

text \<open>
  crypto/uav-hmac.cc and crypto/uav-aes.cc: the packet authentication and the
  authenticated encryption on top of OpenSSL's HMAC-SHA256, SHA-256 and
  AES-256-GCM (the primitives of theory External).  Random IVs are arguments.
  Failures of OpenSSL calls other than a tag mismatch (allocation, provider
  lookup) are not modelled; the length checks on their outputs are.
\<close>

section \<open>HMAC-SHA256\<close>

definition HMAC_SHA256_OUTPUT_BYTES :: nat where "HMAC_SHA256_OUTPUT_BYTES = 32"

definition Hmac_KeyFromBytes :: "bytes \<Rightarrow> bytes res" where
  "Hmac_KeyFromBytes raw = (if length raw \<noteq> 32 then Inl CryptoException else Inr raw)"

definition KeyFromAesKey :: "bytes \<Rightarrow> bytes" where
  "KeyFromAesKey aes_key = take 32 aes_key"

text \<open>The segments are fed to one MAC context in order; empty ones are skipped.\<close>

definition DoHmac :: "ext \<Rightarrow> bytes \<Rightarrow> bytes list \<Rightarrow> bytes res" where
  "DoHmac E key segments =
     (let hmac = x_hmac_sha256 E key (concat (filter (\<lambda>s. s \<noteq> []) segments)) in
      if length hmac \<noteq> HMAC_SHA256_OUTPUT_BYTES then Inl CryptoException else Inr hmac)"

definition Hmac_Compute :: "ext \<Rightarrow> bytes \<Rightarrow> bytes \<Rightarrow> bytes res" where
  "Hmac_Compute E key data = DoHmac E key [data]"

definition Hmac_ComputeMulti :: "ext \<Rightarrow> bytes \<Rightarrow> bytes list \<Rightarrow> bytes res" where
  "Hmac_ComputeMulti E key parts = DoHmac E key parts"

definition Hmac_Verify :: "ext \<Rightarrow> bytes \<Rightarrow> bytes \<Rightarrow> bytes \<Rightarrow> bool res" where
  "Hmac_Verify E key data expected =
     rbind (Hmac_Compute E key data) (\<lambda>computed. Inr (ConstantTimeEquals computed expected))"

definition VerifyOrThrow :: "ext \<Rightarrow> bytes \<Rightarrow> bytes \<Rightarrow> bytes \<Rightarrow> unit res" where
  "VerifyOrThrow E key data expected =
     rbind (Hmac_Verify E key data expected) (\<lambda>ok. if \<not> ok then Inl CryptoException else Inr ())"

definition AppendHmac :: "ext \<Rightarrow> bytes \<Rightarrow> bytes \<Rightarrow> bytes res" where
  "AppendHmac E key packet =
     rbind (Hmac_Compute E key packet) (\<lambda>hmac. Inr (AppendBytes packet hmac))"

definition StripAndVerifyHmac :: "ext \<Rightarrow> bytes \<Rightarrow> bytes \<Rightarrow> bytes res" where
  "StripAndVerifyHmac E key packet =
     (if length packet < HMAC_SHA256_OUTPUT_BYTES then Inl SerializationException
      else
        let body_len = length packet - HMAC_SHA256_OUTPUT_BYTES;
            body = take body_len packet;
            expected = get_bytes packet body_len HMAC_SHA256_OUTPUT_BYTES
        in rbind (VerifyOrThrow E key body expected) (\<lambda>_. Inr body))"

definition Sha256 :: "ext \<Rightarrow> bytes \<Rightarrow> bytes res" where
  "Sha256 E data =
     (let digest = x_sha256 E data in
      if length digest \<noteq> 32 then Inl CryptoException else Inr digest)"

section \<open>AES-256-GCM\<close>

definition AES_GCM_KEY_BYTES :: nat where "AES_GCM_KEY_BYTES = 32"
definition AES_GCM_IV_BYTES :: nat where "AES_GCM_IV_BYTES = 12"
definition AES_GCM_TAG_BYTES :: nat where "AES_GCM_TAG_BYTES = 16"
definition AES_GCM_OVERHEAD :: nat where "AES_GCM_OVERHEAD = AES_GCM_IV_BYTES + AES_GCM_TAG_BYTES"

lemmas aes_sizes = AES_GCM_KEY_BYTES_def AES_GCM_IV_BYTES_def AES_GCM_TAG_BYTES_def AES_GCM_OVERHEAD_def

record AesGcmResult =
  gcm_ciphertext :: bytes
  gcm_iv :: bytes
  gcm_tag :: bytes

definition Aes_KeyFromBytes :: "bytes \<Rightarrow> bytes res" where
  "Aes_KeyFromBytes raw = (if length raw \<noteq> AES_GCM_KEY_BYTES then Inl CryptoException else Inr raw)"

definition DoEncrypt :: "ext \<Rightarrow> bytes \<Rightarrow> bytes \<Rightarrow> bytes \<Rightarrow> bytes \<Rightarrow> AesGcmResult" where
  "DoEncrypt E key iv plaintext aad =
     (let (ct, tag) = x_gcm_encrypt E key iv aad plaintext
      in \<lparr> gcm_ciphertext = ct, gcm_iv = iv, gcm_tag = tag \<rparr>)"

definition Decrypt :: "ext \<Rightarrow> bytes \<Rightarrow> bytes \<Rightarrow> bytes \<Rightarrow> bytes \<Rightarrow> bytes \<Rightarrow> bytes res" where
  "Decrypt E key iv ciphertext tag aad =
     (case x_gcm_decrypt E key iv aad ciphertext tag of
        None \<Rightarrow> Inl CryptoException
      | Some plaintext \<Rightarrow> Inr plaintext)"

definition Gcm_Serialize :: "AesGcmResult \<Rightarrow> bytes" where
  "Gcm_Serialize r =
     AppendBytes (AppendBytes (AppendBytes [] (gcm_iv r)) (gcm_ciphertext r)) (gcm_tag r)"

definition Gcm_Deserialize :: "bytes \<Rightarrow> AesGcmResult res" where
  "Gcm_Deserialize wire =
     (if length wire < AES_GCM_OVERHEAD then Inl SerializationException
      else Inr
       \<lparr> gcm_ciphertext = get_bytes wire AES_GCM_IV_BYTES (length wire - AES_GCM_OVERHEAD),
         gcm_iv = get_bytes wire 0 AES_GCM_IV_BYTES,
         gcm_tag = get_bytes wire (length wire - AES_GCM_TAG_BYTES) AES_GCM_TAG_BYTES \<rparr>)"

definition EncryptToWire :: "ext \<Rightarrow> bytes \<Rightarrow> bytes \<Rightarrow> bytes \<Rightarrow> bytes \<Rightarrow> bytes" where
  "EncryptToWire E iv key plaintext aad = Gcm_Serialize (DoEncrypt E key iv plaintext aad)"

definition DecryptFromWire :: "ext \<Rightarrow> bytes \<Rightarrow> bytes \<Rightarrow> bytes \<Rightarrow> bytes res" where
  "DecryptFromWire E key wire aad =
     rbind (Gcm_Deserialize wire)
       (\<lambda>r. Decrypt E key (gcm_iv r) (gcm_ciphertext r) (gcm_tag r) aad)"

definition Aes_EncryptTek :: "ext \<Rightarrow> bytes \<Rightarrow> bytes \<Rightarrow> bytes \<Rightarrow> bytes \<Rightarrow> bytes" where
  "Aes_EncryptTek E iv kek tek aad = EncryptToWire E iv kek tek aad"

definition Aes_DecryptTek :: "ext \<Rightarrow> bytes \<Rightarrow> bytes \<Rightarrow> bytes \<Rightarrow> bytes res" where
  "Aes_DecryptTek E kek wire aad =
     rbind (DecryptFromWire E kek wire aad)
       (\<lambda>raw. if length raw \<noteq> AES_GCM_KEY_BYTES then Inl CryptoException else Aes_KeyFromBytes raw)"

definition DeriveKey :: "ext \<Rightarrow> bytes \<Rightarrow> bytes \<Rightarrow> bytes res" where
  "DeriveKey E input_key ctx =
     (let derived = x_sha256 E (input_key @ ctx) in
      if length derived \<noteq> AES_GCM_KEY_BYTES then Inl CryptoException else Inr derived)"

section \<open>Lemmas\<close>

lemma Hmac_Compute_eq [simp]: "hmac_law E \<Longrightarrow> Hmac_Compute E k d = Inr (x_hmac_sha256 E k d)"
  by (simp add: Hmac_Compute_def DoHmac_def hmac_law_def HMAC_SHA256_OUTPUT_BYTES_def)

lemma concat_nonempty: "concat (filter (\<lambda>s. s \<noteq> []) ss) = concat ss"
  by (induction ss) auto

lemma Hmac_ComputeMulti_eq: "Hmac_ComputeMulti E k ps = Hmac_Compute E k (concat ps)"
  by (simp only: Hmac_ComputeMulti_def Hmac_Compute_def DoHmac_def concat_nonempty concat.simps append_Nil2)

lemma hmac_length [simp]: "hmac_law E \<Longrightarrow> length (x_hmac_sha256 E k d) = 32"
  by (simp add: hmac_law_def)

lemma VerifyOrThrow_eq:
  "hmac_law E \<Longrightarrow> VerifyOrThrow E k d h = (if h = x_hmac_sha256 E k d then Inr () else Inl CryptoException)"
  by (auto simp: VerifyOrThrow_def Hmac_Verify_def)

lemma Hmac_Verify_eq: "hmac_law E \<Longrightarrow> Hmac_Verify E k d h = Inr (x_hmac_sha256 E k d = h)"
  by (simp add: Hmac_Verify_def)

lemma AppendHmac_eq: "hmac_law E \<Longrightarrow> AppendHmac E k p = Inr (p @ x_hmac_sha256 E k p)"
  by (simp add: AppendHmac_def)

lemma StripAndVerifyHmac_iff:
  assumes "hmac_law E"
  shows "StripAndVerifyHmac E k packet = Inr body \<longleftrightarrow> packet = body @ x_hmac_sha256 E k body"
proof
  assume "StripAndVerifyHmac E k packet = Inr body"
  then have "32 \<le> length packet" "body = take (length packet - 32) packet"
    "get_bytes packet (length packet - 32) 32 = x_hmac_sha256 E k body"
    using assms by (auto simp: StripAndVerifyHmac_def HMAC_SHA256_OUTPUT_BYTES_def Let_def
        VerifyOrThrow_eq rbind_eq_Inr_iff split: if_splits)
  then show "packet = body @ x_hmac_sha256 E k body"
    by (simp add: get_bytes_def) (metis append_take_drop_id)
next
  assume "packet = body @ x_hmac_sha256 E k body"
  with assms show "StripAndVerifyHmac E k packet = Inr body"
    by (simp add: StripAndVerifyHmac_def HMAC_SHA256_OUTPUT_BYTES_def VerifyOrThrow_eq wire_simps)
qed

lemma Gcm_Deserialize_Serialize:
  "length (gcm_iv r) = 12 \<Longrightarrow> length (gcm_tag r) = 16 \<Longrightarrow> Gcm_Deserialize (Gcm_Serialize r) = Inr r"
  by (simp add: Gcm_Deserialize_def Gcm_Serialize_def aes_sizes wire_simps)

lemma DecryptFromWire_EncryptToWire:
  assumes "gcm_law E" "length iv = 12"
  shows "DecryptFromWire E key (EncryptToWire E iv key pt aad) aad = Inr pt"
proof -
  obtain ct tag where e: "x_gcm_encrypt E key iv aad pt = (ct, tag)" by fastforce
  with assms(1) have "length tag = 16" "x_gcm_decrypt E key iv aad ct tag = Some pt"
    by (auto simp: gcm_law_def)
  with e assms(2) show ?thesis
    by (simp add: DecryptFromWire_def EncryptToWire_def DoEncrypt_def Gcm_Deserialize_Serialize Decrypt_def)
qed

lemma length_EncryptToWire:
  assumes "gcm_law E" "length iv = 12"
  shows "length (EncryptToWire E iv key pt aad) = length pt + 28"
proof -
  obtain ct tag where e: "x_gcm_encrypt E key iv aad pt = (ct, tag)" by fastforce
  with assms(1) have "length tag = 16" "length ct = length pt" by (auto simp: gcm_law_def)
  with e assms(2) show ?thesis by (simp add: EncryptToWire_def DoEncrypt_def Gcm_Serialize_def)
qed

lemma Aes_DecryptTek_EncryptTek:
  "gcm_law E \<Longrightarrow> length iv = 12 \<Longrightarrow> length tek = 32 \<Longrightarrow>
   Aes_DecryptTek E kek (Aes_EncryptTek E iv kek tek aad) aad = Inr tek"
  by (simp add: Aes_DecryptTek_def Aes_EncryptTek_def DecryptFromWire_EncryptToWire
      Aes_KeyFromBytes_def aes_sizes)

lemma DeriveKey_eq [simp]: "sha256_law E \<Longrightarrow> DeriveKey E k c = Inr (x_sha256 E (k @ c))"
  by (simp add: DeriveKey_def sha256_law_def aes_sizes)

lemma DeriveKey_length: "DeriveKey E k c = Inr key \<Longrightarrow> length key = 32"
  by (auto simp: DeriveKey_def Let_def aes_sizes split: if_splits)

end
