(* ===== verification/Crypto_Params.thy ===== *)
theory Crypto_Params
  imports Bigint Hmac_Aes
begin

text \<open>
  crypto/uav-crypto-params.cc: the parameters a key-generation script leaves in
  crypto_params.json, their lookups and their validation.  Parsing the text of the file is
  theory \<open>Params_Loader\<close>.
\<close>

record SlaveKeyEntry =
  sk_uav_index :: u32
  sk_uav_id :: u32
  sk_e :: int
  sk_d :: int
  sk_n :: int
  sk_x :: int
  sk_y :: int
  sk_M :: int
  sk_N :: int
  sk_xy :: int
  sk_p :: int
  sk_q :: int

record ClusterCryptoEntry =
  cc_cluster_id :: u32
  cc_skdc_id :: u32
  cc_num_uavs :: u32
  cc_eM :: int
  cc_n_total :: int
  cc_N_global :: int
  cc_N_group :: int
  cc_tek :: bytes
  cc_tek_hex :: string
  cc_tek_int :: int
  cc_MT_K :: int
  cc_e_MK :: int
  cc_user_indices :: "u32 list"
  cc_slave_keys :: "SlaveKeyEntry list"

record CryptoParamsFile =
  cp_scheme :: string
  cp_global_key_hex :: string
  cp_num_clusters :: u32
  cp_uavs_per_cluster :: u32
  cp_total_uavs :: u32
  cp_seed :: u32
  cp_clusters :: "ClusterCryptoEntry list"

section \<open>Validation of a slave key and of a cluster\<close>

definition SlaveKey_Validate :: "SlaveKeyEntry \<Rightarrow> bool" where
  "SlaveKey_Validate sk =
     (if sk_xy sk \<noteq> sk_x sk * sk_y sk then False
      else if sk_n sk \<le> 0 then False
      else if Mod (sk_e sk) 4 \<noteq> Inr 1 then False
      else True)"

definition VerifyDecryptionProperty :: "ext \<Rightarrow> SlaveKeyEntry \<Rightarrow> bool res" where
  "VerifyDecryptionProperty E sk =
     (let mod4xy = 4 * sk_x sk * sk_y sk;
          exp_val = 2 * (sk_x sk - 1) * (sk_y sk - 1) - 1
      in rbind (ModPow E (sk_e sk) exp_val mod4xy) (\<lambda>expected. Inr (sk_d sk = expected)))"

definition Cluster_GetSlaveKey :: "ClusterCryptoEntry \<Rightarrow> u32 \<Rightarrow> SlaveKeyEntry option" where
  "Cluster_GetSlaveKey c uav_index = List.find (\<lambda>sk. sk_uav_index sk = uav_index) (cc_slave_keys c)"

definition Cluster_GetSlaveKeyById :: "ClusterCryptoEntry \<Rightarrow> u32 \<Rightarrow> SlaveKeyEntry option" where
  "Cluster_GetSlaveKeyById c uav_id = List.find (\<lambda>sk. sk_uav_id sk = uav_id) (cc_slave_keys c)"

definition Cluster_Validate :: "ClusterCryptoEntry \<Rightarrow> bool" where
  "Cluster_Validate c =
     (if cc_slave_keys c = [] then False
      else if length (cc_slave_keys c) \<noteq> unat (cc_num_uavs c) then False
      else if cc_eM c \<le> 0 then False
      else if cc_MT_K c \<le> 0 then False
      else list_all SlaveKey_Validate (cc_slave_keys c))"

definition Params_GetCluster :: "CryptoParamsFile \<Rightarrow> u32 \<Rightarrow> ClusterCryptoEntry option" where
  "Params_GetCluster p cluster_id = List.find (\<lambda>c. cc_cluster_id c = cluster_id) (cp_clusters p)"

fun first_some :: "('a \<Rightarrow> 'b option) \<Rightarrow> 'a list \<Rightarrow> 'b option" where
  "first_some f [] = None"
| "first_some f (x # xs) = (case f x of Some y \<Rightarrow> Some y | None \<Rightarrow> first_some f xs)"

definition Params_GetSlaveKeyByUavId :: "CryptoParamsFile \<Rightarrow> u32 \<Rightarrow> SlaveKeyEntry option" where
  "Params_GetSlaveKeyByUavId p uav_id = first_some (\<lambda>c. Cluster_GetSlaveKeyById c uav_id) (cp_clusters p)"

definition Params_Validate :: "CryptoParamsFile \<Rightarrow> bool" where
  "Params_Validate p =
     (if cp_clusters p = [] then False
      else if length (cp_clusters p) \<noteq> unat (cp_num_clusters p) then False
      else if cp_total_uavs p \<noteq> cp_num_clusters p * cp_uavs_per_cluster p then False
      else list_all Cluster_Validate (cp_clusters p))"

section \<open>Hex keys\<close>

definition is_space :: "char \<Rightarrow> bool" where
  "is_space c = (let n = (of_char c :: nat) in n = 32 \<or> (9 \<le> n \<and> n \<le> 13))"

text \<open>
  \<open>std::stoul(s, nullptr, 16)\<close> on a string of two characters, cast to a byte:
  white space and one sign are skipped, the longest run of hex digits is read
  (a prefix 0x without a digit after it is the digit 0), and a string that
  starts with no digit throws.
\<close>

definition stoul2_hex :: "char \<Rightarrow> char \<Rightarrow> u8 res" where
  "stoul2_hex a b =
     (case hex_digit a of
        Some h \<Rightarrow> (case hex_digit b of
            Some l \<Rightarrow> Inr (of_nat (16 * h + l))
          | None \<Rightarrow> Inr (of_nat h))
      | None \<Rightarrow> (case hex_digit b of
            None \<Rightarrow> Inl StdException
          | Some l \<Rightarrow>
              if is_space a \<or> a = CHR ''+'' then Inr (of_nat l)
              else if a = CHR ''-'' then Inr (- of_nat l)
              else Inl StdException))"

fun hex_pairs :: "string \<Rightarrow> bytes res" where
  "hex_pairs (a # b # rest) =
     rbind (stoul2_hex a b) (\<lambda>v. rbind (hex_pairs rest) (\<lambda>vs. Inr (v # vs)))"
| "hex_pairs _ = Inr []"

definition HexToAesKey :: "string \<Rightarrow> bytes res" where
  "HexToAesKey hex = (if length hex \<noteq> 64 then Inl CryptoException else hex_pairs hex)"

section \<open>ValidateOrThrow\<close>

text \<open>The checks run in the order of the code; the first failing one decides the exception.\<close>

definition validate_cluster :: "ClusterCryptoEntry \<Rightarrow> unit res" where
  "validate_cluster c =
     (if length (cc_slave_keys c) \<noteq> unat (cc_num_uavs c) then Inl ConfigException
      else if cc_eM c \<le> 0 then Inl CryptoException
      else if cc_MT_K c \<le> 0 then Inl CryptoException
      else if length (cc_tek_hex c) \<noteq> 64 then Inl CryptoException
      else if list_ex (\<lambda>sk. sk_n sk \<le> 0 \<or> sk_d sk \<le> 0) (cc_slave_keys c) then Inl CryptoException
      else Inr ())"

primrec validate_clusters :: "ClusterCryptoEntry list \<Rightarrow> unit res" where
  "validate_clusters [] = Inr ()"
| "validate_clusters (c # cs) = rbind (validate_cluster c) (\<lambda>_. validate_clusters cs)"

definition ValidateOrThrow :: "CryptoParamsFile \<Rightarrow> unit res" where
  "ValidateOrThrow p =
     (if cp_scheme p = [] then Inl ConfigException
      else if cp_num_clusters p = 0 then Inl ConfigException
      else if cp_uavs_per_cluster p = 0 then Inl ConfigException
      else if length (cp_clusters p) \<noteq> unat (cp_num_clusters p) then Inl ConfigException
      else validate_clusters (cp_clusters p))"

section \<open>Lemmas\<close>

lemma validate_clusters_iff:
  "validate_clusters cs = Inr () \<longleftrightarrow> (\<forall>c\<in>set cs. validate_cluster c = Inr ())"
  by (induction cs) (auto simp: rbind_eq_Inr_iff)

lemma ValidateOrThrow_slaves:
  assumes "ValidateOrThrow p = Inr ()" "c \<in> set (cp_clusters p)" "sk \<in> set (cc_slave_keys c)"
  shows "0 < sk_n sk" "0 < sk_d sk"
proof -
  have "validate_cluster c = Inr ()"
    using assms(1,2) by (auto simp: ValidateOrThrow_def validate_clusters_iff split: if_splits)
  then have "list_all (\<lambda>sk. \<not> (sk_n sk \<le> 0 \<or> sk_d sk \<le> 0)) (cc_slave_keys c)"
    by (auto simp: validate_cluster_def list_ex_iff list_all_iff split: if_splits)
  with assms(3) show "0 < sk_n sk" "0 < sk_d sk" by (auto simp: list_all_iff)
qed

lemma stoul2_hex_digits:
  "hex_digit a = Some h \<Longrightarrow> hex_digit b = Some l \<Longrightarrow> stoul2_hex a b = Inr (of_nat (16 * h + l))"
  by (simp add: stoul2_hex_def)

lemma hex_pairs_length: "hex_pairs s = Inr bs \<Longrightarrow> length bs = length s div 2"
  by (induction s arbitrary: bs rule: hex_pairs.induct) (auto simp: rbind_eq_Inr_iff)

lemma HexToAesKey_length: "HexToAesKey hex = Inr key \<Longrightarrow> length key = 32"
  by (auto simp: HexToAesKey_def split: if_splits dest: hex_pairs_length)

end
