(* ===== verification/Crt_Manager.thy ===== *)
theory Crt_Manager
  imports Crypto_Params
begin

text \<open>
  crypto/uav-crt-manager.cc: the MKE-MGKM group key scheme.  MKeyGen builds the
  master exponent of a cluster from the slaves' exponents by Chinese remaindering,
  MTokenGen derives the token \<open>MT_K = T ^ e_MK mod N_group\<close> for a set of members,
  JoKeyUpdate and LeKeyUpdate add and remove one member's contribution, and a
  member recovers \<open>T\<close> with its slave key.  The values are \<open>comp\<close> where the loop
  \<open>while (Mod(e, 4) != 1) e += n_total\<close> may not end.
\<close>

record MKeyGenResult =
  mk_eM :: int
  mk_n_total :: int
  mk_slaves :: "SlaveKeyEntry list"

record MTokenResult =
  mt_MT_K :: int
  mt_e_MK :: int
  mt_T :: int
  mt_N_group :: int
  mt_user_indices :: "u32 list"
  mt_cluster_id :: u32
  mt_version :: u32

record ClusterState =
  cs_cluster_id :: u32
  cs_mkg :: MKeyGenResult
  cs_mtoken :: MTokenResult
  cs_tek :: bytes
  cs_rekey_count :: u32
  cs_initialized :: bool

record CrtManager =
  cm_initialized :: bool
  cm_num_clusters :: u32
  cm_num_uavs :: u32
  cm_uavs_per_cluster :: u32
  cm_clusters :: "ClusterState list"

section \<open>Algorithm 1: MKeyGen\<close>

text \<open>\<open>do e_i = GenerateEi(rng) while (Gcd(e_i, x*y) != 1)\<close>, from draw \<open>k\<close>.\<close>

partial_function (option) gen_e_loop :: "ext \<Rightarrow> (nat \<Rightarrow> u64) \<Rightarrow> nat \<Rightarrow> int \<Rightarrow> int option" where
  "gen_e_loop E rng k xy =
     (let e_i = GenerateEi (rng k) in
      if Gcd E e_i xy \<noteq> 1 then gen_e_loop E rng (k + 1) xy else Some e_i)"

text \<open>\<open>while (Mod(e, 4) != 1) e += n_total\<close>.\<close>

partial_function (option) enforce_mod4 :: "int \<Rightarrow> int \<Rightarrow> int option" where
  "enforce_mod4 n_total e = (if Mod e 4 \<noteq> Inr 1 then enforce_mod4 n_total (e + n_total) else Some e)"

definition slave_contribution :: "SlaveKeyEntry \<Rightarrow> int" where
  "slave_contribution s = sk_e s * sk_M s * sk_N s"

text \<open>Step 1 for the pairs from index \<open>i\<close>; \<open>rngs i\<close> are the draws of the i-th generator.\<close>

fun mkeygen_slaves ::
    "ext \<Rightarrow> (nat \<Rightarrow> nat \<Rightarrow> u64) \<Rightarrow> nat \<Rightarrow> (int \<times> int) list \<Rightarrow> SlaveKeyEntry list comp" where
  "mkeygen_slaves E rngs i [] = cret []"
| "mkeygen_slaves E rngs i ((p, q) # rest) =
     (let x = ComputeX p; y = ComputeY q in
      case gen_e_loop E (rngs i) 0 (x * y) of
        None \<Rightarrow> None
      | Some e_i \<Rightarrow>
          cbind (Some (ComputeDi E e_i x y)) (\<lambda>d_i.
          cbind (mkeygen_slaves E rngs (i + 1) rest) (\<lambda>slaves.
          cret (\<lparr> sk_uav_index = of_nat i, sk_uav_id = of_nat i, sk_e = e_i, sk_d = d_i,
                  sk_n = p * q, sk_x = x, sk_y = y, sk_M = 0, sk_N = 0, sk_xy = x * y,
                  sk_p = p, sk_q = q \<rparr> # slaves))))"

text \<open>Step 3: the Chinese remainder coefficients of every slave.\<close>

fun mkeygen_coeffs :: "int \<Rightarrow> SlaveKeyEntry list \<Rightarrow> SlaveKeyEntry list res" where
  "mkeygen_coeffs n_total [] = Inr []"
| "mkeygen_coeffs n_total (s # rest) =
     (if sk_xy s = 0 then Inl StdException
      else let Mi = n_total sdiv sk_xy s in
        rbind (ModInverse Mi (sk_xy s)) (\<lambda>Ni.
        rbind (mkeygen_coeffs n_total rest) (\<lambda>slaves.
        Inr (s \<lparr> sk_M := Mi, sk_N := Ni \<rparr> # slaves))))"

definition MKeyGen :: "ext \<Rightarrow> (nat \<Rightarrow> nat \<Rightarrow> u64) \<Rightarrow> (int \<times> int) list \<Rightarrow> MKeyGenResult comp" where
  "MKeyGen E rngs prime_pairs =
     cbind (mkeygen_slaves E rngs 0 prime_pairs) (\<lambda>slaves0.
     let n_total = prod_list (map sk_xy slaves0) in
     cbind (Some (mkeygen_coeffs n_total slaves0)) (\<lambda>slaves.
     cbind (Some (Mod (sum_list (map slave_contribution slaves)) n_total)) (\<lambda>eM0.
     case enforce_mod4 n_total eM0 of
       None \<Rightarrow> None
     | Some eM \<Rightarrow> cret \<lparr> mk_eM = eM, mk_n_total = n_total, mk_slaves = slaves \<rparr>)))"

section \<open>Algorithm 2: MTokenGen\<close>

definition in_group :: "u32 list \<Rightarrow> SlaveKeyEntry \<Rightarrow> bool" where
  "in_group user_indices slave = list_ex (\<lambda>idx. sk_uav_index slave = idx) user_indices"

definition group_modulus :: "SlaveKeyEntry list \<Rightarrow> u32 list \<Rightarrow> int" where
  "group_modulus slaves user_indices =
     foldl (\<lambda>N slave. if in_group user_indices slave then N * sk_n slave else N) 1 slaves"

text \<open>The common tail: reduce modulo \<open>n_total\<close>, enforce 1 mod 4, exponentiate.\<close>

definition finish_token ::
    "ext \<Rightarrow> MKeyGenResult \<Rightarrow> int \<Rightarrow> int \<Rightarrow> u32 list \<Rightarrow> u32 \<Rightarrow> u32 \<Rightarrow> MTokenResult comp" where
  "finish_token E mkg e T users cluster_id version =
     cbind (Some (Mod e (mk_n_total mkg))) (\<lambda>e0.
     case enforce_mod4 (mk_n_total mkg) e0 of
       None \<Rightarrow> None
     | Some e_MK \<Rightarrow>
         let N_group = group_modulus (mk_slaves mkg) users in
         cbind (Some (ModPow E T e_MK N_group)) (\<lambda>MT_K.
         cret \<lparr> mt_MT_K = MT_K, mt_e_MK = e_MK, mt_T = T, mt_N_group = N_group,
                mt_user_indices = users, mt_cluster_id = cluster_id, mt_version = version \<rparr>))"

definition MTokenGen :: "ext \<Rightarrow> MKeyGenResult \<Rightarrow> u32 list \<Rightarrow> int \<Rightarrow> u32 \<Rightarrow> MTokenResult comp" where
  "MTokenGen E mkg user_indices T cluster_id =
     (let e_MK = foldl (\<lambda>e slave. if in_group user_indices slave then e else e - slave_contribution slave)
                   (mk_eM mkg) (mk_slaves mkg)
      in finish_token E mkg e_MK T user_indices cluster_id 1)"

section \<open>Algorithms 3 and 5: join and leave\<close>

definition find_slave :: "MKeyGenResult \<Rightarrow> u32 \<Rightarrow> SlaveKeyEntry option" where
  "find_slave mkg idx = List.find (\<lambda>s. sk_uav_index s = idx) (mk_slaves mkg)"

definition JoKeyUpdate :: "ext \<Rightarrow> MKeyGenResult \<Rightarrow> MTokenResult \<Rightarrow> u32 \<Rightarrow> MTokenResult comp" where
  "JoKeyUpdate E mkg current join_slave_index =
     (case find_slave mkg join_slave_index of
        None \<Rightarrow> Some (Inl CryptoException)
      | Some s \<Rightarrow> finish_token E mkg (mt_e_MK current + slave_contribution s) (mt_T current)
          (mt_user_indices current @ [join_slave_index]) (mt_cluster_id current) (mt_version current + 1))"

definition LeKeyUpdate :: "ext \<Rightarrow> MKeyGenResult \<Rightarrow> MTokenResult \<Rightarrow> u32 \<Rightarrow> MTokenResult comp" where
  "LeKeyUpdate E mkg current leave_slave_index =
     (case find_slave mkg leave_slave_index of
        None \<Rightarrow> Some (Inl CryptoException)
      | Some s \<Rightarrow> finish_token E mkg (mt_e_MK current - slave_contribution s) (mt_T current)
          (filter (\<lambda>idx. idx \<noteq> leave_slave_index) (mt_user_indices current))
          (mt_cluster_id current) (mt_version current + 1))"

section \<open>Slave decryption and TEK conversion\<close>

definition SlaveDecrypt :: "ext \<Rightarrow> SlaveKeyEntry \<Rightarrow> int \<Rightarrow> int res" where
  "SlaveDecrypt E slave MT_K = ModPow E MT_K (sk_d slave) (sk_n slave)"

definition VerifySlaveDecrypt :: "ext \<Rightarrow> SlaveKeyEntry \<Rightarrow> int \<Rightarrow> int \<Rightarrow> bool res" where
  "VerifySlaveDecrypt E slave MT_K T =
     rbind (SlaveDecrypt E slave MT_K) (\<lambda>recovered.
     rbind (Mod T (sk_n slave)) (\<lambda>T_mod. Inr (recovered = T_mod)))"

definition TekFromBigInt :: "int \<Rightarrow> bytes res" where
  "TekFromBigInt T =
     rbind (ToBytes T 32) (\<lambda>bytes.
       let bytes' = (if length bytes < 32 then replicate (32 - length bytes) 0 @ bytes else bytes)
       in Aes_KeyFromBytes (take 32 bytes'))"

definition TekToBigInt :: "bytes \<Rightarrow> int" where
  "TekToBigInt tek = FromBytes tek"

definition Crt_EncryptTek :: "ext \<Rightarrow> bytes \<Rightarrow> bytes \<Rightarrow> bytes \<Rightarrow> u32 \<Rightarrow> bytes" where
  "Crt_EncryptTek E iv kek tek cluster_id =
     (let aad = WriteU32BE (replicate 4 0) 0 cluster_id in Aes_EncryptTek E iv kek tek aad)"

definition Crt_DecryptTek :: "ext \<Rightarrow> bytes \<Rightarrow> bytes \<Rightarrow> u32 \<Rightarrow> bytes res" where
  "Crt_DecryptTek E kek wire cluster_id =
     (let aad = WriteU32BE (replicate 4 0) 0 cluster_id in Aes_DecryptTek E kek wire aad)"

definition RotateTek :: "ext \<Rightarrow> bytes \<Rightarrow> u64 \<Rightarrow> bytes \<Rightarrow> bytes res" where
  "RotateTek E old_tek timestamp_us nonce =
     (let ctx = AppendBytes (AppendU64BE (AppendBytes [] old_tek) timestamp_us) nonce
      in DeriveKey E old_tek ctx)"

section \<open>Runtime cluster operations\<close>

definition CrtManager_new :: CrtManager where
  "CrtManager_new =
     \<lparr> cm_initialized = False, cm_num_clusters = 0, cm_num_uavs = 0, cm_uavs_per_cluster = 0,
       cm_clusters = [] \<rparr>"

text \<open>
  The entries \<open>m_clusters.resize\<close> creates.  The constructor leaves the two integers
  of the token and the TEK uninitialised; the model has zeros there.
\<close>

definition ClusterState_new :: ClusterState where
  "ClusterState_new =
     \<lparr> cs_cluster_id = 0,
       cs_mkg = \<lparr> mk_eM = 0, mk_n_total = 0, mk_slaves = [] \<rparr>,
       cs_mtoken = \<lparr> mt_MT_K = 0, mt_e_MK = 0, mt_T = 0, mt_N_group = 0, mt_user_indices = [],
                     mt_cluster_id = 0, mt_version = 0 \<rparr>,
       cs_tek = replicate 32 0, cs_rekey_count = 0, cs_initialized = False \<rparr>"

definition load_cluster :: "ClusterCryptoEntry \<Rightarrow> ClusterState" where
  "load_cluster cp =
     \<lparr> cs_cluster_id = cc_cluster_id cp,
       cs_mkg = \<lparr> mk_eM = cc_eM cp, mk_n_total = cc_n_total cp, mk_slaves = cc_slave_keys cp \<rparr>,
       cs_mtoken = \<lparr> mt_MT_K = cc_MT_K cp, mt_e_MK = cc_e_MK cp, mt_T = cc_tek_int cp,
                     mt_N_group = cc_N_group cp, mt_user_indices = cc_user_indices cp,
                     mt_cluster_id = cc_cluster_id cp, mt_version = 1 \<rparr>,
       cs_tek = cc_tek cp, cs_rekey_count = 0, cs_initialized = True \<rparr>"

text \<open>
  \<open>m_clusters[cp.cluster_id]\<close> is an unchecked access: an id that is not below
  num_clusters is undefined behaviour, which the model shows as \<open>None\<close>.
\<close>

definition LoadFromParams :: "CryptoParamsFile \<Rightarrow> CrtManager option" where
  "LoadFromParams params =
     (if list_all (\<lambda>cp. cc_cluster_id cp < cp_num_clusters params) (cp_clusters params)
      then Some \<lparr> cm_initialized = True, cm_num_clusters = cp_num_clusters params,
                  cm_num_uavs = cp_total_uavs params,
                  cm_uavs_per_cluster = cp_uavs_per_cluster params,
                  cm_clusters = foldl (\<lambda>cls cp. cls[unat (cc_cluster_id cp) := load_cluster cp])
                    (replicate (unat (cp_num_clusters params)) ClusterState_new) (cp_clusters params) \<rparr>
      else None)"

definition GetClusterState :: "CrtManager \<Rightarrow> u32 \<Rightarrow> ClusterState res" where
  "GetClusterState cm cluster_id =
     (if unat cluster_id \<ge> length (cm_clusters cm) then Inl InvalidArgumentException
      else Inr (cm_clusters cm ! unat cluster_id))"

definition set_cluster :: "CrtManager \<Rightarrow> u32 \<Rightarrow> ClusterState \<Rightarrow> CrtManager" where
  "set_cluster cm cluster_id cs = cm \<lparr> cm_clusters := (cm_clusters cm)[unat cluster_id := cs] \<rparr>"

definition GetMToken :: "CrtManager \<Rightarrow> u32 \<Rightarrow> MTokenResult res" where
  "GetMToken cm cluster_id = rbind (GetClusterState cm cluster_id) (\<lambda>cs. Inr (cs_mtoken cs))"

definition Crt_GetTek :: "CrtManager \<Rightarrow> u32 \<Rightarrow> bytes res" where
  "Crt_GetTek cm cluster_id = rbind (GetClusterState cm cluster_id) (\<lambda>cs. Inr (cs_tek cs))"

definition GetSlaveKey :: "CrtManager \<Rightarrow> u32 \<Rightarrow> SlaveKeyEntry option" where
  "GetSlaveKey cm uav_id =
     first_some (\<lambda>cs. List.find (\<lambda>sk. sk_uav_id sk = uav_id) (mk_slaves (cs_mkg cs))) (cm_clusters cm)"

definition GetClusterSlaveKey :: "CrtManager \<Rightarrow> u32 \<Rightarrow> u32 \<Rightarrow> SlaveKeyEntry option res" where
  "GetClusterSlaveKey cm cluster_id uav_index =
     rbind (GetClusterState cm cluster_id) (\<lambda>cs. Inr (find_slave (cs_mkg cs) uav_index))"

definition GetRekeyCount :: "CrtManager \<Rightarrow> u32 \<Rightarrow> u32 res" where
  "GetRekeyCount cm cluster_id = rbind (GetClusterState cm cluster_id) (\<lambda>cs. Inr (cs_rekey_count cs))"

text \<open>
  A state change and its outcome; an exception leaves the state as it was when it
  was thrown.
\<close>

definition ProcessJoin :: "ext \<Rightarrow> CrtManager \<Rightarrow> u32 \<Rightarrow> u32 \<Rightarrow> (CrtManager \<times> MTokenResult res) option" where
  "ProcessJoin E cm cluster_id joining_uav_index =
     (case GetClusterState cm cluster_id of
        Inl e \<Rightarrow> Some (cm, Inl e)
      | Inr cs \<Rightarrow>
          (case JoKeyUpdate E (cs_mkg cs) (cs_mtoken cs) joining_uav_index of
             None \<Rightarrow> None
           | Some (Inl e) \<Rightarrow> Some (cm, Inl e)
           | Some (Inr tok) \<Rightarrow>
               Some (set_cluster cm cluster_id
                      (cs \<lparr> cs_mtoken := tok, cs_rekey_count := cs_rekey_count cs + 1 \<rparr>), Inr tok)))"

definition ProcessLeave ::
    "ext \<Rightarrow> bytes \<Rightarrow> u64 \<Rightarrow> CrtManager \<Rightarrow> u32 \<Rightarrow> u32 \<Rightarrow> (CrtManager \<times> MTokenResult res) option" where
  "ProcessLeave E nonce now_us cm cluster_id leaving_uav_index =
     (case GetClusterState cm cluster_id of
        Inl e \<Rightarrow> Some (cm, Inl e)
      | Inr cs \<Rightarrow>
          (case LeKeyUpdate E (cs_mkg cs) (cs_mtoken cs) leaving_uav_index of
             None \<Rightarrow> None
           | Some (Inl e) \<Rightarrow> Some (cm, Inl e)
           | Some (Inr tok) \<Rightarrow>
               let cs1 = cs \<lparr> cs_mtoken := tok \<rparr> in
               (case RotateTek E (cs_tek cs1) now_us nonce of
                  Inl e \<Rightarrow> Some (set_cluster cm cluster_id cs1, Inl e)
                | Inr tek \<Rightarrow>
                    Some (set_cluster cm cluster_id
                           (cs1 \<lparr> cs_tek := tek, cs_rekey_count := cs_rekey_count cs + 1 \<rparr>), Inr tok))))"

fun verify_slaves :: "ext \<Rightarrow> MTokenResult \<Rightarrow> SlaveKeyEntry list \<Rightarrow> bool res" where
  "verify_slaves E tok [] = Inr True"
| "verify_slaves E tok (sk # rest) =
     (if \<not> in_group (mt_user_indices tok) sk then verify_slaves E tok rest
      else
        rbind (ModPow E (mt_MT_K tok) (sk_d sk) (sk_n sk)) (\<lambda>recovered.
        rbind (Mod (mt_T tok) (sk_n sk)) (\<lambda>T_mod.
        if recovered \<noteq> T_mod then Inr False else verify_slaves E tok rest)))"

definition VerifyCluster :: "ext \<Rightarrow> CrtManager \<Rightarrow> u32 \<Rightarrow> bool res" where
  "VerifyCluster E cm cluster_id =
     rbind (GetClusterState cm cluster_id)
       (\<lambda>cs. verify_slaves E (cs_mtoken cs) (mk_slaves (cs_mkg cs)))"

fun verify_from :: "ext \<Rightarrow> CrtManager \<Rightarrow> nat list \<Rightarrow> bool res" where
  "verify_from E cm [] = Inr True"
| "verify_from E cm (c # cs) =
     rbind (VerifyCluster E cm (of_nat c)) (\<lambda>ok. if \<not> ok then Inr False else verify_from E cm cs)"

definition VerifyAll :: "ext \<Rightarrow> CrtManager \<Rightarrow> bool res" where
  "VerifyAll E cm = verify_from E cm [0..<unat (cm_num_clusters cm)]"

end
