(* ===== verification/Crt_Group.thy ===== *)
theory Crt_Group
  imports Crt_Manager
begin

text \<open>
  Correctness of the MKE-MGKM scheme of theory Crt_Manager: what MKeyGen
  produces (\<open>mkg_ok\<close>), what a token is for a member set (\<open>token_ok\<close>), that the
  join and leave updates keep it and equal a regeneration, that exactly the
  members can decrypt, and when the mod-4 loop ends.
\<close>

section \<open>The mod-4 loop\<close>

lemma enforce_mod4_unfold:
  "enforce_mod4 n e = (if e mod 4 = 1 then Some e else enforce_mod4 n (e + n))"
  by (subst enforce_mod4.simps) (simp add: Mod_pos)

lemma enforce_mod4_sound:
  "enforce_mod4 n e = Some y \<Longrightarrow> (\<exists>j. y = e + int j * n) \<and> y mod 4 = 1"
proof (erule enforce_mod4.raw_induct[rotated])
  fix loop n e y
  assume IH: "\<And>n e y. loop n e = Some y \<Longrightarrow> (\<exists>j. y = e + int j * n) \<and> y mod 4 = 1"
    and body: "(if Mod e 4 \<noteq> Inr 1 then loop n (e + n) else Some e) = Some y"
  show "(\<exists>j. y = e + int j * n) \<and> y mod 4 = 1"
  proof (cases "Mod e 4 = Inr 1")
    case True
    with body show ?thesis by (auto simp: Mod_pos intro: exI[of _ 0])
  next
    case False
    with body IH[of n "e + n" y] obtain j where "y = e + n + int j * n" "y mod 4 = 1" by auto
    then show ?thesis by (auto simp: algebra_simps intro!: exI[of _ "Suc j"])
  qed
qed

lemma enforce_mod4_returns: "(e + int j * n) mod 4 = 1 \<Longrightarrow> \<exists>y. enforce_mod4 n e = Some y"
proof (induction j arbitrary: e)
  case (Suc j)
  then have "\<exists>y. enforce_mod4 n (e + n) = Some y" by (simp add: algebra_simps)
  then show ?case by (subst enforce_mod4_unfold) simp
qed (subst enforce_mod4_unfold, simp)

lemma odd_reaches_1_mod4:
  assumes "odd (n :: int)"
  shows "\<exists>j<4. (e + int j * n) mod 4 = 1"
proof -
  have *: "(e + int j * n) mod 4 = (e mod 4 + int j * (n mod 4)) mod 4" for j
    by (intro mod_add_cong mod_mult_cong) simp_all
  have "n mod 4 = 1 \<or> n mod 4 = 3" using assms by presburger
  moreover have "e mod 4 = 0 \<or> e mod 4 = 1 \<or> e mod 4 = 2 \<or> e mod 4 = 3" by presburger
  ultimately have "(e + int 0 * n) mod 4 = 1 \<or> (e + int 1 * n) mod 4 = 1 \<or>
      (e + int 2 * n) mod 4 = 1 \<or> (e + int 3 * n) mod 4 = 1"
    unfolding * by auto
  then show ?thesis by (auto intro: exI[of _ 0] exI[of _ 1] exI[of _ 2] exI[of _ 3])
qed

lemma enforce_mod4_odd:
  assumes "odd n"
  shows "\<exists>y. enforce_mod4 n e = Some y \<and> y mod 4 = 1 \<and> y mod n = e mod n \<and> (0 < n \<longrightarrow> e \<le> y)"
proof -
  obtain j where "(e + int j * n) mod 4 = 1" using odd_reaches_1_mod4[OF assms] by blast
  then obtain y where y: "enforce_mod4 n e = Some y" using enforce_mod4_returns by blast
  with enforce_mod4_sound[OF y] show ?thesis by auto
qed

text \<open>
  C9.  Termination of \<open>while (Mod(e_MK, 4) != 1) e_MK += n_total\<close> (MKeyGen, MTokenGen,
  JoKeyUpdate, LeKeyUpdate): the loop ends exactly when some multiple of \<open>n_total\<close>
  makes the exponent 1 modulo 4; it always ends for an odd \<open>n_total\<close>, within
  three iterations, and never for an even exponent and an even \<open>n_total\<close>.  Its
  result is unchanged modulo \<open>n_total\<close>.
\<close>

theorem enforce_mod4_terminates:
  "((\<exists>y. enforce_mod4 n e = Some y) \<longleftrightarrow> (\<exists>j::nat. (e + int j * n) mod 4 = 1))
   \<and> (odd n \<longrightarrow> (\<exists>j<4. enforce_mod4 n e = Some (e + int j * n)))
   \<and> (even n \<and> even e \<longrightarrow> enforce_mod4 n e = None)
   \<and> (\<forall>y. enforce_mod4 n e = Some y \<longrightarrow> y mod 4 = 1 \<and> y mod n = e mod n)"
proof (intro conjI impI allI)
  show "(\<exists>y. enforce_mod4 n e = Some y) \<longleftrightarrow> (\<exists>j::nat. (e + int j * n) mod 4 = 1)"
    using enforce_mod4_sound enforce_mod4_returns by blast
  show "\<exists>j<4. enforce_mod4 n e = Some (e + int j * n)" if "odd n"
  proof -
    define j where "j = (LEAST j. (e + int j * n) mod 4 = 1)"
    have j: "j < 4" "(e + int j * n) mod 4 = 1"
      using odd_reaches_1_mod4[OF that, of e] unfolding j_def
      by (auto intro: LeastI le_less_trans[OF Least_le])
    have "enforce_mod4 n (e + int i * n) = Some (e + int j * n)" if "i \<le> j" for i
      using that
    proof (induction rule: inc_induct)
      case base
      show ?case using j(2) by (subst enforce_mod4_unfold) simp
    next
      case (step i)
      then have "(e + int i * n) mod 4 \<noteq> 1" using not_less_Least unfolding j_def by blast
      with step show ?case by (subst enforce_mod4_unfold) (simp add: algebra_simps)
    qed
    from this[of 0] j(1) show ?thesis by auto
  qed
  show "enforce_mod4 n e = None" if "even n \<and> even e"
  proof (cases "enforce_mod4 n e")
    case (Some y)
    then have "even y" "y mod 4 = 1" using enforce_mod4_sound that by fastforce+
    then show ?thesis by presburger
  qed simp
  show "y mod 4 = 1" "y mod n = e mod n" if "enforce_mod4 n e = Some y" for y
    using enforce_mod4_sound[OF that] by auto
qed

theorem enforce_mod4_terminates_witness:
  "enforce_mod4 6 2 = None \<and> (\<exists>j<4. enforce_mod4 15 4 = Some (4 + int j * 15))"
  using enforce_mod4_terminates[of 6 2] enforce_mod4_terminates[of 15 4] by simp

section \<open>Valid keys and tokens\<close>

definition safe_pair :: "int \<Rightarrow> int \<Rightarrow> bool" where
  "safe_pair x p \<longleftrightarrow> prime_int x \<and> 2 < x \<and> p = 2 * x + 1 \<and> prime_int p"

definition slave_ok :: "SlaveKeyEntry \<Rightarrow> bool" where
  "slave_ok s \<longleftrightarrow>
     safe_pair (sk_x s) (sk_p s) \<and> safe_pair (sk_y s) (sk_q s) \<and> sk_x s \<noteq> sk_y s \<and>
     sk_n s = sk_p s * sk_q s \<and> sk_xy s = sk_x s * sk_y s \<and>
     0 < sk_e s \<and> sk_e s mod 4 = 1 \<and> coprime (sk_e s) (sk_xy s) \<and>
     sk_d s = sk_e s ^ nat (2 * (sk_x s - 1) * (sk_y s - 1) - 1) mod (4 * sk_x s * sk_y s) \<and>
     sk_M s * sk_N s mod sk_xy s = 1"

definition mkg_ok :: "MKeyGenResult \<Rightarrow> bool" where
  "mkg_ok mkg \<longleftrightarrow>
     distinct (map sk_uav_index (mk_slaves mkg)) \<and>
     (\<forall>s\<in>set (mk_slaves mkg). slave_ok s \<and> sk_xy s dvd mk_n_total mkg) \<and>
     (\<forall>s\<in>set (mk_slaves mkg). \<forall>t\<in>set (mk_slaves mkg). t \<noteq> s \<longrightarrow> sk_xy s dvd sk_M t) \<and>
     0 < mk_n_total mkg \<and> odd (mk_n_total mkg) \<and>
     mk_eM mkg mod 4 = 1 \<and>
     mk_eM mkg mod mk_n_total mkg = sum_list (map slave_contribution (mk_slaves mkg)) mod mk_n_total mkg"

definition group_sum :: "SlaveKeyEntry list \<Rightarrow> u32 list \<Rightarrow> int" where
  "group_sum slaves users = sum_list (map slave_contribution (filter (in_group users) slaves))"

definition token_ok :: "MKeyGenResult \<Rightarrow> MTokenResult \<Rightarrow> bool" where
  "token_ok mkg tok \<longleftrightarrow>
     0 \<le> mt_T tok \<and> 0 \<le> mt_e_MK tok \<and> mt_e_MK tok mod 4 = 1 \<and>
     mt_e_MK tok mod mk_n_total mkg = group_sum (mk_slaves mkg) (mt_user_indices tok) mod mk_n_total mkg \<and>
     mt_N_group tok = group_modulus (mk_slaves mkg) (mt_user_indices tok) \<and>
     mt_MT_K tok = mt_T tok ^ nat (mt_e_MK tok) mod mt_N_group tok"

lemma in_group_iff: "in_group users s \<longleftrightarrow> sk_uav_index s \<in> set users"
  by (auto simp: in_group_def list_ex_iff)

lemma group_modulus_prod:
  "group_modulus slaves users = prod_list (map sk_n (filter (in_group users) slaves))"
proof -
  have "foldl (\<lambda>N slave. if in_group users slave then N * sk_n slave else N) k slaves =
      k * prod_list (map sk_n (filter (in_group users) slaves))" for k
    by (induction slaves arbitrary: k) (auto simp: mult.assoc)
  then show ?thesis by (simp add: group_modulus_def)
qed

section \<open>The slave exponents\<close>

lemma safe_pair_odd: "safe_pair x p \<Longrightarrow> odd x"
  unfolding safe_pair_def prime_int_def by (metis one_less_numeral_iff semiring_norm(76))

lemma power_mod_prime:
  assumes "prime_int x" "coprime e x"
  shows "e ^ (nat (x - 1) * k) mod x = 1"
proof -
  have "\<not> x dvd e"
    using assms prime_int_gt_1[OF assms(1)] coprime_common_divisor[of e x x] by auto
  then have "e ^ nat (x - 1) mod x = 1" by (rule fermat[OF assms(1)])
  then have "(e ^ nat (x - 1)) ^ k mod x = 1 ^ k mod x"
    using power_mod[of "e ^ nat (x - 1)" x k] by simp
  then show ?thesis using prime_int_gt_1[OF assms(1)] by (simp add: power_mult)
qed

lemma coprime_4_odd: "odd (m :: int) \<Longrightarrow> coprime 4 m"
proof -
  assume "odd m"
  then have "coprime 2 m" by simp
  then have "coprime (2 ^ 2) m" by (rule coprime_power_left_iff[THEN iffD2, OF disjI1])
  then show ?thesis by simp
qed

lemma slave_facts:
  assumes "slave_ok s"
  shows "prime_int (sk_p s)" "prime_int (sk_q s)" "sk_p s \<noteq> sk_q s" "0 < sk_n s"
    "(sk_p s - 1) * (sk_q s - 1) = 4 * sk_xy s" "coprime 4 (sk_xy s)" "2 < sk_x s" "2 < sk_y s" "1 < sk_xy s"
proof -
  have x: "safe_pair (sk_x s) (sk_p s)" and y: "safe_pair (sk_y s) (sk_q s)" and ne: "sk_x s \<noteq> sk_y s"
    and n: "sk_n s = sk_p s * sk_q s" and xy: "sk_xy s = sk_x s * sk_y s"
    using assms by (auto simp: slave_ok_def)
  show "prime_int (sk_p s)" "prime_int (sk_q s)" "sk_p s \<noteq> sk_q s" "2 < sk_x s" "2 < sk_y s"
    using x y ne by (auto simp: safe_pair_def)
  show "0 < sk_n s" using x y by (simp add: n safe_pair_def)
  show "(sk_p s - 1) * (sk_q s - 1) = 4 * sk_xy s" using x y by (simp add: xy safe_pair_def)
  show "coprime 4 (sk_xy s)" unfolding xy
    using safe_pair_odd[OF x] safe_pair_odd[OF y] by (intro coprime_4_odd) simp
  have "1 * 1 < sk_x s * sk_y s" using x y by (intro mult_strict_mono) (auto simp: safe_pair_def)
  then show "1 < sk_xy s" by (simp add: xy)
qed

lemma slave_e_d:
  assumes "slave_ok s"
  shows "sk_e s * sk_d s mod (4 * sk_xy s) = 1 mod (4 * sk_xy s)" "0 < sk_d s"
proof -
  define x y e where "x = sk_x s" and "y = sk_y s" and "e = sk_e s"
  have ok: "prime_int x" "prime_int y" "x \<noteq> y" "2 < x" "2 < y" "e mod 4 = 1" "coprime e (x * y)"
    "sk_d s = e ^ nat (2 * (x - 1) * (y - 1) - 1) mod (4 * x * y)" "sk_xy s = x * y"
    using assms by (auto simp: slave_ok_def safe_pair_def x_def y_def e_def)
  define k where "k = nat (2 * (x - 1) * (y - 1))"
  have "0 < 2 * (x - 1) * (y - 1)" using ok by simp
  then have k: "k = Suc (nat (2 * (x - 1) * (y - 1) - 1))"
    unfolding k_def by (simp add: Suc_nat_eq_nat_zadd1)
  have kx: "k = nat (x - 1) * (2 * nat (y - 1))" and ky: "k = nat (y - 1) * (2 * nat (x - 1))"
    using ok by (simp_all add: k_def nat_mult_distrib)
  have "e ^ k mod x = 1 mod x" "e ^ k mod y = 1 mod y"
    using power_mod_prime[of x e "2 * nat (y - 1)"] power_mod_prime[of y e "2 * nat (x - 1)"] ok
    by (simp_all add: kx[symmetric] ky[symmetric])
  then have xy: "e ^ k mod (x * y) = 1 mod (x * y)"
    by (rule mod_mult_coprime[OF distinct_primes_coprime[OF ok(1-3)]])
  have "e ^ k mod 4 = 1 mod 4" using power_mod[of e 4 k] ok by simp
  then have ek: "e ^ k mod (4 * (x * y)) = 1 mod (4 * (x * y))"
    using xy by (rule mod_mult_coprime[rotated]) (use slave_facts(6)[OF assms] ok in simp)
  have "e * sk_d s mod (4 * (x * y)) = e ^ k mod (4 * (x * y))"
    unfolding k by (simp add: ok(8) mod_mult_right_eq mult.assoc)
  with ek show "sk_e s * sk_d s mod (4 * sk_xy s) = 1 mod (4 * sk_xy s)" by (simp add: ok(9) e_def)
  have "1 < 4 * (x * y)" using slave_facts(9)[OF assms] ok(9) by simp
  then have "sk_d s \<noteq> 0" "0 \<le> sk_d s"
    using ek \<open>e * sk_d s mod _ = _\<close> by (auto simp: ok(8) mult.assoc)
  then show "0 < sk_d s" by simp
qed

section \<open>Residues of the master exponents\<close>

lemma mkg_slave:
  assumes "mkg_ok mkg" "s \<in> set (mk_slaves mkg)"
  shows "slave_ok s" "sk_xy s dvd mk_n_total mkg"
  using assms by (auto simp: mkg_ok_def)

lemma contribution_residue: "slave_ok s \<Longrightarrow> slave_contribution s mod sk_xy s = sk_e s mod sk_xy s"
  unfolding slave_contribution_def slave_ok_def
  by (metis mod_mult_right_eq mult.assoc mult.right_neutral)

lemma contribution_other:
  "mkg_ok mkg \<Longrightarrow> s \<in> set (mk_slaves mkg) \<Longrightarrow> t \<in> set (mk_slaves mkg) \<Longrightarrow> t \<noteq> s \<Longrightarrow>
   sk_xy s dvd slave_contribution t"
  by (auto simp: mkg_ok_def slave_contribution_def)

lemma group_sum_residue:
  assumes "mkg_ok mkg" "s \<in> set (mk_slaves mkg)"
  shows "group_sum (mk_slaves mkg) users mod sk_xy s = (if in_group users s then sk_e s mod sk_xy s else 0)"
proof -
  have dist: "distinct (filter (in_group users) (mk_slaves mkg))"
    using assms(1) by (simp add: mkg_ok_def distinct_map)
  show ?thesis
  proof (cases "in_group users s")
    case True
    have "group_sum (mk_slaves mkg) users mod sk_xy s = slave_contribution s mod sk_xy s"
      unfolding group_sum_def using assms True dist
      by (intro sum_list_mod_others) (auto intro: contribution_other)
    with True assms show ?thesis by (simp add: contribution_residue[OF mkg_slave(1)])
  next
    case False
    have "sk_xy s dvd (\<Sum>t\<in>set (filter (in_group users) (mk_slaves mkg)). slave_contribution t)"
      using False assms by (intro dvd_sum) (auto intro: contribution_other)
    with False dist show ?thesis by (simp add: group_sum_def sum_list_distinct_conv_sum_set)
  qed
qed

lemma sum_residue:
  assumes "mkg_ok mkg" "e mod mk_n_total mkg = group_sum (mk_slaves mkg) users mod mk_n_total mkg" "s \<in> set (mk_slaves mkg)"
  shows "e mod sk_xy s = (if in_group users s then sk_e s mod sk_xy s else 0)"
proof -
  have "e mod sk_xy s = e mod mk_n_total mkg mod sk_xy s"
    using mkg_slave(2)[OF assms(1,3)] by (simp add: mod_mod_cancel)
  also have "\<dots> = group_sum (mk_slaves mkg) users mod sk_xy s"
    using assms(2) mkg_slave(2)[OF assms(1,3)] by (simp add: mod_mod_cancel)
  finally show ?thesis by (simp add: group_sum_residue[OF assms(1,3)])
qed

lemma token_residue:
  assumes "mkg_ok mkg" "token_ok mkg tok" "s \<in> set (mk_slaves mkg)"
  shows "mt_e_MK tok mod sk_xy s = (if in_group (mt_user_indices tok) s then sk_e s mod sk_xy s else 0)"
  using assms(2) by (intro sum_residue[OF assms(1) _ assms(3)]) (simp add: token_ok_def)

section \<open>Members decrypt\<close>

lemma member_exponent:
  assumes "mkg_ok mkg" "token_ok mkg tok" "s \<in> set (mk_slaves mkg)" "in_group (mt_user_indices tok) s"
  shows "mt_e_MK tok * sk_d s mod (4 * sk_xy s) = 1 mod (4 * sk_xy s)"
proof -
  have ok: "slave_ok s" by (rule mkg_slave(1)[OF assms(1,3)])
  have "mt_e_MK tok mod (4 * sk_xy s) = sk_e s mod (4 * sk_xy s)"
  proof (rule mod_mult_coprime[OF slave_facts(6)[OF ok]])
    show "mt_e_MK tok mod 4 = sk_e s mod 4" using assms(2) ok by (simp add: token_ok_def slave_ok_def)
    show "mt_e_MK tok mod sk_xy s = sk_e s mod sk_xy s" using token_residue[OF assms(1-3)] assms(4) by simp
  qed
  then have "mt_e_MK tok * sk_d s mod (4 * sk_xy s) = sk_e s * sk_d s mod (4 * sk_xy s)"
    by (rule mod_mult_cong[OF _ refl])
  then show ?thesis using slave_e_d(1)[OF ok] by simp
qed

lemma group_modulus_pos:
  assumes "mkg_ok mkg"
  shows "0 < group_modulus (mk_slaves mkg) users"
  unfolding group_modulus_prod
  using slave_facts(4)[OF mkg_slave(1)[OF assms]] by (intro prod_list_pos) auto

lemma member_modulus_dvd:
  "s \<in> set (mk_slaves mkg) \<Longrightarrow> in_group users s \<Longrightarrow> sk_n s dvd group_modulus (mk_slaves mkg) users"
  unfolding group_modulus_prod by (rule dvd_prod_list) simp

lemma SlaveDecrypt_eq:
  assumes "powm_law E" "mkg_ok mkg" "token_ok mkg tok"
    and "s \<in> set (mk_slaves mkg)" "sk_uav_index s \<in> set (mt_user_indices tok)"
  shows "SlaveDecrypt E s (mt_MT_K tok) = Inr (mt_T tok mod sk_n s)"
proof -
  have ok: "slave_ok s" by (rule mkg_slave(1)[OF assms(2,4)])
  have grp: "in_group (mt_user_indices tok) s" using assms(5) by (simp add: in_group_iff)
  have tok: "0 \<le> mt_T tok" "0 \<le> mt_e_MK tok" "mt_e_MK tok mod 4 = 1"
    "mt_N_group tok = group_modulus (mk_slaves mkg) (mt_user_indices tok)"
    "mt_MT_K tok = mt_T tok ^ nat (mt_e_MK tok) mod mt_N_group tok"
    using assms(3) by (simp_all add: token_ok_def)
  have N: "0 < mt_N_group tok" "sk_n s dvd mt_N_group tok"
    using group_modulus_pos[OF assms(2)] member_modulus_dvd[OF assms(4) grp] by (simp_all add: tok(4))
  have d: "0 < sk_d s" by (rule slave_e_d(2)[OF ok])
  have e: "0 < mt_e_MK tok" using tok(2,3) by (cases "mt_e_MK tok = 0") auto
  define k where "k = nat (mt_e_MK tok) * nat (sk_d s)"
  have "0 \<le> mt_MT_K tok" using N by (simp add: tok(5))
  then have "SlaveDecrypt E s (mt_MT_K tok) = Inr (mt_MT_K tok ^ nat (sk_d s) mod sk_n s)"
    using d slave_facts(4)[OF ok] by (simp add: SlaveDecrypt_def ModPow_ok[OF assms(1)])
  also have "mt_MT_K tok ^ nat (sk_d s) mod sk_n s = mt_T tok ^ k mod sk_n s"
  proof -
    have "mt_MT_K tok mod sk_n s = mt_T tok ^ nat (mt_e_MK tok) mod sk_n s"
      using N(2) by (simp add: tok(5) mod_mod_cancel)
    then have "mt_MT_K tok ^ nat (sk_d s) mod sk_n s = (mt_T tok ^ nat (mt_e_MK tok)) ^ nat (sk_d s) mod sk_n s"
      by (metis power_mod)
    then show ?thesis by (simp add: k_def power_mult)
  qed
  also have "mt_T tok ^ k mod sk_n s = mt_T tok mod sk_n s"
  proof -
    have "int k mod (4 * sk_xy s) = 1 mod (4 * sk_xy s)"
      using member_exponent[OF assms(2-4) grp] d e by (simp add: k_def)
    then have "int k mod ((sk_p s - 1) * (sk_q s - 1)) = 1 mod ((sk_p s - 1) * (sk_q s - 1))"
      by (simp only: slave_facts(5)[OF ok])
    moreover have "0 < k" using d e by (simp add: k_def)
    ultimately have "mt_T tok ^ k mod (sk_p s * sk_q s) = mt_T tok mod (sk_p s * sk_q s)"
      using slave_facts(1-3)[OF ok] by (intro exponent_law)
    then show ?thesis using ok by (simp add: slave_ok_def)
  qed
  finally show ?thesis .
qed

section \<open>Tokens are generated and updated correctly\<close>

lemma finish_token_cong:
  "mkg_ok mkg \<Longrightarrow> e mod mk_n_total mkg = e' mod mk_n_total mkg \<Longrightarrow>
   finish_token E mkg e T users cid v = finish_token E mkg e' T users cid v"
  by (simp add: finish_token_def mkg_ok_def Mod_pos)

lemma finish_token_ok:
  assumes "powm_law E" "mkg_ok mkg" "0 \<le> T"
    and "e mod mk_n_total mkg = group_sum (mk_slaves mkg) users mod mk_n_total mkg"
  shows "\<exists>tok. finish_token E mkg e T users cid v = Some (Inr tok) \<and> token_ok mkg tok \<and>
    mt_T tok = T \<and> mt_user_indices tok = users \<and> mt_cluster_id tok = cid \<and> mt_version tok = v"
proof -
  define n where "n = mk_n_total mkg"
  have n: "0 < n" "odd n" using assms(2) by (simp_all add: mkg_ok_def n_def)
  obtain y where y: "enforce_mod4 n (e mod n) = Some y" "y mod 4 = 1" "y mod n = e mod n" "e mod n \<le> y"
    using enforce_mod4_odd[OF n(2), of "e mod n"] n(1) by auto
  have y0: "0 \<le> y" using y(4) pos_mod_sign[OF n(1), of e] by linarith
  define N where "N = group_modulus (mk_slaves mkg) users"
  have N: "0 < N" using group_modulus_pos[OF assms(2)] by (simp add: N_def)
  have pow: "ModPow E T y N = Inr (T ^ nat y mod N)" by (rule ModPow_ok[OF assms(1,3) y0 N])
  have "finish_token E mkg e T users cid v = Some (Inr
     \<lparr> mt_MT_K = T ^ nat y mod N, mt_e_MK = y, mt_T = T, mt_N_group = N,
       mt_user_indices = users, mt_cluster_id = cid, mt_version = v \<rparr>)"
    using pow y(1) n(1)
    by (simp add: finish_token_def Mod_pos n_def[symmetric] N_def[symmetric] cret_def Let_def)
  then show ?thesis
    using y y0 assms(3,4) by (simp add: token_ok_def n_def N_def)
qed

lemma sum_not_in_group:
  "foldl (\<lambda>e slave. if in_group users slave then e else e - slave_contribution slave) e0 slaves =
   e0 - sum_list (map slave_contribution slaves) + group_sum slaves users"
  by (induction slaves arbitrary: e0) (simp_all add: group_sum_def)

lemma MTokenGen_eq_finish:
  assumes "mkg_ok mkg"
  shows "MTokenGen E mkg users T cid =
    finish_token E mkg (group_sum (mk_slaves mkg) users) T users cid 1"
proof -
  define S where "S = sum_list (map slave_contribution (mk_slaves mkg))"
  have "mk_n_total mkg dvd mk_eM mkg - S"
    using assms by (simp add: mkg_ok_def S_def mod_eq_dvd_iff)
  then have "(mk_eM mkg - S + group_sum (mk_slaves mkg) users) mod mk_n_total mkg =
      group_sum (mk_slaves mkg) users mod mk_n_total mkg"
    by (simp add: mod_eq_dvd_iff)
  from finish_token_cong[OF assms this] show ?thesis
    by (simp add: MTokenGen_def sum_not_in_group S_def)
qed

lemma MTokenGen_returns:
  assumes "powm_law E" "mkg_ok mkg" "0 \<le> T"
  shows "\<exists>tok. MTokenGen E mkg users T cid = Some (Inr tok) \<and> token_ok mkg tok \<and> mt_T tok = T \<and>
    mt_user_indices tok = users \<and> mt_cluster_id tok = cid \<and> mt_version tok = 1"
  using finish_token_ok[OF assms refl] unfolding MTokenGen_eq_finish[OF assms(2)] by blast

lemma find_slave_Some:
  "find_slave mkg idx = Some s \<Longrightarrow> s \<in> set (mk_slaves mkg) \<and> sk_uav_index s = idx"
  by (auto simp: find_slave_def find_Some_iff)

lemma group_sum_set:
  "distinct slaves \<Longrightarrow> group_sum slaves users = (\<Sum>t\<in>set slaves. if in_group users t then slave_contribution t else 0)"
  by (simp add: group_sum_def sum_list_distinct_conv_sum_set sum.inter_filter[symmetric])

lemma group_sum_change:
  assumes "mkg_ok mkg" "s \<in> set (mk_slaves mkg)"
    and "\<And>idx. idx \<noteq> sk_uav_index s \<Longrightarrow> idx \<in> set users' \<longleftrightarrow> idx \<in> set users"
    and "sk_uav_index s \<in> set users'" "sk_uav_index s \<notin> set users"
  shows "group_sum (mk_slaves mkg) users' = group_sum (mk_slaves mkg) users + slave_contribution s"
proof -
  have dist: "distinct (mk_slaves mkg)" and inj: "inj_on sk_uav_index (set (mk_slaves mkg))"
    using assms(1) by (auto simp: mkg_ok_def distinct_map)
  have "(if in_group users' t then slave_contribution t else 0) =
      (if in_group users t then slave_contribution t else 0) + (if t = s then slave_contribution s else 0)"
    if "t \<in> set (mk_slaves mkg)" for t
    using that assms(2-5) inj by (auto simp: in_group_iff dest: inj_onD)
  then have "group_sum (mk_slaves mkg) users' = (\<Sum>t\<in>set (mk_slaves mkg).
      (if in_group users t then slave_contribution t else 0) + (if t = s then slave_contribution s else 0))"
    unfolding group_sum_set[OF dist] by (intro sum.cong) auto
  then show ?thesis using assms(2) by (simp add: sum.distrib group_sum_set[OF dist])
qed

lemma JoKeyUpdate_eq_finish:
  assumes "mkg_ok mkg" "token_ok mkg cur" "find_slave mkg j = Some s" "j \<notin> set (mt_user_indices cur)"
  shows "JoKeyUpdate E mkg cur j =
    finish_token E mkg (group_sum (mk_slaves mkg) (mt_user_indices cur @ [j])) (mt_T cur)
      (mt_user_indices cur @ [j]) (mt_cluster_id cur) (mt_version cur + 1)"
proof -
  have s: "s \<in> set (mk_slaves mkg)" "sk_uav_index s = j" using find_slave_Some[OF assms(3)] by simp_all
  have "group_sum (mk_slaves mkg) (mt_user_indices cur @ [j]) =
      group_sum (mk_slaves mkg) (mt_user_indices cur) + slave_contribution s"
    using s assms(4) by (intro group_sum_change[OF assms(1)]) auto
  moreover have "mt_e_MK cur mod mk_n_total mkg = group_sum (mk_slaves mkg) (mt_user_indices cur) mod mk_n_total mkg"
    using assms(2) by (simp add: token_ok_def)
  ultimately have "(mt_e_MK cur + slave_contribution s) mod mk_n_total mkg =
      group_sum (mk_slaves mkg) (mt_user_indices cur @ [j]) mod mk_n_total mkg"
    by (metis mod_add_left_eq)
  from finish_token_cong[OF assms(1) this] show ?thesis
    by (simp add: JoKeyUpdate_def assms(3))
qed

lemma LeKeyUpdate_eq_finish:
  assumes "mkg_ok mkg" "token_ok mkg cur" "find_slave mkg j = Some s" "j \<in> set (mt_user_indices cur)"
  defines "users' \<equiv> filter (\<lambda>idx. idx \<noteq> j) (mt_user_indices cur)"
  shows "LeKeyUpdate E mkg cur j =
    finish_token E mkg (group_sum (mk_slaves mkg) users') (mt_T cur) users' (mt_cluster_id cur) (mt_version cur + 1)"
proof -
  have s: "s \<in> set (mk_slaves mkg)" "sk_uav_index s = j" using find_slave_Some[OF assms(3)] by simp_all
  have "group_sum (mk_slaves mkg) (mt_user_indices cur) = group_sum (mk_slaves mkg) users' + slave_contribution s"
    using s assms(4) unfolding users'_def by (intro group_sum_change[OF assms(1)]) auto
  moreover have "mt_e_MK cur mod mk_n_total mkg = group_sum (mk_slaves mkg) (mt_user_indices cur) mod mk_n_total mkg"
    using assms(2) by (simp add: token_ok_def)
  ultimately have "(mt_e_MK cur - slave_contribution s) mod mk_n_total mkg =
      group_sum (mk_slaves mkg) users' mod mk_n_total mkg"
    by (metis add_diff_cancel_right' mod_diff_left_eq)
  from finish_token_cong[OF assms(1) this] show ?thesis
    by (simp add: LeKeyUpdate_def assms(3) users'_def)
qed

text \<open>
  C5.  The incremental updates are correct: for a joining slave that is not a
  member and a leaving slave that is one, \<open>JoKeyUpdate\<close> and \<open>LeKeyUpdate\<close> return
  the token that \<open>MTokenGen\<close> computes from scratch for the new member set, with
  the version number increased.
\<close>

theorem key_update_eq_regeneration:
  assumes "powm_law E" "mkg_ok mkg" "token_ok mkg cur" "find_slave mkg j = Some s"
  shows "if j \<notin> set (mt_user_indices cur)
    then \<exists>tok. MTokenGen E mkg (mt_user_indices cur @ [j]) (mt_T cur) (mt_cluster_id cur) = Some (Inr tok) \<and>
           JoKeyUpdate E mkg cur j = Some (Inr (tok \<lparr> mt_version := mt_version cur + 1 \<rparr>)) \<and> token_ok mkg tok
    else \<exists>tok. MTokenGen E mkg (filter (\<lambda>idx. idx \<noteq> j) (mt_user_indices cur)) (mt_T cur) (mt_cluster_id cur) =
             Some (Inr tok) \<and>
           LeKeyUpdate E mkg cur j = Some (Inr (tok \<lparr> mt_version := mt_version cur + 1 \<rparr>)) \<and> token_ok mkg tok"
proof -
  have version: "finish_token E mkg e T users cid v = Some (Inr (tok \<lparr> mt_version := v \<rparr>))"
    if "finish_token E mkg e T users cid w = Some (Inr tok)" for e T users cid v w tok
    using that by (auto simp: finish_token_def cbind_def cret_def Let_def
        split: option.splits sum.splits if_splits)
  have T: "0 \<le> mt_T cur" using assms(3) by (simp add: token_ok_def)
  show ?thesis
    using MTokenGen_returns[OF assms(1,2) T, of "mt_user_indices cur @ [j]" "mt_cluster_id cur"]
      MTokenGen_returns[OF assms(1,2) T, of "filter (\<lambda>idx. idx \<noteq> j) (mt_user_indices cur)" "mt_cluster_id cur"]
      JoKeyUpdate_eq_finish[OF assms(2-4), of E] LeKeyUpdate_eq_finish[OF assms(2-4), of E]
    unfolding MTokenGen_eq_finish[OF assms(2)] by (auto intro: version)
qed

section \<open>MKeyGen\<close>

lemma gen_e_loop_sound:
  "gen_e_loop E rng k xy = Some e \<Longrightarrow> Gcd E e xy = 1 \<and> (\<exists>j. e = GenerateEi (rng j))"
proof (erule gen_e_loop.raw_induct[rotated])
  fix loop E and rng :: "nat \<Rightarrow> u64" and k :: nat and xy e
  assume IH: "\<And>E rng k xy e. loop E rng k xy = Some e \<Longrightarrow> Gcd E e xy = 1 \<and> (\<exists>j. e = GenerateEi (rng j))"
    and body: "(let e_i = GenerateEi (rng k) in if Gcd E e_i xy \<noteq> 1 then loop E rng (k + 1) xy else Some e_i) = Some e"
  show "Gcd E e xy = 1 \<and> (\<exists>j. e = GenerateEi (rng j))"
    using body IH[of E rng "k + 1" xy e] by (auto simp: Let_def split: if_splits)
qed

lemma gen_e_loop_returns:
  "Gcd E (GenerateEi (rng (k + j))) xy = 1 \<Longrightarrow> \<exists>e. gen_e_loop E rng k xy = Some e"
proof (induction j arbitrary: k)
  case (Suc j)
  then have "\<exists>e. gen_e_loop E rng (k + 1) xy = Some e" by simp
  then show ?case by (subst gen_e_loop.simps) (simp add: Let_def)
qed (subst gen_e_loop.simps, simp add: Let_def)

text \<open>Inputs MKeyGen is meant for, and generators that draw a usable exponent.\<close>

definition pair_safe :: "int \<times> int \<Rightarrow> bool" where
  "pair_safe pq \<longleftrightarrow> safe_pair ((fst pq - 1) div 2) (fst pq) \<and>
     safe_pair ((snd pq - 1) div 2) (snd pq) \<and> fst pq \<noteq> snd pq"

definition pairs_disjoint :: "int \<times> int \<Rightarrow> int \<times> int \<Rightarrow> bool" where
  "pairs_disjoint a b \<longleftrightarrow> fst a \<noteq> fst b \<and> fst a \<noteq> snd b \<and> snd a \<noteq> fst b \<and> snd a \<noteq> snd b"

definition prime_pairs_ok :: "(int \<times> int) list \<Rightarrow> bool" where
  "prime_pairs_ok pairs \<longleftrightarrow>
     list_all pair_safe pairs \<and> sorted_wrt pairs_disjoint pairs \<and> length pairs \<le> 2 ^ 32"

definition pair_xy :: "int \<times> int \<Rightarrow> int" where
  "pair_xy pq = ((fst pq - 1) div 2) * ((snd pq - 1) div 2)"

definition draws_ok :: "(nat \<Rightarrow> nat \<Rightarrow> u64) \<Rightarrow> (int \<times> int) list \<Rightarrow> bool" where
  "draws_ok rngs pairs \<longleftrightarrow>
     (\<forall>i<length pairs. \<exists>k. coprime (GenerateEi (rngs i k)) (pair_xy (pairs ! i)))"

text \<open>A slave before step 3 has set its coefficients.\<close>

definition slave_pre_ok :: "SlaveKeyEntry \<Rightarrow> bool" where
  "slave_pre_ok s \<longleftrightarrow> (\<forall>M N. M * N mod sk_xy s = 1 \<longrightarrow> slave_ok (s \<lparr> sk_M := M, sk_N := N \<rparr>))"

lemma GenerateEi_props: "0 < GenerateEi d" "GenerateEi d mod 4 = 1"
proof -
  have "0 \<le> uint d" by simp
  then show "0 < GenerateEi d" by (simp add: GenerateEi_def Let_def add_pos_nonneg)
  show "GenerateEi d mod 4 = 1" by (simp add: GenerateEi_def Let_def)
qed

lemma one_slave_ok:
  assumes E: "powm_law E" "gcd_law E"
    and pq: "safe_pair ((p - 1) div 2) p" "safe_pair ((q - 1) div 2) q" "p \<noteq> q"
    and k: "coprime (GenerateEi (rng k)) (pair_xy (p, q))"
  defines "x \<equiv> ComputeX p" and "y \<equiv> ComputeY q"
  shows "\<exists>e d. gen_e_loop E rng 0 (x * y) = Some e \<and> ComputeDi E e x y = Inr d \<and> x * y = pair_xy (p, q) \<and>
    slave_pre_ok \<lparr> sk_uav_index = i, sk_uav_id = i, sk_e = e, sk_d = d, sk_n = p * q, sk_x = x,
      sk_y = y, sk_M = 0, sk_N = 0, sk_xy = x * y, sk_p = p, sk_q = q \<rparr>"
proof -
  have xy: "x = (p - 1) div 2" "y = (q - 1) div 2" "2 < x" "2 < y" "p = 2 * x + 1" "q = 2 * y + 1"
    using pq by (auto simp: x_def y_def ComputeX_def ComputeY_def sdiv_nonneg safe_pair_def)
  then have xy_eq: "x * y = pair_xy (p, q)" by (simp add: pair_xy_def)
  have "0 < x * y" using xy by simp
  have "Gcd E (GenerateEi (rng (0 + k))) (x * y) = 1"
    using k E(2) by (simp add: Gcd_def gcd_law_def xy_eq coprime_iff_gcd_eq_1)
  then obtain e where e: "gen_e_loop E rng 0 (x * y) = Some e" using gen_e_loop_returns by blast
  from gen_e_loop_sound[OF e] have e_props: "0 < e" "e mod 4 = 1" "coprime e (x * y)"
    using E(2) GenerateEi_props by (auto simp: Gcd_def gcd_law_def coprime_iff_gcd_eq_1)
  have "2 * 2 \<le> (x - 1) * (y - 1)" using xy by (intro mult_mono) simp_all
  then have "0 \<le> 2 * (x - 1) * (y - 1) - 1" unfolding mult.assoc by linarith
  then have d: "ComputeDi E e x y = Inr (e ^ nat (2 * (x - 1) * (y - 1) - 1) mod (4 * x * y))"
    using xy(3,4) e_props E(1) by (simp add: ComputeDi_def Let_def ModPow_ok)
  have "x \<noteq> y" using pq(3) xy(5,6) by auto
  moreover have "safe_pair x p" "safe_pair y q" using pq(1,2) xy(1,2) by simp_all
  ultimately show ?thesis
    using e d e_props xy_eq
    by (intro exI[of _ e] exI[of _ "e ^ nat (2 * (x - 1) * (y - 1) - 1) mod (4 * x * y)"])
      (simp add: slave_pre_ok_def slave_ok_def)
qed

lemma mkeygen_slaves_ok:
  assumes E: "powm_law E" "gcd_law E"
  shows "list_all pair_safe pairs \<Longrightarrow>
    (\<forall>j<length pairs. \<exists>k. coprime (GenerateEi (rngs (i + j) k)) (pair_xy (pairs ! j))) \<Longrightarrow>
    \<exists>slaves. mkeygen_slaves E rngs i pairs = Some (Inr slaves) \<and>
      map sk_uav_index slaves = map of_nat [i..<i + length pairs] \<and>
      map sk_xy slaves = map pair_xy pairs \<and> (\<forall>s\<in>set slaves. slave_pre_ok s)"
proof (induction pairs arbitrary: i)
  case Nil
  then show ?case by (simp add: cret_def)
next
  case (Cons pq rest)
  obtain p q where pq: "pq = (p, q)" by (cases pq)
  obtain k where "coprime (GenerateEi (rngs i k)) (pair_xy (p, q))"
    using Cons.prems(2)[rule_format, of 0] pq by auto
  moreover have "safe_pair ((p - 1) div 2) p" "safe_pair ((q - 1) div 2) q" "p \<noteq> q"
    using Cons.prems(1) pq by (simp_all add: pair_safe_def)
  ultimately obtain e d where
    ed: "gen_e_loop E (rngs i) 0 (ComputeX p * ComputeY q) = Some e"
      "ComputeDi E e (ComputeX p) (ComputeY q) = Inr d" "ComputeX p * ComputeY q = pair_xy (p, q)"
    and pre: "slave_pre_ok \<lparr> sk_uav_index = of_nat i, sk_uav_id = of_nat i, sk_e = e, sk_d = d, sk_n = p * q,
      sk_x = ComputeX p, sk_y = ComputeY q, sk_M = 0, sk_N = 0, sk_xy = ComputeX p * ComputeY q,
      sk_p = p, sk_q = q \<rparr>"
    using one_slave_ok[OF E, of p q "rngs i" k "of_nat i"] by blast
  have "\<exists>slaves. mkeygen_slaves E rngs (i + 1) rest = Some (Inr slaves) \<and>
      map sk_uav_index slaves = map of_nat [i + 1..<i + 1 + length rest] \<and>
      map sk_xy slaves = map pair_xy rest \<and> (\<forall>s\<in>set slaves. slave_pre_ok s)"
  proof (rule Cons.IH)
    show "\<forall>j<length rest. \<exists>k. coprime (GenerateEi (rngs (i + 1 + j) k)) (pair_xy (rest ! j))"
    proof (intro allI impI)
      fix j assume "j < length rest"
      then show "\<exists>k. coprime (GenerateEi (rngs (i + 1 + j) k)) (pair_xy (rest ! j))"
        using Cons.prems(2)[rule_format, of "Suc j"] by simp
    qed
  qed (use Cons.prems(1) in simp)
  moreover have "[i..<i + length (pq # rest)] = i # [i + 1..<i + 1 + length rest]"
    by (simp add: upt_conv_Cons del: upt_Suc)
  ultimately show ?case
    using ed pre by (auto simp: pq Let_def cret_def simp del: upt_Suc)
qed

lemma mkeygen_coeffs_ok:
  "(\<forall>s\<in>set slaves. 1 < sk_xy s \<and> coprime (n div sk_xy s) (sk_xy s)) \<Longrightarrow> 0 \<le> n \<Longrightarrow>
   \<exists>slaves'. mkeygen_coeffs n slaves = Inr slaves' \<and>
     list_all2 (\<lambda>s s'. \<exists>N. s' = s \<lparr> sk_M := n div sk_xy s, sk_N := N \<rparr> \<and>
       (n div sk_xy s) * N mod sk_xy s = 1) slaves slaves'"
proof (induction slaves)
  case (Cons s rest)
  have "\<forall>s\<in>set rest. 1 < sk_xy s \<and> coprime (n div sk_xy s) (sk_xy s)" using Cons.prems(1) by simp
  from Cons.IH[OF this Cons.prems(2)] obtain slaves' where rest: "mkeygen_coeffs n rest = Inr slaves'"
    "list_all2 (\<lambda>s s'. \<exists>N. s' = s \<lparr> sk_M := n div sk_xy s, sk_N := N \<rparr> \<and>
       (n div sk_xy s) * N mod sk_xy s = 1) rest slaves'"
    by blast
  have s: "1 < sk_xy s" "coprime (n div sk_xy s) (sk_xy s)" "0 \<le> n div sk_xy s"
    using Cons.prems by (simp_all add: pos_imp_zdiv_nonneg_iff)
  from ModInverse_ex[OF s(3,1,2)] obtain N where N: "ModInverse (n div sk_xy s) (sk_xy s) = Inr N" by blast
  have "n sdiv sk_xy s = n div sk_xy s" using s Cons.prems(2) by (simp add: sdiv_nonneg)
  with N rest s show ?case
    using ModInverse_sound(4)[OF N] by (auto simp: Let_def)
qed simp

lemma pair_safe_facts:
  assumes "pair_safe pq"
  shows "prime_int ((fst pq - 1) div 2)" "prime_int ((snd pq - 1) div 2)"
    "fst pq = 2 * ((fst pq - 1) div 2) + 1" "snd pq = 2 * ((snd pq - 1) div 2) + 1"
    "1 < pair_xy pq" "odd (pair_xy pq)"
proof -
  have x: "safe_pair ((fst pq - 1) div 2) (fst pq)" and y: "safe_pair ((snd pq - 1) div 2) (snd pq)"
    using assms by (simp_all add: pair_safe_def)
  then show "prime_int ((fst pq - 1) div 2)" "prime_int ((snd pq - 1) div 2)"
    "fst pq = 2 * ((fst pq - 1) div 2) + 1" "snd pq = 2 * ((snd pq - 1) div 2) + 1"
    by (simp_all add: safe_pair_def)
  show "odd (pair_xy pq)" using safe_pair_odd[OF x] safe_pair_odd[OF y] by (simp add: pair_xy_def)
  have "1 * 1 < ((fst pq - 1) div 2) * ((snd pq - 1) div 2)"
    using x y by (intro mult_strict_mono) (simp_all add: safe_pair_def)
  then show "1 < pair_xy pq" by (simp add: pair_xy_def)
qed

lemma disjoint_pairs_coprime:
  assumes "pair_safe a" "pair_safe b" "pairs_disjoint a b"
  shows "coprime (pair_xy a) (pair_xy b)"
proof -
  have "coprime x y" if "prime_int x" "prime_int y" "2 * x + 1 \<noteq> 2 * y + 1" for x y
    using that by (intro distinct_primes_coprime) auto
  then show ?thesis
    using pair_safe_facts[OF assms(1)] pair_safe_facts[OF assms(2)] assms(3)
    unfolding pair_xy_def pairs_disjoint_def coprime_mult_left_iff coprime_mult_right_iff by metis
qed

lemma pairs_coprime_nth:
  assumes "prime_pairs_ok pairs" "i < length pairs" "j < length pairs" "i \<noteq> j"
  shows "coprime (pair_xy (pairs ! i)) (pair_xy (pairs ! j))"
proof -
  have "pairs_disjoint (pairs ! i) (pairs ! j)"
    using assms unfolding prime_pairs_ok_def sorted_wrt_iff_nth_less pairs_disjoint_def
    by (metis linorder_neqE_nat)
  moreover have "pair_safe (pairs ! i)" "pair_safe (pairs ! j)"
    using assms by (auto simp: prime_pairs_ok_def list_all_length)
  ultimately show ?thesis by (intro disjoint_pairs_coprime)
qed

lemma odd_prod_list: "(\<And>x. x \<in> set xs \<Longrightarrow> odd x) \<Longrightarrow> odd (prod_list (xs :: int list))"
  by (induction xs) auto

text \<open>Step 3 turns slaves without coefficients into valid ones.\<close>

lemma mkeygen_step3:
  assumes pre: "\<forall>s\<in>set slaves. slave_pre_ok s"
    and xy: "map sk_xy slaves = map pair_xy pairs" and pairs: "prime_pairs_ok pairs"
    and idx: "distinct (map sk_uav_index slaves)"
  defines "n \<equiv> prod_list (map sk_xy slaves)"
  shows "0 < n \<and> odd n \<and> (\<exists>slaves'. mkeygen_coeffs n slaves = Inr slaves' \<and>
    distinct (map sk_uav_index slaves') \<and>
    (\<forall>s\<in>set slaves'. slave_ok s \<and> sk_xy s dvd n) \<and>
    (\<forall>s\<in>set slaves'. \<forall>t\<in>set slaves'. t \<noteq> s \<longrightarrow> sk_xy s dvd sk_M t))"
proof -
  have len: "length slaves = length pairs" using arg_cong[OF xy, of length] by simp
  have nth: "sk_xy (slaves ! i) = pair_xy (pairs ! i)" if "i < length slaves" for i
    using that len arg_cong[OF xy, of "\<lambda>l. l ! i"] by simp
  have safe: "pair_safe (pairs ! i)" if "i < length slaves" for i
    using that len pairs by (simp add: prime_pairs_ok_def list_all_length)
  have xy1: "1 < sk_xy (slaves ! i) \<and> odd (sk_xy (slaves ! i))" if "i < length slaves" for i
    using nth[OF that] pair_safe_facts[OF safe[OF that]] by simp
  have n: "0 < n" "odd n"
    unfolding n_def using xy1 by (force intro!: prod_list_pos odd_prod_list simp: in_set_conv_nth)+
  define ms where "ms = map sk_xy slaves"
  have cop: "coprime (ms ! i) (ms ! j)" if "i < length ms" "j < length ms" "i \<noteq> j" for i j
    using that pairs_coprime_nth[OF pairs, of i j] nth len by (simp add: ms_def)
  have "1 < sk_xy s \<and> coprime (n div sk_xy s) (sk_xy s)" if mem: "s \<in> set slaves" for s
  proof -
    obtain i where "i < length slaves" "s = slaves ! i" using mem by (auto simp: in_set_conv_nth)
    then show ?thesis
      using xy1[of i] coprime_prod_others[of ms i] cop by (auto simp: ms_def n_def)
  qed
  with mkeygen_coeffs_ok[of slaves n] n obtain slaves' where res: "mkeygen_coeffs n slaves = Inr slaves'"
    and all: "list_all2 (\<lambda>s s'. \<exists>N. s' = s \<lparr> sk_M := n div sk_xy s, sk_N := N \<rparr> \<and>
       (n div sk_xy s) * N mod sk_xy s = 1) slaves slaves'"
    by auto
  have len': "length slaves' = length slaves" using all by (simp add: list_all2_lengthD)
  have upd: "\<exists>N. slaves' ! i = (slaves ! i) \<lparr> sk_M := n div sk_xy (slaves ! i), sk_N := N \<rparr> \<and>
      (n div sk_xy (slaves ! i)) * N mod sk_xy (slaves ! i) = 1" if "i < length slaves" for i
    using all that by (simp add: list_all2_conv_all_nth)
  have ok: "slave_ok (slaves' ! i)" and same: "sk_xy (slaves' ! i) = ms ! i"
      "sk_M (slaves' ! i) = n div ms ! i" "sk_uav_index (slaves' ! i) = sk_uav_index (slaves ! i)"
    if "i < length slaves" for i
    using upd[OF that] pre that by (auto simp: slave_pre_ok_def ms_def)
  have "map sk_uav_index slaves' = map sk_uav_index slaves"
    using len' same(3) by (simp add: list_eq_iff_nth_eq)
  moreover have "slave_ok s \<and> sk_xy s dvd n" if mem: "s \<in> set slaves'" for s
  proof -
    obtain i where "i < length slaves" "s = slaves' ! i" using mem len' by (auto simp: in_set_conv_nth)
    then show ?thesis
      using ok same(1) dvd_prod_list[of "slaves ! i" slaves sk_xy] by (simp add: n_def ms_def)
  qed
  moreover have "sk_xy s dvd sk_M t" if st: "s \<in> set slaves'" "t \<in> set slaves'" "t \<noteq> s" for s t
  proof -
    obtain i j where ij: "i < length slaves" "s = slaves' ! i" "j < length slaves" "t = slaves' ! j" "i \<noteq> j"
      using st len' by (metis in_set_conv_nth)
    then show ?thesis
      using nth_dvd_prod_others[of i ms j] xy1[of j] same by (simp add: ms_def n_def)
  qed
  ultimately show ?thesis using res n idx by auto
qed

lemma distinct_word_upt: "n \<le> 2 ^ 32 \<Longrightarrow> distinct (map (of_nat :: nat \<Rightarrow> u32) [0..<n])"
  by (auto simp: distinct_map inj_on_def word_of_nat_eq_iff take_bit_nat_eq_self)

lemma MKeyGen_returns:
  assumes "powm_law E" "gcd_law E" "prime_pairs_ok pairs" "draws_ok rngs pairs"
  shows "\<exists>mkg. MKeyGen E rngs pairs = Some (Inr mkg) \<and> mkg_ok mkg \<and> length (mk_slaves mkg) = length pairs"
proof -
  obtain slaves where slaves: "mkeygen_slaves E rngs 0 pairs = Some (Inr slaves)"
    "map sk_uav_index slaves = map of_nat [0..<length pairs]"
    "map sk_xy slaves = map pair_xy pairs" "\<forall>s\<in>set slaves. slave_pre_ok s"
    using mkeygen_slaves_ok[OF assms(1,2), of pairs rngs 0] assms(3,4)
    by (auto simp: prime_pairs_ok_def draws_ok_def)
  define n where "n = prod_list (map sk_xy slaves)"
  have "distinct (map sk_uav_index slaves)"
    using distinct_word_upt[of "length pairs"] assms(3) unfolding slaves(2) prime_pairs_ok_def by blast
  from mkeygen_step3[OF slaves(4,3) assms(3) this] obtain slaves' where
    n: "0 < n" "odd n" and s': "mkeygen_coeffs n slaves = Inr slaves'"
      "distinct (map sk_uav_index slaves')"
      "\<forall>s\<in>set slaves'. slave_ok s \<and> sk_xy s dvd n"
      "\<forall>s\<in>set slaves'. \<forall>t\<in>set slaves'. t \<noteq> s \<longrightarrow> sk_xy s dvd sk_M t"
    unfolding n_def by blast
  define e0 where "e0 = sum_list (map slave_contribution slaves') mod n"
  obtain eM where eM: "enforce_mod4 n e0 = Some eM" "eM mod 4 = 1" "eM mod n = e0 mod n"
    using enforce_mod4_odd[OF n(2)] by blast
  define mkg where "mkg = \<lparr> mk_eM = eM, mk_n_total = n, mk_slaves = slaves' \<rparr>"
  have "MKeyGen E rngs pairs = Some (Inr mkg)"
    using slaves(1) s'(1) eM(1) n(1)
    by (simp add: MKeyGen_def n_def[symmetric] Let_def Mod_pos e0_def[symmetric] cret_def mkg_def)
  moreover have "mkg_ok mkg"
    using n s' eM by (simp add: mkg_ok_def mkg_def e0_def)
  moreover have "length slaves' = length pairs"
  proof -
    have "length slaves' = length slaves"
      using s'(1) by (induction n slaves arbitrary: slaves' rule: mkeygen_coeffs.induct)
        (auto simp: Let_def rbind_eq_Inr_iff split: if_splits)
    then show ?thesis using arg_cong[OF slaves(3), of length] by simp
  qed
  ultimately show ?thesis by (auto simp: mkg_def)
qed

section \<open>A concrete cluster\<close>

text \<open>Two slaves with the safe primes 7, 11 and 23, 47; both draw the exponent 13.\<close>

definition demo_slave0 :: SlaveKeyEntry where
  "demo_slave0 = \<lparr> sk_uav_index = 0, sk_uav_id = 0, sk_e = 13, sk_d = 37, sk_n = 77, sk_x = 3, sk_y = 5,
     sk_M = 253, sk_N = 7, sk_xy = 15, sk_p = 7, sk_q = 11 \<rparr>"

definition demo_slave1 :: SlaveKeyEntry where
  "demo_slave1 = \<lparr> sk_uav_index = 1, sk_uav_id = 1, sk_e = 13, sk_d = 545, sk_n = 1081, sk_x = 11, sk_y = 23,
     sk_M = 15, sk_N = 135, sk_xy = 253, sk_p = 23, sk_q = 47 \<rparr>"

definition demo_mkg :: MKeyGenResult where
  "demo_mkg = \<lparr> mk_eM = 13, mk_n_total = 3795, mk_slaves = [demo_slave0, demo_slave1] \<rparr>"

lemma demo_primes:
  "safe_pair 3 7" "safe_pair 5 11" "safe_pair 11 23" "safe_pair 23 47"
  by (simp_all add: safe_pair_def prime_int_code upto.simps)

lemma power_mod_even:
  fixes a n r :: int
  assumes "a ^ k mod n = r" "m = 2 * k" "r * r mod n = r'"
  shows "a ^ m mod n = r'"
  unfolding assms(2) assms(3)[symmetric] assms(1)[symmetric] by (simp add: mult_2 power_add mod_mult_eq)

lemma power_mod_odd:
  fixes a n r :: int
  assumes "a ^ k mod n = r" "m = Suc (2 * k)" "a * (r * r mod n) mod n = r'"
  shows "a ^ m mod n = r'"
proof -
  have "a ^ m mod n = a * (a ^ (2 * k) mod n) mod n" unfolding assms(2) power_Suc mod_mult_right_eq ..
  also have "a ^ (2 * k) mod n = r * r mod n" by (rule power_mod_even[OF assms(1) refl refl])
  finally show ?thesis unfolding assms(3) .
qed

lemma demo_power: "(13::int) ^ 439 mod 1012 = 545"
proof -
  have s13: "(13::int) ^ 13 mod 1012 = 261" by simp
  have s27: "(13::int) ^ 27 mod 1012 = 73" by (rule power_mod_odd[OF s13]) simp_all
  have s54: "(13::int) ^ 54 mod 1012 = 269" by (rule power_mod_even[OF s27]) simp_all
  have s109: "(13::int) ^ 109 mod 1012 = 545" by (rule power_mod_odd[OF s54]) simp_all
  have s219: "(13::int) ^ 219 mod 1012 = 545" by (rule power_mod_odd[OF s109]) simp_all
  have s439: "(13::int) ^ 439 mod 1012 = 545" by (rule power_mod_odd[OF s219]) simp_all
  from s439 show ?thesis .
qed

lemma slave_okI:
  assumes "safe_pair x p" "safe_pair y q" "x \<noteq> y" "0 < e" "e mod 4 = 1" "coprime e xy" "x * y = xy"
    "nat (2 * (x - 1) * (y - 1) - 1) = k" "4 * x * y = m" "e ^ k mod m = d" "M * N mod xy = 1"
  shows "slave_ok \<lparr> sk_uav_index = i, sk_uav_id = j, sk_e = e, sk_d = d, sk_n = p * q, sk_x = x, sk_y = y,
     sk_M = M, sk_N = N, sk_xy = xy, sk_p = p, sk_q = q \<rparr>"
  using assms unfolding slave_ok_def by (simp only: SlaveKeyEntry.simps simp_thms)

lemma demo_slaves_ok: "slave_ok demo_slave0" "slave_ok demo_slave1"
proof -
  have c: "coprime (13 :: int) 15" "coprime (13 :: int) 253"
    by (simp_all add: coprime_iff_gcd_eq_1 gcd_non_0_int)
  have "(13 :: int) ^ 15 mod 60 = 37" by simp
  then show "slave_ok demo_slave0"
    using slave_okI[of 3 7 5 11 13 15 15 60 37 253 7 0 0] demo_primes c by (simp add: demo_slave0_def)
  have "slave_ok \<lparr> sk_uav_index = 1, sk_uav_id = 1, sk_e = 13, sk_d = 545, sk_n = 23 * 47, sk_x = 11, sk_y = 23,
     sk_M = 15, sk_N = 135, sk_xy = 253, sk_p = 23, sk_q = 47 \<rparr>"
    by (rule slave_okI[OF demo_primes(3,4) _ _ _ c(2) _ _ _ demo_power]) simp_all
  then show "slave_ok demo_slave1" by (simp add: demo_slave1_def)
qed

lemma demo_mkg_ok: "mkg_ok demo_mkg"
proof -
  have "sk_uav_index demo_slave0 \<noteq> sk_uav_index demo_slave1"
    by (simp add: demo_slave0_def demo_slave1_def)
  then show ?thesis
    using demo_slaves_ok unfolding mkg_ok_def demo_mkg_def
    by (simp add: slave_contribution_def) (simp add: demo_slave0_def demo_slave1_def)
qed

lemma demo_token:
  "\<exists>tok. MTokenGen toy_ext demo_mkg [0] 42 7 = Some (Inr tok) \<and> token_ok demo_mkg tok \<and> mt_T tok = 42 \<and>
    mt_user_indices tok = [0] \<and> mt_version tok = 1"
  using MTokenGen_returns[OF toy_powm demo_mkg_ok, of 42 "[0]" 7] by auto

section \<open>The membership contract\<close>

text \<open>
  What a user of a group-key service relies on: joins and leaves keep the
  service's invariant and change the member set as they say, and at any moment
  exactly the members hold a usable key.
\<close>

primrec guarded_run :: "('s \<Rightarrow> 'e \<Rightarrow> bool) \<Rightarrow> ('s \<Rightarrow> 'e \<Rightarrow> 's) \<Rightarrow> 's \<Rightarrow> 'e list \<Rightarrow> bool" where
  "guarded_run guard step st [] = True"
| "guarded_run guard step st (e # es) = (guard st e \<and> guarded_run guard step (step st e) es)"

locale membership =
  fixes step :: "'s \<Rightarrow> 'e \<Rightarrow> 's"
    and guard :: "'s \<Rightarrow> 'e \<Rightarrow> bool"
    and inv :: "'s \<Rightarrow> bool"
    and members :: "'s \<Rightarrow> 'm set"
    and readers :: "'s \<Rightarrow> 'm set"
    and change :: "'e \<Rightarrow> 'm set \<Rightarrow> 'm set"
  assumes step_inv: "inv st \<Longrightarrow> guard st e \<Longrightarrow> inv (step st e)"
    and step_members: "inv st \<Longrightarrow> guard st e \<Longrightarrow> members (step st e) = change e (members st)"
    and readers_members: "inv st \<Longrightarrow> readers st = members st"
begin

lemma run_inv: "inv st \<Longrightarrow> guarded_run guard step st es \<Longrightarrow> inv (foldl step st es)"
  by (induction es arbitrary: st) (auto intro: step_inv)

lemma run_members:
  "inv st \<Longrightarrow> guarded_run guard step st es \<Longrightarrow> members (foldl step st es) = fold change es (members st)"
  by (induction es arbitrary: st) (auto simp: step_inv step_members)

lemma run_readers:
  "inv st \<Longrightarrow> guarded_run guard step st es \<Longrightarrow> readers (foldl step st es) = fold change es (members st)"
  using run_inv run_members readers_members by blast

end

section \<open>Runs of the manager\<close>

datatype crt_event = CrtJoin u32 u32 | CrtLeave u32 u32 u64 bytes

definition cluster_ok :: "ClusterState \<Rightarrow> bool" where
  "cluster_ok cs \<longleftrightarrow> mkg_ok (cs_mkg cs) \<and> token_ok (cs_mkg cs) (cs_mtoken cs)"

definition manager_ok :: "ext \<times> CrtManager \<Rightarrow> bool" where
  "manager_ok st \<longleftrightarrow> powm_law (fst st) \<and> sha256_law (fst st) \<and> (\<forall>cs\<in>set (cm_clusters (snd st)). cluster_ok cs)"

definition crt_step :: "ext \<times> CrtManager \<Rightarrow> crt_event \<Rightarrow> ext \<times> CrtManager" where
  "crt_step st ev = (case st of (E, cm) \<Rightarrow>
     (case ev of
        CrtJoin c j \<Rightarrow> (case ProcessJoin E cm c j of Some (cm', r) \<Rightarrow> (E, cm') | None \<Rightarrow> st)
      | CrtLeave c j now nonce \<Rightarrow>
          (case ProcessLeave E nonce now cm c j of Some (cm', r) \<Rightarrow> (E, cm') | None \<Rightarrow> st)))"

definition cluster_at :: "CrtManager \<Rightarrow> u32 \<Rightarrow> ClusterState" where
  "cluster_at cm c = cm_clusters cm ! unat c"

definition is_member :: "CrtManager \<Rightarrow> u32 \<Rightarrow> u32 \<Rightarrow> bool" where
  "is_member cm c j \<longleftrightarrow> unat c < length (cm_clusters cm) \<and>
     (\<exists>s\<in>set (mk_slaves (cs_mkg (cluster_at cm c))). sk_uav_index s = j) \<and>
     j \<in> set (mt_user_indices (cs_mtoken (cluster_at cm c)))"

definition crt_guard :: "ext \<times> CrtManager \<Rightarrow> crt_event \<Rightarrow> bool" where
  "crt_guard st ev = (case ev of
     CrtJoin c j \<Rightarrow> unat c < length (cm_clusters (snd st)) \<and>
       find_slave (cs_mkg (cluster_at (snd st) c)) j \<noteq> None \<and> \<not> is_member (snd st) c j
   | CrtLeave c j now nonce \<Rightarrow> is_member (snd st) c j)"

text \<open>The slave's exponent undoes the exponent of the cluster's token.\<close>

definition key_fits :: "CrtManager \<Rightarrow> u32 \<Rightarrow> SlaveKeyEntry \<Rightarrow> bool" where
  "key_fits cm c s \<longleftrightarrow>
     mt_e_MK (cs_mtoken (cluster_at cm c)) * sk_d s mod ((sk_p s - 1) * (sk_q s - 1)) = 1"

definition crt_members :: "ext \<times> CrtManager \<Rightarrow> (u32 \<times> u32) set" where
  "crt_members st = {(c, j). is_member (snd st) c j}"

definition crt_readers :: "ext \<times> CrtManager \<Rightarrow> (u32 \<times> u32) set" where
  "crt_readers st = {(c, j). unat c < length (cm_clusters (snd st)) \<and>
     (\<exists>s\<in>set (mk_slaves (cs_mkg (cluster_at (snd st) c))). sk_uav_index s = j \<and> key_fits (snd st) c s)}"

definition crt_change :: "crt_event \<Rightarrow> (u32 \<times> u32) set \<Rightarrow> (u32 \<times> u32) set" where
  "crt_change ev M = (case ev of CrtJoin c j \<Rightarrow> insert (c, j) M | CrtLeave c j now nonce \<Rightarrow> M - {(c, j)})"

lemma find_slave_in:
  assumes "mkg_ok mkg" "s \<in> set (mk_slaves mkg)"
  shows "find_slave mkg (sk_uav_index s) = Some s"
proof -
  have inj: "inj_on sk_uav_index (set (mk_slaves mkg))" using assms(1) by (simp add: mkg_ok_def distinct_map)
  have "find_slave mkg (sk_uav_index s) \<noteq> None"
    using assms(2) by (auto simp: find_slave_def find_None_iff)
  then obtain t where "find_slave mkg (sk_uav_index s) = Some t" by auto
  with find_slave_Some[OF this] inj assms(2) show ?thesis by (auto dest: inj_onD)
qed

lemma JoKeyUpdate_ok:
  assumes "powm_law E" "mkg_ok mkg" "token_ok mkg cur" "find_slave mkg j = Some s" "j \<notin> set (mt_user_indices cur)"
  shows "\<exists>tok. JoKeyUpdate E mkg cur j = Some (Inr tok) \<and> token_ok mkg tok \<and> mt_T tok = mt_T cur \<and>
    mt_user_indices tok = mt_user_indices cur @ [j] \<and>
    mt_cluster_id tok = mt_cluster_id cur \<and> mt_version tok = mt_version cur + 1"
  unfolding JoKeyUpdate_eq_finish[OF assms(2-5)]
  using finish_token_ok[OF assms(1,2) _ refl] assms(3) by (simp add: token_ok_def)

lemma LeKeyUpdate_ok:
  assumes "powm_law E" "mkg_ok mkg" "token_ok mkg cur" "find_slave mkg j = Some s" "j \<in> set (mt_user_indices cur)"
  shows "\<exists>tok. LeKeyUpdate E mkg cur j = Some (Inr tok) \<and> token_ok mkg tok \<and> mt_T tok = mt_T cur \<and>
    mt_user_indices tok = filter (\<lambda>idx. idx \<noteq> j) (mt_user_indices cur) \<and>
    mt_cluster_id tok = mt_cluster_id cur \<and> mt_version tok = mt_version cur + 1"
  unfolding LeKeyUpdate_eq_finish[OF assms(2-5)]
  using finish_token_ok[OF assms(1,2) _ refl] assms(3) by (simp add: token_ok_def)

lemma cluster_at_ok:
  "manager_ok st \<Longrightarrow> unat c < length (cm_clusters (snd st)) \<Longrightarrow>
   mkg_ok (cs_mkg (cluster_at (snd st) c)) \<and> token_ok (cs_mkg (cluster_at (snd st) c)) (cs_mtoken (cluster_at (snd st) c))"
  by (simp add: manager_ok_def cluster_ok_def cluster_at_def)

lemma GetClusterState_at: "unat c < length (cm_clusters cm) \<Longrightarrow> GetClusterState cm c = Inr (cluster_at cm c)"
  by (simp add: GetClusterState_def cluster_at_def)

lemma set_cluster_simps [simp]:
  "length (cm_clusters (set_cluster cm c cs)) = length (cm_clusters cm)"
  "cm_num_clusters (set_cluster cm c cs) = cm_num_clusters cm"
  "unat c < length (cm_clusters cm) \<Longrightarrow>
   cluster_at (set_cluster cm c cs) d = (if d = c then cs else cluster_at cm d)"
  by (auto simp: set_cluster_def cluster_at_def nth_list_update word_unat_eq_iff)

text \<open>Every guarded step replaces one cluster by one with the same keys and the changed users.\<close>

lemma crt_step_effect:
  assumes ok: "manager_ok (E, cm)" and guard: "crt_guard (E, cm) ev"
  obtains c cs' where "unat c < length (cm_clusters cm)" "crt_step (E, cm) ev = (E, set_cluster cm c cs')"
    "cs_mkg cs' = cs_mkg (cluster_at cm c)" "token_ok (cs_mkg cs') (cs_mtoken cs')"
    "\<And>j. is_member (set_cluster cm c cs') c j \<longleftrightarrow> (c, j) \<in> crt_change ev (crt_members (E, cm))"
    "\<And>d j. d \<noteq> c \<Longrightarrow> (d, j) \<in> crt_change ev (crt_members (E, cm)) \<longleftrightarrow> is_member cm d j"
proof (cases ev)
  case (CrtJoin c j)
  have c: "unat c < length (cm_clusters cm)" using guard by (simp add: crt_guard_def CrtJoin)
  define cs where "cs = cluster_at cm c"
  have cs: "mkg_ok (cs_mkg cs)" "token_ok (cs_mkg cs) (cs_mtoken cs)"
    using cluster_at_ok[OF ok] c by (simp_all add: cs_def)
  obtain s where s: "find_slave (cs_mkg cs) j = Some s"
    using guard by (auto simp: crt_guard_def CrtJoin cs_def)
  then have j: "j \<notin> set (mt_user_indices (cs_mtoken cs))"
    using guard c find_slave_Some[OF s] by (auto simp: crt_guard_def CrtJoin is_member_def cs_def)
  have E: "powm_law E" using ok by (simp add: manager_ok_def)
  obtain tok where tok: "JoKeyUpdate E (cs_mkg cs) (cs_mtoken cs) j = Some (Inr tok)"
    "token_ok (cs_mkg cs) tok" "mt_user_indices tok = mt_user_indices (cs_mtoken cs) @ [j]"
    using JoKeyUpdate_ok[OF E cs s j] by blast
  define cs' where "cs' = cs \<lparr> cs_mtoken := tok, cs_rekey_count := cs_rekey_count cs + 1 \<rparr>"
  show thesis
  proof (rule that[of c cs'])
    show "crt_step (E, cm) ev = (E, set_cluster cm c cs')"
      by (simp add: crt_step_def CrtJoin ProcessJoin_def GetClusterState_at[OF c] cs_def[symmetric] tok(1) cs'_def)
    show "is_member (set_cluster cm c cs') c k \<longleftrightarrow> (c, k) \<in> crt_change ev (crt_members (E, cm))" for k
      using c tok(3) find_slave_Some[OF s]
      by (auto simp: is_member_def crt_change_def crt_members_def CrtJoin cs'_def cs_def)
  qed (use c tok(2) in \<open>auto simp: cs'_def cs_def crt_change_def crt_members_def CrtJoin\<close>)
next
  case (CrtLeave c j now nonce)
  have c: "unat c < length (cm_clusters cm)" using guard by (simp add: crt_guard_def CrtLeave is_member_def)
  define cs where "cs = cluster_at cm c"
  have cs: "mkg_ok (cs_mkg cs)" "token_ok (cs_mkg cs) (cs_mtoken cs)"
    using cluster_at_ok[OF ok] c by (simp_all add: cs_def)
  obtain s where s: "find_slave (cs_mkg cs) j = Some s" and j: "j \<in> set (mt_user_indices (cs_mtoken cs))"
    using guard find_slave_in[OF cs(1)] by (auto simp: crt_guard_def CrtLeave is_member_def cs_def)
  have E: "powm_law E" "sha256_law E" using ok by (simp_all add: manager_ok_def)
  obtain tok where tok: "LeKeyUpdate E (cs_mkg cs) (cs_mtoken cs) j = Some (Inr tok)"
    "token_ok (cs_mkg cs) tok" "mt_user_indices tok = filter (\<lambda>idx. idx \<noteq> j) (mt_user_indices (cs_mtoken cs))"
    using LeKeyUpdate_ok[OF E(1) cs s j] by blast
  obtain tek where tek: "RotateTek E (cs_tek cs) now nonce = Inr tek" using E(2) by (simp add: RotateTek_def)
  define cs' where "cs' = cs \<lparr> cs_mtoken := tok, cs_tek := tek, cs_rekey_count := cs_rekey_count cs + 1 \<rparr>"
  show thesis
  proof (rule that[of c cs'])
    show "crt_step (E, cm) ev = (E, set_cluster cm c cs')"
      by (simp add: crt_step_def CrtLeave ProcessLeave_def GetClusterState_at[OF c] cs_def[symmetric] tok(1)
          tek cs'_def)
    show "is_member (set_cluster cm c cs') c k \<longleftrightarrow> (c, k) \<in> crt_change ev (crt_members (E, cm))" for k
      using c tok(3)
      by (auto simp: is_member_def crt_change_def crt_members_def CrtLeave cs'_def cs_def)
  qed (use c tok(2) in \<open>auto simp: cs'_def cs_def crt_change_def crt_members_def CrtLeave\<close>)
qed

lemma exponent_fits_iff:
  assumes "mkg_ok mkg" "token_ok mkg tok" "s \<in> set (mk_slaves mkg)"
  shows "mt_e_MK tok * sk_d s mod ((sk_p s - 1) * (sk_q s - 1)) = 1 \<longleftrightarrow> sk_uav_index s \<in> set (mt_user_indices tok)"
proof -
  have facts: "(sk_p s - 1) * (sk_q s - 1) = 4 * sk_xy s" "1 < sk_xy s"
    using slave_facts[OF mkg_slave(1)[OF assms(1,3)]] by simp_all
  show ?thesis
  proof (cases "in_group (mt_user_indices tok) s")
    case True
    then show ?thesis
      using member_exponent[OF assms True] facts by (simp add: in_group_iff)
  next
    case False
    have "sk_xy s dvd mt_e_MK tok"
      using token_residue[OF assms] False by (simp add: dvd_eq_mod_eq_0)
    then have "mt_e_MK tok * sk_d s mod (4 * sk_xy s) mod sk_xy s = 0"
      by (simp add: mod_mod_cancel)
    then have "mt_e_MK tok * sk_d s mod (4 * sk_xy s) \<noteq> 1"
      using facts(2) by auto
    with False show ?thesis by (simp add: facts(1) in_group_iff)
  qed
qed

lemma key_fits_iff:
  assumes "manager_ok st" "unat c < length (cm_clusters (snd st))"
    and "s \<in> set (mk_slaves (cs_mkg (cluster_at (snd st) c)))"
  shows "key_fits (snd st) c s \<longleftrightarrow> sk_uav_index s \<in> set (mt_user_indices (cs_mtoken (cluster_at (snd st) c)))"
  using exponent_fits_iff[OF _ _ assms(3)] cluster_at_ok[OF assms(1,2)] by (simp add: key_fits_def)

interpretation crt: membership crt_step crt_guard manager_ok crt_members crt_readers crt_change
proof
  fix st ev
  assume ok: "manager_ok st" and guard: "crt_guard st ev"
  obtain E cm where st: "st = (E, cm)" by (cases st)
  obtain c cs' where
    c: "unat c < length (cm_clusters cm)" and step: "crt_step (E, cm) ev = (E, set_cluster cm c cs')"
    and cs': "cs_mkg cs' = cs_mkg (cluster_at cm c)" "token_ok (cs_mkg cs') (cs_mtoken cs')"
    and mem: "\<And>j. is_member (set_cluster cm c cs') c j \<longleftrightarrow> (c, j) \<in> crt_change ev (crt_members (E, cm))"
      "\<And>d j. d \<noteq> c \<Longrightarrow> (d, j) \<in> crt_change ev (crt_members (E, cm)) \<longleftrightarrow> is_member cm d j"
    by (rule crt_step_effect[OF ok[unfolded st] guard[unfolded st]]) blast
  have "cluster_ok cs'"
    using cs' cluster_at_ok[OF ok, of c] c by (simp add: cluster_ok_def st)
  then show "manager_ok (crt_step st ev)"
    using ok by (auto simp: manager_ok_def step st set_cluster_def dest: set_update_subset_insert[THEN subsetD])
  have "is_member (set_cluster cm c cs') d j \<longleftrightarrow> is_member cm d j" if "d \<noteq> c" for d j
    using that c by (simp add: is_member_def)
  then have "is_member (set_cluster cm c cs') d j \<longleftrightarrow> (d, j) \<in> crt_change ev (crt_members (E, cm))" for d j
    using mem by (cases "d = c") auto
  then show "crt_members (crt_step st ev) = crt_change ev (crt_members st)"
    by (auto simp: st step crt_members_def[of "(E, set_cluster cm c cs')"])
next
  fix st assume ok: "manager_ok st"
  show "crt_readers st = crt_members st"
    using key_fits_iff[OF ok] by (fastforce simp: crt_readers_def crt_members_def is_member_def)
qed

lemma verify_slaves_true:
  assumes "powm_law E" "mkg_ok mkg" "token_ok mkg tok"
  shows "set slaves \<subseteq> set (mk_slaves mkg) \<Longrightarrow> verify_slaves E tok slaves = Inr True"
proof (induction slaves)
  case (Cons s rest)
  then have s: "s \<in> set (mk_slaves mkg)" by simp
  show ?case
  proof (cases "in_group (mt_user_indices tok) s")
    case True
    then show ?thesis
      using Cons SlaveDecrypt_eq[OF assms s] slave_facts(4)[OF mkg_slave(1)[OF assms(2) s]]
      by (simp add: SlaveDecrypt_def in_group_iff Mod_pos)
  qed (use Cons in simp)
qed simp

lemma VerifyAll_true:
  assumes "manager_ok (E, cm)" "unat (cm_num_clusters cm) \<le> length (cm_clusters cm)"
  shows "VerifyAll E cm = Inr True"
proof -
  have "VerifyCluster E cm c = Inr True" if "unat c < length (cm_clusters cm)" for c
    using that cluster_at_ok[OF assms(1), of c] assms(1)
    by (simp add: VerifyCluster_def GetClusterState_at manager_ok_def verify_slaves_true[OF _ _ _ subset_refl])
  moreover have "unat (of_nat c :: u32) < length (cm_clusters cm)" if "c < length (cm_clusters cm)" for c
    using that by (simp add: unat_of_nat)
  ultimately have "VerifyCluster E cm (of_nat c) = Inr True" if "c < length (cm_clusters cm)" for c
    using that by blast
  then have "verify_from E cm cs = Inr True" if "\<forall>c\<in>set cs. c < length (cm_clusters cm)" for cs
    using that by (induction cs) simp_all
  from this[of "[0..<unat (cm_num_clusters cm)]"] assms(2) show ?thesis by (simp add: VerifyAll_def)
qed

lemma demo_manager_ok:
  assumes "token_ok demo_mkg tok"
  shows "manager_ok (toy_ext, \<lparr> cm_initialized = True, cm_num_clusters = 1, cm_num_uavs = 2,
    cm_uavs_per_cluster = 2, cm_clusters = [\<lparr> cs_cluster_id = 0, cs_mkg = demo_mkg, cs_mtoken = tok,
      cs_tek = replicate 32 0, cs_rekey_count = 0, cs_initialized = True \<rparr>] \<rparr>)"
  using assms by (simp add: manager_ok_def cluster_ok_def toy_laws demo_mkg_ok)

section \<open>Properties of the scheme\<close>

text \<open>
  C1.  The group key scheme, end to end: for pairwise different safe primes and
  generators that eventually draw an exponent coprime to \<open>x_i * y_i\<close>, \<open>MKeyGen\<close>
  returns keys, with which \<open>MTokenGen\<close> returns a token for every user list and
  traffic key \<open>T\<close>, from which every listed slave recovers \<open>T\<close> by
  \<open>SlaveDecrypt\<close>: the result is \<open>T mod n_i\<close>, and \<open>T\<close> itself when \<open>T < n_i\<close>.
\<close>

theorem group_key_end_to_end:
  assumes "powm_law E" "gcd_law E" "prime_pairs_ok pairs" "draws_ok rngs pairs"
  shows "\<exists>mkg. MKeyGen E rngs pairs = Some (Inr mkg) \<and> mkg_ok mkg \<and>
    length (mk_slaves mkg) = length pairs \<and>
    (\<forall>users T cid. 0 \<le> T \<longrightarrow>
      (\<exists>tok. MTokenGen E mkg users T cid = Some (Inr tok) \<and> token_ok mkg tok \<and>
        (\<forall>s\<in>set (mk_slaves mkg). sk_uav_index s \<in> set users \<longrightarrow>
           SlaveDecrypt E s (mt_MT_K tok) = Inr (T mod sk_n s) \<and>
           (T < sk_n s \<longrightarrow> SlaveDecrypt E s (mt_MT_K tok) = Inr T))))"
proof -
  obtain mkg where mkg: "MKeyGen E rngs pairs = Some (Inr mkg)" "mkg_ok mkg"
    "length (mk_slaves mkg) = length pairs"
    using MKeyGen_returns[OF assms] by blast
  have "\<exists>tok. MTokenGen E mkg users T cid = Some (Inr tok) \<and> token_ok mkg tok \<and>
      (\<forall>s\<in>set (mk_slaves mkg). sk_uav_index s \<in> set users \<longrightarrow>
         SlaveDecrypt E s (mt_MT_K tok) = Inr (T mod sk_n s))"
    if "0 \<le> T" for users T cid
    using MTokenGen_returns[OF assms(1) mkg(2) that, of users cid] SlaveDecrypt_eq[OF assms(1) mkg(2)]
    by metis
  then show ?thesis using mkg by (metis mod_pos_pos_trivial)
qed

theorem group_key_end_to_end_witness:
  "\<exists>mkg tok. MKeyGen toy_ext (\<lambda>i k. of_nat k) [(7, 11), (23, 47)] = Some (Inr mkg) \<and>
     MTokenGen toy_ext mkg [1] 42 0 = Some (Inr tok) \<and>
     (\<forall>s\<in>set (mk_slaves mkg). sk_uav_index s = 1 \<and> 42 < sk_n s \<longrightarrow>
        SlaveDecrypt toy_ext s (mt_MT_K tok) = Inr 42)"
proof -
  have pairs: "prime_pairs_ok [(7, 11), (23, 47)]"
    using demo_primes by (simp add: prime_pairs_ok_def pair_safe_def pairs_disjoint_def)
  have "coprime (13 :: int) 3" "coprime (13 :: int) 5" "coprime (13 :: int) 11" "coprime (13 :: int) 23"
    by (simp_all add: coprime_iff_gcd_eq_1 gcd_non_0_int)
  moreover have "GenerateEi (of_nat 2) = 13" by (simp add: GenerateEi_def)
  ultimately have draws: "draws_ok (\<lambda>i k. of_nat k) [(7, 11), (23, 47)]"
    unfolding draws_ok_def by (auto simp: less_Suc_eq pair_xy_def intro!: exI[of _ 2])
  obtain mkg where mkg: "MKeyGen toy_ext (\<lambda>i k. of_nat k) [(7, 11), (23, 47)] = Some (Inr mkg)"
    and gen: "\<forall>users T cid. 0 \<le> T \<longrightarrow>
      (\<exists>tok. MTokenGen toy_ext mkg users T cid = Some (Inr tok) \<and> token_ok mkg tok \<and>
        (\<forall>s\<in>set (mk_slaves mkg). sk_uav_index s \<in> set users \<longrightarrow>
           SlaveDecrypt toy_ext s (mt_MT_K tok) = Inr (T mod sk_n s) \<and>
           (T < sk_n s \<longrightarrow> SlaveDecrypt toy_ext s (mt_MT_K tok) = Inr T)))"
    using group_key_end_to_end[OF toy_powm toy_gcd pairs draws] by blast
  from gen[rule_format, of 42 "[1]" 0] mkg show ?thesis by auto
qed

text \<open>
  C2.  Members and only members: however joins and leaves are sequenced (each join
  of a known slave that is not a member, each leave of a member), the slaves
  whose decryption exponent undoes the exponent of their cluster's current
  token are exactly the members according to the joins and leaves, and
  \<open>VerifyAll\<close> finds that every member recovers its cluster's key.
\<close>

theorem manager_run_members:
  assumes "manager_ok (E, cm)" "guarded_run crt_guard crt_step (E, cm) evs"
    and "unat (cm_num_clusters cm) \<le> length (cm_clusters cm)"
  shows "crt_readers (foldl crt_step (E, cm) evs) = fold crt_change evs (crt_members (E, cm)) \<and>
    VerifyAll E (snd (foldl crt_step (E, cm) evs)) = Inr True"
proof
  show "crt_readers (foldl crt_step (E, cm) evs) = fold crt_change evs (crt_members (E, cm))"
    by (rule crt.run_readers[OF assms(1,2)])
  have "fst (foldl crt_step st evs) = fst st" for st
    by (induction evs arbitrary: st) (auto simp: crt_step_def split: crt_event.split option.split prod.split)
  moreover have "unat (cm_num_clusters (snd (foldl crt_step st evs))) \<le> length (cm_clusters (snd (foldl crt_step st evs)))"
    if "manager_ok st" "guarded_run crt_guard crt_step st evs"
      "unat (cm_num_clusters (snd st)) \<le> length (cm_clusters (snd st))" for st
    using that
  proof (induction evs arbitrary: st)
    case (Cons ev evs)
    obtain E cm where st: "st = (E, cm)" by (cases st)
    have "manager_ok (E, cm)" "crt_guard (E, cm) ev" using Cons.prems by (simp_all add: st)
    then obtain c cs' where "crt_step (E, cm) ev = (E, set_cluster cm c cs')"
      by (rule crt_step_effect) blast
    then have "unat (cm_num_clusters (snd (crt_step st ev))) \<le> length (cm_clusters (snd (crt_step st ev)))"
      using Cons.prems(3) by (simp add: st)
    then show ?case
      using Cons.IH[of "crt_step st ev"] crt.step_inv[of st ev] Cons.prems by simp
  qed simp
  ultimately show "VerifyAll E (snd (foldl crt_step (E, cm) evs)) = Inr True"
    using crt.run_inv[OF assms(1,2)] assms
    by (intro VerifyAll_true) (metis fst_conv prod.collapse, simp)
qed

theorem manager_run_members_witness:
  "\<exists>cm. crt_members (toy_ext, cm) = {(0, 0)} \<and>
     crt_readers (foldl crt_step (toy_ext, cm) [CrtJoin 0 1]) = {(0, 0), (0, 1)} \<and>
     VerifyAll toy_ext (snd (foldl crt_step (toy_ext, cm) [CrtJoin 0 1])) = Inr True"
proof -
  obtain tok where tok: "token_ok demo_mkg tok" "mt_user_indices tok = [0]" using demo_token by blast
  define cm where "cm = \<lparr> cm_initialized = True, cm_num_clusters = 1, cm_num_uavs = 2,
    cm_uavs_per_cluster = 2, cm_clusters = [\<lparr> cs_cluster_id = 0, cs_mkg = demo_mkg, cs_mtoken = tok,
      cs_tek = replicate 32 0, cs_rekey_count = 0, cs_initialized = True \<rparr>] \<rparr>"
  have ok: "manager_ok (toy_ext, cm)" using demo_manager_ok[OF tok(1)] by (simp add: cm_def)
  have mem: "is_member cm c j \<longleftrightarrow> c = 0 \<and> j = 0" for c j
    using tok(2) by (auto simp: is_member_def cm_def cluster_at_def demo_mkg_def demo_slave0_def
        demo_slave1_def unat_eq_0)
  have guard: "guarded_run crt_guard crt_step (toy_ext, cm) [CrtJoin 0 1]"
    using mem by (simp add: crt_guard_def) (simp add: cm_def cluster_at_def find_slave_def demo_mkg_def
        demo_slave0_def demo_slave1_def)
  have num: "unat (cm_num_clusters cm) \<le> length (cm_clusters cm)" by (simp add: cm_def)
  have start: "crt_members (toy_ext, cm) = {(0, 0)}" using mem by (auto simp: crt_members_def)
  with manager_run_members[OF ok guard num] have
    "crt_readers (foldl crt_step (toy_ext, cm) [CrtJoin 0 1]) = {(0, 0), (0, 1)} \<and>
     VerifyAll toy_ext (snd (foldl crt_step (toy_ext, cm) [CrtJoin 0 1])) = Inr True"
    by (auto simp: crt_change_def)
  with start show ?thesis by blast
qed

theorem key_update_eq_regeneration_witness:
  "\<exists>cur tok. token_ok demo_mkg cur \<and> mt_user_indices cur = [0] \<and>
     MTokenGen toy_ext demo_mkg [0, 1] (mt_T cur) (mt_cluster_id cur) = Some (Inr tok) \<and>
     JoKeyUpdate toy_ext demo_mkg cur 1 = Some (Inr (tok \<lparr> mt_version := mt_version cur + 1 \<rparr>))"
proof -
  obtain cur where cur: "token_ok demo_mkg cur" "mt_user_indices cur = [0]" using demo_token by blast
  have "find_slave demo_mkg 1 = Some demo_slave1"
    by (simp add: find_slave_def demo_mkg_def demo_slave0_def demo_slave1_def)
  from key_update_eq_regeneration[OF toy_powm demo_mkg_ok cur(1) this] cur(2)
  obtain tok where "MTokenGen toy_ext demo_mkg [0, 1] (mt_T cur) (mt_cluster_id cur) = Some (Inr tok)"
    "JoKeyUpdate toy_ext demo_mkg cur 1 = Some (Inr (tok \<lparr> mt_version := mt_version cur + 1 \<rparr>))"
    by auto
  with cur show ?thesis by blast
qed

text \<open>
  An exponent that holds the contribution of the slave with index \<open>i\<close> \<open>k i\<close> times
  (a leave of a slave that is not there makes the count negative).
\<close>

definition copies :: "MKeyGenResult \<Rightarrow> int \<Rightarrow> (u32 \<Rightarrow> int) \<Rightarrow> bool" where
  "copies mkg e k \<longleftrightarrow> (\<forall>s\<in>set (mk_slaves mkg). e mod sk_xy s = k (sk_uav_index s) * sk_e s mod sk_xy s)"

lemma copies_sum:
  assumes "mkg_ok mkg" "e mod mk_n_total mkg = group_sum (mk_slaves mkg) users mod mk_n_total mkg"
  shows "copies mkg e (\<lambda>i. if i \<in> set users then 1 else 0)"
  using sum_residue[OF assms] by (simp add: copies_def in_group_iff)

lemma copies_add:
  assumes "mkg_ok mkg" "s \<in> set (mk_slaves mkg)" "copies mkg e k"
    and "y mod mk_n_total mkg = (e + b * slave_contribution s) mod mk_n_total mkg"
  shows "copies mkg y (k(sk_uav_index s := k (sk_uav_index s) + b))"
  unfolding copies_def
proof
  fix t assume t: "t \<in> set (mk_slaves mkg)"
  have inj: "inj_on sk_uav_index (set (mk_slaves mkg))" using assms(1) by (simp add: mkg_ok_def distinct_map)
  have "y mod sk_xy t = y mod mk_n_total mkg mod sk_xy t" using mkg_slave(2)[OF assms(1) t] by (simp add: mod_mod_cancel)
  also have "\<dots> = (e + b * slave_contribution s) mod sk_xy t"
    using assms(4) mkg_slave(2)[OF assms(1) t] by (simp add: mod_mod_cancel)
  also have "\<dots> = (k(sk_uav_index s := k (sk_uav_index s) + b)) (sk_uav_index t) * sk_e t mod sk_xy t"
  proof (cases "t = s")
    case True
    have "(e + b * slave_contribution t) mod sk_xy t = (k (sk_uav_index t) * sk_e t + b * sk_e t) mod sk_xy t"
      using assms(3) t contribution_residue[OF mkg_slave(1)[OF assms(1) t]]
      by (intro mod_add_cong mod_mult_cong) (simp_all add: copies_def)
    with True show ?thesis by (simp add: algebra_simps)
  next
    case False
    then have "sk_uav_index t \<noteq> sk_uav_index s" using inj t assms(2) by (auto dest: inj_onD)
    moreover have "b * slave_contribution s mod sk_xy t = 0"
      using contribution_other[OF assms(1) t assms(2)] False by (auto simp: dvd_eq_mod_eq_0[symmetric])
    ultimately show ?thesis using assms(3) t by (simp add: copies_def mod_add_eq[symmetric])
  qed
  finally show "y mod sk_xy t = (k(sk_uav_index s := k (sk_uav_index s) + b)) (sk_uav_index t) * sk_e t mod sk_xy t" .
qed

text \<open>\<open>JoKeyUpdate\<close> adds one copy and \<open>LeKeyUpdate\<close> takes one away, whoever the members are.\<close>

lemma finish_token_copies:
  assumes "powm_law E" "mkg_ok mkg" "0 \<le> T" "s \<in> set (mk_slaves mkg)" "copies mkg e k"
  shows "\<exists>tok. finish_token E mkg (e + b * slave_contribution s) T users c v = Some (Inr tok) \<and>
    copies mkg (mt_e_MK tok) (k(sk_uav_index s := k (sk_uav_index s) + b)) \<and> mt_e_MK tok mod 4 = 1 \<and>
    mt_T tok = T \<and> mt_user_indices tok = users \<and> mt_cluster_id tok = c \<and> mt_version tok = v"
proof -
  define e' where "e' = e + b * slave_contribution s"
  have n: "0 < mk_n_total mkg" "odd (mk_n_total mkg)" using assms(2) by (simp_all add: mkg_ok_def)
  obtain y where y: "enforce_mod4 (mk_n_total mkg) (e' mod mk_n_total mkg) = Some y" "y mod 4 = 1"
    "y mod mk_n_total mkg = e' mod mk_n_total mkg" "e' mod mk_n_total mkg \<le> y"
    using enforce_mod4_odd[OF n(2), of "e' mod mk_n_total mkg"] n(1) by auto
  have "0 \<le> y" using y(4) pos_mod_sign[OF n(1), of e'] by linarith
  then have "\<exists>tok. finish_token E mkg e' T users c v = Some (Inr tok) \<and> mt_e_MK tok = y \<and>
      mt_T tok = T \<and> mt_user_indices tok = users \<and> mt_cluster_id tok = c \<and> mt_version tok = v"
    using y(1) n(1) assms(3) ModPow_ok[OF assms(1)] group_modulus_pos[OF assms(2)]
    by (simp add: finish_token_def Mod_pos cret_def Let_def)
  moreover have "copies mkg y (k(sk_uav_index s := k (sk_uav_index s) + b))"
    by (rule copies_add[OF assms(2,4,5) y(3)[unfolded e'_def]])
  ultimately show ?thesis using y(2) unfolding e'_def by auto
qed

lemma JoKeyUpdate_copies:
  assumes "powm_law E" "mkg_ok mkg" "find_slave mkg j = Some s" "0 \<le> mt_T cur" "copies mkg (mt_e_MK cur) k"
  shows "\<exists>tok. JoKeyUpdate E mkg cur j = Some (Inr tok) \<and> copies mkg (mt_e_MK tok) (k(j := k j + 1)) \<and>
    mt_e_MK tok mod 4 = 1 \<and> mt_T tok = mt_T cur \<and> mt_user_indices tok = mt_user_indices cur @ [j]"
  using find_slave_Some[OF assms(3)] finish_token_copies[OF assms(1,2,4) _ assms(5), of s 1 "mt_user_indices cur @ [j]"
      "mt_cluster_id cur" "mt_version cur + 1"]
  by (auto simp: JoKeyUpdate_def assms(3))

lemma LeKeyUpdate_copies:
  assumes "powm_law E" "mkg_ok mkg" "find_slave mkg j = Some s" "0 \<le> mt_T cur" "copies mkg (mt_e_MK cur) k"
  shows "\<exists>tok. LeKeyUpdate E mkg cur j = Some (Inr tok) \<and> copies mkg (mt_e_MK tok) (k(j := k j - 1)) \<and>
    mt_e_MK tok mod 4 = 1 \<and> mt_T tok = mt_T cur \<and> mt_user_indices tok = filter (\<lambda>i. i \<noteq> j) (mt_user_indices cur)"
  using find_slave_Some[OF assms(3)] finish_token_copies[OF assms(1,2,4) _ assms(5), of s "- 1" "filter (\<lambda>i. i \<noteq> j) (mt_user_indices cur)"
      "mt_cluster_id cur" "mt_version cur + 1"]
  by (auto simp: LeKeyUpdate_def assms(3))

text \<open>What an exponent with \<open>k\<close> copies of a slave's contribution does to that slave.\<close>

lemma copies_residue:
  assumes "mkg_ok mkg" "copies mkg e k" "s \<in> set (mk_slaves mkg)"
  shows "e * sk_d s mod sk_xy s = k (sk_uav_index s) mod sk_xy s"
proof -
  have ok: "slave_ok s" by (rule mkg_slave(1)[OF assms(1,3)])
  have ed: "sk_e s * sk_d s mod sk_xy s = 1"
    using mod_of_mult(2)[OF slave_e_d(1)[OF ok]] slave_facts(9)[OF ok] by simp
  have "e * sk_d s mod sk_xy s = k (sk_uav_index s) * sk_e s * sk_d s mod sk_xy s"
    using assms(2,3) by (intro mod_mult_cong) (simp_all add: copies_def)
  also have "\<dots> = k (sk_uav_index s) * (sk_e s * sk_d s mod sk_xy s) mod sk_xy s"
    by (simp add: mult.assoc mod_mult_right_eq)
  finally show ?thesis by (simp add: ed)
qed

lemma copies_fit:
  assumes "mkg_ok mkg" "copies mkg e k" "s \<in> set (mk_slaves mkg)" "e mod 4 = 1"
  shows "e * sk_d s mod ((sk_p s - 1) * (sk_q s - 1)) = 1 \<longleftrightarrow> k (sk_uav_index s) mod sk_xy s = 1"
proof -
  have ok: "slave_ok s" by (rule mkg_slave(1)[OF assms(1,3)])
  note facts = slave_facts(5,6,9)[OF ok]
  have "sk_e s mod 4 = 1" using ok by (simp add: slave_ok_def)
  then have "sk_d s mod 4 = sk_e s * sk_d s mod 4" by (simp add: mod_mult_left_eq[symmetric])
  also have "\<dots> = 1 mod 4" by (rule mod_of_mult(1)[OF slave_e_d(1)[OF ok]])
  finally have "e * sk_d s mod 4 = 1" using assms(4) by (simp add: mod_mult_eq[symmetric])
  then have "e * sk_d s mod (4 * sk_xy s) = 1 mod (4 * sk_xy s) \<longleftrightarrow> e * sk_d s mod sk_xy s = 1 mod sk_xy s"
    using mod_mult_coprime[OF facts(2), of "e * sk_d s" 1] mod_of_mult(2)[of "e * sk_d s" 4 "sk_xy s" 1] by auto
  then show ?thesis using copies_residue[OF assms(1-3)] facts by simp
qed

lemma copies_misfit:
  assumes "mkg_ok mkg" "copies mkg e k" "s \<in> set (mk_slaves mkg)" "k (sk_uav_index s) = 2"
  shows "e * sk_d s mod ((sk_p s - 1) * (sk_q s - 1)) \<noteq> 1"
proof
  assume one: "e * sk_d s mod ((sk_p s - 1) * (sk_q s - 1)) = 1"
  note facts = slave_facts[OF mkg_slave(1)[OF assms(1,3)]]
  have "e * sk_d s mod (4 * sk_xy s) mod sk_xy s = e * sk_d s mod sk_xy s" by (simp add: mod_mod_cancel)
  then have "2 mod sk_xy s = 1 mod sk_xy s" using one facts(5) copies_residue[OF assms(1-3)] assms(4) by simp
  then have "sk_xy s dvd 2 - 1" by (simp only: mod_eq_dvd_iff)
  then show False using facts(9) by simp
qed

lemma copies_none:
  assumes "mkg_ok mkg" "copies mkg e k" "s \<in> set (mk_slaves mkg)" "k (sk_uav_index s) = 0"
  shows "e * d mod ((sk_p s - 1) * (sk_q s - 1)) \<noteq> 1"
proof
  assume one: "e * d mod ((sk_p s - 1) * (sk_q s - 1)) = 1"
  note facts = slave_facts[OF mkg_slave(1)[OF assms(1,3)]]
  have "sk_xy s dvd e" using assms(2-4) by (simp add: copies_def dvd_eq_mod_eq_0)
  then have "e * d mod (4 * sk_xy s) mod sk_xy s = 0" by (simp add: mod_mod_cancel)
  then show False using one facts(5,9) by simp
qed

text \<open>A sequence of updates: joins (\<open>True\<close>) and leaves by index.\<close>

primrec key_updates :: "ext \<Rightarrow> MKeyGenResult \<Rightarrow> (bool \<times> u32) list \<Rightarrow> MTokenResult \<Rightarrow> MTokenResult comp" where
  "key_updates E mkg [] cur = cret cur"
| "key_updates E mkg (ev # evs) cur =
     cbind (if fst ev then JoKeyUpdate E mkg cur (snd ev) else LeKeyUpdate E mkg cur (snd ev))
       (\<lambda>tok. key_updates E mkg evs tok)"

lemma key_updates_copies:
  assumes "powm_law E" "mkg_ok mkg"
  shows "0 \<le> mt_T cur \<Longrightarrow> copies mkg (mt_e_MK cur) k \<Longrightarrow> \<forall>ev\<in>set evs. snd ev \<noteq> j \<and> find_slave mkg (snd ev) \<noteq> None \<Longrightarrow>
    \<exists>tok k'. key_updates E mkg evs cur = Some (Inr tok) \<and> copies mkg (mt_e_MK tok) k' \<and> k' j = k j"
proof (induction evs arbitrary: cur k)
  case Nil
  then show ?case by (auto simp: cret_def)
next
  case (Cons ev evs)
  obtain s where s: "find_slave mkg (snd ev) = Some s" and j: "snd ev \<noteq> j" using Cons.prems(3) by auto
  let ?update = "if fst ev then JoKeyUpdate E mkg cur (snd ev) else LeKeyUpdate E mkg cur (snd ev)"
  obtain tok k1 where tok: "?update = Some (Inr tok)" "copies mkg (mt_e_MK tok) k1" "k1 j = k j" "mt_T tok = mt_T cur"
    using JoKeyUpdate_copies[OF assms s Cons.prems(1,2)] LeKeyUpdate_copies[OF assms s Cons.prems(1,2)] j
    by (cases "fst ev") force+
  show ?case using Cons.IH[OF _ tok(2)] Cons.prems(1,3) tok by simp
qed

text \<open>
  C6.  Non-members are locked out.  \<open>MTokenGen\<close> for a member set without a slave returns
  a token whose exponent no exponent inverts modulo the order \<open>(p - 1) * (q - 1)\<close>
  of that slave's group, its own \<open>d\<close> included.  The same holds of the token that
  \<open>LeKeyUpdate\<close> returns for a member that leaves, whose \<open>d\<close> did invert the token's exponent before,
  and still holds after any sequence of \<open>JoKeyUpdate\<close> and \<open>LeKeyUpdate\<close> calls for
  other slaves of the cluster, none of which fails.
\<close>

theorem nonmember_no_exponent:
  assumes "powm_law E" "mkg_ok mkg" "find_slave mkg j = Some s"
  defines "locked_out \<equiv> \<lambda>tok. \<forall>d. mt_e_MK tok * d mod ((sk_p s - 1) * (sk_q s - 1)) \<noteq> 1"
  shows "(\<forall>users T cid. 0 \<le> T \<and> j \<notin> set users \<longrightarrow>
      (\<exists>tok. MTokenGen E mkg users T cid = Some (Inr tok) \<and> locked_out tok)) \<and>
    (\<forall>cur. token_ok mkg cur \<and> j \<in> set (mt_user_indices cur) \<longrightarrow>
      mt_e_MK cur * sk_d s mod ((sk_p s - 1) * (sk_q s - 1)) = 1 \<and>
      (\<exists>tok. LeKeyUpdate E mkg cur j = Some (Inr tok) \<and>
        (\<forall>evs. (\<forall>ev\<in>set evs. snd ev \<noteq> j \<and> find_slave mkg (snd ev) \<noteq> None) \<longrightarrow>
          (\<exists>tok'. key_updates E mkg evs tok = Some (Inr tok') \<and> locked_out tok'))))"
proof (intro conjI allI impI; (elim conjE)?)
  have s: "s \<in> set (mk_slaves mkg)" "sk_uav_index s = j" using find_slave_Some[OF assms(3)] by simp_all
  have lock: "locked_out tok" if "copies mkg (mt_e_MK tok) k" "k j = 0" for tok k
    unfolding locked_out_def using copies_none[OF assms(2) that(1) s(1)] that(2) s(2) by simp
  have start: "copies mkg (mt_e_MK tok) (\<lambda>i. if i \<in> set (mt_user_indices tok) then 1 else 0)" if "token_ok mkg tok" for tok
    using that by (intro copies_sum[OF assms(2)]) (simp add: token_ok_def)
  show "\<exists>tok. MTokenGen E mkg users T cid = Some (Inr tok) \<and> locked_out tok" if "0 \<le> T" "j \<notin> set users" for users T cid
    using MTokenGen_returns[OF assms(1,2) that(1), of users cid] start lock that(2) by fastforce
  fix cur assume cur: "token_ok mkg cur" "j \<in> set (mt_user_indices cur)"
  show "mt_e_MK cur * sk_d s mod ((sk_p s - 1) * (sk_q s - 1)) = 1"
    using exponent_fits_iff[OF assms(2) cur(1) s(1)] cur(2) s(2) by simp
  have T: "0 \<le> mt_T cur" using cur(1) by (simp add: token_ok_def)
  obtain tok k where tok: "LeKeyUpdate E mkg cur j = Some (Inr tok)" "copies mkg (mt_e_MK tok) k" "k j = 0" "0 \<le> mt_T tok"
    using LeKeyUpdate_copies[OF assms(1-3) T start[OF cur(1)]] cur(2) T by fastforce
  have "\<exists>tok'. key_updates E mkg evs tok = Some (Inr tok') \<and> locked_out tok'"
    if "\<forall>ev\<in>set evs. snd ev \<noteq> j \<and> find_slave mkg (snd ev) \<noteq> None" for evs
    using key_updates_copies[OF assms(1,2) tok(4,2) that] tok(3) lock by metis
  with tok(1) show "\<exists>tok. LeKeyUpdate E mkg cur j = Some (Inr tok) \<and>
      (\<forall>evs. (\<forall>ev\<in>set evs. snd ev \<noteq> j \<and> find_slave mkg (snd ev) \<noteq> None) \<longrightarrow>
        (\<exists>tok'. key_updates E mkg evs tok = Some (Inr tok') \<and> locked_out tok'))" by blast
qed

theorem nonmember_no_exponent_witness:
  "\<exists>cur tok tok'. MTokenGen toy_ext demo_mkg [0] 42 7 = Some (Inr cur) \<and> mt_e_MK cur * 37 mod (6 * 10) = 1 \<and>
     LeKeyUpdate toy_ext demo_mkg cur 0 = Some (Inr tok) \<and> key_updates toy_ext demo_mkg [(True, 1), (False, 1)] tok = Some (Inr tok') \<and>
     (\<forall>d. mt_e_MK tok' * d mod (6 * 10) \<noteq> 1)"
proof -
  obtain cur where cur: "MTokenGen toy_ext demo_mkg [0] 42 7 = Some (Inr cur)" "token_ok demo_mkg cur"
    "mt_user_indices cur = [0]" using demo_token by blast
  have s: "find_slave demo_mkg 0 = Some demo_slave0" "find_slave demo_mkg 1 \<noteq> None"
    by (simp_all add: find_slave_def demo_mkg_def demo_slave0_def demo_slave1_def)
  have nums: "sk_p demo_slave0 = 7" "sk_q demo_slave0 = 11" "sk_d demo_slave0 = 37" by (simp_all add: demo_slave0_def)
  note law = nonmember_no_exponent[OF toy_powm demo_mkg_ok s(1), THEN conjunct2, rule_format, of cur, unfolded nums]
  have before: "mt_e_MK cur * 37 mod ((7 - 1) * (11 - 1)) = 1" using law cur(2,3) by simp
  obtain tok where tok: "LeKeyUpdate toy_ext demo_mkg cur 0 = Some (Inr tok)"
    and run: "\<forall>evs. (\<forall>ev\<in>set evs. snd ev \<noteq> 0 \<and> find_slave demo_mkg (snd ev) \<noteq> None) \<longrightarrow>
      (\<exists>tok'. key_updates toy_ext demo_mkg evs tok = Some (Inr tok') \<and> (\<forall>d. mt_e_MK tok' * d mod ((7 - 1) * (11 - 1)) \<noteq> 1))"
    using law cur(2,3) by auto
  have "\<forall>ev\<in>set [(True, 1), (False, 1)]. snd ev \<noteq> 0 \<and> find_slave demo_mkg (snd ev) \<noteq> None" using s(2) by simp
  then obtain tok' where "key_updates toy_ext demo_mkg [(True, 1), (False, 1)] tok = Some (Inr tok')"
    "\<forall>d. mt_e_MK tok' * d mod ((7 - 1) * (11 - 1)) \<noteq> 1"
    using run by blast
  with before cur(1) tok show ?thesis by (intro exI[of _ cur] exI[of _ tok] exI[of _ tok']) simp
qed

lemma double_contribution:
  assumes "powm_law E" "mkg_ok mkg" "find_slave mkg j = Some s" "j \<in> set users"
    and "0 \<le> mt_T cur" "mt_e_MK cur mod mk_n_total mkg = group_sum (mk_slaves mkg) users mod mk_n_total mkg"
  shows "\<exists>tok. JoKeyUpdate E mkg cur j = Some (Inr tok) \<and> mt_user_indices tok = mt_user_indices cur @ [j] \<and>
    mt_e_MK tok * sk_d s mod ((sk_p s - 1) * (sk_q s - 1)) \<noteq> 1"
proof -
  have s: "s \<in> set (mk_slaves mkg)" "sk_uav_index s = j" using find_slave_Some[OF assms(3)] by simp_all
  from JoKeyUpdate_copies[OF assms(1-3,5) copies_sum[OF assms(2,6)]] copies_misfit[OF assms(2) _ s(1)] assms(4) s(2)
  show ?thesis by fastforce
qed

text \<open>
  C11.  A duplicate join locks the member out: if \<open>JoKeyUpdate\<close> is called for a slave
  that already is a member (the code does not refuse it) its contribution is
  added twice, and no longer does that slave's exponent undo the token's.
\<close>

theorem duplicate_join_locks_out:
  assumes "powm_law E" "mkg_ok mkg" "token_ok mkg cur" "find_slave mkg j = Some s" "j \<in> set (mt_user_indices cur)"
  shows "\<exists>tok. JoKeyUpdate E mkg cur j = Some (Inr tok) \<and>
    mt_e_MK tok * sk_d s mod ((sk_p s - 1) * (sk_q s - 1)) \<noteq> 1"
  using double_contribution[OF assms(1,2,4,5)] assms(3) by (auto simp: token_ok_def)

theorem duplicate_join_locks_out_witness:
  "\<exists>cur tok. token_ok demo_mkg cur \<and> JoKeyUpdate toy_ext demo_mkg cur 0 = Some (Inr tok) \<and>
     mt_e_MK tok * 37 mod (6 * 10) \<noteq> 1"
proof -
  obtain cur where cur: "token_ok demo_mkg cur" "mt_user_indices cur = [0]" using demo_token by blast
  have "find_slave demo_mkg 0 = Some demo_slave0"
    by (simp add: find_slave_def demo_mkg_def demo_slave0_def)
  from duplicate_join_locks_out[OF toy_powm demo_mkg_ok cur(1) this] cur show ?thesis
    by (auto simp: demo_slave0_def)
qed

text \<open>
  C10.  \<open>ProcessLeave\<close> of a member removes it from the token and rotates the cluster's
  TEK, but the key \<open>T\<close> that the new token distributes is still the old one: what
  the remaining members decrypt is the key the leaver already had, and the
  rotated TEK is not what any member can derive from the token.
\<close>

theorem ProcessLeave_effect:
  assumes "manager_ok (E, cm)" "is_member cm c j"
  shows "\<exists>cm' tok. ProcessLeave E nonce now cm c j = Some (cm', Inr tok) \<and>
    j \<notin> set (mt_user_indices tok) \<and> cs_mtoken (cluster_at cm' c) = tok \<and> token_ok (cs_mkg (cluster_at cm c)) tok \<and>
    mt_T tok = mt_T (cs_mtoken (cluster_at cm c)) \<and>
    cs_tek (cluster_at cm' c) =
      x_sha256 E (cs_tek (cluster_at cm c) @ cs_tek (cluster_at cm c) @ be64 now @ nonce) \<and>
    cs_rekey_count (cluster_at cm' c) = cs_rekey_count (cluster_at cm c) + 1"
proof -
  define cs where "cs = cluster_at cm c"
  have c: "unat c < length (cm_clusters cm)" using assms(2) by (simp add: is_member_def)
  have cs: "mkg_ok (cs_mkg cs)" "token_ok (cs_mkg cs) (cs_mtoken cs)" "powm_law E" "sha256_law E"
    using cluster_at_ok[OF assms(1)] c assms(1) by (simp_all add: cs_def manager_ok_def)
  obtain s where s: "find_slave (cs_mkg cs) j = Some s" and j: "j \<in> set (mt_user_indices (cs_mtoken cs))"
    using assms(2) find_slave_in[OF cs(1)] by (auto simp: is_member_def cs_def)
  obtain tok where "LeKeyUpdate E (cs_mkg cs) (cs_mtoken cs) j = Some (Inr tok)"
    "token_ok (cs_mkg cs) tok" "mt_T tok = mt_T (cs_mtoken cs)"
    "mt_user_indices tok = filter (\<lambda>idx. idx \<noteq> j) (mt_user_indices (cs_mtoken cs))"
    using LeKeyUpdate_ok[OF cs(3,1,2) s j] by blast
  then show ?thesis
    using c cs(4) by (simp add: ProcessLeave_def GetClusterState_at[OF c] cs_def[symmetric] RotateTek_def)
qed

theorem ProcessLeave_effect_witness:
  "\<exists>cm cm' tok. is_member cm 0 0 \<and> ProcessLeave toy_ext [1] 5 cm 0 0 = Some (cm', Inr tok) \<and>
     mt_T tok = mt_T (cs_mtoken (cluster_at cm 0)) \<and> 0 \<notin> set (mt_user_indices tok)"
proof -
  obtain tok where tok: "token_ok demo_mkg tok" "mt_user_indices tok = [0]" using demo_token by blast
  define cm where "cm = \<lparr> cm_initialized = True, cm_num_clusters = 1, cm_num_uavs = 2,
    cm_uavs_per_cluster = 2, cm_clusters = [\<lparr> cs_cluster_id = 0, cs_mkg = demo_mkg, cs_mtoken = tok,
      cs_tek = replicate 32 0, cs_rekey_count = 0, cs_initialized = True \<rparr>] \<rparr>"
  have "manager_ok (toy_ext, cm)" using demo_manager_ok[OF tok(1)] by (simp add: cm_def)
  moreover have mem: "is_member cm 0 0"
    using tok(2) by (simp add: is_member_def cm_def cluster_at_def demo_mkg_def demo_slave0_def)
  ultimately obtain cm' tok' where "ProcessLeave toy_ext [1] 5 cm 0 0 = Some (cm', Inr tok')"
    "mt_T tok' = mt_T (cs_mtoken (cluster_at cm 0))" "0 \<notin> set (mt_user_indices tok')"
    using ProcessLeave_effect[of toy_ext cm 0 0 "[1]" 5] by blast
  with mem show ?thesis by blast
qed

end
