(* ===== verification/Packet_Enums.thy ===== *)
theory Packet_Enums
  imports Byte_Utils
begin

text \<open>
  headers/uav-packet-enums.{h,cc}: the byte-wide enumerations of the packet
  format, the header flags, and the size and port tables.  An \<open>enum class X : u8\<close>
  is a byte under a constructor of its own: \<open>static_cast\<close> from a wire byte is
  total in C++, so a value need not be one of the named ones.  The named values
  are abbreviations; comparison of enumerators is comparison of their bytes.
\<close>

section \<open>The enumerations\<close>

datatype PacketType = PacketType (pt_raw: u8)
datatype PacketPriority = PacketPriority (prio_raw: u8)
datatype PacketFlag = PacketFlag (flag_raw: u8)
datatype AuthStatus = AuthStatus (as_raw: u8)
datatype RekeyReason = RekeyReason (rr_raw: u8)
datatype HandoverPhase = HandoverPhase (hp_raw: u8)
datatype NodeTypeCode = NodeTypeCode (nt_raw: u8)

abbreviation "PT_UNKNOWN \<equiv> PacketType 0x00"
abbreviation "AUTH_PACKET \<equiv> PacketType 0x01"
abbreviation "JOIN_PACKET \<equiv> PacketType 0x02"
abbreviation "REKEY_PACKET \<equiv> PacketType 0x03"
abbreviation "MTK_PACKET \<equiv> PacketType 0x04"
abbreviation "DATA_PACKET \<equiv> PacketType 0x05"
abbreviation "HANDOVER_PACKET \<equiv> PacketType 0x06"
abbreviation "JAMMER_ALERT \<equiv> PacketType 0x07"
abbreviation "CONTROL_PACKET \<equiv> PacketType 0x08"
abbreviation "ACK_PACKET \<equiv> PacketType 0x09"
abbreviation "LEAVE_PACKET \<equiv> PacketType 0x0A"

abbreviation "PRIO_LOW \<equiv> PacketPriority 0x00"
abbreviation "PRIO_NORMAL \<equiv> PacketPriority 0x01"
abbreviation "PRIO_HIGH \<equiv> PacketPriority 0x02"
abbreviation "PRIO_CRITICAL \<equiv> PacketPriority 0x03"

abbreviation "FLAG_NONE \<equiv> PacketFlag 0x00"
abbreviation "ENCRYPTED \<equiv> PacketFlag 0x01"
abbreviation "HAS_MTK \<equiv> PacketFlag 0x02"
abbreviation "REPLAY_PROTECTED \<equiv> PacketFlag 0x04"
abbreviation "HMAC_PRESENT \<equiv> PacketFlag 0x08"
abbreviation "FRAGMENTED \<equiv> PacketFlag 0x10"
abbreviation "LAST_FRAGMENT \<equiv> PacketFlag 0x20"
abbreviation "ACK_REQUIRED \<equiv> PacketFlag 0x40"
abbreviation "EMERGENCY \<equiv> PacketFlag 0x80"

abbreviation "AS_UNKNOWN \<equiv> AuthStatus 0x00"
abbreviation "AS_SUCCESS \<equiv> AuthStatus 0x01"
abbreviation "FAIL_HMAC \<equiv> AuthStatus 0x02"
abbreviation "FAIL_REPLAY \<equiv> AuthStatus 0x03"
abbreviation "FAIL_MTK \<equiv> AuthStatus 0x04"
abbreviation "FAIL_EXPIRED \<equiv> AuthStatus 0x05"
abbreviation "FAIL_UNKNOWN \<equiv> AuthStatus 0x06"
abbreviation "FAIL_REVOKED \<equiv> AuthStatus 0x07"
abbreviation "AS_PENDING \<equiv> AuthStatus 0x08"

abbreviation "RR_NONE \<equiv> RekeyReason 0x00"
abbreviation "RR_JOIN \<equiv> RekeyReason 0x01"
abbreviation "RR_LEAVE \<equiv> RekeyReason 0x02"
abbreviation "RR_HANDOVER \<equiv> RekeyReason 0x03"
abbreviation "RR_COMPROMISE \<equiv> RekeyReason 0x04"
abbreviation "RR_PERIODIC \<equiv> RekeyReason 0x05"
abbreviation "RR_JAMMER \<equiv> RekeyReason 0x06"
abbreviation "RR_FORCED \<equiv> RekeyReason 0x07"

abbreviation "HP_NONE \<equiv> HandoverPhase 0x00"
abbreviation "HP_INITIATED \<equiv> HandoverPhase 0x01"
abbreviation "HP_OLD_LEAVE \<equiv> HandoverPhase 0x02"
abbreviation "HP_NEW_JOIN \<equiv> HandoverPhase 0x03"
abbreviation "HP_OLD_REKEY \<equiv> HandoverPhase 0x04"
abbreviation "HP_NEW_REKEY \<equiv> HandoverPhase 0x05"
abbreviation "HP_COMPLETE \<equiv> HandoverPhase 0x06"
abbreviation "HP_FAILED \<equiv> HandoverPhase 0x07"

abbreviation "NT_UNKNOWN \<equiv> NodeTypeCode 0x00"
abbreviation "NT_KDC \<equiv> NodeTypeCode 0x01"
abbreviation "NT_SKDC \<equiv> NodeTypeCode 0x02"
abbreviation "NT_UAV \<equiv> NodeTypeCode 0x03"
abbreviation "NT_JAMMER \<equiv> NodeTypeCode 0x04"

definition PROTOCOL_VERSION :: u8 where "PROTOCOL_VERSION = 1"
definition PROTOCOL_MAGIC :: u16 where "PROTOCOL_MAGIC = 0x5541"

definition IsValidPacketType :: "u8 \<Rightarrow> bool" where
  "IsValidPacketType raw = (raw \<ge> 0x01 \<and> raw \<le> 0x0A)"

definition IsAuthSuccess :: "AuthStatus \<Rightarrow> bool" where
  "IsAuthSuccess s = (s = AS_SUCCESS)"

text \<open>Priorities are ordered by their byte.\<close>

instantiation PacketPriority :: linorder
begin

definition less_eq_PacketPriority :: "PacketPriority \<Rightarrow> PacketPriority \<Rightarrow> bool" where
  "less_eq_PacketPriority a b = (prio_raw a \<le> prio_raw b)"

definition less_PacketPriority :: "PacketPriority \<Rightarrow> PacketPriority \<Rightarrow> bool" where
  "less_PacketPriority a b = (prio_raw a < prio_raw b)"

instance
  by standard (auto simp: less_eq_PacketPriority_def less_PacketPriority_def prio_raw_def
      split: PacketPriority.splits)

end

section \<open>Header flags\<close>

definition Flag_or :: "PacketFlag \<Rightarrow> PacketFlag \<Rightarrow> PacketFlag" where
  "Flag_or a b = PacketFlag (flag_raw a OR flag_raw b)"

definition HasFlag :: "PacketFlag \<Rightarrow> PacketFlag \<Rightarrow> bool" where
  "HasFlag flags test = (flag_raw flags AND flag_raw test \<noteq> 0)"

definition SetFlag :: "PacketFlag \<Rightarrow> PacketFlag \<Rightarrow> PacketFlag" where
  "SetFlag flags f = Flag_or flags f"

definition ClearFlag :: "PacketFlag \<Rightarrow> PacketFlag \<Rightarrow> PacketFlag" where
  "ClearFlag flags f = PacketFlag (flag_raw flags AND NOT (flag_raw f))"

section \<open>Names\<close>

text \<open>A \<open>switch\<close> over the enumerators that returns a literal is a table with a default.\<close>

definition name_in :: "('a \<times> string) list \<Rightarrow> string \<Rightarrow> 'a \<Rightarrow> string" where
  "name_in tab dflt x = (case map_of tab x of None \<Rightarrow> dflt | Some s \<Rightarrow> s)"

definition PacketTypeToString :: "PacketType \<Rightarrow> string" where
  "PacketTypeToString = name_in
     [(PT_UNKNOWN, ''UNKNOWN''), (AUTH_PACKET, ''AUTH''), (JOIN_PACKET, ''JOIN''),
      (REKEY_PACKET, ''REKEY''), (MTK_PACKET, ''MTK''), (DATA_PACKET, ''DATA''),
      (HANDOVER_PACKET, ''HANDOVER''), (JAMMER_ALERT, ''JAMMER_ALERT''),
      (CONTROL_PACKET, ''CONTROL''), (ACK_PACKET, ''ACK''), (LEAVE_PACKET, ''LEAVE'')] ''UNKNOWN''"

definition PacketPriorityToString :: "PacketPriority \<Rightarrow> string" where
  "PacketPriorityToString = name_in
     [(PRIO_LOW, ''LOW''), (PRIO_NORMAL, ''NORMAL''), (PRIO_HIGH, ''HIGH''),
      (PRIO_CRITICAL, ''CRITICAL'')] ''UNKNOWN''"

definition AuthStatusToString :: "AuthStatus \<Rightarrow> string" where
  "AuthStatusToString = name_in
     [(AS_UNKNOWN, ''UNKNOWN''), (AS_SUCCESS, ''SUCCESS''), (FAIL_HMAC, ''FAIL_HMAC''),
      (FAIL_REPLAY, ''FAIL_REPLAY''), (FAIL_MTK, ''FAIL_MTK''), (FAIL_EXPIRED, ''FAIL_EXPIRED''),
      (FAIL_UNKNOWN, ''FAIL_UNKNOWN''), (FAIL_REVOKED, ''FAIL_REVOKED''),
      (AS_PENDING, ''PENDING'')] ''UNKNOWN''"

definition RekeyReasonToString :: "RekeyReason \<Rightarrow> string" where
  "RekeyReasonToString = name_in
     [(RR_NONE, ''NONE''), (RR_JOIN, ''JOIN''), (RR_LEAVE, ''LEAVE''), (RR_HANDOVER, ''HANDOVER''),
      (RR_COMPROMISE, ''COMPROMISE''), (RR_PERIODIC, ''PERIODIC''), (RR_JAMMER, ''JAMMER''),
      (RR_FORCED, ''FORCED'')] ''NONE''"

definition HandoverPhaseToString :: "HandoverPhase \<Rightarrow> string" where
  "HandoverPhaseToString = name_in
     [(HP_NONE, ''NONE''), (HP_INITIATED, ''INITIATED''), (HP_OLD_LEAVE, ''OLD_LEAVE''),
      (HP_NEW_JOIN, ''NEW_JOIN''), (HP_OLD_REKEY, ''OLD_REKEY''), (HP_NEW_REKEY, ''NEW_REKEY''),
      (HP_COMPLETE, ''COMPLETE''), (HP_FAILED, ''FAILED'')] ''NONE''"

definition NodeTypeCodeToString :: "NodeTypeCode \<Rightarrow> string" where
  "NodeTypeCodeToString = name_in
     [(NT_UNKNOWN, ''UNKNOWN''), (NT_KDC, ''KDC''), (NT_SKDC, ''SKDC''), (NT_UAV, ''UAV''),
      (NT_JAMMER, ''JAMMER'')] ''UNKNOWN''"

text \<open>\<open>PacketFlagsToString\<close>: the names of the set flags, joined by a bar.\<close>

definition flag_names :: "(PacketFlag \<times> string) list" where
  "flag_names =
     [(ENCRYPTED, ''ENC''), (HAS_MTK, ''MTK''), (REPLAY_PROTECTED, ''RPL''), (HMAC_PRESENT, ''HMAC''),
      (FRAGMENTED, ''FRAG''), (LAST_FRAGMENT, ''LAST''), (ACK_REQUIRED, ''ACK''), (EMERGENCY, ''EMRG'')]"

fun append_name :: "string \<times> bool \<Rightarrow> string \<Rightarrow> string \<times> bool" where
  "append_name (oss, first) name = ((if \<not> first then oss @ ''|'' else oss) @ name, False)"

definition PacketFlagsToString :: "PacketFlag \<Rightarrow> string" where
  "PacketFlagsToString flags =
     (if flag_raw flags = 0 then ''NONE''
      else fst (foldl (\<lambda>acc (f, name). if HasFlag flags f then append_name acc name else acc)
                      ('''', True) flag_names))"

section \<open>Sizes and ports\<close>

definition CONTROL_PACKET_SIZE :: nat where "CONTROL_PACKET_SIZE = 256"
definition REKEY_PACKET_SIZE :: nat where "REKEY_PACKET_SIZE = 512"
definition DATA_PACKET_SIZE :: nat where "DATA_PACKET_SIZE = 1024"
definition TOTAL_OVERHEAD :: nat where "TOTAL_OVERHEAD = 32 + 28 + 32 + 32"

definition TotalSize :: "PacketType \<Rightarrow> nat" where
  "TotalSize t =
     (if t \<in> set [AUTH_PACKET, JOIN_PACKET, LEAVE_PACKET, ACK_PACKET, JAMMER_ALERT,
                  CONTROL_PACKET, HANDOVER_PACKET] then CONTROL_PACKET_SIZE
      else if t \<in> set [REKEY_PACKET, MTK_PACKET] then REKEY_PACKET_SIZE
      else if t = DATA_PACKET then DATA_PACKET_SIZE
      else CONTROL_PACKET_SIZE)"

definition PayloadCapacity :: "PacketType \<Rightarrow> nat" where
  "PayloadCapacity t =
     (let total = TotalSize t in if total \<le> TOTAL_OVERHEAD then 0 else total - TOTAL_OVERHEAD)"

definition IsValidSize :: "PacketType \<Rightarrow> nat \<Rightarrow> bool" where
  "IsValidSize t sz = (sz \<le> TotalSize t)"

definition GetPort :: "PacketType \<Rightarrow> u16" where
  "GetPort t =
     (case map_of
        [(AUTH_PACKET, 9300), (JOIN_PACKET, 9001), (LEAVE_PACKET, 9001), (REKEY_PACKET, 9400),
         (MTK_PACKET, 9200), (DATA_PACKET, 9600), (HANDOVER_PACKET, 9500), (JAMMER_ALERT, 9700),
         (CONTROL_PACKET, 9000), (ACK_PACKET, 9001)] t
      of None \<Rightarrow> 9001 | Some p \<Rightarrow> p)"

definition GetUavPort :: "u32 \<Rightarrow> u16" where
  "GetUavPort uav_id = ucast (9100 + uav_id)"

lemmas size_defs = TotalSize_def CONTROL_PACKET_SIZE_def REKEY_PACKET_SIZE_def DATA_PACKET_SIZE_def
  TOTAL_OVERHEAD_def PayloadCapacity_def IsValidSize_def

section \<open>Flag laws\<close>

lemma HasFlag_SetFlag: "flag_raw g \<noteq> 0 \<Longrightarrow> HasFlag (SetFlag f g) g"
  by (simp add: HasFlag_def SetFlag_def Flag_or_def bit.conj_disj_distrib2)

lemma HasFlag_ClearFlag: "\<not> HasFlag (ClearFlag f g) g"
  by (simp add: HasFlag_def ClearFlag_def and.assoc)

lemma HasFlag_disjoint:
  "flag_raw g AND flag_raw k = 0 \<Longrightarrow>
   HasFlag (SetFlag f g) k = HasFlag f k \<and> HasFlag (ClearFlag f g) k = HasFlag f k"
proof -
  assume z: "flag_raw g AND flag_raw k = 0"
  have "(flag_raw f AND NOT (flag_raw g)) AND flag_raw k = flag_raw f AND flag_raw k"
    using z by (auto simp: bit_eq_iff bit_and_iff bit_not_iff)
  with z show ?thesis
    by (simp add: HasFlag_def SetFlag_def ClearFlag_def Flag_or_def bit.conj_disj_distrib2)
qed

end
