(* ===== verification/Replay.thy ===== *)
theory Replay
  imports Byte_Utils
begin

text \<open>
  crypto/uav-replay.cc: the anti-replay token of every packet, the per-sender
  sliding window with its nonce ring, and the cache of senders.  The wall clock
  (\<open>TimeUtils::NowEpochMicros\<close>) and the random nonce are arguments.  The mutex
  makes every operation of the cache atomic, so a concurrent execution is a
  sequence of the operations below; logging is left out.
\<close>

section \<open>The token\<close>

record ReplayToken =
  tok_timestamp_us :: u64
  tok_nonce :: bytes
  tok_sequence_num :: u64

definition Token_WIRE_SIZE :: nat where "Token_WIRE_SIZE = 32"

definition Token_Generate :: "u64 \<Rightarrow> bytes \<Rightarrow> u64 \<Rightarrow> ReplayToken" where
  "Token_Generate now nonce seq =
     \<lparr> tok_timestamp_us = now, tok_nonce = nonce, tok_sequence_num = seq \<rparr>"

definition Token_Serialize :: "ReplayToken \<Rightarrow> bytes" where
  "Token_Serialize t =
     AppendU64BE (AppendBytes (AppendU64BE [] (tok_timestamp_us t)) (tok_nonce t)) (tok_sequence_num t)"

definition Token_Deserialize :: "bytes \<Rightarrow> ReplayToken res" where
  "Token_Deserialize buf =
     (if length buf < Token_WIRE_SIZE then Inl SerializationException
      else Inr \<lparr> tok_timestamp_us = ReadU64BE buf 0,
                 tok_nonce = get_bytes buf 8 16,
                 tok_sequence_num = ReadU64BE buf 24 \<rparr>)"

section \<open>Sender state and cache\<close>

datatype ReplayCheckResult =
    ACCEPTED | REPLAY_TIMESTAMP | REPLAY_NONCE | REPLAY_SEQUENCE | REPLAY_OLD_SEQ

definition NONCE_CACHE_SIZE :: nat where "NONCE_CACHE_SIZE = 64"

record SenderState =
  ss_last_seq :: u64
  ss_window_bitmap :: u64
  ss_last_seen_us :: u64
  ss_nonce_cache :: "bytes list"
  ss_nonce_head :: nat

definition zero_nonce :: bytes where "zero_nonce = replicate 16 0"

definition SenderState_new :: SenderState where
  "SenderState_new =
     \<lparr> ss_last_seq = 0, ss_window_bitmap = 0, ss_last_seen_us = 0,
       ss_nonce_cache = replicate NONCE_CACHE_SIZE zero_nonce, ss_nonce_head = 0 \<rparr>"

record ReplayCache =
  rc_senders :: "u32 \<rightharpoonup> SenderState"
  rc_max_skew_us :: u64
  rc_window_size :: u32

definition ReplayCache_new :: "u64 \<Rightarrow> u32 \<Rightarrow> ReplayCache" where
  "ReplayCache_new max_skew_us window_size =
     \<lparr> rc_senders = Map.empty, rc_max_skew_us = max_skew_us, rc_window_size = window_size \<rparr>"

section \<open>Check helpers\<close>

definition CheckTimestamp :: "ReplayCache \<Rightarrow> u64 \<Rightarrow> u64 \<Rightarrow> bool" where
  "CheckTimestamp rc pkt_us now_us =
     ((if pkt_us > now_us then pkt_us - now_us else now_us - pkt_us) \<le> rc_max_skew_us rc)"

definition slot_used :: "bytes \<Rightarrow> bool" where
  "slot_used cached = list_ex (\<lambda>b. b \<noteq> 0) cached"

definition CheckNonce :: "SenderState \<Rightarrow> bytes \<Rightarrow> bool" where
  "CheckNonce state nonce =
     (\<not> list_ex (\<lambda>cached. slot_used cached \<and> cached = nonce) (ss_nonce_cache state))"

definition CheckSequence :: "SenderState \<Rightarrow> u64 \<Rightarrow> bool" where
  "CheckSequence state seq =
     (if seq > ss_last_seq state then True
      else let diff = ss_last_seq state - seq in
        if diff \<ge> 64 then False
        else ss_window_bitmap state AND push_bit (unat diff) 1 = 0)"

section \<open>Record helpers\<close>

definition RecordNonce :: "SenderState \<Rightarrow> bytes \<Rightarrow> SenderState" where
  "RecordNonce state nonce = state
     \<lparr> ss_nonce_cache := (ss_nonce_cache state)[ss_nonce_head state := nonce],
       ss_nonce_head := (ss_nonce_head state + 1) mod NONCE_CACHE_SIZE \<rparr>"

definition RecordSequence :: "SenderState \<Rightarrow> u64 \<Rightarrow> SenderState" where
  "RecordSequence state seq =
     (if seq > ss_last_seq state then
        let advance = seq - ss_last_seq state;
            shifted = (if advance \<ge> 64 then 0 else push_bit (unat advance) (ss_window_bitmap state))
        in state \<lparr> ss_window_bitmap := shifted OR 1, ss_last_seq := seq \<rparr>
      else
        let diff = ss_last_seq state - seq in
        if diff < 64
        then state \<lparr> ss_window_bitmap := ss_window_bitmap state OR push_bit (unat diff) 1 \<rparr>
        else state)"

section \<open>The core check\<close>

definition DoCheck ::
    "u64 \<Rightarrow> ReplayCache \<Rightarrow> u32 \<Rightarrow> ReplayToken \<Rightarrow> u64 \<Rightarrow> bool \<Rightarrow> ReplayCache \<times> ReplayCheckResult" where
  "DoCheck wall rc sender_id token now0 rec =
     (let now_us = (if now0 = 0 then wall else now0) in
      if \<not> CheckTimestamp rc (tok_timestamp_us token) now_us then (rc, REPLAY_TIMESTAMP)
      else
        let state = (case rc_senders rc sender_id of None \<Rightarrow> SenderState_new | Some s \<Rightarrow> s);
            rc1 = rc \<lparr> rc_senders := (rc_senders rc)(sender_id \<mapsto> state) \<rparr>
        in
        if \<not> CheckNonce state (tok_nonce token) then (rc1, REPLAY_NONCE)
        else if ss_last_seq state > 0 \<and>
                tok_sequence_num token + ucast (rc_window_size rc) \<le> ss_last_seq state
          then (rc1, REPLAY_OLD_SEQ)
        else if ss_last_seq state > 0 \<and> \<not> CheckSequence state (tok_sequence_num token)
          then (rc1, REPLAY_SEQUENCE)
        else
          let state' = (if rec
                        then (RecordSequence (RecordNonce state (tok_nonce token))
                               (tok_sequence_num token)) \<lparr> ss_last_seen_us := now_us \<rparr>
                        else state)
          in (rc \<lparr> rc_senders := (rc_senders rc)(sender_id \<mapsto> state') \<rparr>, ACCEPTED))"

definition CheckAndRecord ::
    "u64 \<Rightarrow> ReplayCache \<Rightarrow> u32 \<Rightarrow> ReplayToken \<Rightarrow> u64 \<Rightarrow> ReplayCache \<times> ReplayCheckResult" where
  "CheckAndRecord wall rc sender_id token now_us = DoCheck wall rc sender_id token now_us True"

definition CheckOnly ::
    "u64 \<Rightarrow> ReplayCache \<Rightarrow> u32 \<Rightarrow> ReplayToken \<Rightarrow> u64 \<Rightarrow> ReplayCache \<times> ReplayCheckResult" where
  "CheckOnly wall rc sender_id token now_us = DoCheck wall rc sender_id token now_us False"

definition CheckOrThrow ::
    "u64 \<Rightarrow> ReplayCache \<Rightarrow> u32 \<Rightarrow> ReplayToken \<Rightarrow> u64 \<Rightarrow> ReplayCache \<times> unit res" where
  "CheckOrThrow wall rc sender_id token now_us =
     (let (rc', result) = CheckAndRecord wall rc sender_id token now_us in
      (rc', if result \<noteq> ACCEPTED then Inl CryptoException else Inr ()))"

section \<open>State management\<close>

definition ResetSender :: "ReplayCache \<Rightarrow> u32 \<Rightarrow> ReplayCache" where
  "ResetSender rc sender_id = rc \<lparr> rc_senders := (rc_senders rc)(sender_id := None) \<rparr>"

definition Replay_Reset :: "ReplayCache \<Rightarrow> ReplayCache" where
  "Replay_Reset rc = rc \<lparr> rc_senders := Map.empty \<rparr>"

definition stale :: "u64 \<Rightarrow> u64 \<Rightarrow> SenderState \<Rightarrow> bool" where
  "stale now max_age_us s = (ss_last_seen_us s > 0 \<and> now - ss_last_seen_us s > max_age_us)"

definition Evict :: "u64 \<Rightarrow> ReplayCache \<Rightarrow> u64 \<Rightarrow> ReplayCache" where
  "Evict now rc max_age_us = rc
     \<lparr> rc_senders := (\<lambda>sid. case rc_senders rc sid of
           None \<Rightarrow> None
         | Some s \<Rightarrow> if stale now max_age_us s then None else Some s) \<rparr>"

definition HasSender :: "ReplayCache \<Rightarrow> u32 \<Rightarrow> bool" where
  "HasSender rc sender_id = (rc_senders rc sender_id \<noteq> None)"

definition SenderCount :: "ReplayCache \<Rightarrow> nat" where
  "SenderCount rc = card (dom (rc_senders rc))"

text \<open>\<open>SequenceCounter\<close>: the counter of outgoing sequence numbers.\<close>

definition SequenceCounter_Next :: "u64 \<Rightarrow> u64 \<times> u64" where
  "SequenceCounter_Next counter = (counter, counter + 1)"

section \<open>Token round trip\<close>

definition wf_token :: "ReplayToken \<Rightarrow> bool" where
  "wf_token t \<longleftrightarrow> length (tok_nonce t) = 16"

lemma length_Token_Serialize [simp]: "wf_token t \<Longrightarrow> length (Token_Serialize t) = Token_WIRE_SIZE"
  by (simp add: Token_Serialize_def wf_token_def Token_WIRE_SIZE_def)

lemma Token_Deserialize_Serialize_append:
  "wf_token t \<Longrightarrow> Token_Deserialize (Token_Serialize t @ rest) = Inr t"
  by (simp add: Token_Serialize_def Token_Deserialize_def wf_token_def Token_WIRE_SIZE_def wire_simps)

lemma Token_Deserialize_short: "length buf < 32 \<Longrightarrow> Token_Deserialize buf = Inl SerializationException"
  by (simp add: Token_Deserialize_def Token_WIRE_SIZE_def)

section \<open>The sliding window\<close>

text \<open>A sequence number the sender state already holds against a replay.\<close>

definition seq_blocked :: "SenderState \<Rightarrow> u64 \<Rightarrow> bool" where
  "seq_blocked st seq \<longleftrightarrow>
     unat seq \<le> unat (ss_last_seq st) \<and>
     (unat (ss_last_seq st) - unat seq < 64 \<longrightarrow>
        bit (ss_window_bitmap st) (unat (ss_last_seq st) - unat seq))"

lemma unat_diff: "(a :: 'a::len word) \<le> b \<Longrightarrow> unat (b - a) = unat b - unat a"
  by (simp add: unat_sub)

lemma and_exp_eq_0: "(w :: 'a::len word) AND 2 ^ n = 0 \<longleftrightarrow> \<not> bit w n"
  by (rule and_exp_eq_0_iff_not_bit)

lemma CheckSequence_iff: "CheckSequence st seq \<longleftrightarrow> \<not> seq_blocked st seq"
proof (cases "seq > ss_last_seq st")
  case True
  then show ?thesis
    by (simp add: CheckSequence_def seq_blocked_def word_less_nat_alt)
next
  case False
  then have le: "seq \<le> ss_last_seq st" by simp
  then show ?thesis
    by (auto simp: CheckSequence_def seq_blocked_def Let_def unat_diff and_exp_eq_0
        word_le_nat_alt word_less_nat_alt)
qed

lemma RecordSequence_last:
  "ss_last_seq (RecordSequence st seq) = max seq (ss_last_seq st)"
  by (auto simp: RecordSequence_def Let_def max_def)

lemma RecordSequence_bit:
  assumes "d < 64"
  shows "bit (ss_window_bitmap (RecordSequence st seq)) d \<longleftrightarrow>
    (if seq > ss_last_seq st
     then d = 0 \<or> (unat seq - unat (ss_last_seq st) \<le> d \<and>
            bit (ss_window_bitmap st) (d - (unat seq - unat (ss_last_seq st))))
     else bit (ss_window_bitmap st) d \<or> d = unat (ss_last_seq st) - unat seq)"
proof (cases "seq > ss_last_seq st")
  case True
  then have "ss_last_seq st \<le> seq" by simp
  with True assms show ?thesis
    by (auto simp: RecordSequence_def Let_def bit_or_iff bit_push_bit_iff bit_1_iff bit_exp_iff unat_diff
        word_le_nat_alt dest: bit_imp_le_length)
next
  case False
  then have "seq \<le> ss_last_seq st" by simp
  with False assms show ?thesis
    by (auto simp: RecordSequence_def Let_def bit_or_iff bit_push_bit_iff bit_1_iff bit_exp_iff unat_diff
        word_less_nat_alt word_le_nat_alt)
qed

lemma RecordSequence_blocks: "seq_blocked (RecordSequence st seq) seq"
  by (auto simp: seq_blocked_def RecordSequence_last RecordSequence_bit max_def word_le_nat_alt
      word_less_nat_alt)

lemma RecordSequence_mono: "seq_blocked st s \<Longrightarrow> seq_blocked (RecordSequence st seq) s"
  by (auto simp: seq_blocked_def RecordSequence_last RecordSequence_bit max_def word_le_nat_alt
      word_less_nat_alt)

lemma Record_simps [simp]:
  "ss_last_seq (RecordNonce st n) = ss_last_seq st"
  "ss_window_bitmap (RecordNonce st n) = ss_window_bitmap st"
  "ss_last_seen_us (RecordNonce st n) = ss_last_seen_us st"
  "ss_nonce_cache (RecordSequence st s) = ss_nonce_cache st"
  "ss_nonce_head (RecordSequence st s) = ss_nonce_head st"
  "ss_last_seen_us (RecordSequence st s) = ss_last_seen_us st"
  by (auto simp: RecordNonce_def RecordSequence_def Let_def)

lemma seq_blocked_cong:
  "ss_last_seq st = ss_last_seq st' \<Longrightarrow> ss_window_bitmap st = ss_window_bitmap st' \<Longrightarrow>
   seq_blocked st s \<longleftrightarrow> seq_blocked st' s"
  by (simp add: seq_blocked_def)

section \<open>The filter contract\<close>

text \<open>
  What a user of a replay filter relies on, stated for any filter: \<open>step\<close>
  processes one event and says which key it accepted, if any; \<open>blocked\<close> are the
  keys the filter will not accept again; \<open>adm\<close> restricts the events (for the
  time-based filter: the clock does not run backwards).
\<close>

primrec accepted :: "('s \<Rightarrow> 'e \<Rightarrow> 's \<times> 'k option) \<Rightarrow> 's \<Rightarrow> 'e list \<Rightarrow> 'k list" where
  "accepted step st [] = []"
| "accepted step st (e # es) =
     (let (st', k) = step st e in
      case k of None \<Rightarrow> accepted step st' es | Some k \<Rightarrow> k # accepted step st' es)"

primrec admissible :: "('s \<Rightarrow> 'e \<Rightarrow> 's \<times> 'k option) \<Rightarrow> ('s \<Rightarrow> 'e \<Rightarrow> bool) \<Rightarrow> 's \<Rightarrow> 'e list \<Rightarrow> bool" where
  "admissible step adm st [] = True"
| "admissible step adm st (e # es) = (adm st e \<and> admissible step adm (fst (step st e)) es)"

locale replay_filter =
  fixes step :: "'s \<Rightarrow> 'e \<Rightarrow> 's \<times> 'k option"
    and adm :: "'s \<Rightarrow> 'e \<Rightarrow> bool"
    and inv :: "'s \<Rightarrow> bool"
    and blocked :: "'s \<Rightarrow> 'k \<Rightarrow> bool"
  assumes step_inv: "inv st \<Longrightarrow> adm st e \<Longrightarrow> inv (fst (step st e))"
    and step_fresh: "inv st \<Longrightarrow> adm st e \<Longrightarrow> snd (step st e) = Some k \<Longrightarrow> \<not> blocked st k"
    and step_blocks: "inv st \<Longrightarrow> adm st e \<Longrightarrow> snd (step st e) = Some k \<Longrightarrow> blocked (fst (step st e)) k"
    and step_mono: "inv st \<Longrightarrow> adm st e \<Longrightarrow> blocked st k \<Longrightarrow> blocked (fst (step st e)) k"
begin

lemma accepted_not_blocked:
  "inv st \<Longrightarrow> admissible step adm st es \<Longrightarrow> blocked st k \<Longrightarrow> k \<notin> set (accepted step st es)"
proof (induction es arbitrary: st)
  case (Cons e es)
  have "k \<notin> set (accepted step (fst (step st e)) es)"
    using Cons step_inv step_mono by simp
  moreover have "snd (step st e) \<noteq> Some k"
    using Cons.prems step_fresh by auto
  ultimately show ?case
    by (auto simp: split_beta split: option.splits)
qed simp

lemma accepted_distinct:
  "inv st \<Longrightarrow> admissible step adm st es \<Longrightarrow> distinct (accepted step st es)"
proof (induction es arbitrary: st)
  case (Cons e es)
  have *: "inv (fst (step st e))" "admissible step adm (fst (step st e)) es"
    using Cons.prems step_inv by simp_all
  then have "distinct (accepted step (fst (step st e)) es)"
    by (rule Cons.IH)
  moreover have "k \<notin> set (accepted step (fst (step st e)) es)" if "snd (step st e) = Some k" for k
    using accepted_not_blocked[OF *] step_blocks that Cons.prems by simp
  ultimately show ?case
    by (auto simp: split_beta split: option.splits)
qed simp

end

section \<open>No sequence number is accepted twice\<close>

text \<open>An event is a packet: wall clock, sender, token and receive time.\<close>

type_synonym arrival = "u64 \<times> u32 \<times> ReplayToken \<times> u64"

definition check_step :: "ReplayCache \<Rightarrow> arrival \<Rightarrow> ReplayCache \<times> (u32 \<times> u64) option" where
  "check_step rc a = (case a of (wall, sid, tok, now) \<Rightarrow>
     let (rc', r) = CheckAndRecord wall rc sid tok now in
     (rc', if r = ACCEPTED \<and> tok_sequence_num tok \<noteq> 0 then Some (sid, tok_sequence_num tok) else None))"

definition sender_of :: "ReplayCache \<Rightarrow> u32 \<Rightarrow> SenderState" where
  "sender_of rc sid = (case rc_senders rc sid of None \<Rightarrow> SenderState_new | Some s \<Rightarrow> s)"

definition cache_blocked :: "ReplayCache \<Rightarrow> u32 \<times> u64 \<Rightarrow> bool" where
  "cache_blocked rc k \<longleftrightarrow> snd k \<noteq> 0 \<and> seq_blocked (sender_of rc (fst k)) (snd k)"

lemma seq_blocked_last_pos: "seq_blocked st s \<Longrightarrow> s \<noteq> 0 \<Longrightarrow> ss_last_seq st > 0"
  by (auto simp: seq_blocked_def word_less_nat_alt unat_gt_0 unat_eq_0)

definition record_token :: "u64 \<Rightarrow> SenderState \<Rightarrow> ReplayToken \<Rightarrow> SenderState" where
  "record_token now_us st tok =
     (RecordSequence (RecordNonce st (tok_nonce tok)) (tok_sequence_num tok)) \<lparr> ss_last_seen_us := now_us \<rparr>"

text \<open>The accepting and the rejecting executions of the check, one fact for each.\<close>

lemma DoCheck_accepted:
  assumes "DoCheck wall rc sid tok now rec = (rc', ACCEPTED)"
  defines "now_us \<equiv> if now = 0 then wall else now"
  shows "CheckTimestamp rc (tok_timestamp_us tok) now_us"
    and "CheckNonce (sender_of rc sid) (tok_nonce tok)"
    and "ss_last_seq (sender_of rc sid) > 0 \<Longrightarrow>
         \<not> tok_sequence_num tok + ucast (rc_window_size rc) \<le> ss_last_seq (sender_of rc sid) \<and>
         \<not> seq_blocked (sender_of rc sid) (tok_sequence_num tok)"
  using assms unfolding DoCheck_def Let_def sender_of_def[symmetric]
  by (auto simp: CheckSequence_iff record_token_def split: if_splits)

lemma DoCheck_state:
  assumes "DoCheck wall rc sid tok now rec = (rc', r)"
  shows "sender_of rc' s =
      (if s = sid \<and> r = ACCEPTED \<and> rec
       then record_token (if now = 0 then wall else now) (sender_of rc sid) tok else sender_of rc s)"
    and "rc_max_skew_us rc' = rc_max_skew_us rc" "rc_window_size rc' = rc_window_size rc"
  using assms unfolding DoCheck_def Let_def
  by (auto simp: sender_of_def record_token_def split: if_splits)

lemma record_token_blocks:
  "seq_blocked (record_token t st tok) (tok_sequence_num tok)"
  "seq_blocked st s \<Longrightarrow> seq_blocked (record_token t st tok) s"
  using RecordSequence_blocks[of "RecordNonce st (tok_nonce tok)" "tok_sequence_num tok"]
    RecordSequence_mono[of "RecordNonce st (tok_nonce tok)" s "tok_sequence_num tok"]
  by (simp_all add: seq_blocked_def record_token_def)

interpretation seq_filter: replay_filter check_step "\<lambda>_ _. True" "\<lambda>_. True" cache_blocked
proof
  fix rc :: ReplayCache and e :: arrival and k
  obtain wall sid tok now where e: "e = (wall, sid, tok, now)" by (cases e)
  obtain rc' r where d: "DoCheck wall rc sid tok now True = (rc', r)" by fastforce
  have step: "check_step rc e =
    (rc', if r = ACCEPTED \<and> tok_sequence_num tok \<noteq> 0 then Some (sid, tok_sequence_num tok) else None)"
    by (simp add: e d check_step_def CheckAndRecord_def)
  show "\<not> cache_blocked rc k" if "snd (check_step rc e) = Some k"
    using that d DoCheck_accepted(3)[of wall rc sid tok now True rc'] seq_blocked_last_pos
    by (auto simp: step cache_blocked_def split: if_splits)
  show "cache_blocked (fst (check_step rc e)) k" if "snd (check_step rc e) = Some k"
    using that
    by (auto simp: step cache_blocked_def record_token_blocks DoCheck_state[OF d] split: if_splits)
  show "cache_blocked (fst (check_step rc e)) k" if "cache_blocked rc k"
    using that by (auto simp: step cache_blocked_def record_token_blocks DoCheck_state[OF d])
qed simp

text \<open>
  C3.  No replay: however packets arrive, and whatever the cache held before,
  \<open>ReplayCache::CheckAndRecord\<close> never accepts two packets of the same sender with
  the same nonzero sequence number.
\<close>

theorem CheckAndRecord_no_replay: "distinct (accepted check_step rc arrivals)"
  by (rule seq_filter.accepted_distinct)
    (simp, induction arrivals arbitrary: rc, simp_all)

section \<open>Eviction does not reopen the window\<close>

text \<open>
  \<open>Evict\<close> forgets idle senders and their windows.  With a clock that does not run
  backwards and an age of at least twice the skew, a forgotten token has
  expired.  The state carries the time of the last event.
\<close>

datatype cache_event = Packet u32 ReplayToken u64 | EvictAt u64 u64

definition timed_step ::
    "ReplayCache \<times> u64 \<Rightarrow> cache_event \<Rightarrow> (ReplayCache \<times> u64) \<times> (u32 \<times> u64 \<times> u64) option" where
  "timed_step s e = (case e of
     Packet sid tok now \<Rightarrow>
       let (rc', r) = CheckAndRecord now (fst s) sid tok now in
       ((rc', now),
        if r = ACCEPTED \<and> tok_sequence_num tok \<noteq> 0
        then Some (sid, tok_sequence_num tok, tok_timestamp_us tok) else None)
   | EvictAt now max_age \<Rightarrow> ((Evict now (fst s) max_age, now), None))"

definition timed_adm :: "ReplayCache \<times> u64 \<Rightarrow> cache_event \<Rightarrow> bool" where
  "timed_adm s e = (case e of
     Packet sid tok now \<Rightarrow> snd s \<le> now
   | EvictAt now max_age \<Rightarrow>
       snd s \<le> now \<and> 2 * unat (rc_max_skew_us (fst s)) \<le> unat max_age)"

definition timed_inv :: "ReplayCache \<times> u64 \<Rightarrow> bool" where
  "timed_inv s \<longleftrightarrow> (\<forall>sid. ss_last_seen_us (sender_of (fst s) sid) \<le> snd s)"

definition timed_blocked :: "ReplayCache \<times> u64 \<Rightarrow> u32 \<times> u64 \<times> u64 \<Rightarrow> bool" where
  "timed_blocked s k = (case k of (sid, seq, ts) \<Rightarrow>
     seq \<noteq> 0 \<and>
     (seq_blocked (sender_of (fst s) sid) seq \<and>
        unat ts \<le> unat (ss_last_seen_us (sender_of (fst s) sid)) + unat (rc_max_skew_us (fst s)) \<or>
      unat ts + unat (rc_max_skew_us (fst s)) < unat (snd s)))"

lemma CheckTimestamp_iff:
  "CheckTimestamp rc ts now \<longleftrightarrow>
     unat ts \<le> unat now + unat (rc_max_skew_us rc) \<and> unat now \<le> unat ts + unat (rc_max_skew_us rc)"
  by (auto simp: CheckTimestamp_def word_le_nat_alt word_less_nat_alt unat_diff)

lemma new_sender_simps [simp]:
  "ss_last_seen_us SenderState_new = 0" "ss_last_seq SenderState_new = 0"
  "ss_window_bitmap SenderState_new = 0"
  by (simp_all add: SenderState_new_def)

lemma sender_of_Evict:
  "sender_of (Evict now rc age) sid =
     (if stale now age (sender_of rc sid) then SenderState_new else sender_of rc sid)"
  by (auto simp: sender_of_def Evict_def stale_def split: option.splits)

lemma Evict_skew [simp]: "rc_max_skew_us (Evict now rc age) = rc_max_skew_us rc"
  by (simp add: Evict_def)

lemma stale_old:
  "stale now age st \<Longrightarrow> ss_last_seen_us st \<le> now \<Longrightarrow> unat age + unat (ss_last_seen_us st) < unat now"
  by (auto simp: stale_def word_less_nat_alt word_le_nat_alt unat_diff)

lemma record_token_last_seen [simp]: "ss_last_seen_us (record_token t st tok) = t"
  by (simp add: record_token_def)

lemma timed_inv_old:
  "timed_inv (rc, clock) \<Longrightarrow> unat (ss_last_seen_us (sender_of rc sid)) \<le> unat clock"
  by (simp add: timed_inv_def word_le_nat_alt)

lemma timed_packet:
  assumes inv: "timed_inv (rc, clock)" and le: "clock \<le> now"
    and d: "DoCheck now rc sid tok now True = (rc', r)"
  shows "timed_inv (rc', now)"
    and "timed_blocked (rc, clock) k \<Longrightarrow> timed_blocked (rc', now) k"
    and "r = ACCEPTED \<Longrightarrow> tok_sequence_num tok \<noteq> 0 \<Longrightarrow>
         k = (sid, tok_sequence_num tok, tok_timestamp_us tok) \<Longrightarrow>
         \<not> timed_blocked (rc, clock) k \<and> timed_blocked (rc', now) k"
proof -
  have le': "unat clock \<le> unat now" using le by (simp add: word_le_nat_alt)
  have seen: "unat (ss_last_seen_us (sender_of rc s)) \<le> unat now" for s
    using le' timed_inv_old[OF inv, of s] by simp
  note st = DoCheck_state[OF d, simplified]
  show "timed_inv (rc', now)"
    using seen by (auto simp: timed_inv_def st word_le_nat_alt intro: le_trans)
  show "timed_blocked (rc', now) k" if "timed_blocked (rc, clock) k"
    using that le' seen[of sid] by (auto simp: timed_blocked_def st record_token_blocks)
  assume acc: "r = ACCEPTED" "tok_sequence_num tok \<noteq> 0"
    "k = (sid, tok_sequence_num tok, tok_timestamp_us tok)"
  have "CheckTimestamp rc (tok_timestamp_us tok) now"
    and "\<not> seq_blocked (sender_of rc sid) (tok_sequence_num tok)"
    using d acc DoCheck_accepted(1,3)[of now rc sid tok now True rc'] seq_blocked_last_pos by auto
  then show "\<not> timed_blocked (rc, clock) k \<and> timed_blocked (rc', now) k"
    using acc le' by (auto simp: CheckTimestamp_iff timed_blocked_def st record_token_blocks)
qed

lemma timed_evict:
  assumes inv: "timed_inv (rc, clock)" and le: "clock \<le> now"
    and age: "2 * unat (rc_max_skew_us rc) \<le> unat age"
  shows "timed_inv (Evict now rc age, now)"
    and "timed_blocked (rc, clock) k \<Longrightarrow> timed_blocked (Evict now rc age, now) k"
proof -
  have seen: "unat (ss_last_seen_us (sender_of rc sid)) \<le> unat now" for sid
    using le timed_inv_old[OF inv, of sid] by (simp add: word_le_nat_alt)
  have old: "unat age + unat (ss_last_seen_us (sender_of rc sid)) < unat now"
    if "stale now age (sender_of rc sid)" for sid
    using stale_old[OF that] seen[of sid] by (simp add: word_le_nat_alt)
  show "timed_inv (Evict now rc age, now)"
    using seen by (auto simp: timed_inv_def sender_of_Evict word_le_nat_alt)
  show "timed_blocked (Evict now rc age, now) k" if "timed_blocked (rc, clock) k"
    using that le age old[of "fst k"]
    by (auto simp: timed_blocked_def sender_of_Evict word_le_nat_alt)
qed

interpretation timed_filter: replay_filter timed_step timed_adm timed_inv timed_blocked
proof -
  have "timed_inv (fst (timed_step s e)) \<and>
      (snd (timed_step s e) = Some k \<longrightarrow> \<not> timed_blocked s k \<and> timed_blocked (fst (timed_step s e)) k) \<and>
      (timed_blocked s k \<longrightarrow> timed_blocked (fst (timed_step s e)) k)"
    if "timed_inv s" "timed_adm s e" for s e k
  proof (cases e)
    case (Packet sid tok now)
    obtain rc' r where "DoCheck now (fst s) sid tok now True = (rc', r)" by fastforce
    with that Packet show ?thesis
      using timed_packet[of "fst s" "snd s" now sid tok rc' r]
      by (auto simp: timed_step_def timed_adm_def CheckAndRecord_def)
  next
    case (EvictAt now age)
    with that show ?thesis
      using timed_evict[of "fst s" "snd s" now age]
      by (auto simp: timed_step_def timed_adm_def)
  qed
  then show "replay_filter timed_step timed_adm timed_inv timed_blocked"
    by unfold_locales blast+
qed

text \<open>
  C7.  Eviction does not reopen the window: in any run of packet arrivals and
  \<open>Evict\<close> calls of an initially empty cache whose clock does not run backwards and
  whose evictions use an age of at least twice the skew (the defaults are 60 s
  and 5 s), no token with a nonzero sequence number is accepted twice.
\<close>

theorem Evict_no_replay:
  assumes "admissible timed_step timed_adm (ReplayCache_new skew window, t0) events"
  shows "distinct (accepted timed_step (ReplayCache_new skew window, t0) events)"
  by (rule timed_filter.accepted_distinct[OF _ assms])
    (simp add: timed_inv_def sender_of_def ReplayCache_new_def)

theorem Evict_no_replay_witness:
  "let tok = Token_Generate 10 (replicate 16 1) 1;
       events = [Packet 7 tok 10, EvictAt 40 20, Packet 7 tok 41]
   in admissible timed_step timed_adm (ReplayCache_new 10 64, 0) events \<and>
      accepted timed_step (ReplayCache_new 10 64, 0) events = [(7, 1, 10)] \<and>
      distinct (accepted timed_step (ReplayCache_new 10 64, 0) events)"
proof -
  define tok where "tok = Token_Generate 10 (replicate 16 1) 1"
  define events where "events = [Packet 7 tok 10, EvictAt 40 20, Packet 7 tok 41]"
  have *: "admissible timed_step timed_adm (ReplayCache_new 10 64, 0) events"
    by (simp add: events_def timed_adm_def timed_step_def split_beta
        ReplayCache_new_def CheckAndRecord_def DoCheck_def Let_def Evict_def)
  have "accepted timed_step (ReplayCache_new 10 64, 0) events = [(7, 1, 10)]"
    by (simp add: events_def tok_def Token_Generate_def timed_step_def split_beta
        ReplayCache_new_def CheckAndRecord_def DoCheck_def Let_def CheckTimestamp_def CheckNonce_def
        SenderState_new_def list_ex_iff slot_used_def zero_nonce_def NONCE_CACHE_SIZE_def)
  with * Evict_no_replay[OF *] show ?thesis
    unfolding Let_def events_def tok_def by blast
qed

section \<open>Refinement of an abstract window\<close>

text \<open>
  The specification of one sender: the largest accepted sequence number, the
  set of the accepted ones, and the list of their nonces, newest first.
\<close>

record AbsSender =
  as_last :: nat
  as_seen :: "nat set"
  as_nonces :: "bytes list"

definition abs_fresh :: "nat \<Rightarrow> AbsSender \<Rightarrow> bytes \<Rightarrow> nat \<Rightarrow> bool" where
  "abs_fresh w a nonce seq \<longleftrightarrow>
     (nonce = zero_nonce \<or> nonce \<notin> set (take 64 (as_nonces a))) \<and>
     (as_last a = 0 \<or> as_last a < seq \<or>
      seq \<notin> as_seen a \<and> as_last a < seq + w \<and> as_last a < seq + 64)"

definition abs_record :: "AbsSender \<Rightarrow> bytes \<Rightarrow> nat \<Rightarrow> AbsSender" where
  "abs_record a nonce seq =
     \<lparr> as_last = max seq (as_last a), as_seen = insert seq (as_seen a), as_nonces = nonce # as_nonces a \<rparr>"

text \<open>Slot of the \<open>i\<close>-th newest nonce in a ring whose next write goes to \<open>h\<close>.\<close>

definition ring_slot :: "nat \<Rightarrow> nat \<Rightarrow> nat" where
  "ring_slot h i = (if i < h then h - 1 - i else h + 63 - i)"

definition ring_rel :: "bytes list \<Rightarrow> nat \<Rightarrow> bytes list \<Rightarrow> bool" where
  "ring_rel cache h ns \<longleftrightarrow> length cache = 64 \<and> h < 64 \<and>
     (\<forall>i<64. cache ! ring_slot h i = (if i < length ns then ns ! i else zero_nonce))"

definition window_rel :: "SenderState \<Rightarrow> AbsSender \<Rightarrow> bool" where
  "window_rel st a \<longleftrightarrow>
     as_last a = unat (ss_last_seq st) \<and> as_seen a \<subseteq> {..as_last a} \<and>
     (\<forall>d<64. bit (ss_window_bitmap st) d \<longleftrightarrow> d \<le> as_last a \<and> as_last a - d \<in> as_seen a) \<and>
     ring_rel (ss_nonce_cache st) (ss_nonce_head st) (as_nonces a)"

lemma ring_slot_less: "h < 64 \<Longrightarrow> i < 64 \<Longrightarrow> ring_slot h i < 64"
  by (auto simp: ring_slot_def)

lemma ring_slot_self: "h < 64 \<Longrightarrow> j < 64 \<Longrightarrow> ring_slot h (ring_slot h j) = j"
  by (auto simp: ring_slot_def)

lemma ring_mem_iff:
  assumes "ring_rel cache h ns" "nonce \<noteq> zero_nonce"
  shows "nonce \<in> set cache \<longleftrightarrow> nonce \<in> set (take 64 ns)"
proof -
  have "nonce \<in> set cache \<longleftrightarrow> (\<exists>i<64. cache ! ring_slot h i = nonce)"
    using assms(1) ring_slot_less[of h] ring_slot_self[of h]
    unfolding ring_rel_def by (metis in_set_conv_nth)
  also have "\<dots> \<longleftrightarrow> (\<exists>i<64. i < length ns \<and> ns ! i = nonce)"
    using assms by (auto simp: ring_rel_def)
  also have "\<dots> \<longleftrightarrow> nonce \<in> set (take 64 ns)"
    by (auto simp: in_set_conv_nth)
  finally show ?thesis .
qed

lemma ring_record:
  assumes "ring_rel cache h ns"
  shows "ring_rel (cache[h := nonce]) ((h + 1) mod 64) (nonce # ns)"
proof -
  have h: "h < 64" using assms by (simp add: ring_rel_def)
  have zero: "ring_slot ((h + 1) mod 64) 0 = h"
    using h by (cases "h = 63") (simp_all add: ring_slot_def)
  have suc: "ring_slot ((h + 1) mod 64) (Suc i) = ring_slot h i"
    and ne: "ring_slot h i \<noteq> h" if "Suc i < 64" for i
    using h that by (cases "h = 63"; simp add: ring_slot_def; linarith)+
  have "cache[h := nonce] ! ring_slot ((h + 1) mod 64) i =
      (if i < length (nonce # ns) then (nonce # ns) ! i else zero_nonce)" if "i < 64" for i
    using assms that zero suc ne[symmetric] by (cases i) (auto simp: ring_rel_def)
  then show ?thesis
    using assms by (simp add: ring_rel_def)
qed

lemma CheckNonce_iff:
  assumes "length nonce = 16" "ring_rel (ss_nonce_cache st) (ss_nonce_head st) ns"
  shows "CheckNonce st nonce \<longleftrightarrow> nonce = zero_nonce \<or> nonce \<notin> set (take 64 ns)"
proof -
  have used: "slot_used nonce \<longleftrightarrow> nonce \<noteq> zero_nonce"
    using assms(1) replicate_eqI[of nonce 16 0]
    by (auto simp: slot_used_def list_ex_iff zero_nonce_def)
  have "CheckNonce st nonce \<longleftrightarrow> \<not> (slot_used nonce \<and> nonce \<in> set (ss_nonce_cache st))"
    by (auto simp: CheckNonce_def list_ex_iff)
  with used ring_mem_iff[OF assms(2), of nonce] show ?thesis by auto
qed

lemma seq_blocked_abs:
  assumes "window_rel st a"
  shows "seq_blocked st seq \<longleftrightarrow>
    unat seq \<le> as_last a \<and> (unat seq \<in> as_seen a \<or> unat seq + 64 \<le> as_last a)"
  using assms by (auto simp: seq_blocked_def window_rel_def)

lemma old_seq_abs:
  assumes "unat seq + unat (w :: u32) < 2 ^ 64"
  shows "seq + ucast w \<le> (ls :: u64) \<longleftrightarrow> unat seq + unat w \<le> unat ls"
proof -
  have "unat (ucast w :: u64) = unat w"
    by (simp add: unsigned_ucast_eq take_bit_nat_eq_self_iff)
      (rule less_trans[OF unsigned_less], simp)
  with assms show ?thesis
    by (simp add: word_le_nat_alt unsigned_less_plus)
qed

lemma window_rel_record:
  assumes "window_rel st a"
  shows "window_rel (record_token t st tok) (abs_record a (tok_nonce tok) (unat (tok_sequence_num tok)))"
proof -
  have bits: "bit (ss_window_bitmap (RecordSequence (RecordNonce st n) s)) d \<longleftrightarrow>
     d \<le> max (unat s) (as_last a) \<and> max (unat s) (as_last a) - d \<in> insert (unat s) (as_seen a)"
    if "d < 64" for d s n
    using assms that by (auto simp: window_rel_def RecordSequence_bit word_less_nat_alt)
  then show ?thesis
    using assms ring_record[of "ss_nonce_cache st" "ss_nonce_head st" "as_nonces a" "tok_nonce tok"]
    by (auto simp: window_rel_def record_token_def abs_record_def RecordSequence_last
        RecordNonce_def NONCE_CACHE_SIZE_def max_def word_less_nat_alt word_le_nat_alt)
qed

lemma window_rel_new: "window_rel SenderState_new \<lparr> as_last = 0, as_seen = {}, as_nonces = [] \<rparr>"
  by (auto simp: window_rel_def SenderState_new_def ring_rel_def NONCE_CACHE_SIZE_def ring_slot_def)

lemma DoCheck_accept_iff:
  assumes rel: "window_rel (sender_of rc sid) a"
    and len: "length (tok_nonce tok) = 16"
    and w: "unat (tok_sequence_num tok) + unat (rc_window_size rc) < 2 ^ 64"
    and now: "now_us = (if now = 0 then wall else now)"
  shows "snd (DoCheck wall rc sid tok now rec) = ACCEPTED \<longleftrightarrow>
    CheckTimestamp rc (tok_timestamp_us tok) now_us \<and>
    abs_fresh (unat (rc_window_size rc)) a (tok_nonce tok) (unat (tok_sequence_num tok))"
proof -
  have ring: "ring_rel (ss_nonce_cache (sender_of rc sid)) (ss_nonce_head (sender_of rc sid)) (as_nonces a)"
    and last: "ss_last_seq (sender_of rc sid) > 0 \<longleftrightarrow> as_last a \<noteq> 0"
      "unat (ss_last_seq (sender_of rc sid)) = as_last a"
    and sub: "as_seen a \<subseteq> {..as_last a}"
    using rel by (auto simp: window_rel_def word_less_nat_alt)
  have "snd (DoCheck wall rc sid tok now rec) = ACCEPTED \<longleftrightarrow>
      CheckTimestamp rc (tok_timestamp_us tok) now_us \<and>
      CheckNonce (sender_of rc sid) (tok_nonce tok) \<and>
      (as_last a \<noteq> 0 \<longrightarrow>
         \<not> tok_sequence_num tok + ucast (rc_window_size rc) \<le> ss_last_seq (sender_of rc sid) \<and>
         \<not> seq_blocked (sender_of rc sid) (tok_sequence_num tok))"
    unfolding DoCheck_def Let_def sender_of_def[symmetric] now last(1)[symmetric]
    by (auto simp: CheckSequence_iff)
  also have "\<dots> \<longleftrightarrow> CheckTimestamp rc (tok_timestamp_us tok) now_us \<and>
      abs_fresh (unat (rc_window_size rc)) a (tok_nonce tok) (unat (tok_sequence_num tok))"
    using sub unfolding CheckNonce_iff[OF len ring] old_seq_abs[OF w] seq_blocked_abs[OF rel] last(2) abs_fresh_def
    by auto
  finally show ?thesis .
qed

text \<open>
  C4.  Functional correctness of the sliding window: with a cache that represents
  the abstract window, \<open>CheckAndRecord\<close> accepts exactly the packets whose timestamp
  is within the skew, whose nonce is not among the last 64 of that sender and
  whose sequence number is new and less than \<open>window\<close> (and 64) behind the largest,
  and the new cache represents the updated abstract window.  (The
  hypothesis excludes the sequence numbers for which \<open>seq + window\<close> wraps.)
\<close>

theorem CheckAndRecord_refines:
  assumes "window_rel (sender_of rc sid) a"
    and "length (tok_nonce tok) = 16"
    and "unat (tok_sequence_num tok) + unat (rc_window_size rc) < 2 ^ 64"
    and "now \<noteq> 0"
    and "CheckAndRecord wall rc sid tok now = (rc', r)"
  shows "(r = ACCEPTED \<longleftrightarrow>
      \<bar>uint (tok_timestamp_us tok) - uint now\<bar> \<le> uint (rc_max_skew_us rc) \<and>
      abs_fresh (unat (rc_window_size rc)) a (tok_nonce tok) (unat (tok_sequence_num tok)))
    \<and> window_rel (sender_of rc' sid)
      (if r = ACCEPTED then abs_record a (tok_nonce tok) (unat (tok_sequence_num tok)) else a)
    \<and> (\<forall>other. other \<noteq> sid \<longrightarrow> sender_of rc' other = sender_of rc other)"
proof (intro conjI)
  have d: "DoCheck wall rc sid tok now True = (rc', r)"
    using assms(5) by (simp add: CheckAndRecord_def)
  have "\<bar>uint (tok_timestamp_us tok) - uint now\<bar> \<le> uint (rc_max_skew_us rc) \<longleftrightarrow>
      CheckTimestamp rc (tok_timestamp_us tok) now"
    unfolding CheckTimestamp_iff uint_nat by linarith
  then show "r = ACCEPTED \<longleftrightarrow>
      \<bar>uint (tok_timestamp_us tok) - uint now\<bar> \<le> uint (rc_max_skew_us rc) \<and>
      abs_fresh (unat (rc_window_size rc)) a (tok_nonce tok) (unat (tok_sequence_num tok))"
    using DoCheck_accept_iff[OF assms(1-3), of now now wall True] assms(4) by (simp add: d)
  show "window_rel (sender_of rc' sid)
      (if r = ACCEPTED then abs_record a (tok_nonce tok) (unat (tok_sequence_num tok)) else a)"
    using assms(1) window_rel_record by (auto simp: DoCheck_state[OF d])
  show "\<forall>other. other \<noteq> sid \<longrightarrow> sender_of rc' other = sender_of rc other"
    by (simp add: DoCheck_state[OF d])
qed

text \<open>The first packet of a sender, on a fresh cache.\<close>

theorem CheckAndRecord_refines_witness:
  "let rc = ReplayCache_new 5000000 64;
       tok = Token_Generate 1000 (replicate 16 1) 5;
       (rc', r) = CheckAndRecord 0 rc 7 tok 2000
   in r = ACCEPTED \<and>
      window_rel (sender_of rc' 7) \<lparr> as_last = 5, as_seen = {5}, as_nonces = [replicate 16 1] \<rparr>"
proof -
  define rc where "rc = ReplayCache_new 5000000 64"
  define tok where "tok = Token_Generate 1000 (replicate 16 1) 5"
  define a where "a = \<lparr> as_last = 0, as_seen = {}, as_nonces = [] \<rparr>"
  obtain rc' r where c: "CheckAndRecord 0 rc 7 tok 2000 = (rc', r)" by fastforce
  have "sender_of rc 7 = SenderState_new"
    by (simp add: sender_of_def rc_def ReplayCache_new_def)
  then have rel: "window_rel (sender_of rc 7) a"
    by (simp add: a_def window_rel_new)
  have acc: "r = ACCEPTED"
    "window_rel (sender_of rc' 7) (if r = ACCEPTED then abs_record a (tok_nonce tok) (unat (tok_sequence_num tok)) else a)"
    using CheckAndRecord_refines[OF rel _ _ _ c]
    by (auto simp: tok_def Token_Generate_def rc_def ReplayCache_new_def a_def abs_fresh_def)
  then have "window_rel (sender_of rc' 7) \<lparr> as_last = 5, as_seen = {5}, as_nonces = [replicate 16 1] \<rparr>"
    by (simp add: abs_record_def a_def tok_def Token_Generate_def)
  with acc(1) c show ?thesis
    unfolding Let_def rc_def tok_def by simp
qed

end
