(* ===== verification/Base_Header.thy ===== *)
theory Base_Header
  imports Packet_Enums Replay Hmac_Aes
begin

text \<open>
  headers/uav-base-header.{h,cc}: the 32-byte plaintext header of every packet,
  its replay nonce carried behind it, and the \<open>PacketBuilder\<close>.  A pointer
  \<open>data + offset\<close> is the buffer with the offset added to each access; the
  throwing readers return in the result type.  At the end stands what all packet
  classes share: the layout [header][nonce][body][HMAC].
\<close>

section \<open>The header\<close>

record BaseHeader =
  h_magic :: u16
  h_version :: u8
  h_packet_type :: PacketType
  h_flags :: PacketFlag
  h_priority :: PacketPriority
  h_payload_len :: u16
  h_cluster_id :: u16
  h_src_node_id :: u16
  h_dst_node_id :: u16
  h_src_type :: NodeTypeCode
  h_dst_type :: NodeTypeCode
  h_timestamp_us :: u64
  h_sequence_num :: u64
  h_nonce :: bytes

definition Header_WIRE_SIZE :: nat where "Header_WIRE_SIZE = 32"
definition NONCE_SIZE :: nat where "NONCE_SIZE = 16"
definition MAGIC :: u16 where "MAGIC = 0x5541"

lemmas header_sizes = Header_WIRE_SIZE_def NONCE_SIZE_def HMAC_SHA256_OUTPUT_BYTES_def

text \<open>The constructor; \<open>now\<close> is \<open>NowEpochMicros()\<close>.\<close>

definition BaseHeader_new ::
    "u64 \<Rightarrow> PacketType \<Rightarrow> u16 \<Rightarrow> u16 \<Rightarrow> u16 \<Rightarrow> NodeTypeCode \<Rightarrow> NodeTypeCode \<Rightarrow> PacketFlag \<Rightarrow>
     PacketPriority \<Rightarrow> BaseHeader" where
  "BaseHeader_new now type cluster src dst src_t dst_t fl prio =
     \<lparr> h_magic = MAGIC, h_version = PROTOCOL_VERSION, h_packet_type = type, h_flags = fl,
       h_priority = prio, h_payload_len = 0, h_cluster_id = cluster, h_src_node_id = src,
       h_dst_node_id = dst, h_src_type = src_t, h_dst_type = dst_t, h_timestamp_us = now,
       h_sequence_num = 0, h_nonce = replicate NONCE_SIZE 0 \<rparr>"

text \<open>A default-constructed header, the start of \<open>Deserialize\<close>.\<close>

definition BaseHeader_default :: BaseHeader where
  "BaseHeader_default =
     \<lparr> h_magic = MAGIC, h_version = PROTOCOL_VERSION, h_packet_type = PT_UNKNOWN,
       h_flags = FLAG_NONE, h_priority = PRIO_NORMAL, h_payload_len = 0, h_cluster_id = 0,
       h_src_node_id = 0, h_dst_node_id = 0, h_src_type = NT_UNKNOWN, h_dst_type = NT_UNKNOWN,
       h_timestamp_us = 0, h_sequence_num = 0, h_nonce = replicate NONCE_SIZE 0 \<rparr>"

definition SetReplayProtected :: "BaseHeader \<Rightarrow> bool \<Rightarrow> BaseHeader" where
  "SetReplayProtected h v = h
     \<lparr> h_flags := (if v then SetFlag (h_flags h) REPLAY_PROTECTED
                    else ClearFlag (h_flags h) REPLAY_PROTECTED) \<rparr>"

definition SetEncrypted :: "BaseHeader \<Rightarrow> bool \<Rightarrow> BaseHeader" where
  "SetEncrypted h v = h
     \<lparr> h_flags := (if v then SetFlag (h_flags h) ENCRYPTED else ClearFlag (h_flags h) ENCRYPTED) \<rparr>"

definition SetHasMtk :: "BaseHeader \<Rightarrow> bool \<Rightarrow> BaseHeader" where
  "SetHasMtk h v = h
     \<lparr> h_flags := (if v then SetFlag (h_flags h) HAS_MTK else ClearFlag (h_flags h) HAS_MTK) \<rparr>"

definition SetHmacPresent :: "BaseHeader \<Rightarrow> bool \<Rightarrow> BaseHeader" where
  "SetHmacPresent h v = h
     \<lparr> h_flags := (if v then SetFlag (h_flags h) HMAC_PRESENT
                    else ClearFlag (h_flags h) HMAC_PRESENT) \<rparr>"

definition ApplyReplayToken :: "BaseHeader \<Rightarrow> ReplayToken \<Rightarrow> BaseHeader" where
  "ApplyReplayToken h token =
     SetReplayProtected
       (h \<lparr> h_timestamp_us := tok_timestamp_us token,
            h_sequence_num := tok_sequence_num token,
            h_nonce := tok_nonce token \<rparr>) True"

definition ExtractReplayToken :: "BaseHeader \<Rightarrow> ReplayToken" where
  "ExtractReplayToken h =
     \<lparr> tok_timestamp_us = h_timestamp_us h, tok_nonce = h_nonce h,
       tok_sequence_num = h_sequence_num h \<rparr>"

definition IsEncrypted :: "BaseHeader \<Rightarrow> bool" where "IsEncrypted h = HasFlag (h_flags h) ENCRYPTED"
definition HasMtk :: "BaseHeader \<Rightarrow> bool" where "HasMtk h = HasFlag (h_flags h) HAS_MTK"
definition IsReplayProtected :: "BaseHeader \<Rightarrow> bool" where
  "IsReplayProtected h = HasFlag (h_flags h) REPLAY_PROTECTED"
definition HasHmac :: "BaseHeader \<Rightarrow> bool" where "HasHmac h = HasFlag (h_flags h) HMAC_PRESENT"
definition IsEmergency :: "BaseHeader \<Rightarrow> bool" where "IsEmergency h = HasFlag (h_flags h) EMERGENCY"

definition Header_IsValid :: "BaseHeader \<Rightarrow> bool" where
  "Header_IsValid h =
     (if h_magic h \<noteq> MAGIC then False
      else if h_version h \<noteq> PROTOCOL_VERSION then False
      else if \<not> IsValidPacketType (pt_raw (h_packet_type h)) then False
      else True)"

section \<open>The header on the wire\<close>

definition Header_SerializeTo :: "bytes \<Rightarrow> BaseHeader \<Rightarrow> bytes" where
  "Header_SerializeTo buf h =
     (let start = length buf;
          p = buf @ replicate Header_WIRE_SIZE 0;
          p = WriteU16BE p (start + 0) (h_magic h);
          p = WriteU8 p (start + 2) (h_version h);
          p = WriteU8 p (start + 3) (pt_raw (h_packet_type h));
          p = WriteU8 p (start + 4) (flag_raw (h_flags h));
          p = WriteU8 p (start + 5) (prio_raw (h_priority h));
          p = WriteU16BE p (start + 6) (h_payload_len h);
          p = WriteU16BE p (start + 8) (h_cluster_id h);
          p = WriteU16BE p (start + 10) (h_src_node_id h);
          p = WriteU16BE p (start + 12) (h_dst_node_id h);
          p = WriteU8 p (start + 14) (nt_raw (h_src_type h));
          p = WriteU8 p (start + 15) (nt_raw (h_dst_type h));
          p = WriteU64BE p (start + 16) (h_timestamp_us h);
          p = WriteU64BE p (start + 24) (h_sequence_num h)
      in p)"

definition Header_Serialize :: "BaseHeader \<Rightarrow> bytes" where
  "Header_Serialize h = Header_SerializeTo [] h"

definition Header_Deserialize :: "bytes \<Rightarrow> nat \<Rightarrow> BaseHeader res" where
  "Header_Deserialize data offset =
     (if length data < offset + Header_WIRE_SIZE then Inl SerializationException
      else
        let h = BaseHeader_default
              \<lparr> h_magic := ReadU16BE data (offset + 0),
                h_version := ReadU8 data (offset + 2),
                h_packet_type := PacketType (ReadU8 data (offset + 3)),
                h_flags := PacketFlag (ReadU8 data (offset + 4)),
                h_priority := PacketPriority (ReadU8 data (offset + 5)),
                h_payload_len := ReadU16BE data (offset + 6),
                h_cluster_id := ReadU16BE data (offset + 8),
                h_src_node_id := ReadU16BE data (offset + 10),
                h_dst_node_id := ReadU16BE data (offset + 12),
                h_src_type := NodeTypeCode (ReadU8 data (offset + 14)),
                h_dst_type := NodeTypeCode (ReadU8 data (offset + 15)),
                h_timestamp_us := ReadU64BE data (offset + 16),
                h_sequence_num := ReadU64BE data (offset + 24) \<rparr>
        in if h_magic h \<noteq> MAGIC then Inl SerializationException else Inr h)"

definition SerializeNonce :: "BaseHeader \<Rightarrow> bytes" where
  "SerializeNonce h = h_nonce h"

definition DeserializeNonce :: "BaseHeader \<Rightarrow> bytes \<Rightarrow> nat \<Rightarrow> nat \<Rightarrow> BaseHeader res" where
  "DeserializeNonce h data pos len =
     (if len < NONCE_SIZE then Inl SerializationException
      else Inr (h \<lparr> h_nonce := get_bytes data pos NONCE_SIZE \<rparr>))"

section \<open>PacketBuilder\<close>

definition PacketBuilder_new ::
    "u64 \<Rightarrow> PacketType \<Rightarrow> u16 \<Rightarrow> u16 \<Rightarrow> u16 \<Rightarrow> NodeTypeCode \<Rightarrow> NodeTypeCode \<Rightarrow> BaseHeader" where
  "PacketBuilder_new now type cluster_id src_id dst_id src_type dst_type =
     BaseHeader_new now type cluster_id src_id dst_id src_type dst_type FLAG_NONE PRIO_NORMAL"

definition WithFlags :: "BaseHeader \<Rightarrow> PacketFlag \<Rightarrow> BaseHeader" where
  "WithFlags b f = b \<lparr> h_flags := f \<rparr>"
definition WithPriority :: "BaseHeader \<Rightarrow> PacketPriority \<Rightarrow> BaseHeader" where
  "WithPriority b p = b \<lparr> h_priority := p \<rparr>"
definition WithReplayToken :: "BaseHeader \<Rightarrow> ReplayToken \<Rightarrow> BaseHeader" where
  "WithReplayToken b t = ApplyReplayToken b t"
definition WithPayloadLen :: "BaseHeader \<Rightarrow> u16 \<Rightarrow> BaseHeader" where
  "WithPayloadLen b len = b \<lparr> h_payload_len := len \<rparr>"

definition BuildHeaderBytes :: "BaseHeader \<Rightarrow> bytes" where
  "BuildHeaderBytes b =
     (let buf = Header_SerializeTo [] b; nonce_buf = SerializeNonce b in AppendBytes buf nonce_buf)"

section \<open>The wire format\<close>

definition header_bytes :: "BaseHeader \<Rightarrow> bytes" where
  "header_bytes h =
     be16 (h_magic h) @ be8 (h_version h) @ be8 (pt_raw (h_packet_type h)) @
     be8 (flag_raw (h_flags h)) @ be8 (prio_raw (h_priority h)) @ be16 (h_payload_len h) @
     be16 (h_cluster_id h) @ be16 (h_src_node_id h) @ be16 (h_dst_node_id h) @
     be8 (nt_raw (h_src_type h)) @ be8 (nt_raw (h_dst_type h)) @ be64 (h_timestamp_us h) @
     be64 (h_sequence_num h)"

lemma length_header_bytes [simp]: "length (header_bytes h) = 32"
  by (simp add: header_bytes_def)

lemma Header_SerializeTo_eq [simp]: "Header_SerializeTo buf h = buf @ header_bytes h"
proof -
  have "Header_SerializeTo buf h = (((((((((((((buf @ be16 (h_magic h)) @ be8 (h_version h)) @
     be8 (pt_raw (h_packet_type h))) @ be8 (flag_raw (h_flags h))) @ be8 (prio_raw (h_priority h))) @
     be16 (h_payload_len h)) @ be16 (h_cluster_id h)) @ be16 (h_src_node_id h)) @
     be16 (h_dst_node_id h)) @ be8 (nt_raw (h_src_type h))) @ be8 (nt_raw (h_dst_type h))) @
     be64 (h_timestamp_us h)) @ be64 (h_sequence_num h))"
    by (simp add: Header_SerializeTo_def Header_WIRE_SIZE_def fill_simps Let_def del: append_assoc)
  then show ?thesis by (simp add: header_bytes_def)
qed

definition wf_header :: "BaseHeader \<Rightarrow> bool" where
  "wf_header h \<longleftrightarrow> h_magic h = MAGIC \<and> length (h_nonce h) = NONCE_SIZE"

text \<open>Reading back a header gives its fields, with the nonce still zero.\<close>

lemma Header_Deserialize_bytes:
  "h_magic h = MAGIC \<Longrightarrow>
   Header_Deserialize (pre @ header_bytes h @ suf) (length pre) =
   Inr (h \<lparr> h_nonce := replicate NONCE_SIZE 0 \<rparr>)"
  by (cases h) (simp add: Header_Deserialize_def header_bytes_def parse_simps header_sizes
      BaseHeader_default_def Let_def)

lemma DeserializeNonce_bytes:
  "length n = NONCE_SIZE \<Longrightarrow> NONCE_SIZE \<le> len \<Longrightarrow>
   DeserializeNonce h (pre @ n @ suf) (length pre) len = Inr (h \<lparr> h_nonce := n \<rparr>)"
  by (simp add: DeserializeNonce_def parse_simps)

section \<open>The parser is the exact inverse\<close>

lemma header_bytes_read:
  "off + 32 \<le> length buf \<Longrightarrow>
   be16 (ReadU16BE buf off) @ be8 (ReadU8 buf (off + 2)) @ be8 (ReadU8 buf (off + 3)) @
   be8 (ReadU8 buf (off + 4)) @ be8 (ReadU8 buf (off + 5)) @ be16 (ReadU16BE buf (off + 6)) @
   be16 (ReadU16BE buf (off + 8)) @ be16 (ReadU16BE buf (off + 10)) @ be16 (ReadU16BE buf (off + 12)) @
   be8 (ReadU8 buf (off + 14)) @ be8 (ReadU8 buf (off + 15)) @ be64 (ReadU64BE buf (off + 16)) @
   be64 (ReadU64BE buf (off + 24)) = get_bytes buf off 32"
  using slices_eq[of buf off "[2, 1, 1, 1, 1, 2, 2, 2, 2, 1, 1, 8, 8]"]
  by (simp add: be_read numeral_eq_Suc)

lemma Header_Deserialize_Inr:
  assumes "Header_Deserialize buf off = Inr h"
  shows "off + 32 \<le> length buf \<and> h_magic h = MAGIC \<and> h_nonce h = replicate NONCE_SIZE 0 \<and>
    get_bytes buf off 32 = header_bytes h"
proof -
  have len: "off + 32 \<le> length buf"
    using assms by (auto simp: Header_Deserialize_def Header_WIRE_SIZE_def split: if_splits)
  with assms header_bytes_read[OF len] show ?thesis
    by (auto simp: Header_Deserialize_def Let_def BaseHeader_default_def header_bytes_def split: if_splits)
qed

text \<open>
  C18.  Parsing a header is the exact inverse of serializing one: \<open>Deserialize\<close>
  returns a header if and only if the 32 bytes at the offset are what \<open>Serialize\<close>
  makes of that header, its magic is right and its nonce is still zero; it throws
  exactly on short buffers and on a wrong magic.
\<close>
theorem Header_Deserialize_iff:
  "(Header_Deserialize buf off = Inr h \<longleftrightarrow>
     off + 32 \<le> length buf \<and> get_bytes buf off 32 = Header_Serialize h \<and>
     h_magic h = MAGIC \<and> h_nonce h = replicate NONCE_SIZE 0) \<and>
   (Header_Deserialize buf off = Inl SerializationException \<longleftrightarrow>
     \<not> (off + 32 \<le> length buf \<and> ReadU16BE buf off = MAGIC))"
proof -
  have ser: "Header_Serialize h = header_bytes h" by (simp add: Header_Serialize_def)
  have "Header_Deserialize buf off = Inr h"
    if "off + 32 \<le> length buf" "get_bytes buf off 32 = header_bytes h"
      "h_magic h = MAGIC" "h_nonce h = replicate NONCE_SIZE 0"
  proof -
    have "buf = take off buf @ header_bytes h @ drop (off + 32) buf"
      using that(1) that(2)[symmetric] by (simp add: get_bytes_def)
        (metis add.commute append_take_drop_id drop_drop)
    then have "Header_Deserialize buf off = Inr (h \<lparr> h_nonce := replicate NONCE_SIZE 0 \<rparr>)"
      using Header_Deserialize_bytes[OF that(3), of "take off buf" "drop (off + 32) buf"] that(1)
      by (metis add_leD1 length_take min.absorb2)
    with that(4) show ?thesis by (cases h) simp
  qed
  then show ?thesis
    using Header_Deserialize_Inr[of buf off h]
    by (auto simp: ser) (auto simp: Header_Deserialize_def Header_WIRE_SIZE_def Let_def split: if_splits)
qed

end
