(* ===== verification/Packet_Codec.thy ===== *)
theory Packet_Codec
  imports Base_Header
begin

text \<open>
  What the six packet classes of headers/ have in common.  Each holds a header
  and a body and has the wire layout [header 32][nonce 16][body][HMAC 32]; only
  the body codec differs.  The locale \<open>body_codec\<close> states what a packet class
  needs from its body codec, and the layout's round trip, authenticity and
  error behaviour are proved once from it; theory Packets interprets it for
  every body of the program.
\<close>

record 'b Packet =
  pk_header :: BaseHeader
  pk_body :: 'b

text \<open>The layout without the HMAC, and the parser behind the length check and the HMAC check.\<close>

definition packet_bytes :: "('b \<Rightarrow> bytes res) \<Rightarrow> 'b Packet \<Rightarrow> bytes res" where
  "packet_bytes ser pkt =
     rbind (ser (pk_body pkt))
       (\<lambda>bs. Inr (header_bytes (pk_header pkt) @ h_nonce (pk_header pkt) @ bs))"

definition parse_packet :: "(bytes \<Rightarrow> nat \<Rightarrow> 'b res) \<Rightarrow> bytes \<Rightarrow> 'b Packet res" where
  "parse_packet deser body =
     rbind (Header_Deserialize body 0) (\<lambda>h.
     rbind (DeserializeNonce h body 32 (length body - 32)) (\<lambda>h.
     rbind (deser body 48) (\<lambda>b. Inr \<lparr> pk_header = h, pk_body = b \<rparr>)))"

definition deserialize_packet ::
    "ext \<Rightarrow> (bytes \<Rightarrow> nat \<Rightarrow> 'b res) \<Rightarrow> nat \<Rightarrow> bytes \<Rightarrow> bytes \<Rightarrow> 'b Packet res" where
  "deserialize_packet E deser min_body key wire =
     (if length wire < 32 + 16 + min_body + 32 then Inl SerializationException
      else rbind (StripAndVerifyHmac E key wire) (parse_packet deser))"

definition deserialize_unchecked ::
    "(bytes \<Rightarrow> nat \<Rightarrow> 'b res) \<Rightarrow> nat \<Rightarrow> bytes \<Rightarrow> 'b Packet res" where
  "deserialize_unchecked deser min_body wire =
     (if length wire < 32 + 16 + min_body + 32 then Inl SerializationException
      else parse_packet deser (take (length wire - 32) wire))"

lemma Header_Deserialize_exn: "Header_Deserialize buf off = Inl e \<Longrightarrow> e = SerializationException"
  by (auto simp: Header_Deserialize_def Let_def split: if_splits)

lemma DeserializeNonce_exn: "DeserializeNonce h buf off len = Inl e \<Longrightarrow> e = SerializationException"
  by (auto simp: DeserializeNonce_def split: if_splits)

lemma StripAndVerifyHmac_exn:
  "hmac_law E \<Longrightarrow> StripAndVerifyHmac E key wire = Inl e \<Longrightarrow>
   e = CryptoException \<or> e = SerializationException"
  by (auto simp: StripAndVerifyHmac_def VerifyOrThrow_eq Let_def split: if_splits)

lemma rbind_eq_Inl_iff: "rbind m f = Inl e \<longleftrightarrow> m = Inl e \<or> (\<exists>x. m = Inr x \<and> f x = Inl e)"
  by (cases m) auto

lemma deserialize_packet_authentic:
  "hmac_law E \<Longrightarrow> deserialize_packet E deser k key wire = Inr pkt \<Longrightarrow>
   \<exists>body. wire = body @ x_hmac_sha256 E key body \<and> parse_packet deser body = Inr pkt"
  by (auto simp: deserialize_packet_def rbind_eq_Inr_iff StripAndVerifyHmac_iff split: if_splits)

lemma deserialize_packet_bad_hmac:
  "hmac_law E \<Longrightarrow> length tag = 32 \<Longrightarrow> 48 + k \<le> length body \<Longrightarrow> tag \<noteq> x_hmac_sha256 E key body \<Longrightarrow>
   deserialize_packet E deser k key (body @ tag) = Inl CryptoException"
  by (simp add: deserialize_packet_def StripAndVerifyHmac_def HMAC_SHA256_OUTPUT_BYTES_def
      VerifyOrThrow_eq wire_simps)

section \<open>The contract of a body codec\<close>

locale body_codec =
  fixes ser :: "'b \<Rightarrow> bytes res"
    and deser :: "bytes \<Rightarrow> nat \<Rightarrow> 'b res"
    and wf :: "'b \<Rightarrow> bool"
    and min_body :: nat
  assumes round_trip: "wf b \<Longrightarrow>
      \<exists>bs. ser b = Inr bs \<and> min_body \<le> length bs \<and> (\<forall>pre. deser (pre @ bs) (length pre) = Inr b)"
    and deser_exn: "deser buf off = Inl e \<Longrightarrow> e = SerializationException"
begin

lemma parse_packet_bytes:
  assumes "wf_header (pk_header pkt)" "wf (pk_body pkt)"
  obtains w where "packet_bytes ser pkt = Inr w" "48 + min_body \<le> length w" "parse_packet deser w = Inr pkt"
proof -
  let ?h = "pk_header pkt"
  obtain bs where bs: "ser (pk_body pkt) = Inr bs" "min_body \<le> length bs"
    and de: "\<And>pre. deser (pre @ bs) (length pre) = Inr (pk_body pkt)"
    using round_trip[OF assms(2)] by blast
  have h: "h_magic ?h = MAGIC" and n: "length (h_nonce ?h) = 16"
    using assms(1) by (simp_all add: wf_header_def NONCE_SIZE_def)
  define w where "w = header_bytes ?h @ h_nonce ?h @ bs"
  have "Header_Deserialize w 0 = Inr (?h \<lparr> h_nonce := replicate NONCE_SIZE 0 \<rparr>)"
    using Header_Deserialize_bytes[OF h, of "[]"] by (simp add: w_def)
  moreover have "DeserializeNonce h w 32 (length w - 32) = Inr (h \<lparr> h_nonce := h_nonce ?h \<rparr>)" for h
    using DeserializeNonce_bytes[of "h_nonce ?h" "length w - 32" h "header_bytes ?h" bs] n
    by (simp add: w_def NONCE_SIZE_def)
  moreover have "deser w 48 = Inr (pk_body pkt)"
    using de[of "header_bytes ?h @ h_nonce ?h"] n by (simp add: w_def)
  ultimately have "parse_packet deser w = Inr pkt" by (simp add: parse_packet_def)
  moreover have "packet_bytes ser pkt = Inr w" by (simp add: packet_bytes_def bs w_def)
  ultimately show thesis using bs(2) n by (intro that[of w]) (auto simp: w_def)
qed

text \<open>Serialize, append the HMAC, deserialize with the same key: the packet comes back.\<close>

lemma packet_round_trip:
  assumes "hmac_law E" "wf_header (pk_header pkt)" "wf (pk_body pkt)"
  shows "\<exists>w. packet_bytes ser pkt = Inr w \<and> AppendHmac E key w = Inr (w @ x_hmac_sha256 E key w) \<and>
    deserialize_packet E deser min_body key (w @ x_hmac_sha256 E key w) = Inr pkt"
proof -
  obtain w where w: "packet_bytes ser pkt = Inr w" "48 + min_body \<le> length w" "parse_packet deser w = Inr pkt"
    using parse_packet_bytes[OF assms(2,3)] .
  have "StripAndVerifyHmac E key (w @ x_hmac_sha256 E key w) = Inr w"
    using assms(1) by (simp add: StripAndVerifyHmac_iff)
  with assms(1) w show ?thesis by (auto simp: deserialize_packet_def AppendHmac_eq)
qed

text \<open>The unchecked parser takes any 32 bytes for the HMAC.\<close>

lemma unchecked_round_trip:
  assumes "wf_header (pk_header pkt)" "wf (pk_body pkt)"
  shows "\<exists>w. packet_bytes ser pkt = Inr w \<and>
    (\<forall>tag. length tag = 32 \<longrightarrow> deserialize_unchecked deser min_body (w @ tag) = Inr pkt)"
proof -
  obtain w where w: "packet_bytes ser pkt = Inr w" "48 + min_body \<le> length w" "parse_packet deser w = Inr pkt"
    using parse_packet_bytes[OF assms] .
  then show ?thesis by (auto simp: deserialize_unchecked_def)
qed

lemma parse_packet_exn: "parse_packet deser body = Inl e \<Longrightarrow> e = SerializationException"
  by (auto simp: parse_packet_def rbind_eq_Inl_iff
      dest: Header_Deserialize_exn DeserializeNonce_exn deser_exn)

lemma packet_exn:
  "hmac_law E \<Longrightarrow> deserialize_packet E deser min_body key wire = Inl e \<Longrightarrow>
   e = CryptoException \<or> e = SerializationException"
  by (auto simp: deserialize_packet_def rbind_eq_Inl_iff split: if_splits
      dest: StripAndVerifyHmac_exn parse_packet_exn)

lemma unchecked_exn:
  "deserialize_unchecked deser min_body wire = Inl e \<Longrightarrow> e = SerializationException"
  by (auto simp: deserialize_unchecked_def split: if_splits dest: parse_packet_exn)

end

end
