(* ===== verification/Packet_Bodies.thy ===== *)
theory Packet_Bodies
  imports Packet_Codec Bigint
begin

text \<open>
  The bodies of the six packet classes (headers/uav-\{auth,join,handover,rekey,
  mtk,data\}-packet.\{h,cc\}): their fields, serializers and parsers, and for
  each the instance of \<open>body_codec\<close>.  \<open>std::array\<close> fields are byte lists whose
  length is part of the well-formedness predicate of the body.
\<close>

section \<open>AUTH\<close>

datatype AuthType = AuthType (at_raw: u8)
abbreviation "AT_UNKNOWN \<equiv> AuthType 0x00"
abbreviation "AT_REQUEST \<equiv> AuthType 0x01"
abbreviation "AT_RESPONSE \<equiv> AuthType 0x02"

record AuthBody =
  ab_auth_type :: AuthType
  ab_status :: AuthStatus
  ab_uav_id :: u16
  ab_skdc_id :: u16
  ab_cluster_id :: u16
  ab_challenge :: bytes
  ab_response :: bytes
  ab_timestamp_us :: u64

definition AuthBody_WIRE_SIZE :: nat where "AuthBody_WIRE_SIZE = 48"

definition AuthBody_Serialize :: "AuthBody \<Rightarrow> bytes" where
  "AuthBody_Serialize b =
     (let p = replicate AuthBody_WIRE_SIZE 0;
          p = WriteU8 p 0 (at_raw (ab_auth_type b));
          p = WriteU8 p 1 (as_raw (ab_status b));
          p = WriteU16BE p 2 (ab_uav_id b);
          p = WriteU16BE p 4 (ab_skdc_id b);
          p = WriteU16BE p 6 (ab_cluster_id b);
          p = put_bytes p 8 (ab_challenge b);
          p = put_bytes p 24 (ab_response b);
          p = WriteU64BE p 40 (ab_timestamp_us b)
      in p)"

definition AuthBody_Deserialize :: "bytes \<Rightarrow> nat \<Rightarrow> AuthBody res" where
  "AuthBody_Deserialize data offset =
     (if length data < offset + AuthBody_WIRE_SIZE then Inl SerializationException
      else Inr
       \<lparr> ab_auth_type = AuthType (ReadU8 data (offset + 0)),
         ab_status = AuthStatus (ReadU8 data (offset + 1)),
         ab_uav_id = ReadU16BE data (offset + 2),
         ab_skdc_id = ReadU16BE data (offset + 4),
         ab_cluster_id = ReadU16BE data (offset + 6),
         ab_challenge = get_bytes data (offset + 8) 16,
         ab_response = get_bytes data (offset + 24) 16,
         ab_timestamp_us = ReadU64BE data (offset + 40) \<rparr>)"

definition AuthBody_IsValid :: "AuthBody \<Rightarrow> bool" where
  "AuthBody_IsValid b = (ab_auth_type b \<noteq> AT_UNKNOWN)"

definition wf_AuthBody :: "AuthBody \<Rightarrow> bool" where
  "wf_AuthBody b \<longleftrightarrow> length (ab_challenge b) = 16 \<and> length (ab_response b) = 16"

section \<open>JOIN and LEAVE\<close>

datatype JoinType = JoinType (jt_raw: u8)
abbreviation "JT_UNKNOWN \<equiv> JoinType 0x00"
abbreviation "JT_REQUEST \<equiv> JoinType 0x01"
abbreviation "JT_ACCEPT \<equiv> JoinType 0x02"
abbreviation "JT_REJECT \<equiv> JoinType 0x03"
abbreviation "JT_NOTIFY \<equiv> JoinType 0x04"
abbreviation "JT_LEAVE \<equiv> JoinType 0x05"

record JoinBody =
  jb_join_type :: JoinType
  jb_reserved :: u8
  jb_uav_id :: u16
  jb_skdc_id :: u16
  jb_cluster_id :: u16
  jb_identity :: bytes
  jb_join_nonce :: bytes
  jb_timestamp_us :: u64
  jb_uav_index :: u32
  jb_version :: u32

definition JoinBody_WIRE_SIZE :: nat where "JoinBody_WIRE_SIZE = 56"

definition JoinBody_Serialize :: "JoinBody \<Rightarrow> bytes" where
  "JoinBody_Serialize b =
     (let p = replicate JoinBody_WIRE_SIZE 0;
          p = WriteU8 p 0 (jt_raw (jb_join_type b));
          p = WriteU8 p 1 (jb_reserved b);
          p = WriteU16BE p 2 (jb_uav_id b);
          p = WriteU16BE p 4 (jb_skdc_id b);
          p = WriteU16BE p 6 (jb_cluster_id b);
          p = put_bytes p 8 (jb_identity b);
          p = put_bytes p 24 (jb_join_nonce b);
          p = WriteU64BE p 40 (jb_timestamp_us b);
          p = WriteU32BE p 48 (jb_uav_index b);
          p = WriteU32BE p 52 (jb_version b)
      in p)"

definition JoinBody_Deserialize :: "bytes \<Rightarrow> nat \<Rightarrow> JoinBody res" where
  "JoinBody_Deserialize data offset =
     (if length data < offset + JoinBody_WIRE_SIZE then Inl SerializationException
      else Inr
       \<lparr> jb_join_type = JoinType (ReadU8 data (offset + 0)),
         jb_reserved = ReadU8 data (offset + 1),
         jb_uav_id = ReadU16BE data (offset + 2),
         jb_skdc_id = ReadU16BE data (offset + 4),
         jb_cluster_id = ReadU16BE data (offset + 6),
         jb_identity = get_bytes data (offset + 8) 16,
         jb_join_nonce = get_bytes data (offset + 24) 16,
         jb_timestamp_us = ReadU64BE data (offset + 40),
         jb_uav_index = ReadU32BE data (offset + 48),
         jb_version = ReadU32BE data (offset + 52) \<rparr>)"

definition JoinBody_IsValid :: "JoinBody \<Rightarrow> bool" where
  "JoinBody_IsValid b = (jb_join_type b \<noteq> JT_UNKNOWN)"

definition wf_JoinBody :: "JoinBody \<Rightarrow> bool" where
  "wf_JoinBody b \<longleftrightarrow> length (jb_identity b) = 16 \<and> length (jb_join_nonce b) = 16"

section \<open>HANDOVER\<close>

record HandoverBody =
  hb_phase :: HandoverPhase
  hb_reserved :: u8
  hb_uav_id :: u16
  hb_old_cluster_id :: u16
  hb_new_cluster_id :: u16
  hb_old_skdc_id :: u16
  hb_new_skdc_id :: u16
  hb_old_version :: u32
  hb_new_version :: u32
  hb_timestamp_us :: u64
  hb_ho_nonce :: bytes
  hb_uav_index_old :: u32
  hb_uav_index_new :: u32
  hb_reserved2 :: bytes

definition HandoverBody_WIRE_SIZE :: nat where "HandoverBody_WIRE_SIZE = 64"

definition HandoverBody_Serialize :: "HandoverBody \<Rightarrow> bytes" where
  "HandoverBody_Serialize b =
     (let p = replicate HandoverBody_WIRE_SIZE 0;
          p = WriteU8 p 0 (hp_raw (hb_phase b));
          p = WriteU8 p 1 (hb_reserved b);
          p = WriteU16BE p 2 (hb_uav_id b);
          p = WriteU16BE p 4 (hb_old_cluster_id b);
          p = WriteU16BE p 6 (hb_new_cluster_id b);
          p = WriteU16BE p 8 (hb_old_skdc_id b);
          p = WriteU16BE p 10 (hb_new_skdc_id b);
          p = WriteU32BE p 12 (hb_old_version b);
          p = WriteU32BE p 16 (hb_new_version b);
          p = WriteU64BE p 20 (hb_timestamp_us b);
          p = put_bytes p 28 (hb_ho_nonce b);
          p = WriteU32BE p 44 (hb_uav_index_old b);
          p = WriteU32BE p 48 (hb_uav_index_new b);
          p = put_bytes p 52 (hb_reserved2 b)
      in p)"

definition HandoverBody_Deserialize :: "bytes \<Rightarrow> nat \<Rightarrow> HandoverBody res" where
  "HandoverBody_Deserialize data offset =
     (if length data < offset + HandoverBody_WIRE_SIZE then Inl SerializationException
      else Inr
       \<lparr> hb_phase = HandoverPhase (ReadU8 data (offset + 0)),
         hb_reserved = ReadU8 data (offset + 1),
         hb_uav_id = ReadU16BE data (offset + 2),
         hb_old_cluster_id = ReadU16BE data (offset + 4),
         hb_new_cluster_id = ReadU16BE data (offset + 6),
         hb_old_skdc_id = ReadU16BE data (offset + 8),
         hb_new_skdc_id = ReadU16BE data (offset + 10),
         hb_old_version = ReadU32BE data (offset + 12),
         hb_new_version = ReadU32BE data (offset + 16),
         hb_timestamp_us = ReadU64BE data (offset + 20),
         hb_ho_nonce = get_bytes data (offset + 28) 16,
         hb_uav_index_old = ReadU32BE data (offset + 44),
         hb_uav_index_new = ReadU32BE data (offset + 48),
         hb_reserved2 = get_bytes data (offset + 52) 12 \<rparr>)"

definition HandoverBody_IsValid :: "HandoverBody \<Rightarrow> bool" where
  "HandoverBody_IsValid b = (hb_phase b \<noteq> HP_NONE)"

definition wf_HandoverBody :: "HandoverBody \<Rightarrow> bool" where
  "wf_HandoverBody b \<longleftrightarrow> length (hb_ho_nonce b) = 16 \<and> length (hb_reserved2 b) = 12"

section \<open>REKEY\<close>

record RekeyBody =
  rb_cluster_id :: u32
  rb_version :: u32
  rb_reason :: RekeyReason
  rb_mtk :: int
  rb_timestamp_us :: u64
  rb_rekey_nonce :: bytes

definition Rekey_FIXED_SIZE :: nat where "Rekey_FIXED_SIZE = 40"

text \<open>The number of bytes a serializer gives a big integer.\<close>

definition wire_size :: "ext \<Rightarrow> int \<Rightarrow> nat" where
  "wire_size E n = (if n > 0 then (x_msb E n + 8) div 8 else 1)"

definition RekeyBody_Serialize :: "ext \<Rightarrow> RekeyBody \<Rightarrow> bytes res" where
  "RekeyBody_Serialize E b =
     (let mtk_size = wire_size E (rb_mtk b) in
      rbind (ToBytes (rb_mtk b) mtk_size) (\<lambda>mtk_bytes.
        let buf = AppendU32BE [] (rb_cluster_id b);
            buf = AppendU32BE buf (rb_version b);
            buf = AppendU8 buf (rr_raw (rb_reason b));
            buf = AppendU8 buf 0;
            buf = AppendU8 buf 0;
            buf = AppendU8 buf 0;
            buf = AppendU32BE buf (word_of_nat (length mtk_bytes));
            buf = AppendU64BE buf (rb_timestamp_us b);
            buf = AppendBytes buf (rb_rekey_nonce b);
            buf = AppendBytes buf mtk_bytes
        in Inr buf))"

definition RekeyBody_Deserialize :: "bytes \<Rightarrow> nat \<Rightarrow> RekeyBody res" where
  "RekeyBody_Deserialize buf offset =
     (if length buf < offset + Rekey_FIXED_SIZE then Inl SerializationException
      else
        let mtk_len = unat (ReadU32BE buf (offset + 12));
            pos = offset + Rekey_FIXED_SIZE
        in if length buf < pos + mtk_len then Inl SerializationException
           else Inr
            \<lparr> rb_cluster_id = ReadU32BE buf (offset + 0),
              rb_version = ReadU32BE buf (offset + 4),
              rb_reason = RekeyReason (ReadU8 buf (offset + 8)),
              rb_mtk = FromBytes (get_bytes buf pos mtk_len),
              rb_timestamp_us = ReadU64BE buf (offset + 16),
              rb_rekey_nonce = get_bytes buf (offset + 24) 16 \<rparr>)"

definition RekeyBody_WireSize :: "ext \<Rightarrow> RekeyBody \<Rightarrow> nat" where
  "RekeyBody_WireSize E b = Rekey_FIXED_SIZE + wire_size E (rb_mtk b)"

definition RekeyBody_IsValid :: "RekeyBody \<Rightarrow> bool" where
  "RekeyBody_IsValid b = (rb_cluster_id b < 3 \<and> rb_version b > 0)"

definition wf_RekeyBody :: "ext \<Rightarrow> RekeyBody \<Rightarrow> bool" where
  "wf_RekeyBody E b \<longleftrightarrow> 0 \<le> rb_mtk b \<and> wire_size E (rb_mtk b) < 2 ^ 32 \<and> length (rb_rekey_nonce b) = 16"

section \<open>MTK\<close>

record MtkBody =
  mb_cluster_id :: u32
  mb_version :: u32
  mb_timestamp_us :: u64
  mb_mtk :: int
  mb_n_group :: int
  mb_body_nonce :: bytes

definition Mtk_MIN_SIZE :: nat where "Mtk_MIN_SIZE = 28"

definition MtkBody_Serialize :: "ext \<Rightarrow> MtkBody \<Rightarrow> bytes res" where
  "MtkBody_Serialize E b =
     (let mtk_size = wire_size E (mb_mtk b); ng_size = wire_size E (mb_n_group b) in
      rbind (ToBytes (mb_mtk b) mtk_size) (\<lambda>mtk_bytes.
      rbind (ToBytes (mb_n_group b) ng_size) (\<lambda>n_group_bytes.
        let buf = AppendU32BE [] (mb_cluster_id b);
            buf = AppendU32BE buf (mb_version b);
            buf = AppendU64BE buf (mb_timestamp_us b);
            buf = AppendU32BE buf (word_of_nat (length mtk_bytes));
            buf = AppendU32BE buf (word_of_nat (length n_group_bytes));
            buf = AppendU32BE buf 16;
            buf = AppendBytes buf mtk_bytes;
            buf = AppendBytes buf n_group_bytes;
            buf = AppendBytes buf (mb_body_nonce b)
        in Inr buf)))"

definition MtkBody_Deserialize :: "bytes \<Rightarrow> nat \<Rightarrow> MtkBody res" where
  "MtkBody_Deserialize buf offset =
     (if length buf < offset + Mtk_MIN_SIZE then Inl SerializationException
      else
        let mtk_len = unat (ReadU32BE buf (offset + 16));
            n_group_len = unat (ReadU32BE buf (offset + 20));
            nonce_len = unat (ReadU32BE buf (offset + 24));
            pos = offset + Mtk_MIN_SIZE
        in if length buf < pos + mtk_len + n_group_len + nonce_len then Inl SerializationException
           else Inr
            \<lparr> mb_cluster_id = ReadU32BE buf (offset + 0),
              mb_version = ReadU32BE buf (offset + 4),
              mb_timestamp_us = ReadU64BE buf (offset + 8),
              mb_mtk = FromBytes (get_bytes buf pos mtk_len),
              mb_n_group = FromBytes (get_bytes buf (pos + mtk_len) n_group_len),
              mb_body_nonce =
                (if nonce_len \<ge> 16 then get_bytes buf (pos + mtk_len + n_group_len) 16
                 else replicate 16 0) \<rparr>)"

definition MtkBody_WireSize :: "ext \<Rightarrow> MtkBody \<Rightarrow> nat res" where
  "MtkBody_WireSize E b =
     (let mtk_size = wire_size E (mb_mtk b); ng_size = wire_size E (mb_n_group b) in
      rbind (ToBytes (mb_mtk b) mtk_size) (\<lambda>mtk_bytes.
      rbind (ToBytes (mb_n_group b) ng_size) (\<lambda>n_group_bytes.
        Inr (Mtk_MIN_SIZE + length mtk_bytes + length n_group_bytes + 16))))"

definition MtkBody_IsValid :: "MtkBody \<Rightarrow> bool" where
  "MtkBody_IsValid b = (mb_cluster_id b < 3 \<and> mb_version b > 0 \<and> mb_mtk b > 0 \<and> mb_n_group b > 0)"

definition wf_MtkBody :: "ext \<Rightarrow> MtkBody \<Rightarrow> bool" where
  "wf_MtkBody E b \<longleftrightarrow>
     0 \<le> mb_mtk b \<and> wire_size E (mb_mtk b) < 2 ^ 32 \<and>
     0 \<le> mb_n_group b \<and> wire_size E (mb_n_group b) < 2 ^ 32 \<and> length (mb_body_nonce b) = 16"

section \<open>DATA\<close>

record DataBody =
  db_cluster_id :: u32
  db_data_sequence :: u32
  db_timestamp_us :: u64
  db_plaintext_len :: u32
  db_aes_iv :: bytes
  db_aes_tag :: bytes
  db_ciphertext :: bytes

definition Data_FIXED_SIZE :: nat where "Data_FIXED_SIZE = 56"

definition DataBody_Serialize :: "DataBody \<Rightarrow> bytes" where
  "DataBody_Serialize b =
     (let p = replicate Data_FIXED_SIZE 0;
          p = WriteU32BE p 0 (db_cluster_id b);
          p = WriteU32BE p 4 (db_data_sequence b);
          p = WriteU64BE p 8 (db_timestamp_us b);
          p = WriteU32BE p 16 (db_plaintext_len b);
          p = WriteU32BE p 20 (word_of_nat (length (db_ciphertext b)));
          p = put_bytes p 24 (db_aes_iv b);
          p = put_bytes p 40 (db_aes_tag b)
      in AppendBytes p (db_ciphertext b))"

definition DataBody_Deserialize :: "bytes \<Rightarrow> nat \<Rightarrow> DataBody res" where
  "DataBody_Deserialize buf offset =
     (if length buf < offset + Data_FIXED_SIZE then Inl SerializationException
      else
        let ct_len = unat (ReadU32BE buf (offset + 20));
            ct_offset = offset + Data_FIXED_SIZE
        in if length buf < ct_offset + ct_len then Inl SerializationException
           else Inr
            \<lparr> db_cluster_id = ReadU32BE buf (offset + 0),
              db_data_sequence = ReadU32BE buf (offset + 4),
              db_timestamp_us = ReadU64BE buf (offset + 8),
              db_plaintext_len = ReadU32BE buf (offset + 16),
              db_aes_iv = get_bytes buf (offset + 24) 12,
              db_aes_tag = get_bytes buf (offset + 40) 16,
              db_ciphertext = get_bytes buf ct_offset ct_len \<rparr>)"

definition DataBody_WireSize :: "DataBody \<Rightarrow> nat" where
  "DataBody_WireSize b = Data_FIXED_SIZE + length (db_ciphertext b)"

definition DataBody_IsValid :: "DataBody \<Rightarrow> bool" where
  "DataBody_IsValid b = (db_plaintext_len b > 0 \<and> db_ciphertext b \<noteq> [])"

definition wf_DataBody :: "DataBody \<Rightarrow> bool" where
  "wf_DataBody b \<longleftrightarrow>
     length (db_aes_iv b) = 12 \<and> length (db_aes_tag b) = 16 \<and> length (db_ciphertext b) < 2 ^ 32"

lemmas body_sizes = AuthBody_WIRE_SIZE_def JoinBody_WIRE_SIZE_def HandoverBody_WIRE_SIZE_def
  Rekey_FIXED_SIZE_def Mtk_MIN_SIZE_def Data_FIXED_SIZE_def

section \<open>Layouts\<close>

lemma AuthBody_layout:
  "wf_AuthBody b \<Longrightarrow> AuthBody_Serialize b =
     be8 (at_raw (ab_auth_type b)) @ be8 (as_raw (ab_status b)) @ be16 (ab_uav_id b) @
     be16 (ab_skdc_id b) @ be16 (ab_cluster_id b) @ ab_challenge b @ ab_response b @
     be64 (ab_timestamp_us b)"
  unfolding AuthBody_Serialize_def Let_def
  by (simp add: body_sizes wf_AuthBody_def fill_simps del: append_assoc)

lemma JoinBody_layout:
  "wf_JoinBody b \<Longrightarrow> JoinBody_Serialize b =
     be8 (jt_raw (jb_join_type b)) @ be8 (jb_reserved b) @ be16 (jb_uav_id b) @
     be16 (jb_skdc_id b) @ be16 (jb_cluster_id b) @ jb_identity b @ jb_join_nonce b @
     be64 (jb_timestamp_us b) @ be32 (jb_uav_index b) @ be32 (jb_version b)"
  unfolding JoinBody_Serialize_def Let_def
  by (simp add: body_sizes wf_JoinBody_def fill_simps del: append_assoc)

lemma HandoverBody_layout:
  "wf_HandoverBody b \<Longrightarrow> HandoverBody_Serialize b =
     be8 (hp_raw (hb_phase b)) @ be8 (hb_reserved b) @ be16 (hb_uav_id b) @
     be16 (hb_old_cluster_id b) @ be16 (hb_new_cluster_id b) @ be16 (hb_old_skdc_id b) @
     be16 (hb_new_skdc_id b) @ be32 (hb_old_version b) @ be32 (hb_new_version b) @
     be64 (hb_timestamp_us b) @ hb_ho_nonce b @ be32 (hb_uav_index_old b) @
     be32 (hb_uav_index_new b) @ hb_reserved2 b"
  unfolding HandoverBody_Serialize_def Let_def
  by (simp add: body_sizes wf_HandoverBody_def fill_simps del: append_assoc)

lemma DataBody_layout:
  "wf_DataBody b \<Longrightarrow> DataBody_Serialize b =
     be32 (db_cluster_id b) @ be32 (db_data_sequence b) @ be64 (db_timestamp_us b) @
     be32 (db_plaintext_len b) @ be32 (word_of_nat (length (db_ciphertext b))) @ db_aes_iv b @
     replicate 4 0 @ db_aes_tag b @ db_ciphertext b"
  unfolding DataBody_Serialize_def Let_def
  by (simp add: body_sizes wf_DataBody_def fill_simps del: append_assoc)

lemma wire_size_fits:
  assumes "msb_law E" "0 \<le> n"
  shows "n < 256 ^ wire_size E n"
proof (cases "n = 0")
  case False
  with assms have "n < 2 ^ (x_msb E n + 1)" by (auto simp: msb_law_def)
  also have "\<dots> \<le> (2 :: int) ^ (8 * wire_size E n)"
    using False assms(2) by (intro power_increasing) (auto simp: wire_size_def)
  finally show ?thesis by (simp add: power_mult)
qed (simp add: wire_size_def)

lemma ToBytes_wire_size:
  "msb_law E \<Longrightarrow> 0 \<le> n \<Longrightarrow>
   \<exists>bs. ToBytes n (wire_size E n) = Inr bs \<and> length bs = wire_size E n \<and> FromBytes bs = n"
  using wire_size_fits[of E n] by (auto simp: ToBytes_iff FromBytes_digits)

lemma RekeyBody_layout:
  assumes "msb_law E" "wf_RekeyBody E b"
  obtains bs where "length bs = wire_size E (rb_mtk b)" "FromBytes bs = rb_mtk b"
    "RekeyBody_Serialize E b = Inr
      (be32 (rb_cluster_id b) @ be32 (rb_version b) @ be8 (rr_raw (rb_reason b)) @
       replicate 3 0 @ be32 (word_of_nat (length bs)) @ be64 (rb_timestamp_us b) @
       rb_rekey_nonce b @ bs)"
proof -
  obtain bs where bs: "ToBytes (rb_mtk b) (wire_size E (rb_mtk b)) = Inr bs"
    and "length bs = wire_size E (rb_mtk b)" "FromBytes bs = rb_mtk b"
    using ToBytes_wire_size[of E "rb_mtk b"] assms by (auto simp: wf_RekeyBody_def)
  then show thesis
    by (intro that[of bs]) (simp_all add: RekeyBody_Serialize_def be8_def numeral_3_eq_3)
qed

lemma MtkBody_layout:
  assumes "msb_law E" "wf_MtkBody E b"
  obtains ms ns where "length ms = wire_size E (mb_mtk b)" "FromBytes ms = mb_mtk b"
    "length ns = wire_size E (mb_n_group b)" "FromBytes ns = mb_n_group b"
    "MtkBody_Serialize E b = Inr
      (be32 (mb_cluster_id b) @ be32 (mb_version b) @ be64 (mb_timestamp_us b) @
       be32 (word_of_nat (length ms)) @ be32 (word_of_nat (length ns)) @ be32 16 @
       ms @ ns @ mb_body_nonce b)"
proof -
  obtain ms ns where bs: "ToBytes (mb_mtk b) (wire_size E (mb_mtk b)) = Inr ms"
      "ToBytes (mb_n_group b) (wire_size E (mb_n_group b)) = Inr ns"
    and "length ms = wire_size E (mb_mtk b)" "FromBytes ms = mb_mtk b"
      "length ns = wire_size E (mb_n_group b)" "FromBytes ns = mb_n_group b"
    using ToBytes_wire_size[of E "mb_mtk b"] ToBytes_wire_size[of E "mb_n_group b"] assms
    by (auto simp: wf_MtkBody_def)
  then show thesis by (intro that[of ms ns]) (simp_all add: MtkBody_Serialize_def)
qed

lemmas body_layouts = AuthBody_layout JoinBody_layout HandoverBody_layout DataBody_layout

section \<open>Every body codec keeps the contract\<close>

interpretation auth_codec: body_codec "\<lambda>b. Inr (AuthBody_Serialize b)" AuthBody_Deserialize
    wf_AuthBody AuthBody_WIRE_SIZE
proof
  fix b assume wf: "wf_AuthBody b"
  then show "\<exists>bs. Inr (AuthBody_Serialize b) = (Inr bs :: bytes res) \<and> AuthBody_WIRE_SIZE \<le> length bs \<and>
      (\<forall>pre. AuthBody_Deserialize (pre @ bs) (length pre) = Inr b)"
    by (cases b) (simp add: body_layouts AuthBody_Deserialize_def body_sizes wf_AuthBody_def parse_simps)
qed (auto simp: AuthBody_Deserialize_def split: if_splits)

interpretation join_codec: body_codec "\<lambda>b. Inr (JoinBody_Serialize b)" JoinBody_Deserialize
    wf_JoinBody JoinBody_WIRE_SIZE
proof
  fix b assume wf: "wf_JoinBody b"
  then show "\<exists>bs. Inr (JoinBody_Serialize b) = (Inr bs :: bytes res) \<and> JoinBody_WIRE_SIZE \<le> length bs \<and>
      (\<forall>pre. JoinBody_Deserialize (pre @ bs) (length pre) = Inr b)"
    by (cases b) (simp add: body_layouts JoinBody_Deserialize_def body_sizes wf_JoinBody_def parse_simps)
qed (auto simp: JoinBody_Deserialize_def split: if_splits)

interpretation handover_codec: body_codec "\<lambda>b. Inr (HandoverBody_Serialize b)" HandoverBody_Deserialize
    wf_HandoverBody HandoverBody_WIRE_SIZE
proof
  fix b assume wf: "wf_HandoverBody b"
  then show "\<exists>bs. Inr (HandoverBody_Serialize b) = (Inr bs :: bytes res) \<and>
      HandoverBody_WIRE_SIZE \<le> length bs \<and> (\<forall>pre. HandoverBody_Deserialize (pre @ bs) (length pre) = Inr b)"
    by (cases b) (simp add: body_layouts HandoverBody_Deserialize_def body_sizes wf_HandoverBody_def
        parse_simps get_bytes_all)
qed (auto simp: HandoverBody_Deserialize_def split: if_splits)

lemma unat_word_of_nat_small: "n < 2 ^ 32 \<Longrightarrow> unat (word_of_nat n :: u32) = n"
  by (simp add: unat_of_nat take_bit_nat_eq_self)

interpretation data_codec: body_codec "\<lambda>b. Inr (DataBody_Serialize b)" DataBody_Deserialize
    wf_DataBody Data_FIXED_SIZE
proof
  fix b assume wf: "wf_DataBody b"
  then show "\<exists>bs. Inr (DataBody_Serialize b) = (Inr bs :: bytes res) \<and> Data_FIXED_SIZE \<le> length bs \<and>
      (\<forall>pre. DataBody_Deserialize (pre @ bs) (length pre) = Inr b)"
    by (cases b) (simp add: body_layouts DataBody_Deserialize_def body_sizes wf_DataBody_def parse_simps
        unat_word_of_nat_small get_bytes_all)
qed (auto simp: DataBody_Deserialize_def Let_def split: if_splits)

text \<open>The variable-size bodies need boost's \<open>msb\<close> for the length of their integers.\<close>

lemma RekeyBody_round_trip:
  assumes "msb_law E" "wf_RekeyBody E b"
  shows "\<exists>bs. RekeyBody_Serialize E b = Inr bs \<and> Rekey_FIXED_SIZE \<le> length bs \<and>
    (\<forall>pre. RekeyBody_Deserialize (pre @ bs) (length pre) = Inr b)"
proof -
  obtain bs where bs: "length bs = wire_size E (rb_mtk b)" "FromBytes bs = rb_mtk b"
    and ser: "RekeyBody_Serialize E b = Inr
      (be32 (rb_cluster_id b) @ be32 (rb_version b) @ be8 (rr_raw (rb_reason b)) @
       replicate 3 0 @ be32 (word_of_nat (length bs)) @ be64 (rb_timestamp_us b) @
       rb_rekey_nonce b @ bs)"
    using RekeyBody_layout[OF assms] by blast
  have "length bs < 2 ^ 32" "length (rb_rekey_nonce b) = 16"
    using assms(2) bs(1) by (simp_all add: wf_RekeyBody_def)
  with bs(2) show ?thesis
    unfolding ser by (cases b) (simp add: RekeyBody_Deserialize_def body_sizes parse_simps
        unat_word_of_nat_small get_bytes_all Let_def)
qed

lemma RekeyBody_exn: "RekeyBody_Deserialize buf off = Inl e \<Longrightarrow> e = SerializationException"
  by (auto simp: RekeyBody_Deserialize_def Let_def split: if_splits)

lemma MtkBody_round_trip:
  assumes "msb_law E" "wf_MtkBody E b"
  shows "\<exists>bs. MtkBody_Serialize E b = Inr bs \<and> Mtk_MIN_SIZE \<le> length bs \<and>
    (\<forall>pre. MtkBody_Deserialize (pre @ bs) (length pre) = Inr b)"
proof -
  obtain ms ns where ms: "length ms = wire_size E (mb_mtk b)" "FromBytes ms = mb_mtk b"
    and ns: "length ns = wire_size E (mb_n_group b)" "FromBytes ns = mb_n_group b"
    and ser: "MtkBody_Serialize E b = Inr
      (be32 (mb_cluster_id b) @ be32 (mb_version b) @ be64 (mb_timestamp_us b) @
       be32 (word_of_nat (length ms)) @ be32 (word_of_nat (length ns)) @ be32 16 @
       ms @ ns @ mb_body_nonce b)"
    using MtkBody_layout[OF assms] by blast
  have "length ms < 2 ^ 32" "length ns < 2 ^ 32" "length (mb_body_nonce b) = 16"
    using assms(2) ms(1) ns(1) by (simp_all add: wf_MtkBody_def)
  with ms(2) ns(2) show ?thesis
    unfolding ser by (cases b) (simp add: MtkBody_Deserialize_def body_sizes parse_simps
        unat_word_of_nat_small get_bytes_all Let_def)
qed

lemma MtkBody_exn: "MtkBody_Deserialize buf off = Inl e \<Longrightarrow> e = SerializationException"
  by (auto simp: MtkBody_Deserialize_def Let_def split: if_splits)

interpretation rekey_codec: body_codec "RekeyBody_Serialize E" RekeyBody_Deserialize
    "\<lambda>b. msb_law E \<and> wf_RekeyBody E b" Rekey_FIXED_SIZE for E
  by unfold_locales (auto intro: RekeyBody_round_trip dest: RekeyBody_exn)

interpretation mtk_codec: body_codec "MtkBody_Serialize E" MtkBody_Deserialize
    "\<lambda>b. msb_law E \<and> wf_MtkBody E b" Mtk_MIN_SIZE for E
  by unfold_locales (auto intro: MtkBody_round_trip dest: MtkBody_exn)

end
