(* ===== verification/Packets.thy ===== *)
theory Packets
  imports Packet_Bodies
begin

text \<open>
  The six packet classes of headers/: construction of each packet (the factory
  functions), \<open>Serialize\<close> and \<open>Deserialize\<close>.  A factory call reads the clock and
  the random generator several times; the readings of one call are the record
  \<open>Readings\<close>.  The sequence counter is passed in and its successor returned.
  The HMAC key the factories take is unused in the code and left out here.
\<close>

record Readings =
  r_body_now :: u64
  r_body_nonce :: bytes
  r_token_now :: u64
  r_token_nonce :: bytes
  r_header_now :: u64
  r_aes_iv :: bytes

definition wf_readings :: "Readings \<Rightarrow> bool" where
  "wf_readings r \<longleftrightarrow>
     length (r_body_nonce r) = 16 \<and> length (r_token_nonce r) = 16 \<and> length (r_aes_iv r) = 12"

type_synonym AuthPacket = "AuthBody Packet"
type_synonym JoinPacket = "JoinBody Packet"
type_synonym HandoverPacket = "HandoverBody Packet"
type_synonym RekeyPacket = "RekeyBody Packet"
type_synonym MtkPacket = "MtkBody Packet"
type_synonym DataPacket = "DataBody Packet"

section \<open>AuthPacket\<close>

definition Auth_BuildRequest :: "Readings \<Rightarrow> u16 \<Rightarrow> u16 \<Rightarrow> u16 \<Rightarrow> u64 \<Rightarrow> AuthPacket \<times> u64" where
  "Auth_BuildRequest r uav_id skdc_id cluster_id seq =
     (let body =
            \<lparr> ab_auth_type = AT_REQUEST, ab_status = AS_PENDING, ab_uav_id = uav_id,
              ab_skdc_id = skdc_id, ab_cluster_id = cluster_id, ab_challenge = replicate 16 0,
              ab_response = replicate 16 0, ab_timestamp_us = r_body_now r \<rparr>;
          (n, seq') = SequenceCounter_Next seq;
          token = Token_Generate (r_token_now r) (r_token_nonce r) n;
          header = BaseHeader_new (r_header_now r) AUTH_PACKET cluster_id uav_id skdc_id NT_UAV NT_SKDC
                     (Flag_or REPLAY_PROTECTED HMAC_PRESENT) PRIO_CRITICAL;
          header = ApplyReplayToken header token;
          header = header \<lparr> h_payload_len := word_of_nat AuthBody_WIRE_SIZE \<rparr>
      in (\<lparr> pk_header = header, pk_body = body \<rparr>, seq'))"

definition Auth_BuildResponse ::
    "Readings \<Rightarrow> u16 \<Rightarrow> u16 \<Rightarrow> u16 \<Rightarrow> AuthStatus \<Rightarrow> bytes \<Rightarrow> u64 \<Rightarrow> AuthPacket \<times> u64" where
  "Auth_BuildResponse r uav_id skdc_id cluster_id status challenge seq =
     (let body =
            \<lparr> ab_auth_type = AT_RESPONSE, ab_status = status, ab_uav_id = uav_id,
              ab_skdc_id = skdc_id, ab_cluster_id = cluster_id, ab_challenge = challenge,
              ab_response = replicate 16 0, ab_timestamp_us = r_body_now r \<rparr>;
          (n, seq') = SequenceCounter_Next seq;
          token = Token_Generate (r_token_now r) (r_token_nonce r) n;
          header = BaseHeader_new (r_header_now r) AUTH_PACKET cluster_id skdc_id uav_id NT_SKDC NT_UAV
                     (Flag_or REPLAY_PROTECTED HMAC_PRESENT) PRIO_CRITICAL;
          header = ApplyReplayToken header token;
          header = header \<lparr> h_payload_len := word_of_nat AuthBody_WIRE_SIZE \<rparr>
      in (\<lparr> pk_header = header, pk_body = body \<rparr>, seq'))"

definition AuthPacket_Serialize :: "AuthPacket \<Rightarrow> bytes" where
  "AuthPacket_Serialize pkt =
     (let buf = Header_SerializeTo [] (pk_header pkt);
          buf = AppendBytes buf (SerializeNonce (pk_header pkt));
          buf = AppendBytes buf (AuthBody_Serialize (pk_body pkt))
      in buf)"

definition AuthPacket_Deserialize :: "ext \<Rightarrow> bytes \<Rightarrow> bytes \<Rightarrow> AuthPacket res" where
  "AuthPacket_Deserialize E wire hmac_key =
     (if length wire < Header_WIRE_SIZE + NONCE_SIZE + AuthBody_WIRE_SIZE + HMAC_SHA256_OUTPUT_BYTES
      then Inl SerializationException
      else
        rbind (StripAndVerifyHmac E hmac_key wire) (\<lambda>body.
        rbind (Header_Deserialize body 0) (\<lambda>h. let pos = Header_WIRE_SIZE in
        rbind (DeserializeNonce h body pos (length body - pos)) (\<lambda>h. let pos = pos + NONCE_SIZE in
        rbind (AuthBody_Deserialize body pos) (\<lambda>b.
        Inr \<lparr> pk_header = h, pk_body = b \<rparr>)))))"

definition AuthPacket_IsValid :: "AuthPacket \<Rightarrow> bool" where
  "AuthPacket_IsValid pkt = (Header_IsValid (pk_header pkt) \<and> AuthBody_IsValid (pk_body pkt))"

section \<open>JoinPacket\<close>

definition Join_BuildInternal ::
    "Readings \<Rightarrow> JoinType \<Rightarrow> u16 \<Rightarrow> u16 \<Rightarrow> u16 \<Rightarrow> u32 \<Rightarrow> u32 \<Rightarrow> NodeTypeCode \<Rightarrow> NodeTypeCode \<Rightarrow> u16 \<Rightarrow>
     u64 \<Rightarrow> JoinPacket \<times> u64" where
  "Join_BuildInternal r join_type uav_id skdc_id cluster_id uav_index version src_type dst_type dst_id seq =
     (let identity = replicate 16 0;
          identity = WriteU16BE identity 0 uav_id;
          identity = WriteU16BE identity 2 cluster_id;
          body =
            \<lparr> jb_join_type = join_type, jb_reserved = 0, jb_uav_id = uav_id, jb_skdc_id = skdc_id,
              jb_cluster_id = cluster_id, jb_identity = identity, jb_join_nonce = r_body_nonce r,
              jb_timestamp_us = r_body_now r, jb_uav_index = uav_index, jb_version = version \<rparr>;
          (n, seq') = SequenceCounter_Next seq;
          token = Token_Generate (r_token_now r) (r_token_nonce r) n;
          src_id = (if src_type = NT_SKDC then skdc_id else uav_id);
          header = BaseHeader_new (r_header_now r) JOIN_PACKET cluster_id src_id dst_id src_type dst_type
                     (Flag_or REPLAY_PROTECTED HMAC_PRESENT) PRIO_HIGH;
          header = ApplyReplayToken header token;
          header = header \<lparr> h_payload_len := word_of_nat JoinBody_WIRE_SIZE \<rparr>
      in (\<lparr> pk_header = header, pk_body = body \<rparr>, seq'))"

definition Join_BuildRequest :: "Readings \<Rightarrow> u16 \<Rightarrow> u16 \<Rightarrow> u16 \<Rightarrow> u32 \<Rightarrow> u64 \<Rightarrow> JoinPacket \<times> u64" where
  "Join_BuildRequest r uav_id skdc_id cluster_id uav_index seq =
     Join_BuildInternal r JT_REQUEST uav_id skdc_id cluster_id uav_index 0 NT_UAV NT_SKDC skdc_id seq"

definition Join_BuildAccept :: "Readings \<Rightarrow> u16 \<Rightarrow> u16 \<Rightarrow> u16 \<Rightarrow> u32 \<Rightarrow> u32 \<Rightarrow> u64 \<Rightarrow> JoinPacket \<times> u64" where
  "Join_BuildAccept r uav_id skdc_id cluster_id uav_index new_version seq =
     Join_BuildInternal r JT_ACCEPT uav_id skdc_id cluster_id uav_index new_version NT_SKDC NT_UAV uav_id seq"

definition Join_BuildReject :: "Readings \<Rightarrow> u16 \<Rightarrow> u16 \<Rightarrow> u16 \<Rightarrow> u64 \<Rightarrow> JoinPacket \<times> u64" where
  "Join_BuildReject r uav_id skdc_id cluster_id seq =
     Join_BuildInternal r JT_REJECT uav_id skdc_id cluster_id 0 0 NT_SKDC NT_UAV uav_id seq"

definition Join_BuildNotify :: "Readings \<Rightarrow> u16 \<Rightarrow> u16 \<Rightarrow> u16 \<Rightarrow> u32 \<Rightarrow> u32 \<Rightarrow> u64 \<Rightarrow> JoinPacket \<times> u64" where
  "Join_BuildNotify r uav_id skdc_id cluster_id uav_index new_version seq =
     Join_BuildInternal r JT_NOTIFY uav_id skdc_id cluster_id uav_index new_version NT_SKDC NT_UAV 0xFFFF seq"

definition JoinPacket_Serialize :: "JoinPacket \<Rightarrow> bytes" where
  "JoinPacket_Serialize pkt =
     (let buf = Header_SerializeTo [] (pk_header pkt);
          buf = AppendBytes buf (SerializeNonce (pk_header pkt));
          buf = AppendBytes buf (JoinBody_Serialize (pk_body pkt))
      in buf)"

definition JoinPacket_Deserialize :: "ext \<Rightarrow> bytes \<Rightarrow> bytes \<Rightarrow> JoinPacket res" where
  "JoinPacket_Deserialize E wire hmac_key =
     (if length wire < Header_WIRE_SIZE + NONCE_SIZE + JoinBody_WIRE_SIZE + HMAC_SHA256_OUTPUT_BYTES
      then Inl SerializationException
      else
        rbind (StripAndVerifyHmac E hmac_key wire) (\<lambda>body.
        rbind (Header_Deserialize body 0) (\<lambda>h. let pos = Header_WIRE_SIZE in
        rbind (DeserializeNonce h body pos (length body - pos)) (\<lambda>h. let pos = pos + NONCE_SIZE in
        rbind (JoinBody_Deserialize body pos) (\<lambda>b.
        Inr \<lparr> pk_header = h, pk_body = b \<rparr>)))))"

section \<open>HandoverPacket\<close>

definition Handover_BuildInternal ::
    "Readings \<Rightarrow> HandoverPhase \<Rightarrow> u16 \<Rightarrow> u16 \<Rightarrow> u16 \<Rightarrow> NodeTypeCode \<Rightarrow> NodeTypeCode \<Rightarrow> u16 \<Rightarrow> u16 \<Rightarrow>
     u16 \<Rightarrow> u16 \<Rightarrow> u32 \<Rightarrow> u32 \<Rightarrow> u32 \<Rightarrow> u32 \<Rightarrow> u64 \<Rightarrow> HandoverPacket \<times> u64" where
  "Handover_BuildInternal r phase uav_id src_id dst_id src_type dst_type old_cluster_id new_cluster_id
       old_skdc_id new_skdc_id uav_index_old uav_index_new old_version new_version seq =
     (let body =
            \<lparr> hb_phase = phase, hb_reserved = 0, hb_uav_id = uav_id, hb_old_cluster_id = old_cluster_id,
              hb_new_cluster_id = new_cluster_id, hb_old_skdc_id = old_skdc_id,
              hb_new_skdc_id = new_skdc_id, hb_old_version = old_version, hb_new_version = new_version,
              hb_timestamp_us = r_body_now r, hb_ho_nonce = r_body_nonce r,
              hb_uav_index_old = uav_index_old, hb_uav_index_new = uav_index_new,
              hb_reserved2 = replicate 12 0 \<rparr>;
          (n, seq') = SequenceCounter_Next seq;
          token = Token_Generate (r_token_now r) (r_token_nonce r) n;
          header = BaseHeader_new (r_header_now r) HANDOVER_PACKET old_cluster_id src_id dst_id
                     src_type dst_type (Flag_or REPLAY_PROTECTED HMAC_PRESENT) PRIO_CRITICAL;
          header = ApplyReplayToken header token;
          header = header \<lparr> h_payload_len := word_of_nat HandoverBody_WIRE_SIZE \<rparr>
      in (\<lparr> pk_header = header, pk_body = body \<rparr>, seq'))"

definition Handover_BuildInit ::
    "Readings \<Rightarrow> u16 \<Rightarrow> u16 \<Rightarrow> u16 \<Rightarrow> u16 \<Rightarrow> u16 \<Rightarrow> u32 \<Rightarrow> u64 \<Rightarrow> HandoverPacket \<times> u64" where
  "Handover_BuildInit r uav_id old_skdc_id old_cluster_id new_cluster_id new_skdc_id uav_index_old seq =
     Handover_BuildInternal r HP_INITIATED uav_id uav_id old_skdc_id NT_UAV NT_SKDC
       old_cluster_id new_cluster_id old_skdc_id new_skdc_id uav_index_old 0 0 0 seq"

definition Handover_BuildTransfer ::
    "Readings \<Rightarrow> u16 \<Rightarrow> u16 \<Rightarrow> u16 \<Rightarrow> u16 \<Rightarrow> u16 \<Rightarrow> u32 \<Rightarrow> u32 \<Rightarrow> u64 \<Rightarrow> HandoverPacket \<times> u64" where
  "Handover_BuildTransfer r uav_id old_skdc_id new_skdc_id old_cluster_id new_cluster_id
       uav_index_old uav_index_new seq =
     Handover_BuildInternal r HP_OLD_LEAVE uav_id old_skdc_id new_skdc_id NT_SKDC NT_SKDC
       old_cluster_id new_cluster_id old_skdc_id new_skdc_id uav_index_old uav_index_new 0 0 seq"

definition Handover_BuildAccept ::
    "Readings \<Rightarrow> u16 \<Rightarrow> u16 \<Rightarrow> u16 \<Rightarrow> u16 \<Rightarrow> u32 \<Rightarrow> u32 \<Rightarrow> u64 \<Rightarrow> HandoverPacket \<times> u64" where
  "Handover_BuildAccept r uav_id new_skdc_id old_cluster_id new_cluster_id uav_index_new new_version seq =
     Handover_BuildInternal r HP_NEW_JOIN uav_id new_skdc_id uav_id NT_SKDC NT_UAV
       old_cluster_id new_cluster_id 0 new_skdc_id 0 uav_index_new 0 new_version seq"

definition Handover_BuildRekey ::
    "Readings \<Rightarrow> u16 \<Rightarrow> u16 \<Rightarrow> u32 \<Rightarrow> HandoverPhase \<Rightarrow> u64 \<Rightarrow> HandoverPacket \<times> u64" where
  "Handover_BuildRekey r skdc_id cluster_id version phase seq =
     Handover_BuildInternal r phase 0 skdc_id 0xFFFF NT_SKDC NT_UAV cluster_id cluster_id
       skdc_id skdc_id 0 0 version version seq"

definition Handover_BuildComplete ::
    "Readings \<Rightarrow> u16 \<Rightarrow> u16 \<Rightarrow> u16 \<Rightarrow> u16 \<Rightarrow> u32 \<Rightarrow> u64 \<Rightarrow> HandoverPacket \<times> u64" where
  "Handover_BuildComplete r uav_id new_skdc_id old_cluster_id new_cluster_id uav_index_new seq =
     Handover_BuildInternal r HP_COMPLETE uav_id uav_id new_skdc_id NT_UAV NT_SKDC
       old_cluster_id new_cluster_id 0 new_skdc_id 0 uav_index_new 0 0 seq"

definition HandoverPacket_Serialize :: "HandoverPacket \<Rightarrow> bytes" where
  "HandoverPacket_Serialize pkt =
     (let buf = Header_SerializeTo [] (pk_header pkt);
          buf = AppendBytes buf (SerializeNonce (pk_header pkt));
          buf = AppendBytes buf (HandoverBody_Serialize (pk_body pkt))
      in buf)"

definition HandoverPacket_Deserialize :: "ext \<Rightarrow> bytes \<Rightarrow> bytes \<Rightarrow> HandoverPacket res" where
  "HandoverPacket_Deserialize E wire hmac_key =
     (if length wire < Header_WIRE_SIZE + NONCE_SIZE + HandoverBody_WIRE_SIZE + HMAC_SHA256_OUTPUT_BYTES
      then Inl SerializationException
      else
        rbind (StripAndVerifyHmac E hmac_key wire) (\<lambda>body.
        rbind (Header_Deserialize body 0) (\<lambda>h. let pos = Header_WIRE_SIZE in
        rbind (DeserializeNonce h body pos (length body - pos)) (\<lambda>h. let pos = pos + NONCE_SIZE in
        rbind (HandoverBody_Deserialize body pos) (\<lambda>b.
        Inr \<lparr> pk_header = h, pk_body = b \<rparr>)))))"

section \<open>RekeyPacket\<close>

definition Rekey_Build ::
    "ext \<Rightarrow> Readings \<Rightarrow> u32 \<Rightarrow> u16 \<Rightarrow> u32 \<Rightarrow> RekeyReason \<Rightarrow> int \<Rightarrow> u64 \<Rightarrow> RekeyPacket \<times> u64" where
  "Rekey_Build E r cluster_id skdc_id version reason mtk seq =
     (let body =
            \<lparr> rb_cluster_id = cluster_id, rb_version = version, rb_reason = reason, rb_mtk = mtk,
              rb_timestamp_us = r_body_now r, rb_rekey_nonce = r_body_nonce r \<rparr>;
          (n, seq') = SequenceCounter_Next seq;
          token = Token_Generate (r_token_now r) (r_token_nonce r) n;
          header = BaseHeader_new (r_header_now r) REKEY_PACKET (ucast cluster_id) skdc_id 0xFFFF
                     NT_SKDC NT_UAV (Flag_or (Flag_or HAS_MTK REPLAY_PROTECTED) HMAC_PRESENT)
                     PRIO_CRITICAL;
          header = ApplyReplayToken header token;
          header = header \<lparr> h_payload_len := word_of_nat (RekeyBody_WireSize E body) \<rparr>
      in (\<lparr> pk_header = header, pk_body = body \<rparr>, seq'))"

definition RekeyPacket_Serialize :: "ext \<Rightarrow> RekeyPacket \<Rightarrow> bytes res" where
  "RekeyPacket_Serialize E pkt =
     (let buf = Header_SerializeTo [] (pk_header pkt);
          buf = AppendBytes buf (SerializeNonce (pk_header pkt))
      in rbind (RekeyBody_Serialize E (pk_body pkt)) (\<lambda>body_buf. Inr (AppendBytes buf body_buf)))"

definition RekeyPacket_Deserialize :: "ext \<Rightarrow> bytes \<Rightarrow> bytes \<Rightarrow> RekeyPacket res" where
  "RekeyPacket_Deserialize E wire hmac_key =
     (if length wire < Header_WIRE_SIZE + NONCE_SIZE + Rekey_FIXED_SIZE + HMAC_SHA256_OUTPUT_BYTES
      then Inl SerializationException
      else
        rbind (StripAndVerifyHmac E hmac_key wire) (\<lambda>body.
        rbind (Header_Deserialize body 0) (\<lambda>h. let pos = Header_WIRE_SIZE in
        rbind (DeserializeNonce h body pos (length body - pos)) (\<lambda>h. let pos = pos + NONCE_SIZE in
        rbind (RekeyBody_Deserialize body pos) (\<lambda>b.
        Inr \<lparr> pk_header = h, pk_body = b \<rparr>)))))"

section \<open>MtkPacket\<close>

definition Mtk_Build ::
    "ext \<Rightarrow> Readings \<Rightarrow> u32 \<Rightarrow> u16 \<Rightarrow> u32 \<Rightarrow> int \<Rightarrow> int \<Rightarrow> u64 \<Rightarrow> (MtkPacket \<times> u64) res" where
  "Mtk_Build E r cluster_id src_skdc version mtk n_group seq =
     (let body =
            \<lparr> mb_cluster_id = cluster_id, mb_version = version, mb_timestamp_us = r_body_now r,
              mb_mtk = mtk, mb_n_group = n_group, mb_body_nonce = r_body_nonce r \<rparr>;
          (n, seq') = SequenceCounter_Next seq;
          token = Token_Generate (r_token_now r) (r_token_nonce r) n;
          header = BaseHeader_new (r_header_now r) MTK_PACKET (ucast cluster_id) src_skdc 0xFFFF
                     NT_SKDC NT_UAV (Flag_or (Flag_or HAS_MTK REPLAY_PROTECTED) HMAC_PRESENT) PRIO_HIGH;
          header = ApplyReplayToken header token
      in rbind (MtkBody_WireSize E body) (\<lambda>sz.
         Inr (\<lparr> pk_header = header \<lparr> h_payload_len := word_of_nat sz \<rparr>, pk_body = body \<rparr>, seq')))"

definition MtkPacket_Serialize :: "ext \<Rightarrow> MtkPacket \<Rightarrow> bytes res" where
  "MtkPacket_Serialize E pkt =
     (let buf = Header_SerializeTo [] (pk_header pkt);
          nonce_buf = SerializeNonce (pk_header pkt);
          buf = AppendBytes buf nonce_buf
      in rbind (MtkBody_Serialize E (pk_body pkt)) (\<lambda>body_buf. Inr (AppendBytes buf body_buf)))"

text \<open>The key argument is ignored: the last 32 bytes are dropped without a check.\<close>

definition MtkPacket_Deserialize :: "bytes \<Rightarrow> bytes \<Rightarrow> MtkPacket res" where
  "MtkPacket_Deserialize wire hmac_key =
     (if length wire < Header_WIRE_SIZE + NONCE_SIZE + Mtk_MIN_SIZE + HMAC_SHA256_OUTPUT_BYTES
      then Inl SerializationException
      else
        let body = take (if length wire > 32 then length wire - 32 else length wire) wire in
        rbind (Header_Deserialize body 0) (\<lambda>h. let pos = Header_WIRE_SIZE in
        rbind (DeserializeNonce h body pos (length body - pos)) (\<lambda>h. let pos = pos + NONCE_SIZE in
        rbind (MtkBody_Deserialize body pos) (\<lambda>b.
        Inr \<lparr> pk_header = h, pk_body = b \<rparr>))))"

definition DeserializeNoHmac :: "bytes \<Rightarrow> MtkPacket res" where
  "DeserializeNoHmac wire =
     (let TAG_BYTES = 32 in
      if length wire < Header_WIRE_SIZE + NONCE_SIZE + Mtk_MIN_SIZE + TAG_BYTES
      then Inl SerializationException
      else
        let body = take (length wire - TAG_BYTES) wire in
        rbind (Header_Deserialize body 0) (\<lambda>h. let pos = Header_WIRE_SIZE in
        rbind (DeserializeNonce h body pos (length body - pos)) (\<lambda>h. let pos = pos + NONCE_SIZE in
        rbind (MtkBody_Deserialize body pos) (\<lambda>b.
        Inr \<lparr> pk_header = h, pk_body = b \<rparr>))))"

section \<open>DataPacket\<close>

definition data_aad :: "u16 \<Rightarrow> u16 \<Rightarrow> bytes" where
  "data_aad cluster_id uav_id =
     (let aad = replicate 4 0; aad = WriteU16BE aad 0 cluster_id in WriteU16BE aad 2 uav_id)"

definition Data_Build ::
    "ext \<Rightarrow> Readings \<Rightarrow> u16 \<Rightarrow> u16 \<Rightarrow> u16 \<Rightarrow> u32 \<Rightarrow> bytes \<Rightarrow> bytes \<Rightarrow> u64 \<Rightarrow> DataPacket \<times> u64" where
  "Data_Build E r cluster_id uav_id skdc_id data_seq plaintext tek seq =
     (let aad = data_aad cluster_id uav_id;
          enc = DoEncrypt E tek (r_aes_iv r) plaintext aad;
          body =
            \<lparr> db_cluster_id = ucast cluster_id, db_data_sequence = data_seq,
              db_timestamp_us = r_body_now r, db_plaintext_len = word_of_nat (length plaintext),
              db_aes_iv = gcm_iv enc, db_aes_tag = gcm_tag enc, db_ciphertext = gcm_ciphertext enc \<rparr>;
          (n, seq') = SequenceCounter_Next seq;
          token = Token_Generate (r_token_now r) (r_token_nonce r) n;
          header = BaseHeader_new (r_header_now r) DATA_PACKET cluster_id uav_id skdc_id NT_UAV NT_SKDC
                     (Flag_or (Flag_or ENCRYPTED REPLAY_PROTECTED) HMAC_PRESENT) PRIO_NORMAL;
          header = ApplyReplayToken header token;
          header = header \<lparr> h_payload_len := word_of_nat (DataBody_WireSize body) \<rparr>
      in (\<lparr> pk_header = header, pk_body = body \<rparr>, seq'))"

definition DataPacket_Decrypt :: "ext \<Rightarrow> DataPacket \<Rightarrow> bytes \<Rightarrow> bytes res" where
  "DataPacket_Decrypt E pkt tek =
     (let aad = replicate 4 0;
          aad = WriteU16BE aad 0 (h_cluster_id (pk_header pkt));
          aad = WriteU16BE aad 2 (h_src_node_id (pk_header pkt));
          iv = db_aes_iv (pk_body pkt);
          tag = db_aes_tag (pk_body pkt)
      in Decrypt E tek iv (db_ciphertext (pk_body pkt)) tag aad)"

definition DataPacket_Serialize :: "DataPacket \<Rightarrow> bytes" where
  "DataPacket_Serialize pkt =
     (let buf = Header_SerializeTo [] (pk_header pkt);
          buf = AppendBytes buf (SerializeNonce (pk_header pkt));
          buf = AppendBytes buf (DataBody_Serialize (pk_body pkt))
      in buf)"

definition DataPacket_Deserialize :: "ext \<Rightarrow> bytes \<Rightarrow> bytes \<Rightarrow> DataPacket res" where
  "DataPacket_Deserialize E wire hmac_key =
     (if length wire < Header_WIRE_SIZE + NONCE_SIZE + Data_FIXED_SIZE + HMAC_SHA256_OUTPUT_BYTES
      then Inl SerializationException
      else
        rbind (StripAndVerifyHmac E hmac_key wire) (\<lambda>body.
        rbind (Header_Deserialize body 0) (\<lambda>h. let pos = Header_WIRE_SIZE in
        rbind (DeserializeNonce h body pos (length body - pos)) (\<lambda>h. let pos = pos + NONCE_SIZE in
        rbind (DataBody_Deserialize body pos) (\<lambda>b.
        Inr \<lparr> pk_header = h, pk_body = b \<rparr>)))))"

section \<open>Every class has the common layout\<close>

text \<open>The six serializers and parsers are the instances of the generic ones of Packet_Codec.\<close>

lemmas deserialize_defs = deserialize_packet_def parse_packet_def header_sizes body_sizes Let_def

lemma Auth_generic:
  "AuthPacket_Deserialize E wire key =
   deserialize_packet E AuthBody_Deserialize AuthBody_WIRE_SIZE key wire"
  "packet_bytes (\<lambda>b. Inr (AuthBody_Serialize b)) ap = Inr (AuthPacket_Serialize ap)"
  by (simp_all add: AuthPacket_Deserialize_def deserialize_defs packet_bytes_def AuthPacket_Serialize_def
      SerializeNonce_def cong: rbind_cong)

lemma Join_generic:
  "JoinPacket_Deserialize E wire key =
   deserialize_packet E JoinBody_Deserialize JoinBody_WIRE_SIZE key wire"
  "packet_bytes (\<lambda>b. Inr (JoinBody_Serialize b)) jp = Inr (JoinPacket_Serialize jp)"
  by (simp_all add: JoinPacket_Deserialize_def deserialize_defs packet_bytes_def JoinPacket_Serialize_def
      SerializeNonce_def cong: rbind_cong)

lemma Handover_generic:
  "HandoverPacket_Deserialize E wire key =
   deserialize_packet E HandoverBody_Deserialize HandoverBody_WIRE_SIZE key wire"
  "packet_bytes (\<lambda>b. Inr (HandoverBody_Serialize b)) hp = Inr (HandoverPacket_Serialize hp)"
  by (simp_all add: HandoverPacket_Deserialize_def deserialize_defs packet_bytes_def
      HandoverPacket_Serialize_def SerializeNonce_def cong: rbind_cong)

lemma Data_generic:
  "DataPacket_Deserialize E wire key =
   deserialize_packet E DataBody_Deserialize Data_FIXED_SIZE key wire"
  "packet_bytes (\<lambda>b. Inr (DataBody_Serialize b)) dp = Inr (DataPacket_Serialize dp)"
  by (simp_all add: DataPacket_Deserialize_def deserialize_defs packet_bytes_def DataPacket_Serialize_def
      SerializeNonce_def cong: rbind_cong)

lemma Rekey_generic:
  "RekeyPacket_Deserialize E wire key =
   deserialize_packet E RekeyBody_Deserialize Rekey_FIXED_SIZE key wire"
  "packet_bytes (RekeyBody_Serialize E) rp = RekeyPacket_Serialize E rp"
  by (simp_all add: RekeyPacket_Deserialize_def deserialize_defs packet_bytes_def RekeyPacket_Serialize_def
      SerializeNonce_def cong: rbind_cong)

lemma Mtk_generic:
  "MtkPacket_Deserialize wire key = deserialize_unchecked MtkBody_Deserialize Mtk_MIN_SIZE wire"
  "DeserializeNoHmac wire = deserialize_unchecked MtkBody_Deserialize Mtk_MIN_SIZE wire"
  "packet_bytes (MtkBody_Serialize E) mp = MtkPacket_Serialize E mp"
  by (simp_all add: MtkPacket_Deserialize_def DeserializeNoHmac_def deserialize_unchecked_def
      deserialize_defs packet_bytes_def MtkPacket_Serialize_def SerializeNonce_def cong: rbind_cong)

section \<open>What the factories build\<close>

lemma Token_Generate_sel [simp]:
  "tok_timestamp_us (Token_Generate t n s) = t" "tok_nonce (Token_Generate t n s) = n"
  "tok_sequence_num (Token_Generate t n s) = s"
  by (simp_all add: Token_Generate_def)

lemma ApplyReplayToken_sel [simp]:
  "h_magic (ApplyReplayToken h t) = h_magic h" "h_nonce (ApplyReplayToken h t) = tok_nonce t"
  "h_packet_type (ApplyReplayToken h t) = h_packet_type h"
  "h_cluster_id (ApplyReplayToken h t) = h_cluster_id h"
  "h_src_node_id (ApplyReplayToken h t) = h_src_node_id h"
  by (simp_all add: ApplyReplayToken_def SetReplayProtected_def)

lemma BaseHeader_new_sel [simp]:
  "h_magic (BaseHeader_new now t c s d st dt f p) = MAGIC"
  "h_packet_type (BaseHeader_new now t c s d st dt f p) = t"
  "h_cluster_id (BaseHeader_new now t c s d st dt f p) = c"
  "h_src_node_id (BaseHeader_new now t c s d st dt f p) = s"
  by (simp_all add: BaseHeader_new_def)

lemma wf_ApplyReplayToken [simp]:
  "length (tok_nonce t) = 16 \<Longrightarrow> wf_header (ApplyReplayToken h t \<lparr> h_payload_len := n \<rparr>) \<longleftrightarrow> h_magic h = MAGIC"
  by (simp add: wf_header_def NONCE_SIZE_def)

lemmas build_simps = Let_def SequenceCounter_Next_def wf_readings_def

lemma Auth_BuildRequest_ok:
  "wf_readings r \<Longrightarrow> Auth_BuildRequest r u s c seq = (p, seq') \<Longrightarrow>
   wf_header (pk_header p) \<and> wf_AuthBody (pk_body p) \<and> h_packet_type (pk_header p) = AUTH_PACKET \<and>
   seq' = seq + 1"
  by (auto simp: Auth_BuildRequest_def build_simps wf_AuthBody_def)

lemma Join_BuildInternal_ok:
  "wf_readings r \<Longrightarrow> Join_BuildInternal r jt u s c i v st dt d seq = (p, seq') \<Longrightarrow>
   wf_header (pk_header p) \<and> wf_JoinBody (pk_body p) \<and> h_packet_type (pk_header p) = JOIN_PACKET \<and>
   seq' = seq + 1"
  by (auto simp: Join_BuildInternal_def build_simps wf_JoinBody_def)

lemma Handover_BuildInternal_ok:
  "wf_readings r \<Longrightarrow>
   Handover_BuildInternal r ph u s d st dt oc nc os ns iold inew ov nv seq = (p, seq') \<Longrightarrow>
   wf_header (pk_header p) \<and> wf_HandoverBody (pk_body p) \<and>
   h_packet_type (pk_header p) = HANDOVER_PACKET \<and> seq' = seq + 1"
  by (auto simp: Handover_BuildInternal_def build_simps wf_HandoverBody_def)

lemma Rekey_Build_ok:
  "wf_readings r \<Longrightarrow> 0 \<le> mtk \<Longrightarrow> wire_size E mtk < 2 ^ 32 \<Longrightarrow>
   Rekey_Build E r c s v reason mtk seq = (p, seq') \<Longrightarrow>
   wf_header (pk_header p) \<and> wf_RekeyBody E (pk_body p) \<and> h_packet_type (pk_header p) = REKEY_PACKET \<and>
   seq' = seq + 1"
  by (auto simp: Rekey_Build_def build_simps wf_RekeyBody_def)

lemma length_data_aad [simp]: "length (data_aad c u) = 4"
  by (simp add: data_aad_def)

lemma Data_Build_ok:
  assumes "gcm_law E" "wf_readings r" "length plaintext < 2 ^ 32"
    "Data_Build E r c u s n plaintext tek seq = (p, seq')"
  shows "wf_header (pk_header p) \<and> wf_DataBody (pk_body p) \<and>
    h_packet_type (pk_header p) = DATA_PACKET \<and> seq' = seq + 1 \<and>
    DataPacket_Decrypt E p tek = Inr plaintext"
proof -
  obtain ct tag where e: "x_gcm_encrypt E tek (r_aes_iv r) (data_aad c u) plaintext = (ct, tag)"
    by fastforce
  with assms(1) have "length tag = 16" "length ct = length plaintext"
    "x_gcm_decrypt E tek (r_aes_iv r) (data_aad c u) ct tag = Some plaintext"
    by (auto simp: gcm_law_def)
  with assms e show ?thesis
    by (auto simp: Data_Build_def build_simps wf_DataBody_def DoEncrypt_def DataPacket_Decrypt_def
        Decrypt_def data_aad_def)
qed

end
