(* ===== verification/Packet_Manager.thy ===== *)
theory Packet_Manager
  imports Packets
begin

text \<open>
  headers/uav-packet-manager.{h,cc}: the manager every node sends and receives
  through.  A registered handler is a function on the application's state \<open>'w\<close>
  that may throw; \<open>Dispatch\<close> returns the manager, the application state and either
  its boolean or the exception that leaves it.  A handler that calls back into
  the manager is not modelled.  Logging is left out.
\<close>

section \<open>State\<close>

record PacketStats =
  st_tx_total :: u64
  st_rx_total :: u64
  st_rx_auth :: u64
  st_rx_join :: u64
  st_rx_rekey :: u64
  st_rx_mtk :: u64
  st_rx_handover :: u64
  st_rx_data :: u64
  st_err_hmac :: u64
  st_err_replay :: u64
  st_err_format :: u64

definition Stats_zero :: PacketStats where
  "Stats_zero =
     \<lparr> st_tx_total = 0, st_rx_total = 0, st_rx_auth = 0, st_rx_join = 0, st_rx_rekey = 0,
       st_rx_mtk = 0, st_rx_handover = 0, st_rx_data = 0, st_err_hmac = 0, st_err_replay = 0,
       st_err_format = 0 \<rparr>"

definition Stats_Reset :: "PacketStats \<Rightarrow> PacketStats" where
  "Stats_Reset s = s
     \<lparr> st_tx_total := 0, st_rx_total := 0, st_rx_auth := 0, st_rx_join := 0, st_rx_rekey := 0,
       st_rx_mtk := 0, st_rx_handover := 0, st_rx_data := 0, st_err_hmac := 0, st_err_replay := 0,
       st_err_format := 0 \<rparr>"

type_synonym ('p, 'w) handler = "'p \<Rightarrow> 'w \<Rightarrow> 'w \<times> unit res"

record 'w PacketManager =
  pm_node_id :: u16
  pm_cluster_id :: u16
  pm_hmac_key :: bytes
  pm_tek :: bytes
  pm_seq :: u64
  pm_stats :: PacketStats
  pm_auth_handler :: "(AuthPacket, 'w) handler option"
  pm_join_handler :: "(JoinPacket, 'w) handler option"
  pm_rekey_handler :: "(RekeyPacket, 'w) handler option"
  pm_mtk_handler :: "(MtkPacket, 'w) handler option"
  pm_handover_handler :: "(HandoverPacket, 'w) handler option"
  pm_data_handler :: "(DataPacket, 'w) handler option"

definition PacketManager_new :: "u16 \<Rightarrow> u16 \<Rightarrow> bytes \<Rightarrow> bytes \<Rightarrow> 'w PacketManager" where
  "PacketManager_new node_id cluster_id hmac_key tek =
     \<lparr> pm_node_id = node_id, pm_cluster_id = cluster_id, pm_hmac_key = hmac_key, pm_tek = tek,
       pm_seq = 1, pm_stats = Stats_zero, pm_auth_handler = None, pm_join_handler = None,
       pm_rekey_handler = None, pm_mtk_handler = None, pm_handover_handler = None,
       pm_data_handler = None \<rparr>"

definition UpdateHmacKey :: "'w PacketManager \<Rightarrow> bytes \<Rightarrow> 'w PacketManager" where
  "UpdateHmacKey m key = m \<lparr> pm_hmac_key := key \<rparr>"

definition PM_UpdateTek :: "'w PacketManager \<Rightarrow> bytes \<Rightarrow> 'w PacketManager" where
  "PM_UpdateTek m tek = m \<lparr> pm_tek := tek \<rparr>"

definition OnAuth :: "'w PacketManager \<Rightarrow> (AuthPacket, 'w) handler \<Rightarrow> 'w PacketManager" where
  "OnAuth m h = m \<lparr> pm_auth_handler := Some h \<rparr>"
definition OnJoin :: "'w PacketManager \<Rightarrow> (JoinPacket, 'w) handler \<Rightarrow> 'w PacketManager" where
  "OnJoin m h = m \<lparr> pm_join_handler := Some h \<rparr>"
definition OnRekey :: "'w PacketManager \<Rightarrow> (RekeyPacket, 'w) handler \<Rightarrow> 'w PacketManager" where
  "OnRekey m h = m \<lparr> pm_rekey_handler := Some h \<rparr>"
definition OnMtk :: "'w PacketManager \<Rightarrow> (MtkPacket, 'w) handler \<Rightarrow> 'w PacketManager" where
  "OnMtk m h = m \<lparr> pm_mtk_handler := Some h \<rparr>"
definition OnHandover :: "'w PacketManager \<Rightarrow> (HandoverPacket, 'w) handler \<Rightarrow> 'w PacketManager" where
  "OnHandover m h = m \<lparr> pm_handover_handler := Some h \<rparr>"
definition OnData :: "'w PacketManager \<Rightarrow> (DataPacket, 'w) handler \<Rightarrow> 'w PacketManager" where
  "OnData m h = m \<lparr> pm_data_handler := Some h \<rparr>"

definition ResetStats :: "'w PacketManager \<Rightarrow> 'w PacketManager" where
  "ResetStats m = m \<lparr> pm_stats := Stats_Reset (pm_stats m) \<rparr>"

section \<open>Sending\<close>

definition SerializeAuth :: "ext \<Rightarrow> 'w PacketManager \<Rightarrow> AuthPacket \<Rightarrow> ('w PacketManager \<times> bytes) res" where
  "SerializeAuth E m pkt =
     (let wire = AuthPacket_Serialize pkt in
      rbind (AppendHmac E (pm_hmac_key m) wire) (\<lambda>wire.
      Inr (m \<lparr> pm_stats := (pm_stats m) \<lparr> st_tx_total := st_tx_total (pm_stats m) + 1 \<rparr> \<rparr>, wire)))"

definition SerializeJoin :: "ext \<Rightarrow> 'w PacketManager \<Rightarrow> JoinPacket \<Rightarrow> ('w PacketManager \<times> bytes) res" where
  "SerializeJoin E m pkt =
     (let wire = JoinPacket_Serialize pkt in
      rbind (AppendHmac E (pm_hmac_key m) wire) (\<lambda>wire.
      Inr (m \<lparr> pm_stats := (pm_stats m) \<lparr> st_tx_total := st_tx_total (pm_stats m) + 1 \<rparr> \<rparr>, wire)))"

definition SerializeRekey :: "ext \<Rightarrow> 'w PacketManager \<Rightarrow> RekeyPacket \<Rightarrow> ('w PacketManager \<times> bytes) res" where
  "SerializeRekey E m pkt =
     rbind (RekeyPacket_Serialize E pkt) (\<lambda>wire.
      rbind (AppendHmac E (pm_hmac_key m) wire) (\<lambda>wire.
      Inr (m \<lparr> pm_stats := (pm_stats m) \<lparr> st_tx_total := st_tx_total (pm_stats m) + 1 \<rparr> \<rparr>, wire)))"

definition SerializeMtk :: "ext \<Rightarrow> 'w PacketManager \<Rightarrow> MtkPacket \<Rightarrow> ('w PacketManager \<times> bytes) res" where
  "SerializeMtk E m pkt =
     rbind (MtkPacket_Serialize E pkt) (\<lambda>wire.
      rbind (AppendHmac E (pm_hmac_key m) wire) (\<lambda>wire.
      Inr (m \<lparr> pm_stats := (pm_stats m) \<lparr> st_tx_total := st_tx_total (pm_stats m) + 1 \<rparr> \<rparr>, wire)))"

definition SerializeHandover ::
    "ext \<Rightarrow> 'w PacketManager \<Rightarrow> HandoverPacket \<Rightarrow> ('w PacketManager \<times> bytes) res" where
  "SerializeHandover E m pkt =
     (let wire = HandoverPacket_Serialize pkt in
      rbind (AppendHmac E (pm_hmac_key m) wire) (\<lambda>wire.
      Inr (m \<lparr> pm_stats := (pm_stats m) \<lparr> st_tx_total := st_tx_total (pm_stats m) + 1 \<rparr> \<rparr>, wire)))"

definition SerializeData :: "ext \<Rightarrow> 'w PacketManager \<Rightarrow> DataPacket \<Rightarrow> ('w PacketManager \<times> bytes) res" where
  "SerializeData E m pkt =
     (let wire = DataPacket_Serialize pkt in
      rbind (AppendHmac E (pm_hmac_key m) wire) (\<lambda>wire.
      Inr (m \<lparr> pm_stats := (pm_stats m) \<lparr> st_tx_total := st_tx_total (pm_stats m) + 1 \<rparr> \<rparr>, wire)))"

section \<open>Receiving\<close>

definition PeekType :: "bytes \<Rightarrow> PacketType" where
  "PeekType wire =
     (if length wire < 4 then PT_UNKNOWN
      else
        let magic = (push_bit 8 (ucast (wire ! 0)) OR ucast (wire ! 1) :: u16) in
        if magic \<noteq> MAGIC then PT_UNKNOWN else PacketType (wire ! 3))"

definition call_handler :: "('p, 'w) handler option \<Rightarrow> 'p \<Rightarrow> 'w \<Rightarrow> 'w \<times> unit res" where
  "call_handler h pkt w = (case h of None \<Rightarrow> (w, Inr ()) | Some f \<Rightarrow> f pkt w)"

text \<open>One case of the switch: parse, count, hand the packet to the handler.\<close>

definition recv ::
    "'p res \<Rightarrow> (PacketStats \<Rightarrow> PacketStats) \<Rightarrow> ('p, 'w) handler option \<Rightarrow> 'w PacketManager \<Rightarrow> 'w \<Rightarrow>
     'w PacketManager \<times> 'w \<times> unit res" where
  "recv parsed count h m w =
     (case parsed of
        Inl e \<Rightarrow> (m, w, Inl e)
      | Inr pkt \<Rightarrow>
          let m = m \<lparr> pm_stats := count (pm_stats m) \<rparr>; (w, r) = call_handler h pkt w in (m, w, r))"

text \<open>The two catch clauses behind the switch; any other exception leaves \<open>Dispatch\<close>.\<close>

definition settle :: "'w PacketManager \<Rightarrow> 'w \<Rightarrow> unit res \<Rightarrow> 'w PacketManager \<times> 'w \<times> bool res" where
  "settle m w r =
     (case r of
        Inr _ \<Rightarrow> (m, w, Inr True)
      | Inl e \<Rightarrow>
          if e = CryptoException then
            (m \<lparr> pm_stats := (pm_stats m) \<lparr> st_err_hmac := st_err_hmac (pm_stats m) + 1 \<rparr> \<rparr>, w, Inr False)
          else if e = SerializationException then
            (m \<lparr> pm_stats := (pm_stats m) \<lparr> st_err_format := st_err_format (pm_stats m) + 1 \<rparr> \<rparr>, w, Inr False)
          else (m, w, Inl e))"

definition Dispatch ::
    "ext \<Rightarrow> 'w PacketManager \<Rightarrow> 'w \<Rightarrow> bytes \<Rightarrow> 'w PacketManager \<times> 'w \<times> bool res" where
  "Dispatch E m w wire =
     (let type = PeekType wire in
      if type = PT_UNKNOWN then
        (m \<lparr> pm_stats := (pm_stats m) \<lparr> st_err_format := st_err_format (pm_stats m) + 1 \<rparr> \<rparr>, w, Inr False)
      else
        let m = m \<lparr> pm_stats := (pm_stats m) \<lparr> st_rx_total := st_rx_total (pm_stats m) + 1 \<rparr> \<rparr>;
            key = pm_hmac_key m
        in
        if type = AUTH_PACKET then
          (let (m, w, r) = recv (AuthPacket_Deserialize E wire key)
             (\<lambda>s. s \<lparr> st_rx_auth := st_rx_auth s + 1 \<rparr>) (pm_auth_handler m) m w in settle m w r)
        else if type = JOIN_PACKET \<or> type = LEAVE_PACKET then
          (let (m, w, r) = recv (JoinPacket_Deserialize E wire key)
             (\<lambda>s. s \<lparr> st_rx_join := st_rx_join s + 1 \<rparr>) (pm_join_handler m) m w in settle m w r)
        else if type = REKEY_PACKET then
          (let (m, w, r) = recv (RekeyPacket_Deserialize E wire key)
             (\<lambda>s. s \<lparr> st_rx_rekey := st_rx_rekey s + 1 \<rparr>) (pm_rekey_handler m) m w in settle m w r)
        else if type = MTK_PACKET then
          (let (m, w, r) = recv (MtkPacket_Deserialize wire key)
             (\<lambda>s. s \<lparr> st_rx_mtk := st_rx_mtk s + 1 \<rparr>) (pm_mtk_handler m) m w in settle m w r)
        else if type = HANDOVER_PACKET then
          (let (m, w, r) = recv (HandoverPacket_Deserialize E wire key)
             (\<lambda>s. s \<lparr> st_rx_handover := st_rx_handover s + 1 \<rparr>) (pm_handover_handler m) m w in settle m w r)
        else if type = DATA_PACKET then
          (let (m, w, r) = recv (DataPacket_Deserialize E wire key)
             (\<lambda>s. s \<lparr> st_rx_data := st_rx_data s + 1 \<rparr>) (pm_data_handler m) m w in settle m w r)
        else
          (m \<lparr> pm_stats := (pm_stats m) \<lparr> st_err_format := st_err_format (pm_stats m) + 1 \<rparr> \<rparr>, w, Inr False))"

section \<open>Build and send in one call\<close>

definition MakeAuthRequest ::
    "ext \<Rightarrow> Readings \<Rightarrow> 'w PacketManager \<Rightarrow> u16 \<Rightarrow> u16 \<Rightarrow> ('w PacketManager \<times> bytes) res" where
  "MakeAuthRequest E r m skdc_id cluster_id =
     (let (pkt, seq') = Auth_BuildRequest r (pm_node_id m) skdc_id cluster_id (pm_seq m)
      in SerializeAuth E (m \<lparr> pm_seq := seq' \<rparr>) pkt)"

definition MakeJoinRequest ::
    "ext \<Rightarrow> Readings \<Rightarrow> 'w PacketManager \<Rightarrow> u16 \<Rightarrow> u16 \<Rightarrow> u32 \<Rightarrow> ('w PacketManager \<times> bytes) res" where
  "MakeJoinRequest E r m skdc_id cluster_id uav_index =
     (let (pkt, seq') = Join_BuildRequest r (pm_node_id m) skdc_id cluster_id uav_index (pm_seq m)
      in SerializeJoin E (m \<lparr> pm_seq := seq' \<rparr>) pkt)"

definition MakeDataPacket ::
    "ext \<Rightarrow> Readings \<Rightarrow> 'w PacketManager \<Rightarrow> u16 \<Rightarrow> u32 \<Rightarrow> bytes \<Rightarrow> ('w PacketManager \<times> bytes) res" where
  "MakeDataPacket E r m skdc_id data_seq plaintext =
     (let (pkt, seq') = Data_Build E r (pm_cluster_id m) (pm_node_id m) skdc_id data_seq plaintext
                          (pm_tek m) (pm_seq m)
      in SerializeData E (m \<lparr> pm_seq := seq' \<rparr>) pkt)"

end
