(* ===== verification/Packet_Delivery.thy ===== *)
theory Packet_Delivery
  imports Packet_Manager
begin

text \<open>
  What the packet layer promises: whatever one manager sends, another with the
  same HMAC key delivers unchanged to the handler of its class; nothing without
  a valid HMAC reaches a handler, MTK packets excepted; every received buffer is
  counted exactly once.
\<close>

section \<open>The six classes as one type\<close>

datatype any_packet =
    APauth AuthPacket
  | APjoin JoinPacket
  | APrekey RekeyPacket
  | APmtk MtkPacket
  | APhandover HandoverPacket
  | APdata DataPacket

primrec send :: "ext \<Rightarrow> 'w PacketManager \<Rightarrow> any_packet \<Rightarrow> ('w PacketManager \<times> bytes) res" where
  "send E m (APauth p) = SerializeAuth E m p"
| "send E m (APjoin p) = SerializeJoin E m p"
| "send E m (APrekey p) = SerializeRekey E m p"
| "send E m (APmtk p) = SerializeMtk E m p"
| "send E m (APhandover p) = SerializeHandover E m p"
| "send E m (APdata p) = SerializeData E m p"

primrec any_header :: "any_packet \<Rightarrow> BaseHeader" where
  "any_header (APauth p) = pk_header p"
| "any_header (APjoin p) = pk_header p"
| "any_header (APrekey p) = pk_header p"
| "any_header (APmtk p) = pk_header p"
| "any_header (APhandover p) = pk_header p"
| "any_header (APdata p) = pk_header p"

text \<open>Well-formed: the array fields have their sizes, and the header names the class.\<close>

primrec wf_any :: "ext \<Rightarrow> any_packet \<Rightarrow> bool" where
  "wf_any E (APauth p) \<longleftrightarrow>
     wf_header (pk_header p) \<and> h_packet_type (pk_header p) = AUTH_PACKET \<and> wf_AuthBody (pk_body p)"
| "wf_any E (APjoin p) \<longleftrightarrow>
     wf_header (pk_header p) \<and> h_packet_type (pk_header p) \<in> {JOIN_PACKET, LEAVE_PACKET} \<and>
     wf_JoinBody (pk_body p)"
| "wf_any E (APrekey p) \<longleftrightarrow>
     wf_header (pk_header p) \<and> h_packet_type (pk_header p) = REKEY_PACKET \<and> wf_RekeyBody E (pk_body p)"
| "wf_any E (APmtk p) \<longleftrightarrow>
     wf_header (pk_header p) \<and> h_packet_type (pk_header p) = MTK_PACKET \<and> wf_MtkBody E (pk_body p)"
| "wf_any E (APhandover p) \<longleftrightarrow>
     wf_header (pk_header p) \<and> h_packet_type (pk_header p) = HANDOVER_PACKET \<and>
     wf_HandoverBody (pk_body p)"
| "wf_any E (APdata p) \<longleftrightarrow>
     wf_header (pk_header p) \<and> h_packet_type (pk_header p) = DATA_PACKET \<and> wf_DataBody (pk_body p)"

text \<open>The handler call and the counter of a class.\<close>

primrec deliver :: "'w PacketManager \<Rightarrow> any_packet \<Rightarrow> 'w \<Rightarrow> 'w \<times> unit res" where
  "deliver m (APauth p) = call_handler (pm_auth_handler m) p"
| "deliver m (APjoin p) = call_handler (pm_join_handler m) p"
| "deliver m (APrekey p) = call_handler (pm_rekey_handler m) p"
| "deliver m (APmtk p) = call_handler (pm_mtk_handler m) p"
| "deliver m (APhandover p) = call_handler (pm_handover_handler m) p"
| "deliver m (APdata p) = call_handler (pm_data_handler m) p"

definition rx :: "any_packet \<Rightarrow> PacketStats \<Rightarrow> PacketStats" where
  "rx p s =
     (let s = s \<lparr> st_rx_total := st_rx_total s + 1 \<rparr> in
      case p of
        APauth _ \<Rightarrow> s \<lparr> st_rx_auth := st_rx_auth s + 1 \<rparr>
      | APjoin _ \<Rightarrow> s \<lparr> st_rx_join := st_rx_join s + 1 \<rparr>
      | APrekey _ \<Rightarrow> s \<lparr> st_rx_rekey := st_rx_rekey s + 1 \<rparr>
      | APmtk _ \<Rightarrow> s \<lparr> st_rx_mtk := st_rx_mtk s + 1 \<rparr>
      | APhandover _ \<Rightarrow> s \<lparr> st_rx_handover := st_rx_handover s + 1 \<rparr>
      | APdata _ \<Rightarrow> s \<lparr> st_rx_data := st_rx_data s + 1 \<rparr>)"

text \<open>What a buffer parses to, by its type byte; \<open>None\<close> for a type that has no class.\<close>

definition parse_any :: "ext \<Rightarrow> bytes \<Rightarrow> bytes \<Rightarrow> any_packet res option" where
  "parse_any E key wire =
     (let type = PeekType wire in
      if type = AUTH_PACKET then
        Some (rbind (AuthPacket_Deserialize E wire key) (\<lambda>p. Inr (APauth p)))
      else if type = JOIN_PACKET \<or> type = LEAVE_PACKET then
        Some (rbind (JoinPacket_Deserialize E wire key) (\<lambda>p. Inr (APjoin p)))
      else if type = REKEY_PACKET then
        Some (rbind (RekeyPacket_Deserialize E wire key) (\<lambda>p. Inr (APrekey p)))
      else if type = MTK_PACKET then
        Some (rbind (MtkPacket_Deserialize wire key) (\<lambda>p. Inr (APmtk p)))
      else if type = HANDOVER_PACKET then
        Some (rbind (HandoverPacket_Deserialize E wire key) (\<lambda>p. Inr (APhandover p)))
      else if type = DATA_PACKET then
        Some (rbind (DataPacket_Deserialize E wire key) (\<lambda>p. Inr (APdata p)))
      else None)"

definition bump_format :: "PacketStats \<Rightarrow> PacketStats" where
  "bump_format s = s \<lparr> st_err_format := st_err_format s + 1 \<rparr>"

definition bump_total :: "PacketStats \<Rightarrow> PacketStats" where
  "bump_total s = s \<lparr> st_rx_total := st_rx_total s + 1 \<rparr>"

text \<open>\<open>Dispatch\<close> in one equation: parse by type, then settle the error or the handler's outcome.\<close>

lemma Dispatch_eq:
  "Dispatch E m w wire =
     (if PeekType wire = PT_UNKNOWN then (m \<lparr> pm_stats := bump_format (pm_stats m) \<rparr>, w, Inr False)
      else case parse_any E (pm_hmac_key m) wire of
        None \<Rightarrow> (m \<lparr> pm_stats := bump_format (bump_total (pm_stats m)) \<rparr>, w, Inr False)
      | Some (Inl e) \<Rightarrow> settle (m \<lparr> pm_stats := bump_total (pm_stats m) \<rparr>) w (Inl e)
      | Some (Inr p) \<Rightarrow>
          let (w', r) = deliver m p w in settle (m \<lparr> pm_stats := rx p (pm_stats m) \<rparr>) w' r)"
  by (auto simp: Dispatch_def parse_any_def recv_def rx_def bump_format_def bump_total_def Let_def
      rbind_def split: sum.splits prod.splits)

section \<open>A sent packet parses to itself\<close>

lemma PeekType_bytes:
  assumes "packet_bytes ser pkt = Inr w" "wf_header (pk_header pkt)"
  shows "PeekType (w @ suf) = h_packet_type (pk_header pkt)"
proof -
  obtain bs where w: "w = header_bytes (pk_header pkt) @ bs"
    using assms(1) by (auto simp: packet_bytes_def rbind_eq_Inr_iff)
  have m: "h_magic (pk_header pkt) = 0x5541" using assms(2) by (simp add: wf_header_def MAGIC_def)
  show ?thesis
    unfolding w by (simp add: PeekType_def header_bytes_def m be16_def be8_def MAGIC_def nth_append)
qed

definition bump_tx :: "'w PacketManager \<Rightarrow> 'w PacketManager" where
  "bump_tx m = m \<lparr> pm_stats := (pm_stats m) \<lparr> st_tx_total := st_tx_total (pm_stats m) + 1 \<rparr> \<rparr>"

lemma send_eq:
  "send E m p =
     rbind (case p of
         APauth q \<Rightarrow> packet_bytes (\<lambda>b. Inr (AuthBody_Serialize b)) q
       | APjoin q \<Rightarrow> packet_bytes (\<lambda>b. Inr (JoinBody_Serialize b)) q
       | APrekey q \<Rightarrow> packet_bytes (RekeyBody_Serialize E) q
       | APmtk q \<Rightarrow> packet_bytes (MtkBody_Serialize E) q
       | APhandover q \<Rightarrow> packet_bytes (\<lambda>b. Inr (HandoverBody_Serialize b)) q
       | APdata q \<Rightarrow> packet_bytes (\<lambda>b. Inr (DataBody_Serialize b)) q) (\<lambda>w.
     rbind (AppendHmac E (pm_hmac_key m) w) (\<lambda>wire. Inr (bump_tx m, wire)))"
  by (cases p) (simp_all add: SerializeAuth_def SerializeJoin_def SerializeRekey_def SerializeMtk_def
      SerializeHandover_def SerializeData_def bump_tx_def Let_def Auth_generic Join_generic Rekey_generic
      Mtk_generic Handover_generic Data_generic)

lemmas codec_round_trips =
  auth_codec.packet_round_trip join_codec.packet_round_trip handover_codec.packet_round_trip
  data_codec.packet_round_trip rekey_codec.packet_round_trip

lemma send_parse:
  assumes "hmac_law E" "msb_law E" "wf_any E p"
  shows "\<exists>wire. send E m p = Inr (bump_tx m, wire) \<and>
    PeekType wire = h_packet_type (any_header p) \<and> parse_any E (pm_hmac_key m) wire = Some (Inr p)"
proof (cases p)
  case (APauth q)
  with assms codec_round_trips(1)[OF assms(1), of q "pm_hmac_key m"] show ?thesis
    by (auto simp: send_eq parse_any_def Auth_generic(1) PeekType_bytes)
next
  case (APjoin q)
  with assms codec_round_trips(2)[OF assms(1), of q "pm_hmac_key m"] show ?thesis
    by (auto simp: send_eq parse_any_def Join_generic(1) PeekType_bytes)
next
  case (APrekey q)
  with assms codec_round_trips(5)[OF assms(1), of q E "pm_hmac_key m"] show ?thesis
    by (auto simp: send_eq parse_any_def Rekey_generic(1) PeekType_bytes)
next
  case (APmtk q)
  with assms obtain w where "packet_bytes (MtkBody_Serialize E) q = Inr w"
    "\<forall>tag. length tag = 32 \<longrightarrow> deserialize_unchecked MtkBody_Deserialize Mtk_MIN_SIZE (w @ tag) = Inr q"
    using mtk_codec.unchecked_round_trip[of q E] by auto
  with APmtk assms show ?thesis
    by (auto simp: send_eq parse_any_def Mtk_generic(1) PeekType_bytes AppendHmac_eq)
next
  case (APhandover q)
  with assms codec_round_trips(3)[OF assms(1), of q "pm_hmac_key m"] show ?thesis
    by (auto simp: send_eq parse_any_def Handover_generic(1) PeekType_bytes)
next
  case (APdata q)
  with assms codec_round_trips(4)[OF assms(1), of q "pm_hmac_key m"] show ?thesis
    by (auto simp: send_eq parse_any_def Data_generic(1) PeekType_bytes)
qed

lemma Dispatch_sent:
  assumes "hmac_law E" "msb_law E" "wf_any E p" "pm_hmac_key (rcv :: 'w PacketManager) = pm_hmac_key sdr"
  shows "\<exists>wire. send E sdr p = Inr (bump_tx sdr, wire) \<and>
    PeekType wire = h_packet_type (any_header p) \<and> parse_any E (pm_hmac_key rcv) wire = Some (Inr p) \<and>
    (\<forall>(m :: 'w PacketManager) w. pm_hmac_key m = pm_hmac_key rcv \<longrightarrow> Dispatch E m w wire =
      (let (w', r) = deliver m p w in settle (m \<lparr> pm_stats := rx p (pm_stats m) \<rparr>) w' r))"
proof -
  obtain wire where wire: "send E sdr p = Inr (bump_tx sdr, wire)"
    "PeekType wire = h_packet_type (any_header p)" "parse_any E (pm_hmac_key sdr) wire = Some (Inr p)"
    using send_parse[OF assms(1-3), of sdr] by blast
  have "h_packet_type (any_header p) \<noteq> PT_UNKNOWN"
    using assms(3) by (cases p) auto
  with wire assms(4) show ?thesis by (auto simp: Dispatch_eq)
qed

text \<open>
  C14.  What a manager sends, a manager with the same HMAC key delivers: for each
  of the six packet classes the serializer of the sender returns (counting one
  packet sent), and \<open>Dispatch\<close> of its bytes calls the receiver's handler of that
  class with exactly the packet that was sent, after counting it.
\<close>
theorem Dispatch_delivers:
  assumes "hmac_law E" "msb_law E" "wf_any E p" "pm_hmac_key (rcv :: 'w PacketManager) = pm_hmac_key sdr"
  shows "\<exists>wire. send E sdr p = Inr (bump_tx sdr, wire) \<and>
    Dispatch E rcv w wire =
      (let (w', r) = deliver rcv p w in settle (rcv \<lparr> pm_stats := rx p (pm_stats rcv) \<rparr>) w' r)"
proof -
  obtain wire where "send E sdr p = Inr (bump_tx sdr, wire)"
    "\<forall>(m :: 'w PacketManager) w. pm_hmac_key m = pm_hmac_key rcv \<longrightarrow> Dispatch E m w wire =
      (let (w', r) = deliver m p w in settle (m \<lparr> pm_stats := rx p (pm_stats m) \<rparr>) w' r)"
    using Dispatch_sent[OF assms] by blast
  then show ?thesis by (intro exI[of _ wire]) simp
qed

section \<open>Nothing unauthenticated is delivered, MTK packets excepted\<close>

definition authentic :: "ext \<Rightarrow> bytes \<Rightarrow> bytes \<Rightarrow> bool" where
  "authentic E key wire \<longleftrightarrow> (\<exists>body. wire = body @ x_hmac_sha256 E key body)"

lemma parsed_authentic:
  "hmac_law E \<Longrightarrow> deserialize_packet E deser k key wire = Inr pkt \<Longrightarrow> authentic E key wire"
  using deserialize_packet_authentic[of E deser k key wire pkt] by (auto simp: authentic_def)

lemma parse_any_authentic:
  assumes "hmac_law E" "PeekType wire \<noteq> MTK_PACKET" "parse_any E key wire = Some (Inr p)"
  shows "authentic E key wire"
  using assms(2,3)
  by (auto simp: parse_any_def Let_def rbind_eq_Inr_iff Auth_generic(1) Join_generic(1)
      Rekey_generic(1) Handover_generic(1) Data_generic(1) split: if_splits
      dest: parsed_authentic[OF assms(1)])

lemma parse_any_exn:
  assumes "hmac_law E" "parse_any E key wire = Some (Inl e)"
  shows "e = CryptoException \<or> e = SerializationException"
  using assms
  by (auto simp: parse_any_def Let_def rbind_eq_Inl_iff Auth_generic(1) Join_generic(1) Mtk_generic(1)
      Rekey_generic(1) Handover_generic(1) Data_generic(1) split: if_splits
      dest: auth_codec.packet_exn join_codec.packet_exn handover_codec.packet_exn data_codec.packet_exn
        rekey_codec.packet_exn mtk_codec.unchecked_exn)

definition bump_hmac :: "PacketStats \<Rightarrow> PacketStats" where
  "bump_hmac s = s \<lparr> st_err_hmac := st_err_hmac s + 1 \<rparr>"

lemma settle_simps [simp]:
  "settle m w (Inr x) = (m, w, Inr True)"
  "settle m w (Inl CryptoException) = (m \<lparr> pm_stats := bump_hmac (pm_stats m) \<rparr>, w, Inr False)"
  "settle m w (Inl SerializationException) = (m \<lparr> pm_stats := bump_format (pm_stats m) \<rparr>, w, Inr False)"
  by (simp_all add: settle_def bump_hmac_def bump_format_def)

text \<open>
  C15.  A buffer whose last 32 bytes are not the HMAC of the rest under the
  manager's key, and that is not of type MTK, never reaches a handler: \<open>Dispatch\<close>
  returns false and throws nothing, the application state is untouched, and
  exactly one error counter goes up by one.
\<close>
theorem Dispatch_rejects_forgery:
  assumes "hmac_law E" "PeekType wire \<noteq> MTK_PACKET" "\<not> authentic E (pm_hmac_key m) wire"
  shows "\<exists>s. Dispatch E m w wire = (m \<lparr> pm_stats := s \<rparr>, w, Inr False) \<and>
    s \<in> {bump_format (pm_stats m), bump_format (bump_total (pm_stats m)),
         bump_hmac (bump_total (pm_stats m))}"
proof (cases "parse_any E (pm_hmac_key m) wire")
  case None
  then show ?thesis by (auto simp: Dispatch_eq)
next
  case (Some r)
  then obtain e where e: "parse_any E (pm_hmac_key m) wire = Some (Inl e)"
    using assms parse_any_authentic by (cases r) auto
  with parse_any_exn[OF assms(1) e] show ?thesis by (auto simp: Dispatch_eq)
qed

text \<open>
  C16.  An MTK packet needs no key: \<open>Dispatch\<close> hands a well-formed MTK packet to
  the handler whatever the 32 bytes behind it are, and whatever the manager's
  HMAC key is.
\<close>
theorem Dispatch_accepts_forged_mtk:
  assumes "msb_law E" "wf_any E (APmtk p)" "length tag = 32"
  shows "\<exists>wire. MtkPacket_Serialize E p = Inr wire \<and>
    Dispatch E m w (wire @ tag) =
      (let (w', r) = call_handler (pm_mtk_handler m) p w
       in settle (m \<lparr> pm_stats := rx (APmtk p) (pm_stats m) \<rparr>) w' r)"
proof -
  obtain wire where wire: "packet_bytes (MtkBody_Serialize E) p = Inr wire"
    and de: "deserialize_unchecked MtkBody_Deserialize Mtk_MIN_SIZE (wire @ tag) = Inr p"
    using mtk_codec.unchecked_round_trip[of p E] assms by auto
  have "PeekType (wire @ tag) = MTK_PACKET" using PeekType_bytes[OF wire] assms(2) by simp
  with wire de show ?thesis by (simp add: Dispatch_eq parse_any_def Mtk_generic)
qed

section \<open>Sequences of buffers\<close>

primrec dispatch_all :: "ext \<Rightarrow> 'w PacketManager \<Rightarrow> 'w \<Rightarrow> bytes list \<Rightarrow> 'w PacketManager \<times> 'w \<times> bool res list" where
  "dispatch_all E m w [] = (m, w, [])"
| "dispatch_all E m w (wire # wires) =
     (let (m, w, r) = Dispatch E m w wire; (m, w, rs) = dispatch_all E m w wires in (m, w, r # rs))"

text \<open>Handlers that throw nothing.\<close>

definition quiet :: "'w PacketManager \<Rightarrow> bool" where
  "quiet m \<longleftrightarrow> (\<forall>p w. snd (deliver m p w) = Inr ())"

lemma deliver_stats [simp]: "deliver (m \<lparr> pm_stats := s \<rparr>) p = deliver m p"
  by (cases p) simp_all

lemma quiet_stats [simp]: "quiet (m \<lparr> pm_stats := s \<rparr>) = quiet m"
  by (simp add: quiet_def)

definition rx_sum :: "PacketStats \<Rightarrow> u64" where
  "rx_sum s = st_rx_auth s + st_rx_join s + st_rx_rekey s + st_rx_mtk s + st_rx_handover s + st_rx_data s"

lemma stats_bumps [simp]:
  "rx_sum (rx p s) = rx_sum s + 1" "rx_sum (bump_format s) = rx_sum s"
  "rx_sum (bump_total s) = rx_sum s" "rx_sum (bump_hmac s) = rx_sum s"
  "st_rx_total (rx p s) = st_rx_total s + 1" "st_rx_total (bump_format s) = st_rx_total s"
  "st_rx_total (bump_total s) = st_rx_total s + 1" "st_rx_total (bump_hmac s) = st_rx_total s"
  "st_err_hmac (rx p s) = st_err_hmac s" "st_err_hmac (bump_format s) = st_err_hmac s"
  "st_err_hmac (bump_total s) = st_err_hmac s" "st_err_hmac (bump_hmac s) = st_err_hmac s + 1"
  "st_err_format (rx p s) = st_err_format s" "st_err_format (bump_format s) = st_err_format s + 1"
  "st_err_format (bump_total s) = st_err_format s" "st_err_format (bump_hmac s) = st_err_format s"
  "st_err_replay (rx p s) = st_err_replay s" "st_err_replay (bump_format s) = st_err_replay s"
  "st_err_replay (bump_total s) = st_err_replay s" "st_err_replay (bump_hmac s) = st_err_replay s"
  by (cases p; simp add: rx_sum_def rx_def bump_format_def bump_total_def bump_hmac_def Let_def)+

lemma Dispatch_counts_one:
  assumes "hmac_law E" "quiet m" "Dispatch E m w wire = (m', w', r)"
  shows "m' = m \<lparr> pm_stats := pm_stats m' \<rparr> \<and> (r = Inr True \<or> r = Inr False) \<and>
    rx_sum (pm_stats m') = rx_sum (pm_stats m) + of_bool (r = Inr True) \<and>
    st_err_hmac (pm_stats m') + st_err_format (pm_stats m') =
      st_err_hmac (pm_stats m) + st_err_format (pm_stats m) + of_bool (r = Inr False) \<and>
    st_rx_total (pm_stats m') = st_rx_total (pm_stats m) + of_bool (PeekType wire \<noteq> PT_UNKNOWN) \<and>
    st_err_replay (pm_stats m') = st_err_replay (pm_stats m)"
proof (cases "PeekType wire = PT_UNKNOWN")
  case True
  with assms(3) show ?thesis by (auto simp: Dispatch_eq)
next
  case known: False
  show ?thesis
  proof (cases "parse_any E (pm_hmac_key m) wire")
    case None
    with known assms(3) show ?thesis by (auto simp: Dispatch_eq)
  next
    case (Some r)
    show ?thesis
    proof (cases r)
      case (Inl e)
      with known Some parse_any_exn[OF assms(1), of "pm_hmac_key m" wire e] assms(3) show ?thesis
        by (auto simp: Dispatch_eq)
    next
      case (Inr p)
      obtain w2 where "deliver m p w = (w2, Inr ())"
        using assms(2) by (metis prod.collapse quiet_def)
      with known Some Inr assms(3) show ?thesis by (auto simp: Dispatch_eq)
    qed
  qed
qed

text \<open>
  Every received buffer is counted exactly once: after any sequence of
  buffers and with handlers that throw nothing, no call has thrown, the
  per-class counters went up by the number of calls that returned true, the two
  error counters by the number that returned false, \<open>rx_total\<close> by the number of
  buffers with a known magic and type byte, and \<open>err_replay\<close> not at all (counters
  wrap at 64 bits).
\<close>
theorem Dispatch_counts:
  assumes "hmac_law E" "quiet m" "dispatch_all E m w wires = (m', w', rs)"
  shows "length rs = length wires \<and> set rs \<subseteq> {Inr True, Inr False} \<and>
    rx_sum (pm_stats m') = rx_sum (pm_stats m) + of_nat (count_list rs (Inr True)) \<and>
    st_err_hmac (pm_stats m') + st_err_format (pm_stats m') =
      st_err_hmac (pm_stats m) + st_err_format (pm_stats m) + of_nat (count_list rs (Inr False)) \<and>
    st_rx_total (pm_stats m') =
      st_rx_total (pm_stats m) + of_nat (length (filter (\<lambda>x. PeekType x \<noteq> PT_UNKNOWN) wires)) \<and>
    st_err_replay (pm_stats m') = st_err_replay (pm_stats m)"
  using assms(2,3)
proof (induction wires arbitrary: m w rs)
  case (Cons wire wires)
  obtain m1 w1 r where d: "Dispatch E m w wire = (m1, w1, r)" by (metis prod_cases3)
  obtain rs' where ds: "dispatch_all E m1 w1 wires = (m', w', rs')" and rs: "rs = r # rs'"
    using Cons.prems(2) d by (auto split: prod.splits)
  have one: "m1 = m \<lparr> pm_stats := pm_stats m1 \<rparr>"
    "r = Inr True \<or> r = Inr False"
    "rx_sum (pm_stats m1) = rx_sum (pm_stats m) + of_bool (r = Inr True)"
    "st_err_hmac (pm_stats m1) + st_err_format (pm_stats m1) =
      st_err_hmac (pm_stats m) + st_err_format (pm_stats m) + of_bool (r = Inr False)"
    "st_rx_total (pm_stats m1) = st_rx_total (pm_stats m) + of_bool (PeekType wire \<noteq> PT_UNKNOWN)"
    "st_err_replay (pm_stats m1) = st_err_replay (pm_stats m)"
    using Dispatch_counts_one[OF assms(1) Cons.prems(1) d] by blast+
  have "quiet m1" using one(1) Cons.prems(1) by (metis quiet_stats)
  from Cons.IH[OF this ds] one(2-) show ?case by (auto simp: rs)
qed simp

text \<open>
  The packet layer does not detect replays: dispatching the bytes of a sent
  packet twice (with handlers that throw nothing) calls the handler twice with
  the same packet and returns true both times; \<open>err_replay\<close> stays as it was.
\<close>
theorem Dispatch_accepts_replay:
  assumes "hmac_law E" "msb_law E" "wf_any E p" "pm_hmac_key (rcv :: 'w PacketManager) = pm_hmac_key sdr"
    "quiet rcv"
  shows "\<exists>wire. send E sdr p = Inr (bump_tx sdr, wire) \<and>
    dispatch_all E rcv w [wire, wire] =
      (rcv \<lparr> pm_stats := rx p (rx p (pm_stats rcv)) \<rparr>,
       fst (deliver rcv p (fst (deliver rcv p w))), [Inr True, Inr True]) \<and>
    st_err_replay (rx p (rx p (pm_stats rcv))) = st_err_replay (pm_stats rcv)"
proof -
  obtain wire where wire: "send E sdr p = Inr (bump_tx sdr, wire)"
    and d: "\<And>(m :: 'w PacketManager) w. pm_hmac_key m = pm_hmac_key rcv \<Longrightarrow> Dispatch E m w wire =
      (let (w', r) = deliver m p w in settle (m \<lparr> pm_stats := rx p (pm_stats m) \<rparr>) w' r)"
    using Dispatch_sent[OF assms(1-4)] by blast
  have q: "deliver rcv p w = (fst (deliver rcv p w), Inr ())" for w
    using assms(5) by (metis prod.collapse quiet_def)
  have d1: "Dispatch E (rcv \<lparr> pm_stats := s \<rparr>) w wire =
      (rcv \<lparr> pm_stats := rx p s \<rparr>, fst (deliver rcv p w), Inr True)" for s w
    using d[of "rcv \<lparr> pm_stats := s \<rparr>" w] q[of w] by (auto split: prod.splits)
  from d1[of "pm_stats rcv"] wire show ?thesis
    by (intro exI[of _ wire]) (simp add: d1)
qed

text \<open>
  C17.  A payload survives the whole way: \<open>MakeDataPacket\<close> returns the bytes of a
  packet from which, after \<open>Dispatch\<close> at a manager with the same HMAC key, the
  data handler recovers exactly the plaintext by \<open>Decrypt\<close> with the sender's TEK;
  the header names the sender, and the sender's sequence counter went up by one.
\<close>
theorem MakeDataPacket_end_to_end:
  assumes "hmac_law E" "msb_law E" "gcm_law E" "wf_readings r" "length plaintext < 2 ^ 32"
    "pm_hmac_key (rcv :: 'w PacketManager) = pm_hmac_key sdr"
  shows "\<exists>sdr' wire pkt. MakeDataPacket E r sdr skdc_id n plaintext = Inr (sdr', wire) \<and>
    pm_seq sdr' = pm_seq sdr + 1 \<and> h_src_node_id (pk_header pkt) = pm_node_id sdr \<and>
    DataPacket_Decrypt E pkt (pm_tek sdr) = Inr plaintext \<and>
    Dispatch E rcv w wire =
      (let (w', res) = call_handler (pm_data_handler rcv) pkt w
       in settle (rcv \<lparr> pm_stats := rx (APdata pkt) (pm_stats rcv) \<rparr>) w' res)"
proof -
  obtain pkt seq' where b: "Data_Build E r (pm_cluster_id sdr) (pm_node_id sdr) skdc_id n plaintext
      (pm_tek sdr) (pm_seq sdr) = (pkt, seq')" by fastforce
  note ok = Data_Build_ok[OF assms(3-5) b]
  have src: "h_src_node_id (pk_header pkt) = pm_node_id sdr"
    using b by (auto simp: Data_Build_def build_simps)
  let ?s = "sdr \<lparr> pm_seq := seq' \<rparr>"
  obtain wire where wire: "send E ?s (APdata pkt) = Inr (bump_tx ?s, wire)"
    and d: "Dispatch E rcv w wire = (let (w', res) = deliver rcv (APdata pkt) w
       in settle (rcv \<lparr> pm_stats := rx (APdata pkt) (pm_stats rcv) \<rparr>) w' res)"
    using Dispatch_sent[of E "APdata pkt" rcv ?s] assms(1,2,6) ok by fastforce
  show ?thesis
  proof (intro exI conjI)
    show "MakeDataPacket E r sdr skdc_id n plaintext = Inr (bump_tx ?s, wire)"
      using wire by (simp add: MakeDataPacket_def b)
    show "pm_seq (bump_tx ?s) = pm_seq sdr + 1" using ok by (simp add: bump_tx_def)
  qed (use src ok d in simp_all)
qed

section \<open>Sizes\<close>

text \<open>The length of a sent packet, by class.\<close>

primrec any_size :: "ext \<Rightarrow> any_packet \<Rightarrow> nat" where
  "any_size E (APauth p) = 128"
| "any_size E (APjoin p) = 136"
| "any_size E (APrekey p) = 120 + wire_size E (rb_mtk (pk_body p))"
| "any_size E (APmtk p) =
     124 + wire_size E (mb_mtk (pk_body p)) + wire_size E (mb_n_group (pk_body p))"
| "any_size E (APhandover p) = 144"
| "any_size E (APdata p) = 136 + length (db_ciphertext (pk_body p))"

lemma length_packet_bytes:
  "packet_bytes ser q = Inr w \<Longrightarrow> wf_header (pk_header q) \<Longrightarrow> ser (pk_body q) = Inr bs \<Longrightarrow>
   length w = 48 + length bs"
  by (auto simp: packet_bytes_def wf_header_def NONCE_SIZE_def)

lemma length_bodies:
  "wf_AuthBody a \<Longrightarrow> length (AuthBody_Serialize a) = 48"
  "wf_JoinBody j \<Longrightarrow> length (JoinBody_Serialize j) = 56"
  "wf_HandoverBody h \<Longrightarrow> length (HandoverBody_Serialize h) = 64"
  "wf_DataBody d \<Longrightarrow> length (DataBody_Serialize d) = 56 + length (db_ciphertext d)"
  "msb_law E \<Longrightarrow> wf_RekeyBody E r \<Longrightarrow> RekeyBody_Serialize E r = Inr rs \<Longrightarrow>
   length rs = 40 + wire_size E (rb_mtk r)"
  "msb_law E \<Longrightarrow> wf_MtkBody E m \<Longrightarrow> MtkBody_Serialize E m = Inr ms \<Longrightarrow>
   length ms = 44 + wire_size E (mb_mtk m) + wire_size E (mb_n_group m)"
proof -
  show "msb_law E \<Longrightarrow> wf_RekeyBody E r \<Longrightarrow> RekeyBody_Serialize E r = Inr rs \<Longrightarrow>
      length rs = 40 + wire_size E (rb_mtk r)"
    by (erule RekeyBody_layout, assumption) (auto simp: wf_RekeyBody_def)
  show "msb_law E \<Longrightarrow> wf_MtkBody E m \<Longrightarrow> MtkBody_Serialize E m = Inr ms \<Longrightarrow>
      length ms = 44 + wire_size E (mb_mtk m) + wire_size E (mb_n_group m)"
    by (erule MtkBody_layout, assumption) (auto simp: wf_MtkBody_def)
qed (simp_all add: body_layouts, simp_all add: wf_AuthBody_def wf_JoinBody_def wf_HandoverBody_def
      wf_DataBody_def)

lemma length_sent:
  assumes "hmac_law E" "msb_law E" "wf_any E p" "send E m p = Inr (m', wire)"
  shows "length wire = any_size E p"
  using assms
  by (cases p)
    (auto simp: send_eq rbind_eq_Inr_iff AppendHmac_eq packet_bytes_def length_bodies wf_header_def
      NONCE_SIZE_def)

text \<open>
  Which packets keep the sizes of the project's table: authentication, join
  and handover packets always do (128, 136 and 144 of 256 bytes), a rekey packet
  if its MT_K takes at most 392 bytes, an MTK packet if MT_K and N_group together
  take at most 388, a data packet if its ciphertext has at most 888 bytes, which
  is less than the 900 bytes \<open>PayloadCapacity\<close> promises for it.
\<close>
theorem packet_sizes:
  assumes "hmac_law E" "msb_law E" "wf_any E p" "send E m p = Inr (m', wire)"
  shows "(IsValidSize (h_packet_type (any_header p)) (length wire) \<longleftrightarrow>
     (case p of
        APrekey q \<Rightarrow> wire_size E (rb_mtk (pk_body q)) \<le> 392
      | APmtk q \<Rightarrow> wire_size E (mb_mtk (pk_body q)) + wire_size E (mb_n_group (pk_body q)) \<le> 388
      | APdata q \<Rightarrow> length (db_ciphertext (pk_body q)) \<le> 888
      | _ \<Rightarrow> True)) \<and>
    PayloadCapacity DATA_PACKET = 900"
  using assms(3) unfolding length_sent[OF assms]
  by (cases p) (auto simp: size_defs)

section \<open>Witnesses\<close>

definition demo_readings :: Readings where
  "demo_readings =
     \<lparr> r_body_now = 1000, r_body_nonce = replicate 16 3, r_token_now = 1001,
       r_token_nonce = replicate 16 9, r_header_now = 1002, r_aes_iv = replicate 12 5 \<rparr>"

lemma wf_demo_readings: "wf_readings demo_readings"
  by (simp add: demo_readings_def wf_readings_def)

definition demo_auth :: AuthPacket where
  "demo_auth = fst (Auth_BuildRequest demo_readings 7 1 0 5)"

definition demo_mtk_packet :: MtkPacket where
  "demo_mtk_packet =
     \<lparr> pk_header = ApplyReplayToken (BaseHeader_new 1 MTK_PACKET 0 1 0xFFFF NT_SKDC NT_UAV HMAC_PRESENT PRIO_HIGH)
         (Token_Generate 2 (replicate 16 9) 3) \<lparr> h_payload_len := 46 \<rparr>,
       pk_body = \<lparr> mb_cluster_id = 0, mb_version = 1, mb_timestamp_us = 1, mb_mtk = 77, mb_n_group = 91,
         mb_body_nonce = replicate 16 4 \<rparr> \<rparr>"

definition demo_node :: "nat PacketManager" where
  "demo_node = PacketManager_new 7 0 (replicate 32 1) (replicate 32 2)"

lemma demo_wf:
  "wf_any toy_ext (APauth demo_auth)" "wf_any toy_ext (APmtk demo_mtk_packet)" "quiet demo_node"
proof -
  show "wf_any toy_ext (APauth demo_auth)"
    using Auth_BuildRequest_ok[OF wf_demo_readings, of 7 1 0 5 demo_auth 6]
    by (simp add: demo_auth_def Auth_BuildRequest_def build_simps)
  have "wire_size toy_ext 77 = 1" "wire_size toy_ext 91 = 1"
    by (simp_all add: wire_size_def toy_ext_def toy_msb.simps)
  then show "wf_any toy_ext (APmtk demo_mtk_packet)"
    by (simp add: demo_mtk_packet_def wf_MtkBody_def)
  show "quiet demo_node"
    unfolding quiet_def
  proof (intro allI)
    show "snd (deliver demo_node p w) = Inr ()" for p w
      by (cases p) (simp_all add: demo_node_def PacketManager_new_def call_handler_def)
  qed
qed

lemma Dispatch_delivers_witness:
  "\<exists>wire. send toy_ext demo_node (APauth demo_auth) = Inr (bump_tx demo_node, wire) \<and>
    Dispatch toy_ext demo_node 0 wire =
      (let (w', r) = deliver demo_node (APauth demo_auth) 0
       in settle (demo_node \<lparr> pm_stats := rx (APauth demo_auth) (pm_stats demo_node) \<rparr>) w' r)"
  by (rule Dispatch_delivers) (simp_all only: toy_laws demo_wf)

lemma Dispatch_rejects_forgery_witness:
  "\<exists>s. Dispatch toy_ext demo_node 0 (be16 MAGIC @ replicate 200 1) =
      (demo_node \<lparr> pm_stats := s \<rparr>, 0, Inr False) \<and>
    s \<in> {bump_format (pm_stats demo_node), bump_format (bump_total (pm_stats demo_node)),
         bump_hmac (bump_total (pm_stats demo_node))}"
proof (rule Dispatch_rejects_forgery[OF toy_hmac])
  show "PeekType (be16 MAGIC @ replicate 200 1) \<noteq> MTK_PACKET"
    by (simp add: PeekType_def be16_def MAGIC_def nth_append)
  show "\<not> authentic toy_ext (pm_hmac_key demo_node) (be16 MAGIC @ replicate 200 1)"
  proof
    assume "authentic toy_ext (pm_hmac_key demo_node) (be16 MAGIC @ replicate 200 1)"
    then obtain body where eq: "be16 MAGIC @ replicate 200 1 =
        body @ x_hmac_sha256 toy_ext (pm_hmac_key demo_node) body"
      unfolding authentic_def by blast
    have "length (be16 MAGIC @ replicate 200 1) =
        length (body @ x_hmac_sha256 toy_ext (pm_hmac_key demo_node) body)"
      by (simp only: eq)
    then have "length body = 170" by (simp add: toy_hmac)
    then have "(be16 MAGIC @ replicate 200 1) ! 170 = (0 :: u8)"
      unfolding eq by (simp add: nth_append toy_ext_def)
    then show False by (simp add: nth_append)
  qed
qed

lemma Dispatch_accepts_forged_mtk_witness:
  "\<exists>wire. MtkPacket_Serialize toy_ext demo_mtk_packet = Inr wire \<and>
    Dispatch toy_ext demo_node 0 (wire @ replicate 32 0) =
      (let (w', r) = call_handler (pm_mtk_handler demo_node) demo_mtk_packet 0
       in settle (demo_node \<lparr> pm_stats := rx (APmtk demo_mtk_packet) (pm_stats demo_node) \<rparr>) w' r)"
  by (rule Dispatch_accepts_forged_mtk) (simp_all only: toy_laws demo_wf length_replicate)

lemma Dispatch_counts_witness:
  "\<exists>m' w' rs. dispatch_all toy_ext demo_node 0 [[1, 2], [0x55, 0x41, 1, 9]] = (m', w', rs) \<and>
    length rs = 2 \<and> rx_sum (pm_stats m') = rx_sum (pm_stats demo_node) + of_nat (count_list rs (Inr True))"
proof -
  obtain m' w' rs where d: "dispatch_all toy_ext demo_node 0 [[1, 2], [0x55, 0x41, 1, 9]] = (m', w', rs)"
    by (metis prod_cases3)
  from Dispatch_counts[OF toy_hmac demo_wf(3) d] d show ?thesis by auto
qed

lemma Dispatch_accepts_replay_witness:
  "\<exists>wire. send toy_ext demo_node (APauth demo_auth) = Inr (bump_tx demo_node, wire) \<and>
    dispatch_all toy_ext demo_node 0 [wire, wire] =
      (demo_node \<lparr> pm_stats := rx (APauth demo_auth) (rx (APauth demo_auth) (pm_stats demo_node)) \<rparr>,
       fst (deliver demo_node (APauth demo_auth) (fst (deliver demo_node (APauth demo_auth) 0))),
       [Inr True, Inr True]) \<and>
    st_err_replay (rx (APauth demo_auth) (rx (APauth demo_auth) (pm_stats demo_node))) =
      st_err_replay (pm_stats demo_node)"
  by (rule Dispatch_accepts_replay) (simp_all only: toy_laws demo_wf)

lemma MakeDataPacket_end_to_end_witness:
  "\<exists>sdr' wire pkt. MakeDataPacket toy_ext demo_readings demo_node 1 0 [1, 2, 3] = Inr (sdr', wire) \<and>
    pm_seq sdr' = pm_seq demo_node + 1 \<and> h_src_node_id (pk_header pkt) = pm_node_id demo_node \<and>
    DataPacket_Decrypt toy_ext pkt (pm_tek demo_node) = Inr [1, 2, 3] \<and>
    Dispatch toy_ext demo_node 0 wire =
      (let (w', res) = call_handler (pm_data_handler demo_node) pkt 0
       in settle (demo_node \<lparr> pm_stats := rx (APdata pkt) (pm_stats demo_node) \<rparr>) w' res)"
  by (rule MakeDataPacket_end_to_end) (simp_all add: toy_laws wf_demo_readings)

lemma packet_sizes_witness:
  "\<exists>m' wire. send toy_ext demo_node (APauth demo_auth) = Inr (m', wire) \<and>
    IsValidSize AUTH_PACKET (length wire)"
proof -
  obtain m' wire where s: "send toy_ext demo_node (APauth demo_auth) = Inr (m', wire)"
    using send_parse[OF toy_hmac toy_msb_law demo_wf(1), of demo_node] by blast
  with packet_sizes[OF toy_hmac toy_msb_law demo_wf(1) s] demo_wf(1) show ?thesis by auto
qed

end
