(* ===== verification/Handover_Protocol.thy ===== *)
theory Handover_Protocol
  imports Crypto_Params
begin

text \<open>
  crypto/uav-handover-protocol.h: the four messages by which a UAV that changes
  its cluster gets its new slave key (NOTIFY, SLAVE_FWD, JOIN_ACCEPT, KEY_ACK),
  all authenticated with the global bootstrap key GK, and the slave key blob.
  A parser that returns false is \<open>None\<close> in the result type.  The two parsers with
  a ciphertext compute \<open>41 + ct_len\<close> and \<open>45 + ct_len\<close> in 32 bits; where that sum
  wraps they copy from behind the buffer, which is undefined behaviour in C++ and
  an outer \<open>None\<close> here.  Clock and random readings are arguments.
\<close>

section \<open>The slave key blob\<close>

definition BIGINT_FIELD_BYTES :: nat where "BIGINT_FIELD_BYTES = 256"
definition SLAVE_BLOB_PLAIN :: nat where "SLAVE_BLOB_PLAIN = BIGINT_FIELD_BYTES * 5 + 8"

record SlaveKeyBlob =
  bl_uav_index :: u32
  bl_cluster_id :: u32
  bl_d_i_bytes :: bytes
  bl_n_i_bytes :: bytes
  bl_e_i_bytes :: bytes
  bl_Mi_bytes :: bytes
  bl_Ni_bytes :: bytes

definition write_field :: "bytes \<Rightarrow> nat \<Rightarrow> bytes \<Rightarrow> bytes" where
  "write_field buf off v =
     (let n = min (length v) BIGINT_FIELD_BYTES
      in put_bytes buf (off + (BIGINT_FIELD_BYTES - n)) (take n v))"

definition Blob_Serialize :: "SlaveKeyBlob \<Rightarrow> bytes" where
  "Blob_Serialize b =
     (let buf = replicate SLAVE_BLOB_PLAIN 0;
          buf = WriteU32BE buf 0 (bl_uav_index b);
          buf = WriteU32BE buf 4 (bl_cluster_id b);
          buf = write_field buf 8 (bl_d_i_bytes b);
          buf = write_field buf (8 + BIGINT_FIELD_BYTES) (bl_n_i_bytes b);
          buf = write_field buf (8 + BIGINT_FIELD_BYTES * 2) (bl_e_i_bytes b);
          buf = write_field buf (8 + BIGINT_FIELD_BYTES * 3) (bl_Mi_bytes b);
          buf = write_field buf (8 + BIGINT_FIELD_BYTES * 4) (bl_Ni_bytes b)
      in buf)"

definition Blob_Deserialize :: "bytes \<Rightarrow> SlaveKeyBlob res" where
  "Blob_Deserialize buf =
     (if length buf < SLAVE_BLOB_PLAIN then Inl SerializationException
      else
        let read_field = (\<lambda>off. get_bytes buf off BIGINT_FIELD_BYTES) in
        Inr \<lparr> bl_uav_index = ReadU32BE buf 0,
              bl_cluster_id = ReadU32BE buf 4,
              bl_d_i_bytes = read_field 8,
              bl_n_i_bytes = read_field (8 + BIGINT_FIELD_BYTES),
              bl_e_i_bytes = read_field (8 + BIGINT_FIELD_BYTES * 2),
              bl_Mi_bytes = read_field (8 + BIGINT_FIELD_BYTES * 3),
              bl_Ni_bytes = read_field (8 + BIGINT_FIELD_BYTES * 4) \<rparr>)"

section \<open>NOTIFY and KEY\_ACK\<close>

definition TYPE_NOTIFY :: u8 where "TYPE_NOTIFY = 0x10"
definition TYPE_SLAVE_FWD :: u8 where "TYPE_SLAVE_FWD = 0x11"
definition TYPE_JOIN_ACC :: u8 where "TYPE_JOIN_ACC = 0x12"
definition TYPE_KEY_ACK :: u8 where "TYPE_KEY_ACK = 0x13"

record NotifyPkt =
  nf_uav_id :: u32
  nf_old_cluster :: u32
  nf_new_cluster :: u32
  nf_old_index :: u32
  nf_timestamp :: u64

record SlaveAckPkt =
  ak_uav_id :: u32
  ak_new_cluster :: u32
  ak_new_index :: u32
  ak_timestamp :: u64

definition BuildNotify ::
    "ext \<Rightarrow> u64 \<Rightarrow> bytes \<Rightarrow> u32 \<Rightarrow> u32 \<Rightarrow> u32 \<Rightarrow> u32 \<Rightarrow> bytes \<Rightarrow> bytes res" where
  "BuildNotify E ts nonce_key uav_id old_c new_c old_idx gk =
     (let buf = replicate 37 0;
          buf = WriteU8 buf 0 TYPE_NOTIFY;
          buf = WriteU32BE buf 1 uav_id;
          buf = WriteU32BE buf 5 old_c;
          buf = WriteU32BE buf 9 new_c;
          buf = WriteU32BE buf 13 old_idx;
          buf = WriteU64BE buf 17 ts;
          buf = put_bytes buf 25 (take 12 nonce_key)
      in AppendHmac E gk buf)"

text \<open>The common start of the parsers: length, type byte, HMAC over all but the last 32 bytes.\<close>

definition checked :: "ext \<Rightarrow> nat \<Rightarrow> u8 \<Rightarrow> bytes \<Rightarrow> bytes \<Rightarrow> bool res" where
  "checked E min_len type buf gk =
     (if length buf < min_len then Inr False
      else if buf ! 0 \<noteq> type then Inr False
      else
        let data = take (length buf - 32) buf; hmac = get_bytes buf (length buf - 32) 32
        in Hmac_Verify E gk data hmac)"

definition ParseNotify :: "ext \<Rightarrow> bytes \<Rightarrow> bytes \<Rightarrow> NotifyPkt option res" where
  "ParseNotify E buf gk =
     rbind (checked E (37 + 32) TYPE_NOTIFY buf gk) (\<lambda>ok.
     if \<not> ok then Inr None
     else Inr (Some
       \<lparr> nf_uav_id = ReadU32BE buf 1, nf_old_cluster = ReadU32BE buf 5,
         nf_new_cluster = ReadU32BE buf 9, nf_old_index = ReadU32BE buf 13,
         nf_timestamp = ReadU64BE buf 17 \<rparr>))"

definition BuildKeyAck :: "ext \<Rightarrow> u64 \<Rightarrow> u32 \<Rightarrow> u32 \<Rightarrow> u32 \<Rightarrow> bytes \<Rightarrow> bytes res" where
  "BuildKeyAck E ts uav_id new_cluster new_index gk =
     (let buf = replicate 21 0;
          buf = WriteU8 buf 0 TYPE_KEY_ACK;
          buf = WriteU32BE buf 1 uav_id;
          buf = WriteU32BE buf 5 new_cluster;
          buf = WriteU32BE buf 9 new_index;
          buf = WriteU64BE buf 13 ts
      in AppendHmac E gk buf)"

definition ParseKeyAck :: "ext \<Rightarrow> bytes \<Rightarrow> bytes \<Rightarrow> SlaveAckPkt option res" where
  "ParseKeyAck E buf gk =
     rbind (checked E (21 + 32) TYPE_KEY_ACK buf gk) (\<lambda>ok.
     if \<not> ok then Inr None
     else Inr (Some
       \<lparr> ak_uav_id = ReadU32BE buf 1, ak_new_cluster = ReadU32BE buf 5,
         ak_new_index = ReadU32BE buf 9, ak_timestamp = ReadU64BE buf 13 \<rparr>))"

section \<open>SLAVE\_FWD and JOIN\_ACCEPT\<close>

definition ho_aad :: "u8 \<Rightarrow> u32 \<Rightarrow> u32 \<Rightarrow> bytes" where
  "ho_aad type uav_id new_cluster =
     (let aad = replicate 9 0;
          aad = WriteU8 aad 0 type;
          aad = WriteU32BE aad 1 uav_id
      in WriteU32BE aad 5 new_cluster)"

definition BuildSlaveFwd ::
    "ext \<Rightarrow> bytes \<Rightarrow> u32 \<Rightarrow> u32 \<Rightarrow> SlaveKeyBlob \<Rightarrow> bytes \<Rightarrow> bytes res" where
  "BuildSlaveFwd E iv uav_id new_cluster blob gk =
     (let plain = Blob_Serialize blob;
          aad = ho_aad TYPE_SLAVE_FWD uav_id new_cluster;
          enc = DoEncrypt E gk iv plain aad;
          buf = [] @ [TYPE_SLAVE_FWD];
          ui = WriteU32BE (replicate 4 0) 0 uav_id;
          nc = WriteU32BE (replicate 4 0) 0 new_cluster;
          cl = WriteU32BE (replicate 4 0) 0 (word_of_nat (length (gcm_ciphertext enc)));
          buf = buf @ ui;
          buf = buf @ nc;
          buf = buf @ gcm_iv enc;
          buf = buf @ gcm_tag enc;
          buf = buf @ cl;
          buf = buf @ gcm_ciphertext enc
      in AppendHmac E gk buf)"

text \<open>Decryption and blob parsing inside \<open>try ... catch (...) { return false; }\<close>.\<close>

definition open_blob :: "ext \<Rightarrow> bytes \<Rightarrow> bytes \<Rightarrow> bytes \<Rightarrow> bytes \<Rightarrow> bytes \<Rightarrow> SlaveKeyBlob option" where
  "open_blob E gk iv ct tag aad =
     (case rbind (Decrypt E gk iv ct tag aad) Blob_Deserialize of
        Inl _ \<Rightarrow> None
      | Inr b \<Rightarrow> Some b)"

definition ParseSlaveFwd ::
    "ext \<Rightarrow> bytes \<Rightarrow> bytes \<Rightarrow> (u32 \<times> u32 \<times> SlaveKeyBlob) option res option" where
  "ParseSlaveFwd E buf gk =
     (case checked E (1 + 4 + 4 + 12 + 16 + 4 + 32) TYPE_SLAVE_FWD buf gk of
        Inl e \<Rightarrow> Some (Inl e)
      | Inr False \<Rightarrow> Some (Inr None)
      | Inr True \<Rightarrow>
          let data = take (length buf - 32) buf;
              uav_id = ReadU32BE buf 1;
              new_cluster = ReadU32BE buf 5;
              iv = get_bytes buf 9 12;
              tag = get_bytes buf 21 16;
              ct_len = ReadU32BE buf 37
          in if length data < unat (41 + ct_len) then Some (Inr None)
             else if length buf < 41 + unat ct_len then None
             else
               let ct = get_bytes buf 41 (unat ct_len);
                   aad = ho_aad TYPE_SLAVE_FWD uav_id new_cluster
               in Some (Inr (map_option (\<lambda>blob. (uav_id, new_cluster, blob))
                               (open_blob E gk iv ct tag aad))))"

definition BuildJoinAccept ::
    "ext \<Rightarrow> bytes \<Rightarrow> u64 \<Rightarrow> u32 \<Rightarrow> u32 \<Rightarrow> u32 \<Rightarrow> SlaveKeyBlob \<Rightarrow> bytes \<Rightarrow> bytes res" where
  "BuildJoinAccept E iv ts uav_id new_cluster new_index blob gk =
     (let plain = Blob_Serialize blob;
          aad = ho_aad TYPE_JOIN_ACC uav_id new_cluster;
          enc = DoEncrypt E gk iv plain aad;
          push_u32 = (\<lambda>buf v. buf @ WriteU32BE (replicate 4 0) 0 v);
          buf = [] @ [TYPE_JOIN_ACC];
          buf = push_u32 buf uav_id;
          buf = push_u32 buf new_cluster;
          buf = push_u32 buf new_index;
          buf = buf @ gcm_iv enc;
          buf = buf @ gcm_tag enc;
          cl = WriteU32BE (replicate 4 0) 0 (word_of_nat (length (gcm_ciphertext enc)));
          buf = buf @ cl;
          buf = buf @ gcm_ciphertext enc;
          tsb = WriteU64BE (replicate 8 0) 0 ts;
          buf = buf @ tsb
      in AppendHmac E gk buf)"

definition ParseJoinAccept ::
    "ext \<Rightarrow> bytes \<Rightarrow> bytes \<Rightarrow> (u32 \<times> u32 \<times> u32 \<times> SlaveKeyBlob) option res option" where
  "ParseJoinAccept E buf gk =
     (case checked E (1 + 4 + 4 + 4 + 12 + 16 + 4 + 8 + 32) TYPE_JOIN_ACC buf gk of
        Inl e \<Rightarrow> Some (Inl e)
      | Inr False \<Rightarrow> Some (Inr None)
      | Inr True \<Rightarrow>
          let data = take (length buf - 32) buf;
              uav_id = ReadU32BE buf 1;
              new_cluster = ReadU32BE buf 5;
              new_index = ReadU32BE buf 9;
              iv = get_bytes buf 13 12;
              tag = get_bytes buf 25 16;
              ct_len = ReadU32BE buf 41
          in if length data < unat (45 + ct_len) then Some (Inr None)
             else if length buf < 45 + unat ct_len then None
             else
               let ct = get_bytes buf 45 (unat ct_len);
                   aad = ho_aad TYPE_JOIN_ACC uav_id new_cluster
               in Some (Inr (map_option (\<lambda>blob. (uav_id, new_cluster, new_index, blob))
                               (open_blob E gk iv ct tag aad))))"

definition HexToGlobalKey :: "string \<Rightarrow> bytes res" where
  "HexToGlobalKey hex = (if length hex \<noteq> 64 then Inl CryptoException else hex_pairs hex)"

section \<open>The authenticated frame\<close>

definition gk_signed :: "ext \<Rightarrow> bytes \<Rightarrow> bytes \<Rightarrow> bool" where
  "gk_signed E gk buf \<longleftrightarrow> (\<exists>body. buf = body @ x_hmac_sha256 E gk body)"

lemma checked_signed:
  "hmac_law E \<Longrightarrow> k \<le> length body + 32 \<Longrightarrow> body \<noteq> [] \<Longrightarrow> body ! 0 = type \<Longrightarrow>
   checked E k type (body @ x_hmac_sha256 E gk body) gk = Inr True"
  by (simp add: checked_def Hmac_Verify_eq wire_simps nth_append)

lemma checked_True:
  assumes "hmac_law E" "32 \<le> k" "checked E k type buf gk = Inr True"
  shows "k \<le> length buf \<and> buf ! 0 = type \<and> gk_signed E gk buf"
proof -
  let ?b = "take (length buf - 32) buf"
  from assms have len: "k \<le> length buf" "buf ! 0 = type"
    and "x_hmac_sha256 E gk ?b = get_bytes buf (length buf - 32) 32"
    by (auto simp: checked_def Hmac_Verify_eq Let_def split: if_splits)
  then have "buf = ?b @ x_hmac_sha256 E gk ?b"
    using assms(2) by (simp add: get_bytes_def)
  with len show ?thesis unfolding gk_signed_def by blast
qed

lemma checked_total: "hmac_law E \<Longrightarrow> checked E k type buf gk \<noteq> Inl e"
  by (simp add: checked_def Hmac_Verify_eq Let_def)

section \<open>Layouts\<close>

lemma notify_layout:
  "hmac_law E \<Longrightarrow> length nk = 32 \<Longrightarrow>
   BuildNotify E ts nk u oc nc oi gk =
     (let body = be8 TYPE_NOTIFY @ be32 u @ be32 oc @ be32 nc @ be32 oi @ be64 ts @ take 12 nk
      in Inr (body @ x_hmac_sha256 E gk body))"
  by (simp add: BuildNotify_def AppendHmac_eq fill_simps Let_def del: append_assoc) simp

lemma key_ack_layout:
  "hmac_law E \<Longrightarrow>
   BuildKeyAck E ts u nc ni gk =
     (let body = be8 TYPE_KEY_ACK @ be32 u @ be32 nc @ be32 ni @ be64 ts
      in Inr (body @ x_hmac_sha256 E gk body))"
  by (simp add: BuildKeyAck_def AppendHmac_eq fill_simps Let_def del: append_assoc) simp

lemma word_buffers [simp]:
  "WriteU32BE (replicate 4 0) 0 x = be32 x" "WriteU64BE (replicate 8 0) 0 y = be64 y"
  by (simp_all add: fill_simps)

lemma ho_aad_eq [simp]: "ho_aad t u c = be8 t @ be32 u @ be32 c"
  by (simp add: ho_aad_def fill_simps Let_def del: append_assoc)

definition pad256 :: "bytes \<Rightarrow> bytes" where
  "pad256 v = replicate (256 - min (length v) 256) 0 @ take 256 v"

lemma length_pad256 [simp]: "length (pad256 v) = 256"
  by (simp add: pad256_def)

lemma write_field_fill:
  "off = length pre \<Longrightarrow> 256 \<le> n \<Longrightarrow>
   write_field (pre @ replicate n 0) off v = (pre @ pad256 v) @ replicate (n - 256) 0"
  by (cases "length v \<le> 256")
    (simp_all add: write_field_def BIGINT_FIELD_BYTES_def Let_def pad256_def fill_bytes min_def)

definition padded_blob :: "SlaveKeyBlob \<Rightarrow> SlaveKeyBlob" where
  "padded_blob b = b \<lparr> bl_d_i_bytes := pad256 (bl_d_i_bytes b), bl_n_i_bytes := pad256 (bl_n_i_bytes b),
     bl_e_i_bytes := pad256 (bl_e_i_bytes b), bl_Mi_bytes := pad256 (bl_Mi_bytes b),
     bl_Ni_bytes := pad256 (bl_Ni_bytes b) \<rparr>"

lemma blob_layout:
  "Blob_Serialize b = be32 (bl_uav_index b) @ be32 (bl_cluster_id b) @ pad256 (bl_d_i_bytes b) @
     pad256 (bl_n_i_bytes b) @ pad256 (bl_e_i_bytes b) @ pad256 (bl_Mi_bytes b) @ pad256 (bl_Ni_bytes b)"
  by (simp add: Blob_Serialize_def SLAVE_BLOB_PLAIN_def BIGINT_FIELD_BYTES_def fill_simps Let_def
      write_field_fill del: append_assoc)

lemma Blob_round_trip: "Blob_Deserialize (Blob_Serialize b) = Inr (padded_blob b)"
  by (cases b) (simp add: Blob_Deserialize_def SLAVE_BLOB_PLAIN_def BIGINT_FIELD_BYTES_def blob_layout
      padded_blob_def parse_simps get_bytes_all)

lemma FromBytes_zeros: "FromBytes (replicate k 0 @ v) = FromBytes v"
proof (induction v rule: rev_induct)
  case Nil
  have "FromBytes (replicate k 0) = 0" by (induction k) (simp_all flip: replicate_append_same)
  then show ?case by simp
qed (simp flip: append_assoc)

lemma FromBytes_pad256 [simp]: "length v \<le> 256 \<Longrightarrow> FromBytes (pad256 v) = FromBytes v"
  by (simp add: pad256_def FromBytes_zeros)

section \<open>Round trips\<close>

lemma sealed_blob:
  assumes "gcm_law E" "length iv = 12"
  obtains ct tag where
    "DoEncrypt E gk iv (Blob_Serialize b) aad = \<lparr> gcm_ciphertext = ct, gcm_iv = iv, gcm_tag = tag \<rparr>"
    "length ct = 1288" "length tag = 16" "open_blob E gk iv ct tag aad = Some (padded_blob b)"
proof -
  obtain ct tag where e: "x_gcm_encrypt E gk iv aad (Blob_Serialize b) = (ct, tag)" by fastforce
  with assms(1) have "length tag = 16" "length ct = length (Blob_Serialize b)"
    and d: "x_gcm_decrypt E gk iv aad ct tag = Some (Blob_Serialize b)"
    by (auto simp: gcm_law_def)
  moreover have "length (Blob_Serialize b) = 1288" by (simp add: blob_layout)
  ultimately show thesis
    using e by (intro that) (auto simp: DoEncrypt_def open_blob_def Decrypt_def Blob_round_trip)
qed

lemma ParseNotify_Build:
  assumes "hmac_law E" "length nk = 32"
  shows "\<exists>buf. BuildNotify E ts nk u oc nc oi gk = Inr buf \<and>
    ParseNotify E buf gk = Inr (Some \<lparr> nf_uav_id = u, nf_old_cluster = oc, nf_new_cluster = nc,
      nf_old_index = oi, nf_timestamp = ts \<rparr>)"
proof -
  define body where "body = be8 TYPE_NOTIFY @ be32 u @ be32 oc @ be32 nc @ be32 oi @ be64 ts @ take 12 nk"
  have "checked E (37 + 32) TYPE_NOTIFY (body @ x_hmac_sha256 E gk body) gk = Inr True"
    using assms by (intro checked_signed) (simp_all add: body_def)
  then show ?thesis
    using assms by (simp add: notify_layout Let_def body_def[symmetric] ParseNotify_def)
      (simp add: body_def parse_simps)
qed

lemma ParseKeyAck_Build:
  assumes "hmac_law E"
  shows "\<exists>buf. BuildKeyAck E ts u nc ni gk = Inr buf \<and>
    ParseKeyAck E buf gk = Inr (Some \<lparr> ak_uav_id = u, ak_new_cluster = nc, ak_new_index = ni,
      ak_timestamp = ts \<rparr>)"
proof -
  define body where "body = be8 TYPE_KEY_ACK @ be32 u @ be32 nc @ be32 ni @ be64 ts"
  have "checked E (21 + 32) TYPE_KEY_ACK (body @ x_hmac_sha256 E gk body) gk = Inr True"
    using assms by (intro checked_signed) (simp_all add: body_def)
  then show ?thesis
    using assms by (simp add: key_ack_layout Let_def body_def[symmetric] ParseKeyAck_def)
      (simp add: body_def parse_simps)
qed

lemma ParseSlaveFwd_Build:
  assumes "hmac_law E" "gcm_law E" "length iv = 12"
  shows "\<exists>buf. BuildSlaveFwd E iv u nc b gk = Inr buf \<and>
    ParseSlaveFwd E buf gk = Some (Inr (Some (u, nc, padded_blob b)))"
proof -
  obtain ct tag where enc: "DoEncrypt E gk iv (Blob_Serialize b) (ho_aad TYPE_SLAVE_FWD u nc) =
      \<lparr> gcm_ciphertext = ct, gcm_iv = iv, gcm_tag = tag \<rparr>"
    and len: "length ct = 1288" "length tag = 16"
    and op: "open_blob E gk iv ct tag (ho_aad TYPE_SLAVE_FWD u nc) = Some (padded_blob b)"
    using sealed_blob[OF assms(2,3)] .
  define body where "body = be8 TYPE_SLAVE_FWD @ be32 u @ be32 nc @ iv @ tag @ be32 1288 @ ct"
  have build: "BuildSlaveFwd E iv u nc b gk = Inr (body @ x_hmac_sha256 E gk body)"
    using assms(1) enc len by (simp add: BuildSlaveFwd_def AppendHmac_eq body_def be8_def Let_def)
  have chk: "checked E (1 + 4 + 4 + 12 + 16 + 4 + 32) TYPE_SLAVE_FWD (body @ x_hmac_sha256 E gk body) gk = Inr True"
    using assms(1,3) len by (intro checked_signed) (simp_all add: body_def)
  have lb: "length body = 1329" using len assms(3) by (simp add: body_def)
  have rd: "ReadU32BE (body @ h) 1 = u" "ReadU32BE (body @ h) 5 = nc" "get_bytes (body @ h) 9 12 = iv"
    "get_bytes (body @ h) 21 16 = tag" "ReadU32BE (body @ h) 37 = 1288" "get_bytes (body @ h) 41 1288 = ct" for h
    using len assms(3) by (simp_all add: body_def parse_simps)
  have "ParseSlaveFwd E (body @ x_hmac_sha256 E gk body) gk = Some (Inr (Some (u, nc, padded_blob b)))"
    using assms(1) lb op by (simp add: ParseSlaveFwd_def chk[simplified] rd rd(1)[simplified] Let_def del: ho_aad_eq)
  with build show ?thesis by blast
qed

lemma ParseJoinAccept_Build:
  assumes "hmac_law E" "gcm_law E" "length iv = 12"
  shows "\<exists>buf. BuildJoinAccept E iv ts u nc ni b gk = Inr buf \<and>
    ParseJoinAccept E buf gk = Some (Inr (Some (u, nc, ni, padded_blob b)))"
proof -
  obtain ct tag where enc: "DoEncrypt E gk iv (Blob_Serialize b) (ho_aad TYPE_JOIN_ACC u nc) =
      \<lparr> gcm_ciphertext = ct, gcm_iv = iv, gcm_tag = tag \<rparr>"
    and len: "length ct = 1288" "length tag = 16"
    and op: "open_blob E gk iv ct tag (ho_aad TYPE_JOIN_ACC u nc) = Some (padded_blob b)"
    using sealed_blob[OF assms(2,3)] .
  define body where "body = be8 TYPE_JOIN_ACC @ be32 u @ be32 nc @ be32 ni @ iv @ tag @ be32 1288 @ ct @ be64 ts"
  have build: "BuildJoinAccept E iv ts u nc ni b gk = Inr (body @ x_hmac_sha256 E gk body)"
    using assms(1) enc len by (simp add: BuildJoinAccept_def AppendHmac_eq body_def be8_def Let_def)
  have chk: "checked E (1 + 4 + 4 + 4 + 12 + 16 + 4 + 8 + 32) TYPE_JOIN_ACC (body @ x_hmac_sha256 E gk body) gk = Inr True"
    using assms(1,3) len by (intro checked_signed) (simp_all add: body_def)
  have lb: "length body = 1341" using len assms(3) by (simp add: body_def)
  have rd: "ReadU32BE (body @ h) 1 = u" "ReadU32BE (body @ h) 5 = nc" "ReadU32BE (body @ h) 9 = ni"
    "get_bytes (body @ h) 13 12 = iv" "get_bytes (body @ h) 25 16 = tag"
    "ReadU32BE (body @ h) 41 = 1288" "get_bytes (body @ h) 45 1288 = ct" for h
    using len assms(3) by (simp_all add: body_def parse_simps)
  have "ParseJoinAccept E (body @ x_hmac_sha256 E gk body) gk = Some (Inr (Some (u, nc, ni, padded_blob b)))"
    using assms(1) lb op by (simp add: ParseJoinAccept_def chk[simplified] rd rd(1)[simplified] Let_def del: ho_aad_eq)
  with build show ?thesis by blast
qed

section \<open>What the messages promise\<close>

text \<open>
  C19.  The four messages of the handover protocol round-trip under the same GK:
  NOTIFY and KEY\_ACK give their fields back, and from SLAVE\_FWD and JOIN\_ACCEPT
  the receiver gets the ids and the slave key blob with every key left-padded to
  256 bytes, so that each key of at most 256 bytes is the same number as before.
\<close>
theorem handover_messages_round_trip:
  assumes "hmac_law E" "gcm_law E" "length iv = 12" "length nk = 32"
  shows "(\<exists>buf. BuildNotify E ts nk u oc nc oi gk = Inr buf \<and>
      ParseNotify E buf gk = Inr (Some \<lparr> nf_uav_id = u, nf_old_cluster = oc, nf_new_cluster = nc,
        nf_old_index = oi, nf_timestamp = ts \<rparr>)) \<and>
    (\<exists>buf. BuildSlaveFwd E iv u nc b gk = Inr buf \<and>
      ParseSlaveFwd E buf gk = Some (Inr (Some (u, nc, padded_blob b)))) \<and>
    (\<exists>buf. BuildJoinAccept E iv ts u nc ni b gk = Inr buf \<and>
      ParseJoinAccept E buf gk = Some (Inr (Some (u, nc, ni, padded_blob b)))) \<and>
    (\<exists>buf. BuildKeyAck E ts u nc ni gk = Inr buf \<and>
      ParseKeyAck E buf gk = Inr (Some \<lparr> ak_uav_id = u, ak_new_cluster = nc, ak_new_index = ni,
        ak_timestamp = ts \<rparr>)) \<and>
    (length (bl_d_i_bytes b) \<le> 256 \<longrightarrow>
      FromBytes (bl_d_i_bytes (padded_blob b)) = FromBytes (bl_d_i_bytes b)) \<and>
    (length (bl_n_i_bytes b) \<le> 256 \<longrightarrow>
      FromBytes (bl_n_i_bytes (padded_blob b)) = FromBytes (bl_n_i_bytes b))"
  using ParseNotify_Build[OF assms(1,4)] ParseSlaveFwd_Build[OF assms(1-3)]
    ParseJoinAccept_Build[OF assms(1-3)] ParseKeyAck_Build[OF assms(1)]
  by (simp add: padded_blob_def)

lemma handover_messages_round_trip_witness:
  "\<exists>buf. BuildSlaveFwd toy_ext (replicate 12 1) 4 2
      \<lparr> bl_uav_index = 1, bl_cluster_id = 2, bl_d_i_bytes = [9], bl_n_i_bytes = [7, 7], bl_e_i_bytes = [],
        bl_Mi_bytes = [], bl_Ni_bytes = [] \<rparr> (replicate 32 5) = Inr buf \<and>
    ParseSlaveFwd toy_ext buf (replicate 32 5) = Some (Inr (Some (4, 2, padded_blob
      \<lparr> bl_uav_index = 1, bl_cluster_id = 2, bl_d_i_bytes = [9], bl_n_i_bytes = [7, 7], bl_e_i_bytes = [],
        bl_Mi_bytes = [], bl_Ni_bytes = [] \<rparr>)))"
  using handover_messages_round_trip[OF toy_hmac toy_gcm, of "replicate 12 1" "replicate 32 0" 0 4 0 2 0
      "replicate 32 5" _ 0] by simp

text \<open>
  A handover message is accepted only if its last 32 bytes are the HMAC under
  GK of everything before them: for all four parsers.
\<close>
theorem handover_messages_authentic:
  assumes "hmac_law E"
    "ParseNotify E buf gk = Inr (Some n) \<or> ParseSlaveFwd E buf gk = Some (Inr (Some s)) \<or>
     ParseJoinAccept E buf gk = Some (Inr (Some j)) \<or> ParseKeyAck E buf gk = Inr (Some a)"
  shows "gk_signed E gk buf"
proof -
  have "\<exists>k t. 32 \<le> k \<and> checked E k t buf gk = Inr True"
    using assms(2)
    by (auto simp: ParseNotify_def ParseSlaveFwd_def ParseJoinAccept_def ParseKeyAck_def rbind_eq_Inr_iff
        split: sum.splits bool.splits if_splits intro: exI[of _ "69::nat"] exI[of _ "73::nat"]
          exI[of _ "85::nat"] exI[of _ "53::nat"])
  then show ?thesis using checked_True[OF assms(1)] by blast
qed

lemma handover_messages_authentic_witness:
  "\<exists>buf. BuildKeyAck toy_ext 1 4 2 0 (replicate 32 5) = Inr buf \<and> gk_signed toy_ext (replicate 32 5) buf"
proof -
  obtain buf where b: "BuildKeyAck toy_ext 1 4 2 0 (replicate 32 5) = Inr buf"
    and p: "ParseKeyAck toy_ext buf (replicate 32 5) = Inr (Some \<lparr> ak_uav_id = 4, ak_new_cluster = 2,
      ak_new_index = 0, ak_timestamp = 1 \<rparr>)"
    using ParseKeyAck_Build[OF toy_hmac] by blast
  with handover_messages_authentic[OF toy_hmac, of buf "replicate 32 5"] show ?thesis by blast
qed

text \<open>The authenticated message of 73 (or 85) bytes that announces 2^32 - 1 bytes of ciphertext.\<close>

definition huge_fwd :: "ext \<Rightarrow> bytes \<Rightarrow> bytes" where
  "huge_fwd E gk =
     (let body = be8 TYPE_SLAVE_FWD @ be32 0 @ be32 0 @ replicate 28 0 @ be32 0xFFFFFFFF
      in body @ x_hmac_sha256 E gk body)"

definition huge_accept :: "ext \<Rightarrow> bytes \<Rightarrow> bytes" where
  "huge_accept E gk =
     (let body = be8 TYPE_JOIN_ACC @ be32 0 @ be32 0 @ be32 0 @ replicate 28 0 @ be32 0xFFFFFFFF @ be64 0
      in body @ x_hmac_sha256 E gk body)"

lemma no_wrap: "unat (ct_len :: u32) < 2 ^ 32 - unat (k :: u32) \<Longrightarrow> unat (k + ct_len) = unat k + unat ct_len"
  by (intro unsigned_less_plus) (simp add: less_diff_conv)

text \<open>
  C20.  The parsers of SLAVE\_FWD and JOIN\_ACCEPT add the ciphertext length to the
  header length in 32 bits.  As long as that sum does not wrap they always
  return; but for every GK there is a correctly authenticated message whose
  length field makes the sum wrap, the truncation check passes, and the parser
  reads behind its buffer.
\<close>
theorem handover_length_wraps:
  assumes "hmac_law E"
  shows "(unat (ReadU32BE buf 37) < 2 ^ 32 - 41 \<longrightarrow> ParseSlaveFwd E buf gk \<noteq> None) \<and>
    (unat (ReadU32BE buf 41) < 2 ^ 32 - 45 \<longrightarrow> ParseJoinAccept E buf gk \<noteq> None) \<and>
    gk_signed E gk (huge_fwd E gk) \<and> ParseSlaveFwd E (huge_fwd E gk) gk = None \<and>
    gk_signed E gk (huge_accept E gk) \<and> ParseJoinAccept E (huge_accept E gk) gk = None"
proof (intro conjI impI)
  show "gk_signed E gk (huge_fwd E gk)" "gk_signed E gk (huge_accept E gk)"
    unfolding gk_signed_def huge_fwd_def huge_accept_def Let_def by blast+
  show "ParseSlaveFwd E buf gk \<noteq> None" if "unat (ReadU32BE buf 37) < 2 ^ 32 - 41"
    using no_wrap[of "ReadU32BE buf 37" 41] that
    by (auto simp: ParseSlaveFwd_def Let_def split: sum.splits bool.splits)
  show "ParseJoinAccept E buf gk \<noteq> None" if "unat (ReadU32BE buf 41) < 2 ^ 32 - 45"
    using no_wrap[of "ReadU32BE buf 41" 45] that
    by (auto simp: ParseJoinAccept_def Let_def split: sum.splits bool.splits)
  have "checked E 73 TYPE_SLAVE_FWD (huge_fwd E gk) gk = Inr True"
    using assms by (simp add: huge_fwd_def Let_def checked_signed del: append_assoc)
  moreover have "ReadU32BE (huge_fwd E gk) 37 = 0xFFFFFFFF" "length (huge_fwd E gk) = 73"
    using assms by (simp_all add: huge_fwd_def Let_def parse_simps)
  ultimately show "ParseSlaveFwd E (huge_fwd E gk) gk = None"
    by (simp add: ParseSlaveFwd_def Let_def)
  have "checked E 85 TYPE_JOIN_ACC (huge_accept E gk) gk = Inr True"
    using assms by (simp add: huge_accept_def Let_def checked_signed del: append_assoc)
  moreover have "ReadU32BE (huge_accept E gk) 41 = 0xFFFFFFFF" "length (huge_accept E gk) = 85"
    using assms by (simp_all add: huge_accept_def Let_def parse_simps)
  ultimately show "ParseJoinAccept E (huge_accept E gk) gk = None"
    by (simp add: ParseJoinAccept_def Let_def)
qed

lemma handover_length_wraps_witness:
  "gk_signed toy_ext (replicate 32 5) (huge_fwd toy_ext (replicate 32 5)) \<and>
   ParseSlaveFwd toy_ext (huge_fwd toy_ext (replicate 32 5)) (replicate 32 5) = None"
  using handover_length_wraps[OF toy_hmac, of "[]" "replicate 32 5"] by blast

end
