(* ===== verification/Unordered_Set.thy ===== *)
theory Unordered_Set
  imports Uav_Prelude
begin

text \<open>
  \<open>std::unordered_set\<close> and \<open>std::set\<close> as the member sets of apps/ use them: a list
  without duplicates, in the order of insertion.  The iteration order of an
  unordered set is not specified; where the program iterates over one, what it
  computes does not depend on the order.
\<close>

type_synonym 'a uset = "'a list"

definition uset_insert :: "'a \<Rightarrow> 'a uset \<Rightarrow> 'a uset" where
  "uset_insert x xs = (if x \<in> set xs then xs else xs @ [x])"

definition uset_erase :: "'a \<Rightarrow> 'a uset \<Rightarrow> 'a uset" where
  "uset_erase x xs = filter (\<lambda>y. y \<noteq> x) xs"

text \<open>The contract the managers rely on.\<close>

locale member_set =
  fixes add :: "'a \<Rightarrow> 's \<Rightarrow> 's"
    and del :: "'a \<Rightarrow> 's \<Rightarrow> 's"
    and elems :: "'s \<Rightarrow> 'a set"
    and count :: "'s \<Rightarrow> nat"
    and invar :: "'s \<Rightarrow> bool"
  assumes elems_add: "invar s \<Longrightarrow> elems (add x s) = insert x (elems s)"
    and elems_del: "invar s \<Longrightarrow> elems (del x s) = elems s - {x}"
    and invar_add: "invar s \<Longrightarrow> invar (add x s)"
    and invar_del: "invar s \<Longrightarrow> invar (del x s)"
    and count_elems: "invar s \<Longrightarrow> finite (elems s) \<and> count s = card (elems s)"
begin

lemma count_add: "invar s \<Longrightarrow> count (add x s) = count s + (if x \<in> elems s then 0 else 1)"
  using count_elems[of s] count_elems[of "add x s"] by (simp add: elems_add invar_add insert_absorb)

lemma count_del: "invar s \<Longrightarrow> count (del x s) = count s - (if x \<in> elems s then 1 else 0)"
  using count_elems[of s] count_elems[of "del x s"] by (simp add: elems_del invar_del)

lemma move_elem:
  "invar s \<Longrightarrow> invar t \<Longrightarrow> x \<in> elems s \<Longrightarrow> y \<notin> elems t \<Longrightarrow>
   count (del x s) + count (add y t) = count s + count t"
  using count_elems[of s] by (cases "count s") (auto simp: count_add count_del card_gt_0_iff)

lemma elems_fold_add: "invar s \<Longrightarrow> elems (fold add xs s) = elems s \<union> set xs \<and> invar (fold add xs s)"
  by (induction xs arbitrary: s) (auto simp: elems_add invar_add)

end

interpretation uset: member_set uset_insert uset_erase set length distinct
  by unfold_locales (auto simp: uset_insert_def uset_erase_def distinct_card)

lemma set_uset [simp]:
  "set (uset_insert x xs) = insert x (set xs)"
  "set (uset_erase x xs) = set xs - {x}"
  by (auto simp: uset_insert_def uset_erase_def)

lemma distinct_uset [simp]:
  "distinct (uset_insert x xs) = distinct xs"
  "distinct xs \<Longrightarrow> distinct (uset_erase x xs)"
  by (auto simp: uset_insert_def uset_erase_def)

lemma uset_absent [simp]:
  "x \<notin> set xs \<Longrightarrow> uset_insert x xs = xs @ [x]"
  "x \<notin> set xs \<Longrightarrow> uset_erase x xs = xs"
  by (auto simp: uset_insert_def uset_erase_def intro: filter_True)

end
