(* ===== verification/Sim_World.thy ===== *)
theory Sim_World
  imports Complex_Main Packets Handover_Protocol Unordered_Set
begin

text \<open>
  What the applications of apps/ see of the simulator: the wall clock
  (\<open>TimeUtils::NowEpochMicros\<close>) and OpenSSL's random generator as streams of
  readings, the simulated time, and the datagrams handed to sockets.  The record
  is extended by the theories of the managers, and every operation is
  polymorphic in the extension.  Simulated times are real numbers (the code has
  doubles).  An operation returns \<open>Inl\<close> when it throws; nothing in the program
  catches such an exception and goes on, so the state at that point is not kept
  (the few local catch clauses are modelled where they are).
\<close>

section \<open>The environment\<close>

datatype Dest =
    NoAddress
  | LimitedBroadcast
  | ToCsma nat
  | ToSkdcWifi u32
  | ToWifiNode nat

text \<open>A call of \<open>SendTo\<close>: the address, the UDP port and the payload.\<close>

record Datagram =
  dg_dest :: Dest
  dg_port :: u16
  dg_payload :: bytes

text \<open>The lines of rekey\_latency\_full.csv.\<close>

datatype CsvLine =
    CsvHeader
  | CsvRow (csv_time: real) (csv_cluster: u32) (csv_status: string) (csv_latency_ms: real)
      (csv_version: u32) (csv_members: u64) (csv_cost: u64)

record World =
  env_micros :: "nat \<Rightarrow> u64"
  env_random :: "nat \<Rightarrow> nat \<Rightarrow> bytes"
  env_reads :: nat
  env_now :: real
  env_sent :: "Datagram list"
  env_csv_opens :: bool
  env_csv_header_written :: bool
  env_csv :: "CsvLine list"

definition NowEpochMicros :: "'a World_scheme \<Rightarrow> u64 \<times> 'a World_scheme" where
  "NowEpochMicros W = (env_micros W (env_reads W), W \<lparr> env_reads := env_reads W + 1 \<rparr>)"

definition RandomBytes :: "nat \<Rightarrow> 'a World_scheme \<Rightarrow> bytes \<times> 'a World_scheme" where
  "RandomBytes n W = (env_random W (env_reads W) n, W \<lparr> env_reads := env_reads W + 1 \<rparr>)"

definition SendTo :: "Dest \<Rightarrow> u16 \<Rightarrow> bytes \<Rightarrow> 'a World_scheme \<Rightarrow> 'a World_scheme" where
  "SendTo dest port payload W =
     W \<lparr> env_sent := env_sent W @ [\<lparr> dg_dest = dest, dg_port = port, dg_payload = payload \<rparr>] \<rparr>"

text \<open>\<open>memcpy(old, new, min(new.size(), old.size()))\<close>.\<close>

definition memcpy_key :: "bytes \<Rightarrow> bytes \<Rightarrow> bytes" where
  "memcpy_key old new = put_bytes old 0 (take (min (length new) (length old)) new)"

text \<open>The readings one packet factory takes, in the order it takes them.\<close>

definition mtk_readings :: "'a World_scheme \<Rightarrow> Readings \<times> 'a World_scheme" where
  "mtk_readings W =
     (let (body_now, W) = NowEpochMicros W;
          (body_nonce, W) = RandomBytes 16 W;
          (token_now, W) = NowEpochMicros W;
          (token_nonce, W) = RandomBytes 16 W;
          (header_now, W) = NowEpochMicros W
      in (\<lparr> r_body_now = body_now, r_body_nonce = body_nonce, r_token_now = token_now,
            r_token_nonce = token_nonce, r_header_now = header_now, r_aes_iv = replicate 12 0 \<rparr>, W))"

definition join_readings :: "'a World_scheme \<Rightarrow> Readings \<times> 'a World_scheme" where
  "join_readings W = mtk_readings W"

definition data_readings :: "'a World_scheme \<Rightarrow> Readings \<times> 'a World_scheme" where
  "data_readings W =
     (let (aes_iv, W) = RandomBytes 12 W;
          (body_now, W) = NowEpochMicros W;
          (token_now, W) = NowEpochMicros W;
          (token_nonce, W) = RandomBytes 16 W;
          (header_now, W) = NowEpochMicros W
      in (\<lparr> r_body_now = body_now, r_body_nonce = replicate 16 0, r_token_now = token_now,
            r_token_nonce = token_nonce, r_header_now = header_now, r_aes_iv = aes_iv \<rparr>, W))"

text \<open>The random generator returns as many bytes as it is asked for.\<close>

definition wf_world :: "'a World_scheme \<Rightarrow> bool" where
  "wf_world W \<longleftrightarrow> (\<forall>k n. length (env_random W k n) = n)"

text \<open>The guard against a cluster id that is out of range.\<close>

lemma cluster_ge_3: "(3 :: u32) \<le> c \<longleftrightarrow> \<not> unat c < 3"
  by (simp add: word_le_nat_alt not_less)

lemma NowEpochMicros_simps [simp]:
  "wf_world (snd (NowEpochMicros W)) = wf_world W"
  "env_now (snd (NowEpochMicros W)) = env_now W"
  "env_sent (snd (NowEpochMicros W)) = env_sent W"
  "env_csv (snd (NowEpochMicros W)) = env_csv W"
  by (simp_all add: NowEpochMicros_def wf_world_def)

lemma RandomBytes_simps [simp]:
  "wf_world (snd (RandomBytes n W)) = wf_world W"
  "env_now (snd (RandomBytes n W)) = env_now W"
  "env_sent (snd (RandomBytes n W)) = env_sent W"
  "env_csv (snd (RandomBytes n W)) = env_csv W"
  "wf_world W \<Longrightarrow> length (fst (RandomBytes n W)) = n"
  by (simp_all add: RandomBytes_def wf_world_def)

lemma memcpy_key_same [simp]: "length new = length old \<Longrightarrow> memcpy_key old new = new"
  by (simp add: memcpy_key_def put_bytes_def)

lemma SendTo_simps [simp]:
  "wf_world (SendTo d p x W) = wf_world W"
  "env_now (SendTo d p x W) = env_now W"
  "env_csv (SendTo d p x W) = env_csv W"
  "env_sent (SendTo d p x W) = env_sent W @ [\<lparr> dg_dest = d, dg_port = p, dg_payload = x \<rparr>]"
  by (simp_all add: SendTo_def wf_world_def)

lemma mtk_readings_simps [simp]:
  "wf_world (snd (mtk_readings W)) = wf_world W"
  "env_now (snd (mtk_readings W)) = env_now W"
  "env_sent (snd (mtk_readings W)) = env_sent W"
  "env_csv (snd (mtk_readings W)) = env_csv W"
  "wf_world W \<Longrightarrow> wf_readings (fst (mtk_readings W))"
  by (simp_all add: mtk_readings_def NowEpochMicros_def RandomBytes_def wf_world_def wf_readings_def)

lemma data_readings_simps [simp]:
  "wf_world (snd (data_readings W)) = wf_world W"
  "env_now (snd (data_readings W)) = env_now W"
  "env_sent (snd (data_readings W)) = env_sent W"
  "env_csv (snd (data_readings W)) = env_csv W"
  "wf_world W \<Longrightarrow> wf_readings (fst (data_readings W))"
  by (simp_all add: data_readings_def NowEpochMicros_def RandomBytes_def wf_world_def wf_readings_def)

end
