(* ===== verification/Tek_Manager.thy ===== *)
theory Tek_Manager
  imports Sim_World
begin

text \<open>
  apps/uav-tek-manager.cc: the traffic keys (TEKs) of the three clusters with their
  versions and lifetimes, rotation on a leave or a timer, and the update from
  outside.  The rotate callback is the list of its calls so far, or \<open>None\<close> when
  none is set.
\<close>

record TekRecord =
  tr_cluster_id :: u32
  tr_tek :: bytes
  tr_tek_int :: int
  tr_version :: u32
  tr_created_at :: u64
  tr_expires_at :: u64
  tr_valid :: bool

definition TekRecord_new :: TekRecord where
  "TekRecord_new =
     \<lparr> tr_cluster_id = 0, tr_tek = replicate 32 0, tr_tek_int = 0, tr_version = 1, tr_created_at = 0,
       tr_expires_at = 0, tr_valid = False \<rparr>"

definition TEK_LIFETIME_US :: u64 where "TEK_LIFETIME_US = 60 * 1000000"

record TekManager =
  tm_params :: "CryptoParamsFile option"
  tm_teks :: "TekRecord list"
  tm_hmac_key :: bytes
  tm_rotate_cb :: "(u32 \<times> bytes \<times> u32) list option"
  tm_rotations :: u64

definition TekManager_new :: "CryptoParamsFile option \<Rightarrow> 'a World_scheme \<Rightarrow> TekManager \<times> 'a World_scheme" where
  "TekManager_new params W =
     (let (key, W) = RandomBytes 32 W
      in (\<lparr> tm_params = params, tm_teks = replicate 3 TekRecord_new, tm_hmac_key = key,
            tm_rotate_cb = None, tm_rotations = 0 \<rparr>, W))"

text \<open>The loop over the clusters of \<open>Initialize\<close>, from \<open>c\<close>.\<close>

function (sequential) tek_init_loop :: "u64 \<Rightarrow> ClusterCryptoEntry list \<Rightarrow> nat \<Rightarrow> TekRecord list \<Rightarrow> TekRecord list" where
  "tek_init_loop now clusters c teks =
     (if \<not> c < 3 then teks
      else if c \<ge> length clusters then teks
      else
        let cp = clusters ! c;
            tr = teks ! c;
            tr = tr \<lparr> tr_cluster_id := of_nat c, tr_tek := cc_tek cp, tr_tek_int := cc_tek_int cp,
                      tr_version := 1, tr_created_at := now, tr_expires_at := now + TEK_LIFETIME_US,
                      tr_valid := True \<rparr>
        in tek_init_loop now clusters (c + 1) (teks[c := tr]))"
  by pat_completeness auto
termination by (relation "measure (\<lambda>(now, clusters, c, teks). 3 - c)") auto

declare tek_init_loop.simps [simp del]

definition Tek_Initialize :: "TekManager \<Rightarrow> 'a World_scheme \<Rightarrow> TekManager \<times> 'a World_scheme" where
  "Tek_Initialize tm W =
     (case tm_params tm of
        None \<Rightarrow> (tm, W)
      | Some params \<Rightarrow>
          let (now, W) = NowEpochMicros W
          in (tm \<lparr> tm_teks := tek_init_loop now (cp_clusters params) 0 (tm_teks tm) \<rparr>, W))"

definition GetTek :: "TekManager \<Rightarrow> u32 \<Rightarrow> bytes" where
  "GetTek tm cluster_id =
     (if cluster_id \<ge> 3 then replicate 32 0 else tr_tek (tm_teks tm ! unat cluster_id))"

definition GetTekInt :: "TekManager \<Rightarrow> u32 \<Rightarrow> int" where
  "GetTekInt tm cluster_id = (if cluster_id \<ge> 3 then 0 else tr_tek_int (tm_teks tm ! unat cluster_id))"

definition Tek_GetVersion :: "TekManager \<Rightarrow> u32 \<Rightarrow> u32" where
  "Tek_GetVersion tm cluster_id = (if cluster_id \<ge> 3 then 0 else tr_version (tm_teks tm ! unat cluster_id))"

definition Tek_IsValid :: "TekManager \<Rightarrow> u32 \<Rightarrow> bool" where
  "Tek_IsValid tm cluster_id = (if cluster_id \<ge> 3 then False else tr_valid (tm_teks tm ! unat cluster_id))"

definition IsExpired :: "TekManager \<Rightarrow> u32 \<Rightarrow> 'a World_scheme \<Rightarrow> bool \<times> 'a World_scheme" where
  "IsExpired tm cluster_id W =
     (if cluster_id \<ge> 3 then (True, W)
      else
        let (now, W) = NowEpochMicros W
        in (now > tr_expires_at (tm_teks tm ! unat cluster_id), W))"

definition call_rotate_cb :: "u32 \<Rightarrow> TekRecord \<Rightarrow> TekManager \<Rightarrow> TekManager" where
  "call_rotate_cb cluster_id tr tm =
     (case tm_rotate_cb tm of
        None \<Rightarrow> tm
      | Some calls \<Rightarrow> tm \<lparr> tm_rotate_cb := Some (calls @ [(cluster_id, tr_tek tr, tr_version tr)]) \<rparr>)"

definition DoRotate ::
    "ext \<Rightarrow> TekManager \<Rightarrow> u32 \<Rightarrow> 'a World_scheme \<Rightarrow> (TekManager \<times> 'a World_scheme) res" where
  "DoRotate E tm cluster_id W =
     (if cluster_id \<ge> 3 then Inr (tm, W)
      else
        let tr = tm_teks tm ! unat cluster_id;
            seed = tr_tek tr;
            (ts, W) = NowEpochMicros W;
            seed = AppendU64BE seed ts;
            (nonce, W) = RandomBytes 16 W;
            seed = seed @ nonce
        in rbind (Hmac_Compute E (tm_hmac_key tm) seed) (\<lambda>new_key.
           let tek = memcpy_key (tr_tek tr) new_key;
               (created, W) = NowEpochMicros W;
               tr = tr \<lparr> tr_tek := tek, tr_tek_int := FromBytes tek, tr_version := tr_version tr + 1,
                         tr_created_at := created, tr_expires_at := created + TEK_LIFETIME_US \<rparr>;
               tm = tm \<lparr> tm_teks := (tm_teks tm)[unat cluster_id := tr], tm_rotations := tm_rotations tm + 1 \<rparr>
           in Inr (call_rotate_cb cluster_id tr tm, W)))"

definition RotateOnLeave ::
    "ext \<Rightarrow> TekManager \<Rightarrow> u32 \<Rightarrow> 'a World_scheme \<Rightarrow> (TekManager \<times> 'a World_scheme) res" where
  "RotateOnLeave E tm cluster_id W = DoRotate E tm cluster_id W"

definition RotateOnTimer ::
    "ext \<Rightarrow> TekManager \<Rightarrow> u32 \<Rightarrow> 'a World_scheme \<Rightarrow> (TekManager \<times> 'a World_scheme) res" where
  "RotateOnTimer E tm cluster_id W = DoRotate E tm cluster_id W"

definition Tek_UpdateTek ::
    "TekManager \<Rightarrow> u32 \<Rightarrow> bytes \<Rightarrow> u32 \<Rightarrow> 'a World_scheme \<Rightarrow> TekManager \<times> 'a World_scheme" where
  "Tek_UpdateTek tm cluster_id new_tek version W =
     (if cluster_id \<ge> 3 then (tm, W)
      else
        let tr = tm_teks tm ! unat cluster_id;
            (created, W) = NowEpochMicros W;
            tr = tr \<lparr> tr_tek := new_tek, tr_version := version, tr_valid := True,
                      tr_created_at := created, tr_expires_at := created + TEK_LIFETIME_US \<rparr>
        in (tm \<lparr> tm_teks := (tm_teks tm)[unat cluster_id := tr] \<rparr>, W))"

definition VerifyTek :: "TekManager \<Rightarrow> u32 \<Rightarrow> int \<Rightarrow> int \<Rightarrow> bool res" where
  "VerifyTek tm cluster_id expected_int n_i =
     (if cluster_id \<ge> 3 then Inr False
      else
        rbind (Mod (tr_tek_int (tm_teks tm ! unat cluster_id)) n_i) (\<lambda>actual.
        rbind (Mod expected_int n_i) (\<lambda>expected. Inr (actual = expected))))"

definition SetRotateCallback :: "TekManager \<Rightarrow> TekManager" where
  "SetRotateCallback tm = tm \<lparr> tm_rotate_cb := Some [] \<rparr>"

section \<open>Lemmas\<close>

definition wf_tek :: "TekManager \<Rightarrow> bool" where
  "wf_tek tm \<longleftrightarrow> length (tm_teks tm) = 3 \<and> (\<forall>tr\<in>set (tm_teks tm). length (tr_tek tr) = 32)"

lemma wf_tek_nth: "wf_tek tm \<Longrightarrow> unat c < 3 \<Longrightarrow> length (tr_tek (tm_teks tm ! unat c)) = 32"
  by (simp add: wf_tek_def)

text \<open>The key a rotation computes.\<close>

definition rotated_tek :: "ext \<Rightarrow> TekManager \<Rightarrow> u32 \<Rightarrow> 'a World_scheme \<Rightarrow> bytes" where
  "rotated_tek E tm c W =
     x_hmac_sha256 E (tm_hmac_key tm)
       (GetTek tm c @ be64 (env_micros W (env_reads W)) @ env_random W (Suc (env_reads W)) 16)"

definition rotated_record :: "ext \<Rightarrow> TekManager \<Rightarrow> u32 \<Rightarrow> 'a World_scheme \<Rightarrow> TekRecord" where
  "rotated_record E tm c W =
     (tm_teks tm ! unat c) \<lparr> tr_tek := rotated_tek E tm c W, tr_tek_int := FromBytes (rotated_tek E tm c W),
       tr_version := Tek_GetVersion tm c + 1, tr_created_at := env_micros W (env_reads W + 2),
       tr_expires_at := env_micros W (env_reads W + 2) + TEK_LIFETIME_US \<rparr>"

lemma call_rotate_cb_simps [simp]:
  "tm_teks (call_rotate_cb c tr tm) = tm_teks tm"
  "tm_hmac_key (call_rotate_cb c tr tm) = tm_hmac_key tm"
  "tm_rotations (call_rotate_cb c tr tm) = tm_rotations tm"
  "tm_params (call_rotate_cb c tr tm) = tm_params tm"
  by (simp_all add: call_rotate_cb_def split: option.split)

lemma DoRotate_eq:
  assumes "hmac_law E" "wf_tek tm" "unat c < 3"
  shows "DoRotate E tm c W = Inr
    (call_rotate_cb c (rotated_record E tm c W)
       (tm \<lparr> tm_teks := (tm_teks tm)[unat c := rotated_record E tm c W], tm_rotations := tm_rotations tm + 1 \<rparr>),
     W \<lparr> env_reads := env_reads W + 3 \<rparr>)"
  using assms wf_tek_nth[OF assms(2,3)]
  by (simp add: DoRotate_def cluster_ge_3 NowEpochMicros_def RandomBytes_def Let_def
      rotated_record_def rotated_tek_def GetTek_def Tek_GetVersion_def)

lemma rotated_record_simps [simp]:
  "tr_tek (rotated_record E tm c W) = rotated_tek E tm c W"
  "tr_tek_int (rotated_record E tm c W) = FromBytes (rotated_tek E tm c W)"
  "tr_version (rotated_record E tm c W) = Tek_GetVersion tm c + 1"
  "tr_valid (rotated_record E tm c W) = tr_valid (tm_teks tm ! unat c)"
  by (simp_all add: rotated_record_def)

lemma length_rotated_tek [simp]: "hmac_law E \<Longrightarrow> length (rotated_tek E tm c W) = 32"
  by (simp add: rotated_tek_def)

text \<open>What the operations do to the keys and versions of the clusters.\<close>

lemma DoRotate_obtain:
  assumes "hmac_law E" "wf_tek tm"
  obtains tm' W' where "DoRotate E tm c W = Inr (tm', W')" "wf_tek tm'"
    "\<And>d. GetTek tm' d = (if d = c \<and> unat c < 3 then rotated_tek E tm c W else GetTek tm d)"
    "\<And>d. GetTekInt tm' d = (if d = c \<and> unat c < 3 then FromBytes (rotated_tek E tm c W) else GetTekInt tm d)"
    "\<And>d. Tek_GetVersion tm' d = (if d = c \<and> unat c < 3 then Tek_GetVersion tm c + 1 else Tek_GetVersion tm d)"
    "tm_rotations tm' = tm_rotations tm + (if unat c < 3 then 1 else 0)"
    "\<exists>k. W' = W \<lparr> env_reads := k \<rparr>"
proof (cases "unat c < 3")
  case True
  let ?tm = "call_rotate_cb c (rotated_record E tm c W)
       (tm \<lparr> tm_teks := (tm_teks tm)[unat c := rotated_record E tm c W], tm_rotations := tm_rotations tm + 1 \<rparr>)"
  have nth: "(tm_teks tm)[unat c := rotated_record E tm c W] ! unat d =
      (if d = c then rotated_record E tm c W else tm_teks tm ! unat d)" for d
    using True assms(2) by (simp add: wf_tek_def nth_list_update word_unat_eq_iff)
  show thesis
  proof (rule that[OF DoRotate_eq[OF assms True]])
    show "wf_tek ?tm"
      using assms by (auto simp: wf_tek_def dest!: set_update_subset_insert[THEN subsetD])
  qed (use True in \<open>auto simp: GetTek_def GetTekInt_def Tek_GetVersion_def nth cluster_ge_3\<close>)
next
  case False
  then show thesis using assms
    by (intro that[of tm W]) (auto simp: DoRotate_def cluster_ge_3 intro: exI[of _ "env_reads W"])
qed

lemma Tek_UpdateTek_obtain:
  assumes "wf_tek tm" "length key = 32"
  obtains tm' W' where "Tek_UpdateTek tm c key v W = (tm', W')" "wf_tek tm'"
    "\<And>d. GetTek tm' d = (if d = c \<and> unat c < 3 then key else GetTek tm d)"
    "\<And>d. GetTekInt tm' d = GetTekInt tm d"
    "\<And>d. Tek_GetVersion tm' d = (if d = c \<and> unat c < 3 then v else Tek_GetVersion tm d)"
    "tm_rotations tm' = tm_rotations tm"
    "\<exists>k. W' = W \<lparr> env_reads := k \<rparr>"
proof (cases "unat c < 3")
  case True
  have nth: "(tm_teks tm)[unat c := tr] ! unat d = (if d = c then tr else tm_teks tm ! unat d)" for d tr
    using True assms(1) by (simp add: wf_tek_def nth_list_update word_unat_eq_iff)
  let ?t = "Tek_UpdateTek tm c key v W"
  show thesis
  proof (rule that[of "fst ?t" "snd ?t"])
    show "wf_tek (fst ?t)"
      using assms True by (auto simp: Tek_UpdateTek_def cluster_ge_3 Let_def NowEpochMicros_def wf_tek_def
          dest!: set_update_subset_insert[THEN subsetD])
  qed (use True in \<open>auto simp: Tek_UpdateTek_def cluster_ge_3 Let_def NowEpochMicros_def GetTek_def
      GetTekInt_def Tek_GetVersion_def nth\<close>)
next
  case False
  then show thesis using assms
    by (intro that[of tm W]) (auto simp: Tek_UpdateTek_def cluster_ge_3 intro: exI[of _ "env_reads W"])
qed

section \<open>Runs of the manager\<close>

datatype tek_op = TekRotate u32 | TekUpdate u32 bytes u32

primrec op_cluster :: "tek_op \<Rightarrow> u32" where
  "op_cluster (TekRotate c) = c"
| "op_cluster (TekUpdate c k v) = c"

primrec wf_op :: "tek_op \<Rightarrow> bool" where
  "wf_op (TekRotate c) = True"
| "wf_op (TekUpdate c k v) = (length k = 32)"

primrec tek_exec :: "ext \<Rightarrow> tek_op \<Rightarrow> TekManager \<times> 'a World_scheme \<Rightarrow> (TekManager \<times> 'a World_scheme) res" where
  "tek_exec E (TekRotate c) st = DoRotate E (fst st) c (snd st)"
| "tek_exec E (TekUpdate c k v) st = Inr (Tek_UpdateTek (fst st) c k v (snd st))"

fun tek_run :: "ext \<Rightarrow> tek_op list \<Rightarrow> TekManager \<times> 'a World_scheme \<Rightarrow> (TekManager \<times> 'a World_scheme) res" where
  "tek_run E [] st = Inr st"
| "tek_run E (op # ops) st = rbind (tek_exec E op st) (tek_run E ops)"

primrec op_version :: "u32 \<Rightarrow> tek_op \<Rightarrow> u32 \<Rightarrow> u32" where
  "op_version c (TekRotate d) v = (if d = c then v + 1 else v)"
| "op_version c (TekUpdate d k v') v = (if d = c then v' else v)"

lemma tek_run_append: "tek_run E (xs @ ys) st = rbind (tek_run E xs st) (tek_run E ys)"
  by (induction xs arbitrary: st) (simp_all cong: rbind_cong)

lemma tek_exec_obtain:
  assumes "hmac_law E" "wf_tek tm" "wf_op op"
  obtains tm' W' where "tek_exec E op (tm, W) = Inr (tm', W')" "wf_tek tm'"
    "\<And>c. unat c < 3 \<Longrightarrow> Tek_GetVersion tm' c = op_version c op (Tek_GetVersion tm c)"
    "\<And>c. op_cluster op \<noteq> c \<Longrightarrow> GetTek tm' c = GetTek tm c \<and> GetTekInt tm' c = GetTekInt tm c"
    "\<And>c. op = TekRotate c \<Longrightarrow> unat c < 3 \<Longrightarrow> GetTekInt tm' c = FromBytes (GetTek tm' c)"
    "\<And>c k v. op = TekUpdate c k v \<Longrightarrow> unat c < 3 \<Longrightarrow> GetTek tm' c = k \<and> GetTekInt tm' c = GetTekInt tm c"
proof (cases op)
  case (TekRotate c)
  obtain tm' W' where "DoRotate E tm c W = Inr (tm', W')" "wf_tek tm'"
    "\<And>d. GetTek tm' d = (if d = c \<and> unat c < 3 then rotated_tek E tm c W else GetTek tm d)"
    "\<And>d. GetTekInt tm' d = (if d = c \<and> unat c < 3 then FromBytes (rotated_tek E tm c W) else GetTekInt tm d)"
    "\<And>d. Tek_GetVersion tm' d = (if d = c \<and> unat c < 3 then Tek_GetVersion tm c + 1 else Tek_GetVersion tm d)"
    by (rule DoRotate_obtain[OF assms(1,2), of c W]) blast
  then show thesis by (intro that[of tm' W']) (auto simp: TekRotate)
next
  case (TekUpdate c k v)
  then have "length k = 32" using assms(3) by simp
  then obtain tm' W' where "Tek_UpdateTek tm c k v W = (tm', W')" "wf_tek tm'"
    "\<And>d. GetTek tm' d = (if d = c \<and> unat c < 3 then k else GetTek tm d)"
    "\<And>d. GetTekInt tm' d = GetTekInt tm d"
    "\<And>d. Tek_GetVersion tm' d = (if d = c \<and> unat c < 3 then v else Tek_GetVersion tm d)"
    by (rule Tek_UpdateTek_obtain[OF assms(2), of k c v W]) blast
  then show thesis by (intro that[of tm' W']) (auto simp: TekUpdate)
qed

lemma tek_run_obtain:
  assumes "hmac_law E" "wf_tek tm" "list_all wf_op ops"
  obtains tm' W' where "tek_run E ops (tm, W) = Inr (tm', W')" "wf_tek tm'"
    "\<And>c. unat c < 3 \<Longrightarrow> Tek_GetVersion tm' c = fold (op_version c) ops (Tek_GetVersion tm c)"
    "\<And>c. c \<notin> op_cluster ` set ops \<Longrightarrow> GetTek tm' c = GetTek tm c \<and> GetTekInt tm' c = GetTekInt tm c"
  using assms
proof (induction ops arbitrary: tm W thesis)
  case Nil
  then show ?case by simp
next
  case (Cons op ops)
  have wf: "wf_op op" "list_all wf_op ops" using Cons.prems(4) by simp_all
  obtain tm1 W1 where 1: "tek_exec E op (tm, W) = Inr (tm1, W1)" "wf_tek tm1"
    "\<And>c. unat c < 3 \<Longrightarrow> Tek_GetVersion tm1 c = op_version c op (Tek_GetVersion tm c)"
    "\<And>c. op_cluster op \<noteq> c \<Longrightarrow> GetTek tm1 c = GetTek tm c \<and> GetTekInt tm1 c = GetTekInt tm c"
    by (rule tek_exec_obtain[OF Cons.prems(2,3) wf(1), of W]) blast
  obtain tm2 W2 where 2: "tek_run E ops (tm1, W1) = Inr (tm2, W2)" "wf_tek tm2"
    "\<And>c. unat c < 3 \<Longrightarrow> Tek_GetVersion tm2 c = fold (op_version c) ops (Tek_GetVersion tm1 c)"
    "\<And>c. c \<notin> op_cluster ` set ops \<Longrightarrow> GetTek tm2 c = GetTek tm1 c \<and> GetTekInt tm2 c = GetTekInt tm1 c"
    by (rule Cons.IH[OF _ Cons.prems(2) 1(2) wf(2)]) blast
  show ?case
    by (rule Cons.prems(1)[of tm2 W2]) (use 1 2 in auto)
qed

text \<open>
  The TEK manager over any sequence of rotations and updates: no call throws,
  the version of each cluster is what the calls on it make of it, and after the
  last call \<open>op\<close> on a cluster the integer form of its key is right if \<open>op\<close> was a
  rotation.  If \<open>op\<close> was \<open>UpdateTek\<close>, the key is the new one but the integer is
  still that of before, with which \<open>VerifyTek\<close> goes on to compare.
\<close>
theorem tek_manager_run:
  assumes "hmac_law E" "wf_tek tm" "list_all wf_op (pre @ op # post)"
    and "op_cluster op = c" "unat c < 3" "c \<notin> op_cluster ` set post"
  shows "\<exists>tm1 W1 tm2 W2. tek_run E pre (tm, W) = Inr (tm1, W1) \<and>
    tek_run E (pre @ op # post) (tm, W) = Inr (tm2, W2) \<and> wf_tek tm2 \<and>
    Tek_GetVersion tm2 c = fold (op_version c) (pre @ op # post) (Tek_GetVersion tm c) \<and>
    (op = TekRotate c \<longrightarrow> GetTekInt tm2 c = FromBytes (GetTek tm2 c)) \<and>
    (\<forall>k v. op = TekUpdate c k v \<longrightarrow> GetTek tm2 c = k \<and> GetTekInt tm2 c = GetTekInt tm1 c \<and>
       (\<forall>n>0. VerifyTek tm2 c (FromBytes k) n = Inr (GetTekInt tm1 c mod n = FromBytes k mod n)))"
proof -
  have wf: "list_all wf_op pre" "wf_op op" "list_all wf_op post" using assms(3) by simp_all
  obtain tm1 W1 where 1: "tek_run E pre (tm, W) = Inr (tm1, W1)" "wf_tek tm1"
    "Tek_GetVersion tm1 c = fold (op_version c) pre (Tek_GetVersion tm c)"
    by (rule tek_run_obtain[OF assms(1,2) wf(1), of W]) (use assms(5) in blast)
  obtain tmo Wo where o: "tek_exec E op (tm1, W1) = Inr (tmo, Wo)" "wf_tek tmo"
    "Tek_GetVersion tmo c = op_version c op (Tek_GetVersion tm1 c)"
    "op = TekRotate c \<Longrightarrow> GetTekInt tmo c = FromBytes (GetTek tmo c)"
    "\<And>k v. op = TekUpdate c k v \<Longrightarrow> GetTek tmo c = k \<and> GetTekInt tmo c = GetTekInt tm1 c"
    by (rule tek_exec_obtain[OF assms(1) 1(2) wf(2), of W1]) (use assms(5) in blast)
  obtain tm2 W2 where 2: "tek_run E post (tmo, Wo) = Inr (tm2, W2)" "wf_tek tm2"
    "Tek_GetVersion tm2 c = fold (op_version c) post (Tek_GetVersion tmo c)"
    "GetTek tm2 c = GetTek tmo c \<and> GetTekInt tm2 c = GetTekInt tmo c"
    by (rule tek_run_obtain[OF assms(1) o(2) wf(3), of Wo]) (use assms(5,6) in blast)
  have "VerifyTek tm2 c x n = Inr (GetTekInt tm2 c mod n = x mod n)" if "n > 0" for x n
    using that assms(5) by (simp add: VerifyTek_def cluster_ge_3 Mod_pos GetTekInt_def)
  then show ?thesis using 1 2 o by (auto simp: tek_run_append)
qed

definition demo_world :: World where
  "demo_world = \<lparr> env_micros = of_nat, env_random = (\<lambda>k n. replicate n (of_nat k)), env_reads = 0,
     env_now = 0, env_sent = [], env_csv_opens = True, env_csv_header_written = False, env_csv = [] \<rparr>"

lemma demo_world_wf: "wf_world demo_world"
  by (simp add: wf_world_def demo_world_def)

definition demo_tek :: TekManager where
  "demo_tek = fst (TekManager_new None demo_world)"

lemma demo_tek_wf: "wf_tek demo_tek"
  by (simp add: demo_tek_def TekManager_new_def RandomBytes_def wf_tek_def TekRecord_new_def)

lemma tek_manager_run_witness:
  "\<exists>tm1 W1 tm2 W2. tek_run toy_ext [TekRotate 1, TekUpdate 0 (replicate 32 7) 9, TekRotate 0] (demo_tek, demo_world) = Inr (tm1, W1) \<and>
    tek_run toy_ext ([TekRotate 1, TekUpdate 0 (replicate 32 7) 9, TekRotate 0] @ TekUpdate 0 (replicate 32 8) 4 # [TekRotate 2])
      (demo_tek, demo_world) = Inr (tm2, W2) \<and>
    Tek_GetVersion tm2 0 = 4 \<and> GetTek tm2 0 = replicate 32 8 \<and> GetTekInt tm2 0 = GetTekInt tm1 0"
  using tek_manager_run[OF toy_hmac demo_tek_wf, of "[TekRotate 1, TekUpdate 0 (replicate 32 7) 9, TekRotate 0]"
      "TekUpdate 0 (replicate 32 8) 4" "[TekRotate 2]" 0 demo_world] by auto

end
