(* ===== verification/Skdc_App.thy ===== *)
theory Skdc_App
  imports Tek_Manager
begin

text \<open>
  apps/uav-skdc-app.cc: the application of a cluster head (SKDC).  It broadcasts
  the token MT\_K, keeps the member set, rotates its traffic key, forwards
  telemetry to the KDC, takes part in the handover protocol and measures the rekey
  latency.  An operation acts on the object and the environment and returns both,
  or \<open>Inl\<close> when it throws; the outer option is \<open>None\<close> where a parser reads behind
  its buffer.  Sockets are only told apart by whether they are open, a callback
  gets the payloads waiting in its socket, and the events given to
  \<open>Simulator::Schedule\<close> are a list of timers.  The decrypted
  telemetry that is logged is kept in \<open>sk_telemetry\<close>; other logging and the
  visualization pointers are left out.
\<close>

section \<open>State\<close>

text \<open>What the application uses of the topology: for each node whether it has an IPv4 stack.\<close>

record Topology =
  tp_wifi_nodes :: "bool list"
  tp_skdc_nodes :: "bool list"

record SkdcState =
  sd_cluster_id :: u32
  sd_rekey_version :: u32
  sd_current_tek :: bytes
  sd_hmac_key :: bytes
  sd_mt_k :: int
  sd_n_group :: int
  sd_e_mk :: int
  sd_tek_received :: bool
  sd_members :: "u32 uset"

record PendingHO =
  ho_blob :: SlaveKeyBlob
  ho_new_index :: u32

datatype SkdcTimer = TimerBroadcast | TimerPeriodic | TimerRekeyTimeout u32 nat

record SkdcApp =
  sk_cluster_id :: u32
  sk_node_id :: u32
  sk_topo :: "Topology option"
  sk_params :: "CryptoParamsFile option"
  sk_state :: SkdcState
  sk_csma_socket :: bool
  sk_wifi_socket :: bool
  sk_data_socket :: bool
  sk_forward_socket :: bool
  sk_slave_fwd_socket :: bool
  sk_ack_socket :: bool
  sk_join_acc_socket :: bool
  sk_gk :: bytes
  sk_pending_ho :: "u32 \<rightharpoonup> PendingHO"
  sk_kdc_csma_addr :: Dest
  sk_seq :: u64
  sk_mtk_count :: u64
  sk_rekey_count :: u64
  sk_data_rx_count :: u64
  sk_rekey_send_times :: "u32 \<rightharpoonup> real"
  sk_rekey_ack_map :: "u32 \<rightharpoonup> u32 uset"
  sk_timers :: "(real \<times> SkdcTimer) list"
  sk_telemetry :: "bytes list"

definition SkdcState_new :: SkdcState where
  "SkdcState_new =
     \<lparr> sd_cluster_id = 0, sd_rekey_version = 1, sd_current_tek = replicate 32 0, sd_hmac_key = replicate 32 0,
       sd_mt_k = 0, sd_n_group = 0, sd_e_mk = 0, sd_tek_received = False, sd_members = [] \<rparr>"

definition SkdcApplication_new :: "u32 \<Rightarrow> SkdcApp" where
  "SkdcApplication_new node_id =
     \<lparr> sk_cluster_id = 0, sk_node_id = node_id, sk_topo = None, sk_params = None, sk_state = SkdcState_new,
       sk_csma_socket = False, sk_wifi_socket = False, sk_data_socket = False, sk_forward_socket = False,
       sk_slave_fwd_socket = False, sk_ack_socket = False, sk_join_acc_socket = False,
       sk_gk = replicate 32 0, sk_pending_ho = (\<lambda>_. None), sk_kdc_csma_addr = NoAddress, sk_seq = 1,
       sk_mtk_count = 0, sk_rekey_count = 0, sk_data_rx_count = 0, sk_rekey_send_times = (\<lambda>_. None),
       sk_rekey_ack_map = (\<lambda>_. None), sk_timers = [], sk_telemetry = [] \<rparr>"

abbreviation upd_state :: "(SkdcState \<Rightarrow> SkdcState) \<Rightarrow> SkdcApp \<Rightarrow> SkdcApp" where
  "upd_state f app \<equiv> app \<lparr> sk_state := f (sk_state app) \<rparr>"

definition SetClusterId :: "u32 \<Rightarrow> SkdcApp \<Rightarrow> SkdcApp" where
  "SetClusterId cluster_id app = upd_state (sd_cluster_id_update (\<lambda>_. cluster_id)) (app \<lparr> sk_cluster_id := cluster_id \<rparr>)"

definition Skdc_SetTopology :: "Topology option \<Rightarrow> SkdcApp \<Rightarrow> SkdcApp" where
  "Skdc_SetTopology topo app = app \<lparr> sk_topo := topo \<rparr>"

definition Skdc_SetCryptoParams :: "CryptoParamsFile option \<Rightarrow> SkdcApp \<Rightarrow> SkdcApp" where
  "Skdc_SetCryptoParams params app = app \<lparr> sk_params := params \<rparr>"

definition schedule :: "real \<Rightarrow> SkdcTimer \<Rightarrow> SkdcApp \<Rightarrow> 'a World_scheme \<Rightarrow> SkdcApp" where
  "schedule delay timer app W = app \<lparr> sk_timers := sk_timers app @ [(env_now W + delay, timer)] \<rparr>"

section \<open>The token broadcast\<close>

definition BroadcastMtk :: "ext \<Rightarrow> SkdcApp \<Rightarrow> 'a World_scheme \<Rightarrow> (SkdcApp \<times> 'a World_scheme) res" where
  "BroadcastMtk E app W =
     (if \<not> sk_wifi_socket app then Inr (app, W)
      else if \<not> sd_tek_received (sk_state app) then Inr (app, W)
      else if sd_mt_k (sk_state app) \<le> 0 then Inr (app, W)
      else
        let (r, W) = mtk_readings W in
        rbind (Mtk_Build E r (sk_cluster_id app) (ucast (sk_node_id app)) (sd_rekey_version (sk_state app))
                 (sd_mt_k (sk_state app)) (sd_n_group (sk_state app)) (sk_seq app)) (\<lambda>(pkt, seq).
        rbind (MtkPacket_Serialize E pkt) (\<lambda>wire.
        let wire = wire @ replicate 32 0;
            W = SendTo LimitedBroadcast 9200 wire W
        in Inr (app \<lparr> sk_seq := seq, sk_mtk_count := sk_mtk_count app + 1 \<rparr>, W))))"

definition ScheduleInitialBroadcast :: "SkdcApp \<Rightarrow> 'a World_scheme \<Rightarrow> SkdcApp" where
  "ScheduleInitialBroadcast app W = schedule 2 TimerBroadcast app W"

definition SchedulePeriodicBroadcast :: "SkdcApp \<Rightarrow> 'a World_scheme \<Rightarrow> SkdcApp" where
  "SchedulePeriodicBroadcast app W = schedule 10 TimerPeriodic app W"

definition PeriodicBroadcast :: "ext \<Rightarrow> SkdcApp \<Rightarrow> 'a World_scheme \<Rightarrow> (SkdcApp \<times> 'a World_scheme) res" where
  "PeriodicBroadcast E app W =
     rbind (BroadcastMtk E app W) (\<lambda>(app, W). Inr (SchedulePeriodicBroadcast app W, W))"

section \<open>Start and stop\<close>

definition InitializeState :: "SkdcApp \<Rightarrow> 'a World_scheme \<Rightarrow> SkdcApp \<times> 'a World_scheme" where
  "InitializeState app W =
     (let st = (sk_state app) \<lparr> sd_cluster_id := sk_cluster_id app, sd_rekey_version := 1, sd_tek_received := False \<rparr>
      in (case sk_params app of
        Some params \<Rightarrow>
          if unat (sk_cluster_id app) < length (cp_clusters params) then
            let cp = cp_clusters params ! unat (sk_cluster_id app);
                st = st \<lparr> sd_current_tek := cc_tek cp, sd_mt_k := cc_MT_K cp, sd_n_group := cc_N_group cp,
                          sd_e_mk := cc_e_MK cp, sd_tek_received := True \<rparr>;
                st = st \<lparr> sd_hmac_key := KeyFromAesKey (sd_current_tek st) \<rparr>;
                base = sk_cluster_id app * 6;
                st = st \<lparr> sd_members := foldl (\<lambda>ms u. uset_insert (base + u) ms) (sd_members st) [0, 1, 2, 3, 4, 5] \<rparr>
            in (app \<lparr> sk_state := st \<rparr>, W)
          else let (key, W) = RandomBytes 32 W in (app \<lparr> sk_state := st \<lparr> sd_hmac_key := key \<rparr> \<rparr>, W)
      | None \<Rightarrow> let (key, W) = RandomBytes 32 W in (app \<lparr> sk_state := st \<lparr> sd_hmac_key := key \<rparr> \<rparr>, W)))"

definition load_gk :: "CryptoParamsFile option \<Rightarrow> bytes \<Rightarrow> bytes res" where
  "load_gk params gk =
     (case params of
        Some p \<Rightarrow> if length (cp_global_key_hex p) = 64 then HexToGlobalKey (cp_global_key_hex p) else Inr gk
      | None \<Rightarrow> Inr gk)"

definition Skdc_StartApplication :: "SkdcApp \<Rightarrow> 'a World_scheme \<Rightarrow> (SkdcApp \<times> 'a World_scheme) res" where
  "Skdc_StartApplication app W =
     (let app = app \<lparr> sk_csma_socket := True, sk_wifi_socket := True, sk_data_socket := True \<rparr> in
      rbind (load_gk (sk_params app) (sk_gk app)) (\<lambda>gk.
      let app = app \<lparr> sk_gk := gk, sk_slave_fwd_socket := True, sk_ack_socket := True,
                      sk_join_acc_socket := True, sk_forward_socket := True \<rparr>;
          app = (if sk_topo app \<noteq> None then app \<lparr> sk_kdc_csma_addr := ToCsma 0 \<rparr> else app);
          (app, W) = InitializeState app W
      in Inr (ScheduleInitialBroadcast app W, W)))"

definition Skdc_StopApplication :: "SkdcApp \<Rightarrow> SkdcApp" where
  "Skdc_StopApplication app =
     app \<lparr> sk_csma_socket := False, sk_wifi_socket := False, sk_data_socket := False,
           sk_forward_socket := False, sk_slave_fwd_socket := False, sk_ack_socket := False \<rparr>"

section \<open>Rekeying and its latency\<close>

definition WriteRekeyLatencyCsv ::
    "SkdcApp \<Rightarrow> u32 \<Rightarrow> real \<Rightarrow> real \<Rightarrow> nat \<Rightarrow> string \<Rightarrow> 'a World_scheme \<Rightarrow> 'a World_scheme" where
  "WriteRekeyLatencyCsv app version send_time latency_ms expected status W =
     (if \<not> env_csv_opens W then W
      else
        let W = (if \<not> env_csv_header_written W
                 then W \<lparr> env_csv := env_csv W @ [CsvHeader], env_csv_header_written := True \<rparr> else W)
        in W \<lparr> env_csv := env_csv W @
                 [CsvRow send_time (sk_cluster_id app) status latency_ms version (of_nat expected) (512 * of_nat expected)] \<rparr>)"

definition Skdc_TriggerRekey :: "ext \<Rightarrow> SkdcApp \<Rightarrow> RekeyReason \<Rightarrow> 'a World_scheme \<Rightarrow> (SkdcApp \<times> 'a World_scheme) res" where
  "Skdc_TriggerRekey E app reason W =
     (let app = upd_state (\<lambda>st. st \<lparr> sd_rekey_version := sd_rekey_version st + 1 \<rparr>)
                  (app \<lparr> sk_rekey_count := sk_rekey_count app + 1 \<rparr>);
          seed = sd_current_tek (sk_state app);
          (ts, W) = NowEpochMicros W;
          seed = AppendU64BE seed ts
      in rbind (Hmac_Compute E (sd_hmac_key (sk_state app)) seed) (\<lambda>new_key.
      let app = upd_state (\<lambda>st. st \<lparr> sd_current_tek := memcpy_key (sd_current_tek st) new_key \<rparr>) app;
          ver = sd_rekey_version (sk_state app);
          app = app \<lparr> sk_rekey_send_times := (sk_rekey_send_times app)(ver \<mapsto> env_now W),
                      sk_rekey_ack_map := (sk_rekey_ack_map app)(ver \<mapsto> []) \<rparr>;
          app = schedule 5 (TimerRekeyTimeout ver (length (sd_members (sk_state app)))) app W
      in BroadcastMtk E app W))"

definition erase_rekey :: "u32 \<Rightarrow> SkdcApp \<Rightarrow> SkdcApp" where
  "erase_rekey ver app =
     app \<lparr> sk_rekey_send_times := (sk_rekey_send_times app)(ver := None),
           sk_rekey_ack_map := (sk_rekey_ack_map app)(ver := None) \<rparr>"

definition RekeyTimeout :: "SkdcApp \<Rightarrow> u32 \<Rightarrow> nat \<Rightarrow> 'a World_scheme \<Rightarrow> SkdcApp \<times> 'a World_scheme" where
  "RekeyTimeout app ver expected W =
     (case sk_rekey_send_times app ver of
        None \<Rightarrow> (app, W)
      | Some sent \<Rightarrow>
          let lat = (env_now W - sent) * 1000;
              W = WriteRekeyLatencyCsv app ver sent lat expected ''TIMEOUT'' W
          in (erase_rekey ver app, W))"

definition OnUavRekeyAck :: "SkdcApp \<Rightarrow> u32 \<Rightarrow> u32 \<Rightarrow> 'a World_scheme \<Rightarrow> SkdcApp \<times> 'a World_scheme" where
  "OnUavRekeyAck app uav_id tek_version W =
     (case sk_rekey_send_times app tek_version of
        None \<Rightarrow> (app, W)
      | Some sent \<Rightarrow>
          let acks = (case sk_rekey_ack_map app tek_version of None \<Rightarrow> [] | Some s \<Rightarrow> s);
              acks = uset_insert uav_id acks;
              app = app \<lparr> sk_rekey_ack_map := (sk_rekey_ack_map app)(tek_version \<mapsto> acks) \<rparr>;
              members = sd_members (sk_state app)
          in if length acks \<ge> length members then
               let lat = (env_now W - sent) * 1000;
                   W = WriteRekeyLatencyCsv app tek_version sent lat (length members) ''OK'' W
               in (erase_rekey tek_version app, W)
             else (app, W))"

definition Skdc_fire :: "ext \<Rightarrow> SkdcApp \<Rightarrow> SkdcTimer \<Rightarrow> 'a World_scheme \<Rightarrow> (SkdcApp \<times> 'a World_scheme) res" where
  "Skdc_fire E app timer W =
     (case timer of
        TimerBroadcast \<Rightarrow> BroadcastMtk E app W
      | TimerPeriodic \<Rightarrow> PeriodicBroadcast E app W
      | TimerRekeyTimeout ver expected \<Rightarrow> Inr (RekeyTimeout app ver expected W))"

section \<open>Membership and keys\<close>

definition Skdc_ProcessJoin ::
    "ext \<Rightarrow> SkdcApp \<Rightarrow> u32 \<Rightarrow> u32 \<Rightarrow> 'a World_scheme \<Rightarrow> (SkdcApp \<times> 'a World_scheme) res" where
  "Skdc_ProcessJoin E app uav_id uav_index W =
     (let app = upd_state (\<lambda>st. st \<lparr> sd_members := uset_insert uav_id (sd_members st) \<rparr>) app
      in Skdc_TriggerRekey E app RR_JOIN W)"

definition Skdc_ProcessLeave ::
    "ext \<Rightarrow> SkdcApp \<Rightarrow> u32 \<Rightarrow> 'a World_scheme \<Rightarrow> (SkdcApp \<times> 'a World_scheme) res" where
  "Skdc_ProcessLeave E app uav_id W =
     (let app = upd_state (\<lambda>st. st \<lparr> sd_members := uset_erase uav_id (sd_members st) \<rparr>) app
      in Skdc_TriggerRekey E app RR_LEAVE W)"

definition Skdc_UpdateTek :: "ext \<Rightarrow> SkdcApp \<Rightarrow> bytes \<Rightarrow> 'a World_scheme \<Rightarrow> (SkdcApp \<times> 'a World_scheme) res" where
  "Skdc_UpdateTek E app tek W =
     (let app = upd_state (\<lambda>st. st \<lparr> sd_current_tek := tek, sd_tek_received := True \<rparr>) app;
          app = upd_state (\<lambda>st. st \<lparr> sd_hmac_key := KeyFromAesKey (sd_current_tek st) \<rparr>) app
      in BroadcastMtk E app W)"

section \<open>Packets from the KDC, the UAVs and the handover protocol\<close>

text \<open>\<open>while ((pkt = socket->RecvFrom(from)))\<close>: the loop body on every waiting payload.\<close>

fun recv_loop :: "('m \<Rightarrow> 's \<times> 'w \<Rightarrow> ('s \<times> 'w) comp) \<Rightarrow> 'm list \<Rightarrow> 's \<times> 'w \<Rightarrow> ('s \<times> 'w) comp" where
  "recv_loop body [] st = cret st"
| "recv_loop body (buf # rest) st = cbind (body buf st) (recv_loop body rest)"

definition from_kdc :: "ext \<Rightarrow> bytes \<Rightarrow> SkdcApp \<times> 'a World_scheme \<Rightarrow> (SkdcApp \<times> 'a World_scheme) comp" where
  "from_kdc E buf st =
     (if length buf < 16 then cret st
      else if ReadU32BE buf 0 \<noteq> sk_cluster_id (fst st) then cret st
      else Some (BroadcastMtk E (fst st) (snd st)))"

definition ReceiveFromKdc ::
    "ext \<Rightarrow> bytes list \<Rightarrow> SkdcApp \<Rightarrow> 'a World_scheme \<Rightarrow> (SkdcApp \<times> 'a World_scheme) comp" where
  "ReceiveFromKdc E pkts app W = recv_loop (from_kdc E) pkts (app, W)"

text \<open>
  The part of \<open>ReceiveDataFromUav\<close> from the label \<open>forward_to_kdc\<close>.  An exception in it
  is caught and only logged; the socket call is its last effect.
\<close>

definition fwd_aad :: "u32 \<Rightarrow> bytes" where
  "fwd_aad cluster_id = WriteU16BE (WriteU16BE (replicate 4 0) 0 (ucast cluster_id)) 2 0xFFFF"

definition forward_packet :: "ext \<Rightarrow> bytes \<Rightarrow> SkdcApp \<Rightarrow> bytes \<Rightarrow> bytes res" where
  "forward_packet E iv app plaintext =
     (let enc = DoEncrypt E (sd_current_tek (sk_state app)) iv plaintext (fwd_aad (sk_cluster_id app));
          fwd = replicate (4 + 12 + 16 + 4 + length (gcm_ciphertext enc)) 0;
          fwd = WriteU32BE fwd 0 (sk_cluster_id app);
          fwd = put_bytes fwd 4 (gcm_iv enc);
          fwd = put_bytes fwd 16 (gcm_tag enc);
          fwd = WriteU32BE fwd 32 (word_of_nat (length (gcm_ciphertext enc)));
          fwd = put_bytes fwd 36 (gcm_ciphertext enc)
      in AppendHmac E (sd_hmac_key (sk_state app)) fwd)"

definition forward_to_kdc :: "ext \<Rightarrow> bytes \<Rightarrow> SkdcApp \<times> 'a World_scheme \<Rightarrow> SkdcApp \<times> 'a World_scheme" where
  "forward_to_kdc E plaintext st =
     (case st of (app, W) \<Rightarrow>
        if \<not> sk_forward_socket app \<or> sk_topo app = None then (app, W)
        else
          let (iv, W) = RandomBytes 12 W in
          (case forward_packet E iv app plaintext of
             Inl e \<Rightarrow> (app, W)
           | Inr fwd \<Rightarrow> (app, SendTo (sk_kdc_csma_addr app) 9300 fwd W)))"

text \<open>Step 2, with its own \<open>catch (...)\<close>, and step 3.\<close>

definition data_hmac_ok :: "ext \<Rightarrow> bytes \<Rightarrow> bytes \<Rightarrow> bool" where
  "data_hmac_ok E key wire =
     (let pkt_data = take (length wire - 32) wire; recv_hmac = drop (length wire - 32) wire
      in case Hmac_Verify E key pkt_data recv_hmac of Inl e \<Rightarrow> False | Inr ok \<Rightarrow> ok)"

definition decrypt_data :: "ext \<Rightarrow> bytes \<Rightarrow> bytes \<Rightarrow> bytes option" where
  "decrypt_data E tek pkt_data =
     (let body_off = 48 in
      if length pkt_data < body_off + 56 then None
      else
        let ct_len = ReadU32BE pkt_data (body_off + 20);
            iv = get_bytes pkt_data (body_off + 24) 12;
            tag = get_bytes pkt_data (body_off + 40) 16
        in if length pkt_data < body_off + 56 + unat ct_len then None
           else
             let ct = get_bytes pkt_data (body_off + 56) (unat ct_len);
                 aad = get_bytes pkt_data 2 4
             in (case Decrypt E tek iv ct tag aad of Inl e \<Rightarrow> None | Inr pt \<Rightarrow> Some pt))"

definition data_from_uav :: "ext \<Rightarrow> bytes \<Rightarrow> SkdcApp \<times> 'a World_scheme \<Rightarrow> SkdcApp \<times> 'a World_scheme" where
  "data_from_uav E wire st =
     (case st of (app, W) \<Rightarrow>
        let app = app \<lparr> sk_data_rx_count := sk_data_rx_count app + 1 \<rparr> in
        if length wire < 136 then (app, W)
        else if \<not> data_hmac_ok E (sd_hmac_key (sk_state app)) wire then forward_to_kdc E [] (app, W)
        else
          (case decrypt_data E (sd_current_tek (sk_state app)) (take (length wire - 32) wire) of
             None \<Rightarrow> (app, W)
           | Some pt \<Rightarrow>
               forward_to_kdc E pt (app \<lparr> sk_telemetry := sk_telemetry app @ [pt] \<rparr>, W)))"

definition ReceiveDataFromUav ::
    "ext \<Rightarrow> bytes list \<Rightarrow> SkdcApp \<Rightarrow> 'a World_scheme \<Rightarrow> (SkdcApp \<times> 'a World_scheme) comp" where
  "ReceiveDataFromUav E pkts app W = recv_loop (\<lambda>buf st. cret (data_from_uav E buf st)) pkts (app, W)"

definition SendJoinAccept ::
    "ext \<Rightarrow> u32 \<Rightarrow> u32 \<Rightarrow> SlaveKeyBlob \<Rightarrow> SkdcApp \<times> 'a World_scheme \<Rightarrow> (SkdcApp \<times> 'a World_scheme) res" where
  "SendJoinAccept E uav_id new_idx blob st =
     (case st of (app, W) \<Rightarrow>
        (case sk_topo app of
          None \<Rightarrow> Inr (app, W)
        | Some topo \<Rightarrow>
            if \<not> sk_join_acc_socket app then Inr (app, W)
            else
              let (iv, W) = RandomBytes 12 W; (ts, W) = NowEpochMicros W in
              rbind (BuildJoinAccept E iv ts uav_id (sk_cluster_id app) new_idx blob (sk_gk app)) (\<lambda>wire.
              let wifi_idx = uav_id + 3 in
              if unat wifi_idx \<ge> length (tp_wifi_nodes topo) then Inr (app, W)
              else if \<not> tp_wifi_nodes topo ! unat wifi_idx then Inr (app, W)
              else Inr (app, SendTo (ToWifiNode (unat wifi_idx)) 9052 wire W))))"

definition slave_key_fwd :: "ext \<Rightarrow> bytes \<Rightarrow> SkdcApp \<times> 'a World_scheme \<Rightarrow> (SkdcApp \<times> 'a World_scheme) comp" where
  "slave_key_fwd E buf st =
     (case st of (app, W) \<Rightarrow>
        (case ParseSlaveFwd E buf (sk_gk app) of
          None \<Rightarrow> None
        | Some (Inl e) \<Rightarrow> Some (Inl e)
        | Some (Inr None) \<Rightarrow> cret (app, W)
        | Some (Inr (Some (uav_id, new_c, blob))) \<Rightarrow>
            if new_c \<noteq> sk_cluster_id app then cret (app, W)
            else
              let ho = \<lparr> ho_blob = blob, ho_new_index = bl_uav_index blob \<rparr>;
                  app = app \<lparr> sk_pending_ho := (sk_pending_ho app)(uav_id \<mapsto> ho) \<rparr>
              in Some (SendJoinAccept E uav_id (bl_uav_index blob) blob (app, W))))"

definition ReceiveSlaveKeyFwd ::
    "ext \<Rightarrow> bytes list \<Rightarrow> SkdcApp \<Rightarrow> 'a World_scheme \<Rightarrow> (SkdcApp \<times> 'a World_scheme) comp" where
  "ReceiveSlaveKeyFwd E pkts app W = recv_loop (slave_key_fwd E) pkts (app, W)"

definition key_ack :: "ext \<Rightarrow> bytes \<Rightarrow> SkdcApp \<times> 'a World_scheme \<Rightarrow> (SkdcApp \<times> 'a World_scheme) comp" where
  "key_ack E buf st =
     (case st of (app, W) \<Rightarrow>
        (case ParseKeyAck E buf (sk_gk app) of
          Inl e \<Rightarrow> Some (Inl e)
        | Inr None \<Rightarrow> cret (app, W)
        | Inr (Some ack) \<Rightarrow>
            if ak_new_cluster ack \<noteq> sk_cluster_id app then cret (app, W)
            else
              let app = app \<lparr> sk_pending_ho := (sk_pending_ho app)(ak_uav_id ack := None) \<rparr>
              in Some (Skdc_ProcessJoin E app (ak_uav_id ack) (ak_new_index ack) W)))"

definition ReceiveKeyAck ::
    "ext \<Rightarrow> bytes list \<Rightarrow> SkdcApp \<Rightarrow> 'a World_scheme \<Rightarrow> (SkdcApp \<times> 'a World_scheme) comp" where
  "ReceiveKeyAck E pkts app W = recv_loop (key_ack E) pkts (app, W)"

end
