(* ===== verification/Skdc_Runs.thy ===== *)
theory Skdc_Runs
  imports Skdc_App Crt_Group Packet_Delivery
begin

text \<open>
  What the SKDC application of theory Skdc_App does over whole runs: a step
  relation with one rule per event the simulator can deliver to it, the token it
  broadcasts, the bookkeeping of rekeys and their latency, and the way of a
  telemetry packet.
\<close>

section \<open>The broadcast packet\<close>

definition sendable :: "ext \<Rightarrow> SkdcState \<Rightarrow> bool" where
  "sendable E st \<longleftrightarrow> wire_size E (sd_mt_k st) < 2 ^ 32 \<and> 0 \<le> sd_n_group st \<and>
     wire_size E (sd_n_group st) < 2 ^ 32"

definition carries_token :: "u32 \<Rightarrow> int \<Rightarrow> int \<Rightarrow> bytes \<Rightarrow> bool" where
  "carries_token c k n buf \<longleftrightarrow> PeekType buf = MTK_PACKET \<and> (\<exists>pkt. DeserializeNoHmac buf = Inr pkt \<and>
     mb_cluster_id (pk_body pkt) = c \<and> mb_mtk (pk_body pkt) = k \<and> mb_n_group (pk_body pkt) = n)"

lemma Mtk_Build_ok:
  assumes "msb_law E" "wf_readings r" "0 \<le> k" "wire_size E k < 2 ^ 32" "0 \<le> n" "wire_size E n < 2 ^ 32"
  shows "\<exists>pkt. Mtk_Build E r c src v k n seq = Inr (pkt, seq + 1) \<and> wf_header (pk_header pkt) \<and>
    wf_MtkBody E (pk_body pkt) \<and> h_packet_type (pk_header pkt) = MTK_PACKET \<and> pk_body pkt =
      \<lparr> mb_cluster_id = c, mb_version = v, mb_timestamp_us = r_body_now r, mb_mtk = k, mb_n_group = n,
        mb_body_nonce = r_body_nonce r \<rparr>"
proof -
  have "\<exists>sz. MtkBody_WireSize E \<lparr> mb_cluster_id = c, mb_version = v, mb_timestamp_us = r_body_now r,
      mb_mtk = k, mb_n_group = n, mb_body_nonce = r_body_nonce r \<rparr> = Inr sz"
    using assms ToBytes_wire_size[of E k] ToBytes_wire_size[of E n] by (auto simp: MtkBody_WireSize_def)
  then show ?thesis
    using assms(2-) by (auto simp: Mtk_Build_def build_simps wf_MtkBody_def)
qed

lemma Mtk_wire_parses:
  assumes "msb_law E" "wf_header (pk_header pkt)" "wf_MtkBody E (pk_body pkt)"
  shows "\<exists>w. MtkPacket_Serialize E pkt = Inr w \<and> DeserializeNoHmac (w @ replicate 32 0) = Inr pkt \<and>
    PeekType (w @ replicate 32 0) = h_packet_type (pk_header pkt)"
  using mtk_codec.unchecked_round_trip[of pkt E] PeekType_bytes[of "MtkBody_Serialize E" pkt] assms
  by (auto simp: Mtk_generic(2,3))

text \<open>What every broadcast does, whether or not anything is sent.\<close>

lemma BroadcastMtk_effect:
  assumes "BroadcastMtk E app W = Inr (app', W')"
  shows "\<exists>s n ds k. app' = app \<lparr> sk_seq := s, sk_mtk_count := n \<rparr> \<and>
    W' = W \<lparr> env_reads := k, env_sent := env_sent W @ ds \<rparr> \<and>
    (msb_law E \<and> wf_world W \<and> sendable E (sk_state app) \<longrightarrow>
      (\<forall>d\<in>set ds. carries_token (sk_cluster_id app) (sd_mt_k (sk_state app)) (sd_n_group (sk_state app)) (dg_payload d)))"
proof -
  have same: ?thesis if "app' = app" "W' = W"
    using that by (intro exI[of _ "sk_seq app"] exI[of _ "sk_mtk_count app"] exI[of _ "[]"] exI[of _ "env_reads W"]) simp
  show ?thesis
  proof (cases "sk_wifi_socket app \<and> sd_tek_received (sk_state app) \<and> 0 < sd_mt_k (sk_state app)")
    case False
    with assms have "app' = app" "W' = W" by (auto simp: BroadcastMtk_def split: if_splits)
    then show ?thesis by (rule same)
  next
    case True
    obtain r W1 where r: "mtk_readings W = (r, W1)" by fastforce
    have W1: "W1 = W \<lparr> env_reads := env_reads W + 5 \<rparr>"
      using r by (auto simp: mtk_readings_def NowEpochMicros_def RandomBytes_def numeral_eq_Suc)
    obtain pkt seq wire where p: "Mtk_Build E r (sk_cluster_id app) (ucast (sk_node_id app))
        (sd_rekey_version (sk_state app)) (sd_mt_k (sk_state app)) (sd_n_group (sk_state app)) (sk_seq app) = Inr (pkt, seq)"
      and w: "MtkPacket_Serialize E pkt = Inr wire"
      and res: "app' = app \<lparr> sk_seq := seq, sk_mtk_count := sk_mtk_count app + 1 \<rparr>"
        "W' = SendTo LimitedBroadcast 9200 (wire @ replicate 32 0) W1"
      using assms True r by (auto simp: BroadcastMtk_def rbind_eq_Inr_iff Let_def)
    have "carries_token (sk_cluster_id app) (sd_mt_k (sk_state app)) (sd_n_group (sk_state app)) (wire @ replicate 32 0)"
      if "msb_law E" "wf_world W" "sendable E (sk_state app)"
    proof -
      have "wf_readings r" using mtk_readings_simps(5)[OF that(2)] r by simp
      from Mtk_Build_ok[OF that(1) this, of "sd_mt_k (sk_state app)" "sd_n_group (sk_state app)" "sk_cluster_id app"
          "ucast (sk_node_id app)" "sd_rekey_version (sk_state app)" "sk_seq app"] that(3) True p
      have "wf_header (pk_header pkt)" "wf_MtkBody E (pk_body pkt)" "h_packet_type (pk_header pkt) = MTK_PACKET" and b: "mb_cluster_id (pk_body pkt) = sk_cluster_id app"
        "mb_mtk (pk_body pkt) = sd_mt_k (sk_state app)" "mb_n_group (pk_body pkt) = sd_n_group (sk_state app)"
        by (auto simp: sendable_def)
      with Mtk_wire_parses[OF that(1), of pkt] w show ?thesis
        by (auto simp: carries_token_def)
    qed
    then show ?thesis
      using res W1 by (intro exI[of _ seq] exI[of _ "sk_mtk_count app + 1"]
          exI[of _ "[\<lparr> dg_dest = LimitedBroadcast, dg_port = 9200, dg_payload = wire @ replicate 32 0 \<rparr>]"]
          exI[of _ "env_reads W + 5"]) (simp add: SendTo_def)
  qed
qed

text \<open>With a token that fits the packet the broadcast never throws.\<close>

definition broadcasting :: "SkdcApp \<Rightarrow> bool" where
  "broadcasting app \<longleftrightarrow> sk_wifi_socket app \<and> sd_tek_received (sk_state app) \<and> 0 < sd_mt_k (sk_state app)"

lemma BroadcastMtk_returns:
  assumes "msb_law E" "wf_world W" "sendable E (sk_state app)"
  shows "\<exists>app' W'. BroadcastMtk E app W = Inr (app', W') \<and>
    (broadcasting app \<longrightarrow> (\<exists>d. env_sent W' = env_sent W @ [d] \<and> dg_port d = 9200))"
proof (cases "sk_wifi_socket app \<and> sd_tek_received (sk_state app) \<and> 0 < sd_mt_k (sk_state app)")
  case True
  obtain r W1 where r: "mtk_readings W = (r, W1)" by fastforce
  have "wf_readings r" using mtk_readings_simps(5)[OF assms(2)] r by simp
  from Mtk_Build_ok[OF assms(1) this, of "sd_mt_k (sk_state app)" "sd_n_group (sk_state app)"] assms(3) True
  obtain pkt where "Mtk_Build E r (sk_cluster_id app) (ucast (sk_node_id app))
        (sd_rekey_version (sk_state app)) (sd_mt_k (sk_state app)) (sd_n_group (sk_state app)) (sk_seq app)
        = Inr (pkt, sk_seq app + 1)" "wf_header (pk_header pkt)" "wf_MtkBody E (pk_body pkt)"
    by (force simp: sendable_def)
  with True r Mtk_wire_parses[OF assms(1), of pkt] show ?thesis
    using mtk_readings_simps(3)[of W] by (auto simp: BroadcastMtk_def Let_def)
qed (auto simp: BroadcastMtk_def broadcasting_def)

section \<open>What every operation leaves alone\<close>

definition skdc_frame :: "ext \<Rightarrow> SkdcApp \<times> 'a World_scheme \<Rightarrow> SkdcApp \<times> 'a World_scheme \<Rightarrow> bool" where
  "skdc_frame E st st' \<longleftrightarrow>
     sk_cluster_id (fst st') = sk_cluster_id (fst st) \<and>
     sd_mt_k (sk_state (fst st')) = sd_mt_k (sk_state (fst st)) \<and>
     sd_n_group (sk_state (fst st')) = sd_n_group (sk_state (fst st)) \<and>
     env_random (snd st') = env_random (snd st) \<and>
     (\<exists>ds. env_sent (snd st') = env_sent (snd st) @ ds \<and>
       (msb_law E \<and> wf_world (snd st) \<and> sendable E (sk_state (fst st)) \<longrightarrow>
         (\<forall>d\<in>set ds. dg_port d = 9200 \<longrightarrow> carries_token (sk_cluster_id (fst st))
            (sd_mt_k (sk_state (fst st))) (sd_n_group (sk_state (fst st))) (dg_payload d))))"

text \<open>The bookkeeping of rekeys.\<close>

definition books ::
    "SkdcApp \<times> 'a World_scheme \<Rightarrow> u32 \<times> (u32 \<rightharpoonup> real) \<times> (u32 \<rightharpoonup> u32 uset) \<times>
       (real \<times> SkdcTimer) list \<times> CsvLine list \<times> real \<times> bool \<times> bool" where
  "books st = (case st of (app, W) \<Rightarrow>
     (sd_rekey_version (sk_state app), sk_rekey_send_times app, sk_rekey_ack_map app, sk_timers app,
      env_csv W, env_now W, env_csv_opens W, env_csv_header_written W))"

definition quiet_step :: "ext \<Rightarrow> SkdcApp \<times> 'a World_scheme \<Rightarrow> SkdcApp \<times> 'a World_scheme \<Rightarrow> bool" where
  "quiet_step E st st' \<longleftrightarrow> skdc_frame E st st' \<and> books st' = books st"

lemma skdc_frame_local:
  "sk_cluster_id app' = sk_cluster_id app \<Longrightarrow> sd_mt_k (sk_state app') = sd_mt_k (sk_state app) \<Longrightarrow>
   sd_n_group (sk_state app') = sd_n_group (sk_state app) \<Longrightarrow> env_random W' = env_random W \<Longrightarrow>
   env_sent W' = env_sent W @ ds \<Longrightarrow> (\<And>d. d \<in> set ds \<Longrightarrow> dg_port d \<noteq> 9200) \<Longrightarrow>
   skdc_frame E (app, W) (app', W')"
  by (auto simp: skdc_frame_def)

lemma skdc_frame_refl [simp]: "skdc_frame E st st"
  by (auto simp: skdc_frame_def)

lemma skdc_frame_trans:
  assumes "skdc_frame E st st1" "skdc_frame E st1 st2"
  shows "skdc_frame E st st2"
proof -
  have w: "wf_world (snd st1) = wf_world (snd st)" "sendable E (sk_state (fst st1)) = sendable E (sk_state (fst st))"
    using assms(1) by (simp_all add: skdc_frame_def wf_world_def sendable_def)
  from assms(1) obtain ds1 where 1: "env_sent (snd st1) = env_sent (snd st) @ ds1"
    "msb_law E \<and> wf_world (snd st) \<and> sendable E (sk_state (fst st)) \<longrightarrow>
      (\<forall>d\<in>set ds1. dg_port d = 9200 \<longrightarrow> carries_token (sk_cluster_id (fst st))
        (sd_mt_k (sk_state (fst st))) (sd_n_group (sk_state (fst st))) (dg_payload d))"
    unfolding skdc_frame_def by blast
  from assms(2) obtain ds2 where 2: "env_sent (snd st2) = env_sent (snd st1) @ ds2"
    "msb_law E \<and> wf_world (snd st1) \<and> sendable E (sk_state (fst st1)) \<longrightarrow>
      (\<forall>d\<in>set ds2. dg_port d = 9200 \<longrightarrow> carries_token (sk_cluster_id (fst st1))
        (sd_mt_k (sk_state (fst st1))) (sd_n_group (sk_state (fst st1))) (dg_payload d))"
    unfolding skdc_frame_def by blast
  show ?thesis
    using assms 1 2 w unfolding skdc_frame_def by (intro conjI exI[of _ "ds1 @ ds2"]) auto
qed

lemma quiet_refl [simp]: "quiet_step E st st"
  by (simp add: quiet_step_def)

lemma quiet_trans: "quiet_step E st st1 \<Longrightarrow> quiet_step E st1 st2 \<Longrightarrow> quiet_step E st st2"
  by (auto simp: quiet_step_def intro: skdc_frame_trans)

lemma quiet_frame: "quiet_step E st st' \<Longrightarrow> skdc_frame E st st'"
  by (simp add: quiet_step_def)

lemma quiet_local:
  "sk_cluster_id app' = sk_cluster_id app \<Longrightarrow> sd_mt_k (sk_state app') = sd_mt_k (sk_state app) \<Longrightarrow>
   sd_n_group (sk_state app') = sd_n_group (sk_state app) \<Longrightarrow>
   sd_rekey_version (sk_state app') = sd_rekey_version (sk_state app) \<Longrightarrow>
   sk_rekey_send_times app' = sk_rekey_send_times app \<Longrightarrow> sk_rekey_ack_map app' = sk_rekey_ack_map app \<Longrightarrow>
   sk_timers app' = sk_timers app \<Longrightarrow> quiet_step E (app, W) (app', W)"
  unfolding quiet_step_def by (auto simp: books_def intro: skdc_frame_local[of _ _ _ _ "[]"])

lemma quiet_send:
  "port \<noteq> 9200 \<Longrightarrow> quiet_step E (app, W) (app, SendTo dest port x (W \<lparr> env_reads := k \<rparr>))"
  "quiet_step E (app, W) (app, W \<lparr> env_reads := k \<rparr>)"
  unfolding quiet_step_def
  by (auto simp: books_def SendTo_def intro: skdc_frame_local[of _ _ _ _ "[]"]
      skdc_frame_local[of _ _ _ _ "[\<lparr> dg_dest = dest, dg_port = port, dg_payload = x \<rparr>]"])

lemma BroadcastMtk_quiet:
  assumes "BroadcastMtk E app W = Inr st'"
  shows "quiet_step E (app, W) st'"
proof -
  obtain app' W' where st': "st' = (app', W')" by (cases st')
  obtain s n ds k where e: "app' = app \<lparr> sk_seq := s, sk_mtk_count := n \<rparr>"
    "W' = W \<lparr> env_reads := k, env_sent := env_sent W @ ds \<rparr>"
    "msb_law E \<and> wf_world W \<and> sendable E (sk_state app) \<longrightarrow>
      (\<forall>d\<in>set ds. carries_token (sk_cluster_id app) (sd_mt_k (sk_state app)) (sd_n_group (sk_state app)) (dg_payload d))"
    using BroadcastMtk_effect[of E app W app' W'] assms st' by auto
  then show ?thesis by (auto simp: quiet_step_def skdc_frame_def books_def st')
qed

lemma UpdateTek_quiet: "Skdc_UpdateTek E app tek W = Inr st' \<Longrightarrow> quiet_step E (app, W) st'"
  unfolding Skdc_UpdateTek_def Let_def by (drule BroadcastMtk_quiet, erule quiet_trans[rotated], rule quiet_local) auto

lemma from_kdc_quiet: "from_kdc E buf st = Some (Inr st') \<Longrightarrow> quiet_step E st st'"
  by (cases st) (auto simp: from_kdc_def cret_def split: if_splits dest: BroadcastMtk_quiet)

lemma forward_quiet: "quiet_step E st (forward_to_kdc E pt st)"
  by (cases st) (auto simp: forward_to_kdc_def RandomBytes_def quiet_send split: sum.split)

lemma data_from_uav_quiet: "quiet_step E st (data_from_uav E wire st)"
proof (cases st)
  case (Pair app W)
  have "quiet_step E (app, W) (app \<lparr> sk_data_rx_count := sk_data_rx_count app + 1 \<rparr>, W)"
    "quiet_step E (app, W) (app \<lparr> sk_data_rx_count := sk_data_rx_count app + 1, sk_telemetry := t \<rparr>, W)" for t
    by (rule quiet_local; simp)+
  then show ?thesis
    by (auto simp: Pair data_from_uav_def Let_def intro: quiet_trans forward_quiet split: option.split)
qed

lemma SendJoinAccept_quiet: "SendJoinAccept E u i b st = Inr st' \<Longrightarrow> quiet_step E st st'"
  by (cases st) (auto simp: SendJoinAccept_def Let_def RandomBytes_def NowEpochMicros_def rbind_eq_Inr_iff
      quiet_send split: option.splits if_splits)

lemma slave_key_fwd_quiet: "slave_key_fwd E buf st = Some (Inr st') \<Longrightarrow> quiet_step E st st'"
proof (cases st)
  case (Pair app W)
  have q: "quiet_step E (app, W) (app \<lparr> sk_pending_ho := p \<rparr>, W)" for p by (rule quiet_local) simp_all
  show "slave_key_fwd E buf st = Some (Inr st') \<Longrightarrow> quiet_step E st st'"
    by (auto simp: Pair slave_key_fwd_def cret_def Let_def split: option.splits sum.splits if_splits
        dest!: SendJoinAccept_quiet quiet_trans[OF q])
qed

section \<open>The steps of an SKDC\<close>

text \<open>
  The state in which \<open>TriggerRekey\<close> leaves the bookkeeping: the next version, sent
  now, without acknowledgements, and a timeout in five seconds.
\<close>

definition rekeyed :: "SkdcApp \<times> 'a World_scheme \<Rightarrow> SkdcApp \<times> 'a World_scheme \<Rightarrow> bool" where
  "rekeyed st st' \<longleftrightarrow> (let ver = sd_rekey_version (sk_state (fst st)) + 1; now = env_now (snd st) in
     books st' = (ver, (sk_rekey_send_times (fst st))(ver \<mapsto> now), (sk_rekey_ack_map (fst st))(ver \<mapsto> []),
       sk_timers (fst st) @ [(now + 5, TimerRekeyTimeout ver (length (sd_members (sk_state (fst st)))))],
       env_csv (snd st), now, env_csv_opens (snd st), env_csv_header_written (snd st)))"

lemma TriggerRekey_effect:
  assumes "Skdc_TriggerRekey E app reason W = Inr st'"
  shows "skdc_frame E (app, W) st' \<and> rekeyed (app, W) st'"
proof -
  obtain key where key: "Hmac_Compute E (sd_hmac_key (sk_state app))
      (AppendU64BE (sd_current_tek (sk_state app)) (env_micros W (env_reads W))) = Inr key"
    using assms by (auto simp: Skdc_TriggerRekey_def NowEpochMicros_def Let_def rbind_eq_Inr_iff)
  define ver where "ver = sd_rekey_version (sk_state app) + 1"
  define app1 where "app1 = app \<lparr> sk_rekey_count := sk_rekey_count app + 1,
      sk_state := (sk_state app) \<lparr> sd_rekey_version := ver,
         sd_current_tek := memcpy_key (sd_current_tek (sk_state app)) key \<rparr>,
      sk_rekey_send_times := (sk_rekey_send_times app)(ver \<mapsto> env_now W),
      sk_rekey_ack_map := (sk_rekey_ack_map app)(ver \<mapsto> []),
      sk_timers := sk_timers app @ [(env_now W + 5, TimerRekeyTimeout ver (length (sd_members (sk_state app))))] \<rparr>"
  define W1 where "W1 = W \<lparr> env_reads := env_reads W + 1 \<rparr>"
  have "BroadcastMtk E app1 W1 = Inr st'"
    using assms key by (simp add: Skdc_TriggerRekey_def NowEpochMicros_def Let_def schedule_def app1_def
        W1_def ver_def)
  then have "quiet_step E (app1, W1) st'" by (rule BroadcastMtk_quiet)
  moreover have "skdc_frame E (app, W) (app1, W1)"
    by (rule skdc_frame_local[of _ _ _ _ "[]"]) (simp_all add: app1_def W1_def)
  ultimately show ?thesis
    by (auto simp: quiet_step_def rekeyed_def books_def app1_def W1_def ver_def Let_def
        intro: skdc_frame_trans)
qed

lemma TriggerRekey_after:
  assumes "Skdc_TriggerRekey E (upd_state f app) reason W = Inr st'"
    "\<And>st. sd_mt_k (f st) = sd_mt_k st \<and> sd_n_group (f st) = sd_n_group st \<and> sd_rekey_version (f st) = sd_rekey_version st"
  shows "skdc_frame E (app, W) st' \<and> rekeyed (upd_state f app, W) st'"
proof -
  have "skdc_frame E (app, W) (upd_state f app, W)"
    using assms(2) by (intro skdc_frame_local[of _ _ _ _ "[]"]) simp_all
  with TriggerRekey_effect[OF assms(1)] show ?thesis by (blast intro: skdc_frame_trans)
qed

text \<open>
  One rule per event: calls by the managers, packets from the sockets, a UAV's
  rekey acknowledgement, the stop of the application, a timer that is due (the
  simulator runs events in the order of their times), and time passing up to the
  next timer.  A run has fewer than 2^32 rekeys.
\<close>

definition due :: "real \<Rightarrow> SkdcApp \<Rightarrow> bool" where
  "due t app \<longleftrightarrow> (\<forall>(s, timer)\<in>set (sk_timers app). t \<le> s)"

definition can_rekey :: "SkdcApp \<Rightarrow> bool" where
  "can_rekey app \<longleftrightarrow> sd_rekey_version (sk_state app) \<noteq> 0xFFFFFFFF"

inductive skdc_step :: "ext \<Rightarrow> SkdcApp \<times> 'a World_scheme \<Rightarrow> SkdcApp \<times> 'a World_scheme \<Rightarrow> bool" for E where
  trigger: "skdc_step E (app, W) st" if "can_rekey app" "Skdc_TriggerRekey E app reason W = Inr st"
| join: "skdc_step E (app, W) st" if "can_rekey app" "Skdc_ProcessJoin E app u i W = Inr st"
| leave: "skdc_step E (app, W) st" if "can_rekey app" "Skdc_ProcessLeave E app u W = Inr st"
| update_tek: "skdc_step E (app, W) st" if "Skdc_UpdateTek E app tek W = Inr st"
| kdc: "skdc_step E (app, W) st" if "from_kdc E buf (app, W) = Some (Inr st)"
| data: "skdc_step E (app, W) (data_from_uav E buf (app, W))"
| slave_fwd: "skdc_step E (app, W) st" if "slave_key_fwd E buf (app, W) = Some (Inr st)"
| ack: "skdc_step E (app, W) st" if "can_rekey app" "key_ack E buf (app, W) = Some (Inr st)"
| rekey_ack: "skdc_step E (app, W) (OnUavRekeyAck app u v W)"
| stop: "skdc_step E (app, W) (Skdc_StopApplication app, W)"
| fire: "skdc_step E (app, W) st"
    if "k < length (sk_timers app)" "sk_timers app ! k = (t, timer)" "due t app"
      "Skdc_fire E (app \<lparr> sk_timers := take k (sk_timers app) @ drop (Suc k) (sk_timers app) \<rparr>) timer
         (W \<lparr> env_now := t \<rparr>) = Inr st"
| pass: "skdc_step E (app, W) (app, W \<lparr> env_now := t \<rparr>)" if "env_now W \<le> t" "due t app"

inductive skdc_reach :: "ext \<Rightarrow> SkdcApp \<times> 'a World_scheme \<Rightarrow> SkdcApp \<times> 'a World_scheme \<Rightarrow> bool" for E st0 where
  start: "skdc_reach E st0 st0"
| step: "skdc_reach E st0 st'" if "skdc_reach E st0 st" "skdc_step E st st'"

inductive_cases skdc_stepE: "skdc_step E st st'"

lemma OnUavRekeyAck_frame: "skdc_frame E (app, W) (OnUavRekeyAck app u v W)"
  and RekeyTimeout_frame: "skdc_frame E (app, W) (RekeyTimeout app v n W)"
  by (auto simp: OnUavRekeyAck_def RekeyTimeout_def WriteRekeyLatencyCsv_def erase_rekey_def Let_def
      split: option.split intro!: skdc_frame_local[of _ _ _ _ "[]"])

lemma ProcessJoin_effect:
  "Skdc_ProcessJoin E app u i W = Inr st \<Longrightarrow> skdc_frame E (app, W) st \<and>
   rekeyed (upd_state (\<lambda>st. st \<lparr> sd_members := uset_insert u (sd_members st) \<rparr>) app, W) st"
  unfolding Skdc_ProcessJoin_def Let_def by (rule TriggerRekey_after) simp_all

lemma ProcessLeave_effect':
  "Skdc_ProcessLeave E app u W = Inr st \<Longrightarrow> skdc_frame E (app, W) st \<and>
   rekeyed (upd_state (\<lambda>st. st \<lparr> sd_members := uset_erase u (sd_members st) \<rparr>) app, W) st"
  unfolding Skdc_ProcessLeave_def Let_def by (rule TriggerRekey_after) simp_all

text \<open>An acknowledgement either changes nothing or is a join.\<close>

lemma key_ack_effect:
  assumes "key_ack E buf (app, W) = Some (Inr st)"
  shows "st = (app, W) \<or> (\<exists>p u i. Skdc_ProcessJoin E (app \<lparr> sk_pending_ho := p \<rparr>) u i W = Inr st)"
  using assms by (auto simp: key_ack_def cret_def Let_def split: sum.splits option.splits if_splits)

lemma frame_pending: "skdc_frame E (app, W) (app \<lparr> sk_pending_ho := p \<rparr>, W)"
  by (rule skdc_frame_local[of _ _ _ _ "[]"]) simp_all

lemma PeriodicBroadcast_effect:
  assumes "PeriodicBroadcast E app W = Inr st"
  shows "skdc_frame E (app, W) st \<and>
    (\<exists>app' W'. quiet_step E (app, W) (app', W') \<and>
      st = (app' \<lparr> sk_timers := sk_timers app' @ [(env_now W' + 10, TimerPeriodic)] \<rparr>, W'))"
proof -
  obtain app' W' where b: "BroadcastMtk E app W = Inr (app', W')"
    and st: "st = (app' \<lparr> sk_timers := sk_timers app' @ [(env_now W' + 10, TimerPeriodic)] \<rparr>, W')"
    using assms by (auto simp: PeriodicBroadcast_def SchedulePeriodicBroadcast_def schedule_def rbind_eq_Inr_iff)
  have "skdc_frame E (app', W') st" unfolding st by (rule skdc_frame_local[of _ _ _ _ "[]"]) simp_all
  with BroadcastMtk_quiet[OF b] st show ?thesis by (auto simp: quiet_step_def intro: skdc_frame_trans)
qed

lemma fire_frame:
  assumes "Skdc_fire E app timer W = Inr st"
  shows "skdc_frame E (app, W) st"
proof (cases timer)
  case TimerBroadcast
  then show ?thesis using assms BroadcastMtk_quiet[of E app W st] by (simp add: Skdc_fire_def quiet_step_def)
next
  case TimerPeriodic
  then show ?thesis using assms PeriodicBroadcast_effect[of E app W st] by (simp add: Skdc_fire_def)
next
  case (TimerRekeyTimeout v n)
  then show ?thesis using assms RekeyTimeout_frame by (auto simp: Skdc_fire_def)
qed

lemma skdc_step_frame: "skdc_step E st st' \<Longrightarrow> skdc_frame E st st'"
proof (induction rule: skdc_step.induct)
  case (ack app buf W st)
  consider "st = (app, W)" | p u i where "Skdc_ProcessJoin E (app \<lparr> sk_pending_ho := p \<rparr>) u i W = Inr st"
    using key_ack_effect[OF ack(2)] by blast
  then show ?case
  proof cases
    case 2
    then show ?thesis using ProcessJoin_effect frame_pending by (blast intro: skdc_frame_trans)
  qed simp
next
  case (fire k app t timer W st)
  have "skdc_frame E (app, W) (app \<lparr> sk_timers := take k (sk_timers app) @ drop (Suc k) (sk_timers app) \<rparr>, W \<lparr> env_now := t \<rparr>)"
    by (rule skdc_frame_local[of _ _ _ _ "[]"]) simp_all
  with fire_frame[OF fire(4)] show ?case by (rule skdc_frame_trans[rotated])
next
  case (stop app W)
  show ?case by (rule skdc_frame_local[of _ _ _ _ "[]"]) (simp_all add: Skdc_StopApplication_def)
next
  case (pass W t app)
  show ?case by (rule skdc_frame_local[of _ _ _ _ "[]"]) simp_all
qed (blast intro: quiet_frame data_from_uav_quiet OnUavRekeyAck_frame dest: TriggerRekey_effect
    ProcessJoin_effect ProcessLeave_effect' UpdateTek_quiet from_kdc_quiet slave_key_fwd_quiet)+

lemma skdc_reach_frame: "skdc_reach E st0 st \<Longrightarrow> skdc_frame E st0 st"
  by (induction rule: skdc_reach.induct) (auto intro: skdc_frame_trans skdc_step_frame)

section \<open>The token on the air\<close>

text \<open>An application set up as main.cc does.\<close>

definition configured :: "u32 \<Rightarrow> u32 \<Rightarrow> Topology \<Rightarrow> CryptoParamsFile \<Rightarrow> SkdcApp" where
  "configured c node topo params =
     Skdc_SetCryptoParams (Some params) (Skdc_SetTopology (Some topo) (SetClusterId c (SkdcApplication_new node)))"

lemma configured_started:
  assumes "Skdc_StartApplication (configured c node topo params) W = Inr (app, W')"
    "unat c < length (cp_clusters params)"
  shows "W' = W \<and> sk_cluster_id app = c \<and> sk_wifi_socket app \<and>
    sk_state app = \<lparr> sd_cluster_id = c, sd_rekey_version = 1, sd_current_tek = cc_tek (cp_clusters params ! unat c),
      sd_hmac_key = KeyFromAesKey (cc_tek (cp_clusters params ! unat c)), sd_mt_k = cc_MT_K (cp_clusters params ! unat c),
      sd_n_group = cc_N_group (cp_clusters params ! unat c), sd_e_mk = cc_e_MK (cp_clusters params ! unat c),
      sd_tek_received = True, sd_members = foldl (\<lambda>ms u. uset_insert (c * 6 + u) ms) [] [0, 1, 2, 3, 4, 5] \<rparr> \<and>
    sk_rekey_send_times app = (\<lambda>_. None) \<and> sk_rekey_ack_map app = (\<lambda>_. None) \<and>
    sk_timers app = [(env_now W + 2, TimerBroadcast)]"
proof -
  obtain gk where "load_gk (Some params) (replicate 32 0) = Inr gk"
    using assms(1) by (auto simp: Skdc_StartApplication_def configured_def Skdc_SetCryptoParams_def
        Skdc_SetTopology_def SetClusterId_def SkdcApplication_new_def rbind_eq_Inr_iff Let_def)
  with assms show ?thesis
    by (simp add: Skdc_StartApplication_def configured_def Skdc_SetCryptoParams_def Skdc_SetTopology_def
        SetClusterId_def SkdcApplication_new_def SkdcState_new_def InitializeState_def Let_def
        ScheduleInitialBroadcast_def schedule_def)
      auto
qed

lemma run_carries_token:
  assumes "msb_law E" "wf_world W" "unat c < length (cp_clusters params)" "cp = cp_clusters params ! unat c"
    and "mkg_ok (cs_mkg (load_cluster cp))" "token_ok (cs_mkg (load_cluster cp)) (cs_mtoken (load_cluster cp))"
    and "wire_size E (cc_MT_K cp) < 2 ^ 32" "wire_size E (cc_N_group cp) < 2 ^ 32"
    and "Skdc_StartApplication (configured c node topo params) W = Inr st0" "env_sent W = []"
    and "skdc_reach E st0 (app, W')" "d \<in> set (env_sent W')" "dg_port d = 9200"
  shows "carries_token c (cc_MT_K cp) (cc_N_group cp) (dg_payload d)"
proof -
  obtain app0 W0 where st0: "st0 = (app0, W0)" by (cases st0)
  note start = configured_started[OF assms(9)[unfolded st0] assms(3), folded assms(4)]
  have "0 < cc_N_group cp"
    using assms(5,6) group_modulus_pos[of "cs_mkg (load_cluster cp)" "cc_user_indices cp"]
    by (simp add: token_ok_def load_cluster_def)
  then have "sendable E (sk_state app0)" using start assms(7,8) by (simp add: sendable_def)
  with skdc_reach_frame[OF assms(11)] start assms(1,2,10,12,13) show ?thesis
    by (auto simp: skdc_frame_def st0)
qed

text \<open>
  C24.  The token an SKDC broadcasts never changes: whatever joins, leaves, rekeys, TEK
  updates and packets an SKDC has processed since it started, every datagram it has
  sent to the MT\_K port parses to the token that crypto\_params.json had for its
  cluster.  So a UAV that was in the group at the start recovers the traffic key
  \<open>T\<close> from every broadcast, also from those sent after it has left or was revoked.
\<close>
theorem broadcasts_never_change:
  assumes "msb_law E" "powm_law E" "wf_world W" "unat c < length (cp_clusters params)"
    "cp = cp_clusters params ! unat c"
    and "mkg_ok (cs_mkg (load_cluster cp))" "token_ok (cs_mkg (load_cluster cp)) (cs_mtoken (load_cluster cp))"
    and "wire_size E (cc_MT_K cp) < 2 ^ 32" "wire_size E (cc_N_group cp) < 2 ^ 32"
    and "Skdc_StartApplication (configured c node topo params) W = Inr st0" "env_sent W = []"
    and "skdc_reach E st0 (app, W')" "d \<in> set (env_sent W')" "dg_port d = 9200"
  shows "\<exists>pkt. DeserializeNoHmac (dg_payload d) = Inr pkt \<and> mb_cluster_id (pk_body pkt) = c \<and>
    mb_mtk (pk_body pkt) = cc_MT_K cp \<and>
    (\<forall>s\<in>set (cc_slave_keys cp). sk_uav_index s \<in> set (cc_user_indices cp) \<longrightarrow>
       SlaveDecrypt E s (mb_mtk (pk_body pkt)) = Inr (cc_tek_int cp mod sk_n s))"
proof -
  have "carries_token c (cc_MT_K cp) (cc_N_group cp) (dg_payload d)"
    by (rule run_carries_token[OF assms(1,3-14)])
  then obtain pkt where pkt: "DeserializeNoHmac (dg_payload d) = Inr pkt" "mb_cluster_id (pk_body pkt) = c"
    "mb_mtk (pk_body pkt) = cc_MT_K cp" by (auto simp: carries_token_def)
  have "SlaveDecrypt E s (cc_MT_K cp) = Inr (cc_tek_int cp mod sk_n s)"
    if "s \<in> set (cc_slave_keys cp)" "sk_uav_index s \<in> set (cc_user_indices cp)" for s
    using SlaveDecrypt_eq[OF assms(2,6,7), of s] that by (simp add: load_cluster_def)
  with pkt show ?thesis by auto
qed

text \<open>A cluster with the demo keys of theory Crt\_Group, and a run with a leave.\<close>

definition demo_cluster :: "MTokenResult \<Rightarrow> ClusterCryptoEntry" where
  "demo_cluster tok =
     \<lparr> cc_cluster_id = 0, cc_skdc_id = 0, cc_num_uavs = 2, cc_eM = mk_eM demo_mkg, cc_n_total = mk_n_total demo_mkg,
       cc_N_global = 0, cc_N_group = mt_N_group tok, cc_tek = replicate 32 0, cc_tek_hex = [], cc_tek_int = mt_T tok,
       cc_MT_K = mt_MT_K tok, cc_e_MK = mt_e_MK tok, cc_user_indices = mt_user_indices tok,
       cc_slave_keys = mk_slaves demo_mkg \<rparr>"

definition demo_params :: "MTokenResult \<Rightarrow> CryptoParamsFile" where
  "demo_params tok =
     \<lparr> cp_scheme = [], cp_global_key_hex = [], cp_num_clusters = 1, cp_uavs_per_cluster = 2, cp_total_uavs = 2,
       cp_seed = 0, cp_clusters = [demo_cluster tok] \<rparr>"

definition demo_topo :: Topology where
  "demo_topo = \<lparr> tp_wifi_nodes = replicate 21 True, tp_skdc_nodes = replicate 3 True \<rparr>"

lemma wire_size_small: "msb_law E \<Longrightarrow> n < 2 ^ 64 \<Longrightarrow> wire_size E n < 2 ^ 32"
proof (cases "n > 0")
  case True
  assume "msb_law E" "n < 2 ^ 64"
  with True have "(2::int) ^ x_msb E n < 2 ^ 64" by (fastforce simp: msb_law_def intro: le_less_trans)
  then have "x_msb E n < 64" by (rule power_less_imp_less_exp[rotated]) simp
  with True show ?thesis by (simp add: wire_size_def)
qed (simp add: wire_size_def)

lemma demo_sizes: "n \<le> 77 \<Longrightarrow> wire_size toy_ext n < 2 ^ 32"
  by (rule wire_size_small[OF toy_msb_law]) simp

lemma demo_mkg_fields [simp]:
  "\<lparr> mk_eM = mk_eM demo_mkg, mk_n_total = mk_n_total demo_mkg, mk_slaves = mk_slaves demo_mkg \<rparr> = demo_mkg"
  by (cases demo_mkg) simp

lemma demo_cluster_ok:
  assumes "token_ok demo_mkg tok"
  shows "mkg_ok (cs_mkg (load_cluster (demo_cluster tok)))"
    "token_ok (cs_mkg (load_cluster (demo_cluster tok))) (cs_mtoken (load_cluster (demo_cluster tok)))"
  using demo_mkg_ok assms by (simp_all add: load_cluster_def demo_cluster_def token_ok_def)

lemma demo_token_small:
  assumes "token_ok demo_mkg tok" "mt_T tok = 42" "mt_user_indices tok = [0]"
  shows "mt_N_group tok = 77" "0 < mt_MT_K tok" "mt_MT_K tok < 77"
proof -
  show N: "mt_N_group tok = 77"
    using assms by (simp add: token_ok_def group_modulus_def demo_mkg_def demo_slave0_def demo_slave1_def
        in_group_def)
  then show "mt_MT_K tok < 77" using assms(1) by (simp add: token_ok_def)
  have "0 \<le> mt_MT_K tok" using assms(1) N by (simp add: token_ok_def)
  moreover have "SlaveDecrypt toy_ext demo_slave0 (mt_MT_K tok) = Inr 42"
    using SlaveDecrypt_eq[OF toy_powm demo_mkg_ok assms(1), of demo_slave0] assms(2,3)
    by (simp add: demo_mkg_def demo_slave0_def)
  then have "mt_MT_K tok \<noteq> 0"
    using ModPow_ok[OF toy_powm, of 0 37 77] by (auto simp: SlaveDecrypt_def demo_slave0_def)
  ultimately show "0 < mt_MT_K tok" by simp
qed

lemma TriggerRekey_sends:
  assumes "hmac_law E" "msb_law E" "wf_world W" "sendable E (sk_state app)"
  shows "\<exists>app' W'. Skdc_TriggerRekey E app reason W = Inr (app', W') \<and>
    (broadcasting app \<longrightarrow> (\<exists>d. env_sent W' = env_sent W @ [d] \<and> dg_port d = 9200))"
proof -
  let ?key = "x_hmac_sha256 E (sd_hmac_key (sk_state app))
    (sd_current_tek (sk_state app) @ be64 (env_micros W (env_reads W)))"
  let ?ver = "sd_rekey_version (sk_state app) + 1"
  let ?app = "app \<lparr> sk_rekey_count := sk_rekey_count app + 1,
      sk_state := (sk_state app) \<lparr> sd_rekey_version := ?ver,
         sd_current_tek := memcpy_key (sd_current_tek (sk_state app)) ?key \<rparr>,
      sk_rekey_send_times := (sk_rekey_send_times app)(?ver \<mapsto> env_now W),
      sk_rekey_ack_map := (sk_rekey_ack_map app)(?ver \<mapsto> []),
      sk_timers := sk_timers app @ [(env_now W + 5, TimerRekeyTimeout ?ver (length (sd_members (sk_state app))))] \<rparr>"
  have "Skdc_TriggerRekey E app reason W = BroadcastMtk E ?app (W \<lparr> env_reads := env_reads W + 1 \<rparr>)"
    using assms(1) by (simp add: Skdc_TriggerRekey_def NowEpochMicros_def Let_def schedule_def)
  moreover have "wf_world (W \<lparr> env_reads := env_reads W + 1 \<rparr>)" "sendable E (sk_state ?app)"
    using assms(3,4) by (simp_all add: wf_world_def sendable_def)
  note BroadcastMtk_returns[OF assms(2) this]
  ultimately show ?thesis by (simp add: broadcasting_def)
qed

lemma StartApplication_returns:
  "load_gk (sk_params app) (sk_gk app) = Inr gk \<Longrightarrow> \<exists>st. Skdc_StartApplication app W = Inr st"
  by (simp add: Skdc_StartApplication_def Let_def split: prod.split)

lemma demo_starts: "\<exists>st. Skdc_StartApplication (configured c node topo (demo_params tok)) W = Inr st"
  by (rule StartApplication_returns[of _ "replicate 32 0"])
    (simp add: configured_def Skdc_SetCryptoParams_def Skdc_SetTopology_def SetClusterId_def
      SkdcApplication_new_def load_gk_def demo_params_def)

text \<open>A concrete run: an SKDC starts, processes a leave and broadcasts.\<close>

lemma demo_leave_run:
  obtains tok app0 W0 app W' d where
    "token_ok demo_mkg tok" "mt_user_indices tok = [0]" "mt_T tok = 42"
    "Skdc_StartApplication (configured 0 1 demo_topo (demo_params tok)) demo_world = Inr (app0, W0)"
    "Skdc_ProcessLeave toy_ext app0 0 W0 = Inr (app, W')" "skdc_reach toy_ext (app0, W0) (app, W')"
    "d \<in> set (env_sent W')" "dg_port d = 9200"
    "wire_size toy_ext (cc_MT_K (demo_cluster tok)) < 2 ^ 32" "wire_size toy_ext (cc_N_group (demo_cluster tok)) < 2 ^ 32"
proof -
  obtain tok where tok: "token_ok demo_mkg tok" "mt_user_indices tok = [0]" "mt_T tok = 42" using demo_token by blast
  note small = demo_token_small[OF tok(1,3,2)]
  obtain app0 W0 where st0: "Skdc_StartApplication (configured 0 1 demo_topo (demo_params tok)) demo_world = Inr (app0, W0)"
    using demo_starts by (metis surj_pair)
  have c0: "cp_clusters (demo_params tok) = [demo_cluster tok]" by (simp add: demo_params_def)
  have start: "W0 = demo_world" "sk_wifi_socket app0" "sd_tek_received (sk_state app0)" "sd_mt_k (sk_state app0) = mt_MT_K tok"
    "sd_n_group (sk_state app0) = 77" "can_rekey app0"
    using configured_started[OF st0] small(1)
    by (simp_all add: c0 demo_cluster_def can_rekey_def)
  have "sendable toy_ext (sk_state app0)" "broadcasting app0"
    using start small demo_sizes[of "mt_MT_K tok"] demo_sizes[of 77] by (simp_all add: sendable_def broadcasting_def)
  then obtain app W' d where leave: "Skdc_ProcessLeave toy_ext app0 0 W0 = Inr (app, W')"
    and d: "d \<in> set (env_sent W')" "dg_port d = 9200"
    using TriggerRekey_sends[OF toy_hmac toy_msb_law, of W0 "upd_state (\<lambda>st. st \<lparr> sd_members := uset_erase 0 (sd_members st) \<rparr>) app0"]
      demo_world_wf start(1) by (fastforce simp: Skdc_ProcessLeave_def sendable_def broadcasting_def)
  have reach: "skdc_reach toy_ext (app0, W0) (app, W')"
    by (rule skdc_reach.step[OF skdc_reach.start skdc_step.leave[OF start(6) leave]])
  have sz: "wire_size toy_ext (cc_MT_K (demo_cluster tok)) < 2 ^ 32" "wire_size toy_ext (cc_N_group (demo_cluster tok)) < 2 ^ 32"
    using small demo_sizes[of "mt_MT_K tok"] demo_sizes[of 77] by (simp_all add: demo_cluster_def)
  show thesis by (rule that[OF tok st0 leave reach d sz])
qed

lemma broadcasts_never_change_witness:
  "\<exists>tok app0 W0 app W' d pkt.
    Skdc_StartApplication (configured 0 1 demo_topo (demo_params tok)) demo_world = Inr (app0, W0) \<and>
    Skdc_ProcessLeave toy_ext app0 0 W0 = Inr (app, W') \<and> d \<in> set (env_sent W') \<and>
    DeserializeNoHmac (dg_payload d) = Inr pkt \<and> SlaveDecrypt toy_ext demo_slave0 (mb_mtk (pk_body pkt)) = Inr 42"
proof -
  obtain tok app0 W0 app W' d where tok: "token_ok demo_mkg tok" "mt_user_indices tok = [0]" "mt_T tok = 42"
    and run: "Skdc_StartApplication (configured 0 1 demo_topo (demo_params tok)) demo_world = Inr (app0, W0)"
      "Skdc_ProcessLeave toy_ext app0 0 W0 = Inr (app, W')" "skdc_reach toy_ext (app0, W0) (app, W')"
      "d \<in> set (env_sent W')" "dg_port d = 9200"
    and sz: "wire_size toy_ext (cc_MT_K (demo_cluster tok)) < 2 ^ 32" "wire_size toy_ext (cc_N_group (demo_cluster tok)) < 2 ^ 32"
    by (rule demo_leave_run)
  have sent: "env_sent demo_world = []" by (simp add: demo_world_def)
  have len: "unat 0 < length (cp_clusters (demo_params tok))" and cp: "demo_cluster tok = cp_clusters (demo_params tok) ! unat 0"
    by (simp_all add: demo_params_def)
  obtain pkt where pkt: "DeserializeNoHmac (dg_payload d) = Inr pkt"
    "\<forall>s\<in>set (cc_slave_keys (demo_cluster tok)). sk_uav_index s \<in> set (cc_user_indices (demo_cluster tok)) \<longrightarrow>
       SlaveDecrypt toy_ext s (mb_mtk (pk_body pkt)) = Inr (cc_tek_int (demo_cluster tok) mod sk_n s)"
    using broadcasts_never_change[OF toy_msb_law toy_powm demo_world_wf len cp demo_cluster_ok[OF tok(1)] sz
        run(1) sent run(3,4,5)] by blast
  have "SlaveDecrypt toy_ext demo_slave0 (mb_mtk (pk_body pkt)) = Inr 42"
    using pkt(2) tok by (simp add: demo_cluster_def demo_mkg_def demo_slave0_def)
  with run(1,2,4) pkt(1) show ?thesis by blast
qed

end
