(* ===== verification/Skdc_Latency.thy ===== *)
theory Skdc_Latency
  imports Skdc_Runs
begin

text \<open>
  The measurement of the rekey latency in apps/uav-skdc-app.cc: every rekey is
  reported in the CSV exactly once, by the last acknowledgement or by the timeout
  of five seconds.
\<close>

section \<open>The bookkeeping invariant\<close>

type_synonym book =
  "u32 \<times> (u32 \<rightharpoonup> real) \<times> (u32 \<rightharpoonup> u32 uset) \<times> (real \<times> SkdcTimer) list \<times> CsvLine list \<times> real \<times> bool \<times> bool"

definition csv_rows :: "CsvLine list \<Rightarrow> CsvLine list" where
  "csv_rows csv = filter (\<lambda>l. l \<noteq> CsvHeader) csv"

definition reported :: "CsvLine list \<Rightarrow> u32 list" where
  "reported csv = map csv_version (csv_rows csv)"

definition row_ok :: "CsvLine \<Rightarrow> bool" where
  "row_ok r \<longleftrightarrow> csv_status r = ''OK'' \<and> 0 \<le> csv_latency_ms r \<and> csv_latency_ms r \<le> 5000 \<or>
     csv_status r = ''TIMEOUT'' \<and> csv_latency_ms r = 5000"

definition timers_ok :: "u32 \<Rightarrow> (u32 \<rightharpoonup> real) \<Rightarrow> real \<Rightarrow> (real \<times> SkdcTimer) list \<Rightarrow> bool" where
  "timers_ok ver sent now timers \<longleftrightarrow>
     (\<forall>t tm. (t, tm) \<in> set timers \<longrightarrow> now \<le> t) \<and>
     (\<forall>t v n. (t, TimerRekeyTimeout v n) \<in> set timers \<longrightarrow> v \<le> ver \<and> (\<forall>s. sent v = Some s \<longrightarrow> t = s + 5)) \<and>
     (\<forall>v s. sent v = Some s \<longrightarrow> s \<le> now \<and> (\<exists>n. (s + 5, TimerRekeyTimeout v n) \<in> set timers))"

definition reports_ok :: "u32 \<Rightarrow> (u32 \<rightharpoonup> real) \<Rightarrow> CsvLine list \<Rightarrow> bool" where
  "reports_ok ver sent csv \<longleftrightarrow> distinct (reported csv) \<and> dom sent \<subseteq> {2..ver} \<and>
     set (reported csv) = {2..ver} - dom sent \<and> list_all row_ok (csv_rows csv)"

definition book_inv :: "book \<Rightarrow> bool" where
  "book_inv b \<longleftrightarrow> (case b of (ver, sent, acks, timers, csv, now, opens, hdr) \<Rightarrow>
     opens \<and> 1 \<le> ver \<and> timers_ok ver sent now timers \<and> reports_ok ver sent csv)"

lemma next_version:
  assumes "1 \<le> (ver :: u32)" "ver \<noteq> 0xFFFFFFFF"
  shows "{2..ver + 1} = insert (ver + 1) {2..ver}" "ver + 1 \<notin> {2..ver}" "1 \<le> ver + 1" "ver \<le> ver + 1"
    "v \<le> ver \<Longrightarrow> v \<noteq> ver + 1 \<and> v \<le> ver + 1"
proof -
  have "unat ver \<noteq> 0xFFFFFFFF" using assms(2) by (simp add: word_unat_eq_iff)
  moreover have "unat ver < 2 ^ 32" using unsigned_less[where 'a = nat, of ver] by simp
  ultimately have u: "unat (ver + 1) = unat ver + 1"
    by (simp add: unat_word_ariths)
  show "{2..ver + 1} = insert (ver + 1) {2..ver}"
    using assms(1) by (auto simp: word_le_nat_alt word_unat_eq_iff u)
  show "ver + 1 \<notin> {2..ver}" "v \<le> ver \<Longrightarrow> v \<noteq> ver + 1 \<and> v \<le> ver + 1" "1 \<le> ver + 1" "ver \<le> ver + 1"
    using assms(1) by (auto simp: word_le_nat_alt u word_unat_eq_iff)
qed

lemma reported_simps [simp]:
  "reported [] = []"
  "reported (csv @ [CsvHeader]) = reported csv"
  "reported (csv @ [CsvRow t c st l v m k]) = reported csv @ [v]"
  "csv_rows (csv @ [CsvHeader]) = csv_rows csv"
  "csv_rows (csv @ [CsvRow t c st l v m k]) = csv_rows csv @ [CsvRow t c st l v m k]"
  by (simp_all add: reported_def csv_rows_def)

lemma distinct_count_list: "distinct xs \<Longrightarrow> count_list xs x = (if x \<in> set xs then 1 else 0)"
  by (induction xs) auto

text \<open>Time passes, a rekey, a report, a timer that goes.\<close>

lemma book_pass:
  "book_inv (ver, sent, acks, timers, csv, now, opens, hdr) \<Longrightarrow> now \<le> t \<Longrightarrow>
   (\<And>s tm. (s, tm) \<in> set timers \<Longrightarrow> t \<le> s) \<Longrightarrow> book_inv (ver, sent, acks, timers, csv, t, opens, hdr)"
  by (fastforce simp: book_inv_def timers_ok_def)

lemma timers_ok_snoc:
  "timers_ok ver sent now timers \<Longrightarrow> now \<le> t \<Longrightarrow> (\<And>v n. tm \<noteq> TimerRekeyTimeout v n) \<Longrightarrow>
   timers_ok ver sent now (timers @ [(t, tm)])"
  by (cases tm) (auto simp: timers_ok_def)

lemma book_timer:
  "book_inv (ver, sent, acks, timers, csv, now, opens, hdr) \<Longrightarrow> now \<le> t \<Longrightarrow> (\<And>v n. tm \<noteq> TimerRekeyTimeout v n) \<Longrightarrow>
   book_inv (ver, sent, acks, timers @ [(t, tm)], csv, now, opens, hdr)"
  by (auto simp: book_inv_def intro: timers_ok_snoc)

lemma timers_ok_subset:
  assumes "timers_ok ver sent now timers" "set rest \<subseteq> set timers"
    and "\<And>s v n. (s, TimerRekeyTimeout v n) \<in> set timers \<Longrightarrow> sent v \<noteq> None \<Longrightarrow> (s, TimerRekeyTimeout v n) \<in> set rest"
  shows "timers_ok ver sent now rest"
  using assms unfolding timers_ok_def by blast

lemma book_rekey:
  assumes "book_inv (ver, sent, acks, timers, csv, now, opens, hdr)" "ver \<noteq> 0xFFFFFFFF"
  shows "book_inv (ver + 1, sent(ver + 1 \<mapsto> now), acks', timers @ [(now + 5, TimerRekeyTimeout (ver + 1) n)],
    csv, now, opens, hdr)"
proof -
  have inv: "opens" "1 \<le> ver" "timers_ok ver sent now timers" "reports_ok ver sent csv"
    using assms(1) by (simp_all add: book_inv_def)
  note nv = next_version[OF inv(2) assms(2)]
  have "timers_ok (ver + 1) (sent(ver + 1 \<mapsto> now)) now (timers @ [(now + 5, TimerRekeyTimeout (ver + 1) n)])"
    using inv(3) next_version(5)[OF inv(2) assms(2)] unfolding timers_ok_def by (auto 0 3)
  moreover have "reports_ok (ver + 1) (sent(ver + 1 \<mapsto> now)) csv"
    using inv(4) nv(1,2) by (auto simp: reports_ok_def)
  ultimately show ?thesis using inv nv(3) by (simp add: book_inv_def)
qed

lemma book_report:
  assumes "book_inv (ver, sent, acks, timers, csv, now, opens, hdr)" "sent v = Some s"
    and "csv' = csv \<or> csv' = csv @ [CsvHeader]" "row_ok (CsvRow t c st l v m k)"
  shows "book_inv (ver, sent(v := None), acks', timers, csv' @ [CsvRow t c st l v m k], now, opens, hdr')"
proof -
  have inv: "opens" "1 \<le> ver" "timers_ok ver sent now timers" "reports_ok ver sent csv"
    using assms(1) by (simp_all add: book_inv_def)
  have "timers_ok ver (sent(v := None)) now timers"
    using inv(3) by (auto simp: timers_ok_def)
  moreover have "reports_ok ver (sent(v := None)) (csv' @ [CsvRow t c st l v m k])"
    using inv(4) assms(2-4) by (auto simp: reports_ok_def)
  ultimately show ?thesis using inv by (simp add: book_inv_def)
qed

lemma set_drop_nth: "k < length xs \<Longrightarrow> set xs = insert (xs ! k) (set (take k xs @ drop (Suc k) xs))"
  by (subst id_take_nth_drop, assumption) auto

lemma book_gone:
  assumes "book_inv (ver, sent, acks, timers, csv, now, opens, hdr)" "k < length timers"
    and "\<And>v n. snd (timers ! k) = TimerRekeyTimeout v n \<Longrightarrow> sent v = None"
  shows "book_inv (ver, sent, acks, take k timers @ drop (Suc k) timers, csv, now, opens, hdr)"
proof -
  define rest where "rest = take k timers @ drop (Suc k) timers"
  have set: "set timers = insert (timers ! k) (set rest)" unfolding rest_def by (rule set_drop_nth[OF assms(2)])
  have "timers_ok ver sent now rest"
  proof (rule timers_ok_subset)
    show "timers_ok ver sent now timers" using assms(1) by (simp add: book_inv_def)
    show "set rest \<subseteq> set timers" using set by blast
    show "(s, TimerRekeyTimeout v n) \<in> set rest"
      if "(s, TimerRekeyTimeout v n) \<in> set timers" "sent v \<noteq> None" for s v n
      using that assms(3)[of v n] set by (auto dest: sym[of _ "timers ! k"])
  qed
  then show ?thesis using assms(1) by (simp add: book_inv_def rest_def)
qed

section \<open>Every step keeps the invariant\<close>

lemma rekeyed_book_inv:
  assumes "book_inv (books (app, W))" "can_rekey app" "rekeyed (app1, W) st'"
    and "sd_rekey_version (sk_state app1) = sd_rekey_version (sk_state app)"
      "sk_rekey_send_times app1 = sk_rekey_send_times app" "sk_timers app1 = sk_timers app"
  shows "book_inv (books st')"
proof -
  let ?ver = "sd_rekey_version (sk_state app)"
  have "books st' = (?ver + 1, (sk_rekey_send_times app)(?ver + 1 \<mapsto> env_now W), (sk_rekey_ack_map app1)(?ver + 1 \<mapsto> []),
      sk_timers app @ [(env_now W + 5, TimerRekeyTimeout (?ver + 1) (length (sd_members (sk_state app1))))],
      env_csv W, env_now W, env_csv_opens W, env_csv_header_written W)"
    using assms(3-) by (simp add: rekeyed_def Let_def)
  with assms(1,2) show ?thesis by (simp add: books_def can_rekey_def book_rekey)
qed

lemma pending_time:
  assumes "book_inv (books (app, W))" "sk_rekey_send_times app v = Some s"
  shows "s \<le> env_now W \<and> env_now W \<le> s + 5"
proof -
  have "timers_ok (sd_rekey_version (sk_state app)) (sk_rekey_send_times app) (env_now W) (sk_timers app)"
    using assms(1) by (simp add: book_inv_def books_def)
  with assms(2) show ?thesis unfolding timers_ok_def by blast
qed

lemma timer_time:
  assumes "book_inv (books (app, W))" "(t, tm) \<in> set (sk_timers app)"
  shows "env_now W \<le> t"
proof -
  have "timers_ok (sd_rekey_version (sk_state app)) (sk_rekey_send_times app) (env_now W) (sk_timers app)"
    using assms(1) by (simp add: book_inv_def books_def)
  with assms(2) show ?thesis unfolding timers_ok_def by blast
qed

text \<open>Writing the row of a pending rekey and forgetting the rekey.\<close>

lemma report_book_inv:
  assumes "book_inv (books (app, W))" "sk_rekey_send_times app v = Some s"
    and "row_ok (CsvRow s (sk_cluster_id app) status lat v (of_nat n) (512 * of_nat n))"
    and "sd_rekey_version (sk_state app') = sd_rekey_version (sk_state app)" "sk_rekey_send_times app' = sk_rekey_send_times app"
      "sk_timers app' = sk_timers app" "sk_cluster_id app' = sk_cluster_id app"
  shows "book_inv (books (erase_rekey v app', WriteRekeyLatencyCsv app' v s lat n status W))"
proof -
  have "env_csv_opens W" using assms(1) by (simp add: books_def book_inv_def)
  moreover note book_report[OF assms(1)[unfolded books_def prod.case] assms(2) _ assms(3), of "env_csv W" _ True]
    book_report[OF assms(1)[unfolded books_def prod.case] assms(2) _ assms(3), of "env_csv W @ [CsvHeader]" _ True]
  ultimately show ?thesis
    using assms(4-) by (simp add: books_def erase_rekey_def WriteRekeyLatencyCsv_def)
qed

lemma OnUavRekeyAck_book_inv:
  assumes "book_inv (books (app, W))"
  shows "book_inv (books (OnUavRekeyAck app u v W))"
proof (cases "sk_rekey_send_times app v")
  case None
  then show ?thesis using assms by (simp add: OnUavRekeyAck_def)
next
  case (Some s)
  define acks where "acks = uset_insert u (case sk_rekey_ack_map app v of None \<Rightarrow> [] | Some s \<Rightarrow> s)"
  define app' where "app' = app \<lparr> sk_rekey_ack_map := (sk_rekey_ack_map app)(v \<mapsto> acks) \<rparr>"
  define lat where "lat = (env_now W - s) * 1000"
  have "0 \<le> lat" "lat \<le> 5000" using pending_time[OF assms Some] by (simp_all add: lat_def)
  then have row: "row_ok (CsvRow s (sk_cluster_id app) ''OK'' lat v n k)" for n k by (simp add: row_ok_def)
  have "book_inv (books (erase_rekey v app', WriteRekeyLatencyCsv app' v s lat n ''OK'' W))" for n
    by (rule report_book_inv[OF assms Some row]) (simp_all add: app'_def)
  moreover have "book_inv (books (app', W))"
    using assms by (simp add: books_def app'_def book_inv_def)
  ultimately show ?thesis
    by (simp add: OnUavRekeyAck_def Some Let_def app'_def acks_def lat_def)
qed

lemma gone_book_inv:
  "book_inv (books (app, W)) \<Longrightarrow> k < length (sk_timers app) \<Longrightarrow>
   (\<And>v n. snd (sk_timers app ! k) = TimerRekeyTimeout v n \<Longrightarrow> sk_rekey_send_times app v = None) \<Longrightarrow>
   book_inv (books (app \<lparr> sk_timers := take k (sk_timers app) @ drop (Suc k) (sk_timers app) \<rparr>, W))"
  unfolding books_def by simp (rule book_gone)

lemma WriteRekeyLatencyCsv_timers [simp]:
  "WriteRekeyLatencyCsv (app \<lparr> sk_timers := ts \<rparr>) = WriteRekeyLatencyCsv app"
  by (intro ext) (simp add: WriteRekeyLatencyCsv_def)

lemma RekeyTimeout_book_inv:
  assumes "book_inv (books (app, W))" "k < length (sk_timers app)" "sk_timers app ! k = (env_now W, TimerRekeyTimeout v n)"
  shows "book_inv (books (RekeyTimeout (app \<lparr> sk_timers := take k (sk_timers app) @ drop (Suc k) (sk_timers app) \<rparr>) v n W))"
proof (cases "sk_rekey_send_times app v")
  case None
  with assms gone_book_inv[OF assms(1,2)] show ?thesis by (simp add: RekeyTimeout_def)
next
  case (Some s)
  define app1 where "app1 = erase_rekey v app"
  define W1 where "W1 = WriteRekeyLatencyCsv app v s ((env_now W - s) * 1000) n ''TIMEOUT'' W"
  have "(env_now W, TimerRekeyTimeout v n) \<in> set (sk_timers app)" using assms(2,3) by (metis nth_mem)
  then have "env_now W = s + 5" using assms(1) Some unfolding book_inv_def books_def timers_ok_def by auto
  then have "row_ok (CsvRow s (sk_cluster_id app) ''TIMEOUT'' ((env_now W - s) * 1000) v (of_nat n) (512 * of_nat n))"
    by (simp add: row_ok_def)
  from report_book_inv[OF assms(1) Some this refl refl refl refl] have "book_inv (books (app1, W1))"
    by (simp add: app1_def W1_def)
  then have "book_inv (books (app1 \<lparr> sk_timers := take k (sk_timers app1) @ drop (Suc k) (sk_timers app1) \<rparr>, W1))"
    using assms(2,3) by (intro gone_book_inv) (auto simp: app1_def erase_rekey_def)
  then show ?thesis using Some by (simp add: RekeyTimeout_def Let_def app1_def W1_def erase_rekey_def books_def)
qed

lemma periodic_book_inv:
  "book_inv (books (app, W)) \<Longrightarrow>
   book_inv (books (app \<lparr> sk_timers := sk_timers app @ [(env_now W + 10, TimerPeriodic)] \<rparr>, W))"
  unfolding books_def by simp (rule book_timer, auto)

lemma Skdc_fire_book_inv:
  assumes "book_inv (books (app, W))" "k < length (sk_timers app)" "sk_timers app ! k = (env_now W, timer)"
    and "Skdc_fire E (app \<lparr> sk_timers := take k (sk_timers app) @ drop (Suc k) (sk_timers app) \<rparr>) timer W = Inr st"
  shows "book_inv (books st)"
proof -
  let ?app = "app \<lparr> sk_timers := take k (sk_timers app) @ drop (Suc k) (sk_timers app) \<rparr>"
  have gone: "book_inv (books (?app, W))" if "\<And>v n. timer \<noteq> TimerRekeyTimeout v n"
    using gone_book_inv[OF assms(1,2)] assms(3) that by simp
  show ?thesis
  proof (cases timer)
    case TimerBroadcast
    then show ?thesis using gone assms(4) BroadcastMtk_quiet[of E ?app W st]
      by (simp add: Skdc_fire_def quiet_step_def)
  next
    case TimerPeriodic
    then have "PeriodicBroadcast E ?app W = Inr st" using assms(4) by (simp add: Skdc_fire_def)
    from PeriodicBroadcast_effect[OF this] obtain app' W' where "quiet_step E (?app, W) (app', W')"
      and st: "st = (app' \<lparr> sk_timers := sk_timers app' @ [(env_now W' + 10, TimerPeriodic)] \<rparr>, W')" by blast
    then have "book_inv (books (app', W'))" using gone TimerPeriodic by (simp add: quiet_step_def)
    then show ?thesis unfolding st by (rule periodic_book_inv)
  next
    case (TimerRekeyTimeout v n)
    then show ?thesis using RekeyTimeout_book_inv[OF assms(1,2), of v n] assms(3,4)
      by (auto simp: Skdc_fire_def)
  qed
qed

lemma pass_book_inv:
  "book_inv (books (app, W)) \<Longrightarrow> env_now W \<le> t \<Longrightarrow> due t app \<Longrightarrow> book_inv (books (app, W \<lparr> env_now := t \<rparr>))"
  by (auto simp: books_def due_def intro: book_pass)

lemma quiet_book_inv: "quiet_step E st st' \<Longrightarrow> book_inv (books st) \<Longrightarrow> book_inv (books st')"
  by (simp add: quiet_step_def)

lemma skdc_step_book_inv:
  "skdc_step E st st' \<Longrightarrow> book_inv (books st) \<Longrightarrow> book_inv (books st')"
proof (induction rule: skdc_step.induct)
  case (trigger app reason W st)
  show ?case
    by (rule rekeyed_book_inv[OF trigger(3,1) TriggerRekey_effect[OF trigger(2), THEN conjunct2]]) simp_all
next
  case (join app u i W st)
  show ?case
    by (rule rekeyed_book_inv[OF join(3,1) ProcessJoin_effect[OF join(2), THEN conjunct2]]) simp_all
next
  case (leave app u W st)
  show ?case
    by (rule rekeyed_book_inv[OF leave(3,1) ProcessLeave_effect'[OF leave(2), THEN conjunct2]]) simp_all
next
  case (ack app buf W st)
  consider "st = (app, W)" | p u i where "Skdc_ProcessJoin E (app \<lparr> sk_pending_ho := p \<rparr>) u i W = Inr st"
    using key_ack_effect[OF ack(2)] by blast
  then show ?case
  proof cases
    case 2
    show ?thesis
      by (rule rekeyed_book_inv[OF ack(3,1) ProcessJoin_effect[OF 2, THEN conjunct2]]) simp_all
  qed (use ack in simp)
next
  case (rekey_ack app u v W)
  then show ?case by (rule OnUavRekeyAck_book_inv)
next
  case (stop app W)
  then show ?case by (simp add: books_def Skdc_StopApplication_def)
next
  case (fire k app t timer W st)
  have "(t, timer) \<in> set (sk_timers app)" using fire(1,2) by (metis nth_mem)
  with timer_time[OF fire(5)] have "book_inv (books (app, W \<lparr> env_now := t \<rparr>))"
    using pass_book_inv[OF fire(5) _ fire(3)] by blast
  from Skdc_fire_book_inv[OF this fire(1) _ fire(4)] show ?case using fire(2) by simp
next
  case (pass W t app)
  then show ?case by (intro pass_book_inv)
next
  case (update_tek app tek W st)
  then show ?case using UpdateTek_quiet quiet_book_inv by blast
next
  case (kdc buf app W st)
  then show ?case using from_kdc_quiet quiet_book_inv by blast
next
  case (data app W buf)
  then show ?case using data_from_uav_quiet quiet_book_inv by blast
next
  case (slave_fwd buf app W st)
  then show ?case using slave_key_fwd_quiet quiet_book_inv by blast
qed

lemma skdc_reach_book_inv: "skdc_reach E st0 st \<Longrightarrow> book_inv (books st0) \<Longrightarrow> book_inv (books st)"
  by (induction rule: skdc_reach.induct) (auto intro: skdc_step_book_inv)

section \<open>Every rekey is reported once\<close>

text \<open>
  C27.  An SKDC that is started with an empty CSV that it can open reports each of
  its rekeys exactly once, whatever happens to it: version 1 and the versions to come have
  no row, and a version between 2 and the current one either is pending, was sent at
  most five seconds ago and has no row, or has exactly one.  A row is either OK with a latency
  between 0 and 5000 ms or TIMEOUT with 5000 ms.
\<close>
theorem rekey_reported_once:
  assumes "Skdc_StartApplication (configured c node topo params) W = Inr st0" "unat c < length (cp_clusters params)"
    and "env_csv_opens W" "env_csv W = []" "skdc_reach E st0 (app, W')"
  shows "(\<forall>v. count_list (reported (env_csv W')) v =
      (if 2 \<le> v \<and> v \<le> sd_rekey_version (sk_state app) \<and> sk_rekey_send_times app v = None then 1 else 0)) \<and>
    (\<forall>v s. sk_rekey_send_times app v = Some s \<longrightarrow>
      2 \<le> v \<and> v \<le> sd_rekey_version (sk_state app) \<and> s \<le> env_now W' \<and> env_now W' \<le> s + 5) \<and>
    (\<forall>r\<in>set (csv_rows (env_csv W')).
      csv_status r = ''OK'' \<and> 0 \<le> csv_latency_ms r \<and> csv_latency_ms r \<le> 5000 \<or>
      csv_status r = ''TIMEOUT'' \<and> csv_latency_ms r = 5000)"
proof -
  obtain app0 W0 where st0: "st0 = (app0, W0)" by (cases st0)
  note start = configured_started[OF assms(1)[unfolded st0] assms(2)]
  have "reported [] = []" by (simp add: reported_def csv_rows_def)
  moreover have "{2..1 :: u32} = {}" by auto
  ultimately have "book_inv (books st0)"
    using start assms(3,4) by (simp add: st0 books_def book_inv_def timers_ok_def reports_ok_def csv_rows_def)
  with skdc_reach_book_inv[OF assms(5)] have inv: "book_inv (books (app, W'))" by blast
  then have rep: "reports_ok (sd_rekey_version (sk_state app)) (sk_rekey_send_times app) (env_csv W')"
    by (simp add: book_inv_def books_def)
  then show ?thesis
    using pending_time[OF inv] by (auto simp: reports_ok_def distinct_count_list list_all_iff row_ok_def)
qed

text \<open>A run in which UAV 0 leaves and nobody acknowledges the rekey.\<close>

lemma BroadcastMtk_sendable:
  "msb_law E \<Longrightarrow> wf_world W \<Longrightarrow> sendable E (sk_state app) \<Longrightarrow> \<exists>st. BroadcastMtk E app W = Inr st"
  using BroadcastMtk_returns by blast

lemma unanswered_leave:
  assumes "hmac_law E" "msb_law E" "wf_world W0" "sendable E (sk_state app0)" "can_rekey app0"
    and "sk_timers app0 = [(env_now W0 + 2, TimerBroadcast)]" "ver = sd_rekey_version (sk_state app0) + 1"
  shows "\<exists>app W. skdc_reach E (app0, W0) (app, W) \<and> sd_rekey_version (sk_state app) = ver \<and>
    sk_rekey_send_times app ver = None"
proof -
  define ms where "ms = uset_erase 0 (sd_members (sk_state app0))"
  define left where "left = upd_state (\<lambda>st. st \<lparr> sd_members := ms \<rparr>) app0"
  have "sendable E (sk_state left)" using assms(4) by (simp add: sendable_def left_def)
  from TriggerRekey_sends[OF assms(1-3) this] obtain app1 W1
    where 1: "Skdc_ProcessLeave E app0 0 W0 = Inr (app1, W1)"
    by (fastforce simp: Skdc_ProcessLeave_def left_def ms_def)
  from ProcessLeave_effect'[OF 1] have f1: "skdc_frame E (app0, W0) (app1, W1)"
    and b1: "sd_rekey_version (sk_state app1) = ver" "env_now W1 = env_now W0"
      "sk_timers app1 = [(env_now W0 + 2, TimerBroadcast), (env_now W0 + 5, TimerRekeyTimeout ver (length ms))]"
    using assms(6,7) by (simp_all add: rekeyed_def books_def Let_def ms_def)
  define app1' where "app1' = app1 \<lparr> sk_timers := [(env_now W0 + 5, TimerRekeyTimeout ver (length ms))] \<rparr>"
  have "wf_world W1" "sendable E (sk_state app1)"
    using assms(3,4) f1 by (simp_all add: skdc_frame_def wf_world_def sendable_def)
  then obtain app2 W2 where 2: "BroadcastMtk E app1' (W1 \<lparr> env_now := env_now W0 + 2 \<rparr>) = Inr (app2, W2)"
    using BroadcastMtk_sendable[OF assms(2), of "W1 \<lparr> env_now := env_now W0 + 2 \<rparr>" app1']
    by (fastforce simp: sendable_def wf_world_def app1'_def)
  have b2: "sd_rekey_version (sk_state app2) = ver" "sk_timers app2 = [(env_now W0 + 5, TimerRekeyTimeout ver (length ms))]"
    using BroadcastMtk_quiet[OF 2] b1(1) by (simp_all add: quiet_step_def books_def app1'_def)
  define st3 where "st3 = RekeyTimeout (app2 \<lparr> sk_timers := [] \<rparr>) ver (length ms) (W2 \<lparr> env_now := env_now W0 + 5 \<rparr>)"
  have "skdc_step E (app0, W0) (app1, W1)" by (rule skdc_step.leave[OF assms(5) 1])
  moreover have "skdc_step E (app1, W1) (app2, W2)"
    by (rule skdc_step.fire[of 0 _ "env_now W0 + 2" TimerBroadcast])
      (use 2 b1(3) in \<open>simp_all add: due_def Skdc_fire_def app1'_def\<close>)
  moreover have "skdc_step E (app2, W2) st3"
    by (rule skdc_step.fire[of 0 _ "env_now W0 + 5" "TimerRekeyTimeout ver (length ms)"])
      (use b2 in \<open>simp_all add: due_def Skdc_fire_def st3_def\<close>)
  ultimately have "skdc_reach E (app0, W0) st3" by (meson skdc_reach.intros)
  moreover have "sd_rekey_version (sk_state (fst st3)) = ver" "sk_rekey_send_times (fst st3) ver = None"
    using b2 by (simp_all add: st3_def RekeyTimeout_def erase_rekey_def Let_def split: option.split)
  ultimately show ?thesis by (metis prod.collapse)
qed

lemma rekey_reported_once_witness:
  "\<exists>tok st0 app W'. Skdc_StartApplication (configured 0 1 demo_topo (demo_params tok)) demo_world = Inr st0 \<and>
    skdc_reach toy_ext st0 (app, W') \<and> count_list (reported (env_csv W')) 2 = 1 \<and> count_list (reported (env_csv W')) 3 = 0"
proof -
  obtain tok where tok: "token_ok demo_mkg tok" "mt_user_indices tok = [0]" "mt_T tok = 42" using demo_token by blast
  note small = demo_token_small[OF tok(1,3,2)]
  obtain app0 W0 where st0: "Skdc_StartApplication (configured 0 1 demo_topo (demo_params tok)) demo_world = Inr (app0, W0)"
    using demo_starts by fastforce
  have len: "unat 0 < length (cp_clusters (demo_params tok))" by (simp add: demo_params_def)
  have start: "W0 = demo_world" "sk_timers app0 = [(env_now W0 + 2, TimerBroadcast)]"
    "sendable toy_ext (sk_state app0)" "can_rekey app0" "sd_rekey_version (sk_state app0) + 1 = 2"
    using configured_started[OF st0 len] small demo_sizes[of "mt_MT_K tok"] demo_sizes[of 77]
    by (simp_all add: demo_params_def demo_cluster_def can_rekey_def sendable_def)
  obtain app W' where reach: "skdc_reach toy_ext (app0, W0) (app, W')" and v: "sd_rekey_version (sk_state app) = 2"
    "sk_rekey_send_times app 2 = None"
    using unanswered_leave[OF toy_hmac toy_msb_law _ start(3,4,2)] demo_world_wf start(1,5) by metis
  have csv: "env_csv_opens demo_world" "env_csv demo_world = []" by (simp_all add: demo_world_def)
  from rekey_reported_once[OF st0 len csv reach] v
  have "count_list (reported (env_csv W')) 2 = 1" "count_list (reported (env_csv W')) 3 = 0" by simp_all
  with st0 reach show ?thesis by blast
qed

end
