(* ===== verification/Multicast_Manager.thy ===== *)
theory Multicast_Manager
  imports Crt_Group Sim_World
begin

text \<open>
  apps/uav-multicast-manager.cc: the key server's view of the three multicast
  groups.  It keeps for each cluster the member indices and the token, and runs
  JoKeyUpdate and LeKeyUpdate when a member comes or goes.  Times are passed in
  (\<open>Simulator::Now()\<close>), the rekey callback is the list of its calls, and an access
  to a missing parameter set or cluster is undefined behaviour (\<open>None\<close>).
\<close>

section \<open>State\<close>

record MulticastGroupInfo =
  mg_cluster_id :: u32
  mg_members :: "u32 uset"
  mg_version :: u32
  mg_mt_k :: int
  mg_n_group :: int
  mg_e_mk :: int
  mg_active :: bool

datatype MembershipType = ME_JOIN | ME_LEAVE | ME_HANDOVER

record MembershipEvent =
  me_type :: MembershipType
  me_uav_id :: u32
  me_uav_index :: u32
  me_cluster_id :: u32
  me_time_s :: real

record MulticastManager =
  mc_params :: "CryptoParamsFile option"
  mc_groups :: "MulticastGroupInfo list"
  mc_mkg :: "MKeyGenResult list"
  mc_events :: "MembershipEvent list"
  mc_rekey_cb :: "(u32 \<times> int \<times> u32) list option"
  mc_joins :: u64
  mc_leaves :: u64
  mc_rekeys :: u64

definition MulticastGroupInfo_new :: MulticastGroupInfo where
  "MulticastGroupInfo_new =
     \<lparr> mg_cluster_id = 0, mg_members = [], mg_version = 1, mg_mt_k = 0, mg_n_group = 0, mg_e_mk = 0,
       mg_active = False \<rparr>"

definition Mg_IsMember :: "MulticastGroupInfo \<Rightarrow> u32 \<Rightarrow> bool" where
  "Mg_IsMember g uav_index \<longleftrightarrow> uav_index \<in> set (mg_members g)"

definition Mg_Size :: "MulticastGroupInfo \<Rightarrow> u32" where
  "Mg_Size g = of_nat (length (mg_members g))"

definition MulticastManager_new :: "CryptoParamsFile option \<Rightarrow> MulticastManager" where
  "MulticastManager_new params =
     \<lparr> mc_params = params, mc_groups = replicate 3 MulticastGroupInfo_new,
       mc_mkg = replicate 3 \<lparr> mk_eM = 0, mk_n_total = 0, mk_slaves = [] \<rparr>,
       mc_events = [], mc_rekey_cb = None, mc_joins = 0, mc_leaves = 0, mc_rekeys = 0 \<rparr>"

definition Mc_SetRekeyCallback :: "MulticastManager \<Rightarrow> MulticastManager" where
  "Mc_SetRekeyCallback mc = mc \<lparr> mc_rekey_cb := Some [] \<rparr>"

section \<open>Initialization\<close>

definition init_group :: "nat \<Rightarrow> ClusterCryptoEntry \<Rightarrow> MulticastGroupInfo \<Rightarrow> MulticastGroupInfo" where
  "init_group c cp g =
     (let g = g \<lparr> mg_cluster_id := of_nat c, mg_mt_k := cc_MT_K cp, mg_n_group := cc_N_group cp,
                  mg_e_mk := cc_e_MK cp, mg_version := 1, mg_active := True \<rparr>;
          base = of_nat c * 6
      in g \<lparr> mg_members := foldl (\<lambda>ms u. uset_insert (base + u) ms) (mg_members g) [0, 1, 2, 3, 4, 5] \<rparr>)"

function (sequential) mc_init_loop :: "ClusterCryptoEntry list \<Rightarrow> nat \<Rightarrow> MulticastManager \<Rightarrow> MulticastManager" where
  "mc_init_loop clusters c mc =
     (if \<not> c < 3 then mc
      else if c \<ge> length clusters then mc
      else
        let cp = clusters ! c;
            g = init_group c cp (mc_groups mc ! c);
            mkg = \<lparr> mk_eM = cc_eM cp, mk_n_total = cc_n_total cp, mk_slaves = cc_slave_keys cp \<rparr>
        in mc_init_loop clusters (c + 1)
             (mc \<lparr> mc_groups := (mc_groups mc)[c := g], mc_mkg := (mc_mkg mc)[c := mkg] \<rparr>))"
  by pat_completeness auto
termination by (relation "measure (\<lambda>(clusters, c, mc). 3 - c)") auto

declare mc_init_loop.simps [simp del]

definition Mc_Initialize :: "MulticastManager \<Rightarrow> MulticastManager" where
  "Mc_Initialize mc =
     (case mc_params mc of None \<Rightarrow> mc | Some params \<Rightarrow> mc_init_loop (cp_clusters params) 0 mc)"

section \<open>Membership\<close>

definition RecordEvent ::
    "MembershipType \<Rightarrow> u32 \<Rightarrow> u32 \<Rightarrow> u32 \<Rightarrow> real \<Rightarrow> MulticastManager \<Rightarrow> MulticastManager" where
  "RecordEvent type uav_id uav_index cluster_id now mc =
     mc \<lparr> mc_events := mc_events mc @
       [\<lparr> me_type = type, me_uav_id = uav_id, me_uav_index = uav_index, me_cluster_id = cluster_id, me_time_s = now \<rparr>] \<rparr>"

definition Mc_DoRekey :: "u32 \<Rightarrow> MTokenResult \<Rightarrow> MulticastManager \<Rightarrow> MulticastManager" where
  "Mc_DoRekey cluster_id result mc =
     (case mc_rekey_cb mc of
        None \<Rightarrow> mc
      | Some calls \<Rightarrow> mc \<lparr> mc_rekey_cb := Some (calls @ [(cluster_id, mt_MT_K result, mt_version result)]) \<rparr>)"

text \<open>The token both updates start from.\<close>

definition mc_current :: "MulticastManager \<Rightarrow> u32 \<Rightarrow> MTokenResult option" where
  "mc_current mc cluster_id =
     (let g = mc_groups mc ! unat cluster_id in
      case mc_params mc of
        None \<Rightarrow> None
      | Some params \<Rightarrow>
          if unat cluster_id \<ge> length (cp_clusters params) then None
          else Some \<lparr> mt_MT_K = mg_mt_k g, mt_e_MK = mg_e_mk g,
                      mt_T = cc_tek_int (cp_clusters params ! unat cluster_id), mt_N_group = mg_n_group g,
                      mt_user_indices = mg_members g, mt_cluster_id = cluster_id, mt_version = mg_version g \<rparr>)"

definition take_token :: "MTokenResult \<Rightarrow> MulticastGroupInfo \<Rightarrow> MulticastGroupInfo" where
  "take_token result g =
     g \<lparr> mg_version := mt_version result, mg_mt_k := mt_MT_K result, mg_n_group := mt_N_group result,
         mg_e_mk := mt_e_MK result \<rparr>"

definition AddMember ::
    "ext \<Rightarrow> MulticastManager \<Rightarrow> u32 \<Rightarrow> u32 \<Rightarrow> u32 \<Rightarrow> real \<Rightarrow> (MulticastManager \<times> bool) comp" where
  "AddMember E mc cluster_id uav_index uav_id now =
     (if cluster_id \<ge> 3 then cret (mc, False)
      else
        let g = mc_groups mc ! unat cluster_id in
        if Mg_IsMember g uav_index then cret (mc, False)
        else
          case mc_current mc cluster_id of
            None \<Rightarrow> None
          | Some current \<Rightarrow>
              cbind (JoKeyUpdate E (mc_mkg mc ! unat cluster_id) current uav_index) (\<lambda>result.
              let g = take_token result (g \<lparr> mg_members := uset_insert uav_index (mg_members g) \<rparr>);
                  mc = mc \<lparr> mc_groups := (mc_groups mc)[unat cluster_id := g],
                            mc_joins := mc_joins mc + 1, mc_rekeys := mc_rekeys mc + 1 \<rparr>;
                  mc = RecordEvent ME_JOIN uav_id uav_index cluster_id now mc
              in cret (Mc_DoRekey cluster_id result mc, True)))"

definition RemoveMember ::
    "ext \<Rightarrow> MulticastManager \<Rightarrow> u32 \<Rightarrow> u32 \<Rightarrow> u32 \<Rightarrow> real \<Rightarrow> (MulticastManager \<times> bool) comp" where
  "RemoveMember E mc cluster_id uav_index uav_id now =
     (if cluster_id \<ge> 3 then cret (mc, False)
      else
        let g = mc_groups mc ! unat cluster_id in
        if \<not> Mg_IsMember g uav_index then cret (mc, False)
        else
          case mc_current mc cluster_id of
            None \<Rightarrow> None
          | Some current \<Rightarrow>
              cbind (LeKeyUpdate E (mc_mkg mc ! unat cluster_id) current uav_index) (\<lambda>result.
              let g = take_token result (g \<lparr> mg_members := uset_erase uav_index (mg_members g) \<rparr>);
                  mc = mc \<lparr> mc_groups := (mc_groups mc)[unat cluster_id := g],
                            mc_leaves := mc_leaves mc + 1, mc_rekeys := mc_rekeys mc + 1 \<rparr>;
                  mc = RecordEvent ME_LEAVE uav_id uav_index cluster_id now mc
              in cret (Mc_DoRekey cluster_id result mc, True)))"

definition next_slot :: "MulticastManager \<Rightarrow> u32 \<Rightarrow> u32" where
  "next_slot mc cluster_id = cluster_id * 6 + of_nat (length (mg_members (mc_groups mc ! unat cluster_id)))"

definition HandoverMember ::
    "ext \<Rightarrow> MulticastManager \<Rightarrow> u32 \<Rightarrow> u32 \<Rightarrow> u32 \<Rightarrow> u32 \<Rightarrow> real \<Rightarrow> (MulticastManager \<times> bool) comp" where
  "HandoverMember E mc old_cluster new_cluster uav_index uav_id now =
     (if old_cluster \<ge> 3 \<or> new_cluster \<ge> 3 then cret (mc, False)
      else if old_cluster = new_cluster then cret (mc, False)
      else
        cbind (RemoveMember E mc old_cluster uav_index uav_id now) (\<lambda>(mc, left).
        let new_index = next_slot mc new_cluster in
        cbind (AddMember E mc new_cluster new_index uav_id now) (\<lambda>(mc, joined).
        cret (RecordEvent ME_HANDOVER uav_id uav_index old_cluster now mc, left \<and> joined))))"

section \<open>Queries\<close>

definition GetGroup :: "MulticastManager \<Rightarrow> u32 \<Rightarrow> MulticastGroupInfo" where
  "GetGroup mc cluster_id =
     (if cluster_id \<ge> 3 then MulticastGroupInfo_new else mc_groups mc ! unat cluster_id)"

definition Mc_IsMember :: "MulticastManager \<Rightarrow> u32 \<Rightarrow> u32 \<Rightarrow> bool" where
  "Mc_IsMember mc cluster_id uav_index =
     (if cluster_id \<ge> 3 then False else Mg_IsMember (mc_groups mc ! unat cluster_id) uav_index)"

definition GetGroupSize :: "MulticastManager \<Rightarrow> u32 \<Rightarrow> u32" where
  "GetGroupSize mc cluster_id = (if cluster_id \<ge> 3 then 0 else Mg_Size (mc_groups mc ! unat cluster_id))"

definition GetMembers :: "MulticastManager \<Rightarrow> u32 \<Rightarrow> u32 list" where
  "GetMembers mc cluster_id = (if cluster_id \<ge> 3 then [] else mg_members (mc_groups mc ! unat cluster_id))"

definition Mc_GetMtk :: "MulticastManager \<Rightarrow> u32 \<Rightarrow> int" where
  "Mc_GetMtk mc cluster_id = (if cluster_id \<ge> 3 then 0 else mg_mt_k (mc_groups mc ! unat cluster_id))"

definition Mc_GetVersion :: "MulticastManager \<Rightarrow> u32 \<Rightarrow> u32" where
  "Mc_GetVersion mc cluster_id = (if cluster_id \<ge> 3 then 0 else mg_version (mc_groups mc ! unat cluster_id))"

section \<open>The effect of joins and leaves\<close>

text \<open>A group whose token is the token of its members.\<close>

definition mc_shape :: "MulticastManager \<Rightarrow> bool" where
  "mc_shape mc \<longleftrightarrow> length (mc_groups mc) = 3 \<and> length (mc_mkg mc) = 3"

definition group_ok :: "MulticastManager \<Rightarrow> u32 \<Rightarrow> bool" where
  "group_ok mc c \<longleftrightarrow> distinct (mg_members (mc_groups mc ! unat c)) \<and> mkg_ok (mc_mkg mc ! unat c) \<and>
     (\<exists>cur. mc_current mc c = Some cur \<and> token_ok (mc_mkg mc ! unat c) cur)"

text \<open>What a change of one group leaves alone.\<close>

definition mc_change :: "u32 \<Rightarrow> MulticastManager \<Rightarrow> MulticastManager \<Rightarrow> bool" where
  "mc_change c mc mc' \<longleftrightarrow> mc_params mc' = mc_params mc \<and> mc_mkg mc' = mc_mkg mc \<and>
     (\<exists>g. mc_groups mc' = (mc_groups mc)[unat c := g])"

lemma mc_change_shape: "mc_change c mc mc' \<Longrightarrow> mc_shape mc' = mc_shape mc"
  by (auto simp: mc_change_def mc_shape_def)

lemma mc_change_other:
  "mc_change c mc mc' \<Longrightarrow> d \<noteq> c \<Longrightarrow> mc_groups mc' ! unat d = mc_groups mc ! unat d \<and>
   mc_current mc' d = mc_current mc d \<and> group_ok mc' d = group_ok mc d \<and> next_slot mc' d = next_slot mc d"
  by (auto simp: mc_change_def mc_current_def group_ok_def next_slot_def word_unat_eq_iff)

lemma Mc_DoRekey_simps [simp]:
  "mc_params (Mc_DoRekey c r mc) = mc_params mc" "mc_groups (Mc_DoRekey c r mc) = mc_groups mc"
  "mc_mkg (Mc_DoRekey c r mc) = mc_mkg mc" "mc_events (Mc_DoRekey c r mc) = mc_events mc"
  by (simp_all add: Mc_DoRekey_def split: option.split)

lemma RecordEvent_simps [simp]:
  "mc_params (RecordEvent t u i c now mc) = mc_params mc" "mc_groups (RecordEvent t u i c now mc) = mc_groups mc"
  "mc_mkg (RecordEvent t u i c now mc) = mc_mkg mc"
  by (simp_all add: RecordEvent_def)

lemma mc_current_cong:
  "mc_params mc' = mc_params mc \<Longrightarrow> mc_groups mc' = mc_groups mc \<Longrightarrow> mc_current mc' c = mc_current mc c"
  by (simp add: mc_current_def)

lemma mc_current_take:
  assumes "mc_current mc c = Some cur" "unat c < length (mc_groups mc)"
    and "mt_T tok = mt_T cur" "mt_user_indices tok = ms" "mt_cluster_id tok = mt_cluster_id cur"
    and "mc_params mc' = mc_params mc"
      "mc_groups mc' = (mc_groups mc)[unat c := take_token tok ((mc_groups mc ! unat c) \<lparr> mg_members := ms \<rparr>)]"
  shows "mc_current mc' c = Some tok"
  using assms by (cases tok) (auto simp: mc_current_def take_token_def Let_def split: option.splits if_splits)

lemma mc_current_users:
  "mc_current mc c = Some cur \<Longrightarrow> mt_user_indices cur = mg_members (mc_groups mc ! unat c)"
  by (auto simp: mc_current_def Let_def split: option.splits if_splits)

lemma AddMember_effect:
  assumes "powm_law E" "mc_shape mc" "group_ok mc c" "unat c < 3"
    and "find_slave (mc_mkg mc ! unat c) j \<noteq> None" "j \<notin> set (mg_members (mc_groups mc ! unat c))"
  obtains mc' where "AddMember E mc c j u now = Some (Inr (mc', True))" "mc_change c mc mc'" "group_ok mc' c"
    "mg_members (mc_groups mc' ! unat c) = mg_members (mc_groups mc ! unat c) @ [j]"
proof -
  define g where "g = mc_groups mc ! unat c"
  define mkg where "mkg = mc_mkg mc ! unat c"
  obtain cur where cur: "mc_current mc c = Some cur" "token_ok mkg cur" and mkg: "mkg_ok mkg" "distinct (mg_members g)"
    using assms(3) by (auto simp: group_ok_def mkg_def g_def)
  have users: "mt_user_indices cur = mg_members g" using mc_current_users[OF cur(1)] by (simp add: g_def)
  obtain s where s: "find_slave mkg j = Some s" using assms(5) by (auto simp: mkg_def)
  obtain tok where tok: "JoKeyUpdate E mkg cur j = Some (Inr tok)" "token_ok mkg tok" "mt_T tok = mt_T cur"
    "mt_user_indices tok = mg_members g @ [j]" "mt_cluster_id tok = mt_cluster_id cur"
    using JoKeyUpdate_ok[OF assms(1) mkg(1) cur(2) s] assms(6) users by (auto simp: g_def)
  have j: "j \<notin> set (mg_members g)" using assms(6) by (simp add: g_def)
  define g' where "g' = take_token tok (g \<lparr> mg_members := mg_members g @ [j] \<rparr>)"
  define mc' where "mc' = Mc_DoRekey c tok (RecordEvent ME_JOIN u j c now
     (mc \<lparr> mc_groups := (mc_groups mc)[unat c := g'], mc_joins := mc_joins mc + 1, mc_rekeys := mc_rekeys mc + 1 \<rparr>))"
  have mc': "mc_params mc' = mc_params mc" "mc_groups mc' = (mc_groups mc)[unat c := g']" "mc_mkg mc' = mc_mkg mc"
    by (simp_all add: mc'_def)
  have len: "unat c < length (mc_groups mc)" using assms(2,4) by (simp add: mc_shape_def)
  have current: "mc_current mc' c = Some tok"
    by (rule mc_current_take[OF cur(1) len tok(3-5) mc'(1)]) (simp add: mc'(2) g'_def g_def)
  show thesis
  proof (rule that[of mc'])
    show "AddMember E mc c j u now = Some (Inr (mc', True))"
      using assms(4) tok(1) j cur(1) unfolding g_def mkg_def
      by (simp add: AddMember_def cluster_ge_3 Mg_IsMember_def Let_def cret_def mc'_def g'_def g_def)
    show "mc_change c mc mc'" by (auto simp: mc_change_def mc')
    show m: "mg_members (mc_groups mc' ! unat c) = mg_members (mc_groups mc ! unat c) @ [j]"
      using len by (simp add: mc'(2) g'_def take_token_def g_def)
    show "group_ok mc' c"
      using current tok(2) mkg j m by (simp add: group_ok_def mc'(3) mkg_def g_def)
  qed
qed

lemma RemoveMember_effect:
  assumes "powm_law E" "mc_shape mc" "group_ok mc c" "unat c < 3"
    and "find_slave (mc_mkg mc ! unat c) j \<noteq> None" "j \<in> set (mg_members (mc_groups mc ! unat c))"
  obtains mc' where "RemoveMember E mc c j u now = Some (Inr (mc', True))" "mc_change c mc mc'" "group_ok mc' c"
    "mg_members (mc_groups mc' ! unat c) = uset_erase j (mg_members (mc_groups mc ! unat c))"
proof -
  define g where "g = mc_groups mc ! unat c"
  define mkg where "mkg = mc_mkg mc ! unat c"
  obtain cur where cur: "mc_current mc c = Some cur" "token_ok mkg cur" and mkg: "mkg_ok mkg" "distinct (mg_members g)"
    using assms(3) by (auto simp: group_ok_def mkg_def g_def)
  have users: "mt_user_indices cur = mg_members g" using mc_current_users[OF cur(1)] by (simp add: g_def)
  obtain s where s: "find_slave mkg j = Some s" using assms(5) by (auto simp: mkg_def)
  obtain tok where tok: "LeKeyUpdate E mkg cur j = Some (Inr tok)" "token_ok mkg tok" "mt_T tok = mt_T cur"
    "mt_user_indices tok = uset_erase j (mg_members g)" "mt_cluster_id tok = mt_cluster_id cur"
    using LeKeyUpdate_ok[OF assms(1) mkg(1) cur(2) s] assms(6) users by (auto simp: g_def uset_erase_def)
  have j: "j \<in> set (mg_members g)" using assms(6) by (simp add: g_def)
  define g' where "g' = take_token tok (g \<lparr> mg_members := uset_erase j (mg_members g) \<rparr>)"
  define mc' where "mc' = Mc_DoRekey c tok (RecordEvent ME_LEAVE u j c now
     (mc \<lparr> mc_groups := (mc_groups mc)[unat c := g'], mc_leaves := mc_leaves mc + 1, mc_rekeys := mc_rekeys mc + 1 \<rparr>))"
  have mc': "mc_params mc' = mc_params mc" "mc_groups mc' = (mc_groups mc)[unat c := g']" "mc_mkg mc' = mc_mkg mc"
    by (simp_all add: mc'_def)
  have len: "unat c < length (mc_groups mc)" using assms(2,4) by (simp add: mc_shape_def)
  have current: "mc_current mc' c = Some tok"
    by (rule mc_current_take[OF cur(1) len tok(3-5) mc'(1)]) (simp add: mc'(2) g'_def g_def)
  show thesis
  proof (rule that[of mc'])
    show "RemoveMember E mc c j u now = Some (Inr (mc', True))"
      using assms(4) tok(1) j cur(1) unfolding g_def mkg_def
      by (simp add: RemoveMember_def cluster_ge_3 Mg_IsMember_def Let_def cret_def mc'_def g'_def g_def)
    show "mc_change c mc mc'" by (auto simp: mc_change_def mc')
    show m: "mg_members (mc_groups mc' ! unat c) = uset_erase j (mg_members (mc_groups mc ! unat c))"
      using len by (simp add: mc'(2) g'_def take_token_def g_def)
    show "group_ok mc' c"
      using current tok(2) mkg m by (simp add: group_ok_def mc'(3) mkg_def g_def)
  qed
qed

text \<open>The calls that change nothing, and those that throw.\<close>

lemma AddMember_refused:
  "\<not> unat c < 3 \<or> j \<in> set (mg_members (mc_groups mc ! unat c)) \<Longrightarrow> AddMember E mc c j u now = Some (Inr (mc, False))"
  by (auto simp: AddMember_def cluster_ge_3 Mg_IsMember_def cret_def)

lemma RemoveMember_refused:
  "\<not> unat c < 3 \<or> j \<notin> set (mg_members (mc_groups mc ! unat c)) \<Longrightarrow> RemoveMember E mc c j u now = Some (Inr (mc, False))"
  by (auto simp: RemoveMember_def cluster_ge_3 Mg_IsMember_def cret_def)

lemma AddMember_unknown:
  "unat c < 3 \<Longrightarrow> j \<notin> set (mg_members (mc_groups mc ! unat c)) \<Longrightarrow> mc_current mc c = Some cur \<Longrightarrow>
   find_slave (mc_mkg mc ! unat c) j = None \<Longrightarrow> AddMember E mc c j u now = Some (Inl CryptoException)"
  by (simp add: AddMember_def cluster_ge_3 Mg_IsMember_def Let_def JoKeyUpdate_def)

lemma RemoveMember_unknown:
  "unat c < 3 \<Longrightarrow> j \<in> set (mg_members (mc_groups mc ! unat c)) \<Longrightarrow> mc_current mc c = Some cur \<Longrightarrow>
   find_slave (mc_mkg mc ! unat c) j = None \<Longrightarrow> RemoveMember E mc c j u now = Some (Inl CryptoException)"
  by (simp add: RemoveMember_def cluster_ge_3 Mg_IsMember_def Let_def LeKeyUpdate_def)

section \<open>Runs\<close>

datatype mc_event =
    McAdd u32 u32 u32 real
  | McRemove u32 u32 u32 real
  | McHandover u32 u32 u32 u32 real

primrec mc_call :: "ext \<Rightarrow> MulticastManager \<Rightarrow> mc_event \<Rightarrow> (MulticastManager \<times> bool) comp" where
  "mc_call E mc (McAdd c j u now) = AddMember E mc c j u now"
| "mc_call E mc (McRemove c j u now) = RemoveMember E mc c j u now"
| "mc_call E mc (McHandover c d j u now) = HandoverMember E mc c d j u now"

definition mc_step :: "ext \<times> MulticastManager \<Rightarrow> mc_event \<Rightarrow> ext \<times> MulticastManager" where
  "mc_step st ev = (case st of (E, mc) \<Rightarrow>
     (case mc_call E mc ev of Some (Inr (mc', r)) \<Rightarrow> (E, mc') | _ \<Rightarrow> st))"

definition known_slave :: "MulticastManager \<Rightarrow> u32 \<Rightarrow> u32 \<Rightarrow> bool" where
  "known_slave mc c j \<longleftrightarrow> find_slave (mc_mkg mc ! unat c) j \<noteq> None"

definition mc_inv :: "ext \<times> MulticastManager \<Rightarrow> bool" where
  "mc_inv st \<longleftrightarrow> (case st of (E, mc) \<Rightarrow> powm_law E \<and> mc_shape mc \<and>
     (\<forall>c. unat c < 3 \<longrightarrow> group_ok mc c \<and> (\<forall>j\<in>set (mg_members (mc_groups mc ! unat c)). known_slave mc c j)))"

definition mc_members :: "ext \<times> MulticastManager \<Rightarrow> (u32 \<times> u32) set" where
  "mc_members st = {(c, j). unat c < 3 \<and> j \<in> set (mg_members (mc_groups (snd st) ! unat c))}"

definition fits_group :: "MulticastManager \<Rightarrow> u32 \<Rightarrow> SlaveKeyEntry \<Rightarrow> bool" where
  "fits_group mc c s \<longleftrightarrow> mg_e_mk (mc_groups mc ! unat c) * sk_d s mod ((sk_p s - 1) * (sk_q s - 1)) = 1"

definition mc_readers :: "ext \<times> MulticastManager \<Rightarrow> (u32 \<times> u32) set" where
  "mc_readers st = {(c, j). unat c < 3 \<and>
     (\<exists>s\<in>set (mk_slaves (mc_mkg (snd st) ! unat c)). sk_uav_index s = j \<and> fits_group (snd st) c s)}"

text \<open>The member set after a call: a handover takes the slot behind the members of the new cluster.\<close>

primrec mc_change_set :: "mc_event \<Rightarrow> (u32 \<times> u32) set \<Rightarrow> (u32 \<times> u32) set" where
  "mc_change_set (McAdd c j u now) M = (if unat c < 3 then insert (c, j) M else M)"
| "mc_change_set (McRemove c j u now) M = M - {(c, j)}"
| "mc_change_set (McHandover c d j u now) M =
     (if unat c < 3 \<and> unat d < 3 \<and> c \<noteq> d
      then insert (d, d * 6 + of_nat (card {k. (d, k) \<in> M})) (M - {(c, j)}) else M)"

primrec mc_guard_call :: "MulticastManager \<Rightarrow> mc_event \<Rightarrow> bool" where
  "mc_guard_call mc (McAdd c j u now) = (unat c < 3 \<longrightarrow> known_slave mc c j)"
| "mc_guard_call mc (McRemove c j u now) = True"
| "mc_guard_call mc (McHandover c d j u now) = (unat d < 3 \<longrightarrow> known_slave mc d (next_slot mc d))"

definition mc_guard :: "ext \<times> MulticastManager \<Rightarrow> mc_event \<Rightarrow> bool" where
  "mc_guard st ev = mc_guard_call (snd st) ev"

lemma mc_change_inv:
  assumes "mc_inv (E, mc)" "mc_change c mc mc'" "group_ok mc' c"
    and "\<forall>j\<in>set (mg_members (mc_groups mc' ! unat c)). known_slave mc c j"
  shows "mc_inv (E, mc')"
proof -
  have mkg: "known_slave mc' d j = known_slave mc d j" for d j
    using assms(2) by (simp add: known_slave_def mc_change_def)
  have "group_ok mc' d \<and> (\<forall>j\<in>set (mg_members (mc_groups mc' ! unat d)). known_slave mc d j)" if "unat d < 3" for d
    using assms that mc_change_other[OF assms(2), of d] by (cases "d = c") (auto simp: mc_inv_def)
  then show ?thesis using assms(1) mc_change_shape[OF assms(2)] by (simp add: mc_inv_def mkg)
qed

lemma mc_change_members:
  assumes "mc_change c mc mc'" "unat c < 3"
  shows "mc_members (E, mc') = {(d, j) \<in> mc_members (E, mc). d \<noteq> c} \<union>
    {c} \<times> set (mg_members (mc_groups mc' ! unat c))"
proof -
  have "(d, j) \<in> mc_members (E, mc') \<longleftrightarrow>
      (d, j) \<in> {(d, j) \<in> mc_members (E, mc). d \<noteq> c} \<union> {c} \<times> set (mg_members (mc_groups mc' ! unat c))" for d j
    using mc_change_other[OF assms(1), of d] assms(2) by (cases "d = c") (simp_all add: mc_members_def)
  then show ?thesis by (rule pred_equals_eq2[THEN iffD1, OF ext, OF ext])
qed

text \<open>A join and a leave, whoever calls them.\<close>

lemma AddMember_step:
  assumes "mc_inv (E, mc)" "unat c < 3 \<longrightarrow> known_slave mc c j"
  obtains mc' r where "AddMember E mc c j u now = Some (Inr (mc', r))" "mc_inv (E, mc')"
    "mc_members (E, mc') = mc_change_set (McAdd c j u now) (mc_members (E, mc))" "mc_mkg mc' = mc_mkg mc"
    "r \<longleftrightarrow> unat c < 3 \<and> (c, j) \<notin> mc_members (E, mc)"
proof (cases "unat c < 3 \<and> j \<notin> set (mg_members (mc_groups mc ! unat c))")
  case False
  then show thesis
    using assms(1) AddMember_refused[of c j mc E u now] by (intro that[of mc False]) (auto simp: mc_members_def)
next
  case True
  then have "find_slave (mc_mkg mc ! unat c) j \<noteq> None" using assms(2) by (simp add: known_slave_def)
  with AddMember_effect[of E mc c j u now] assms(1) True
  obtain mc' where mc': "AddMember E mc c j u now = Some (Inr (mc', True))" "mc_change c mc mc'" "group_ok mc' c"
    "mg_members (mc_groups mc' ! unat c) = mg_members (mc_groups mc ! unat c) @ [j]"
    by (auto simp: mc_inv_def)
  have "mc_inv (E, mc')"
    using mc_change_inv[OF assms(1) mc'(2,3)] assms True mc'(4) by (auto simp: mc_inv_def)
  moreover have "mc_members (E, mc') = insert (c, j) (mc_members (E, mc))"
    using mc_change_members[OF mc'(2)] True by (auto simp: mc'(4) mc_members_def)
  ultimately show thesis
    using True mc'(1,2) by (intro that[of mc' True]) (auto simp: mc_members_def mc_change_def)
qed

lemma RemoveMember_step:
  assumes "mc_inv (E, mc)"
  obtains mc' r where "RemoveMember E mc c j u now = Some (Inr (mc', r))" "mc_inv (E, mc')"
    "mc_members (E, mc') = mc_members (E, mc) - {(c, j)}" "mc_mkg mc' = mc_mkg mc"
    "r \<longleftrightarrow> (c, j) \<in> mc_members (E, mc)"
proof (cases "unat c < 3 \<and> j \<in> set (mg_members (mc_groups mc ! unat c))")
  case False
  then show thesis
    using assms(1) RemoveMember_refused[of c j mc E u now] by (intro that[of mc False]) (auto simp: mc_members_def)
next
  case True
  then have "find_slave (mc_mkg mc ! unat c) j \<noteq> None" using assms by (auto simp: mc_inv_def known_slave_def)
  with RemoveMember_effect[of E mc c j u now] assms(1) True
  obtain mc' where mc': "RemoveMember E mc c j u now = Some (Inr (mc', True))" "mc_change c mc mc'" "group_ok mc' c"
    "mg_members (mc_groups mc' ! unat c) = uset_erase j (mg_members (mc_groups mc ! unat c))"
    by (auto simp: mc_inv_def)
  have "mc_inv (E, mc')"
    using mc_change_inv[OF assms(1) mc'(2,3)] assms True mc'(4) by (auto simp: mc_inv_def)
  moreover have "mc_members (E, mc') = mc_members (E, mc) - {(c, j)}"
    using mc_change_members[OF mc'(2)] True by (auto simp: mc'(4) mc_members_def)
  ultimately show thesis
    using True mc'(1,2) by (intro that[of mc' True]) (auto simp: mc_members_def mc_change_def)
qed

lemma next_slot_card:
  "mc_inv (E, mc) \<Longrightarrow> unat d < 3 \<Longrightarrow> next_slot mc d = d * 6 + of_nat (card {k. (d, k) \<in> mc_members (E, mc)})"
  by (simp add: mc_inv_def group_ok_def next_slot_def mc_members_def distinct_card)

lemma mc_call_step:
  assumes "mc_inv (E, mc)" "mc_guard_call mc ev"
  obtains mc' r where "mc_call E mc ev = Some (Inr (mc', r))" "mc_inv (E, mc')"
    "mc_members (E, mc') = mc_change_set ev (mc_members (E, mc))"
proof (cases ev)
  case (McAdd c j u now)
  then show thesis using AddMember_step[OF assms(1), of c j u now] assms(2) that by auto
next
  case (McRemove c j u now)
  then show thesis using RemoveMember_step[OF assms(1), of c j u now] that by auto
next
  case (McHandover c d j u now)
  show thesis
  proof (cases "unat c < 3 \<and> unat d < 3 \<and> c \<noteq> d")
    case False
    then show thesis
      using assms(1) by (intro that[of mc False]) (auto simp: McHandover HandoverMember_def cluster_ge_3 cret_def)
  next
    case True
    obtain mc1 r1 where 1: "RemoveMember E mc c j u now = Some (Inr (mc1, r1))" "mc_inv (E, mc1)"
      "mc_members (E, mc1) = mc_members (E, mc) - {(c, j)}" "mc_mkg mc1 = mc_mkg mc"
      by (rule RemoveMember_step[OF assms(1)]) blast
    have same: "{k. (d, k) \<in> mc_members (E, mc1)} = {k. (d, k) \<in> mc_members (E, mc)}"
      using 1(3) True by auto
    have slot: "next_slot mc1 d = next_slot mc d"
      using True by (simp add: next_slot_card[OF 1(2)] next_slot_card[OF assms(1)] same)
    then have known: "unat d < 3 \<longrightarrow> known_slave mc1 d (next_slot mc1 d)"
      using assms(2) 1(4) by (simp add: McHandover known_slave_def)
    obtain mc2 r2 where 2: "AddMember E mc1 d (next_slot mc1 d) u now = Some (Inr (mc2, r2))" "mc_inv (E, mc2)"
      "mc_members (E, mc2) = insert (d, next_slot mc1 d) (mc_members (E, mc1))"
      by (rule AddMember_step[OF 1(2) known, of u now]) (use True in simp)
    let ?mc = "RecordEvent ME_HANDOVER u j c now mc2"
    have "mc_call E mc ev = Some (Inr (?mc, r1 \<and> r2))"
      using True 1(1) 2(1) by (simp add: McHandover HandoverMember_def cluster_ge_3 Let_def cret_def)
    moreover have "mc_inv (E, ?mc)" "mc_members (E, ?mc) = mc_members (E, mc2)"
      using 2(2) by (simp_all add: mc_inv_def mc_shape_def group_ok_def known_slave_def mc_members_def
          mc_current_cong[of ?mc mc2])
    moreover have "mc_members (E, mc2) = mc_change_set ev (mc_members (E, mc))"
      unfolding 2(3) 1(3) slot using True by (simp add: McHandover next_slot_card[OF assms(1)])
    ultimately show thesis by (intro that) auto
  qed
qed

lemma fits_group_iff:
  assumes "group_ok mc c" "s \<in> set (mk_slaves (mc_mkg mc ! unat c))"
  shows "fits_group mc c s \<longleftrightarrow> sk_uav_index s \<in> set (mg_members (mc_groups mc ! unat c))"
proof -
  obtain cur where cur: "mc_current mc c = Some cur" "token_ok (mc_mkg mc ! unat c) cur" "mkg_ok (mc_mkg mc ! unat c)"
    using assms(1) by (auto simp: group_ok_def)
  have "mt_e_MK cur = mg_e_mk (mc_groups mc ! unat c)"
    using cur(1) by (auto simp: mc_current_def Let_def split: option.splits if_splits)
  then show ?thesis
    using exponent_fits_iff[OF cur(3,2) assms(2)] mc_current_users[OF cur(1)] by (simp add: fits_group_def)
qed

interpretation mc: membership mc_step mc_guard mc_inv mc_members mc_readers mc_change_set
proof
  fix st ev assume inv: "mc_inv st" and guard: "mc_guard st ev"
  obtain E mc where st: "st = (E, mc)" by (cases st)
  obtain mc' r where "mc_call E mc ev = Some (Inr (mc', r))" "mc_inv (E, mc')"
    "mc_members (E, mc') = mc_change_set ev (mc_members (E, mc))"
    by (rule mc_call_step[of E mc ev]) (use inv guard in \<open>auto simp: st mc_guard_def\<close>)
  then show "mc_inv (mc_step st ev)" "mc_members (mc_step st ev) = mc_change_set ev (mc_members st)"
    by (simp_all add: st mc_step_def)
next
  fix st assume inv: "mc_inv st"
  obtain E mc where st: "st = (E, mc)" by (cases st)
  have fits: "fits_group mc c s \<longleftrightarrow> sk_uav_index s \<in> set (mg_members (mc_groups mc ! unat c))"
    if "unat c < 3" "s \<in> set (mk_slaves (mc_mkg mc ! unat c))" for c s
    using inv that by (intro fits_group_iff) (simp_all add: st mc_inv_def)
  have known: "\<exists>s\<in>set (mk_slaves (mc_mkg mc ! unat c)). sk_uav_index s = j"
    if "unat c < 3" "j \<in> set (mg_members (mc_groups mc ! unat c))" for c :: u32 and j
  proof -
    have "known_slave mc c j" using inv that by (simp add: st mc_inv_def)
    then show ?thesis using find_slave_Some by (fastforce simp: known_slave_def)
  qed
  show "mc_readers st = mc_members st"
    using fits known by (fastforce simp: st mc_readers_def mc_members_def)
qed

text \<open>
  The multicast manager with consistent groups: over any sequence of joins,
  leaves and handovers (of slaves the cluster knows) no call throws, the member sets change as the calls
  say (a handover takes the slot behind the members of the new cluster), and at
  any moment the slaves whose exponent undoes their cluster's token are exactly
  its members, who recover the cluster's key from \<open>GetMtk\<close>.
\<close>
theorem consistent_run_members:
  assumes "mc_inv (E, mc)" "guarded_run mc_guard mc_step (E, mc) evs"
  shows "mc_inv (foldl mc_step (E, mc) evs) \<and>
    mc_readers (foldl mc_step (E, mc) evs) = fold mc_change_set evs (mc_members (E, mc)) \<and>
    (\<forall>pre ev post. evs = pre @ ev # post \<longrightarrow>
       (\<exists>mc' r. mc_call E (snd (foldl mc_step (E, mc) pre)) ev = Some (Inr (mc', r)))) \<and>
    (\<forall>c j. (c, j) \<in> fold mc_change_set evs (mc_members (E, mc)) \<longrightarrow>
       (\<exists>params s. mc_params (snd (foldl mc_step (E, mc) evs)) = Some params \<and>
          s \<in> set (mk_slaves (mc_mkg (snd (foldl mc_step (E, mc) evs)) ! unat c)) \<and> sk_uav_index s = j \<and>
          SlaveDecrypt E s (Mc_GetMtk (snd (foldl mc_step (E, mc) evs)) c) =
            Inr (cc_tek_int (cp_clusters params ! unat c) mod sk_n s)))"
proof (intro conjI allI impI)
  note inv = mc.run_inv[OF assms]
  have E: "fst (foldl mc_step st evs) = fst st" for st evs
    by (induction evs arbitrary: st) (auto simp: mc_step_def split: option.split sum.split prod.split)
  show "mc_inv (foldl mc_step (E, mc) evs)" by (rule inv)
  show "mc_readers (foldl mc_step (E, mc) evs) = fold mc_change_set evs (mc_members (E, mc))"
    by (rule mc.run_readers[OF assms])
  show "\<exists>mc' r. mc_call E (snd (foldl mc_step (E, mc) pre)) ev = Some (Inr (mc', r))"
    if "evs = pre @ ev # post" for pre ev post
  proof -
    have split: "guarded_run mc_guard mc_step st (xs @ ys) \<longleftrightarrow>
        guarded_run mc_guard mc_step st xs \<and> guarded_run mc_guard mc_step (foldl mc_step st xs) ys" for st xs ys
      by (induction xs arbitrary: st) auto
    obtain mc1 where mc1: "foldl mc_step (E, mc) pre = (E, mc1)" using E[of "(E, mc)" pre] by (metis fst_conv prod.collapse)
    have "mc_inv (E, mc1)" "mc_guard (E, mc1) ev"
      using mc.run_inv[OF assms(1), of pre] assms(2) by (simp_all add: that split mc1)
    then have "mc_inv (E, mc1)" "mc_guard_call mc1 ev" by (simp_all add: mc_guard_def)
    then show ?thesis unfolding mc1 snd_conv by (rule mc_call_step) blast
  qed
  fix c j assume cj: "(c, j) \<in> fold mc_change_set evs (mc_members (E, mc))"
  obtain mc1 where mc1: "foldl mc_step (E, mc) evs = (E, mc1)" using E[of "(E, mc)" evs] by (metis fst_conv prod.collapse)
  have "(c, j) \<in> mc_members (E, mc1)" and ok: "mc_inv (E, mc1)"
    using cj inv mc.run_members[OF assms] by (simp_all add: mc1)
  then have mem: "unat c < 3" "j \<in> set (mg_members (mc_groups mc1 ! unat c))"
    by (simp_all add: mc_members_def)
  then obtain cur s where cur: "mc_current mc1 c = Some cur" "token_ok (mc_mkg mc1 ! unat c) cur"
    "mkg_ok (mc_mkg mc1 ! unat c)" "powm_law E" and s: "find_slave (mc_mkg mc1 ! unat c) j = Some s"
    using ok by (force simp: mc_inv_def group_ok_def known_slave_def)
  then obtain params where params: "mc_params mc1 = Some params" "mt_T cur = cc_tek_int (cp_clusters params ! unat c)"
    "mt_MT_K cur = mg_mt_k (mc_groups mc1 ! unat c)"
    by (auto simp: mc_current_def Let_def split: option.splits if_splits)
  have "SlaveDecrypt E s (mt_MT_K cur) = Inr (mt_T cur mod sk_n s)"
    using SlaveDecrypt_eq[OF cur(4,3,2)] find_slave_Some[OF s] mc_current_users[OF cur(1)] mem(2) by simp
  then show "\<exists>params s. mc_params (snd (foldl mc_step (E, mc) evs)) = Some params \<and>
      s \<in> set (mk_slaves (mc_mkg (snd (foldl mc_step (E, mc) evs)) ! unat c)) \<and> sk_uav_index s = j \<and>
      SlaveDecrypt E s (Mc_GetMtk (snd (foldl mc_step (E, mc) evs)) c) =
        Inr (cc_tek_int (cp_clusters params ! unat c) mod sk_n s)"
    using params find_slave_Some[OF s] mem(1) by (auto simp: mc1 Mc_GetMtk_def cluster_ge_3)
qed

section \<open>The indices of Initialize\<close>

lemma Mc_Initialize_eq:
  assumes "3 \<le> length (cp_clusters params)"
  shows "Mc_Initialize (MulticastManager_new (Some params)) = (MulticastManager_new (Some params))
    \<lparr> mc_groups := map (\<lambda>c. init_group c (cp_clusters params ! c) MulticastGroupInfo_new) [0, 1, 2],
      mc_mkg := map (\<lambda>c. cs_mkg (load_cluster (cp_clusters params ! c))) [0, 1, 2] \<rparr>"
proof -
  obtain a b d rest where "cp_clusters params = a # b # d # rest"
    using assms by (auto simp: numeral_3_eq_3 Suc_le_length_iff)
  then show ?thesis
    by (simp add: Mc_Initialize_def MulticastManager_new_def mc_init_loop.simps Let_def load_cluster_def
      numeral_3_eq_3 numeral_2_eq_2)
qed

text \<open>
  The index sets of the parameter files: the slaves of every cluster have the
  indices 0 to 5 and are the users of its token.
\<close>

definition local_indices :: "CryptoParamsFile \<Rightarrow> bool" where
  "local_indices params \<longleftrightarrow> 3 \<le> length (cp_clusters params) \<and>
     (\<forall>cp\<in>set (cp_clusters params).
       mkg_ok (cs_mkg (load_cluster cp)) \<and> token_ok (cs_mkg (load_cluster cp)) (cs_mtoken (load_cluster cp)) \<and>
       (\<forall>s\<in>set (cc_slave_keys cp). sk_uav_index s < 6 \<and> sk_uav_index s \<in> set (cc_user_indices cp)))"

lemma init_members [simp]:
  "mg_members (init_group c cp MulticastGroupInfo_new) = foldl (\<lambda>ms u. uset_insert (of_nat c * 6 + u) ms) [] [0, 1, 2, 3, 4, 5]"
  "mg_e_mk (init_group c cp g) = cc_e_MK cp" "mg_mt_k (init_group c cp g) = cc_MT_K cp"
  "mg_n_group (init_group c cp g) = cc_N_group cp" "mg_version (init_group c cp g) = 1"
  by (simp_all add: init_group_def MulticastGroupInfo_new_def Let_def)

lemma init_index_sets:
  "mg_members (init_group 0 cp MulticastGroupInfo_new) = [0, 1, 2, 3, 4, 5]"
  "mg_members (init_group (Suc 0) cp MulticastGroupInfo_new) = [6, 7, 8, 9, 10, 11]"
  "mg_members (init_group 2 cp MulticastGroupInfo_new) = [12, 13, 14, 15, 16, 17]"
  by (simp_all add: uset_insert_def)

lemma less_6_word: "(i :: u32) < 6 \<longleftrightarrow> i \<in> {0, 1, 2, 3, 4, 5}"
proof -
  have "unat i < 6 \<longleftrightarrow> unat i \<in> {0, 1, 2, 3, 4, 5}" by auto
  then show ?thesis by (simp add: word_less_nat_alt word_unat_eq_iff)
qed

lemma less_3_word: "unat (c :: u32) < 3 \<longleftrightarrow> c = 0 \<or> c = 1 \<or> c = 2"
proof -
  have "unat c < 3 \<longleftrightarrow> unat c = 0 \<or> unat c = 1 \<or> unat c = 2" by auto
  then show ?thesis by (simp add: word_unat_eq_iff)
qed

lemma same_users:
  assumes "\<forall>s\<in>set (mk_slaves mkg). in_group users' s = in_group (mt_user_indices tok) s"
  shows "token_ok mkg (tok \<lparr> mt_user_indices := users', mt_cluster_id := c, mt_version := v \<rparr>) = token_ok mkg tok"
proof -
  have "filter (in_group users') (mk_slaves mkg) = filter (in_group (mt_user_indices tok)) (mk_slaves mkg)"
    using assms by (intro filter_cong) auto
  then show ?thesis by (simp add: token_ok_def group_sum_def group_modulus_prod)
qed

text \<open>The manager after \<open>Initialize\<close>, cluster by cluster.\<close>

definition initialized :: "CryptoParamsFile \<Rightarrow> MulticastManager \<Rightarrow> u32 \<Rightarrow> bool" where
  "initialized params mc c \<longleftrightarrow> local_indices params \<and> unat c < 3 \<and>
     mc = Mc_Initialize (MulticastManager_new (Some params))"

lemma initialized_keys:
  assumes "initialized params mc c"
  defines "cp \<equiv> cp_clusters params ! unat c"
  shows "mkg_ok (cs_mkg (load_cluster cp))" "token_ok (cs_mkg (load_cluster cp)) (cs_mtoken (load_cluster cp))"
    "s \<in> set (cc_slave_keys cp) \<Longrightarrow> sk_uav_index s < 6"
    "s \<in> set (cc_slave_keys cp) \<Longrightarrow> in_group (cc_user_indices cp) s"
proof -
  have "cp \<in> set (cp_clusters params)" using assms by (auto simp: initialized_def local_indices_def)
  then show "mkg_ok (cs_mkg (load_cluster cp))" "token_ok (cs_mkg (load_cluster cp)) (cs_mtoken (load_cluster cp))"
    "s \<in> set (cc_slave_keys cp) \<Longrightarrow> sk_uav_index s < 6"
    "s \<in> set (cc_slave_keys cp) \<Longrightarrow> in_group (cc_user_indices cp) s"
    using assms(1) by (simp_all add: initialized_def local_indices_def in_group_iff)
qed

lemma initialized_group:
  assumes "initialized params mc c"
  shows "mc_groups mc ! unat c = init_group (unat c) (cp_clusters params ! unat c) MulticastGroupInfo_new"
    "mc_mkg mc ! unat c = cs_mkg (load_cluster (cp_clusters params ! unat c))"
    "mc_shape mc" "mc_params mc = Some params" "unat c < length (cp_clusters params)"
proof -
  have params: "3 \<le> length (cp_clusters params)" and c: "c = 0 \<or> c = 1 \<or> c = 2"
    and mc: "mc = Mc_Initialize (MulticastManager_new (Some params))"
    using assms by (simp_all add: initialized_def local_indices_def less_3_word)
  show "mc_groups mc ! unat c = init_group (unat c) (cp_clusters params ! unat c) MulticastGroupInfo_new"
    "mc_mkg mc ! unat c = cs_mkg (load_cluster (cp_clusters params ! unat c))" "mc_shape mc"
    "unat c < length (cp_clusters params)"
    using c params by (auto simp: mc Mc_Initialize_eq[OF params] mc_shape_def)
  show "mc_params mc = Some params"
    unfolding mc Mc_Initialize_eq[OF params] by (simp add: MulticastManager_new_def)
qed

lemma initialized_current:
  "initialized params mc c \<Longrightarrow> mc_current mc c = Some ((cs_mtoken (load_cluster (cp_clusters params ! unat c)))
     \<lparr> mt_user_indices := mg_members (mc_groups mc ! unat c), mt_cluster_id := c, mt_version := 1 \<rparr>)"
  using initialized_group[of params mc c] by (simp add: mc_current_def load_cluster_def)

lemma initialized_members:
  assumes "initialized params mc c"
  shows "set (mg_members (mc_groups mc ! unat c)) = {c * 6, c * 6 + 1, c * 6 + 2, c * 6 + 3, c * 6 + 4, c * 6 + 5}"
    "next_slot mc c = c * 6 + 6" "distinct (mg_members (mc_groups mc ! unat c))"
  using initialized_group(1)[OF assms] assms
  by (auto simp: initialized_def less_3_word next_slot_def init_index_sets simp del: init_members)

lemma initialized_unknown:
  assumes "initialized params mc c" "\<not> j < 6"
  shows "find_slave (mc_mkg mc ! unat c) j = None"
proof (rule ccontr)
  assume "find_slave (mc_mkg mc ! unat c) j \<noteq> None"
  then obtain s where "find_slave (mc_mkg mc ! unat c) j = Some s" by blast
  from find_slave_Some[OF this] initialized_keys(3)[OF assms(1)] assms(2) show False
    by (auto simp: initialized_group(2)[OF assms(1)] load_cluster_def)
qed

lemma initialized_not_member:
  "initialized params mc c \<Longrightarrow> c \<noteq> 0 \<Longrightarrow> j < 6 \<Longrightarrow> j \<notin> set (mg_members (mc_groups mc ! unat c))"
  using initialized_members(1)[of params mc c] by (auto simp: initialized_def less_3_word less_6_word)

lemma initialized_slot_throws:
  assumes "initialized params mc c" "mc_groups mc' ! unat c = mc_groups mc ! unat c"
    "mc_mkg mc' ! unat c = mc_mkg mc ! unat c" "mc_current mc' c = mc_current mc c"
  shows "AddMember E mc' c (c * 6 + 6) u now = Some (Inl CryptoException)"
proof -
  have c: "unat c < 3" using assms(1) by (simp add: initialized_def)
  then have "\<not> c * 6 + 6 < (6 :: u32)" "c * 6 + 6 \<notin> set (mg_members (mc_groups mc ! unat c))"
    by (auto simp: initialized_members(1)[OF assms(1)] less_3_word)
  then show ?thesis
    using AddMember_unknown[OF c, of _ mc'] initialized_unknown[OF assms(1)] initialized_current[OF assms(1)]
    by (simp add: assms(2-4))
qed

lemma initialized_group_0:
  assumes init: "initialized params mc c" and "c = 0"
  shows "group_ok mc c"
proof -
  let ?load = "load_cluster (cp_clusters params ! unat c)"
  have "set (mg_members (mc_groups mc ! unat c)) = {i. i < 6}"
    using initialized_members(1)[OF init] assms(2) by (auto simp: less_6_word)
  then have "\<forall>s\<in>set (mk_slaves (cs_mkg ?load)). in_group (mg_members (mc_groups mc ! unat c)) s =
      in_group (mt_user_indices (cs_mtoken ?load)) s"
    using initialized_keys(3,4)[OF init] by (auto simp: in_group_iff load_cluster_def)
  from same_users[OF this, of 1 c] show ?thesis
    using initialized_keys(1,2)[OF init] initialized_members(3)[OF init] initialized_current[OF init]
    by (simp add: group_ok_def initialized_group(2)[OF init])
qed

lemma initialized_fits:
  assumes "initialized params mc c" "s \<in> set (cc_slave_keys (cp_clusters params ! unat c))"
  shows "fits_group mc c s"
proof -
  have "s \<in> set (mk_slaves (cs_mkg (load_cluster (cp_clusters params ! unat c))))"
    using assms(2) by (simp add: load_cluster_def)
  from exponent_fits_iff[OF initialized_keys(1,2)[OF assms(1)] this] initialized_keys(4)[OF assms] show ?thesis
    by (simp add: fits_group_def initialized_group(1)[OF assms(1)] in_group_iff load_cluster_def)
qed

text \<open>A join of an index of the parameter file in the clusters 1 and 2.\<close>

definition mc_same :: "u32 \<Rightarrow> MulticastManager \<Rightarrow> MulticastManager \<Rightarrow> bool" where
  "mc_same c mc mc' \<longleftrightarrow> mc_shape mc' \<and> mc_groups mc' ! unat c = mc_groups mc ! unat c \<and>
     mc_mkg mc' ! unat c = mc_mkg mc ! unat c \<and> mc_current mc' c = mc_current mc c"

lemma mc_same_change: "mc_same c mc mc' \<Longrightarrow> mc_change d mc' mc2 \<Longrightarrow> c \<noteq> d \<Longrightarrow> mc_same c mc mc2"
  using mc_change_other[of d mc' mc2 c] mc_change_shape[of d mc' mc2] by (auto simp: mc_same_def mc_change_def)

lemma initialized_double_join:
  assumes "powm_law E" "initialized params mc c" "c \<noteq> 0" "s \<in> set (cc_slave_keys (cp_clusters params ! unat c))"
    and same: "mc_same c mc mc'"
  obtains mc2 where "AddMember E mc' c (sk_uav_index s) u now = Some (Inr (mc2, True))" "\<not> fits_group mc2 c s"
    "mc_change c mc' mc2"
proof -
  let ?load = "load_cluster (cp_clusters params ! unat c)"
  note keys = initialized_keys[OF assms(2)] and group = initialized_group[OF assms(2)]
  have s: "s \<in> set (mk_slaves (cs_mkg ?load))" using assms(4) by (simp add: load_cluster_def)
  define cur where "cur = (cs_mtoken ?load)
     \<lparr> mt_user_indices := mg_members (mc_groups mc ! unat c), mt_cluster_id := c, mt_version := 1 \<rparr>"
  have "\<exists>tok. JoKeyUpdate E (cs_mkg ?load) cur (sk_uav_index s) = Some (Inr tok) \<and>
      mt_user_indices tok = mt_user_indices cur @ [sk_uav_index s] \<and>
      mt_e_MK tok * sk_d s mod ((sk_p s - 1) * (sk_q s - 1)) \<noteq> 1"
    using keys(2) keys(4)[OF assms(4)]
    by (intro double_contribution[OF assms(1) keys(1) find_slave_in[OF keys(1) s],
          of "mt_user_indices (cs_mtoken ?load)"])
      (simp_all add: cur_def token_ok_def in_group_iff, simp_all add: load_cluster_def)
  then obtain tok where tok: "JoKeyUpdate E (cs_mkg ?load) cur (sk_uav_index s) = Some (Inr tok)"
    "mt_e_MK tok * sk_d s mod ((sk_p s - 1) * (sk_q s - 1)) \<noteq> 1" by blast
  have c: "unat c < 3" using assms(2) by (simp add: initialized_def)
  have "sk_uav_index s \<notin> set (mg_members (mc_groups mc ! unat c))"
    by (rule initialized_not_member[OF assms(2,3) keys(3)[OF assms(4)]])
  then show thesis
    using c tok initialized_current[OF assms(2)] same
    by (intro that) (auto simp: AddMember_def cluster_ge_3 Mg_IsMember_def Let_def cret_def cur_def[symmetric]
        group(2) fits_group_def take_token_def mc_change_def mc_shape_def mc_same_def)
qed

lemma initialized_handover_throws:
  assumes "powm_law E" "local_indices params" "mc = Mc_Initialize (MulticastManager_new (Some params))"
    and "unat c < 3" "unat d < 3" "c \<noteq> d"
  shows "HandoverMember E mc c d j u now = Some (Inl CryptoException)"
proof -
  have c: "initialized params mc c" and d: "initialized params mc d" using assms by (simp_all add: initialized_def)
  have add: "AddMember E mc' d (next_slot mc' d) u now = Some (Inl CryptoException)"
    if "mc' = mc \<or> mc_change c mc mc'" for mc'
  proof -
    have "mc_groups mc' ! unat d = mc_groups mc ! unat d" "mc_mkg mc' = mc_mkg mc" "mc_current mc' d = mc_current mc d"
      "next_slot mc' d = next_slot mc d"
      using that mc_change_other[of c mc mc' d] assms(6) by (auto simp: mc_change_def)
    then show ?thesis using initialized_slot_throws[OF d, of mc'] initialized_members(2)[OF d] by simp
  qed
  show ?thesis
  proof (cases "j \<in> set (mg_members (mc_groups mc ! unat c))")
    case False
    then show ?thesis using RemoveMember_refused[of c j mc E u now] add[of mc] assms(4-6)
      by (simp add: HandoverMember_def cluster_ge_3 Let_def)
  next
    case True
    show ?thesis
    proof (cases "find_slave (mc_mkg mc ! unat c) j")
      case None
      then show ?thesis using RemoveMember_unknown[OF assms(4) True initialized_current[OF c] None] assms(4-6)
        by (simp add: HandoverMember_def cluster_ge_3)
    next
      case (Some s)
      have "j < 6" using initialized_unknown[OF c] Some by fastforce
      with True initialized_not_member[OF c] have "c = 0" by blast
      from RemoveMember_effect[OF assms(1) initialized_group(3)[OF c] initialized_group_0[OF c this] assms(4) _ True]
        Some obtain mc' where "RemoveMember E mc c j u now = Some (Inr (mc', True))" "mc_change c mc mc'" by blast
      then show ?thesis using add[of mc'] assms(4-6) by (simp add: HandoverMember_def cluster_ge_3 Let_def)
    qed
  qed
qed

text \<open>
  \<open>Initialize\<close> numbers the members of cluster \<open>c\<close> from \<open>6 * c\<close>, but the parameter
  files number the slaves of every cluster from 0.  So only cluster 0 starts
  consistent.  In the clusters 1 and 2 a slave holds a fitting key and is no
  member: \<open>RemoveMember\<close> with its index does nothing, \<open>RemoveMember\<close> with its number in
  the member set throws, and \<open>AddMember\<close> with its index succeeds and locks
  it out.  A handover between two clusters throws whoever is moved.
\<close>
theorem multicast_init_mismatch:
  assumes "powm_law E" "local_indices params" "mc = Mc_Initialize (MulticastManager_new (Some params))"
    and "c = 1 \<or> c = 2" "s \<in> set (cc_slave_keys (cp_clusters params ! unat c))"
  shows "group_ok mc 0 \<and>
    fits_group mc c s \<and> \<not> Mc_IsMember mc c (sk_uav_index s) \<and>
    RemoveMember E mc c (sk_uav_index s) u now = Some (Inr (mc, False)) \<and>
    RemoveMember E mc c (c * 6 + sk_uav_index s) u now = Some (Inl CryptoException) \<and>
    (\<exists>mc'. AddMember E mc c (sk_uav_index s) u now = Some (Inr (mc', True)) \<and> \<not> fits_group mc' c s) \<and>
    (\<forall>old new j. unat old < 3 \<and> unat new < 3 \<and> old \<noteq> new \<longrightarrow>
       HandoverMember E mc old new j u now = Some (Inl CryptoException))"
proof (intro conjI allI impI)
  have c: "unat c < 3" "c \<noteq> 0" using assms(4) by auto
  have init: "initialized params mc c" using assms(2,3) c by (simp add: initialized_def)
  let ?load = "load_cluster (cp_clusters params ! unat c)"
  note keys = initialized_keys[OF init] and group = initialized_group[OF init]
  have idx: "sk_uav_index s < 6" by (rule keys(3)[OF assms(5)])
  note fresh = initialized_not_member[OF init c(2) idx]
  show "group_ok mc 0" using assms(2,3) by (intro initialized_group_0) (auto simp: initialized_def)
  show "fits_group mc c s" by (rule initialized_fits[OF init assms(5)])
  show "\<not> Mc_IsMember mc c (sk_uav_index s)" using fresh c(1) by (simp add: Mc_IsMember_def Mg_IsMember_def cluster_ge_3)
  show "RemoveMember E mc c (sk_uav_index s) u now = Some (Inr (mc, False))"
    using fresh by (intro RemoveMember_refused) blast
  have "c * 6 + sk_uav_index s \<in> set (mg_members (mc_groups mc ! unat c))" "\<not> c * 6 + sk_uav_index s < 6"
    using idx assms(4) by (auto simp: initialized_members(1)[OF init] less_6_word)
  then show "RemoveMember E mc c (c * 6 + sk_uav_index s) u now = Some (Inl CryptoException)"
    by (intro RemoveMember_unknown[OF c(1) _ initialized_current[OF init]] initialized_unknown[OF init])
  show "\<exists>mc'. AddMember E mc c (sk_uav_index s) u now = Some (Inr (mc', True)) \<and> \<not> fits_group mc' c s"
    by (rule initialized_double_join[OF assms(1) init c(2) assms(5), of mc]) (use group(3) in \<open>auto simp: mc_same_def\<close>)
  show "HandoverMember E mc old new j u now = Some (Inl CryptoException)"
    if "unat old < 3 \<and> unat new < 3 \<and> old \<noteq> new" for old new j
    using that by (intro initialized_handover_throws[OF assms(1-3)]) auto
qed

section \<open>Concrete managers\<close>

text \<open>Three clusters with the demo keys of theory Crt\_Group, all slaves users of the token.\<close>

definition demo_params3 :: "MTokenResult \<Rightarrow> CryptoParamsFile" where
  "demo_params3 tok =
     \<lparr> cp_scheme = [], cp_global_key_hex = [], cp_num_clusters = 3, cp_uavs_per_cluster = 2, cp_total_uavs = 6,
       cp_seed = 0, cp_clusters = replicate 3
         \<lparr> cc_cluster_id = 0, cc_skdc_id = 0, cc_num_uavs = 2, cc_eM = mk_eM demo_mkg, cc_n_total = mk_n_total demo_mkg,
           cc_N_global = 0, cc_N_group = mt_N_group tok, cc_tek = replicate 32 0, cc_tek_hex = [], cc_tek_int = mt_T tok,
           cc_MT_K = mt_MT_K tok, cc_e_MK = mt_e_MK tok, cc_user_indices = mt_user_indices tok,
           cc_slave_keys = mk_slaves demo_mkg \<rparr> \<rparr>"

lemma demo_params3_ok:
  assumes "token_ok demo_mkg tok" "mt_user_indices tok = [0, 1]"
  shows "local_indices (demo_params3 tok)"
proof -
  have "\<lparr> mk_eM = mk_eM demo_mkg, mk_n_total = mk_n_total demo_mkg, mk_slaves = mk_slaves demo_mkg \<rparr> = demo_mkg"
    by (cases demo_mkg) simp
  then show ?thesis
    using assms demo_mkg_ok
    by (auto simp: local_indices_def demo_params3_def load_cluster_def token_ok_def)
      (auto simp: demo_mkg_def demo_slave0_def demo_slave1_def)
qed

lemma demo_token2: "\<exists>tok. token_ok demo_mkg tok \<and> mt_T tok = 42 \<and> mt_user_indices tok = [0, 1]"
  using MTokenGen_returns[OF toy_powm demo_mkg_ok, of 42 "[0, 1]" 7] by auto

lemma multicast_init_mismatch_witness:
  "\<exists>tok mc'. local_indices (demo_params3 tok) \<and>
    AddMember toy_ext (Mc_Initialize (MulticastManager_new (Some (demo_params3 tok)))) 1 0 5 0 = Some (Inr (mc', True)) \<and>
    \<not> fits_group mc' 1 demo_slave0 \<and>
    HandoverMember toy_ext (Mc_Initialize (MulticastManager_new (Some (demo_params3 tok)))) 0 1 5 5 0 =
      Some (Inl CryptoException)"
proof -
  obtain tok where tok: "token_ok demo_mkg tok" "mt_user_indices tok = [0, 1]" using demo_token2 by blast
  note ok = demo_params3_ok[OF tok]
  have s: "demo_slave0 \<in> set (cc_slave_keys (cp_clusters (demo_params3 tok) ! unat (1 :: u32)))"
    by (simp add: demo_params3_def demo_mkg_def)
  have "sk_uav_index demo_slave0 = 0" by (simp add: demo_slave0_def)
  with multicast_init_mismatch[OF toy_powm ok refl disjI1[OF refl] s, of 5 0] ok show ?thesis
    by (auto intro!: exI[of _ tok])
qed

text \<open>The same keys, all three groups with slave 0 as their only member.\<close>

definition demo_mc :: "MTokenResult \<Rightarrow> MulticastManager" where
  "demo_mc tok = (MulticastManager_new (Some (demo_params3 tok)))
     \<lparr> mc_groups := replicate 3 (take_token tok (MulticastGroupInfo_new \<lparr> mg_members := [0] \<rparr>)),
       mc_mkg := replicate 3 demo_mkg \<rparr>"

lemma demo_mc_ok:
  assumes "token_ok demo_mkg tok" "mt_user_indices tok = [0]"
  shows "mc_inv (toy_ext, demo_mc tok)" "mc_members (toy_ext, demo_mc tok) = {(0, 0), (1, 0), (2, 0)}"
proof -
  have nth: "mc_groups (demo_mc tok) ! unat c = take_token tok (MulticastGroupInfo_new \<lparr> mg_members := [0] \<rparr>)"
    "mc_mkg (demo_mc tok) ! unat c = demo_mkg" "cp_clusters (demo_params3 tok) ! unat c = cp_clusters (demo_params3 tok) ! 0"
    if "unat c < 3" for c :: u32
    using that by (simp_all add: demo_mc_def demo_params3_def)
  have current: "mc_current (demo_mc tok) c = Some (tok \<lparr> mt_cluster_id := c \<rparr>)" if "unat c < 3" for c
    using that assms(2) nth[OF that]
    by (cases tok) (simp add: mc_current_def demo_mc_def MulticastManager_new_def demo_params3_def take_token_def
        MulticastGroupInfo_new_def)
  have "token_ok demo_mkg (tok \<lparr> mt_cluster_id := c \<rparr>)" for c using assms(1) by (simp add: token_ok_def)
  moreover have "find_slave demo_mkg 0 = Some demo_slave0"
    by (simp add: find_slave_def demo_mkg_def demo_slave0_def)
  ultimately show "mc_inv (toy_ext, demo_mc tok)"
    using demo_mkg_ok current by (auto simp: mc_inv_def group_ok_def nth toy_powm known_slave_def mc_shape_def
        take_token_def MulticastGroupInfo_new_def) (simp_all add: demo_mc_def)
  show "mc_members (toy_ext, demo_mc tok) = {(0, 0), (1, 0), (2, 0)}"
    using nth(1)[of 0] nth(1)[of 1] nth(1)[of 2]
    by (auto simp: mc_members_def take_token_def MulticastGroupInfo_new_def less_3_word)
qed

lemma consistent_run_members_demo:
  "\<exists>tok. mc_members (toy_ext, demo_mc tok) = {(0, 0), (1, 0), (2, 0)} \<and>
    mc_readers (foldl mc_step (toy_ext, demo_mc tok) [McHandover 1 0 0 7 3, McRemove 0 0 9 4]) = {(2, 0), (0, 1)}"
proof -
  obtain tok where tok: "token_ok demo_mkg tok" "mt_user_indices tok = [0]" using demo_token by blast
  note ok = demo_mc_ok[OF tok]
  have "find_slave demo_mkg 1 \<noteq> None" by (simp add: find_slave_def demo_mkg_def demo_slave0_def demo_slave1_def)
  then have guard: "guarded_run mc_guard mc_step (toy_ext, demo_mc tok) [McHandover 1 0 0 7 3, McRemove 0 0 9 4]"
    by (simp add: mc_guard_def known_slave_def next_slot_def)
      (simp add: demo_mc_def take_token_def MulticastGroupInfo_new_def)
  have "{k. (0, k) \<in> mc_members (toy_ext, demo_mc tok)} = {0}" unfolding ok(2) by auto
  then have "fold mc_change_set [McHandover 1 0 0 7 3, McRemove 0 0 9 4] (mc_members (toy_ext, demo_mc tok)) = {(2, 0), (0, 1)}"
    by (auto simp: ok(2))
  then show ?thesis
    using consistent_run_members[OF ok(1) guard] ok(2) by auto
qed

section \<open>Runs from Initialize\<close>

text \<open>
  The slaves of the parameter file, and what a call makes of the member sets; \<open>None\<close>
  is an exception.  A slave that the file does not know cannot join, and a
  member that it does not know cannot leave.
\<close>

definition file_slaves :: "CryptoParamsFile \<Rightarrow> u32 \<Rightarrow> u32 set" where
  "file_slaves params c = sk_uav_index ` set (cc_slave_keys (cp_clusters params ! unat c))"

definition add_change :: "(u32 \<Rightarrow> u32 set) \<Rightarrow> u32 \<Rightarrow> u32 \<Rightarrow> (u32 \<times> u32) set \<Rightarrow> (u32 \<times> u32) set option" where
  "add_change K c j M = (if unat c < 3 \<and> (c, j) \<notin> M then if j \<in> K c then Some (insert (c, j) M) else None else Some M)"

definition remove_change :: "(u32 \<Rightarrow> u32 set) \<Rightarrow> u32 \<Rightarrow> u32 \<Rightarrow> (u32 \<times> u32) set \<Rightarrow> (u32 \<times> u32) set option" where
  "remove_change K c j M = (if (c, j) \<in> M then if j \<in> K c then Some (M - {(c, j)}) else None else Some M)"

primrec call_change :: "(u32 \<Rightarrow> u32 set) \<Rightarrow> mc_event \<Rightarrow> (u32 \<times> u32) set \<Rightarrow> (u32 \<times> u32) set option" where
  "call_change K (McAdd c j u now) M = add_change K c j M"
| "call_change K (McRemove c j u now) M = remove_change K c j M"
| "call_change K (McHandover c d j u now) M =
     (if unat c < 3 \<and> unat d < 3 \<and> c \<noteq> d
      then Option.bind (remove_change K c j M) (\<lambda>M. add_change K d (d * 6 + of_nat (card {k. (d, k) \<in> M})) M)
      else Some M)"

primrec call_changes :: "(u32 \<Rightarrow> u32 set) \<Rightarrow> mc_event list \<Rightarrow> (u32 \<times> u32) set \<Rightarrow> (u32 \<times> u32) set option" where
  "call_changes K [] M = Some M"
| "call_changes K (ev # evs) M = Option.bind (call_change K ev M) (call_changes K evs)"

text \<open>A sequence of calls, which the first exception ends.\<close>

primrec mc_calls :: "ext \<Rightarrow> mc_event list \<Rightarrow> MulticastManager \<Rightarrow> MulticastManager comp" where
  "mc_calls E [] mc = cret mc"
| "mc_calls E (ev # evs) mc = cbind (mc_call E mc ev) (\<lambda>(mc, r). mc_calls E evs mc)"

lemma AddMember_copies:
  assumes "powm_law E" "mc_shape mc" "unat d < 3" "mc_params mc = Some params" "unat d < length (cp_clusters params)"
    and "0 \<le> cc_tek_int (cp_clusters params ! unat d)" "mkg_ok (mc_mkg mc ! unat d)"
    and "find_slave (mc_mkg mc ! unat d) j = Some s" "j \<notin> set (mg_members (mc_groups mc ! unat d))"
    and "copies (mc_mkg mc ! unat d) (mg_e_mk (mc_groups mc ! unat d)) k"
  obtains mc' where "AddMember E mc d j u now = Some (Inr (mc', True))" "mc_change d mc mc'"
    "mg_members (mc_groups mc' ! unat d) = mg_members (mc_groups mc ! unat d) @ [j]"
    "mg_e_mk (mc_groups mc' ! unat d) mod 4 = 1"
    "copies (mc_mkg mc' ! unat d) (mg_e_mk (mc_groups mc' ! unat d)) (k(j := k j + 1))"
proof -
  let ?g = "mc_groups mc ! unat d"
  define cur where "cur = \<lparr> mt_MT_K = mg_mt_k ?g, mt_e_MK = mg_e_mk ?g, mt_T = cc_tek_int (cp_clusters params ! unat d),
    mt_N_group = mg_n_group ?g, mt_user_indices = mg_members ?g, mt_cluster_id = d, mt_version = mg_version ?g \<rparr>"
  have cur: "mc_current mc d = Some cur" using assms(4,5) by (simp add: mc_current_def cur_def Let_def)
  have "0 \<le> mt_T cur" "copies (mc_mkg mc ! unat d) (mt_e_MK cur) k" using assms(6,10) by (simp_all add: cur_def)
  from JoKeyUpdate_copies[OF assms(1,7,8) this] obtain tok where tok:
    "JoKeyUpdate E (mc_mkg mc ! unat d) cur j = Some (Inr tok)" "copies (mc_mkg mc ! unat d) (mt_e_MK tok) (k(j := k j + 1))"
    "mt_e_MK tok mod 4 = 1" by blast
  show thesis
    using assms(2,3,9) cur tok
    by (intro that) (auto simp: AddMember_def cluster_ge_3 Mg_IsMember_def Let_def cret_def mc_change_def mc_shape_def
        take_token_def)
qed

text \<open>
  The token of a cluster holds one copy of each member; in the clusters 1 and 2 it
  holds another one of every slave, which Initialize put there.
\<close>

definition counted_group :: "CryptoParamsFile \<Rightarrow> MulticastManager \<Rightarrow> u32 \<Rightarrow> bool" where
  "counted_group params mc c \<longleftrightarrow> distinct (mg_members (mc_groups mc ! unat c)) \<and>
     mc_mkg mc ! unat c = cs_mkg (load_cluster (cp_clusters params ! unat c)) \<and> mg_e_mk (mc_groups mc ! unat c) mod 4 = 1 \<and>
     copies (mc_mkg mc ! unat c) (mg_e_mk (mc_groups mc ! unat c))
       (\<lambda>i. (if i \<in> set (mg_members (mc_groups mc ! unat c)) then 1 else 0) + (if c = 0 then 0 else 1))"

definition counted :: "CryptoParamsFile \<Rightarrow> MulticastManager \<Rightarrow> bool" where
  "counted params mc \<longleftrightarrow> mc_shape mc \<and> mc_params mc = Some params \<and> group_ok mc 0 \<and>
     (\<forall>c. unat c < 3 \<longrightarrow> counted_group params mc c)"

lemma countedD:
  fixes c :: u32
  assumes "counted params mc" "unat c < 3"
  shows "mc_shape mc" "mc_params mc = Some params" "group_ok mc 0" "distinct (mg_members (mc_groups mc ! unat c))"
    "mc_mkg mc ! unat c = cs_mkg (load_cluster (cp_clusters params ! unat c))" "mg_e_mk (mc_groups mc ! unat c) mod 4 = 1"
    "copies (mc_mkg mc ! unat c) (mg_e_mk (mc_groups mc ! unat c))
       (\<lambda>i. (if i \<in> set (mg_members (mc_groups mc ! unat c)) then 1 else 0) + (if c = 0 then 0 else 1))"
proof -
  have "counted_group params mc c" using assms by (simp add: counted_def)
  then show "distinct (mg_members (mc_groups mc ! unat c))"
    "mc_mkg mc ! unat c = cs_mkg (load_cluster (cp_clusters params ! unat c))" "mg_e_mk (mc_groups mc ! unat c) mod 4 = 1"
    "copies (mc_mkg mc ! unat c) (mg_e_mk (mc_groups mc ! unat c))
       (\<lambda>i. (if i \<in> set (mg_members (mc_groups mc ! unat c)) then 1 else 0) + (if c = 0 then 0 else 1))"
    unfolding counted_group_def by blast+
  show "mc_shape mc" "mc_params mc = Some params" "group_ok mc 0" using assms(1) by (simp_all add: counted_def)
qed

lemma copies_cong:
  "copies mkg e k \<Longrightarrow> \<forall>s\<in>set (mk_slaves mkg). k' (sk_uav_index s) = k (sk_uav_index s) \<Longrightarrow> copies mkg e k'"
  by (simp add: copies_def)

lemma local_cluster:
  assumes "local_indices params" "unat c < 3"
  defines "cp \<equiv> cp_clusters params ! unat c"
  shows "mkg_ok (cs_mkg (load_cluster cp))" "token_ok (cs_mkg (load_cluster cp)) (cs_mtoken (load_cluster cp))"
    "0 \<le> cc_tek_int cp" "unat c < length (cp_clusters params)"
    "find_slave (cs_mkg (load_cluster cp)) j = None \<longleftrightarrow> j \<notin> file_slaves params c"
proof -
  have "cp \<in> set (cp_clusters params)" using assms by (auto simp: local_indices_def)
  then show ok: "mkg_ok (cs_mkg (load_cluster cp))" and tok: "token_ok (cs_mkg (load_cluster cp)) (cs_mtoken (load_cluster cp))"
    using assms(1) by (auto simp: local_indices_def)
  show "0 \<le> cc_tek_int cp" using tok by (simp add: token_ok_def load_cluster_def)
  show "unat c < length (cp_clusters params)" using assms(1,2) by (simp add: local_indices_def)
  show "find_slave (cs_mkg (load_cluster cp)) j = None \<longleftrightarrow> j \<notin> file_slaves params c"
    using find_slave_in[OF ok] find_slave_Some[of "cs_mkg (load_cluster cp)" j]
    by (cases "find_slave (cs_mkg (load_cluster cp)) j") (auto simp: file_slaves_def cp_def load_cluster_def)
qed

lemma counted_current:
  assumes "local_indices params" "counted params mc" "unat c < 3"
  obtains cur where "mc_current mc c = Some cur" "0 \<le> mt_T cur" "mt_e_MK cur = mg_e_mk (mc_groups mc ! unat c)"
    "mt_user_indices cur = mg_members (mc_groups mc ! unat c)"
  using countedD(2)[OF assms(2,3)] local_cluster(3,4)[OF assms(1,3)] assms(3)
  by (intro that[of "the (mc_current mc c)"]) (auto simp: mc_current_def Let_def)

lemma initialized_counted:
  assumes "local_indices params" "mc = Mc_Initialize (MulticastManager_new (Some params))"
  shows "counted params mc" "mc_members (E, mc) = {(c, j). unat c < 3 \<and> unat j div 6 = unat c}"
proof -
  have init: "initialized params mc c" if "unat c < 3" for c using assms that by (simp add: initialized_def)
  have "copies (mc_mkg mc ! unat c) (mg_e_mk (mc_groups mc ! unat c))
      (\<lambda>i. (if i \<in> set (mg_members (mc_groups mc ! unat c)) then 1 else 0) + (if c = 0 then 0 else 1))"
    "mg_e_mk (mc_groups mc ! unat c) mod 4 = 1" if c: "unat c < 3" for c :: u32
  proof -
    let ?cp = "cp_clusters params ! unat c"
    note keys = initialized_keys[OF init[OF c]] and group = initialized_group[OF init[OF c]]
    have "copies (cs_mkg (load_cluster ?cp)) (cc_e_MK ?cp) (\<lambda>i. if i \<in> set (cc_user_indices ?cp) then 1 else 0)"
      using keys(2) by (intro copies_sum[OF keys(1)]) (simp add: token_ok_def load_cluster_def)
    moreover have "sk_uav_index s \<in> set (mg_members (mc_groups mc ! unat c)) \<longleftrightarrow> c = 0"
      "sk_uav_index s \<in> set (cc_user_indices ?cp)" if "s \<in> set (cc_slave_keys ?cp)" for s
      using keys(3,4)[OF that] initialized_members(1)[OF init[OF c]] initialized_not_member[OF init[OF c]]
      by (auto simp: in_group_iff less_6_word)
    ultimately show "copies (mc_mkg mc ! unat c) (mg_e_mk (mc_groups mc ! unat c))
        (\<lambda>i. (if i \<in> set (mg_members (mc_groups mc ! unat c)) then 1 else 0) + (if c = 0 then 0 else 1))"
      unfolding group(1,2) init_members(2)
      by (elim copies_cong) (auto simp: load_cluster_def group(1)[symmetric] simp del: init_members)
    show "mg_e_mk (mc_groups mc ! unat c) mod 4 = 1"
      using keys(2) by (simp add: group(1) token_ok_def load_cluster_def)
  qed
  then have "counted_group params mc c" if "unat c < 3" for c :: u32
    using that initialized_group(2)[OF init] initialized_members(3)[OF init] unfolding counted_group_def by blast
  then show "counted params mc"
    using initialized_group(3,4)[OF init, of 0] initialized_group_0[OF init, of 0] by (simp add: counted_def)
  show "mc_members (E, mc) = {(c, j). unat c < 3 \<and> unat j div 6 = unat c}"
  proof -
    have six: "unat j div 6 = k \<longleftrightarrow> unat j \<in> {6 * k, 6 * k + Suc 0, 6 * k + 2, 6 * k + 3, 6 * k + 4, 6 * k + 5}" for j :: u32 and k
      by auto
    have "j \<in> set (mg_members (mc_groups mc ! unat c)) \<longleftrightarrow> unat j div 6 = unat c" if c: "unat c < 3" for c :: u32 and j
      using c[unfolded less_3_word] initialized_members(1)[OF init[OF c]]
      unfolding six by (elim disjE) (auto simp: word_unat_eq_iff)
    then show ?thesis by (auto simp: mc_members_def)
  qed
qed

lemma counted_change:
  assumes "counted params mc" "mc_change c mc mc'" "unat c < 3" "c = 0 \<Longrightarrow> group_ok mc' 0"
    and "distinct (mg_members (mc_groups mc' ! unat c))" "mg_e_mk (mc_groups mc' ! unat c) mod 4 = 1"
    and "copies (mc_mkg mc ! unat c) (mg_e_mk (mc_groups mc' ! unat c))
      (\<lambda>i. (if i \<in> set (mg_members (mc_groups mc' ! unat c)) then 1 else 0) + (if c = 0 then 0 else 1))"
  shows "counted params mc'"
proof -
  have fields: "mc_mkg mc' = mc_mkg mc" "mc_params mc' = mc_params mc" using assms(2) by (simp_all add: mc_change_def)
  have other: "mc_groups mc' ! unat d = mc_groups mc ! unat d" "group_ok mc' d = group_ok mc d" if "d \<noteq> c" for d
    using mc_change_other[OF assms(2) that] by simp_all
  have "group_ok mc' 0" using assms(1,4) other(2)[of 0] by (cases "c = 0") (simp_all add: counted_def)
  moreover have "counted_group params mc' d" if d: "unat d < 3" for d
  proof (cases "d = c")
    case True
    then show ?thesis
      using countedD(5)[OF assms(1,3)] assms(5-7) unfolding counted_group_def fields(1) by simp
  next
    case False
    have "counted_group params mc d" using assms(1) d by (simp add: counted_def)
    then show ?thesis unfolding counted_group_def fields(1) other(1)[OF False] .
  qed
  ultimately show ?thesis
    using countedD(1,2)[OF assms(1,3)] mc_change_shape[OF assms(2)] fields(2) by (simp add: counted_def)
qed

lemma AddMember_counted:
  assumes "powm_law E" "local_indices params" "counted params mc"
  shows "case add_change (file_slaves params) c j (mc_members (E, mc)) of
      None \<Rightarrow> AddMember E mc c j u now = Some (Inl CryptoException)
    | Some M \<Rightarrow> \<exists>mc' r. AddMember E mc c j u now = Some (Inr (mc', r)) \<and> counted params mc' \<and> mc_members (E, mc') = M"
proof (cases "unat c < 3 \<and> (c, j) \<notin> mc_members (E, mc)")
  case False
  then show ?thesis using AddMember_refused[of c j mc E u now] assms(3) by (auto simp: add_change_def mc_members_def)
next
  case True
  then have c: "unat c < 3" and fresh: "j \<notin> set (mg_members (mc_groups mc ! unat c))" by (simp_all add: mc_members_def)
  note cluster = local_cluster[OF assms(2) c]
  have mkg: "mc_mkg mc ! unat c = cs_mkg (load_cluster (cp_clusters params ! unat c))" and shape: "mc_shape mc"
    "mc_params mc = Some params" by (rule countedD[OF assms(3) c])+
  show ?thesis
  proof (cases "j \<in> file_slaves params c")
    case False
    obtain cur where "mc_current mc c = Some cur" by (rule counted_current[OF assms(2,3) c])
    with False show ?thesis
      using AddMember_unknown[OF c fresh] cluster(5) True by (simp add: add_change_def mkg)
  next
    case known: True
    then obtain s where s: "find_slave (mc_mkg mc ! unat c) j = Some s" using cluster(5) mkg by auto
    have mkg_good: "mkg_ok (mc_mkg mc ! unat c)" using cluster(1) mkg by simp
    obtain mc' where mc': "AddMember E mc c j u now = Some (Inr (mc', True))" "mc_change c mc mc'"
      "mg_members (mc_groups mc' ! unat c) = mg_members (mc_groups mc ! unat c) @ [j]" "mg_e_mk (mc_groups mc' ! unat c) mod 4 = 1"
      "copies (mc_mkg mc' ! unat c) (mg_e_mk (mc_groups mc' ! unat c))
        ((\<lambda>i. (if i \<in> set (mg_members (mc_groups mc ! unat c)) then 1 else 0) + (if c = 0 then 0 else 1))
          (j := (if j \<in> set (mg_members (mc_groups mc ! unat c)) then 1 else 0) + (if c = 0 then 0 else 1) + 1))"
      by (rule AddMember_copies[OF assms(1) shape(1) c shape(2) cluster(4,3) mkg_good s fresh countedD(7)[OF assms(3) c]])
    have "group_ok mc' 0" if "c = 0"
    proof -
      have "group_ok mc c" using assms(3) that by (simp add: counted_def)
      from AddMember_effect[OF assms(1) shape(1) this c _ fresh, of u now] s mc'(1) that show ?thesis by auto
    qed
    moreover have "copies (mc_mkg mc ! unat c) (mg_e_mk (mc_groups mc' ! unat c))
        (\<lambda>i. (if i \<in> set (mg_members (mc_groups mc' ! unat c)) then 1 else 0) + (if c = 0 then 0 else 1))"
      using mc'(2,5) fresh by (auto simp: mc_change_def mc'(3) elim!: copies_cong)
    moreover note countedD(4)[OF assms(3) c]
    ultimately have "counted params mc'"
      using fresh mc'(3,4) by (intro counted_change[OF assms(3) mc'(2) c]) simp_all
    moreover have "mc_members (E, mc') = insert (c, j) (mc_members (E, mc))"
      using mc_change_members[OF mc'(2) c] c by (auto simp: mc'(3) mc_members_def)
    ultimately show ?thesis using mc'(1) known True by (auto simp: add_change_def)
  qed
qed

lemma RemoveMember_copies:
  assumes "powm_law E" "mc_shape mc" "unat d < 3" "mc_current mc d = Some cur" "0 \<le> mt_T cur"
    and "mt_e_MK cur = mg_e_mk (mc_groups mc ! unat d)" "mkg_ok (mc_mkg mc ! unat d)"
    and "find_slave (mc_mkg mc ! unat d) j = Some s" "j \<in> set (mg_members (mc_groups mc ! unat d))"
    and "copies (mc_mkg mc ! unat d) (mg_e_mk (mc_groups mc ! unat d)) k"
  obtains mc' where "RemoveMember E mc d j u now = Some (Inr (mc', True))" "mc_change d mc mc'"
    "mg_members (mc_groups mc' ! unat d) = uset_erase j (mg_members (mc_groups mc ! unat d))"
    "mg_e_mk (mc_groups mc' ! unat d) mod 4 = 1"
    "copies (mc_mkg mc' ! unat d) (mg_e_mk (mc_groups mc' ! unat d)) (k(j := k j - 1))"
proof -
  have "copies (mc_mkg mc ! unat d) (mt_e_MK cur) k" using assms(6,10) by simp
  from LeKeyUpdate_copies[OF assms(1,7,8,5) this] obtain tok where tok:
    "LeKeyUpdate E (mc_mkg mc ! unat d) cur j = Some (Inr tok)" "copies (mc_mkg mc ! unat d) (mt_e_MK tok) (k(j := k j - 1))"
    "mt_e_MK tok mod 4 = 1" by blast
  show thesis
    using assms(2,3,4,9) tok
    by (intro that) (auto simp: RemoveMember_def cluster_ge_3 Mg_IsMember_def Let_def cret_def mc_change_def mc_shape_def
        take_token_def)
qed

lemma RemoveMember_counted:
  assumes "powm_law E" "local_indices params" "counted params mc"
  shows "case remove_change (file_slaves params) c j (mc_members (E, mc)) of
      None \<Rightarrow> RemoveMember E mc c j u now = Some (Inl CryptoException)
    | Some M \<Rightarrow> \<exists>mc' r. RemoveMember E mc c j u now = Some (Inr (mc', r)) \<and> counted params mc' \<and> mc_members (E, mc') = M"
proof (cases "(c, j) \<in> mc_members (E, mc)")
  case False
  then show ?thesis using RemoveMember_refused[of c j mc E u now] assms(3) by (auto simp: remove_change_def mc_members_def)
next
  case True
  then have c: "unat c < 3" and mem: "j \<in> set (mg_members (mc_groups mc ! unat c))" by (simp_all add: mc_members_def)
  note cluster = local_cluster[OF assms(2) c]
  have mkg: "mc_mkg mc ! unat c = cs_mkg (load_cluster (cp_clusters params ! unat c))" and shape: "mc_shape mc"
    by (rule countedD[OF assms(3) c])+
  obtain cur where cur: "mc_current mc c = Some cur" "0 \<le> mt_T cur" "mt_e_MK cur = mg_e_mk (mc_groups mc ! unat c)"
    by (rule counted_current[OF assms(2,3) c])
  show ?thesis
  proof (cases "j \<in> file_slaves params c")
    case False
    then show ?thesis
      using RemoveMember_unknown[OF c mem cur(1)] cluster(5) True by (simp add: remove_change_def mkg)
  next
    case known: True
    then obtain s where s: "find_slave (mc_mkg mc ! unat c) j = Some s" using cluster(5) mkg by auto
    have mkg_good: "mkg_ok (mc_mkg mc ! unat c)" using cluster(1) mkg by simp
    obtain mc' where mc': "RemoveMember E mc c j u now = Some (Inr (mc', True))" "mc_change c mc mc'"
      "mg_members (mc_groups mc' ! unat c) = uset_erase j (mg_members (mc_groups mc ! unat c))"
      "mg_e_mk (mc_groups mc' ! unat c) mod 4 = 1"
      "copies (mc_mkg mc' ! unat c) (mg_e_mk (mc_groups mc' ! unat c))
        ((\<lambda>i. (if i \<in> set (mg_members (mc_groups mc ! unat c)) then 1 else 0) + (if c = 0 then 0 else 1))
          (j := (if j \<in> set (mg_members (mc_groups mc ! unat c)) then 1 else 0) + (if c = 0 then 0 else 1) - 1))"
      by (rule RemoveMember_copies[OF assms(1) shape c cur mkg_good s mem countedD(7)[OF assms(3) c]])
    have "group_ok mc' 0" if "c = 0"
    proof -
      have "group_ok mc c" using assms(3) that by (simp add: counted_def)
      from RemoveMember_effect[OF assms(1) shape this c _ mem, of u now] s mc'(1) that show ?thesis by auto
    qed
    moreover have "copies (mc_mkg mc ! unat c) (mg_e_mk (mc_groups mc' ! unat c))
        (\<lambda>i. (if i \<in> set (mg_members (mc_groups mc' ! unat c)) then 1 else 0) + (if c = 0 then 0 else 1))"
      using mc'(2,5) mem by (auto simp: mc_change_def mc'(3) uset_erase_def elim!: copies_cong)
    moreover note countedD(4)[OF assms(3) c]
    ultimately have "counted params mc'"
      using mc'(3,4) by (intro counted_change[OF assms(3) mc'(2) c]) (simp_all add: uset_erase_def)
    moreover have "mc_members (E, mc') = mc_members (E, mc) - {(c, j)}"
      using mc_change_members[OF mc'(2) c] c by (auto simp: mc'(3) mc_members_def uset_erase_def)
    ultimately show ?thesis using mc'(1) known True by (auto simp: remove_change_def)
  qed
qed

lemma RecordEvent_counted:
  "counted params (RecordEvent t u j c now mc) = counted params mc"
  "mc_members (E, RecordEvent t u j c now mc) = mc_members (E, mc)"
  by (simp_all only: counted_def counted_group_def mc_shape_def group_ok_def mc_members_def RecordEvent_simps snd_conv
      mc_current_cong[of "RecordEvent t u j c now mc" mc, OF RecordEvent_simps(1,2)])

lemma mc_call_counted:
  assumes "powm_law E" "local_indices params" "counted params mc"
  shows "case call_change (file_slaves params) ev (mc_members (E, mc)) of
      None \<Rightarrow> mc_call E mc ev = Some (Inl CryptoException)
    | Some M \<Rightarrow> \<exists>mc' r. mc_call E mc ev = Some (Inr (mc', r)) \<and> counted params mc' \<and> mc_members (E, mc') = M"
proof (cases ev)
  case (McAdd c j u now)
  show ?thesis unfolding McAdd mc_call.simps call_change.simps by (rule AddMember_counted[OF assms])
next
  case (McRemove c j u now)
  show ?thesis unfolding McRemove mc_call.simps call_change.simps by (rule RemoveMember_counted[OF assms])
next
  case (McHandover c d j u now)
  show ?thesis
  proof (cases "unat c < 3 \<and> unat d < 3 \<and> c \<noteq> d")
    case False
    then show ?thesis using assms(3) by (auto simp: McHandover HandoverMember_def cluster_ge_3 cret_def)
  next
    case True
    then have d: "unat d < 3" by blast
    show ?thesis
    proof (cases "remove_change (file_slaves params) c j (mc_members (E, mc))")
      case None
      with RemoveMember_counted[OF assms, of c j u now] True show ?thesis
        by (simp add: McHandover HandoverMember_def cluster_ge_3)
    next
      case (Some M)
      with RemoveMember_counted[OF assms, of c j u now] obtain mc1 r1 where
        1: "RemoveMember E mc c j u now = Some (Inr (mc1, r1))" "counted params mc1" "mc_members (E, mc1) = M" by auto
      have slot: "next_slot mc1 d = d * 6 + of_nat (card {k. (d, k) \<in> M})"
        using countedD(4)[OF 1(2) d] d by (simp add: next_slot_def 1(3)[symmetric] mc_members_def distinct_card)
      from AddMember_counted[OF assms(1,2) 1(2), of d "next_slot mc1 d" u now] True 1(1,3) Some
      show ?thesis
        by (auto simp: McHandover HandoverMember_def cluster_ge_3 Let_def cret_def slot RecordEvent_counted split: option.splits)
    qed
  qed
qed

lemma mc_calls_counted:
  assumes "powm_law E" "local_indices params"
  shows "counted params mc \<Longrightarrow>
    case call_changes (file_slaves params) evs (mc_members (E, mc)) of
      None \<Rightarrow> mc_calls E evs mc = Some (Inl CryptoException)
    | Some M \<Rightarrow> \<exists>mc'. mc_calls E evs mc = Some (Inr mc') \<and> counted params mc' \<and> mc_members (E, mc') = M"
proof (induction evs arbitrary: mc)
  case Nil
  then show ?case by (simp add: cret_def)
next
  case (Cons ev evs)
  show ?case
  proof (cases "call_change (file_slaves params) ev (mc_members (E, mc))")
    case None
    with mc_call_counted[OF assms Cons.prems, of ev] show ?thesis by simp
  next
    case (Some M)
    with mc_call_counted[OF assms Cons.prems, of ev] obtain mc1 r where
      "mc_call E mc ev = Some (Inr (mc1, r))" "counted params mc1" "mc_members (E, mc1) = M" by auto
    with Cons.IH[of mc1] Some show ?thesis by (auto split: option.splits)
  qed
qed

lemma counted_fits:
  assumes "local_indices params" "counted params mc" "unat c < 3" "s \<in> set (cc_slave_keys (cp_clusters params ! unat c))"
  shows "fits_group mc c s \<longleftrightarrow> ((c, sk_uav_index s) \<in> mc_members (E, mc) \<longleftrightarrow> c = 0)"
proof -
  let ?k = "\<lambda>i. (if i \<in> set (mg_members (mc_groups mc ! unat c)) then 1 else 0) + (if c = 0 then 0 else 1 :: int)"
  note ct = countedD[OF assms(2,3)]
  have mkg: "mkg_ok (mc_mkg mc ! unat c)" using local_cluster(1)[OF assms(1,3)] ct(5) by simp
  have s: "s \<in> set (mk_slaves (mc_mkg mc ! unat c))" using assms(4) ct(5) by (simp add: load_cluster_def)
  have xy: "1 < sk_xy s" using slave_facts(9)[OF mkg_slave(1)[OF mkg s]] .
  then have "(2 :: int) mod sk_xy s \<noteq> 1" by (cases "sk_xy s = 2") auto
  then show ?thesis
    using copies_fit[OF mkg ct(7) s ct(6)] assms(3) xy by (auto simp: fits_group_def mc_members_def)
qed

lemma group_decrypt:
  assumes "powm_law E" "group_ok mc c" "unat c < 3" "mc_params mc = Some params"
    and "s \<in> set (mk_slaves (mc_mkg mc ! unat c))" "sk_uav_index s \<in> set (mg_members (mc_groups mc ! unat c))"
  shows "SlaveDecrypt E s (Mc_GetMtk mc c) = Inr (cc_tek_int (cp_clusters params ! unat c) mod sk_n s)"
proof -
  obtain cur where cur: "mc_current mc c = Some cur" "token_ok (mc_mkg mc ! unat c) cur" "mkg_ok (mc_mkg mc ! unat c)"
    using assms(2) by (auto simp: group_ok_def)
  have "mt_T cur = cc_tek_int (cp_clusters params ! unat c)" "mt_MT_K cur = mg_mt_k (mc_groups mc ! unat c)"
    using cur(1) assms(4) by (auto simp: mc_current_def Let_def split: if_splits)
  then show ?thesis
    using SlaveDecrypt_eq[OF assms(1) cur(3,2) assms(5)] mc_current_users[OF cur(1)] assms(3,6)
    by (simp add: Mc_GetMtk_def cluster_ge_3)
qed

text \<open>
  C29.  The multicast manager over any sequence of joins, leaves and handovers, from
  Initialize with a parameter file that numbers the slaves of each cluster from 0 as the
  repository's files do.  The member sets start as \<open>6 * c\<close> to \<open>6 * c + 5\<close>
  and change as the calls say; the run ends in an exception exactly when a call is to add or remove an index
  that the file does not have (a handover takes the slot behind the
  members of the new cluster).  Otherwise, at the end, a slave of cluster 0 has an
  exponent that undoes the cluster's token exactly when it is a member, and then it recovers
  the cluster's key from \<open>GetMtk\<close>; in the clusters 1 and 2, whose files' slaves are no
  members at the start, it is the other way round: the exponent of a slave fits exactly when
  it is not a member, so each join locks out the slave that joined.
\<close>
theorem multicast_run_members:
  assumes "powm_law E" "local_indices params"
  defines "start \<equiv> Mc_Initialize (MulticastManager_new (Some params))"
  shows "case call_changes (file_slaves params) evs {(c, j). unat c < 3 \<and> unat j div 6 = unat c} of
      None \<Rightarrow> mc_calls E evs start = Some (Inl CryptoException)
    | Some M \<Rightarrow> \<exists>mc. mc_calls E evs start = Some (Inr mc) \<and>
        (\<forall>c j. unat c < 3 \<longrightarrow> (Mc_IsMember mc c j \<longleftrightarrow> (c, j) \<in> M)) \<and>
        (\<forall>c. \<forall>s\<in>set (cc_slave_keys (cp_clusters params ! unat c)). unat c < 3 \<longrightarrow>
           (fits_group mc c s \<longleftrightarrow> ((c, sk_uav_index s) \<in> M \<longleftrightarrow> c = 0))) \<and>
        (\<forall>s\<in>set (cc_slave_keys (cp_clusters params ! 0)). (0, sk_uav_index s) \<in> M \<longrightarrow>
           SlaveDecrypt E s (Mc_GetMtk mc 0) = Inr (cc_tek_int (cp_clusters params ! 0) mod sk_n s))"
proof (cases "call_changes (file_slaves params) evs {(c, j). unat c < 3 \<and> unat j div 6 = unat c}")
  note init = initialized_counted[OF assms(2) start_def[THEN meta_eq_to_obj_eq]]
  note run = mc_calls_counted[OF assms(1,2) init(1), of evs, unfolded init(2)]
  case None
  then show ?thesis
    using run by simp
next
  note init = initialized_counted[OF assms(2) start_def[THEN meta_eq_to_obj_eq]]
  note run = mc_calls_counted[OF assms(1,2) init(1), of evs, unfolded init(2)]
  case (Some M)
  obtain mc where mc: "mc_calls E evs start = Some (Inr mc)" "counted params mc" "mc_members (E, mc) = M"
    using run Some by auto
  have mem: "Mc_IsMember mc c j \<longleftrightarrow> (c, j) \<in> M" if "unat c < 3" for c j
    using that by (simp add: mc(3)[symmetric] mc_members_def Mc_IsMember_def Mg_IsMember_def cluster_ge_3)
  note zero = countedD[OF mc(2), of 0, simplified]
  have "SlaveDecrypt E s (Mc_GetMtk mc 0) = Inr (cc_tek_int (cp_clusters params ! 0) mod sk_n s)"
    if "s \<in> set (cc_slave_keys (cp_clusters params ! 0))" "(0, sk_uav_index s) \<in> M" for s
  proof -
    have "sk_uav_index s \<in> set (mg_members (mc_groups mc ! unat 0))"
      using that(2) by (simp add: mc(3)[symmetric] mc_members_def)
    moreover have "s \<in> set (mk_slaves (mc_mkg mc ! unat 0))" using that(1) zero(5) by (simp add: load_cluster_def)
    ultimately show ?thesis using group_decrypt[OF assms(1) zero(3) _ zero(2), of s] by simp
  qed
  with mc(1) mem counted_fits[OF assms(2) mc(2), of _ _ E] show ?thesis
    unfolding Some option.case mc(3) by blast
qed

lemma multicast_run_members_witness:
  "\<exists>tok mc. local_indices (demo_params3 tok) \<and>
    mc_calls toy_ext [McRemove 0 1 9 4, McAdd 1 0 5 6, McAdd 0 1 9 7, McRemove 0 0 1 8]
      (Mc_Initialize (MulticastManager_new (Some (demo_params3 tok)))) = Some (Inr mc) \<and>
    fits_group mc 0 demo_slave1 \<and> SlaveDecrypt toy_ext demo_slave1 (Mc_GetMtk mc 0) = Inr 42 \<and>
    \<not> fits_group mc 0 demo_slave0 \<and> \<not> fits_group mc 1 demo_slave0 \<and> fits_group mc 1 demo_slave1"
proof -
  obtain tok where tok: "token_ok demo_mkg tok" "mt_T tok = 42" "mt_user_indices tok = [0, 1]" using demo_token2 by blast
  note ok = demo_params3_ok[OF tok(1,3)]
  have slaves: "set (cc_slave_keys (cp_clusters (demo_params3 tok) ! unat c)) = {demo_slave0, demo_slave1}"
    "cc_tek_int (cp_clusters (demo_params3 tok) ! unat c) = 42" if "unat c < 3" for c :: u32
    using that tok(2) by (simp_all add: demo_params3_def demo_mkg_def)
  have idx: "sk_uav_index demo_slave0 = 0" "sk_uav_index demo_slave1 = 1" "sk_n demo_slave1 = 1081"
    by (simp_all add: demo_slave0_def demo_slave1_def)
  let ?start = "{(c, j). unat c < 3 \<and> unat j div 6 = unat c} :: (u32 \<times> u32) set"
  let ?M = "insert (0, 1) (insert (1, 0) (?start - {(0, 1)})) - {(0, 0)}"
  have known: "file_slaves (demo_params3 tok) c = {0, 1}" if "unat c < 3" for c
    using slaves[OF that] idx by (simp add: file_slaves_def)
  have run: "call_changes (file_slaves (demo_params3 tok)) [McRemove 0 1 9 4, McAdd 1 0 5 6, McAdd 0 1 9 7, McRemove 0 0 1 8] ?start = Some ?M"
    by (simp add: remove_change_def add_change_def known)
  have mem: "(0, 1) \<in> ?M" "(0, 0) \<notin> ?M" "(1, 0) \<in> ?M" "(1, 1) \<notin> ?M" by simp_all
  from multicast_run_members[OF toy_powm ok, of "[McRemove 0 1 9 4, McAdd 1 0 5 6, McAdd 0 1 9 7, McRemove 0 0 1 8]",
      unfolded run option.case]
  obtain mc where mc: "mc_calls toy_ext [McRemove 0 1 9 4, McAdd 1 0 5 6, McAdd 0 1 9 7, McRemove 0 0 1 8]
      (Mc_Initialize (MulticastManager_new (Some (demo_params3 tok)))) = Some (Inr mc)"
    and fits: "\<forall>c. \<forall>s\<in>set (cc_slave_keys (cp_clusters (demo_params3 tok) ! unat c)). unat c < 3 \<longrightarrow>
           (fits_group mc c s \<longleftrightarrow> ((c, sk_uav_index s) \<in> ?M \<longleftrightarrow> c = 0))"
    and dec: "\<forall>s\<in>set (cc_slave_keys (cp_clusters (demo_params3 tok) ! 0)). (0, sk_uav_index s) \<in> ?M \<longrightarrow>
           SlaveDecrypt toy_ext s (Mc_GetMtk mc 0) = Inr (cc_tek_int (cp_clusters (demo_params3 tok) ! 0) mod sk_n s)"
    by blast
  have f: "fits_group mc c s \<longleftrightarrow> ((c, sk_uav_index s) \<in> ?M \<longleftrightarrow> c = 0)" if "unat c < 3" "s \<in> {demo_slave0, demo_slave1}" for c s
    using fits[rule_format, of s c] that slaves[OF that(1)] by blast
  have "SlaveDecrypt toy_ext demo_slave1 (Mc_GetMtk mc 0) = Inr 42"
    using dec[rule_format, of demo_slave1] slaves[of 0] idx mem(1) by simp
  moreover have "fits_group mc 0 demo_slave1" "\<not> fits_group mc 0 demo_slave0" "\<not> fits_group mc 1 demo_slave0"
    "fits_group mc 1 demo_slave1"
    using f[of 0 demo_slave1] f[of 0 demo_slave0] f[of 1 demo_slave0] f[of 1 demo_slave1] mem idx by simp_all
  ultimately show ?thesis using ok mc by blast
qed

end
