(* ===== verification/Group_Managers.thy ===== *)
theory Group_Managers
  imports Multicast_Manager Skdc_App
begin

text \<open>
  The managers of the key distribution centre that act on group events:
  apps/uav-mtk-distribution.cc, uav-rekey-manager.cc, uav-join-event.cc,
  uav-leave-event.cc, uav-handover-manager.cc and uav-compromise-detector.cc.  The
  record \<open>Net\<close> holds all of them, wired as main.cc wires them (every manager
  pointer is set), with the SKDC applications in a list; a pointer to an application is its
  index or, when null, \<open>None\<close>.  Callbacks are the lists of their calls, and the
  clock of \<open>steady_clock\<close> is a stream of readings in milliseconds.
\<close>

section \<open>State\<close>

record DistributionRecord =
  dr_cluster_id :: u32
  dr_last_version :: u32
  dr_last_broadcast :: u64
  dr_total_broadcasts :: u64
  dr_total_bytes :: u64
  dr_pending :: bool

record MtkDistributionManager =
  md_records :: "DistributionRecord list"
  md_broadcast_cb :: "(u32 \<times> u32 \<times> u64) list option"

datatype RekeyMgrReason = RM_LEAVE | RM_COMPROMISE | RM_PERIODIC | RM_KDC_INIT | RM_HANDOVER

record RekeyEvent =
  re_cluster_id :: u32
  re_old_version :: u32
  re_new_version :: u32
  re_reason :: RekeyMgrReason
  re_time_s :: real
  re_latency_ms :: real
  re_success :: bool

record RekeyManager =
  rm_history :: "RekeyEvent list"
  rm_rekey_cb :: "RekeyEvent list option"
  rm_total_rekeys :: u64
  rm_cluster_rekeys :: "u64 list"

record JoinRecord =
  jr_uav_id :: u32
  jr_uav_index :: u32
  jr_cluster_id :: u32
  jr_time_s :: real
  jr_authenticated :: bool
  jr_joined :: bool
  jr_tek_received :: bool
  jr_latency_ms :: real

record JoinEventManager =
  je_history :: "JoinRecord list"
  je_join_cb :: "JoinRecord list option"
  je_total_joins :: u64
  je_failed_joins :: u64
  je_replay_cache :: ReplayCache

record LeaveRecord =
  lr_uav_id :: u32
  lr_uav_index :: u32
  lr_cluster_id :: u32
  lr_time_s :: real
  lr_revoked :: bool
  lr_rekey_done :: bool
  lr_latency_ms :: real
  lr_new_version :: u32

record LeaveEventManager =
  le_history :: "LeaveRecord list"
  le_leave_cb :: "LeaveRecord list option"
  le_total_leaves :: u64
  le_force_revokes :: u64

record HandoverRecord =
  hr_uav_id :: u32
  hr_old_cluster :: u32
  hr_new_cluster :: u32
  hr_old_uav_index :: u32
  hr_new_uav_index :: u32
  hr_time_s :: real
  hr_leave_ok :: bool
  hr_join_ok :: bool
  hr_old_rekey_done :: bool
  hr_new_rekey_done :: bool
  hr_latency_ms :: real

record HandoverManager =
  hm_history :: "HandoverRecord list"
  hm_handover_cb :: "HandoverRecord list option"
  hm_total_handovers :: u64
  hm_failed_handovers :: u64

datatype CompromiseReason = CR_HMAC_FAILURE | CR_REPLAY_ATTACK | CR_INVALID_TEK | CR_ANOMALOUS_RATE | CR_EXTERNAL_REPORT

record CompromiseEvent =
  ce_uav_id :: u32
  ce_cluster_id :: u32
  ce_uav_index :: u32
  ce_reason :: CompromiseReason
  ce_time_s :: real
  ce_revoked :: bool

record CompromiseDetector =
  cd_history :: "CompromiseEvent list"
  cd_compromised :: "u32 list"
  cd_revoked :: "u32 list"
  cd_callback :: "CompromiseEvent list option"
  cd_total_detections :: u64
  cd_total_revocations :: u64

record Net = World +
  nt_tek :: TekManager
  nt_mc :: MulticastManager
  nt_skdcs :: "SkdcApp list"
  nt_dist :: MtkDistributionManager
  nt_rekey :: RekeyManager
  nt_join :: JoinEventManager
  nt_leave :: LeaveEventManager
  nt_ho :: HandoverManager
  nt_comp :: CompromiseDetector
  nt_timers :: "(real \<times> u32 \<times> nat option) list"
  nt_steady_ms :: "nat \<Rightarrow> real"

definition DistributionRecord_new :: DistributionRecord where
  "DistributionRecord_new =
     \<lparr> dr_cluster_id = 0, dr_last_version = 0, dr_last_broadcast = 0, dr_total_broadcasts = 0,
       dr_total_bytes = 0, dr_pending = False \<rparr>"

definition MtkDistributionManager_new :: MtkDistributionManager where
  "MtkDistributionManager_new =
     \<lparr> md_records = map (\<lambda>c. DistributionRecord_new \<lparr> dr_cluster_id := c, dr_last_version := 0, dr_pending := False \<rparr>) [0, 1, 2],
       md_broadcast_cb = None \<rparr>"

definition RekeyManager_new :: RekeyManager where
  "RekeyManager_new = \<lparr> rm_history = [], rm_rekey_cb = None, rm_total_rekeys = 0, rm_cluster_rekeys = [0, 0, 0] \<rparr>"

definition JoinEventManager_new :: JoinEventManager where
  "JoinEventManager_new =
     \<lparr> je_history = [], je_join_cb = None, je_total_joins = 0, je_failed_joins = 0,
       je_replay_cache = ReplayCache_new 1000 30 \<rparr>"

definition LeaveEventManager_new :: LeaveEventManager where
  "LeaveEventManager_new = \<lparr> le_history = [], le_leave_cb = None, le_total_leaves = 0, le_force_revokes = 0 \<rparr>"

definition HandoverManager_new :: HandoverManager where
  "HandoverManager_new = \<lparr> hm_history = [], hm_handover_cb = None, hm_total_handovers = 0, hm_failed_handovers = 0 \<rparr>"

definition CompromiseDetector_new :: CompromiseDetector where
  "CompromiseDetector_new =
     \<lparr> cd_history = [], cd_compromised = [], cd_revoked = [], cd_callback = None, cd_total_detections = 0,
       cd_total_revocations = 0 \<rparr>"

text \<open>A callback that is set is called with \<open>x\<close>.\<close>

definition call_cb :: "'x \<Rightarrow> 'x list option \<Rightarrow> 'x list option" where
  "call_cb x cb = (case cb of None \<Rightarrow> None | Some calls \<Rightarrow> Some (calls @ [x]))"

text \<open>\<open>steady_clock::now()\<close>.\<close>

definition SteadyNow :: "Net \<Rightarrow> real \<times> Net" where
  "SteadyNow N = (nt_steady_ms N (env_reads N), N \<lparr> env_reads := env_reads N + 1 \<rparr>)"

text \<open>The TEK manager and the applications at work inside the network.\<close>

definition net_rotate :: "ext \<Rightarrow> u32 \<Rightarrow> Net \<Rightarrow> Net res" where
  "net_rotate E cluster_id N =
     rbind (RotateOnLeave E (nt_tek N) cluster_id N) (\<lambda>(tm, N). Inr (N \<lparr> nt_tek := tm \<rparr>))"

definition net_update_tek :: "u32 \<Rightarrow> bytes \<Rightarrow> u32 \<Rightarrow> Net \<Rightarrow> Net" where
  "net_update_tek cluster_id new_tek version N =
     (let (tm, N) = Tek_UpdateTek (nt_tek N) cluster_id new_tek version N in N \<lparr> nt_tek := tm \<rparr>)"

definition skdc_update_tek :: "ext \<Rightarrow> nat \<Rightarrow> bytes \<Rightarrow> Net \<Rightarrow> Net res" where
  "skdc_update_tek E k tek N =
     rbind (Skdc_UpdateTek E (nt_skdcs N ! k) tek N) (\<lambda>(app, N). Inr (N \<lparr> nt_skdcs := (nt_skdcs N)[k := app] \<rparr>))"

section \<open>MT\_K distribution\<close>

definition Dist_BroadcastMtk :: "ext \<Rightarrow> u32 \<Rightarrow> nat option \<Rightarrow> Net \<Rightarrow> Net res" where
  "Dist_BroadcastMtk E cluster_id skdc N =
     (case skdc of
        None \<Rightarrow> Inr N
      | Some k \<Rightarrow>
          if cluster_id \<ge> 3 then Inr N
          else
            let version = Tek_GetVersion (nt_tek N) cluster_id in
            rbind (skdc_update_tek E k (GetTek (nt_tek N) cluster_id) N) (\<lambda>N.
            let r = md_records (nt_dist N) ! unat cluster_id;
                r = r \<lparr> dr_last_version := version \<rparr>;
                (now, N) = NowEpochMicros N;
                r = r \<lparr> dr_last_broadcast := now, dr_total_broadcasts := dr_total_broadcasts r + 1,
                        dr_total_bytes := dr_total_bytes r + 892, dr_pending := False \<rparr>;
                md = nt_dist N;
                md = md \<lparr> md_records := (md_records md)[unat cluster_id := r],
                          md_broadcast_cb := call_cb (cluster_id, version, dr_total_bytes r) (md_broadcast_cb md) \<rparr>
            in Inr (N \<lparr> nt_dist := md \<rparr>)))"

fun Dist_BroadcastAll_from :: "ext \<Rightarrow> (u32 \<times> nat option) list \<Rightarrow> Net \<Rightarrow> Net res" where
  "Dist_BroadcastAll_from E [] N = Inr N"
| "Dist_BroadcastAll_from E ((c, skdc) # rest) N =
     (if skdc \<noteq> None then rbind (Dist_BroadcastMtk E c skdc N) (Dist_BroadcastAll_from E rest)
      else Dist_BroadcastAll_from E rest N)"

definition Dist_BroadcastAll :: "ext \<Rightarrow> nat option list \<Rightarrow> Net \<Rightarrow> Net res" where
  "Dist_BroadcastAll E skdc_apps N = Dist_BroadcastAll_from E (zip [0, 1, 2] skdc_apps) N"

definition ScheduleRefresh :: "Net \<Rightarrow> Net" where
  "ScheduleRefresh N =
     N \<lparr> nt_dist := (nt_dist N) \<lparr> md_records := map (\<lambda>r. r \<lparr> dr_pending := True \<rparr>) (md_records (nt_dist N)) \<rparr> \<rparr>"

definition OnTekRotated :: "ext \<Rightarrow> u32 \<Rightarrow> bytes \<Rightarrow> u32 \<Rightarrow> nat option \<Rightarrow> Net \<Rightarrow> Net res" where
  "OnTekRotated E cluster_id new_tek version skdc N =
     Dist_BroadcastMtk E cluster_id skdc (net_update_tek cluster_id new_tek version N)"

definition OnMemberJoined :: "ext \<Rightarrow> u32 \<Rightarrow> u32 \<Rightarrow> nat option \<Rightarrow> Net \<Rightarrow> Net res" where
  "OnMemberJoined E cluster_id uav_id skdc N = Dist_BroadcastMtk E cluster_id skdc N"

definition OnMemberLeft :: "ext \<Rightarrow> u32 \<Rightarrow> u32 \<Rightarrow> nat option \<Rightarrow> Net \<Rightarrow> Net res" where
  "OnMemberLeft E cluster_id uav_id skdc N =
     rbind (net_rotate E cluster_id N) (Dist_BroadcastMtk E cluster_id skdc)"

definition GetRecord :: "MtkDistributionManager \<Rightarrow> u32 \<Rightarrow> DistributionRecord" where
  "GetRecord md cluster_id = (if cluster_id \<ge> 3 then DistributionRecord_new else md_records md ! unat cluster_id)"

definition GetTotalBroadcasts :: "MtkDistributionManager \<Rightarrow> u64" where
  "GetTotalBroadcasts md = foldl (\<lambda>total r. total + dr_total_broadcasts r) 0 (md_records md)"

definition GetTotalBytes :: "MtkDistributionManager \<Rightarrow> u64" where
  "GetTotalBytes md = foldl (\<lambda>total r. total + dr_total_bytes r) 0 (md_records md)"

section \<open>Rekeying\<close>

text \<open>The bytes of the time stamp are pushed from the highest to the lowest.\<close>

definition DeriveTek :: "ext \<Rightarrow> bytes \<Rightarrow> u64 \<Rightarrow> bytes \<Rightarrow> bytes" where
  "DeriveTek E old_tek timestamp_us nonce =
     (let input = old_tek;
          input = foldl (\<lambda>bs i. bs @ [ucast ((drop_bit (i * 8) timestamp_us) AND 0xFF)]) input [7, 6, 5, 4, 3, 2, 1, 0];
          input = input @ nonce
      in x_sha256 E input)"

definition Rekey_TriggerRekey ::
    "ext \<Rightarrow> u32 \<Rightarrow> RekeyMgrReason \<Rightarrow> nat option \<Rightarrow> Net \<Rightarrow> (Net \<times> bool) res" where
  "Rekey_TriggerRekey E cluster_id reason skdc N =
     (if cluster_id \<ge> 3 then Inr (N, False)
      else
        let (wc_start, N) = SteadyNow N;
            old_version = Tek_GetVersion (nt_tek N) cluster_id;
            time_s = env_now N;
            old_tek = GetTek (nt_tek N) cluster_id;
            (ts, N) = NowEpochMicros N;
            (nonce, N) = RandomBytes 16 N;
            new_tek = DeriveTek E old_tek ts nonce;
            new_ver = old_version + 1;
            N = net_update_tek cluster_id new_tek new_ver N;
            new_version = Tek_GetVersion (nt_tek N) cluster_id
        in rbind (if skdc \<noteq> None then OnTekRotated E cluster_id new_tek new_ver skdc N else Inr N) (\<lambda>N.
        let (wc_end, N) = SteadyNow N;
            ev = \<lparr> re_cluster_id = cluster_id, re_old_version = old_version, re_new_version = new_version,
                   re_reason = reason, re_time_s = time_s, re_latency_ms = wc_end - wc_start, re_success = True \<rparr>;
            rm = nt_rekey N;
            rm = rm \<lparr> rm_history := rm_history rm @ [ev], rm_total_rekeys := rm_total_rekeys rm + 1,
                      rm_cluster_rekeys := (rm_cluster_rekeys rm)[unat cluster_id := rm_cluster_rekeys rm ! unat cluster_id + 1],
                      rm_rekey_cb := call_cb ev (rm_rekey_cb rm) \<rparr>
        in Inr (N \<lparr> nt_rekey := rm \<rparr>, True)))"

fun GlobalRekey_from :: "ext \<Rightarrow> RekeyMgrReason \<Rightarrow> (u32 \<times> nat option) list \<Rightarrow> Net \<Rightarrow> Net res" where
  "GlobalRekey_from E reason [] N = Inr N"
| "GlobalRekey_from E reason ((c, skdc) # rest) N =
     (if skdc \<noteq> None
      then rbind (Rekey_TriggerRekey E c reason skdc N) (\<lambda>(N, ok). GlobalRekey_from E reason rest N)
      else GlobalRekey_from E reason rest N)"

definition GlobalRekey :: "ext \<Rightarrow> nat option list \<Rightarrow> RekeyMgrReason \<Rightarrow> Net \<Rightarrow> Net res" where
  "GlobalRekey E skdc_apps reason N = GlobalRekey_from E reason (zip [0, 1, 2] skdc_apps) N"

definition SchedulePeriodic :: "u32 \<Rightarrow> nat option \<Rightarrow> real \<Rightarrow> Net \<Rightarrow> Net" where
  "SchedulePeriodic cluster_id skdc interval_s N =
     N \<lparr> nt_timers := nt_timers N @ [(env_now N + interval_s, cluster_id, skdc)] \<rparr>"

definition PeriodicRekeyCallback :: "ext \<Rightarrow> u32 \<Rightarrow> nat option \<Rightarrow> Net \<Rightarrow> Net res" where
  "PeriodicRekeyCallback E cluster_id skdc N =
     rbind (Rekey_TriggerRekey E cluster_id RM_PERIODIC skdc N) (\<lambda>(N, ok). Inr N)"

definition RM_GetRekeyCount :: "RekeyManager \<Rightarrow> u32 \<Rightarrow> u64" where
  "RM_GetRekeyCount rm cluster_id = (if cluster_id \<ge> 3 then 0 else rm_cluster_rekeys rm ! unat cluster_id)"

text \<open>Average latencies, here of rekeys and below of joins, leaves and handovers; a latency is a double in the code.\<close>

definition avg_latency :: "real list \<Rightarrow> real" where
  "avg_latency ls = (if ls = [] then 0 else foldl (+) 0 ls / real (length ls))"

definition GetAvgRekeyLatency :: "RekeyManager \<Rightarrow> real" where
  "GetAvgRekeyLatency rm = avg_latency (map re_latency_ms (rm_history rm))"

section \<open>Joins\<close>

definition BuildJoinPacket :: "u32 \<Rightarrow> u32 \<Rightarrow> u32 \<Rightarrow> Net \<Rightarrow> JoinPacket \<times> Net" where
  "BuildJoinPacket uav_id uav_index cluster_id N =
     (let (r, N) = join_readings N;
          (pkt, seq) = Join_BuildRequest r (ucast uav_id) (ucast (cluster_id + 1)) (ucast cluster_id) uav_index 1
      in (pkt, N))"

definition AuthenticateJoin :: "ext \<Rightarrow> JoinPacket \<Rightarrow> bytes \<Rightarrow> bool res" where
  "AuthenticateJoin E pkt hmac_key =
     (let wire = JoinPacket_Serialize pkt in
      rbind (AppendHmac E hmac_key wire) (\<lambda>wire.
      Inr (case StripAndVerifyHmac E hmac_key wire of Inl e \<Rightarrow> False | Inr body \<Rightarrow> True)))"

definition Je_ProcessJoin :: "ext \<Rightarrow> u32 \<Rightarrow> u32 \<Rightarrow> u32 \<Rightarrow> nat option \<Rightarrow> Net \<Rightarrow> (Net \<times> bool) comp" where
  "Je_ProcessJoin E uav_id uav_index cluster_id skdc N =
     (let t_start = env_now N * 1000;
          r = \<lparr> jr_uav_id = uav_id, jr_uav_index = uav_index, jr_cluster_id = cluster_id, jr_time_s = env_now N,
                jr_authenticated = False, jr_joined = False, jr_tek_received = False, jr_latency_ms = 0 \<rparr>;
          je = nt_join N;
          N = N \<lparr> nt_join := je \<lparr> je_total_joins := je_total_joins je + 1 \<rparr> \<rparr>;
          (hmac_key, N) = RandomBytes 32 N;
          (join_pkt, N) = BuildJoinPacket uav_id uav_index cluster_id N
      in cbind (Some (AuthenticateJoin E join_pkt hmac_key)) (\<lambda>authenticated.
      let r = r \<lparr> jr_authenticated := authenticated \<rparr> in
      if \<not> authenticated then
        let je = nt_join N;
            je = je \<lparr> je_failed_joins := je_failed_joins je + 1, je_history := je_history je @ [r] \<rparr>
        in cret (N \<lparr> nt_join := je \<rparr>, False)
      else
        cbind (AddMember E (nt_mc N) cluster_id uav_index uav_id (env_now N)) (\<lambda>(mc, joined).
        let N = N \<lparr> nt_mc := mc \<rparr>;
            r = r \<lparr> jr_joined := joined \<rparr>;
            r = (if \<not> jr_joined r then r \<lparr> jr_joined := True \<rparr> else r)
        in cbind (Some (if skdc \<noteq> None then OnMemberJoined E cluster_id uav_id skdc N else Inr N)) (\<lambda>N.
        let r = r \<lparr> jr_tek_received := True \<rparr>;
            t_end = env_now N * 1000;
            r = r \<lparr> jr_latency_ms := t_end - t_start \<rparr>;
            je = nt_join N;
            je = je \<lparr> je_history := je_history je @ [r], je_join_cb := call_cb r (je_join_cb je) \<rparr>
        in cret (N \<lparr> nt_join := je \<rparr>, True)))))"

definition GetAvgJoinLatency :: "JoinEventManager \<Rightarrow> real" where
  "GetAvgJoinLatency je = avg_latency (map jr_latency_ms (je_history je))"

section \<open>Leaves\<close>

definition DoLeave :: "ext \<Rightarrow> u32 \<Rightarrow> u32 \<Rightarrow> u32 \<Rightarrow> nat option \<Rightarrow> bool \<Rightarrow> Net \<Rightarrow> (Net \<times> bool) comp" where
  "DoLeave E uav_id uav_index cluster_id skdc forced N =
     (let t_start = env_now N * 1000;
          r = \<lparr> lr_uav_id = uav_id, lr_uav_index = uav_index, lr_cluster_id = cluster_id, lr_time_s = env_now N,
                lr_revoked = False, lr_rekey_done = False, lr_latency_ms = 0, lr_new_version = 0 \<rparr>
      in cbind (RemoveMember E (nt_mc N) cluster_id uav_index uav_id (env_now N)) (\<lambda>(mc, removed).
      let N = N \<lparr> nt_mc := mc \<rparr>;
          r = r \<lparr> lr_revoked := removed \<or> forced \<rparr>
      in if \<not> lr_revoked r then
           cret (N \<lparr> nt_leave := (nt_leave N) \<lparr> le_history := le_history (nt_leave N) @ [r] \<rparr> \<rparr>, False)
         else
           cbind (Some (net_rotate E cluster_id N)) (\<lambda>N.
           let r = r \<lparr> lr_new_version := Tek_GetVersion (nt_tek N) cluster_id \<rparr> in
           cbind (Some (if skdc \<noteq> None then OnMemberLeft E cluster_id uav_id skdc N else Inr N)) (\<lambda>N.
           let r = r \<lparr> lr_rekey_done := True \<rparr>;
               t_end = env_now N * 1000;
               r = r \<lparr> lr_latency_ms := t_end - t_start \<rparr>;
               le = nt_leave N;
               le = le \<lparr> le_history := le_history le @ [r], le_leave_cb := call_cb r (le_leave_cb le) \<rparr>
           in cret (N \<lparr> nt_leave := le \<rparr>, True)))))"

definition Le_ProcessLeave :: "ext \<Rightarrow> u32 \<Rightarrow> u32 \<Rightarrow> u32 \<Rightarrow> nat option \<Rightarrow> Net \<Rightarrow> (Net \<times> bool) comp" where
  "Le_ProcessLeave E uav_id uav_index cluster_id skdc N =
     (let le = nt_leave N;
          N = N \<lparr> nt_leave := le \<lparr> le_total_leaves := le_total_leaves le + 1 \<rparr> \<rparr>
      in DoLeave E uav_id uav_index cluster_id skdc False N)"

definition ForceRevoke :: "ext \<Rightarrow> u32 \<Rightarrow> u32 \<Rightarrow> u32 \<Rightarrow> nat option \<Rightarrow> Net \<Rightarrow> (Net \<times> bool) comp" where
  "ForceRevoke E uav_id uav_index cluster_id skdc N =
     (let le = nt_leave N;
          N = N \<lparr> nt_leave := le \<lparr> le_total_leaves := le_total_leaves le + 1,
                                    le_force_revokes := le_force_revokes le + 1 \<rparr> \<rparr>
      in DoLeave E uav_id uav_index cluster_id skdc True N)"

definition GetAvgLeaveLatency :: "LeaveEventManager \<Rightarrow> real" where
  "GetAvgLeaveLatency le = avg_latency (map lr_latency_ms (le_history le))"

section \<open>Handovers\<close>

definition ProcessHandover ::
    "ext \<Rightarrow> u32 \<Rightarrow> u32 \<Rightarrow> u32 \<Rightarrow> u32 \<Rightarrow> nat option list \<Rightarrow> Net \<Rightarrow> (Net \<times> bool) comp" where
  "ProcessHandover E uav_id old_uav_index old_cluster new_cluster skdc_apps N =
     (if old_cluster = new_cluster then cret (N, False)
      else if old_cluster \<ge> 3 \<or> new_cluster \<ge> 3 then cret (N, False)
      else
        let t_start = env_now N * 1000;
            time_s = env_now N;
            hm = nt_ho N;
            N = N \<lparr> nt_ho := hm \<lparr> hm_total_handovers := hm_total_handovers hm + 1 \<rparr> \<rparr>
        in cbind (Le_ProcessLeave E uav_id old_uav_index old_cluster (skdc_apps ! unat old_cluster) N) (\<lambda>(N, leave_ok).
        let new_size = GetGroupSize (nt_mc N) new_cluster;
            new_uav_index = new_size mod 6
        in cbind (Je_ProcessJoin E uav_id new_uav_index new_cluster (skdc_apps ! unat new_cluster) N) (\<lambda>(N, join_ok).
        let t_end = env_now N * 1000;
            r = \<lparr> hr_uav_id = uav_id, hr_old_cluster = old_cluster, hr_new_cluster = new_cluster,
                  hr_old_uav_index = old_uav_index, hr_new_uav_index = new_uav_index, hr_time_s = time_s,
                  hr_leave_ok = leave_ok, hr_join_ok = join_ok, hr_old_rekey_done = leave_ok,
                  hr_new_rekey_done = join_ok, hr_latency_ms = t_end - t_start \<rparr>;
            hm = nt_ho N;
            hm = hm \<lparr> hm_history := hm_history hm @ [r] \<rparr>
        in if \<not> leave_ok \<or> \<not> join_ok then
             cret (N \<lparr> nt_ho := hm \<lparr> hm_failed_handovers := hm_failed_handovers hm + 1 \<rparr> \<rparr>, False)
           else
             cret (N \<lparr> nt_ho := hm \<lparr> hm_handover_cb := call_cb r (hm_handover_cb hm) \<rparr> \<rparr>, True))))"

definition GetAvgHandoverLatency :: "HandoverManager \<Rightarrow> real" where
  "GetAvgHandoverLatency hm = avg_latency (map hr_latency_ms (hm_history hm))"

section \<open>Compromise detection\<close>

definition IsCompromised :: "CompromiseDetector \<Rightarrow> u32 \<Rightarrow> bool" where
  "IsCompromised cd uav_id \<longleftrightarrow> uav_id \<in> set (cd_compromised cd)"

definition IsRevoked :: "CompromiseDetector \<Rightarrow> u32 \<Rightarrow> bool" where
  "IsRevoked cd uav_id \<longleftrightarrow> uav_id \<in> set (cd_revoked cd)"

definition HandleCompromise ::
    "ext \<Rightarrow> u32 \<Rightarrow> u32 \<Rightarrow> u32 \<Rightarrow> CompromiseReason \<Rightarrow> nat option \<Rightarrow> Net \<Rightarrow> Net comp" where
  "HandleCompromise E uav_id cluster_id uav_index reason skdc N =
     (if IsRevoked (nt_comp N) uav_id then cret N
      else
        let cd = nt_comp N;
            cd = cd \<lparr> cd_total_detections := cd_total_detections cd + 1 \<rparr>;
            ev = \<lparr> ce_uav_id = uav_id, ce_cluster_id = cluster_id, ce_uav_index = uav_index, ce_reason = reason,
                   ce_time_s = env_now N, ce_revoked = False \<rparr>;
            cd = (if \<not> IsCompromised cd uav_id then cd \<lparr> cd_compromised := cd_compromised cd @ [uav_id] \<rparr> else cd);
            N = N \<lparr> nt_comp := cd \<rparr>
        in cbind (if skdc \<noteq> None then ForceRevoke E uav_id uav_index cluster_id skdc N else cret (N, False)) (\<lambda>(N, revoked).
        let ev = ev \<lparr> ce_revoked := revoked \<rparr>;
            cd = nt_comp N;
            cd = (if revoked
                  then cd \<lparr> cd_revoked := cd_revoked cd @ [uav_id], cd_total_revocations := cd_total_revocations cd + 1 \<rparr>
                  else cd);
            cd = cd \<lparr> cd_history := cd_history cd @ [ev], cd_callback := call_cb ev (cd_callback cd) \<rparr>
        in cret (N \<lparr> nt_comp := cd \<rparr>)))"

definition ReportHmacFailure :: "ext \<Rightarrow> u32 \<Rightarrow> u32 \<Rightarrow> u32 \<Rightarrow> nat option \<Rightarrow> Net \<Rightarrow> Net comp" where
  "ReportHmacFailure E uav_id cluster_id uav_index skdc N =
     HandleCompromise E uav_id cluster_id uav_index CR_HMAC_FAILURE skdc N"

definition ReportReplayAttack :: "ext \<Rightarrow> u32 \<Rightarrow> u32 \<Rightarrow> u32 \<Rightarrow> nat option \<Rightarrow> Net \<Rightarrow> Net comp" where
  "ReportReplayAttack E uav_id cluster_id uav_index skdc N =
     HandleCompromise E uav_id cluster_id uav_index CR_REPLAY_ATTACK skdc N"

definition ReportInvalidTek :: "ext \<Rightarrow> u32 \<Rightarrow> u32 \<Rightarrow> u32 \<Rightarrow> nat option \<Rightarrow> Net \<Rightarrow> Net comp" where
  "ReportInvalidTek E uav_id cluster_id uav_index skdc N =
     HandleCompromise E uav_id cluster_id uav_index CR_INVALID_TEK skdc N"

definition ReportExternal :: "ext \<Rightarrow> u32 \<Rightarrow> u32 \<Rightarrow> u32 \<Rightarrow> nat option \<Rightarrow> Net \<Rightarrow> Net comp" where
  "ReportExternal E uav_id cluster_id uav_index skdc N =
     HandleCompromise E uav_id cluster_id uav_index CR_EXTERNAL_REPORT skdc N"

definition GetCompromisedUavs :: "CompromiseDetector \<Rightarrow> u32 list" where
  "GetCompromisedUavs cd = cd_compromised cd"

end
