(* ===== verification/Group_Effects.thy ===== *)
theory Group_Effects
  imports Group_Managers Skdc_Runs
begin

text \<open>
  What the operations of theory Group\_Managers do to the network: the TEK updates and
  broadcasts they share, joins, leaves and rekeys, each with everything that it
  leaves alone.
\<close>

section \<open>Well-formed networks\<close>

definition apps_ok :: "ext \<Rightarrow> SkdcApp list \<Rightarrow> bool" where
  "apps_ok E apps \<longleftrightarrow> length apps = 3 \<and> (\<forall>app\<in>set apps. sendable E (sk_state app) \<and> length (sd_current_tek (sk_state app)) = 32)"

definition net_ok :: "ext \<Rightarrow> Net \<Rightarrow> bool" where
  "net_ok E N \<longleftrightarrow> hmac_law E \<and> msb_law E \<and> sha256_law E \<and> powm_law E \<and> wf_world N \<and> wf_tek (nt_tek N) \<and>
     length (md_records (nt_dist N)) = 3 \<and> length (rm_cluster_rekeys (nt_rekey N)) = 3 \<and> apps_ok E (nt_skdcs N)"

text \<open>The states the shared operations lead to.\<close>

definition net_upd ::
    "nat \<Rightarrow> Datagram list \<Rightarrow> TekManager \<Rightarrow> SkdcApp list \<Rightarrow> MtkDistributionManager \<Rightarrow> Net \<Rightarrow> Net" where
  "net_upd r ds tm apps md N =
     N \<lparr> env_reads := r, env_sent := env_sent N @ ds, nt_tek := tm, nt_skdcs := apps, nt_dist := md \<rparr>"

definition tek_upd :: "ext \<Rightarrow> Net \<Rightarrow> Net \<Rightarrow> bool" where
  "tek_upd E N N' \<longleftrightarrow> (\<exists>r ds tm apps md. N' = net_upd r ds tm apps md N \<and> net_ok E N' \<and>
     map (\<lambda>app. sd_mt_k (sk_state app)) apps = map (\<lambda>app. sd_mt_k (sk_state app)) (nt_skdcs N))"

lemma net_upd_simps [simp]:
  "nt_mc (net_upd r ds tm apps md N) = nt_mc N" "nt_tek (net_upd r ds tm apps md N) = tm"
  "nt_skdcs (net_upd r ds tm apps md N) = apps" "nt_dist (net_upd r ds tm apps md N) = md"
  "nt_rekey (net_upd r ds tm apps md N) = nt_rekey N" "nt_join (net_upd r ds tm apps md N) = nt_join N"
  "nt_leave (net_upd r ds tm apps md N) = nt_leave N" "nt_ho (net_upd r ds tm apps md N) = nt_ho N"
  "nt_comp (net_upd r ds tm apps md N) = nt_comp N" "env_now (net_upd r ds tm apps md N) = env_now N"
  "env_reads (net_upd r ds tm apps md N) = r" "env_random (net_upd r ds tm apps md N) = env_random N"
  "env_micros (net_upd r ds tm apps md N) = env_micros N"
  "env_sent (net_upd r ds tm apps md N) = env_sent N @ ds" "nt_steady_ms (net_upd r ds tm apps md N) = nt_steady_ms N"
  "nt_timers (net_upd r ds tm apps md N) = nt_timers N"
  by (simp_all add: net_upd_def)

lemma tek_upd_same:
  assumes "tek_upd E N N'"
  shows "nt_mc N' = nt_mc N" "nt_rekey N' = nt_rekey N" "nt_join N' = nt_join N" "nt_leave N' = nt_leave N"
    "nt_ho N' = nt_ho N" "nt_comp N' = nt_comp N" "env_now N' = env_now N" "env_random N' = env_random N"
    "net_ok E N'" "nt_steady_ms N' = nt_steady_ms N" "nt_timers N' = nt_timers N"
    "map (\<lambda>app. sd_mt_k (sk_state app)) (nt_skdcs N') = map (\<lambda>app. sd_mt_k (sk_state app)) (nt_skdcs N)"
  using assms by (auto simp: tek_upd_def)

lemma tek_upd_trans: "tek_upd E N N1 \<Longrightarrow> tek_upd E N1 N2 \<Longrightarrow> tek_upd E N N2"
proof -
  assume "tek_upd E N N1" "tek_upd E N1 N2"
  then obtain r ds tm apps md r' ds' tm' apps' md' where
    1: "N1 = net_upd r ds tm apps md N" "map (\<lambda>app. sd_mt_k (sk_state app)) apps = map (\<lambda>app. sd_mt_k (sk_state app)) (nt_skdcs N)"
    and 2: "N2 = net_upd r' ds' tm' apps' md' N1" "net_ok E N2"
      "map (\<lambda>app. sd_mt_k (sk_state app)) apps' = map (\<lambda>app. sd_mt_k (sk_state app)) (nt_skdcs N1)"
    unfolding tek_upd_def by blast
  have "N2 = net_upd r' (ds @ ds') tm' apps' md' N" by (simp add: 1(1) 2(1) net_upd_def)
  with 1 2 show ?thesis unfolding tek_upd_def by (metis net_upd_simps(3))
qed

lemma net_ok_reads [simp]: "net_ok E (N \<lparr> env_reads := r \<rparr>) = net_ok E N"
  by (simp add: net_ok_def wf_world_def)

lemma tek_upd_reads: "net_ok E N \<Longrightarrow> tek_upd E N (N \<lparr> env_reads := r \<rparr>)"
  unfolding tek_upd_def
  by (intro exI[of _ r] exI[of _ "[]"] exI[of _ "nt_tek N"] exI[of _ "nt_skdcs N"] exI[of _ "nt_dist N"])
    (simp add: net_upd_def)

lemma tek_upd_refl: "net_ok E N \<Longrightarrow> tek_upd E N N"
  using tek_upd_reads[of E N "env_reads N"] by simp

section \<open>The shared operations\<close>

text \<open>The key of cluster \<open>c\<close> that SKDC \<open>k\<close> holds.\<close>

definition skdc_tek :: "Net \<Rightarrow> nat \<Rightarrow> bytes" where
  "skdc_tek N k = sd_current_tek (sk_state (nt_skdcs N ! k))"

lemma net_rotate_effect:
  assumes "net_ok E N"
  obtains N' where "net_rotate E c N = Inr N'" "tek_upd E N N'" "nt_skdcs N' = nt_skdcs N"
    "\<And>d. GetTek (nt_tek N') d = (if d = c \<and> unat c < 3 then rotated_tek E (nt_tek N) c N else GetTek (nt_tek N) d)"
    "\<And>d. Tek_GetVersion (nt_tek N') d =
      (if d = c \<and> unat c < 3 then Tek_GetVersion (nt_tek N) c + 1 else Tek_GetVersion (nt_tek N) d)"
proof -
  have "hmac_law E" "wf_tek (nt_tek N)" using assms by (simp_all add: net_ok_def)
  then obtain tm W where rot: "DoRotate E (nt_tek N) c N = Inr (tm, W)" "wf_tek tm"
    "\<And>d. GetTek tm d = (if d = c \<and> unat c < 3 then rotated_tek E (nt_tek N) c N else GetTek (nt_tek N) d)"
    "\<And>d. Tek_GetVersion tm d =
      (if d = c \<and> unat c < 3 then Tek_GetVersion (nt_tek N) c + 1 else Tek_GetVersion (nt_tek N) d)"
    "\<exists>k. W = N \<lparr> env_reads := k \<rparr>"
    by (rule DoRotate_obtain[where c = c and W = N]) blast
  then obtain r where W: "W = N \<lparr> env_reads := r \<rparr>" by blast
  let ?N = "W \<lparr> nt_tek := tm \<rparr>"
  have "?N = net_upd r [] tm (nt_skdcs N) (nt_dist N) N" by (simp add: W net_upd_def)
  moreover have "net_ok E ?N" using assms rot(2) by (simp add: W net_ok_def wf_world_def)
  ultimately have "tek_upd E N ?N" unfolding tek_upd_def by blast
  then show thesis
    using rot by (intro that[of ?N]) (simp_all add: net_rotate_def RotateOnLeave_def W)
qed

lemma net_update_tek_effect:
  assumes "net_ok E N" "length key = 32"
  obtains N' where "net_update_tek c key v N = N'" "tek_upd E N N'" "nt_skdcs N' = nt_skdcs N"
    "\<And>d. GetTek (nt_tek N') d = (if d = c \<and> unat c < 3 then key else GetTek (nt_tek N) d)"
    "\<And>d. GetTekInt (nt_tek N') d = GetTekInt (nt_tek N) d"
    "\<And>d. Tek_GetVersion (nt_tek N') d = (if d = c \<and> unat c < 3 then v else Tek_GetVersion (nt_tek N) d)"
proof -
  have "wf_tek (nt_tek N)" using assms by (simp add: net_ok_def)
  then obtain tm W where up: "Tek_UpdateTek (nt_tek N) c key v N = (tm, W)" "wf_tek tm"
    "\<And>d. GetTek tm d = (if d = c \<and> unat c < 3 then key else GetTek (nt_tek N) d)"
    "\<And>d. GetTekInt tm d = GetTekInt (nt_tek N) d"
    "\<And>d. Tek_GetVersion tm d = (if d = c \<and> unat c < 3 then v else Tek_GetVersion (nt_tek N) d)"
    "\<exists>k. W = N \<lparr> env_reads := k \<rparr>"
    by (rule Tek_UpdateTek_obtain[OF _ assms(2), where c = c and v = v and W = N]) blast
  then obtain r where W: "W = N \<lparr> env_reads := r \<rparr>" by blast
  let ?N = "W \<lparr> nt_tek := tm \<rparr>"
  have "?N = net_upd r [] tm (nt_skdcs N) (nt_dist N) N" by (simp add: W net_upd_def)
  moreover have "net_ok E ?N" using assms up(2) by (simp add: W net_ok_def wf_world_def)
  ultimately have "tek_upd E N ?N" unfolding tek_upd_def by blast
  then show thesis using up by (intro that[of ?N]) (simp_all add: net_update_tek_def W)
qed

lemma Skdc_UpdateTek_effect:
  assumes "msb_law E" "wf_world W" "sendable E (sk_state app)"
  obtains app' r ds where "Skdc_UpdateTek E app tek W = Inr (app', W \<lparr> env_reads := r, env_sent := env_sent W @ ds \<rparr>)"
    "sk_state app' = (sk_state app) \<lparr> sd_current_tek := tek, sd_tek_received := True, sd_hmac_key := KeyFromAesKey tek \<rparr>"
proof -
  define app1 where "app1 = upd_state (\<lambda>st. st \<lparr> sd_current_tek := tek, sd_tek_received := True,
     sd_hmac_key := KeyFromAesKey tek \<rparr>) app"
  have up: "Skdc_UpdateTek E app tek W = BroadcastMtk E app1 W"
    by (simp add: Skdc_UpdateTek_def app1_def)
  have "sendable E (sk_state app1)" using assms(3) by (simp add: sendable_def app1_def)
  from BroadcastMtk_returns[OF assms(1,2) this] obtain app2 W2 where b: "BroadcastMtk E app1 W = Inr (app2, W2)" by blast
  from BroadcastMtk_effect[OF b] obtain s n ds r where "app2 = app1 \<lparr> sk_seq := s, sk_mtk_count := n \<rparr>"
    "W2 = W \<lparr> env_reads := r, env_sent := env_sent W @ ds \<rparr>" by blast
  with b up show thesis by (intro that[where app' = app2 and r = r and ds = ds]) (simp_all add: app1_def)
qed

lemma Dist_BroadcastMtk_effect:
  assumes "net_ok E N" "skdc = Some k" "k < 3"
  obtains N' where "Dist_BroadcastMtk E c skdc N = Inr N'" "tek_upd E N N'" "nt_tek N' = nt_tek N"
    "\<And>j. skdc_tek N' j = (if j = k \<and> unat c < 3 then GetTek (nt_tek N) c else skdc_tek N j)"
proof (cases "unat c < 3")
  case False
  then show thesis using assms tek_upd_refl[OF assms(1)]
    by (intro that[of N]) (simp_all add: Dist_BroadcastMtk_def cluster_ge_3)
next
  case True
  let ?app = "nt_skdcs N ! k" and ?tek = "GetTek (nt_tek N) c"
  have k: "k < length (nt_skdcs N)" and app: "sendable E (sk_state ?app)" and laws: "msb_law E" "wf_world N"
    using assms by (simp_all add: net_ok_def apps_ok_def)
  obtain app' r ds where up: "Skdc_UpdateTek E ?app ?tek N = Inr (app', N \<lparr> env_reads := r, env_sent := env_sent N @ ds \<rparr>)"
    "sk_state app' = (sk_state ?app) \<lparr> sd_current_tek := ?tek, sd_tek_received := True, sd_hmac_key := KeyFromAesKey ?tek \<rparr>"
    by (rule Skdc_UpdateTek_effect[OF laws app])
  define apps where "apps = (nt_skdcs N)[k := app']"
  obtain md where md: "Dist_BroadcastMtk E c skdc N = Inr (net_upd (r + 1) ds (nt_tek N) apps md N)"
    "length (md_records md) = length (md_records (nt_dist N))"
    using True assms(2) up(1)
    by (cases N) (auto simp: Dist_BroadcastMtk_def skdc_update_tek_def cluster_ge_3 NowEpochMicros_def Let_def
        net_upd_def apps_def)
  have tek: "length ?tek = 32" using assms(1) True by (simp add: net_ok_def GetTek_def cluster_ge_3 wf_tek_nth)
  have "apps_ok E apps"
    using assms(1) up(2) tek app k
    by (auto simp: apps_ok_def net_ok_def apps_def sendable_def dest: set_update_subset_insert[THEN subsetD])
  then have "net_ok E (net_upd (r + 1) ds (nt_tek N) apps md N)"
    using assms(1) md(2) by (simp add: net_ok_def wf_world_def)
  moreover have "map (\<lambda>app. sd_mt_k (sk_state app)) apps = map (\<lambda>app. sd_mt_k (sk_state app)) (nt_skdcs N)"
    using up(2) k by (simp add: apps_def map_update list_update_same_conv)
  ultimately have "tek_upd E N (net_upd (r + 1) ds (nt_tek N) apps md N)" unfolding tek_upd_def by blast
  with md(1) show thesis
    using k up(2) True
    by (intro that[of "net_upd (r + 1) ds (nt_tek N) apps md N"]) (auto simp: skdc_tek_def apps_def nth_list_update)
qed

lemma net_ok_fields [simp]:
  "net_ok E (N \<lparr> nt_join := je \<rparr>) = net_ok E N" "net_ok E (N \<lparr> nt_leave := le \<rparr>) = net_ok E N"
  "net_ok E (N \<lparr> nt_ho := hm \<rparr>) = net_ok E N" "net_ok E (N \<lparr> nt_comp := cd \<rparr>) = net_ok E N"
  "net_ok E (N \<lparr> nt_mc := mc \<rparr>) = net_ok E N"
  by (simp_all add: net_ok_def wf_world_def)

lemma skdc_tek_fields [simp]:
  "skdc_tek (N \<lparr> nt_join := je \<rparr>) = skdc_tek N" "skdc_tek (N \<lparr> nt_leave := le \<rparr>) = skdc_tek N"
  "skdc_tek (N \<lparr> nt_ho := hm \<rparr>) = skdc_tek N" "skdc_tek (N \<lparr> nt_comp := cd \<rparr>) = skdc_tek N"
  "skdc_tek (N \<lparr> nt_mc := mc \<rparr>) = skdc_tek N" "skdc_tek (N \<lparr> nt_rekey := rm \<rparr>) = skdc_tek N"
  "skdc_tek (N \<lparr> env_reads := r \<rparr>) = skdc_tek N"
  by (rule ext, simp add: skdc_tek_def)+

section \<open>Joins and leaves\<close>

text \<open>The packet is signed and verified with the same fresh key.\<close>

lemma AuthenticateJoin_True: "hmac_law E \<Longrightarrow> AuthenticateJoin E pkt key = Inr True"
  by (simp add: AuthenticateJoin_def AppendHmac_def Let_def StripAndVerifyHmac_iff[THEN iffD2, OF _ refl])

abbreviation skdc_tokens :: "Net \<Rightarrow> int list" where
  "skdc_tokens N \<equiv> map (\<lambda>app. sd_mt_k (sk_state app)) (nt_skdcs N)"

definition join_record :: "u32 \<Rightarrow> u32 \<Rightarrow> u32 \<Rightarrow> real \<Rightarrow> JoinRecord" where
  "join_record u j c now = \<lparr> jr_uav_id = u, jr_uav_index = j, jr_cluster_id = c, jr_time_s = now,
     jr_authenticated = True, jr_joined = True, jr_tek_received = True, jr_latency_ms = 0 \<rparr>"

definition joined_books :: "u32 \<Rightarrow> u32 \<Rightarrow> u32 \<Rightarrow> real \<Rightarrow> JoinEventManager \<Rightarrow> JoinEventManager" where
  "joined_books u j c now je = je \<lparr> je_total_joins := je_total_joins je + 1,
     je_history := je_history je @ [join_record u j c now], je_join_cb := call_cb (join_record u j c now) (je_join_cb je) \<rparr>"

lemma Je_ProcessJoin_effect:
  assumes "net_ok E N" "skdc = Some k" "k < 3" "AddMember E (nt_mc N) c j u (env_now N) = Some (Inr (mc, joined))"
  obtains N' where "Je_ProcessJoin E u j c skdc N = Some (Inr (N', True))" "net_ok E N'" "nt_mc N' = mc"
    "nt_tek N' = nt_tek N" "\<And>i. skdc_tek N' i = (if i = k \<and> unat c < 3 then GetTek (nt_tek N) c else skdc_tek N i)"
    "nt_join N' = joined_books u j c (env_now N) (nt_join N)"
    "nt_leave N' = nt_leave N" "nt_ho N' = nt_ho N" "nt_comp N' = nt_comp N" "nt_rekey N' = nt_rekey N"
    "env_now N' = env_now N" "nt_timers N' = nt_timers N" "skdc_tokens N' = skdc_tokens N"
proof -
  define N1 where "N1 = N \<lparr> nt_join := (nt_join N) \<lparr> je_total_joins := je_total_joins (nt_join N) + 1 \<rparr>,
     env_reads := Suc (Suc (Suc (Suc (Suc (Suc (env_reads N)))))), nt_mc := mc \<rparr>"
  have "net_ok E N1" using assms(1) by (simp add: N1_def net_ok_def wf_world_def)
  then obtain N2 where N2: "Dist_BroadcastMtk E c skdc N1 = Inr N2" "tek_upd E N1 N2" "nt_tek N2 = nt_tek N1"
    "\<And>i. skdc_tek N2 i = (if i = k \<and> unat c < 3 then GetTek (nt_tek N1) c else skdc_tek N1 i)"
    by (rule Dist_BroadcastMtk_effect[OF _ assms(2,3)]) blast
  note same = tek_upd_same[OF N2(2)]
  define je where "je = joined_books u j c (env_now N) (nt_join N)"
  have "Je_ProcessJoin E u j c skdc N = Some (Inr (N2 \<lparr> nt_join := je \<rparr>, True))"
    using assms N2(1) same
    by (simp add: Je_ProcessJoin_def Let_def RandomBytes_def BuildJoinPacket_def join_readings_def mtk_readings_def
        NowEpochMicros_def AuthenticateJoin_True net_ok_def cret_def OnMemberJoined_def N1_def je_def
        joined_books_def join_record_def split: prod.split)
  then show thesis
    using same N2(3,4) by (intro that[of "N2 \<lparr> nt_join := je \<rparr>"]) (simp_all add: je_def, simp_all add: N1_def skdc_tek_def)
qed

text \<open>A leave that is carried out rotates the key of the cluster twice.\<close>

definition leave_record :: "u32 \<Rightarrow> u32 \<Rightarrow> u32 \<Rightarrow> real \<Rightarrow> u32 \<Rightarrow> LeaveRecord" where
  "leave_record u j c now v = \<lparr> lr_uav_id = u, lr_uav_index = j, lr_cluster_id = c, lr_time_s = now,
     lr_revoked = True, lr_rekey_done = True, lr_latency_ms = 0, lr_new_version = v \<rparr>"

definition refused_record :: "u32 \<Rightarrow> u32 \<Rightarrow> u32 \<Rightarrow> real \<Rightarrow> LeaveRecord" where
  "refused_record u j c now = \<lparr> lr_uav_id = u, lr_uav_index = j, lr_cluster_id = c, lr_time_s = now,
     lr_revoked = False, lr_rekey_done = False, lr_latency_ms = 0, lr_new_version = 0 \<rparr>"

definition left_books :: "LeaveRecord \<Rightarrow> LeaveEventManager \<Rightarrow> LeaveEventManager" where
  "left_books r le = le \<lparr> le_history := le_history le @ [r], le_leave_cb := call_cb r (le_leave_cb le) \<rparr>"

lemma DoLeave_effect:
  assumes "net_ok E N" "skdc = Some k" "k < 3" "RemoveMember E (nt_mc N) c j u (env_now N) = Some (Inr (mc, removed))"
    and "removed \<or> forced"
  obtains N' where "DoLeave E u j c skdc forced N = Some (Inr (N', True))" "net_ok E N'" "nt_mc N' = mc"
    "\<And>i. skdc_tek N' i = (if i = k \<and> unat c < 3 then GetTek (nt_tek N') c else skdc_tek N i)"
    "\<And>d. d \<noteq> c \<Longrightarrow> GetTek (nt_tek N') d = GetTek (nt_tek N) d"
    "\<And>d. Tek_GetVersion (nt_tek N') d = (if d = c \<and> unat c < 3 then Tek_GetVersion (nt_tek N) c + 2 else Tek_GetVersion (nt_tek N) d)"
    "unat c < 3 \<Longrightarrow> \<exists>tm W. GetTek tm c = rotated_tek E (nt_tek N) c N \<and> GetTek (nt_tek N') c = rotated_tek E tm c (W :: Net)"
    "nt_leave N' = left_books (leave_record u j c (env_now N) (Tek_GetVersion (nt_tek N) c + (if unat c < 3 then 1 else 0))) (nt_leave N)"
    "nt_join N' = nt_join N" "nt_ho N' = nt_ho N" "nt_comp N' = nt_comp N" "nt_rekey N' = nt_rekey N"
    "env_now N' = env_now N" "nt_timers N' = nt_timers N" "skdc_tokens N' = skdc_tokens N"
proof -
  define N1 where "N1 = N \<lparr> nt_mc := mc \<rparr>"
  have ok1: "net_ok E N1" using assms(1) by (simp add: N1_def)
  obtain N2 where N2: "net_rotate E c N1 = Inr N2" "tek_upd E N1 N2" "nt_skdcs N2 = nt_skdcs N1"
    "\<And>d. GetTek (nt_tek N2) d = (if d = c \<and> unat c < 3 then rotated_tek E (nt_tek N1) c N1 else GetTek (nt_tek N1) d)"
    "\<And>d. Tek_GetVersion (nt_tek N2) d = (if d = c \<and> unat c < 3 then Tek_GetVersion (nt_tek N1) c + 1 else Tek_GetVersion (nt_tek N1) d)"
    by (rule net_rotate_effect[OF ok1, of c]) blast
  obtain N3 where N3: "net_rotate E c N2 = Inr N3" "tek_upd E N2 N3" "nt_skdcs N3 = nt_skdcs N2"
    "\<And>d. GetTek (nt_tek N3) d = (if d = c \<and> unat c < 3 then rotated_tek E (nt_tek N2) c N2 else GetTek (nt_tek N2) d)"
    "\<And>d. Tek_GetVersion (nt_tek N3) d = (if d = c \<and> unat c < 3 then Tek_GetVersion (nt_tek N2) c + 1 else Tek_GetVersion (nt_tek N2) d)"
    by (rule net_rotate_effect[OF tek_upd_same(9)[OF N2(2)], of c]) blast
  obtain N4 where N4: "Dist_BroadcastMtk E c skdc N3 = Inr N4" "tek_upd E N3 N4" "nt_tek N4 = nt_tek N3"
    "\<And>i. skdc_tek N4 i = (if i = k \<and> unat c < 3 then GetTek (nt_tek N3) c else skdc_tek N3 i)"
    by (rule Dist_BroadcastMtk_effect[OF tek_upd_same(9)[OF N3(2)] assms(2,3)]) blast
  have up: "tek_upd E N1 N4" by (rule tek_upd_trans[OF N2(2) tek_upd_trans[OF N3(2) N4(2)]])
  note same = tek_upd_same[OF up] and same1 = tek_upd_same[OF tek_upd_trans[OF N2(2) N3(2)]]
  define r where "r = leave_record u j c (env_now N) (Tek_GetVersion (nt_tek N) c + (if unat c < 3 then 1 else 0))"
  define N' where "N' = N4 \<lparr> nt_leave := left_books r (nt_leave N) \<rparr>"
  have fields: "nt_mc N1 = mc" "nt_tek N1 = nt_tek N" "nt_leave N1 = nt_leave N" "env_now N1 = env_now N"
    "nt_join N1 = nt_join N" "nt_ho N1 = nt_ho N" "nt_comp N1 = nt_comp N" "nt_rekey N1 = nt_rekey N" "nt_timers N1 = nt_timers N"
    "nt_skdcs N1 = nt_skdcs N" "rotated_tek E (nt_tek N1) c N1 = rotated_tek E (nt_tek N) c N"
    by (simp_all add: N1_def rotated_tek_def)
  have "skdc_tek N3 i = skdc_tek N i" for i using N3(3) N2(3) fields by (simp add: skdc_tek_def)
  moreover have "DoLeave E u j c skdc forced N = Some (Inr (N', True))"
    using assms(2,4,5) N2(1,5) N3(1) N4(1) same fields
    by (simp add: DoLeave_def Let_def N1_def[symmetric] OnMemberLeft_def cret_def N'_def r_def leave_record_def left_books_def)
  moreover have "\<exists>tm W. GetTek tm c = rotated_tek E (nt_tek N) c N \<and> GetTek (nt_tek N') c = rotated_tek E tm c (W :: Net)"
    if "unat c < 3"
    using that N2(4) N3(4) N4(3) fields by (intro exI[of _ "nt_tek N2"] exI[of _ N2]) (simp add: N'_def)
  ultimately show thesis
    using same fields N2(4,5) N3(4,5) N4(3,4)
    by (intro that[of N']) (auto simp: N'_def r_def)
qed

lemma DoLeave_refused:
  assumes "RemoveMember E (nt_mc N) c j u (env_now N) = Some (Inr (mc, False))"
  shows "DoLeave E u j c skdc False N = Some (Inr (N \<lparr> nt_mc := mc, nt_leave := (nt_leave N)
    \<lparr> le_history := le_history (nt_leave N) @ [refused_record u j c (env_now N)] \<rparr> \<rparr>, False))"
  by (simp add: DoLeave_def assms Let_def cret_def refused_record_def)

section \<open>Rekeys\<close>

lemma stamp_bytes: "foldl (\<lambda>bs i. bs @ [ucast ((drop_bit (i * 8) ts) AND 0xFF)]) input [7, 6, 5, 4, 3, 2, 1, 0] = input @ be64 ts"
  by (simp add: be64_def)

lemma DeriveTek_eq: "DeriveTek E key ts nonce = x_sha256 E (key @ be64 ts @ nonce)"
  using stamp_bytes[of ts key] by (simp add: DeriveTek_def Let_def)

text \<open>The key that a rekey derives.\<close>

definition rekeyed_tek :: "ext \<Rightarrow> u32 \<Rightarrow> Net \<Rightarrow> bytes" where
  "rekeyed_tek E c N = x_sha256 E (GetTek (nt_tek N) c @ be64 (env_micros N (Suc (env_reads N))) @
     env_random N (Suc (Suc (env_reads N))) 16)"

lemma Rekey_effect:
  assumes "net_ok E N" "skdc = Some k" "k < 3" "unat c < 3"
  obtains N' ev where "Rekey_TriggerRekey E c reason skdc N = Inr (N', True)" "net_ok E N'" "nt_mc N' = nt_mc N"
    "\<And>i. skdc_tek N' i = (if i = k then rekeyed_tek E c N else skdc_tek N i)"
    "\<And>d. GetTek (nt_tek N') d = (if d = c then rekeyed_tek E c N else GetTek (nt_tek N) d)"
    "\<And>d. GetTekInt (nt_tek N') d = GetTekInt (nt_tek N) d"
    "\<And>d. Tek_GetVersion (nt_tek N') d = (if d = c then Tek_GetVersion (nt_tek N) c + 1 else Tek_GetVersion (nt_tek N) d)"
    "rm_history (nt_rekey N') = rm_history (nt_rekey N) @ [ev]"
    "re_old_version ev = Tek_GetVersion (nt_tek N) c" "re_new_version ev = Tek_GetVersion (nt_tek N) c + 1" "re_success ev"
    "RM_GetRekeyCount (nt_rekey N') c = RM_GetRekeyCount (nt_rekey N) c + 1"
    "nt_join N' = nt_join N" "nt_leave N' = nt_leave N" "nt_ho N' = nt_ho N" "nt_comp N' = nt_comp N"
    "env_now N' = env_now N" "nt_timers N' = nt_timers N" "skdc_tokens N' = skdc_tokens N"
proof -
  let ?tek = "rekeyed_tek E c N" and ?v = "Tek_GetVersion (nt_tek N) c + 1"
  have len: "length ?tek = 32" using assms(1) by (simp add: net_ok_def sha256_law_def rekeyed_tek_def)
  define N1 where "N1 = N \<lparr> env_reads := Suc (Suc (Suc (env_reads N))) \<rparr>"
  have ok1: "net_ok E N1" using assms(1) by (simp add: N1_def)
  obtain N2 where N2: "net_update_tek c ?tek ?v N1 = N2" "tek_upd E N1 N2" "nt_skdcs N2 = nt_skdcs N1"
    "\<And>d. GetTek (nt_tek N2) d = (if d = c \<and> unat c < 3 then ?tek else GetTek (nt_tek N1) d)"
    "\<And>d. GetTekInt (nt_tek N2) d = GetTekInt (nt_tek N1) d"
    "\<And>d. Tek_GetVersion (nt_tek N2) d = (if d = c \<and> unat c < 3 then ?v else Tek_GetVersion (nt_tek N1) d)"
    by (rule net_update_tek_effect[OF ok1 len, of c ?v]) blast
  obtain N3 where N3: "net_update_tek c ?tek ?v N2 = N3" "tek_upd E N2 N3" "nt_skdcs N3 = nt_skdcs N2"
    "\<And>d. GetTek (nt_tek N3) d = (if d = c \<and> unat c < 3 then ?tek else GetTek (nt_tek N2) d)"
    "\<And>d. GetTekInt (nt_tek N3) d = GetTekInt (nt_tek N2) d"
    "\<And>d. Tek_GetVersion (nt_tek N3) d = (if d = c \<and> unat c < 3 then ?v else Tek_GetVersion (nt_tek N2) d)"
    by (rule net_update_tek_effect[OF tek_upd_same(9)[OF N2(2)] len, of c ?v]) blast
  obtain N4 where N4: "Dist_BroadcastMtk E c skdc N3 = Inr N4" "tek_upd E N3 N4" "nt_tek N4 = nt_tek N3"
    "\<And>i. skdc_tek N4 i = (if i = k \<and> unat c < 3 then GetTek (nt_tek N3) c else skdc_tek N3 i)"
    by (rule Dist_BroadcastMtk_effect[OF tek_upd_same(9)[OF N3(2)] assms(2,3)]) blast
  have up: "tek_upd E N1 N4" by (rule tek_upd_trans[OF N2(2) tek_upd_trans[OF N3(2) N4(2)]])
  note same = tek_upd_same[OF up]
  have fields: "nt_mc N1 = nt_mc N" "nt_tek N1 = nt_tek N" "nt_leave N1 = nt_leave N" "env_now N1 = env_now N"
    "nt_join N1 = nt_join N" "nt_ho N1 = nt_ho N" "nt_comp N1 = nt_comp N" "nt_rekey N1 = nt_rekey N" "nt_timers N1 = nt_timers N"
    "nt_skdcs N1 = nt_skdcs N"
    by (simp_all add: N1_def)
  define ev where "ev = \<lparr> re_cluster_id = c, re_old_version = Tek_GetVersion (nt_tek N) c, re_new_version = ?v,
     re_reason = reason, re_time_s = env_now N, re_latency_ms = nt_steady_ms N4 (env_reads N4) - nt_steady_ms N (env_reads N),
     re_success = True \<rparr>"
  define rm where "rm = (nt_rekey N) \<lparr> rm_history := rm_history (nt_rekey N) @ [ev],
     rm_total_rekeys := rm_total_rekeys (nt_rekey N) + 1,
     rm_cluster_rekeys := (rm_cluster_rekeys (nt_rekey N))[unat c := rm_cluster_rekeys (nt_rekey N) ! unat c + 1],
     rm_rekey_cb := call_cb ev (rm_rekey_cb (nt_rekey N)) \<rparr>"
  define N' where "N' = N4 \<lparr> env_reads := env_reads N4 + 1, nt_rekey := rm \<rparr>"
  have "Rekey_TriggerRekey E c reason skdc N = Inr (N', True)"
    using assms(2,4) N2(1,6) N3(1) N4(1) same fields
    by (simp add: Rekey_TriggerRekey_def Let_def cluster_ge_3 SteadyNow_def NowEpochMicros_def RandomBytes_def
        OnTekRotated_def DeriveTek_eq rekeyed_tek_def[symmetric] N1_def[symmetric] N'_def rm_def ev_def)
  moreover have "net_ok E N'"
    using same(9) assms(1) by (simp add: N'_def net_ok_def wf_world_def rm_def)
  moreover have "skdc_tek N3 i = skdc_tek N i" for i using N3(3) N2(3) fields by (simp add: skdc_tek_def)
  then have "skdc_tek N' i = (if i = k then ?tek else skdc_tek N i)" for i
    using N4(4) N3(4) assms(4) by (simp add: N'_def)
  moreover have "RM_GetRekeyCount (nt_rekey N') c = RM_GetRekeyCount (nt_rekey N) c + 1"
    using assms(1,4) by (simp add: RM_GetRekeyCount_def cluster_ge_3 N'_def rm_def net_ok_def)
  ultimately show thesis
    using same fields N2(4-6) N3(4-6) N4(3) assms(4)
    by (intro that[of N' ev]) (auto simp: N'_def rm_def ev_def)
qed

end
