(* ===== verification/Group_Runs.thy ===== *)
theory Group_Runs
  imports Group_Effects Skdc_Runs
begin

text \<open>
  Runs of group events in the network of theory Group\_Managers: the step relation,
  the agreement of TEK manager and SKDCs, what a leave and a rekey do, the bookkeeping
  of the compromise detector, and where revocations and handovers go wrong.
\<close>

section \<open>Runs\<close>

text \<open>main.cc hands every manager the SKDC application of the cluster concerned.\<close>

definition skdc_of :: "u32 \<Rightarrow> nat option" where
  "skdc_of c = Some (unat c)"

definition all_skdcs :: "nat option list" where
  "all_skdcs = [Some 0, Some 1, Some 2]"

inductive net_step :: "ext \<Rightarrow> Net \<Rightarrow> Net \<Rightarrow> bool" for E where
  join: "unat c < 3 \<Longrightarrow> Je_ProcessJoin E u j c (skdc_of c) N = Some (Inr (N', r)) \<Longrightarrow> net_step E N N'"
| leave: "unat c < 3 \<Longrightarrow> Le_ProcessLeave E u j c (skdc_of c) N = Some (Inr (N', r)) \<Longrightarrow> net_step E N N'"
| revoke: "unat c < 3 \<Longrightarrow> ForceRevoke E u j c (skdc_of c) N = Some (Inr (N', r)) \<Longrightarrow> net_step E N N'"
| report: "unat c < 3 \<Longrightarrow> HandleCompromise E u c j reason (skdc_of c) N = Some (Inr N') \<Longrightarrow> net_step E N N'"
| handover: "ProcessHandover E u j c d all_skdcs N = Some (Inr (N', r)) \<Longrightarrow> net_step E N N'"
| rekey: "unat c < 3 \<Longrightarrow> Rekey_TriggerRekey E c why (skdc_of c) N = Inr (N', r) \<Longrightarrow> net_step E N N'"
| rekey_all: "GlobalRekey E all_skdcs why N = Inr N' \<Longrightarrow> net_step E N N'"
| schedule: "unat c < 3 \<Longrightarrow> net_step E N (SchedulePeriodic c (skdc_of c) interval N)"
| periodic: "(t, c, skdc) \<in> set (nt_timers N) \<Longrightarrow>
     PeriodicRekeyCallback E c skdc (N \<lparr> nt_timers := remove1 (t, c, skdc) (nt_timers N) \<rparr>) = Inr N' \<Longrightarrow> net_step E N N'"
| refresh: "net_step E N (ScheduleRefresh N)"
| tick: "env_now N \<le> t \<Longrightarrow> net_step E N (N \<lparr> env_now := t \<rparr>)"

inductive_cases net_stepE: "net_step E N N'"

definition net_agree :: "Net \<Rightarrow> bool" where
  "net_agree N \<longleftrightarrow> (\<forall>c. unat c < 3 \<longrightarrow> skdc_tek N (unat c) = GetTek (nt_tek N) c)"

definition timers_ok :: "Net \<Rightarrow> bool" where
  "timers_ok N \<longleftrightarrow> (\<forall>(t, c, skdc)\<in>set (nt_timers N). unat c < 3 \<and> skdc = skdc_of c)"

definition net_inv :: "ext \<Rightarrow> int list \<Rightarrow> Net \<Rightarrow> bool" where
  "net_inv E toks N \<longleftrightarrow> net_ok E N \<and> net_agree N \<and> timers_ok N \<and> skdc_tokens N = toks"

lemma net_inv_fields [simp]:
  "net_inv E toks (N \<lparr> nt_join := je \<rparr>) = net_inv E toks N" "net_inv E toks (N \<lparr> nt_leave := le \<rparr>) = net_inv E toks N"
  "net_inv E toks (N \<lparr> nt_ho := hm \<rparr>) = net_inv E toks N" "net_inv E toks (N \<lparr> nt_comp := cd \<rparr>) = net_inv E toks N"
  "net_inv E toks (N \<lparr> nt_mc := mc \<rparr>) = net_inv E toks N"
  by (simp_all add: net_inv_def net_agree_def timers_ok_def)

lemma unat_eq_cluster: "unat (c :: u32) = unat d \<longleftrightarrow> c = d"
  by (simp add: word_unat_eq_iff)

text \<open>What the operations answer, read backwards from their results.\<close>

lemma cbind_Inr: "cbind m f = Some (Inr y) \<longleftrightarrow> (\<exists>x. m = Some (Inr x) \<and> f x = Some (Inr y))"
  by (auto simp: cbind_def split: option.splits sum.splits)

lemma Je_ProcessJoin_adds:
  "Je_ProcessJoin E u j c skdc N = Some (Inr (N', r)) \<Longrightarrow> net_ok E N \<Longrightarrow>
   \<exists>mc joined. AddMember E (nt_mc N) c j u (env_now N) = Some (Inr (mc, joined))"
  by (auto simp: Je_ProcessJoin_def Let_def RandomBytes_def BuildJoinPacket_def join_readings_def mtk_readings_def
      NowEpochMicros_def AuthenticateJoin_True net_ok_def cbind_Inr split: prod.splits)

lemma Je_ProcessJoin_inv:
  assumes "net_inv E toks N" "unat c < 3" "Je_ProcessJoin E u j c (skdc_of c) N = Some (Inr (N', r))"
  shows "net_inv E toks N' \<and> r \<and> nt_comp N' = nt_comp N"
proof -
  have ok: "net_ok E N" using assms(1) by (simp add: net_inv_def)
  obtain mc joined where add: "AddMember E (nt_mc N) c j u (env_now N) = Some (Inr (mc, joined))"
    using Je_ProcessJoin_adds[OF assms(3) ok] by blast
  from Je_ProcessJoin_effect[OF ok, of "skdc_of c" "unat c", OF _ assms(2) add]
  obtain N2 where N2: "Je_ProcessJoin E u j c (skdc_of c) N = Some (Inr (N2, True))" "net_ok E N2" "nt_tek N2 = nt_tek N"
    "\<And>i. skdc_tek N2 i = (if i = unat c \<and> unat c < 3 then GetTek (nt_tek N) c else skdc_tek N i)"
    "nt_timers N2 = nt_timers N" "skdc_tokens N2 = skdc_tokens N" "nt_comp N2 = nt_comp N"
    by (auto simp: skdc_of_def)
  then show ?thesis
    using assms by (auto simp: net_inv_def net_agree_def timers_ok_def unat_eq_cluster)
qed

lemma DoLeave_inv:
  assumes "net_inv E toks N" "unat c < 3" "DoLeave E u j c (skdc_of c) forced N = Some (Inr (N', r))"
  shows "net_inv E toks N' \<and> nt_comp N' = nt_comp N \<and> (forced \<longrightarrow> r)"
proof -
  have ok: "net_ok E N" using assms(1) by (simp add: net_inv_def)
  obtain mc removed where rem: "RemoveMember E (nt_mc N) c j u (env_now N) = Some (Inr (mc, removed))"
    using assms(3) by (auto simp: DoLeave_def Let_def cbind_Inr split: prod.splits)
  show ?thesis
  proof (cases "removed \<or> forced")
    case False
    then show ?thesis using DoLeave_refused[of E N c j u mc "skdc_of c"] rem assms by auto
  next
    case True
    from DoLeave_effect[OF ok, of "skdc_of c" "unat c", OF _ assms(2) rem True]
    obtain N2 where N2: "DoLeave E u j c (skdc_of c) forced N = Some (Inr (N2, True))" "net_ok E N2"
      "\<And>i. skdc_tek N2 i = (if i = unat c \<and> unat c < 3 then GetTek (nt_tek N2) c else skdc_tek N i)"
      "\<And>d. d \<noteq> c \<Longrightarrow> GetTek (nt_tek N2) d = GetTek (nt_tek N) d"
      "nt_timers N2 = nt_timers N" "skdc_tokens N2 = skdc_tokens N" "nt_comp N2 = nt_comp N"
      by (auto simp: skdc_of_def)
    have "skdc_tek N2 (unat d) = GetTek (nt_tek N2) d" if "unat d < 3" for d
      using assms(1) N2(3,4) that by (cases "d = c") (auto simp: net_inv_def net_agree_def unat_eq_cluster)
    then show ?thesis
      using N2 assms by (auto simp: net_inv_def net_agree_def timers_ok_def)
  qed
qed

lemma leave_inv:
  assumes "net_inv E toks N" "unat c < 3"
  shows "Le_ProcessLeave E u j c (skdc_of c) N = Some (Inr (N', r)) \<Longrightarrow> net_inv E toks N' \<and> nt_comp N' = nt_comp N"
    and "ForceRevoke E u j c (skdc_of c) N = Some (Inr (N', r)) \<Longrightarrow> net_inv E toks N' \<and> nt_comp N' = nt_comp N \<and> r"
  using DoLeave_inv[OF net_inv_fields(2)[THEN iffD2, OF assms(1)] assms(2)]
  by (fastforce simp: Le_ProcessLeave_def ForceRevoke_def Let_def)+

lemma Rekey_inv:
  assumes "net_inv E toks N" "unat c < 3" "Rekey_TriggerRekey E c why (skdc_of c) N = Inr (N', r)"
  shows "net_inv E toks N' \<and> nt_comp N' = nt_comp N \<and> r"
proof -
  have ok: "net_ok E N" using assms(1) by (simp add: net_inv_def)
  obtain N2 where N2: "Rekey_TriggerRekey E c why (skdc_of c) N = Inr (N2, True)" "net_ok E N2"
    "\<And>i. skdc_tek N2 i = (if i = unat c then rekeyed_tek E c N else skdc_tek N i)"
    "\<And>d. GetTek (nt_tek N2) d = (if d = c then rekeyed_tek E c N else GetTek (nt_tek N) d)"
    "nt_timers N2 = nt_timers N" "skdc_tokens N2 = skdc_tokens N" "nt_comp N2 = nt_comp N"
    by (rule Rekey_effect[OF ok _ assms(2) assms(2), of "skdc_of c"]) (auto simp: skdc_of_def)
  then show ?thesis
    using assms by (auto simp: net_inv_def net_agree_def timers_ok_def unat_eq_cluster)
qed

lemma GlobalRekey_inv:
  assumes "net_inv E toks N" "GlobalRekey E all_skdcs why N = Inr N'"
  shows "net_inv E toks N' \<and> nt_comp N' = nt_comp N"
proof -
  have step: "net_inv E toks N2 \<and> nt_comp N2 = nt_comp N1"
    if "net_inv E toks N1" "Rekey_TriggerRekey E c why (Some k) N1 = Inr (N2, r)" "k = unat c" "unat c < 3" for N1 N2 c k r
    using Rekey_inv[OF that(1,4), of why N2 r] that(2,3) by (simp add: skdc_of_def)
  have "GlobalRekey_from E why (zip [0, 1, 2] all_skdcs) N = Inr N'" using assms(2) by (simp add: GlobalRekey_def)
  then obtain N1 r1 N2 r2 N3 r3 where
    1: "Rekey_TriggerRekey E 0 why (Some 0) N = Inr (N1, r1)" and
    2: "Rekey_TriggerRekey E 1 why (Some 1) N1 = Inr (N2, r2)" and
    3: "Rekey_TriggerRekey E 2 why (Some 2) N2 = Inr (N', r3)"
    by (auto simp: all_skdcs_def rbind_def split: sum.splits)
  from step[OF assms(1) 1] have "net_inv E toks N1 \<and> nt_comp N1 = nt_comp N" by simp
  moreover from this step[OF _ 2] have "net_inv E toks N2 \<and> nt_comp N2 = nt_comp N1" by simp
  ultimately show ?thesis using step[OF _ 3] by simp
qed

lemma ProcessHandover_inv:
  assumes "net_inv E toks N" "ProcessHandover E u j c d all_skdcs N = Some (Inr (N', r))"
  shows "net_inv E toks N' \<and> nt_comp N' = nt_comp N"
proof (cases "c = d \<or> \<not> unat c < 3 \<or> \<not> unat d < 3")
  case True
  then have "ProcessHandover E u j c d all_skdcs N = Some (Inr (N, False))"
    by (auto simp: ProcessHandover_def cluster_ge_3 cret_def)
  then show ?thesis using assms by simp
next
  case False
  have app: "all_skdcs ! unat e = skdc_of e" if "unat e < 3" for e :: u32
    using that by (auto simp: all_skdcs_def skdc_of_def less_3_word nth_Cons split: nat.split)
  define N0 where "N0 = N \<lparr> nt_ho := (nt_ho N) \<lparr> hm_total_handovers := hm_total_handovers (nt_ho N) + 1 \<rparr> \<rparr>"
  obtain N1 r1 N2 r2 hm where
    1: "Le_ProcessLeave E u j c (skdc_of c) N0 = Some (Inr (N1, r1))" and
    2: "Je_ProcessJoin E u (GetGroupSize (nt_mc N1) d mod 6) d (skdc_of d) N1 = Some (Inr (N2, r2))" and
    3: "N' = N2 \<lparr> nt_ho := hm \<rparr>"
    using assms(2) False
    by (auto simp: ProcessHandover_def cluster_ge_3 Let_def cbind_Inr app N0_def[symmetric] cret_def split: if_splits)
  have "net_inv E toks N0" using assms(1) by (simp add: N0_def)
  from leave_inv(1)[OF this _ 1] False have "net_inv E toks N1 \<and> nt_comp N1 = nt_comp N0" by simp
  with Je_ProcessJoin_inv[OF _ _ 2, of toks] False show ?thesis by (simp add: 3 N0_def)
qed

text \<open>The books of the compromise detector when every report is carried out.\<close>

definition comp_ok :: "CompromiseDetector \<Rightarrow> bool" where
  "comp_ok cd \<longleftrightarrow> cd_compromised cd = map ce_uav_id (cd_history cd) \<and> cd_revoked cd = cd_compromised cd \<and>
     distinct (cd_revoked cd) \<and> (\<forall>ev\<in>set (cd_history cd). ce_revoked ev) \<and>
     cd_total_detections cd = of_nat (length (cd_history cd)) \<and>
     cd_total_revocations cd = of_nat (length (cd_history cd))"

lemma HandleCompromise_inv:
  assumes "net_inv E toks N" "comp_ok (nt_comp N)" "unat c < 3"
    and "HandleCompromise E u c j reason (skdc_of c) N = Some (Inr N')"
  shows "net_inv E toks N' \<and> comp_ok (nt_comp N')"
proof (cases "IsRevoked (nt_comp N) u")
  case True
  then show ?thesis using assms by (simp add: HandleCompromise_def cret_def)
next
  case False
  define cd where "cd = (nt_comp N) \<lparr> cd_total_detections := cd_total_detections (nt_comp N) + 1,
     cd_compromised := cd_compromised (nt_comp N) @ [u] \<rparr>"
  define ev where "ev = \<lparr> ce_uav_id = u, ce_cluster_id = c, ce_uav_index = j, ce_reason = reason,
     ce_time_s = env_now N, ce_revoked = True \<rparr>"
  have "\<not> IsCompromised (nt_comp N) u" using False assms(2) by (simp add: comp_ok_def IsRevoked_def IsCompromised_def)
  then obtain N1 r where rev: "ForceRevoke E u j c (skdc_of c) (N \<lparr> nt_comp := cd \<rparr>) = Some (Inr (N1, r))" and
    res: "N' = N1 \<lparr> nt_comp := (let cd = nt_comp N1;
        cd = (if r then cd \<lparr> cd_revoked := cd_revoked cd @ [u], cd_total_revocations := cd_total_revocations cd + 1 \<rparr> else cd)
        in cd \<lparr> cd_history := cd_history cd @ [ev \<lparr> ce_revoked := r \<rparr>], cd_callback := call_cb (ev \<lparr> ce_revoked := r \<rparr>) (cd_callback cd) \<rparr>) \<rparr>"
    using assms(4) False
    by (auto simp: HandleCompromise_def Let_def cbind_Inr cret_def skdc_of_def cd_def IsCompromised_def ev_def)
  have "net_inv E toks (N \<lparr> nt_comp := cd \<rparr>)" using assms(1) by simp
  from leave_inv(2)[OF this assms(3) rev] have N1: "net_inv E toks N1" "nt_comp N1 = cd" "r" by simp_all
  then have "net_inv E toks N'" by (simp add: res)
  moreover have "comp_ok (nt_comp N')"
    using assms(2) False N1(2,3) by (auto simp: res comp_ok_def cd_def ev_def IsRevoked_def)
  ultimately show ?thesis by simp
qed

lemma HandleCompromise_effect:
  assumes "net_ok E N" "unat c < 3" "\<not> IsRevoked (nt_comp N) u"
    and "RemoveMember E (nt_mc N) c j u (env_now N) = Some (Inr (mc, r))"
  obtains N' where "HandleCompromise E u c j reason (skdc_of c) N = Some (Inr N')" "nt_mc N' = mc"
    "cd_history (nt_comp N') = cd_history (nt_comp N) @ [\<lparr> ce_uav_id = u, ce_cluster_id = c, ce_uav_index = j,
       ce_reason = reason, ce_time_s = env_now N, ce_revoked = True \<rparr>]"
    "IsRevoked (nt_comp N') u" "lr_revoked (last (le_history (nt_leave N')))" "skdc_tokens N' = skdc_tokens N"
    "Tek_GetVersion (nt_tek N') c = Tek_GetVersion (nt_tek N) c + 2"
proof -
  define cd where "cd = (let cd = (nt_comp N) \<lparr> cd_total_detections := cd_total_detections (nt_comp N) + 1 \<rparr> in
     if \<not> IsCompromised cd u then cd \<lparr> cd_compromised := cd_compromised cd @ [u] \<rparr> else cd)"
  let ?N = "N \<lparr> nt_comp := cd, nt_leave := (nt_leave N) \<lparr> le_total_leaves := le_total_leaves (nt_leave N) + 1,
      le_force_revokes := le_force_revokes (nt_leave N) + 1 \<rparr> \<rparr>"
  have rem: "RemoveMember E (nt_mc ?N) c j u (env_now ?N) = Some (Inr (mc, r))" and ok: "net_ok E ?N"
    using assms(1,4) by simp_all
  obtain N1 where N1: "DoLeave E u j c (skdc_of c) True ?N = Some (Inr (N1, True))" "nt_comp N1 = nt_comp ?N"
    "nt_mc N1 = mc" "lr_revoked (last (le_history (nt_leave N1)))" "skdc_tokens N1 = skdc_tokens N"
    "Tek_GetVersion (nt_tek N1) c = Tek_GetVersion (nt_tek N) c + 2"
    using assms(2) by - (rule DoLeave_effect[OF ok _ assms(2) rem, of "skdc_of c" True],
      simp_all add: skdc_of_def left_books_def leave_record_def)
  have hist: "cd_history cd = cd_history (nt_comp N)" by (simp add: cd_def Let_def)
  define ev where "ev = \<lparr> ce_uav_id = u, ce_cluster_id = c, ce_uav_index = j, ce_reason = reason, ce_time_s = env_now N,
     ce_revoked = True \<rparr>"
  define N' where "N' = N1 \<lparr> nt_comp := cd \<lparr> cd_revoked := cd_revoked cd @ [u], cd_total_revocations := cd_total_revocations cd + 1,
     cd_history := cd_history cd @ [ev], cd_callback := call_cb ev (cd_callback cd) \<rparr> \<rparr>"
  have "HandleCompromise E u c j reason (skdc_of c) N = Some (Inr N')"
    using N1(1,2) assms(3)
    by (simp add: HandleCompromise_def Let_def cd_def[unfolded Let_def, symmetric] ForceRevoke_def skdc_of_def cret_def
        N'_def ev_def)
  then show thesis
    using N1(3-6) hist by (intro that[of N']) (simp_all add: N'_def ev_def IsRevoked_def)
qed

text \<open>Every step keeps the agreement and the books.\<close>

lemma net_inv_passive:
  "unat c < 3 \<Longrightarrow> net_inv E toks N \<Longrightarrow> net_inv E toks (SchedulePeriodic c (skdc_of c) interval N)"
  "net_inv E toks N \<Longrightarrow> net_inv E toks (ScheduleRefresh N)"
  "net_inv E toks N \<Longrightarrow> net_inv E toks (N \<lparr> env_now := t \<rparr>)"
  by (auto simp: net_inv_def timers_ok_def net_ok_def wf_world_def net_agree_def skdc_tek_def SchedulePeriodic_def
      ScheduleRefresh_def)

lemma Periodic_inv:
  assumes "net_inv E toks N" "(t, c, skdc) \<in> set (nt_timers N)"
    and "PeriodicRekeyCallback E c skdc (N \<lparr> nt_timers := remove1 (t, c, skdc) (nt_timers N) \<rparr>) = Inr N'"
  shows "net_inv E toks N' \<and> nt_comp N' = nt_comp N"
proof -
  let ?N = "N \<lparr> nt_timers := remove1 (t, c, skdc) (nt_timers N) \<rparr>"
  have c: "unat c < 3" "skdc = skdc_of c"
    using assms(1,2) by (auto simp: net_inv_def timers_ok_def)
  have "net_inv E toks ?N"
    using assms(1) set_remove1_subset[of "(t, c, skdc)" "nt_timers N"]
    by (auto simp: net_inv_def timers_ok_def net_ok_def wf_world_def net_agree_def skdc_tek_def)
  moreover obtain r where "Rekey_TriggerRekey E c RM_PERIODIC (skdc_of c) ?N = Inr (N', r)"
    using assms(3) c(2) by (auto simp: PeriodicRekeyCallback_def rbind_def split: sum.splits)
  ultimately show ?thesis using Rekey_inv[OF _ c(1), of E toks ?N RM_PERIODIC N' r] by simp
qed

lemma net_step_inv:
  assumes "net_step E N N'" "net_inv E toks N" "comp_ok (nt_comp N)"
  shows "net_inv E toks N' \<and> comp_ok (nt_comp N')"
  using assms(1)
proof cases
  case (join c u j r)
  then show ?thesis using Je_ProcessJoin_inv[OF assms(2)] assms(3) by metis
next
  case (leave c u j r)
  then show ?thesis using leave_inv(1)[OF assms(2)] assms(3) by metis
next
  case (revoke c u j r)
  then show ?thesis using leave_inv(2)[OF assms(2)] assms(3) by metis
next
  case (report c u j reason)
  then show ?thesis using HandleCompromise_inv[OF assms(2,3)] by metis
next
  case (handover u j c d r)
  then show ?thesis using ProcessHandover_inv[OF assms(2)] assms(3) by metis
next
  case (rekey c why r)
  then show ?thesis using Rekey_inv[OF assms(2)] assms(3) by metis
next
  case (rekey_all why)
  then show ?thesis using GlobalRekey_inv[OF assms(2)] assms(3) by metis
next
  case (periodic t c skdc)
  then show ?thesis using Periodic_inv[OF assms(2)] assms(3) by metis
qed (use net_inv_passive assms(2,3) in \<open>simp_all add: SchedulePeriodic_def ScheduleRefresh_def\<close>)

lemma net_steps_inv:
  assumes "(net_step E)\<^sup>*\<^sup>* N N'" "net_inv E toks N" "comp_ok (nt_comp N)"
  shows "net_inv E toks N' \<and> comp_ok (nt_comp N')"
  using assms by (induction rule: rtranclp_induct) (auto dest: net_step_inv)

text \<open>The first broadcast.\<close>

lemma BroadcastAll_effect:
  assumes "net_ok E N" "nt_timers N = []"
  obtains N' where "Dist_BroadcastAll E all_skdcs N = Inr N'" "net_inv E (skdc_tokens N) N'" "nt_comp N' = nt_comp N"
    "nt_tek N' = nt_tek N" "nt_mc N' = nt_mc N" "env_now N' = env_now N"
proof -
  obtain N1 where 1: "Dist_BroadcastMtk E 0 (Some 0) N = Inr N1" "tek_upd E N N1" "nt_tek N1 = nt_tek N"
    "\<And>j. skdc_tek N1 j = (if j = 0 \<and> unat (0 :: u32) < 3 then GetTek (nt_tek N) 0 else skdc_tek N j)"
    by (rule Dist_BroadcastMtk_effect[OF assms(1) refl, of 0 0]) auto
  obtain N2 where 2: "Dist_BroadcastMtk E 1 (Some 1) N1 = Inr N2" "tek_upd E N1 N2" "nt_tek N2 = nt_tek N1"
    "\<And>j. skdc_tek N2 j = (if j = 1 \<and> unat (1 :: u32) < 3 then GetTek (nt_tek N1) 1 else skdc_tek N1 j)"
    by (rule Dist_BroadcastMtk_effect[OF tek_upd_same(9)[OF 1(2)] refl, of 1 1]) auto
  obtain N3 where 3: "Dist_BroadcastMtk E 2 (Some 2) N2 = Inr N3" "tek_upd E N2 N3" "nt_tek N3 = nt_tek N2"
    "\<And>j. skdc_tek N3 j = (if j = 2 \<and> unat (2 :: u32) < 3 then GetTek (nt_tek N2) 2 else skdc_tek N2 j)"
    by (rule Dist_BroadcastMtk_effect[OF tek_upd_same(9)[OF 2(2)] refl, of 2 2]) auto
  note same = tek_upd_same[OF tek_upd_trans[OF 1(2) tek_upd_trans[OF 2(2) 3(2)]]]
  have "net_agree N3"
    using 1(3,4) 2(3,4) 3(3,4) by (auto simp: net_agree_def less_3_word)
  moreover have "Dist_BroadcastAll E all_skdcs N = Inr N3"
    using 1(1) 2(1) 3(1) by (simp add: Dist_BroadcastAll_def all_skdcs_def)
  ultimately show thesis
    using same 1(3) 2(3) 3(3) assms(2) by (intro that[of N3]) (simp_all add: net_inv_def timers_ok_def)
qed

text \<open>
  C28.  Start the network with a broadcast to all SKDCs, as main.cc does, and let
  any joins, leaves, revocations, reports, handovers, rekeys and timers follow, in any
  order: at every moment the TEK of each cluster is the same at the TEK manager and at
  the cluster's SKDC.  The token that the SKDCs broadcast is the one of the start.
\<close>
theorem tek_agreement:
  assumes "net_ok E N0" "nt_timers N0 = []" "nt_comp N0 = CompromiseDetector_new"
    and "Dist_BroadcastAll E all_skdcs N0 = Inr N1" "(net_step E)\<^sup>*\<^sup>* N1 N" "unat c < 3"
  shows "sd_current_tek (sk_state (nt_skdcs N ! unat c)) = GetTek (nt_tek N) c \<and>
    length (GetTek (nt_tek N) c) = 32 \<and>
    map (\<lambda>app. sd_mt_k (sk_state app)) (nt_skdcs N) = map (\<lambda>app. sd_mt_k (sk_state app)) (nt_skdcs N0)"
proof -
  obtain N' where "Dist_BroadcastAll E all_skdcs N0 = Inr N'" "net_inv E (skdc_tokens N0) N'" "nt_comp N' = nt_comp N0"
    by (rule BroadcastAll_effect[OF assms(1,2)])
  with assms(4) have "net_inv E (skdc_tokens N0) N1" "comp_ok (nt_comp N1)"
    using assms(3) by (simp_all add: comp_ok_def CompromiseDetector_new_def)
  from net_steps_inv[OF assms(5) this] have inv: "net_inv E (skdc_tokens N0) N" by simp
  have "length (GetTek (nt_tek N) c) = 32"
    using inv assms(6) wf_tek_nth[of "nt_tek N" c] by (simp add: net_inv_def net_ok_def GetTek_def cluster_ge_3)
  then show ?thesis using inv assms(6) by (simp add: net_inv_def net_agree_def skdc_tek_def)
qed

text \<open>
  C31.  In every such run the compromise detector revokes a UAV at most once: a
  second report changes nothing, whatever its reason.  Every report in its history
  was carried out, and the two counters are the length of that history.
\<close>
theorem revoked_once:
  assumes "net_ok E N0" "nt_timers N0 = []" "nt_comp N0 = CompromiseDetector_new"
    and "Dist_BroadcastAll E all_skdcs N0 = Inr N1" "(net_step E)\<^sup>*\<^sup>* N1 N"
  shows "GetCompromisedUavs (nt_comp N) = map ce_uav_id (cd_history (nt_comp N)) \<and>
    distinct (GetCompromisedUavs (nt_comp N)) \<and>
    (\<forall>ev\<in>set (cd_history (nt_comp N)). ce_revoked ev \<and> IsRevoked (nt_comp N) (ce_uav_id ev) \<and>
       (\<forall>c j reason skdc. HandleCompromise E (ce_uav_id ev) c j reason skdc N = Some (Inr N))) \<and>
    cd_total_detections (nt_comp N) = of_nat (length (cd_history (nt_comp N))) \<and>
    cd_total_revocations (nt_comp N) = cd_total_detections (nt_comp N)"
proof -
  have "comp_ok (nt_comp N0)" by (simp add: assms(3) comp_ok_def CompromiseDetector_new_def)
  moreover obtain N' where "Dist_BroadcastAll E all_skdcs N0 = Inr N'" "net_inv E (skdc_tokens N0) N'" "nt_comp N' = nt_comp N0"
    by (rule BroadcastAll_effect[OF assms(1,2)])
  ultimately have "net_inv E (skdc_tokens N0) N1" "comp_ok (nt_comp N1)" using assms(4) by simp_all
  from net_steps_inv[OF assms(5) this] have ok: "comp_ok (nt_comp N)" by simp
  then have "IsRevoked (nt_comp N) (ce_uav_id ev)" if "ev \<in> set (cd_history (nt_comp N))" for ev
    using that by (simp add: IsRevoked_def comp_ok_def)
  then show ?thesis
    using ok by (auto simp: comp_ok_def GetCompromisedUavs_def HandleCompromise_def cret_def)
qed

section \<open>Leaves and rekeys\<close>

text \<open>
  A member's leave takes it, and nobody else, out of the member set and out of the
  set of slaves whose exponent undoes the manager's token.  The TEK of the cluster is
  rotated twice, once by the leave manager and once by the distribution manager,
  so the version grows by 2 while the leave record reports the first
  new version.  The SKDC gets the second key, and other clusters keep
  their keys.  The latency is the difference of two readings of the simulated
  clock within one event, so it is 0.  A leave of a non-member is refused and keeps the keys.
\<close>
theorem leave_rotates_twice:
  assumes "net_ok E N" "mc_inv (E, nt_mc N)" "unat c < 3"
  shows "(Mc_IsMember (nt_mc N) c j \<longrightarrow>
      (\<exists>N'. Le_ProcessLeave E u j c (skdc_of c) N = Some (Inr (N', True)) \<and>
         mc_members (E, nt_mc N') = mc_members (E, nt_mc N) - {(c, j)} \<and>
         mc_readers (E, nt_mc N') = mc_readers (E, nt_mc N) - {(c, j)} \<and>
         Tek_GetVersion (nt_tek N') c = Tek_GetVersion (nt_tek N) c + 2 \<and>
         lr_new_version (last (le_history (nt_leave N'))) = Tek_GetVersion (nt_tek N) c + 1 \<and>
         lr_latency_ms (last (le_history (nt_leave N'))) = 0 \<and>
         sd_current_tek (sk_state (nt_skdcs N' ! unat c)) = GetTek (nt_tek N') c \<and>
         (\<exists>tm W. GetTek tm c = rotated_tek E (nt_tek N) c N \<and> GetTek (nt_tek N') c = rotated_tek E tm c (W :: Net)) \<and>
         (\<forall>d. d \<noteq> c \<longrightarrow> GetTek (nt_tek N') d = GetTek (nt_tek N) d))) \<and>
    (\<not> Mc_IsMember (nt_mc N) c j \<longrightarrow>
      (\<exists>N'. Le_ProcessLeave E u j c (skdc_of c) N = Some (Inr (N', False)) \<and>
         nt_mc N' = nt_mc N \<and> nt_tek N' = nt_tek N \<and> nt_skdcs N' = nt_skdcs N))"
proof (intro conjI impI)
  let ?N = "N \<lparr> nt_leave := (nt_leave N) \<lparr> le_total_leaves := le_total_leaves (nt_leave N) + 1 \<rparr> \<rparr>"
  obtain mc r where rem: "RemoveMember E (nt_mc N) c j u (env_now N) = Some (Inr (mc, r))" "mc_inv (E, mc)"
    "mc_members (E, mc) = mc_members (E, nt_mc N) - {(c, j)}" "r \<longleftrightarrow> (c, j) \<in> mc_members (E, nt_mc N)"
    by (rule RemoveMember_step[OF assms(2), of c j u "env_now N"])
  have member: "(c, j) \<in> mc_members (E, nt_mc N) \<longleftrightarrow> Mc_IsMember (nt_mc N) c j"
    using assms(3) by (simp add: mc_members_def Mc_IsMember_def Mg_IsMember_def cluster_ge_3)
  have rem': "RemoveMember E (nt_mc ?N) c j u (env_now ?N) = Some (Inr (mc, r))" and ok: "net_ok E ?N"
    using rem(1) assms(1) by simp_all
  have rot: "rotated_tek E (nt_tek ?N) c ?N = rotated_tek E (nt_tek N) c N" by (simp add: rotated_tek_def)
  note readers = mc.readers_members[OF rem(2)] mc.readers_members[OF assms(2)]
  {
    assume "Mc_IsMember (nt_mc N) c j"
    then have "r \<or> False" using rem(4) member by simp
    then obtain N' where "DoLeave E u j c (skdc_of c) False ?N = Some (Inr (N', True))" "nt_mc N' = mc"
      "skdc_tek N' (unat c) = GetTek (nt_tek N') c" "\<And>d. d \<noteq> c \<Longrightarrow> GetTek (nt_tek N') d = GetTek (nt_tek N) d"
      "Tek_GetVersion (nt_tek N') c = Tek_GetVersion (nt_tek N) c + 2"
      "\<exists>tm W. GetTek tm c = rotated_tek E (nt_tek N) c N \<and> GetTek (nt_tek N') c = rotated_tek E tm c (W :: Net)"
      "nt_leave N' = left_books (leave_record u j c (env_now N) (Tek_GetVersion (nt_tek N) c + 1)) (nt_leave ?N)"
      using assms(3) rot by - (rule DoLeave_effect[OF ok _ assms(3) rem', of "skdc_of c" False], simp_all add: skdc_of_def)
    then show "\<exists>N'. Le_ProcessLeave E u j c (skdc_of c) N = Some (Inr (N', True)) \<and>
         mc_members (E, nt_mc N') = mc_members (E, nt_mc N) - {(c, j)} \<and>
         mc_readers (E, nt_mc N') = mc_readers (E, nt_mc N) - {(c, j)} \<and>
         Tek_GetVersion (nt_tek N') c = Tek_GetVersion (nt_tek N) c + 2 \<and>
         lr_new_version (last (le_history (nt_leave N'))) = Tek_GetVersion (nt_tek N) c + 1 \<and>
         lr_latency_ms (last (le_history (nt_leave N'))) = 0 \<and>
         sd_current_tek (sk_state (nt_skdcs N' ! unat c)) = GetTek (nt_tek N') c \<and>
         (\<exists>tm W. GetTek tm c = rotated_tek E (nt_tek N) c N \<and> GetTek (nt_tek N') c = rotated_tek E tm c (W :: Net)) \<and>
         (\<forall>d. d \<noteq> c \<longrightarrow> GetTek (nt_tek N') d = GetTek (nt_tek N) d)"
      using readers rem(3)
      by (intro exI[of _ N']) (simp add: Le_ProcessLeave_def Let_def skdc_tek_def left_books_def leave_record_def)
  next
    assume "\<not> Mc_IsMember (nt_mc N) c j"
    then have "RemoveMember E (nt_mc ?N) c j u (env_now ?N) = Some (Inr (nt_mc N, False))"
      using assms(3) RemoveMember_refused[of c j "nt_mc N" E u "env_now N"] member by (simp add: mc_members_def)
    from DoLeave_refused[OF this] show "\<exists>N'. Le_ProcessLeave E u j c (skdc_of c) N = Some (Inr (N', False)) \<and>
         nt_mc N' = nt_mc N \<and> nt_tek N' = nt_tek N \<and> nt_skdcs N' = nt_skdcs N"
      by (simp add: Le_ProcessLeave_def Let_def)
  }
qed

text \<open>
  A rekey of cluster \<open>c\<close> derives the key SHA-256(old key, time, nonce) and stores it at the TEK
  manager and the SKDC.  The key is stored twice, with the same version, so the
  version grows by 1 as the event records; the integer form of the key stays that of the
  old key, and the other clusters and the groups are untouched.  A
  cluster that does not exist is refused without any effect.
\<close>
theorem rekey_key_and_version:
  assumes "net_ok E N"
  shows "(unat c < 3 \<longrightarrow>
      (\<exists>N'. Rekey_TriggerRekey E c why (skdc_of c) N = Inr (N', True) \<and> nt_mc N' = nt_mc N \<and>
         GetTek (nt_tek N') c = x_sha256 E (GetTek (nt_tek N) c @ be64 (env_micros N (Suc (env_reads N))) @
           env_random N (Suc (Suc (env_reads N))) 16) \<and>
         sd_current_tek (sk_state (nt_skdcs N' ! unat c)) = GetTek (nt_tek N') c \<and>
         Tek_GetVersion (nt_tek N') c = Tek_GetVersion (nt_tek N) c + 1 \<and>
         GetTekInt (nt_tek N') c = GetTekInt (nt_tek N) c \<and>
         (\<forall>d. d \<noteq> c \<longrightarrow> GetTek (nt_tek N') d = GetTek (nt_tek N) d) \<and>
         RM_GetRekeyCount (nt_rekey N') c = RM_GetRekeyCount (nt_rekey N) c + 1 \<and>
         re_old_version (last (rm_history (nt_rekey N'))) = Tek_GetVersion (nt_tek N) c \<and>
         re_new_version (last (rm_history (nt_rekey N'))) = Tek_GetVersion (nt_tek N') c)) \<and>
    (\<not> unat c < 3 \<longrightarrow> Rekey_TriggerRekey E c why skdc N = Inr (N, False))"
proof (intro conjI impI)
  assume c: "unat c < 3"
  show "\<exists>N'. Rekey_TriggerRekey E c why (skdc_of c) N = Inr (N', True) \<and> nt_mc N' = nt_mc N \<and>
         GetTek (nt_tek N') c = x_sha256 E (GetTek (nt_tek N) c @ be64 (env_micros N (Suc (env_reads N))) @
           env_random N (Suc (Suc (env_reads N))) 16) \<and>
         sd_current_tek (sk_state (nt_skdcs N' ! unat c)) = GetTek (nt_tek N') c \<and>
         Tek_GetVersion (nt_tek N') c = Tek_GetVersion (nt_tek N) c + 1 \<and>
         GetTekInt (nt_tek N') c = GetTekInt (nt_tek N) c \<and>
         (\<forall>d. d \<noteq> c \<longrightarrow> GetTek (nt_tek N') d = GetTek (nt_tek N) d) \<and>
         RM_GetRekeyCount (nt_rekey N') c = RM_GetRekeyCount (nt_rekey N) c + 1 \<and>
         re_old_version (last (rm_history (nt_rekey N'))) = Tek_GetVersion (nt_tek N) c \<and>
         re_new_version (last (rm_history (nt_rekey N'))) = Tek_GetVersion (nt_tek N') c"
    using Rekey_effect[OF assms _ c c, of "skdc_of c" why] by (force simp: skdc_of_def skdc_tek_def rekeyed_tek_def)
qed (simp add: Rekey_TriggerRekey_def cluster_ge_3)

section \<open>A concrete network\<close>

definition demo_net :: "MulticastManager \<Rightarrow> Net" where
  "demo_net mc = \<lparr> env_micros = of_nat, env_random = (\<lambda>k n. replicate n (of_nat k)), env_reads = 0,
     env_now = 0, env_sent = [], env_csv_opens = True, env_csv_header_written = False, env_csv = [],
     nt_tek = demo_tek, nt_mc = mc, nt_skdcs = map SkdcApplication_new [19, 20, 21], nt_dist = MtkDistributionManager_new,
     nt_rekey = RekeyManager_new, nt_join = JoinEventManager_new, nt_leave = LeaveEventManager_new,
     nt_ho = HandoverManager_new, nt_comp = CompromiseDetector_new, nt_timers = [], nt_steady_ms = of_nat \<rparr>"

lemma demo_net_simps [simp]:
  "nt_mc (demo_net mc) = mc" "nt_timers (demo_net mc) = []" "nt_comp (demo_net mc) = CompromiseDetector_new"
  "nt_tek (demo_net mc) = demo_tek" "env_now (demo_net mc) = 0"
  by (simp_all add: demo_net_def)

lemma demo_net_ok: "net_ok toy_ext (demo_net mc)"
proof -
  have "wf_world (demo_net mc)" by (simp add: wf_world_def demo_net_def)
  moreover have "apps_ok toy_ext (nt_skdcs (demo_net mc))"
    using demo_sizes[of 0] by (auto simp: demo_net_def apps_ok_def SkdcApplication_new_def SkdcState_new_def sendable_def)
  ultimately show ?thesis
    using demo_tek_wf toy_laws
    by (simp add: net_ok_def) (simp add: demo_net_def MtkDistributionManager_new_def RekeyManager_new_def)
qed

lemma Rekey_returns:
  assumes "net_ok E N" "unat c < 3"
  shows "\<exists>N'. Rekey_TriggerRekey E c why (skdc_of c) N = Inr (N', True)"
  by (rule Rekey_effect[OF assms(1) _ assms(2,2), of "skdc_of c" why]) (auto simp: skdc_of_def)

lemma tek_agreement_witness:
  "\<exists>N1 N. Dist_BroadcastAll toy_ext all_skdcs (demo_net (MulticastManager_new None)) = Inr N1 \<and> net_step toy_ext N1 N \<and>
    sd_current_tek (sk_state (nt_skdcs N ! unat 1)) = GetTek (nt_tek N) 1"
proof -
  note ok = demo_net_ok[of "MulticastManager_new None"]
  obtain N1 where N1: "Dist_BroadcastAll toy_ext all_skdcs (demo_net (MulticastManager_new None)) = Inr N1"
    "net_inv toy_ext (skdc_tokens (demo_net (MulticastManager_new None))) N1"
    by (rule BroadcastAll_effect[OF ok demo_net_simps(2)]) blast
  then have "net_ok toy_ext N1" by (simp add: net_inv_def)
  then obtain N where "Rekey_TriggerRekey toy_ext 1 RM_KDC_INIT (skdc_of 1) N1 = Inr (N, True)"
    using Rekey_returns[of toy_ext N1 1 RM_KDC_INIT] by auto
  then have step: "net_step toy_ext N1 N" by (rule net_step.rekey[rotated]) simp
  show ?thesis
    using tek_agreement[OF ok demo_net_simps(2,3) N1(1) r_into_rtranclp[of "net_step toy_ext", OF step], of 1] N1(1) step
    by auto
qed

lemma leave_rotates_twice_witness:
  "\<exists>tok N'. Le_ProcessLeave toy_ext 4 0 1 (skdc_of 1) (demo_net (demo_mc tok)) = Some (Inr (N', True)) \<and>
    mc_members (toy_ext, nt_mc N') = {(0, 0), (2, 0)} \<and> Tek_GetVersion (nt_tek N') 1 = 3 \<and>
    lr_new_version (last (le_history (nt_leave N'))) = 2"
proof -
  obtain tok where tok: "token_ok demo_mkg tok" "mt_user_indices tok = [0]" using demo_token by blast
  note ok = demo_mc_ok[OF tok]
  have "Tek_GetVersion (nt_tek (demo_net (demo_mc tok))) 1 = 1"
    by (simp add: demo_tek_def TekManager_new_def RandomBytes_def Tek_GetVersion_def cluster_ge_3 TekRecord_new_def)
  moreover have "Mc_IsMember (nt_mc (demo_net (demo_mc tok))) 1 0"
    by (simp add: Mc_IsMember_def cluster_ge_3 Mg_IsMember_def demo_mc_def take_token_def MulticastGroupInfo_new_def)
  ultimately show ?thesis
    using leave_rotates_twice[OF demo_net_ok, of "demo_mc tok" 1 0 4] ok by fastforce
qed

lemma rekey_key_and_version_witness:
  "\<exists>N'. Rekey_TriggerRekey toy_ext 1 RM_PERIODIC (skdc_of 1) (demo_net (MulticastManager_new None)) = Inr (N', True) \<and>
    GetTek (nt_tek N') 1 = x_sha256 toy_ext (replicate 32 0 @ be64 1 @ replicate 16 2)"
proof -
  have "GetTek demo_tek 1 = replicate 32 0"
    by (simp add: demo_tek_def TekManager_new_def RandomBytes_def GetTek_def cluster_ge_3 TekRecord_new_def)
  moreover have "env_micros (demo_net (MulticastManager_new None)) (Suc (env_reads (demo_net (MulticastManager_new None)))) = 1"
    "env_random (demo_net (MulticastManager_new None)) (Suc (Suc (env_reads (demo_net (MulticastManager_new None))))) 16 = replicate 16 2"
    by (simp_all add: demo_net_def)
  ultimately show ?thesis using rekey_key_and_version[OF demo_net_ok, of 1 RM_PERIODIC "MulticastManager_new None"] by force
qed

lemma revoked_once_witness:
  "\<exists>tok N1 N. Dist_BroadcastAll toy_ext all_skdcs (demo_net (demo_mc tok)) = Inr N1 \<and>
    HandleCompromise toy_ext 4 1 0 CR_HMAC_FAILURE (skdc_of 1) N1 = Some (Inr N) \<and>
    GetCompromisedUavs (nt_comp N) = [4] \<and> ReportReplayAttack toy_ext 4 1 0 (skdc_of 1) N = Some (Inr N)"
proof -
  obtain tok where tok: "token_ok demo_mkg tok" "mt_user_indices tok = [0]" using demo_token by blast
  note ok = demo_net_ok[of "demo_mc tok"]
  obtain N1 where N1: "Dist_BroadcastAll toy_ext all_skdcs (demo_net (demo_mc tok)) = Inr N1"
    "net_inv toy_ext (skdc_tokens (demo_net (demo_mc tok))) N1" "nt_comp N1 = CompromiseDetector_new"
    "nt_mc N1 = demo_mc tok"
    by (rule BroadcastAll_effect[OF ok demo_net_simps(2)]) simp
  obtain mc r where "RemoveMember toy_ext (nt_mc N1) 1 0 4 (env_now N1) = Some (Inr (mc, r))"
    by (rule RemoveMember_step[of toy_ext "nt_mc N1" 1 0 4 "env_now N1"]) (use N1(4) demo_mc_ok(1)[OF tok] in simp_all)
  then obtain N where N: "HandleCompromise toy_ext 4 1 0 CR_HMAC_FAILURE (skdc_of 1) N1 = Some (Inr N)"
    "map ce_uav_id (cd_history (nt_comp N)) = [4]"
    by (rule HandleCompromise_effect[where reason = CR_HMAC_FAILURE, of toy_ext N1 1 4, rotated 3])
      (use N1 in \<open>simp_all add: CompromiseDetector_new_def IsRevoked_def net_inv_def\<close>)
  have "net_step toy_ext N1 N" by (rule net_step.report[OF _ N(1)]) simp
  from revoked_once[OF ok demo_net_simps(2,3) N1(1) r_into_rtranclp[of "net_step toy_ext", OF this]] N N1(1)
  show ?thesis by (auto simp: ReportReplayAttack_def) blast
qed

end
