(* ===== verification/Main_Scenario.thy ===== *)
theory Main_Scenario
  imports Group_Runs
begin

text \<open>
  The security events that main.cc schedules, run on the managers as main.cc sets
  them up: a leave of UAV 3 from cluster 0 (30 s), a handover of UAV 5 from cluster 0
  to cluster 1 (60 s), a join of UAV 6 to cluster 2 (90 s) and a global rekey (150 s).
  The calls of the handlers to the visualization are left out.  The
  theorems show what the index mismatch of theory Multicast\_Manager makes of them.
\<close>

section \<open>The handlers of main.cc\<close>

definition ScheduledLeave :: "ext \<Rightarrow> Net \<Rightarrow> Net comp" where
  "ScheduledLeave E N = cbind (Le_ProcessLeave E 3 3 0 (skdc_of 0) N) (\<lambda>(N, ok). cret N)"

definition ScheduledHandover :: "ext \<Rightarrow> Net \<Rightarrow> Net comp" where
  "ScheduledHandover E N = cbind (ProcessHandover E 5 5 0 1 all_skdcs N) (\<lambda>(N, ok). cret N)"

definition ScheduledJoin :: "ext \<Rightarrow> Net \<Rightarrow> Net comp" where
  "ScheduledJoin E N = cbind (Je_ProcessJoin E 6 0 2 (skdc_of 2) N) (\<lambda>(N, ok). cret N)"

definition ScheduledGlobalRekey :: "ext \<Rightarrow> Net \<Rightarrow> Net res" where
  "ScheduledGlobalRekey E N = GlobalRekey E all_skdcs RM_KDC_INIT N"

section \<open>Leaves and handovers with their group updates\<close>

lemma Le_ProcessLeave_effect:
  assumes "net_ok E N" "unat c < 3" "RemoveMember E (nt_mc N) c j u (env_now N) = Some (Inr (mc, True))"
  obtains N' where "Le_ProcessLeave E u j c (skdc_of c) N = Some (Inr (N', True))" "net_ok E N'" "nt_mc N' = mc"
    "skdc_tokens N' = skdc_tokens N" "nt_ho N' = nt_ho N" "nt_join N' = nt_join N" "env_now N' = env_now N"
    "\<And>d. d \<noteq> c \<Longrightarrow> GetTek (nt_tek N') d = GetTek (nt_tek N) d"
    "Tek_GetVersion (nt_tek N') c = Tek_GetVersion (nt_tek N) c + 2"
proof -
  let ?N = "N \<lparr> nt_leave := (nt_leave N) \<lparr> le_total_leaves := le_total_leaves (nt_leave N) + 1 \<rparr> \<rparr>"
  have ok: "net_ok E ?N" and rem: "RemoveMember E (nt_mc ?N) c j u (env_now ?N) = Some (Inr (mc, True))"
    using assms by simp_all
  show thesis
    using assms(2) that by - (rule DoLeave_effect[OF ok _ assms(2) rem, of "skdc_of c" False],
      simp_all add: skdc_of_def Le_ProcessLeave_def Let_def)
qed

lemma ProcessHandover_effect:
  assumes "net_ok E N" "unat c < 3" "unat d < 3" "c \<noteq> d"
    and "RemoveMember E (nt_mc N) c j u (env_now N) = Some (Inr (mc1, True))"
    and "AddMember E mc1 d (GetGroupSize mc1 d mod 6) u (env_now N) = Some (Inr (mc2, added))"
  obtains N' where "ProcessHandover E u j c d all_skdcs N = Some (Inr (N', True))" "net_ok E N'" "nt_mc N' = mc2"
    "skdc_tokens N' = skdc_tokens N" "hr_new_uav_index (last (hm_history (nt_ho N'))) = GetGroupSize mc1 d mod 6"
    "hr_leave_ok (last (hm_history (nt_ho N')))" "hr_join_ok (last (hm_history (nt_ho N')))"
    "env_now N' = env_now N" "Tek_GetVersion (nt_tek N') c = Tek_GetVersion (nt_tek N) c + 2"
    "GetTek (nt_tek N') d = GetTek (nt_tek N) d" "skdc_tek N' (unat d) = GetTek (nt_tek N) d"
proof -
  let ?N = "N \<lparr> nt_ho := (nt_ho N) \<lparr> hm_total_handovers := hm_total_handovers (nt_ho N) + 1 \<rparr> \<rparr>"
  have app: "all_skdcs ! unat e = skdc_of e" if "unat e < 3" for e :: u32
    using that by (auto simp: all_skdcs_def skdc_of_def less_3_word nth_Cons split: nat.split)
  have ok: "net_ok E ?N" and rem: "RemoveMember E (nt_mc ?N) c j u (env_now ?N) = Some (Inr (mc1, True))"
    using assms by simp_all
  obtain N1 where 1: "Le_ProcessLeave E u j c (skdc_of c) ?N = Some (Inr (N1, True))" "net_ok E N1" "nt_mc N1 = mc1"
    "skdc_tokens N1 = skdc_tokens N" "env_now N1 = env_now N" "GetTek (nt_tek N1) d = GetTek (nt_tek N) d"
    "Tek_GetVersion (nt_tek N1) c = Tek_GetVersion (nt_tek N) c + 2"
    using assms(4) by - (rule Le_ProcessLeave_effect[OF ok assms(2) rem], simp)
  have add: "AddMember E (nt_mc N1) d (GetGroupSize mc1 d mod 6) u (env_now N1) = Some (Inr (mc2, added))"
    using assms(6) 1(3,5) by simp
  obtain N2 where 2: "Je_ProcessJoin E u (GetGroupSize mc1 d mod 6) d (skdc_of d) N1 = Some (Inr (N2, True))" "net_ok E N2"
    "nt_mc N2 = mc2" "nt_tek N2 = nt_tek N1" "skdc_tek N2 (unat d) = GetTek (nt_tek N1) d"
    "skdc_tokens N2 = skdc_tokens N1" "env_now N2 = env_now N1"
    using assms(3) by - (rule Je_ProcessJoin_effect[OF 1(2) _ assms(3) add, of "skdc_of d"], simp_all add: skdc_of_def)
  define r where "r = \<lparr> hr_uav_id = u, hr_old_cluster = c, hr_new_cluster = d, hr_old_uav_index = j,
     hr_new_uav_index = GetGroupSize mc1 d mod 6, hr_time_s = env_now N, hr_leave_ok = True, hr_join_ok = True,
     hr_old_rekey_done = True, hr_new_rekey_done = True, hr_latency_ms = 0 \<rparr>"
  define hm where "hm = (nt_ho N2) \<lparr> hm_history := hm_history (nt_ho N2) @ [r], hm_handover_cb := call_cb r (hm_handover_cb (nt_ho N2)) \<rparr>"
  have "ProcessHandover E u j c d all_skdcs N = Some (Inr (N2 \<lparr> nt_ho := hm \<rparr>, True))"
    using assms(2-4) 1(1,3,5) 2(1,7) app
    by (simp add: ProcessHandover_def cluster_ge_3 Let_def cret_def hm_def r_def)
  then show thesis
    using 1 2 assms(4) by (intro that[of "N2 \<lparr> nt_ho := hm \<rparr>"]) (simp_all add: hm_def r_def)
qed

section \<open>The groups after Initialize\<close>

text \<open>A member of cluster 0 is taken out of its group.\<close>

lemma leave_cluster_0:
  assumes "powm_law E" "group_ok mc 0" "mc_shape mc" "s \<in> set (mk_slaves (mc_mkg mc ! 0))"
    "sk_uav_index s \<in> set (mg_members (mc_groups mc ! 0))"
  obtains mc' where "RemoveMember E mc 0 (sk_uav_index s) u now = Some (Inr (mc', True))" "mc_change 0 mc mc'"
    "group_ok mc' 0" "mc_shape mc'" "mg_members (mc_groups mc' ! 0) = uset_erase (sk_uav_index s) (mg_members (mc_groups mc ! 0))"
proof -
  have "find_slave (mc_mkg mc ! unat 0) (sk_uav_index s) \<noteq> None"
    using assms(2,4) find_slave_in[of "mc_mkg mc ! 0" s] by (simp add: group_ok_def)
  with RemoveMember_effect[OF assms(1,3,2), of "sk_uav_index s" u now] assms(5) mc_change_shape assms(3) that
  show thesis by auto
qed

text \<open>The next slot of a full cluster is slot 0.\<close>

lemma initialized_next_index:
  assumes "initialized params mc c" "mc_same c mc mc'"
  shows "GetGroupSize mc' c mod 6 = 0"
proof -
  have "next_slot mc c = c * 6 + 6" by (rule initialized_members(2)[OF assms(1)])
  then have "of_nat (length (mg_members (mc_groups mc ! unat c))) = (6 :: u32)" by (simp add: next_slot_def)
  then show ?thesis
    using assms by (simp add: initialized_def mc_same_def GetGroupSize_def cluster_ge_3 Mg_Size_def)
qed

lemma GlobalRekey_effect:
  assumes "net_ok E N"
  obtains N' where "GlobalRekey E all_skdcs why N = Inr N'" "net_ok E N'" "nt_mc N' = nt_mc N" "skdc_tokens N' = skdc_tokens N"
    "nt_ho N' = nt_ho N" "nt_join N' = nt_join N"
proof -
  have step: "\<exists>N2. Rekey_TriggerRekey E c why (Some (unat c)) N1 = Inr (N2, True) \<and> net_ok E N2 \<and> nt_mc N2 = nt_mc N1 \<and>
      skdc_tokens N2 = skdc_tokens N1 \<and> nt_ho N2 = nt_ho N1 \<and> nt_join N2 = nt_join N1"
    if "net_ok E N1" "unat c < 3" for N1 c
    by (rule Rekey_effect[OF that(1) refl that(2,2)]) blast
  from step[OF assms, of 0] obtain N1 where 1: "Rekey_TriggerRekey E 0 why (Some 0) N = Inr (N1, True)" "net_ok E N1"
    "nt_mc N1 = nt_mc N" "skdc_tokens N1 = skdc_tokens N" "nt_ho N1 = nt_ho N" "nt_join N1 = nt_join N" by auto
  from step[OF 1(2), of 1] obtain N2 where 2: "Rekey_TriggerRekey E 1 why (Some 1) N1 = Inr (N2, True)" "net_ok E N2"
    "nt_mc N2 = nt_mc N1" "skdc_tokens N2 = skdc_tokens N1" "nt_ho N2 = nt_ho N1" "nt_join N2 = nt_join N1" by auto
  from step[OF 2(2), of 2] obtain N3 where 3: "Rekey_TriggerRekey E 2 why (Some 2) N2 = Inr (N3, True)" "net_ok E N3"
    "nt_mc N3 = nt_mc N2" "skdc_tokens N3 = skdc_tokens N2" "nt_ho N3 = nt_ho N2" "nt_join N3 = nt_join N2" by auto
  show thesis
    using 1 2 3 by (intro that[of N3]) (simp_all add: GlobalRekey_def all_skdcs_def)
qed

lemma net_ok_now [simp]: "net_ok E (N \<lparr> env_now := t \<rparr>) = net_ok E N"
  by (simp add: net_ok_def wf_world_def)

text \<open>The groups over the leave, the handover and the join of main.cc.\<close>

lemma scheduled_groups:
  assumes "powm_law E" "local_indices params" "mc = Mc_Initialize (MulticastManager_new (Some params))"
    and "s3 \<in> set (cc_slave_keys (cp_clusters params ! 0))" "sk_uav_index s3 = 3"
    and "s5 \<in> set (cc_slave_keys (cp_clusters params ! 0))" "sk_uav_index s5 = 5"
    and "s6 \<in> set (cc_slave_keys (cp_clusters params ! 1))" "sk_uav_index s6 = 0"
    and "s12 \<in> set (cc_slave_keys (cp_clusters params ! 2))" "sk_uav_index s12 = 0"
  obtains mc1 mc2 mc3 mc4 where "RemoveMember E mc 0 3 3 t1 = Some (Inr (mc1, True))"
    "RemoveMember E mc1 0 5 5 t2 = Some (Inr (mc2, True))" "GetGroupSize mc2 1 mod 6 = 0"
    "AddMember E mc2 1 0 5 t2 = Some (Inr (mc3, True))" "AddMember E mc3 2 0 6 t3 = Some (Inr (mc4, True))"
    "\<not> fits_group mc4 1 s6" "\<not> fits_group mc4 2 s12"
    "\<forall>s\<in>set (cc_slave_keys (cp_clusters params ! 0)). fits_group mc4 0 s \<longleftrightarrow> sk_uav_index s \<notin> {3, 5}"
proof -
  have init: "initialized params mc c" if "unat c < 3" for c using assms(2,3) that by (simp add: initialized_def)
  note init0 = init[of 0, simplified] and group0 = initialized_group[OF init[of 0, simplified]]
  have slaves: "set (mk_slaves (mc_mkg mc ! 0)) = set (cc_slave_keys (cp_clusters params ! 0))"
    using group0(2) by (simp add: load_cluster_def)
  have members: "set (mg_members (mc_groups mc ! 0)) = {0, 1, 2, 3, 4, 5}" and dist: "distinct (mg_members (mc_groups mc ! 0))"
    using initialized_members(1,3)[OF init0] by simp_all
  obtain mc1 where 1: "RemoveMember E mc 0 3 3 t1 = Some (Inr (mc1, True))" "mc_change 0 mc mc1" "group_ok mc1 0"
    "mc_shape mc1" "mg_members (mc_groups mc1 ! 0) = uset_erase 3 (mg_members (mc_groups mc ! 0))"
    by (rule leave_cluster_0[OF assms(1) initialized_group_0[OF init0 refl] group0(3), of s3 3 t1])
      (use assms(4,5) slaves members in simp_all)
  obtain mc2 where 2: "RemoveMember E mc1 0 5 5 t2 = Some (Inr (mc2, True))" "mc_change 0 mc1 mc2" "group_ok mc2 0"
    "mc_shape mc2" "mg_members (mc_groups mc2 ! 0) = uset_erase 5 (mg_members (mc_groups mc1 ! 0))"
    by (rule leave_cluster_0[OF assms(1) 1(3,4), of s5 5 t2])
      (use assms(6,7) slaves members 1(2,5) in \<open>auto simp: mc_change_def uset_erase_def\<close>)
  have same: "mc_same c mc mc2" if "c \<noteq> 0" for c
    using that group0(3) by (intro mc_same_change[OF mc_same_change[OF _ 1(2)] 2(2)]) (simp_all add: mc_same_def)
  obtain mc3 where 3: "AddMember E mc2 1 (sk_uav_index s6) 5 t2 = Some (Inr (mc3, True))" "\<not> fits_group mc3 1 s6"
    "mc_change 1 mc2 mc3"
    by (rule initialized_double_join[OF assms(1) init[of 1] _ _ same[of 1], of s6 5 t2]) (use assms(8) in simp_all)
  have same3: "mc_same 2 mc mc3" by (rule mc_same_change[OF same 3(3)]) simp_all
  obtain mc4 where 4: "AddMember E mc3 2 (sk_uav_index s12) 6 t3 = Some (Inr (mc4, True))" "\<not> fits_group mc4 2 s12"
    "mc_change 2 mc3 mc4"
    by (rule initialized_double_join[OF assms(1) init[of 2] _ _ same3, of s12 6 t3]) (use assms(10) in simp_all)
  have "group_ok mc4 0" "mc_groups mc4 ! 0 = mc_groups mc2 ! 0" "mc_mkg mc4 = mc_mkg mc" "\<not> fits_group mc4 1 s6"
    using 1(2) 2(2,3) 3(2,3) 4(3) mc_change_other[OF 4(3), of 0] mc_change_other[OF 3(3), of 0] mc_change_other[OF 4(3), of 1]
    by (auto simp: fits_group_def mc_change_def)
  moreover have "set (mg_members (mc_groups mc2 ! 0)) = {0, 1, 2, 4}"
    using members dist by (auto simp: 2(5) 1(5) uset_erase_def)
  moreover have "sk_uav_index s < 6" if "s \<in> set (cc_slave_keys (cp_clusters params ! 0))" for s
    using initialized_keys(3)[OF init0] that by simp
  ultimately have "\<forall>s\<in>set (cc_slave_keys (cp_clusters params ! 0)). fits_group mc4 0 s \<longleftrightarrow> sk_uav_index s \<notin> {3, 5}"
    using fits_group_iff[of mc4 0] slaves by (fastforce simp: less_6_word)
  moreover have "GetGroupSize mc2 1 mod 6 = 0" by (rule initialized_next_index[OF init same]) simp_all
  ultimately show thesis
    using 1(1) 2(1) 3(1) 4(1,2) \<open>\<not> fits_group mc4 1 s6\<close> assms(9,11) by (intro that) simp_all
qed

text \<open>
  C30.  The four events that main.cc schedules, on the managers after \<open>Initialize\<close> (and with parameter
  files that number the slaves of every cluster from 0).  All four succeed.  The leave of UAV 3 and the
  handover of UAV 5 take their keys out of the token of cluster 0 as they should.  But UAV 5
  is given index 0 in the full cluster 1, and the join of UAV 6 to cluster 2 names index 0
  as well: both add a key that is in the token already.  The slaves with
  index 0 of the clusters 1 and 2 (UAVs 6 and 12), which could read the
  manager's token, no longer can.  None of it reaches the UAVs: the SKDCs
  broadcast the same token as before.
\<close>
theorem scheduled_events:
  assumes "net_ok E N0" "local_indices params" "nt_mc N0 = Mc_Initialize (MulticastManager_new (Some params))"
    and "s3 \<in> set (cc_slave_keys (cp_clusters params ! 0))" "sk_uav_index s3 = 3"
    and "s5 \<in> set (cc_slave_keys (cp_clusters params ! 0))" "sk_uav_index s5 = 5"
    and "s6 \<in> set (cc_slave_keys (cp_clusters params ! 1))" "sk_uav_index s6 = 0"
    and "s12 \<in> set (cc_slave_keys (cp_clusters params ! 2))" "sk_uav_index s12 = 0"
  shows "\<exists>N1 N2 N3 N4. ScheduledLeave E (N0 \<lparr> env_now := 30 \<rparr>) = Some (Inr N1) \<and>
    ScheduledHandover E (N1 \<lparr> env_now := 60 \<rparr>) = Some (Inr N2) \<and>
    ScheduledJoin E (N2 \<lparr> env_now := 90 \<rparr>) = Some (Inr N3) \<and>
    ScheduledGlobalRekey E (N3 \<lparr> env_now := 150 \<rparr>) = Inr N4 \<and>
    hr_join_ok (last (hm_history (nt_ho N2))) \<and> hr_new_uav_index (last (hm_history (nt_ho N2))) = 0 \<and>
    jr_joined (last (je_history (nt_join N4))) \<and>
    (\<forall>s\<in>set (cc_slave_keys (cp_clusters params ! 0)). fits_group (nt_mc N4) 0 s \<longleftrightarrow> sk_uav_index s \<notin> {3, 5}) \<and>
    fits_group (nt_mc N0) 1 s6 \<and> fits_group (nt_mc N0) 2 s12 \<and>
    \<not> fits_group (nt_mc N4) 1 s6 \<and> \<not> fits_group (nt_mc N4) 2 s12 \<and>
    map (\<lambda>app. sd_mt_k (sk_state app)) (nt_skdcs N4) = map (\<lambda>app. sd_mt_k (sk_state app)) (nt_skdcs N0)"
proof -
  have powm: "powm_law E" using assms(1) by (simp add: net_ok_def)
  have init: "initialized params (nt_mc N0) c" if "unat c < 3" for c using assms(2,3) that by (simp add: initialized_def)
  have fits: "fits_group (nt_mc N0) 1 s6" "fits_group (nt_mc N0) 2 s12"
    using initialized_fits[OF init, of 1 s6] initialized_fits[OF init, of 2 s12] assms(8,10) by simp_all
  obtain mc1 mc2 mc3 mc4 where mc: "RemoveMember E (nt_mc N0) 0 3 3 30 = Some (Inr (mc1, True))"
    "RemoveMember E mc1 0 5 5 60 = Some (Inr (mc2, True))" "GetGroupSize mc2 1 mod 6 = 0"
    "AddMember E mc2 1 0 5 60 = Some (Inr (mc3, True))" "AddMember E mc3 2 0 6 90 = Some (Inr (mc4, True))"
    "\<not> fits_group mc4 1 s6" "\<not> fits_group mc4 2 s12"
    "\<forall>s\<in>set (cc_slave_keys (cp_clusters params ! 0)). fits_group mc4 0 s \<longleftrightarrow> sk_uav_index s \<notin> {3, 5}"
    by (rule scheduled_groups[OF powm assms(2-11)])
  obtain N1 where 1: "Le_ProcessLeave E 3 3 0 (skdc_of 0) (N0 \<lparr> env_now := 30 \<rparr>) = Some (Inr (N1, True))" "net_ok E N1"
    "nt_mc N1 = mc1" "skdc_tokens N1 = skdc_tokens N0"
    by (rule Le_ProcessLeave_effect[of E "N0 \<lparr> env_now := 30 \<rparr>" 0 3 3 mc1]) (use assms(1) mc(1) in simp_all)
  obtain N2 where 2: "ProcessHandover E 5 5 0 1 all_skdcs (N1 \<lparr> env_now := 60 \<rparr>) = Some (Inr (N2, True))" "net_ok E N2"
    "nt_mc N2 = mc3" "skdc_tokens N2 = skdc_tokens N1" "hr_join_ok (last (hm_history (nt_ho N2)))"
    "hr_new_uav_index (last (hm_history (nt_ho N2))) = 0"
    by (rule ProcessHandover_effect[of E "N1 \<lparr> env_now := 60 \<rparr>" 0 1 5 5 mc2 mc3 True]) (use 1 mc in simp_all)
  have "AddMember E (nt_mc (N2 \<lparr> env_now := 90 \<rparr>)) 2 0 6 (env_now (N2 \<lparr> env_now := 90 \<rparr>)) = Some (Inr (mc4, True))"
    using 2(3) mc(5) by simp
  then obtain N3 where 3: "Je_ProcessJoin E 6 0 2 (skdc_of 2) (N2 \<lparr> env_now := 90 \<rparr>) = Some (Inr (N3, True))" "net_ok E N3"
    "nt_mc N3 = mc4" "skdc_tokens N3 = skdc_tokens N2" "jr_joined (last (je_history (nt_join N3)))"
    by (rule Je_ProcessJoin_effect[of E "N2 \<lparr> env_now := 90 \<rparr>" "skdc_of 2" 2, rotated 3])
      (use 2(2) in \<open>simp_all add: skdc_of_def joined_books_def join_record_def\<close>)
  obtain N4 where 4: "GlobalRekey E all_skdcs RM_KDC_INIT (N3 \<lparr> env_now := 150 \<rparr>) = Inr N4" "nt_mc N4 = mc4"
    "skdc_tokens N4 = skdc_tokens N3" "nt_join N4 = nt_join N3"
    by (rule GlobalRekey_effect[of E "N3 \<lparr> env_now := 150 \<rparr>" RM_KDC_INIT]) (use 3 in simp_all)
  show ?thesis
    using 1(1,4) 2(1,4-6) 3(1,4,5) 4 mc(6-8) fits
    by (intro exI[of _ N1] exI[of _ N2] exI[of _ N3] exI[of _ N4])
      (simp add: ScheduledLeave_def ScheduledHandover_def ScheduledJoin_def ScheduledGlobalRekey_def cret_def)
qed

text \<open>
  A UAV of cluster 1 or 2 is reported by the index that JammerAttackHandler passes (its number modulo 6).
  The detector records it as revoked and the leave manager reports the
  revocation as done, but nothing was revoked: the multicast manager is
  unchanged, and the UAV's key still decrypts the manager's token, as well as
  the token of every later broadcast, which is the old one.
\<close>
theorem revoke_missed:
  assumes "net_ok E N" "local_indices params" "nt_mc N = Mc_Initialize (MulticastManager_new (Some params))"
    and "c = 1 \<or> c = 2" "s \<in> set (cc_slave_keys (cp_clusters params ! unat c))" "\<not> IsRevoked (nt_comp N) u"
  shows "\<exists>N'. ReportExternal E u c (sk_uav_index s) (skdc_of c) N = Some (Inr N') \<and>
    IsRevoked (nt_comp N') u \<and> ce_revoked (last (cd_history (nt_comp N'))) \<and>
    lr_revoked (last (le_history (nt_leave N'))) \<and>
    nt_mc N' = nt_mc N \<and>
    SlaveDecrypt E s (Mc_GetMtk (nt_mc N') c) = Inr (cc_tek_int (cp_clusters params ! unat c) mod sk_n s) \<and>
    map (\<lambda>app. sd_mt_k (sk_state app)) (nt_skdcs N') = map (\<lambda>app. sd_mt_k (sk_state app)) (nt_skdcs N)"
proof -
  have c: "unat c < 3" "c \<noteq> 0" using assms(4) by auto
  have init: "initialized params (nt_mc N) c" using assms(2,3) c by (simp add: initialized_def)
  note keys = initialized_keys[OF init] and group = initialized_group[OF init]
  have "sk_uav_index s \<notin> set (mg_members (mc_groups (nt_mc N) ! unat c))"
    by (rule initialized_not_member[OF init c(2) keys(3)[OF assms(5)]])
  then have rem: "RemoveMember E (nt_mc N) c (sk_uav_index s) u (env_now N) = Some (Inr (nt_mc N, False))"
    by (intro RemoveMember_refused) blast
  have "s \<in> set (mk_slaves (cs_mkg (load_cluster (cp_clusters params ! unat c))))"
    using assms(5) by (simp add: load_cluster_def)
  from SlaveDecrypt_eq[OF _ keys(1,2) this, of E] keys(4)[OF assms(5)] assms(1)
  have "SlaveDecrypt E s (Mc_GetMtk (nt_mc N) c) = Inr (cc_tek_int (cp_clusters params ! unat c) mod sk_n s)"
    using c(1) by (simp add: Mc_GetMtk_def cluster_ge_3 group(1) load_cluster_def in_group_iff net_ok_def)
  then show ?thesis
    by - (rule HandleCompromise_effect[OF assms(1) c(1) assms(6) rem, of CR_EXTERNAL_REPORT], simp add: ReportExternal_def)
qed

text \<open>
  No join is ever refused.  The packet is signed and verified by the manager with one fresh key, the
  replay cache is not consulted, and an \<open>AddMember\<close> that refuses is overridden: every call that
  returns answers true, records an authenticated and joined UAV after 0 ms, counts no
  failure and rotates no TEK.  A join with the index of a member
  leaves the groups as they are and is recorded like any other.
\<close>
theorem join_never_refused:
  assumes "net_ok E N" "unat c < 3"
  shows "(\<forall>N' r. Je_ProcessJoin E u j c (skdc_of c) N = Some (Inr (N', r)) \<longrightarrow>
      r \<and> (\<exists>rec. je_history (nt_join N') = je_history (nt_join N) @ [rec] \<and>
        jr_uav_id rec = u \<and> jr_authenticated rec \<and> jr_joined rec \<and> jr_latency_ms rec = 0) \<and>
      je_failed_joins (nt_join N') = je_failed_joins (nt_join N) \<and>
      je_replay_cache (nt_join N') = je_replay_cache (nt_join N) \<and> nt_tek N' = nt_tek N) \<and>
    (Mc_IsMember (nt_mc N) c j \<longrightarrow>
      (\<exists>N'. Je_ProcessJoin E u j c (skdc_of c) N = Some (Inr (N', True)) \<and> nt_mc N' = nt_mc N))"
proof -
  have eff: "\<exists>N'. Je_ProcessJoin E u j c (skdc_of c) N = Some (Inr (N', True)) \<and> nt_mc N' = mc \<and> nt_tek N' = nt_tek N \<and>
      nt_join N' = joined_books u j c (env_now N) (nt_join N)"
    if "AddMember E (nt_mc N) c j u (env_now N) = Some (Inr (mc, joined))" for mc joined
    by (rule Je_ProcessJoin_effect[OF assms(1) _ assms(2) that, of "skdc_of c"]) (auto simp: skdc_of_def)
  have add: "\<exists>mc joined. AddMember E (nt_mc N) c j u (env_now N) = Some (Inr (mc, joined))"
    if "Je_ProcessJoin E u j c (skdc_of c) N = Some (Inr (N', r))" for N' r
    using that assms(1) by (rule Je_ProcessJoin_adds)
  have "\<exists>N'. Je_ProcessJoin E u j c (skdc_of c) N = Some (Inr (N', True)) \<and> nt_mc N' = nt_mc N" if "Mc_IsMember (nt_mc N) c j"
  proof -
    have "j \<in> set (mg_members (mc_groups (nt_mc N) ! unat c))"
      using that assms(2) by (simp add: Mc_IsMember_def cluster_ge_3 Mg_IsMember_def)
    from eff[OF AddMember_refused[OF disjI2[OF this]]] show ?thesis by blast
  qed
  moreover have "r \<and> nt_tek N' = nt_tek N \<and> nt_join N' = joined_books u j c (env_now N) (nt_join N)"
    if "Je_ProcessJoin E u j c (skdc_of c) N = Some (Inr (N', r))" for N' r
    using add[OF that] eff that by fastforce
  ultimately show ?thesis by (auto simp: joined_books_def join_record_def)
qed

section \<open>Concrete runs\<close>

lemma revoke_missed_witness:
  "\<exists>tok N'. ReportExternal toy_ext 6 1 0 (skdc_of 1)
      (demo_net (Mc_Initialize (MulticastManager_new (Some (demo_params3 tok))))) = Some (Inr N') \<and>
    IsRevoked (nt_comp N') 6 \<and> SlaveDecrypt toy_ext demo_slave0 (Mc_GetMtk (nt_mc N') 1) = Inr 42"
proof -
  obtain tok where tok: "token_ok demo_mkg tok" "mt_T tok = 42" "mt_user_indices tok = [0, 1]" using demo_token2 by blast
  note ok = demo_params3_ok[OF tok(1,3)]
  have s: "demo_slave0 \<in> set (cc_slave_keys (cp_clusters (demo_params3 tok) ! unat (1 :: u32)))"
    by (simp add: demo_params3_def demo_mkg_def)
  have "sk_uav_index demo_slave0 = 0" "sk_n demo_slave0 = 77" by (simp_all add: demo_slave0_def)
  moreover have "cc_tek_int (cp_clusters (demo_params3 tok) ! unat (1 :: u32)) = 42" by (simp add: demo_params3_def tok(2))
  ultimately show ?thesis
    using revoke_missed[OF demo_net_ok ok demo_net_simps(1) disjI1[OF refl] s, of 6]
    by (auto simp: IsRevoked_def CompromiseDetector_new_def intro!: exI[of _ tok])
qed

lemma join_never_refused_witness:
  "\<exists>tok N'. Je_ProcessJoin toy_ext 6 0 2 (skdc_of 2) (demo_net (demo_mc tok)) = Some (Inr (N', True)) \<and>
    nt_mc N' = demo_mc tok \<and> je_failed_joins (nt_join N') = 0"
proof -
  obtain tok where tok: "token_ok demo_mkg tok" "mt_user_indices tok = [0]" using demo_token by blast
  have "Mc_IsMember (nt_mc (demo_net (demo_mc tok))) 2 0"
    by (simp add: Mc_IsMember_def cluster_ge_3 Mg_IsMember_def demo_mc_def take_token_def MulticastGroupInfo_new_def)
  moreover have "je_failed_joins (nt_join (demo_net (demo_mc tok))) = 0"
    by (simp add: demo_net_def JoinEventManager_new_def)
  ultimately show ?thesis using join_never_refused[OF demo_net_ok, of 2 6 0 "demo_mc tok"] by fastforce
qed

text \<open>Cluster 0 with the demo keys under the indices 3 and 5, the other clusters as before.\<close>

definition demo_mkg35 :: MKeyGenResult where
  "demo_mkg35 = \<lparr> mk_eM = 13, mk_n_total = 3795,
     mk_slaves = [demo_slave0 \<lparr> sk_uav_index := 3 \<rparr>, demo_slave1 \<lparr> sk_uav_index := 5 \<rparr>] \<rparr>"

lemma demo_mkg35_ok: "mkg_ok demo_mkg35"
proof -
  have "slave_ok (s \<lparr> sk_uav_index := i \<rparr>) = slave_ok s" for s i
    by (cases s) (simp only: slave_ok_def SlaveKeyEntry.simps)
  then have "slave_ok (demo_slave0 \<lparr> sk_uav_index := 3 \<rparr>)" "slave_ok (demo_slave1 \<lparr> sk_uav_index := 5 \<rparr>)"
    using demo_slaves_ok by simp_all
  then show ?thesis
    unfolding mkg_ok_def demo_mkg35_def
    by (simp add: slave_contribution_def) (simp add: demo_slave0_def demo_slave1_def)
qed

definition demo_params35 :: "MTokenResult \<Rightarrow> MTokenResult \<Rightarrow> CryptoParamsFile" where
  "demo_params35 tok0 tok = (demo_params3 tok) \<lparr> cp_clusters := (cp_clusters (demo_params3 tok))
     [0 := (cp_clusters (demo_params3 tok) ! 0) \<lparr> cc_N_group := mt_N_group tok0, cc_MT_K := mt_MT_K tok0,
        cc_e_MK := mt_e_MK tok0, cc_tek_int := mt_T tok0, cc_user_indices := mt_user_indices tok0,
        cc_slave_keys := mk_slaves demo_mkg35 \<rparr>] \<rparr>"

lemma demo_params35_ok:
  assumes "token_ok demo_mkg35 tok0" "mt_user_indices tok0 = [3, 5]" "token_ok demo_mkg tok" "mt_user_indices tok = [0, 1]"
  shows "local_indices (demo_params35 tok0 tok)"
proof -
  have eq: "\<lparr> mk_eM = mk_eM demo_mkg, mk_n_total = mk_n_total demo_mkg, mk_slaves = mk_slaves demo_mkg35 \<rparr> = demo_mkg35"
    "mk_n_total demo_mkg35 = mk_n_total demo_mkg"
    by (simp_all add: demo_mkg_def demo_mkg35_def)
  have idx: "sk_uav_index s < 6 \<and> sk_uav_index s \<in> {3, 5}" if "s \<in> set (mk_slaves demo_mkg35)" for s
    using that by (auto simp: demo_mkg35_def)
  have idx': "sk_uav_index s < 6 \<and> sk_uav_index s \<in> {0, 1}" if "s \<in> set (mk_slaves demo_mkg)" for s
    using that by (auto simp: demo_mkg_def demo_slave0_def demo_slave1_def)
  show ?thesis
    using assms demo_mkg_ok demo_mkg35_ok idx idx' eq
    by (auto simp: local_indices_def demo_params35_def demo_params3_def load_cluster_def token_ok_def numeral_3_eq_3)
qed

lemma scheduled_events_witness:
  "\<exists>tok0 tok N1 N2 N3. let params = demo_params35 tok0 tok; N0 = demo_net (Mc_Initialize (MulticastManager_new (Some params))) in
    local_indices params \<and> ScheduledLeave toy_ext (N0 \<lparr> env_now := 30 \<rparr>) = Some (Inr N1) \<and>
    ScheduledHandover toy_ext (N1 \<lparr> env_now := 60 \<rparr>) = Some (Inr N2) \<and>
    ScheduledJoin toy_ext (N2 \<lparr> env_now := 90 \<rparr>) = Some (Inr N3)"
proof -
  obtain tok0 where tok0: "token_ok demo_mkg35 tok0" "mt_user_indices tok0 = [3, 5]"
    using MTokenGen_returns[OF toy_powm demo_mkg35_ok, of 42 "[3, 5]" 0] by auto
  obtain tok where tok: "token_ok demo_mkg tok" "mt_user_indices tok = [0, 1]" using demo_token2 by blast
  let ?params = "demo_params35 tok0 tok"
  note ok = demo_params35_ok[OF tok0 tok]
  have s: "demo_slave0 \<lparr> sk_uav_index := 3 \<rparr> \<in> set (cc_slave_keys (cp_clusters ?params ! 0))"
    "demo_slave1 \<lparr> sk_uav_index := 5 \<rparr> \<in> set (cc_slave_keys (cp_clusters ?params ! 0))"
    "demo_slave0 \<in> set (cc_slave_keys (cp_clusters ?params ! 1))"
    "demo_slave0 \<in> set (cc_slave_keys (cp_clusters ?params ! 2))"
    by (simp_all add: demo_params35_def demo_params3_def demo_mkg35_def demo_mkg_def)
  have idx: "sk_uav_index (demo_slave0 \<lparr> sk_uav_index := 3 \<rparr>) = 3" "sk_uav_index (demo_slave1 \<lparr> sk_uav_index := 5 \<rparr>) = 5"
    "sk_uav_index demo_slave0 = 0"
    by (simp_all add: demo_slave0_def)
  show ?thesis
    using scheduled_events[OF demo_net_ok ok demo_net_simps(1) s(1) idx(1) s(2) idx(2) s(3) idx(3) s(4) idx(3)] ok
    unfolding Let_def by blast
qed

end
