(* ===== verification/Mobility.thy ===== *)
theory Mobility
  imports Sim_World
begin

text \<open>
  mobility/: positions of the UAVs and of the jammer, the nearest cluster, handover
  candidates, cohesion and the reflection at the boundary.  The trajectories are those
  of the ns-3 mobility models, so the record \<open>Fleet\<close> holds for every node what its
  model returns: position and velocity, or \<open>None\<close> for a node without a model.  A
  double of the code is a real number.
\<close>

section \<open>State\<close>

record Vec =
  vx :: real
  vy :: real
  vz :: real

record Fleet =
  fl_uavs :: "(Vec \<times> Vec) option list"
  fl_jammer :: "Vec option list"
  fl_now :: real

record UavPosition =
  up_uav_index :: u32
  up_cluster :: u32
  up_x :: real
  up_y :: real
  up_z :: real
  up_speed :: real
  up_time_s :: real

record JammerPosition =
  jp_x :: real
  jp_y :: real
  jp_z :: real
  jp_time_s :: real
  jp_speed :: real

definition CLUSTER_CENTERS :: "(real \<times> real) list" where
  "CLUSTER_CENTERS = [(250, 750), (750, 250), (1250, 750)]"

definition GetClusterForUav :: "u32 \<Rightarrow> u32" where
  "GetClusterForUav uav_index = uav_index div 6"

text \<open>The original clusters are the state of a \<open>MobilityManager\<close>.\<close>

definition MobilityManager_new :: "u32 list" where
  "MobilityManager_new = map (\<lambda>i. GetClusterForUav (of_nat i)) [0..<18]"

section \<open>Positions and clusters\<close>

definition GetUavPosition :: "Fleet \<Rightarrow> u32 \<Rightarrow> UavPosition" where
  "GetUavPosition fl uav_index =
     (let p = \<lparr> up_uav_index = uav_index, up_cluster = GetClusterForUav uav_index, up_x = 0, up_y = 0, up_z = 0,
                up_speed = 0, up_time_s = fl_now fl \<rparr>
      in if unat uav_index \<ge> length (fl_uavs fl) then p
         else
           case fl_uavs fl ! unat uav_index of
             None \<Rightarrow> p
           | Some (pos, vel) \<Rightarrow>
               p \<lparr> up_x := vx pos, up_y := vy pos, up_z := vz pos,
                   up_speed := sqrt (vx vel * vx vel + vy vel * vy vel + vz vel * vz vel) \<rparr>)"

definition GetAllPositions :: "Fleet \<Rightarrow> UavPosition list" where
  "GetAllPositions fl = map (\<lambda>i. GetUavPosition fl (of_nat i)) [0..<18]"

definition GetUavDistance :: "Fleet \<Rightarrow> u32 \<Rightarrow> u32 \<Rightarrow> real" where
  "GetUavDistance fl uav_a uav_b =
     (let pa = GetUavPosition fl uav_a; pb = GetUavPosition fl uav_b;
          dx = up_x pa - up_x pb; dy = up_y pa - up_y pb; dz = up_z pa - up_z pb
      in sqrt (dx * dx + dy * dy + dz * dz))"

text \<open>The distance of a point from the center of a cluster, as every function computes it.\<close>

definition center_dist :: "real \<Rightarrow> real \<Rightarrow> u32 \<Rightarrow> real" where
  "center_dist x y c =
     (let (cx, cy) = CLUSTER_CENTERS ! unat c; dx = x - cx; dy = y - cy in sqrt (dx * dx + dy * dy))"

definition GetDistanceToClusterCenter :: "Fleet \<Rightarrow> u32 \<Rightarrow> real" where
  "GetDistanceToClusterCenter fl uav_index =
     (let p = GetUavPosition fl uav_index; c = GetClusterForUav uav_index in center_dist (up_x p) (up_y p) c)"

text \<open>One round of the loop over the clusters.\<close>

definition nearer :: "real \<Rightarrow> real \<Rightarrow> u32 \<Rightarrow> u32 \<times> real \<Rightarrow> u32 \<times> real" where
  "nearer x y c best =
     (let (nearest, min_dist) = best; d = center_dist x y c in if d < min_dist then (c, d) else (nearest, min_dist))"

definition Cm_GetNearestCluster :: "real \<Rightarrow> real \<Rightarrow> u32" where
  "Cm_GetNearestCluster x y = fst (fold (nearer x y) [0, 1, 2] (0, 1000000000))"

definition GetNearestCluster :: "Fleet \<Rightarrow> u32 \<Rightarrow> u32" where
  "GetNearestCluster fl uav_index =
     (let p = GetUavPosition fl uav_index in fst (fold (nearer (up_x p) (up_y p)) [0, 1, 2] (0, 1000000000)))"

definition HasClusterChanged :: "u32 list \<Rightarrow> Fleet \<Rightarrow> u32 \<Rightarrow> bool" where
  "HasClusterChanged original_cluster fl uav_index =
     (let original = original_cluster ! unat uav_index; current = GetNearestCluster fl uav_index
      in current \<noteq> original)"

section \<open>Cluster movement\<close>

definition GetUavPos :: "Fleet \<Rightarrow> u32 \<Rightarrow> Vec" where
  "GetUavPos fl idx =
     (if unat idx \<ge> length (fl_uavs fl) then \<lparr> vx = 0, vy = 0, vz = 0 \<rparr>
      else
        case fl_uavs fl ! unat idx of None \<Rightarrow> \<lparr> vx = 0, vy = 0, vz = 0 \<rparr> | Some (pos, vel) \<Rightarrow> pos)"

definition HasLeftClusterArea :: "Fleet \<Rightarrow> u32 \<Rightarrow> real \<Rightarrow> bool" where
  "HasLeftClusterArea fl uav_index threshold_m =
     (let cluster = uav_index div 6; pos = GetUavPos fl uav_index
      in center_dist (vx pos) (vy pos) cluster > threshold_m)"

definition GetHandoverCandidates :: "Fleet \<Rightarrow> u32 list" where
  "GetHandoverCandidates fl =
     filter (\<lambda>i. HasLeftClusterArea fl i 400 \<and>
        (let pos = GetUavPos fl i; nearest = Cm_GetNearestCluster (vx pos) (vy pos) in nearest \<noteq> i div 6))
       (map of_nat [0..<18])"

definition GetClusterCohesion :: "Fleet \<Rightarrow> u32 \<Rightarrow> real" where
  "GetClusterCohesion fl cluster =
     (if cluster \<ge> 3 then 0
      else
        let base = cluster * 6;
            total_dist = foldl (\<lambda>total u. let pos = GetUavPos fl (base + u)
                                 in total + center_dist (vx pos) (vy pos) cluster) 0 [0, 1, 2, 3, 4, 5];
            avg_dist = total_dist / 6
        in max 0 (1 - avg_dist / 400))"

text \<open>The same three branches for each axis: a coordinate outside is mirrored, its velocity turned inwards.\<close>

definition reflect_axis :: "real \<Rightarrow> real \<Rightarrow> real \<Rightarrow> real \<Rightarrow> real \<times> real" where
  "reflect_axis lo hi p v =
     (if p < lo then (lo + (lo - p), abs v)
      else if p > hi then (hi - (p - hi), - abs v)
      else (p, v))"

definition ApplyReflection :: "Vec \<Rightarrow> Vec \<Rightarrow> Vec \<times> Vec" where
  "ApplyReflection pos vel =
     (let new_pos = pos;
          (x, v) = reflect_axis 0 1500 (vx new_pos) (vx vel);
          new_pos = new_pos \<lparr> vx := x \<rparr>; vel = vel \<lparr> vx := v \<rparr>;
          (y, v) = reflect_axis 0 1500 (vy new_pos) (vy vel);
          new_pos = new_pos \<lparr> vy := y \<rparr>; vel = vel \<lparr> vy := v \<rparr>;
          (z, v) = reflect_axis 50 150 (vz new_pos) (vz vel);
          new_pos = new_pos \<lparr> vz := z \<rparr>; vel = vel \<lparr> vz := v \<rparr>
      in (new_pos, vel))"

definition IsInBounds :: "Vec \<Rightarrow> bool" where
  "IsInBounds pos \<longleftrightarrow> vx pos \<ge> 0 \<and> vx pos \<le> 1500 \<and> vy pos \<ge> 0 \<and> vy pos \<le> 1500 \<and> vz pos \<ge> 50 \<and> vz pos \<le> 150"

definition ClampToBounds :: "Vec \<Rightarrow> Vec" where
  "ClampToBounds pos =
     \<lparr> vx = max 0 (min (vx pos) 1500), vy = max 0 (min (vy pos) 1500), vz = max 50 (min (vz pos) 150) \<rparr>"

definition CountBoundaryViolations :: "Fleet \<Rightarrow> u32" where
  "CountBoundaryViolations fl =
     foldl (\<lambda>count i. if \<not> IsInBounds (GetUavPos fl (of_nat i)) then count + 1 else count) 0 [0..<18]"

section \<open>The jammer\<close>

definition GetJammerVec :: "Fleet \<Rightarrow> Vec" where
  "GetJammerVec fl =
     (case fl_jammer fl of
        [] \<Rightarrow> \<lparr> vx = 0, vy = 0, vz = 0 \<rparr>
      | None # rest \<Rightarrow> \<lparr> vx = 750, vy = 750, vz = 50 \<rparr>
      | Some pos # rest \<Rightarrow> pos)"

definition GetUavVec :: "Fleet \<Rightarrow> u32 \<Rightarrow> Vec" where
  "GetUavVec fl idx =
     (if unat idx \<ge> length (fl_uavs fl) then \<lparr> vx = 0, vy = 0, vz = 0 \<rparr>
      else
        case fl_uavs fl ! unat idx of None \<Rightarrow> \<lparr> vx = 0, vy = 0, vz = 0 \<rparr> | Some (pos, vel) \<Rightarrow> pos)"

definition Jm_GetPosition :: "Fleet \<Rightarrow> JammerPosition" where
  "Jm_GetPosition fl =
     (let v = GetJammerVec fl
      in \<lparr> jp_x = vx v, jp_y = vy v, jp_z = vz v, jp_time_s = fl_now fl, jp_speed = 10 \<rparr>)"

definition GetDistanceToUav :: "Fleet \<Rightarrow> u32 \<Rightarrow> real" where
  "GetDistanceToUav fl uav_index =
     (let jv = GetJammerVec fl; uv = GetUavVec fl uav_index;
          dx = vx jv - vx uv; dy = vy jv - vy uv; dz = vz jv - vz uv
      in sqrt (dx * dx + dy * dy + dz * dz))"

definition FriisLossDb :: "real \<Rightarrow> real" where
  "FriisLossDb dist_m =
     (let dist_m = (if dist_m < 1 then 1 else dist_m); freq_hz = 5180000000; c = 300000000
      in 20 * log 10 (4 * pi * dist_m * freq_hz / c))"

definition GetJammerInterference :: "Fleet \<Rightarrow> u32 \<Rightarrow> real" where
  "GetJammerInterference fl uav_index =
     (let dist = GetDistanceToUav fl uav_index; loss = FriisLossDb dist in 30 - loss)"

definition IsUavJammed :: "Fleet \<Rightarrow> u32 \<Rightarrow> real \<Rightarrow> bool" where
  "IsUavJammed fl uav_index jamming_range_m \<longleftrightarrow> GetDistanceToUav fl uav_index \<le> jamming_range_m"

definition GetAffectedUavs :: "Fleet \<Rightarrow> real \<Rightarrow> u32 list" where
  "GetAffectedUavs fl jamming_range_m =
     filter (\<lambda>i. IsUavJammed fl i jamming_range_m) (map of_nat [0..<length (fl_uavs fl)])"

section \<open>Lemmas\<close>

text \<open>The nearest cluster is the first one at minimal distance.\<close>

lemma nearest_cluster:
  assumes "center_dist x y 0 < 1000000000"
  defines "c \<equiv> fst (fold (nearer x y) [0, 1, 2] (0, 1000000000))"
  shows "unat c < 3" "unat d < 3 \<Longrightarrow> center_dist x y c \<le> center_dist x y d"
    "unat d < 3 \<Longrightarrow> center_dist x y d = center_dist x y c \<Longrightarrow> c \<le> d"
proof -
  have d: "unat d < 3 \<longleftrightarrow> d = 0 \<or> d = 1 \<or> d = 2"
    using word_unat_eq_iff[of d] by (auto simp: less_Suc_eq numeral_3_eq_3)
  show "unat c < 3" by (simp add: c_def nearer_def Let_def)
  show "unat d < 3 \<Longrightarrow> center_dist x y c \<le> center_dist x y d"
    "unat d < 3 \<Longrightarrow> center_dist x y d = center_dist x y c \<Longrightarrow> c \<le> d"
    using assms(1) unfolding d by (auto simp: c_def nearer_def Let_def split: if_splits)
qed

lemma nearest_in_range: "unat (GetNearestCluster fl i) < 3"
  by (simp add: GetNearestCluster_def nearer_def Let_def)

lemma candidates_moved:
  "i \<in> set (GetHandoverCandidates fl) \<Longrightarrow> Cm_GetNearestCluster (vx (GetUavPos fl i)) (vy (GetUavPos fl i)) \<noteq> i div 6"
  by (auto simp: GetHandoverCandidates_def Let_def)

text \<open>One reflection brings a coordinate back that is outside by at most the width.\<close>

lemma reflect_axis_bounds:
  assumes "lo \<le> hi" "reflect_axis lo hi p v = (p', v')"
  shows "lo \<le> p' \<and> p' \<le> hi \<longleftrightarrow> lo - (hi - lo) \<le> p \<and> p \<le> hi + (hi - lo)"
    "p < lo \<Longrightarrow> 0 \<le> v'" "hi < p \<Longrightarrow> v' \<le> 0" "lo \<le> p \<Longrightarrow> p \<le> hi \<Longrightarrow> p' = p \<and> v' = v" "abs v' = abs v"
  using assms by (auto simp: reflect_axis_def split: if_splits)

lemma ApplyReflection_bounds:
  assumes "ApplyReflection pos vel = (pos', vel')"
  shows "IsInBounds pos' \<longleftrightarrow> - 1500 \<le> vx pos \<and> vx pos \<le> 3000 \<and> - 1500 \<le> vy pos \<and> vy pos \<le> 3000 \<and> - 50 \<le> vz pos \<and> vz pos \<le> 250"
    "IsInBounds pos \<Longrightarrow> pos' = pos \<and> vel' = vel"
proof -
  obtain x vx' y vy' z vz' where r: "reflect_axis 0 1500 (vx pos) (vx vel) = (x, vx')"
    "reflect_axis 0 1500 (vy pos) (vy vel) = (y, vy')" "reflect_axis 50 150 (vz pos) (vz vel) = (z, vz')"
    by (meson surj_pair)
  have "pos' = pos \<lparr> vx := x, vy := y, vz := z \<rparr>" "vel' = vel \<lparr> vx := vx', vy := vy', vz := vz' \<rparr>"
    using assms r by (simp_all add: ApplyReflection_def Let_def)
  then show "IsInBounds pos' \<longleftrightarrow> - 1500 \<le> vx pos \<and> vx pos \<le> 3000 \<and> - 1500 \<le> vy pos \<and> vy pos \<le> 3000 \<and> - 50 \<le> vz pos \<and> vz pos \<le> 250"
    "IsInBounds pos \<Longrightarrow> pos' = pos \<and> vel' = vel"
    using reflect_axis_bounds(1,4)[OF _ r(1)] reflect_axis_bounds(1,4)[OF _ r(2)] reflect_axis_bounds(1,4)[OF _ r(3)]
    by (auto simp: IsInBounds_def)
qed

lemma ClampToBounds_bounds: "IsInBounds (ClampToBounds pos)" "IsInBounds pos \<Longrightarrow> ClampToBounds pos = pos"
  by (auto simp: IsInBounds_def ClampToBounds_def)

end
