(* ===== verification/Auto_Handover.thy ===== *)
theory Auto_Handover
  imports Main_Scenario Mobility
begin

text \<open>
  The automatic handovers of main.cc: every five seconds \<open>AutoHandoverCheck\<close> compares the
  nearest cluster of each UAV with the cluster it is tracked in and calls the handover manager.
  The rescheduling of the check is the repetition \<open>auto_checks\<close>.
\<close>

section \<open>The check\<close>

fun auto_check_from :: "ext \<Rightarrow> Fleet \<Rightarrow> u32 list \<Rightarrow> u32 list \<Rightarrow> Net \<Rightarrow> (u32 list \<times> Net) comp" where
  "auto_check_from E fl [] current N = cret (current, N)"
| "auto_check_from E fl (i # rest) current N =
     (let current_cluster = current ! unat i;
          nearest_cluster = GetNearestCluster fl i
      in if nearest_cluster \<noteq> current_cluster then
           cbind (ProcessHandover E i (i mod 6) current_cluster nearest_cluster all_skdcs N) (\<lambda>(N, ok).
           let current = (if ok then current[unat i := nearest_cluster] else current)
           in auto_check_from E fl rest current N)
         else auto_check_from E fl rest current N)"

definition AutoHandoverCheck :: "ext \<Rightarrow> Fleet \<Rightarrow> u32 list \<Rightarrow> Net \<Rightarrow> (u32 list \<times> Net) comp" where
  "AutoHandoverCheck E fl current N = auto_check_from E fl (map of_nat [0..<18]) current N"

definition g_uav_current_cluster :: "u32 list" where
  "g_uav_current_cluster = [0, 0, 0, 0, 0, 0, 1, 1, 1, 1, 1, 1, 2, 2, 2, 2, 2, 2]"

primrec auto_checks :: "ext \<Rightarrow> Fleet \<Rightarrow> nat \<Rightarrow> u32 list \<Rightarrow> Net \<Rightarrow> (u32 list \<times> Net) comp" where
  "auto_checks E fl 0 current N = cret (current, N)"
| "auto_checks E fl (Suc n) current N =
     cbind (auto_checks E fl n current N) (\<lambda>(current, N). AutoHandoverCheck E fl current N)"

section \<open>A handover whose leave is refused\<close>

lemma ProcessHandover_no_leave:
  assumes "net_ok E N" "unat c < 3" "unat d < 3" "c \<noteq> d" "j \<notin> set (mg_members (mc_groups (nt_mc N) ! unat c))"
    and "AddMember E (nt_mc N) d (GetGroupSize (nt_mc N) d mod 6) u (env_now N) = Some (Inr (mc2, added))"
  obtains N' where "ProcessHandover E u j c d all_skdcs N = Some (Inr (N', False))" "net_ok E N'" "nt_mc N' = mc2"
    "env_now N' = env_now N" "hm_failed_handovers (nt_ho N') = hm_failed_handovers (nt_ho N) + 1"
    "hr_join_ok (last (hm_history (nt_ho N')))"
proof -
  have app: "all_skdcs ! unat e = skdc_of e" if "unat e < 3" for e :: u32
    using that by (auto simp: all_skdcs_def skdc_of_def less_3_word nth_Cons split: nat.split)
  define N0 where "N0 = N \<lparr> nt_ho := (nt_ho N) \<lparr> hm_total_handovers := hm_total_handovers (nt_ho N) + 1 \<rparr>,
     nt_leave := (nt_leave N) \<lparr> le_total_leaves := le_total_leaves (nt_leave N) + 1 \<rparr> \<rparr>"
  define N1 where "N1 = N0 \<lparr> nt_mc := nt_mc N, nt_leave := (nt_leave N0)
    \<lparr> le_history := le_history (nt_leave N0) @ [refused_record u j c (env_now N0)] \<rparr> \<rparr>"
  have "RemoveMember E (nt_mc N0) c j u (env_now N0) = Some (Inr (nt_mc N, False))"
    using RemoveMember_refused[of c j "nt_mc N"] assms(5) by (simp add: N0_def)
  from DoLeave_refused[OF this]
  have 1: "DoLeave E u j c (skdc_of c) False N0 = Some (Inr (N1, False))" by (simp add: N1_def)
  have fields: "net_ok E N1" "nt_mc N1 = nt_mc N" "env_now N1 = env_now N"
    "hm_failed_handovers (nt_ho N1) = hm_failed_handovers (nt_ho N)"
    using assms(1) by (simp_all add: N1_def N0_def)
  have add: "AddMember E (nt_mc N1) d (GetGroupSize (nt_mc N) d mod 6) u (env_now N1) = Some (Inr (mc2, added))"
    using assms(6) fields by simp
  obtain N2 where 2: "Je_ProcessJoin E u (GetGroupSize (nt_mc N) d mod 6) d (skdc_of d) N1 = Some (Inr (N2, True))" "net_ok E N2"
    "nt_mc N2 = mc2" "nt_ho N2 = nt_ho N1" "env_now N2 = env_now N1"
    using assms(3) by - (rule Je_ProcessJoin_effect[OF fields(1) _ assms(3) add, of "skdc_of d"], simp_all add: skdc_of_def)
  define r where "r = \<lparr> hr_uav_id = u, hr_old_cluster = c, hr_new_cluster = d, hr_old_uav_index = j,
     hr_new_uav_index = GetGroupSize (nt_mc N) d mod 6, hr_time_s = env_now N, hr_leave_ok = False, hr_join_ok = True,
     hr_old_rekey_done = False, hr_new_rekey_done = True, hr_latency_ms = 0 \<rparr>"
  define hm where "hm = (nt_ho N2) \<lparr> hm_history := hm_history (nt_ho N2) @ [r], hm_failed_handovers := hm_failed_handovers (nt_ho N2) + 1 \<rparr>"
  have "ProcessHandover E u j c d all_skdcs N = Some (Inr (N2 \<lparr> nt_ho := hm \<rparr>, False))"
    using assms(2-4) 1 2(1,5) fields app
    by (simp add: ProcessHandover_def Le_ProcessLeave_def cluster_ge_3 Let_def cret_def hm_def r_def N0_def)
  then show thesis
    using 2 fields by (intro that[of "N2 \<lparr> nt_ho := hm \<rparr>"]) (simp_all add: hm_def r_def)
qed

section \<open>Copies in a group\<close>

text \<open>A cluster to which the indices below \<open>n\<close> have been added after \<open>Initialize\<close>.\<close>

definition below :: "nat \<Rightarrow> u32 set" where
  "below n = of_nat ` {..<n}"

definition flooded :: "CryptoParamsFile \<Rightarrow> u32 \<Rightarrow> nat \<Rightarrow> MulticastManager \<Rightarrow> bool" where
  "flooded params d n mc \<longleftrightarrow> mc_shape mc \<and> mc_params mc = Some params \<and>
     mc_mkg mc ! unat d = cs_mkg (load_cluster (cp_clusters params ! unat d)) \<and>
     length (mg_members (mc_groups mc ! unat d)) = 6 + n \<and>
     set (mg_members (mc_groups mc ! unat d)) = {d * 6, d * 6 + 1, d * 6 + 2, d * 6 + 3, d * 6 + 4, d * 6 + 5} \<union> below n \<and>
     copies (mc_mkg mc ! unat d) (mg_e_mk (mc_groups mc ! unat d))
       (\<lambda>i. (if i \<in> set (cc_user_indices (cp_clusters params ! unat d)) then 1 else 0) + (if i \<in> below n then 1 else 0))"

lemma less_6_cases: "n < 6 \<Longrightarrow> n = 0 \<or> n = 1 \<or> n = 2 \<or> n = 3 \<or> n = 4 \<or> n = (5 :: nat)"
  by auto

lemma below_Suc: "below (Suc n) = insert (of_nat n) (below n)"
  by (auto simp: below_def lessThan_Suc)

lemma below_not: "n < 6 \<Longrightarrow> of_nat n \<notin> below n"
  by (auto simp: below_def word_unat_eq_iff unat_of_nat)

lemma flooded_0:
  assumes "initialized params mc d"
  shows "flooded params d 0 mc"
proof -
  note init = assms
  have "token_ok (cs_mkg (load_cluster (cp_clusters params ! unat d))) (cs_mtoken (load_cluster (cp_clusters params ! unat d)))"
    by (rule initialized_keys(2)[OF init])
  then have "copies (cs_mkg (load_cluster (cp_clusters params ! unat d))) (cc_e_MK (cp_clusters params ! unat d))
      (\<lambda>i. if i \<in> set (cc_user_indices (cp_clusters params ! unat d)) then 1 else 0)"
    by (intro copies_sum[OF initialized_keys(1)[OF init]]) (simp add: token_ok_def load_cluster_def)
  moreover have "length (mg_members (mc_groups mc ! unat d)) = 6"
    using initialized_group(1)[OF init] init by (auto simp: initialized_def less_3_word init_index_sets simp del: init_members)
  ultimately show ?thesis
    using initialized_group[OF init] initialized_members(1)[OF init] by (simp add: flooded_def below_def)
qed

lemma flooded_misfit:
  assumes "local_indices params" "unat d < 3" "flooded params d n mc" "s \<in> set (cc_slave_keys (cp_clusters params ! unat d))"
    and "sk_uav_index s \<in> below n"
  shows "\<not> fits_group mc d s"
proof -
  have cp: "cp_clusters params ! unat d \<in> set (cp_clusters params)" using assms(1,2) by (simp add: local_indices_def)
  then have ok: "mkg_ok (mc_mkg mc ! unat d)" "s \<in> set (mk_slaves (mc_mkg mc ! unat d))"
    and users: "sk_uav_index s \<in> set (cc_user_indices (cp_clusters params ! unat d))"
    using assms(1,3,4) by (simp_all add: local_indices_def flooded_def load_cluster_def)
  have "copies (mc_mkg mc ! unat d) (mg_e_mk (mc_groups mc ! unat d))
      (\<lambda>i. (if i \<in> set (cc_user_indices (cp_clusters params ! unat d)) then 1 else 0) + (if i \<in> below n then 1 else 0))"
    using assms(3) unfolding flooded_def by blast
  from copies_misfit[OF ok(1) this ok(2)] users assms(5) show ?thesis by (simp add: fits_group_def)
qed

lemma flooded_step:
  assumes "powm_law E" "local_indices params" "d = 1 \<or> d = 2" "flooded params d n mc" "n < 6"
    and "s \<in> set (cc_slave_keys (cp_clusters params ! unat d))" "sk_uav_index s = of_nat n"
  obtains mc' where "AddMember E mc d (GetGroupSize mc d mod 6) u now = Some (Inr (mc', True))" "mc_change d mc mc'"
    "flooded params d (Suc n) mc'"
proof -
  have d: "unat d < 3" using assms(3) by auto
  have cp: "cp_clusters params ! unat d \<in> set (cp_clusters params)" "unat d < length (cp_clusters params)"
    using assms(2) d by (simp_all add: local_indices_def)
  then have mkg: "mkg_ok (mc_mkg mc ! unat d)" and T: "0 \<le> cc_tek_int (cp_clusters params ! unat d)"
    using assms(2,4) by (simp_all add: local_indices_def flooded_def token_ok_def load_cluster_def)
  have idx: "GetGroupSize mc d mod 6 = of_nat n"
    using assms(4) d less_6_cases[OF assms(5)] by (auto simp: GetGroupSize_def cluster_ge_3 Mg_Size_def flooded_def)
  have s: "find_slave (mc_mkg mc ! unat d) (of_nat n) = Some s"
    using find_slave_in[OF mkg, of s] assms(4,6,7) by (simp add: flooded_def load_cluster_def)
  have fresh: "of_nat n \<notin> set (mg_members (mc_groups mc ! unat d))"
    using assms(3,4) less_6_cases[OF assms(5)] below_not[OF assms(5)] by (auto simp: flooded_def)
  note fl = assms(4)[unfolded flooded_def]
  obtain mc' where mc': "AddMember E mc d (of_nat n) u now = Some (Inr (mc', True))" "mc_change d mc mc'"
    "mg_members (mc_groups mc' ! unat d) = mg_members (mc_groups mc ! unat d) @ [of_nat n]"
    "copies (mc_mkg mc' ! unat d) (mg_e_mk (mc_groups mc' ! unat d))
       ((\<lambda>i. (if i \<in> set (cc_user_indices (cp_clusters params ! unat d)) then 1 else 0) + (if i \<in> below n then 1 else 0))
         (of_nat n := (if of_nat n \<in> set (cc_user_indices (cp_clusters params ! unat d)) then 1 else 0) +
            (if of_nat n \<in> below n then 1 else 0) + 1))"
    by (rule AddMember_copies[OF assms(1) _ d _ cp(2) T mkg s fresh]) (use fl in blast)+
  have "(\<lambda>i. (if i \<in> set (cc_user_indices (cp_clusters params ! unat d)) then 1 else 0) + (if i \<in> below n then 1 else 0))
         (of_nat n := (if of_nat n \<in> set (cc_user_indices (cp_clusters params ! unat d)) then 1 else 0) +
            (if of_nat n \<in> below n then 1 else 0) + 1) =
      (\<lambda>i. (if i \<in> set (cc_user_indices (cp_clusters params ! unat d)) then 1 else 0) + (if i \<in> below (Suc n) then 1 else (0 :: int)))"
    using below_not[OF assms(5)] by (auto simp: below_Suc)
  then have "flooded params d (Suc n) mc'"
    using fl mc'(2-4) mc_change_shape[OF mc'(2)] by (auto simp: flooded_def mc_change_def below_Suc)
  then show thesis using mc'(1,2) idx by (intro that) simp_all
qed

section \<open>Repeated checks\<close>

lemma auto_check_idle:
  "(\<forall>i\<in>set is. GetNearestCluster fl i = current ! unat i) \<Longrightarrow> auto_check_from E fl is current N = cret (current, N)"
  by (induction "is") simp_all

lemma auto_check_append:
  "auto_check_from E fl (is @ js) current N =
   cbind (auto_check_from E fl is current N) (\<lambda>(current, N). auto_check_from E fl js current N)"
proof (induction "is" arbitrary: current N)
  case (Cons i "is")
  show ?case
    by (cases "ProcessHandover E i (i mod 6) (current ! unat i) (GetNearestCluster fl i) all_skdcs N")
      (auto simp: Let_def Cons cbind_def split: sum.splits)
qed (simp add: cret_def)

text \<open>A check in which one UAV is nearer to another cluster and its handover fails.\<close>

lemma AutoHandoverCheck_single:
  assumes "unat u < 18" "\<forall>i. unat i < 18 \<and> i \<noteq> u \<longrightarrow> GetNearestCluster fl i = current ! unat i"
    and "current ! unat u = c" "GetNearestCluster fl u = d" "c \<noteq> d"
    and "ProcessHandover E u (u mod 6) c d all_skdcs N = Some (Inr (N', False))"
  shows "AutoHandoverCheck E fl current N = Some (Inr (current, N'))"
proof -
  let ?pre = "map of_nat [0..<unat u] :: u32 list" and ?post = "map of_nat [Suc (unat u)..<18] :: u32 list"
  have "[0..<18] = [0..<unat u] @ unat u # [Suc (unat u)..<18]"
    using assms(1) upt_add_eq_append[of 0 "unat u" "18 - unat u"] upt_conv_Cons[OF assms(1)] by simp
  then have split: "map of_nat [0..<18] = ?pre @ u # ?post" by simp
  have idle: "GetNearestCluster fl i = current ! unat i" if i: "i \<in> set ?pre \<union> set ?post" for i
  proof -
    obtain k where k: "i = of_nat k" "k < 18" "k \<noteq> unat u" using i assms(1) by fastforce
    then have "unat i = k" by (simp add: unat_of_nat)
    moreover from this k(3) have "i \<noteq> u" by blast
    ultimately show ?thesis using k(2) assms(2)[rule_format, of i] by simp
  qed
  have "auto_check_from E fl ?pre current M = cret (current, M)" "auto_check_from E fl ?post current M = cret (current, M)" for M
    using idle by (auto intro!: auto_check_idle)
  then show ?thesis
    unfolding AutoHandoverCheck_def split auto_check_append using assms(3-6) by (simp add: cret_def Let_def)
qed

lemma auto_checks_flood:
  assumes "net_ok E N" "local_indices params" "nt_mc N = Mc_Initialize (MulticastManager_new (Some params))"
    and "c \<in> {1, 2}" "d \<in> {1, 2}" "c \<noteq> d"
    and "unat u < 18" "\<forall>i. unat i < 18 \<and> i \<noteq> u \<longrightarrow> GetNearestCluster fl i = current ! unat i"
      "current ! unat u = c" "GetNearestCluster fl u = d"
    and "\<forall>k<n. \<exists>s\<in>set (cc_slave_keys (cp_clusters params ! unat d)). sk_uav_index s = of_nat k" "n \<le> 6"
  shows "\<exists>N'. auto_checks E fl n current N = Some (Inr (current, N')) \<and> net_ok E N' \<and> flooded params d n (nt_mc N') \<and>
    mc_groups (nt_mc N') ! unat c = mc_groups (nt_mc N) ! unat c \<and>
    hm_failed_handovers (nt_ho N') = hm_failed_handovers (nt_ho N) + of_nat n"
  using assms(11,12)
proof (induction n)
  case 0
  have "initialized params (nt_mc N) d" using assms(2,3,5) by (auto simp: initialized_def)
  from flooded_0[OF this] assms(1) show ?case by (simp add: cret_def)
next
  case (Suc n)
  have cd: "unat c < 3" "unat d < 3" "c \<noteq> 0" using assms(4,5) by auto
  obtain N1 where N1: "auto_checks E fl n current N = Some (Inr (current, N1))" "net_ok E N1" "flooded params d n (nt_mc N1)"
    "mc_groups (nt_mc N1) ! unat c = mc_groups (nt_mc N) ! unat c"
    "hm_failed_handovers (nt_ho N1) = hm_failed_handovers (nt_ho N) + of_nat n"
    using Suc by fastforce
  obtain s where s: "s \<in> set (cc_slave_keys (cp_clusters params ! unat d))" "sk_uav_index s = of_nat n" using Suc(2) by blast
  obtain mc2 where mc2: "AddMember E (nt_mc N1) d (GetGroupSize (nt_mc N1) d mod 6) u (env_now N1) = Some (Inr (mc2, True))"
    "mc_change d (nt_mc N1) mc2" "flooded params d (Suc n) mc2"
    by (rule flooded_step[OF _ assms(2) _ N1(3) _ s, of E u "env_now N1"]) (use N1(2) assms(5) Suc(3) in \<open>auto simp: net_ok_def\<close>)
  have "initialized params (nt_mc N) c" using assms(2,3) cd by (simp add: initialized_def)
  moreover have "u mod 6 < 6" by (simp add: word_mod_less_divisor)
  ultimately have fresh: "u mod 6 \<notin> set (mg_members (mc_groups (nt_mc N1) ! unat c))"
    using initialized_not_member[of params "nt_mc N" c "u mod 6"] cd(3) N1(4) by simp
  obtain N2 where N2: "ProcessHandover E u (u mod 6) c d all_skdcs N1 = Some (Inr (N2, False))" "net_ok E N2" "nt_mc N2 = mc2"
    "hm_failed_handovers (nt_ho N2) = hm_failed_handovers (nt_ho N1) + 1"
    by (rule ProcessHandover_no_leave[OF N1(2) cd(1,2) assms(6) fresh mc2(1)])
  have "AutoHandoverCheck E fl current N1 = Some (Inr (current, N2))"
    by (rule AutoHandoverCheck_single[OF assms(7-10,6) N2(1)])
  then show ?case
    using N1(1,4,5) N2(2-4) mc2(2,3) mc_change_other[OF mc2(2), of c] assms(6) by (simp add: algebra_simps)
qed

text \<open>
  C32.  One UAV of cluster 1 or 2 that flies nearer to the other of the two, and stays there.  The check
  leaves its cluster by the index modulo 6, which is no member (theorem
  \<open>multicast_init_mismatch\<close>), so the leave is refused; the handover manager joins it to the new cluster all the
  same and then reports failure, so the next check tries again.  Each check
  adds the next slave of the new cluster to the token a second time: after \<open>n\<close> checks its first
  \<open>n\<close> slaves are locked out (all of them after 30 seconds), while the tracking and the old
  cluster are unchanged.
\<close>
theorem auto_handover_cascade:
  assumes "net_ok E N" "local_indices params" "nt_mc N = Mc_Initialize (MulticastManager_new (Some params))"
    and "c \<in> {1, 2}" "d \<in> {1, 2}" "c \<noteq> d"
    and "unat u < 18" "\<forall>i. unat i < 18 \<and> i \<noteq> u \<longrightarrow> GetNearestCluster fl i = current ! unat i"
      "current ! unat u = c" "GetNearestCluster fl u = d"
    and "\<forall>k<n. \<exists>s\<in>set (cc_slave_keys (cp_clusters params ! unat d)). sk_uav_index s = of_nat k" "n \<le> 6"
  shows "\<exists>N'. auto_checks E fl n current N = Some (Inr (current, N')) \<and>
    hm_failed_handovers (nt_ho N') = hm_failed_handovers (nt_ho N) + of_nat n \<and>
    GetMembers (nt_mc N') c = GetMembers (nt_mc N) c \<and>
    (\<forall>s\<in>set (cc_slave_keys (cp_clusters params ! unat d)).
       fits_group (nt_mc N) d s \<and> (unat (sk_uav_index s) < n \<longrightarrow> \<not> fits_group (nt_mc N') d s))"
proof -
  obtain N' where N': "auto_checks E fl n current N = Some (Inr (current, N'))" "flooded params d n (nt_mc N')"
    "mc_groups (nt_mc N') ! unat c = mc_groups (nt_mc N) ! unat c"
    "hm_failed_handovers (nt_ho N') = hm_failed_handovers (nt_ho N) + of_nat n"
    using auto_checks_flood[OF assms] by blast
  have d: "unat d < 3" and init: "initialized params (nt_mc N) d" using assms(2,3,5) by (auto simp: initialized_def)
  have "\<not> fits_group (nt_mc N') d s"
    if "s \<in> set (cc_slave_keys (cp_clusters params ! unat d))" "unat (sk_uav_index s) < n" for s
    using that by (intro flooded_misfit[OF assms(2) d N'(2)]) (force simp: below_def)+
  with N' initialized_fits[OF init] show ?thesis by (auto simp: GetMembers_def)
qed

text \<open>Every UAV at the center of its cluster, but UAV 7 of cluster 1 at that of cluster 2.\<close>

definition demo_fleet7 :: Fleet where
  "demo_fleet7 = \<lparr> fl_uavs = map (\<lambda>k. let (x, y) = CLUSTER_CENTERS ! (if k = 7 then 2 else k div 6)
       in Some (\<lparr> vx = x, vy = y, vz = 100 \<rparr>, \<lparr> vx = 0, vy = 0, vz = 0 \<rparr>)) [0..<18], fl_jammer = [], fl_now = 0 \<rparr>"

lemma nearest_at_center:
  "k < 3 \<Longrightarrow> CLUSTER_CENTERS ! k = (x, y) \<Longrightarrow> fst (fold (nearer x y) [0, 1, 2] (0, 1000000000)) = of_nat k"
proof -
  assume k: "k < 3" and c: "CLUSTER_CENTERS ! k = (x, y)"
  have pos: "0 < sqrt (500000 :: real)" "0 < sqrt (1000000 :: real)" by simp_all
  have small: "sqrt (500000 :: real) < 1000000000" "sqrt (1000000 :: real) < 1000000000"
    by (simp_all add: real_less_lsqrt)
  from k have "k = 0 \<or> k = 1 \<or> k = 2" by auto
  with c pos small show ?thesis
    by (auto simp: CLUSTER_CENTERS_def nearer_def center_dist_def Let_def)
qed

lemma demo_fleet7_nearest:
  assumes "unat i < 18"
  shows "GetNearestCluster demo_fleet7 i = (if i = 7 then 2 else of_nat (unat i div 6))"
proof -
  define k where "k = (if i = 7 then 2 else unat i div 6)"
  obtain x y where xy: "CLUSTER_CENTERS ! k = (x, y)" by (cases "CLUSTER_CENTERS ! k")
  have seven: "unat i = 7 \<longleftrightarrow> i = 7" by (simp add: word_unat_eq_iff)
  then have "(if unat i = 7 then 2 else unat i div 6) = k" by (simp add: k_def)
  then have "fl_uavs demo_fleet7 ! unat i = Some (\<lparr> vx = x, vy = y, vz = 100 \<rparr>, \<lparr> vx = 0, vy = 0, vz = 0 \<rparr>)"
    using assms xy by (auto simp: demo_fleet7_def Let_def split: if_splits)
  moreover have "length (fl_uavs demo_fleet7) = 18" by (simp add: demo_fleet7_def)
  ultimately have "up_x (GetUavPosition demo_fleet7 i) = x" "up_y (GetUavPosition demo_fleet7 i) = y"
    using assms by (simp_all add: GetUavPosition_def Let_def)
  moreover have "k < 3" using assms by (simp add: k_def div_less_iff_less_mult)
  ultimately show ?thesis using nearest_at_center[OF _ xy] by (simp add: GetNearestCluster_def Let_def k_def)
qed

lemma auto_handover_cascade_witness:
  "\<exists>tok N'. auto_checks toy_ext demo_fleet7 2 g_uav_current_cluster
      (demo_net (Mc_Initialize (MulticastManager_new (Some (demo_params3 tok))))) = Some (Inr (g_uav_current_cluster, N')) \<and>
    \<not> fits_group (nt_mc N') 2 demo_slave0 \<and> \<not> fits_group (nt_mc N') 2 demo_slave1"
proof -
  obtain tok where tok: "token_ok demo_mkg tok" "mt_user_indices tok = [0, 1]" using demo_token2 by blast
  have slaves: "set (cc_slave_keys (cp_clusters (demo_params3 tok) ! unat (2 :: u32))) = {demo_slave0, demo_slave1}"
    by (simp add: demo_params3_def demo_mkg_def)
  have idx: "sk_uav_index demo_slave0 = 0" "sk_uav_index demo_slave1 = 1" by (simp_all add: demo_slave0_def demo_slave1_def)
  have others: "\<forall>i. unat i < 18 \<and> i \<noteq> 7 \<longrightarrow> GetNearestCluster demo_fleet7 i = g_uav_current_cluster ! unat i"
  proof (intro allI impI)
    fix i :: u32 assume i: "unat i < 18 \<and> i \<noteq> 7"
    have "\<forall>k\<in>{..<18}. g_uav_current_cluster ! k = of_nat (k div 6)"
      by (simp add: g_uav_current_cluster_def lessThan_nat_numeral lessThan_Suc)
    then show "GetNearestCluster demo_fleet7 i = g_uav_current_cluster ! unat i"
      using i demo_fleet7_nearest[of i] by simp
  qed
  have all: "\<forall>k<2. \<exists>s\<in>set (cc_slave_keys (cp_clusters (demo_params3 tok) ! unat (2 :: u32))). sk_uav_index s = of_nat k"
    unfolding slaves using idx by (auto simp: less_Suc_eq numeral_2_eq_2)
  have "\<exists>N'. auto_checks toy_ext demo_fleet7 2 g_uav_current_cluster
        (demo_net (Mc_Initialize (MulticastManager_new (Some (demo_params3 tok))))) = Some (Inr (g_uav_current_cluster, N')) \<and>
      (\<forall>s\<in>set (cc_slave_keys (cp_clusters (demo_params3 tok) ! unat (2 :: u32))).
         unat (sk_uav_index s) < 2 \<longrightarrow> \<not> fits_group (nt_mc N') 2 s)"
    using auto_handover_cascade[OF demo_net_ok demo_params3_ok[OF tok] demo_net_simps(1) _ _ _ _ others _ _ all, of 1]
      demo_fleet7_nearest[of 7] by (auto simp: g_uav_current_cluster_def)
  then show ?thesis using idx unfolding slaves by (intro exI[of _ tok]) auto
qed

end
