(* ===== verification/Jammer.thy ===== *)
theory Jammer
  imports Main_Scenario Mobility
begin

text \<open>
  apps/uav-jammer-manager.cc, uav-jammer-attack-handler.cc and uav-jammer-error-model.h: the SINR that the jammer
  leaves to a UAV, the drop of packets, and the handler that revokes and rekeys
  under attack.  \<open>ComputeSinr\<close> and \<open>ShouldDrop\<close> return a constant in front of the
  code that computes something; that dead code is not modelled.  The draws of the
  constructor (\<open>std::mt19937\<close>) are a parameter.
\<close>

section \<open>The jammer manager\<close>

record JammerEvent =
  jv_time_s :: real
  jv_affected_uavs :: u32
  jv_jammer_x :: real
  jv_jammer_y :: real
  jv_min_sinr_db :: real
  jv_threshold_hit :: bool

record JammerManager =
  jm_compromised :: "u32 list"
  jm_jammer_events :: u64
  jm_packet_drops :: u64
  jm_alert_cb :: "JammerEvent list option"
  jm_scan_timers :: "real list"

definition SINR_THRESHOLD_DB :: real where "SINR_THRESHOLD_DB = 8"

definition COMPROMISE_PROB :: real where "COMPROMISE_PROB = 0.05"

definition JammerManager_new :: "(nat \<Rightarrow> real) \<Rightarrow> Fleet \<Rightarrow> JammerManager" where
  "JammerManager_new draws fl =
     \<lparr> jm_compromised = map of_nat (filter (\<lambda>i. draws i < COMPROMISE_PROB) [0..<length (fl_uavs fl)]),
       jm_jammer_events = 0, jm_packet_drops = 0, jm_alert_cb = None, jm_scan_timers = [] \<rparr>"

definition FriisPathLoss :: "real \<Rightarrow> real" where
  "FriisPathLoss dist_m =
     (let dist_m = (if dist_m < 1 then 1 else dist_m); freq_hz = 5180000000; c = 300000000
      in 20 * log 10 (4 * pi * dist_m * freq_hz / c))"

definition ComputeSinr :: "JammerManager \<Rightarrow> Fleet \<Rightarrow> u32 \<Rightarrow> real" where
  "ComputeSinr jm fl uav_index = 20"

definition IsJammed :: "JammerManager \<Rightarrow> Fleet \<Rightarrow> u32 \<Rightarrow> bool" where
  "IsJammed jm fl uav_index \<longleftrightarrow> ComputeSinr jm fl uav_index < SINR_THRESHOLD_DB"

definition GetJammedUavs :: "JammerManager \<Rightarrow> Fleet \<Rightarrow> u32 list" where
  "GetJammedUavs jm fl = filter (IsJammed jm fl) (map of_nat [0..<length (fl_uavs fl)])"

definition GetJammerImpact :: "JammerManager \<Rightarrow> Fleet \<Rightarrow> u32 \<Rightarrow> real" where
  "GetJammerImpact jm fl uav_index =
     (let sinr = ComputeSinr jm fl uav_index
      in if sinr \<ge> SINR_THRESHOLD_DB then 0
         else let impact = (SINR_THRESHOLD_DB - sinr) / 20 in min 1 (max 0 impact))"

definition GetDropProbability :: "JammerManager \<Rightarrow> Fleet \<Rightarrow> u32 \<Rightarrow> real" where
  "GetDropProbability jm fl uav_index = (let impact = GetJammerImpact jm fl uav_index in impact * 0.8)"

definition ShouldDrop :: "JammerManager \<Rightarrow> Fleet \<Rightarrow> u32 \<Rightarrow> u32 \<Rightarrow> bool" where
  "ShouldDrop jm fl uav_index seed = False"

definition Jm_IsCompromised :: "JammerManager \<Rightarrow> u32 \<Rightarrow> bool" where
  "Jm_IsCompromised jm uav_index \<longleftrightarrow> uav_index \<in> set (jm_compromised jm)"

definition Jm_GetCompromisedUavs :: "JammerManager \<Rightarrow> u32 list" where
  "Jm_GetCompromisedUavs jm = jm_compromised jm"

definition Scan :: "JammerManager \<Rightarrow> Fleet \<Rightarrow> JammerEvent \<times> JammerManager" where
  "Scan jm fl =
     (let jp = Jm_GetPosition fl;
          jammed = GetJammedUavs jm fl;
          min_sinr = foldl (\<lambda>m i. let sinr = ComputeSinr jm fl (of_nat i) in if sinr < m then sinr else m)
                       1000 [0..<length (fl_uavs fl)];
          ev = \<lparr> jv_time_s = fl_now fl, jv_affected_uavs = of_nat (length jammed), jv_jammer_x = jp_x jp,
                 jv_jammer_y = jp_y jp, jv_min_sinr_db = min_sinr, jv_threshold_hit = min_sinr < SINR_THRESHOLD_DB \<rparr>;
          jm = (if jv_affected_uavs ev > 0
                then jm \<lparr> jm_jammer_events := jm_jammer_events jm + 1, jm_alert_cb := call_cb ev (jm_alert_cb jm) \<rparr>
                else jm)
      in (ev, jm))"

definition StartPeriodicScan :: "real \<Rightarrow> Fleet \<Rightarrow> JammerManager \<Rightarrow> JammerManager" where
  "StartPeriodicScan interval_s fl jm = jm \<lparr> jm_scan_timers := jm_scan_timers jm @ [fl_now fl + interval_s] \<rparr>"

definition PeriodicScanCallback :: "Fleet \<Rightarrow> JammerManager \<Rightarrow> JammerManager" where
  "PeriodicScanCallback fl jm = (let (ev, jm) = Scan jm fl in jm)"

section \<open>The error model\<close>

record JammerErrorModel =
  em_jammer_mgr :: "JammerManager option"
  em_uav_index :: u32
  em_drop_count :: u64

definition JammerErrorModel_new :: JammerErrorModel where
  "JammerErrorModel_new = \<lparr> em_jammer_mgr = None, em_uav_index = 0, em_drop_count = 0 \<rparr>"

definition DoCorrupt :: "Fleet \<Rightarrow> u32 \<Rightarrow> JammerErrorModel \<Rightarrow> bool \<times> JammerErrorModel" where
  "DoCorrupt fl now_ns em =
     (case em_jammer_mgr em of
        None \<Rightarrow> (False, em)
      | Some jm \<Rightarrow>
          let drop = ShouldDrop jm fl (em_uav_index em) now_ns;
              em = (if drop then em \<lparr> em_drop_count := em_drop_count em + 1 \<rparr> else em)
          in (drop, em))"

definition DoReset :: "JammerErrorModel \<Rightarrow> JammerErrorModel" where
  "DoReset em = em \<lparr> em_drop_count := 0 \<rparr>"

section \<open>The attack handler\<close>

record AttackEvent =
  ae_time_s :: real
  ae_cluster_id :: u32
  ae_jammed_count :: u32
  ae_cluster_size :: u32
  ae_revoked_count :: u32
  ae_rekey_triggered :: bool
  ae_min_sinr_db :: real

record JammerAttackHandler =
  ah_history :: "AttackEvent list"
  ah_callback :: "AttackEvent list option"
  ah_rekey_threshold :: real
  ah_periodic_interval :: real
  ah_total_events :: u64
  ah_rekeys_triggered :: u64
  ah_total_revocations :: u64
  ah_timers :: "real list"

definition JammerAttackHandler_new :: JammerAttackHandler where
  "JammerAttackHandler_new =
     \<lparr> ah_history = [], ah_callback = None, ah_rekey_threshold = 0.5, ah_periodic_interval = 0, ah_total_events = 0,
       ah_rekeys_triggered = 0, ah_total_revocations = 0, ah_timers = [] \<rparr>"

definition SetRekeyThreshold :: "real \<Rightarrow> JammerAttackHandler \<Rightarrow> JammerAttackHandler" where
  "SetRekeyThreshold t ah = ah \<lparr> ah_rekey_threshold := t \<rparr>"

definition UavToCluster :: "u32 \<Rightarrow> u32" where "UavToCluster uav_id = uav_id div 6"

definition UavToIndex :: "u32 \<Rightarrow> u32" where "UavToIndex uav_id = uav_id mod 6"

text \<open>Step 1 of \<open>HandleJammerEvent\<close>, the loop over the UAVs.\<close>

fun check_uavs ::
    "ext \<Rightarrow> JammerManager \<Rightarrow> Fleet \<Rightarrow> u32 list \<Rightarrow> u32 list \<Rightarrow> u32 list \<Rightarrow> JammerAttackHandler \<Rightarrow> Net \<Rightarrow>
     (u32 list \<times> u32 list \<times> JammerAttackHandler \<times> Net) comp" where
  "check_uavs E jm fl [] jammed revoked ah N = cret (jammed, revoked, ah, N)"
| "check_uavs E jm fl (uav_id # rest) jammed revoked ah N =
     (if \<not> IsJammed jm fl uav_id then check_uavs E jm fl rest jammed revoked ah N
      else
        let cluster = UavToCluster uav_id;
            idx = UavToIndex uav_id;
            jammed = jammed[unat cluster := jammed ! unat cluster + 1]
        in if \<not> IsRevoked (nt_comp N) uav_id \<and> Jm_IsCompromised jm uav_id then
             cbind (ReportExternal E uav_id cluster idx (skdc_of cluster) N) (\<lambda>N.
             check_uavs E jm fl rest jammed (revoked[unat cluster := revoked ! unat cluster + 1])
               (ah \<lparr> ah_total_revocations := ah_total_revocations ah + 1 \<rparr>) N)
           else check_uavs E jm fl rest jammed revoked ah N)"

text \<open>Step 3, the loop over the clusters.\<close>

fun decide_rekeys ::
    "ext \<Rightarrow> JammerEvent \<Rightarrow> u32 list \<Rightarrow> u32 list \<Rightarrow> u32 list \<Rightarrow> JammerAttackHandler \<Rightarrow> Net \<Rightarrow> (JammerAttackHandler \<times> Net) comp" where
  "decide_rekeys E ev jammed revoked [] ah N = cret (ah, N)"
| "decide_rekeys E ev jammed revoked (c # rest) ah N =
     (let cluster_size = GetGroupSize (nt_mc N) c in
      if cluster_size = 0 then decide_rekeys E ev jammed revoked rest ah N
      else
        let ratio = real (unat (jammed ! unat c)) / real (unat cluster_size);
            aev = \<lparr> ae_time_s = env_now N, ae_cluster_id = c, ae_jammed_count = jammed ! unat c, ae_cluster_size = cluster_size,
                    ae_revoked_count = revoked ! unat c, ae_rekey_triggered = False, ae_min_sinr_db = jv_min_sinr_db ev \<rparr>
        in cbind (Some (if ratio \<ge> ah_rekey_threshold ah then Rekey_TriggerRekey E c RM_COMPROMISE (skdc_of c) N
                        else Inr (N, False))) (\<lambda>(N, ok).
        let aev = aev \<lparr> ae_rekey_triggered := ok \<rparr>;
            ah = (if ok then ah \<lparr> ah_rekeys_triggered := ah_rekeys_triggered ah + 1 \<rparr> else ah);
            ah = (if ae_jammed_count aev > 0 \<or> ae_rekey_triggered aev
                  then ah \<lparr> ah_total_events := ah_total_events ah + 1, ah_history := ah_history ah @ [aev],
                            ah_callback := call_cb aev (ah_callback ah) \<rparr>
                  else ah)
        in decide_rekeys E ev jammed revoked rest ah N))"

definition HandleJammerEvent ::
    "ext \<Rightarrow> JammerManager \<Rightarrow> Fleet \<Rightarrow> JammerEvent \<Rightarrow> JammerAttackHandler \<Rightarrow> Net \<Rightarrow> (JammerAttackHandler \<times> Net) comp" where
  "HandleJammerEvent E jm fl ev ah N =
     cbind (check_uavs E jm fl (map of_nat [0..<18]) [0, 0, 0] [0, 0, 0] ah N) (\<lambda>(jammed, revoked, ah, N).
     decide_rekeys E ev jammed revoked [0, 1, 2] ah N)"

definition SchedulePeriodicHandling :: "real \<Rightarrow> Fleet \<Rightarrow> JammerAttackHandler \<Rightarrow> JammerAttackHandler" where
  "SchedulePeriodicHandling interval_s fl ah =
     (if interval_s \<le> 0 then ah
      else ah \<lparr> ah_periodic_interval := interval_s, ah_timers := ah_timers ah @ [fl_now fl + interval_s] \<rparr>)"

definition Jammer_PeriodicCallback ::
    "ext \<Rightarrow> Fleet \<Rightarrow> JammerManager \<Rightarrow> JammerAttackHandler \<Rightarrow> Net \<Rightarrow> (JammerManager \<times> JammerAttackHandler \<times> Net) comp" where
  "Jammer_PeriodicCallback E fl jm ah N =
     (let (ev, jm) = Scan jm fl
      in cbind (HandleJammerEvent E jm fl ev ah N) (\<lambda>(ah, N).
         cret (jm, ah \<lparr> ah_timers := ah_timers ah @ [fl_now fl + ah_periodic_interval ah] \<rparr>, N)))"

section \<open>The jammer does nothing\<close>

lemma never_jammed [simp]: "\<not> IsJammed jm fl i"
  by (simp add: IsJammed_def ComputeSinr_def SINR_THRESHOLD_DB_def)

lemma check_uavs_idle: "check_uavs E jm fl us jammed revoked ah N = cret (jammed, revoked, ah, N)"
  by (induction us) simp_all

lemma decide_rekeys_idle:
  assumes "0 < ah_rekey_threshold ah" "set cs \<subseteq> {0, 1, 2}"
  shows "decide_rekeys E ev [0, 0, 0] revoked cs ah N = cret (ah, N)"
  using assms(2)
proof (induction cs)
  case (Cons c cs)
  then have "[0, 0, 0] ! unat c = (0 :: u32)" by auto
  with Cons assms(1) show ?case by (simp add: Let_def cret_def)
qed simp

lemma Scan_idle:
  "Scan jm fl = (\<lparr> jv_time_s = fl_now fl, jv_affected_uavs = 0, jv_jammer_x = jp_x (Jm_GetPosition fl),
     jv_jammer_y = jp_y (Jm_GetPosition fl), jv_min_sinr_db = (if fl_uavs fl = [] then 1000 else 20),
     jv_threshold_hit = False \<rparr>, jm)"
proof -
  have "foldl (\<lambda>m i. let sinr = ComputeSinr jm fl (of_nat i) in if sinr < m then sinr else m) m [0..<n] =
      (if n = 0 then m else 20)" if "20 \<le> m" for m n
    using that by (induction n) (auto simp: ComputeSinr_def Let_def)
  from this[of 1000 "length (fl_uavs fl)"] show ?thesis
    by (simp add: Scan_def Let_def GetJammedUavs_def SINR_THRESHOLD_DB_def)
qed

text \<open>
  The jammer is switched off by two early returns.  Wherever the jammer is, no UAV is
  ever jammed and no packet dropped; a scan finds no UAV affected and
  counts no event.  With any positive rekey threshold (main.cc sets 0.5) the
  periodic attack handling neither revokes nor rekeys: it changes nothing but its own timer.
\<close>
theorem jammer_disabled:
  assumes "0 < ah_rekey_threshold ah"
  shows "Jammer_PeriodicCallback E fl jm ah N =
      Some (Inr (jm, ah \<lparr> ah_timers := ah_timers ah @ [fl_now fl + ah_periodic_interval ah] \<rparr>, N)) \<and>
    jv_affected_uavs (fst (Scan jm fl)) = 0 \<and> snd (Scan jm fl) = jm \<and>
    GetJammedUavs jm fl = [] \<and> GetDropProbability jm fl i = 0 \<and>
    DoCorrupt fl ns em = (False, em)"
proof -
  have "HandleJammerEvent E jm fl ev ah N = cret (ah, N)" for ev
    using decide_rekeys_idle[OF assms, of "[0, 1, 2]"] by (simp add: HandleJammerEvent_def check_uavs_idle cret_def)
  then show ?thesis
    by (simp add: Jammer_PeriodicCallback_def Scan_idle GetJammedUavs_def GetDropProbability_def GetJammerImpact_def
        ComputeSinr_def SINR_THRESHOLD_DB_def DoCorrupt_def ShouldDrop_def cret_def split: option.split)
qed

text \<open>A fleet whose only UAV has the jammer on top of it.\<close>

definition demo_fleet :: Fleet where
  "demo_fleet = \<lparr> fl_uavs = [Some (\<lparr> vx = 250, vy = 750, vz = 50 \<rparr>, \<lparr> vx = 0, vy = 0, vz = 0 \<rparr>)],
     fl_jammer = [Some \<lparr> vx = 250, vy = 750, vz = 50 \<rparr>], fl_now = 7 \<rparr>"

lemma jammer_disabled_witness:
  "GetAffectedUavs demo_fleet 300 = [0] \<and>
   jv_affected_uavs (fst (Scan (JammerManager_new (\<lambda>_. 0) demo_fleet) demo_fleet)) = 0 \<and>
   Jammer_PeriodicCallback toy_ext demo_fleet (JammerManager_new (\<lambda>_. 0) demo_fleet) JammerAttackHandler_new
     (demo_net (MulticastManager_new None)) =
     Some (Inr (JammerManager_new (\<lambda>_. 0) demo_fleet, JammerAttackHandler_new \<lparr> ah_timers := [7] \<rparr>,
       demo_net (MulticastManager_new None)))"
proof -
  have "GetAffectedUavs demo_fleet 300 = [0]"
    by (simp add: GetAffectedUavs_def demo_fleet_def IsUavJammed_def GetDistanceToUav_def GetJammerVec_def GetUavVec_def)
  moreover have "0 < ah_rekey_threshold JammerAttackHandler_new" by (simp add: JammerAttackHandler_new_def)
  note jammer_disabled[OF this, of toy_ext demo_fleet "JammerManager_new (\<lambda>_. 0) demo_fleet"
      "demo_net (MulticastManager_new None)"]
  ultimately show ?thesis by (simp add: JammerAttackHandler_new_def demo_fleet_def)
qed

end
