(* ===== verification/Key_Encoding.thy ===== *)
theory Key_Encoding
  imports Bigint Handover_Protocol
begin

text \<open>
  How the keys of a slave travel in a \<open>SlaveKeyBlob\<close>: \<open>ToHexString\<close> and
  \<open>FromHexString\<close> of crypto/uav-bigint.cc, the lambda \<open>to_bytes\<close> of
  \<open>KdcApplication::ForwardSlaveKey\<close> and the lambda \<open>from_bytes\<close> of
  \<open>UavApplication::UpdateSlaveKey\<close>.  The lemmas show that both are the big-endian
  encoding \<open>FromBytes\<close> reads, so that a key of at most 256 bytes survives the
  padding of the blob and a longer one does not fit.
\<close>

section \<open>Hexadecimal strings\<close>

definition ToHexString :: "ext \<Rightarrow> int \<Rightarrow> string res" where
  "ToHexString E n =
     (if n = 0 then Inr ''00''
      else case x_hex_str E n of None \<Rightarrow> Inl StdException | Some s \<Rightarrow> Inr s)"

definition FromHexString :: "ext \<Rightarrow> string \<Rightarrow> int res" where
  "FromHexString E s =
     (if s = [] then Inl CryptoException
      else
        let hex = (if 2 \<le> length s \<and> s ! 0 = CHR ''0'' \<and> (s ! 1 = CHR ''x'' \<or> s ! 1 = CHR ''X'')
                   then drop 2 s else s)
        in case x_hex_val E (''0x'' @ hex) of None \<Rightarrow> Inl CryptoException | Some v \<Rightarrow> Inr v)"

definition to_bytes :: "ext \<Rightarrow> int \<Rightarrow> bytes res" where
  "to_bytes E v =
     rbind (ToHexString E v) (\<lambda>hex.
     let hex = (if length hex mod 2 \<noteq> 0 then ''0'' @ hex else hex)
     in hex_pairs hex)"

text \<open>\<open>snprintf\<close> of one byte with the format 02x.\<close>

definition byte_hex :: "u8 \<Rightarrow> string" where
  "byte_hex b = [''0123456789abcdef'' ! (unat b div 16), ''0123456789abcdef'' ! (unat b mod 16)]"

definition from_bytes :: "ext \<Rightarrow> bytes \<Rightarrow> int res" where
  "from_bytes E b =
     (let hex = concat (map byte_hex b);
          stripped = dropWhile (\<lambda>c. c = CHR ''0'') hex
      in if stripped = [] then Inr 0 else FromHexString E stripped)"

section \<open>Values of digit strings\<close>

lemma hex_value_append: "hex_value (s @ t) = hex_value s * 16 ^ length t + hex_value t"
  by (induction t rule: rev_induct) (simp_all flip: append_assoc add: algebra_simps, simp add: hex_value_def)

lemma hex_value_nil [simp]: "hex_value [] = 0"
  by (simp add: hex_value_def)

lemma FromBytes_append: "FromBytes (xs @ ys) = FromBytes xs * 256 ^ length ys + FromBytes ys"
  by (induction ys rule: rev_induct) (simp_all flip: append_assoc add: algebra_simps)

lemma hex_value_Cons: "hex_value (c # s) = int (the (hex_digit c)) * 16 ^ length s + hex_value s"
  using hex_value_append[of "[c]" s] by (simp add: hex_value_def)

lemma FromBytes_Cons: "FromBytes (b # bs) = uint b * 256 ^ length bs + FromBytes bs"
  using FromBytes_append[of "[b]" bs] by (simp add: FromBytes_def)

lemma hex_digit_less: "hex_digit c = Some d \<Longrightarrow> d < 16"
  by (auto simp: hex_digit_def Let_def split: if_splits)

lemma hex_pairs_value:
  "hex_string s \<Longrightarrow> even (length s) \<Longrightarrow>
   \<exists>bs. hex_pairs s = Inr bs \<and> FromBytes bs = hex_value s \<and> 2 * length bs = length s"
proof (induction s rule: hex_pairs.induct)
  case (1 a b rest)
  then obtain h l where d: "hex_digit a = Some h" "hex_digit b = Some l"
    by (auto simp: hex_string_def)
  obtain bs where bs: "hex_pairs rest = Inr bs" "FromBytes bs = hex_value rest" "2 * length bs = length rest"
    using 1 by (auto simp: hex_string_def stoul2_hex_digits[OF d])
  have less: "16 * h + l < 256" using hex_digit_less[OF d(1)] hex_digit_less[OF d(2)] by linarith
  then have "uint (of_nat (16 * h + l) :: u8) = int (16 * h + l)"
    by (simp only: uint_nat unat_of_nat) (simp del: of_nat_add of_nat_mult)
  moreover have "(256 :: int) ^ length bs = 16 ^ length rest"
    using power_mult[of "16 :: int" 2 "length bs"] bs(3) by simp
  ultimately have "FromBytes (of_nat (16 * h + l) # bs) = hex_value (a # b # rest)"
    using bs d by (simp only: FromBytes_Cons hex_value_Cons) (simp add: algebra_simps)
  with bs show ?case by (simp add: stoul2_hex_digits[OF d] del: of_nat_add of_nat_mult)
qed (auto simp: hex_value_def)

lemma hex_value_lower:
  "hex_string s \<Longrightarrow> s \<noteq> [] \<Longrightarrow> hd s \<noteq> CHR ''0'' \<Longrightarrow> 16 ^ (length s - 1) \<le> hex_value s"
proof (cases s)
  case (Cons c t)
  assume "hex_string s" "hd s \<noteq> CHR ''0''"
  with Cons obtain d where d: "hex_digit c = Some d" "hex_string t" "c \<noteq> CHR ''0''"
    by (auto simp: hex_string_def)
  have "of_char c \<noteq> (48 :: nat)"
    using d(3) of_char_eq_iff[of c "CHR ''0''", where 'a = nat] by simp
  with d have "1 \<le> d" by (auto simp: hex_digit_def Let_def split: if_splits)
  then have "1 * 16 ^ length t \<le> int d * 16 ^ length t" by (intro mult_right_mono) simp_all
  moreover have "0 \<le> hex_value t" by (induction t rule: rev_induct) simp_all
  ultimately have "16 ^ length t \<le> int d * 16 ^ length t + hex_value t" by linarith
  then show ?thesis by (simp add: Cons hex_value_Cons d(1))
qed simp

section \<open>Both directions\<close>

lemma to_bytes_value:
  assumes "hex_law E" "0 \<le> v"
  shows "\<exists>b. to_bytes E v = Inr b \<and> FromBytes b = v \<and> (\<forall>k>0. v < 256 ^ k \<longrightarrow> length b \<le> k)"
proof (cases "v = 0")
  case True
  have "hex_pairs ''00'' = Inr [0]" by (simp add: stoul2_hex_def hex_digit_def)
  with True show ?thesis
    by (intro exI[of _ "[0]"]) (simp add: to_bytes_def ToHexString_def FromBytes_def Suc_le_eq)
next
  case False
  with assms(2) have "0 < v" by simp
  with assms(1) obtain s where
    s: "x_hex_str E v = Some s" "s \<noteq> []" "hd s \<noteq> CHR ''0''" "hex_string s" "hex_value s = v"
    unfolding hex_law_def by blast
  define hex where "hex = (if length s mod 2 \<noteq> 0 then ''0'' @ s else s)"
  have z: "hex_digit (CHR ''0'') = Some 0" by code_simp
  have "hex_string hex" "even (length hex)" "hex_value hex = v"
    using s z by (auto simp: hex_def hex_value_Cons hex_string_def even_iff_mod_2_eq_zero mod_Suc)
  then obtain b where b: "hex_pairs hex = Inr b" "FromBytes b = v" "2 * length b = length hex"
    using hex_pairs_value by metis
  have "length b \<le> k" if "0 < k" "v < 256 ^ k" for k
  proof -
    have "(16 :: int) ^ (length s - 1) < 16 ^ (2 * k)"
      using hex_value_lower[OF s(4,2,3)] s(5) that(2) power_mult[of "16 :: int" 2 k] by simp
    then have "length s \<le> 2 * k" by simp
    moreover have "length hex \<le> length s + length s mod 2" by (simp add: hex_def)
    ultimately show ?thesis using b(3) by (auto simp: hex_def split: if_splits)
  qed
  with b s False show ?thesis by (simp add: to_bytes_def ToHexString_def hex_def)
qed

lemma hex_value_bytes: "hex_string (concat (map byte_hex b)) \<and> hex_value (concat (map byte_hex b)) = FromBytes b"
proof (induction b rule: rev_induct)
  case (snoc x b)
  have x: "unat x div 16 < 16" "unat x mod 16 < 16" using unsigned_less[of x, where 'a = nat] by simp_all
  have "int (unat x) = uint x" by simp
  moreover have "int (unat x) = 16 * int (unat x div 16) + int (unat x mod 16)"
    using div_mult_mod_eq[of "unat x" 16] by linarith
  ultimately have "uint x = 16 * int (unat x div 16) + int (unat x mod 16)" by simp
  with snoc x show ?case
    by (simp add: byte_hex_def hex_value_append hex_value_Cons hex_string_def toy_digit del: nth_Cons)
qed (simp add: hex_string_def)

lemma from_bytes_value:
  assumes "hex_law E"
  shows "from_bytes E b = Inr (FromBytes b)"
proof -
  define hex where "hex = concat (map byte_hex b)"
  define z where "z = takeWhile (\<lambda>c. c = CHR ''0'') hex"
  define s where "s = dropWhile (\<lambda>c. c = CHR ''0'') hex"
  have split: "hex = z @ s" by (simp add: z_def s_def)
  have "\<forall>c\<in>set z. c = CHR ''0''" by (auto simp: z_def dest: set_takeWhileD)
  then have "hex_value z = 0"
    by (induction z rule: rev_induct) (simp_all add: hex_digit_def)
  then have val: "hex_value s = FromBytes b"
    using hex_value_bytes[of b] split by (simp add: hex_def[symmetric] hex_value_append)
  have str: "hex_string s" using hex_value_bytes[of b] split by (simp add: hex_def[symmetric])
  show ?thesis
  proof (cases "s = []")
    case True
    with val show ?thesis unfolding from_bytes_def Let_def hex_def[symmetric] s_def[symmetric] by simp
  next
    case False
    then have "s ! 0 \<noteq> CHR ''0''" using hd_dropWhile[of _ hex] by (simp add: s_def hd_conv_nth)
    with False str val assms show ?thesis
      unfolding from_bytes_def Let_def hex_def[symmetric] s_def[symmetric]
      by (simp add: FromHexString_def hex_law_def)
  qed
qed

text \<open>A key that fits its 256 byte field is the same number after the transport.\<close>

lemma key_transport:
  assumes "hex_law E" "0 \<le> v" "v < 256 ^ 256" "to_bytes E v = Inr b"
  shows "from_bytes E (pad256 b) = Inr v"
  using to_bytes_value[OF assms(1,2)] assms by (simp add: from_bytes_value)

end
