(* ===== verification/Kdc_App.thy ===== *)
theory Kdc_App
  imports Skdc_App Key_Encoding
begin

text \<open>
  apps/uav-kdc-app.cc: the application of the key distribution centre.  It keeps
  one traffic key per cluster, announces it to the cluster heads (SKDCs), decrypts
  the telemetry they forward and answers a handover NOTIFY with the slave key of
  the new cluster.  As in \<open>Skdc_App\<close> an operation acts on the object and the
  environment; \<open>None\<close> is undefined behaviour, \<open>Inl\<close> an exception.  A callback gets
  the datagrams waiting in its socket, here together with their source address.
\<close>

section \<open>State\<close>

record KdcClusterState =
  kc_cluster_id :: u32
  kc_skdc_node :: u32
  kc_skdc_addr :: Dest
  kc_current_tek :: bytes
  kc_current_mt_k :: int
  kc_rekey_version :: u32
  kc_member_count :: u32
  kc_initialized :: bool

definition KdcClusterState_new :: KdcClusterState where
  "KdcClusterState_new =
     \<lparr> kc_cluster_id = 0, kc_skdc_node = 0, kc_skdc_addr = NoAddress, kc_current_tek = replicate 32 0,
       kc_current_mt_k = 0, kc_rekey_version = 1, kc_member_count = 6, kc_initialized = False \<rparr>"

datatype KdcTimer = TimerSendAll | TimerSync

text \<open>The lines of kdc\_telemetry.csv.\<close>

datatype TelLine =
    TelHeader
  | TelRow (tl_time: real) (tl_cluster: u32) (tl_from: Dest) (tl_payload: bytes)

text \<open>
  \<open>kd_csv_opens\<close> is the environment's answer to opening that file, \<open>kd_csv_open\<close>
  the state of the stream.
\<close>

record KdcApp =
  kd_socket :: bool
  kd_telemetry_socket :: bool
  kd_handover_socket :: bool
  kd_gk :: bytes
  kd_csv_opens :: bool
  kd_csv_open :: bool
  kd_csv :: "TelLine list"
  kd_telemetry_rx_count :: u64
  kd_topo :: "Topology option"
  kd_params :: "CryptoParamsFile option"
  kd_clusters :: "KdcClusterState list"
  kd_tx_count :: u64
  kd_rekey_count :: u64
  kd_timers :: "(real \<times> KdcTimer) list"

definition KdcApplication_new :: "bool \<Rightarrow> KdcApp" where
  "KdcApplication_new csv_opens =
     \<lparr> kd_socket = False, kd_telemetry_socket = False, kd_handover_socket = False, kd_gk = replicate 32 0,
       kd_csv_opens = csv_opens, kd_csv_open = False, kd_csv = [], kd_telemetry_rx_count = 0,
       kd_topo = None, kd_params = None, kd_clusters = replicate 3 KdcClusterState_new,
       kd_tx_count = 0, kd_rekey_count = 0, kd_timers = [] \<rparr>"

definition Kdc_SetTopology :: "Topology option \<Rightarrow> KdcApp \<Rightarrow> KdcApp" where
  "Kdc_SetTopology topo app = app \<lparr> kd_topo := topo \<rparr>"

definition Kdc_SetCryptoParams :: "CryptoParamsFile option \<Rightarrow> KdcApp \<Rightarrow> KdcApp" where
  "Kdc_SetCryptoParams params app = app \<lparr> kd_params := params \<rparr>"

abbreviation upd_cluster :: "nat \<Rightarrow> (KdcClusterState \<Rightarrow> KdcClusterState) \<Rightarrow> KdcApp \<Rightarrow> KdcApp" where
  "upd_cluster c f app \<equiv> app \<lparr> kd_clusters := (kd_clusters app)[c := f (kd_clusters app ! c)] \<rparr>"

definition kdc_schedule :: "real \<Rightarrow> KdcTimer \<Rightarrow> KdcApp \<Rightarrow> 'a World_scheme \<Rightarrow> KdcApp" where
  "kdc_schedule delay timer app W = app \<lparr> kd_timers := kd_timers app @ [(env_now W + delay, timer)] \<rparr>"

section \<open>The keys of the clusters\<close>

definition init_cluster :: "u32 \<Rightarrow> KdcApp \<Rightarrow> KdcApp" where
  "init_cluster c app =
     (let app = upd_cluster (unat c)
            (\<lambda>cs. cs \<lparr> kc_cluster_id := c, kc_skdc_node := c + 1, kc_rekey_version := 1, kc_member_count := 6 \<rparr>) app;
          app = (case kd_params app of
              Some params \<Rightarrow>
                if unat c < length (cp_clusters params) then
                  let cp = cp_clusters params ! unat c in
                  upd_cluster (unat c)
                    (\<lambda>cs. cs \<lparr> kc_current_tek := cc_tek cp, kc_current_mt_k := cc_MT_K cp, kc_initialized := True \<rparr>) app
                else app
            | None \<Rightarrow> app)
      in if kd_topo app \<noteq> None
         then upd_cluster (unat c) (\<lambda>cs. cs \<lparr> kc_skdc_addr := ToCsma (unat (c + 1)) \<rparr>) app
         else app)"

definition InitializeClusters :: "KdcApp \<Rightarrow> KdcApp" where
  "InitializeClusters app = fold init_cluster [0, 1, 2] app"

definition SendControlPacket :: "Dest \<Rightarrow> u32 \<Rightarrow> bytes \<Rightarrow> KdcApp \<Rightarrow> 'a World_scheme \<Rightarrow> 'a World_scheme" where
  "SendControlPacket dst cluster tek app W =
     (if \<not> kd_socket app then W
      else
        let payload = replicate 16 0;
            payload = WriteU32BE payload 0 cluster;
            payload = WriteU32BE payload 4 (kc_rekey_version (kd_clusters app ! unat cluster));
            payload = put_bytes payload 8 (take 8 tek)
        in SendTo dst 9001 payload W)"

definition SendTekToSkdc :: "u32 \<Rightarrow> KdcApp \<times> 'a World_scheme \<Rightarrow> KdcApp \<times> 'a World_scheme" where
  "SendTekToSkdc cluster st =
     (case st of (app, W) \<Rightarrow>
        if \<not> kd_socket app \<or> kd_topo app = None then (app, W)
        else if cluster \<ge> 3 then (app, W)
        else
          let cs = kd_clusters app ! unat cluster;
              W = SendControlPacket (kc_skdc_addr cs) cluster (kc_current_tek cs) app W
          in (app \<lparr> kd_tx_count := kd_tx_count app + 1 \<rparr>, W))"

definition SendTekToAllSkdcs :: "KdcApp \<times> 'a World_scheme \<Rightarrow> KdcApp \<times> 'a World_scheme" where
  "SendTekToAllSkdcs st = fold SendTekToSkdc [0, 1, 2] st"

definition Kdc_TriggerRekey :: "u32 \<Rightarrow> RekeyReason \<Rightarrow> KdcApp \<times> 'a World_scheme \<Rightarrow> KdcApp \<times> 'a World_scheme" where
  "Kdc_TriggerRekey cluster reason st =
     (case st of (app, W) \<Rightarrow>
        if cluster \<ge> 3 then (app, W)
        else
          let app = upd_cluster (unat cluster) (\<lambda>cs. cs \<lparr> kc_rekey_version := kc_rekey_version cs + 1 \<rparr>) app;
              app = app \<lparr> kd_rekey_count := kd_rekey_count app + 1 \<rparr>;
              (tek, W) = RandomBytes 32 W;
              app = upd_cluster (unat cluster) (\<lambda>cs. cs \<lparr> kc_current_tek := tek \<rparr>) app
          in SendTekToSkdc cluster (app, W))"

definition Kdc_GetTek :: "KdcApp \<Rightarrow> u32 \<Rightarrow> bytes" where
  "Kdc_GetTek app cluster =
     (if cluster \<ge> 3 then replicate 32 0 else kc_current_tek (kd_clusters app ! unat cluster))"

definition Kdc_GetClusterState :: "KdcApp \<Rightarrow> u32 \<Rightarrow> KdcClusterState" where
  "Kdc_GetClusterState app cluster =
     (if cluster \<ge> 3 then KdcClusterState_new else kd_clusters app ! unat cluster)"

definition SchedulePeriodicSync :: "KdcApp \<Rightarrow> 'a World_scheme \<Rightarrow> KdcApp" where
  "SchedulePeriodicSync app W = kdc_schedule 30 TimerSync app W"

definition PeriodicSync :: "KdcApp \<times> 'a World_scheme \<Rightarrow> KdcApp \<times> 'a World_scheme" where
  "PeriodicSync st = (let (app, W) = SendTekToAllSkdcs st in (SchedulePeriodicSync app W, W))"

definition Kdc_fire :: "KdcTimer \<Rightarrow> KdcApp \<times> 'a World_scheme \<Rightarrow> KdcApp \<times> 'a World_scheme" where
  "Kdc_fire timer st = (case timer of TimerSendAll \<Rightarrow> SendTekToAllSkdcs st | TimerSync \<Rightarrow> PeriodicSync st)"

section \<open>Start and stop\<close>

definition Kdc_StartApplication :: "KdcApp \<Rightarrow> 'a World_scheme \<Rightarrow> (KdcApp \<times> 'a World_scheme) res" where
  "Kdc_StartApplication app W =
     (let app = InitializeClusters (app \<lparr> kd_socket := True \<rparr>) in
      rbind (load_gk (kd_params app) (kd_gk app)) (\<lambda>gk.
      let app = app \<lparr> kd_gk := gk, kd_handover_socket := True, kd_telemetry_socket := True \<rparr>;
          app = kdc_schedule 1 TimerSendAll app W
      in Inr (SchedulePeriodicSync app W, W)))"

definition Kdc_StopApplication :: "KdcApp \<Rightarrow> KdcApp" where
  "Kdc_StopApplication app =
     app \<lparr> kd_socket := False, kd_telemetry_socket := False, kd_handover_socket := False \<rparr>"

section \<open>Telemetry\<close>

text \<open>
  The body of the loop of \<open>ReceiveTelemetryFromSkdc\<close>.  The check of the HMAC is the
  one of \<open>ReceiveDataFromUav\<close> (\<open>data_hmac_ok\<close>), with the key derived from the KDC's
  TEK.  \<open>36 + ct_len\<close> is computed in 32 bits; where the sum wraps the iterator
  leaves the buffer, which is undefined.
\<close>

definition tel_csv_row :: "TelLine \<Rightarrow> KdcApp \<Rightarrow> KdcApp" where
  "tel_csv_row row app =
     (let app = (if \<not> kd_csv_open app then
                   let app = app \<lparr> kd_csv_open := kd_csv_opens app \<rparr> in
                   if kd_csv_open app then app \<lparr> kd_csv := kd_csv app @ [TelHeader] \<rparr> else app
                 else app)
      in if kd_csv_open app then app \<lparr> kd_csv := kd_csv app @ [row] \<rparr> else app)"

definition telemetry_from_skdc ::
    "ext \<Rightarrow> Dest \<times> bytes \<Rightarrow> KdcApp \<times> 'a World_scheme \<Rightarrow> (KdcApp \<times> 'a World_scheme) comp" where
  "telemetry_from_skdc E pkt st =
     (case (pkt, st) of ((src_ip, wire), (app, W)) \<Rightarrow>
        let app = app \<lparr> kd_telemetry_rx_count := kd_telemetry_rx_count app + 1 \<rparr>; t = env_now W in
        if length wire < 36 + 32 then cret (app, W)
        else
          let pkt_data = take (length wire - 32) wire;
              cid = ReadU32BE pkt_data 0
          in if cid \<ge> 3 then cret (app, W)
             else
               let tek = kc_current_tek (kd_clusters app ! unat cid) in
               if \<not> data_hmac_ok E (KeyFromAesKey tek) wire then cret (app, W)
               else if length pkt_data < 36 then cret (app, W)
               else
                 let iv = get_bytes pkt_data 4 12;
                     tag = get_bytes pkt_data 16 16;
                     ct_len = ReadU32BE pkt_data 32
                 in if length pkt_data < unat (36 + ct_len) then cret (app, W)
                    else if length pkt_data < 36 + unat ct_len then None
                    else
                      let ct = get_bytes pkt_data 36 (unat ct_len);
                          aad = replicate 4 0;
                          aad = WriteU16BE aad 0 (ucast cid);
                          aad = WriteU16BE aad 2 0xFFFF
                      in (case Decrypt E tek iv ct tag aad of
                            Inl e \<Rightarrow> cret (app, W)
                          | Inr plaintext \<Rightarrow> cret (tel_csv_row (TelRow t cid src_ip plaintext) app, W)))"

definition ReceiveTelemetryFromSkdc ::
    "ext \<Rightarrow> (Dest \<times> bytes) list \<Rightarrow> KdcApp \<Rightarrow> 'a World_scheme \<Rightarrow> (KdcApp \<times> 'a World_scheme) comp" where
  "ReceiveTelemetryFromSkdc E pkts app W = recv_loop (telemetry_from_skdc E) pkts (app, W)"

section \<open>The slave key of a handover\<close>

text \<open>The index of the new slot is \<open>uav_id % uavs_per_cluster\<close>, undefined for 0.\<close>

definition slave_blob :: "ext \<Rightarrow> u32 \<Rightarrow> u32 \<Rightarrow> SlaveKeyEntry \<Rightarrow> SlaveKeyBlob res" where
  "slave_blob E new_idx new_cluster sk =
     rbind (to_bytes E (sk_d sk)) (\<lambda>d_i_bytes.
     rbind (to_bytes E (sk_n sk)) (\<lambda>n_i_bytes.
     rbind (to_bytes E (sk_e sk)) (\<lambda>e_i_bytes.
     rbind (to_bytes E (sk_M sk)) (\<lambda>Mi_bytes.
     rbind (to_bytes E (sk_N sk)) (\<lambda>Ni_bytes.
     Inr \<lparr> bl_uav_index = new_idx, bl_cluster_id = new_cluster, bl_d_i_bytes = d_i_bytes,
           bl_n_i_bytes = n_i_bytes, bl_e_i_bytes = e_i_bytes, bl_Mi_bytes = Mi_bytes,
           bl_Ni_bytes = Ni_bytes \<rparr>)))))"

definition ForwardSlaveKey ::
    "ext \<Rightarrow> u32 \<Rightarrow> u32 \<Rightarrow> u32 \<Rightarrow> KdcApp \<times> 'a World_scheme \<Rightarrow> (KdcApp \<times> 'a World_scheme) comp" where
  "ForwardSlaveKey E uav_id new_cluster old_index st =
     (case st of (app, W) \<Rightarrow>
        (case kd_params app of
          None \<Rightarrow> cret (app, W)
        | Some params \<Rightarrow>
            if kd_topo app = None then cret (app, W)
            else if new_cluster \<ge> 3 then cret (app, W)
            else if cp_uavs_per_cluster params = 0 then None
            else
              let new_idx = uav_id mod cp_uavs_per_cluster params in
              (case Params_GetCluster params new_cluster of
                None \<Rightarrow> cret (app, W)
              | Some nc \<Rightarrow>
                  (case Cluster_GetSlaveKey nc new_idx of
                    None \<Rightarrow> cret (app, W)
                  | Some sk \<Rightarrow>
                      Some (rbind (slave_blob E new_idx new_cluster sk) (\<lambda>blob.
                        let (iv, W) = RandomBytes 12 W in
                        rbind (BuildSlaveFwd E iv uav_id new_cluster blob (kd_gk app)) (\<lambda>wire.
                        if kd_socket app
                        then Inr (app, SendTo (ToCsma (unat (new_cluster + 1))) 9051 wire W)
                        else Inr (app, W))))))))"

definition handover_notify ::
    "ext \<Rightarrow> bytes \<Rightarrow> KdcApp \<times> 'a World_scheme \<Rightarrow> (KdcApp \<times> 'a World_scheme) comp" where
  "handover_notify E buf st =
     (case ParseNotify E buf (kd_gk (fst st)) of
        Inl e \<Rightarrow> Some (Inl e)
      | Inr None \<Rightarrow> cret st
      | Inr (Some np) \<Rightarrow> ForwardSlaveKey E (nf_uav_id np) (nf_new_cluster np) (nf_old_index np) st)"

definition ReceiveHandoverNotify ::
    "ext \<Rightarrow> bytes list \<Rightarrow> KdcApp \<Rightarrow> 'a World_scheme \<Rightarrow> (KdcApp \<times> 'a World_scheme) comp" where
  "ReceiveHandoverNotify E pkts app W = recv_loop (handover_notify E) pkts (app, W)"

end
