(* ===== verification/Uav_App.thy ===== *)
theory Uav_App
  imports Skdc_App Packet_Manager Key_Encoding
begin

text \<open>
  apps/uav-uav-app.cc: the application of a UAV.  It holds a slave key
  \<open>(d_i, n_i, e_i)\<close> of its cluster, decrypts the broadcast token MT\_K with it, sends
  encrypted telemetry to the cluster head and installs the slave key a handover
  gives it.  The pointer \<open>m_skdc_app\<close> to the cluster head the UAV acknowledges rekeys
  to is an optional \<open>SkdcApp\<close>, the second component of the state the handlers of
  packets act on.  Logging is left out.
\<close>

section \<open>State\<close>

record UavState =
  us_uav_id :: u32
  us_uav_index :: u32
  us_cluster_id :: u32
  us_authenticated :: bool
  us_joined :: bool
  us_tek_valid :: bool
  us_d_i :: int
  us_n_i :: int
  us_e_i :: int
  us_current_tek :: bytes
  us_hmac_key :: bytes
  us_rekey_version :: u32
  us_data_seq :: u32

record UavApp =
  uv_uav_id :: u32
  uv_uav_index :: u32
  uv_cluster_id :: u32
  uv_topo :: "Topology option"
  uv_params :: "CryptoParamsFile option"
  uv_state :: UavState
  uv_recv_socket :: bool
  uv_join_acc_socket :: bool
  uv_ack_send_socket :: bool
  uv_gk :: bytes
  uv_send_socket :: bool
  uv_seq :: u64
  uv_data_sent :: u64
  uv_mtk_received :: u64
  uv_rekey_count :: u64
  uv_timers :: "real list"

definition UavState_new :: UavState where
  "UavState_new =
     \<lparr> us_uav_id = 0, us_uav_index = 0, us_cluster_id = 0, us_authenticated = False, us_joined = False,
       us_tek_valid = False, us_d_i = 0, us_n_i = 0, us_e_i = 0, us_current_tek = replicate 32 0,
       us_hmac_key = replicate 32 0, us_rekey_version = 0, us_data_seq = 0 \<rparr>"

definition UavApplication_new :: UavApp where
  "UavApplication_new =
     \<lparr> uv_uav_id = 0, uv_uav_index = 0, uv_cluster_id = 0, uv_topo = None, uv_params = None,
       uv_state = UavState_new, uv_recv_socket = False, uv_join_acc_socket = False,
       uv_ack_send_socket = False, uv_gk = replicate 32 0, uv_send_socket = False, uv_seq = 1,
       uv_data_sent = 0, uv_mtk_received = 0, uv_rekey_count = 0, uv_timers = [] \<rparr>"

abbreviation upd_uav :: "(UavState \<Rightarrow> UavState) \<Rightarrow> UavApp \<Rightarrow> UavApp" where
  "upd_uav f app \<equiv> app \<lparr> uv_state := f (uv_state app) \<rparr>"

definition SetUavId :: "u32 \<Rightarrow> u32 \<Rightarrow> u32 \<Rightarrow> UavApp \<Rightarrow> UavApp" where
  "SetUavId uav_id uav_index cluster_id app =
     upd_uav (\<lambda>st. st \<lparr> us_uav_id := uav_id, us_uav_index := uav_index, us_cluster_id := cluster_id \<rparr>)
       (app \<lparr> uv_uav_id := uav_id, uv_uav_index := uav_index, uv_cluster_id := cluster_id \<rparr>)"

definition Uav_SetTopology :: "Topology option \<Rightarrow> UavApp \<Rightarrow> UavApp" where
  "Uav_SetTopology topo app = app \<lparr> uv_topo := topo \<rparr>"

definition Uav_SetCryptoParams :: "CryptoParamsFile option \<Rightarrow> UavApp \<Rightarrow> UavApp" where
  "Uav_SetCryptoParams params app = app \<lparr> uv_params := params \<rparr>"

section \<open>Start and stop\<close>

definition InitializeSlaveKey :: "UavApp \<Rightarrow> UavApp" where
  "InitializeSlaveKey app =
     (case uv_params app of
        None \<Rightarrow> app
      | Some params \<Rightarrow>
          (case Params_GetCluster params (uv_cluster_id app) of
            None \<Rightarrow> app
          | Some cluster \<Rightarrow>
              (case Cluster_GetSlaveKey cluster (uv_uav_index app) of
                None \<Rightarrow> app
              | Some sk \<Rightarrow>
                  upd_uav (\<lambda>st. st \<lparr> us_d_i := sk_d sk, us_n_i := sk_n sk, us_e_i := sk_e sk,
                      us_current_tek := cc_tek cluster, us_tek_valid := True,
                      us_hmac_key := KeyFromAesKey (cc_tek cluster) \<rparr>) app)))"

definition Uav_StartApplication :: "UavApp \<Rightarrow> 'a World_scheme \<Rightarrow> (UavApp \<times> 'a World_scheme) res" where
  "Uav_StartApplication app W =
     (let app = app \<lparr> uv_recv_socket := True, uv_send_socket := True \<rparr> in
      rbind (load_gk (uv_params app) (uv_gk app)) (\<lambda>gk.
      let app = app \<lparr> uv_gk := gk, uv_join_acc_socket := True, uv_ack_send_socket := True \<rparr>;
          app = InitializeSlaveKey app;
          start_delay = 15 - env_now W;
          start_delay = (if start_delay < 3 then 3 else start_delay)
      in Inr (app \<lparr> uv_timers := uv_timers app @ [env_now W + start_delay] \<rparr>, W)))"

definition Uav_StopApplication :: "UavApp \<Rightarrow> UavApp" where
  "Uav_StopApplication app =
     app \<lparr> uv_recv_socket := False, uv_join_acc_socket := False, uv_send_socket := False \<rparr>"

section \<open>Decrypting the token\<close>

definition matches :: "ext \<Rightarrow> int \<Rightarrow> int \<Rightarrow> int \<Rightarrow> bool res" where
  "matches E recovered tek_int n_i =
     (if tek_int > 0 then rbind (Mod tek_int n_i) (\<lambda>expected. Inr (recovered = expected)) else Inr False)"

text \<open>The loop over the other clusters; it stops at the first whose slave key fits the token.\<close>

fun try_clusters :: "ext \<Rightarrow> CryptoParamsFile \<Rightarrow> int \<Rightarrow> u32 list \<Rightarrow> UavApp \<Rightarrow> (UavApp \<times> bool) res" where
  "try_clusters E params mt_k [] app = Inr (app, False)"
| "try_clusters E params mt_k (c # cs) app =
     (if c = uv_cluster_id app then try_clusters E params mt_k cs app
      else
        (case Params_GetCluster params c of
          None \<Rightarrow> try_clusters E params mt_k cs app
        | Some cl \<Rightarrow>
            (case Cluster_GetSlaveKey cl (uv_uav_index app mod 6) of
              None \<Rightarrow> try_clusters E params mt_k cs app
            | Some sk \<Rightarrow>
                rbind (ModPow E mt_k (sk_d sk) (sk_n sk)) (\<lambda>rec2.
                rbind (matches E rec2 (cc_tek_int cl) (sk_n sk)) (\<lambda>ok.
                if ok then
                  Inr (upd_uav (\<lambda>st. st \<lparr> us_d_i := sk_d sk, us_n_i := sk_n sk, us_e_i := sk_e sk,
                         us_cluster_id := c, us_current_tek := cc_tek cl,
                         us_hmac_key := KeyFromAesKey (cc_tek cl) \<rparr>) (app \<lparr> uv_cluster_id := c \<rparr>), True)
                else try_clusters E params mt_k cs app)))))"

definition DecryptMtk :: "ext \<Rightarrow> int \<Rightarrow> int \<Rightarrow> UavApp \<Rightarrow> (UavApp \<times> bool) res" where
  "DecryptMtk E mt_k n_group app =
     (if us_d_i (uv_state app) \<le> 0 \<or> us_n_i (uv_state app) \<le> 0 then Inr (app, False)
      else
        rbind (ModPow E mt_k (us_d_i (uv_state app)) (us_n_i (uv_state app))) (\<lambda>recovered.
        rbind
          (case uv_params app of
            None \<Rightarrow> Inr (app, False)
          | Some params \<Rightarrow>
              rbind
                (case Params_GetCluster params (uv_cluster_id app) of
                  None \<Rightarrow> Inr False
                | Some cluster \<Rightarrow> matches E recovered (cc_tek_int cluster) (us_n_i (uv_state app)))
                (\<lambda>verified.
                 if verified then Inr (app, True)
                 else try_clusters E params mt_k (map of_nat [0..<unat (cp_num_clusters params)]) app))
          (\<lambda>(app, verified).
           if \<not> verified then Inr (app, False)
           else Inr (upd_uav (us_tek_valid_update (\<lambda>_. True))
                  (app \<lparr> uv_mtk_received := uv_mtk_received app + 1 \<rparr>), True))))"

section \<open>Telemetry\<close>

definition Uav_GetSkdcWifiAddr :: "UavApp \<Rightarrow> Dest" where
  "Uav_GetSkdcWifiAddr app =
     (if uv_topo app \<noteq> None then ToSkdcWifi (uv_cluster_id app) else LimitedBroadcast)"

definition SendData :: "ext \<Rightarrow> bytes \<Rightarrow> UavApp \<Rightarrow> 'a World_scheme \<Rightarrow> (UavApp \<times> 'a World_scheme) res" where
  "SendData E payload app W =
     (if \<not> uv_send_socket app then Inr (app, W)
      else if \<not> us_tek_valid (uv_state app) then Inr (app, W)
      else
        let app = upd_uav (\<lambda>st. st \<lparr> us_data_seq := us_data_seq st + 1 \<rparr>) app;
            (r, W) = data_readings W;
            (pkt, seq) = Data_Build E r (ucast (uv_cluster_id app)) (ucast (uv_uav_id app))
               (ucast (uv_cluster_id app + 100)) (us_data_seq (uv_state app)) payload
               (us_current_tek (uv_state app)) (uv_seq app);
            app = app \<lparr> uv_seq := seq \<rparr>;
            wire = DataPacket_Serialize pkt
        in rbind (AppendHmac E (us_hmac_key (uv_state app)) wire) (\<lambda>wire.
           let W = SendTo (Uav_GetSkdcWifiAddr app) 9100 wire W
           in Inr (app \<lparr> uv_data_sent := uv_data_sent app + 1 \<rparr>, W)))"

text \<open>
  The telemetry text.  \<open>std::fixed << std::setprecision(2)\<close> prints a number rounded to
  two decimals, halves to even; integers are printed in decimal.
\<close>

fun dec_str :: "nat \<Rightarrow> string" where
  "dec_str n = (if n < 10 then [] else dec_str (n div 10)) @ [''0123456789'' ! (n mod 10)]"

declare dec_str.simps [simp del]

definition round_half_even :: "real \<Rightarrow> int" where
  "round_half_even y =
     (let f = \<lfloor>y\<rfloor>; d = y - of_int f in
      if d < 1 / 2 then f else if d > 1 / 2 then f + 1 else if even f then f else f + 1)"

definition fixed2 :: "real \<Rightarrow> string" where
  "fixed2 x =
     (let n = nat (round_half_even (100 * \<bar>x\<bar>)) in
      (if x < 0 then ''-'' else []) @ dec_str (n div 100) @ ''.'' @
      [''0123456789'' ! (n div 10 mod 10), ''0123456789'' ! (n mod 10)])"

definition ascii :: "string \<Rightarrow> bytes" where
  "ascii s = map of_char s"

definition ScheduleTelemetry :: "UavApp \<Rightarrow> 'a World_scheme \<Rightarrow> UavApp" where
  "ScheduleTelemetry app W = app \<lparr> uv_timers := uv_timers app @ [env_now W + 3] \<rparr>"

text \<open>Position and velocity are those of the node's mobility model, if it has one.\<close>

definition telemetry_text :: "((real \<times> real \<times> real) \<times> (real \<times> real \<times> real)) option \<Rightarrow> real \<Rightarrow> UavApp \<Rightarrow> string" where
  "telemetry_text mob t app =
     (let ((px, py, pz), (vx, vy, vz)) = (case mob of None \<Rightarrow> ((0, 0, 0), (0, 0, 0)) | Some pv \<Rightarrow> pv);
          bat = 100 - t * 0.05;
          bat = (if bat < 0 then 0 else bat)
      in ''ID:'' @ dec_str (unat (uv_uav_id app)) @ '',C:'' @ dec_str (unat (uv_cluster_id app)) @
         '',T:'' @ dec_str (nat \<lfloor>t\<rfloor>) @ '',X:'' @ fixed2 px @ '',Y:'' @ fixed2 py @ '',Z:'' @ fixed2 pz @
         '',VX:'' @ fixed2 vx @ '',VY:'' @ fixed2 vy @ '',VZ:'' @ fixed2 vz @ '',BAT:'' @ fixed2 bat @
         '',SEQ:'' @ dec_str (unat (us_data_seq (uv_state app))) @
         '',TEK:'' @ dec_str (unat (us_rekey_version (uv_state app))))"

definition SendTelemetry ::
    "ext \<Rightarrow> ((real \<times> real \<times> real) \<times> (real \<times> real \<times> real)) option \<Rightarrow> UavApp \<Rightarrow> 'a World_scheme \<Rightarrow>
     (UavApp \<times> 'a World_scheme) res" where
  "SendTelemetry E mob app W =
     (if \<not> us_tek_valid (uv_state app) then Inr (ScheduleTelemetry app W, W)
      else
        rbind (SendData E (ascii (telemetry_text mob (env_now W) app)) app W) (\<lambda>(app, W).
        Inr (ScheduleTelemetry app W, W)))"

section \<open>Packets from the cluster head\<close>

type_synonym ('a) uav_world = "UavApp \<times> SkdcApp option \<times> 'a World_scheme"

definition ack_rekey :: "u32 \<Rightarrow> 'a uav_world \<Rightarrow> 'a uav_world" where
  "ack_rekey version st =
     (case st of
        (app, None, W) \<Rightarrow> (app, None, W)
      | (app, Some skdc, W) \<Rightarrow>
          let (skdc, W) = OnUavRekeyAck skdc (uv_uav_id app) version W in (app, Some skdc, W))"

text \<open>An exception is caught and logged; what was assigned before stays.\<close>

definition ProcessMtkPacket :: "ext \<Rightarrow> bytes \<Rightarrow> 'a uav_world \<Rightarrow> 'a uav_world" where
  "ProcessMtkPacket E wire st =
     (case st of (app, skdc, W) \<Rightarrow>
       (case DeserializeNoHmac wire of
          Inl e \<Rightarrow> (app, skdc, W)
        | Inr pkt \<Rightarrow>
            let body = pk_body pkt in
            if mb_cluster_id body \<noteq> uv_cluster_id app then (app, skdc, W)
            else if mb_version body \<le> us_rekey_version (uv_state app) then (app, skdc, W)
            else
              let app = upd_uav (us_rekey_version_update (\<lambda>_. mb_version body)) app in
              (case DecryptMtk E (mb_mtk body) (mb_n_group body) app of
                 Inl e \<Rightarrow> (app, skdc, W)
               | Inr (app, ok) \<Rightarrow>
                   if ok then ack_rekey (mb_version body) (app, skdc, W) else (app, skdc, W))))"

definition ProcessRekeyPacket :: "ext \<Rightarrow> bytes \<Rightarrow> 'a uav_world \<Rightarrow> 'a uav_world" where
  "ProcessRekeyPacket E wire st =
     (case st of (app, skdc, W) \<Rightarrow>
       (case RekeyPacket_Deserialize E wire (us_hmac_key (uv_state app)) of
          Inl e \<Rightarrow> (app, skdc, W)
        | Inr pkt \<Rightarrow>
            let body = pk_body pkt in
            if rb_cluster_id body \<noteq> uv_cluster_id app then (app, skdc, W)
            else
              let app = app \<lparr> uv_rekey_count := uv_rekey_count app + 1 \<rparr> in
              (case DecryptMtk E (rb_mtk body) 0 app of
                 Inl e \<Rightarrow> (app, skdc, W)
               | Inr (app, ok) \<Rightarrow> ack_rekey (rb_version body) (app, skdc, W))))"

definition packet_from_skdc :: "ext \<Rightarrow> bytes \<Rightarrow> 'a uav_world \<Rightarrow> 'a uav_world" where
  "packet_from_skdc E buf st =
     (if length buf < 4 then st
      else if length buf < Header_WIRE_SIZE then st
      else
        let ptype = PeekType buf in
        if ptype = MTK_PACKET then ProcessMtkPacket E buf st
        else if ptype = REKEY_PACKET then ProcessRekeyPacket E buf st
        else st)"

definition ReceivePacket :: "ext \<Rightarrow> bytes list \<Rightarrow> 'a uav_world \<Rightarrow> 'a uav_world" where
  "ReceivePacket E pkts st = fold (packet_from_skdc E) pkts st"

section \<open>The slave key of a handover\<close>

text \<open>The three assignments come before the rest; an exception in one leaves the callback.\<close>

definition UpdateSlaveKey :: "ext \<Rightarrow> SlaveKeyBlob \<Rightarrow> u32 \<Rightarrow> u32 \<Rightarrow> UavApp \<Rightarrow> UavApp res" where
  "UpdateSlaveKey E blob new_cluster new_index app =
     rbind (from_bytes E (bl_d_i_bytes blob)) (\<lambda>d_i.
     rbind (from_bytes E (bl_n_i_bytes blob)) (\<lambda>n_i.
     rbind (from_bytes E (bl_e_i_bytes blob)) (\<lambda>e_i.
     Inr (upd_uav (\<lambda>st. st \<lparr> us_d_i := d_i, us_n_i := n_i, us_e_i := e_i, us_cluster_id := new_cluster,
              us_uav_index := new_index, us_tek_valid := False \<rparr>)
            (app \<lparr> uv_cluster_id := new_cluster, uv_uav_index := new_index \<rparr>)))))"

definition SendKeyAck :: "ext \<Rightarrow> u32 \<Rightarrow> u32 \<Rightarrow> UavApp \<Rightarrow> 'a World_scheme \<Rightarrow> 'a World_scheme res" where
  "SendKeyAck E new_cluster new_index app W =
     (case uv_topo app of
        None \<Rightarrow> Inr W
      | Some topo \<Rightarrow>
          if \<not> uv_ack_send_socket app then Inr W
          else
            let (ts, W) = NowEpochMicros W in
            rbind (BuildKeyAck E ts (uv_uav_id app) new_cluster new_index (uv_gk app)) (\<lambda>wire.
            if unat new_cluster \<ge> length (tp_skdc_nodes topo) then Inr W
            else if \<not> tp_skdc_nodes topo ! unat new_cluster then Inr W
            else Inr (SendTo (ToSkdcWifi new_cluster) 9053 wire W)))"

definition join_accept ::
    "ext \<Rightarrow> bytes \<Rightarrow> UavApp \<times> 'a World_scheme \<Rightarrow> (UavApp \<times> 'a World_scheme) comp" where
  "join_accept E buf st =
     (case st of (app, W) \<Rightarrow>
        (case ParseJoinAccept E buf (uv_gk app) of
          None \<Rightarrow> None
        | Some (Inl e) \<Rightarrow> Some (Inl e)
        | Some (Inr None) \<Rightarrow> cret (app, W)
        | Some (Inr (Some (uav_id_pkt, new_cluster, new_index, blob))) \<Rightarrow>
            if uav_id_pkt \<noteq> uv_uav_id app then cret (app, W)
            else
              Some (rbind (UpdateSlaveKey E blob new_cluster new_index app) (\<lambda>app.
                    rbind (SendKeyAck E new_cluster new_index app W) (\<lambda>W. Inr (app, W))))))"

definition ReceiveJoinAccept ::
    "ext \<Rightarrow> bytes list \<Rightarrow> UavApp \<Rightarrow> 'a World_scheme \<Rightarrow> (UavApp \<times> 'a World_scheme) comp" where
  "ReceiveJoinAccept E pkts app W = recv_loop (join_accept E) pkts (app, W)"

end
