(* ===== verification/Slave_Handover.thy ===== *)
theory Slave_Handover
  imports Kdc_App Uav_App Skdc_Runs
begin

text \<open>
  The handover of a UAV across the three applications: the KDC answers a NOTIFY with
  the slave key of the new cluster (SLAVE\_FWD), the new cluster head hands it on
  (JOIN\_ACCEPT), the UAV installs it and confirms (KEY\_ACK), and the cluster head
  takes it for a join.
\<close>

section \<open>One step of the protocol at a time\<close>

lemma slave_blob_ok:
  assumes "hex_law E" "0 \<le> sk_d sk" "0 \<le> sk_n sk" "0 \<le> sk_e sk" "0 \<le> sk_M sk" "0 \<le> sk_N sk"
  obtains blob where "slave_blob E i c sk = Inr blob" "bl_uav_index blob = i"
    "to_bytes E (sk_d sk) = Inr (bl_d_i_bytes blob)" "to_bytes E (sk_n sk) = Inr (bl_n_i_bytes blob)"
    "to_bytes E (sk_e sk) = Inr (bl_e_i_bytes blob)"
proof -
  have ok: "\<exists>b. to_bytes E v = Inr b" if "0 \<le> v" for v using to_bytes_value[OF assms(1) that] by blast
  obtain d n e M N where "to_bytes E (sk_d sk) = Inr d" "to_bytes E (sk_n sk) = Inr n"
    "to_bytes E (sk_e sk) = Inr e" "to_bytes E (sk_M sk) = Inr M" "to_bytes E (sk_N sk) = Inr N"
    using ok assms by metis
  then show thesis
    using that[of "\<lparr> bl_uav_index = i, bl_cluster_id = c, bl_d_i_bytes = d, bl_n_i_bytes = n, bl_e_i_bytes = e,
      bl_Mi_bytes = M, bl_Ni_bytes = N \<rparr>"] by (simp add: slave_blob_def)
qed

definition kdc_ready :: "CryptoParamsFile \<Rightarrow> KdcApp \<Rightarrow> bool" where
  "kdc_ready p kdc \<longleftrightarrow> kd_params kdc = Some p \<and> kd_topo kdc \<noteq> None \<and> kd_socket kdc \<and> cp_uavs_per_cluster p \<noteq> 0"

definition slot_of :: "CryptoParamsFile \<Rightarrow> u32 \<Rightarrow> u32 \<Rightarrow> SlaveKeyEntry \<Rightarrow> bool" where
  "slot_of p u c sk \<longleftrightarrow> (\<exists>nc. Params_GetCluster p c = Some nc \<and>
     Cluster_GetSlaveKey nc (u mod cp_uavs_per_cluster p) = Some sk)"

definition transportable :: "SlaveKeyEntry \<Rightarrow> bool" where
  "transportable sk \<longleftrightarrow> 0 \<le> sk_M sk \<and> 0 \<le> sk_N sk \<and> (\<forall>v\<in>{sk_d sk, sk_n sk, sk_e sk}. 0 \<le> v \<and> v < 256 ^ 256)"

lemma kdc_forwards:
  assumes "hmac_law E" "hex_law E" "kdc_ready p kdc" "c < 3" "slot_of p u c sk" "transportable sk"
    "length nk = 32" "BuildNotify E ts nk u oc c oi (kd_gk kdc) = Inr buf"
  obtains blob iv wire where "handover_notify E buf (kdc, W) =
      cret (kdc, SendTo (ToCsma (unat (c + 1))) 9051 wire (snd (RandomBytes 12 W)))"
    "iv = fst (RandomBytes 12 W)" "BuildSlaveFwd E iv u c blob (kd_gk kdc) = Inr wire"
    "bl_uav_index blob = u mod cp_uavs_per_cluster p"
    "to_bytes E (sk_d sk) = Inr (bl_d_i_bytes blob)" "to_bytes E (sk_n sk) = Inr (bl_n_i_bytes blob)"
    "to_bytes E (sk_e sk) = Inr (bl_e_i_bytes blob)"
proof -
  obtain blob where b: "slave_blob E (u mod cp_uavs_per_cluster p) c sk = Inr blob"
    "bl_uav_index blob = u mod cp_uavs_per_cluster p"
    "to_bytes E (sk_d sk) = Inr (bl_d_i_bytes blob)" "to_bytes E (sk_n sk) = Inr (bl_n_i_bytes blob)"
    "to_bytes E (sk_e sk) = Inr (bl_e_i_bytes blob)"
    using assms(6) by - (rule slave_blob_ok[OF assms(2), of sk "u mod cp_uavs_per_cluster p" c],
      auto simp: transportable_def)
  obtain iv W' where iv: "RandomBytes 12 W = (iv, W')" by fastforce
  have "\<exists>wire. BuildSlaveFwd E iv u c blob (kd_gk kdc) = Inr wire"
    using assms(1) by (simp add: BuildSlaveFwd_def AppendHmac_eq Let_def)
  then obtain wire where w: "BuildSlaveFwd E iv u c blob (kd_gk kdc) = Inr wire" ..
  have "ParseNotify E buf (kd_gk kdc) = Inr (Some \<lparr> nf_uav_id = u, nf_old_cluster = oc, nf_new_cluster = c,
      nf_old_index = oi, nf_timestamp = ts \<rparr>)"
    using ParseNotify_Build[OF assms(1,7), of ts u oc c oi "kd_gk kdc"] assms(8) by auto
  moreover have "\<not> 3 \<le> c" using assms(4) by simp
  ultimately have "handover_notify E buf (kdc, W) = cret (kdc, SendTo (ToCsma (unat (c + 1))) 9051 wire W')"
    using assms(3,5) b(1) w iv
    by (auto simp: handover_notify_def ForwardSlaveKey_def kdc_ready_def slot_of_def cret_def)
  with iv w b show thesis by (intro that) simp_all
qed

definition skdc_reaches :: "u32 \<Rightarrow> SkdcApp \<Rightarrow> bool" where
  "skdc_reaches u skdc \<longleftrightarrow> sk_join_acc_socket skdc \<and> (\<exists>topo. sk_topo skdc = Some topo \<and>
     unat (u + 3) < length (tp_wifi_nodes topo) \<and> tp_wifi_nodes topo ! unat (u + 3))"

lemma skdc_hands_on:
  assumes "hmac_law E" "gcm_law E" "length iv = 12" "BuildSlaveFwd E iv u c blob gk = Inr wire"
    "sk_gk skdc = gk" "sk_cluster_id skdc = c" "skdc_reaches u skdc" "wf_world W"
  obtains iv' ts wire' W' where "slave_key_fwd E wire (skdc, W) =
      cret (skdc \<lparr> sk_pending_ho := (sk_pending_ho skdc)(u \<mapsto>
              \<lparr> ho_blob = padded_blob blob, ho_new_index = bl_uav_index blob \<rparr>) \<rparr>,
            SendTo (ToWifiNode (unat (u + 3))) 9052 wire' W')"
    "length iv' = 12" "BuildJoinAccept E iv' ts u c (bl_uav_index blob) (padded_blob blob) gk = Inr wire'"
    "wf_world W'" "env_sent W' = env_sent W"
proof -
  have parsed: "ParseSlaveFwd E wire gk = Some (Inr (Some (u, c, padded_blob blob)))"
    using ParseSlaveFwd_Build[OF assms(1-3), of u c blob gk] assms(4) by auto
  have idx: "bl_uav_index (padded_blob blob) = bl_uav_index blob" by (simp add: padded_blob_def)
  obtain iv' W1 where iv: "RandomBytes 12 W = (iv', W1)" by fastforce
  obtain ts W2 where ts: "NowEpochMicros W1 = (ts, W2)" by fastforce
  obtain wire' where w: "BuildJoinAccept E iv' ts u c (bl_uav_index blob) (padded_blob blob) gk = Inr wire'"
    using assms(1) by (simp add: BuildJoinAccept_def AppendHmac_eq Let_def)
  have "slave_key_fwd E wire (skdc, W) =
      cret (skdc \<lparr> sk_pending_ho := (sk_pending_ho skdc)(u \<mapsto>
              \<lparr> ho_blob = padded_blob blob, ho_new_index = bl_uav_index blob \<rparr>) \<rparr>,
            SendTo (ToWifiNode (unat (u + 3))) 9052 wire' W2)"
    using assms(5-7) parsed w iv ts
    by (auto simp: slave_key_fwd_def SendJoinAccept_def skdc_reaches_def idx cret_def not_le[symmetric])
  moreover have "length iv' = 12" "wf_world W2" "env_sent W2 = env_sent W"
    using RandomBytes_simps[where n = 12 and W = W] NowEpochMicros_simps[of W1] assms(8) iv ts by auto
  ultimately show thesis using that w by blast
qed

definition uav_reaches :: "u32 \<Rightarrow> UavApp \<Rightarrow> bool" where
  "uav_reaches c uav \<longleftrightarrow> uv_ack_send_socket uav \<and> (\<exists>topo. uv_topo uav = Some topo \<and>
     unat c < length (tp_skdc_nodes topo) \<and> tp_skdc_nodes topo ! unat c)"

definition with_slave_key :: "SlaveKeyEntry \<Rightarrow> u32 \<Rightarrow> u32 \<Rightarrow> UavApp \<Rightarrow> UavApp" where
  "with_slave_key sk c i uav =
     upd_uav (\<lambda>st. st \<lparr> us_d_i := sk_d sk, us_n_i := sk_n sk, us_e_i := sk_e sk, us_cluster_id := c,
         us_uav_index := i, us_tek_valid := False \<rparr>)
       (uav \<lparr> uv_cluster_id := c, uv_uav_index := i \<rparr>)"

lemma uav_installs:
  assumes "hmac_law E" "gcm_law E" "hex_law E" "length iv = 12"
    "BuildJoinAccept E iv ts u c i (padded_blob blob) gk = Inr wire" "transportable sk"
    "to_bytes E (sk_d sk) = Inr (bl_d_i_bytes blob)" "to_bytes E (sk_n sk) = Inr (bl_n_i_bytes blob)"
    "to_bytes E (sk_e sk) = Inr (bl_e_i_bytes blob)"
    "uv_gk uav = gk" "uv_uav_id uav = u" "uav_reaches c uav"
  obtains ts' ack W' where "join_accept E wire (uav, W) =
      cret (with_slave_key sk c i uav, SendTo (ToSkdcWifi c) 9053 ack W')"
    "BuildKeyAck E ts' u c i gk = Inr ack" "env_sent W' = env_sent W"
proof -
  have "pad256 (pad256 v) = pad256 v" for v
    unfolding pad256_def[of "pad256 v"] by simp
  then have pad: "padded_blob (padded_blob blob) = padded_blob blob"
    by (simp add: padded_blob_def)
  have parsed: "ParseJoinAccept E wire gk = Some (Inr (Some (u, c, i, padded_blob blob)))"
    using ParseJoinAccept_Build[OF assms(1,2,4), of ts u c i "padded_blob blob" gk] assms(5) by (auto simp: pad)
  have keys: "from_bytes E (pad256 (bl_d_i_bytes blob)) = Inr (sk_d sk)"
    "from_bytes E (pad256 (bl_n_i_bytes blob)) = Inr (sk_n sk)"
    "from_bytes E (pad256 (bl_e_i_bytes blob)) = Inr (sk_e sk)"
    using assms(6) by (auto simp: transportable_def intro!: key_transport[OF assms(3) _ _ assms(7)]
        key_transport[OF assms(3) _ _ assms(8)] key_transport[OF assms(3) _ _ assms(9)])
  obtain ts' W1 where ts: "NowEpochMicros W = (ts', W1)" by fastforce
  obtain ack where w: "BuildKeyAck E ts' u c i gk = Inr ack"
    using assms(1) by (simp add: key_ack_layout Let_def)
  have "join_accept E wire (uav, W) = cret (with_slave_key sk c i uav, SendTo (ToSkdcWifi c) 9053 ack W1)"
    using assms(10-12) parsed keys w ts
    by (auto simp: join_accept_def UpdateSlaveKey_def SendKeyAck_def uav_reaches_def padded_blob_def
        with_slave_key_def cret_def not_le[symmetric])
  moreover have "env_sent W1 = env_sent W" using NowEpochMicros_simps(3)[of W] ts by simp
  ultimately show thesis using that w by blast
qed

lemma skdc_joins:
  assumes "hmac_law E" "BuildKeyAck E ts u c i (sk_gk skdc) = Inr ack" "sk_cluster_id skdc = c"
  shows "key_ack E ack (skdc, W) =
    Some (Skdc_ProcessJoin E (skdc \<lparr> sk_pending_ho := (sk_pending_ho skdc)(u := None) \<rparr>) u i W)"
proof -
  have "ParseKeyAck E ack (sk_gk skdc) = Inr (Some \<lparr> ak_uav_id = u, ak_new_cluster = c, ak_new_index = i,
      ak_timestamp = ts \<rparr>)"
    using ParseKeyAck_Build[OF assms(1), of ts u c i "sk_gk skdc"] assms(2) by auto
  with assms(3) show ?thesis by (simp add: key_ack_def)
qed

section \<open>The whole handover\<close>

text \<open>
  C21.  Handover end to end.  When the KDC receives a NOTIFY made with GK for a UAV
  and a new cluster, its answer SLAVE\_FWD, handed on by the new cluster head as
  JOIN\_ACCEPT and delivered to the UAV, gives the UAV exactly the slave key
  \<open>(d_i, n_i, e_i)\<close> of the slot \<open>uav_id mod uavs_per_cluster\<close> of the new cluster in
  crypto\_params.json; every message goes to the port and the node it is meant for,
  and the UAV's KEY\_ACK makes the cluster head process a join of this UAV.  The
  UAV's traffic key becomes invalid, and nothing else of its state changes: it keeps
  the traffic key, the HMAC key and the rekey version of the old cluster.
\<close>
theorem handover_delivers_key:
  assumes "hmac_law E" "gcm_law E" "hex_law E" "wf_world W"
    "kdc_ready p kdc" "c < 3" "slot_of p u c sk" "transportable sk"
    "sk_gk skdc = kd_gk kdc" "sk_cluster_id skdc = c" "skdc_reaches u skdc"
    "uv_gk uav = kd_gk kdc" "uv_uav_id uav = u" "uav_reaches c uav"
    "length nk = 32" "BuildNotify E ts nk u oc c oi (kd_gk kdc) = Inr buf"
  shows "\<exists>W1 m1 skdc' W2 m2 W3 m3.
    handover_notify E buf (kdc, W) = cret (kdc, W1) \<and> env_sent W1 = env_sent W @ [m1] \<and>
      dg_dest m1 = ToCsma (unat (c + 1)) \<and> dg_port m1 = 9051 \<and>
    slave_key_fwd E (dg_payload m1) (skdc, W1) = cret (skdc', W2) \<and> env_sent W2 = env_sent W1 @ [m2] \<and>
      dg_dest m2 = ToWifiNode (unat (u + 3)) \<and> dg_port m2 = 9052 \<and> sk_pending_ho skdc' u \<noteq> None \<and>
    join_accept E (dg_payload m2) (uav, W2) =
      cret (with_slave_key sk c (u mod cp_uavs_per_cluster p) uav, W3) \<and> env_sent W3 = env_sent W2 @ [m3] \<and>
      dg_dest m3 = ToSkdcWifi c \<and> dg_port m3 = 9053 \<and>
    key_ack E (dg_payload m3) (skdc', W3) =
      Some (Skdc_ProcessJoin E (skdc \<lparr> sk_pending_ho := (sk_pending_ho skdc)(u := None) \<rparr>) u
        (u mod cp_uavs_per_cluster p) W3)"
proof -
  let ?i = "u mod cp_uavs_per_cluster p"
  obtain blob iv fwd where k: "handover_notify E buf (kdc, W) =
      cret (kdc, SendTo (ToCsma (unat (c + 1))) 9051 fwd (snd (RandomBytes 12 W)))"
    "iv = fst (RandomBytes 12 W)" "BuildSlaveFwd E iv u c blob (kd_gk kdc) = Inr fwd"
    "bl_uav_index blob = ?i"
    and b: "to_bytes E (sk_d sk) = Inr (bl_d_i_bytes blob)" "to_bytes E (sk_n sk) = Inr (bl_n_i_bytes blob)"
    "to_bytes E (sk_e sk) = Inr (bl_e_i_bytes blob)"
    by (rule kdc_forwards[OF assms(1,3,5-8,15,16), of W])
  define W1 where "W1 = SendTo (ToCsma (unat (c + 1))) 9051 fwd (snd (RandomBytes 12 W))"
  have W1: "wf_world W1" "length iv = 12" using assms(4) k(2) by (simp_all add: W1_def)
  obtain iv' ts' acc W2 where s: "slave_key_fwd E fwd (skdc, W1) =
      cret (skdc \<lparr> sk_pending_ho := (sk_pending_ho skdc)(u \<mapsto>
              \<lparr> ho_blob = padded_blob blob, ho_new_index = bl_uav_index blob \<rparr>) \<rparr>,
            SendTo (ToWifiNode (unat (u + 3))) 9052 acc W2)"
    "length iv' = 12" "BuildJoinAccept E iv' ts' u c (bl_uav_index blob) (padded_blob blob) (kd_gk kdc) = Inr acc"
    "env_sent W2 = env_sent W1"
    by (rule skdc_hands_on[OF assms(1,2) W1(2) k(3) assms(9-11) W1(1)])
  obtain ts'' ack W3 where a: "join_accept E acc (uav, SendTo (ToWifiNode (unat (u + 3))) 9052 acc W2) =
      cret (with_slave_key sk c ?i uav, SendTo (ToSkdcWifi c) 9053 ack W3)"
    "BuildKeyAck E ts'' u c ?i (kd_gk kdc) = Inr ack"
    "env_sent W3 = env_sent (SendTo (ToWifiNode (unat (u + 3))) 9052 acc W2)"
    by (rule uav_installs[OF assms(1-3) s(2) s(3)[unfolded k(4)] assms(8) b assms(12-14)])
  define skdc' where "skdc' = skdc \<lparr> sk_pending_ho := (sk_pending_ho skdc)(u \<mapsto>
      \<lparr> ho_blob = padded_blob blob, ho_new_index = bl_uav_index blob \<rparr>) \<rparr>"
  have "key_ack E ack (skdc', SendTo (ToSkdcWifi c) 9053 ack W3) =
      Some (Skdc_ProcessJoin E (skdc \<lparr> sk_pending_ho := (sk_pending_ho skdc)(u := None) \<rparr>) u ?i
        (SendTo (ToSkdcWifi c) 9053 ack W3))"
    using skdc_joins[OF assms(1), of ts'' u c ?i skdc' ack] a(2) assms(9,10) by (simp add: skdc'_def)
  then show ?thesis
    using k(1)[folded W1_def] s(1)[folded skdc'_def] s(4) a(1,3)
    by (intro exI[of _ W1] exI[of _ "\<lparr> dg_dest = ToCsma (unat (c + 1)), dg_port = 9051, dg_payload = fwd \<rparr>"]
        exI[of _ skdc'] exI[of _ "SendTo (ToWifiNode (unat (u + 3))) 9052 acc W2"]
        exI[of _ "\<lparr> dg_dest = ToWifiNode (unat (u + 3)), dg_port = 9052, dg_payload = acc \<rparr>"]
        exI[of _ "SendTo (ToSkdcWifi c) 9053 ack W3"]
        exI[of _ "\<lparr> dg_dest = ToSkdcWifi c, dg_port = 9053, dg_payload = ack \<rparr>"])
      (simp add: W1_def skdc'_def)
qed

definition demo_kdc :: "CryptoParamsFile \<Rightarrow> KdcApp" where
  "demo_kdc p = (KdcApplication_new True) \<lparr> kd_params := Some p, kd_topo := Some demo_topo, kd_socket := True \<rparr>"

definition demo_skdc :: "u32 \<Rightarrow> SkdcApp" where
  "demo_skdc c = (SkdcApplication_new 1) \<lparr> sk_cluster_id := c, sk_topo := Some demo_topo, sk_join_acc_socket := True \<rparr>"

definition demo_uav :: "u32 \<Rightarrow> UavApp" where
  "demo_uav u = UavApplication_new \<lparr> uv_uav_id := u, uv_topo := Some demo_topo, uv_ack_send_socket := True \<rparr>"

lemma demo_handover_ready:
  "kdc_ready (demo_params tok) (demo_kdc (demo_params tok))" "slot_of (demo_params tok) 2 0 demo_slave0"
  "transportable demo_slave0" "skdc_reaches 2 (demo_skdc 0)" "uav_reaches 0 (demo_uav 2)"
  by (simp_all add: kdc_ready_def demo_kdc_def demo_params_def slot_of_def Params_GetCluster_def
      Cluster_GetSlaveKey_def demo_cluster_def demo_mkg_def demo_slave0_def transportable_def
      skdc_reaches_def demo_skdc_def demo_topo_def uav_reaches_def demo_uav_def)

lemma handover_delivers_key_witness:
  "\<exists>p buf W1 m1 skdc' W2 m2 uav' W3.
    handover_notify toy_ext buf (demo_kdc p, demo_world) = cret (demo_kdc p, W1) \<and> env_sent W1 = [m1] \<and>
    slave_key_fwd toy_ext (dg_payload m1) (demo_skdc 0, W1) = cret (skdc', W2) \<and> env_sent W2 = [m1, m2] \<and>
    join_accept toy_ext (dg_payload m2) (demo_uav 2, W2) = cret (uav', W3) \<and>
    us_d_i (uv_state uav') = 37 \<and> us_n_i (uv_state uav') = 77 \<and> \<not> us_tek_valid (uv_state uav')"
proof -
  fix tok :: MTokenResult
  define p where "p = demo_params tok"
  have eq: "sk_gk (demo_skdc 0) = kd_gk (demo_kdc p)" "sk_cluster_id (demo_skdc 0) = 0"
    "uv_gk (demo_uav 2) = kd_gk (demo_kdc p)" "uv_uav_id (demo_uav 2) = 2" "env_sent demo_world = []"
    by (simp_all add: demo_skdc_def demo_kdc_def demo_uav_def SkdcApplication_new_def KdcApplication_new_def
        UavApplication_new_def demo_world_def)
  obtain buf where buf: "BuildNotify toy_ext 1 (replicate 32 0) 2 1 0 3 (kd_gk (demo_kdc p)) = Inr buf"
    using toy_hmac by (simp add: notify_layout Let_def)
  note ready = demo_handover_ready(1)[of tok, folded p_def] demo_handover_ready(2)[of tok, folded p_def]
    demo_handover_ready(3-5)
  have "(0 :: u32) < 3" "length (replicate 32 (0 :: u8)) = 32" by simp_all
  from handover_delivers_key[OF toy_hmac toy_gcm toy_hex_law demo_world_wf ready(1) this(1) ready(2,3) eq(1,2)
      ready(4) eq(3,4) ready(5) this(2) buf]
  show ?thesis using eq(5) by (fastforce simp: with_slave_key_def demo_slave0_def)
qed

end
