(* ===== verification/Telemetry_Path.thy ===== *)
theory Telemetry_Path
  imports Slave_Handover
begin

text \<open>
  The way of a telemetry packet: from the UAV (\<open>SendData\<close>) to the cluster head
  (\<open>ReceiveDataFromUav\<close>) and, decrypted and encrypted again, to the KDC
  (\<open>ReceiveTelemetryFromSkdc\<close>).
\<close>

section \<open>From the cluster head to the KDC\<close>

definition shared_tek :: "SkdcApp \<Rightarrow> KdcApp \<Rightarrow> bool" where
  "shared_tek skdc kdc \<longleftrightarrow> sk_cluster_id skdc < 3 \<and>
     kc_current_tek (kd_clusters kdc ! unat (sk_cluster_id skdc)) = sd_current_tek (sk_state skdc) \<and>
     sd_hmac_key (sk_state skdc) = KeyFromAesKey (sd_current_tek (sk_state skdc))"

definition logged :: "u32 \<Rightarrow> Dest \<Rightarrow> bytes \<Rightarrow> KdcApp \<Rightarrow> 'a World_scheme \<Rightarrow> KdcApp" where
  "logged c src pt kdc W = tel_csv_row (TelRow (env_now W) c src pt)
     (kdc \<lparr> kd_telemetry_rx_count := kd_telemetry_rx_count kdc + 1 \<rparr>)"

lemma signed_data:
  "hmac_law E \<Longrightarrow> data_hmac_ok E key (body @ x_hmac_sha256 E key body)"
  by (simp add: data_hmac_ok_def Hmac_Verify_eq Let_def hmac_length)

lemma forward_layout:
  assumes "hmac_law E" "gcm_law E" "length iv = 12"
  obtains ct tag where "x_gcm_encrypt E (sd_current_tek (sk_state app)) iv (fwd_aad (sk_cluster_id app)) pt = (ct, tag)"
    "length tag = 16" "length ct = length pt"
    "forward_packet E iv app pt =
       (let body = be32 (sk_cluster_id app) @ iv @ tag @ be32 (word_of_nat (length ct)) @ ct
        in Inr (body @ x_hmac_sha256 E (sd_hmac_key (sk_state app)) body))"
proof -
  obtain ct tag where e: "x_gcm_encrypt E (sd_current_tek (sk_state app)) iv (fwd_aad (sk_cluster_id app)) pt = (ct, tag)"
    by fastforce
  with assms(2) have len: "length tag = 16" "length ct = length pt" by (auto simp: gcm_law_def)
  have "forward_packet E iv app pt =
       (let body = be32 (sk_cluster_id app) @ iv @ tag @ be32 (word_of_nat (length ct)) @ ct
        in Inr (body @ x_hmac_sha256 E (sd_hmac_key (sk_state app)) body))"
    using e len assms(1,3)
    by (simp add: forward_packet_def DoEncrypt_def AppendHmac_eq fill_simps Let_def del: append_assoc) simp
  with e len that show thesis by blast
qed

lemma kdc_logs_forward:
  assumes "hmac_law E" "gcm_law E" "length iv = 12" "length pt < 2 ^ 32 - 36" "shared_tek skdc kdc"
    "forward_packet E iv skdc pt = Inr fwd"
  shows "telemetry_from_skdc E (src, fwd) (kdc, W) = cret (logged (sk_cluster_id skdc) src pt kdc W, W)"
proof -
  let ?c = "sk_cluster_id skdc" and ?tek = "sd_current_tek (sk_state skdc)"
  obtain ct tag where enc: "x_gcm_encrypt E ?tek iv (fwd_aad ?c) pt = (ct, tag)"
    and len: "length tag = 16" "length ct = length pt"
    and f: "forward_packet E iv skdc pt = (let body = be32 ?c @ iv @ tag @ be32 (word_of_nat (length ct)) @ ct
        in Inr (body @ x_hmac_sha256 E (sd_hmac_key (sk_state skdc)) body))"
    by (rule forward_layout[OF assms(1-3)])
  define body where "body = be32 ?c @ iv @ tag @ be32 (word_of_nat (length ct)) @ ct"
  have fwd: "fwd = body @ x_hmac_sha256 E (KeyFromAesKey ?tek) body"
    using f assms(5,6) by (simp add: Let_def shared_tek_def body_def)
  have lb: "length body = 36 + length ct" using len assms(3) by (simp add: body_def)
  have dec: "x_gcm_decrypt E ?tek iv (fwd_aad ?c) ct tag = Some pt" using assms(2) enc by (auto simp: gcm_law_def)
  have rd: "ReadU32BE body 0 = ?c" "get_bytes body 4 12 = iv" "get_bytes body 16 16 = tag"
    "ReadU32BE body 32 = word_of_nat (length ct)" "get_bytes body 36 (length ct) = ct"
    using len assms(3) by (simp_all add: body_def parse_simps get_bytes_all)
  have n: "unat (word_of_nat (length ct) :: u32) = length ct" "unat (36 + word_of_nat (length ct) :: u32) = 36 + length ct"
    using assms(4) len by (simp_all add: unat_word_of_nat_small unat_word_ariths)
  have c: "\<not> 3 \<le> ?c" "kc_current_tek (kd_clusters kdc ! unat ?c) = ?tek"
    using assms(5) by (auto simp: shared_tek_def)
  have hm: "data_hmac_ok E (KeyFromAesKey ?tek) fwd" unfolding fwd by (rule signed_data[OF assms(1)])
  have pk: "take (36 + length ct) fwd = body" "length fwd = 68 + length ct"
    using assms(1) lb by (simp_all add: fwd hmac_length)
  show ?thesis
    using dec rd n c hm lb
    by (simp add: telemetry_from_skdc_def pk Let_def Decrypt_def fwd_aad_def[symmetric] logged_def)
qed

lemma forward_reaches_kdc:
  assumes "hmac_law E" "gcm_law E" "wf_world W" "length pt < 2 ^ 32 - 36" "shared_tek skdc kdc"
    "sk_forward_socket skdc" "sk_topo skdc \<noteq> None"
  shows "\<exists>W' m. forward_to_kdc E pt (skdc, W) = (skdc, W') \<and> env_sent W' = env_sent W @ [m] \<and>
    dg_dest m = sk_kdc_csma_addr skdc \<and> dg_port m = 9300 \<and>
    telemetry_from_skdc E (src, dg_payload m) (kdc, V) = cret (logged (sk_cluster_id skdc) src pt kdc V, V)"
proof -
  obtain iv W1 where iv: "RandomBytes 12 W = (iv, W1)" by fastforce
  have len: "length iv = 12" "env_sent W1 = env_sent W"
    using RandomBytes_simps[where n = 12 and W = W] assms(3) iv by auto
  obtain fwd where fwd: "forward_packet E iv skdc pt = Inr fwd"
    using forward_layout[OF assms(1,2) len(1), of skdc pt] by (metis (no_types))
  note kdc_logs_forward[OF assms(1,2) len(1) assms(4,5) fwd, of src V]
  then show ?thesis
    using assms(6,7) iv fwd len
    by (intro exI[of _ "SendTo (sk_kdc_csma_addr skdc) 9300 fwd W1"]
        exI[of _ "\<lparr> dg_dest = sk_kdc_csma_addr skdc, dg_port = 9300, dg_payload = fwd \<rparr>"])
      (auto simp: forward_to_kdc_def)
qed

text \<open>
  C22.  Telemetry from the cluster head to the KDC.  While both hold the same traffic
  key for the cluster, whatever plaintext the SKDC forwards is written to the KDC's
  telemetry file unchanged.  But an SKDC that receives a datagram of at least 136
  bytes with a wrong HMAC does not drop it: it forwards an empty plaintext under its
  own keys, which the KDC verifies, decrypts and logs as telemetry of the cluster.
\<close>
theorem kdc_logs_telemetry:
  assumes "hmac_law E" "gcm_law E" "wf_world W" "shared_tek skdc kdc"
    "sk_forward_socket skdc" "sk_topo skdc \<noteq> None"
  shows "(length pt < 2 ^ 32 - 36 \<longrightarrow>
      (\<exists>W' m. forward_to_kdc E pt (skdc, W) = (skdc, W') \<and> env_sent W' = env_sent W @ [m] \<and>
        dg_dest m = sk_kdc_csma_addr skdc \<and> dg_port m = 9300 \<and>
        telemetry_from_skdc E (src, dg_payload m) (kdc, V) = cret (logged (sk_cluster_id skdc) src pt kdc V, V))) \<and>
    (136 \<le> length wire \<and> \<not> data_hmac_ok E (sd_hmac_key (sk_state skdc)) wire \<longrightarrow>
      (\<exists>skdc' W' m. data_from_uav E wire (skdc, W) = (skdc', W') \<and> env_sent W' = env_sent W @ [m] \<and>
        dg_dest m = sk_kdc_csma_addr skdc \<and> dg_port m = 9300 \<and>
        telemetry_from_skdc E (src, dg_payload m) (kdc, V) = cret (logged (sk_cluster_id skdc) src [] kdc V, V)))"
proof (intro conjI impI)
  assume "length pt < 2 ^ 32 - 36"
  then show "\<exists>W' m. forward_to_kdc E pt (skdc, W) = (skdc, W') \<and> env_sent W' = env_sent W @ [m] \<and>
      dg_dest m = sk_kdc_csma_addr skdc \<and> dg_port m = 9300 \<and>
      telemetry_from_skdc E (src, dg_payload m) (kdc, V) = cret (logged (sk_cluster_id skdc) src pt kdc V, V)"
    by (rule forward_reaches_kdc[OF assms(1-3) _ assms(4-6)])
next
  assume bad: "136 \<le> length wire \<and> \<not> data_hmac_ok E (sd_hmac_key (sk_state skdc)) wire"
  define skdc' where "skdc' = skdc \<lparr> sk_data_rx_count := sk_data_rx_count skdc + 1 \<rparr>"
  have "data_from_uav E wire (skdc, W) = forward_to_kdc E [] (skdc', W)"
    using bad by (simp add: data_from_uav_def skdc'_def)
  moreover have "shared_tek skdc' kdc" "sk_forward_socket skdc'" "sk_topo skdc' \<noteq> None"
    using assms(4-6) by (simp_all add: skdc'_def shared_tek_def)
  note forward_reaches_kdc[OF assms(1-3) _ this, of "[]" src V]
  ultimately show "\<exists>skdc' W' m. data_from_uav E wire (skdc, W) = (skdc', W') \<and> env_sent W' = env_sent W @ [m] \<and>
      dg_dest m = sk_kdc_csma_addr skdc \<and> dg_port m = 9300 \<and>
      telemetry_from_skdc E (src, dg_payload m) (kdc, V) = cret (logged (sk_cluster_id skdc) src [] kdc V, V)"
    by (fastforce simp: skdc'_def)
qed

section \<open>From the UAV to the cluster head\<close>

text \<open>The packet \<open>SendData\<close> builds.\<close>

lemma data_packet_built:
  assumes "gcm_law E" "wf_readings r" "length payload < 2 ^ 32"
    "Data_Build E r c u dst n payload tek seq = (pkt, seq')"
  obtains ct tag where "x_gcm_encrypt E tek (r_aes_iv r) (data_aad c u) payload = (ct, tag)" "length tag = 16"
    "length ct = length payload" "wf_DataBody (pk_body pkt)" "length (h_nonce (pk_header pkt)) = 16"
    "h_version (pk_header pkt) = PROTOCOL_VERSION" "db_aes_iv (pk_body pkt) = r_aes_iv r"
    "db_aes_tag (pk_body pkt) = tag" "db_ciphertext (pk_body pkt) = ct"
proof -
  obtain ct tag where e: "x_gcm_encrypt E tek (r_aes_iv r) (data_aad c u) payload = (ct, tag)" by fastforce
  moreover from this assms(1) have "length tag = 16" "length ct = length payload" by (auto simp: gcm_law_def)
  moreover have "wf_header (pk_header pkt)" "wf_DataBody (pk_body pkt)"
    using Data_Build_ok[OF assms] by auto
  moreover have "h_version (pk_header pkt) = PROTOCOL_VERSION \<and> db_aes_iv (pk_body pkt) = r_aes_iv r \<and>
      db_aes_tag (pk_body pkt) = tag \<and> db_ciphertext (pk_body pkt) = ct"
    using assms(4) e by (auto simp: Data_Build_def build_simps ApplyReplayToken_def
      SetReplayProtected_def BaseHeader_new_def DoEncrypt_def)
  ultimately show thesis using that by (simp add: wf_header_def NONCE_SIZE_def)
qed

lemma data_wire_reads:
  assumes "wf_DataBody (pk_body pkt)" "length (h_nonce (pk_header pkt)) = 16"
  defines "w \<equiv> DataPacket_Serialize pkt"
  shows "length w = 104 + length (db_ciphertext (pk_body pkt))"
    "ReadU32BE w 68 = word_of_nat (length (db_ciphertext (pk_body pkt)))" "get_bytes w 72 12 = db_aes_iv (pk_body pkt)"
    "get_bytes w 88 16 = db_aes_tag (pk_body pkt)"
    "get_bytes w 104 (length (db_ciphertext (pk_body pkt))) = db_ciphertext (pk_body pkt)"
    "get_bytes w 2 4 ! 0 = h_version (pk_header pkt)"
proof -
  have w: "w = header_bytes (pk_header pkt) @ h_nonce (pk_header pkt) @ be32 (db_cluster_id (pk_body pkt)) @
     be32 (db_data_sequence (pk_body pkt)) @ be64 (db_timestamp_us (pk_body pkt)) @
     be32 (db_plaintext_len (pk_body pkt)) @ be32 (word_of_nat (length (db_ciphertext (pk_body pkt)))) @
     db_aes_iv (pk_body pkt) @ replicate 4 0 @ db_aes_tag (pk_body pkt) @ db_ciphertext (pk_body pkt)"
    using assms(1) by (simp add: w_def DataPacket_Serialize_def SerializeNonce_def AppendBytes_def DataBody_layout)
  show "length w = 104 + length (db_ciphertext (pk_body pkt))"
    "ReadU32BE w 68 = word_of_nat (length (db_ciphertext (pk_body pkt)))" "get_bytes w 72 12 = db_aes_iv (pk_body pkt)"
    "get_bytes w 88 16 = db_aes_tag (pk_body pkt)"
    "get_bytes w 104 (length (db_ciphertext (pk_body pkt))) = db_ciphertext (pk_body pkt)"
    using assms(1,2) by (simp_all add: w wf_DataBody_def parse_simps get_bytes_all)
  show "get_bytes w 2 4 ! 0 = h_version (pk_header pkt)"
    by (simp add: w header_bytes_def get_bytes_def be8_def be16_def)
qed

lemma data_aad_first:
  assumes "(c :: u32) < 256"
  shows "data_aad (ucast c) u ! 0 = 0"
proof -
  have "unat c < 256" using assms by (simp add: word_less_nat_alt)
  then have "unat (ucast c :: u16) < 256" by (simp add: unsigned_ucast_eq take_bit_nat_eq_self)
  then have "drop_bit 8 (ucast c :: u16) = 0"
    by (simp add: word_unat_eq_iff drop_bit_eq_div unat_div_distrib)
  then show ?thesis by (simp add: data_aad_def WriteU16BE_def)
qed

text \<open>
  C23.  Telemetry from the UAV to the cluster head.  \<open>SendData\<close> seals the payload with
  the cluster id and the UAV id as additional authenticated data.  The cluster head,
  holding the same traffic and HMAC key, accepts the HMAC and finds IV, tag and
  ciphertext, but opens them with other additional data, the bytes 2 to 5 of the
  header (protocol version, packet type, flags and priority), for every cluster id
  below 256.  So what is logged and forwarded is what AES-GCM answers for the wrong
  additional data: if it rejects that, as authenticated encryption does, no genuine
  telemetry ever passes.
\<close>
theorem telemetry_opened_with_wrong_aad:
  assumes "hmac_law E" "gcm_law E" "wf_world W" "length payload < 2 ^ 32 - 104"
    "uv_send_socket uav" "us_tek_valid (uv_state uav)" "uv_topo uav \<noteq> None" "uv_cluster_id uav < 256"
    "us_hmac_key (uv_state uav) = sd_hmac_key (sk_state skdc)"
    "us_current_tek (uv_state uav) = sd_current_tek (sk_state skdc)"
  shows "\<exists>uav' W' wire iv ct tag aad. SendData E payload uav W = Inr (uav', W') \<and>
    env_sent W' = env_sent W @
      [\<lparr> dg_dest = ToSkdcWifi (uv_cluster_id uav), dg_port = 9100, dg_payload = wire \<rparr>] \<and>
    x_gcm_encrypt E (us_current_tek (uv_state uav)) iv
      (data_aad (ucast (uv_cluster_id uav)) (ucast (uv_uav_id uav))) payload = (ct, tag) \<and>
    aad \<noteq> data_aad (ucast (uv_cluster_id uav)) (ucast (uv_uav_id uav)) \<and>
    data_from_uav E wire (skdc, V) =
      (case x_gcm_decrypt E (sd_current_tek (sk_state skdc)) iv aad ct tag of
         None \<Rightarrow> (skdc \<lparr> sk_data_rx_count := sk_data_rx_count skdc + 1 \<rparr>, V)
       | Some pt \<Rightarrow> forward_to_kdc E pt (skdc \<lparr> sk_data_rx_count := sk_data_rx_count skdc + 1,
           sk_telemetry := sk_telemetry skdc @ [pt] \<rparr>, V))"
proof -
  let ?c = "uv_cluster_id uav" and ?tek = "us_current_tek (uv_state uav)" and ?key = "us_hmac_key (uv_state uav)"
  let ?aad = "data_aad (ucast ?c) (ucast (uv_uav_id uav))"
  obtain r W1 where r: "data_readings W = (r, W1)" by fastforce
  have wf: "wf_readings r" "env_sent W1 = env_sent W"
    using data_readings_simps[of W] assms(3) r by auto
  obtain pkt seq where pkt: "Data_Build E r (ucast ?c) (ucast (uv_uav_id uav)) (ucast (?c + 100))
      (us_data_seq (uv_state uav) + 1) payload ?tek (uv_seq uav) = (pkt, seq)" by fastforce
  have small: "length payload < 2 ^ 32" using assms(4) by simp
  obtain ct tag where e: "x_gcm_encrypt E ?tek (r_aes_iv r) ?aad payload = (ct, tag)" "length ct = length payload"
    and b: "wf_DataBody (pk_body pkt)" "length (h_nonce (pk_header pkt)) = 16"
      "h_version (pk_header pkt) = PROTOCOL_VERSION"
    and f: "db_aes_iv (pk_body pkt) = r_aes_iv r" "db_aes_tag (pk_body pkt) = tag" "db_ciphertext (pk_body pkt) = ct"
    by (rule data_packet_built[OF assms(2) wf(1) small pkt])
  define w where "w = DataPacket_Serialize pkt"
  define wire where "wire = w @ x_hmac_sha256 E ?key w"
  define aad where "aad = get_bytes w 2 4"
  note rd = data_wire_reads[OF b(1,2), folded w_def aad_def, unfolded f b(3)]
  have n: "unat (word_of_nat (length ct) :: u32) = length ct"
    using small e(2) by (simp add: unat_word_of_nat_small)
  have pk: "take (length wire - 32) wire = w" "length wire = 136 + length ct"
    using assms(1) rd(1) by (simp_all add: wire_def hmac_length)
  have "\<exists>uav' W'. SendData E payload uav W = Inr (uav', W') \<and> env_sent W' = env_sent W @
      [\<lparr> dg_dest = ToSkdcWifi ?c, dg_port = 9100, dg_payload = wire \<rparr>]"
    using assms(1,5-7) r pkt wf(2)
    by (auto simp: SendData_def AppendHmac_eq Uav_GetSkdcWifiAddr_def wire_def w_def Let_def)
  moreover have "aad \<noteq> ?aad"
    using rd(6)[folded aad_def] data_aad_first[OF assms(8), of "ucast (uv_uav_id uav)"] by (auto simp: PROTOCOL_VERSION_def)
  moreover have "data_from_uav E wire (skdc, V) =
      (case x_gcm_decrypt E (sd_current_tek (sk_state skdc)) (r_aes_iv r) aad ct tag of
         None \<Rightarrow> (skdc \<lparr> sk_data_rx_count := sk_data_rx_count skdc + 1 \<rparr>, V)
       | Some pt \<Rightarrow> forward_to_kdc E pt (skdc \<lparr> sk_data_rx_count := sk_data_rx_count skdc + 1,
           sk_telemetry := sk_telemetry skdc @ [pt] \<rparr>, V))"
    using signed_data[OF assms(1), of "sd_hmac_key (sk_state skdc)" w] pk rd(1-5) n assms(9)
    by (simp add: data_from_uav_def decrypt_data_def wire_def aad_def Let_def Decrypt_def split: option.split)
  ultimately show ?thesis using e(1) by blast
qed

section \<open>Concrete runs\<close>

definition demo_sender :: UavApp where
  "demo_sender = (demo_uav 3) \<lparr> uv_send_socket := True, uv_state := UavState_new \<lparr> us_tek_valid := True \<rparr> \<rparr>"

definition demo_head :: SkdcApp where
  "demo_head = (demo_skdc 0) \<lparr> sk_forward_socket := True \<rparr>"

lemma demo_shared: "shared_tek demo_head (demo_kdc (demo_params tok))"
  by (simp add: shared_tek_def demo_head_def demo_skdc_def demo_kdc_def SkdcApplication_new_def SkdcState_new_def
      KdcApplication_new_def KdcClusterState_new_def KeyFromAesKey_def)

lemma demo_head_simps:
  "sk_forward_socket demo_head" "sk_topo demo_head \<noteq> None" "sd_hmac_key (sk_state demo_head) = replicate 32 0"
  "sd_current_tek (sk_state demo_head) = replicate 32 0"
  by (simp_all add: demo_head_def demo_skdc_def SkdcApplication_new_def SkdcState_new_def)

lemma kdc_logs_telemetry_witness:
  "\<exists>p W' m. forward_to_kdc toy_ext [72, 105] (demo_head, demo_world) = (demo_head, W') \<and> env_sent W' = [m] \<and>
      telemetry_from_skdc toy_ext (ToCsma 1, dg_payload m) (demo_kdc p, demo_world) =
        cret (logged 0 (ToCsma 1) [72, 105] (demo_kdc p) demo_world, demo_world) \<and>
    (\<exists>skdc' W'' m'. data_from_uav toy_ext (replicate 136 1) (demo_head, demo_world) = (skdc', W'') \<and> env_sent W'' = [m'] \<and>
      telemetry_from_skdc toy_ext (ToCsma 1, dg_payload m') (demo_kdc p, demo_world) =
        cret (logged 0 (ToCsma 1) [] (demo_kdc p) demo_world, demo_world))"
proof -
  fix tok :: MTokenResult
  have len: "length [72, 105 :: u8] < 2 ^ 32 - 36" by simp
  have "x_hmac_sha256 toy_ext k d ! 0 = 0" for k d by (simp add: toy_ext_def nth_append)
  then have "x_hmac_sha256 toy_ext k d \<noteq> replicate 32 1" for k d
    by (metis nth_replicate zero_neq_one zero_less_numeral)
  then have bad: "136 \<le> length (replicate 136 (1 :: u8)) \<and>
      \<not> data_hmac_ok toy_ext (sd_hmac_key (sk_state demo_head)) (replicate 136 1)"
    by (simp add: data_hmac_ok_def Hmac_Verify_eq[OF toy_hmac])
  have c: "sk_cluster_id demo_head = 0" "env_sent demo_world = []"
    by (simp_all add: demo_head_def demo_skdc_def demo_world_def)
  from kdc_logs_telemetry[OF toy_hmac toy_gcm demo_world_wf demo_shared[of tok] demo_head_simps(1,2),
      of "[72, 105]" "ToCsma 1" demo_world "replicate 136 1"] len bad
  show ?thesis unfolding c by (metis (no_types) append_Nil)
qed

lemma telemetry_opened_with_wrong_aad_witness:
  "\<exists>uav' W' wire. SendData toy_ext [72, 105] demo_sender demo_world = Inr (uav', W') \<and>
    env_sent W' = [\<lparr> dg_dest = ToSkdcWifi 0, dg_port = 9100, dg_payload = wire \<rparr>] \<and>
    (\<exists>iv ct tag aad. aad \<noteq> data_aad 0 (ucast (3 :: u32)) \<and> data_from_uav toy_ext wire (demo_head, demo_world) =
      (case x_gcm_decrypt toy_ext (replicate 32 0) iv aad ct tag of
         None \<Rightarrow> (demo_head \<lparr> sk_data_rx_count := 1 \<rparr>, demo_world)
       | Some pt \<Rightarrow> forward_to_kdc toy_ext pt (demo_head \<lparr> sk_data_rx_count := 1, sk_telemetry := [pt] \<rparr>, demo_world)))"
proof -
  have u: "uv_send_socket demo_sender" "us_tek_valid (uv_state demo_sender)" "uv_topo demo_sender \<noteq> None"
    "uv_cluster_id demo_sender < 256" "us_hmac_key (uv_state demo_sender) = sd_hmac_key (sk_state demo_head)"
    "us_current_tek (uv_state demo_sender) = sd_current_tek (sk_state demo_head)"
    and c: "uv_cluster_id demo_sender = 0" "uv_uav_id demo_sender = 3" "env_sent demo_world = []"
      "sk_data_rx_count demo_head = 0" "sk_telemetry demo_head = []"
    by (simp_all add: demo_sender_def demo_uav_def UavApplication_new_def UavState_new_def demo_head_def demo_skdc_def
        SkdcApplication_new_def SkdcState_new_def demo_world_def)
  have len: "length [72, 105 :: u8] < 2 ^ 32 - 104" by simp
  from telemetry_opened_with_wrong_aad[OF toy_hmac toy_gcm demo_world_wf len u, of demo_world]
  show ?thesis unfolding c demo_head_simps by (simp only: append_Nil add_0 ucast_0) blast
qed

end
