(* ===== verification/Uav_Runs.thy ===== *)
theory Uav_Runs
  imports Uav_App Skdc_Runs
begin

text \<open>
  What a UAV does over whole runs: how it takes the token a cluster head broadcasts,
  and what no sequence of packets, handovers, telemetry and acknowledgements changes.
\<close>

section \<open>The own cluster's token\<close>

definition holds_key :: "CryptoParamsFile \<Rightarrow> ClusterCryptoEntry \<Rightarrow> SlaveKeyEntry \<Rightarrow> UavApp \<Rightarrow> bool" where
  "holds_key p cp s uav \<longleftrightarrow> uv_params uav = Some p \<and> Params_GetCluster p (uv_cluster_id uav) = Some cp \<and>
     s \<in> set (cc_slave_keys cp) \<and> sk_uav_index s \<in> set (cc_user_indices cp) \<and>
     us_d_i (uv_state uav) = sk_d s \<and> us_n_i (uv_state uav) = sk_n s"

definition token_cluster :: "ClusterCryptoEntry \<Rightarrow> bool" where
  "token_cluster cp \<longleftrightarrow> mkg_ok (cs_mkg (load_cluster cp)) \<and>
     token_ok (cs_mkg (load_cluster cp)) (cs_mtoken (load_cluster cp)) \<and> 0 < cc_tek_int cp"

lemma slave_d_pos:
  assumes "slave_ok s"
  shows "0 < sk_d s"
proof -
  let ?m = "4 * sk_x s * sk_y s"
  have facts: "sk_xy s = sk_x s * sk_y s" "sk_e s mod 4 = 1" "coprime (sk_e s) (sk_xy s)"
    "sk_d s = sk_e s ^ nat (2 * (sk_x s - 1) * (sk_y s - 1) - 1) mod ?m"
    using assms unfolding slave_ok_def by blast+
  have m: "?m = 4 * sk_xy s" "1 < ?m" using facts(1) slave_facts(9)[OF assms] by simp_all
  have "odd (sk_e s)" using facts(2) by presburger
  then have "coprime (sk_e s) 4" using coprime_4_odd[of "sk_e s"] by (simp add: coprime_commute)
  with facts(3) have "coprime (sk_e s) ?m" unfolding m(1) by simp
  then have cop: "coprime (sk_e s ^ k) ?m" for k by (rule coprime_power_left_iff[THEN iffD2, OF disjI1])
  have "\<not> ?m dvd sk_e s ^ k" for k
  proof
    assume "?m dvd sk_e s ^ k"
    then have "is_unit ?m" using coprime_common_divisor[OF cop[of k], of ?m] by simp
    then show False using m(2) zdvd_not_zless[of 1 ?m] by auto
  qed
  then have "sk_d s \<noteq> 0" unfolding facts(4) by (simp add: dvd_eq_mod_eq_0)
  moreover have "0 \<le> sk_d s" using m(2) unfolding facts(4) by (intro pos_mod_sign) linarith
  ultimately show ?thesis by linarith
qed

lemma DecryptMtk_own:
  assumes "powm_law E" "token_cluster cp" "holds_key p cp s uav"
  shows "DecryptMtk E (cc_MT_K cp) ng uav =
    Inr (upd_uav (us_tek_valid_update (\<lambda>_. True)) (uav \<lparr> uv_mtk_received := uv_mtk_received uav + 1 \<rparr>), True)"
proof -
  have s: "s \<in> set (mk_slaves (cs_mkg (load_cluster cp)))" "sk_uav_index s \<in> set (mt_user_indices (cs_mtoken (load_cluster cp)))"
    using assms(3) by (simp_all add: holds_key_def load_cluster_def)
  have mkg: "mkg_ok (cs_mkg (load_cluster cp))" "token_ok (cs_mkg (load_cluster cp)) (cs_mtoken (load_cluster cp))"
    "0 < cc_tek_int cp" using assms(2) by (simp_all add: token_cluster_def)
  have ok: "slave_ok s" by (rule mkg_slave(1)[OF mkg(1) s(1)])
  have "ModPow E (cc_MT_K cp) (sk_d s) (sk_n s) = Inr (cc_tek_int cp mod sk_n s)"
    using SlaveDecrypt_eq[OF assms(1) mkg(1,2) s] by (simp add: SlaveDecrypt_def load_cluster_def)
  with assms(3) mkg(3) slave_d_pos[OF ok] slave_facts(4)[OF ok] show ?thesis
    by (auto simp: DecryptMtk_def holds_key_def matches_def Mod_pos)
qed

definition took_token :: "u32 \<Rightarrow> UavApp \<Rightarrow> UavApp" where
  "took_token v uav = upd_uav (\<lambda>st. st \<lparr> us_rekey_version := v, us_tek_valid := True \<rparr>)
     (uav \<lparr> uv_mtk_received := uv_mtk_received uav + 1 \<rparr>)"

lemma packet_token:
  assumes "powm_law E" "token_cluster cp" "holds_key p cp s uav"
    "carries_token (uv_cluster_id uav) (cc_MT_K cp) n buf"
  shows "\<exists>pkt. DeserializeNoHmac buf = Inr pkt \<and> mb_mtk (pk_body pkt) = cc_MT_K cp \<and>
    packet_from_skdc E buf (uav, skdc, W) =
      (if mb_version (pk_body pkt) \<le> us_rekey_version (uv_state uav) then (uav, skdc, W)
       else ack_rekey (mb_version (pk_body pkt)) (took_token (mb_version (pk_body pkt)) uav, skdc, W))"
proof -
  from assms(4) obtain pkt where pkt: "PeekType buf = MTK_PACKET" "DeserializeNoHmac buf = Inr pkt"
    "mb_cluster_id (pk_body pkt) = uv_cluster_id uav" "mb_mtk (pk_body pkt) = cc_MT_K cp"
    by (auto simp: carries_token_def)
  have len: "48 + Mtk_MIN_SIZE + 32 \<le> length buf"
    using pkt(2) by (auto simp: Mtk_generic(2) deserialize_unchecked_def split: if_splits)
  let ?v = "mb_version (pk_body pkt)" and ?uav = "upd_uav (us_rekey_version_update (\<lambda>_. mb_version (pk_body pkt))) uav"
  have "DecryptMtk E (cc_MT_K cp) ng ?uav = Inr (took_token ?v uav, True)" for ng
    using DecryptMtk_own[OF assms(1,2), of p s ?uav ng] assms(3) by (simp add: holds_key_def took_token_def)
  with pkt len show ?thesis
    by (auto simp: packet_from_skdc_def ProcessMtkPacket_def Header_WIRE_SIZE_def Let_def)
qed

text \<open>
  C25.  How a UAV takes a rekey.  Let an SKDC have done whatever since its start, and
  let a UAV hold the key of a slave listed in its cluster's token.  Each datagram the
  SKDC has broadcast to the MT\_K port parses to a packet with the token of the parameter file, and
  that packet's version field decides what the datagram does to the UAV: nothing if it
  is not above the UAV's rekey version; otherwise the UAV stores exactly that version,
  verifies the token with its own slave key, marks its traffic key as valid, counts
  the packet and acknowledges that version to the SKDC it was configured with.  In no
  case does its traffic key or HMAC key change: the key recovered from the token is
  compared and thrown away.  A second copy of the datagram does nothing.
\<close>
theorem uav_takes_broadcast:
  assumes "msb_law E" "powm_law E" "wf_world W" "unat c < length (cp_clusters params)"
    "cp = cp_clusters params ! unat c" "Params_GetCluster params c = Some cp" "token_cluster cp"
    "wire_size E (cc_MT_K cp) < 2 ^ 32" "wire_size E (cc_N_group cp) < 2 ^ 32"
    "Skdc_StartApplication (configured c node topo params) W = Inr st0" "env_sent W = []"
    "skdc_reach E st0 (app, W')" "d \<in> set (env_sent W')" "dg_port d = 9200"
    and "holds_key params cp s uav" "uv_cluster_id uav = c"
  shows "\<exists>pkt uav' peer' V'. DeserializeNoHmac (dg_payload d) = Inr pkt \<and> mb_mtk (pk_body pkt) = cc_MT_K cp \<and>
    packet_from_skdc E (dg_payload d) (uav, peer, V) = (uav', peer', V') \<and>
    (uav', peer', V') = (if mb_version (pk_body pkt) \<le> us_rekey_version (uv_state uav) then (uav, peer, V)
                         else ack_rekey (mb_version (pk_body pkt)) (took_token (mb_version (pk_body pkt)) uav, peer, V)) \<and>
    us_current_tek (uv_state uav') = us_current_tek (uv_state uav) \<and>
    us_hmac_key (uv_state uav') = us_hmac_key (uv_state uav) \<and>
    us_rekey_version (uv_state uav') = max (mb_version (pk_body pkt)) (us_rekey_version (uv_state uav)) \<and>
    (mb_version (pk_body pkt) > us_rekey_version (uv_state uav) \<longrightarrow> us_tek_valid (uv_state uav')) \<and>
    packet_from_skdc E (dg_payload d) (uav', peer', V') = (uav', peer', V')"
proof -
  have tok: "mkg_ok (cs_mkg (load_cluster cp))" "token_ok (cs_mkg (load_cluster cp)) (cs_mtoken (load_cluster cp))"
    using assms(7) by (simp_all add: token_cluster_def)
  have carries: "carries_token (uv_cluster_id uav) (cc_MT_K cp) (cc_N_group cp) (dg_payload d)"
    unfolding assms(16) by (rule run_carries_token[OF assms(1,3-5) tok assms(8-14)])
  from packet_token[OF assms(2,7,15) this, of peer V] obtain pkt where
    pkt: "DeserializeNoHmac (dg_payload d) = Inr pkt" "mb_mtk (pk_body pkt) = cc_MT_K cp" and
    step: "packet_from_skdc E (dg_payload d) (uav, peer, V) = (if mb_version (pk_body pkt) \<le> us_rekey_version (uv_state uav)
      then (uav, peer, V) else ack_rekey (mb_version (pk_body pkt)) (took_token (mb_version (pk_body pkt)) uav, peer, V))"
    by blast
  let ?v = "mb_version (pk_body pkt)"
  obtain uav' peer' V' where after: "packet_from_skdc E (dg_payload d) (uav, peer, V) = (uav', peer', V')"
    by (metis surj_pair)
  have "fst (ack_rekey ?v (took_token ?v uav, peer, V)) = took_token ?v uav"
    by (auto simp: ack_rekey_def split: option.splits prod.splits)
  then have uav': "uav' = (if ?v \<le> us_rekey_version (uv_state uav) then uav else took_token ?v uav)"
    using step after by (cases "ack_rekey ?v (took_token ?v uav, peer, V)") (auto split: if_splits)
  then have same: "us_current_tek (uv_state uav') = us_current_tek (uv_state uav)"
    "us_hmac_key (uv_state uav') = us_hmac_key (uv_state uav)"
    "us_rekey_version (uv_state uav') = max ?v (us_rekey_version (uv_state uav))"
    "?v > us_rekey_version (uv_state uav) \<longrightarrow> us_tek_valid (uv_state uav')"
    by (auto simp: took_token_def max_def)
  have "holds_key params cp s uav'" "uv_cluster_id uav' = uv_cluster_id uav"
    using uav' assms(15) by (auto simp: took_token_def holds_key_def)
  with packet_token[OF assms(2,7), of params s uav' "cc_N_group cp" "dg_payload d" peer' V'] carries pkt(1) same(3)
  have "packet_from_skdc E (dg_payload d) (uav', peer', V') = (uav', peer', V')" by auto
  with pkt after trans[OF after[symmetric] step] same show ?thesis by blast
qed

section \<open>Whole runs\<close>

text \<open>
  The events a UAV takes part in; the last rule is everything the rest of the system
  does meanwhile.
\<close>

inductive uav_step :: "ext \<Rightarrow> 'a uav_world \<Rightarrow> 'a uav_world \<Rightarrow> bool" for E where
  packet: "uav_step E st (packet_from_skdc E buf st)"
| accept: "join_accept E buf (app, W) = Some (Inr (app', W')) \<Longrightarrow> uav_step E (app, skdc, W) (app', skdc, W')"
| telemetry: "SendTelemetry E mob app W = Inr (app', W') \<Longrightarrow> uav_step E (app, skdc, W) (app', skdc, W')"
| data: "SendData E payload app W = Inr (app', W') \<Longrightarrow> uav_step E (app, skdc, W) (app', skdc, W')"
| stop: "uav_step E (app, skdc, W) (Uav_StopApplication app, skdc, W)"
| others: "uav_step E (app, skdc, W) (app, skdc', W')"

definition param_keys :: "CryptoParamsFile option \<Rightarrow> bytes set" where
  "param_keys p = insert (replicate 32 0) (case p of None \<Rightarrow> {} | Some q \<Rightarrow> cc_tek ` set (cp_clusters q))"

definition uav_inv :: "UavApp \<Rightarrow> bool" where
  "uav_inv app \<longleftrightarrow> us_uav_id (uv_state app) = uv_uav_id app \<and> us_uav_index (uv_state app) = uv_uav_index app \<and>
     us_cluster_id (uv_state app) = uv_cluster_id app \<and>
     us_current_tek (uv_state app) \<in> param_keys (uv_params app) \<and>
     us_hmac_key (uv_state app) = KeyFromAesKey (us_current_tek (uv_state app)) \<and>
     us_data_seq (uv_state app) = ucast (uv_data_sent app) \<and>
     \<not> us_authenticated (uv_state app) \<and> \<not> us_joined (uv_state app)"

text \<open>What one event keeps: the identity, the parameters, and the order of versions.\<close>

definition uav_keeps :: "UavApp \<Rightarrow> UavApp \<Rightarrow> bool" where
  "uav_keeps a b \<longleftrightarrow> (uav_inv a \<longrightarrow> uav_inv b) \<and> uv_params b = uv_params a \<and> uv_uav_id b = uv_uav_id a \<and>
     us_rekey_version (uv_state a) \<le> us_rekey_version (uv_state b)"

lemma uav_keeps_refl [simp]: "uav_keeps a a"
  by (simp add: uav_keeps_def)

lemma uav_keeps_trans: "uav_keeps a b \<Longrightarrow> uav_keeps b c \<Longrightarrow> uav_keeps a c"
  by (auto simp: uav_keeps_def)

lemma find_cluster_key: "Params_GetCluster p c = Some cl \<Longrightarrow> cc_tek cl \<in> param_keys (Some p)"
  by (auto simp: Params_GetCluster_def param_keys_def find_Some_iff)

lemma try_clusters_keeps:
  "uv_params app = Some p \<Longrightarrow> try_clusters E p k cs app = Inr (app', ok) \<Longrightarrow> uav_keeps app app'"
proof (induction cs)
  case (Cons c cs)
  then show ?case
    by (auto simp: rbind_eq_Inr_iff uav_keeps_def uav_inv_def find_cluster_key
        split: if_splits option.splits)
qed simp

lemma DecryptMtk_keeps:
  assumes "DecryptMtk E k n app = Inr (app', ok)"
  shows "uav_keeps app app'"
proof -
  have done_keeps: "uav_keeps app a \<Longrightarrow>
      uav_keeps app (a \<lparr> uv_mtk_received := m, uv_state := uv_state a \<lparr> us_tek_valid := True \<rparr> \<rparr>)" for a m
    by (auto simp: uav_keeps_def uav_inv_def)
  show ?thesis
    using assms
    by (auto simp: DecryptMtk_def rbind_eq_Inr_iff split: if_splits option.splits
        intro: done_keeps try_clusters_keeps)
qed

lemma ack_rekey_fst [simp]: "fst (ack_rekey v st) = fst st"
  by (auto simp: ack_rekey_def split: option.splits prod.splits)

lemma packet_keeps: "uav_keeps (fst st) (fst (packet_from_skdc E buf st))"
proof -
  obtain app skdc W where st: "st = (app, skdc, W)" by (cases st)
  have ver: "uav_keeps app (upd_uav (us_rekey_version_update (\<lambda>_. v)) app)" if "\<not> v \<le> us_rekey_version (uv_state app)" for v
    using that by (simp add: uav_keeps_def uav_inv_def)
  have cnt: "uav_keeps app (app \<lparr> uv_rekey_count := m \<rparr>)" for m
    by (simp add: uav_keeps_def uav_inv_def)
  show ?thesis
    by (auto simp: st packet_from_skdc_def ProcessMtkPacket_def ProcessRekeyPacket_def Let_def
        split: sum.splits intro: ver cnt uav_keeps_trans[OF ver DecryptMtk_keeps] uav_keeps_trans[OF cnt DecryptMtk_keeps])
qed

lemma mod_add_mod:
  fixes a b n :: int
  assumes "b dvd a"
  shows "(n mod a + 1) mod b = (n + 1) mod b"
  by (metis assms mod_add_left_eq mod_mod_cancel)

lemma ucast_succ [simp]: "(ucast (x + 1 :: u64) :: u32) = ucast x + 1"
proof -
  have "(4294967296 :: int) dvd 18446744073709551616" by simp
  note step = mod_add_mod[OF this] mod_mod_cancel[OF this]
  show ?thesis by transfer (simp add: take_bit_eq_mod step)
qed

lemma SendData_keeps: "SendData E x app W = Inr (app', W') \<Longrightarrow> uav_keeps app app'"
  by (auto simp: SendData_def Let_def rbind_eq_Inr_iff uav_keeps_def uav_inv_def split: if_splits prod.splits)

lemma uav_step_keeps: "uav_step E st st' \<Longrightarrow> uav_keeps (fst st) (fst st')"
proof (induction rule: uav_step.induct)
  case (accept buf app W app' W' skdc)
  then show ?case
    by (auto simp: join_accept_def cret_def UpdateSlaveKey_def rbind_eq_Inr_iff uav_keeps_def uav_inv_def
        split: option.splits sum.splits if_splits)
next
  case (telemetry mob app W app' W' skdc)
  have "uav_keeps a (ScheduleTelemetry a V)" for a V
    by (simp add: ScheduleTelemetry_def uav_keeps_def uav_inv_def)
  with telemetry show ?case
    by (auto simp: SendTelemetry_def rbind_eq_Inr_iff split: if_splits
        intro: uav_keeps_trans[OF SendData_keeps])
next
  case (stop app skdc W)
  show ?case by (simp add: Uav_StopApplication_def uav_keeps_def uav_inv_def)
qed (auto intro: packet_keeps SendData_keeps)

lemma uav_steps_keep: "(uav_step E)\<^sup>*\<^sup>* st st' \<Longrightarrow> uav_keeps (fst st) (fst st')"
proof (induction rule: rtranclp_induct)
  case (step a b)
  from step.IH uav_step_keeps[OF step(2)] show ?case by (rule uav_keeps_trans)
qed simp

text \<open>An application set up as main.cc does.\<close>

definition uav_configured :: "u32 \<Rightarrow> u32 \<Rightarrow> u32 \<Rightarrow> Topology \<Rightarrow> CryptoParamsFile \<Rightarrow> UavApp" where
  "uav_configured uav_id uav_index cluster_id topo params =
     Uav_SetCryptoParams (Some params) (Uav_SetTopology (Some topo) (SetUavId uav_id uav_index cluster_id UavApplication_new))"

lemma uav_configured_inv: "uav_inv (uav_configured u i c topo params)"
  by (simp add: uav_inv_def uav_configured_def Uav_SetCryptoParams_def Uav_SetTopology_def SetUavId_def
      UavApplication_new_def UavState_new_def param_keys_def KeyFromAesKey_def)

lemma uav_start_keeps:
  assumes "Uav_StartApplication app W = Inr (app', W')"
  shows "uav_keeps app app'"
proof -
  have key: "uav_keeps a (InitializeSlaveKey a)" for a
    by (auto simp: InitializeSlaveKey_def uav_keeps_def uav_inv_def find_cluster_key split: option.splits)
  obtain gk ts where app': "app' = InitializeSlaveKey (app \<lparr> uv_recv_socket := True, uv_send_socket := True,
      uv_gk := gk, uv_join_acc_socket := True, uv_ack_send_socket := True \<rparr>) \<lparr> uv_timers := ts \<rparr>"
    using assms by (auto simp: Uav_StartApplication_def Let_def rbind_eq_Inr_iff)
  have open_keeps: "uav_keeps app (app \<lparr> uv_recv_socket := True, uv_send_socket := True,
      uv_gk := gk, uv_join_acc_socket := True, uv_ack_send_socket := True \<rparr>)"
    by (simp add: uav_keeps_def uav_inv_def)
  have timers_keep: "uav_keeps a (a \<lparr> uv_timers := ts \<rparr>)" for a
    by (simp add: uav_keeps_def uav_inv_def)
  show ?thesis unfolding app'
    by (rule uav_keeps_trans[OF uav_keeps_trans[OF open_keeps key] timers_keep])
qed

text \<open>
  C26.  What a UAV's state keeps over every run: however packets, JOIN\_ACCEPTs,
  telemetry, data and the rest of the system interleave after its start, its two
  copies of id, index and cluster agree, its traffic key is one of the keys of
  crypto\_params.json (or all zeros), its HMAC key is derived from that traffic key,
  \<open>data_seq\<close> counts the packets sent, its rekey version never decreases, and it never
  becomes authenticated or joined.  So no key that a rekey generates ever reaches a
  UAV.
\<close>
theorem uav_run_keys:
  assumes "Uav_StartApplication (uav_configured u i c topo params) W = Inr (app0, W0)"
    "(uav_step E)\<^sup>*\<^sup>* (app0, skdc0, W0) (app1, skdc1, W1)" "(uav_step E)\<^sup>*\<^sup>* (app1, skdc1, W1) (app2, skdc2, W2)"
  shows "uv_uav_id app2 = u \<and> us_uav_id (uv_state app2) = u \<and>
    us_cluster_id (uv_state app2) = uv_cluster_id app2 \<and> us_uav_index (uv_state app2) = uv_uav_index app2 \<and>
    us_current_tek (uv_state app2) \<in> insert (replicate 32 0) (cc_tek ` set (cp_clusters params)) \<and>
    us_hmac_key (uv_state app2) = KeyFromAesKey (us_current_tek (uv_state app2)) \<and>
    us_data_seq (uv_state app2) = ucast (uv_data_sent app2) \<and>
    us_rekey_version (uv_state app1) \<le> us_rekey_version (uv_state app2) \<and>
    \<not> us_authenticated (uv_state app2) \<and> \<not> us_joined (uv_state app2)"
proof -
  have start: "uav_keeps (uav_configured u i c topo params) app0" by (rule uav_start_keeps[OF assms(1)])
  have run1: "uav_keeps app0 app1" using uav_steps_keep[OF assms(2)] by simp
  have run2: "uav_keeps app1 app2" using uav_steps_keep[OF assms(3)] by simp
  have conf: "uv_params (uav_configured u i c topo params) = Some params" "uv_uav_id (uav_configured u i c topo params) = u"
    by (simp_all add: uav_configured_def Uav_SetCryptoParams_def Uav_SetTopology_def SetUavId_def)
  from uav_keeps_trans[OF uav_keeps_trans[OF start run1] run2] uav_configured_inv[of u i c topo params] conf
  have "uav_inv app2" "uv_params app2 = Some params" "uv_uav_id app2 = u"
    by (simp_all add: uav_keeps_def)
  moreover have "us_rekey_version (uv_state app1) \<le> us_rekey_version (uv_state app2)"
    using run2 by (simp add: uav_keeps_def)
  ultimately show ?thesis by (simp add: uav_inv_def param_keys_def)
qed

section \<open>Concrete runs\<close>

lemma SendData_returns: "hmac_law E \<Longrightarrow> \<exists>app' W'. SendData E x app W = Inr (app', W')"
  by (auto simp: SendData_def Let_def AppendHmac_eq split: prod.splits)

lemma demo_uav_start:
  "Uav_StartApplication (uav_configured 0 0 0 demo_topo (demo_params tok)) W =
     Inr (upd_uav (\<lambda>st. st \<lparr> us_d_i := 37, us_n_i := 77, us_e_i := 13, us_current_tek := replicate 32 0,
            us_tek_valid := True, us_hmac_key := replicate 32 0 \<rparr>)
          (uav_configured 0 0 0 demo_topo (demo_params tok) \<lparr> uv_recv_socket := True, uv_send_socket := True,
             uv_gk := replicate 32 0, uv_join_acc_socket := True, uv_ack_send_socket := True,
             uv_timers := [env_now W + (if 15 - env_now W < 3 then 3 else 15 - env_now W)] \<rparr>), W)"
  by (simp add: Uav_StartApplication_def uav_configured_def Uav_SetCryptoParams_def Uav_SetTopology_def
      SetUavId_def UavApplication_new_def UavState_new_def InitializeSlaveKey_def load_gk_def demo_params_def
      Params_GetCluster_def Cluster_GetSlaveKey_def demo_cluster_def demo_mkg_def demo_slave0_def
      KeyFromAesKey_def Let_def)

lemma uav_run_keys_witness:
  "\<exists>params app0 W0 app2 W2. Uav_StartApplication (uav_configured 0 0 0 demo_topo params) demo_world = Inr (app0, W0) \<and>
    us_tek_valid (uv_state app0) \<and> SendData toy_ext [1, 2, 3] app0 W0 = Inr (app2, W2) \<and>
    us_data_seq (uv_state app2) = ucast (uv_data_sent app2) \<and> uv_uav_id app2 = 0 \<and>
    us_hmac_key (uv_state app2) = KeyFromAesKey (us_current_tek (uv_state app2))"
proof -
  fix tok :: MTokenResult
  obtain app0 W0 where st: "Uav_StartApplication (uav_configured 0 0 0 demo_topo (demo_params tok)) demo_world = Inr (app0, W0)"
    and valid: "us_tek_valid (uv_state app0)"
    using demo_uav_start[of tok demo_world] by simp
  obtain app2 W2 where sent: "SendData toy_ext [1, 2, 3] app0 W0 = Inr (app2, W2)"
    using SendData_returns[OF toy_hmac] by blast
  have "(uav_step toy_ext)\<^sup>*\<^sup>* (app0, None, W0) (app2, None, W2)"
    using uav_step.data[OF sent] by (rule r_into_rtranclp)
  from uav_run_keys[OF st rtranclp.rtrancl_refl this] st valid sent show ?thesis by blast
qed

lemma uav_takes_broadcast_witness:
  "\<exists>tok app0 W0 app W' d uav V pkt uav' peer' V'.
    Skdc_StartApplication (configured 0 1 demo_topo (demo_params tok)) demo_world = Inr (app0, W0) \<and>
    Skdc_ProcessLeave toy_ext app0 0 W0 = Inr (app, W') \<and> d \<in> set (env_sent W') \<and>
    Uav_StartApplication (uav_configured 0 0 0 demo_topo (demo_params tok)) demo_world = Inr (uav, V) \<and>
    DeserializeNoHmac (dg_payload d) = Inr pkt \<and> mb_mtk (pk_body pkt) = mt_MT_K tok \<and>
    packet_from_skdc toy_ext (dg_payload d) (uav, None, V) = (uav', peer', V') \<and>
    us_rekey_version (uv_state uav') = mb_version (pk_body pkt) \<and> us_current_tek (uv_state uav') = replicate 32 0"
proof -
  obtain tok app0 W0 app W' d where tok: "token_ok demo_mkg tok" "mt_user_indices tok = [0]" "mt_T tok = 42"
    and run: "Skdc_StartApplication (configured 0 1 demo_topo (demo_params tok)) demo_world = Inr (app0, W0)"
      "Skdc_ProcessLeave toy_ext app0 0 W0 = Inr (app, W')" "skdc_reach toy_ext (app0, W0) (app, W')"
      "d \<in> set (env_sent W')" "dg_port d = 9200"
    and sz: "wire_size toy_ext (cc_MT_K (demo_cluster tok)) < 2 ^ 32" "wire_size toy_ext (cc_N_group (demo_cluster tok)) < 2 ^ 32"
    by (rule demo_leave_run)
  have sent: "env_sent demo_world = []" by (simp add: demo_world_def)
  have cl: "unat 0 < length (cp_clusters (demo_params tok))" "demo_cluster tok = cp_clusters (demo_params tok) ! unat 0"
    "Params_GetCluster (demo_params tok) 0 = Some (demo_cluster tok)"
    by (simp_all add: demo_params_def Params_GetCluster_def demo_cluster_def)
  have tc: "token_cluster (demo_cluster tok)"
    using demo_cluster_ok[OF tok(1)] tok(3) by (simp add: token_cluster_def demo_cluster_def)
  obtain uav V where uav: "Uav_StartApplication (uav_configured 0 0 0 demo_topo (demo_params tok)) demo_world = Inr (uav, V)"
    "us_current_tek (uv_state uav) = replicate 32 0" "us_d_i (uv_state uav) = 37" "us_n_i (uv_state uav) = 77"
    "uv_cluster_id uav = 0" "uv_params uav = Some (demo_params tok)" "us_rekey_version (uv_state uav) = 0"
    using demo_uav_start[of tok demo_world]
    by (simp add: uav_configured_def Uav_SetCryptoParams_def Uav_SetTopology_def SetUavId_def UavApplication_new_def
        UavState_new_def)
  have hk: "holds_key (demo_params tok) (demo_cluster tok) demo_slave0 uav"
    using uav(3-6) cl(3) tok(2) by (simp add: holds_key_def demo_cluster_def demo_mkg_def demo_slave0_def)
  from uav_takes_broadcast[OF toy_msb_law toy_powm demo_world_wf cl tc sz run(1) sent run(3,4,5) hk uav(5), of None V]
  obtain pkt uav' peer' V' where "DeserializeNoHmac (dg_payload d) = Inr pkt" "mb_mtk (pk_body pkt) = mt_MT_K tok"
    "packet_from_skdc toy_ext (dg_payload d) (uav, None, V) = (uav', peer', V')"
    "us_current_tek (uv_state uav') = replicate 32 0" "us_rekey_version (uv_state uav') = mb_version (pk_body pkt)"
    using uav(2,7) by (auto simp: demo_cluster_def)
  with run(1,2,4) uav(1) show ?thesis by blast
qed

end
