(* ===== verification/Metrics_Framework.thy ===== *)
theory Metrics_Framework
  imports Complex_Main Uav_Prelude "HOL-Library.AList"
begin

text \<open>
  metrics/uav-metrics-framework.\{h,cc\}: the collector of the performance figures of a
  run.  The applications and the scenario call its \<open>Record\<close> hooks, \<open>PeriodicSnapshot\<close>
  adds a point of the time series, and \<open>Finalize\<close> computes the summaries of the five
  categories.  A double is a real number (no rounding, no NaN), \<open>Simulator::Now()\<close> is
  the argument \<open>now\<close>, counters keep their width.  The export of the summaries to CSV
  files and the console summary are left out.
\<close>

section \<open>Counters and accumulators\<close>

definition NUM_CLUSTERS :: u32 where "NUM_CLUSTERS = 3"
definition UAVS_PER_CLUS :: u32 where "UAVS_PER_CLUS = 6"
definition TOTAL_UAVS :: u32 where "TOTAL_UAVS = 18"

lemmas metric_consts = NUM_CLUSTERS_def UAVS_PER_CLUS_def TOTAL_UAVS_def

record PacketCounter =
  pc_tx :: u64
  pc_rx :: u64
  pc_lost :: u64
  pc_ctrl_tx :: u64
  pc_ctrl_rx :: u64
  pc_bytes_tx :: real
  pc_bytes_rx :: real

definition PacketCounter_new :: PacketCounter where
  "PacketCounter_new = \<lparr> pc_tx = 0, pc_rx = 0, pc_lost = 0, pc_ctrl_tx = 0, pc_ctrl_rx = 0,
     pc_bytes_tx = 0, pc_bytes_rx = 0 \<rparr>"

definition PDR :: "PacketCounter \<Rightarrow> real" where
  "PDR pc = (if pc_tx pc \<noteq> 0 then real (unat (pc_rx pc)) / real (unat (pc_tx pc)) else 0)"

definition LossRatio :: "PacketCounter \<Rightarrow> real" where
  "LossRatio pc = (if pc_tx pc \<noteq> 0 then real (unat (pc_lost pc)) / real (unat (pc_tx pc)) else 0)"

definition ThroughputKbps :: "PacketCounter \<Rightarrow> real \<Rightarrow> real" where
  "ThroughputKbps pc dur_s = (if dur_s > 0 then (pc_bytes_rx pc * 8 / 1000) / dur_s else 0)"

record DelayAccumulator =
  da_sum_ms :: real
  da_sum_sq_ms :: real
  da_count :: u64
  da_min_ms :: real
  da_max_ms :: real

definition DelayAccumulator_new :: DelayAccumulator where
  "DelayAccumulator_new = \<lparr> da_sum_ms = 0, da_sum_sq_ms = 0, da_count = 0, da_min_ms = 10 ^ 9, da_max_ms = 0 \<rparr>"

definition Delay_Record :: "real \<Rightarrow> DelayAccumulator \<Rightarrow> DelayAccumulator" where
  "Delay_Record delay_ms da =
     (let da = da \<lparr> da_sum_ms := da_sum_ms da + delay_ms,
                     da_sum_sq_ms := da_sum_sq_ms da + delay_ms * delay_ms,
                     da_count := da_count da + 1 \<rparr>;
          da = (if delay_ms < da_min_ms da then da \<lparr> da_min_ms := delay_ms \<rparr> else da)
      in if delay_ms > da_max_ms da then da \<lparr> da_max_ms := delay_ms \<rparr> else da)"

definition Delay_Avg :: "DelayAccumulator \<Rightarrow> real" where
  "Delay_Avg da = (if da_count da \<noteq> 0 then da_sum_ms da / real (unat (da_count da)) else 0)"

definition Delay_Jitter :: "DelayAccumulator \<Rightarrow> real" where
  "Delay_Jitter da =
     (if da_count da < 2 then 0
      else
        let mean = Delay_Avg da;
            var = da_sum_sq_ms da / real (unat (da_count da)) - mean * mean
        in if var > 0 then sqrt var else 0)"

section \<open>Records\<close>

record RoutingStabilitySample =
  rs_time_s :: real
  rs_active_routes :: u32
  rs_broken_routes :: u32
  rs_total_nodes :: u32
  rs_stability_idx :: real

record KeyEstabRecord =
  ke_time_s :: real
  ke_uav_id :: u32
  ke_cluster_id :: u32
  ke_latency_ms :: real
  ke_success :: bool

record RekeyRecord =
  rr_time_s :: real
  rr_cluster_id :: u32
  rr_trigger :: string
  rr_latency_ms :: real
  rr_tek_version :: u32
  rr_members :: u32
  rr_msg_cost :: real

record AuthRecord =
  au_time_s :: real
  au_uav_id :: u32
  au_cluster_id :: u32
  au_success :: bool
  au_failure_reason :: string

record ReplayRecord =
  rp_time_s :: real
  rp_uav_id :: u32
  rp_seq_num :: u32
  rp_detected :: bool
  rp_was_replay :: bool

record SecrecyRecord =
  sc_time_s :: real
  sc_cluster_id :: u32
  sc_tek_version :: u32
  sc_forward_ok :: bool
  sc_backward_ok :: bool
  sc_event_type :: string

record HealingRecord =
  he_trigger_time_s :: real
  he_recovery_time_s :: real
  he_uav_id :: u32
  he_cluster_id :: u32
  he_recovered :: bool
  he_event_type :: string
  he_recovery_latency_ms :: real

record OverheadSample =
  oh_time_s :: real
  oh_cluster_id :: u32
  oh_data_bytes :: u64
  oh_ctrl_bytes :: u64
  oh_rekey_bytes :: u64
  oh_header_bytes :: u64
  oh_hmac_bytes :: u64
  oh_mtk_bytes :: u64

record ComputeTimingRecord =
  ct_operation :: string
  ct_wall_us :: real
  ct_uav_id :: u32

record MfSinrSample =
  ms_time_s :: real
  ms_uav_id :: u32
  ms_cluster_id :: u32
  ms_sinr_db :: real
  ms_jammed :: bool
  ms_drop_prob :: real

record MfJammerEvent =
  mj_start_s :: real
  mj_end_s :: real
  mj_affected_uavs :: u32
  mj_avg_sinr_db :: real
  mj_recovery_ms :: real

record LinkFailureRecord =
  lf_time_s :: real
  lf_uav_id :: u32
  lf_cluster_id :: u32
  lf_cause :: string
  lf_duration_ms :: real
  lf_recovered :: bool

record RouteBreakRecord =
  rb_time_s :: real
  rb_uav_id :: u32
  rb_cluster_id :: u32
  rb_velocity_mps :: real
  rb_triggered_rekey :: bool

record SwarmSurvivabilitySnapshot =
  sw_time_s :: real
  sw_total_uavs :: u32
  sw_active_uavs :: u32
  sw_jammed_uavs :: u32
  sw_compromised_uavs :: u32
  sw_disconnected_uavs :: u32
  sw_survivability_ratio :: real
  sw_connectivity_ratio :: real

record ClusterHeadStabilityRecord =
  ch_time_s :: real
  ch_cluster_id :: u32
  ch_skdc_node_id :: u32
  ch_active_members :: u32
  ch_skdc_reachable :: bool
  ch_avg_member_dist_m :: real

record TimeSeriesPoint =
  ts_t :: real
  ts_pdr :: real
  ts_throughput :: real
  ts_delay_ms :: real
  ts_sinr_db :: real
  ts_rekeys :: u32
  ts_survivability :: real
  ts_connectivity :: real
  ts_overhead_ratio :: real

section \<open>Summaries\<close>

record NetworkMetricsSummary =
  ns_global_pdr :: real
  ns_pdr_per_cluster :: "real list"
  ns_pdr_per_uav :: "real list"
  ns_global_throughput_kbps :: real
  ns_throughput_per_cluster_kbps :: "real list"
  ns_throughput_per_uav_kbps :: "real list"
  ns_global_avg_delay_ms :: real
  ns_global_jitter_ms :: real
  ns_delay_per_cluster_ms :: "real list"
  ns_delay_per_uav_ms :: "real list"
  ns_global_loss_ratio :: real
  ns_loss_per_cluster :: "real list"
  ns_avg_routing_stability :: real
  ns_avg_connectivity_ratio :: real
  ns_total_route_breaks :: u32

record SecurityMetricsSummary =
  ss_avg_key_estab_ms :: real
  ss_max_key_estab_ms :: real
  ss_total_key_estabs :: u32
  ss_avg_rekey_latency_ms :: real
  ss_max_rekey_latency_ms :: real
  ss_total_rekeys :: u32
  ss_rekeys_per_cluster :: "u32 list"
  ss_avg_rekey_msg_cost_bytes :: real
  ss_auth_success_rate :: real
  ss_auth_attempts :: u32
  ss_auth_successes :: u32
  ss_forward_secrecy_rate :: real
  ss_backward_secrecy_rate :: real
  ss_secrecy_checks :: u32
  ss_replay_detection_rate :: real
  ss_replay_false_pos_rate :: real
  ss_replay_attacks :: u32
  ss_replay_detected :: u32
  ss_avg_recovery_ms :: real
  ss_healing_success_rate :: real
  ss_healing_events :: u32

record OverheadMetricsSummary =
  os_comm_overhead_ratio :: real
  os_rekey_overhead_ratio :: real
  os_header_overhead_ratio :: real
  os_hmac_overhead_ratio :: real
  os_ctrl_bytes_per_sec :: real
  os_rekey_bytes_per_rekey :: real
  os_avg_aes_enc_us :: real
  os_avg_aes_dec_us :: real
  os_avg_hmac_us :: real
  os_avg_crt_verify_us :: real
  os_avg_rekey_compute_us :: real
  os_storage_per_uav_bytes :: real

record DeniedEnvMetricsSummary =
  ds_avg_sinr_db :: real
  ds_min_sinr_db :: real
  ds_sinr_stddev_db :: real
  ds_jammed_uav_ratio :: real
  ds_avg_recovery_after_jam_ms :: real
  ds_link_failure_rate :: real
  ds_total_link_failures :: u32
  ds_interference_impact :: real

record MobilityMetricsSummary =
  mo_cluster_head_stability :: real
  mo_avg_route_break_freq :: real
  mo_total_route_breaks :: u32
  mo_mobility_rekey_corr :: real
  mo_swarm_survivability :: real
  mo_avg_connectivity_ratio :: real
  mo_handover_trigger_rate :: real

record FullMetricsSummary =
  fs_network :: NetworkMetricsSummary
  fs_security :: SecurityMetricsSummary
  fs_overhead :: OverheadMetricsSummary
  fs_denied :: DeniedEnvMetricsSummary
  fs_mobility :: MobilityMetricsSummary
  fs_simulation_duration_s :: real
  fs_seed :: u32
  fs_run_index :: u32

definition FullMetricsSummary_new :: FullMetricsSummary where
  "FullMetricsSummary_new =
     \<lparr> fs_network = \<lparr> ns_global_pdr = 0, ns_pdr_per_cluster = replicate 3 0, ns_pdr_per_uav = replicate 18 0,
         ns_global_throughput_kbps = 0, ns_throughput_per_cluster_kbps = replicate 3 0,
         ns_throughput_per_uav_kbps = replicate 18 0, ns_global_avg_delay_ms = 0, ns_global_jitter_ms = 0,
         ns_delay_per_cluster_ms = replicate 3 0, ns_delay_per_uav_ms = replicate 18 0, ns_global_loss_ratio = 0,
         ns_loss_per_cluster = replicate 3 0, ns_avg_routing_stability = 0, ns_avg_connectivity_ratio = 0,
         ns_total_route_breaks = 0 \<rparr>,
       fs_security = \<lparr> ss_avg_key_estab_ms = 0, ss_max_key_estab_ms = 0, ss_total_key_estabs = 0,
         ss_avg_rekey_latency_ms = 0, ss_max_rekey_latency_ms = 0, ss_total_rekeys = 0,
         ss_rekeys_per_cluster = replicate 3 0, ss_avg_rekey_msg_cost_bytes = 0, ss_auth_success_rate = 0,
         ss_auth_attempts = 0, ss_auth_successes = 0, ss_forward_secrecy_rate = 0, ss_backward_secrecy_rate = 0,
         ss_secrecy_checks = 0, ss_replay_detection_rate = 0, ss_replay_false_pos_rate = 0, ss_replay_attacks = 0,
         ss_replay_detected = 0, ss_avg_recovery_ms = 0, ss_healing_success_rate = 0, ss_healing_events = 0 \<rparr>,
       fs_overhead = \<lparr> os_comm_overhead_ratio = 0, os_rekey_overhead_ratio = 0, os_header_overhead_ratio = 0,
         os_hmac_overhead_ratio = 0, os_ctrl_bytes_per_sec = 0, os_rekey_bytes_per_rekey = 0, os_avg_aes_enc_us = 0,
         os_avg_aes_dec_us = 0, os_avg_hmac_us = 0, os_avg_crt_verify_us = 0, os_avg_rekey_compute_us = 0,
         os_storage_per_uav_bytes = 0 \<rparr>,
       fs_denied = \<lparr> ds_avg_sinr_db = 0, ds_min_sinr_db = 10 ^ 9, ds_sinr_stddev_db = 0, ds_jammed_uav_ratio = 0,
         ds_avg_recovery_after_jam_ms = 0, ds_link_failure_rate = 0, ds_total_link_failures = 0,
         ds_interference_impact = 0 \<rparr>,
       fs_mobility = \<lparr> mo_cluster_head_stability = 0, mo_avg_route_break_freq = 0, mo_total_route_breaks = 0,
         mo_mobility_rekey_corr = 0, mo_swarm_survivability = 0, mo_avg_connectivity_ratio = 0,
         mo_handover_trigger_rate = 0 \<rparr>,
       fs_simulation_duration_s = 0, fs_seed = 0, fs_run_index = 0 \<rparr>"

section \<open>The collector\<close>

record MetricsFramework =
  mf_seed :: u32
  mf_pkt_global :: PacketCounter
  mf_pkt_cluster :: "PacketCounter list"
  mf_pkt_uav :: "PacketCounter list"
  mf_delay_global :: DelayAccumulator
  mf_delay_cluster :: "DelayAccumulator list"
  mf_delay_uav :: "DelayAccumulator list"
  mf_stability_samples :: "RoutingStabilitySample list"
  mf_connectivity_samples :: "real list"
  mf_key_estab :: "KeyEstabRecord list"
  mf_rekeys :: "RekeyRecord list"
  mf_auth :: "AuthRecord list"
  mf_secrecy :: "SecrecyRecord list"
  mf_replay :: "ReplayRecord list"
  mf_healing :: "HealingRecord list"
  mf_overhead_samples :: "OverheadSample list"
  mf_compute_timings :: "ComputeTimingRecord list"
  mf_sinr_samples :: "MfSinrSample list"
  mf_jammer_events :: "MfJammerEvent list"
  mf_link_failures :: "LinkFailureRecord list"
  mf_jammer_recovery_ms :: "(u32 \<times> real) list"
  mf_route_breaks :: "RouteBreakRecord list"
  mf_swarm_snaps :: "SwarmSurvivabilitySnapshot list"
  mf_cluster_head :: "ClusterHeadStabilityRecord list"
  mf_timeseries :: "TimeSeriesPoint list"
  mf_snapshot_interval_s :: real
  mf_snapshot_count :: u32
  mf_summary :: FullMetricsSummary
  mf_finalized :: bool

definition MetricsFramework_new :: "u32 \<Rightarrow> MetricsFramework" where
  "MetricsFramework_new seed =
     \<lparr> mf_seed = seed, mf_pkt_global = PacketCounter_new, mf_pkt_cluster = replicate 3 PacketCounter_new,
       mf_pkt_uav = replicate 18 PacketCounter_new, mf_delay_global = DelayAccumulator_new,
       mf_delay_cluster = replicate 3 DelayAccumulator_new, mf_delay_uav = replicate 18 DelayAccumulator_new,
       mf_stability_samples = [], mf_connectivity_samples = [], mf_key_estab = [], mf_rekeys = [], mf_auth = [],
       mf_secrecy = [], mf_replay = [], mf_healing = [], mf_overhead_samples = [], mf_compute_timings = [],
       mf_sinr_samples = [], mf_jammer_events = [], mf_link_failures = [], mf_jammer_recovery_ms = [],
       mf_route_breaks = [], mf_swarm_snaps = [], mf_cluster_head = [], mf_timeseries = [],
       mf_snapshot_interval_s = 1, mf_snapshot_count = 0, mf_summary = FullMetricsSummary_new,
       mf_finalized = False \<rparr>"

definition ClusterId :: "u32 \<Rightarrow> u32" where
  "ClusterId uav_id = (if uav_id < TOTAL_UAVS then uav_id div UAVS_PER_CLUS else 0)"

text \<open>The access \<open>xs[i] = f(xs[i])\<close> of an array; the callers check the index.\<close>

definition upd_at :: "nat \<Rightarrow> ('a \<Rightarrow> 'a) \<Rightarrow> 'a list \<Rightarrow> 'a list" where
  "upd_at i f xs = xs[i := f (xs ! i)]"

text \<open>
  \<open>Initialize\<close> stores the interval and schedules the first \<open>PeriodicSnapshot\<close>, which
  schedules the next one; when they run is up to the simulator.
\<close>

definition Mf_Initialize :: "real \<Rightarrow> MetricsFramework \<Rightarrow> MetricsFramework" where
  "Mf_Initialize snapshot_interval_s mf = mf \<lparr> mf_snapshot_interval_s := snapshot_interval_s \<rparr>"

section \<open>Hooks\<close>

definition count_tx :: "u32 \<Rightarrow> bool \<Rightarrow> PacketCounter \<Rightarrow> PacketCounter" where
  "count_tx bytes is_ctrl pc =
     (let pc = pc \<lparr> pc_tx := pc_tx pc + 1, pc_bytes_tx := pc_bytes_tx pc + real (unat bytes) \<rparr>
      in if is_ctrl then pc \<lparr> pc_ctrl_tx := pc_ctrl_tx pc + 1 \<rparr> else pc)"

definition count_rx :: "u32 \<Rightarrow> bool \<Rightarrow> PacketCounter \<Rightarrow> PacketCounter" where
  "count_rx bytes is_ctrl pc =
     (let pc = pc \<lparr> pc_rx := pc_rx pc + 1, pc_bytes_rx := pc_bytes_rx pc + real (unat bytes) \<rparr>
      in if is_ctrl then pc \<lparr> pc_ctrl_rx := pc_ctrl_rx pc + 1 \<rparr> else pc)"

definition count_loss :: "PacketCounter \<Rightarrow> PacketCounter" where
  "count_loss pc = pc \<lparr> pc_lost := pc_lost pc + 1 \<rparr>"

text \<open>The counter of the network, and those of the UAV and its cluster when there is such a UAV.\<close>

definition count_packet :: "u32 \<Rightarrow> (PacketCounter \<Rightarrow> PacketCounter) \<Rightarrow> MetricsFramework \<Rightarrow> MetricsFramework" where
  "count_packet uav_id f mf =
     (let mf = mf \<lparr> mf_pkt_global := f (mf_pkt_global mf) \<rparr>
      in if uav_id < TOTAL_UAVS then
           let c = ClusterId uav_id
           in mf \<lparr> mf_pkt_uav := upd_at (unat uav_id) f (mf_pkt_uav mf),
                   mf_pkt_cluster := upd_at (unat c) f (mf_pkt_cluster mf) \<rparr>
         else mf)"

definition RecordTx :: "u32 \<Rightarrow> u32 \<Rightarrow> bool \<Rightarrow> MetricsFramework \<Rightarrow> MetricsFramework" where
  "RecordTx uav_id bytes is_ctrl mf = count_packet uav_id (count_tx bytes is_ctrl) mf"

definition RecordRx :: "u32 \<Rightarrow> u32 \<Rightarrow> real \<Rightarrow> bool \<Rightarrow> MetricsFramework \<Rightarrow> MetricsFramework" where
  "RecordRx uav_id bytes delay_ms is_ctrl mf =
     (let mf = count_packet uav_id (count_rx bytes is_ctrl) mf;
          mf = mf \<lparr> mf_delay_global := Delay_Record delay_ms (mf_delay_global mf) \<rparr>
      in if uav_id < TOTAL_UAVS then
           let c = ClusterId uav_id
           in mf \<lparr> mf_delay_uav := upd_at (unat uav_id) (Delay_Record delay_ms) (mf_delay_uav mf),
                   mf_delay_cluster := upd_at (unat c) (Delay_Record delay_ms) (mf_delay_cluster mf) \<rparr>
         else mf)"

definition RecordLoss :: "u32 \<Rightarrow> u32 \<Rightarrow> MetricsFramework \<Rightarrow> MetricsFramework" where
  "RecordLoss uav_id bytes mf = count_packet uav_id count_loss mf"

definition RecordRoutingUpdate :: "real \<Rightarrow> u32 \<Rightarrow> u32 \<Rightarrow> MetricsFramework \<Rightarrow> MetricsFramework" where
  "RecordRoutingUpdate now active_routes broken_routes mf =
     (let total = active_routes + broken_routes;
          s = \<lparr> rs_time_s = now, rs_active_routes = active_routes, rs_broken_routes = broken_routes,
                rs_total_nodes = TOTAL_UAVS,
                rs_stability_idx = (if total \<noteq> 0 then real (unat active_routes) / real (unat total) else 1) \<rparr>
      in mf \<lparr> mf_stability_samples := mf_stability_samples mf @ [s] \<rparr>)"

definition RecordConnectivitySample :: "u32 \<Rightarrow> u32 \<Rightarrow> MetricsFramework \<Rightarrow> MetricsFramework" where
  "RecordConnectivitySample connected_pairs total_possible_pairs mf =
     (let r = (if total_possible_pairs \<noteq> 0
               then real (unat connected_pairs) / real (unat total_possible_pairs) else 0)
      in mf \<lparr> mf_connectivity_samples := mf_connectivity_samples mf @ [r] \<rparr>)"

definition RecordKeyEstablishment :: "real \<Rightarrow> u32 \<Rightarrow> u32 \<Rightarrow> real \<Rightarrow> bool \<Rightarrow> MetricsFramework \<Rightarrow> MetricsFramework" where
  "RecordKeyEstablishment now uav_id cluster_id latency_ms success mf =
     mf \<lparr> mf_key_estab := mf_key_estab mf @
       [\<lparr> ke_time_s = now, ke_uav_id = uav_id, ke_cluster_id = cluster_id, ke_latency_ms = latency_ms,
          ke_success = success \<rparr>] \<rparr>"

definition RecordRekey ::
    "real \<Rightarrow> u32 \<Rightarrow> string \<Rightarrow> real \<Rightarrow> u32 \<Rightarrow> u32 \<Rightarrow> real \<Rightarrow> MetricsFramework \<Rightarrow> MetricsFramework" where
  "RecordRekey now cluster_id trigger latency_ms tek_version members msg_cost_bytes mf =
     mf \<lparr> mf_rekeys := mf_rekeys mf @
       [\<lparr> rr_time_s = now, rr_cluster_id = cluster_id, rr_trigger = trigger, rr_latency_ms = latency_ms,
          rr_tek_version = tek_version, rr_members = members, rr_msg_cost = msg_cost_bytes \<rparr>] \<rparr>"

definition RecordAuthAttempt :: "real \<Rightarrow> u32 \<Rightarrow> u32 \<Rightarrow> bool \<Rightarrow> string \<Rightarrow> MetricsFramework \<Rightarrow> MetricsFramework" where
  "RecordAuthAttempt now uav_id cluster_id success failure_reason mf =
     mf \<lparr> mf_auth := mf_auth mf @
       [\<lparr> au_time_s = now, au_uav_id = uav_id, au_cluster_id = cluster_id, au_success = success,
          au_failure_reason = failure_reason \<rparr>] \<rparr>"

definition RecordSecrecyCheck ::
    "real \<Rightarrow> u32 \<Rightarrow> u32 \<Rightarrow> bool \<Rightarrow> bool \<Rightarrow> string \<Rightarrow> MetricsFramework \<Rightarrow> MetricsFramework" where
  "RecordSecrecyCheck now cluster_id tek_version forward_ok backward_ok event_type mf =
     mf \<lparr> mf_secrecy := mf_secrecy mf @
       [\<lparr> sc_time_s = now, sc_cluster_id = cluster_id, sc_tek_version = tek_version,
          sc_forward_ok = forward_ok, sc_backward_ok = backward_ok, sc_event_type = event_type \<rparr>] \<rparr>"

definition RecordReplayDetection :: "real \<Rightarrow> u32 \<Rightarrow> u32 \<Rightarrow> bool \<Rightarrow> bool \<Rightarrow> MetricsFramework \<Rightarrow> MetricsFramework" where
  "RecordReplayDetection now uav_id seq_num detected was_actual_replay mf =
     mf \<lparr> mf_replay := mf_replay mf @
       [\<lparr> rp_time_s = now, rp_uav_id = uav_id, rp_seq_num = seq_num, rp_detected = detected,
          rp_was_replay = was_actual_replay \<rparr>] \<rparr>"

definition RecordHealingAttempt ::
    "real \<Rightarrow> u32 \<Rightarrow> u32 \<Rightarrow> real \<Rightarrow> bool \<Rightarrow> string \<Rightarrow> MetricsFramework \<Rightarrow> MetricsFramework" where
  "RecordHealingAttempt now uav_id cluster_id trigger_time_s recovered event_type mf =
     mf \<lparr> mf_healing := mf_healing mf @
       [\<lparr> he_trigger_time_s = trigger_time_s, he_recovery_time_s = now, he_uav_id = uav_id,
          he_cluster_id = cluster_id, he_recovered = recovered, he_event_type = event_type,
          he_recovery_latency_ms = (now - trigger_time_s) * 1000 \<rparr>] \<rparr>"

definition RecordPacketOverhead ::
    "real \<Rightarrow> u32 \<Rightarrow> u64 \<Rightarrow> u64 \<Rightarrow> u64 \<Rightarrow> u64 \<Rightarrow> u64 \<Rightarrow> u64 \<Rightarrow> MetricsFramework \<Rightarrow> MetricsFramework" where
  "RecordPacketOverhead now cluster_id data_bytes header_bytes hmac_bytes mtk_bytes ctrl_bytes rekey_bytes mf =
     mf \<lparr> mf_overhead_samples := mf_overhead_samples mf @
       [\<lparr> oh_time_s = now, oh_cluster_id = cluster_id, oh_data_bytes = data_bytes, oh_ctrl_bytes = ctrl_bytes,
          oh_rekey_bytes = rekey_bytes, oh_header_bytes = header_bytes, oh_hmac_bytes = hmac_bytes,
          oh_mtk_bytes = mtk_bytes \<rparr>] \<rparr>"

definition RecordComputeTiming :: "string \<Rightarrow> u32 \<Rightarrow> real \<Rightarrow> MetricsFramework \<Rightarrow> MetricsFramework" where
  "RecordComputeTiming operation uav_id wall_us mf =
     mf \<lparr> mf_compute_timings := mf_compute_timings mf @
       [\<lparr> ct_operation = operation, ct_wall_us = wall_us, ct_uav_id = uav_id \<rparr>] \<rparr>"

definition RecordSinrSample :: "real \<Rightarrow> u32 \<Rightarrow> u32 \<Rightarrow> real \<Rightarrow> real \<Rightarrow> MetricsFramework \<Rightarrow> MetricsFramework" where
  "RecordSinrSample now uav_id cluster_id sinr_db threshold_db mf =
     (let snr_linear = 10 powr (sinr_db / 10);
          drop_prob = exp (- snr_linear / 2);
          s = \<lparr> ms_time_s = now, ms_uav_id = uav_id, ms_cluster_id = cluster_id, ms_sinr_db = sinr_db,
                ms_jammed = (sinr_db < threshold_db), ms_drop_prob = min 1 (max 0 drop_prob) \<rparr>
      in mf \<lparr> mf_sinr_samples := mf_sinr_samples mf @ [s] \<rparr>)"

definition RecordJammerEvent :: "real \<Rightarrow> real \<Rightarrow> u32 \<Rightarrow> real \<Rightarrow> MetricsFramework \<Rightarrow> MetricsFramework" where
  "RecordJammerEvent start_s end_s affected_uavs avg_sinr_db mf =
     mf \<lparr> mf_jammer_events := mf_jammer_events mf @
       [\<lparr> mj_start_s = start_s, mj_end_s = end_s, mj_affected_uavs = affected_uavs,
          mj_avg_sinr_db = avg_sinr_db, mj_recovery_ms = 0 \<rparr>] \<rparr>"

definition RecordJammerRecovery :: "u32 \<Rightarrow> real \<Rightarrow> MetricsFramework \<Rightarrow> MetricsFramework" where
  "RecordJammerRecovery uav_id recovery_latency_ms mf =
     mf \<lparr> mf_jammer_recovery_ms := AList.update uav_id recovery_latency_ms (mf_jammer_recovery_ms mf) \<rparr>"

definition RecordLinkFailure :: "real \<Rightarrow> u32 \<Rightarrow> u32 \<Rightarrow> string \<Rightarrow> bool \<Rightarrow> real \<Rightarrow> MetricsFramework \<Rightarrow> MetricsFramework" where
  "RecordLinkFailure now uav_id cluster_id cause recovered duration_ms mf =
     mf \<lparr> mf_link_failures := mf_link_failures mf @
       [\<lparr> lf_time_s = now, lf_uav_id = uav_id, lf_cluster_id = cluster_id, lf_cause = cause,
          lf_duration_ms = duration_ms, lf_recovered = recovered \<rparr>] \<rparr>"

definition RecordRouteBreak :: "real \<Rightarrow> u32 \<Rightarrow> u32 \<Rightarrow> real \<Rightarrow> bool \<Rightarrow> MetricsFramework \<Rightarrow> MetricsFramework" where
  "RecordRouteBreak now uav_id cluster_id velocity_mps triggered_rekey mf =
     mf \<lparr> mf_route_breaks := mf_route_breaks mf @
       [\<lparr> rb_time_s = now, rb_uav_id = uav_id, rb_cluster_id = cluster_id, rb_velocity_mps = velocity_mps,
          rb_triggered_rekey = triggered_rekey \<rparr>] \<rparr>"

definition RecordSwarmSnapshot :: "real \<Rightarrow> u32 \<Rightarrow> u32 \<Rightarrow> u32 \<Rightarrow> u32 \<Rightarrow> u32 \<Rightarrow> MetricsFramework \<Rightarrow> MetricsFramework" where
  "RecordSwarmSnapshot now active_uavs jammed_uavs compromised_uavs disconnected_uavs connected_pairs mf =
     (let max_p = TOTAL_UAVS * (TOTAL_UAVS - 1) div 2;
          s = \<lparr> sw_time_s = now, sw_total_uavs = TOTAL_UAVS, sw_active_uavs = active_uavs,
                sw_jammed_uavs = jammed_uavs, sw_compromised_uavs = compromised_uavs,
                sw_disconnected_uavs = disconnected_uavs,
                sw_survivability_ratio =
                  (if TOTAL_UAVS \<noteq> 0 then real (unat active_uavs) / real (unat TOTAL_UAVS) else 0),
                sw_connectivity_ratio =
                  (if max_p \<noteq> 0 then real (unat connected_pairs) / real (unat max_p) else 0) \<rparr>
      in mf \<lparr> mf_swarm_snaps := mf_swarm_snaps mf @ [s] \<rparr>)"

definition RecordClusterHeadStatus :: "real \<Rightarrow> u32 \<Rightarrow> u32 \<Rightarrow> u32 \<Rightarrow> bool \<Rightarrow> real \<Rightarrow> MetricsFramework \<Rightarrow> MetricsFramework" where
  "RecordClusterHeadStatus now cluster_id skdc_node_id active_members skdc_reachable avg_member_dist_m mf =
     mf \<lparr> mf_cluster_head := mf_cluster_head mf @
       [\<lparr> ch_time_s = now, ch_cluster_id = cluster_id, ch_skdc_node_id = skdc_node_id,
          ch_active_members = active_members, ch_skdc_reachable = skdc_reachable,
          ch_avg_member_dist_m = avg_member_dist_m \<rparr>] \<rparr>"

section \<open>The loops of the summaries\<close>

text \<open>\<open>sum += f(r)\<close>, \<open>if (p(r)) n++\<close> and \<open>if (f(r) > mx) mx = f(r)\<close> over the records.\<close>

definition sum_loop :: "('a \<Rightarrow> 'b::comm_monoid_add) \<Rightarrow> 'a list \<Rightarrow> 'b" where
  "sum_loop f rs = foldl (\<lambda>sum r. sum + f r) 0 rs"

definition count_loop :: "('a \<Rightarrow> bool) \<Rightarrow> 'a list \<Rightarrow> u32" where
  "count_loop p rs = foldl (\<lambda>n r. if p r then n + 1 else n) 0 rs"

definition max_loop :: "('a \<Rightarrow> real) \<Rightarrow> 'a list \<Rightarrow> real" where
  "max_loop f rs = foldl (\<lambda>mx r. if f r > mx then f r else mx) 0 rs"

text \<open>\<open>sum / rs.size()\<close> and \<open>(double)n / rs.size()\<close>.\<close>

definition mean_of :: "('a \<Rightarrow> real) \<Rightarrow> 'a list \<Rightarrow> real" where
  "mean_of f rs = sum_loop f rs / real (length rs)"

definition share_of :: "('a \<Rightarrow> bool) \<Rightarrow> 'a list \<Rightarrow> real" where
  "share_of p rs = real (unat (count_loop p rs)) / real (length rs)"

definition size32 :: "'a list \<Rightarrow> u32" where
  "size32 rs = word_of_nat (length rs)"

definition sample_total :: "OverheadSample \<Rightarrow> u64" where
  "sample_total s = oh_data_bytes s + oh_ctrl_bytes s + oh_rekey_bytes s + oh_header_bytes s + oh_hmac_bytes s
     + oh_mtk_bytes s"

definition sample_ctrl :: "OverheadSample \<Rightarrow> u64" where
  "sample_ctrl s = oh_ctrl_bytes s + oh_rekey_bytes s + oh_header_bytes s + oh_hmac_bytes s + oh_mtk_bytes s"

definition ratio64 :: "u64 \<Rightarrow> u64 \<Rightarrow> real" where
  "ratio64 n tot = (if tot \<noteq> 0 then real (unat n) / real (unat tot) else 0)"

definition PeriodicSnapshot :: "real \<Rightarrow> MetricsFramework \<Rightarrow> MetricsFramework" where
  "PeriodicSnapshot now mf =
     (let mf = mf \<lparr> mf_snapshot_count := mf_snapshot_count mf + 1 \<rparr>;
          dur = mf_snapshot_interval_s mf * real (unat (mf_snapshot_count mf));
          recent = take 18 (rev (mf_sinr_samples mf));
          pt = \<lparr> ts_t = now, ts_pdr = PDR (mf_pkt_global mf),
                 ts_throughput = ThroughputKbps (mf_pkt_global mf) dur,
                 ts_delay_ms = Delay_Avg (mf_delay_global mf),
                 ts_sinr_db = (if mf_sinr_samples mf \<noteq> [] then mean_of ms_sinr_db recent else 0),
                 ts_rekeys = size32 (mf_rekeys mf),
                 ts_survivability =
                   (if mf_swarm_snaps mf \<noteq> [] then sw_survivability_ratio (last (mf_swarm_snaps mf)) else 0),
                 ts_connectivity =
                   (if mf_connectivity_samples mf \<noteq> [] then last (mf_connectivity_samples mf) else 0),
                 ts_overhead_ratio =
                   (if mf_overhead_samples mf \<noteq> []
                    then ratio64 (sum_loop sample_ctrl (mf_overhead_samples mf))
                           (sum_loop sample_total (mf_overhead_samples mf)) else 0) \<rparr>
      in mf \<lparr> mf_timeseries := mf_timeseries mf @ [pt] \<rparr>)"

section \<open>Finalize\<close>

definition Finalize_network :: "MetricsFramework \<Rightarrow> real \<Rightarrow> NetworkMetricsSummary \<Rightarrow> NetworkMetricsSummary" where
  "Finalize_network mf sim_dur_s N =
     (let N = N \<lparr> ns_global_pdr := PDR (mf_pkt_global mf),
                  ns_global_throughput_kbps := ThroughputKbps (mf_pkt_global mf) sim_dur_s,
                  ns_global_avg_delay_ms := Delay_Avg (mf_delay_global mf),
                  ns_global_jitter_ms := Delay_Jitter (mf_delay_global mf),
                  ns_global_loss_ratio := LossRatio (mf_pkt_global mf),
                  ns_total_route_breaks := size32 (mf_route_breaks mf) \<rparr>;
          N = N \<lparr> ns_pdr_per_cluster := map PDR (mf_pkt_cluster mf),
                  ns_throughput_per_cluster_kbps := map (\<lambda>pc. ThroughputKbps pc sim_dur_s) (mf_pkt_cluster mf),
                  ns_delay_per_cluster_ms := map Delay_Avg (mf_delay_cluster mf),
                  ns_loss_per_cluster := map LossRatio (mf_pkt_cluster mf) \<rparr>;
          N = N \<lparr> ns_pdr_per_uav := map PDR (mf_pkt_uav mf),
                  ns_throughput_per_uav_kbps := map (\<lambda>pc. ThroughputKbps pc sim_dur_s) (mf_pkt_uav mf),
                  ns_delay_per_uav_ms := map Delay_Avg (mf_delay_uav mf) \<rparr>;
          N = (if mf_stability_samples mf \<noteq> []
               then N \<lparr> ns_avg_routing_stability := mean_of rs_stability_idx (mf_stability_samples mf) \<rparr> else N)
      in if mf_connectivity_samples mf \<noteq> []
         then N \<lparr> ns_avg_connectivity_ratio := mean_of (\<lambda>v. v) (mf_connectivity_samples mf) \<rparr> else N)"

text \<open>\<open>if (r.cluster_id < NUM_CLUSTERS) S.rekeys_per_cluster[r.cluster_id]++\<close> for every rekey.\<close>

definition tally_rekeys :: "RekeyRecord list \<Rightarrow> u32 list \<Rightarrow> u32 list" where
  "tally_rekeys rs ns =
     foldl (\<lambda>ns r. if rr_cluster_id r < NUM_CLUSTERS then upd_at (unat (rr_cluster_id r)) (\<lambda>n. n + 1) ns else ns) ns rs"

definition Finalize_security :: "MetricsFramework \<Rightarrow> SecurityMetricsSummary \<Rightarrow> SecurityMetricsSummary" where
  "Finalize_security mf S =
     (let S = (if mf_key_estab mf \<noteq> []
               then S \<lparr> ss_avg_key_estab_ms := mean_of ke_latency_ms (mf_key_estab mf),
                        ss_max_key_estab_ms := max_loop ke_latency_ms (mf_key_estab mf),
                        ss_total_key_estabs := size32 (mf_key_estab mf) \<rparr> else S);
          S = (if mf_rekeys mf \<noteq> []
               then S \<lparr> ss_rekeys_per_cluster := tally_rekeys (mf_rekeys mf) (ss_rekeys_per_cluster S),
                        ss_avg_rekey_latency_ms := mean_of rr_latency_ms (mf_rekeys mf),
                        ss_max_rekey_latency_ms := max_loop rr_latency_ms (mf_rekeys mf),
                        ss_total_rekeys := size32 (mf_rekeys mf),
                        ss_avg_rekey_msg_cost_bytes := mean_of rr_msg_cost (mf_rekeys mf) \<rparr> else S);
          S = (if mf_auth mf \<noteq> []
               then S \<lparr> ss_auth_attempts := size32 (mf_auth mf),
                        ss_auth_successes := count_loop au_success (mf_auth mf),
                        ss_auth_success_rate := share_of au_success (mf_auth mf) \<rparr> else S);
          S = (if mf_secrecy mf \<noteq> []
               then S \<lparr> ss_secrecy_checks := size32 (mf_secrecy mf),
                        ss_forward_secrecy_rate := share_of sc_forward_ok (mf_secrecy mf),
                        ss_backward_secrecy_rate := share_of sc_backward_ok (mf_secrecy mf) \<rparr> else S);
          S = (if mf_replay mf \<noteq> []
               then
                 let tp = count_loop (\<lambda>r. rp_was_replay r \<and> rp_detected r) (mf_replay mf);
                     fp = count_loop (\<lambda>r. \<not> rp_was_replay r \<and> rp_detected r) (mf_replay mf);
                     fn = count_loop (\<lambda>r. rp_was_replay r \<and> \<not> rp_detected r) (mf_replay mf);
                     tn = count_loop (\<lambda>r. \<not> rp_was_replay r \<and> \<not> rp_detected r) (mf_replay mf)
                 in S \<lparr> ss_replay_attacks := tp + fn, ss_replay_detected := tp,
                        ss_replay_detection_rate :=
                          (if tp + fn \<noteq> 0 then real (unat tp) / real (unat (tp + fn)) else 0),
                        ss_replay_false_pos_rate :=
                          (if fp + tn \<noteq> 0 then real (unat fp) / real (unat (fp + tn)) else 0) \<rparr>
               else S)
      in if mf_healing mf \<noteq> []
         then S \<lparr> ss_avg_recovery_ms := mean_of he_recovery_latency_ms (mf_healing mf),
                  ss_healing_success_rate := share_of he_recovered (mf_healing mf),
                  ss_healing_events := size32 (mf_healing mf) \<rparr> else S)"

definition mean_op :: "ComputeTimingRecord list \<Rightarrow> string \<Rightarrow> real" where
  "mean_op timings op =
     (let vs = map ct_wall_us (filter (\<lambda>r. ct_operation r = op) timings)
      in if vs = [] then 0 else mean_of (\<lambda>v. v) vs)"

definition Finalize_overhead :: "MetricsFramework \<Rightarrow> real \<Rightarrow> OverheadMetricsSummary \<Rightarrow> OverheadMetricsSummary" where
  "Finalize_overhead mf sim_dur_s OH =
     (let smp = mf_overhead_samples mf;
          tot = sum_loop sample_total smp;
          ctrl = sum_loop oh_ctrl_bytes smp;
          rk = sum_loop oh_rekey_bytes smp;
          hdr = sum_loop oh_header_bytes smp;
          hmac = sum_loop oh_hmac_bytes smp;
          mtk = sum_loop oh_mtk_bytes smp;
          overhead = ctrl + rk + hdr + hmac + mtk;
          OH = (if smp \<noteq> []
                then OH \<lparr> os_comm_overhead_ratio := ratio64 overhead tot, os_rekey_overhead_ratio := ratio64 rk tot,
                          os_header_overhead_ratio := ratio64 hdr tot, os_hmac_overhead_ratio := ratio64 hmac tot,
                          os_ctrl_bytes_per_sec :=
                            (if sim_dur_s > 0 then real (unat (ctrl + rk)) / sim_dur_s else 0) \<rparr> else OH);
          OH = (if mf_rekeys mf \<noteq> []
                then OH \<lparr> os_rekey_bytes_per_rekey := mean_of rr_msg_cost (mf_rekeys mf) \<rparr> else OH);
          OH = OH \<lparr> os_storage_per_uav_bytes := 32 + 512 + 64 * 16 \<rparr>
      in OH \<lparr> os_avg_aes_enc_us := mean_op (mf_compute_timings mf) ''AES_ENC'',
              os_avg_aes_dec_us := mean_op (mf_compute_timings mf) ''AES_DEC'',
              os_avg_hmac_us := mean_op (mf_compute_timings mf) ''HMAC'',
              os_avg_crt_verify_us := mean_op (mf_compute_timings mf) ''CRT_VERIFY'',
              os_avg_rekey_compute_us := mean_op (mf_compute_timings mf) ''REKEY'' \<rparr>)"

text \<open>\<open>std::set\<close> of the UAVs with a sample below the threshold.\<close>

definition ever_jammed :: "MfSinrSample list \<Rightarrow> u32 set" where
  "ever_jammed smp = set (map ms_uav_id (filter ms_jammed smp))"

definition Finalize_denied ::
    "MetricsFramework \<Rightarrow> real \<Rightarrow> real \<Rightarrow> DeniedEnvMetricsSummary \<Rightarrow> DeniedEnvMetricsSummary" where
  "Finalize_denied mf sim_dur_s global_pdr D =
     (let smp = mf_sinr_samples mf;
          D = (if smp \<noteq> []
               then
                 let n = real (length smp);
                     D = D \<lparr> ds_min_sinr_db := foldl (\<lambda>mn s. if ms_sinr_db s < mn then ms_sinr_db s else mn) (10 ^ 9) smp,
                             ds_avg_sinr_db := sum_loop ms_sinr_db smp / n \<rparr>;
                     var = sum_loop (\<lambda>s. ms_sinr_db s * ms_sinr_db s) smp / n - ds_avg_sinr_db D * ds_avg_sinr_db D
                 in D \<lparr> ds_sinr_stddev_db := (if var > 0 then sqrt var else 0),
                        ds_jammed_uav_ratio := real (card (ever_jammed smp)) / real (unat TOTAL_UAVS) \<rparr>
               else D);
          rec = mf_jammer_recovery_ms mf;
          D = (if rec \<noteq> [] then D \<lparr> ds_avg_recovery_after_jam_ms := mean_of snd rec \<rparr> else D);
          D = D \<lparr> ds_total_link_failures := size32 (mf_link_failures mf) \<rparr>;
          D = D \<lparr> ds_link_failure_rate :=
                    (if sim_dur_s > 0 then real (unat (ds_total_link_failures D)) / sim_dur_s else 0) \<rparr>
      in if ds_jammed_uav_ratio D > 0 then
           let hit = filter (\<lambda>s. ms_jammed s \<and> ms_uav_id s < TOTAL_UAVS) smp;
               jammed_pdr = sum_loop (\<lambda>s. PDR (mf_pkt_uav mf ! unat (ms_uav_id s))) hit;
               total = real (length hit);
               jammed_avg = (if total \<noteq> 0 then jammed_pdr / total else 0);
               D = D \<lparr> ds_interference_impact := global_pdr - jammed_avg \<rparr>
           in if ds_interference_impact D < 0 then D \<lparr> ds_interference_impact := 0 \<rparr> else D
         else D)"

text \<open>The Pearson correlation of speed and rekeying over the route breaks.\<close>

definition pearson :: "(real \<times> real) list \<Rightarrow> real" where
  "pearson ps =
     (let n = real (length ps);
          sv = sum_loop fst ps / n;
          sr = sum_loop snd ps / n;
          cov = sum_loop (\<lambda>(v, r). (v - sv) * (r - sr)) ps;
          varv = sum_loop (\<lambda>(v, r). (v - sv) * (v - sv)) ps;
          varr = sum_loop (\<lambda>(v, r). (r - sr) * (r - sr)) ps;
          denom = sqrt (varv * varr)
      in if denom > 1 / 10 ^ 9 then cov / denom else 0)"

definition Finalize_mobility :: "MetricsFramework \<Rightarrow> real \<Rightarrow> MobilityMetricsSummary \<Rightarrow> MobilityMetricsSummary" where
  "Finalize_mobility mf sim_dur_s M =
     (let M = (if mf_cluster_head mf \<noteq> []
               then M \<lparr> mo_cluster_head_stability := share_of ch_skdc_reachable (mf_cluster_head mf) \<rparr> else M);
          M = M \<lparr> mo_total_route_breaks := size32 (mf_route_breaks mf) \<rparr>;
          M = M \<lparr> mo_avg_route_break_freq :=
                    (if sim_dur_s > 0
                     then real (unat (mo_total_route_breaks M)) / (real (unat TOTAL_UAVS) * sim_dur_s) else 0) \<rparr>;
          M = (if length (mf_route_breaks mf) > 2
               then M \<lparr> mo_mobility_rekey_corr :=
                          pearson (map (\<lambda>r. (rb_velocity_mps r, if rb_triggered_rekey r then 1 else 0))
                                    (mf_route_breaks mf)) \<rparr> else M);
          M = (if mf_swarm_snaps mf \<noteq> []
               then M \<lparr> mo_swarm_survivability := mean_of sw_survivability_ratio (mf_swarm_snaps mf),
                        mo_avg_connectivity_ratio := mean_of sw_connectivity_ratio (mf_swarm_snaps mf) \<rparr> else M);
          handovers = count_loop (\<lambda>r. rr_trigger r = ''HANDOVER_OLD'' \<or> rr_trigger r = ''HANDOVER_NEW'') (mf_rekeys mf)
      in M \<lparr> mo_handover_trigger_rate := (if sim_dur_s > 0 then real (unat handovers) / sim_dur_s else 0) \<rparr>)"

definition Mf_Finalize :: "real \<Rightarrow> u32 \<Rightarrow> MetricsFramework \<Rightarrow> MetricsFramework" where
  "Mf_Finalize sim_dur_s run_idx mf =
     (let sm = mf_summary mf;
          sm = sm \<lparr> fs_simulation_duration_s := sim_dur_s, fs_seed := mf_seed mf, fs_run_index := run_idx \<rparr>;
          sm = sm \<lparr> fs_network := Finalize_network mf sim_dur_s (fs_network sm) \<rparr>;
          sm = sm \<lparr> fs_security := Finalize_security mf (fs_security sm) \<rparr>;
          sm = sm \<lparr> fs_overhead := Finalize_overhead mf sim_dur_s (fs_overhead sm) \<rparr>;
          sm = sm \<lparr> fs_denied := Finalize_denied mf sim_dur_s (ns_global_pdr (fs_network sm)) (fs_denied sm) \<rparr>;
          sm = sm \<lparr> fs_mobility := Finalize_mobility mf sim_dur_s (fs_mobility sm) \<rparr>
      in mf \<lparr> mf_summary := sm, mf_finalized := True \<rparr>)"

section \<open>Accessors\<close>

definition GetClusterPdr :: "MetricsFramework \<Rightarrow> u32 \<Rightarrow> real" where
  "GetClusterPdr mf c = (if c < NUM_CLUSTERS then PDR (mf_pkt_cluster mf ! unat c) else 0)"

definition GetClusterThroughput :: "MetricsFramework \<Rightarrow> u32 \<Rightarrow> real" where
  "GetClusterThroughput mf c =
     (let dur = real (unat (mf_snapshot_count mf)) * mf_snapshot_interval_s mf
      in if c < NUM_CLUSTERS then ThroughputKbps (mf_pkt_cluster mf ! unat c) (if dur > 0 then dur else 1) else 0)"

definition GetClusterAvgDelay :: "MetricsFramework \<Rightarrow> u32 \<Rightarrow> real" where
  "GetClusterAvgDelay mf c = (if c < NUM_CLUSTERS then Delay_Avg (mf_delay_cluster mf ! unat c) else 0)"

definition GetRekeyLatencyAvg :: "MetricsFramework \<Rightarrow> real" where
  "GetRekeyLatencyAvg mf = ss_avg_rekey_latency_ms (fs_security (mf_summary mf))"

definition GetAuthSuccessRate :: "MetricsFramework \<Rightarrow> real" where
  "GetAuthSuccessRate mf = ss_auth_success_rate (fs_security (mf_summary mf))"

definition GetForwardSecrecyRate :: "MetricsFramework \<Rightarrow> real" where
  "GetForwardSecrecyRate mf = ss_forward_secrecy_rate (fs_security (mf_summary mf))"

definition GetBackwardSecrecyRate :: "MetricsFramework \<Rightarrow> real" where
  "GetBackwardSecrecyRate mf = ss_backward_secrecy_rate (fs_security (mf_summary mf))"

definition GetReplayDetectionRate :: "MetricsFramework \<Rightarrow> real" where
  "GetReplayDetectionRate mf = ss_replay_detection_rate (fs_security (mf_summary mf))"

definition GetSwarmSurvivability :: "MetricsFramework \<Rightarrow> real" where
  "GetSwarmSurvivability mf = mo_swarm_survivability (fs_mobility (mf_summary mf))"

definition GetClusterHeadStability :: "MetricsFramework \<Rightarrow> u32 \<Rightarrow> real" where
  "GetClusterHeadStability mf c =
     (if mf_cluster_head mf = [] then 1
      else
        let mine = filter (\<lambda>r. ch_cluster_id r = c) (mf_cluster_head mf);
            tot = size32 mine;
            ok = count_loop ch_skdc_reachable mine
        in if tot \<noteq> 0 then real (unat ok) / real (unat tot) else 1)"

end
