(* ===== verification/Metrics_Facts.thy ===== *)
theory Metrics_Facts
  imports Metrics_Framework
begin

text \<open>
  What the collector of theory Metrics\_Framework promises: its runs as a step relation,
  the consistency of its counters, the statistics it computes against their textbook
  definitions, and the ranges of the figures it reports.
\<close>

section \<open>Sums and counts\<close>

lemma foldl_plus_start: "foldl (\<lambda>s r. s + f r) a rs = a + foldl (\<lambda>s r. s + f r) (0::'a::comm_monoid_add) rs"
  by (induction rs rule: rev_induct) (simp_all add: add.assoc)

lemma sum_loop_sum: "sum_loop f rs = sum_list (map f rs)"
  unfolding sum_loop_def by (induction rs rule: rev_induct) simp_all

lemma foldl_count_start: "foldl (\<lambda>n r. if p r then n + 1 else n) a rs = a + word_of_nat (length (filter p rs))"
  by (induction rs arbitrary: a) (simp_all add: algebra_simps)

lemma count_loop_count: "count_loop p rs = word_of_nat (length (filter p rs))"
  unfolding count_loop_def by (simp add: foldl_count_start)

lemma unat_count_loop: "length rs < 2 ^ 32 \<Longrightarrow> unat (count_loop p rs) = length (filter p rs)"
  by (simp add: count_loop_count unat_of_nat le_less_trans[OF length_filter_le])

lemma share_of_range:
  assumes "length rs < 2 ^ 32"
  shows "0 \<le> share_of p rs" "share_of p rs \<le> 1"
  using length_filter_le[of p rs] by (simp_all add: share_of_def unat_count_loop[OF assms] divide_le_eq_1)

lemma share_of_all: "rs \<noteq> [] \<Longrightarrow> length rs < 2 ^ 32 \<Longrightarrow> \<forall>r\<in>set rs. p r \<Longrightarrow> share_of p rs = 1"
  by (simp add: share_of_def unat_count_loop)

lemma sum_list_bounds:
  fixes f :: "'a \<Rightarrow> real"
  shows "(\<And>x. x \<in> set xs \<Longrightarrow> f x \<le> b) \<Longrightarrow> sum_list (map f xs) \<le> real (length xs) * b"
    "(\<And>x. x \<in> set xs \<Longrightarrow> a \<le> f x) \<Longrightarrow> real (length xs) * a \<le> sum_list (map f xs)"
  by (induction xs) (simp_all add: algebra_simps add_mono)

lemma mean_of_le: "rs \<noteq> [] \<Longrightarrow> (\<And>x. x \<in> set rs \<Longrightarrow> f x \<le> b) \<Longrightarrow> mean_of f rs \<le> b"
  using sum_list_bounds(1)[of rs f b] by (simp add: mean_of_def sum_loop_sum divide_le_eq mult.commute)

lemma mean_of_ge: "rs \<noteq> [] \<Longrightarrow> (\<And>x. x \<in> set rs \<Longrightarrow> a \<le> f x) \<Longrightarrow> a \<le> mean_of f rs"
  using sum_list_bounds(2)[of rs a f] by (simp add: mean_of_def sum_loop_sum le_divide_eq mult.commute)

lemma max_loop_ge: "x \<in> set rs \<Longrightarrow> f x \<le> max_loop f rs" "0 \<le> max_loop f rs"
proof -
  have "f x \<le> foldl (\<lambda>mx r. if f r > mx then f r else mx) a rs" if "x \<in> set rs" for a and x
    using that by (induction rs rule: rev_induct) auto
  then show "x \<in> set rs \<Longrightarrow> f x \<le> max_loop f rs" by (simp add: max_loop_def)
  have "a \<le> foldl (\<lambda>mx r. if f r > mx then f r else mx) a rs" for a
    by (induction rs rule: rev_induct) auto
  then show "0 \<le> max_loop f rs" by (simp add: max_loop_def)
qed

section \<open>Statistics\<close>

text \<open>The variance as the mean of the squares minus the square of the mean.\<close>

lemma variance_eq:
  fixes ds :: "real list"
  assumes "ds \<noteq> []"
  defines "m \<equiv> sum_list ds / real (length ds)"
  shows "sum_list (map (\<lambda>d. d * d) ds) / real (length ds) - m * m = sum_list (map (\<lambda>d. (d - m)\<^sup>2) ds) / real (length ds)"
proof -
  have "sum_list (map (\<lambda>d. (d - a)\<^sup>2) ds) = sum_list (map (\<lambda>d. d * d) ds) - 2 * a * sum_list ds + real (length ds) * a\<^sup>2" for a
    by (induction ds) (simp_all add: power2_eq_square algebra_simps)
  note sq = this[of m]
  have "real (length ds) > 0" "sum_list ds = real (length ds) * m" using assms(1) by (simp_all add: m_def)
  then show ?thesis
    by (simp only: sq) (simp add: field_simps power2_eq_square)
qed

lemma sum_list_sq_nonneg: "0 \<le> sum_list (map (\<lambda>d. (f d)\<^sup>2) (ds :: 'a list)) " for f :: "'a \<Rightarrow> real"
  by (induction ds) simp_all

lemma Delay_Record_simps [simp]:
  "da_sum_ms (Delay_Record d da) = da_sum_ms da + d"
  "da_sum_sq_ms (Delay_Record d da) = da_sum_sq_ms da + d * d"
  "da_count (Delay_Record d da) = da_count da + 1"
  "da_min_ms (Delay_Record d da) = min d (da_min_ms da)"
  "da_max_ms (Delay_Record d da) = max d (da_max_ms da)"
  by (simp_all add: Delay_Record_def Let_def min_def max_def)

abbreviation delays :: "real list \<Rightarrow> DelayAccumulator" where
  "delays ds \<equiv> foldl (\<lambda>da d. Delay_Record d da) DelayAccumulator_new ds"

lemma delay_run:
  "da_sum_ms (delays ds) = sum_list ds" "da_sum_sq_ms (delays ds) = sum_list (map (\<lambda>d. d * d) ds)"
  "da_count (delays ds) = word_of_nat (length ds)" "da_min_ms (delays ds) = Min (insert (10 ^ 9) (set ds))"
  "da_max_ms (delays ds) = Max (insert 0 (set ds))"
  by (induction ds rule: rev_induct) (simp_all add: DelayAccumulator_new_def insert_commute)

text \<open>
  The Cauchy-Schwarz inequality for lists.
\<close>

lemma cauchy_schwarz_list:
  fixes f g :: "'a \<Rightarrow> real"
  shows "(sum_list (map (\<lambda>x. f x * g x) xs))\<^sup>2 \<le> sum_list (map (\<lambda>x. f x * f x) xs) * sum_list (map (\<lambda>x. g x * g x) xs)"
proof -
  let ?S = "\<lambda>h. sum_list (map h xs)"
  let ?a = "?S (\<lambda>x. f x * f x)" and ?b = "?S (\<lambda>x. g x * g x)" and ?c = "?S (\<lambda>x. f x * g x)"
  have quad: "?S (\<lambda>x. (s * f x - t * g x)\<^sup>2) = s\<^sup>2 * ?a - 2 * s * t * ?c + t\<^sup>2 * ?b" for s t
    by (induction xs) (simp_all add: power2_eq_square algebra_simps)
  have nn: "0 \<le> s\<^sup>2 * ?a - 2 * s * t * ?c + t\<^sup>2 * ?b" for s t
    using sum_list_sq_nonneg[of "\<lambda>x. s * f x - t * g x" xs] by (simp only: quad)
  have b: "0 \<le> ?b" using nn[of 0 1] by simp
  show ?thesis
  proof (cases "?b = 0")
    case True
    have "?c = 0"
    proof (rule ccontr)
      assume "?c \<noteq> 0"
      then show False using nn[of 1 "(?a + 1) / (2 * ?c)"] True by (simp add: field_simps)
    qed
    then show ?thesis using True by simp
  next
    case False
    have "0 \<le> ?b * (?a * ?b - ?c\<^sup>2)"
      using nn[of ?b ?c] by (simp add: power2_eq_square algebra_simps)
    then show ?thesis using False b by (simp add: zero_le_mult_iff)
  qed
qed

lemma pearson_range: "- 1 \<le> pearson ps \<and> pearson ps \<le> 1"
proof -
  define sv sr where "sv = sum_loop fst ps / real (length ps)" and "sr = sum_loop snd ps / real (length ps)"
  define cov varv varr where "cov = sum_loop (\<lambda>(v, r). (v - sv) * (r - sr)) ps"
    and "varv = sum_loop (\<lambda>(v, r). (v - sv) * (v - sv)) ps" and "varr = sum_loop (\<lambda>(v, r). (r - sr) * (r - sr)) ps"
  have p: "pearson ps = (if sqrt (varv * varr) > 1 / 10 ^ 9 then cov / sqrt (varv * varr) else 0)"
    by (simp add: pearson_def Let_def sv_def sr_def cov_def varv_def varr_def)
  have "cov\<^sup>2 \<le> varv * varr"
    using cauchy_schwarz_list[of "\<lambda>x. fst x - sv" "\<lambda>x. snd x - sr" ps]
    by (simp add: cov_def varv_def varr_def sum_loop_sum case_prod_unfold)
  then have "\<bar>cov\<bar> \<le> sqrt (varv * varr)" using real_sqrt_le_mono by fastforce
  then show ?thesis
  proof (cases "sqrt (varv * varr) > 1 / 10 ^ 9")
    case True
    then have "0 < sqrt (varv * varr)" by (rule less_trans[rotated]) simp
    with \<open>\<bar>cov\<bar> \<le> _\<close> have "\<bar>cov / sqrt (varv * varr)\<bar> \<le> 1" by (simp only: abs_divide abs_of_pos divide_le_eq_1_pos)
    then have "- 1 \<le> cov / sqrt (varv * varr) \<and> cov / sqrt (varv * varr) \<le> 1" by linarith
    then show ?thesis by (simp only: p split: if_split) simp
  qed (simp add: p)
qed

section \<open>Runs of the collector\<close>

inductive mf_step :: "MetricsFramework \<Rightarrow> MetricsFramework \<Rightarrow> bool" where
  Initialize: "mf_step mf (Mf_Initialize iv mf)"
| Snapshot: "mf_step mf (PeriodicSnapshot now mf)"
| Tx: "mf_step mf (RecordTx u bytes ctrl mf)"
| Rx: "mf_step mf (RecordRx u bytes delay ctrl mf)"
| Loss: "mf_step mf (RecordLoss u bytes mf)"
| Routing: "mf_step mf (RecordRoutingUpdate now active broken mf)"
| Connectivity: "mf_step mf (RecordConnectivitySample pairs max_pairs mf)"
| KeyEstab: "mf_step mf (RecordKeyEstablishment now u c lat ok mf)"
| Rekey: "mf_step mf (RecordRekey now c trig lat ver members cost mf)"
| Auth: "mf_step mf (RecordAuthAttempt now u c ok reason mf)"
| Secrecy: "mf_step mf (RecordSecrecyCheck now c ver fwd bwd ev mf)"
| Replay: "mf_step mf (RecordReplayDetection now u seq detected replay mf)"
| Healing: "mf_step mf (RecordHealingAttempt now u c t ok ev mf)"
| Overhead: "mf_step mf (RecordPacketOverhead now c d h hm mt ctl rk mf)"
| Timing: "mf_step mf (RecordComputeTiming op u us mf)"
| Sinr: "mf_step mf (RecordSinrSample now u c db thr mf)"
| JammerEv: "mf_step mf (RecordJammerEvent st en n db mf)"
| JammerRec: "mf_step mf (RecordJammerRecovery u ms mf)"
| LinkFailure: "mf_step mf (RecordLinkFailure now u c cause ok ms mf)"
| RouteBreak: "mf_step mf (RecordRouteBreak now u c v trig' mf)"
| Swarm: "mf_step mf (RecordSwarmSnapshot now a j cm dc pairs mf)"
| ClusterHead: "mf_step mf (RecordClusterHeadStatus now c n m ok metres mf)"
| Finalize: "mf_step mf (Mf_Finalize dur idx mf)"

lemmas record_defs = RecordTx_def RecordRx_def RecordLoss_def RecordRoutingUpdate_def RecordConnectivitySample_def
  RecordKeyEstablishment_def RecordRekey_def RecordAuthAttempt_def RecordSecrecyCheck_def RecordReplayDetection_def
  RecordHealingAttempt_def RecordPacketOverhead_def RecordComputeTiming_def RecordSinrSample_def
  RecordJammerEvent_def RecordJammerRecovery_def RecordLinkFailure_def RecordRouteBreak_def
  RecordSwarmSnapshot_def RecordClusterHeadStatus_def Mf_Initialize_def

text \<open>The sum of the counters of several UAVs.\<close>

definition pc_plus :: "PacketCounter \<Rightarrow> PacketCounter \<Rightarrow> PacketCounter" where
  "pc_plus p q = \<lparr> pc_tx = pc_tx p + pc_tx q, pc_rx = pc_rx p + pc_rx q, pc_lost = pc_lost p + pc_lost q,
     pc_ctrl_tx = pc_ctrl_tx p + pc_ctrl_tx q, pc_ctrl_rx = pc_ctrl_rx p + pc_ctrl_rx q,
     pc_bytes_tx = pc_bytes_tx p + pc_bytes_tx q, pc_bytes_rx = pc_bytes_rx p + pc_bytes_rx q \<rparr>"

definition pc_sum :: "PacketCounter list \<Rightarrow> PacketCounter" where
  "pc_sum ps = foldr pc_plus ps PacketCounter_new"

definition additive :: "(PacketCounter \<Rightarrow> PacketCounter) \<Rightarrow> bool" where
  "additive f \<longleftrightarrow> (\<forall>p q. f (pc_plus p q) = pc_plus (f p) q \<and> f (pc_plus p q) = pc_plus p (f q))"

lemma additive_counts [simp]: "additive (count_tx b k)" "additive (count_rx b k)" "additive count_loss"
  by (simp_all add: additive_def pc_plus_def count_tx_def count_rx_def count_loss_def Let_def)

lemma additive_left: "additive f \<Longrightarrow> f (pc_plus p q) = pc_plus (f p) q"
  and additive_right: "additive f \<Longrightarrow> f (pc_plus p q) = pc_plus p (f q)"
  unfolding additive_def by blast+

lemma pc_sum_update: "additive f \<Longrightarrow> i < length ps \<Longrightarrow> pc_sum (upd_at i f ps) = f (pc_sum ps)"
proof (induction ps arbitrary: i)
  case (Cons p ps)
  show ?case
  proof (cases i)
    case 0
    then show ?thesis by (simp add: pc_sum_def upd_at_def additive_left[OF Cons.prems(1)])
  next
    case (Suc k)
    with Cons have "pc_sum (upd_at k f ps) = f (pc_sum ps)" by simp
    then show ?thesis by (simp add: Suc pc_sum_def upd_at_def additive_right[OF Cons.prems(1)])
  qed
qed simp

lemma length_upd_at [simp]: "length (upd_at i f xs) = length xs"
  by (simp add: upd_at_def)

lemma nth_upd_at: "i < length xs \<Longrightarrow> upd_at i f xs ! j = (if j = i then f (xs ! i) else xs ! j)"
  by (simp add: upd_at_def nth_list_update)

text \<open>The six UAVs of cluster \<open>c\<close>.\<close>

abbreviation cluster_slice :: "nat \<Rightarrow> 'a list \<Rightarrow> 'a list" where
  "cluster_slice c xs \<equiv> take 6 (drop (6 * c) xs)"

lemma slice_upd_at:
  "i < length xs \<Longrightarrow> cluster_slice c (upd_at i f xs) =
     (if i div 6 = c then upd_at (i mod 6) f (cluster_slice c xs) else cluster_slice c xs)"
proof -
  assume i: "i < length xs"
  consider "i < 6 * c" | "6 * c \<le> i" "i < 6 * c + 6" | "6 * c + 6 \<le> i" by linarith
  then show ?thesis
  proof cases
    case 1
    then have "i div 6 \<noteq> c" by auto
    with 1 show ?thesis by (simp add: upd_at_def)
  next
    case 2
    then have "i div 6 = c" by auto
    moreover from this have "i - 6 * c = i mod 6" "6 * c + i mod 6 = i"
      using minus_mult_div_eq_mod[of i 6] mult_div_mod_eq[of 6 i] by simp_all
    ultimately show ?thesis using 2 i by (simp add: upd_at_def drop_update_swap take_update_swap)
  next
    case 3
    then have "i div 6 \<noteq> c" by auto
    with 3 show ?thesis by (simp add: upd_at_def drop_update_swap)
  qed
qed

lemma ClusterId_eq: "u < TOTAL_UAVS \<Longrightarrow> unat (ClusterId u) = unat u div 6" "u < TOTAL_UAVS \<longleftrightarrow> unat u < 18"
  by (simp_all add: ClusterId_def metric_consts unat_div word_less_nat_alt)

section \<open>Consistent counters\<close>

text \<open>
  The arrays have their lengths, the counter of a cluster is the sum of the counters of
  its six UAVs, every received packet has exactly one delay, and every sample is in range.
\<close>

definition traffic_ok :: "MetricsFramework \<Rightarrow> bool" where
  "traffic_ok mf \<longleftrightarrow>
     length (mf_pkt_cluster mf) = 3 \<and> length (mf_pkt_uav mf) = 18 \<and>
     length (mf_delay_cluster mf) = 3 \<and> length (mf_delay_uav mf) = 18 \<and>
     (\<forall>c<3. mf_pkt_cluster mf ! c = pc_sum (cluster_slice c (mf_pkt_uav mf))) \<and>
     (\<forall>u<18. da_count (mf_delay_uav mf ! u) = pc_rx (mf_pkt_uav mf ! u)) \<and>
     (\<forall>c<3. da_count (mf_delay_cluster mf ! c) = pc_rx (mf_pkt_cluster mf ! c)) \<and>
     da_count (mf_delay_global mf) = pc_rx (mf_pkt_global mf)"

definition samples_ok :: "MetricsFramework \<Rightarrow> bool" where
  "samples_ok mf \<longleftrightarrow>
     (\<forall>s\<in>set (mf_sinr_samples mf). 0 < ms_drop_prob s \<and> ms_drop_prob s < 1) \<and>
     (\<forall>s\<in>set (mf_stability_samples mf). 0 \<le> rs_stability_idx s) \<and>
     (\<forall>r\<in>set (mf_connectivity_samples mf). 0 \<le> r) \<and>
     (\<forall>s\<in>set (mf_swarm_snaps mf). 0 \<le> sw_survivability_ratio s \<and> 0 \<le> sw_connectivity_ratio s) \<and>
     distinct (map fst (mf_jammer_recovery_ms mf))"

definition summary_shape :: "MetricsFramework \<Rightarrow> bool" where
  "summary_shape mf \<longleftrightarrow>
     (let N = fs_network (mf_summary mf) in
      map length [ns_pdr_per_cluster N, ns_throughput_per_cluster_kbps N, ns_delay_per_cluster_ms N, ns_loss_per_cluster N]
        = [3, 3, 3, 3] \<and>
      map length [ns_pdr_per_uav N, ns_throughput_per_uav_kbps N, ns_delay_per_uav_ms N] = [18, 18, 18] \<and>
      length (ss_rekeys_per_cluster (fs_security (mf_summary mf))) = 3)"

lemma count_rx_simps [simp]:
  "pc_rx (count_rx b k pc) = pc_rx pc + 1" "pc_rx (count_tx b k pc) = pc_rx pc" "pc_rx (count_loss pc) = pc_rx pc"
  by (simp_all add: count_rx_def count_tx_def count_loss_def Let_def)

lemma traffic_ok_new: "traffic_ok (MetricsFramework_new seed)"
proof -
  have "pc_sum (replicate n PacketCounter_new) = PacketCounter_new" for n
    by (induction n) (simp_all add: pc_sum_def pc_plus_def PacketCounter_new_def)
  then show ?thesis
    by (simp add: traffic_ok_def MetricsFramework_new_def DelayAccumulator_new_def)
      (simp add: PacketCounter_new_def)
qed


lemma slice_length: "length xs = 18 \<Longrightarrow> c < 3 \<Longrightarrow> length (cluster_slice c xs) = 6"
  by simp

text \<open>The hooks of the counters keep the sums; \<open>RecordRx\<close> counts the delay with the packet.\<close>

definition sums_ok :: "MetricsFramework \<Rightarrow> bool" where
  "sums_ok mf \<longleftrightarrow> length (mf_pkt_cluster mf) = 3 \<and> length (mf_pkt_uav mf) = 18 \<and>
     (\<forall>c<3. mf_pkt_cluster mf ! c = pc_sum (cluster_slice c (mf_pkt_uav mf)))"

definition delays_ok :: "MetricsFramework \<Rightarrow> bool" where
  "delays_ok mf \<longleftrightarrow> length (mf_delay_cluster mf) = 3 \<and> length (mf_delay_uav mf) = 18 \<and>
     (\<forall>u<18. da_count (mf_delay_uav mf ! u) = pc_rx (mf_pkt_uav mf ! u)) \<and>
     (\<forall>c<3. da_count (mf_delay_cluster mf ! c) = pc_rx (mf_pkt_cluster mf ! c)) \<and>
     da_count (mf_delay_global mf) = pc_rx (mf_pkt_global mf)"

lemma traffic_ok_iff: "traffic_ok mf \<longleftrightarrow> sums_ok mf \<and> delays_ok mf"
  by (auto simp: traffic_ok_def sums_ok_def delays_ok_def)

lemma sums_ok_count: "additive f \<Longrightarrow> sums_ok mf \<Longrightarrow> sums_ok (count_packet u f mf)"
  by (auto simp: sums_ok_def count_packet_def Let_def ClusterId_eq slice_upd_at nth_upd_at pc_sum_update)

lemma delays_ok_count:
  "(\<And>pc. pc_rx (f pc) = pc_rx pc) \<Longrightarrow> sums_ok mf \<Longrightarrow> delays_ok mf \<Longrightarrow> delays_ok (count_packet u f mf)"
  by (auto simp: delays_ok_def sums_ok_def count_packet_def Let_def ClusterId_eq nth_upd_at)

lemma count_packet_frame [simp]:
  "mf_delay_global (count_packet u f mf) = mf_delay_global mf"
  "mf_delay_cluster (count_packet u f mf) = mf_delay_cluster mf"
  "mf_delay_uav (count_packet u f mf) = mf_delay_uav mf"
  by (simp_all add: count_packet_def Let_def)

lemma traffic_ok_step:
  assumes "mf_step mf mf'" "traffic_ok mf"
  shows "traffic_ok mf'"
  using assms
proof (induction rule: mf_step.cases)
  case (Rx mf u b d k)
  then have "sums_ok (count_packet u (count_rx b k) mf)" by (simp add: traffic_ok_iff sums_ok_count)
  then have "sums_ok mf'" using Rx by (simp add: RecordRx_def Let_def sums_ok_def)
  moreover have "delays_ok mf'"
    using Rx by (auto simp: RecordRx_def Let_def traffic_ok_def delays_ok_def count_packet_def ClusterId_eq nth_upd_at)
  ultimately show ?case by (simp add: traffic_ok_iff)
qed (simp_all add: traffic_ok_iff RecordTx_def RecordLoss_def sums_ok_count delays_ok_count,
     simp_all add: record_defs sums_ok_def delays_ok_def Let_def PeriodicSnapshot_def Mf_Finalize_def)

lemma unsigned_real_nonneg [simp]: "0 \<le> (unsigned w :: real)" for w :: "'a::len word"
  by (metis of_nat_0_le_iff of_nat_unat)

lemma drop_prob_range: "0 < exp (- (10 powr x) / 2 :: real)" "exp (- (10 powr x) / 2 :: real) < 1"
  by simp_all

lemma samples_ok_step:
  assumes "mf_step mf mf'" "samples_ok mf"
  shows "samples_ok mf'"
  using assms
  by (induction rule: mf_step.cases)
    (auto simp: samples_ok_def record_defs Let_def PeriodicSnapshot_def Mf_Finalize_def count_packet_def
      metric_consts distinct_update)

lemma length_tally [simp]: "length (tally_rekeys rs ns) = length ns"
  unfolding tally_rekeys_def by (induction rs rule: rev_induct) simp_all

lemma summary_shape_step:
  assumes "mf_step mf mf'" "summary_shape mf" "traffic_ok mf"
  shows "summary_shape mf'"
  using assms
proof (induction rule: mf_step.cases)
  case (Finalize mf dur idx)
  then show ?case
    by (simp add: summary_shape_def traffic_ok_def Mf_Finalize_def Let_def Finalize_network_def Finalize_security_def)
qed (simp_all add: summary_shape_def record_defs Let_def PeriodicSnapshot_def count_packet_def)

section \<open>Rates\<close>

definition unit_interval :: "real \<Rightarrow> bool" where
  "unit_interval x \<longleftrightarrow> 0 \<le> x \<and> x \<le> 1"

definition rates_ok :: "FullMetricsSummary \<Rightarrow> bool" where
  "rates_ok sm \<longleftrightarrow>
     (let S = fs_security sm; M = fs_mobility sm in
      unit_interval (ss_auth_success_rate S) \<and> unit_interval (ss_forward_secrecy_rate S) \<and>
      unit_interval (ss_backward_secrecy_rate S) \<and> unit_interval (ss_replay_detection_rate S) \<and>
      unit_interval (ss_replay_false_pos_rate S) \<and> unit_interval (ss_healing_success_rate S) \<and>
      unit_interval (mo_cluster_head_stability M) \<and> - 1 \<le> mo_mobility_rekey_corr M \<and>
      mo_mobility_rekey_corr M \<le> 1 \<and> 0 \<le> ds_interference_impact (fs_denied sm) \<and>
      ss_avg_rekey_latency_ms S \<le> ss_max_rekey_latency_ms S \<and>
      ss_avg_key_estab_ms S \<le> ss_max_key_estab_ms S)"

text \<open>Fewer than \<open>2 ^ 32\<close> records of the kinds that a \<open>uint32_t\<close> counts.\<close>

definition small :: "MetricsFramework \<Rightarrow> bool" where
  "small mf \<longleftrightarrow> length (mf_auth mf) < 2 ^ 32 \<and> length (mf_secrecy mf) < 2 ^ 32 \<and> length (mf_replay mf) < 2 ^ 32 \<and>
     length (mf_healing mf) < 2 ^ 32 \<and> length (mf_cluster_head mf) < 2 ^ 32"

lemma small_step: "mf_step mf mf' \<Longrightarrow> small mf' \<Longrightarrow> small mf"
  by (induction rule: mf_step.cases)
    (auto simp: small_def record_defs Let_def PeriodicSnapshot_def Mf_Finalize_def count_packet_def split: if_splits)

text \<open>\<open>tp / (tp + fn)\<close> for two disjoint counts.\<close>

lemma detection_rate:
  assumes "length rs < 2 ^ 32" "\<And>r. \<not> (p r \<and> q r)"
  shows "unit_interval (if count_loop p rs + count_loop q rs \<noteq> 0
    then real (unat (count_loop p rs)) / real (unat (count_loop p rs + count_loop q rs)) else 0)"
proof -
  have "length (filter p rs) + length (filter q rs) \<le> length rs"
    using assms(2) by (induction rs) auto
  then have "unat (count_loop p rs + count_loop q rs) = unat (count_loop p rs) + unat (count_loop q rs)"
    using assms(1) by (intro unat_add_lem[THEN iffD1]) (simp add: unat_count_loop)
  then show ?thesis by (auto simp: unit_interval_def divide_le_eq_1 less_le simp del: of_nat_unat)
qed

lemma mean_le_max: "rs \<noteq> [] \<Longrightarrow> mean_of f rs \<le> max_loop f rs"
  by (rule mean_of_le[OF _ max_loop_ge(1)])

lemma rates_ok_Finalize:
  assumes "rates_ok (mf_summary mf)" "small mf"
  shows "rates_ok (mf_summary (Mf_Finalize dur idx mf))"
proof -
  let ?S = "Finalize_security mf (fs_security (mf_summary mf))"
  note sec = Finalize_security_def Let_def rates_ok_def
  have "unit_interval (ss_auth_success_rate ?S)" "unit_interval (ss_forward_secrecy_rate ?S)"
    "unit_interval (ss_backward_secrecy_rate ?S)" "unit_interval (ss_healing_success_rate ?S)"
    using assms share_of_range by (auto simp: sec unit_interval_def small_def)
  moreover have "unit_interval (ss_replay_detection_rate ?S)" "unit_interval (ss_replay_false_pos_rate ?S)"
    using assms detection_rate[of "mf_replay mf" "\<lambda>r. rp_was_replay r \<and> rp_detected r" "\<lambda>r. rp_was_replay r \<and> \<not> rp_detected r"]
      detection_rate[of "mf_replay mf" "\<lambda>r. \<not> rp_was_replay r \<and> rp_detected r" "\<lambda>r. \<not> rp_was_replay r \<and> \<not> rp_detected r"]
    by (auto simp: sec small_def)
  moreover have "ss_avg_rekey_latency_ms ?S \<le> ss_max_rekey_latency_ms ?S" "ss_avg_key_estab_ms ?S \<le> ss_max_key_estab_ms ?S"
    using assms(1) mean_le_max by (auto simp: sec)
  moreover have "unit_interval (mo_cluster_head_stability (Finalize_mobility mf dur (fs_mobility (mf_summary mf))))"
    "- 1 \<le> mo_mobility_rekey_corr (Finalize_mobility mf dur (fs_mobility (mf_summary mf)))"
    "mo_mobility_rekey_corr (Finalize_mobility mf dur (fs_mobility (mf_summary mf))) \<le> 1"
    using assms share_of_range pearson_range by (auto simp: Finalize_mobility_def Let_def rates_ok_def unit_interval_def small_def)
  moreover have "0 \<le> ds_interference_impact (Finalize_denied mf dur g (fs_denied (mf_summary mf)))" for g
    using assms(1) by (simp add: Finalize_denied_def Let_def rates_ok_def)
  ultimately show ?thesis by (simp add: rates_ok_def Mf_Finalize_def Let_def)
qed

lemma rates_ok_step: "mf_step mf mf' \<Longrightarrow> small mf \<Longrightarrow> rates_ok (mf_summary mf) \<Longrightarrow> rates_ok (mf_summary mf')"
  by (induction rule: mf_step.cases)
    (simp_all add: rates_ok_Finalize, simp_all add: record_defs Let_def PeriodicSnapshot_def count_packet_def)

abbreviation mf_run :: "u32 \<Rightarrow> MetricsFramework \<Rightarrow> bool" where
  "mf_run seed mf \<equiv> mf_step\<^sup>*\<^sup>* (MetricsFramework_new seed) mf"

lemma rates_ok_run: "mf_run seed mf \<Longrightarrow> small mf \<Longrightarrow> rates_ok (mf_summary mf)"
proof (induction rule: rtranclp_induct)
  case base
  then show ?case by (simp add: MetricsFramework_new_def FullMetricsSummary_new_def rates_ok_def unit_interval_def)
next
  case (step mf mf')
  then show ?case using small_step rates_ok_step by blast
qed

section \<open>The properties\<close>

text \<open>
  C35.  The collector stays well formed.  After any sequence of hooks, snapshots and finalizations the
  arrays have their 3 and 18 entries, the counter of a cluster is the sum of the counters of its six
  UAVs (modulo \<open>2 ^ 64\<close> like the counters themselves), every received packet is counted with exactly one
  delay, for the UAV, the cluster and the network, every drop probability lies strictly between 0 and 1 (the
  clamping in \<open>RecordSinrSample\<close> never acts), no ratio is negative, and the summary keeps its shape.
\<close>
theorem metrics_well_formed:
  assumes "mf_step\<^sup>*\<^sup>* (MetricsFramework_new seed) mf"
  shows "traffic_ok mf \<and> samples_ok mf \<and> summary_shape mf"
  using assms
proof (induction rule: rtranclp_induct)
  case base
  have "samples_ok (MetricsFramework_new seed)" "summary_shape (MetricsFramework_new seed)"
    by (simp_all add: samples_ok_def summary_shape_def MetricsFramework_new_def FullMetricsSummary_new_def)
  then show ?case using traffic_ok_new by simp
next
  case (step mf mf')
  then show ?case using traffic_ok_step samples_ok_step summary_shape_step by blast
qed

text \<open>
  Whatever was recorded, the rates that \<open>Finalize\<close> reports are rates: the shares of successful authentications, of
  secrecy checks, of detected replays and false alarms, of healed UAVs and of reachable cluster heads
  lie in [0, 1], the correlation of speed and rekeying in [-1, 1], the interference is not
  negative and no average latency exceeds its maximum, as long as fewer than \<open>2 ^ 32\<close> events of a kind are
  counted.  (The packet delivery ratio and the survivability have no such bound: the hooks take any values.)
\<close>
theorem summary_rates:
  assumes "mf_step\<^sup>*\<^sup>* (MetricsFramework_new seed) mf" "small mf"
  shows "rates_ok (mf_summary (Mf_Finalize dur idx mf))"
  using rates_ok_run[OF assms] assms(2) by (rule rates_ok_Finalize)

text \<open>The delays that reach the accumulator of one UAV.\<close>

abbreviation rx_run :: "(u32 \<times> u32 \<times> real \<times> bool) list \<Rightarrow> MetricsFramework \<Rightarrow> MetricsFramework" where
  "rx_run calls mf \<equiv> foldl (\<lambda>mf (u, bytes, delay, ctrl). RecordRx u bytes delay ctrl mf) mf calls"

definition delays_of :: "u32 \<Rightarrow> (u32 \<times> u32 \<times> real \<times> bool) list \<Rightarrow> real list" where
  "delays_of u calls = map (\<lambda>(v, b, d, k). d) (filter (\<lambda>(v, b, d, k). v = u) calls)"

lemma rx_run_delays:
  fixes seed :: u32
  defines "mf \<equiv> \<lambda>calls. rx_run calls (MetricsFramework_new seed)"
  shows "mf_delay_global (mf calls) = delays (map (\<lambda>(v, b, d, k). d) calls)"
    "length (mf_delay_uav (mf calls)) = 18"
    "u < TOTAL_UAVS \<Longrightarrow> mf_delay_uav (mf calls) ! unat u = delays (delays_of u calls)"
  unfolding mf_def
  by (induction calls rule: rev_induct)
    (auto simp: MetricsFramework_new_def RecordRx_def Let_def delays_of_def nth_upd_at ClusterId_eq
      dest: word_unat_eq_iff[THEN iffD2])

definition mean :: "real list \<Rightarrow> real" where
  "mean ds = sum_list ds / real (length ds)"

definition deviation :: "real list \<Rightarrow> real" where
  "deviation ds = sqrt (sum_list (map (\<lambda>d. (d - mean ds)\<^sup>2) ds) / real (length ds))"

lemma delays_Avg:
  assumes "length ds < 2 ^ 64"
  shows "Delay_Avg (delays ds) = mean ds"
proof -
  have "unat (da_count (delays ds)) = length ds" using assms by (simp add: delay_run unat_of_nat)
  then show ?thesis by (auto simp: Delay_Avg_def mean_def delay_run(1) simp del: of_nat_unat)
qed

lemma delays_Jitter:
  assumes "length ds < 2 ^ 64"
  shows "Delay_Jitter (delays ds) = deviation ds"
proof (cases "2 \<le> length ds")
  case True
  then have "ds \<noteq> []" by auto
  have "\<not> da_count (delays ds) < 2"
    using True assms by (simp add: delay_run word_less_nat_alt unat_of_nat)
  moreover have "real (unat (da_count (delays ds))) = real (length ds)"
    using assms by (simp add: delay_run unat_of_nat del: of_nat_unat)
  ultimately have "Delay_Jitter (delays ds) =
      (let var = sum_list (map (\<lambda>d. d * d) ds) / real (length ds) - mean ds * mean ds in if var > 0 then sqrt var else 0)"
    using assms by (simp add: Delay_Jitter_def Let_def delays_Avg delay_run(2) del: of_nat_unat)
  also have "\<dots> = (let var = sum_list (map (\<lambda>d. (d - mean ds)\<^sup>2) ds) / real (length ds) in if var > 0 then sqrt var else 0)"
    using variance_eq[OF \<open>ds \<noteq> []\<close>] by (simp only: mean_def)
  also have "\<dots> = deviation ds"
    using sum_list_sq_nonneg[of "\<lambda>d. d - mean ds" ds] \<open>ds \<noteq> []\<close>
    by (auto simp: Let_def deviation_def not_less divide_le_0_iff)
  finally show ?thesis .
next
  case False
  then consider "ds = []" | d where "ds = [d]" by (cases ds) (auto simp: Suc_le_eq)
  then show ?thesis
    by cases (simp_all add: Delay_Jitter_def DelayAccumulator_new_def deviation_def mean_def)
qed

text \<open>
  C36.  The delay figures are the textbook statistics of the delays passed to \<open>RecordRx\<close>: the global average is
  their mean, the jitter, computed from the sum of the squares, is their standard
  deviation (the guard \<open>var > 0\<close> only matters for rounding), the average of a UAV is the mean of its own delays,
  and minimum and maximum are those of the delays, between which the mean lies, provided that
  no delay is negative or longer than the \<open>1e9\<close> ms at which the minimum starts.
\<close>
theorem delay_statistics:
  assumes "calls \<noteq> []" "length calls < 2 ^ 64" "\<forall>(v, b, d, k)\<in>set calls. 0 \<le> d \<and> d \<le> 10 ^ 9"
  shows "let mf = rx_run calls (MetricsFramework_new seed);
             ds = map (\<lambda>(v, b, d, k). d) calls;
             N = fs_network (mf_summary (Mf_Finalize dur idx mf))
         in ns_global_avg_delay_ms N = mean ds \<and> ns_global_jitter_ms N = deviation ds \<and>
            (\<forall>u. u < TOTAL_UAVS \<longrightarrow> ns_delay_per_uav_ms N ! unat u = mean (delays_of u calls)) \<and>
            da_min_ms (mf_delay_global mf) = Min (set ds) \<and> da_max_ms (mf_delay_global mf) = Max (set ds) \<and>
            Min (set ds) \<le> mean ds \<and> mean ds \<le> Max (set ds)"
proof -
  let ?ds = "map (\<lambda>(v, b, d, k). d) calls"
  have ds: "set ?ds \<noteq> {}" "length ?ds < 2 ^ 64" "\<forall>d\<in>set ?ds. 0 \<le> d \<and> d \<le> 10 ^ 9" using assms by auto
  have one: "length (delays_of u calls) < 2 ^ 64" for u
    using assms(2) by (simp add: delays_of_def le_less_trans[OF length_filter_le])
  have "Min (set ?ds) \<le> 10 ^ 9" "0 \<le> Max (set ?ds)"
    using ds(1,3) Min_in[of "set ?ds"] Max_in[of "set ?ds"] by (simp_all del: set_map)
  then have mm: "da_min_ms (delays ?ds) = Min (set ?ds)" "da_max_ms (delays ?ds) = Max (set ?ds)"
    using ds(1) by (simp_all add: delay_run Min_insert Max_insert del: set_map)
  have "Min (set ?ds) \<le> mean ?ds" "mean ?ds \<le> Max (set ?ds)"
    using mean_of_ge[of ?ds "Min (set ?ds)" "\<lambda>d. d"] mean_of_le[of ?ds "\<lambda>d. d" "Max (set ?ds)"] ds(1)
    by (simp_all add: mean_of_def sum_loop_sum mean_def del: set_map)
  then show ?thesis
    using ds(2) one mm
    by (simp add: Let_def Mf_Finalize_def Finalize_network_def rx_run_delays delays_Avg delays_Jitter ClusterId_eq(2) del: set_map)
qed

section \<open>Concrete runs\<close>

definition demo_mf :: MetricsFramework where
  "demo_mf = RecordAuthAttempt 2 4 0 False ''REPLAY'' (RecordRx 4 256 3 True (RecordTx 4 256 True (MetricsFramework_new 7)))"

lemma demo_mf_run: "mf_step\<^sup>*\<^sup>* (MetricsFramework_new 7) demo_mf"
  unfolding demo_mf_def by (meson mf_step.intros rtranclp.intros)

lemma metrics_well_formed_witness:
  "traffic_ok demo_mf \<and> samples_ok demo_mf \<and> pc_rx (mf_pkt_cluster demo_mf ! 0) = 1"
proof -
  have "pc_rx (mf_pkt_cluster demo_mf ! 0) = 1"
    by (simp add: demo_mf_def record_defs count_packet_def Let_def ClusterId_def metric_consts nth_upd_at
        MetricsFramework_new_def PacketCounter_new_def)
  then show ?thesis using metrics_well_formed[OF demo_mf_run] by simp
qed

lemma summary_rates_witness:
  "rates_ok (mf_summary (Mf_Finalize 100 0 demo_mf)) \<and> GetAuthSuccessRate (Mf_Finalize 100 0 demo_mf) = 0"
proof -
  have mf: "mf_auth demo_mf = [\<lparr> au_time_s = 2, au_uav_id = 4, au_cluster_id = 0, au_success = False, au_failure_reason = ''REPLAY'' \<rparr>]"
    "mf_secrecy demo_mf = []" "mf_replay demo_mf = []" "mf_healing demo_mf = []" "mf_cluster_head demo_mf = []"
    by (simp_all add: demo_mf_def record_defs count_packet_def Let_def ClusterId_def metric_consts MetricsFramework_new_def)
  then have "small demo_mf" by (simp add: small_def)
  moreover have "GetAuthSuccessRate (Mf_Finalize 100 0 demo_mf) = 0"
    by (simp add: GetAuthSuccessRate_def Mf_Finalize_def Let_def Finalize_security_def mf share_of_def count_loop_def)
  ultimately show ?thesis using summary_rates[OF demo_mf_run] by simp
qed

lemma delay_statistics_witness:
  "let mf = rx_run [(0, 10, 2, False), (1, 10, 4, False)] (MetricsFramework_new 7);
       N = fs_network (mf_summary (Mf_Finalize 100 0 mf))
   in ns_global_avg_delay_ms N = 3 \<and> ns_global_jitter_ms N = 1 \<and> ns_delay_per_uav_ms N ! 1 = 4"
proof -
  let ?calls = "[(0, 10, 2, False), (1, 10, 4, False)] :: (u32 \<times> u32 \<times> real \<times> bool) list"
  have "mean (map (\<lambda>(v, b, d, k). d) ?calls) = 3" "deviation (map (\<lambda>(v, b, d, k). d) ?calls) = 1"
    "mean (delays_of 1 ?calls) = 4" "(1::u32) < TOTAL_UAVS"
    by (simp_all add: mean_def deviation_def delays_of_def metric_consts)
  moreover have "?calls \<noteq> []" "length ?calls < 2 ^ 64" "\<forall>(v, b, d, k)\<in>set ?calls. 0 \<le> d \<and> d \<le> 10 ^ 9" by simp_all
  note delay_statistics[OF this, of 7 100 0]
  ultimately show ?thesis by (auto simp: Let_def simp del: foldl_Cons list.map dest: spec[of _ 1])
qed

end
