(* ===== verification/Timing_Profiler.thy ===== *)
theory Timing_Profiler
  imports Complex_Main Uav_Prelude "HOL-Library.AList"
begin

text \<open>
  metrics/uav-timing-profiler.\{h,cc\}: the collector of timings of a run.  A timer reads the wall clock
  (its reading is an argument), everything else the simulated time \<open>now\<close>.  The CSV files and the
  console summary are left out.
\<close>

record CryptoTimingRecord =
  cy_operation :: string
  cy_node_id :: u32
  cy_cluster_id :: u32
  cy_sim_time_s :: real
  cy_wall_us :: real
  cy_data_bytes :: u32

record NetworkEventRecord =
  ne_event_type :: string
  ne_uav_id :: u32
  ne_cluster_id :: u32
  ne_trigger_s :: real
  ne_complete_s :: real
  ne_latency_ms :: real
  ne_details :: string

record PacketTimingRecord =
  pt_pkt_type :: string
  pt_src_id :: u32
  pt_dst_id :: u32
  pt_send_s :: real
  pt_recv_s :: real
  pt_delay_ms :: real
  pt_size_bytes :: u32

record PendingEvent =
  pe_event_type :: string
  pe_cluster_id :: u32
  pe_trigger_s :: real

record TimingProfiler =
  tp_crypto :: "CryptoTimingRecord list"
  tp_events :: "NetworkEventRecord list"
  tp_packets :: "PacketTimingRecord list"
  tp_pending :: "(string \<times> PendingEvent) list"

text \<open>\<open>Instance()\<close> starts empty, \<open>Reset()\<close> empties it again.\<close>

definition Tp_Reset :: "TimingProfiler \<Rightarrow> TimingProfiler" where
  "Tp_Reset tp = tp \<lparr> tp_crypto := [], tp_events := [], tp_packets := [], tp_pending := [] \<rparr>"

text \<open>\<open>std::to_string\<close> of an unsigned number.\<close>

fun to_string :: "nat \<Rightarrow> string" where
  "to_string n = (if n < 10 then [char_of (48 + n)] else to_string (n div 10) @ [char_of (48 + n mod 10)])"

declare to_string.simps [simp del]

definition pending_key :: "string \<Rightarrow> u32 \<Rightarrow> string" where
  "pending_key event_type uav_id = event_type @ ''_'' @ to_string (unat uav_id)"

definition RecordCrypto :: "real \<Rightarrow> string \<Rightarrow> u32 \<Rightarrow> u32 \<Rightarrow> real \<Rightarrow> u32 \<Rightarrow> TimingProfiler \<Rightarrow> TimingProfiler" where
  "RecordCrypto now operation node_id cluster_id wall_us data_bytes tp =
     tp \<lparr> tp_crypto := tp_crypto tp @
       [\<lparr> cy_operation = operation, cy_node_id = node_id, cy_cluster_id = cluster_id, cy_sim_time_s = now,
          cy_wall_us = wall_us, cy_data_bytes = data_bytes \<rparr>] \<rparr>"

definition RecordEventStart :: "real \<Rightarrow> string \<Rightarrow> u32 \<Rightarrow> u32 \<Rightarrow> TimingProfiler \<Rightarrow> TimingProfiler" where
  "RecordEventStart now event_type uav_id cluster_id tp =
     tp \<lparr> tp_pending := AList.update (pending_key event_type uav_id)
       \<lparr> pe_event_type = event_type, pe_cluster_id = cluster_id, pe_trigger_s = now \<rparr> (tp_pending tp) \<rparr>"

definition RecordEventComplete :: "real \<Rightarrow> string \<Rightarrow> u32 \<Rightarrow> string \<Rightarrow> TimingProfiler \<Rightarrow> TimingProfiler" where
  "RecordEventComplete now event_type uav_id details tp =
     (let key = pending_key event_type uav_id;
          r = \<lparr> ne_event_type = event_type, ne_uav_id = uav_id, ne_cluster_id = 0, ne_trigger_s = 0,
                ne_complete_s = now, ne_latency_ms = 0, ne_details = details \<rparr>;
          (r, tp) =
            (case map_of (tp_pending tp) key of
               Some pe \<Rightarrow> (r \<lparr> ne_cluster_id := pe_cluster_id pe, ne_trigger_s := pe_trigger_s pe,
                               ne_latency_ms := (now - pe_trigger_s pe) * 1000 \<rparr>,
                            tp \<lparr> tp_pending := AList.delete key (tp_pending tp) \<rparr>)
             | None \<Rightarrow> (r \<lparr> ne_trigger_s := now, ne_latency_ms := 0 \<rparr>, tp))
      in tp \<lparr> tp_events := tp_events tp @ [r] \<rparr>)"

definition RecordNetworkEvent :: "NetworkEventRecord \<Rightarrow> TimingProfiler \<Rightarrow> TimingProfiler" where
  "RecordNetworkEvent r tp = tp \<lparr> tp_events := tp_events tp @ [r] \<rparr>"

definition RecordPacketSend :: "real \<Rightarrow> string \<Rightarrow> u32 \<Rightarrow> u32 \<Rightarrow> u32 \<Rightarrow> TimingProfiler \<Rightarrow> TimingProfiler" where
  "RecordPacketSend now pkt_type src_id dst_id size_bytes tp =
     tp \<lparr> tp_packets := tp_packets tp @
       [\<lparr> pt_pkt_type = pkt_type, pt_src_id = src_id, pt_dst_id = dst_id, pt_send_s = now, pt_recv_s = 0,
          pt_delay_ms = 0, pt_size_bytes = size_bytes \<rparr>] \<rparr>"

text \<open>The search runs from the newest record to the oldest; the list is given reversed.\<close>

fun match_recv :: "real \<Rightarrow> string \<Rightarrow> u32 \<Rightarrow> u32 \<Rightarrow> PacketTimingRecord list \<Rightarrow> PacketTimingRecord list option" where
  "match_recv now pkt_type src_id dst_id [] = None"
| "match_recv now pkt_type src_id dst_id (r # rs) =
     (if pt_pkt_type r = pkt_type \<and> pt_src_id r = src_id \<and> pt_dst_id r = dst_id \<and> pt_recv_s r = 0
      then Some (r \<lparr> pt_recv_s := now, pt_delay_ms := (now - pt_send_s r) * 1000 \<rparr> # rs)
      else map_option (Cons r) (match_recv now pkt_type src_id dst_id rs))"

definition RecordPacketRecv :: "real \<Rightarrow> string \<Rightarrow> u32 \<Rightarrow> u32 \<Rightarrow> TimingProfiler \<Rightarrow> TimingProfiler" where
  "RecordPacketRecv now pkt_type src_id dst_id tp =
     (case match_recv now pkt_type src_id dst_id (rev (tp_packets tp)) of
        Some rs \<Rightarrow> tp \<lparr> tp_packets := rev rs \<rparr>
      | None \<Rightarrow>
          tp \<lparr> tp_packets := tp_packets tp @
            [\<lparr> pt_pkt_type = pkt_type, pt_src_id = src_id, pt_dst_id = dst_id, pt_send_s = now, pt_recv_s = now,
               pt_delay_ms = 0, pt_size_bytes = 0 \<rparr>] \<rparr>)"

definition avg_of :: "real list \<Rightarrow> real" where
  "avg_of vals = (if vals = [] then 0 else foldl (+) 0 vals / real (length vals))"

definition GetAvgCryptoTime :: "TimingProfiler \<Rightarrow> string \<Rightarrow> real" where
  "GetAvgCryptoTime tp op = avg_of (map cy_wall_us (filter (\<lambda>r. cy_operation r = op) (tp_crypto tp)))"

definition GetAvgEventLatency :: "TimingProfiler \<Rightarrow> string \<Rightarrow> real" where
  "GetAvgEventLatency tp event_type = avg_of (map ne_latency_ms (filter (\<lambda>r. ne_event_type r = event_type) (tp_events tp)))"

section \<open>Facts\<close>

text \<open>An event that starts and completes at the same simulated time has no latency, and leaves nothing pending.\<close>

lemma event_in_one_instant:
  "tp_events (RecordEventComplete t ev u d (RecordEventStart t ev u c tp)) =
     tp_events tp @ [\<lparr> ne_event_type = ev, ne_uav_id = u, ne_cluster_id = c, ne_trigger_s = t, ne_complete_s = t,
       ne_latency_ms = 0, ne_details = d \<rparr>]"
  "map_of (tp_pending (RecordEventComplete t ev u d (RecordEventStart t ev u c tp))) (pending_key ev u) = None"
  by (simp_all add: RecordEventComplete_def RecordEventStart_def Let_def update_conv' delete_conv')

text \<open>
  Two packets of a kind on their way at the same time: the first arrival is matched with the packet that
  was sent last, so the delay of a channel that keeps the order is too short at first.
\<close>

lemma recv_matches_newest:
  assumes "tp_packets tp = []" "r \<noteq> 0"
  shows "map pt_delay_ms (tp_packets (RecordPacketRecv r k s d (RecordPacketSend t2 k s d n2 (RecordPacketSend t1 k s d n1 tp)))) =
    [0, (r - t2) * 1000]"
  using assms by (simp add: RecordPacketRecv_def RecordPacketSend_def)

end
