(* ===== verification/Perf_Scenario.thy ===== *)
theory Perf_Scenario
  imports Group_Runs Metrics_Facts Timing_Profiler
begin

text \<open>
  scenario/rekey\_perf\_scenario.\{h,cc\}: the series of runs that measures the rekeying.  A run
  sets up the network with the managers of theory Group\_Managers, schedules joins,
  leaves, a compromise, a global rekey and a handover, samples the SINR, and computes the figures it reports
  from the collector of theory Metrics\_Framework and from ns-3's flow monitor.  The handlers are modelled with
  all calls to the managers, the collector and the profiler; the animation and the shell commands for
  the plots are left out.  What ns-3 supplies is an argument: the draws of the generator, the readings of
  the timers, the statistics of the flow monitor, the node ids of the SKDCs.  The \<open>Net\<close> of a run changes
  between the handlers, by the applications of theories Skdc\_App, Uav\_App and Kdc\_App.
\<close>

section \<open>Configuration\<close>

record PerfConfig =
  cfg_uav_counts :: "u32 list"
  cfg_duration_s :: real
  cfg_runs_per_config :: u32
  cfg_seed_base :: u32
  cfg_join_interval_s :: real
  cfg_join_start_s :: real
  cfg_leave_interval_s :: real
  cfg_leave_start_s :: real
  cfg_compromise_times :: "real list"
  cfg_batch_rekey_times :: "real list"
  cfg_handover_time_s :: real

definition PerfConfig_default :: PerfConfig where
  "PerfConfig_default = \<lparr> cfg_uav_counts = [6, 9, 12, 15, 18], cfg_duration_s = 120, cfg_runs_per_config = 3,
     cfg_seed_base = 642, cfg_join_interval_s = 20, cfg_join_start_s = 5, cfg_leave_interval_s = 25,
     cfg_leave_start_s = 10, cfg_compromise_times = [50], cfg_batch_rekey_times = [60], cfg_handover_time_s = 80 \<rparr>"

text \<open>The sizes of a run: always three clusters.\<close>

definition uavs_per_cluster :: "u32 \<Rightarrow> u32" where
  "uavs_per_cluster uav_count = max 2 (min 10 (uav_count div 3))"

definition actual_n :: "u32 \<Rightarrow> u32" where
  "actual_n uav_count = uavs_per_cluster uav_count * 3"

text \<open>\<open>j\<close> gives the draws \<open>jitter(rng_jitter)\<close> of the run, in the order of the calls.\<close>

definition perf_config :: "(nat \<Rightarrow> real) \<Rightarrow> u32 \<Rightarrow> PerfConfig \<Rightarrow> PerfConfig" where
  "perf_config j uav_count cfg =
     (let cfg = cfg \<lparr> cfg_join_start_s := max 3 (5 + j 0) \<rparr>;
          cfg = cfg \<lparr> cfg_leave_start_s := max 5 (10 + j 1) \<rparr>;
          cfg = cfg \<lparr> cfg_join_interval_s := max 5 (cfg_join_interval_s cfg + j 2 * 0.3) \<rparr>;
          cfg = cfg \<lparr> cfg_leave_interval_s := max 8 (cfg_leave_interval_s cfg + j 3 * 0.3) \<rparr>;
          n = real (unat (actual_n uav_count));
          cfg = cfg \<lparr> cfg_join_interval_s := max 5 (20 - n * 0.5) \<rparr>
      in cfg \<lparr> cfg_leave_interval_s := max 8 (25 - n * 0.6) \<rparr>)"

section \<open>The schedule\<close>

text \<open>
  \<open>for (double t = start; t < limit; t += step)\<close>, the times for which the body runs.  The loop
  does not end when \<open>step\<close> is not positive.
\<close>

partial_function (option) time_loop :: "real \<Rightarrow> real \<Rightarrow> real \<Rightarrow> real list option" where
  "time_loop t limit step =
     (if t < limit then Option.bind (time_loop (t + step) limit step) (\<lambda>ts. Some (t # ts)) else Some [])"

text \<open>The cast of a double to \<open>uint32_t\<close> cuts the fraction off.\<close>

definition to_u32 :: "real \<Rightarrow> u32" where
  "to_u32 x = word_of_int (if x < 0 then - \<lfloor>- x\<rfloor> else \<lfloor>x\<rfloor>)"

datatype PerfEvent =
    PerfJoin u32
  | PerfLeave u32
  | PerfCompromise
  | PerfBatchRekey
  | PerfHandover

definition join_events :: "PerfConfig \<Rightarrow> u32 \<Rightarrow> (real \<times> PerfEvent) list option" where
  "join_events cfg n =
     map_option (map (\<lambda>t. (t, PerfJoin (to_u32 (t / cfg_join_interval_s cfg) mod n))))
       (time_loop (cfg_join_start_s cfg) (cfg_duration_s cfg - 10) (cfg_join_interval_s cfg))"

definition leave_events :: "PerfConfig \<Rightarrow> u32 \<Rightarrow> (real \<times> PerfEvent) list option" where
  "leave_events cfg n =
     map_option (map (\<lambda>t. (t, PerfLeave (to_u32 (t / cfg_leave_interval_s cfg + 1) mod n))))
       (time_loop (cfg_leave_start_s cfg) (cfg_duration_s cfg - 10) (cfg_leave_interval_s cfg))"

definition compromise_events :: "PerfConfig \<Rightarrow> (real \<times> PerfEvent) list" where
  "compromise_events cfg =
     map (\<lambda>t. (t, PerfCompromise)) (filter (\<lambda>t. \<not> t \<ge> cfg_duration_s cfg) (cfg_compromise_times cfg))"

definition batch_rekey_events :: "PerfConfig \<Rightarrow> (real \<times> PerfEvent) list" where
  "batch_rekey_events cfg =
     map (\<lambda>t. (t, PerfBatchRekey)) (filter (\<lambda>t. \<not> t \<ge> cfg_duration_s cfg) (cfg_batch_rekey_times cfg))"

definition handover_events :: "PerfConfig \<Rightarrow> u32 \<Rightarrow> (real \<times> PerfEvent) list" where
  "handover_events cfg n =
     (if cfg_handover_time_s cfg < cfg_duration_s cfg \<and> n \<ge> 3 then [(cfg_handover_time_s cfg, PerfHandover)] else [])"

section \<open>The state of a run\<close>

text \<open>A line of the two CSV files of a run; an event row ends in one or two columns of text.\<close>

datatype PerfCsv =
    EventRow real string u32 "string list"
  | RekeyRow real u32 string real u32

record PerfRun =
  pf_net :: Net
  pf_mf :: MetricsFramework
  pf_tp :: TimingProfiler
  pf_total_rekeys :: u32
  pf_total_joins :: u32
  pf_total_leaves :: u32
  pf_total_compromises :: u32
  pf_total_handovers :: u32
  pf_rekey_timestamps :: "real list"
  pf_csv :: "PerfCsv list"

definition perf_start :: "u32 \<Rightarrow> TimingProfiler \<Rightarrow> Net \<Rightarrow> PerfRun" where
  "perf_start seed tp N =
     \<lparr> pf_net = N, pf_mf = Mf_Initialize 1 (MetricsFramework_new seed), pf_tp = Tp_Reset tp, pf_total_rekeys = 0,
       pf_total_joins = 0, pf_total_leaves = 0, pf_total_compromises = 0, pf_total_handovers = 0,
       pf_rekey_timestamps = [], pf_csv = [] \<rparr>"

definition RekeyReasonStr :: "RekeyMgrReason \<Rightarrow> string" where
  "RekeyReasonStr r = (case r of RM_LEAVE \<Rightarrow> ''LEAVE'' | RM_COMPROMISE \<Rightarrow> ''COMPROMISE'' | RM_PERIODIC \<Rightarrow> ''PERIODIC''
     | RM_KDC_INIT \<Rightarrow> ''KDC_INIT'' | RM_HANDOVER \<Rightarrow> ''HANDOVER'')"

section \<open>Callbacks\<close>

definition perf_mf :: "(MetricsFramework \<Rightarrow> MetricsFramework) \<Rightarrow> PerfRun \<Rightarrow> PerfRun" where
  "perf_mf f P = P \<lparr> pf_mf := f (pf_mf P) \<rparr>"

definition perf_tp :: "(TimingProfiler \<Rightarrow> TimingProfiler) \<Rightarrow> PerfRun \<Rightarrow> PerfRun" where
  "perf_tp f P = P \<lparr> pf_tp := f (pf_tp P) \<rparr>"

definition perf_row :: "PerfCsv \<Rightarrow> PerfRun \<Rightarrow> PerfRun" where
  "perf_row row P = P \<lparr> pf_csv := pf_csv P @ [row] \<rparr>"

text \<open>The latency that stands for a rekey that is not measured.\<close>

definition assumed_latency :: "Net \<Rightarrow> u32 \<Rightarrow> real" where
  "assumed_latency N c = 2.5 + real (unat (GetGroupSize (nt_mc N) c)) * 0.3"

definition perf_on_rekey :: "RekeyEvent \<Rightarrow> PerfRun \<Rightarrow> PerfRun" where
  "perf_on_rekey ev P =
     (let c = re_cluster_id ev;
          reason = RekeyReasonStr (re_reason ev);
          P = perf_tp (RecordNetworkEvent \<lparr> ne_event_type = ''REKEY'', ne_uav_id = c, ne_cluster_id = c,
                ne_trigger_s = re_time_s ev, ne_complete_s = re_time_s ev + re_latency_ms ev / 1000,
                ne_latency_ms = re_latency_ms ev, ne_details = reason \<rparr>) P;
          P = P \<lparr> pf_total_rekeys := pf_total_rekeys P + 1 \<rparr>;
          N = pf_net P;
          t = env_now N;
          version = Tek_GetVersion (nt_tek N) c;
          members = GetGroupSize (nt_mc N) c;
          P = P \<lparr> pf_rekey_timestamps := pf_rekey_timestamps P @ [t] \<rparr>;
          P = perf_mf (RecordRekey t c reason
                (if re_latency_ms ev > 0 then re_latency_ms ev else assumed_latency N c) version members 512) P;
          P = perf_mf (RecordSecrecyCheck t c version True True reason) P;
          P = perf_mf (RecordPacketOverhead t c 0 64 32 128 512 512) P
      in perf_row (RekeyRow t c reason (re_latency_ms ev) version) P)"

definition CompromiseReason_code :: "CompromiseReason \<Rightarrow> nat" where
  "CompromiseReason_code r = (case r of CR_HMAC_FAILURE \<Rightarrow> 0 | CR_REPLAY_ATTACK \<Rightarrow> 1 | CR_INVALID_TEK \<Rightarrow> 2
     | CR_ANOMALOUS_RATE \<Rightarrow> 3 | CR_EXTERNAL_REPORT \<Rightarrow> 4)"

definition perf_on_compromise :: "CompromiseEvent \<Rightarrow> PerfRun \<Rightarrow> PerfRun" where
  "perf_on_compromise ev P =
     (let P = P \<lparr> pf_total_compromises := pf_total_compromises P + 1 \<rparr>;
          t = env_now (pf_net P);
          P = perf_mf (RecordHealingAttempt t (ce_uav_id ev) (ce_cluster_id ev) t False ''COMPROMISE'') P;
          P = perf_mf (RecordAuthAttempt t (ce_uav_id ev) (ce_cluster_id ev) False ''COMPROMISE'') P
      in perf_row (EventRow t ''COMPROMISE'' (ce_uav_id ev)
           [to_string (unat (ce_cluster_id ev)), ''reason='' @ to_string (CompromiseReason_code (ce_reason ev))]) P)"

text \<open>
  The calls of the managers in which the callbacks run.  \<open>TriggerRekey\<close> calls back as its last action, unless it
  refuses; \<open>HandleCompromise\<close> calls back as its last action with the event it has appended to the history, unless the UAV
  is revoked already.
\<close>

definition perf_rekey :: "ext \<Rightarrow> u32 \<Rightarrow> RekeyMgrReason \<Rightarrow> nat option \<Rightarrow> PerfRun \<Rightarrow> PerfRun res" where
  "perf_rekey E c reason skdc P =
     rbind (Rekey_TriggerRekey E c reason skdc (pf_net P)) (\<lambda>(N, ok).
     let P = P \<lparr> pf_net := N \<rparr>
     in Inr (if ok then perf_on_rekey (last (rm_history (nt_rekey N))) P else P))"

fun perf_global_rekey :: "ext \<Rightarrow> RekeyMgrReason \<Rightarrow> (u32 \<times> nat option) list \<Rightarrow> PerfRun \<Rightarrow> PerfRun res" where
  "perf_global_rekey E reason [] P = Inr P"
| "perf_global_rekey E reason ((c, skdc) # rest) P =
     (if skdc \<noteq> None then rbind (perf_rekey E c reason skdc P) (perf_global_rekey E reason rest)
      else perf_global_rekey E reason rest P)"

definition perf_report :: "ext \<Rightarrow> u32 \<Rightarrow> u32 \<Rightarrow> u32 \<Rightarrow> nat option \<Rightarrow> PerfRun \<Rightarrow> PerfRun comp" where
  "perf_report E uav_id c uav_index skdc P =
     cbind (ReportHmacFailure E uav_id c uav_index skdc (pf_net P)) (\<lambda>N.
     let called = \<not> IsRevoked (nt_comp (pf_net P)) uav_id;
         P = P \<lparr> pf_net := N \<rparr>
     in cret (if called then perf_on_compromise (last (cd_history (nt_comp N))) P else P))"

section \<open>The handlers\<close>

text \<open>
  \<open>us\<close> are the readings of the timer after the join, for the profiler and the two estimates of the
  computing time; \<open>t\<close> is the time for which the event was scheduled.
\<close>

definition perf_join :: "ext \<Rightarrow> u32 \<Rightarrow> real \<Rightarrow> u32 \<Rightarrow> real \<times> real \<times> real \<Rightarrow> PerfRun \<Rightarrow> PerfRun comp" where
  "perf_join E upc t uid us P =
     (let c = uid div upc in
      if c \<ge> 3 then cret P
      else
        let (us1, us2, us3) = us;
            P = P \<lparr> pf_total_joins := pf_total_joins P + 1 \<rparr>;
            P = perf_tp (RecordEventStart (env_now (pf_net P)) ''JOIN'' uid c) P
        in cbind (Je_ProcessJoin E uid (uid mod upc) c (skdc_of c) (pf_net P)) (\<lambda>(N, ok).
        let P = P \<lparr> pf_net := N \<rparr>;
            now = env_now N;
            P = perf_tp (RecordCrypto now ''SLAVE_KEY_ASSIGN'' uid c us1 0) P;
            P = perf_mf (RecordComputeTiming ''AES_ENC'' uid (us2 * 0.3)) P;
            P = perf_mf (RecordComputeTiming ''CRT_VERIFY'' uid (us3 * 0.4)) P;
            P = perf_mf (RecordKeyEstablishment now uid c 0.05 True) P;
            P = P \<lparr> pf_total_rekeys := pf_total_rekeys P + 1 \<rparr>;
            version = Tek_GetVersion (nt_tek N) c;
            P = perf_mf (RecordRekey now c ''JOIN'' (assumed_latency N c) version (GetGroupSize (nt_mc N) c) 512) P;
            P = perf_mf (RecordAuthAttempt now uid c True ''OK'') P;
            P = perf_mf (RecordSecrecyCheck now c version True True ''JOIN'') P;
            P = perf_mf (RecordTx uid 256 True) P;
            P = perf_mf (RecordRx uid 256 0.05 True) P;
            P = perf_row (EventRow t ''JOIN'' uid [to_string (unat c), ''ok'']) P
        in cret (perf_tp (RecordEventComplete now ''JOIN'' uid ''ok'') P)))"

definition perf_leave :: "ext \<Rightarrow> u32 \<Rightarrow> real \<Rightarrow> u32 \<Rightarrow> PerfRun \<Rightarrow> PerfRun comp" where
  "perf_leave E upc t uid P =
     (let c = uid div upc in
      if c \<ge> 3 then cret P
      else
        let P = P \<lparr> pf_total_leaves := pf_total_leaves P + 1 \<rparr>;
            P = perf_tp (RecordEventStart (env_now (pf_net P)) ''LEAVE'' uid c) P
        in cbind (Le_ProcessLeave E uid (uid mod upc) c (skdc_of c) (pf_net P)) (\<lambda>(N, ok).
        let P = P \<lparr> pf_net := N \<rparr>;
            now = env_now N;
            P = perf_mf (RecordAuthAttempt now uid c True ''OK'') P;
            version = Tek_GetVersion (nt_tek N) c;
            P = perf_mf (RecordRekey now c ''LEAVE'' (assumed_latency N c) version (GetGroupSize (nt_mc N) c) 512) P;
            P = P \<lparr> pf_total_rekeys := pf_total_rekeys P + 1 \<rparr>;
            P = perf_mf (RecordTx uid 256 True) P
        in cret (perf_row (EventRow t ''LEAVE'' uid [to_string (unat c), ''ok'']) P)))"

definition perf_compromise :: "ext \<Rightarrow> real \<Rightarrow> PerfRun \<Rightarrow> PerfRun comp" where
  "perf_compromise E t P =
     cbind (perf_report E 0 0 0 (skdc_of 0) P) (\<lambda>P. cret (perf_row (EventRow t ''COMPROMISE'' 0 [to_string 0, ''hmac_fail'']) P))"

definition perf_batch_rekey :: "ext \<Rightarrow> real \<Rightarrow> PerfRun \<Rightarrow> PerfRun res" where
  "perf_batch_rekey E t P =
     rbind (perf_global_rekey E RM_KDC_INIT (zip [0, 1, 2] all_skdcs) P) (\<lambda>P.
     Inr (perf_row (EventRow t ''BATCH_REKEY'' 255 [''ALL'', ''global'']) P))"

text \<open>The arrow in the row of a handover, in UTF-8.\<close>

definition arrow :: string where
  "arrow = map char_of [226 :: nat, 134, 146]"

definition perf_handover :: "ext \<Rightarrow> u32 \<Rightarrow> real \<Rightarrow> PerfRun \<Rightarrow> PerfRun res" where
  "perf_handover E upc t P =
     (let uid = 1;
          old_c = uid div upc;
          new_c = (old_c + 1) mod 3;
          P = P \<lparr> pf_total_handovers := pf_total_handovers P + 1 \<rparr>;
          now = env_now (pf_net P);
          P = perf_mf (RecordKeyEstablishment now uid new_c 0.08 True) P;
          P = perf_mf (RecordAuthAttempt now uid new_c True ''OK'') P;
          P = perf_mf (RecordRouteBreak now uid old_c 15 True) P
      in rbind (perf_rekey E old_c RM_HANDOVER (skdc_of old_c) P) (\<lambda>P.
         rbind (perf_rekey E new_c RM_HANDOVER (skdc_of new_c) P) (\<lambda>P.
         Inr (perf_row (EventRow t ''HANDOVER'' uid [to_string (unat old_c) @ arrow @ to_string (unat new_c)]) P))))"

definition perf_event :: "ext \<Rightarrow> u32 \<Rightarrow> real \<Rightarrow> PerfEvent \<Rightarrow> real \<times> real \<times> real \<Rightarrow> PerfRun \<Rightarrow> PerfRun comp" where
  "perf_event E upc t e us P =
     (case e of
        PerfJoin uid \<Rightarrow> perf_join E upc t uid us P
      | PerfLeave uid \<Rightarrow> perf_leave E upc t uid P
      | PerfCompromise \<Rightarrow> perf_compromise E t P
      | PerfBatchRekey \<Rightarrow> Some (perf_batch_rekey E t P)
      | PerfHandover \<Rightarrow> Some (perf_handover E upc t P))"

text \<open>A timer of \<open>SchedulePeriodic\<close>.\<close>

definition perf_periodic :: "ext \<Rightarrow> u32 \<Rightarrow> nat option \<Rightarrow> PerfRun \<Rightarrow> PerfRun res" where
  "perf_periodic E c skdc P = perf_rekey E c RM_PERIODIC skdc P"

section \<open>Sampling\<close>

definition sample_sinr :: "real \<Rightarrow> nat \<Rightarrow> real" where
  "sample_sinr t u = 20 - sin (t * 0.05 + real u) * 8"

definition perf_sample_uav :: "u32 \<Rightarrow> real \<Rightarrow> nat \<Rightarrow> MetricsFramework \<Rightarrow> MetricsFramework" where
  "perf_sample_uav upc t u mf =
     (let c = word_of_nat u div upc;
          sinr = sample_sinr t u;
          mf = RecordSinrSample t (word_of_nat u) c sinr 8 mf
      in if sinr < 5 then RecordLinkFailure t (word_of_nat u) c ''JAMMER'' (sinr > 0) (50 + real u * 2) mf else mf)"

definition perf_sample_sinr :: "real \<Rightarrow> u32 \<Rightarrow> u32 \<Rightarrow> (nat \<Rightarrow> u32) \<Rightarrow> real \<Rightarrow> MetricsFramework \<Rightarrow> MetricsFramework" where
  "perf_sample_sinr duration n upc skdc_id t mf =
     (if t \<ge> duration then mf
      else
        let mf = foldl (\<lambda>mf u. perf_sample_uav upc t u mf) mf [0..<unat n]
        in foldl (\<lambda>mf c. RecordClusterHeadStatus t (word_of_nat c) (skdc_id c) upc True (200 + real c * 50) mf) mf [0..<3])"

definition perf_swarm :: "u32 \<Rightarrow> real \<Rightarrow> MetricsFramework \<Rightarrow> MetricsFramework" where
  "perf_swarm n t mf = RecordSwarmSnapshot t n 0 0 0 ((n * (n - 1)) div 2) mf"

section \<open>Set-up\<close>

text \<open>
  The managers of a run, in the order of their construction, the first broadcast and the timers.
  \<open>apps\<close> are the SKDC applications after \<open>SetClusterId\<close>, \<open>SetTopology\<close> and \<open>SetCryptoParams\<close>; the simulator has not
  started them yet.
\<close>

definition perf_setup ::
    "ext \<Rightarrow> u32 \<Rightarrow> u32 \<Rightarrow> CryptoParamsFile \<Rightarrow> SkdcApp list \<Rightarrow> real \<times> real \<Rightarrow> TimingProfiler \<Rightarrow> Net \<Rightarrow> PerfRun res" where
  "perf_setup E seed n params apps us tp N =
     (let (us1, us2) = us;
          P = perf_start seed tp N;
          P = perf_tp (RecordCrypto (env_now N) ''CRT_LOAD_PARAMS'' 0 0 us1 n) P;
          N = N \<lparr> nt_skdcs := apps \<rparr>;
          (tm, N) = TekManager_new (Some params) N;
          (tm, N) = Tek_Initialize tm N;
          N = N \<lparr> nt_tek := tm, nt_mc := Mc_Initialize (MulticastManager_new (Some params)),
                  nt_dist := MtkDistributionManager_new, nt_join := JoinEventManager_new,
                  nt_leave := LeaveEventManager_new, nt_rekey := RekeyManager_new, nt_comp := CompromiseDetector_new \<rparr>
      in rbind (Dist_BroadcastAll E all_skdcs N) (\<lambda>N.
         let P = perf_tp (RecordCrypto (env_now N) ''MTK_MTOKEN_GEN'' 0 0 us2 n) P;
             N = ScheduleRefresh N;
             N = foldl (\<lambda>N c. SchedulePeriodic c (skdc_of c) 60 N) N [0, 1, 2];
             N = N \<lparr> nt_rekey := (nt_rekey N) \<lparr> rm_rekey_cb := Some [] \<rparr>, nt_comp := (nt_comp N) \<lparr> cd_callback := Some [] \<rparr> \<rparr>
         in Inr (P \<lparr> pf_net := N \<rparr>)))"

section \<open>The figures of a run\<close>

record ScenarioMetrics =
  sm_pdr :: real
  sm_throughput_kbps :: real
  sm_avg_delay_ms :: real
  sm_rekey_latency_ms :: real
  sm_total_rekeys :: u32
  sm_total_joins :: u32
  sm_total_leaves :: u32
  sm_total_compromises :: u32
  sm_total_handovers :: u32
  sm_avg_sinr_db :: real
  sm_min_sinr_db :: real
  sm_security_overhead :: real

text \<open>What the flow monitor of ns-3 has counted for a flow; \<open>fl_delay_ms\<close> is \<open>delaySum.GetMilliSeconds()\<close>.\<close>

record FlowStats =
  fl_txPackets :: u32
  fl_rxPackets :: u32
  fl_delay_ms :: int
  fl_rxBytes :: u64

definition flow_tx :: "FlowStats list \<Rightarrow> u64" where
  "flow_tx flows = foldl (\<lambda>tx fs. tx + ucast (fl_txPackets fs)) 0 flows"

definition flow_rx :: "FlowStats list \<Rightarrow> u64" where
  "flow_rx flows = foldl (\<lambda>rx fs. rx + ucast (fl_rxPackets fs)) 0 flows"

text \<open>The delay of a flow, which is not negative, is divided in integers.\<close>

definition flow_delay :: "FlowStats list \<Rightarrow> real" where
  "flow_delay flows =
     (let dsum = foldl (\<lambda>dsum fs. if fl_rxPackets fs > 0
                        then dsum + real_of_int (fl_delay_ms fs div int (unat (fl_rxPackets fs))) else dsum) 0 flows
      in if flows \<noteq> [] then dsum / real (length flows) else 0)"

definition flow_throughput :: "real \<Rightarrow> FlowStats list \<Rightarrow> real" where
  "flow_throughput duration flows =
     foldl (\<lambda>tsum fs. if fl_rxPackets fs > 0
              then tsum + real (unat (fl_rxBytes fs)) * 8 / (duration * 1000) else tsum) 0 flows"

definition feed_uav :: "u64 \<Rightarrow> u64 \<Rightarrow> real \<Rightarrow> MetricsFramework \<Rightarrow> nat \<Rightarrow> MetricsFramework" where
  "feed_uav per_uav_tx per_uav_rx delay mf u =
     (let u = word_of_nat u;
          mf = (if per_uav_tx > 0 then RecordTx u (ucast (per_uav_tx * 1024)) False mf else mf);
          mf = (if per_uav_rx > 0 then RecordRx u (ucast (per_uav_rx * 1024)) delay False mf else mf)
      in if per_uav_tx > per_uav_rx then RecordLoss u (ucast ((per_uav_tx - per_uav_rx) * 1024)) mf else mf)"

definition feed_flows :: "u32 \<Rightarrow> u32 \<Rightarrow> real \<Rightarrow> FlowStats list \<Rightarrow> MetricsFramework \<Rightarrow> MetricsFramework" where
  "feed_flows n total_leaves now flows mf =
     (let per_uav_rx = flow_rx flows div max 1 (ucast n);
          per_uav_tx = flow_tx flows div max 1 (ucast n);
          mf = foldl (feed_uav per_uav_tx per_uav_rx (flow_delay flows)) mf [0..<unat n];
          active_r = (if n > total_leaves then n - total_leaves else 1);
          mf = RecordRoutingUpdate now active_r total_leaves mf
      in RecordConnectivitySample (active_r * (active_r - 1) div 2) (n * (n - 1) div 2) mf)"

text \<open>\<open>flows\<close> is \<open>None\<close> when the flow monitor is disabled.\<close>

definition perf_collect :: "PerfConfig \<Rightarrow> u32 \<Rightarrow> u32 \<Rightarrow> FlowStats list option \<Rightarrow> PerfRun \<Rightarrow> ScenarioMetrics \<times> MetricsFramework" where
  "perf_collect cfg n run_idx flows P =
     (let m = \<lparr> sm_pdr = 0, sm_throughput_kbps = 0, sm_avg_delay_ms = 0, sm_rekey_latency_ms = 0,
                sm_total_rekeys = pf_total_rekeys P, sm_total_joins = pf_total_joins P,
                sm_total_leaves = pf_total_leaves P, sm_total_compromises = pf_total_compromises P,
                sm_total_handovers = pf_total_handovers P, sm_avg_sinr_db = 0, sm_min_sinr_db = 0,
                sm_security_overhead = 0 \<rparr>;
          (m, mf) =
            (case flows of
               None \<Rightarrow> (m, pf_mf P)
             | Some flows \<Rightarrow>
                 (m \<lparr> sm_pdr := (if flow_tx flows \<noteq> 0 then real (unat (flow_rx flows)) / real (unat (flow_tx flows)) else 0),
                      sm_avg_delay_ms := flow_delay flows,
                      sm_throughput_kbps := flow_throughput (cfg_duration_s cfg) flows \<rparr>,
                  feed_flows n (pf_total_leaves P) (env_now (pf_net P)) flows (pf_mf P)));
          history = rm_history (nt_rekey (pf_net P));
          m = (if history \<noteq> [] then m \<lparr> sm_rekey_latency_ms := mean_of re_latency_ms history \<rparr> else m);
          total_events = sm_total_rekeys m + sm_total_joins m + sm_total_leaves m + sm_total_compromises m
            + sm_total_handovers m;
          m = m \<lparr> sm_security_overhead := real (unat total_events) / cfg_duration_s cfg \<rparr>
      in (m, Mf_Finalize (cfg_duration_s cfg) run_idx mf))"

section \<open>Runs\<close>

text \<open>
  The events of a run.  \<open>network\<close> stands for everything the simulator does to the network in between: the
  applications, the passing of time.
\<close>

inductive perf_step :: "ext \<Rightarrow> u32 \<Rightarrow> u32 \<Rightarrow> PerfRun \<Rightarrow> PerfRun \<Rightarrow> bool" for E n upc where
  event: "perf_event E upc t e us P = Some (Inr P') \<Longrightarrow> perf_step E n upc P P'"
| periodic: "perf_periodic E c skdc P = Inr P' \<Longrightarrow> perf_step E n upc P P'"
| sinr: "perf_step E n upc P (perf_mf (perf_sample_sinr duration n upc skdc_id t) P)"
| swarm: "perf_step E n upc P (perf_mf (perf_swarm n t) P)"
| snapshot: "perf_step E n upc P (perf_mf (PeriodicSnapshot t) P)"
| network: "perf_step E n upc P (P \<lparr> pf_net := N \<rparr>)"

end
