(* ===== verification/Perf_Facts.thy ===== *)
theory Perf_Facts
  imports Perf_Scenario
begin

text \<open>
  What the figures of theory Perf\_Scenario say: the schedule of a run, the meaning of its
  counters, and the figures that come out the same whatever the network does.
\<close>

section \<open>The schedule\<close>

declare time_loop.simps [simp del]

lemma time_loop_ends: "\<not> t < limit \<Longrightarrow> time_loop t limit step = Some []"
  by (simp add: time_loop.simps)

lemma time_loop_terminates:
  assumes "0 < step"
  shows "time_loop t limit step = Some (map (\<lambda>k. t + real k * step) [0..<nat \<lceil>(limit - t) / step\<rceil>])"
proof (induction "nat \<lceil>(limit - t) / step\<rceil>" arbitrary: t)
  case 0
  then have "\<not> t < limit" using assms by (simp add: zero_less_divide_iff ceiling_le_zero not_less divide_le_0_iff)
  then show ?case using 0 by (simp add: time_loop_ends)
next
  case (Suc m)
  then have "0 < \<lceil>(limit - t) / step\<rceil>" by linarith
  then have less: "t < limit" using assms by (simp add: zero_less_ceiling zero_less_divide_iff)
  have "(limit - (t + step)) / step = (limit - t) / step - 1" using assms by (simp add: field_simps)
  then have m: "nat \<lceil>(limit - (t + step)) / step\<rceil> = m" using Suc(2) by simp
  have "time_loop t limit step = Some (t # map (\<lambda>k. t + step + real k * step) [0..<m])"
    using Suc(1)[of "t + step"] m less by (simp add: time_loop.simps[of t])
  also have "t # map (\<lambda>k. t + step + real k * step) [0..<m] = map (\<lambda>k. t + real k * step) [0..<Suc m]"
    unfolding upt_conv_Cons[OF zero_less_Suc] map_Suc_upt[symmetric] by (simp add: algebra_simps)
  finally show ?case using Suc(2) by simp
qed

lemma time_loop_range:
  assumes "0 < step" "time_loop t limit step = Some ts" "x \<in> set ts"
  shows "t \<le> x" "x < limit"
proof -
  obtain k where k: "x = t + real k * step" "k < nat \<lceil>(limit - t) / step\<rceil>"
    using assms time_loop_terminates[of step t limit] by auto
  then have "real k < (limit - t) / step" by linarith
  then show "t \<le> x" "x < limit" using assms(1) k(1) by (simp_all add: field_simps)
qed

lemma uavs_per_cluster_range: "2 \<le> unat (uavs_per_cluster uc)" "unat (uavs_per_cluster uc) \<le> 10"
  by (simp_all add: uavs_per_cluster_def min_def max_def word_le_nat_alt not_le)

lemma unat_actual_n: "unat (actual_n uc) = 3 * unat (uavs_per_cluster uc)"
  using uavs_per_cluster_range(2)[of uc] by (simp add: actual_n_def unat_word_ariths)

lemma scheduled_uav:
  fixes x uc :: u32
  defines "u \<equiv> x mod actual_n uc"
  shows "u < actual_n uc" "unat (u div uavs_per_cluster uc) < 3"
proof -
  have "0 < unat (actual_n uc)" using uavs_per_cluster_range(1)[of uc] by (simp add: unat_actual_n)
  then have u: "unat u < unat (actual_n uc)" by (simp add: u_def unat_mod)
  then show "u < actual_n uc" by (simp add: word_less_nat_alt)
  show "unat (u div uavs_per_cluster uc) < 3"
    using u by (simp add: unat_div unat_actual_n less_mult_imp_div_less mult.commute)
qed

lemma perf_config_intervals:
  "cfg_join_interval_s (perf_config j uc cfg) = max 5 (20 - real (unat (actual_n uc)) * 0.5)"
  "cfg_leave_interval_s (perf_config j uc cfg) = max 8 (25 - real (unat (actual_n uc)) * 0.6)"
  "cfg_join_start_s (perf_config j uc cfg) = max 3 (5 + j 0)"
  "cfg_leave_start_s (perf_config j uc cfg) = max 5 (10 + j 1)"
  "cfg_duration_s (perf_config j uc cfg) = cfg_duration_s cfg"
  by (simp_all add: perf_config_def Let_def)

section \<open>Rekeys\<close>

lemma TriggerRekey_event:
  "Rekey_TriggerRekey E c reason skdc N = Inr (N', ok) \<Longrightarrow> ok \<Longrightarrow>
   re_reason (last (rm_history (nt_rekey N'))) = reason \<and> re_cluster_id (last (rm_history (nt_rekey N'))) = c"
  by (auto simp: Rekey_TriggerRekey_def SteadyNow_def NowEpochMicros_def RandomBytes_def Let_def rbind_eq_Inr_iff
      split: if_splits)

section \<open>What a run keeps\<close>

lemma packet_hooks_frame [simp]:
  "mf_rekeys (count_packet u f mf) = mf_rekeys mf" "mf_secrecy (count_packet u f mf) = mf_secrecy mf"
  "mf_auth (count_packet u f mf) = mf_auth mf" "mf_replay (count_packet u f mf) = mf_replay mf"
  "mf_sinr_samples (count_packet u f mf) = mf_sinr_samples mf" "mf_link_failures (count_packet u f mf) = mf_link_failures mf"
  "mf_cluster_head (count_packet u f mf) = mf_cluster_head mf" "mf_healing (count_packet u f mf) = mf_healing mf"
  "mf_stability_samples (count_packet u f mf) = mf_stability_samples mf" "mf_summary (count_packet u f mf) = mf_summary mf"
  "mf_connectivity_samples (count_packet u f mf) = mf_connectivity_samples mf"
  "mf_pkt_global (count_packet u f mf) = f (mf_pkt_global mf)"
  by (simp_all add: count_packet_def Let_def)

lemma RecordRx_frame [simp]:
  "mf_rekeys (RecordRx u b d k mf) = mf_rekeys mf" "mf_secrecy (RecordRx u b d k mf) = mf_secrecy mf"
  "mf_auth (RecordRx u b d k mf) = mf_auth mf" "mf_replay (RecordRx u b d k mf) = mf_replay mf"
  "mf_sinr_samples (RecordRx u b d k mf) = mf_sinr_samples mf" "mf_link_failures (RecordRx u b d k mf) = mf_link_failures mf"
  "mf_cluster_head (RecordRx u b d k mf) = mf_cluster_head mf" "mf_healing (RecordRx u b d k mf) = mf_healing mf"
  "mf_stability_samples (RecordRx u b d k mf) = mf_stability_samples mf" "mf_summary (RecordRx u b d k mf) = mf_summary mf"
  "mf_connectivity_samples (RecordRx u b d k mf) = mf_connectivity_samples mf"
  "mf_pkt_global (RecordRx u b d k mf) = count_rx b k (mf_pkt_global mf)"
  by (simp_all add: RecordRx_def Let_def)

lemma count_fields [simp]:
  "pc_tx (count_tx b k pc) = pc_tx pc + 1" "pc_tx (count_rx b k pc) = pc_tx pc" "pc_tx (count_loss pc) = pc_tx pc"
  "pc_lost (count_tx b k pc) = pc_lost pc" "pc_lost (count_rx b k pc) = pc_lost pc" "pc_lost (count_loss pc) = pc_lost pc + 1"
  by (simp_all add: count_tx_def count_rx_def count_loss_def Let_def)

definition rekeys_for :: "string \<Rightarrow> MetricsFramework \<Rightarrow> nat" where
  "rekeys_for trigger mf = length (filter (\<lambda>r. rr_trigger r = trigger) (mf_rekeys mf))"

text \<open>The counters of a run, all determined by the records of the rekeys and the authentications.\<close>

definition counters_ok :: "PerfRun \<Rightarrow> bool" where
  "counters_ok P \<longleftrightarrow>
     (let mf = pf_mf P; joins = rekeys_for ''JOIN'' mf; leaves = rekeys_for ''LEAVE'' mf in
      pf_total_rekeys P = word_of_nat (length (mf_rekeys mf)) \<and>
      pf_total_joins P = word_of_nat joins \<and> pf_total_leaves P = word_of_nat leaves \<and>
      pf_total_compromises P = word_of_nat (length (filter (\<lambda>a. \<not> au_success a) (mf_auth mf))) \<and>
      pc_tx (mf_pkt_global mf) = word_of_nat (joins + leaves) \<and> pc_rx (mf_pkt_global mf) = word_of_nat joins \<and>
      pc_lost (mf_pkt_global mf) = 0)"

text \<open>What the hooks are told in every run.\<close>

definition told_ok :: "MetricsFramework \<Rightarrow> bool" where
  "told_ok mf \<longleftrightarrow>
     (\<forall>s\<in>set (mf_secrecy mf). sc_forward_ok s \<and> sc_backward_ok s) \<and>
     (\<forall>r\<in>set (mf_rekeys mf). rr_trigger r \<noteq> ''HANDOVER_OLD'' \<and> rr_trigger r \<noteq> ''HANDOVER_NEW'') \<and>
     (\<forall>s\<in>set (mf_sinr_samples mf). \<not> ms_jammed s \<and> ms_sinr_db s \<ge> 12) \<and>
     (\<forall>r\<in>set (mf_cluster_head mf). ch_skdc_reachable r) \<and> (\<forall>h\<in>set (mf_healing mf). \<not> he_recovered h) \<and>
     mf_replay mf = [] \<and> mf_link_failures mf = [] \<and> mf_stability_samples mf = [] \<and>
     mf_connectivity_samples mf = [] \<and> mf_summary mf = FullMetricsSummary_new"

definition perf_inv :: "PerfRun \<Rightarrow> bool" where
  "perf_inv P \<longleftrightarrow> counters_ok P \<and> told_ok (pf_mf P)"

lemmas perf_hooks = perf_mf_def perf_tp_def perf_row_def RecordRekey_def RecordSecrecyCheck_def RecordPacketOverhead_def
  RecordHealingAttempt_def RecordAuthAttempt_def RecordComputeTiming_def RecordKeyEstablishment_def RecordRouteBreak_def
  RecordTx_def Let_def

lemma perf_inv_net [simp]: "perf_inv (P \<lparr> pf_net := N \<rparr>) = perf_inv P"
  by (simp add: perf_inv_def counters_ok_def)

lemma perf_inv_row [simp]: "perf_inv (perf_row row P) = perf_inv P"
  by (simp add: perf_inv_def counters_ok_def perf_row_def)

lemma perf_inv_tp [simp]: "perf_inv (perf_tp f P) = perf_inv P"
  by (simp add: perf_inv_def counters_ok_def perf_tp_def)

lemma perf_inv_start: "perf_inv (perf_start seed tp N)"
  by (simp add: perf_inv_def counters_ok_def told_ok_def perf_start_def Mf_Initialize_def MetricsFramework_new_def
      rekeys_for_def PacketCounter_new_def)

lemma perf_inv_on_rekey:
  assumes "perf_inv P" "re_reason ev \<in> {RM_PERIODIC, RM_KDC_INIT, RM_HANDOVER}"
  shows "perf_inv (perf_on_rekey ev P)"
proof -
  have "RekeyReasonStr (re_reason ev) \<notin> {''JOIN'', ''LEAVE'', ''HANDOVER_OLD'', ''HANDOVER_NEW''}"
    using assms(2) by (auto simp: RekeyReasonStr_def)
  with assms(1) show ?thesis
    by (simp add: perf_inv_def counters_ok_def told_ok_def perf_on_rekey_def perf_hooks rekeys_for_def)
qed

lemma perf_inv_on_compromise: "perf_inv P \<Longrightarrow> perf_inv (perf_on_compromise ev P)"
  by (simp add: perf_inv_def counters_ok_def told_ok_def perf_on_compromise_def perf_hooks rekeys_for_def)

lemma perf_inv_rekey:
  assumes "perf_rekey E c why skdc P = Inr P'" "perf_inv P" "why \<in> {RM_PERIODIC, RM_KDC_INIT, RM_HANDOVER}"
  shows "perf_inv P'"
proof -
  obtain N ok where N: "Rekey_TriggerRekey E c why skdc (pf_net P) = Inr (N, ok)"
    "P' = (if ok then perf_on_rekey (last (rm_history (nt_rekey N))) (P \<lparr> pf_net := N \<rparr>) else P \<lparr> pf_net := N \<rparr>)"
    using assms(1) by (auto simp: perf_rekey_def rbind_eq_Inr_iff Let_def)
  then show ?thesis using assms(2,3) TriggerRekey_event[OF N(1)] by (simp add: perf_inv_on_rekey)
qed

lemma perf_inv_global_rekey:
  "perf_global_rekey E why apps P = Inr P' \<Longrightarrow> perf_inv P \<Longrightarrow> why \<in> {RM_PERIODIC, RM_KDC_INIT, RM_HANDOVER} \<Longrightarrow> perf_inv P'"
proof (induction E why apps P rule: perf_global_rekey.induct)
  case (2 E why c skdc rest P)
  then show ?case by (cases "skdc = None") (auto simp: rbind_eq_Inr_iff dest: perf_inv_rekey)
qed simp

lemmas perf_inv_defs = perf_inv_def counters_ok_def told_ok_def rekeys_for_def

lemma perf_inv_join:
  assumes "perf_join E upc t u us P = Some (Inr P')" "perf_inv P"
  shows "perf_inv P'"
  using assms
  by (cases us) (auto simp: perf_join_def cbind_Inr cret_def Let_def perf_inv_defs perf_hooks split: if_splits)

lemma perf_inv_leave:
  assumes "perf_leave E upc t u P = Some (Inr P')" "perf_inv P"
  shows "perf_inv P'"
  using assms
  by (auto simp: perf_leave_def cbind_Inr cret_def Let_def perf_inv_defs perf_hooks split: if_splits)

lemma perf_inv_compromise: "perf_compromise E t P = Some (Inr P') \<Longrightarrow> perf_inv P \<Longrightarrow> perf_inv P'"
  by (auto simp: perf_compromise_def perf_report_def cbind_Inr cret_def Let_def perf_inv_on_compromise split: if_splits)

lemma perf_inv_batch_rekey: "perf_batch_rekey E t P = Inr P' \<Longrightarrow> perf_inv P \<Longrightarrow> perf_inv P'"
  by (auto simp: perf_batch_rekey_def rbind_eq_Inr_iff dest: perf_inv_global_rekey)

lemma perf_handover_parts:
  assumes "perf_handover E upc t P = Inr P'"
  defines "P0 \<equiv> perf_mf (RecordRouteBreak (env_now (pf_net P)) 1 (1 div upc) 15 True)
    (perf_mf (RecordAuthAttempt (env_now (pf_net P)) 1 ((1 div upc + 1) mod 3) True ''OK'')
      (perf_mf (RecordKeyEstablishment (env_now (pf_net P)) 1 ((1 div upc + 1) mod 3) 0.08 True)
        (P \<lparr> pf_total_handovers := pf_total_handovers P + 1 \<rparr>)))"
  obtains P1 P2 row where "perf_rekey E (1 div upc) RM_HANDOVER (skdc_of (1 div upc)) P0 = Inr P1"
    "perf_rekey E ((1 div upc + 1) mod 3) RM_HANDOVER (skdc_of ((1 div upc + 1) mod 3)) P1 = Inr P2"
    "P' = perf_row row P2" "pf_net P0 = pf_net P" "perf_inv P \<Longrightarrow> perf_inv P0"
proof -
  have "perf_inv P \<Longrightarrow> perf_inv P0" by (simp add: P0_def perf_inv_defs perf_hooks)
  moreover have "pf_net P0 = pf_net P" by (simp add: P0_def perf_mf_def)
  ultimately show thesis
    using assms(1) that by (auto simp: perf_handover_def P0_def Let_def rbind_eq_Inr_iff)
qed

lemma perf_inv_handover: "perf_handover E upc t P = Inr P' \<Longrightarrow> perf_inv P \<Longrightarrow> perf_inv P'"
  by (erule perf_handover_parts) (auto dest: perf_inv_rekey)

lemma perf_inv_event: "perf_event E upc t e us P = Some (Inr P') \<Longrightarrow> perf_inv P \<Longrightarrow> perf_inv P'"
  by (cases e) (auto simp: perf_event_def intro: perf_inv_join perf_inv_leave perf_inv_compromise perf_inv_batch_rekey perf_inv_handover)

section \<open>Samples\<close>

lemma sample_sinr_range: "12 \<le> sample_sinr t u" "sample_sinr t u \<le> 28"
  using sin_le_one[of "t * 0.05 + real u"] sin_ge_minus_one[of "t * 0.05 + real u"]
  unfolding sample_sinr_def by linarith+

text \<open>The fields that the invariant reads and no sampling touches.\<close>

definition same_books :: "MetricsFramework \<Rightarrow> MetricsFramework \<Rightarrow> bool" where
  "same_books mf mf' \<longleftrightarrow> mf_rekeys mf' = mf_rekeys mf \<and> mf_auth mf' = mf_auth mf \<and> mf_pkt_global mf' = mf_pkt_global mf"

lemma perf_inv_sampled:
  "perf_inv P \<Longrightarrow> same_books (pf_mf P) (f (pf_mf P)) \<Longrightarrow> told_ok (f (pf_mf P)) \<Longrightarrow> perf_inv (perf_mf f P)"
  by (simp add: perf_inv_def counters_ok_def same_books_def perf_mf_def rekeys_for_def Let_def)

lemma perf_sample_uav_eq:
  "perf_sample_uav upc t u mf = RecordSinrSample t (word_of_nat u) (word_of_nat u div upc) (sample_sinr t u) 8 mf"
  using sample_sinr_range(1)[of t u] by (simp add: perf_sample_uav_def Let_def)

lemma told_samples:
  "told_ok mf \<Longrightarrow> 12 \<le> db \<Longrightarrow> told_ok (RecordSinrSample t u c db 8 mf)"
  "told_ok mf \<Longrightarrow> told_ok (RecordClusterHeadStatus t c i m True d mf)"
  "told_ok mf \<Longrightarrow> told_ok (perf_swarm n t mf)"
  "told_ok mf \<Longrightarrow> told_ok (PeriodicSnapshot t mf)"
  by (simp_all add: told_ok_def RecordSinrSample_def RecordClusterHeadStatus_def perf_swarm_def RecordSwarmSnapshot_def
      PeriodicSnapshot_def Let_def)

lemma same_samples:
  "same_books mf' (RecordSinrSample t u c db 8 mf) = same_books mf' mf"
  "same_books mf' (RecordClusterHeadStatus t c i m True d mf) = same_books mf' mf"
  "same_books mf' (perf_swarm n t mf) = same_books mf' mf"
  "same_books mf' (PeriodicSnapshot t mf) = same_books mf' mf"
  by (simp_all add: same_books_def RecordSinrSample_def RecordClusterHeadStatus_def perf_swarm_def RecordSwarmSnapshot_def
      PeriodicSnapshot_def Let_def)

lemma same_books_refl: "same_books mf mf"
  by (simp add: same_books_def)

lemma sample_uavs:
  "told_ok mf \<Longrightarrow> same_books mf0 mf \<Longrightarrow> told_ok (foldl (\<lambda>mf u. perf_sample_uav upc t u mf) mf us) \<and>
   same_books mf0 (foldl (\<lambda>mf u. perf_sample_uav upc t u mf) mf us)"
  by (induction us rule: rev_induct) (simp_all add: perf_sample_uav_eq told_samples same_samples sample_sinr_range(1))

lemma sample_heads:
  "told_ok mf \<Longrightarrow> same_books mf0 mf \<Longrightarrow> told_ok (foldl (\<lambda>mf c. RecordClusterHeadStatus t (i c) (n c) m True (d c) mf) mf cs) \<and>
   same_books mf0 (foldl (\<lambda>mf c. RecordClusterHeadStatus t (i c) (n c) m True (d c) mf) mf cs)"
  by (induction cs rule: rev_induct) (simp_all add: told_samples same_samples)

lemma perf_inv_sinr:
  assumes "perf_inv P"
  shows "perf_inv (perf_mf (perf_sample_sinr duration n upc skdc_id t) P)"
proof -
  let ?mf = "foldl (\<lambda>mf u. perf_sample_uav upc t u mf) (pf_mf P) [0..<unat n]"
  have told: "told_ok (pf_mf P)" using assms by (simp add: perf_inv_def)
  note 1 = sample_uavs[OF told same_books_refl, of upc t "[0..<unat n]"]
  note 2 = sample_heads[OF 1[THEN conjunct1] 1[THEN conjunct2], of t word_of_nat skdc_id upc "\<lambda>c. 200 + real c * 50" "[0..<3]"]
  have "told_ok (perf_sample_sinr duration n upc skdc_id t (pf_mf P)) \<and>
      same_books (pf_mf P) (perf_sample_sinr duration n upc skdc_id t (pf_mf P))"
    using told 2 unfolding perf_sample_sinr_def Let_def by (simp add: same_books_refl)
  then show ?thesis using assms by (simp add: perf_inv_sampled)
qed

lemma perf_inv_step: "perf_step E n upc P P' \<Longrightarrow> perf_inv P \<Longrightarrow> perf_inv P'"
proof (induction rule: perf_step.cases)
  case (periodic c skdc P P')
  then show ?case by (auto simp: perf_periodic_def dest: perf_inv_rekey)
next
  case (swarm P t)
  then show ?case by (simp add: perf_inv_sampled told_samples same_samples same_books_refl perf_inv_def[of P])
next
  case (snapshot P t)
  then show ?case by (simp add: perf_inv_sampled told_samples same_samples same_books_refl perf_inv_def[of P])
qed (simp_all add: perf_inv_event perf_inv_sinr)

lemma perf_inv_run: "(perf_step E n upc)\<^sup>*\<^sup>* P P' \<Longrightarrow> perf_inv P \<Longrightarrow> perf_inv P'"
  by (induction rule: rtranclp_induct) (auto dest: perf_inv_step)

section \<open>The events in the network\<close>

lemma pf_net_simps [simp]:
  "pf_net (perf_mf f P) = pf_net P" "pf_net (perf_tp g P) = pf_net P" "pf_net (perf_row row P) = pf_net P"
  "pf_net (perf_on_rekey ev P) = pf_net P" "pf_net (perf_on_compromise ce P) = pf_net P"
  by (simp_all add: perf_mf_def perf_tp_def perf_row_def perf_on_rekey_def perf_on_compromise_def Let_def)

lemma perf_rekey_net:
  "perf_rekey E c why (skdc_of c) P = Inr P' \<Longrightarrow> unat c < 3 \<Longrightarrow> net_step E (pf_net P) (pf_net P')"
  by (auto simp: perf_rekey_def rbind_eq_Inr_iff Let_def intro: net_step.rekey split: if_splits)

lemma perf_global_rekey_net:
  "perf_global_rekey E why apps P = Inr P' \<Longrightarrow> \<forall>(c, skdc)\<in>set apps. unat c < 3 \<and> skdc = skdc_of c \<Longrightarrow>
   (net_step E)\<^sup>*\<^sup>* (pf_net P) (pf_net P')"
proof (induction E why apps P rule: perf_global_rekey.induct)
  case (2 E why c skdc rest P)
  then obtain P1 where P1: "perf_rekey E c why (skdc_of c) P = Inr P1" "perf_global_rekey E why rest P1 = Inr P'"
    by (auto simp: skdc_of_def rbind_eq_Inr_iff)
  then have "net_step E (pf_net P) (pf_net P1)" using 2(4) by (auto intro: perf_rekey_net)
  moreover have "(net_step E)\<^sup>*\<^sup>* (pf_net P1) (pf_net P')" using 2 P1 by (auto simp: skdc_of_def)
  ultimately show ?case by (rule converse_rtranclp_into_rtranclp)
qed simp

text \<open>An event does to the network what the operations of theory Group\_Managers do.\<close>

lemma perf_event_net:
  assumes "perf_event E upc t e us P = Some (Inr P')"
  shows "(net_step E)\<^sup>*\<^sup>* (pf_net P) (pf_net P')"
proof (cases e)
  case (PerfJoin u)
  then consider "P' = P" | r where "unat (u div upc) < 3"
    "Je_ProcessJoin E u (u mod upc) (u div upc) (skdc_of (u div upc)) (pf_net P) = Some (Inr (pf_net P', r))"
    using assms by (auto simp: perf_event_def perf_join_def cluster_ge_3 cbind_Inr cret_def Let_def split: if_splits prod.splits)
  then show ?thesis by cases (auto intro: net_step.join)
next
  case (PerfLeave u)
  then consider "P' = P" | r where "unat (u div upc) < 3"
    "Le_ProcessLeave E u (u mod upc) (u div upc) (skdc_of (u div upc)) (pf_net P) = Some (Inr (pf_net P', r))"
    using assms by (auto simp: perf_event_def perf_leave_def cluster_ge_3 cbind_Inr cret_def Let_def split: if_splits prod.splits)
  then show ?thesis by cases (auto intro: net_step.leave)
next
  case PerfCompromise
  then have "HandleCompromise E 0 0 0 CR_HMAC_FAILURE (skdc_of 0) (pf_net P) = Some (Inr (pf_net P'))"
    using assms by (auto simp: perf_event_def perf_compromise_def perf_report_def ReportHmacFailure_def cbind_Inr cret_def Let_def split: if_splits)
  then have "net_step E (pf_net P) (pf_net P')" by (rule net_step.report[rotated]) simp
  then show ?thesis by simp
next
  case PerfBatchRekey
  then obtain P1 where "perf_global_rekey E RM_KDC_INIT (zip [0, 1, 2] all_skdcs) P = Inr P1" "pf_net P' = pf_net P1"
    using assms by (auto simp: perf_event_def perf_batch_rekey_def rbind_eq_Inr_iff)
  then show ?thesis using perf_global_rekey_net[of E RM_KDC_INIT "zip [0, 1, 2] all_skdcs" P P1] by (simp add: all_skdcs_def skdc_of_def)
next
  case PerfHandover
  have "unat (1 div upc :: u32) \<le> 1" by (simp add: unat_div div_le_dividend)
  then have c: "unat (1 div upc :: u32) < 3" "unat ((1 div upc + 1) mod 3 :: u32) < 3" by (simp_all add: unat_mod)
  have "perf_handover E upc t P = Inr P'" using assms PerfHandover by (simp add: perf_event_def)
  then show ?thesis
  proof (rule perf_handover_parts, goal_cases)
    case (1 P1 P2 row)
    have "net_step E (pf_net P) (pf_net P1)" using perf_rekey_net[OF 1(1) c(1)] by simp
    moreover have "net_step E (pf_net P1) (pf_net P')" using perf_rekey_net[OF 1(2) c(2)] 1(3) by simp
    ultimately show ?thesis by (meson converse_rtranclp_into_rtranclp r_into_rtranclp)
  qed
qed

section \<open>The collected figures\<close>

lemma feed_uav_frame [simp]:
  "mf_rekeys (feed_uav sent got d mf u) = mf_rekeys mf" "mf_secrecy (feed_uav sent got d mf u) = mf_secrecy mf"
  "mf_auth (feed_uav sent got d mf u) = mf_auth mf" "mf_replay (feed_uav sent got d mf u) = mf_replay mf"
  "mf_sinr_samples (feed_uav sent got d mf u) = mf_sinr_samples mf" "mf_link_failures (feed_uav sent got d mf u) = mf_link_failures mf"
  "mf_cluster_head (feed_uav sent got d mf u) = mf_cluster_head mf" "mf_healing (feed_uav sent got d mf u) = mf_healing mf"
  "mf_summary (feed_uav sent got d mf u) = mf_summary mf"
  by (simp_all add: feed_uav_def RecordTx_def RecordLoss_def Let_def)

lemma feed_uavs_frame:
  defines "feed \<equiv> \<lambda>sent got d mf us. foldl (feed_uav sent got d) mf us"
  shows "mf_rekeys (feed sent got d mf us) = mf_rekeys mf \<and> mf_secrecy (feed sent got d mf us) = mf_secrecy mf \<and>
    mf_auth (feed sent got d mf us) = mf_auth mf \<and> mf_replay (feed sent got d mf us) = mf_replay mf \<and>
    mf_sinr_samples (feed sent got d mf us) = mf_sinr_samples mf \<and> mf_link_failures (feed sent got d mf us) = mf_link_failures mf \<and>
    mf_cluster_head (feed sent got d mf us) = mf_cluster_head mf \<and> mf_healing (feed sent got d mf us) = mf_healing mf \<and>
    mf_summary (feed sent got d mf us) = mf_summary mf"
  unfolding feed_def by (induction us rule: rev_induct) simp_all

lemma feed_flows_frame [simp]:
  "mf_rekeys (feed_flows n l now fl mf) = mf_rekeys mf" "mf_secrecy (feed_flows n l now fl mf) = mf_secrecy mf"
  "mf_replay (feed_flows n l now fl mf) = mf_replay mf" "mf_sinr_samples (feed_flows n l now fl mf) = mf_sinr_samples mf"
  "mf_link_failures (feed_flows n l now fl mf) = mf_link_failures mf" "mf_cluster_head (feed_flows n l now fl mf) = mf_cluster_head mf"
  "mf_healing (feed_flows n l now fl mf) = mf_healing mf" "mf_summary (feed_flows n l now fl mf) = mf_summary mf"
  using feed_uavs_frame by (simp_all add: feed_flows_def RecordRoutingUpdate_def RecordConnectivitySample_def Let_def)

text \<open>Every UAV is fed one packet sent and one received, however many the flow monitor has counted.\<close>

lemma feed_uavs_counts:
  assumes "0 < sent" "0 < got"
  shows "pc_tx (mf_pkt_global (foldl (feed_uav sent got d) mf us)) = pc_tx (mf_pkt_global mf) + word_of_nat (length us)"
    "pc_rx (mf_pkt_global (foldl (feed_uav sent got d) mf us)) = pc_rx (mf_pkt_global mf) + word_of_nat (length us)"
  using assms
  by (induction us rule: rev_induct) (simp_all add: feed_uav_def RecordTx_def RecordLoss_def Let_def algebra_simps)

lemma unat_ucast_64: "unat (ucast (n :: u32) :: u64) = unat n"
  using unsigned_less[of n, where ?'a = nat] by (simp add: unsigned_ucast_eq take_bit_nat_def)

lemma per_uav_positive:
  assumes "ucast (n :: u32) \<le> (x :: u64)" "0 < n"
  shows "0 < x div max 1 (ucast n)"
proof -
  have "(1 :: u64) \<le> ucast n" using assms(2) by (simp add: word_le_nat_alt word_less_nat_alt unat_ucast_64)
  then have "max 1 (ucast n) = (ucast n :: u64)" by simp
  moreover have "0 < unat x div unat (ucast n :: u64)"
    using assms \<open>1 \<le> ucast n\<close> by (simp add: div_greater_zero_iff word_le_nat_alt)
  ultimately show ?thesis by (simp add: word_less_nat_alt unat_div)
qed

section \<open>The properties\<close>

text \<open>
  C34.  Every run has its schedule: whatever the configuration and the draws of the generator, the two loops that
  schedule joins and leaves end, with at most one event every 5 and 8 seconds, all between 3 s (5 s) and ten seconds before the
  end.  A run has 6 to 30 UAVs in three clusters of equal size, every scheduled UAV exists and belongs to
  one of the clusters, so the guard \<open>c >= 3\<close> of the handlers never acts.  The intervals depend
  on the number of UAVs only: the draws that the code adds to them are overwritten.
\<close>
theorem perf_schedule:
  fixes cfg :: PerfConfig and j :: "nat \<Rightarrow> real" and uc :: u32
  defines "cfg' \<equiv> perf_config j uc cfg" and "n \<equiv> actual_n uc" and "upc \<equiv> uavs_per_cluster uc"
  assumes "13 \<le> cfg_duration_s cfg"
  shows "unat n = 3 * unat upc \<and> 6 \<le> unat n \<and> unat n \<le> 30 \<and>
    cfg_join_interval_s cfg' = max 5 (20 - real (unat n) * 0.5) \<and>
    cfg_leave_interval_s cfg' = max 8 (25 - real (unat n) * 0.6) \<and>
    (\<exists>js ls. join_events cfg' n = Some js \<and> leave_events cfg' n = Some ls \<and>
      real (length js) \<le> (cfg_duration_s cfg - 13) / 5 + 1 \<and> real (length ls) \<le> (cfg_duration_s cfg - 13) / 8 + 1 \<and>
      (\<forall>(t, e)\<in>set js. 3 \<le> t \<and> t < cfg_duration_s cfg - 10 \<and> (\<exists>u. e = PerfJoin u \<and> u < n \<and> unat (u div upc) < 3)) \<and>
      (\<forall>(t, e)\<in>set ls. 5 \<le> t \<and> t < cfg_duration_s cfg - 10 \<and> (\<exists>u. e = PerfLeave u \<and> u < n \<and> unat (u div upc) < 3)))"
proof -
  let ?lim = "cfg_duration_s cfg - 10"
  note iv = perf_config_intervals[of j uc cfg, folded cfg'_def n_def]
  have steps: "5 \<le> cfg_join_interval_s cfg'" "8 \<le> cfg_leave_interval_s cfg'" "3 \<le> cfg_join_start_s cfg'" "5 \<le> cfg_leave_start_s cfg'"
    by (simp_all add: iv)
  have loop: "\<exists>ts. time_loop t ?lim s = Some ts \<and> real (length ts) \<le> (cfg_duration_s cfg - 13) / b + 1 \<and>
      (\<forall>x\<in>set ts. t \<le> x \<and> x < ?lim)" if "b \<le> s" "0 < b" "3 \<le> t" for t s b
  proof -
    have s: "0 < s" using that by simp
    have "(?lim - t) / s \<le> (cfg_duration_s cfg - 13) / b"
    proof (cases "?lim - t \<le> 0")
      case True
      then have "(?lim - t) / s \<le> 0" using s by (simp add: divide_le_0_iff)
      also have "0 \<le> (cfg_duration_s cfg - 13) / b" using assms(4) that(2) by simp
      finally show ?thesis .
    next
      case False
      then show ?thesis using that by (intro frac_le) simp_all
    qed
    then have "real (nat \<lceil>(?lim - t) / s\<rceil>) \<le> (cfg_duration_s cfg - 13) / b + 1"
      using assms(4) that(2) divide_nonneg_pos[of "cfg_duration_s cfg - 13" b] by linarith
    then show ?thesis using time_loop_terminates[OF s, of t ?lim] time_loop_range[OF s, of t ?lim] by auto
  qed
  obtain ts where ts: "time_loop (cfg_join_start_s cfg') ?lim (cfg_join_interval_s cfg') = Some ts"
    "real (length ts) \<le> (cfg_duration_s cfg - 13) / 5 + 1" "\<forall>x\<in>set ts. cfg_join_start_s cfg' \<le> x \<and> x < ?lim"
    using loop[OF steps(1) _ steps(3)] by auto
  obtain us where us: "time_loop (cfg_leave_start_s cfg') ?lim (cfg_leave_interval_s cfg') = Some us"
    "real (length us) \<le> (cfg_duration_s cfg - 13) / 8 + 1" "\<forall>x\<in>set us. cfg_leave_start_s cfg' \<le> x \<and> x < ?lim"
    using loop[OF steps(2), of "cfg_leave_start_s cfg'"] steps(4) by auto
  have uav: "x mod n < n" "unat (x mod n div upc) < 3" for x
    using scheduled_uav[of x uc] by (simp_all add: n_def upc_def)
  have sizes: "unat n = 3 * unat upc" "6 \<le> unat n" "unat n \<le> 30"
    using uavs_per_cluster_range[of uc] by (simp_all add: n_def upc_def unat_actual_n)
  have evs: "join_events cfg' n = Some (map (\<lambda>t. (t, PerfJoin (to_u32 (t / cfg_join_interval_s cfg') mod n))) ts)"
    "leave_events cfg' n = Some (map (\<lambda>t. (t, PerfLeave (to_u32 (t / cfg_leave_interval_s cfg' + 1) mod n))) us)"
    using ts(1) us(1) by (simp_all add: join_events_def leave_events_def iv(5))
  have range: "\<forall>x\<in>set ts. 3 \<le> x \<and> x < ?lim" "\<forall>x\<in>set us. 5 \<le> x \<and> x < ?lim"
    using ts(3) us(3) steps(3,4) by fastforce+
  show ?thesis
    unfolding evs using sizes ts(2) us(2) uav range by (simp add: iv)
qed

lemma perf_setup_inv: "perf_setup E seed n params apps us tp N = Inr P \<Longrightarrow> perf_inv P"
  by (cases us) (auto simp: perf_setup_def Let_def rbind_eq_Inr_iff perf_inv_start split: prod.splits)

text \<open>The set-up goes through and leaves the managers and the cluster heads with the same keys.\<close>

lemma wf_tek_init_loop:
  "length teks = 3 \<Longrightarrow> \<forall>tr\<in>set teks. length (tr_tek tr) = 32 \<Longrightarrow> \<forall>cp\<in>set clusters. length (cc_tek cp) = 32 \<Longrightarrow>
   length (tek_init_loop now clusters c teks) = 3 \<and> (\<forall>tr\<in>set (tek_init_loop now clusters c teks). length (tr_tek tr) = 32)"
proof (induction now clusters c teks rule: tek_init_loop.induct)
  case (1 now clusters c teks)
  let ?tr = "(teks ! c) \<lparr> tr_cluster_id := of_nat c, tr_tek := cc_tek (clusters ! c), tr_tek_int := cc_tek_int (clusters ! c),
    tr_version := 1, tr_created_at := now, tr_expires_at := now + TEK_LIFETIME_US, tr_valid := True \<rparr>"
  show ?case
  proof (cases "c < 3 \<and> c < length clusters")
    case True
    then have "\<forall>tr\<in>set (teks[c := ?tr]). length (tr_tek tr) = 32"
      using "1.prems" by (auto dest: set_update_subset_insert[THEN subsetD])
    then show ?thesis
      using True "1.prems" "1.IH"[of "clusters ! c" "teks ! c" ?tr] by (simp add: tek_init_loop.simps[of now clusters c] Let_def)
  next
    case False
    then show ?thesis using "1.prems" by (auto simp: tek_init_loop.simps[of now clusters c])
  qed
qed

lemma perf_setup_returns:
  assumes "hmac_law E" "msb_law E" "sha256_law E" "powm_law E" "wf_world N" "nt_timers N = []" "apps_ok E apps"
    and "\<forall>cp\<in>set (cp_clusters params). length (cc_tek cp) = 32"
  obtains P where "perf_setup E seed n params apps us tp N = Inr P"
    "net_inv E (map (\<lambda>app. sd_mt_k (sk_state app)) apps) (pf_net P)" "comp_ok (nt_comp (pf_net P))"
    "pf_mf P = Mf_Initialize 1 (MetricsFramework_new seed)"
proof -
  define tm where "tm = \<lparr> tm_params = Some params,
     tm_teks = tek_init_loop (env_micros N (env_reads N + 1)) (cp_clusters params) 0 (replicate 3 TekRecord_new),
     tm_hmac_key = env_random N (env_reads N) 32, tm_rotate_cb = None, tm_rotations = 0 \<rparr>"
  define N1 where "N1 = N \<lparr> nt_skdcs := apps, env_reads := env_reads N + 2, nt_tek := tm,
     nt_mc := Mc_Initialize (MulticastManager_new (Some params)), nt_dist := MtkDistributionManager_new,
     nt_join := JoinEventManager_new, nt_leave := LeaveEventManager_new, nt_rekey := RekeyManager_new,
     nt_comp := CompromiseDetector_new \<rparr>"
  have "wf_tek tm"
    using wf_tek_init_loop[of "replicate 3 TekRecord_new" "cp_clusters params"] assms(8)
    by (simp add: wf_tek_def tm_def TekRecord_new_def)
  then have ok: "net_ok E N1"
    using assms by (simp add: net_ok_def N1_def wf_world_def MtkDistributionManager_new_def RekeyManager_new_def)
  have "nt_timers N1 = []" using assms(6) by (simp add: N1_def)
  then obtain N2 where N2: "Dist_BroadcastAll E all_skdcs N1 = Inr N2" "net_inv E (skdc_tokens N1) N2" "nt_comp N2 = nt_comp N1"
    by (rule BroadcastAll_effect[OF ok]) blast
  define N3 where "N3 = foldl (\<lambda>N c. SchedulePeriodic c (skdc_of c) 60 N) (ScheduleRefresh N2) [0, 1, 2]"
  define N4 where "N4 = N3 \<lparr> nt_rekey := (nt_rekey N3) \<lparr> rm_rekey_cb := Some [] \<rparr>, nt_comp := (nt_comp N3) \<lparr> cd_callback := Some [] \<rparr> \<rparr>"
  have inv: "net_inv E (skdc_tokens N1) N3" using N2(2) by (simp add: N3_def net_inv_passive)
  have same: "nt_comp N3 = CompromiseDetector_new"
    using N2(3) by (simp add: N3_def SchedulePeriodic_def ScheduleRefresh_def N1_def)
  have "net_inv E (skdc_tokens N1) N4"
    using inv by (simp add: N4_def net_inv_def net_ok_def wf_world_def net_agree_def timers_ok_def)
  moreover obtain us1 us2 where "us = (us1, us2)" by (cases us)
  then have "\<exists>P. perf_setup E seed n params apps us tp N = Inr P \<and> pf_net P = N4 \<and>
      pf_mf P = Mf_Initialize 1 (MetricsFramework_new seed)"
    using N2(1)
    by (simp add: perf_setup_def Let_def TekManager_new_def RandomBytes_def Tek_Initialize_def NowEpochMicros_def
        perf_tp_def perf_start_def tm_def N1_def N3_def N4_def)
  ultimately show thesis
    using that same by (auto simp: N4_def N1_def comp_ok_def CompromiseDetector_new_def)
qed

text \<open>What \<open>perf_collect\<close> finalizes.\<close>

lemma perf_collect_mf:
  obtains mf where "snd (perf_collect cfg n k flows P) = Mf_Finalize (cfg_duration_s cfg) k mf"
    "mf = (case flows of None \<Rightarrow> pf_mf P
      | Some fl \<Rightarrow> feed_flows n (pf_total_leaves P) (env_now (pf_net P)) fl (pf_mf P))"
    "mf_rekeys mf = mf_rekeys (pf_mf P)" "mf_secrecy mf = mf_secrecy (pf_mf P)" "mf_replay mf = mf_replay (pf_mf P)"
    "mf_sinr_samples mf = mf_sinr_samples (pf_mf P)" "mf_link_failures mf = mf_link_failures (pf_mf P)"
    "mf_cluster_head mf = mf_cluster_head (pf_mf P)" "mf_healing mf = mf_healing (pf_mf P)" "mf_summary mf = mf_summary (pf_mf P)"
  by (cases flows) (simp_all add: perf_collect_def Let_def that)

text \<open>
  C33.  The report on forward and backward secrecy does not depend on the keys.  In every run of the scenario, with
  any network, the two rates are 1 (100 percent) as soon as there was a join or a rekey: the records say \<open>true, true\<close> without a
  look at a key.  None of the events, a leave and a revocation included, changes the token that a
  cluster head broadcasts, so what the members that have left could decrypt they can still decrypt.
\<close>
theorem perf_secrecy_reported:
  assumes "perf_setup E seed n params apps us tp N = Inr P0" "(perf_step E n upc)\<^sup>*\<^sup>* P0 P"
    and "net_inv E toks (pf_net P)" "comp_ok (nt_comp (pf_net P))"
    and "perf_event E upc t e us' P = Some (Inr P')"
    and "mf_secrecy (pf_mf P') \<noteq> []" "length (mf_secrecy (pf_mf P')) < 2 ^ 32"
  shows "GetForwardSecrecyRate (snd (perf_collect cfg n k flows P')) = 1 \<and>
    GetBackwardSecrecyRate (snd (perf_collect cfg n k flows P')) = 1 \<and>
    map (\<lambda>app. sd_mt_k (sk_state app)) (nt_skdcs (pf_net P')) = map (\<lambda>app. sd_mt_k (sk_state app)) (nt_skdcs (pf_net P))"
proof -
  have "perf_inv P'" using perf_inv_run[OF assms(2) perf_setup_inv[OF assms(1)]] perf_inv_event[OF assms(5)] by simp
  then have told: "\<forall>s\<in>set (mf_secrecy (pf_mf P')). sc_forward_ok s \<and> sc_backward_ok s" by (simp add: perf_inv_def told_ok_def)
  obtain mf where "snd (perf_collect cfg n k flows P') = Mf_Finalize (cfg_duration_s cfg) k mf" "mf_secrecy mf = mf_secrecy (pf_mf P')"
    by (rule perf_collect_mf)
  then have "GetForwardSecrecyRate (snd (perf_collect cfg n k flows P')) = share_of sc_forward_ok (mf_secrecy (pf_mf P'))"
    "GetBackwardSecrecyRate (snd (perf_collect cfg n k flows P')) = share_of sc_backward_ok (mf_secrecy (pf_mf P'))"
    using assms(6) by (simp_all add: GetForwardSecrecyRate_def GetBackwardSecrecyRate_def Mf_Finalize_def Finalize_security_def Let_def)
  moreover have "skdc_tokens (pf_net P') = toks" "skdc_tokens (pf_net P) = toks"
    using net_steps_inv[OF perf_event_net[OF assms(5)] assms(3,4)] assms(3) by (simp_all add: net_inv_def)
  ultimately show ?thesis using told share_of_all[OF assms(6,7)] by simp
qed

text \<open>
  Figures that come out the same in every run, whatever the network, the jammer and the attackers do: no UAV is
  ever jammed and no link fails (the sampled SINR is a sine between 12 and 28 dB, above the thresholds of 8 and 5 dB), the replay detection
  rate is 0 (nothing is ever reported to it), so is the handover rate (the names it counts are not
  the name of the scenario's handover) and the success of healing, and the cluster heads are reachable all the time.
\<close>
theorem perf_constant_figures:
  assumes "perf_setup E seed n params apps us tp N = Inr P0" "(perf_step E n upc)\<^sup>*\<^sup>* P0 P"
    and "length (mf_cluster_head (pf_mf P)) < 2 ^ 32"
  shows "let sm = mf_summary (snd (perf_collect cfg n k flows P)) in
    ds_jammed_uav_ratio (fs_denied sm) = 0 \<and> ds_total_link_failures (fs_denied sm) = 0 \<and>
    ds_link_failure_rate (fs_denied sm) = 0 \<and> ds_interference_impact (fs_denied sm) = 0 \<and>
    ss_replay_detection_rate (fs_security sm) = 0 \<and> ss_replay_attacks (fs_security sm) = 0 \<and>
    ss_healing_success_rate (fs_security sm) = 0 \<and> mo_handover_trigger_rate (fs_mobility sm) = 0 \<and>
    mo_cluster_head_stability (fs_mobility sm) = (if mf_cluster_head (pf_mf P) = [] then 0 else 1)"
proof -
  have told: "told_ok (pf_mf P)"
    using perf_inv_run[OF assms(2) perf_setup_inv[OF assms(1)]] by (simp add: perf_inv_def)
  obtain mf where mf: "snd (perf_collect cfg n k flows P) = Mf_Finalize (cfg_duration_s cfg) k mf"
    "mf_rekeys mf = mf_rekeys (pf_mf P)" "mf_replay mf = []" "mf_link_failures mf = []"
    "mf_sinr_samples mf = mf_sinr_samples (pf_mf P)" "mf_cluster_head mf = mf_cluster_head (pf_mf P)"
    "mf_healing mf = mf_healing (pf_mf P)" "mf_summary mf = FullMetricsSummary_new"
    by (rule perf_collect_mf[of cfg n k flows P]) (use told in \<open>simp add: told_ok_def\<close>)
  have none: "filter ms_jammed (mf_sinr_samples mf) = []" "share_of he_recovered (mf_healing mf) = 0"
    "count_loop (\<lambda>r. rr_trigger r = ''HANDOVER_OLD'' \<or> rr_trigger r = ''HANDOVER_NEW'') (mf_rekeys mf) = 0"
    using told by (auto simp: told_ok_def mf filter_empty_conv share_of_def count_loop_count)
  have heads: "mf_cluster_head mf \<noteq> [] \<Longrightarrow> share_of ch_skdc_reachable (mf_cluster_head mf) = 1"
    using told assms(3) by (intro share_of_all) (simp_all add: mf told_ok_def)
  have "ds_jammed_uav_ratio (Finalize_denied mf d g (fs_denied FullMetricsSummary_new)) = 0"
    "ds_total_link_failures (Finalize_denied mf d g (fs_denied FullMetricsSummary_new)) = 0"
    "ds_link_failure_rate (Finalize_denied mf d g (fs_denied FullMetricsSummary_new)) = 0"
    "ds_interference_impact (Finalize_denied mf d g (fs_denied FullMetricsSummary_new)) = 0" for d g
    using none(1) by (simp_all add: Finalize_denied_def Let_def mf(4) ever_jammed_def size32_def FullMetricsSummary_new_def)
  moreover have "ss_replay_detection_rate (Finalize_security mf (fs_security FullMetricsSummary_new)) = 0"
    "ss_replay_attacks (Finalize_security mf (fs_security FullMetricsSummary_new)) = 0"
    "ss_healing_success_rate (Finalize_security mf (fs_security FullMetricsSummary_new)) = 0"
    by (simp_all add: Finalize_security_def Let_def mf(3) none FullMetricsSummary_new_def)
  moreover have "mo_handover_trigger_rate (Finalize_mobility mf d (fs_mobility FullMetricsSummary_new)) = 0"
    "mo_cluster_head_stability (Finalize_mobility mf d (fs_mobility FullMetricsSummary_new)) =
      (if mf_cluster_head mf = [] then 0 else 1)" for d
    using heads by (simp_all add: Finalize_mobility_def Let_def none FullMetricsSummary_new_def)
  ultimately show ?thesis by (simp add: Let_def mf(1) Mf_Finalize_def mf(6,8))
qed

text \<open>Joins and leaves are different records.\<close>

lemma rekeys_for_add: "rekeys_for ''JOIN'' mf + rekeys_for ''LEAVE'' mf \<le> length (mf_rekeys mf)"
proof -
  have "length (filter (\<lambda>r. rr_trigger r = ''JOIN'') rs) + length (filter (\<lambda>r. rr_trigger r = ''LEAVE'') rs) \<le> length rs" for rs
    by (induction rs) auto
  then show ?thesis by (simp add: rekeys_for_def)
qed

lemma feed_flows_counts:
  assumes "ucast n \<le> flow_tx fl" "ucast n \<le> flow_rx fl" "0 < n"
  shows "pc_tx (mf_pkt_global (feed_flows n l now fl mf)) = pc_tx (mf_pkt_global mf) + ucast n"
    "pc_rx (mf_pkt_global (feed_flows n l now fl mf)) = pc_rx (mf_pkt_global mf) + ucast n"
proof -
  have "0 < flow_tx fl div max 1 (ucast n)" "0 < flow_rx fl div max 1 (ucast n)"
    using assms by (simp_all add: per_uav_positive)
  note feed = feed_uavs_counts[OF this, of "flow_delay fl" mf "[0..<unat n]"]
  have "(word_of_nat (unat n) :: u64) = ucast n" by (rule word_unat_eq_iff[THEN iffD2]) (simp add: unat_ucast_64 unat_of_nat)
  with feed show "pc_tx (mf_pkt_global (feed_flows n l now fl mf)) = pc_tx (mf_pkt_global mf) + ucast n"
    "pc_rx (mf_pkt_global (feed_flows n l now fl mf)) = pc_rx (mf_pkt_global mf) + ucast n"
    by (simp_all add: feed_flows_def RecordRoutingUpdate_def RecordConnectivitySample_def Let_def)
qed

text \<open>
  Two packet delivery ratios for one run.  The one in the summary of the run is what the flow monitor has measured.
  The one in the full report is not: whatever was sent and received, provided that it was at least one packet per
  UAV each, it is (joins + n) / (joins + leaves + n), because every UAV is fed one packet, every join counts as
  one sent and received and every leave as one sent.  The total of the rekeys is the number of rekey records,
  each join and each leave being one of them.
\<close>
theorem perf_two_pdrs:
  assumes "perf_setup E seed (actual_n uc) params apps us tp N = Inr P0"
    and "(perf_step E (actual_n uc) (uavs_per_cluster uc))\<^sup>*\<^sup>* P0 P"
    and "length (mf_rekeys (pf_mf P)) < 2 ^ 32"
    and "ucast (actual_n uc) \<le> flow_tx flows" "ucast (actual_n uc) \<le> flow_rx flows"
  shows "let (m, mf) = perf_collect cfg (actual_n uc) k (Some flows) P;
             joins = unat (sm_total_joins m); leaves = unat (sm_total_leaves m); n = unat (actual_n uc)
         in sm_pdr m = real (unat (flow_rx flows)) / real (unat (flow_tx flows)) \<and>
            ns_global_pdr (fs_network (mf_summary mf)) = real (joins + n) / real (joins + leaves + n) \<and>
            unat (sm_total_rekeys m) = length (mf_rekeys (pf_mf P)) \<and>
            joins = rekeys_for ''JOIN'' (pf_mf P) \<and> leaves = rekeys_for ''LEAVE'' (pf_mf P)"
proof -
  let ?n = "actual_n uc" and ?mf = "pf_mf P"
  define J L where "J = rekeys_for ''JOIN'' ?mf" and "L = rekeys_for ''LEAVE'' ?mf"
  have "perf_inv P" using perf_inv_run[OF assms(2) perf_setup_inv[OF assms(1)]] .
  then have books: "pf_total_rekeys P = word_of_nat (length (mf_rekeys ?mf))" "pf_total_joins P = word_of_nat J"
    "pf_total_leaves P = word_of_nat L" "pc_tx (mf_pkt_global ?mf) = word_of_nat (J + L)" "pc_rx (mf_pkt_global ?mf) = word_of_nat J"
    by (simp_all add: perf_inv_def counters_ok_def Let_def J_def L_def)
  have sizes: "J + L < 2 ^ 32" "6 \<le> unat ?n" "unat ?n \<le> 30" "0 < ?n"
    using rekeys_for_add[of ?mf] assms(3) uavs_per_cluster_range[of uc]
    by (simp_all add: J_def L_def unat_actual_n word_less_nat_alt)
  have unats: "unat (pf_total_rekeys P) = length (mf_rekeys ?mf)" "unat (pf_total_joins P) = J" "unat (pf_total_leaves P) = L"
    using sizes(1) assms(3) by (simp_all add: books unat_of_nat)
  define mf where "mf = feed_flows ?n (pf_total_leaves P) (env_now (pf_net P)) flows ?mf"
  have "unat (pc_tx (mf_pkt_global mf)) = J + L + unat ?n" "unat (pc_rx (mf_pkt_global mf)) = J + unat ?n"
    using sizes
    by (simp_all add: mf_def feed_flows_counts[OF assms(4,5)] books unat_word_ariths unat_ucast_64 unat_of_nat del: of_nat_add)
  moreover from this have "pc_tx (mf_pkt_global mf) \<noteq> 0" using sizes(2) by (auto simp: unat_eq_0[symmetric])
  ultimately have "PDR (mf_pkt_global mf) = real (J + unat ?n) / real (J + L + unat ?n)"
    by (simp add: PDR_def del: of_nat_unat)
  moreover have "flow_tx flows \<noteq> 0"
    using assms(4) sizes(2) by (auto simp: word_le_nat_alt unat_ucast_64)
  ultimately show ?thesis
    by (simp add: perf_collect_def Let_def unats Mf_Finalize_def Finalize_network_def mf_def[symmetric] J_def[symmetric]
        L_def[symmetric] del: of_nat_unat)
qed

section \<open>A concrete run\<close>

definition demo_skdcs :: "SkdcApp list" where
  "demo_skdcs = map (\<lambda>(c, node). SetClusterId c (SkdcApplication_new node)) [(0, 19), (1, 20), (2, 21)]"

definition demo_tp :: TimingProfiler where
  "demo_tp = \<lparr> tp_crypto = [], tp_events = [], tp_packets = [], tp_pending = [] \<rparr>"

definition demo_perf_params :: CryptoParamsFile where
  "demo_perf_params = demo_params3 \<lparr> mt_MT_K = 1, mt_e_MK = 1, mt_T = 1, mt_N_group = 1, mt_user_indices = [],
     mt_cluster_id = 0, mt_version = 1 \<rparr>"

lemma demo_perf:
  obtains P where "perf_setup toy_ext 642 6 demo_perf_params demo_skdcs (0, 0) demo_tp (demo_net mc) = Inr P"
    "net_inv toy_ext (map (\<lambda>app. sd_mt_k (sk_state app)) demo_skdcs) (pf_net P)" "comp_ok (nt_comp (pf_net P))"
    "pf_mf P = Mf_Initialize 1 (MetricsFramework_new 642)"
proof (rule perf_setup_returns[of toy_ext "demo_net mc" demo_skdcs demo_perf_params 642 6 "(0, 0)" demo_tp])
  show "apps_ok toy_ext demo_skdcs"
    using demo_sizes[of 0]
    by (auto simp: demo_skdcs_def apps_ok_def SetClusterId_def SkdcApplication_new_def SkdcState_new_def sendable_def)
  show "\<forall>cp\<in>set (cp_clusters demo_perf_params). length (cc_tek cp) = 32"
    by (simp add: demo_perf_params_def demo_params3_def)
qed (use demo_net_ok[of mc] in \<open>simp_all add: net_ok_def that\<close>)

lemma perf_schedule_witness:
  "\<exists>js. join_events (perf_config (\<lambda>i. 1) 6 PerfConfig_default) (actual_n 6) = Some js \<and> length js \<le> 22"
proof -
  have "(13 :: real) \<le> cfg_duration_s PerfConfig_default" by (simp add: PerfConfig_default_def)
  from perf_schedule[OF this, where j = "\<lambda>i. 1" and uc = 6] obtain js where js: "join_events (perf_config (\<lambda>i. 1) 6 PerfConfig_default) (actual_n 6) = Some js"
    "real (length js) \<le> (cfg_duration_s PerfConfig_default - 13) / 5 + 1" by blast
  have "real (length js) < 23" using js(2) by (simp add: PerfConfig_default_def)
  with js(1) show ?thesis by (intro exI[of _ js]) simp
qed

lemma perf_rekey_returns:
  assumes "net_inv E toks (pf_net P)" "unat c < 3"
  obtains P' where "perf_rekey E c why (skdc_of c) P = Inr P'" "net_inv E toks (pf_net P')"
    "length (mf_secrecy (pf_mf P')) = length (mf_secrecy (pf_mf P)) + 1"
proof -
  have "net_ok E (pf_net P)" using assms(1) by (simp add: net_inv_def)
  then obtain N where N: "Rekey_TriggerRekey E c why (skdc_of c) (pf_net P) = Inr (N, True)"
    using Rekey_returns[OF _ assms(2)] by blast
  moreover have "net_inv E toks N" using Rekey_inv[OF assms N] by simp
  ultimately show thesis
    using that[of "perf_on_rekey (last (rm_history (nt_rekey N))) (P \<lparr> pf_net := N \<rparr>)"]
    by (simp add: perf_rekey_def Let_def, simp add: perf_on_rekey_def perf_hooks)
qed

lemma perf_batch_rekey_returns:
  assumes "net_inv E toks (pf_net P)"
  obtains P' where "perf_event E upc t PerfBatchRekey us P = Some (Inr P')"
    "length (mf_secrecy (pf_mf P')) = length (mf_secrecy (pf_mf P)) + 3"
proof -
  obtain P1 where P1: "perf_rekey E 0 RM_KDC_INIT (skdc_of 0) P = Inr P1" "net_inv E toks (pf_net P1)"
    "length (mf_secrecy (pf_mf P1)) = length (mf_secrecy (pf_mf P)) + 1" by (rule perf_rekey_returns[OF assms, of 0]) auto
  obtain P2 where P2: "perf_rekey E 1 RM_KDC_INIT (skdc_of 1) P1 = Inr P2" "net_inv E toks (pf_net P2)"
    "length (mf_secrecy (pf_mf P2)) = length (mf_secrecy (pf_mf P1)) + 1" by (rule perf_rekey_returns[OF P1(2), of 1]) auto
  obtain P3 where P3: "perf_rekey E 2 RM_KDC_INIT (skdc_of 2) P2 = Inr P3"
    "length (mf_secrecy (pf_mf P3)) = length (mf_secrecy (pf_mf P2)) + 1" by (rule perf_rekey_returns[OF P2(2), of 2]) auto
  show thesis
    using that[of "perf_row (EventRow t ''BATCH_REKEY'' 255 [''ALL'', ''global'']) P3"] P1 P2 P3
    by (simp add: perf_event_def perf_batch_rekey_def all_skdcs_def skdc_of_def) (simp add: perf_row_def)
qed

abbreviation demo_setup :: "PerfRun res" where
  "demo_setup \<equiv> perf_setup toy_ext 642 6 demo_perf_params demo_skdcs (0, 0) demo_tp (demo_net (MulticastManager_new None))"

lemma perf_secrecy_reported_witness:
  "\<exists>P0 P'. demo_setup = Inr P0 \<and> perf_event toy_ext 2 60 PerfBatchRekey (0, 0, 0) P0 = Some (Inr P') \<and>
    GetForwardSecrecyRate (snd (perf_collect PerfConfig_default 6 0 None P')) = 1"
proof -
  obtain P0 where P0: "demo_setup = Inr P0" "net_inv toy_ext (map (\<lambda>app. sd_mt_k (sk_state app)) demo_skdcs) (pf_net P0)"
    "comp_ok (nt_comp (pf_net P0))" "pf_mf P0 = Mf_Initialize 1 (MetricsFramework_new 642)"
    by (rule demo_perf)
  obtain P' where P': "perf_event toy_ext 2 60 PerfBatchRekey (0, 0, 0) P0 = Some (Inr P')"
    "length (mf_secrecy (pf_mf P')) = length (mf_secrecy (pf_mf P0)) + 3"
    by (rule perf_batch_rekey_returns[OF P0(2)])
  then have "length (mf_secrecy (pf_mf P')) = 3" by (simp add: P0(4) Mf_Initialize_def MetricsFramework_new_def)
  then have "mf_secrecy (pf_mf P') \<noteq> []" "length (mf_secrecy (pf_mf P')) < 2 ^ 32" by auto
  with perf_secrecy_reported[OF P0(1) rtranclp.rtrancl_refl P0(2,3) P'(1), of PerfConfig_default 0 None]
  show ?thesis using P0(1) P'(1) by auto
qed

lemma perf_sample_sinr_lengths:
  assumes "t < duration"
  shows "length (mf_sinr_samples (perf_sample_sinr duration n upc skdc_id t mf)) = length (mf_sinr_samples mf) + unat n"
    "length (mf_cluster_head (perf_sample_sinr duration n upc skdc_id t mf)) = length (mf_cluster_head mf) + 3"
proof -
  have uavs: "length (mf_sinr_samples (foldl (\<lambda>mf u. perf_sample_uav upc t u mf) mf us)) = length (mf_sinr_samples mf) + length us \<and>
    mf_cluster_head (foldl (\<lambda>mf u. perf_sample_uav upc t u mf) mf us) = mf_cluster_head mf" for mf us
    by (induction us rule: rev_induct) (simp_all add: perf_sample_uav_eq RecordSinrSample_def Let_def)
  have heads: "mf_sinr_samples (foldl (\<lambda>mf c. RecordClusterHeadStatus t (i c) (m c) upc True (d c) mf) mf cs) = mf_sinr_samples mf \<and>
    length (mf_cluster_head (foldl (\<lambda>mf c. RecordClusterHeadStatus t (i c) (m c) upc True (d c) mf) mf cs)) =
      length (mf_cluster_head mf) + length cs" for i m d mf and cs :: "nat list"
    by (induction cs rule: rev_induct) (simp_all add: RecordClusterHeadStatus_def)
  show "length (mf_sinr_samples (perf_sample_sinr duration n upc skdc_id t mf)) = length (mf_sinr_samples mf) + unat n"
    "length (mf_cluster_head (perf_sample_sinr duration n upc skdc_id t mf)) = length (mf_cluster_head mf) + 3"
    using assms uavs heads by (simp_all add: perf_sample_sinr_def not_le[symmetric])
qed

lemma perf_constant_figures_witness:
  "\<exists>P0. demo_setup = Inr P0 \<and>
    (let P = perf_mf (perf_sample_sinr 120 6 2 (\<lambda>c. word_of_nat (c + 19)) 2) P0;
         sm = mf_summary (snd (perf_collect PerfConfig_default 6 0 None P))
     in length (mf_sinr_samples (pf_mf P)) = 6 \<and> ds_jammed_uav_ratio (fs_denied sm) = 0 \<and>
        mo_cluster_head_stability (fs_mobility sm) = 1)"
proof -
  obtain P0 where P0: "demo_setup = Inr P0" "pf_mf P0 = Mf_Initialize 1 (MetricsFramework_new 642)"
    by (rule demo_perf)
  define P where "P = perf_mf (perf_sample_sinr 120 6 2 (\<lambda>c. word_of_nat (c + 19)) 2) P0"
  have P: "length (mf_sinr_samples (pf_mf P)) = 6" "length (mf_cluster_head (pf_mf P)) = 3"
    by (simp_all add: P_def perf_mf_def P0(2) perf_sample_sinr_lengths) (simp_all add: Mf_Initialize_def MetricsFramework_new_def)
  have "(perf_step toy_ext 6 2)\<^sup>*\<^sup>* P0 P" unfolding P_def by (intro r_into_rtranclp perf_step.sinr)
  moreover have "length (mf_cluster_head (pf_mf P)) < 2 ^ 32" "mf_cluster_head (pf_mf P) \<noteq> []" using P(2) by auto
  ultimately show ?thesis
    using perf_constant_figures[OF P0(1), of 2 P PerfConfig_default 0 None] P0(1) P(1)
    by (auto simp: Let_def P_def)
qed

definition demo_flow :: FlowStats where
  "demo_flow = \<lparr> fl_txPackets = 60, fl_rxPackets = 30, fl_delay_ms = 100, fl_rxBytes = 30000 \<rparr>"

lemma perf_two_pdrs_witness:
  "\<exists>P0. demo_setup = Inr P0 \<and>
    (let (m, mf) = perf_collect PerfConfig_default 6 0 (Some [demo_flow]) P0
     in sm_pdr m = 1 / 2 \<and> ns_global_pdr (fs_network (mf_summary mf)) = 1)"
proof -
  obtain P0 where P0: "demo_setup = Inr P0" "pf_mf P0 = Mf_Initialize 1 (MetricsFramework_new 642)"
    by (rule demo_perf)
  have n: "actual_n 6 = 6" by (simp add: actual_n_def uavs_per_cluster_def)
  have mf: "mf_rekeys (pf_mf P0) = []" by (simp add: P0(2) Mf_Initialize_def MetricsFramework_new_def)
  have flows: "flow_tx [demo_flow] = 60" "flow_rx [demo_flow] = 30"
    by (simp_all add: flow_tx_def flow_rx_def demo_flow_def)
  have start: "perf_setup toy_ext 642 (actual_n 6) demo_perf_params demo_skdcs (0, 0) demo_tp (demo_net (MulticastManager_new None)) = Inr P0"
    using P0(1) by (simp add: n)
  show ?thesis
    using perf_two_pdrs[OF start rtranclp.rtrancl_refl, of "[demo_flow]" PerfConfig_default 0] P0(1)
    by (simp add: n mf flows rekeys_for_def Let_def split: prod.splits del: of_nat_unat)
qed

end
