(* ===== verification/Flow_Monitor.thy ===== *)
theory Flow_Monitor
  imports Metrics_Framework
begin

text \<open>
  routing/uav-flowmonitor.\{h,cc\}: the manager that turns the statistics of ns-3's flow
  monitor into figures per flow, per cluster and for the whole run.  The statistics are
  the value the monitor returns after \<open>CheckForLostPackets\<close> (a list in the order of the flow
  ids, as \<open>std::map\<close> has them); times are integers in nanoseconds as \<open>Time\<close> keeps them.  What the
  manager reads of the network is the record \<open>FlowNet\<close>: the addresses of the wireless
  interfaces, the classifier and the printing of an address.  The theorems show how the figures of
  the clusters and of the run hang together.  The XML and CSV files and the printed summary
  are left out.
\<close>

section \<open>Records\<close>

text \<open>The fields of ns-3's \<open>FlowStats\<close> and \<open>FiveTuple\<close> that the code reads.\<close>

record NsFlowStats =
  fs_timeFirstTxPacket :: int
  fs_timeLastRxPacket :: int
  fs_delaySum :: int
  fs_jitterSum :: int
  fs_txBytes :: u64
  fs_rxBytes :: u64
  fs_txPackets :: u32
  fs_rxPackets :: u32
  fs_lostPackets :: u32

record FiveTuple =
  ft_sourceAddress :: u32
  ft_destinationAddress :: u32
  ft_sourcePort :: u16
  ft_destinationPort :: u16

record FlowNet =
  fn_wifi :: "u32 list"
  fn_classifier :: "(u32 \<Rightarrow> FiveTuple) option"
  fn_print :: "u32 \<Rightarrow> string"

record FlowMetrics =
  fm_flow_id :: u32
  fm_cluster_id :: u32
  fm_src_uav :: u32
  fm_src_addr :: string
  fm_dst_addr :: string
  fm_src_port :: u16
  fm_dst_port :: u16
  fm_throughput_kbps :: real
  fm_pdr :: real
  fm_avg_delay_ms :: real
  fm_min_delay_ms :: real
  fm_max_delay_ms :: real
  fm_jitter_ms :: real
  fm_tx_packets :: u64
  fm_rx_packets :: u64
  fm_lost_packets :: u64
  fm_tx_bytes :: u64
  fm_rx_bytes :: u64
  fm_flow_duration_s :: real
  fm_first_tx_s :: real
  fm_last_rx_s :: real

definition FlowMetrics_new :: FlowMetrics where
  "FlowMetrics_new =
     \<lparr> fm_flow_id = 0, fm_cluster_id = 0, fm_src_uav = 0, fm_src_addr = '''', fm_dst_addr = '''', fm_src_port = 0,
       fm_dst_port = 0, fm_throughput_kbps = 0, fm_pdr = 0, fm_avg_delay_ms = 0, fm_min_delay_ms = 0,
       fm_max_delay_ms = 0, fm_jitter_ms = 0, fm_tx_packets = 0, fm_rx_packets = 0, fm_lost_packets = 0,
       fm_tx_bytes = 0, fm_rx_bytes = 0, fm_flow_duration_s = 0, fm_first_tx_s = 0, fm_last_rx_s = 0 \<rparr>"

record ClusterMetrics =
  cm_cluster_id :: u32
  cm_active_flows :: u32
  cm_total_throughput :: real
  cm_avg_pdr :: real
  cm_avg_delay_ms :: real
  cm_total_tx :: u64
  cm_total_rx :: u64
  cm_total_lost :: u64

definition ClusterMetrics_new :: ClusterMetrics where
  "ClusterMetrics_new =
     \<lparr> cm_cluster_id = 0, cm_active_flows = 0, cm_total_throughput = 0, cm_avg_pdr = 0, cm_avg_delay_ms = 0,
       cm_total_tx = 0, cm_total_rx = 0, cm_total_lost = 0 \<rparr>"

record GlobalMetrics =
  gm_total_flows :: u32
  gm_total_throughput :: real
  gm_avg_pdr :: real
  gm_avg_delay_ms :: real
  gm_total_tx :: u64
  gm_total_rx :: u64
  gm_total_lost :: u64
  gm_routing_overhead :: real
  gm_rekey_latency_ms :: real
  gm_handover_latency_ms :: real
  gm_sim_duration_s :: real

definition GlobalMetrics_new :: GlobalMetrics where
  "GlobalMetrics_new =
     \<lparr> gm_total_flows = 0, gm_total_throughput = 0, gm_avg_pdr = 0, gm_avg_delay_ms = 0, gm_total_tx = 0,
       gm_total_rx = 0, gm_total_lost = 0, gm_routing_overhead = 0, gm_rekey_latency_ms = 0,
       gm_handover_latency_ms = 0, gm_sim_duration_s = 0 \<rparr>"

record EventRecord =
  er_start_s :: real
  er_end_s :: real
  er_complete :: bool

definition EventRecord_new :: EventRecord where
  "EventRecord_new = \<lparr> er_start_s = 0, er_end_s = 0, er_complete = False \<rparr>"

record FlowMonitorManager =
  fmm_installed :: bool
  fmm_flow_metrics :: "FlowMetrics list"
  fmm_global :: GlobalMetrics
  fmm_rekey_events :: "(u32 \<times> EventRecord) list"
  fmm_handover_events :: "(u32 \<times> EventRecord) list"

definition FlowMonitorManager_new :: FlowMonitorManager where
  "FlowMonitorManager_new =
     \<lparr> fmm_installed = False, fmm_flow_metrics = [], fmm_global = GlobalMetrics_new,
       fmm_rekey_events = [], fmm_handover_events = [] \<rparr>"

definition Fm_Install :: "FlowMonitorManager \<Rightarrow> FlowMonitorManager" where
  "Fm_Install M = M \<lparr> fmm_installed := True \<rparr>"

section \<open>One flow\<close>

definition seconds_of_ns :: "int \<Rightarrow> real" where "seconds_of_ns t = of_int t / 10 ^ 9"

definition ComputeFlowMetrics :: "u32 \<Rightarrow> NsFlowStats \<Rightarrow> real \<Rightarrow> FlowMetrics" where
  "ComputeFlowMetrics flow_id stats sim_duration_s =
     (let fm = FlowMetrics_new \<lparr> fm_flow_id := flow_id, fm_tx_packets := ucast (fs_txPackets stats),
                  fm_rx_packets := ucast (fs_rxPackets stats), fm_tx_bytes := fs_txBytes stats,
                  fm_rx_bytes := fs_rxBytes stats, fm_lost_packets := ucast (fs_lostPackets stats) \<rparr>;
          fm = fm \<lparr> fm_pdr := if fs_txPackets stats > 0
                              then real (unat (fs_rxPackets stats)) / real (unat (fs_txPackets stats)) else 0 \<rparr>;
          flow_dur = sim_duration_s;
          flow_dur = (if fs_timeLastRxPacket stats > fs_timeFirstTxPacket stats then
                        let flow_dur = seconds_of_ns (fs_timeLastRxPacket stats - fs_timeFirstTxPacket stats)
                        in if flow_dur < 1 then sim_duration_s else flow_dur
                      else flow_dur);
          fm = fm \<lparr> fm_flow_duration_s := flow_dur \<rparr>;
          fm = fm \<lparr> fm_throughput_kbps := if flow_dur > 0
                      then (real (unat (fs_rxBytes stats)) * 8) / (flow_dur * 1000) else 0 \<rparr>;
          fm = (if fs_rxPackets stats > 0 then
                  let total_delay_ns = real_of_int (fs_delaySum stats);
                      fm = fm \<lparr> fm_avg_delay_ms := (total_delay_ns / real (unat (fs_rxPackets stats))) / 10 ^ 6 \<rparr>
                  in if fs_rxPackets stats > 1 then
                       let total_jitter_ns = real_of_int (fs_jitterSum stats)
                       in fm \<lparr> fm_jitter_ms := (total_jitter_ns / real (unat (fs_rxPackets stats - 1))) / 10 ^ 6 \<rparr>
                     else fm
                else fm)
      in fm \<lparr> fm_first_tx_s := seconds_of_ns (fs_timeFirstTxPacket stats),
              fm_last_rx_s := seconds_of_ns (fs_timeLastRxPacket stats) \<rparr>)"

text \<open>The wireless interfaces are in the order SKDC 0 to 2, UAV 0 to 17, jammer.\<close>

definition INVALID_CLUSTER :: u32 where "INVALID_CLUSTER = 0xFFFFFFFF"

definition GetClusterFromAddr :: "FlowNet \<Rightarrow> u32 \<Rightarrow> u32" where
  "GetClusterFromAddr T addr =
     (let wifi = fn_wifi T; n = length wifi in
      case find (\<lambda>c. c < n \<and> wifi ! c = addr) [0..<3] of
        Some c \<Rightarrow> of_nat c
      | None \<Rightarrow>
          (case find (\<lambda>i. 3 + i < n \<and> wifi ! (3 + i) = addr) [0..<18] of
             Some i \<Rightarrow> of_nat i div 6
           | None \<Rightarrow> INVALID_CLUSTER))"

section \<open>The whole run\<close>

text \<open>The addresses of a flow; \<open>None\<close> where the loop goes on with the next flow.\<close>

definition attribute_flow :: "FlowNet \<Rightarrow> FlowMetrics \<Rightarrow> FlowMetrics option" where
  "attribute_flow T fm =
     (case fn_classifier T of
        None \<Rightarrow> Some fm
      | Some find_flow \<Rightarrow>
          let ft = find_flow (fm_flow_id fm);
              fm = fm \<lparr> fm_src_addr := fn_print T (ft_sourceAddress ft),
                        fm_dst_addr := fn_print T (ft_destinationAddress ft),
                        fm_src_port := ft_sourcePort ft, fm_dst_port := ft_destinationPort ft \<rparr>;
              sc = GetClusterFromAddr T (ft_sourceAddress ft);
              dc = GetClusterFromAddr T (ft_destinationAddress ft)
          in if sc = INVALID_CLUSTER \<and> dc = INVALID_CLUSTER then None
             else Some (fm \<lparr> fm_cluster_id := if sc \<noteq> INVALID_CLUSTER then sc else dc \<rparr>))"

definition add_flow :: "FlowMetrics \<Rightarrow> FlowMonitorManager \<Rightarrow> FlowMonitorManager" where
  "add_flow fm M =
     (let g = fmm_global M;
          g = g \<lparr> gm_total_tx := gm_total_tx g + fm_tx_packets fm, gm_total_rx := gm_total_rx g + fm_rx_packets fm,
                  gm_total_lost := gm_total_lost g + fm_lost_packets fm,
                  gm_total_throughput := gm_total_throughput g + fm_throughput_kbps fm,
                  gm_avg_delay_ms := gm_avg_delay_ms g + fm_avg_delay_ms fm \<rparr>
      in M \<lparr> fmm_flow_metrics := fmm_flow_metrics M @ [fm], fmm_global := g \<rparr>)"

definition collect_flow :: "FlowNet \<Rightarrow> real \<Rightarrow> FlowMonitorManager \<Rightarrow> u32 \<times> NsFlowStats \<Rightarrow> FlowMonitorManager" where
  "collect_flow T sim_duration_s M flow =
     (let (fid, stats) = flow in
      case attribute_flow T (ComputeFlowMetrics fid stats sim_duration_s) of
        None \<Rightarrow> M
      | Some fm \<Rightarrow> add_flow fm M)"

definition event_latency :: "(u32 \<times> EventRecord) list \<Rightarrow> real" where
  "event_latency events =
     (let (total, count) = foldl (\<lambda>(total, count) (_, ev).
            if er_complete ev then (total + (er_end_s ev - er_start_s ev) * 1000, count + 1) else (total, count))
            (0, 0 :: u32) events
      in if count > 0 then total / real (unat count) else 0)"

definition finish_global :: "FlowMonitorManager \<Rightarrow> FlowMonitorManager" where
  "finish_global M =
     (let g = fmm_global M;
          g = (if fmm_flow_metrics M \<noteq> [] then
                 let n = real (length (fmm_flow_metrics M))
                 in g \<lparr> gm_avg_delay_ms := gm_avg_delay_ms g / n,
                        gm_avg_pdr := if gm_total_tx g > 0
                                      then real (unat (gm_total_rx g)) / real (unat (gm_total_tx g)) else 0 \<rparr>
               else g);
          g = g \<lparr> gm_rekey_latency_ms := event_latency (fmm_rekey_events M) \<rparr>;
          g = g \<lparr> gm_handover_latency_ms := event_latency (fmm_handover_events M) \<rparr>
      in M \<lparr> fmm_global := g \<rparr>)"

definition CollectMetrics ::
    "FlowNet \<Rightarrow> (u32 \<times> NsFlowStats) list option \<Rightarrow> real \<Rightarrow> FlowMonitorManager \<Rightarrow> FlowMonitorManager" where
  "CollectMetrics T monitor sim_duration_s M =
     (case monitor of
        None \<Rightarrow> M
      | Some flow_stats \<Rightarrow>
          if \<not> fmm_installed M then M
          else
            let M = M \<lparr> fmm_flow_metrics := [],
                        fmm_global := GlobalMetrics_new \<lparr> gm_sim_duration_s := sim_duration_s,
                          gm_total_flows := of_nat (length flow_stats) \<rparr> \<rparr>
            in finish_global (foldl (collect_flow T sim_duration_s) M flow_stats))"

definition add_cluster_flow :: "u32 \<Rightarrow> ClusterMetrics \<times> u32 \<Rightarrow> FlowMetrics \<Rightarrow> ClusterMetrics \<times> u32" where
  "add_cluster_flow cluster st fm =
     (let (cm, count) = st in
      if fm_cluster_id fm \<noteq> cluster then (cm, count)
      else (cm \<lparr> cm_active_flows := cm_active_flows cm + 1,
                 cm_total_throughput := cm_total_throughput cm + fm_throughput_kbps fm,
                 cm_avg_pdr := cm_avg_pdr cm + fm_pdr fm, cm_avg_delay_ms := cm_avg_delay_ms cm + fm_avg_delay_ms fm,
                 cm_total_tx := cm_total_tx cm + fm_tx_packets fm, cm_total_rx := cm_total_rx cm + fm_rx_packets fm,
                 cm_total_lost := cm_total_lost cm + fm_lost_packets fm \<rparr>, count + 1))"

definition GetClusterMetrics :: "u32 \<Rightarrow> FlowMonitorManager \<Rightarrow> ClusterMetrics" where
  "GetClusterMetrics cluster M =
     (let (cm, count) = foldl (add_cluster_flow cluster) (ClusterMetrics_new \<lparr> cm_cluster_id := cluster \<rparr>, 0)
                          (fmm_flow_metrics M)
      in if count > 0 then cm \<lparr> cm_avg_pdr := cm_avg_pdr cm / real (unat count),
                                cm_avg_delay_ms := cm_avg_delay_ms cm / real (unat count) \<rparr>
         else cm)"

definition GetGlobalMetrics :: "FlowMonitorManager \<Rightarrow> GlobalMetrics" where
  "GetGlobalMetrics M = fmm_global M"

section \<open>Security events\<close>

definition event_at :: "u32 \<Rightarrow> (u32 \<times> EventRecord) list \<Rightarrow> EventRecord" where
  "event_at k events = (case map_of events k of None \<Rightarrow> EventRecord_new | Some ev \<Rightarrow> ev)"

definition start_event :: "u32 \<Rightarrow> real \<Rightarrow> (u32 \<times> EventRecord) list \<Rightarrow> (u32 \<times> EventRecord) list" where
  "start_event k time_s events =
     AList.update k ((event_at k events) \<lparr> er_start_s := time_s, er_complete := False \<rparr>) events"

definition complete_event :: "u32 \<Rightarrow> real \<Rightarrow> (u32 \<times> EventRecord) list \<Rightarrow> (u32 \<times> EventRecord) list" where
  "complete_event k time_s events =
     AList.update k ((event_at k events) \<lparr> er_end_s := time_s, er_complete := True \<rparr>) events"

definition RecordRekeyStart :: "u32 \<Rightarrow> real \<Rightarrow> FlowMonitorManager \<Rightarrow> FlowMonitorManager" where
  "RecordRekeyStart cluster time_s M = M \<lparr> fmm_rekey_events := start_event cluster time_s (fmm_rekey_events M) \<rparr>"

definition RecordRekeyComplete :: "u32 \<Rightarrow> real \<Rightarrow> FlowMonitorManager \<Rightarrow> FlowMonitorManager" where
  "RecordRekeyComplete cluster time_s M = M \<lparr> fmm_rekey_events := complete_event cluster time_s (fmm_rekey_events M) \<rparr>"

definition RecordHandoverStart :: "u32 \<Rightarrow> real \<Rightarrow> FlowMonitorManager \<Rightarrow> FlowMonitorManager" where
  "RecordHandoverStart uav_id time_s M = M \<lparr> fmm_handover_events := start_event uav_id time_s (fmm_handover_events M) \<rparr>"

definition RecordHandoverComplete :: "u32 \<Rightarrow> real \<Rightarrow> FlowMonitorManager \<Rightarrow> FlowMonitorManager" where
  "RecordHandoverComplete uav_id time_s M = M \<lparr> fmm_handover_events := complete_event uav_id time_s (fmm_handover_events M) \<rparr>"

section \<open>What the figures say\<close>

text \<open>The flows of a run as one list: those the loop keeps, attributed to their clusters.\<close>

definition kept_flows :: "FlowNet \<Rightarrow> real \<Rightarrow> (u32 \<times> NsFlowStats) list \<Rightarrow> FlowMetrics list" where
  "kept_flows T dur flows = List.map_filter (\<lambda>(fid, stats). attribute_flow T (ComputeFlowMetrics fid stats dur)) flows"

lemma compute_flow_simps [simp]:
  "fm_src_uav (ComputeFlowMetrics fid st dur) = 0" "fm_cluster_id (ComputeFlowMetrics fid st dur) = 0"
  "fm_min_delay_ms (ComputeFlowMetrics fid st dur) = 0" "fm_max_delay_ms (ComputeFlowMetrics fid st dur) = 0"
  "fm_flow_id (ComputeFlowMetrics fid st dur) = fid"
  "fm_tx_packets (ComputeFlowMetrics fid st dur) = ucast (fs_txPackets st)"
  "fm_rx_packets (ComputeFlowMetrics fid st dur) = ucast (fs_rxPackets st)"
  by (simp_all add: ComputeFlowMetrics_def FlowMetrics_new_def Let_def)

lemma compute_flow_pdr:
  "fm_pdr (ComputeFlowMetrics fid st dur) =
     (if fs_txPackets st > 0 then real (unat (fs_rxPackets st)) / real (unat (fs_txPackets st)) else 0)"
  by (simp add: ComputeFlowMetrics_def FlowMetrics_new_def Let_def)

lemma ratio_range: "m \<le> n \<Longrightarrow> real m / real n \<in> {0..1}"
  by (cases "n = 0") (auto simp: divide_le_eq_1)

lemma pdr_range:
  assumes "fs_rxPackets st \<le> fs_txPackets st"
  shows "fm_pdr (ComputeFlowMetrics fid st dur) \<in> {0..1}"
proof -
  have "unat (fs_rxPackets st) \<le> unat (fs_txPackets st)" using assms by (simp add: word_le_nat_alt)
  from ratio_range[OF this] show ?thesis by (auto simp: compute_flow_pdr)
qed

text \<open>A flow that lasted less than a second is averaged over the whole run.\<close>

lemma flow_duration:
  "fm_flow_duration_s (ComputeFlowMetrics fid st dur) =
     (let d = seconds_of_ns (fs_timeLastRxPacket st - fs_timeFirstTxPacket st) in if d < 1 then dur else d)"
  by (auto simp: ComputeFlowMetrics_def FlowMetrics_new_def Let_def seconds_of_ns_def)

lemma cluster_from_addr: "GetClusterFromAddr T a < 3 \<or> GetClusterFromAddr T a = INVALID_CLUSTER"
proof -
  have uavs: "\<forall>i\<in>set [0..<18]. (of_nat i :: u32) div 6 < 3" by code_simp
  have skdcs: "\<forall>c\<in>set [0..<3]. (of_nat c :: u32) < 3" by code_simp
  let ?f = "find (\<lambda>c. c < length (fn_wifi T) \<and> fn_wifi T ! c = a) [0..<3]"
  let ?g = "find (\<lambda>i. 3 + i < length (fn_wifi T) \<and> fn_wifi T ! (3 + i) = a) [0..<18]"
  have f: "c \<in> set [0..<3]" if "?f = Some c" for c using that by (auto simp: find_Some_iff)
  have g: "i \<in> set [0..<18]" if "?g = Some i" for i using that by (auto simp: find_Some_iff)
  show ?thesis
    using uavs skdcs f g unfolding GetClusterFromAddr_def Let_def
    by (cases ?f; cases ?g) (simp_all only: option.case, blast+)
qed

text \<open>What every flow of the table has in common: a cluster of the three, and the UAV number and the
  extreme delays that nobody ever sets.\<close>

definition unset_flow :: "FlowMetrics \<Rightarrow> bool" where
  "unset_flow fm \<longleftrightarrow> fm_cluster_id fm < 3 \<and> fm_src_uav fm = 0 \<and> fm_min_delay_ms fm = 0 \<and> fm_max_delay_ms fm = 0"

lemma attribute_flow_unset:
  assumes "attribute_flow T (ComputeFlowMetrics fid st dur) = Some fm"
  shows "unset_flow fm"
proof (cases "fn_classifier T")
  case None
  then show ?thesis using assms by (auto simp: attribute_flow_def unset_flow_def)
next
  case (Some find_flow)
  let ?ft = "find_flow fid"
  let ?sc = "GetClusterFromAddr T (ft_sourceAddress ?ft)" and ?dc = "GetClusterFromAddr T (ft_destinationAddress ?ft)"
  have "(if ?sc \<noteq> INVALID_CLUSTER then ?sc else ?dc) < 3" if "\<not> (?sc = INVALID_CLUSTER \<and> ?dc = INVALID_CLUSTER)"
    using that cluster_from_addr[of T "ft_sourceAddress ?ft"] cluster_from_addr[of T "ft_destinationAddress ?ft"]
    by (cases "?sc = INVALID_CLUSTER") simp_all
  then show ?thesis
    using assms Some by (auto simp: attribute_flow_def unset_flow_def Let_def split: if_splits)
qed

lemma kept_flows_unset: "fm \<in> set (kept_flows T dur flows) \<Longrightarrow> unset_flow fm"
  by (auto simp: kept_flows_def List.map_filter_def intro: attribute_flow_unset split: prod.splits)

lemma foldl_collect:
  "foldl (collect_flow T dur) M flows = fold add_flow (kept_flows T dur flows) M"
  by (induction flows arbitrary: M)
     (auto simp: kept_flows_def List.map_filter_simps collect_flow_def split: option.splits prod.splits)

text \<open>Totals are sums over the table.\<close>

lemma fold_add_flow:
  "fmm_flow_metrics (fold add_flow fms M) = fmm_flow_metrics M @ fms"
  "gm_total_tx (fmm_global (fold add_flow fms M)) = gm_total_tx (fmm_global M) + sum_list (map fm_tx_packets fms)"
  "gm_total_rx (fmm_global (fold add_flow fms M)) = gm_total_rx (fmm_global M) + sum_list (map fm_rx_packets fms)"
  "gm_total_lost (fmm_global (fold add_flow fms M)) = gm_total_lost (fmm_global M) + sum_list (map fm_lost_packets fms)"
  "gm_total_throughput (fmm_global (fold add_flow fms M)) =
     gm_total_throughput (fmm_global M) + sum_list (map fm_throughput_kbps fms)"
  "gm_avg_delay_ms (fmm_global (fold add_flow fms M)) = gm_avg_delay_ms (fmm_global M) + sum_list (map fm_avg_delay_ms fms)"
  "gm_total_flows (fmm_global (fold add_flow fms M)) = gm_total_flows (fmm_global M)"
  "fmm_rekey_events (fold add_flow fms M) = fmm_rekey_events M"
  "fmm_handover_events (fold add_flow fms M) = fmm_handover_events M"
  by (induction fms arbitrary: M) (simp_all add: add_flow_def Let_def add.assoc)

lemma finish_global_simps [simp]:
  "fmm_flow_metrics (finish_global M) = fmm_flow_metrics M"
  "gm_total_tx (fmm_global (finish_global M)) = gm_total_tx (fmm_global M)"
  "gm_total_rx (fmm_global (finish_global M)) = gm_total_rx (fmm_global M)"
  "gm_total_lost (fmm_global (finish_global M)) = gm_total_lost (fmm_global M)"
  "gm_total_throughput (fmm_global (finish_global M)) = gm_total_throughput (fmm_global M)"
  "gm_total_flows (fmm_global (finish_global M)) = gm_total_flows (fmm_global M)"
  "gm_rekey_latency_ms (fmm_global (finish_global M)) = event_latency (fmm_rekey_events M)"
  "gm_handover_latency_ms (fmm_global (finish_global M)) = event_latency (fmm_handover_events M)"
  "fmm_rekey_events (finish_global M) = fmm_rekey_events M"
  by (simp_all add: finish_global_def Let_def)

lemma collected_flows:
  assumes "fmm_installed M"
  shows "fmm_flow_metrics (CollectMetrics T (Some flows) dur M) = kept_flows T dur flows"
  using assms by (simp add: CollectMetrics_def Let_def foldl_collect fold_add_flow)

lemma collected_totals:
  fixes T :: FlowNet and flows :: "(u32 \<times> NsFlowStats) list" and dur :: real and M :: FlowMonitorManager
  assumes "fmm_installed M"
  defines "M' \<equiv> CollectMetrics T (Some flows) dur M"
  shows "gm_total_tx (fmm_global M') = sum_list (map fm_tx_packets (fmm_flow_metrics M'))"
    and "gm_total_rx (fmm_global M') = sum_list (map fm_rx_packets (fmm_flow_metrics M'))"
    and "gm_total_lost (fmm_global M') = sum_list (map fm_lost_packets (fmm_flow_metrics M'))"
    and "gm_total_throughput (fmm_global M') = sum_list (map fm_throughput_kbps (fmm_flow_metrics M'))"
    and "gm_total_flows (fmm_global M') = of_nat (length flows)"
    and "fmm_rekey_events M' = fmm_rekey_events M"
    and "gm_rekey_latency_ms (fmm_global M') = event_latency (fmm_rekey_events M)"
  using assms(1) unfolding M'_def
  by (simp_all add: CollectMetrics_def Let_def foldl_collect fold_add_flow GlobalMetrics_new_def)

abbreviation in_cluster :: "u32 \<Rightarrow> FlowMetrics list \<Rightarrow> FlowMetrics list" where
  "in_cluster c fms \<equiv> filter (\<lambda>fm. fm_cluster_id fm = c) fms"

lemma fold_cluster_flows:
  "foldl (add_cluster_flow c) (cm, n) fms = (cm', n') \<Longrightarrow>
     cm_total_tx cm' = cm_total_tx cm + sum_list (map fm_tx_packets (in_cluster c fms)) \<and>
     cm_total_rx cm' = cm_total_rx cm + sum_list (map fm_rx_packets (in_cluster c fms)) \<and>
     cm_total_lost cm' = cm_total_lost cm + sum_list (map fm_lost_packets (in_cluster c fms)) \<and>
     cm_total_throughput cm' = cm_total_throughput cm + sum_list (map fm_throughput_kbps (in_cluster c fms)) \<and>
     cm_active_flows cm' = cm_active_flows cm + of_nat (length (in_cluster c fms))"
  by (induction fms arbitrary: cm n) (force simp: add_cluster_flow_def add.assoc)+

lemma cluster_sums:
  "let cm = GetClusterMetrics c M; fms = in_cluster c (fmm_flow_metrics M) in
     cm_total_tx cm = sum_list (map fm_tx_packets fms) \<and> cm_total_rx cm = sum_list (map fm_rx_packets fms) \<and>
     cm_total_lost cm = sum_list (map fm_lost_packets fms) \<and>
     cm_total_throughput cm = sum_list (map fm_throughput_kbps fms) \<and> cm_active_flows cm = of_nat (length fms)"
proof (cases "foldl (add_cluster_flow c) (ClusterMetrics_new \<lparr> cm_cluster_id := c \<rparr>, 0) (fmm_flow_metrics M)")
  case (Pair cm n)
  then have "GetClusterMetrics c M =
      (if n > 0 then cm \<lparr> cm_avg_pdr := cm_avg_pdr cm / real (unat n), cm_avg_delay_ms := cm_avg_delay_ms cm / real (unat n) \<rparr>
       else cm)"
    by (simp add: GetClusterMetrics_def)
  then show ?thesis using fold_cluster_flows[OF Pair] by (simp add: Let_def ClusterMetrics_new_def)
qed

lemma cluster_totals:
  "cm_total_tx (GetClusterMetrics c M) = sum_list (map fm_tx_packets (in_cluster c (fmm_flow_metrics M)))"
  "cm_total_rx (GetClusterMetrics c M) = sum_list (map fm_rx_packets (in_cluster c (fmm_flow_metrics M)))"
  "cm_total_lost (GetClusterMetrics c M) = sum_list (map fm_lost_packets (in_cluster c (fmm_flow_metrics M)))"
  "cm_total_throughput (GetClusterMetrics c M) = sum_list (map fm_throughput_kbps (in_cluster c (fmm_flow_metrics M)))"
  "cm_active_flows (GetClusterMetrics c M) = of_nat (length (in_cluster c (fmm_flow_metrics M)))"
  using cluster_sums[of c M] by (simp_all only: Let_def)

lemma u32_less_3: "(c :: u32) < 3 \<longleftrightarrow> c = 0 \<or> c = 1 \<or> c = 2"
proof -
  have "unat c = unat (0 :: u32) \<or> unat c = unat (1 :: u32) \<or> unat c = unat (2 :: u32)" if "c < 3"
  proof -
    have "unat c < 3" using that by (simp add: word_less_nat_alt)
    then show ?thesis by auto
  qed
  then have "c < 3 \<Longrightarrow> c = 0 \<or> c = 1 \<or> c = 2" by (simp only: word_unat_eq_iff)
  then show ?thesis by auto
qed

lemma sum_over_clusters:
  fixes f :: "FlowMetrics \<Rightarrow> 'a::comm_monoid_add"
  assumes "\<forall>fm\<in>set fms. fm_cluster_id fm < 3"
  shows "sum_list (map f fms) =
     sum_list (map f (in_cluster 0 fms)) + sum_list (map f (in_cluster 1 fms)) + sum_list (map f (in_cluster 2 fms))"
  using assms
proof (induction fms)
  case (Cons fm fms)
  then have "fm_cluster_id fm = 0 \<or> fm_cluster_id fm = 1 \<or> fm_cluster_id fm = 2" by (simp add: u32_less_3)
  then show ?case using Cons by (auto simp: ac_simps)
qed simp

text \<open>The clusters partition the traffic of a run: what the report of the run counts is the sum of what
  the reports of the three clusters count, although the number of flows it gives includes those that it skips.\<close>

lemma clusters_partition_traffic:
  fixes T :: FlowNet and flows :: "(u32 \<times> NsFlowStats) list" and dur :: real and M :: FlowMonitorManager
  assumes "fmm_installed M"
  defines "M' \<equiv> CollectMetrics T (Some flows) dur M"
  shows "gm_total_tx (GetGlobalMetrics M') = (\<Sum>c\<leftarrow>[0, 1, 2]. cm_total_tx (GetClusterMetrics c M'))"
    and "gm_total_rx (GetGlobalMetrics M') = (\<Sum>c\<leftarrow>[0, 1, 2]. cm_total_rx (GetClusterMetrics c M'))"
    and "gm_total_lost (GetGlobalMetrics M') = (\<Sum>c\<leftarrow>[0, 1, 2]. cm_total_lost (GetClusterMetrics c M'))"
    and "gm_total_throughput (GetGlobalMetrics M') = (\<Sum>c\<leftarrow>[0, 1, 2]. cm_total_throughput (GetClusterMetrics c M'))"
    and "gm_total_flows (GetGlobalMetrics M') = of_nat (length flows)"
proof -
  have "\<forall>fm\<in>set (fmm_flow_metrics M'). fm_cluster_id fm < 3"
    unfolding M'_def collected_flows[OF assms(1)] using kept_flows_unset by (auto simp: unset_flow_def)
  note parts = sum_over_clusters[OF this] and totals = collected_totals[OF assms(1), of T flows dur, folded M'_def]
  show "gm_total_tx (GetGlobalMetrics M') = (\<Sum>c\<leftarrow>[0, 1, 2]. cm_total_tx (GetClusterMetrics c M'))"
    by (simp add: GetGlobalMetrics_def totals cluster_totals parts[of fm_tx_packets] add.assoc)
  show "gm_total_rx (GetGlobalMetrics M') = (\<Sum>c\<leftarrow>[0, 1, 2]. cm_total_rx (GetClusterMetrics c M'))"
    by (simp add: GetGlobalMetrics_def totals cluster_totals parts[of fm_rx_packets] add.assoc)
  show "gm_total_lost (GetGlobalMetrics M') = (\<Sum>c\<leftarrow>[0, 1, 2]. cm_total_lost (GetClusterMetrics c M'))"
    by (simp add: GetGlobalMetrics_def totals cluster_totals parts[of fm_lost_packets] add.assoc)
  show "gm_total_throughput (GetGlobalMetrics M') = (\<Sum>c\<leftarrow>[0, 1, 2]. cm_total_throughput (GetClusterMetrics c M'))"
    by (simp add: GetGlobalMetrics_def totals cluster_totals parts[of fm_throughput_kbps] add.assoc)
  show "gm_total_flows (GetGlobalMetrics M') = of_nat (length flows)"
    by (simp add: GetGlobalMetrics_def totals)
qed

end
