(* ===== verification/Baseline_Metrics.thy ===== *)
theory Baseline_Metrics
  imports Flow_Monitor Jammer
begin

text \<open>
  metrics/uav-throughput-metrics, uav-delay-metrics, uav-pdr-metrics, uav-routing-overhead,
  uav-rekey-latency and uav-sinr-metrics: the six collectors that main.cc constructs next to
  the flow monitor.  Each keeps the results of its last \<open>Compute\<close> and a list of samples; the
  pointers to the topology, the flow monitor, the rekey manager and the jammer are arguments.
  A scheduled sample is an absolute time in the list of timers.  The CSV files and
  the printed summaries are left out.
\<close>

text \<open>\<open>std::numeric_limits<double>::max()\<close>.\<close>

definition DBL_MAX :: real where "DBL_MAX = (2 - 1 / 2 ^ 52) * 2 ^ 1023"

definition at_or_zero :: "'a::zero list \<Rightarrow> nat \<Rightarrow> u32 \<Rightarrow> 'a" where
  "at_or_zero xs bound i = (if unat i \<ge> bound then 0 else xs ! unat i)"

section \<open>Throughput\<close>

record ThroughputSample =
  ts_time_s :: real
  ts_cluster_id :: u32
  ts_throughput_kbps :: real

record ThroughputMetrics =
  tm_uav_throughput :: "real list"
  tm_cluster_throughput :: "real list"
  tm_global_throughput_kbps :: real
  tm_peak_throughput_kbps :: real
  tm_samples :: "ThroughputSample list"
  tm_sample_interval :: real
  tm_timers :: "real list"

definition ThroughputMetrics_new :: ThroughputMetrics where
  "ThroughputMetrics_new =
     \<lparr> tm_uav_throughput = replicate 18 0, tm_cluster_throughput = replicate 3 0, tm_global_throughput_kbps = 0,
       tm_peak_throughput_kbps = 0, tm_samples = [], tm_sample_interval = 1, tm_timers = [] \<rparr>"

definition throughput_flow :: "ThroughputMetrics \<Rightarrow> FlowMetrics \<Rightarrow> ThroughputMetrics" where
  "throughput_flow tm f =
     (let t = fm_throughput_kbps f;
          tm = (if fm_src_uav f < 18
                then tm \<lparr> tm_uav_throughput := upd_at (unat (fm_src_uav f)) (\<lambda>x. x + t) (tm_uav_throughput tm) \<rparr> else tm);
          tm = (if fm_cluster_id f < 3
                then tm \<lparr> tm_cluster_throughput := upd_at (unat (fm_cluster_id f)) (\<lambda>x. x + t) (tm_cluster_throughput tm) \<rparr>
                else tm);
          tm = tm \<lparr> tm_global_throughput_kbps := tm_global_throughput_kbps tm + t \<rparr>
      in if t > tm_peak_throughput_kbps tm then tm \<lparr> tm_peak_throughput_kbps := t \<rparr> else tm)"

definition Throughput_Compute :: "FlowMonitorManager \<Rightarrow> ThroughputMetrics \<Rightarrow> ThroughputMetrics" where
  "Throughput_Compute M tm =
     foldl throughput_flow
       (tm \<lparr> tm_uav_throughput := replicate 18 0, tm_cluster_throughput := replicate 3 0,
             tm_global_throughput_kbps := 0, tm_peak_throughput_kbps := 0 \<rparr>) (fmm_flow_metrics M)"

definition GetUavThroughput :: "ThroughputMetrics \<Rightarrow> u32 \<Rightarrow> real" where
  "GetUavThroughput tm uav_id = at_or_zero (tm_uav_throughput tm) 18 uav_id"

definition Throughput_GetClusterThroughput :: "ThroughputMetrics \<Rightarrow> u32 \<Rightarrow> real" where
  "Throughput_GetClusterThroughput tm cluster_id = at_or_zero (tm_cluster_throughput tm) 3 cluster_id"

definition GetAvgUavThroughput :: "ThroughputMetrics \<Rightarrow> real" where
  "GetAvgUavThroughput tm =
     (let (total, count) = foldl (\<lambda>(total, count) t. if t > 0 then (total + t, count + 1) else (total, count))
            (0, 0 :: u32) (tm_uav_throughput tm)
      in if count > 0 then total / real (unat count) else 0)"

definition Throughput_SchedulePeriodicSample :: "real \<Rightarrow> real \<Rightarrow> ThroughputMetrics \<Rightarrow> ThroughputMetrics" where
  "Throughput_SchedulePeriodicSample now interval_s tm =
     (if interval_s \<le> 0 then tm
      else tm \<lparr> tm_sample_interval := interval_s, tm_timers := tm_timers tm @ [now + interval_s] \<rparr>)"

definition Throughput_PeriodicSampleCallback :: "real \<Rightarrow> ThroughputMetrics \<Rightarrow> ThroughputMetrics" where
  "Throughput_PeriodicSampleCallback now tm =
     tm \<lparr> tm_samples := tm_samples tm @ map (\<lambda>c. \<lparr> ts_time_s = now, ts_cluster_id = of_nat c,
            ts_throughput_kbps = tm_cluster_throughput tm ! c \<rparr>) [0..<3],
          tm_timers := tm_timers tm @ [now + tm_sample_interval tm] \<rparr>"

section \<open>Delay\<close>

record DelaySample =
  ds_time_s :: real
  ds_cluster_id :: u32
  ds_avg_delay_ms :: real
  ds_jitter_ms :: real

record UavDelayStats =
  ud_avg_ms :: real
  ud_min_ms :: real
  ud_max_ms :: real
  ud_jitter_ms :: real

definition UavDelayStats_new :: UavDelayStats where
  "UavDelayStats_new = \<lparr> ud_avg_ms = 0, ud_min_ms = 0, ud_max_ms = 0, ud_jitter_ms = 0 \<rparr>"

record DelayMetrics =
  dm_uav_delay :: "UavDelayStats list"
  dm_cluster_avg_delay :: "real list"
  dm_cluster_jitter :: "real list"
  dm_global_avg_delay_ms :: real
  dm_global_min_delay_ms :: real
  dm_global_max_delay_ms :: real
  dm_global_jitter_ms :: real
  dm_samples :: "DelaySample list"
  dm_sample_interval :: real
  dm_timers :: "real list"

definition DelayMetrics_new :: DelayMetrics where
  "DelayMetrics_new =
     \<lparr> dm_uav_delay = replicate 18 UavDelayStats_new, dm_cluster_avg_delay = replicate 3 0,
       dm_cluster_jitter = replicate 3 0, dm_global_avg_delay_ms = 0, dm_global_min_delay_ms = 0,
       dm_global_max_delay_ms = 0, dm_global_jitter_ms = 0, dm_samples = [], dm_sample_interval = 1, dm_timers = [] \<rparr>"

text \<open>The local accumulators of the loop.\<close>

record DelayLoop =
  dl_cluster_delay_sum :: "real list"
  dl_cluster_jitter_sum :: "real list"
  dl_cluster_count :: "u32 list"
  dl_global_sum :: real
  dl_jitter_sum :: real
  dl_flow_count :: u32

definition delay_flow :: "DelayLoop \<times> DelayMetrics \<Rightarrow> FlowMetrics \<Rightarrow> DelayLoop \<times> DelayMetrics" where
  "delay_flow st f =
     (let (acc, dm) = st;
          dm = (if fm_src_uav f < 18
                then dm \<lparr> dm_uav_delay := (dm_uav_delay dm)[unat (fm_src_uav f) :=
                          \<lparr> ud_avg_ms = fm_avg_delay_ms f, ud_min_ms = fm_min_delay_ms f, ud_max_ms = fm_max_delay_ms f,
                            ud_jitter_ms = fm_jitter_ms f \<rparr>] \<rparr>
                else dm);
          c = unat (fm_cluster_id f);
          acc = (if fm_cluster_id f < 3
                 then acc \<lparr> dl_cluster_delay_sum := upd_at c (\<lambda>x. x + fm_avg_delay_ms f) (dl_cluster_delay_sum acc),
                            dl_cluster_jitter_sum := upd_at c (\<lambda>x. x + fm_jitter_ms f) (dl_cluster_jitter_sum acc),
                            dl_cluster_count := upd_at c (\<lambda>n. n + 1) (dl_cluster_count acc) \<rparr>
                 else acc);
          acc = acc \<lparr> dl_global_sum := dl_global_sum acc + fm_avg_delay_ms f,
                      dl_jitter_sum := dl_jitter_sum acc + fm_jitter_ms f \<rparr>;
          dm = (if fm_min_delay_ms f < dm_global_min_delay_ms dm
                then dm \<lparr> dm_global_min_delay_ms := fm_min_delay_ms f \<rparr> else dm);
          dm = (if fm_max_delay_ms f > dm_global_max_delay_ms dm
                then dm \<lparr> dm_global_max_delay_ms := fm_max_delay_ms f \<rparr> else dm)
      in (acc \<lparr> dl_flow_count := dl_flow_count acc + 1 \<rparr>, dm))"

definition cluster_means :: "real list \<Rightarrow> u32 list \<Rightarrow> real list" where
  "cluster_means totals counts =
     map (\<lambda>c. if counts ! c > 0 then totals ! c / real (unat (counts ! c)) else 0) [0..<3]"

definition Delay_Compute :: "FlowMonitorManager \<Rightarrow> DelayMetrics \<Rightarrow> DelayMetrics" where
  "Delay_Compute M dm =
     (let flows = fmm_flow_metrics M;
          dm = dm \<lparr> dm_uav_delay := replicate 18 UavDelayStats_new, dm_cluster_avg_delay := replicate 3 0,
                    dm_cluster_jitter := replicate 3 0, dm_global_avg_delay_ms := 0,
                    dm_global_min_delay_ms := DBL_MAX, dm_global_max_delay_ms := 0, dm_global_jitter_ms := 0 \<rparr>
      in if flows = [] then dm \<lparr> dm_global_min_delay_ms := 0 \<rparr>
         else
           let (acc, dm) = foldl delay_flow
                 (\<lparr> dl_cluster_delay_sum = replicate 3 0, dl_cluster_jitter_sum = replicate 3 0,
                    dl_cluster_count = replicate 3 0, dl_global_sum = 0, dl_jitter_sum = 0, dl_flow_count = 0 \<rparr>, dm) flows;
               dm = dm \<lparr> dm_cluster_avg_delay := cluster_means (dl_cluster_delay_sum acc) (dl_cluster_count acc),
                         dm_cluster_jitter := cluster_means (dl_cluster_jitter_sum acc) (dl_cluster_count acc) \<rparr>;
               dm = (if dl_flow_count acc > 0
                     then dm \<lparr> dm_global_avg_delay_ms := dl_global_sum acc / real (unat (dl_flow_count acc)),
                               dm_global_jitter_ms := dl_jitter_sum acc / real (unat (dl_flow_count acc)) \<rparr>
                     else dm)
           in if dm_global_min_delay_ms dm = DBL_MAX then dm \<lparr> dm_global_min_delay_ms := 0 \<rparr> else dm)"

definition uav_delay :: "DelayMetrics \<Rightarrow> u32 \<Rightarrow> UavDelayStats" where
  "uav_delay dm uav_id = (if uav_id \<ge> 18 then UavDelayStats_new else dm_uav_delay dm ! unat uav_id)"

definition GetUavAvgDelay :: "DelayMetrics \<Rightarrow> u32 \<Rightarrow> real" where
  "GetUavAvgDelay dm uav_id = ud_avg_ms (uav_delay dm uav_id)"

definition GetUavMinDelay :: "DelayMetrics \<Rightarrow> u32 \<Rightarrow> real" where
  "GetUavMinDelay dm uav_id = ud_min_ms (uav_delay dm uav_id)"

definition GetUavMaxDelay :: "DelayMetrics \<Rightarrow> u32 \<Rightarrow> real" where
  "GetUavMaxDelay dm uav_id = ud_max_ms (uav_delay dm uav_id)"

definition GetUavJitter :: "DelayMetrics \<Rightarrow> u32 \<Rightarrow> real" where
  "GetUavJitter dm uav_id = ud_jitter_ms (uav_delay dm uav_id)"

definition Delay_GetClusterAvgDelay :: "DelayMetrics \<Rightarrow> u32 \<Rightarrow> real" where
  "Delay_GetClusterAvgDelay dm cluster_id = at_or_zero (dm_cluster_avg_delay dm) 3 cluster_id"

definition GetClusterJitter :: "DelayMetrics \<Rightarrow> u32 \<Rightarrow> real" where
  "GetClusterJitter dm cluster_id = at_or_zero (dm_cluster_jitter dm) 3 cluster_id"

definition Delay_SchedulePeriodicSample :: "real \<Rightarrow> real \<Rightarrow> DelayMetrics \<Rightarrow> DelayMetrics" where
  "Delay_SchedulePeriodicSample now interval_s dm =
     (if interval_s \<le> 0 then dm
      else dm \<lparr> dm_sample_interval := interval_s, dm_timers := dm_timers dm @ [now + interval_s] \<rparr>)"

definition Delay_PeriodicSampleCallback :: "real \<Rightarrow> DelayMetrics \<Rightarrow> DelayMetrics" where
  "Delay_PeriodicSampleCallback now dm =
     dm \<lparr> dm_samples := dm_samples dm @ map (\<lambda>c. \<lparr> ds_time_s = now, ds_cluster_id = of_nat c,
            ds_avg_delay_ms = dm_cluster_avg_delay dm ! c, ds_jitter_ms = dm_cluster_jitter dm ! c \<rparr>) [0..<3],
          dm_timers := dm_timers dm @ [now + dm_sample_interval dm] \<rparr>"

section \<open>Delivery ratio\<close>

record PdrSample =
  ps_time_s :: real
  ps_cluster_id :: u32
  ps_pdr :: real

record UavPdrStats =
  us_pdr :: real
  us_tx :: u64
  us_rx :: u64
  us_lost :: u64

definition UavPdrStats_new :: UavPdrStats where
  "UavPdrStats_new = \<lparr> us_pdr = 0, us_tx = 0, us_rx = 0, us_lost = 0 \<rparr>"

record PdrMetrics =
  pm_uav_pdr :: "UavPdrStats list"
  pm_cluster_pdr :: "real list"
  pm_global_pdr :: real
  pm_global_tx :: u64
  pm_global_rx :: u64
  pm_global_lost :: u64
  pm_samples :: "PdrSample list"
  pm_sample_interval :: real
  pm_timers :: "real list"

definition PdrMetrics_new :: PdrMetrics where
  "PdrMetrics_new =
     \<lparr> pm_uav_pdr = replicate 18 UavPdrStats_new, pm_cluster_pdr = replicate 3 0, pm_global_pdr = 0, pm_global_tx = 0,
       pm_global_rx = 0, pm_global_lost = 0, pm_samples = [], pm_sample_interval = 1, pm_timers = [] \<rparr>"

record PdrLoop =
  pl_cluster_pdr_sum :: "real list"
  pl_cluster_count :: "u32 list"
  pl_pdr_sum :: real
  pl_flow_count :: u32

definition pdr_flow :: "PdrLoop \<times> PdrMetrics \<Rightarrow> FlowMetrics \<Rightarrow> PdrLoop \<times> PdrMetrics" where
  "pdr_flow st f =
     (let (acc, pm) = st;
          pm = (if fm_src_uav f < 18
                then pm \<lparr> pm_uav_pdr := (pm_uav_pdr pm)[unat (fm_src_uav f) :=
                          \<lparr> us_pdr = fm_pdr f, us_tx = fm_tx_packets f, us_rx = fm_rx_packets f,
                            us_lost = fm_lost_packets f \<rparr>] \<rparr>
                else pm);
          c = unat (fm_cluster_id f);
          acc = (if fm_cluster_id f < 3
                 then acc \<lparr> pl_cluster_pdr_sum := upd_at c (\<lambda>x. x + fm_pdr f) (pl_cluster_pdr_sum acc),
                            pl_cluster_count := upd_at c (\<lambda>n. n + 1) (pl_cluster_count acc) \<rparr>
                 else acc);
          acc = acc \<lparr> pl_pdr_sum := pl_pdr_sum acc + fm_pdr f \<rparr>;
          pm = pm \<lparr> pm_global_tx := pm_global_tx pm + fm_tx_packets f, pm_global_rx := pm_global_rx pm + fm_rx_packets f,
                    pm_global_lost := pm_global_lost pm + fm_lost_packets f \<rparr>
      in (acc \<lparr> pl_flow_count := pl_flow_count acc + 1 \<rparr>, pm))"

definition Pdr_Compute :: "FlowMonitorManager \<Rightarrow> PdrMetrics \<Rightarrow> PdrMetrics" where
  "Pdr_Compute M pm =
     (let pm = pm \<lparr> pm_uav_pdr := replicate 18 UavPdrStats_new, pm_cluster_pdr := replicate 3 0, pm_global_pdr := 0,
                    pm_global_tx := 0, pm_global_rx := 0, pm_global_lost := 0 \<rparr>;
          (acc, pm) = foldl pdr_flow
            (\<lparr> pl_cluster_pdr_sum = replicate 3 0, pl_cluster_count = replicate 3 0, pl_pdr_sum = 0, pl_flow_count = 0 \<rparr>, pm)
            (fmm_flow_metrics M);
          pm = pm \<lparr> pm_cluster_pdr := cluster_means (pl_cluster_pdr_sum acc) (pl_cluster_count acc) \<rparr>
      in if pl_flow_count acc > 0 then pm \<lparr> pm_global_pdr := pl_pdr_sum acc / real (unat (pl_flow_count acc)) \<rparr>
         else if pm_global_tx pm > 0
         then pm \<lparr> pm_global_pdr := real (unat (pm_global_rx pm)) / real (unat (pm_global_tx pm)) \<rparr>
         else pm)"

definition uav_pdr :: "PdrMetrics \<Rightarrow> u32 \<Rightarrow> UavPdrStats" where
  "uav_pdr pm uav_id = (if uav_id \<ge> 18 then UavPdrStats_new else pm_uav_pdr pm ! unat uav_id)"

definition GetUavPdr :: "PdrMetrics \<Rightarrow> u32 \<Rightarrow> real" where
  "GetUavPdr pm uav_id = us_pdr (uav_pdr pm uav_id)"

definition GetUavLossRate :: "PdrMetrics \<Rightarrow> u32 \<Rightarrow> real" where
  "GetUavLossRate pm uav_id = (if uav_id \<ge> 18 then 0 else 1 - us_pdr (pm_uav_pdr pm ! unat uav_id))"

definition GetUavLostPkts :: "PdrMetrics \<Rightarrow> u32 \<Rightarrow> u64" where
  "GetUavLostPkts pm uav_id = us_lost (uav_pdr pm uav_id)"

definition Pdr_GetClusterPdr :: "PdrMetrics \<Rightarrow> u32 \<Rightarrow> real" where
  "Pdr_GetClusterPdr pm cluster_id = at_or_zero (pm_cluster_pdr pm) 3 cluster_id"

definition Pdr_SchedulePeriodicSample :: "real \<Rightarrow> real \<Rightarrow> PdrMetrics \<Rightarrow> PdrMetrics" where
  "Pdr_SchedulePeriodicSample now interval_s pm =
     (if interval_s \<le> 0 then pm
      else pm \<lparr> pm_sample_interval := interval_s, pm_timers := pm_timers pm @ [now + interval_s] \<rparr>)"

definition Pdr_PeriodicSampleCallback :: "real \<Rightarrow> PdrMetrics \<Rightarrow> PdrMetrics" where
  "Pdr_PeriodicSampleCallback now pm =
     pm \<lparr> pm_samples := pm_samples pm @ map (\<lambda>c. \<lparr> ps_time_s = now, ps_cluster_id = of_nat c,
            ps_pdr = pm_cluster_pdr pm ! c \<rparr>) [0..<3],
          pm_timers := pm_timers pm @ [now + pm_sample_interval pm] \<rparr>"

section \<open>Routing overhead\<close>

record RoutingOverheadSample =
  ros_time_s :: real
  ros_overhead_ratio :: real
  ros_ctrl_bytes_s :: real

record RoutingOverheadMetrics =
  ro_overhead_ratio :: real
  ro_ctrl_bytes_per_sec :: real
  ro_total_ctrl_bytes :: real
  ro_total_data_bytes :: real
  ro_sim_duration_s :: real
  ro_samples :: "RoutingOverheadSample list"
  ro_sample_interval :: real
  ro_timers :: "real list"

definition RoutingOverheadMetrics_new :: RoutingOverheadMetrics where
  "RoutingOverheadMetrics_new =
     \<lparr> ro_overhead_ratio = 0, ro_ctrl_bytes_per_sec = 0, ro_total_ctrl_bytes = 0, ro_total_data_bytes = 0,
       ro_sim_duration_s = 0, ro_samples = [], ro_sample_interval = 1, ro_timers = [] \<rparr>"

definition HELLO_INTERVAL_S :: real where "HELLO_INTERVAL_S = 2"
definition TC_INTERVAL_S :: real where "TC_INTERVAL_S = 5"
definition HELLO_SIZE_BYTES :: real where "HELLO_SIZE_BYTES = 60"
definition TC_SIZE_BYTES :: real where "TC_SIZE_BYTES = 80"

definition Overhead_Compute :: "u32 \<Rightarrow> FlowMonitorManager \<Rightarrow> real \<Rightarrow> RoutingOverheadMetrics \<Rightarrow> RoutingOverheadMetrics" where
  "Overhead_Compute n_uavs M sim_duration_s ro =
     (let data = foldl (\<lambda>total f. total + real (unat (fm_rx_bytes f))) 0 (fmm_flow_metrics M);
          hello_per_uav = sim_duration_s / HELLO_INTERVAL_S;
          tc_per_uav = sim_duration_s / TC_INTERVAL_S;
          n = real (unat n_uavs);
          ctrl = n * hello_per_uav * HELLO_SIZE_BYTES + n * tc_per_uav * TC_SIZE_BYTES;
          total = ctrl + data
      in ro \<lparr> ro_sim_duration_s := sim_duration_s, ro_total_data_bytes := data, ro_total_ctrl_bytes := ctrl,
              ro_overhead_ratio := if total > 0 then ctrl / total else 0,
              ro_ctrl_bytes_per_sec := if sim_duration_s > 0 then ctrl / sim_duration_s else 0 \<rparr>)"

definition Overhead_SchedulePeriodicSample :: "real \<Rightarrow> real \<Rightarrow> RoutingOverheadMetrics \<Rightarrow> RoutingOverheadMetrics" where
  "Overhead_SchedulePeriodicSample now interval_s ro =
     (if interval_s \<le> 0 then ro
      else ro \<lparr> ro_sample_interval := interval_s, ro_timers := ro_timers ro @ [now + interval_s] \<rparr>)"

definition Overhead_PeriodicSampleCallback :: "real \<Rightarrow> RoutingOverheadMetrics \<Rightarrow> RoutingOverheadMetrics" where
  "Overhead_PeriodicSampleCallback now ro =
     ro \<lparr> ro_samples := ro_samples ro @ [\<lparr> ros_time_s = now, ros_overhead_ratio = ro_overhead_ratio ro,
            ros_ctrl_bytes_s = ro_ctrl_bytes_per_sec ro \<rparr>],
          ro_timers := ro_timers ro @ [now + ro_sample_interval ro] \<rparr>"

section \<open>Rekey latency\<close>

record RekeyLatencySample =
  rl_time_s :: real
  rl_cluster_id :: u32
  rl_latency_ms :: real
  rl_reason :: RekeyMgrReason

record RekeyLatencyMetrics =
  rlm_avg_latency_ms :: real
  rlm_min_latency_ms :: real
  rlm_max_latency_ms :: real
  rlm_total_rekeys :: u64
  rlm_cluster_avg_latency :: "real list"
  rlm_cluster_count :: "u32 list"
  rlm_samples :: "RekeyLatencySample list"

definition RekeyLatencyMetrics_new :: RekeyLatencyMetrics where
  "RekeyLatencyMetrics_new =
     \<lparr> rlm_avg_latency_ms = 0, rlm_min_latency_ms = 0, rlm_max_latency_ms = 0, rlm_total_rekeys = 0,
       rlm_cluster_avg_latency = replicate 3 0, rlm_cluster_count = replicate 3 0, rlm_samples = [] \<rparr>"

record LatencyLoop =
  ll_sum :: real
  ll_min_v :: real
  ll_max_v :: real
  ll_cluster_sum :: "real list"

definition latency_event :: "LatencyLoop \<times> RekeyLatencyMetrics \<Rightarrow> RekeyEvent \<Rightarrow> LatencyLoop \<times> RekeyLatencyMetrics" where
  "latency_event st r =
     (let (acc, m) = st;
          lat = re_latency_ms r;
          acc = acc \<lparr> ll_sum := ll_sum acc + lat \<rparr>;
          acc = (if lat < ll_min_v acc then acc \<lparr> ll_min_v := lat \<rparr> else acc);
          acc = (if lat > ll_max_v acc then acc \<lparr> ll_max_v := lat \<rparr> else acc);
          c = unat (re_cluster_id r);
          (acc, m) = (if re_cluster_id r < 3
                      then (acc \<lparr> ll_cluster_sum := upd_at c (\<lambda>x. x + lat) (ll_cluster_sum acc) \<rparr>,
                            m \<lparr> rlm_cluster_count := upd_at c (\<lambda>n. n + 1) (rlm_cluster_count m) \<rparr>)
                      else (acc, m));
          s = \<lparr> rl_time_s = re_time_s r, rl_cluster_id = re_cluster_id r, rl_latency_ms = lat, rl_reason = re_reason r \<rparr>
      in (acc, m \<lparr> rlm_samples := rlm_samples m @ [s] \<rparr>))"

definition RekeyLatency_Compute ::
    "RekeyManager option \<Rightarrow> FlowMonitorManager \<times> RekeyLatencyMetrics \<Rightarrow> FlowMonitorManager \<times> RekeyLatencyMetrics" where
  "RekeyLatency_Compute rekey_mgr st =
     (case rekey_mgr of
        None \<Rightarrow> st
      | Some rm \<Rightarrow>
          let (M, m) = st;
              history = rm_history rm;
              m = m \<lparr> rlm_total_rekeys := of_nat (length history) \<rparr>
          in if history = [] then (M, m)
             else
               let (acc, m) = foldl latency_event
                     (\<lparr> ll_sum = 0, ll_min_v = DBL_MAX, ll_max_v = 0, ll_cluster_sum = replicate 3 0 \<rparr>,
                      m \<lparr> rlm_cluster_count := replicate 3 0 \<rparr>) history;
                   m = m \<lparr> rlm_avg_latency_ms := ll_sum acc / real (length history),
                           rlm_min_latency_ms := if ll_min_v acc = DBL_MAX then 0 else ll_min_v acc,
                           rlm_max_latency_ms := ll_max_v acc \<rparr>;
                   m = m \<lparr> rlm_cluster_avg_latency := map (\<lambda>c. if rlm_cluster_count m ! c > 0
                             then ll_cluster_sum acc ! c / real (unat (rlm_cluster_count m ! c))
                             else rlm_cluster_avg_latency m ! c) [0..<3] \<rparr>;
                   M = RecordRekeyComplete 0 (rlm_avg_latency_ms m) (RecordRekeyStart 0 0 M)
               in (M, m))"

definition RekeyLatency_GetClusterAvgLatency :: "RekeyLatencyMetrics \<Rightarrow> u32 \<Rightarrow> real" where
  "RekeyLatency_GetClusterAvgLatency m cluster_id = at_or_zero (rlm_cluster_avg_latency m) 3 cluster_id"

section \<open>SINR\<close>

record SinrSample =
  ss_time_s :: real
  ss_uav_id :: u32
  ss_sinr_db :: real
  ss_jammed :: bool
  ss_drop_prob :: real

record SinrMetrics =
  sm_uav_sinr :: "real list"
  sm_uav_jammed :: "bool list"
  sm_uav_drop_prob :: "real list"
  sm_uav_impact :: "real list"
  sm_cluster_avg_sinr :: "real list"
  sm_cluster_jammed :: "u32 list"
  sm_global_avg_sinr :: real
  sm_global_min_sinr :: real
  sm_global_max_sinr :: real
  sm_jammed_count :: u32
  sm_samples :: "SinrSample list"
  sm_sample_interval :: real
  sm_timers :: "real list"

definition SinrMetrics_new :: SinrMetrics where
  "SinrMetrics_new =
     \<lparr> sm_uav_sinr = replicate 18 0, sm_uav_jammed = replicate 18 False, sm_uav_drop_prob = replicate 18 0,
       sm_uav_impact = replicate 18 0, sm_cluster_avg_sinr = replicate 3 0, sm_cluster_jammed = replicate 3 0,
       sm_global_avg_sinr = 0, sm_global_min_sinr = 0, sm_global_max_sinr = 0, sm_jammed_count = 0, sm_samples = [],
       sm_sample_interval = 1, sm_timers = [] \<rparr>"

record SinrLoop =
  sl_sum :: real
  sl_min_v :: real
  sl_max_v :: real
  sl_cluster_sum :: "real list"

definition sinr_uav :: "JammerManager \<Rightarrow> Fleet \<Rightarrow> SinrLoop \<times> SinrMetrics \<Rightarrow> nat \<Rightarrow> SinrLoop \<times> SinrMetrics" where
  "sinr_uav jm fl st i =
     (let (acc, m) = st;
          uav = of_nat i;
          sinr = ComputeSinr jm fl uav;
          jammed = IsJammed jm fl uav;
          drop = GetDropProbability jm fl uav;
          impact = GetJammerImpact jm fl uav;
          m = m \<lparr> sm_uav_sinr := (sm_uav_sinr m)[i := sinr], sm_uav_jammed := (sm_uav_jammed m)[i := jammed],
                  sm_uav_drop_prob := (sm_uav_drop_prob m)[i := drop], sm_uav_impact := (sm_uav_impact m)[i := impact] \<rparr>;
          cluster = i div 6;
          acc = acc \<lparr> sl_cluster_sum := upd_at cluster (\<lambda>x. x + sinr) (sl_cluster_sum acc) \<rparr>;
          m = (if jammed
               then m \<lparr> sm_cluster_jammed := upd_at cluster (\<lambda>n. n + 1) (sm_cluster_jammed m),
                        sm_jammed_count := sm_jammed_count m + 1 \<rparr>
               else m);
          acc = acc \<lparr> sl_sum := sl_sum acc + sinr \<rparr>;
          acc = (if sinr < sl_min_v acc then acc \<lparr> sl_min_v := sinr \<rparr> else acc);
          acc = (if sinr > sl_max_v acc then acc \<lparr> sl_max_v := sinr \<rparr> else acc);
          s = \<lparr> ss_time_s = fl_now fl, ss_uav_id = uav, ss_sinr_db = sinr, ss_jammed = jammed, ss_drop_prob = drop \<rparr>
      in (acc, m \<lparr> sm_samples := sm_samples m @ [s] \<rparr>))"

definition Sinr_Compute :: "JammerManager option \<Rightarrow> Fleet \<Rightarrow> SinrMetrics \<Rightarrow> SinrMetrics" where
  "Sinr_Compute jammer_mgr fl m =
     (case jammer_mgr of
        None \<Rightarrow> m
      | Some jm \<Rightarrow>
          let m = m \<lparr> sm_cluster_avg_sinr := replicate 3 0, sm_cluster_jammed := replicate 3 0, sm_jammed_count := 0 \<rparr>;
              (acc, m) = foldl (sinr_uav jm fl)
                (\<lparr> sl_sum = 0, sl_min_v = DBL_MAX, sl_max_v = - DBL_MAX, sl_cluster_sum = replicate 3 0 \<rparr>, m) [0..<18]
          in m \<lparr> sm_cluster_avg_sinr := map (\<lambda>c. sl_cluster_sum acc ! c / 6) [0..<3],
                 sm_global_avg_sinr := sl_sum acc / 18,
                 sm_global_min_sinr := if sl_min_v acc = DBL_MAX then 0 else sl_min_v acc,
                 sm_global_max_sinr := if sl_max_v acc = - DBL_MAX then 0 else sl_max_v acc \<rparr>)"

definition Sinr_SchedulePeriodicSample :: "real \<Rightarrow> real \<Rightarrow> SinrMetrics \<Rightarrow> SinrMetrics" where
  "Sinr_SchedulePeriodicSample now interval_s m =
     (if interval_s \<le> 0 then m
      else m \<lparr> sm_sample_interval := interval_s, sm_timers := sm_timers m @ [now + interval_s] \<rparr>)"

definition Sinr_PeriodicSampleCallback :: "JammerManager option \<Rightarrow> Fleet \<Rightarrow> SinrMetrics \<Rightarrow> SinrMetrics" where
  "Sinr_PeriodicSampleCallback jammer_mgr fl m =
     (let m = Sinr_Compute jammer_mgr fl m in m \<lparr> sm_timers := sm_timers m @ [fl_now fl + sm_sample_interval m] \<rparr>)"

definition GetUavSinr :: "SinrMetrics \<Rightarrow> u32 \<Rightarrow> real" where
  "GetUavSinr m uav_id = at_or_zero (sm_uav_sinr m) 18 uav_id"

definition Sinr_IsUavJammed :: "SinrMetrics \<Rightarrow> u32 \<Rightarrow> bool" where
  "Sinr_IsUavJammed m uav_id = (if uav_id \<ge> 18 then False else sm_uav_jammed m ! unat uav_id)"

definition GetUavDropProb :: "SinrMetrics \<Rightarrow> u32 \<Rightarrow> real" where
  "GetUavDropProb m uav_id = at_or_zero (sm_uav_drop_prob m) 18 uav_id"

definition GetUavImpact :: "SinrMetrics \<Rightarrow> u32 \<Rightarrow> real" where
  "GetUavImpact m uav_id = at_or_zero (sm_uav_impact m) 18 uav_id"

definition GetClusterAvgSinr :: "SinrMetrics \<Rightarrow> u32 \<Rightarrow> real" where
  "GetClusterAvgSinr m cluster_id = at_or_zero (sm_cluster_avg_sinr m) 3 cluster_id"

definition GetClusterJammedCount :: "SinrMetrics \<Rightarrow> u32 \<Rightarrow> u32" where
  "GetClusterJammedCount m cluster_id = at_or_zero (sm_cluster_jammed m) 3 cluster_id"

section \<open>What the collectors report\<close>

lemma throughput_fold:
  assumes "\<forall>fm\<in>set fms. fm_src_uav fm = 0" and "tm_uav_throughput tm \<noteq> []"
  shows "tm_uav_throughput (foldl throughput_flow tm fms) =
           upd_at 0 (\<lambda>x. x + sum_list (map fm_throughput_kbps fms)) (tm_uav_throughput tm) \<and>
         tm_global_throughput_kbps (foldl throughput_flow tm fms) =
           tm_global_throughput_kbps tm + sum_list (map fm_throughput_kbps fms)"
  using assms
proof (induction fms arbitrary: tm)
  case Nil
  then show ?case by (simp add: upd_at_def)
next
  case (Cons fm fms)
  let ?tm = "throughput_flow tm fm"
  have "tm_uav_throughput ?tm = upd_at 0 (\<lambda>x. x + fm_throughput_kbps fm) (tm_uav_throughput tm)"
    and "tm_global_throughput_kbps ?tm = tm_global_throughput_kbps tm + fm_throughput_kbps fm"
    using Cons.prems by (simp_all add: throughput_flow_def Let_def)
  moreover from this have "tm_uav_throughput ?tm \<noteq> []" using Cons.prems by (simp add: upd_at_def)
  ultimately show ?case
    using Cons.IH[of ?tm] Cons.prems by (simp add: upd_at_def add.assoc)
qed

text \<open>Because \<open>src_uav\<close> of a flow is never set, UAV 0 carries the traffic of the whole network and
  the average per UAV is the total.\<close>

lemma throughput_on_uav_0:
  fixes tm :: ThroughputMetrics
  assumes "fmm_installed M" and "M' = CollectMetrics T (Some flows) dur M"
  defines "tm' \<equiv> Throughput_Compute M' tm"
  shows "GetUavThroughput tm' 0 = gm_total_throughput (GetGlobalMetrics M')"
    and "tm_global_throughput_kbps tm' = gm_total_throughput (GetGlobalMetrics M')"
    and "i \<noteq> 0 \<Longrightarrow> GetUavThroughput tm' i = 0"
    and "gm_total_throughput (GetGlobalMetrics M') > 0 \<Longrightarrow>
         GetAvgUavThroughput tm' = gm_total_throughput (GetGlobalMetrics M')"
proof -
  let ?fms = "fmm_flow_metrics M'"
  have src: "\<forall>fm\<in>set ?fms. fm_src_uav fm = 0"
    using kept_flows_unset unfolding assms(2) collected_flows[OF assms(1)] by (auto simp: unset_flow_def)
  define total where "total = sum_list (map fm_throughput_kbps ?fms)"
  have uav: "tm_uav_throughput tm' = total # replicate 17 0" and glob: "tm_global_throughput_kbps tm' = total"
    unfolding tm'_def Throughput_Compute_def total_def
    using throughput_fold[OF src, of "tm \<lparr> tm_uav_throughput := replicate 18 0, tm_cluster_throughput := replicate 3 0,
             tm_global_throughput_kbps := 0, tm_peak_throughput_kbps := 0 \<rparr>"]
    by (simp_all add: upd_at_def numeral_eq_Suc)
  have run: "gm_total_throughput (GetGlobalMetrics M') = total"
    using collected_totals(4)[OF assms(1)] assms(2) by (simp add: GetGlobalMetrics_def total_def)
  show "GetUavThroughput tm' 0 = gm_total_throughput (GetGlobalMetrics M')"
    using uav run by (simp add: GetUavThroughput_def at_or_zero_def)
  show "tm_global_throughput_kbps tm' = gm_total_throughput (GetGlobalMetrics M')"
    using glob run by simp
  show "GetUavThroughput tm' i = 0" if "i \<noteq> 0"
  proof -
    have "unat i \<noteq> 0" using that by (simp add: unat_eq_0)
    then show ?thesis using uav by (auto simp: GetUavThroughput_def at_or_zero_def nth_Cons')
  qed
  show "GetAvgUavThroughput tm' = gm_total_throughput (GetGlobalMetrics M')"
    if "gm_total_throughput (GetGlobalMetrics M') > 0"
    using that uav run by (simp add: GetAvgUavThroughput_def numeral_eq_Suc)
qed

lemma delay_fold_extremes:
  "\<forall>fm\<in>set fms. unset_flow fm \<Longrightarrow> foldl delay_flow (acc, dm) fms = (acc', dm') \<Longrightarrow> dm_global_max_delay_ms dm = 0 \<Longrightarrow>
     0 \<le> dm_global_min_delay_ms dm \<Longrightarrow>
     dm_global_max_delay_ms dm' = 0 \<and> dm_global_min_delay_ms dm' = (if fms = [] then dm_global_min_delay_ms dm else 0)"
proof (induction fms arbitrary: acc dm)
  case (Cons fm fms)
  obtain acc1 dm1 where step: "delay_flow (acc, dm) fm = (acc1, dm1)" by force
  have "dm_global_max_delay_ms dm1 = 0 \<and> dm_global_min_delay_ms dm1 = 0"
    using step Cons.prems by (auto simp: delay_flow_def unset_flow_def Let_def split: if_splits)
  then show ?case using Cons.IH[of acc1 dm1] Cons.prems step by (auto split: if_splits)
qed auto

text \<open>The extreme delays are never set either: smallest and largest delay of a run are 0.\<close>

lemma no_extreme_delays:
  assumes "fmm_installed M" and "M' = CollectMetrics T (Some flows) dur M"
  shows "dm_global_min_delay_ms (Delay_Compute M' dm) = 0" and "dm_global_max_delay_ms (Delay_Compute M' dm) = 0"
proof -
  let ?fms = "fmm_flow_metrics M'"
  have unset: "\<forall>fm\<in>set ?fms. unset_flow fm"
    using kept_flows_unset unfolding assms(2) collected_flows[OF assms(1)] by auto
  have "dm_global_min_delay_ms (Delay_Compute M' dm) = 0 \<and> dm_global_max_delay_ms (Delay_Compute M' dm) = 0"
  proof (cases "?fms = []")
    case True
    then show ?thesis by (simp add: Delay_Compute_def Let_def)
  next
    case False
    let ?dm = "dm \<lparr> dm_uav_delay := replicate 18 UavDelayStats_new, dm_cluster_avg_delay := replicate 3 0,
                 dm_cluster_jitter := replicate 3 0, dm_global_avg_delay_ms := 0, dm_global_min_delay_ms := DBL_MAX,
                 dm_global_max_delay_ms := 0, dm_global_jitter_ms := 0 \<rparr>"
    obtain acc dm1 where f: "foldl delay_flow
        (\<lparr> dl_cluster_delay_sum = replicate 3 0, dl_cluster_jitter_sum = replicate 3 0,
           dl_cluster_count = replicate 3 0, dl_global_sum = 0, dl_jitter_sum = 0, dl_flow_count = 0 \<rparr>, ?dm) ?fms = (acc, dm1)"
      by force
    have "0 \<le> DBL_MAX" by (simp add: DBL_MAX_def)
    then have "dm_global_max_delay_ms dm1 = 0 \<and> dm_global_min_delay_ms dm1 = 0"
      using delay_fold_extremes[OF unset f] False by simp
    then show ?thesis using False f by (simp add: Delay_Compute_def Let_def)
  qed
  then show "dm_global_min_delay_ms (Delay_Compute M' dm) = 0" "dm_global_max_delay_ms (Delay_Compute M' dm) = 0"
    by simp_all
qed

text \<open>Every UAV but the first reports a loss of 100 percent.\<close>

lemma pdr_fold:
  "\<forall>fm\<in>set fms. fm_src_uav fm = 0 \<Longrightarrow> foldl pdr_flow (acc, pm) fms = (acc', pm') \<Longrightarrow>
     length (pm_uav_pdr pm') = length (pm_uav_pdr pm) \<and> (\<forall>i>0. pm_uav_pdr pm' ! i = pm_uav_pdr pm ! i)"
proof (induction fms arbitrary: acc pm)
  case (Cons fm fms)
  obtain acc1 pm1 where step: "pdr_flow (acc, pm) fm = (acc1, pm1)" by force
  have "length (pm_uav_pdr pm1) = length (pm_uav_pdr pm) \<and> (\<forall>i>0. pm_uav_pdr pm1 ! i = pm_uav_pdr pm ! i)"
    using step Cons.prems by (auto simp: pdr_flow_def Let_def split: if_splits)
  then show ?case using Cons.IH[of acc1 pm1] Cons.prems step by auto
qed auto

lemma uavs_report_full_loss:
  assumes "fmm_installed M" and "M' = CollectMetrics T (Some flows) dur M" and "i \<noteq> 0" and "i < 18"
  shows "GetUavLossRate (Pdr_Compute M' pm) i = 1" and "GetUavLostPkts (Pdr_Compute M' pm) i = 0"
proof -
  let ?fms = "fmm_flow_metrics M'"
  have src: "\<forall>fm\<in>set ?fms. fm_src_uav fm = 0"
    using kept_flows_unset unfolding assms(2) collected_flows[OF assms(1)] by (auto simp: unset_flow_def)
  have "unat i \<noteq> 0" "unat i < 18" using assms(3,4) by (simp_all add: unat_eq_0 word_less_nat_alt)
  obtain acc pm1 where f: "foldl pdr_flow
      (\<lparr> pl_cluster_pdr_sum = replicate 3 0, pl_cluster_count = replicate 3 0, pl_pdr_sum = 0, pl_flow_count = 0 \<rparr>,
       pm \<lparr> pm_uav_pdr := replicate 18 UavPdrStats_new, pm_cluster_pdr := replicate 3 0, pm_global_pdr := 0,
            pm_global_tx := 0, pm_global_rx := 0, pm_global_lost := 0 \<rparr>) ?fms = (acc, pm1)"
    by force
  have "pm_uav_pdr (Pdr_Compute M' pm) = pm_uav_pdr pm1"
    using f by (simp add: Pdr_Compute_def Let_def)
  moreover have "pm_uav_pdr pm1 ! unat i = UavPdrStats_new"
    using pdr_fold[OF src f] \<open>unat i \<noteq> 0\<close> \<open>unat i < 18\<close> by simp
  ultimately have "pm_uav_pdr (Pdr_Compute M' pm) ! unat i = UavPdrStats_new" by simp
  moreover have "\<not> 18 \<le> i" using assms(4) by (simp add: not_le)
  ultimately show "GetUavLossRate (Pdr_Compute M' pm) i = 1" "GetUavLostPkts (Pdr_Compute M' pm) i = 0"
    by (simp_all add: GetUavLossRate_def GetUavLostPkts_def uav_pdr_def UavPdrStats_new_def)
qed

text \<open>The control traffic is an estimate that does not depend on the run: 46 bytes per second and UAV.\<close>

lemma overhead_estimate:
  assumes "dur > 0"
  shows "ro_ctrl_bytes_per_sec (Overhead_Compute n M dur ro) = 46 * real (unat n)"
    and "ro_overhead_ratio (Overhead_Compute n M dur ro) \<in> {0..1}"
proof -
  have ctrl: "real (unat n) * (dur / 2) * 60 + real (unat n) * (dur / 5) * 80 = 46 * real (unat n) * dur"
    by (simp add: field_simps)
  then show "ro_ctrl_bytes_per_sec (Overhead_Compute n M dur ro) = 46 * real (unat n)"
    using assms
    by (simp add: Overhead_Compute_def Let_def HELLO_INTERVAL_S_def TC_INTERVAL_S_def HELLO_SIZE_BYTES_def TC_SIZE_BYTES_def)
  have data: "0 \<le> foldl (\<lambda>total f. total + real (unat (fm_rx_bytes f))) d fms" if "0 \<le> d" for d :: real and fms
    using that
  proof (induction fms arbitrary: d)
    case (Cons f fms)
    have "0 \<le> d + real (unat (fm_rx_bytes f))" by (rule add_nonneg_nonneg[OF Cons.prems of_nat_0_le_iff])
    from Cons.IH[OF this] show ?case by simp
  qed simp
  have share: "(if c + d > 0 then c / (c + d) else 0) \<in> {0..1}" if "0 \<le> c" "0 \<le> d" for c d :: real
    using that by auto
  have "0 \<le> 46 * real (unat n) * dur" using assms by (intro mult_nonneg_nonneg of_nat_0_le_iff) simp_all
  from share[OF this data[OF order_refl, of "fmm_flow_metrics M"]] show "ro_overhead_ratio (Overhead_Compute n M dur ro) \<in> {0..1}"
    unfolding Overhead_Compute_def Let_def HELLO_INTERVAL_S_def TC_INTERVAL_S_def HELLO_SIZE_BYTES_def TC_SIZE_BYTES_def
    by (simp only: ctrl) simp
qed

text \<open>The rekey latencies: average over the history, and a thousandfold of it in the report of the flow
  monitor, which takes the milliseconds for seconds.  A second \<open>Compute\<close> lists every sample twice.\<close>

lemma latency_fold:
  "foldl latency_event (acc, m) rs = (acc', m') \<Longrightarrow>
     ll_sum acc' = ll_sum acc + sum_list (map re_latency_ms rs) \<and>
     length (rlm_samples m') = length (rlm_samples m) + length rs"
proof (induction rs arbitrary: acc m)
  case (Cons r rs)
  obtain acc1 m1 where step: "latency_event (acc, m) r = (acc1, m1)" by force
  then have "ll_sum acc1 = ll_sum acc + re_latency_ms r" "length (rlm_samples m1) = length (rlm_samples m) + 1"
    by (auto simp: latency_event_def Let_def split: if_splits)
  then show ?case using Cons.IH[of acc1 m1] Cons.prems step by simp
qed simp

lemma rekey_latency_units:
  assumes "rm_history rm \<noteq> []" and "fmm_installed M" and "fmm_rekey_events M = []"
    and "RekeyLatency_Compute (Some rm) (M, m) = (M1, m')"
  shows "rlm_avg_latency_ms m' = sum_list (map re_latency_ms (rm_history rm)) / real (length (rm_history rm))"
    and "gm_rekey_latency_ms (GetGlobalMetrics (CollectMetrics T (Some flows) dur M1)) = 1000 * rlm_avg_latency_ms m'"
    and "length (rlm_samples m') = length (rlm_samples m) + length (rm_history rm)"
proof -
  obtain acc m2 where f: "foldl latency_event
       (\<lparr> ll_sum = 0, ll_min_v = DBL_MAX, ll_max_v = 0, ll_cluster_sum = replicate 3 0 \<rparr>,
        m \<lparr> rlm_total_rekeys := of_nat (length (rm_history rm)), rlm_cluster_count := replicate 3 0 \<rparr>) (rm_history rm) = (acc, m2)"
    by force
  note totals = latency_fold[OF f]
  have M1: "M1 = RecordRekeyComplete 0 (rlm_avg_latency_ms m') (RecordRekeyStart 0 0 M)"
    and avg: "rlm_avg_latency_ms m' = ll_sum acc / real (length (rm_history rm))" and "rlm_samples m' = rlm_samples m2"
    using assms(1,4) f by (auto simp: RekeyLatency_Compute_def Let_def)
  then show "rlm_avg_latency_ms m' = sum_list (map re_latency_ms (rm_history rm)) / real (length (rm_history rm))"
    and "length (rlm_samples m') = length (rlm_samples m) + length (rm_history rm)"
    using totals by simp_all
  have inst: "fmm_installed M1" using M1 assms(2) by (simp add: RecordRekeyComplete_def RecordRekeyStart_def)
  have "fmm_rekey_events M1 = [(0, \<lparr> er_start_s = 0, er_end_s = rlm_avg_latency_ms m', er_complete = True \<rparr>)]"
    using M1 assms(3)
    by (simp add: RecordRekeyComplete_def RecordRekeyStart_def start_event_def complete_event_def event_at_def EventRecord_new_def)
  then show "gm_rekey_latency_ms (GetGlobalMetrics (CollectMetrics T (Some flows) dur M1)) = 1000 * rlm_avg_latency_ms m'"
    by (simp add: GetGlobalMetrics_def collected_totals(7)[OF inst] event_latency_def)
qed

text \<open>The constant of \<open>ComputeSinr\<close> makes every figure of the SINR collector a constant.\<close>

lemma sinr_fold:
  "i + n \<le> 18 \<Longrightarrow> foldl (sinr_uav jm fl) (acc, m) [i..<i + n] = (acc', m') \<Longrightarrow>
     sl_sum acc' = sl_sum acc + 20 * real n \<and> sm_jammed_count m' = sm_jammed_count m \<and>
     length (sm_samples m') = length (sm_samples m) + n \<and>
     (n > 0 \<longrightarrow> sl_min_v acc' = min 20 (sl_min_v acc) \<and> sl_max_v acc' = max 20 (sl_max_v acc))"
proof (induction n arbitrary: i acc m)
  case (Suc n)
  obtain acc1 m1 where step: "sinr_uav jm fl (acc, m) i = (acc1, m1)" by force
  have "sl_sum acc1 = sl_sum acc + 20 \<and> sm_jammed_count m1 = sm_jammed_count m \<and>
      length (sm_samples m1) = length (sm_samples m) + 1 \<and> sl_min_v acc1 = min 20 (sl_min_v acc) \<and>
      sl_max_v acc1 = max 20 (sl_max_v acc)"
    using step
    by (auto simp: sinr_uav_def ComputeSinr_def IsJammed_def SINR_THRESHOLD_DB_def Let_def min_def max_def split: if_splits)
  moreover have "foldl (sinr_uav jm fl) (acc1, m1) [Suc i..<Suc i + n] = (acc', m')"
  proof -
    have "[i..<i + Suc n] = i # [Suc i..<Suc i + n]" by (simp add: upt_conv_Cons del: upt_Suc)
    then show ?thesis using Suc.prems(2) step by (simp del: upt_Suc)
  qed
  ultimately show ?case using Suc.IH[of "Suc i" acc1 m1] Suc.prems(1) by (cases n) auto
qed simp

lemma sinr_constant:
  fixes m :: SinrMetrics and jm fl
  defines "m' \<equiv> Sinr_Compute (Some jm) fl m"
  shows "sm_global_avg_sinr m' = 20" and "sm_global_min_sinr m' = 20" and "sm_global_max_sinr m' = 20"
    and "sm_jammed_count m' = 0" and "length (sm_samples m') = length (sm_samples m) + 18"
proof -
  obtain acc m2 where f: "foldl (sinr_uav jm fl)
      (\<lparr> sl_sum = 0, sl_min_v = DBL_MAX, sl_max_v = - DBL_MAX, sl_cluster_sum = replicate 3 0 \<rparr>,
       m \<lparr> sm_cluster_avg_sinr := replicate 3 0, sm_cluster_jammed := replicate 3 0, sm_jammed_count := 0 \<rparr>) [0..<0 + 18] = (acc, m2)"
    by force
  have big: "20 < DBL_MAX"
  proof -
    have "(2 :: real) ^ 5 \<le> 2 ^ 1023" by (rule power_increasing) simp_all
    then have "1 * 2 ^ 5 \<le> DBL_MAX" unfolding DBL_MAX_def by (intro mult_mono) simp_all
    then show ?thesis by simp
  qed
  note g = sinr_fold[OF _ f]
  have m': "m' = m2 \<lparr> sm_cluster_avg_sinr := map (\<lambda>c. sl_cluster_sum acc ! c / 6) [0..<3],
                 sm_global_avg_sinr := sl_sum acc / 18,
                 sm_global_min_sinr := if sl_min_v acc = DBL_MAX then 0 else sl_min_v acc,
                 sm_global_max_sinr := if sl_max_v acc = - DBL_MAX then 0 else sl_max_v acc \<rparr>"
    using f by (simp add: m'_def Sinr_Compute_def Let_def)
  show "sm_global_avg_sinr m' = 20" "sm_global_min_sinr m' = 20" "sm_global_max_sinr m' = 20"
    "sm_jammed_count m' = 0" "length (sm_samples m') = length (sm_samples m) + 18"
    using g big by (simp_all add: m')
qed

end
