(* ===== verification/String_Utils.thy ===== *)
theory String_Utils
  imports Uav_Prelude
begin

text \<open>
  utils/uav-string-utils.\{h,cc\}: the string helpers of the program (trimming, case, splitting,
  joining, replacing, bytes as hexadecimal text), in the C locale.  A \<open>std::string\<close> is a list of characters.
  \<open>Format\<close> (\<open>vsnprintf\<close>) is left out.
\<close>

section \<open>Trimming and case\<close>

definition isspace :: "char \<Rightarrow> bool" where
  "isspace c \<longleftrightarrow> (let n = (of_char c :: nat) in n = 32 \<or> (9 \<le> n \<and> n \<le> 13))"

definition tolower :: "char \<Rightarrow> char" where
  "tolower c = (let n = (of_char c :: nat) in if 65 \<le> n \<and> n \<le> 90 then char_of (n + 32) else c)"

definition toupper :: "char \<Rightarrow> char" where
  "toupper c = (let n = (of_char c :: nat) in if 97 \<le> n \<and> n \<le> 122 then char_of (n - 32) else c)"

definition TrimLeft :: "string \<Rightarrow> string" where "TrimLeft s = dropWhile isspace s"

definition TrimRight :: "string \<Rightarrow> string" where "TrimRight s = rev (dropWhile isspace (rev s))"

definition Trim :: "string \<Rightarrow> string" where "Trim s = TrimLeft (TrimRight s)"

definition ToLower :: "string \<Rightarrow> string" where "ToLower s = List.map tolower s"

definition ToUpper :: "string \<Rightarrow> string" where "ToUpper s = List.map toupper s"

section \<open>Splitting, joining, replacing\<close>

text \<open>The loop over \<open>std::getline\<close>: an empty rest behind the last delimiter is no part.\<close>

function Split :: "string \<Rightarrow> char \<Rightarrow> string list" where
  "Split s delim =
     (if s = [] then []
      else takeWhile (\<lambda>c. c \<noteq> delim) s #
           (case dropWhile (\<lambda>c. c \<noteq> delim) s of [] \<Rightarrow> [] | _ # rest \<Rightarrow> Split rest delim))"
  by pat_completeness auto
termination
proof (relation "measure (\<lambda>(s, delim). length s)", simp)
  fix s :: string and delim c rest
  assume "dropWhile (\<lambda>c. c \<noteq> delim) s = c # rest"
  then show "((rest, delim), (s, delim)) \<in> measure (\<lambda>(s, delim). length s)"
    using length_dropWhile_le[of "\<lambda>c. c \<noteq> delim" s] by simp
qed

declare Split.simps [simp del]

definition Join :: "string list \<Rightarrow> string \<Rightarrow> string" where
  "Join parts sep = (case parts of [] \<Rightarrow> '''' | p # rest \<Rightarrow> p @ concat (map (\<lambda>q. sep @ q) rest))"

definition StartsWith :: "string \<Rightarrow> string \<Rightarrow> bool" where
  "StartsWith s pre \<longleftrightarrow> length s \<ge> length pre \<and> take (length pre) s = pre"

definition EndsWith :: "string \<Rightarrow> string \<Rightarrow> bool" where
  "EndsWith s suf \<longleftrightarrow> length s \<ge> length suf \<and> drop (length s - length suf) s = suf"

text \<open>\<open>std::string::find\<close>: the first position at which the pattern occurs.\<close>

fun string_find :: "string \<Rightarrow> string \<Rightarrow> nat option" where
  "string_find pat s =
     (if StartsWith s pat then Some 0
      else case s of [] \<Rightarrow> None | _ # rest \<Rightarrow> map_option Suc (string_find pat rest))"

declare string_find.simps [simp del]

lemma string_find_bound: "string_find pat s = Some k \<Longrightarrow> k + length pat \<le> length s"
proof (induction s arbitrary: k)
  case Nil
  then show ?case by (simp add: string_find.simps StartsWith_def split: if_splits)
next
  case (Cons c s)
  then show ?case by (subst (asm) string_find.simps) (auto simp: StartsWith_def split: if_splits)
qed

text \<open>The loop of \<open>Replace\<close> on the part of the string that it has not passed.\<close>

function replace_rest :: "string \<Rightarrow> string \<Rightarrow> string \<Rightarrow> string" where
  "replace_rest pat rep s =
     (if pat = [] then s
      else case string_find pat s of
             None \<Rightarrow> s
           | Some pos \<Rightarrow> take pos s @ rep @ replace_rest pat rep (drop (pos + length pat) s))"
  by pat_completeness auto

termination
proof (relation "measure (\<lambda>(pat, rep, s). length s)", simp)
  fix pat rep s :: string and k
  assume "pat \<noteq> []" "string_find pat s = Some k"
  then show "((pat, rep, drop (k + length pat) s), (pat, rep, s)) \<in> measure (\<lambda>(pat, rep, s). length s)"
    using string_find_bound[of pat s k] by (cases pat) auto
qed

declare replace_rest.simps [simp del]

definition Replace :: "string \<Rightarrow> string \<Rightarrow> string \<Rightarrow> string" where
  "Replace s pat rep = (if pat = [] then s else replace_rest pat rep s)"

section \<open>Hexadecimal text\<close>

definition kHexLower :: string where "kHexLower = ''0123456789abcdef''"

definition HexDigitValue :: "char \<Rightarrow> int" where
  "HexDigitValue c =
     (let n = (of_char c :: int) in
      if 48 \<le> n \<and> n \<le> 57 then n - 48
      else if 97 \<le> n \<and> n \<le> 102 then n - 97 + 10
      else if 65 \<le> n \<and> n \<le> 70 then n - 65 + 10
      else - 1)"

definition BytesToHex :: "bytes \<Rightarrow> string" where
  "BytesToHex data =
     concat (map (\<lambda>b. [kHexLower ! unat (drop_bit 4 b AND 0x0F), kHexLower ! unat (b AND 0x0F)]) data)"

fun hex_byte_pairs :: "string \<Rightarrow> bytes res" where
  "hex_byte_pairs [] = Inr []"
| "hex_byte_pairs [c] = Inl InvalidArgumentException"
| "hex_byte_pairs (c # d # rest) =
     (let hi = HexDigitValue c; lo = HexDigitValue d in
      if hi < 0 \<or> lo < 0 then Inl InvalidArgumentException
      else rbind (hex_byte_pairs rest) (\<lambda>out. Inr ((push_bit 4 (word_of_int hi) OR word_of_int lo) # out)))"

definition HexToBytes :: "string \<Rightarrow> bytes res" where
  "HexToBytes hex = (if length hex mod 2 \<noteq> 0 then Inl InvalidArgumentException else hex_byte_pairs hex)"

fun dec_string :: "nat \<Rightarrow> string" where
  "dec_string n = (if n < 10 then [char_of (48 + n)] else dec_string (n div 10) @ [char_of (48 + n mod 10)])"

declare dec_string.simps [simp del]

definition BytesToHexAbbrev :: "bytes \<Rightarrow> nat \<Rightarrow> nat \<Rightarrow> string" where
  "BytesToHexAbbrev b pre suf =
     (if length b \<le> pre + suf then BytesToHex b
      else BytesToHex (take pre b) @ ''...'' @ BytesToHex (drop (length b - suf) b) @
           ''('' @ dec_string (length b) @ ''B)'')"

section \<open>What the helpers promise\<close>

lemma dropWhile_idem: "dropWhile P (dropWhile P xs) = dropWhile P xs"
  by (induction xs) auto

lemma Trim_ends:
  assumes "Trim s \<noteq> []"
  shows "\<not> isspace (hd (Trim s))" and "\<not> isspace (last (Trim s))"
proof -
  show "\<not> isspace (hd (Trim s))"
    using assms unfolding Trim_def TrimLeft_def by (rule hd_dropWhile)
  let ?r = "TrimRight s"
  have "?r \<noteq> []" using assms by (auto simp: Trim_def TrimLeft_def)
  then have "\<not> isspace (last ?r)"
    unfolding TrimRight_def by (simp add: last_rev hd_dropWhile)
  moreover have "last (Trim s) = last ?r"
    using assms unfolding Trim_def TrimLeft_def
    by (metis last_appendR takeWhile_dropWhile_id)
  ultimately show "\<not> isspace (last (Trim s))" by simp
qed

lemma Split_nil [simp]: "Split [] d = []"
  by (simp add: Split.simps)

lemma Split_step: "d \<notin> set p \<Longrightarrow> Split (p @ d # rest) d = p # Split rest d"
  by (subst Split.simps) (simp add: takeWhile_append dropWhile_append)

lemma Split_last: "d \<notin> set p \<Longrightarrow> p \<noteq> [] \<Longrightarrow> Split p d = [p]"
proof -
  assume p: "d \<notin> set p" "p \<noteq> []"
  have "dropWhile (\<lambda>c. c \<noteq> d) p = []"
    using p(1) by (auto simp: dropWhile_eq_Nil_conv)
  moreover have "takeWhile (\<lambda>c. c \<noteq> d) p = p"
    using p(1) by (auto simp: takeWhile_eq_all_conv)
  ultimately show "Split p d = [p]" using p(2) by (simp add: Split.simps[of p d] del: dropWhile_eq_Nil_conv)
qed

lemma Join_Cons: "Join (p # q # parts) [d] = p @ d # Join (q # parts) [d]"
  by (simp add: Join_def)

lemma Split_no_delim: "p \<in> set (Split s d) \<Longrightarrow> d \<notin> set p"
proof (induction s d rule: Split.induct)
  case (1 s d)
  from 1(2) have "s \<noteq> []" by auto
  let ?tl = "dropWhile (\<lambda>c. c \<noteq> d) s"
  have "p = takeWhile (\<lambda>c. c \<noteq> d) s \<or> (\<exists>c rest. ?tl = c # rest \<and> p \<in> set (Split rest d))"
    using 1(2) \<open>s \<noteq> []\<close> by (cases ?tl) (simp_all add: Split.simps[of s d])
  then show ?case
    using 1(1) \<open>s \<noteq> []\<close> by (auto dest: set_takeWhileD)
qed

text \<open>Splitting undoes joining, unless the last part is empty.\<close>

lemma Split_Join:
  assumes "\<forall>p\<in>set parts. d \<notin> set p" and "parts \<noteq> []" and "last parts \<noteq> []"
  shows "Split (Join parts [d]) d = parts"
  using assms
proof (induction parts)
  case (Cons p parts)
  show ?case
  proof (cases parts)
    case Nil
    then show ?thesis using Cons.prems by (simp add: Join_def Split_last)
  next
    case (Cons q rest)
    then show ?thesis
      using Cons.IH Cons.prems \<open>parts = q # rest\<close> by (simp add: Join_Cons Split_step)
  qed
qed simp

lemma Join_Split: "Join (Split s d) [d] = (if s \<noteq> [] \<and> last s = d then butlast s else s)"
proof (induction s d rule: Split.induct)
  case (1 s d)
  show ?case
  proof (cases "dropWhile (\<lambda>c. c \<noteq> d) s")
    case Nil
    then have "d \<notin> set s" by (auto simp: dropWhile_eq_Nil_conv)
    then show ?thesis
      by (cases "s = []") (auto simp: Split_last Join_def dest: last_in_set)
  next
    case (Cons c rest)
    then have "c = d" by (metis (mono_tags) hd_dropWhile list.sel(1) list.distinct(1))
    obtain p where s: "s = p @ d # rest" and p: "d \<notin> set p"
      using takeWhile_dropWhile_id[of "\<lambda>c. c \<noteq> d" s] Cons \<open>c = d\<close> by (metis (mono_tags) set_takeWhileD)
    then have split: "Split s d = p # Split rest d" by (simp add: Split_step)
    have IH: "Join (Split rest d) [d] = (if rest \<noteq> [] \<and> last rest = d then butlast rest else rest)"
      by (rule 1[OF _ Cons]) (use s in simp)
    show ?thesis
    proof (cases rest)
      case Nil
      then show ?thesis using split s by (simp add: Join_def)
    next
      case (Cons e more)
      then obtain q qs where q: "Split rest d = q # qs" by (simp add: Split.simps[of "e # more" d])
      have "Join (Split s d) [d] = p @ d # Join (Split rest d) [d]"
        using split q by (simp add: Join_Cons)
      then show ?thesis
        using IH s Cons by (simp add: butlast_append)
    qed
  qed
qed

lemma string_find_none: "string_find pat s = None \<Longrightarrow> replace_rest pat rep s = s"
  by (subst replace_rest.simps) simp

lemma string_find_at: "string_find pat s = Some k \<Longrightarrow> take (length pat) (drop k s) = pat"
proof (induction s arbitrary: k)
  case Nil
  then show ?case by (simp add: string_find.simps StartsWith_def split: if_splits)
next
  case (Cons c s)
  then show ?case by (subst (asm) string_find.simps) (auto simp: StartsWith_def split: if_splits)
qed

text \<open>Replacing a text by itself changes nothing.\<close>

lemma Replace_self: "Replace s pat pat = s"
proof -
  have "replace_rest pat pat s = s"
  proof (induction s rule: length_induct)
    case (1 s)
    show ?case
    proof (cases "pat = [] \<or> string_find pat s = None")
      case True
      then show ?thesis by (subst replace_rest.simps) auto
    next
      case False
      then obtain k where k: "pat \<noteq> []" "string_find pat s = Some k" by auto
      let ?rest = "drop (k + length pat) s"
      have "length ?rest < length s"
        using string_find_bound[OF k(2)] k(1) by (cases pat) auto
      then have "replace_rest pat pat ?rest = ?rest" using 1 by blast
      then have "replace_rest pat pat s = take k s @ take (length pat) (drop k s) @ ?rest"
        using k string_find_at[OF k(2)] by (subst replace_rest.simps) simp
      then show ?thesis
        by (metis add.commute append_take_drop_id drop_drop)
    qed
  qed
  then show ?thesis by (simp add: Replace_def)
qed

text \<open>Bytes survive the way through hexadecimal text.\<close>

lemma hex_digit_values: "n < 16 \<Longrightarrow> HexDigitValue (kHexLower ! n) = int n"
proof -
  have "\<forall>n\<in>set [0..<16]. HexDigitValue (kHexLower ! n) = int n" by code_simp
  then show "n < 16 \<Longrightarrow> HexDigitValue (kHexLower ! n) = int n" by simp
qed

lemma mask4: "(0x0F :: u8) = mask 4"
  by (simp add: mask_eq_exp_minus_1)

lemma nibbles: "unat (drop_bit 4 b AND 0x0F :: u8) < 16" "unat (b AND 0x0F :: u8) < 16"
  using word_and_le1[of "drop_bit 4 b" "0x0F"] word_and_le1[of b "0x0F"]
  by (simp_all only: word_le_nat_alt) auto

lemma glue_nibbles: "push_bit 4 (drop_bit 4 b AND 0x0F) OR (b AND 0x0F) = (b :: u8)"
proof -
  have "push_bit 4 (take_bit 4 (drop_bit 4 b)) OR take_bit 4 b = b"
    by (rule bit_word_eqI) (auto simp: bit_simps)
  then show ?thesis by (simp only: mask4 take_bit_eq_mask)
qed

lemma nibble_of_unat: "word_of_int (int (unat (x :: u8))) = x"
  by simp

lemma hex_byte_pairs_append: "length s mod 2 = 0 \<Longrightarrow> hex_byte_pairs (s @ t) = rbind (hex_byte_pairs s) (\<lambda>a. rbind (hex_byte_pairs t) (\<lambda>b. Inr (a @ b)))"
  by (induction s rule: hex_byte_pairs.induct) (auto simp: Let_def rbind_def split: sum.splits)

lemma hex_round_trip: "HexToBytes (BytesToHex data) = Inr data"
proof -
  have "hex_byte_pairs (BytesToHex data) = Inr data"
  proof (induction data)
    case (Cons b data)
    have "BytesToHex (b # data) = kHexLower ! unat (drop_bit 4 b AND 0x0F) # kHexLower ! unat (b AND 0x0F) # BytesToHex data"
      by (simp add: BytesToHex_def)
    then show ?case
      using Cons by (simp only: hex_byte_pairs.simps Let_def hex_digit_values nibbles nibble_of_unat glue_nibbles rbind_simps) simp
  qed (simp add: BytesToHex_def)
  moreover have "length (BytesToHex data) = 2 * length data"
    by (induction data) (simp_all add: BytesToHex_def)
  ultimately show ?thesis by (simp add: HexToBytes_def)
qed

lemma HexToBytes_length: "HexToBytes hex = Inr bs \<Longrightarrow> length hex = 2 * length bs"
proof -
  have "hex_byte_pairs h = Inr bs \<Longrightarrow> length h = 2 * length bs" for h bs
    by (induction h arbitrary: bs rule: hex_byte_pairs.induct) (auto simp: Let_def rbind_eq_Inr_iff split: if_splits)
  then show "HexToBytes hex = Inr bs \<Longrightarrow> length hex = 2 * length bs"
    by (simp add: HexToBytes_def split: if_splits)
qed

end
