(* ===== verification/Json_Config.thy ===== *)
theory Json_Config
  imports String_Utils Complex_Main "HOL-Library.Sublist"
begin

text \<open>
  utils/uav-json-loader.\{h,cc\}, uav-json-validator.\{h,cc\} and uav-config-manager.\{h,cc\}:
  the reading of JSON documents along dotted paths, their validation, and the configuration of a
  run with its defaults, the values of a JSON file, the overrides of the command line and its checks.
  A JSON value is a value of the nlohmann library, so its type \<open>'j\<close> and the calls the
  code makes on it are a parameter, the record \<open>json_api\<close>.  Reading and parsing of a file is its outcome,
  \<open>std::stod\<close> is an argument.  A double is a real number.
\<close>

section \<open>JSON values\<close>

record 'j json_api =
  js_is_object :: "'j \<Rightarrow> bool"
  js_is_array :: "'j \<Rightarrow> bool"
  js_is_string :: "'j \<Rightarrow> bool"
  js_is_boolean :: "'j \<Rightarrow> bool"
  js_is_number :: "'j \<Rightarrow> bool"
  js_is_number_integer :: "'j \<Rightarrow> bool"
  js_is_number_unsigned :: "'j \<Rightarrow> bool"
  js_find :: "'j \<Rightarrow> string \<Rightarrow> 'j option"
  js_set :: "'j \<Rightarrow> string \<Rightarrow> 'j \<Rightarrow> 'j"
  js_items :: "'j \<Rightarrow> (string \<times> 'j) list"
  js_elements :: "'j \<Rightarrow> 'j list"
  js_get_string :: "'j \<Rightarrow> string"
  js_get_bool :: "'j \<Rightarrow> bool"
  js_get_i64 :: "'j \<Rightarrow> 64 word"
  js_get_u64 :: "'j \<Rightarrow> u64"
  js_get_double :: "'j \<Rightarrow> real"
  js_type_name :: "'j \<Rightarrow> string"

section \<open>The loader\<close>

text \<open>A \<open>JsonLoader\<close> is its root.  \<open>navigate_parts\<close> is the loop of \<open>Navigate\<close>; a null pointer is \<open>None\<close>.\<close>

fun navigate_parts :: "'j json_api \<Rightarrow> 'j \<Rightarrow> string list \<Rightarrow> 'j option" where
  "navigate_parts J node [] = Some node"
| "navigate_parts J node (part # parts) =
     (if \<not> js_is_object J node then None
      else case js_find J node part of None \<Rightarrow> None | Some child \<Rightarrow> navigate_parts J child parts)"

definition Navigate :: "'j json_api \<Rightarrow> 'j \<Rightarrow> string \<Rightarrow> 'j option" where
  "Navigate J doc dot_path = navigate_parts J doc (Split dot_path (CHR ''.''))"

definition NavigateOrThrow :: "'j json_api \<Rightarrow> 'j \<Rightarrow> string \<Rightarrow> 'j res" where
  "NavigateOrThrow J doc dot_path = (case Navigate J doc dot_path of None \<Rightarrow> Inl ConfigException | Some node \<Rightarrow> Inr node)"

definition Has :: "'j json_api \<Rightarrow> 'j \<Rightarrow> string \<Rightarrow> bool" where
  "Has J doc dot_path \<longleftrightarrow> Navigate J doc dot_path \<noteq> None"

definition Sub :: "'j json_api \<Rightarrow> 'j \<Rightarrow> string \<Rightarrow> 'j res" where
  "Sub J doc dot_path =
     rbind (NavigateOrThrow J doc dot_path) (\<lambda>node. if \<not> js_is_object J node then Inl ConfigException else Inr node)"

definition GetString :: "'j json_api \<Rightarrow> 'j \<Rightarrow> string \<Rightarrow> string res" where
  "GetString J doc dot_path =
     rbind (NavigateOrThrow J doc dot_path) (\<lambda>node.
       if \<not> js_is_string J node then Inl ConfigException else Inr (js_get_string J node))"

definition GetBool :: "'j json_api \<Rightarrow> 'j \<Rightarrow> string \<Rightarrow> bool res" where
  "GetBool J doc dot_path =
     rbind (NavigateOrThrow J doc dot_path) (\<lambda>node.
       if \<not> js_is_boolean J node then Inl ConfigException else Inr (js_get_bool J node))"

definition GetI64 :: "'j json_api \<Rightarrow> 'j \<Rightarrow> string \<Rightarrow> 64 word res" where
  "GetI64 J doc dot_path =
     rbind (NavigateOrThrow J doc dot_path) (\<lambda>node.
       if \<not> js_is_number_integer J node \<and> \<not> js_is_number_unsigned J node then Inl ConfigException
       else Inr (js_get_i64 J node))"

definition GetU64 :: "'j json_api \<Rightarrow> 'j \<Rightarrow> string \<Rightarrow> u64 res" where
  "GetU64 J doc dot_path =
     rbind (NavigateOrThrow J doc dot_path) (\<lambda>node.
       if \<not> js_is_number_unsigned J node \<and> \<not> js_is_number_integer J node then Inl ConfigException
       else Inr (js_get_u64 J node))"

definition GetU32 :: "'j json_api \<Rightarrow> 'j \<Rightarrow> string \<Rightarrow> u32 res" where
  "GetU32 J doc dot_path =
     rbind (GetU64 J doc dot_path) (\<lambda>v. if v > 0xFFFFFFFF then Inl ConfigException else Inr (ucast v))"

definition GetDouble :: "'j json_api \<Rightarrow> 'j \<Rightarrow> string \<Rightarrow> real res" where
  "GetDouble J doc dot_path =
     rbind (NavigateOrThrow J doc dot_path) (\<lambda>node.
       if \<not> js_is_number J node then Inl ConfigException else Inr (js_get_double J node))"

definition GetBigInt :: "'j json_api \<Rightarrow> 'j \<Rightarrow> string \<Rightarrow> string res" where
  "GetBigInt J doc dot_path =
     rbind (NavigateOrThrow J doc dot_path) (\<lambda>node.
       if js_is_string J node then Inr (js_get_string J node)
       else if js_is_number_integer J node \<or> js_is_number_unsigned J node then Inr (dec_string (unat (js_get_u64 J node)))
       else Inl ConfigException)"

text \<open>The loop of the three array getters.\<close>

fun array_values :: "('j \<Rightarrow> bool) \<Rightarrow> ('j \<Rightarrow> 'a) \<Rightarrow> 'j list \<Rightarrow> 'a list res" where
  "array_values ok get [] = Inr []"
| "array_values ok get (el # els) =
     (if \<not> ok el then Inl ConfigException else rbind (array_values ok get els) (\<lambda>out. Inr (get el # out)))"

definition get_array :: "'j json_api \<Rightarrow> ('j \<Rightarrow> bool) \<Rightarrow> ('j \<Rightarrow> 'a) \<Rightarrow> 'j \<Rightarrow> string \<Rightarrow> 'a list res" where
  "get_array J ok get doc dot_path =
     rbind (NavigateOrThrow J doc dot_path) (\<lambda>node.
       if \<not> js_is_array J node then Inl ConfigException else array_values ok get (js_elements J node))"

definition GetStringArray :: "'j json_api \<Rightarrow> 'j \<Rightarrow> string \<Rightarrow> string list res" where
  "GetStringArray J doc dot_path = get_array J (js_is_string J) (js_get_string J) doc dot_path"

definition GetU32Array :: "'j json_api \<Rightarrow> 'j \<Rightarrow> string \<Rightarrow> u32 list res" where
  "GetU32Array J doc dot_path =
     get_array J (\<lambda>el. js_is_number_unsigned J el \<or> js_is_number_integer J el) (\<lambda>el. ucast (js_get_u64 J el)) doc dot_path"

definition GetDoubleArray :: "'j json_api \<Rightarrow> 'j \<Rightarrow> string \<Rightarrow> real list res" where
  "GetDoubleArray J doc dot_path = get_array J (js_is_number J) (js_get_double J) doc dot_path"

text \<open>The getters with a default.\<close>

definition get_or :: "'j json_api \<Rightarrow> 'j \<Rightarrow> string \<Rightarrow> ('j json_api \<Rightarrow> 'j \<Rightarrow> string \<Rightarrow> 'a res) \<Rightarrow> 'a \<Rightarrow> 'a res" where
  "get_or J doc dot_path get def = (if \<not> Has J doc dot_path then Inr def else get J doc dot_path)"

definition GetString_or :: "'j json_api \<Rightarrow> 'j \<Rightarrow> string \<Rightarrow> string \<Rightarrow> string res" where
  "GetString_or J doc dot_path def = get_or J doc dot_path GetString def"

definition GetBool_or :: "'j json_api \<Rightarrow> 'j \<Rightarrow> string \<Rightarrow> bool \<Rightarrow> bool res" where
  "GetBool_or J doc dot_path def = get_or J doc dot_path GetBool def"

definition GetI64_or :: "'j json_api \<Rightarrow> 'j \<Rightarrow> string \<Rightarrow> 64 word \<Rightarrow> 64 word res" where
  "GetI64_or J doc dot_path def = get_or J doc dot_path GetI64 def"

definition GetU64_or :: "'j json_api \<Rightarrow> 'j \<Rightarrow> string \<Rightarrow> u64 \<Rightarrow> u64 res" where
  "GetU64_or J doc dot_path def = get_or J doc dot_path GetU64 def"

definition GetU32_or :: "'j json_api \<Rightarrow> 'j \<Rightarrow> string \<Rightarrow> u32 \<Rightarrow> u32 res" where
  "GetU32_or J doc dot_path def = get_or J doc dot_path GetU32 def"

definition GetDouble_or :: "'j json_api \<Rightarrow> 'j \<Rightarrow> string \<Rightarrow> real \<Rightarrow> real res" where
  "GetDouble_or J doc dot_path def = get_or J doc dot_path GetDouble def"

definition GetBigInt_or :: "'j json_api \<Rightarrow> 'j \<Rightarrow> string \<Rightarrow> string \<Rightarrow> string res" where
  "GetBigInt_or J doc dot_path def = get_or J doc dot_path GetBigInt def"

definition ArraySize :: "'j json_api \<Rightarrow> 'j \<Rightarrow> string \<Rightarrow> nat" where
  "ArraySize J doc dot_path =
     (case Navigate J doc dot_path of
        None \<Rightarrow> 0
      | Some node \<Rightarrow> if \<not> js_is_array J node then 0 else length (js_elements J node))"

definition ArrayElement :: "'j json_api \<Rightarrow> 'j \<Rightarrow> string \<Rightarrow> nat \<Rightarrow> 'j res" where
  "ArrayElement J doc dot_path index =
     rbind (NavigateOrThrow J doc dot_path) (\<lambda>node.
       if \<not> js_is_array J node then Inl ConfigException
       else if index \<ge> length (js_elements J node) then Inl ConfigException
       else Inr (js_elements J node ! index))"

text \<open>\<open>DeepMerge\<close>: the recursion into an object and the loop over the members of the source in one
  function.  It ends because JSON values are finite, which the library promises and the code does not show;
  hence a partial function.\<close>

partial_function (option) merge_items :: "'j json_api \<Rightarrow> 'j \<Rightarrow> (string \<times> 'j) list \<Rightarrow> 'j option" where
  "merge_items J target items =
     (case items of
        [] \<Rightarrow> Some target
      | (key, val) # rest \<Rightarrow>
          (case js_find J target key of
             None \<Rightarrow> merge_items J (js_set J target key val) rest
           | Some child \<Rightarrow>
               if js_is_object J child \<and> js_is_object J val
               then Option.bind (merge_items J child (js_items J val)) (\<lambda>merged.
                      merge_items J (js_set J target key merged) rest)
               else merge_items J (js_set J target key val) rest))"

definition DeepMerge :: "'j json_api \<Rightarrow> 'j \<Rightarrow> 'j \<Rightarrow> 'j option" where
  "DeepMerge J target source =
     (if \<not> js_is_object J source \<or> \<not> js_is_object J target then Some source
      else merge_items J target (js_items J source))"

definition MergeFrom :: "'j json_api \<Rightarrow> 'j \<Rightarrow> 'j \<Rightarrow> 'j option" where
  "MergeFrom J doc other = DeepMerge J doc other"

section \<open>The validator\<close>

datatype JsonFieldType = JF_STRING | JF_BOOL | JF_INTEGER | JF_UNSIGNED | JF_DOUBLE | JF_OBJECT | JF_ARRAY | JF_ANY

fun JsonFieldTypeToString :: "JsonFieldType \<Rightarrow> string" where
  "JsonFieldTypeToString JF_STRING = ''string''"
| "JsonFieldTypeToString JF_BOOL = ''boolean''"
| "JsonFieldTypeToString JF_INTEGER = ''integer''"
| "JsonFieldTypeToString JF_UNSIGNED = ''unsigned''"
| "JsonFieldTypeToString JF_DOUBLE = ''number''"
| "JsonFieldTypeToString JF_OBJECT = ''object''"
| "JsonFieldTypeToString JF_ARRAY = ''array''"
| "JsonFieldTypeToString JF_ANY = ''any''"

record FieldSpec =
  sp_dot_path :: string
  sp_type :: JsonFieldType
  sp_required :: bool

text \<open>A \<open>JsonValidator\<close> is the list of its fields.\<close>

definition Require :: "string \<Rightarrow> JsonFieldType \<Rightarrow> FieldSpec list \<Rightarrow> FieldSpec list" where
  "Require dot_path type specs = specs @ [\<lparr> sp_dot_path = dot_path, sp_type = type, sp_required = True \<rparr>]"

definition Optional :: "string \<Rightarrow> JsonFieldType \<Rightarrow> FieldSpec list \<Rightarrow> FieldSpec list" where
  "Optional dot_path type specs = specs @ [\<lparr> sp_dot_path = dot_path, sp_type = type, sp_required = False \<rparr>]"

fun CheckType :: "'j json_api \<Rightarrow> 'j \<Rightarrow> JsonFieldType \<Rightarrow> bool" where
  "CheckType J node JF_STRING = js_is_string J node"
| "CheckType J node JF_BOOL = js_is_boolean J node"
| "CheckType J node JF_INTEGER = (js_is_number_integer J node \<or> js_is_number_unsigned J node)"
| "CheckType J node JF_UNSIGNED =
     (js_is_number_unsigned J node \<or> (js_is_number_integer J node \<and> sint (js_get_i64 J node) \<ge> 0))"
| "CheckType J node JF_DOUBLE = js_is_number J node"
| "CheckType J node JF_OBJECT = js_is_object J node"
| "CheckType J node JF_ARRAY = js_is_array J node"
| "CheckType J node JF_ANY = True"

text \<open>The errors one field adds.  The loop walks the path a second time.\<close>

definition field_errors :: "'j json_api \<Rightarrow> 'j \<Rightarrow> FieldSpec \<Rightarrow> string list" where
  "field_errors J doc spec =
     (if \<not> Has J doc (sp_dot_path spec)
      then (if sp_required spec then [''Missing required key: '' @ [CHR 0x27] @ sp_dot_path spec @ [CHR 0x27]] else [])
      else
        case navigate_parts J doc (Split (sp_dot_path spec) (CHR ''.'')) of
          None \<Rightarrow> [''Navigation failed for: '' @ [CHR 0x27] @ sp_dot_path spec @ [CHR 0x27]]
        | Some cur \<Rightarrow>
            if \<not> CheckType J cur (sp_type spec)
            then [''Key '' @ [CHR 0x27] @ sp_dot_path spec @ [CHR 0x27] @ '' has wrong type: expected '' @
                  JsonFieldTypeToString (sp_type spec) @ '', got '' @ js_type_name J cur]
            else [])"

definition Json_Validate :: "'j json_api \<Rightarrow> 'j \<Rightarrow> FieldSpec list \<Rightarrow> string list" where
  "Json_Validate J doc specs = concat (map (field_errors J doc) specs)"

definition Json_ValidateOrThrow :: "'j json_api \<Rightarrow> 'j \<Rightarrow> FieldSpec list \<Rightarrow> unit res" where
  "Json_ValidateOrThrow J doc specs = (if Json_Validate J doc specs \<noteq> [] then Inl ConfigException else Inr ())"

section \<open>The configuration\<close>

record SlaveKeyParams =
  skp_uav_id :: u32
  skp_e_i :: string
  skp_d_i :: string
  skp_n_i :: string

record ClusterCryptoParams =
  ccp_cluster_id :: u32
  ccp_skdc_id :: u32
  ccp_num_slaves :: u32
  ccp_master_key_eM :: string
  ccp_master_mod_M :: string
  ccp_tek :: string
  ccp_slaves :: "SlaveKeyParams list"

record ConfigManager =
  cfg_sim_loaded :: bool
  cfg_crypto_loaded :: bool
  cfg_num_kdc :: u32
  cfg_num_skdcs :: u32
  cfg_num_clusters :: u32
  cfg_uavs_per_cluster :: u32
  cfg_num_uavs :: u32
  cfg_num_jammers :: u32
  cfg_max_uav_count :: u32
  cfg_sim_duration :: real
  cfg_rng_seed :: u32
  cfg_run_index :: u32
  cfg_num_runs :: u32
  cfg_debug :: bool
  cfg_enable_netanim :: bool
  cfg_enable_pcap :: bool
  cfg_enable_flowmonitor :: bool
  cfg_area_x_min :: real
  cfg_area_x_max :: real
  cfg_area_y_min :: real
  cfg_area_y_max :: real
  cfg_area_z_min :: real
  cfg_area_z_max :: real
  cfg_uav_speed_min :: real
  cfg_uav_speed_max :: real
  cfg_uav_alt_min :: real
  cfg_uav_alt_max :: real
  cfg_jammer_speed :: real
  cfg_freq_hz :: real
  cfg_channel_width_mhz :: real
  cfg_tx_power_dbm :: real
  cfg_phy_rate_mbps :: real
  cfg_jammer_power_dbm :: real
  cfg_sinr_threshold_db :: real
  cfg_olsr_hello_interval :: real
  cfg_olsr_tc_interval :: real
  cfg_node_compromise_prob :: real
  cfg_replay_window_size :: u32
  cfg_replay_skew_us :: u64
  cfg_log_dir :: string
  cfg_output_dir :: string
  cfg_pcap_dir :: string
  cfg_json_dir :: string
  cfg_graphs_dir :: string
  cfg_csv_interval_s :: real
  cfg_netanim_interval_ms :: real
  cfg_kdc_udp_port :: u16
  cfg_skdc_udp_port :: u16
  cfg_uav_data_udp_port :: u16
  cfg_mtk_multicast_port :: u16
  cfg_crypto_scheme :: string
  cfg_crypto_aes_bits :: u32
  cfg_crypto_hmac :: string
  cfg_key_version :: u32
  cfg_num_safe_primes :: u32
  cfg_prime_bits :: u32
  cfg_clusters :: "ClusterCryptoParams list"

definition ConfigManager_new :: ConfigManager where
  "ConfigManager_new =
     \<lparr> cfg_sim_loaded = False, cfg_crypto_loaded = False,
       cfg_num_kdc = 1, cfg_num_skdcs = 3, cfg_num_clusters = 3, cfg_uavs_per_cluster = 6,
       cfg_num_uavs = 18, cfg_num_jammers = 1, cfg_max_uav_count = 30, cfg_sim_duration = 180,
       cfg_rng_seed = 10, cfg_run_index = 1, cfg_num_runs = 10, cfg_debug = False,
       cfg_enable_netanim = True, cfg_enable_pcap = True, cfg_enable_flowmonitor = True, cfg_area_x_min = 0,
       cfg_area_x_max = 1500, cfg_area_y_min = 0, cfg_area_y_max = 1500, cfg_area_z_min = 50,
       cfg_area_z_max = 200, cfg_uav_speed_min = 10, cfg_uav_speed_max = 25, cfg_uav_alt_min = 50,
       cfg_uav_alt_max = 150, cfg_jammer_speed = 10, cfg_freq_hz = 5000000000, cfg_channel_width_mhz = 20,
       cfg_tx_power_dbm = 20, cfg_phy_rate_mbps = 26, cfg_jammer_power_dbm = 30, cfg_sinr_threshold_db = 8,
       cfg_olsr_hello_interval = 2, cfg_olsr_tc_interval = 5, cfg_node_compromise_prob = 0.05, cfg_replay_window_size = 64,
       cfg_replay_skew_us = 5000000, cfg_log_dir = ''logs'', cfg_output_dir = ''output'', cfg_pcap_dir = ''pcap'',
       cfg_json_dir = ''json'', cfg_graphs_dir = ''graphs'', cfg_csv_interval_s = 1, cfg_netanim_interval_ms = 100,
       cfg_kdc_udp_port = 9000, cfg_skdc_udp_port = 9001, cfg_uav_data_udp_port = 9100, cfg_mtk_multicast_port = 9200,
       cfg_crypto_scheme = ''CRT-GCRT'', cfg_crypto_aes_bits = 256, cfg_crypto_hmac = ''SHA256'', cfg_key_version = 1,
       cfg_num_safe_primes = 18, cfg_prime_bits = 512,
       cfg_clusters = [] \<rparr>"

definition Cfg_Reset :: "ConfigManager \<Rightarrow> ConfigManager" where
  "Cfg_Reset cfg =
     cfg \<lparr> cfg_sim_loaded := False, cfg_crypto_loaded := False, cfg_clusters := [],
           cfg_num_kdc := 1, cfg_num_skdcs := 3, cfg_num_clusters := 3, cfg_uavs_per_cluster := 6,
           cfg_num_uavs := 18, cfg_num_jammers := 1, cfg_max_uav_count := 30, cfg_sim_duration := 180,
           cfg_rng_seed := 10, cfg_run_index := 1, cfg_num_runs := 10, cfg_debug := False,
           cfg_enable_netanim := True, cfg_enable_pcap := True, cfg_enable_flowmonitor := True, cfg_log_dir := ''logs'',
           cfg_output_dir := ''output'', cfg_pcap_dir := ''pcap'', cfg_json_dir := ''json'', cfg_graphs_dir := ''graphs'',
           cfg_crypto_scheme := ''CRT-GCRT'', cfg_crypto_aes_bits := 256, cfg_crypto_hmac := ''SHA256'', cfg_key_version := 1,
           cfg_num_safe_primes := 18, cfg_prime_bits := 512, cfg_kdc_udp_port := 9000, cfg_skdc_udp_port := 9001,
           cfg_uav_data_udp_port := 9100, cfg_mtk_multicast_port := 9200 \<rparr>"

text \<open>A sequence of assignments, each of which reads a value and may throw; what was assigned
  before the exception stays.\<close>

definition read_into ::
    "(ConfigManager \<Rightarrow> 'a res) \<Rightarrow> ('a \<Rightarrow> ConfigManager \<Rightarrow> ConfigManager) \<Rightarrow> ConfigManager \<Rightarrow> ConfigManager res" where
  "read_into get put cfg = rbind (get cfg) (\<lambda>v. Inr (put v cfg))"

fun assign_all :: "(ConfigManager \<Rightarrow> ConfigManager res) list \<Rightarrow> ConfigManager \<Rightarrow> uav_exn option \<times> ConfigManager" where
  "assign_all [] cfg = (None, cfg)"
| "assign_all (s # ss) cfg = (case s cfg of Inl e \<Rightarrow> (Some e, cfg) | Inr cfg \<Rightarrow> assign_all ss cfg)"

definition sim_assignments :: "'j json_api \<Rightarrow> 'j \<Rightarrow> (ConfigManager \<Rightarrow> ConfigManager res) list" where
  "sim_assignments J L =
     [read_into (\<lambda>cfg. GetU32_or J L ''topology.num_kdc'' (cfg_num_kdc cfg)) (\<lambda>v cfg. cfg \<lparr> cfg_num_kdc := v \<rparr>),
      read_into (\<lambda>cfg. GetU32_or J L ''topology.num_skdcs'' (cfg_num_skdcs cfg)) (\<lambda>v cfg. cfg \<lparr> cfg_num_skdcs := v \<rparr>),
      read_into (\<lambda>cfg. GetU32_or J L ''topology.num_clusters'' (cfg_num_clusters cfg)) (\<lambda>v cfg. cfg \<lparr> cfg_num_clusters := v \<rparr>),
      read_into (\<lambda>cfg. GetU32_or J L ''topology.uavs_per_cluster'' (cfg_uavs_per_cluster cfg)) (\<lambda>v cfg. cfg \<lparr> cfg_uavs_per_cluster := v \<rparr>),
      read_into (\<lambda>cfg. GetU32_or J L ''topology.num_uavs'' (cfg_num_uavs cfg)) (\<lambda>v cfg. cfg \<lparr> cfg_num_uavs := v \<rparr>),
      read_into (\<lambda>cfg. GetU32_or J L ''topology.num_jammers'' (cfg_num_jammers cfg)) (\<lambda>v cfg. cfg \<lparr> cfg_num_jammers := v \<rparr>),
      read_into (\<lambda>cfg. GetU32_or J L ''topology.max_uav_count'' (cfg_max_uav_count cfg)) (\<lambda>v cfg. cfg \<lparr> cfg_max_uav_count := v \<rparr>),
      read_into (\<lambda>cfg. GetDouble_or J L ''simulation.duration_s'' (cfg_sim_duration cfg)) (\<lambda>v cfg. cfg \<lparr> cfg_sim_duration := v \<rparr>),
      read_into (\<lambda>cfg. GetU32_or J L ''simulation.rng_seed'' (cfg_rng_seed cfg)) (\<lambda>v cfg. cfg \<lparr> cfg_rng_seed := v \<rparr>),
      read_into (\<lambda>cfg. GetU32_or J L ''simulation.runs'' (cfg_num_runs cfg)) (\<lambda>v cfg. cfg \<lparr> cfg_num_runs := v \<rparr>),
      read_into (\<lambda>cfg. GetBool_or J L ''simulation.debug'' (cfg_debug cfg)) (\<lambda>v cfg. cfg \<lparr> cfg_debug := v \<rparr>),
      read_into (\<lambda>cfg. GetBool_or J L ''simulation.enable_netanim'' (cfg_enable_netanim cfg)) (\<lambda>v cfg. cfg \<lparr> cfg_enable_netanim := v \<rparr>),
      read_into (\<lambda>cfg. GetBool_or J L ''simulation.enable_pcap'' (cfg_enable_pcap cfg)) (\<lambda>v cfg. cfg \<lparr> cfg_enable_pcap := v \<rparr>),
      read_into (\<lambda>cfg. GetBool_or J L ''simulation.enable_flowmonitor'' (cfg_enable_flowmonitor cfg)) (\<lambda>v cfg. cfg \<lparr> cfg_enable_flowmonitor := v \<rparr>),
      read_into (\<lambda>cfg. GetDouble_or J L ''area.x_min'' (cfg_area_x_min cfg)) (\<lambda>v cfg. cfg \<lparr> cfg_area_x_min := v \<rparr>),
      read_into (\<lambda>cfg. GetDouble_or J L ''area.x_max'' (cfg_area_x_max cfg)) (\<lambda>v cfg. cfg \<lparr> cfg_area_x_max := v \<rparr>),
      read_into (\<lambda>cfg. GetDouble_or J L ''area.y_min'' (cfg_area_y_min cfg)) (\<lambda>v cfg. cfg \<lparr> cfg_area_y_min := v \<rparr>),
      read_into (\<lambda>cfg. GetDouble_or J L ''area.y_max'' (cfg_area_y_max cfg)) (\<lambda>v cfg. cfg \<lparr> cfg_area_y_max := v \<rparr>),
      read_into (\<lambda>cfg. GetDouble_or J L ''area.z_min'' (cfg_area_z_min cfg)) (\<lambda>v cfg. cfg \<lparr> cfg_area_z_min := v \<rparr>),
      read_into (\<lambda>cfg. GetDouble_or J L ''area.z_max'' (cfg_area_z_max cfg)) (\<lambda>v cfg. cfg \<lparr> cfg_area_z_max := v \<rparr>),
      read_into (\<lambda>cfg. GetDouble_or J L ''mobility.uav_speed_min'' (cfg_uav_speed_min cfg)) (\<lambda>v cfg. cfg \<lparr> cfg_uav_speed_min := v \<rparr>),
      read_into (\<lambda>cfg. GetDouble_or J L ''mobility.uav_speed_max'' (cfg_uav_speed_max cfg)) (\<lambda>v cfg. cfg \<lparr> cfg_uav_speed_max := v \<rparr>),
      read_into (\<lambda>cfg. GetDouble_or J L ''mobility.uav_alt_min'' (cfg_uav_alt_min cfg)) (\<lambda>v cfg. cfg \<lparr> cfg_uav_alt_min := v \<rparr>),
      read_into (\<lambda>cfg. GetDouble_or J L ''mobility.uav_alt_max'' (cfg_uav_alt_max cfg)) (\<lambda>v cfg. cfg \<lparr> cfg_uav_alt_max := v \<rparr>),
      read_into (\<lambda>cfg. GetDouble_or J L ''mobility.jammer_speed'' (cfg_jammer_speed cfg)) (\<lambda>v cfg. cfg \<lparr> cfg_jammer_speed := v \<rparr>),
      read_into (\<lambda>cfg. GetDouble_or J L ''wireless.freq_hz'' (cfg_freq_hz cfg)) (\<lambda>v cfg. cfg \<lparr> cfg_freq_hz := v \<rparr>),
      read_into (\<lambda>cfg. GetDouble_or J L ''wireless.channel_width_mhz'' (cfg_channel_width_mhz cfg)) (\<lambda>v cfg. cfg \<lparr> cfg_channel_width_mhz := v \<rparr>),
      read_into (\<lambda>cfg. GetDouble_or J L ''wireless.tx_power_dbm'' (cfg_tx_power_dbm cfg)) (\<lambda>v cfg. cfg \<lparr> cfg_tx_power_dbm := v \<rparr>),
      read_into (\<lambda>cfg. GetDouble_or J L ''wireless.phy_rate_mbps'' (cfg_phy_rate_mbps cfg)) (\<lambda>v cfg. cfg \<lparr> cfg_phy_rate_mbps := v \<rparr>),
      read_into (\<lambda>cfg. GetDouble_or J L ''wireless.jammer_power_dbm'' (cfg_jammer_power_dbm cfg)) (\<lambda>v cfg. cfg \<lparr> cfg_jammer_power_dbm := v \<rparr>),
      read_into (\<lambda>cfg. GetDouble_or J L ''wireless.sinr_threshold_db'' (cfg_sinr_threshold_db cfg)) (\<lambda>v cfg. cfg \<lparr> cfg_sinr_threshold_db := v \<rparr>),
      read_into (\<lambda>cfg. GetDouble_or J L ''olsr.hello_interval_s'' (cfg_olsr_hello_interval cfg)) (\<lambda>v cfg. cfg \<lparr> cfg_olsr_hello_interval := v \<rparr>),
      read_into (\<lambda>cfg. GetDouble_or J L ''olsr.tc_interval_s'' (cfg_olsr_tc_interval cfg)) (\<lambda>v cfg. cfg \<lparr> cfg_olsr_tc_interval := v \<rparr>),
      read_into (\<lambda>cfg. GetDouble_or J L ''security.node_compromise_prob'' (cfg_node_compromise_prob cfg)) (\<lambda>v cfg. cfg \<lparr> cfg_node_compromise_prob := v \<rparr>),
      read_into (\<lambda>cfg. GetU32_or J L ''security.replay_window_size'' (cfg_replay_window_size cfg)) (\<lambda>v cfg. cfg \<lparr> cfg_replay_window_size := v \<rparr>),
      read_into (\<lambda>cfg. GetU64_or J L ''security.replay_skew_us'' (cfg_replay_skew_us cfg)) (\<lambda>v cfg. cfg \<lparr> cfg_replay_skew_us := v \<rparr>),
      read_into (\<lambda>cfg. GetString_or J L ''output.log_dir'' (cfg_log_dir cfg)) (\<lambda>v cfg. cfg \<lparr> cfg_log_dir := v \<rparr>),
      read_into (\<lambda>cfg. GetString_or J L ''output.output_dir'' (cfg_output_dir cfg)) (\<lambda>v cfg. cfg \<lparr> cfg_output_dir := v \<rparr>),
      read_into (\<lambda>cfg. GetString_or J L ''output.pcap_dir'' (cfg_pcap_dir cfg)) (\<lambda>v cfg. cfg \<lparr> cfg_pcap_dir := v \<rparr>),
      read_into (\<lambda>cfg. GetString_or J L ''output.json_dir'' (cfg_json_dir cfg)) (\<lambda>v cfg. cfg \<lparr> cfg_json_dir := v \<rparr>),
      read_into (\<lambda>cfg. GetString_or J L ''output.graphs_dir'' (cfg_graphs_dir cfg)) (\<lambda>v cfg. cfg \<lparr> cfg_graphs_dir := v \<rparr>),
      read_into (\<lambda>cfg. GetDouble_or J L ''output.csv_interval_s'' (cfg_csv_interval_s cfg)) (\<lambda>v cfg. cfg \<lparr> cfg_csv_interval_s := v \<rparr>),
      read_into (\<lambda>cfg. GetDouble_or J L ''output.netanim_interval_ms'' (cfg_netanim_interval_ms cfg)) (\<lambda>v cfg. cfg \<lparr> cfg_netanim_interval_ms := v \<rparr>),
      read_into (\<lambda>cfg. rbind (GetU32_or J L ''ports.kdc_udp'' (ucast (cfg_kdc_udp_port cfg))) (\<lambda>v. Inr (ucast v))) (\<lambda>v cfg. cfg \<lparr> cfg_kdc_udp_port := v \<rparr>),
      read_into (\<lambda>cfg. rbind (GetU32_or J L ''ports.skdc_udp'' (ucast (cfg_skdc_udp_port cfg))) (\<lambda>v. Inr (ucast v))) (\<lambda>v cfg. cfg \<lparr> cfg_skdc_udp_port := v \<rparr>),
      read_into (\<lambda>cfg. rbind (GetU32_or J L ''ports.uav_data_udp'' (ucast (cfg_uav_data_udp_port cfg))) (\<lambda>v. Inr (ucast v))) (\<lambda>v cfg. cfg \<lparr> cfg_uav_data_udp_port := v \<rparr>),
      read_into (\<lambda>cfg. rbind (GetU32_or J L ''ports.mtk_multicast'' (ucast (cfg_mtk_multicast_port cfg))) (\<lambda>v. Inr (ucast v))) (\<lambda>v cfg. cfg \<lparr> cfg_mtk_multicast_port := v \<rparr>)]"

definition ParseSimJson :: "'j json_api \<Rightarrow> 'j \<Rightarrow> ConfigManager \<Rightarrow> uav_exn option \<times> ConfigManager" where
  "ParseSimJson J L cfg = assign_all (sim_assignments J L) cfg"

text \<open>\<open>file\<close> is \<open>None\<close> when there is no file, and otherwise the outcome of reading and parsing it.\<close>

definition LoadSimConfig :: "'j json_api \<Rightarrow> 'j res option \<Rightarrow> ConfigManager \<Rightarrow> uav_exn option \<times> ConfigManager" where
  "LoadSimConfig J file cfg =
     (case file of
        None \<Rightarrow> (None, cfg \<lparr> cfg_sim_loaded := True \<rparr>)
      | Some (Inl e) \<Rightarrow> (Some ConfigException, cfg)
      | Some (Inr L) \<Rightarrow>
          (case ParseSimJson J L cfg of
             (Some e, cfg) \<Rightarrow> (Some ConfigException, cfg)
           | (None, cfg) \<Rightarrow> (None, cfg \<lparr> cfg_sim_loaded := True \<rparr>)))"

definition parse_slave :: "'j json_api \<Rightarrow> 'j \<Rightarrow> nat \<Rightarrow> SlaveKeyParams res" where
  "parse_slave J cl j =
     rbind (ArrayElement J cl ''slaves'' j) (\<lambda>sl.
     rbind (GetU32_or J sl ''uav_id'' (of_nat j)) (\<lambda>uav_id.
     rbind (GetBigInt_or J sl ''e_i'' ''65537'') (\<lambda>e_i.
     rbind (GetBigInt_or J sl ''d_i'' ''0'') (\<lambda>d_i.
     rbind (GetBigInt_or J sl ''n_i'' ''0'') (\<lambda>n_i.
       Inr \<lparr> skp_uav_id = uav_id, skp_e_i = e_i, skp_d_i = d_i, skp_n_i = n_i \<rparr>)))))"

fun parse_slaves :: "'j json_api \<Rightarrow> 'j \<Rightarrow> nat list \<Rightarrow> SlaveKeyParams list res" where
  "parse_slaves J cl [] = Inr []"
| "parse_slaves J cl (j # js) =
     rbind (parse_slave J cl j) (\<lambda>sk. rbind (parse_slaves J cl js) (\<lambda>sks. Inr (sk # sks)))"

definition parse_cluster :: "'j json_api \<Rightarrow> 'j \<Rightarrow> nat \<Rightarrow> ClusterCryptoParams res" where
  "parse_cluster J L i =
     rbind (ArrayElement J L ''crypto.clusters'' i) (\<lambda>cl.
     rbind (GetU32_or J cl ''cluster_id'' (of_nat i)) (\<lambda>cluster_id.
     rbind (GetU32_or J cl ''skdc_id'' (of_nat i)) (\<lambda>skdc_id.
     rbind (GetU32_or J cl ''num_slaves'' 6) (\<lambda>num_slaves.
     rbind (GetBigInt_or J cl ''master_key_eM'' ''0'') (\<lambda>eM.
     rbind (GetBigInt_or J cl ''master_mod_M'' ''0'') (\<lambda>mod_M.
     rbind (GetString_or J cl ''tek'' (replicate 64 (CHR ''0''))) (\<lambda>tek.
     rbind (parse_slaves J cl [0..<ArraySize J cl ''slaves'']) (\<lambda>slaves.
       Inr \<lparr> ccp_cluster_id = cluster_id, ccp_skdc_id = skdc_id, ccp_num_slaves = num_slaves, ccp_master_key_eM = eM,
             ccp_master_mod_M = mod_M, ccp_tek = tek, ccp_slaves = slaves \<rparr>))))))))"

definition crypto_assignments :: "'j json_api \<Rightarrow> 'j \<Rightarrow> (ConfigManager \<Rightarrow> ConfigManager res) list" where
  "crypto_assignments J L =
     [read_into (\<lambda>cfg. GetString_or J L ''crypto.scheme'' (cfg_crypto_scheme cfg)) (\<lambda>v cfg. cfg \<lparr> cfg_crypto_scheme := v \<rparr>),
      read_into (\<lambda>cfg. GetU32_or J L ''crypto.aes_bits'' (cfg_crypto_aes_bits cfg)) (\<lambda>v cfg. cfg \<lparr> cfg_crypto_aes_bits := v \<rparr>),
      read_into (\<lambda>cfg. GetString_or J L ''crypto.hmac'' (cfg_crypto_hmac cfg)) (\<lambda>v cfg. cfg \<lparr> cfg_crypto_hmac := v \<rparr>),
      read_into (\<lambda>cfg. GetU32_or J L ''crypto.key_version'' (cfg_key_version cfg)) (\<lambda>v cfg. cfg \<lparr> cfg_key_version := v \<rparr>)] @
     (if Has J L ''crypto.kdc''
      then [read_into (\<lambda>cfg. GetU32_or J L ''crypto.kdc.num_safe_primes'' (cfg_num_safe_primes cfg)) (\<lambda>v cfg. cfg \<lparr> cfg_num_safe_primes := v \<rparr>),
            read_into (\<lambda>cfg. GetU32_or J L ''crypto.kdc.prime_bits'' (cfg_prime_bits cfg)) (\<lambda>v cfg. cfg \<lparr> cfg_prime_bits := v \<rparr>)]
      else []) @
     [\<lambda>cfg. Inr (cfg \<lparr> cfg_clusters := [] \<rparr>)] @
     map (\<lambda>i. read_into (\<lambda>cfg. parse_cluster J L i) (\<lambda>cp cfg. cfg \<lparr> cfg_clusters := cfg_clusters cfg @ [cp] \<rparr>))
       [0..<ArraySize J L ''crypto.clusters'']"

definition ParseCryptoJson :: "'j json_api \<Rightarrow> 'j \<Rightarrow> ConfigManager \<Rightarrow> uav_exn option \<times> ConfigManager" where
  "ParseCryptoJson J L cfg = assign_all (crypto_assignments J L) cfg"

definition LoadCryptoConfig :: "'j json_api \<Rightarrow> 'j res option \<Rightarrow> ConfigManager \<Rightarrow> uav_exn option \<times> ConfigManager" where
  "LoadCryptoConfig J file cfg =
     (case file of
        None \<Rightarrow> (None, cfg \<lparr> cfg_crypto_loaded := True \<rparr>)
      | Some (Inl e) \<Rightarrow> (Some ConfigException, cfg)
      | Some (Inr L) \<Rightarrow>
          (case ParseCryptoJson J L cfg of
             (Some e, cfg) \<Rightarrow> (Some ConfigException, cfg)
           | (None, cfg) \<Rightarrow> (None, cfg \<lparr> cfg_crypto_loaded := True \<rparr>)))"

section \<open>The command line\<close>

text \<open>\<open>std::stoul\<close> in base ten: white space, a sign, digits; a minus sign negates in 64 bits.\<close>

definition is_digit :: "char \<Rightarrow> bool" where
  "is_digit c \<longleftrightarrow> (let n = (of_char c :: nat) in 48 \<le> n \<and> n \<le> 57)"

definition digits_value :: "string \<Rightarrow> nat" where
  "digits_value s = foldl (\<lambda>v c. 10 * v + (of_char c - 48)) 0 s"

definition stoul :: "string \<Rightarrow> u64 res" where
  "stoul s =
     (let s = TrimLeft s;
          neg = (s \<noteq> [] \<and> hd s = CHR ''-'');
          s = (if s \<noteq> [] \<and> (hd s = CHR ''-'' \<or> hd s = CHR ''+'') then tl s else s);
          digits = takeWhile is_digit s
      in if digits = [] then Inl StdException
         else if digits_value digits \<ge> 2 ^ 64 then Inl StdException
         else Inr (let v = of_nat (digits_value digits) in if neg then - v else v))"

definition stoul32 :: "string \<Rightarrow> u32 res" where
  "stoul32 s = rbind (stoul s) (\<lambda>v. Inr (ucast v))"

text \<open>One option \<open>key=val\<close>; a value that does not parse leaves the field as it is.\<close>

definition set_or_keep :: "'a res \<Rightarrow> ('a \<Rightarrow> ConfigManager \<Rightarrow> ConfigManager) \<Rightarrow> ConfigManager \<Rightarrow> ConfigManager" where
  "set_or_keep v put cfg = (case v of Inl e \<Rightarrow> cfg | Inr v \<Rightarrow> put v cfg)"

definition apply_option :: "(string \<Rightarrow> real res) \<Rightarrow> string \<Rightarrow> string \<Rightarrow> ConfigManager \<Rightarrow> ConfigManager" where
  "apply_option stod key val cfg =
     (if key = ''simDuration'' then set_or_keep (stod val) (\<lambda>v cfg. cfg \<lparr> cfg_sim_duration := v \<rparr>) cfg
      else if key = ''RngSeed'' then set_or_keep (stoul32 val) (\<lambda>v cfg. cfg \<lparr> cfg_rng_seed := v \<rparr>) cfg
      else if key = ''runIndex'' then set_or_keep (stoul32 val) (\<lambda>v cfg. cfg \<lparr> cfg_run_index := v \<rparr>) cfg
      else if key = ''logDir'' then cfg \<lparr> cfg_log_dir := val \<rparr>
      else if key = ''outputDir'' then cfg \<lparr> cfg_output_dir := val \<rparr>
      else if key = ''pcapDir'' then cfg \<lparr> cfg_pcap_dir := val \<rparr>
      else if key = ''jsonDir'' then cfg \<lparr> cfg_json_dir := val \<rparr>
      else if key = ''numUavs'' then set_or_keep (stoul32 val) (\<lambda>v cfg. cfg \<lparr> cfg_num_uavs := v \<rparr>) cfg
      else if key = ''debug'' then cfg \<lparr> cfg_debug := val = ''true'' \<or> val = ''1'' \<rparr>
      else cfg)"

definition apply_arg :: "(string \<Rightarrow> real res) \<Rightarrow> string \<Rightarrow> ConfigManager \<Rightarrow> ConfigManager" where
  "apply_arg stod arg cfg =
     (if \<not> (length arg > 2 \<and> arg ! 0 = CHR ''-'' \<and> arg ! 1 = CHR ''-'') then cfg
      else
        let arg = drop 2 arg in
        case dropWhile (\<lambda>c. c \<noteq> CHR ''='') arg of
          [] \<Rightarrow> if arg = ''debug'' then cfg \<lparr> cfg_debug := True \<rparr> else cfg
        | eq # val \<Rightarrow> apply_option stod (takeWhile (\<lambda>c. c \<noteq> CHR ''='') arg) val cfg)"

text \<open>\<open>args\<close> are the arguments after the name of the program.\<close>

definition ApplyCliOverrides :: "(string \<Rightarrow> real res) \<Rightarrow> string list \<Rightarrow> ConfigManager \<Rightarrow> ConfigManager" where
  "ApplyCliOverrides stod args cfg = fold (apply_arg stod) args cfg"

section \<open>The checks\<close>

definition validation_errors :: "ConfigManager \<Rightarrow> string list" where
  "validation_errors cfg =
     (if cfg_num_uavs cfg = 0 then [''num_uavs must be > 0''] else []) @
     (if cfg_num_clusters cfg = 0 then [''num_clusters must be > 0''] else []) @
     (if cfg_uavs_per_cluster cfg = 0 then [''uavs_per_cluster must be > 0''] else []) @
     (if cfg_num_uavs cfg \<noteq> cfg_num_clusters cfg * cfg_uavs_per_cluster cfg
      then [''num_uavs ('' @ dec_string (unat (cfg_num_uavs cfg)) @ '') != num_clusters * uavs_per_cluster ('' @
            dec_string (unat (cfg_num_clusters cfg)) @ '' * '' @ dec_string (unat (cfg_uavs_per_cluster cfg)) @ '')'']
      else []) @
     (if cfg_num_skdcs cfg \<noteq> cfg_num_clusters cfg
      then [''num_skdcs ('' @ dec_string (unat (cfg_num_skdcs cfg)) @ '') must equal num_clusters ('' @
            dec_string (unat (cfg_num_clusters cfg)) @ '')'']
      else []) @
     (if cfg_sim_duration cfg \<le> 0 then [''sim_duration must be > 0''] else []) @
     (if cfg_rng_seed cfg = 0 then [''rng_seed must be > 0''] else []) @
     (if cfg_area_x_max cfg \<le> cfg_area_x_min cfg \<or> cfg_area_y_max cfg \<le> cfg_area_y_min cfg \<or>
         cfg_area_z_max cfg \<le> cfg_area_z_min cfg
      then [''area max must be > area min on all axes''] else []) @
     (if cfg_sinr_threshold_db cfg < 0 then [''sinr_threshold_db must be >= 0''] else []) @
     (if cfg_crypto_aes_bits cfg \<noteq> 128 \<and> cfg_crypto_aes_bits cfg \<noteq> 256 then [''crypto.aes_bits must be 128 or 256'']
      else [])"

definition Cfg_ValidateOrThrow :: "ConfigManager \<Rightarrow> unit res" where
  "Cfg_ValidateOrThrow cfg = (if validation_errors cfg \<noteq> [] then Inl ConfigException else Inr ())"

definition ClusterCrypto :: "u32 \<Rightarrow> ConfigManager \<Rightarrow> ClusterCryptoParams res" where
  "ClusterCrypto cluster_id cfg =
     (case find (\<lambda>cp. ccp_cluster_id cp = cluster_id) (cfg_clusters cfg) of None \<Rightarrow> Inl ConfigException | Some cp \<Rightarrow> Inr cp)"

section \<open>Paths\<close>

lemma navigate_append:
  "navigate_parts J node (ps @ qs) = Option.bind (navigate_parts J node ps) (\<lambda>node. navigate_parts J node qs)"
  by (induction ps arbitrary: node) (auto split: option.splits)

lemma Split_append:
  assumes "p \<noteq> []" and "last p \<noteq> d"
  shows "Split (p @ d # q) d = Split p d @ Split q d"
  using assms
proof (induction p d rule: Split.induct)
  case (1 p d)
  show ?case
  proof (cases "d \<in> set p")
    case False
    then show ?thesis using 1(2) by (simp add: Split_step Split_last)
  next
    case True
    then obtain a rest where p: "p = a @ d # rest" and a: "d \<notin> set a" by (meson split_list_first)
    have "rest \<noteq> []" using 1(3) p by auto
    moreover have "last rest \<noteq> d" using 1(3) p \<open>rest \<noteq> []\<close> by simp
    moreover have "dropWhile (\<lambda>c. c \<noteq> d) p = d # rest" using p a by (simp add: dropWhile_append)
    ultimately have "Split (rest @ d # q) d = Split rest d @ Split q d" using 1(1)[OF 1(2)] by blast
    then show ?thesis using p a by (simp add: Split_step)
  qed
qed

text \<open>A dotted path is the composition of its parts, and a trailing dot makes no difference.\<close>

lemma Navigate_compose:
  assumes "p \<noteq> []" and "last p \<noteq> CHR ''.''"
  shows "Navigate J doc (p @ ''.'' @ q) = Option.bind (Navigate J doc p) (\<lambda>node. Navigate J node q)"
    and "Has J doc (p @ ''.'') = Has J doc p"
  using Split_append[OF assms] Split_append[OF assms, of "[]"]
  by (simp_all add: Navigate_def Has_def navigate_append)

lemma Navigate_empty: "Navigate J doc '''' = Some doc"
  by (simp add: Navigate_def)

text \<open>A getter with a default throws only when the key is there and has the wrong type.\<close>

lemma getter_total:
  "\<not> Has J doc k \<Longrightarrow> get_or J doc k get def = Inr def"
  "Has J doc k \<Longrightarrow> get_or J doc k get def = get J doc k"
  by (simp_all add: get_or_def)

lemma GetU32_bounds:
  "GetU32 J doc k = Inr v \<longleftrightarrow> (\<exists>w. GetU64 J doc k = Inr w \<and> w \<le> 0xFFFFFFFF \<and> v = ucast w)"
  by (auto simp: GetU32_def rbind_eq_Inr_iff not_less split: if_splits)

text \<open>\<open>Navigation failed\<close> is never reported: the validator says nothing but missing keys and wrong types.\<close>

lemma Json_Validate_iff:
  "Json_Validate J doc specs = [] \<longleftrightarrow>
     (\<forall>spec\<in>set specs. case Navigate J doc (sp_dot_path spec) of
        None \<Rightarrow> \<not> sp_required spec
      | Some node \<Rightarrow> CheckType J node (sp_type spec))"
proof -
  have "field_errors J doc spec = [] \<longleftrightarrow>
      (case Navigate J doc (sp_dot_path spec) of None \<Rightarrow> \<not> sp_required spec | Some node \<Rightarrow> CheckType J node (sp_type spec))" for spec
    by (cases "navigate_parts J doc (Split (sp_dot_path spec) (CHR ''.''))") (simp_all add: field_errors_def Has_def Navigate_def)
  then show ?thesis by (simp add: Json_Validate_def)
qed

lemma Json_ValidateOrThrow_iff: "Json_ValidateOrThrow J doc specs = Inr () \<longleftrightarrow> Json_Validate J doc specs = []"
  by (simp add: Json_ValidateOrThrow_def)

text \<open>A field that passed the check can be read with the getter of its type; unsigned numbers up to the
  range of \<open>GetU32\<close>.\<close>

lemma checked_field_reads:
  assumes "Navigate J doc k = Some node"
  shows "CheckType J node JF_STRING \<Longrightarrow> GetString J doc k = Inr (js_get_string J node)"
    and "CheckType J node JF_BOOL \<Longrightarrow> GetBool J doc k = Inr (js_get_bool J node)"
    and "CheckType J node JF_DOUBLE \<Longrightarrow> GetDouble J doc k = Inr (js_get_double J node)"
    and "CheckType J node JF_INTEGER \<Longrightarrow> GetI64 J doc k = Inr (js_get_i64 J node)"
    and "CheckType J node JF_UNSIGNED \<Longrightarrow> GetU64 J doc k = Inr (js_get_u64 J node)"
  using assms
  by (auto simp: NavigateOrThrow_def GetString_def GetBool_def GetDouble_def GetI64_def GetU64_def)

section \<open>Merging ends\<close>

text \<open>What makes it end: a size of the values in which every object is larger than its members together.\<close>

definition sized :: "'j json_api \<Rightarrow> ('j \<Rightarrow> nat) \<Rightarrow> bool" where
  "sized J sz \<longleftrightarrow> (\<forall>v. js_is_object J v \<longrightarrow> (\<Sum>(k, w)\<leftarrow>js_items J v. Suc (sz w)) \<le> sz v)"

lemma merge_items_returns:
  assumes "sized J sz"
  shows "\<exists>t'. merge_items J t items = Some t'"
proof (induction "\<Sum>(k, w)\<leftarrow>items. Suc (sz w)" arbitrary: t items rule: less_induct)
  case less
  show ?case
  proof (cases items)
    case Nil
    then show ?thesis by (subst merge_items.simps) simp
  next
    case (Cons kv rest)
    obtain key val where kv: "kv = (key, val)" by force
    have rest: "\<exists>t'. merge_items J u rest = Some t'" for u
      using less[of rest u] Cons kv by simp
    have inner: "\<exists>t'. merge_items J u (js_items J val) = Some t'" if "js_is_object J val" for u
    proof -
      have "(\<Sum>(k, w)\<leftarrow>js_items J val. Suc (sz w)) \<le> sz val" using assms that by (simp add: sized_def)
      then have "(\<Sum>(k, w)\<leftarrow>js_items J val. Suc (sz w)) < (\<Sum>(k, w)\<leftarrow>items. Suc (sz w))"
        using Cons kv by simp
      then show ?thesis using less by blast
    qed
    show ?thesis
    proof (cases "js_find J t key")
      case None
      then show ?thesis using Cons kv rest by (subst merge_items.simps) simp
    next
      case (Some child)
      show ?thesis
      proof (cases "js_is_object J child \<and> js_is_object J val")
        case True
        then obtain merged where "merge_items J child (js_items J val) = Some merged" using inner by blast
        then show ?thesis using Some True Cons kv rest by (subst merge_items.simps) simp
      next
        case False
        then show ?thesis using Some Cons kv rest by (subst merge_items.simps) auto
      qed
    qed
  qed
qed

lemma MergeFrom_returns: "sized J sz \<Longrightarrow> \<exists>t. MergeFrom J doc other = Some t"
  by (auto simp: MergeFrom_def DeepMerge_def merge_items_returns)

section \<open>Loading\<close>

text \<open>Assignments after one that throws are not made, those before it stay.\<close>

lemma assign_all_prefix:
  "\<exists>k\<le>length ss. snd (assign_all ss cfg) = snd (assign_all (take k ss) cfg) \<and> fst (assign_all (take k ss) cfg) = None \<and>
     (fst (assign_all ss cfg) = None \<longrightarrow> k = length ss) \<and>
     (\<forall>e. fst (assign_all ss cfg) = Some e \<longrightarrow> k < length ss \<and> (ss ! k) (snd (assign_all (take k ss) cfg)) = Inl e)"
proof (induction ss arbitrary: cfg)
  case (Cons s ss)
  show ?case
  proof (cases "s cfg")
    case (Inl e)
    then show ?thesis by (intro exI[of _ 0]) simp
  next
    case (Inr cfg1)
    obtain k where "k \<le> length ss \<and> snd (assign_all ss cfg1) = snd (assign_all (take k ss) cfg1) \<and>
        fst (assign_all (take k ss) cfg1) = None \<and> (fst (assign_all ss cfg1) = None \<longrightarrow> k = length ss) \<and>
        (\<forall>e. fst (assign_all ss cfg1) = Some e \<longrightarrow> k < length ss \<and> (ss ! k) (snd (assign_all (take k ss) cfg1)) = Inl e)"
      using Cons.IH by blast
    then show ?thesis using Inr by (intro exI[of _ "Suc k"]) simp
  qed
qed simp

lemma assign_all_idle: "(\<forall>s\<in>set ss. s cfg = Inr cfg) \<Longrightarrow> assign_all ss cfg = (None, cfg)"
  by (induction ss) auto

lemma ucast_id16: "ucast (ucast (p :: u16) :: u32) = p"
  by (rule bit_word_eqI) (simp add: bit_simps)

definition sim_keys :: "string list" where
  "sim_keys =
     [''topology.num_kdc'', ''topology.num_skdcs'', ''topology.num_clusters'', ''topology.uavs_per_cluster'',
      ''topology.num_uavs'', ''topology.num_jammers'', ''topology.max_uav_count'', ''simulation.duration_s'',
      ''simulation.rng_seed'', ''simulation.runs'', ''simulation.debug'', ''simulation.enable_netanim'',
      ''simulation.enable_pcap'', ''simulation.enable_flowmonitor'', ''area.x_min'', ''area.x_max'',
      ''area.y_min'', ''area.y_max'', ''area.z_min'', ''area.z_max'',
      ''mobility.uav_speed_min'', ''mobility.uav_speed_max'', ''mobility.uav_alt_min'', ''mobility.uav_alt_max'',
      ''mobility.jammer_speed'', ''wireless.freq_hz'', ''wireless.channel_width_mhz'', ''wireless.tx_power_dbm'',
      ''wireless.phy_rate_mbps'', ''wireless.jammer_power_dbm'', ''wireless.sinr_threshold_db'', ''olsr.hello_interval_s'',
      ''olsr.tc_interval_s'', ''security.node_compromise_prob'', ''security.replay_window_size'', ''security.replay_skew_us'',
      ''output.log_dir'', ''output.output_dir'', ''output.pcap_dir'', ''output.json_dir'',
      ''output.graphs_dir'', ''output.csv_interval_s'', ''output.netanim_interval_ms'', ''ports.kdc_udp'',
      ''ports.skdc_udp'', ''ports.uav_data_udp'', ''ports.mtk_multicast'']"

text \<open>A document without any of the keys leaves the defaults; so does a missing file.\<close>

lemma empty_document_keeps:
  assumes "\<forall>k\<in>set sim_keys. \<not> Has J doc k"
  shows "LoadSimConfig J (Some (Inr doc)) cfg = (None, cfg \<lparr> cfg_sim_loaded := True \<rparr>)"
    and "LoadSimConfig J None cfg = (None, cfg \<lparr> cfg_sim_loaded := True \<rparr>)"
proof -
  have absent: "list_all (\<lambda>k. \<not> Has J doc k) sim_keys" using assms by (simp add: list_all_iff)
  have "list_all (\<lambda>s. s cfg = Inr cfg) (sim_assignments J doc)"
    using absent unfolding sim_keys_def sim_assignments_def list.pred_inject
    by (elim conjE, intro conjI TrueI)
       (simp_all only: read_into_def GetU32_or_def GetU64_or_def GetDouble_or_def GetBool_or_def GetString_or_def
          getter_total(1) rbind_simps ucast_id16, simp_all)
  then have "assign_all (sim_assignments J doc) cfg = (None, cfg)"
    by (intro assign_all_idle) (simp only: list_all_iff)
  then show "LoadSimConfig J (Some (Inr doc)) cfg = (None, cfg \<lparr> cfg_sim_loaded := True \<rparr>)"
    by (simp add: LoadSimConfig_def ParseSimJson_def)
qed (simp add: LoadSimConfig_def)

text \<open>A missing file of keys counts as loaded, and then every cluster is unknown.\<close>

lemma missing_crypto_file:
  "LoadCryptoConfig J None ConfigManager_new = (None, ConfigManager_new \<lparr> cfg_crypto_loaded := True \<rparr>)"
  "ClusterCrypto c (ConfigManager_new \<lparr> cfg_crypto_loaded := True \<rparr>) = Inl ConfigException"
  by (simp_all add: LoadCryptoConfig_def ClusterCrypto_def ConfigManager_new_def)

text \<open>\<open>Reset\<close> restores the defaults of all fields but the area, the mobility, the radio, OLSR, the security
  parameters and the two output intervals.\<close>

definition reset_gaps :: "ConfigManager \<Rightarrow> ConfigManager \<Rightarrow> bool" where
  "reset_gaps a b \<longleftrightarrow>
     cfg_area_x_min a = cfg_area_x_min b \<and> cfg_area_x_max a = cfg_area_x_max b \<and> cfg_area_y_min a = cfg_area_y_min b \<and>
     cfg_area_y_max a = cfg_area_y_max b \<and> cfg_area_z_min a = cfg_area_z_min b \<and> cfg_area_z_max a = cfg_area_z_max b \<and>
     cfg_uav_speed_min a = cfg_uav_speed_min b \<and> cfg_uav_speed_max a = cfg_uav_speed_max b \<and> cfg_uav_alt_min a = cfg_uav_alt_min b \<and>
     cfg_uav_alt_max a = cfg_uav_alt_max b \<and> cfg_jammer_speed a = cfg_jammer_speed b \<and> cfg_freq_hz a = cfg_freq_hz b \<and>
     cfg_channel_width_mhz a = cfg_channel_width_mhz b \<and> cfg_tx_power_dbm a = cfg_tx_power_dbm b \<and> cfg_phy_rate_mbps a = cfg_phy_rate_mbps b \<and>
     cfg_jammer_power_dbm a = cfg_jammer_power_dbm b \<and> cfg_sinr_threshold_db a = cfg_sinr_threshold_db b \<and> cfg_olsr_hello_interval a = cfg_olsr_hello_interval b \<and>
     cfg_olsr_tc_interval a = cfg_olsr_tc_interval b \<and> cfg_node_compromise_prob a = cfg_node_compromise_prob b \<and> cfg_replay_window_size a = cfg_replay_window_size b \<and>
     cfg_replay_skew_us a = cfg_replay_skew_us b \<and> cfg_csv_interval_s a = cfg_csv_interval_s b \<and> cfg_netanim_interval_ms a = cfg_netanim_interval_ms b"

lemma Reset_restores: "Cfg_Reset cfg = ConfigManager_new \<longleftrightarrow> reset_gaps cfg ConfigManager_new"
  by (cases cfg) (simp add: Cfg_Reset_def ConfigManager_new_def reset_gaps_def)

section \<open>Checks and overrides\<close>

lemma product_exact:
  "a * b = c \<longleftrightarrow> unat a * unat b mod 2 ^ 32 = unat c" for a b c :: u32
  by (simp add: word_unat_eq_iff unat_word_ariths)

lemma dec_string_nonempty [simp]: "dec_string n \<noteq> []"
  by (subst dec_string.simps) simp

lemma Cfg_ValidateOrThrow_iff:
  "Cfg_ValidateOrThrow cfg = Inr () \<longleftrightarrow>
     cfg_num_uavs cfg \<noteq> 0 \<and> cfg_num_clusters cfg \<noteq> 0 \<and> cfg_uavs_per_cluster cfg \<noteq> 0 \<and>
     unat (cfg_num_clusters cfg) * unat (cfg_uavs_per_cluster cfg) mod 2 ^ 32 = unat (cfg_num_uavs cfg) \<and>
     cfg_num_skdcs cfg = cfg_num_clusters cfg \<and> cfg_sim_duration cfg > 0 \<and> cfg_rng_seed cfg \<noteq> 0 \<and>
     cfg_area_x_min cfg < cfg_area_x_max cfg \<and> cfg_area_y_min cfg < cfg_area_y_max cfg \<and>
     cfg_area_z_min cfg < cfg_area_z_max cfg \<and> cfg_sinr_threshold_db cfg \<ge> 0 \<and>
     cfg_crypto_aes_bits cfg \<in> {128, 256}"
proof -
  have "cfg_num_uavs cfg = cfg_num_clusters cfg * cfg_uavs_per_cluster cfg \<longleftrightarrow>
      unat (cfg_num_clusters cfg) * unat (cfg_uavs_per_cluster cfg) mod 2 ^ 32 = unat (cfg_num_uavs cfg)"
    using product_exact[of "cfg_num_clusters cfg" "cfg_uavs_per_cluster cfg" "cfg_num_uavs cfg"] by argo
  then show ?thesis
    unfolding Cfg_ValidateOrThrow_def validation_errors_def
    by (simp only: append_is_Nil_conv if_split sum.inject sum.distinct) (auto simp: not_le not_less)
qed

lemma decimal_value: "list_all is_digit (dec_string n) \<and> digits_value (dec_string n) = n"
proof (induction n rule: dec_string.induct)
  case (1 n)
  have digit: "is_digit (char_of (48 + d))" "of_char (char_of (48 + d) :: char) - 48 = d" if "d < 10" for d :: nat
    using that by (simp_all add: is_digit_def Let_def)
  have snoc: "digits_value (s @ [c]) = 10 * digits_value s + (of_char c - 48)" for s c
    by (simp add: digits_value_def)
  show ?case
  proof (cases "n < 10")
    case True
    then show ?thesis
      using digit by (subst (1 2) dec_string.simps) (simp add: digits_value_def)
  next
    case False
    then show ?thesis
      using 1 digit[of "n mod 10"] by (subst (1 2) dec_string.simps) (simp add: snoc)
  qed
qed

lemma stoul_decimal:
  assumes "n < 2 ^ 64"
  shows "stoul (dec_string n) = Inr (of_nat n)"
proof -
  obtain c s where cs: "dec_string n = c # s" by (cases "dec_string n") auto
  have c: "is_digit c" and all: "\<forall>x\<in>set (c # s). is_digit x"
    using decimal_value[of n] cs by (auto simp: list_all_iff)
  then have "\<not> isspace c" "c \<noteq> CHR ''-''" "c \<noteq> CHR ''+''"
    by (auto simp: is_digit_def isspace_def Let_def)
  moreover have "takeWhile is_digit (c # s) = c # s" using all by (simp add: takeWhile_eq_all_conv)
  moreover have "digits_value (c # s) = n" using decimal_value[of n] cs by simp
  ultimately show ?thesis using assms cs by (simp add: stoul_def TrimLeft_def Let_def)
qed

text \<open>No option changes these fields.\<close>

definition area_box :: "ConfigManager \<Rightarrow> real list" where
  "area_box cfg = [cfg_area_x_min cfg, cfg_area_x_max cfg, cfg_area_y_min cfg, cfg_area_y_max cfg, cfg_area_z_min cfg, cfg_area_z_max cfg]"

lemma override_frame:
  "cfg_num_clusters (apply_arg stod arg cfg) = cfg_num_clusters cfg"
  "cfg_num_skdcs (apply_arg stod arg cfg) = cfg_num_skdcs cfg"
  "cfg_uavs_per_cluster (apply_arg stod arg cfg) = cfg_uavs_per_cluster cfg"
  "cfg_crypto_aes_bits (apply_arg stod arg cfg) = cfg_crypto_aes_bits cfg"
  "cfg_sinr_threshold_db (apply_arg stod arg cfg) = cfg_sinr_threshold_db cfg"
  "area_box (apply_arg stod arg cfg) = area_box cfg"
  by (simp_all add: apply_arg_def apply_option_def set_or_keep_def area_box_def Let_def split: list.splits sum.splits)

lemma narrow_of_nat: "(ucast (of_nat n :: u64) :: u32) = of_nat n"
  by (simp add: unsigned_of_nat word_unat_eq_iff unat_of_nat take_bit_eq_mod mod_mod_cancel)

text \<open>The values that the arguments give to an option, those that do not parse left out.\<close>

definition option_values :: "(string \<Rightarrow> 'a res) \<Rightarrow> string \<Rightarrow> string list \<Rightarrow> 'a list" where
  "option_values parse key args =
     concat (map (\<lambda>arg. let p = ''--'' @ key @ ''='' in
       if prefix p arg then (case parse (drop (length p) arg) of Inl e \<Rightarrow> [] | Inr v \<Rightarrow> [v]) else []) args)"

text \<open>What the parser makes of an argument: an option with a value, or nothing that the checks look at.\<close>

lemma apply_arg_cases:
  obtains (option) key val where "arg = ''--'' @ key @ ''='' @ val" "CHR ''='' \<notin> set key"
      "\<And>cfg. apply_arg stod arg cfg = apply_option stod key val cfg"
  | (other) "\<And>key. \<not> prefix (''--'' @ key @ ''='') arg"
      "\<And>cfg. apply_arg stod arg cfg = cfg \<or> apply_arg stod arg cfg = cfg \<lparr> cfg_debug := True \<rparr>"
proof (cases "length arg > 2 \<and> arg ! 0 = CHR ''-'' \<and> arg ! 1 = CHR ''-''")
  case False
  then have "\<not> prefix (''--'' @ key @ ''='') arg" for key by (auto simp: prefix_def)
  then show thesis using False by (intro other) (simp_all add: apply_arg_def)
next
  case True
  then obtain r where r: "arg = CHR ''-'' # CHR ''-'' # r"
    by (cases arg; cases "tl arg") auto
  show thesis
  proof (cases "dropWhile (\<lambda>c. c \<noteq> CHR ''='') r")
    case Nil
    then have "CHR ''='' \<notin> set r" by (auto simp: dropWhile_eq_Nil_conv)
    then have "\<not> prefix (''--'' @ key @ ''='') arg" for key by (auto simp: prefix_def r)
    moreover have "apply_arg stod arg cfg = cfg \<or> apply_arg stod arg cfg = cfg \<lparr> cfg_debug := True \<rparr>" for cfg
      using True by (simp add: apply_arg_def r Nil)
    ultimately show thesis by (rule other)
  next
    case (Cons e val)
    then have e: "e = CHR ''=''" by (simp add: dropWhile_eq_Cons_conv)
    show thesis
    proof (rule option[of "takeWhile (\<lambda>c. c \<noteq> CHR ''='') r" val])
      show "arg = ''--'' @ takeWhile (\<lambda>c. c \<noteq> CHR ''='') r @ ''='' @ val"
        using Cons e takeWhile_dropWhile_id[of "\<lambda>c. c \<noteq> CHR ''=''" r] by (simp add: r)
      show "CHR ''='' \<notin> set (takeWhile (\<lambda>c. c \<noteq> CHR ''='') r)" by (auto dest: set_takeWhileD)
      show "apply_arg stod arg cfg = apply_option stod (takeWhile (\<lambda>c. c \<noteq> CHR ''='') r) val cfg" for cfg
        using True Cons by (simp add: apply_arg_def r)
    qed
  qed
qed

lemma same_key:
  assumes "CHR ''='' \<notin> set key" "CHR ''='' \<notin> set key'"
  shows "prefix (''--'' @ key' @ ''='') (''--'' @ key @ ''='' @ val) \<longleftrightarrow> key = key'"
proof
  have cut: "takeWhile (\<lambda>c. c \<noteq> CHR ''='') (k @ CHR ''='' # v) = k" if "CHR ''='' \<notin> set k" for k v
    using that by (subst takeWhile_append2) auto
  assume "prefix (''--'' @ key' @ ''='') (''--'' @ key @ ''='' @ val)"
  then obtain zs where "key @ CHR ''='' # val = key' @ CHR ''='' # zs" by (auto simp: prefix_def)
  then show "key = key'" using cut[OF assms(1), of val] cut[OF assms(2), of zs] by simp
qed simp

lemma option_value:
  "CHR ''='' \<notin> set key \<Longrightarrow> CHR ''='' \<notin> set key' \<Longrightarrow> option_values parse key' [''--'' @ key @ ''='' @ val] =
     (if key = key' then (case parse val of Inl e \<Rightarrow> [] | Inr v \<Rightarrow> [v]) else [])"
  using same_key[of key key' val] by (simp add: option_values_def Let_def)

text \<open>The last value that parses counts, and the three fields below are set by their own options only.\<close>

lemma apply_last:
  assumes "\<And>arg cfg. get (apply_arg stod arg cfg) = last (get cfg # option_values parse key [arg])"
  shows "get (ApplyCliOverrides stod args cfg) = last (get cfg # option_values parse key args)"
proof (induction args arbitrary: cfg)
  case (Cons arg args)
  have "option_values parse key (arg # args) = option_values parse key [arg] @ option_values parse key args"
    by (simp add: option_values_def)
  then show ?case
    using Cons[of "apply_arg stod arg cfg"] assms[of arg cfg]
    by (cases "option_values parse key args") (simp_all add: ApplyCliOverrides_def last_append)
qed (simp add: ApplyCliOverrides_def option_values_def)

lemma option_fields:
  "cfg_num_uavs (ApplyCliOverrides stod args cfg) = last (cfg_num_uavs cfg # option_values stoul32 ''numUavs'' args)"
  "cfg_rng_seed (ApplyCliOverrides stod args cfg) = last (cfg_rng_seed cfg # option_values stoul32 ''RngSeed'' args)"
  "cfg_sim_duration (ApplyCliOverrides stod args cfg) = last (cfg_sim_duration cfg # option_values stod ''simDuration'' args)"
proof -
  have none: "option_values parse key [arg] = []" if "\<And>key. \<not> prefix (''--'' @ key @ ''='') arg"
    for parse :: "string \<Rightarrow> 'v res" and key arg using that[of key] unfolding option_values_def Let_def by simp
  have "cfg_num_uavs (apply_arg stod arg cfg) = last (cfg_num_uavs cfg # option_values stoul32 ''numUavs'' [arg])" for arg cfg
  proof (cases arg stod rule: apply_arg_cases)
    case (option key val)
    have vals: "option_values stoul32 ''numUavs'' [''--'' @ key @ ''='' @ val] =
        (if key = ''numUavs'' then (case stoul32 val of Inl e \<Rightarrow> [] | Inr v \<Rightarrow> [v]) else [])"
      by (rule option_value[OF option(2)]) simp
    show ?thesis
      unfolding option(3) unfolding option(1) vals by (simp add: apply_option_def set_or_keep_def split: sum.split)
  next
    case other
    show ?thesis using other(2)[of cfg] unfolding none[OF other(1)] by auto
  qed
  then show "cfg_num_uavs (ApplyCliOverrides stod args cfg) = last (cfg_num_uavs cfg # option_values stoul32 ''numUavs'' args)"
    by (rule apply_last)
  have "cfg_rng_seed (apply_arg stod arg cfg) = last (cfg_rng_seed cfg # option_values stoul32 ''RngSeed'' [arg])" for arg cfg
  proof (cases arg stod rule: apply_arg_cases)
    case (option key val)
    have vals: "option_values stoul32 ''RngSeed'' [''--'' @ key @ ''='' @ val] =
        (if key = ''RngSeed'' then (case stoul32 val of Inl e \<Rightarrow> [] | Inr v \<Rightarrow> [v]) else [])"
      by (rule option_value[OF option(2)]) simp
    show ?thesis
      unfolding option(3) unfolding option(1) vals by (simp add: apply_option_def set_or_keep_def split: sum.split)
  next
    case other
    show ?thesis using other(2)[of cfg] unfolding none[OF other(1)] by auto
  qed
  then show "cfg_rng_seed (ApplyCliOverrides stod args cfg) = last (cfg_rng_seed cfg # option_values stoul32 ''RngSeed'' args)"
    by (rule apply_last)
  have "cfg_sim_duration (apply_arg stod arg cfg) = last (cfg_sim_duration cfg # option_values stod ''simDuration'' [arg])" for arg cfg
  proof (cases arg stod rule: apply_arg_cases)
    case (option key val)
    have vals: "option_values stod ''simDuration'' [''--'' @ key @ ''='' @ val] =
        (if key = ''simDuration'' then (case stod val of Inl e \<Rightarrow> [] | Inr v \<Rightarrow> [v]) else [])"
      by (rule option_value[OF option(2)]) simp
    show ?thesis
      unfolding option(3) unfolding option(1) vals by (simp add: apply_option_def set_or_keep_def split: sum.split)
  next
    case other
    show ?thesis using other(2)[of cfg] unfolding none[OF other(1)] by auto
  qed
  then show "cfg_sim_duration (ApplyCliOverrides stod args cfg) = last (cfg_sim_duration cfg # option_values stod ''simDuration'' args)"
    by (rule apply_last)
qed

lemma other_fields:
  "cfg_num_clusters (ApplyCliOverrides stod args cfg) = cfg_num_clusters cfg"
  "cfg_num_skdcs (ApplyCliOverrides stod args cfg) = cfg_num_skdcs cfg"
  "cfg_uavs_per_cluster (ApplyCliOverrides stod args cfg) = cfg_uavs_per_cluster cfg"
  "cfg_crypto_aes_bits (ApplyCliOverrides stod args cfg) = cfg_crypto_aes_bits cfg"
  "cfg_sinr_threshold_db (ApplyCliOverrides stod args cfg) = cfg_sinr_threshold_db cfg"
  "area_box (ApplyCliOverrides stod args cfg) = area_box cfg"
  by (induction args arbitrary: cfg) (simp_all add: ApplyCliOverrides_def override_frame)

lemma stoul_too_big:
  assumes "2 ^ 64 \<le> n"
  shows "stoul (dec_string n) = Inl StdException"
proof -
  obtain c s where cs: "dec_string n = c # s" by (cases "dec_string n") auto
  have c: "is_digit c" and all: "\<forall>x\<in>set (c # s). is_digit x"
    using decimal_value[of n] cs by (auto simp: list_all_iff)
  then have "\<not> isspace c" "c \<noteq> CHR ''-''" "c \<noteq> CHR ''+''"
    by (auto simp: is_digit_def isspace_def Let_def)
  moreover have "takeWhile is_digit (c # s) = c # s" using all by (simp add: takeWhile_eq_all_conv)
  moreover have "digits_value (c # s) = n" using decimal_value[of n] cs by simp
  ultimately show ?thesis using assms cs by (simp add: stoul_def TrimLeft_def Let_def)
qed

lemma num_uavs_values:
  "option_values stoul32 ''numUavs'' [''--numUavs='' @ dec_string n] = (if n < 2 ^ 64 then [of_nat n] else [])"
proof -
  have "option_values stoul32 ''numUavs'' [''--'' @ ''numUavs'' @ ''='' @ dec_string n] =
      (if ''numUavs'' = ''numUavs'' then (case stoul32 (dec_string n) of Inl e \<Rightarrow> [] | Inr v \<Rightarrow> [v]) else [])"
    by (rule option_value) simp_all
  then show ?thesis
    using stoul_decimal[of n] stoul_too_big[of n] by (simp add: stoul32_def narrow_of_nat)
qed

lemma no_values: "CHR ''='' \<notin> set key \<Longrightarrow> key \<noteq> ''numUavs'' \<Longrightarrow> option_values parse key [''--numUavs='' @ val] = []"
  using option_value[of "''numUavs''" key parse val] by simp

text \<open>
  C38.  The checks of the configuration.  They accept exactly the consistent configurations, where the number of UAVs is
  compared with the product modulo \<open>2^32\<close>.  After any command line the defaults pass exactly when the last
  \<open>--numUavs\<close> value that parses, if there is one, is 18, the last \<open>--simDuration\<close> positive and the last \<open>--RngSeed\<close> not 0:
  no option changes clusters or UAVs per cluster, and values that do not parse are dropped.  So with \<open>--numUavs=n\<close> alone,
  for the decimal digits of any \<open>n\<close>, the checks pass for \<open>n = 18\<close> modulo \<open>2^32\<close> and for every \<open>n\<close> from \<open>2^64\<close> on,
  where \<open>std::stoul\<close> throws and 18 stays, and fail for all others.
\<close>

theorem config_checks:
  "(Cfg_ValidateOrThrow cfg = Inr () \<longleftrightarrow>
     cfg_num_uavs cfg \<noteq> 0 \<and> cfg_num_clusters cfg \<noteq> 0 \<and> cfg_uavs_per_cluster cfg \<noteq> 0 \<and>
     unat (cfg_num_clusters cfg) * unat (cfg_uavs_per_cluster cfg) mod 2 ^ 32 = unat (cfg_num_uavs cfg) \<and>
     cfg_num_skdcs cfg = cfg_num_clusters cfg \<and> cfg_sim_duration cfg > 0 \<and> cfg_rng_seed cfg \<noteq> 0 \<and>
     cfg_area_x_min cfg < cfg_area_x_max cfg \<and> cfg_area_y_min cfg < cfg_area_y_max cfg \<and>
     cfg_area_z_min cfg < cfg_area_z_max cfg \<and> cfg_sinr_threshold_db cfg \<ge> 0 \<and>
     cfg_crypto_aes_bits cfg \<in> {128, 256}) \<and>
   (Cfg_ValidateOrThrow (ApplyCliOverrides stod args ConfigManager_new) = Inr () \<longleftrightarrow>
     last (18 # option_values stoul32 ''numUavs'' args) = 18 \<and>
     last (cfg_sim_duration ConfigManager_new # option_values stod ''simDuration'' args) > 0 \<and>
     last (cfg_rng_seed ConfigManager_new # option_values stoul32 ''RngSeed'' args) \<noteq> 0) \<and>
   Cfg_ValidateOrThrow ConfigManager_new = Inr () \<and>
   (Cfg_ValidateOrThrow (ApplyCliOverrides stod [''--numUavs='' @ dec_string n] ConfigManager_new) = Inr () \<longleftrightarrow>
     2 ^ 64 \<le> n \<or> n mod 2 ^ 32 = 18)"
proof (intro conjI)
  have area: "cfg_area_x_min c < cfg_area_x_max c \<and> cfg_area_y_min c < cfg_area_y_max c \<and> cfg_area_z_min c < cfg_area_z_max c"
    if "area_box c = area_box ConfigManager_new" for c
    using that by (simp add: area_box_def ConfigManager_new_def)
  have new: "cfg_num_uavs ConfigManager_new = 18" "cfg_num_clusters ConfigManager_new = 3" "cfg_uavs_per_cluster ConfigManager_new = 6"
    "cfg_num_skdcs ConfigManager_new = 3" "0 \<le> cfg_sinr_threshold_db ConfigManager_new" "cfg_crypto_aes_bits ConfigManager_new = 256"
    "0 < cfg_sim_duration ConfigManager_new" "cfg_rng_seed ConfigManager_new \<noteq> 0"
    by (simp_all add: ConfigManager_new_def)
  have run: "Cfg_ValidateOrThrow (ApplyCliOverrides stod args ConfigManager_new) = Inr () \<longleftrightarrow>
     last (18 # option_values stoul32 ''numUavs'' args) = 18 \<and>
     last (cfg_sim_duration ConfigManager_new # option_values stod ''simDuration'' args) > 0 \<and>
     last (cfg_rng_seed ConfigManager_new # option_values stoul32 ''RngSeed'' args) \<noteq> 0" for args
    using area[OF other_fields(6)[of stod args]] new
    unfolding Cfg_ValidateOrThrow_iff option_fields other_fields(1-5)
    by (auto simp: word_unat_eq_iff)
  show "Cfg_ValidateOrThrow (ApplyCliOverrides stod args ConfigManager_new) = Inr () \<longleftrightarrow>
     last (18 # option_values stoul32 ''numUavs'' args) = 18 \<and>
     last (cfg_sim_duration ConfigManager_new # option_values stod ''simDuration'' args) > 0 \<and>
     last (cfg_rng_seed ConfigManager_new # option_values stoul32 ''RngSeed'' args) \<noteq> 0" by (rule run)
  show "Cfg_ValidateOrThrow ConfigManager_new = Inr ()"
    by (simp add: Cfg_ValidateOrThrow_iff ConfigManager_new_def)
  have vals: "option_values stod ''simDuration'' [''--numUavs='' @ dec_string n] = []"
    "option_values stoul32 ''RngSeed'' [''--numUavs='' @ dec_string n] = []"
    by (rule no_values; simp)+
  have "(of_nat n :: u32) = 18 \<longleftrightarrow> n mod 2 ^ 32 = 18"
    by (simp add: word_unat_eq_iff unat_of_nat)
  then show "Cfg_ValidateOrThrow (ApplyCliOverrides stod [''--numUavs='' @ dec_string n] ConfigManager_new) = Inr () \<longleftrightarrow>
     2 ^ 64 \<le> n \<or> n mod 2 ^ 32 = 18"
    unfolding run num_uavs_values vals using new by auto
qed (rule Cfg_ValidateOrThrow_iff)

end
