(* ===== verification/Csv_Logger.thy ===== *)
theory Csv_Logger
  imports String_Utils
begin

text \<open>
  utils/uav-csv-logger.\{h,cc\}: the writer of CSV files.  What the file system does when a file is opened is
  the record \<open>CsvEnv\<close>; the text the logger has appended to its file is a field of the model.  Writing to an open
  stream succeeds.  The theorems show that a file can be read back: a reader of the CSV format returns its rows.
\<close>

section \<open>The logger\<close>

record CsvEnv =
  ce_mkdir_ok :: bool
  ce_has_content :: bool
  ce_can_open :: bool

record CsvLogger =
  csv_path :: string
  csv_header :: "string list"
  csv_col_index :: "string \<Rightarrow> nat option"
  csv_text :: string
  csv_rows :: u64
  csv_ok :: bool

text \<open>The constructor; for a column name that occurs twice the last column counts.\<close>

definition CsvLogger_new :: "string \<Rightarrow> string list \<Rightarrow> CsvLogger" where
  "CsvLogger_new path hdr =
     \<lparr> csv_path = path, csv_header = hdr,
       csv_col_index = foldl (\<lambda>m i. m(hdr ! i \<mapsto> i)) (\<lambda>_. None) [0..<length hdr],
       csv_text = '''', csv_rows = 0, csv_ok = False \<rparr>"

definition special :: "char \<Rightarrow> bool" where
  "special c \<longleftrightarrow> c = CHR '','' \<or> c = CHR 0x22 \<or> c = CHR 0x0A \<or> c = CHR 0x0D"

definition EscapeField :: "string \<Rightarrow> string" where
  "EscapeField v =
     (if \<not> list_ex special v then v
      else CHR 0x22 # concat (map (\<lambda>c. if c = CHR 0x22 then [CHR 0x22, c] else [c]) v) @ [CHR 0x22])"

text \<open>The text of one line.\<close>

definition csv_line :: "string list \<Rightarrow> string" where
  "csv_line cells = Join (map EscapeField cells) '','' @ [CHR 0x0A]"

definition Csv_Open :: "CsvEnv \<Rightarrow> string \<Rightarrow> string list \<Rightarrow> CsvLogger" where
  "Csv_Open env path hdr =
     (let inst = CsvLogger_new path hdr in
      if \<not> ce_mkdir_ok env then inst
      else if \<not> ce_can_open env then inst
      else
        let inst = inst \<lparr> csv_ok := True \<rparr>
        in if \<not> ce_has_content env then inst \<lparr> csv_text := csv_text inst @ csv_line hdr \<rparr> else inst)"

text \<open>A row has one field per column: missing vals are empty, further vals are dropped.\<close>

definition row_fields :: "nat \<Rightarrow> string list \<Rightarrow> string list" where
  "row_fields n vals = map (\<lambda>i. if i < length vals then vals ! i else '''') [0..<n]"

definition AppendRow :: "string list \<Rightarrow> CsvLogger \<Rightarrow> CsvLogger" where
  "AppendRow vals csv =
     (if \<not> csv_ok csv then csv
      else
        let n = length (csv_header csv);
            csv = csv \<lparr> csv_text := csv_text csv @ csv_line (row_fields n vals) \<rparr>
        in csv \<lparr> csv_rows := csv_rows csv + 1 \<rparr>)"

text \<open>A row by column names, an \<open>unordered_map\<close> as the list of its pairs; unknown names are dropped.\<close>

definition named_row :: "CsvLogger \<Rightarrow> (string \<times> string) list \<Rightarrow> string list" where
  "named_row csv named =
     foldl (\<lambda>row (k, v). case csv_col_index csv k of None \<Rightarrow> row | Some i \<Rightarrow> row[i := v])
       (replicate (length (csv_header csv)) '''') named"

definition AppendRow_named :: "(string \<times> string) list \<Rightarrow> CsvLogger \<Rightarrow> CsvLogger" where
  "AppendRow_named named csv = AppendRow (named_row csv named) csv"

definition Csv_Close :: "CsvLogger \<Rightarrow> CsvLogger" where
  "Csv_Close csv = (if csv_ok csv then csv \<lparr> csv_ok := False \<rparr> else csv)"

text \<open>\<open>CsvRowBuilder\<close>: the vals set so far; \<open>Commit\<close> appends them, without a parent it does nothing.\<close>

definition Row_Set :: "string \<Rightarrow> string \<Rightarrow> (string \<times> string) list \<Rightarrow> (string \<times> string) list" where
  "Row_Set column val vals = (column, val) # filter (\<lambda>(k, v). k \<noteq> column) vals"

definition Row_Commit :: "(string \<times> string) list \<Rightarrow> CsvLogger option \<Rightarrow> CsvLogger option" where
  "Row_Commit vals parent = map_option (AppendRow_named vals) parent"

section \<open>A reader of the format\<close>

text \<open>The specification the files are checked against: a field in quotes, where two quotes stand for one, or a
  field up to the next comma or line break; after a field comes a comma, or the line break that ends
  the row; a file is a sequence of rows.  Everything else is refused.\<close>

fun read_quoted :: "string \<Rightarrow> (string \<times> string) option" where
  "read_quoted [] = None"
| "read_quoted [c] = (if c = CHR 0x22 then Some ([], []) else None)"
| "read_quoted (c # d # rest) =
     (if c \<noteq> CHR 0x22 then map_option (apfst ((#) c)) (read_quoted (d # rest))
      else if d = CHR 0x22 then map_option (apfst ((#) d)) (read_quoted rest)
      else Some ([], d # rest))"

definition plain :: "char \<Rightarrow> bool" where
  "plain c \<longleftrightarrow> c \<noteq> CHR '','' \<and> c \<noteq> CHR 0x0A"

definition read_field :: "string \<Rightarrow> (string \<times> string) option" where
  "read_field s = (if s \<noteq> [] \<and> hd s = CHR 0x22 then read_quoted (tl s) else Some (takeWhile plain s, dropWhile plain s))"

lemma read_quoted_length: "read_quoted s = Some (f, r) \<Longrightarrow> length r \<le> length s"
  by (induction s arbitrary: f r rule: read_quoted.induct) (fastforce split: if_splits)+

lemma read_field_length:
  assumes "read_field s = Some (f, r)"
  shows "length r \<le> length s"
proof (cases "s \<noteq> [] \<and> hd s = CHR 0x22")
  case True
  then show ?thesis using assms read_quoted_length[of "tl s" f r] by (simp add: read_field_def)
next
  case False
  then show ?thesis using assms by (auto simp: read_field_def length_dropWhile_le split: if_splits)
qed

function read_row :: "string \<Rightarrow> (string list \<times> string) option" where
  "read_row s =
     (case read_field s of
        None \<Rightarrow> None
      | Some (f, r) \<Rightarrow>
          (case r of
             [] \<Rightarrow> None
           | c # r' \<Rightarrow>
               if c = CHR '','' then map_option (apfst ((#) f)) (read_row r')
               else if c = CHR 0x0A then Some ([f], r')
               else None))"
  by pat_completeness auto
termination by (relation "measure length") (auto dest!: read_field_length)

declare read_row.simps [simp del]

lemma read_row_step:
  "read_field s = Some (f, c # r) \<Longrightarrow> read_row s =
     (if c = CHR '','' then map_option (apfst ((#) f)) (read_row r) else if c = CHR 0x0A then Some ([f], r) else None)"
  by (subst read_row.simps) simp

lemma read_row_length: "read_row s = Some (cells, rest) \<Longrightarrow> length rest < length s"
proof (induction s arbitrary: cells rest rule: read_row.induct)
  case (1 s)
  obtain f c r' where f: "read_field s = Some (f, c # r')"
    using 1(2) by (subst (asm) read_row.simps) (auto split: option.splits list.splits)
  have "length rest < length s" if c: "c = CHR '',''"
  proof -
    obtain cells' where "read_row r' = Some (cells', rest)"
      using 1(2) by (auto simp: read_row_step[OF f] c)
    then show ?thesis using 1(1)[OF f refl refl c] read_field_length[OF f] by simp
  qed
  moreover have "rest = r'" if "c \<noteq> CHR '',''"
    using 1(2) that by (simp add: read_row_step[OF f] split: if_splits)
  ultimately show ?case using read_field_length[OF f] by (cases "c = CHR '',''") auto
qed

function read_file :: "string \<Rightarrow> string list list option" where
  "read_file s =
     (if s = [] then Some []
      else case read_row s of
        None \<Rightarrow> None
      | Some (cells, rest) \<Rightarrow> map_option ((#) cells) (read_file rest))"
  by pat_completeness auto
termination by (relation "measure length") (auto dest!: read_row_length)

declare read_file.simps [simp del]

text \<open>What has been read stays the same when the file grows.\<close>

lemma read_quoted_append: "read_quoted s = Some (f, r) \<Longrightarrow> r \<noteq> [] \<Longrightarrow> read_quoted (s @ t) = Some (f, r @ t)"
  by (induction s arbitrary: f r rule: read_quoted.induct) (fastforce split: if_splits)+

lemma read_field_append:
  assumes "read_field s = Some (f, r)" "r \<noteq> []"
  shows "read_field (s @ t) = Some (f, r @ t)"
proof (cases "s \<noteq> [] \<and> hd s = CHR 0x22")
  case True
  then show ?thesis using assms read_quoted_append[of "tl s" f r t] by (simp add: read_field_def)
next
  case False
  then have fr: "f = takeWhile plain s" "r = dropWhile plain s"
    using assms(1) unfolding read_field_def if_not_P[OF False] by simp_all
  obtain c where c: "c \<in> set s" "\<not> plain c" using assms(2) unfolding fr(2) dropWhile_eq_Nil_conv by blast
  have "\<not> (s @ t \<noteq> [] \<and> hd (s @ t) = CHR 0x22)" using False c(1) by (cases s) auto
  then show ?thesis
    unfolding read_field_def fr using takeWhile_append1[of c s plain t, OF c] dropWhile_append1[of c s plain t, OF c]
    by (simp only: if_False)
qed

lemma read_row_append: "read_row s = Some (cells, rest) \<Longrightarrow> read_row (s @ t) = Some (cells, rest @ t)"
proof (induction s arbitrary: cells rest rule: read_row.induct)
  case (1 s)
  obtain f c r' where f: "read_field s = Some (f, c # r')"
    using 1(2) by (subst (asm) read_row.simps) (auto split: option.splits list.splits)
  have grown: "read_field (s @ t) = Some (f, c # r' @ t)" using read_field_append[OF f, of t] by simp
  show ?case
  proof (cases "c = CHR '',''")
    case True
    then obtain cells' where row: "read_row r' = Some (cells', rest)" "cells = f # cells'"
      using 1(2) by (auto simp: read_row_step[OF f])
    then show ?thesis using 1(1)[OF f refl refl True row(1)] True by (simp add: read_row_step[OF grown])
  next
    case False
    then have "c = CHR 0x0A" "rest = r'" "cells = [f]"
      using 1(2) by (simp_all add: read_row_step[OF f] split: if_splits)
    then show ?thesis by (simp add: read_row_step[OF grown])
  qed
qed

lemma read_file_append: "read_file s = Some rows \<Longrightarrow> read_file (s @ t) = map_option ((@) rows) (read_file t)"
proof (induction s arbitrary: rows rule: read_file.induct)
  case (1 s)
  show ?case
  proof (cases "s = []")
    case True
    with 1(2) have "rows = []" by (simp add: read_file.simps[of "[]"])
    with True show ?thesis by (cases "read_file t") simp_all
  next
    case False
    with 1(2) obtain cells rest rows' where row: "read_row s = Some (cells, rest)" "read_file rest = Some rows'" "rows = cells # rows'"
      by (subst (asm) read_file.simps) (auto split: option.splits)
    then show ?thesis
      using 1(1)[OF False row(1) refl row(2)] read_row_append[OF row(1), of t] False
      by (subst read_file.simps) (cases "read_file t"; simp)
  qed
qed

section \<open>Files can be read back\<close>

lemma read_quoted_escaped:
  assumes "rest \<noteq> []" "hd rest \<noteq> CHR 0x22"
  shows "read_quoted (concat (map (\<lambda>c. if c = CHR 0x22 then [CHR 0x22, c] else [c]) v) @ CHR 0x22 # rest) = Some (v, rest)"
proof (induction v)
  case Nil
  then show ?case using assms by (cases rest) auto
next
  case (Cons c v)
  let ?q = "concat (map (\<lambda>c. if c = CHR 0x22 then [CHR 0x22, c] else [c]) v) @ CHR 0x22 # rest"
  obtain d ds where "?q = d # ds" by (cases ?q) auto
  then show ?case using Cons by (cases "c = CHR 0x22") simp_all
qed

lemma read_escaped:
  assumes "rest \<noteq> []" "hd rest = CHR '','' \<or> hd rest = CHR 0x0A"
  shows "read_field (EscapeField v @ rest) = Some (v, rest)"
proof (cases "list_ex special v")
  case True
  have "hd rest \<noteq> CHR 0x22" using assms by auto
  with True show ?thesis
    using read_quoted_escaped[of rest v] assms(1) by (simp add: EscapeField_def read_field_def)
next
  case False
  then have v: "\<forall>c\<in>set v. plain c \<and> c \<noteq> CHR 0x22"
    by (auto simp: list_ex_iff special_def plain_def)
  have tw: "takeWhile plain (v @ rest) = v" and dw: "dropWhile plain (v @ rest) = rest"
    using v assms by (cases rest; auto simp: takeWhile_append dropWhile_append plain_def)+
  have "hd (v @ rest) \<noteq> CHR 0x22"
    using v assms by (cases v) auto
  then show ?thesis using False tw dw by (auto simp: EscapeField_def read_field_def)
qed

lemma read_line:
  assumes "cells \<noteq> []"
  shows "read_row (csv_line cells) = Some (cells, [])"
  using assms
proof (induction cells)
  case (Cons f cells)
  show ?case
  proof (cases cells)
    case Nil
    then show ?thesis
      using read_escaped[of "[CHR 0x0A]" f] by (simp add: csv_line_def Join_def read_row.simps)
  next
    case (Cons g rest)
    then have "csv_line (f # cells) = EscapeField f @ CHR '','' # csv_line cells"
      by (simp add: csv_line_def Join_Cons)
    then show ?thesis
      using read_escaped[of "CHR '','' # csv_line cells" f] Cons.IH Cons
      by (subst read_row.simps) simp
  qed
qed simp

lemma read_lines:
  "\<forall>cells\<in>set rows. cells \<noteq> [] \<Longrightarrow> read_file (concat (map csv_line rows)) = Some rows"
proof (induction rows)
  case (Cons cells rows)
  have "read_file (csv_line cells) = Some [cells]"
    using read_line[of cells] Cons.prems
    by (subst read_file.simps) (simp add: csv_line_def read_file.simps[of "[]"])
  then show ?case using read_file_append[of "csv_line cells"] Cons by simp
qed (simp add: read_file.simps)

lemma row_fields_exact: "length vals = n \<Longrightarrow> row_fields n vals = vals"
  by (auto simp: row_fields_def intro: nth_equalityI)

text \<open>The column of a name is one with that name.\<close>

lemma fold_col_index:
  "foldl (\<lambda>m i. m(hdr ! i \<mapsto> i)) m [0..<n] k = Some i \<Longrightarrow> m k = None \<Longrightarrow> i < n \<and> hdr ! i = k"
  by (induction n) (auto split: if_splits)

lemma col_index_sound:
  "csv_col_index (CsvLogger_new path hdr) k = Some i \<Longrightarrow> i < length hdr \<and> hdr ! i = k"
  using fold_col_index[of hdr "\<lambda>_. None" "length hdr" k i] by (simp add: CsvLogger_new_def)

lemma length_named_row: "length (named_row csv named) = length (csv_header csv)"
proof -
  have "length (foldl (\<lambda>row (k, v). case csv_col_index csv k of None \<Rightarrow> row | Some i \<Rightarrow> row[i := v]) row named) = length row" for row
    by (induction named arbitrary: row) (auto split: option.splits)
  then show ?thesis by (simp add: named_row_def)
qed

text \<open>What a file holds after any number of rows.\<close>

lemma append_rows:
  assumes "csv_ok csv"
  shows "csv_text (fold AppendRow rows csv) =
           csv_text csv @ concat (map (\<lambda>vals. csv_line (row_fields (length (csv_header csv)) vals)) rows)"
    and "csv_rows (fold AppendRow rows csv) = csv_rows csv + of_nat (length rows)"
    and "csv_ok (fold AppendRow rows csv)"
    and "csv_header (fold AppendRow rows csv) = csv_header csv"
  using assms
proof (induction rows arbitrary: csv)
  case (Cons vals rows)
  {
    case 1
    show ?case using Cons.IH(1)[of "AppendRow vals csv"] 1 by (simp add: AppendRow_def Let_def)
  next
    case 2
    show ?case using Cons.IH(2)[of "AppendRow vals csv"] 2 by (simp add: AppendRow_def Let_def)
  next
    case 3
    show ?case using Cons.IH(3)[of "AppendRow vals csv"] 3 by (simp add: AppendRow_def Let_def)
  next
    case 4
    show ?case using Cons.IH(4)[of "AppendRow vals csv"] 4 by (simp add: AppendRow_def Let_def)
  }
qed simp_all

lemma closed_ignores: "\<not> csv_ok csv \<Longrightarrow> AppendRow vals csv = csv"
  by (simp add: AppendRow_def)

text \<open>
  C37.  CSV files can be read back whole.  Let a file contain any CSV rows, or nothing, and open it as a log with
  \<open>n > 0\<close> columns.  After any sequence of rows has been appended, a reader of the format gets from the file the rows it had
  before, the header if it was empty, and then every appended row in order, cut or padded to \<open>n\<close> cells, whatever
  commas, quotes and line breaks the cells contain; the row counter is their number.  If the
  directory cannot be made or the file cannot be opened nothing is written.
\<close>

theorem csv_rows_readable:
  assumes "hdr \<noteq> []" "read_file before = Some old" "ce_has_content env \<longleftrightarrow> before \<noteq> ''''"
  shows "let csv = fold AppendRow rows (Csv_Open env path hdr)
         in if ce_mkdir_ok env \<and> ce_can_open env
            then read_file (before @ csv_text csv) =
                   Some (old @ (if before = '''' then [hdr] else []) @ map (row_fields (length hdr)) rows) \<and>
                 csv_rows csv = of_nat (length rows)
            else csv = CsvLogger_new path hdr"
proof (cases "ce_mkdir_ok env \<and> ce_can_open env")
  case True
  let ?csv = "Csv_Open env path hdr" and ?head = "if before = '''' then [hdr] else []"
  have opened: "csv_ok ?csv" "csv_text ?csv = concat (map csv_line ?head)" "csv_rows ?csv = 0" "csv_header ?csv = hdr"
    using True assms(3) by (auto simp: Csv_Open_def CsvLogger_new_def Let_def)
  have "csv_text (fold AppendRow rows ?csv) = concat (map csv_line (?head @ map (row_fields (length hdr)) rows))"
    using append_rows(1)[OF opened(1), of rows] opened(2,4) by (simp add: comp_def)
  moreover have "\<forall>cells\<in>set (?head @ map (row_fields (length hdr)) rows). cells \<noteq> []"
    using assms(1) by (auto simp: row_fields_def split: if_splits)
  ultimately have "read_file (csv_text (fold AppendRow rows ?csv)) = Some (?head @ map (row_fields (length hdr)) rows)"
    by (simp only: read_lines)
  then have "read_file (before @ csv_text (fold AppendRow rows ?csv)) = Some (old @ ?head @ map (row_fields (length hdr)) rows)"
    by (simp only: read_file_append[OF assms(2)] option.map)
  then show ?thesis
    using True append_rows(2)[OF opened(1), of rows] opened(3) by (simp add: Let_def)
next
  case False
  have "fold AppendRow rows csv = csv" if "\<not> csv_ok csv" for csv
    using that by (induction rows) (simp_all add: closed_ignores)
  with False show ?thesis by (auto simp: Csv_Open_def CsvLogger_new_def Let_def)
qed

lemma csv_rows_readable_witness:
  "let hdr = [''time,s'', ''value''];
       csv = fold AppendRow [[''1'', ''a'' @ [CHR 0x22, CHR 0x0A]], [''2'']]
               (Csv_Open \<lparr> ce_mkdir_ok = True, ce_has_content = False, ce_can_open = True \<rparr> ''out.csv'' hdr)
   in csv_rows csv = 2 \<and> read_file (csv_text csv) = Some [hdr, [''1'', ''a'' @ [CHR 0x22, CHR 0x0A]], [''2'', '''']]"
proof -
  let ?env = "\<lparr> ce_mkdir_ok = True, ce_has_content = False, ce_can_open = True \<rparr>"
  have empty: "read_file '''' = Some []" by (simp add: read_file.simps)
  have cells: "row_fields 2 [''1'', ''a'' @ [CHR 0x22, CHR 0x0A]] = [''1'', ''a'' @ [CHR 0x22, CHR 0x0A]]"
    "row_fields 2 [''2''] = [''2'', '''']" "length [''time,s'', ''value''] = 2"
    by (simp_all add: row_fields_def numeral_2_eq_2)
  show ?thesis
    using csv_rows_readable[of "[''time,s'', ''value'']" "''''" "[]" ?env
        "[[''1'', ''a'' @ [CHR 0x22, CHR 0x0A]], [''2'']]" "''out.csv''", OF _ empty, unfolded Let_def cells(3) list.map cells(1,2)]
    unfolding Let_def by (simp del: fold_simps)
qed

end
