(* ===== verification/Logger.thy ===== *)
theory Logger
  imports String_Utils
begin

text \<open>
  utils/uav-log-level.\{h,cc\}, uav-log-sink.\{h,cc\}, uav-log-channels.h and uav-logger.\{h,cc\}: the
  levels, the console and file sinks, and the logger that routes a message of a channel to its sinks.  A
  sink keeps the lines it has written; the pointers of a channel to its file sinks are indices into the list
  of the logger.  What the world supplies is the record \<open>LogEnv\<close>: whether standard error is a terminal, which
  files can be opened, and the printing of a time.  The step relation \<open>log_step\<close> has a rule per operation.
\<close>

section \<open>Levels\<close>

datatype LogLevel = LL_TRACE | LL_DEBUG | LL_INFO | LL_WARN | LL_ERROR | LL_FATAL | LL_OFF

fun level_value :: "LogLevel \<Rightarrow> u8" where
  "level_value LL_TRACE = 0"
| "level_value LL_DEBUG = 1"
| "level_value LL_INFO = 2"
| "level_value LL_WARN = 3"
| "level_value LL_ERROR = 4"
| "level_value LL_FATAL = 5"
| "level_value LL_OFF = 255"

lemma level_value_inject: "level_value a = level_value b \<longleftrightarrow> a = b"
  by (induction a; induction b; simp)

instantiation LogLevel :: linorder
begin

definition less_eq_LogLevel :: "LogLevel \<Rightarrow> LogLevel \<Rightarrow> bool" where
  "less_eq_LogLevel a b = (level_value a \<le> level_value b)"

definition less_LogLevel :: "LogLevel \<Rightarrow> LogLevel \<Rightarrow> bool" where
  "less_LogLevel a b = (level_value a < level_value b)"

instance
proof
  fix a b :: LogLevel
  show "a \<le> b \<Longrightarrow> b \<le> a \<Longrightarrow> a = b"
    unfolding less_eq_LogLevel_def by (rule iffD1[OF level_value_inject], rule order_antisym)
qed (auto simp: less_eq_LogLevel_def less_LogLevel_def)

end

fun LogLevelChar :: "LogLevel \<Rightarrow> char" where
  "LogLevelChar LL_TRACE = CHR ''T''"
| "LogLevelChar LL_DEBUG = CHR ''D''"
| "LogLevelChar LL_INFO = CHR ''I''"
| "LogLevelChar LL_WARN = CHR ''W''"
| "LogLevelChar LL_ERROR = CHR ''E''"
| "LogLevelChar LL_FATAL = CHR ''F''"
| "LogLevelChar LL_OFF = CHR ''-''"

fun LogLevelToString :: "LogLevel \<Rightarrow> string" where
  "LogLevelToString LL_TRACE = ''TRACE''"
| "LogLevelToString LL_DEBUG = ''DEBUG''"
| "LogLevelToString LL_INFO = ''INFO''"
| "LogLevelToString LL_WARN = ''WARN''"
| "LogLevelToString LL_ERROR = ''ERROR''"
| "LogLevelToString LL_FATAL = ''FATAL''"
| "LogLevelToString LL_OFF = ''OFF''"

definition LogLevelFromString :: "string \<Rightarrow> LogLevel" where
  "LogLevelFromString s =
     (let u = ToUpper (Trim s) in
      if u = ''TRACE'' then LL_TRACE
      else if u = ''DEBUG'' then LL_DEBUG
      else if u = ''INFO'' then LL_INFO
      else if u = ''WARN'' \<or> u = ''WARNING'' then LL_WARN
      else if u = ''ERROR'' \<or> u = ''ERR'' then LL_ERROR
      else if u = ''FATAL'' then LL_FATAL
      else if u = ''OFF'' then LL_OFF
      else LL_OFF)"

fun LogLevelAnsiColour :: "LogLevel \<Rightarrow> string" where
  "LogLevelAnsiColour LL_TRACE = CHR 0x1B # ''[90m''"
| "LogLevelAnsiColour LL_DEBUG = CHR 0x1B # ''[36m''"
| "LogLevelAnsiColour LL_INFO = CHR 0x1B # ''[37m''"
| "LogLevelAnsiColour LL_WARN = CHR 0x1B # ''[33m''"
| "LogLevelAnsiColour LL_ERROR = CHR 0x1B # ''[31m''"
| "LogLevelAnsiColour LL_FATAL = CHR 0x1B # ''[1;31m''"
| "LogLevelAnsiColour LL_OFF = ''''"

section \<open>Sinks\<close>

record LogEnv =
  le_tty :: bool
  le_can_open :: "string \<Rightarrow> bool"
  le_time :: "u64 \<Rightarrow> string"

record LogRecord =
  lg_level :: LogLevel
  lg_channel :: string
  lg_file :: string
  lg_line :: nat
  lg_function :: string
  lg_message :: string
  lg_epoch_us :: u64

definition log_base :: "string \<Rightarrow> string" where
  "log_base fname = rev (takeWhile (\<lambda>c. c \<noteq> CHR ''/'' \<and> c \<noteq> CHR 0x5C) (rev fname))"

definition FormatLogLine :: "LogEnv \<Rightarrow> LogRecord \<Rightarrow> string" where
  "FormatLogLine env rec =
     le_time env (lg_epoch_us rec) @ '' ['' @ [LogLevelChar (lg_level rec)] @ '']'' @ '' ['' @ lg_channel rec @ '']'' @
     '' '' @ log_base (lg_file rec) @ '':'' @ dec_string (lg_line rec) @ '' '' @ lg_function rec @ ''()'' @ '' '' @ lg_message rec"

record ConsoleSink =
  cs_min_level :: LogLevel
  cs_colour :: bool
  cs_lines :: "string list"

definition ConsoleSink_new :: "LogEnv \<Rightarrow> bool \<Rightarrow> ConsoleSink" where
  "ConsoleSink_new env enable_colour = \<lparr> cs_min_level = LL_TRACE, cs_colour = enable_colour \<and> le_tty env, cs_lines = [] \<rparr>"

definition Console_Write :: "LogEnv \<Rightarrow> LogRecord \<Rightarrow> ConsoleSink \<Rightarrow> ConsoleSink" where
  "Console_Write env rec s =
     (if lg_level rec < cs_min_level s then s
      else
        let line = FormatLogLine env rec;
            line = (if cs_colour s then LogLevelAnsiColour (lg_level rec) @ line @ CHR 0x1B # ''[0m'' else line)
        in s \<lparr> cs_lines := cs_lines s @ [line] \<rparr>)"

record FileSink =
  fk_min_level :: LogLevel
  fk_path :: string
  fk_ok :: bool
  fk_failed :: bool
  fk_lines :: "(LogLevel \<times> string) list"

definition FileSink_new :: "string \<Rightarrow> FileSink" where
  "FileSink_new path = \<lparr> fk_min_level = LL_TRACE, fk_path = path, fk_ok = False, fk_failed = False, fk_lines = [] \<rparr>"

text \<open>The file is opened by the first record that passes; a failure is final.\<close>

definition FileSink_Write :: "LogEnv \<Rightarrow> LogRecord \<Rightarrow> FileSink \<Rightarrow> FileSink" where
  "FileSink_Write env rec s =
     (if lg_level rec < fk_min_level s then s
      else
        let s = (if \<not> fk_ok s \<and> \<not> fk_failed s
                 then if le_can_open env (fk_path s) then s \<lparr> fk_ok := True \<rparr> else s \<lparr> fk_failed := True \<rparr>
                 else s)
        in if \<not> fk_ok s then s
           else s \<lparr> fk_lines := fk_lines s @ [(lg_level rec, FormatLogLine env rec)] \<rparr>)"

section \<open>The logger\<close>

record ChannelConfig =
  cc_level :: LogLevel
  cc_console_enabled :: bool
  cc_file_sinks :: "nat list"

definition ChannelConfig_new :: ChannelConfig where
  "ChannelConfig_new = \<lparr> cc_level = LL_TRACE, cc_console_enabled = True, cc_file_sinks = [] \<rparr>"

record Logger =
  lo_initialized :: bool
  lo_log_dir :: string
  lo_global_level :: LogLevel
  lo_console :: "ConsoleSink option"
  lo_file_sinks :: "FileSink list"
  lo_channels :: "string \<Rightarrow> ChannelConfig option"

definition Logger_new :: Logger where
  "Logger_new =
     \<lparr> lo_initialized = False, lo_log_dir = ''logs'', lo_global_level = LL_INFO, lo_console = None, lo_file_sinks = [],
       lo_channels = (\<lambda>_. None) \<rparr>"

definition EnsureChannel :: "string \<Rightarrow> Logger \<Rightarrow> Logger" where
  "EnsureChannel channel L =
     (if lo_channels L channel = None then L \<lparr> lo_channels := (lo_channels L)(channel \<mapsto> ChannelConfig_new) \<rparr> else L)"

definition channel_at :: "Logger \<Rightarrow> string \<Rightarrow> ChannelConfig" where
  "channel_at L channel = (case lo_channels L channel of None \<Rightarrow> ChannelConfig_new | Some cfg \<Rightarrow> cfg)"

text \<open>\<open>std::filesystem\<close>'s concatenation of two paths.\<close>

definition JoinPath :: "string \<Rightarrow> string \<Rightarrow> string" where
  "JoinPath a b =
     (if b \<noteq> [] \<and> hd b = CHR ''/'' then b
      else if a \<noteq> [] \<and> last a \<noteq> CHR ''/'' then a @ ''/'' @ b else a @ b)"

definition add_file_sink :: "string \<Rightarrow> string \<Rightarrow> LogLevel \<Rightarrow> Logger \<Rightarrow> Logger" where
  "add_file_sink channel path level L =
     (let L = EnsureChannel channel L;
          sink = (FileSink_new path) \<lparr> fk_min_level := level \<rparr>;
          cfg = channel_at L channel
      in L \<lparr> lo_channels := (lo_channels L)(channel \<mapsto> cfg \<lparr> cc_file_sinks := cc_file_sinks cfg @ [length (lo_file_sinks L)] \<rparr>),
             lo_file_sinks := lo_file_sinks L @ [sink] \<rparr>)"

definition default_channels :: "(string \<times> string) list" where
  "default_channels =
     [(''crypto'', ''crypto.log''), (''routing'', ''routing.log''), (''mobility'', ''mobility.log''), (''jammer'', ''jammer.log''),
      (''rekey'', ''rekey.log''), (''packet'', ''packet.log''), (''flowmonitor'', ''flowmonitor.log''), (''system'', ''system.log''),
      (''security'', ''security.log''), (''metrics'', ''metrics.log'')]"

definition Log_Initialize :: "LogEnv \<Rightarrow> string \<Rightarrow> LogLevel \<Rightarrow> bool \<Rightarrow> bool \<Rightarrow> Logger \<Rightarrow> Logger" where
  "Log_Initialize env log_dir global_level enable_console console_colour L =
     (let L = (if lo_initialized L \<and> lo_log_dir L \<noteq> log_dir
               then L \<lparr> lo_file_sinks := [], lo_channels := (\<lambda>_. None), lo_console := None, lo_initialized := False \<rparr> else L);
          L = L \<lparr> lo_log_dir := log_dir, lo_global_level := global_level \<rparr>;
          L = (case lo_console L of
                 None \<Rightarrow>
                   if enable_console
                   then L \<lparr> lo_console := Some ((ConsoleSink_new env console_colour) \<lparr> cs_min_level := global_level \<rparr>) \<rparr>
                   else L
               | Some c \<Rightarrow> L \<lparr> lo_console := Some (c \<lparr> cs_min_level := global_level, cs_colour := console_colour \<rparr>) \<rparr>);
          L = (if \<not> lo_initialized L
               then fold (\<lambda>(ch, fname). add_file_sink ch (JoinPath log_dir fname) global_level) default_channels L else L)
      in L \<lparr> lo_initialized := True \<rparr>)"

definition SetGlobalLevel :: "LogLevel \<Rightarrow> Logger \<Rightarrow> Logger" where
  "SetGlobalLevel l L =
     L \<lparr> lo_global_level := l, lo_console := map_option (\<lambda>c. c \<lparr> cs_min_level := l \<rparr>) (lo_console L) \<rparr>"

definition SetChannelLevel :: "string \<Rightarrow> LogLevel \<Rightarrow> Logger \<Rightarrow> LogLevel \<times> Logger" where
  "SetChannelLevel channel l L =
     (let L = EnsureChannel channel L;
          cfg = channel_at L channel
      in (cc_level cfg, L \<lparr> lo_channels := (lo_channels L)(channel \<mapsto> cfg \<lparr> cc_level := l \<rparr>) \<rparr>))"

definition ChannelLevel :: "Logger \<Rightarrow> string \<Rightarrow> LogLevel" where
  "ChannelLevel L channel = (case lo_channels L channel of None \<Rightarrow> LL_TRACE | Some cfg \<Rightarrow> cc_level cfg)"

definition ShouldLog :: "Logger \<Rightarrow> string \<Rightarrow> LogLevel \<Rightarrow> bool" where
  "ShouldLog L channel l =
     (if l < lo_global_level L then False
      else case lo_channels L channel of None \<Rightarrow> True | Some cfg \<Rightarrow> l \<ge> cc_level cfg)"

definition BindChannelToFile :: "string \<Rightarrow> string \<Rightarrow> Logger \<Rightarrow> Logger" where
  "BindChannelToFile channel filename L =
     (let full = (if filename \<noteq> [] \<and> hd filename \<noteq> CHR ''/'' then JoinPath (lo_log_dir L) filename else filename)
      in add_file_sink channel full (lo_global_level L) L)"

definition SetChannelConsoleEnabled :: "string \<Rightarrow> bool \<Rightarrow> Logger \<Rightarrow> Logger" where
  "SetChannelConsoleEnabled channel enabled L =
     (let L = EnsureChannel channel L;
          cfg = channel_at L channel
      in L \<lparr> lo_channels := (lo_channels L)(channel \<mapsto> cfg \<lparr> cc_console_enabled := enabled \<rparr>) \<rparr>)"

definition DispatchUnlocked :: "LogEnv \<Rightarrow> LogRecord \<Rightarrow> ChannelConfig \<Rightarrow> Logger \<Rightarrow> Logger" where
  "DispatchUnlocked env rec cfg L =
     (let L = (if cc_console_enabled cfg then L \<lparr> lo_console := map_option (Console_Write env rec) (lo_console L) \<rparr> else L)
      in L \<lparr> lo_file_sinks :=
               fold (\<lambda>i sinks. sinks[i := FileSink_Write env rec (sinks ! i)]) (cc_file_sinks cfg) (lo_file_sinks L) \<rparr>)"

definition Log :: "LogEnv \<Rightarrow> LogLevel \<Rightarrow> string \<Rightarrow> string option \<Rightarrow> nat \<Rightarrow> string option \<Rightarrow> string \<Rightarrow> u64 \<Rightarrow> Logger \<Rightarrow> Logger" where
  "Log env level channel fname line func message now_us L =
     (if level < lo_global_level L then L
      else
        let L = EnsureChannel channel L;
            cfg = channel_at L channel
        in if level < cc_level cfg then L
           else
             let rec = \<lparr> lg_level = level, lg_channel = channel, lg_file = case_option ''?'' id fname, lg_line = line,
                         lg_function = case_option ''?'' id func, lg_message = message, lg_epoch_us = now_us \<rparr>
             in DispatchUnlocked env rec cfg L)"

inductive log_step :: "LogEnv \<Rightarrow> Logger \<Rightarrow> Logger \<Rightarrow> bool" for env where
  initialize: "log_step env L (Log_Initialize env dir level con col L)"
| global_level: "log_step env L (SetGlobalLevel l L)"
| channel_level: "log_step env L (snd (SetChannelLevel ch l L))"
| bind: "log_step env L (BindChannelToFile ch fname L)"
| console: "log_step env L (SetChannelConsoleEnabled ch b L)"
| message: "log_step env L (Log env level ch fname line func msg now L)"

section \<open>Levels as text\<close>

lemma level_round_trip: "LogLevelFromString (LogLevelToString l) = l"
  by (cases l) (simp_all add: LogLevelFromString_def ToUpper_def toupper_def Trim_def TrimLeft_def TrimRight_def isspace_def Let_def)

lemma level_chars: "LogLevelChar a = LogLevelChar b \<longleftrightarrow> a = b"
  by (cases a; cases b) simp_all

lemma off_is_top: "l \<le> LL_OFF"
  by (cases l) (simp_all add: less_eq_LogLevel_def word_le_nat_alt)

lemma trace_is_bottom: "LL_TRACE \<le> l"
  by (cases l) (simp_all add: less_eq_LogLevel_def word_le_nat_alt)

section \<open>No channel points to a sink that is gone\<close>

definition fresh_sinks :: "nat \<Rightarrow> ChannelConfig \<Rightarrow> bool" where
  "fresh_sinks n cfg \<longleftrightarrow> distinct (cc_file_sinks cfg) \<and> (\<forall>i\<in>set (cc_file_sinks cfg). i < n)"

definition sinks_alive :: "Logger \<Rightarrow> bool" where
  "sinks_alive L \<longleftrightarrow> (\<forall>ch cfg. lo_channels L ch = Some cfg \<longrightarrow> fresh_sinks (length (lo_file_sinks L)) cfg)"

lemma channel_at_sinks: "sinks_alive L \<Longrightarrow> fresh_sinks (length (lo_file_sinks L)) (channel_at L ch)"
  by (auto simp: sinks_alive_def channel_at_def ChannelConfig_new_def fresh_sinks_def split: option.splits)

lemma ensure_simps [simp]:
  "lo_file_sinks (EnsureChannel ch L) = lo_file_sinks L"
  "lo_global_level (EnsureChannel ch L) = lo_global_level L"
  "lo_console (EnsureChannel ch L) = lo_console L"
  "lo_initialized (EnsureChannel ch L) = lo_initialized L"
  "channel_at (EnsureChannel ch L) ch' = channel_at L ch'"
  by (simp_all add: EnsureChannel_def channel_at_def split: option.splits)

lemma alive_ensure: "sinks_alive L \<Longrightarrow> sinks_alive (EnsureChannel ch L)"
  by (auto simp: sinks_alive_def EnsureChannel_def ChannelConfig_new_def fresh_sinks_def)

lemma alive_channel:
  assumes "sinks_alive L" and "fresh_sinks (length (lo_file_sinks L)) cfg"
  shows "sinks_alive (L \<lparr> lo_channels := (lo_channels L)(ch \<mapsto> cfg) \<rparr>)"
  using assms by (auto simp: sinks_alive_def)

lemma alive_add:
  assumes "sinks_alive L"
  shows "sinks_alive (add_file_sink ch path l L)"
proof -
  let ?L = "EnsureChannel ch L" and ?n = "length (lo_file_sinks L)"
  have more: "fresh_sinks (Suc n) cfg" if "fresh_sinks n cfg" for n cfg
    using that by (auto simp: fresh_sinks_def intro: less_SucI)
  have "fresh_sinks (Suc ?n) cfg" if "lo_channels ?L c = Some cfg" for c cfg
    using alive_ensure[OF assms, of ch] that more by (auto simp: sinks_alive_def)
  moreover have "fresh_sinks (Suc ?n) ((channel_at L ch) \<lparr> cc_file_sinks := cc_file_sinks (channel_at L ch) @ [?n] \<rparr>)"
    using channel_at_sinks[OF assms, of ch] by (auto simp: fresh_sinks_def)
  ultimately show ?thesis by (simp add: sinks_alive_def add_file_sink_def Let_def)
qed

lemma alive_defaults:
  "sinks_alive L \<Longrightarrow> sinks_alive (fold (\<lambda>(ch, fname). add_file_sink ch (JoinPath dir fname) l) chs L)"
  by (induction chs arbitrary: L) (auto simp: alive_add)

lemma alive_cong: "lo_channels L' = lo_channels L \<Longrightarrow> length (lo_file_sinks L') = length (lo_file_sinks L) \<Longrightarrow> sinks_alive L' = sinks_alive L"
  by (simp add: sinks_alive_def)

lemma length_fold_writes: "length (fold (\<lambda>i sinks. sinks[i := FileSink_Write env r (sinks ! i)]) is sinks) = length sinks"
  by (induction "is" arbitrary: sinks) simp_all

lemma alive_dispatch: "sinks_alive L \<Longrightarrow> sinks_alive (DispatchUnlocked env r cfg L)"
  by (rule iffD2[OF alive_cong]) (simp_all add: DispatchUnlocked_def Let_def length_fold_writes)

lemma alive_initialize:
  assumes "sinks_alive L"
  shows "sinks_alive (Log_Initialize env dir level con col L)"
proof -
  define A where "A = (if lo_initialized L \<and> lo_log_dir L \<noteq> dir
     then L \<lparr> lo_file_sinks := [], lo_channels := (\<lambda>_. None), lo_console := None, lo_initialized := False \<rparr> else L)"
  define B where "B = A \<lparr> lo_log_dir := dir, lo_global_level := level \<rparr>"
  define C where "C = (case lo_console B of
       None \<Rightarrow> if con then B \<lparr> lo_console := Some ((ConsoleSink_new env col) \<lparr> cs_min_level := level \<rparr>) \<rparr> else B
     | Some c \<Rightarrow> B \<lparr> lo_console := Some (c \<lparr> cs_min_level := level, cs_colour := col \<rparr>) \<rparr>)"
  have "sinks_alive A" using assms by (auto simp: A_def sinks_alive_def)
  then have "sinks_alive C"
    by (auto simp: B_def C_def sinks_alive_def split: option.splits)
  then have "sinks_alive (if \<not> lo_initialized C
      then fold (\<lambda>(ch, fname). add_file_sink ch (JoinPath dir fname) level) default_channels C else C)"
    by (simp add: alive_defaults)
  then show ?thesis
    unfolding Log_Initialize_def Let_def A_def[symmetric] B_def[symmetric] C_def[symmetric]
    by (subst alive_cong) simp_all
qed

lemma alive_step: "log_step env L L' \<Longrightarrow> sinks_alive L \<Longrightarrow> sinks_alive L'"
proof (induction rule: log_step.induct)
  case (global_level L l)
  then show ?case by (subst alive_cong) (simp_all add: SetGlobalLevel_def)
next
  case (message L level ch fname line func msg now)
  then show ?case by (auto simp: Log_def Let_def intro: alive_dispatch alive_ensure)
next
  case (channel_level L ch l)
  then show ?case
    using channel_at_sinks[OF channel_level, of ch]
    by (auto simp: SetChannelLevel_def Let_def fresh_sinks_def intro!: alive_channel alive_ensure)
next
  case (console L ch b)
  then show ?case
    using channel_at_sinks[OF console, of ch]
    by (auto simp: SetChannelConsoleEnabled_def Let_def fresh_sinks_def intro!: alive_channel alive_ensure)
qed (simp_all add: alive_initialize BindChannelToFile_def alive_add)

section \<open>What reaches a fname\<close>

lemma fold_writes:
  assumes "distinct is" and "\<forall>i\<in>set is. i < length sinks" and "j < length sinks"
  shows "fold (\<lambda>i sinks. sinks[i := FileSink_Write env r (sinks ! i)]) is sinks ! j =
           (if j \<in> set is then FileSink_Write env r (sinks ! j) else sinks ! j)"
  using assms by (induction "is" arbitrary: sinks) (auto simp: nth_list_update)

definition opens :: "LogEnv \<Rightarrow> FileSink \<Rightarrow> bool" where
  "opens env s \<longleftrightarrow> fk_ok s \<or> (\<not> fk_failed s \<and> le_can_open env (fk_path s))"

lemma write_lines:
  "fk_lines (FileSink_Write env r s) =
     fk_lines s @ (if fk_min_level s \<le> lg_level r \<and> opens env s then [(lg_level r, FormatLogLine env r)] else [])"
  by (auto simp: FileSink_Write_def opens_def Let_def not_less)

text \<open>A message reaches exactly the open files of its channel whose own level it passes, when it passes the
  level of the logger and of the channel; \<open>ShouldLog\<close> says just that.\<close>

lemma Log_delivers:
  assumes "sinks_alive L" and "i < length (lo_file_sinks L)"
  defines "s \<equiv> lo_file_sinks L ! i"
  shows "\<exists>text. fk_lines (lo_file_sinks (Log env level ch fname line func msg now L) ! i) =
     fk_lines s @ (if ShouldLog L ch level \<and> i \<in> set (cc_file_sinks (channel_at L ch)) \<and> fk_min_level s \<le> level \<and> opens env s
                   then [(level, text)] else [])"
proof -
  have should: "ShouldLog L ch level \<longleftrightarrow> \<not> level < lo_global_level L \<and> \<not> level < cc_level (channel_at L ch)"
    using trace_is_bottom[of level]
    by (auto simp: ShouldLog_def channel_at_def ChannelConfig_new_def not_less split: option.splits)
  let ?r = "\<lparr> lg_level = level, lg_channel = ch, lg_file = case_option ''?'' id fname, lg_line = line,
              lg_function = case_option ''?'' id func, lg_message = msg, lg_epoch_us = now \<rparr>"
  show ?thesis
  proof (cases "ShouldLog L ch level")
    case False
    then show ?thesis using should by (auto simp: Log_def Let_def s_def)
  next
    case True
    then have "lo_file_sinks (Log env level ch fname line func msg now L) =
        fold (\<lambda>i sinks. sinks[i := FileSink_Write env ?r (sinks ! i)]) (cc_file_sinks (channel_at L ch)) (lo_file_sinks L)"
      using should by (simp add: Log_def Let_def DispatchUnlocked_def)
    then have "lo_file_sinks (Log env level ch fname line func msg now L) ! i =
        (if i \<in> set (cc_file_sinks (channel_at L ch)) then FileSink_Write env ?r s else s)"
      using fold_writes[of "cc_file_sinks (channel_at L ch)" "lo_file_sinks L" i env ?r] channel_at_sinks[OF assms(1), of ch] assms(2)
      by (simp add: fresh_sinks_def s_def)
    then show ?thesis using True by (simp add: write_lines)
  qed
qed

text \<open>The level a file was created with never changes: \<open>SetGlobalLevel\<close> and a second \<open>Initialize\<close> with the same
  directory change the console only, so a lower level does not reach the files.\<close>

lemma file_levels_stay:
  "map fk_min_level (lo_file_sinks (SetGlobalLevel l L)) = map fk_min_level (lo_file_sinks L)"
  "lo_initialized L \<Longrightarrow>
     map fk_min_level (lo_file_sinks (Log_Initialize env (lo_log_dir L) l con col L)) = map fk_min_level (lo_file_sinks L)"
  by (auto simp: SetGlobalLevel_def Log_Initialize_def Let_def split: option.splits)

lemma lowered_level_misses_files:
  assumes "sinks_alive L" and "i < length (lo_file_sinks L)" and "level < fk_min_level (lo_file_sinks L ! i)"
  shows "fk_lines (lo_file_sinks (Log env level ch fname line func msg now (SetGlobalLevel l L)) ! i) =
           fk_lines (lo_file_sinks L ! i)"
proof -
  have "sinks_alive (SetGlobalLevel l L)"
    using alive_step[OF log_step.global_level assms(1)] .
  then show ?thesis
    using Log_delivers[of "SetGlobalLevel l L" i env level ch fname line func msg now] assms(2,3)
    by (auto simp: SetGlobalLevel_def not_less)
qed

text \<open>Changing the directory forgets the levels of all channels.\<close>

lemma new_directory_forgets:
  assumes "lo_initialized L" and "lo_log_dir L \<noteq> dir"
  shows "ChannelLevel (Log_Initialize env dir l con col L) ch = LL_TRACE"
proof -
  have add: "(\<forall>ch. ChannelLevel L ch = LL_TRACE) \<Longrightarrow> (\<forall>ch. ChannelLevel (add_file_sink c path l L) ch = LL_TRACE)" for c path L
    by (auto simp: ChannelLevel_def add_file_sink_def EnsureChannel_def channel_at_def ChannelConfig_new_def Let_def split: option.splits if_splits)
  have "(\<forall>ch. ChannelLevel L ch = LL_TRACE) \<Longrightarrow>
      \<forall>ch. ChannelLevel (fold (\<lambda>(ch, fname). add_file_sink ch (JoinPath dir fname) l) chs L) ch = LL_TRACE" for chs L
    by (induction chs arbitrary: L) (auto dest: add)
  then show ?thesis
    using assms by (auto simp: Log_Initialize_def Let_def ChannelLevel_def split: option.splits)
qed

end
