(* ===== verification/Params_Loader.thy ===== *)
theory Params_Loader
  imports Crt_Manager Key_Encoding
begin

text \<open>
  The loading of crypto\_params.json: \<open>CryptoParamsLoader::ParseJson\<close>, \<open>LoadFromString\<close> and
  \<open>LoadFromFile\<close> of crypto/uav-crypto-params.cc, \<open>CrtManager::LoadFromFile\<close>, and the
  generation of safe primes and the decimal strings of crypto/uav-bigint.cc.  The nlohmann library is
  a parameter, the record \<open>json_lib\<close>: a call that throws is \<open>None\<close>; the text of a file and the primes of OpenSSL
  are given by their outcome.
\<close>

section \<open>The library\<close>

text \<open>
  \<open>jl_at\<close> is \<open>at(key)\<close>, \<open>jl_string\<close> and \<open>jl_u32\<close> are \<open>get<T>()\<close>, \<open>jl_elements\<close> what a loop
  over a value visits; \<open>jl_bigint\<close> is the constructor of \<open>BigInt\<close> from a string and \<open>jl_bigint_str\<close> its
  method \<open>str()\<close>.
\<close>

record 'j json_lib =
  jl_parse :: "string \<Rightarrow> 'j option"
  jl_is_object :: "'j \<Rightarrow> bool"
  jl_contains :: "'j \<Rightarrow> string \<Rightarrow> bool"
  jl_at :: "'j \<Rightarrow> string \<Rightarrow> 'j option"
  jl_string :: "'j \<Rightarrow> string option"
  jl_u32 :: "'j \<Rightarrow> u32 option"
  jl_elements :: "'j \<Rightarrow> 'j list"
  jl_bigint :: "string \<Rightarrow> int option"
  jl_bigint_str :: "int \<Rightarrow> string"

definition or_throw :: "uav_exn \<Rightarrow> 'a option \<Rightarrow> 'a res" where
  "or_throw e r = (case r of None \<Rightarrow> Inl e | Some x \<Rightarrow> Inr x)"

definition FromDecString :: "'j json_lib \<Rightarrow> string \<Rightarrow> int res" where
  "FromDecString L s = (if s = [] then Inl CryptoException else or_throw CryptoException (jl_bigint L s))"

definition ToDecString :: "'j json_lib \<Rightarrow> int \<Rightarrow> string" where
  "ToDecString L n = jl_bigint_str L n"

definition at_value :: "'j json_lib \<Rightarrow> 'j \<Rightarrow> string \<Rightarrow> 'j res" where
  "at_value L j key = or_throw StdException (jl_at L j key)"

definition at_string :: "'j json_lib \<Rightarrow> 'j \<Rightarrow> string \<Rightarrow> string res" where
  "at_string L j key = rbind (at_value L j key) (\<lambda>v. or_throw StdException (jl_string L v))"

definition at_u32 :: "'j json_lib \<Rightarrow> 'j \<Rightarrow> string \<Rightarrow> u32 res" where
  "at_u32 L j key = rbind (at_value L j key) (\<lambda>v. or_throw StdException (jl_u32 L v))"

definition at_bigint :: "'j json_lib \<Rightarrow> 'j \<Rightarrow> string \<Rightarrow> int res" where
  "at_bigint L j key = rbind (at_string L j key) (FromDecString L)"

text \<open>\<open>value(key, def)\<close> throws on anything but an object.\<close>

definition value_or :: "'j json_lib \<Rightarrow> ('j json_lib \<Rightarrow> 'j \<Rightarrow> string \<Rightarrow> 'a res) \<Rightarrow> 'j \<Rightarrow> string \<Rightarrow> 'a \<Rightarrow> 'a res" where
  "value_or L get j key def =
     (if \<not> jl_is_object L j then Inl StdException
      else if jl_contains L j key then get L j key else Inr def)"

text \<open>A loop that appends what it reads of every element.\<close>

fun read_all :: "('j \<Rightarrow> 'a res) \<Rightarrow> 'j list \<Rightarrow> 'a list res" where
  "read_all f [] = Inr []"
| "read_all f (v # vs) = rbind (f v) (\<lambda>x. rbind (read_all f vs) (\<lambda>xs. Inr (x # xs)))"

section \<open>Parsing\<close>

definition slave_entry :: "'j json_lib \<Rightarrow> 'j \<Rightarrow> SlaveKeyEntry res" where
  "slave_entry L skj =
     rbind (at_u32 L skj ''uav_index'') (\<lambda>uav_index.
     rbind (at_u32 L skj ''uav_id'') (\<lambda>uav_id.
     rbind (at_bigint L skj ''e_i'') (\<lambda>e_i.
     rbind (at_bigint L skj ''d_i'') (\<lambda>d_i.
     rbind (at_bigint L skj ''n_i'') (\<lambda>n_i.
     rbind (at_bigint L skj ''x_i'') (\<lambda>x_i.
     rbind (at_bigint L skj ''y_i'') (\<lambda>y_i.
     rbind (at_bigint L skj ''Mi'') (\<lambda>Mi.
     rbind (at_bigint L skj ''Ni'') (\<lambda>Ni.
     rbind (at_bigint L skj ''xy_i'') (\<lambda>xy_i.
     rbind (at_bigint L skj ''p_i'') (\<lambda>p_i.
     rbind (at_bigint L skj ''q_i'') (\<lambda>q_i.
     Inr \<lparr> sk_uav_index = uav_index, sk_uav_id = uav_id, sk_e = e_i, sk_d = d_i, sk_n = n_i, sk_x = x_i, sk_y = y_i,
           sk_M = Mi, sk_N = Ni, sk_xy = xy_i, sk_p = p_i, sk_q = q_i \<rparr>))))))))))))"

definition ParseSlaveKey :: "'j json_lib \<Rightarrow> string \<Rightarrow> SlaveKeyEntry res" where
  "ParseSlaveKey L slave_json = rbind (or_throw StdException (jl_parse L slave_json)) (slave_entry L)"

text \<open>An optional number keeps the zero of a new \<open>BigInt\<close>; \<open>tek_int\<close> may also be called \<open>T\<close>.\<close>

definition bigint_if :: "'j json_lib \<Rightarrow> 'j \<Rightarrow> string \<Rightarrow> int res \<Rightarrow> int res" where
  "bigint_if L j key otherwise = (if jl_contains L j key then at_bigint L j key else otherwise)"

definition cluster_entry :: "'j json_lib \<Rightarrow> 'j \<Rightarrow> ClusterCryptoEntry res" where
  "cluster_entry L cj =
     rbind (at_u32 L cj ''cluster_id'') (\<lambda>cluster_id.
     rbind (at_u32 L cj ''skdc_id'') (\<lambda>skdc_id.
     rbind (at_u32 L cj ''num_uavs'') (\<lambda>num_uavs.
     rbind (at_bigint L cj ''eM'') (\<lambda>eM.
     rbind (at_bigint L cj ''n_total'') (\<lambda>n_total.
     rbind (bigint_if L cj ''tek_int'' (bigint_if L cj ''T'' (Inr 0))) (\<lambda>tek_int.
     rbind (at_bigint L cj ''MT_K'') (\<lambda>MT_K.
     rbind (at_bigint L cj ''e_MK'') (\<lambda>e_MK.
     rbind (bigint_if L cj ''N_global'' (Inr 0)) (\<lambda>N_global.
     rbind (bigint_if L cj ''N_group'' (Inr 0)) (\<lambda>N_group.
     rbind (at_string L cj ''tek_hex'') (\<lambda>tek_hex.
     rbind (HexToAesKey tek_hex) (\<lambda>tek.
     rbind (at_value L cj ''user_indices'') (\<lambda>idxs.
     rbind (read_all (\<lambda>v. or_throw StdException (jl_u32 L v)) (jl_elements L idxs)) (\<lambda>user_indices.
     rbind (at_value L cj ''slave_keys'') (\<lambda>sks.
     rbind (read_all (slave_entry L) (jl_elements L sks)) (\<lambda>slave_keys.
     Inr \<lparr> cc_cluster_id = cluster_id, cc_skdc_id = skdc_id, cc_num_uavs = num_uavs, cc_eM = eM, cc_n_total = n_total,
           cc_N_global = N_global, cc_N_group = N_group, cc_tek = tek, cc_tek_hex = tek_hex, cc_tek_int = tek_int,
           cc_MT_K = MT_K, cc_e_MK = e_MK, cc_user_indices = user_indices, cc_slave_keys = slave_keys \<rparr>))))))))))))))))"

definition ParseJson :: "'j json_lib \<Rightarrow> string \<Rightarrow> CryptoParamsFile res" where
  "ParseJson L json_str =
     rbind (or_throw StdException (jl_parse L json_str)) (\<lambda>j.
     rbind (at_string L j ''scheme'') (\<lambda>scheme.
     rbind (value_or L at_string j ''global_bootstrap_key'' (replicate 64 (CHR ''0''))) (\<lambda>gk.
     rbind (at_u32 L j ''num_clusters'') (\<lambda>num_clusters.
     rbind (at_u32 L j ''uavs_per_cluster'') (\<lambda>uavs_per_cluster.
     rbind (at_u32 L j ''total_uavs'') (\<lambda>total_uavs.
     rbind (value_or L at_u32 j ''seed'' 42) (\<lambda>seed.
     rbind (at_value L j ''clusters'') (\<lambda>cs.
     rbind (read_all (cluster_entry L) (jl_elements L cs)) (\<lambda>clusters.
     Inr \<lparr> cp_scheme = scheme, cp_global_key_hex = gk, cp_num_clusters = num_clusters,
           cp_uavs_per_cluster = uavs_per_cluster, cp_total_uavs = total_uavs, cp_seed = seed,
           cp_clusters = clusters \<rparr>)))))))))"

definition LoadFromString :: "'j json_lib \<Rightarrow> string \<Rightarrow> CryptoParamsFile res" where
  "LoadFromString L json_str =
     rbind (ParseJson L json_str) (\<lambda>params. rbind (ValidateOrThrow params) (\<lambda>_. Inr params))"

text \<open>The argument is what \<open>ReadTextFile\<close> returns for the path.\<close>

definition LoadFromFile :: "'j json_lib \<Rightarrow> string res \<Rightarrow> CryptoParamsFile res" where
  "LoadFromFile L read_text =
     (case read_text of
        Inl _ \<Rightarrow> Inl ConfigException
      | Inr json_str \<Rightarrow> rbind (ParseJson L json_str) (\<lambda>params. rbind (ValidateOrThrow params) (\<lambda>_. Inr params)))"

text \<open>\<open>CrtManager::LoadFromFile\<close>; as in \<open>LoadFromParams\<close>, \<open>None\<close> is a write behind the clusters.\<close>

definition Crt_LoadFromFile :: "'j json_lib \<Rightarrow> string res \<Rightarrow> CrtManager comp" where
  "Crt_LoadFromFile L read_text =
     (case LoadFromFile L read_text of
        Inl e \<Rightarrow> Some (Inl e)
      | Inr params \<Rightarrow> (case LoadFromParams params of None \<Rightarrow> None | Some cm \<Rightarrow> cret cm))"

section \<open>Safe primes\<close>

text \<open>
  The argument is the hexadecimal string of the number \<open>BN_generate_prime_ex\<close> has drawn, \<open>None\<close> when one of the
  three OpenSSL calls fails.
\<close>

definition GenerateSafePrime :: "ext \<Rightarrow> nat \<Rightarrow> string option \<Rightarrow> int res" where
  "GenerateSafePrime E bits drawn =
     (if bits < 8 then Inl CryptoException
      else rbind (or_throw CryptoException drawn) (FromHexString E))"

fun GenerateSafePrimes :: "ext \<Rightarrow> nat \<Rightarrow> nat \<Rightarrow> (nat \<Rightarrow> string option) \<Rightarrow> int list res" where
  "GenerateSafePrimes E 0 bits drawn = Inr []"
| "GenerateSafePrimes E (Suc k) bits drawn =
     rbind (GenerateSafePrimes E k bits drawn) (\<lambda>primes.
     rbind (GenerateSafePrime E bits (drawn k)) (\<lambda>p. Inr (primes @ [p])))"

section \<open>Lemmas\<close>

lemma or_throw_Inr [simp]: "or_throw e r = Inr x \<longleftrightarrow> r = Some x"
  by (cases r) (auto simp: or_throw_def)

lemma or_throw_Some [simp]: "or_throw e (Some x) = Inr x"
  by (simp add: or_throw_def)

lemma read_all_iff: "read_all f vs = Inr xs \<longleftrightarrow> list_all2 (\<lambda>v x. f v = Inr x) vs xs"
  by (induction vs arbitrary: xs) (auto simp: rbind_eq_Inr_iff list_all2_Cons1)

lemma read_all_map: "(\<And>x. x \<in> set xs \<Longrightarrow> f (g x) = Inr x) \<Longrightarrow> read_all f (map g xs) = Inr xs"
  by (induction xs) simp_all

lemma cluster_entry_key:
  "cluster_entry L cj = Inr c \<Longrightarrow> HexToAesKey (cc_tek_hex c) = Inr (cc_tek c)"
  by (auto simp: cluster_entry_def rbind_eq_Inr_iff)

lemma ParseJson_clusters:
  assumes "ParseJson L s = Inr p" "c \<in> set (cp_clusters p)"
  shows "\<exists>cj. cluster_entry L cj = Inr c"
proof -
  obtain vs where "list_all2 (\<lambda>v x. cluster_entry L v = Inr x) vs (cp_clusters p)"
    using assms(1) by (auto simp: ParseJson_def rbind_eq_Inr_iff read_all_iff)
  with assms(2) show ?thesis by (auto simp: list_all2_conv_all_nth in_set_conv_nth)
qed

text \<open>Parsing never reports a configuration error.\<close>

named_theorems no_config \<open>operations that throw no ConfigException\<close>

definition no_config_error :: "'a res \<Rightarrow> bool" where
  "no_config_error r \<longleftrightarrow> r \<noteq> Inl ConfigException"

lemma no_config_rbind [no_config]:
  "no_config_error m \<Longrightarrow> (\<And>x. no_config_error (f x)) \<Longrightarrow> no_config_error (rbind m f)"
  by (cases m) (auto simp: no_config_error_def)

lemma no_config_basic [no_config]:
  "no_config_error (Inr x)" "no_config_error (or_throw StdException r)" "no_config_error (or_throw CryptoException r)"
  by (auto simp: no_config_error_def or_throw_def split: option.splits)

lemma no_config_if [no_config]:
  "no_config_error a \<Longrightarrow> no_config_error b \<Longrightarrow> no_config_error (if P then a else b)"
  by simp

lemma no_config_read_all [no_config]: "(\<And>v. no_config_error (f v)) \<Longrightarrow> no_config_error (read_all f vs)"
  by (induction vs) (auto intro!: no_config)

lemma no_config_Inl [no_config]: "e \<noteq> ConfigException \<Longrightarrow> no_config_error (Inl e)"
  by (simp add: no_config_error_def)

lemma no_config_hex [no_config]: "no_config_error (HexToAesKey s)"
proof -
  have "no_config_error (stoul2_hex a b)" for a b
    by (auto simp: stoul2_hex_def no_config_error_def split: option.splits)
  then have "no_config_error (hex_pairs t)" for t
    by (induction t rule: hex_pairs.induct) (auto intro!: no_config)
  then show ?thesis by (auto simp: HexToAesKey_def intro!: no_config)
qed

lemma no_config_at [no_config]:
  "no_config_error (at_value L j k)" "no_config_error (at_string L j k)" "no_config_error (at_u32 L j k)"
  "no_config_error (at_bigint L j k)"
  unfolding at_bigint_def at_u32_def at_string_def at_value_def FromDecString_def
  by (intro no_config uav_exn.distinct; simp)+

lemma no_config_bigint_if [no_config]: "no_config_error r \<Longrightarrow> no_config_error (bigint_if L j k r)"
  unfolding bigint_if_def by (intro no_config)

lemma no_config_slave [no_config]: "no_config_error (slave_entry L j)"
  unfolding slave_entry_def by (intro no_config)

lemma no_config_cluster [no_config]: "no_config_error (cluster_entry L j)"
  unfolding cluster_entry_def by (intro no_config)

lemma no_config_ParseJson: "no_config_error (ParseJson L s)"
  unfolding ParseJson_def value_or_def by (intro no_config) simp_all

text \<open>What was generated as safe primes are safe primes, when the library draws them.\<close>

definition safe_prime :: "int \<Rightarrow> bool" where
  "safe_prime p \<longleftrightarrow> prime_int p \<and> prime_int ((p - 1) div 2)"

lemma GenerateSafePrimes_safe:
  assumes "GenerateSafePrimes E k bits drawn = Inr ps"
    and "\<And>i hex p. drawn i = Some hex \<Longrightarrow> FromHexString E hex = Inr p \<Longrightarrow> safe_prime p"
  shows "length ps = k \<and> (\<forall>p\<in>set ps. safe_prime p)"
  using assms(1)
proof (induction k arbitrary: ps)
  case (Suc k)
  then obtain qs q where q: "GenerateSafePrimes E k bits drawn = Inr qs" "GenerateSafePrime E bits (drawn k) = Inr q"
    "ps = qs @ [q]" by (auto simp: rbind_eq_Inr_iff)
  then have "safe_prime q" using assms(2)[of k _ q] by (auto simp: GenerateSafePrime_def rbind_eq_Inr_iff split: if_splits)
  with Suc.IH[OF q(1)] q(3) show ?case by auto
qed simp

section \<open>Documents\<close>

text \<open>
  The document of a set of parameters, with the members scripts/gen\_crypto.py gives it and the optional ones.
  \<open>json_writer\<close> are the constructors of JSON values.
\<close>

record 'j json_writer =
  jw_object :: "(string \<times> 'j) list \<Rightarrow> 'j"
  jw_array :: "'j list \<Rightarrow> 'j"
  jw_string :: "string \<Rightarrow> 'j"
  jw_u32 :: "u32 \<Rightarrow> 'j"

definition json_law :: "'j json_lib \<Rightarrow> 'j json_writer \<Rightarrow> bool" where
  "json_law L W \<longleftrightarrow>
     (\<forall>kvs. jl_is_object L (jw_object W kvs)) \<and>
     (\<forall>kvs k. jl_at L (jw_object W kvs) k = map_of kvs k) \<and>
     (\<forall>kvs k. jl_contains L (jw_object W kvs) k \<longleftrightarrow> map_of kvs k \<noteq> None) \<and>
     (\<forall>vs. jl_elements L (jw_array W vs) = vs) \<and>
     (\<forall>s. jl_string L (jw_string W s) = Some s) \<and>
     (\<forall>n. jl_u32 L (jw_u32 W n) = Some n) \<and>
     (\<forall>n. jl_bigint_str L n \<noteq> [] \<and> jl_bigint L (jl_bigint_str L n) = Some n)"

definition doc_bigint :: "'j json_lib \<Rightarrow> 'j json_writer \<Rightarrow> int \<Rightarrow> 'j" where
  "doc_bigint L W n = jw_string W (ToDecString L n)"

definition doc_slave :: "'j json_lib \<Rightarrow> 'j json_writer \<Rightarrow> SlaveKeyEntry \<Rightarrow> 'j" where
  "doc_slave L W sk =
     jw_object W
       [(''uav_index'', jw_u32 W (sk_uav_index sk)), (''uav_id'', jw_u32 W (sk_uav_id sk)),
        (''e_i'', doc_bigint L W (sk_e sk)), (''d_i'', doc_bigint L W (sk_d sk)), (''n_i'', doc_bigint L W (sk_n sk)),
        (''x_i'', doc_bigint L W (sk_x sk)), (''y_i'', doc_bigint L W (sk_y sk)), (''Mi'', doc_bigint L W (sk_M sk)),
        (''Ni'', doc_bigint L W (sk_N sk)), (''xy_i'', doc_bigint L W (sk_xy sk)), (''p_i'', doc_bigint L W (sk_p sk)),
        (''q_i'', doc_bigint L W (sk_q sk))]"

definition doc_cluster :: "'j json_lib \<Rightarrow> 'j json_writer \<Rightarrow> ClusterCryptoEntry \<Rightarrow> 'j" where
  "doc_cluster L W c =
     jw_object W
       [(''cluster_id'', jw_u32 W (cc_cluster_id c)), (''skdc_id'', jw_u32 W (cc_skdc_id c)),
        (''num_uavs'', jw_u32 W (cc_num_uavs c)), (''eM'', doc_bigint L W (cc_eM c)),
        (''n_total'', doc_bigint L W (cc_n_total c)), (''N_global'', doc_bigint L W (cc_N_global c)),
        (''N_group'', doc_bigint L W (cc_N_group c)), (''tek_hex'', jw_string W (cc_tek_hex c)),
        (''tek_int'', doc_bigint L W (cc_tek_int c)), (''MT_K'', doc_bigint L W (cc_MT_K c)),
        (''e_MK'', doc_bigint L W (cc_e_MK c)),
        (''user_indices'', jw_array W (map (jw_u32 W) (cc_user_indices c))),
        (''slave_keys'', jw_array W (map (doc_slave L W) (cc_slave_keys c)))]"

definition doc_params :: "'j json_lib \<Rightarrow> 'j json_writer \<Rightarrow> CryptoParamsFile \<Rightarrow> 'j" where
  "doc_params L W p =
     jw_object W
       [(''scheme'', jw_string W (cp_scheme p)), (''global_bootstrap_key'', jw_string W (cp_global_key_hex p)),
        (''num_clusters'', jw_u32 W (cp_num_clusters p)), (''uavs_per_cluster'', jw_u32 W (cp_uavs_per_cluster p)),
        (''total_uavs'', jw_u32 W (cp_total_uavs p)), (''seed'', jw_u32 W (cp_seed p)),
        (''clusters'', jw_array W (map (doc_cluster L W) (cp_clusters p)))]"

lemma at_object:
  assumes "json_law L W" "map_of kvs k = Some v"
  shows "at_value L (jw_object W kvs) k = Inr v" "jl_contains L (jw_object W kvs) k"
  using assms by (simp_all add: json_law_def at_value_def)

lemma at_fields:
  assumes "json_law L W"
  shows "map_of kvs k = Some (jw_u32 W n) \<Longrightarrow> at_u32 L (jw_object W kvs) k = Inr n"
    and "map_of kvs k = Some (jw_string W s) \<Longrightarrow> at_string L (jw_object W kvs) k = Inr s"
    and "map_of kvs k = Some (doc_bigint L W z) \<Longrightarrow> at_bigint L (jw_object W kvs) k = Inr z"
  using assms
  by (simp_all add: at_u32_def at_string_def at_bigint_def at_object doc_bigint_def json_law_def FromDecString_def
      ToDecString_def at_value_def)

lemma slave_entry_doc: "json_law L W \<Longrightarrow> slave_entry L (doc_slave L W sk) = Inr sk"
  by (simp add: slave_entry_def doc_slave_def at_fields)

lemma cluster_entry_doc:
  assumes "json_law L W" "HexToAesKey (cc_tek_hex c) = Inr (cc_tek c)"
  shows "cluster_entry L (doc_cluster L W c) = Inr c"
proof -
  have "read_all (\<lambda>v. or_throw StdException (jl_u32 L v)) (map (jw_u32 W) idxs) = Inr idxs" for idxs
    using assms(1) by (intro read_all_map) (simp add: json_law_def)
  moreover have "read_all (slave_entry L) (map (doc_slave L W) sks) = Inr sks" for sks
    using assms(1) by (intro read_all_map) (rule slave_entry_doc)
  moreover have "jl_elements L (jw_array W vs) = vs" for vs
    using assms(1) by (simp add: json_law_def)
  ultimately show ?thesis
    using assms(2)
    by (simp add: cluster_entry_def doc_cluster_def at_fields[OF assms(1)] at_object[OF assms(1)] bigint_if_def)
qed

text \<open>
  C39.  Loading is the inverse of writing: whatever parameters, the text of their document is parsed to exactly these
  parameters, and \<open>LoadFromString\<close> and \<open>LoadFromFile\<close> return them if and only if they pass the checks.  The one condition is
  that the key of every cluster is the one its 64 hexadecimal digits spell.
\<close>

theorem params_round_trip:
  assumes "json_law L W" "\<forall>c\<in>set (cp_clusters p). HexToAesKey (cc_tek_hex c) = Inr (cc_tek c)"
    and "jl_parse L s = Some (doc_params L W p)"
  shows "ParseJson L s = Inr p \<and> LoadFromString L s = rbind (ValidateOrThrow p) (\<lambda>_. Inr p) \<and>
    LoadFromFile L (Inr s) = LoadFromString L s"
proof -
  have "read_all (cluster_entry L) (map (doc_cluster L W) (cp_clusters p)) = Inr (cp_clusters p)"
    using assms(1,2) by (intro read_all_map) (simp add: cluster_entry_doc)
  moreover have "jl_elements L (jw_array W vs) = vs" "jl_is_object L (jw_object W kvs)" for vs kvs
    using assms(1) by (simp_all add: json_law_def)
  ultimately have "ParseJson L s = Inr p"
    using assms(3)
    by (simp add: ParseJson_def doc_params_def value_or_def at_fields[OF assms(1)] at_object[OF assms(1)])
  then show ?thesis by (simp add: LoadFromString_def LoadFromFile_def)
qed

section \<open>What a loaded file promises\<close>

text \<open>
  Whatever text is loaded, the parameters that are returned have passed the checks, every cluster has a traffic key of 32 bytes
  spelled by its 64 digits, every modulus and exponent is positive, and the only exception of a file that can be read but not parsed is one of
  the library or a \<open>CryptoException\<close>, never the \<open>ConfigException\<close> the header promises.
\<close>

theorem loaded_params:
  "LoadFromString L s = Inr p \<Longrightarrow>
     ValidateOrThrow p = Inr () \<and>
     (\<forall>c\<in>set (cp_clusters p). length (cc_tek_hex c) = 64 \<and> length (cc_tek c) = 32 \<and>
        HexToAesKey (cc_tek_hex c) = Inr (cc_tek c) \<and> (\<forall>sk\<in>set (cc_slave_keys c). 0 < sk_n sk \<and> 0 < sk_d sk))"
  "ParseJson L s \<noteq> Inl ConfigException"
proof -
  show "ParseJson L s \<noteq> Inl ConfigException"
    using no_config_ParseJson by (simp add: no_config_error_def)
  assume "LoadFromString L s = Inr p"
  then have p: "ParseJson L s = Inr p" "ValidateOrThrow p = Inr ()"
    by (auto simp: LoadFromString_def rbind_eq_Inr_iff)
  have "length (cc_tek_hex c) = 64 \<and> length (cc_tek c) = 32 \<and> HexToAesKey (cc_tek_hex c) = Inr (cc_tek c) \<and>
      (\<forall>sk\<in>set (cc_slave_keys c). 0 < sk_n sk \<and> 0 < sk_d sk)" if "c \<in> set (cp_clusters p)" for c
  proof -
    have key: "HexToAesKey (cc_tek_hex c) = Inr (cc_tek c)"
      using ParseJson_clusters[OF p(1) that] by (auto dest: cluster_entry_key)
    then have "length (cc_tek_hex c) = 64" by (auto simp: HexToAesKey_def split: if_splits)
    with key that show ?thesis using HexToAesKey_length[OF key] ValidateOrThrow_slaves[OF p(2)] by blast
  qed
  with p(2) show "ValidateOrThrow p = Inr () \<and>
     (\<forall>c\<in>set (cp_clusters p). length (cc_tek_hex c) = 64 \<and> length (cc_tek c) = 32 \<and>
        HexToAesKey (cc_tek_hex c) = Inr (cc_tek c) \<and> (\<forall>sk\<in>set (cc_slave_keys c). 0 < sk_n sk \<and> 0 < sk_d sk))"
    by blast
qed

text \<open>
  The cluster ids of a loaded file are not checked, and \<open>LoadFromParams\<close> uses them as indices: the manager is
  built when they are below the number of clusters, otherwise the code writes behind its vector.
\<close>

theorem Crt_LoadFromFile_ids:
  "LoadFromFile L r = Inr p \<Longrightarrow>
     (\<exists>cm. Crt_LoadFromFile L r = cret cm) \<longleftrightarrow> (\<forall>c\<in>set (cp_clusters p). cc_cluster_id c < cp_num_clusters p)"
  by (auto simp: Crt_LoadFromFile_def LoadFromParams_def list_all_iff cret_def)

section \<open>Witness\<close>

text \<open>JSON values as a datatype; a number is printed in unary.\<close>

datatype json_value = JObject "(string \<times> json_value) list" | JArray "json_value list" | JString string | JNumber u32

definition unary_str :: "int \<Rightarrow> string" where
  "unary_str n = (if n < 0 then CHR ''-'' # replicate (nat (- n)) (CHR ''1'') else CHR ''+'' # replicate (nat n) (CHR ''1''))"

definition unary_val :: "string \<Rightarrow> int option" where
  "unary_val s = (case s of [] \<Rightarrow> None | c # cs \<Rightarrow> Some (if c = CHR ''-'' then - int (length cs) else int (length cs)))"

definition value_writer :: "json_value json_writer" where
  "value_writer = \<lparr> jw_object = JObject, jw_array = JArray, jw_string = JString, jw_u32 = JNumber \<rparr>"

definition value_lib :: "(string \<Rightarrow> json_value option) \<Rightarrow> json_value json_lib" where
  "value_lib parse =
     \<lparr> jl_parse = parse, jl_is_object = (\<lambda>v. case v of JObject _ \<Rightarrow> True | _ \<Rightarrow> False),
       jl_contains = (\<lambda>v k. case v of JObject kvs \<Rightarrow> map_of kvs k \<noteq> None | _ \<Rightarrow> False),
       jl_at = (\<lambda>v k. case v of JObject kvs \<Rightarrow> map_of kvs k | _ \<Rightarrow> None),
       jl_string = (\<lambda>v. case v of JString s \<Rightarrow> Some s | _ \<Rightarrow> None),
       jl_u32 = (\<lambda>v. case v of JNumber n \<Rightarrow> Some n | _ \<Rightarrow> None),
       jl_elements = (\<lambda>v. case v of JArray vs \<Rightarrow> vs | _ \<Rightarrow> []),
       jl_bigint = unary_val, jl_bigint_str = unary_str \<rparr>"

lemma value_lib_law: "json_law (value_lib parse) value_writer"
  by (auto simp: json_law_def value_lib_def value_writer_def unary_val_def unary_str_def)

definition sample_slave :: SlaveKeyEntry where
  "sample_slave = \<lparr> sk_uav_index = 0, sk_uav_id = 7, sk_e = 5, sk_d = 5, sk_n = 35, sk_x = 2, sk_y = 3, sk_M = 1, sk_N = 1,
     sk_xy = 6, sk_p = 5, sk_q = 7 \<rparr>"

definition sample_params :: CryptoParamsFile where
  "sample_params = \<lparr> cp_scheme = ''MKE-MGKM'', cp_global_key_hex = replicate 64 (CHR ''0''), cp_num_clusters = 1,
     cp_uavs_per_cluster = 1, cp_total_uavs = 1, cp_seed = 42,
     cp_clusters = [\<lparr> cc_cluster_id = 0, cc_skdc_id = 0, cc_num_uavs = 1, cc_eM = 5, cc_n_total = 6, cc_N_global = 35,
       cc_N_group = 35, cc_tek = replicate 32 0, cc_tek_hex = replicate 64 (CHR ''0''), cc_tek_int = 2, cc_MT_K = 32, cc_e_MK = 5,
       cc_user_indices = [0], cc_slave_keys = [sample_slave] \<rparr>] \<rparr>"

lemma params_round_trip_witness:
  "let L = value_lib (\<lambda>_. Some (doc_params (value_lib (\<lambda>_. None)) value_writer sample_params))
   in LoadFromString L ''{}'' = Inr sample_params"
proof -
  let ?parse = "\<lambda>_. Some (doc_params (value_lib (\<lambda>_. None)) value_writer sample_params)"
  let ?L = "value_lib ?parse"
  have same: "doc_params (value_lib (\<lambda>_. None)) value_writer sample_params = doc_params ?L value_writer sample_params"
    by (simp add: doc_params_def doc_cluster_def doc_slave_def doc_bigint_def ToDecString_def value_lib_def cong: map_cong)
  have "hex_pairs (replicate (2 * n) (CHR ''0'')) = Inr (replicate n 0)" for n
    by (induction n) (simp_all add: stoul2_hex_def hex_digit_def)
  from this[of 32] have zeros: "HexToAesKey (replicate 64 (CHR ''0'')) = Inr (replicate 32 0)"
    by (simp add: HexToAesKey_def)
  have "ValidateOrThrow sample_params = Inr ()"
    by (simp add: ValidateOrThrow_def validate_cluster_def sample_params_def sample_slave_def)
  moreover have "\<forall>c\<in>set (cp_clusters sample_params). HexToAesKey (cc_tek_hex c) = Inr (cc_tek c)"
    unfolding sample_params_def using zeros by simp
  moreover have "jl_parse ?L ''{}'' = Some (doc_params ?L value_writer sample_params)"
    by (rule trans[OF _ arg_cong[where f = Some, OF same]]) (simp only: value_lib_def json_lib.select_convs)
  ultimately have "LoadFromString ?L ''{}'' = Inr sample_params"
    using params_round_trip[OF value_lib_law, of sample_params ?parse "''{}''"] by (metis rbind_simps(2))
  then show ?thesis by (simp only: Let_def)
qed

end
