(* ===== verification/Mobility_Setup.thy ===== *)
theory Mobility_Setup
  imports Mobility
begin

text \<open>
  How nodes get their mobility models and first positions: \<open>MobilityHelper::Install\<close> and
  \<open>ListPositionAllocator\<close> of ns-3 (src/src/mobility), \<open>MobilityManager::InstallGaussMarkov\<close>
  (mobility/uav-mobility-manager.cc), \<open>JammerMobilityManager::InstallRandomWaypoint\<close> (mobility/uav-jammer-mobility.cc)
  and \<open>GaussMarkovManager\<close> (mobility/uav-gauss-markov.cc).  A node is its number, the models of all nodes are a map.
  The helper never replaces the model of a node that has one; what this means for the program is shown in
  theory \<open>Topology_Facts\<close>.
\<close>

section \<open>Models and the helper\<close>

text \<open>The random variables the attributes of a model are given as.\<close>

datatype rand_var = ConstantRv real | UniformRv real real | NormalRv real real

record GaussMarkovAttr =
  gm_bounds :: "real \<times> real \<times> real \<times> real \<times> real \<times> real"
  gm_time_step :: real
  gm_alpha :: real
  gm_mean_velocity :: rand_var
  gm_mean_direction :: rand_var
  gm_mean_pitch :: rand_var
  gm_normal_velocity :: rand_var
  gm_normal_direction :: rand_var
  gm_normal_pitch :: rand_var

datatype MobilityModel =
    ConstantPosition
  | GaussMarkov GaussMarkovAttr
  | RandomWaypoint rand_var rand_var

record NodeMobility =
  nm_model :: MobilityModel
  nm_pos :: Vec

type_synonym mobilities = "u32 \<Rightarrow> NodeMobility option"

text \<open>
  \<open>MobilityHelper::Install(NodeContainer)\<close> with a list of positions.  Every node takes the next position, after
  the last one the first again; a node without a model gets a new one.  An empty list has no position (\<open>None\<close>).
\<close>

fun helper_install :: "MobilityModel \<Rightarrow> Vec list \<Rightarrow> u32 list \<Rightarrow> mobilities \<Rightarrow> mobilities option" where
  "helper_install model alloc [] mob = Some mob"
| "helper_install model [] (n # ns) mob = None"
| "helper_install model (v # vs) (n # ns) mob =
     helper_install model (vs @ [v]) ns
       (mob(n \<mapsto> \<lparr> nm_model = (case mob n of Some m \<Rightarrow> nm_model m | None \<Rightarrow> model), nm_pos = v \<rparr>))"

text \<open>\<open>SetAttribute("MeanVelocity", ...)\<close> on the Gauss-Markov model of a node, if it has one.\<close>

definition set_mean_velocity :: "real \<Rightarrow> u32 \<Rightarrow> mobilities \<Rightarrow> mobilities" where
  "set_mean_velocity speed n mob =
     (case mob n of
        Some m \<Rightarrow> (case nm_model m of
            GaussMarkov g \<Rightarrow> mob(n \<mapsto> m \<lparr> nm_model := GaussMarkov (g \<lparr> gm_mean_velocity := ConstantRv speed \<rparr>) \<rparr>)
          | _ \<Rightarrow> mob)
      | None \<Rightarrow> mob)"

section \<open>MobilityManager::InstallGaussMarkov\<close>

record MobilityConfig =
  mc_min_speed_mps :: real
  mc_max_speed_mps :: real
  mc_min_altitude_m :: real
  mc_max_altitude_m :: real
  mc_area_x_m :: real
  mc_area_y_m :: real
  mc_area_z_m :: real
  mc_formation_radius_m :: real
  mc_alpha :: real
  mc_mean_velocity :: real
  mc_mean_direction :: real
  mc_mean_pitch :: real
  mc_variance :: real
  mc_update_interval_s :: real
  mc_seed :: u32

definition MobilityConfig_new :: MobilityConfig where
  "MobilityConfig_new =
     \<lparr> mc_min_speed_mps = 10, mc_max_speed_mps = 25, mc_min_altitude_m = 50, mc_max_altitude_m = 150,
       mc_area_x_m = 1500, mc_area_y_m = 1500, mc_area_z_m = 200, mc_formation_radius_m = 100, mc_alpha = 0.85,
       mc_mean_velocity = 15, mc_mean_direction = 0, mc_mean_pitch = 0, mc_variance = 3, mc_update_interval_s = 0.5,
       mc_seed = 42 \<rparr>"

definition clamp :: "real \<Rightarrow> real \<Rightarrow> real" where
  "clamp x area = max 10 (min x (area - 10))"

text \<open>The position of the UAV \<open>u\<close> of cluster \<open>c\<close>; \<open>M_PI\<close> is \<open>pi\<close>.\<close>

definition formation_pos :: "MobilityConfig \<Rightarrow> nat \<Rightarrow> nat \<Rightarrow> Vec" where
  "formation_pos cfg c u =
     (let (cx, cy) = CLUSTER_CENTERS ! c;
          angle = (2 * pi * real u) / 6;
          r = mc_formation_radius_m cfg;
          x = cx + r * cos angle;
          y = cy + r * sin angle
      in \<lparr> vx = clamp x (mc_area_x_m cfg), vy = clamp y (mc_area_y_m cfg),
           vz = mc_min_altitude_m cfg + (mc_max_altitude_m cfg - mc_min_altitude_m cfg) * real u / 5 \<rparr>)"

text \<open>The inner loop runs to \<open>(u32) radius / 16 + 6\<close> and breaks at 6.\<close>

definition formation_slots :: "MobilityConfig \<Rightarrow> nat list" where
  "formation_slots cfg = takeWhile (\<lambda>u. u < 6) [0..<nat \<lfloor>mc_formation_radius_m cfg\<rfloor> div 16 + 6]"

definition formation :: "MobilityConfig \<Rightarrow> Vec list" where
  "formation cfg = concat (map (\<lambda>c. map (formation_pos cfg c) (formation_slots cfg)) [0..<3])"

definition gauss_markov_of :: "MobilityConfig \<Rightarrow> MobilityModel" where
  "gauss_markov_of cfg =
     GaussMarkov \<lparr> gm_bounds = (0, mc_area_x_m cfg, 0, mc_area_y_m cfg, mc_min_altitude_m cfg, mc_max_altitude_m cfg),
       gm_time_step = mc_update_interval_s cfg, gm_alpha = mc_alpha cfg,
       gm_mean_velocity = ConstantRv (mc_mean_velocity cfg), gm_mean_direction = ConstantRv (mc_mean_direction cfg),
       gm_mean_pitch = ConstantRv (mc_mean_pitch cfg), gm_normal_velocity = NormalRv 0 (mc_variance cfg),
       gm_normal_direction = NormalRv 0 0.1, gm_normal_pitch = NormalRv 0 0.02 \<rparr>"

definition InstallGaussMarkov :: "MobilityConfig \<Rightarrow> u32 list \<Rightarrow> mobilities \<Rightarrow> mobilities option" where
  "InstallGaussMarkov cfg uav_nodes mob =
     map_option (fold (set_mean_velocity (mc_mean_velocity cfg)) uav_nodes)
       (helper_install (gauss_markov_of cfg) (formation cfg) uav_nodes mob)"

section \<open>The jammer\<close>

text \<open>\<open>drawn\<close> is the position the random rectangle yields.\<close>

definition InstallRandomWaypoint :: "real \<Rightarrow> real \<Rightarrow> Vec \<Rightarrow> u32 list \<Rightarrow> mobilities \<Rightarrow> mobilities option" where
  "InstallRandomWaypoint min_speed max_speed drawn jammer_node mob =
     (if jammer_node = [] then Some mob
      else helper_install (RandomWaypoint (UniformRv min_speed max_speed) (ConstantRv 0)) [drawn] jammer_node mob)"

section \<open>GaussMarkovManager\<close>

text \<open>The state is the vector of the speeds; \<open>draws\<close> are the values of the uniform distribution.\<close>

definition GaussMarkovManager_new :: "real \<Rightarrow> u32 list \<Rightarrow> real list" where
  "GaussMarkovManager_new mean_velocity uav_nodes = replicate (length uav_nodes) mean_velocity"

fun RandomizeUavSpeeds :: "(nat \<Rightarrow> real) \<Rightarrow> nat \<Rightarrow> u32 list \<Rightarrow> real list \<Rightarrow> mobilities \<Rightarrow> real list \<times> mobilities" where
  "RandomizeUavSpeeds draws i [] speeds mob = (speeds, mob)"
| "RandomizeUavSpeeds draws i (n # ns) speeds mob =
     RandomizeUavSpeeds draws (Suc i) ns (speeds[i := draws i]) (set_mean_velocity (draws i) n mob)"

definition GetUavSpeed :: "real list \<Rightarrow> u32 \<Rightarrow> real" where
  "GetUavSpeed speeds uav_index = (if unat uav_index < length speeds then speeds ! unat uav_index else 0)"

text \<open>\<open>CENTERS[cluster]\<close> is unchecked (\<open>None\<close>).\<close>

definition IsWithinCohesion :: "real \<Rightarrow> u32 list \<Rightarrow> mobilities \<Rightarrow> u32 \<Rightarrow> u32 \<Rightarrow> bool option" where
  "IsWithinCohesion cohesion_radius uav_nodes mob uav_index cluster =
     (if unat uav_index \<ge> length uav_nodes then Some False
      else
        case mob (uav_nodes ! unat uav_index) of
          None \<Rightarrow> Some True
        | Some m \<Rightarrow>
            if cluster < 3 then Some (center_dist (vx (nm_pos m)) (vy (nm_pos m)) cluster \<le> cohesion_radius) else None)"

section \<open>Lemmas\<close>

text \<open>
  What the helper leaves: the \<open>k\<close>-th node of the container has the \<open>k\<close>-th position, counted around the list,
  and keeps a model it had; the other nodes keep everything.
\<close>

lemma helper_install_some:
  "alloc \<noteq> [] \<or> ns = [] \<Longrightarrow> \<exists>mob'. helper_install model alloc ns mob = Some mob'"
  by (induction model alloc ns mob rule: helper_install.induct) auto

lemma helper_install_other:
  "helper_install model alloc ns mob = Some mob' \<Longrightarrow> n \<notin> set ns \<Longrightarrow> mob' n = mob n"
  by (induction model alloc ns mob rule: helper_install.induct) auto

lemma nth_rotate_mod: "(vs @ [v]) ! (k mod length (vs @ [v])) = (v # vs) ! (Suc k mod length (v # vs))"
  using nth_rotate1[of "k mod length (v # vs)" "v # vs"] by (simp add: mod_Suc_eq)

lemma helper_install_nth:
  assumes "helper_install model alloc ns mob = Some mob'" "distinct ns" "k < length ns"
  shows "mob' (ns ! k) = Some \<lparr> nm_model = (case mob (ns ! k) of Some m \<Rightarrow> nm_model m | None \<Rightarrow> model),
    nm_pos = alloc ! (k mod length alloc) \<rparr>"
  using assms
proof (induction model alloc ns mob arbitrary: k rule: helper_install.induct)
  case (3 model v vs n ns mob)
  show ?case
  proof (cases k)
    case 0
    have "mob' n = Some \<lparr> nm_model = (case mob n of Some m \<Rightarrow> nm_model m | None \<Rightarrow> model), nm_pos = v \<rparr>"
      using helper_install_other[OF "3.prems"(1)[unfolded helper_install.simps], of n] "3.prems"(2) by simp
    with 0 show ?thesis by simp
  next
    case (Suc j)
    with "3.prems"(2,3) have j: "ns ! j \<noteq> n" "j < length ns" by auto
    have "mob' (ns ! j) = Some \<lparr> nm_model = (case (mob(n \<mapsto> \<lparr> nm_model =
        (case mob n of Some m \<Rightarrow> nm_model m | None \<Rightarrow> model), nm_pos = v \<rparr>)) (ns ! j) of Some m \<Rightarrow> nm_model m | None \<Rightarrow> model),
        nm_pos = (vs @ [v]) ! (j mod length (vs @ [v])) \<rparr>"
      by (rule "3.IH"[OF "3.prems"(1)[unfolded helper_install.simps] _ j(2)]) (use "3.prems"(2) in simp)
    then show ?thesis using Suc j(1) nth_rotate_mod[of vs v j] by simp
  qed
qed simp_all

lemma set_mean_velocity_pos: "map_option nm_pos (set_mean_velocity s n mob k) = map_option nm_pos (mob k)"
  by (auto simp: set_mean_velocity_def split: option.splits MobilityModel.splits)

lemma fold_set_mean_velocity_pos: "map_option nm_pos (fold (set_mean_velocity s) ns mob k) = map_option nm_pos (mob k)"
  by (induction ns arbitrary: mob) (simp_all add: set_mean_velocity_pos)

text \<open>The fields of a Gauss-Markov model but its mean velocity.\<close>

definition gm_kind :: "MobilityModel \<Rightarrow> MobilityModel" where
  "gm_kind m = (case m of GaussMarkov g \<Rightarrow> GaussMarkov (g \<lparr> gm_mean_velocity := ConstantRv 0 \<rparr>) | _ \<Rightarrow> m)"

lemma set_mean_velocity_kind:
  "map_option (gm_kind \<circ> nm_model) (set_mean_velocity s n mob k) = map_option (gm_kind \<circ> nm_model) (mob k)"
  by (auto simp: set_mean_velocity_def gm_kind_def split: option.splits MobilityModel.splits)

lemma fold_set_mean_velocity_kind:
  "map_option (gm_kind \<circ> nm_model) (fold (set_mean_velocity s) ns mob k) = map_option (gm_kind \<circ> nm_model) (mob k)"
  by (induction ns arbitrary: mob) (simp_all add: set_mean_velocity_kind)

lemma formation_slots: "0 \<le> mc_formation_radius_m cfg \<Longrightarrow> formation_slots cfg = [0..<6]"
proof -
  have "takeWhile (\<lambda>u. u < (6::nat)) [0..<k + 6] = [0..<6]" for k
  proof -
    have "[0..<k + 6] = [0..<6] @ [6..<k + 6]" by (metis add.commute le_add1 upt_add_eq_append zero_le)
    then show ?thesis by (simp add: takeWhile_append upt_rec[of 6])
  qed
  then show ?thesis by (simp add: formation_slots_def)
qed

lemma formation_nth:
  assumes "0 \<le> mc_formation_radius_m cfg" "i < 18"
  shows "length (formation cfg) = 18" "formation cfg ! i = formation_pos cfg (i div 6) (i mod 6)"
proof -
  have f: "formation cfg = map (formation_pos cfg 0) [0..<6] @ map (formation_pos cfg 1) [0..<6] @ map (formation_pos cfg 2) [0..<6]"
    by (simp add: formation_def formation_slots assms(1) upt_rec[of 0 3] upt_rec[of 1 3] upt_rec[of 2 3] numeral_2_eq_2 numeral_3_eq_3)
  then show "length (formation cfg) = 18" by simp
  consider "i < 6" | "6 \<le> i" "i < 12" | "12 \<le> i" by linarith
  then show "formation cfg ! i = formation_pos cfg (i div 6) (i mod 6)"
  proof cases
    case 2
    then have "i div 6 = 1" "i mod 6 = i - 6" by (simp_all add: div_nat_eqI mod_nat_eqI)
    with 2 show ?thesis unfolding f by (simp add: nth_append)
  next
    case 3
    with assms(2) have "i div 6 = 2" "i mod 6 = i - 12" by (simp_all add: div_nat_eqI mod_nat_eqI)
    with 3 assms(2) show ?thesis unfolding f by (simp add: nth_append)
  qed (simp add: f nth_append)
qed

end
