(* ===== verification/Topology.thy ===== *)
theory Topology
  imports Mobility_Setup Flow_Monitor
begin

text \<open>
  routing/uav-topology.\{h,cc\}: the nodes of a run, their containers, devices, addresses, first positions and
  mobility models.  A node is the number ns-3 gives it, an address the number its dotted form denotes; of
  the protocol stacks and devices the model has on which nodes they are.  The container and address
  helpers of ns-3 are those of src/src/network and src/src/internet; a failed assertion of theirs and an access behind a container
  are \<open>None\<close>.  Radio, channel and routing attributes are left to ns-3.
\<close>

section \<open>Configuration and result\<close>

record TopologyConfig =
  tc_num_clusters :: u32
  tc_uavs_per_cluster :: u32
  tc_total_uavs :: u32
  tc_wifi_standard :: string
  tc_tx_power_dbm :: real
  tc_data_rate :: string
  tc_control_rate :: string
  tc_channel_number :: u32
  tc_queue_max_packets :: u32
  tc_csma_data_rate :: string
  tc_csma_delay :: string
  tc_nakagami :: "real \<times> real \<times> real"
  tc_wifi_base_addr :: u32
  tc_wifi_mask :: u32
  tc_csma_base_addr :: u32
  tc_csma_mask :: u32
  tc_area :: "real \<times> real \<times> real"

definition TopologyConfig_new :: TopologyConfig where
  "TopologyConfig_new =
     \<lparr> tc_num_clusters = 3, tc_uavs_per_cluster = 6, tc_total_uavs = 18, tc_wifi_standard = ''80211a'',
       tc_tx_power_dbm = 20, tc_data_rate = ''OfdmRate24Mbps'', tc_control_rate = ''OfdmRate6Mbps'', tc_channel_number = 36,
       tc_queue_max_packets = 100, tc_csma_data_rate = ''100Mbps'', tc_csma_delay = ''1ms'', tc_nakagami = (1, 1, 1),
       tc_wifi_base_addr = 0x0A010100, tc_wifi_mask = 0xFFFFFF00, tc_csma_base_addr = 0xC0A80000, tc_csma_mask = 0xFFFFFF00,
       tc_area = (1500, 1500, 200) \<rparr>"

record TopologyResult =
  tr_all_nodes :: "u32 list"
  tr_ground_nodes :: "u32 list"
  tr_kdc_node :: "u32 list"
  tr_skdc_nodes :: "u32 list"
  tr_uav_nodes :: "u32 list"
  tr_jammer_node :: "u32 list"
  tr_wifi_nodes :: "u32 list"
  tr_cluster_nodes :: "u32 list list"
  tr_csma_devices :: "u32 list"
  tr_wifi_devices :: "u32 list"
  tr_csma_interfaces :: "u32 list"
  tr_wifi_interfaces :: "u32 list"

definition TopologyResult_new :: TopologyResult where
  "TopologyResult_new =
     \<lparr> tr_all_nodes = [], tr_ground_nodes = [], tr_kdc_node = [], tr_skdc_nodes = [], tr_uav_nodes = [], tr_jammer_node = [],
       tr_wifi_nodes = [], tr_cluster_nodes = [[], [], []], tr_csma_devices = [], tr_wifi_devices = [],
       tr_csma_interfaces = [], tr_wifi_interfaces = [] \<rparr>"

definition KDC_NODE_ID :: u32 where "KDC_NODE_ID = 0"
definition SKDC0_NODE_ID :: u32 where "SKDC0_NODE_ID = 1"
definition UAV0_NODE_ID :: u32 where "UAV0_NODE_ID = 4"
definition JAMMER_NODE_ID :: u32 where "JAMMER_NODE_ID = 22"
definition WIFI_SKDC_BASE :: u32 where "WIFI_SKDC_BASE = 0"
definition WIFI_UAV_BASE :: u32 where "WIFI_UAV_BASE = 3"
definition WIFI_JAMMER :: u32 where "WIFI_JAMMER = 21"

definition UavNodeId :: "u32 \<Rightarrow> u32" where "UavNodeId uav_index = UAV0_NODE_ID + uav_index"
definition SkdcNodeId :: "u32 \<Rightarrow> u32" where "SkdcNodeId cluster = SKDC0_NODE_ID + cluster"

text \<open>\<open>Get\<close> of a node container and \<open>GetAddress\<close> of an interface container.\<close>

definition container_get :: "u32 list \<Rightarrow> u32 \<Rightarrow> u32 option" where
  "container_get c i = (if unat i < length c then Some (c ! unat i) else None)"

definition GetUavNode :: "TopologyResult \<Rightarrow> u32 \<Rightarrow> u32 option" where
  "GetUavNode topo uav_index = container_get (tr_uav_nodes topo) uav_index"

definition GetSkdcNode :: "TopologyResult \<Rightarrow> u32 \<Rightarrow> u32 option" where
  "GetSkdcNode topo cluster = container_get (tr_skdc_nodes topo) cluster"

definition GetKdcNode :: "TopologyResult \<Rightarrow> u32 option" where
  "GetKdcNode topo = container_get (tr_kdc_node topo) 0"

definition GetUavWifiAddr :: "TopologyResult \<Rightarrow> u32 \<Rightarrow> u32 option" where
  "GetUavWifiAddr topo uav_index = container_get (tr_wifi_interfaces topo) (WIFI_UAV_BASE + uav_index)"

definition GetSkdcWifiAddr :: "TopologyResult \<Rightarrow> u32 \<Rightarrow> u32 option" where
  "GetSkdcWifiAddr topo cluster = container_get (tr_wifi_interfaces topo) (WIFI_SKDC_BASE + cluster)"

definition GetSkdcCsmaAddr :: "TopologyResult \<Rightarrow> u32 \<Rightarrow> u32 option" where
  "GetSkdcCsmaAddr topo cluster = container_get (tr_csma_interfaces topo) (cluster + 1)"

definition GetKdcCsmaAddr :: "TopologyResult \<Rightarrow> u32 option" where
  "GetKdcCsmaAddr topo = container_get (tr_csma_interfaces topo) 0"

section \<open>The steps\<close>

text \<open>\<open>NodeContainer::Create\<close>: \<open>n\<close> nodes with the next free numbers.\<close>

definition create_nodes :: "nat \<Rightarrow> nat \<Rightarrow> u32 list" where
  "create_nodes nxt n = map of_nat [nxt..<nxt + n]"

definition cluster_container :: "u32 list \<Rightarrow> u32 \<Rightarrow> nat \<Rightarrow> u32 list option" where
  "cluster_container uavs uavs_per_cluster c =
     those (map (\<lambda>u. if c < 3 then container_get uavs (of_nat c * uavs_per_cluster + of_nat u) else None)
       [0..<unat uavs_per_cluster])"

definition CreateNodes :: "TopologyConfig \<Rightarrow> nat \<Rightarrow> TopologyResult \<Rightarrow> TopologyResult option" where
  "CreateNodes cfg nxt topo =
     (let n = unat (tc_total_uavs cfg);
          ground = create_nodes nxt 4;
          uavs = create_nodes (nxt + 4) n;
          jammer = create_nodes (nxt + 4 + n) 1
      in Option.bind (container_get ground 0) (\<lambda>kdc.
         Option.bind (those (map (\<lambda>i. container_get ground (of_nat i + 1)) [0..<unat (tc_num_clusters cfg)])) (\<lambda>skdcs.
         Option.bind (those (map (cluster_container uavs (tc_uavs_per_cluster cfg)) [0..<unat (tc_num_clusters cfg)]))
           (\<lambda>clusters.
         Some (topo \<lparr> tr_ground_nodes := ground, tr_uav_nodes := uavs, tr_jammer_node := jammer, tr_kdc_node := [kdc],
                      tr_skdc_nodes := skdcs,
                      tr_cluster_nodes := take 3 clusters @ replicate (3 - length clusters) [],
                      tr_wifi_nodes := skdcs @ uavs @ jammer,
                      tr_all_nodes := ground @ uavs @ jammer \<rparr>)))))"

definition ConfigureCsmaBackbone :: "TopologyResult \<Rightarrow> TopologyResult" where
  "ConfigureCsmaBackbone topo = topo \<lparr> tr_csma_devices := tr_ground_nodes topo \<rparr>"

definition ConfigureWifiAdhoc :: "TopologyResult \<Rightarrow> TopologyResult" where
  "ConfigureWifiAdhoc topo = topo \<lparr> tr_wifi_devices := tr_wifi_nodes topo \<rparr>"

text \<open>\<open>InternetStackHelper::Install\<close> fails on a node that has a stack; the state is the nodes that have one.\<close>

fun install_stack :: "u32 list \<Rightarrow> u32 list \<Rightarrow> u32 list option" where
  "install_stack [] stacks = Some stacks"
| "install_stack (n # ns) stacks = (if n \<in> set stacks then None else install_stack ns (stacks @ [n]))"

definition InstallInternetStack :: "TopologyResult \<Rightarrow> u32 list \<Rightarrow> u32 list option" where
  "InstallInternetStack topo stacks =
     Option.bind (install_stack (tr_wifi_nodes topo) stacks) (\<lambda>stacks. install_stack (tr_kdc_node topo) stacks)"

text \<open>
  \<open>SetBase\<close> and \<open>Assign\<close> of \<open>Ipv4AddressHelper\<close>: consecutive host numbers from 1, at most as many as the mask
  leaves, each on a node with a stack.
\<close>

definition assign_addresses :: "u32 \<Rightarrow> u32 \<Rightarrow> u32 list \<Rightarrow> u32 list \<Rightarrow> u32 list option" where
  "assign_addresses network msk stacks devices =
     (if network AND NOT msk = 0 \<and> length devices \<le> unat (NOT msk) - 1 \<and> set devices \<subseteq> set stacks
      then Some (map (\<lambda>i. network OR of_nat (Suc i)) [0..<length devices])
      else None)"

text \<open>The loop that prints the addresses of three SKDCs reads them in any case.\<close>

definition AssignAddresses :: "TopologyConfig \<Rightarrow> u32 list \<Rightarrow> TopologyResult \<Rightarrow> TopologyResult option" where
  "AssignAddresses cfg stacks topo =
     Option.bind (assign_addresses (tc_wifi_base_addr cfg) (tc_wifi_mask cfg) stacks (tr_wifi_devices topo)) (\<lambda>wifi.
     Option.bind (assign_addresses (tc_csma_base_addr cfg) (tc_csma_mask cfg) stacks (tr_csma_devices topo)) (\<lambda>csma.
     if length wifi < 3 \<or> length csma < 4 then None
     else Some (topo \<lparr> tr_wifi_interfaces := wifi, tr_csma_interfaces := csma \<rparr>)))"

definition ground_positions :: "Vec list" where
  "ground_positions = [\<lparr> vx = 750, vy = 750, vz = 0 \<rparr>, \<lparr> vx = 250, vy = 750, vz = 0 \<rparr>,
     \<lparr> vx = 750, vy = 250, vz = 0 \<rparr>, \<lparr> vx = 1250, vy = 750, vz = 0 \<rparr>]"

definition circle_pos :: "nat \<Rightarrow> nat \<Rightarrow> nat \<Rightarrow> Vec" where
  "circle_pos uavs_per_cluster c u =
     (let (cx, cy) = CLUSTER_CENTERS ! c;
          angle = (2 * pi * real u) / real uavs_per_cluster;
          radius = 100
      in \<lparr> vx = cx + radius * cos angle, vy = cy + radius * sin angle, vz = 100 + 10 * real u \<rparr>)"

definition uav_positions :: "TopologyConfig \<Rightarrow> Vec list" where
  "uav_positions cfg =
     concat (map (\<lambda>c. map (circle_pos (unat (tc_uavs_per_cluster cfg)) c) [0..<unat (tc_uavs_per_cluster cfg)])
       [0..<unat (tc_num_clusters cfg)])"

definition builder_gauss_markov :: MobilityModel where
  "builder_gauss_markov =
     GaussMarkov \<lparr> gm_bounds = (0, 1500, 0, 1500, 50, 150), gm_time_step = 0.5, gm_alpha = 0.3,
       gm_mean_velocity = ConstantRv 20, gm_mean_direction = UniformRv 0 6.283, gm_mean_pitch = ConstantRv 0,
       gm_normal_velocity = NormalRv 0 8, gm_normal_direction = NormalRv 0 0.3, gm_normal_pitch = NormalRv 0 0.02 \<rparr>"

definition ConfigureInitialPositions :: "TopologyConfig \<Rightarrow> TopologyResult \<Rightarrow> mobilities \<Rightarrow> mobilities option" where
  "ConfigureInitialPositions cfg topo mob =
     Option.bind (helper_install ConstantPosition ground_positions (tr_ground_nodes topo) mob) (\<lambda>mob.
     Option.bind (helper_install builder_gauss_markov (uav_positions cfg) (tr_uav_nodes topo) mob) (\<lambda>mob.
     helper_install ConstantPosition [\<lparr> vx = 750, vy = 750, vz = 50 \<rparr>] (tr_jammer_node topo) mob))"

text \<open>\<open>Build\<close> with the number of the next node, the nodes with a stack and the models there are already.\<close>

definition Build :: "TopologyConfig \<Rightarrow> nat \<Rightarrow> u32 list \<Rightarrow> mobilities \<Rightarrow> (TopologyResult \<times> mobilities) option" where
  "Build cfg nxt stacks mob =
     Option.bind (CreateNodes cfg nxt TopologyResult_new) (\<lambda>topo.
     let topo = ConfigureWifiAdhoc (ConfigureCsmaBackbone topo) in
     Option.bind (InstallInternetStack topo stacks) (\<lambda>stacks.
     Option.bind (AssignAddresses cfg stacks topo) (\<lambda>topo.
     Option.bind (ConfigureInitialPositions cfg topo mob) (\<lambda>mob.
     Some (topo, mob)))))"

text \<open>The network the managers are given, as \<open>Flow_Monitor\<close> reads it.\<close>

definition flow_net :: "TopologyResult \<Rightarrow> (u32 \<Rightarrow> FiveTuple) option \<Rightarrow> (u32 \<Rightarrow> string) \<Rightarrow> FlowNet" where
  "flow_net topo classifier print =
     \<lparr> fn_wifi = tr_wifi_interfaces topo, fn_classifier = classifier, fn_print = print \<rparr>"

end
