(* ===== verification/Topology_Facts.thy ===== *)
theory Topology_Facts
  imports Topology
begin

text \<open>
  What \<open>TopologyBuilder::Build\<close> yields for three clusters of equal size: the numbers and addresses of the nodes are those
  the header documents, the flow monitor finds the cluster of an address, and where the UAVs stand after
  \<open>MobilityManager::InstallGaussMarkov\<close>.
\<close>

section \<open>Lists and addresses\<close>

lemma those_map: "(\<And>x. x \<in> set xs \<Longrightarrow> f x = Some (g x)) \<Longrightarrow> those (map f xs) = Some (map g xs)"
  by (induction xs) simp_all

lemma length_create_nodes [simp]: "length (create_nodes k n) = n"
  by (simp add: create_nodes_def)

lemma nth_create_nodes [simp]: "i < n \<Longrightarrow> create_nodes k n ! i = of_nat (k + i)"
  by (simp add: create_nodes_def)

lemma set_create_nodes: "set (create_nodes k n) = of_nat ` {k..<k + n}"
  by (simp add: create_nodes_def)

lemma of_nat_u32_inj: "a < 2 ^ 32 \<Longrightarrow> b < 2 ^ 32 \<Longrightarrow> (of_nat a :: u32) = of_nat b \<longleftrightarrow> a = b"
  by (simp add: word_unat_eq_iff unat_of_nat)

lemma distinct_of_nat: "b \<le> 2 ^ 32 \<Longrightarrow> distinct (map (of_nat :: nat \<Rightarrow> u32) [a..<b])"
  by (auto simp: distinct_map inj_on_def of_nat_u32_inj)

lemma host_plus:
  assumes "network AND 0xFF = (0 :: u32)" "n < 256"
  shows "network OR of_nat n = network + of_nat n"
proof -
  have "(of_nat n :: u32) AND 0xFF = take_bit 8 (of_nat n)" unfolding ff_eq_mask8 take_bit_eq_mask ..
  also have "\<dots> = of_nat n" using assms(2) by (simp add: take_bit_of_nat take_bit_nat_def)
  finally have "network AND of_nat n = (network AND 0xFF) AND of_nat n" by (metis and.assoc and.commute)
  with assms(1) show ?thesis using word_plus_and_or[of network "of_nat n"] by simp
qed

lemma install_stack_fresh:
  "distinct ns \<Longrightarrow> set ns \<inter> set st = {} \<Longrightarrow> install_stack ns st = Some (st @ ns)"
  by (induction ns arbitrary: st) auto

section \<open>The built topology\<close>

definition wifi_addr :: "nat \<Rightarrow> u32" where "wifi_addr i = 0x0A010100 + of_nat (Suc i)"
definition csma_addr :: "nat \<Rightarrow> u32" where "csma_addr i = 0xC0A80000 + of_nat (Suc i)"

text \<open>The result for three clusters of \<open>k\<close> UAVs.\<close>

definition built :: "nat \<Rightarrow> TopologyResult" where
  "built k =
     \<lparr> tr_all_nodes = map of_nat [0..<5 + 3 * k], tr_ground_nodes = map of_nat [0..<4], tr_kdc_node = [0],
       tr_skdc_nodes = map of_nat [1..<4], tr_uav_nodes = map of_nat [4..<4 + 3 * k], tr_jammer_node = [of_nat (4 + 3 * k)],
       tr_wifi_nodes = map of_nat [1..<5 + 3 * k],
       tr_cluster_nodes = map (\<lambda>c. map (\<lambda>u. of_nat (4 + (c * k + u))) [0..<k]) [0..<3],
       tr_csma_devices = map of_nat [0..<4], tr_wifi_devices = map of_nat [1..<5 + 3 * k],
       tr_csma_interfaces = map csma_addr [0..<4], tr_wifi_interfaces = map wifi_addr [0..<4 + 3 * k] \<rparr>"

definition regular :: "nat \<Rightarrow> TopologyConfig \<Rightarrow> bool" where
  "regular k cfg \<longleftrightarrow>
     1 \<le> k \<and> k \<le> 80 \<and> tc_num_clusters cfg = 3 \<and> tc_uavs_per_cluster cfg = of_nat k \<and> tc_total_uavs cfg = of_nat (3 * k) \<and>
     tc_wifi_base_addr cfg = 0x0A010100 \<and> tc_wifi_mask cfg = 0xFFFFFF00 \<and>
     tc_csma_base_addr cfg = 0xC0A80000 \<and> tc_csma_mask cfg = 0xFFFFFF00"

lemma regular_sizes:
  assumes "regular k cfg"
  shows "unat (tc_uavs_per_cluster cfg) = k" "unat (tc_total_uavs cfg) = 3 * k" "unat (tc_num_clusters cfg) = 3"
  using assms by (simp_all add: regular_def unat_of_nat del: of_nat_mult)

lemma upt3: "[0..<3] = [0, 1, 2 :: nat]" and upt4: "[0..<4] = [0, 1, 2, 3 :: nat]" and upt14: "[Suc 0..<4] = [1, 2, 3 :: nat]"
  by (simp_all add: upt_rec)

lemma cluster_container_built:
  assumes "k \<le> 80" "c < 3"
  shows "cluster_container (create_nodes 4 (3 * k)) (of_nat k) c = Some (map (\<lambda>u. of_nat (4 + (c * k + u))) [0..<k])"
proof -
  have "container_get (create_nodes 4 (3 * k)) (of_nat c * of_nat k + of_nat u) = Some (of_nat (4 + (c * k + u)))"
    if "u < k" for u
  proof -
    have "c * k + u < 3 * k"
    proof -
      have "c * k \<le> 2 * k" using assms(2) by simp
      with that show ?thesis by linarith
    qed
    moreover from this have "unat (of_nat (c * k + u) :: u32) = c * k + u"
      using assms(1) by (simp add: unat_of_nat del: of_nat_add of_nat_mult)
    ultimately show ?thesis
      unfolding container_get_def of_nat_add[symmetric] of_nat_mult[symmetric] by simp
  qed
  then show ?thesis
    using assms unfolding cluster_container_def by (simp add: unat_of_nat) (rule those_map, simp)
qed

lemma CreateNodes_built:
  assumes "regular k cfg"
  shows "CreateNodes cfg 0 TopologyResult_new =
    Some ((built k) \<lparr> tr_csma_devices := [], tr_wifi_devices := [], tr_csma_interfaces := [], tr_wifi_interfaces := [] \<rparr>)"
proof -
  have k: "k \<le> 80" using assms by (simp add: regular_def)
  have skdcs: "those (map (\<lambda>i. container_get (create_nodes 0 4) (of_nat i + 1)) [0..<3]) = Some (map of_nat [1..<4])"
    by (simp add: upt3 upt14 container_get_def)
  have clusters: "those (map (cluster_container (create_nodes 4 (3 * k)) (of_nat k)) [0..<3]) =
      Some (map (\<lambda>c. map (\<lambda>u. of_nat (4 + (c * k + u))) [0..<k]) [0..<3])"
    by (rule those_map) (rule cluster_container_built[OF k], simp)
  have split: "[a..<b] @ [b..<c] = [a..<c]" if "a \<le> b" "b \<le> c" for a b c :: nat
    using that by (metis le_add_diff_inverse upt_add_eq_append)
  have nodes: "create_nodes 4 (3 * k) = map of_nat [4..<4 + 3 * k]" "create_nodes (4 + 3 * k) 1 = map of_nat [4 + 3 * k..<5 + 3 * k]"
    "create_nodes 0 4 = map of_nat [0..<4]"
    by (simp_all add: create_nodes_def)
  have "map of_nat [1..<4] @ create_nodes 4 (3 * k) @ create_nodes (4 + 3 * k) 1 = map of_nat [1..<5 + 3 * k]"
    unfolding nodes map_append[symmetric] by (simp add: split)
  moreover have "create_nodes 0 4 @ create_nodes 4 (3 * k) @ create_nodes (4 + 3 * k) 1 = map of_nat [0..<5 + 3 * k]"
    unfolding nodes map_append[symmetric] by (simp add: split)
  moreover have "container_get (create_nodes 0 4) 0 = Some 0" by (simp add: container_get_def)
  moreover have "tc_uavs_per_cluster cfg = of_nat k" using assms by (simp add: regular_def)
  moreover have "create_nodes j 1 = [of_nat j]" for j by (simp add: create_nodes_def)
  ultimately show ?thesis
    unfolding CreateNodes_def regular_sizes[OF assms] add_0
    by (simp add: skdcs[unfolded nodes] clusters[unfolded nodes] built_def TopologyResult_new_def nodes(1,3) Let_def del: of_nat_add)
qed

lemma assign_host:
  assumes "network AND 0xFF = (0 :: u32)" "length devices \<le> 254" "set devices \<subseteq> set stacks"
  shows "assign_addresses network 0xFFFFFF00 stacks devices =
    Some (map (\<lambda>i. network + of_nat (Suc i)) [0..<length devices])"
proof -
  have neg: "NOT (0xFFFFFF00 :: u32) = 0xFF" by simp
  have "unat (0xFF :: u32) = 255" by simp
  moreover have "network OR of_nat (Suc i) = network + of_nat (Suc i)" if "i < length devices" for i
    using that assms(2) by (intro host_plus assms(1)) simp
  ultimately show ?thesis
    using assms unfolding assign_addresses_def neg by (simp del: of_nat_Suc cong: map_cong)
qed

lemma built_stacks:
  assumes "k \<le> 80"
  shows "InstallInternetStack (built k) [] = Some (map of_nat [1..<5 + 3 * k] @ [0])"
proof -
  have "distinct (map (of_nat :: nat \<Rightarrow> u32) [1..<5 + 3 * k])"
    using assms by (intro distinct_of_nat) simp
  moreover have "(0 :: u32) \<notin> of_nat ` {1..<5 + 3 * k}"
    using assms of_nat_u32_inj[of 0] by auto
  ultimately show ?thesis
    by (simp add: InstallInternetStack_def built_def install_stack_fresh)
qed

lemma AssignAddresses_built:
  assumes "regular k cfg" "set (map of_nat [0..<5 + 3 * k]) \<subseteq> set stacks"
  shows "AssignAddresses cfg stacks ((built k) \<lparr> tr_csma_interfaces := [], tr_wifi_interfaces := [] \<rparr>) = Some (built k)"
proof -
  have k: "k \<le> 80" using assms(1) by (simp add: regular_def)
  have sub: "set (map of_nat [1..<5 + 3 * k]) \<subseteq> set stacks" "set (map of_nat [0..<4]) \<subseteq> set stacks"
    using assms(2) by (auto simp: image_subset_iff)
  have "assign_addresses 0x0A010100 0xFFFFFF00 stacks (map of_nat [1..<5 + 3 * k]) = Some (map wifi_addr [0..<4 + 3 * k])"
    using assign_host[OF _ _ sub(1), of "0x0A010100"] k by (simp add: wifi_addr_def[abs_def])
  moreover have "assign_addresses 0xC0A80000 0xFFFFFF00 stacks (map of_nat [0..<4]) = Some (map csma_addr [0..<4])"
    using assign_host[OF _ _ sub(2), of "0xC0A80000"] by (simp add: csma_addr_def[abs_def])
  ultimately show ?thesis
    using assms(1) by (simp add: AssignAddresses_def regular_def built_def)
qed


lemma container_get_map:
  "i < length xs \<Longrightarrow> i < 2 ^ 32 \<Longrightarrow> container_get (map f xs) (of_nat i) = Some (f (xs ! i))"
  by (simp add: container_get_def unat_of_nat)

lemma Build_built:
  assumes "regular k cfg"
  shows "\<exists>mob. Build cfg 0 [] (\<lambda>_. None) = Some (built k, mob) \<and>
    ConfigureInitialPositions cfg (built k) (\<lambda>_. None) = Some mob"
proof -
  have k: "1 \<le> k" "k \<le> 80" using assms by (simp_all add: regular_def)
  let ?st = "map of_nat [1..<5 + 3 * k] @ [0 :: u32]"
  have devices: "ConfigureWifiAdhoc (ConfigureCsmaBackbone ((built k) \<lparr> tr_csma_devices := [], tr_wifi_devices := [],
      tr_csma_interfaces := [], tr_wifi_interfaces := [] \<rparr>)) =
      (built k) \<lparr> tr_csma_interfaces := [], tr_wifi_interfaces := [] \<rparr>"
    by (simp add: ConfigureWifiAdhoc_def ConfigureCsmaBackbone_def built_def)
  have "InstallInternetStack ((built k) \<lparr> tr_csma_interfaces := [], tr_wifi_interfaces := [] \<rparr>) [] = Some ?st"
    using built_stacks[OF k(2)] by (simp add: InstallInternetStack_def)
  moreover have "AssignAddresses cfg ?st ((built k) \<lparr> tr_csma_interfaces := [], tr_wifi_interfaces := [] \<rparr>) = Some (built k)"
  proof (rule AssignAddresses_built[OF assms])
    show "set (map of_nat [0..<5 + 3 * k]) \<subseteq> set ?st"
    proof
      fix x :: u32 assume "x \<in> set (map of_nat [0..<5 + 3 * k])"
      then obtain i where "x = of_nat i" "i < 5 + 3 * k" by auto
      then show "x \<in> set ?st" by (cases "i = 0") auto
    qed
  qed
  moreover obtain mob where "ConfigureInitialPositions cfg (built k) (\<lambda>_. None) = Some mob"
  proof -
    have n: "length (uav_positions cfg) = 3 * k"
      by (simp add: uav_positions_def regular_sizes[OF assms] upt3)
    have some: "\<exists>m. helper_install model alloc ns mob = Some m" if "alloc \<noteq> []" for model alloc ns mob
      using helper_install_some that by blast
    have ne: "ground_positions \<noteq> []" "uav_positions cfg \<noteq> []"
      using n k(1) by (auto simp: ground_positions_def)
    obtain m1 where m1: "helper_install ConstantPosition ground_positions (tr_ground_nodes (built k)) (\<lambda>_. None) = Some m1"
      using some[OF ne(1)] by blast
    obtain m2 where m2: "helper_install builder_gauss_markov (uav_positions cfg) (tr_uav_nodes (built k)) m1 = Some m2"
      using some[OF ne(2)] by blast
    obtain m3 where "helper_install ConstantPosition [\<lparr> vx = 750, vy = 750, vz = 50 \<rparr>] (tr_jammer_node (built k)) m2 = Some m3"
      using some[of "[\<lparr> vx = 750, vy = 750, vz = 50 \<rparr>]"] by blast
    with m1 m2 that show ?thesis by (simp add: ConfigureInitialPositions_def)
  qed
  ultimately show ?thesis
    by (simp add: Build_def CreateNodes_built[OF assms] devices Let_def)
qed

lemma distinct_wifi: "k \<le> 80 \<Longrightarrow> distinct (map wifi_addr [0..<4 + 3 * k])"
  by (auto simp: distinct_map inj_on_def wifi_addr_def of_nat_u32_inj)

text \<open>The first hit of a search among different addresses.\<close>

lemma wifi_addr_eq: "a < 1000 \<Longrightarrow> b < 1000 \<Longrightarrow> wifi_addr a = wifi_addr b \<longleftrightarrow> a = b"
  by (simp add: wifi_addr_def of_nat_u32_inj)

lemma find_eq: "i < n \<Longrightarrow> (\<And>j. j < n \<Longrightarrow> P j \<longleftrightarrow> j = i) \<Longrightarrow> find P [0..<n] = Some i"
  by (auto simp: find_Some_iff intro!: exI[of _ i])

lemma find_nothing: "(\<And>j. j < n \<Longrightarrow> \<not> P j) \<Longrightarrow> find P [0..<n] = None"
  by (simp add: find_None_iff)

lemma cluster_of_wifi_addr:
  assumes "1 \<le> k" "k \<le> 80" "i < 4 + 3 * k" "i < 21"
  shows "GetClusterFromAddr (flow_net (built k) cl pr) (wifi_addr i) = (if i < 3 then of_nat i else of_nat (i - 3) div 6)"
proof -
  have at: "j < 4 + 3 * k \<and> map wifi_addr [0..<4 + 3 * k] ! j = wifi_addr i \<longleftrightarrow> j = i" for j
    using assms by (cases "j < 4 + 3 * k") (auto simp: wifi_addr_eq)
  have wifi: "fn_wifi (flow_net (built k) cl pr) = map wifi_addr [0..<4 + 3 * k]"
    by (simp add: flow_net_def built_def)
  show ?thesis
  proof (cases "i < 3")
    case True
    have "find (\<lambda>c. c < 4 + 3 * k \<and> map wifi_addr [0..<4 + 3 * k] ! c = wifi_addr i) [0..<3] = Some i"
      using True by (intro find_eq) (simp_all only: at)
    with True show ?thesis by (simp add: GetClusterFromAddr_def wifi Let_def del: upt_Suc)
  next
    case False
    have "find (\<lambda>c. c < 4 + 3 * k \<and> map wifi_addr [0..<4 + 3 * k] ! c = wifi_addr i) [0..<3] = None"
      using False by (intro find_nothing) (metis at)
    moreover have "find (\<lambda>c. 3 + c < 4 + 3 * k \<and> map wifi_addr [0..<4 + 3 * k] ! (3 + c) = wifi_addr i) [0..<18] = Some (i - 3)"
      using False assms(4) by (intro find_eq) (simp, simp only: at, linarith)
    ultimately show ?thesis using False by (simp add: GetClusterFromAddr_def wifi Let_def del: upt_Suc)
  qed
qed


text \<open>
  The documented layout.  For three clusters of \<open>k\<close> UAVs on new nodes \<open>Build\<close> succeeds; KDC, SKDCs and UAVs have the node numbers of
  the header, the addresses 10.1.1.x and 192.168.0.x in its order, no two wireless interfaces share one, and the
  flow monitor maps the address of an SKDC to its cluster and that of the UAV \<open>u\<close> to \<open>u / 6\<close>, which is the
  cluster of the UAV only for \<open>k = 6\<close>.
\<close>

theorem built_topology:
  assumes "regular k cfg"
  shows "\<exists>topo mob. Build cfg 0 [] (\<lambda>_. None) = Some (topo, mob) \<and>
    GetKdcNode topo = Some KDC_NODE_ID \<and> GetKdcCsmaAddr topo = Some 0xC0A80001 \<and>
    (\<forall>c<3. GetSkdcNode topo (of_nat c) = Some (SkdcNodeId (of_nat c)) \<and>
       GetSkdcWifiAddr topo (of_nat c) = Some (0x0A010101 + of_nat c) \<and>
       GetSkdcCsmaAddr topo (of_nat c) = Some (0xC0A80002 + of_nat c) \<and>
       GetClusterFromAddr (flow_net topo cl pr) (0x0A010101 + of_nat c) = of_nat c) \<and>
    (\<forall>u<3 * k. GetUavNode topo (of_nat u) = Some (UavNodeId (of_nat u)) \<and>
       UavNodeId (of_nat u) \<in> set (tr_cluster_nodes topo ! (u div k)) \<and>
       GetUavWifiAddr topo (of_nat u) = Some (0x0A010104 + of_nat u) \<and>
       (u < 18 \<longrightarrow> GetClusterFromAddr (flow_net topo cl pr) (0x0A010104 + of_nat u) = of_nat u div 6)) \<and>
    distinct (tr_wifi_interfaces topo)"
proof -
  have k: "1 \<le> k" "k \<le> 80" using assms by (simp_all add: regular_def)
  obtain mob where mob: "Build cfg 0 [] (\<lambda>_. None) = Some (built k, mob)"
    using Build_built[OF assms] by blast
  have wifi: "container_get (tr_wifi_interfaces (built k)) (of_nat i) = Some (wifi_addr i)" if "i < 4 + 3 * k" for i
    using container_get_map[of i "[0..<4 + 3 * k]" wifi_addr] that k by (simp add: built_def)
  have skdc: "GetSkdcNode (built k) (of_nat c) = Some (SkdcNodeId (of_nat c)) \<and>
       GetSkdcWifiAddr (built k) (of_nat c) = Some (0x0A010101 + of_nat c) \<and>
       GetSkdcCsmaAddr (built k) (of_nat c) = Some (0xC0A80002 + of_nat c) \<and>
       GetClusterFromAddr (flow_net (built k) cl pr) (0x0A010101 + of_nat c) = of_nat c" if "c < 3" for c
  proof (intro conjI)
    show "GetSkdcNode (built k) (of_nat c) = Some (SkdcNodeId (of_nat c))"
      using container_get_map[of c "[1..<4]" of_nat] that
      by (simp add: GetSkdcNode_def built_def SkdcNodeId_def SKDC0_NODE_ID_def)
    show "GetSkdcWifiAddr (built k) (of_nat c) = Some (0x0A010101 + of_nat c)"
      using wifi[of c] that by (simp add: GetSkdcWifiAddr_def WIFI_SKDC_BASE_def wifi_addr_def)
    have "container_get (tr_csma_interfaces (built k)) (of_nat (Suc c)) = Some (csma_addr (Suc c))"
      using container_get_map[of "Suc c" "[0..<4]" csma_addr] that by (simp add: built_def del: of_nat_Suc)
    then show "GetSkdcCsmaAddr (built k) (of_nat c) = Some (0xC0A80002 + of_nat c)"
      by (simp add: GetSkdcCsmaAddr_def csma_addr_def add.commute)
    show "GetClusterFromAddr (flow_net (built k) cl pr) (0x0A010101 + of_nat c) = of_nat c"
      using cluster_of_wifi_addr[OF k, of c cl pr] that by (simp add: wifi_addr_def)
  qed
  have uav: "GetUavNode (built k) (of_nat u) = Some (UavNodeId (of_nat u)) \<and>
       UavNodeId (of_nat u) \<in> set (tr_cluster_nodes (built k) ! (u div k)) \<and>
       GetUavWifiAddr (built k) (of_nat u) = Some (0x0A010104 + of_nat u) \<and>
       (u < 18 \<longrightarrow> GetClusterFromAddr (flow_net (built k) cl pr) (0x0A010104 + of_nat u) = of_nat u div 6)"
    if "u < 3 * k" for u
  proof (intro conjI impI)
    show "GetUavNode (built k) (of_nat u) = Some (UavNodeId (of_nat u))"
      using container_get_map[of u "[4..<4 + 3 * k]" of_nat] that k
      by (simp add: GetUavNode_def built_def UavNodeId_def UAV0_NODE_ID_def)
    have c: "u div k < 3" using that k(1) by (simp add: less_mult_imp_div_less)
    have "4 + u = 4 + (u div k * k + u mod k)" by simp
    moreover have "u mod k < k" using k(1) by simp
    ultimately have "of_nat (4 + u) \<in> (\<lambda>j. of_nat (4 + (u div k * k + j)) :: u32) ` {0..<k}"
      by (intro image_eqI[of _ _ "u mod k"]) simp_all
    then show "UavNodeId (of_nat u) \<in> set (tr_cluster_nodes (built k) ! (u div k))"
      using c by (simp add: built_def UavNodeId_def UAV0_NODE_ID_def)
    have "container_get (tr_wifi_interfaces (built k)) (of_nat (3 + u)) = Some (wifi_addr (3 + u))"
      using wifi[of "3 + u"] that by (simp del: of_nat_add)
    then show "GetUavWifiAddr (built k) (of_nat u) = Some (0x0A010104 + of_nat u)"
      by (simp add: GetUavWifiAddr_def WIFI_UAV_BASE_def wifi_addr_def)
    show "GetClusterFromAddr (flow_net (built k) cl pr) (0x0A010104 + of_nat u) = of_nat u div 6" if "u < 18"
      using cluster_of_wifi_addr[OF k, of "3 + u" cl pr] that \<open>u < 3 * k\<close> by (simp add: wifi_addr_def)
  qed
  have "GetKdcNode (built k) = Some KDC_NODE_ID"
    by (simp add: GetKdcNode_def container_get_def built_def KDC_NODE_ID_def)
  moreover have "GetKdcCsmaAddr (built k) = Some 0xC0A80001"
    using container_get_map[of 0 "[0..<4]" csma_addr] by (simp add: GetKdcCsmaAddr_def built_def csma_addr_def)
  moreover have "distinct (tr_wifi_interfaces (built k))" using distinct_wifi[OF k(2)] by (simp add: built_def)
  ultimately show ?thesis using mob skdc uav by blast
qed

section \<open>Where the nodes stand\<close>

text \<open>A point of the formation is at the radius from its own center and further from the other two.\<close>

lemma formation_near:
  assumes "0 \<le> mc_formation_radius_m cfg" "mc_formation_radius_m cfg \<le> 240" "c < 3" "d < 3"
    and "mc_area_x_m cfg = 1500" "mc_area_y_m cfg = 1500"
  shows "center_dist (vx (formation_pos cfg c u)) (vy (formation_pos cfg c u)) (of_nat d) \<le> mc_formation_radius_m cfg
    \<longleftrightarrow> d = c"
proof -
  let ?r = "mc_formation_radius_m cfg" and ?a = "2 * pi * real u / 6"
  obtain cx cy where c: "CLUSTER_CENTERS ! c = (cx, cy)" by fastforce
  obtain dx dy where d: "CLUSTER_CENTERS ! d = (dx, dy)" by fastforce
  have centers: "cx \<in> {250, 750, 1250}" "cy \<in> {250, 750}" "d \<noteq> c \<Longrightarrow> 500 \<le> \<bar>dx - cx\<bar>"
    using c d assms(3,4) by (auto simp: CLUSTER_CENTERS_def less_Suc_eq numeral_3_eq_3)
  have small: "\<bar>?r * cos ?a\<bar> \<le> ?r" "\<bar>?r * sin ?a\<bar> \<le> ?r"
    using assms(1) mult_left_le[of "\<bar>cos ?a\<bar>" ?r] mult_left_le[of "\<bar>sin ?a\<bar>" ?r] by (simp_all add: abs_mult)
  have x: "vx (formation_pos cfg c u) = cx + ?r * cos ?a" and y: "vy (formation_pos cfg c u) = cy + ?r * sin ?a"
    using small centers(1,2) assms(2,5,6) by (auto simp: formation_pos_def c clamp_def Let_def)
  have "(unat (of_nat d :: u32)) = d" using assms(4) by (simp add: unat_of_nat)
  then have dist: "center_dist (vx (formation_pos cfg c u)) (vy (formation_pos cfg c u)) (of_nat d) =
      sqrt ((cx + ?r * cos ?a - dx) * (cx + ?r * cos ?a - dx) + (cy + ?r * sin ?a - dy) * (cy + ?r * sin ?a - dy))"
    unfolding x y by (simp add: center_dist_def d Let_def)
  show ?thesis
  proof (cases "d = c")
    case True
    have "(?r * cos ?a) * (?r * cos ?a) + (?r * sin ?a) * (?r * sin ?a) = ?r * ?r * ((cos ?a)\<^sup>2 + (sin ?a)\<^sup>2)"
      by (simp only: power2_eq_square algebra_simps)
    also have "\<dots> = ?r\<^sup>2" by (simp add: power2_eq_square)
    finally have "sqrt ((?r * cos ?a) * (?r * cos ?a) + (?r * sin ?a) * (?r * sin ?a)) = ?r" using assms(1) by simp
    with True c d dist show ?thesis by simp
  next
    case False
    let ?dx = "cx + ?r * cos ?a - dx" and ?dy = "cy + ?r * sin ?a - dy"
    have "?r < \<bar>?dx\<bar>" using centers(3)[OF False] small(1) assms(2) by linarith
    also have "\<bar>?dx\<bar> \<le> sqrt (?dx * ?dx + ?dy * ?dy)"
      using real_sqrt_le_mono[of "?dx * ?dx" "?dx * ?dx + ?dy * ?dy"] by (simp add: real_sqrt_abs2)
    finally show ?thesis using False dist by simp
  qed
qed


lemma built_distinct:
  assumes "k \<le> 80"
  shows "distinct (map (of_nat :: nat \<Rightarrow> u32) [4..<4 + 3 * k])" "distinct (map (of_nat :: nat \<Rightarrow> u32) [0..<4])"
    and "i < 5 + 3 * k \<Longrightarrow> (of_nat i :: u32) \<in> set (map of_nat [4..<4 + 3 * k]) \<longleftrightarrow> 4 \<le> i \<and> i < 4 + 3 * k"
    and "i < 5 + 3 * k \<Longrightarrow> (of_nat i :: u32) \<in> set (map of_nat [0..<4]) \<longleftrightarrow> i < 4"
proof -
  show "distinct (map (of_nat :: nat \<Rightarrow> u32) [4..<4 + 3 * k])" "distinct (map (of_nat :: nat \<Rightarrow> u32) [0..<4])"
    using assms by (intro distinct_of_nat; simp)+
  have inj: "(of_nat i :: u32) = of_nat j \<longleftrightarrow> i = j" if "i < 5 + 3 * k" "j < 5 + 3 * k" for i j
    using that assms by (simp add: of_nat_u32_inj)
  show "i < 5 + 3 * k \<Longrightarrow> (of_nat i :: u32) \<in> set (map of_nat [4..<4 + 3 * k]) \<longleftrightarrow> 4 \<le> i \<and> i < 4 + 3 * k"
    and "i < 5 + 3 * k \<Longrightarrow> (of_nat i :: u32) \<in> set (map of_nat [0..<4]) \<longleftrightarrow> i < 4"
    using inj by auto
qed

text \<open>The models and positions \<open>Build\<close> leaves.\<close>

lemma Build_mobility:
  assumes "regular k cfg" "Build cfg 0 [] (\<lambda>_. None) = Some (topo, mob)"
  shows "topo = built k"
    and "i < 3 * k \<Longrightarrow> \<exists>m. mob (of_nat (4 + i)) = Some m \<and> nm_model m = builder_gauss_markov"
    and "c < 4 \<Longrightarrow> mob (of_nat c) = Some \<lparr> nm_model = ConstantPosition, nm_pos = ground_positions ! c \<rparr>"
    and "\<exists>m. mob (of_nat (4 + 3 * k)) = Some m \<and> nm_model m = ConstantPosition"
proof -
  have k: "k \<le> 80" using assms(1) by (simp add: regular_def)
  have pos: "ConfigureInitialPositions cfg (built k) (\<lambda>_. None) = Some mob" and topo: "topo = built k"
    using Build_built[OF assms(1)] assms(2) by auto
  show "topo = built k" by (rule topo)
  obtain m1 m2 where m1: "helper_install ConstantPosition ground_positions (map of_nat [0..<4]) (\<lambda>_. None) = Some m1"
    and m2: "helper_install builder_gauss_markov (uav_positions cfg) (map of_nat [4..<4 + 3 * k]) m1 = Some m2"
    and m3: "helper_install ConstantPosition [\<lparr> vx = 750, vy = 750, vz = 50 \<rparr>] [of_nat (4 + 3 * k)] m2 = Some mob"
    using pos by (auto simp: ConfigureInitialPositions_def built_def bind_eq_Some_conv simp del: of_nat_add)
  note mem = built_distinct(3,4)[OF k]
  have other3: "mob (of_nat i) = m2 (of_nat i)" if "i < 4 + 3 * k" for i
    using helper_install_other[OF m3, of "of_nat i"] that k by (simp add: of_nat_u32_inj del: of_nat_add)
  have m1_at: "m1 (of_nat i) = None" if "4 \<le> i" "i < 5 + 3 * k" for i
    using helper_install_other[OF m1, of "of_nat i"] mem(2)[of i] that by (simp del: of_nat_add)
  show "\<exists>m. mob (of_nat (4 + i)) = Some m \<and> nm_model m = builder_gauss_markov" if "i < 3 * k"
    using helper_install_nth[OF m2 built_distinct(1)[OF k], of i] other3[of "4 + i"] m1_at[of "4 + i"] that
    by (simp del: of_nat_add)
  show "mob (of_nat c) = Some \<lparr> nm_model = ConstantPosition, nm_pos = ground_positions ! c \<rparr>" if "c < 4"
  proof -
    have "m2 (of_nat c) = m1 (of_nat c)"
      using helper_install_other[OF m2, of "of_nat c"] mem(1)[of c] that by simp
    moreover have "m1 (of_nat c) = Some \<lparr> nm_model = ConstantPosition, nm_pos = ground_positions ! c \<rparr>"
      using helper_install_nth[OF m1 built_distinct(2)[OF k], of c] that by (simp add: ground_positions_def)
    ultimately show ?thesis using other3[of c] that by simp
  qed
  show "\<exists>m. mob (of_nat (4 + 3 * k)) = Some m \<and> nm_model m = ConstantPosition"
  proof -
    have "m2 (of_nat (4 + 3 * k)) = None"
      using helper_install_other[OF m2, of "of_nat (4 + 3 * k)"] mem(1)[of "4 + 3 * k"] m1_at[of "4 + 3 * k"]
      by (simp del: of_nat_add)
    then show ?thesis using helper_install_nth[OF m3, of 0] by (simp del: of_nat_add)
  qed
qed

text \<open>Setting the mean velocity of a list of nodes, seen at one node.\<close>

lemma fold_set_mean_velocity_at:
  "mob n = Some \<lparr> nm_model = GaussMarkov g, nm_pos = p \<rparr> \<Longrightarrow> n \<in> set ns \<Longrightarrow>
   fold (set_mean_velocity v) ns mob n = Some \<lparr> nm_model = GaussMarkov (g \<lparr> gm_mean_velocity := ConstantRv v \<rparr>), nm_pos = p \<rparr>"
proof (induction ns arbitrary: mob g)
  case (Cons a ns)
  have idle: "fold (set_mean_velocity v) ns mob n = mob n" if "n \<notin> set ns" for ns and mob :: mobilities
    using that by (induction ns arbitrary: mob) (auto simp: set_mean_velocity_def split: option.splits MobilityModel.splits)
  show ?case
  proof (cases "a = n")
    case True
    have "set_mean_velocity v a mob n = Some \<lparr> nm_model = GaussMarkov (g \<lparr> gm_mean_velocity := ConstantRv v \<rparr>), nm_pos = p \<rparr>"
      using Cons.prems(1) True by (simp add: set_mean_velocity_def)
    then show ?thesis
      using Cons.IH[of "set_mean_velocity v a mob" "g \<lparr> gm_mean_velocity := ConstantRv v \<rparr>"]
        idle[of ns "set_mean_velocity v a mob"] by (cases "n \<in> set ns") simp_all
  next
    case False
    have "set_mean_velocity v a mob n = mob n"
      using False by (auto simp: set_mean_velocity_def split: option.splits MobilityModel.splits)
    then show ?thesis using Cons.IH[of "set_mean_velocity v a mob" g] Cons.prems False by simp
  qed
qed simp

text \<open>What the two installations leave of it.\<close>

lemma installed_uav:
  assumes "regular k cfg" "Build cfg 0 [] (\<lambda>_. None) = Some (topo, mob0)"
    and "InstallGaussMarkov mc (tr_uav_nodes topo) mob0 = Some mob1"
    and "InstallRandomWaypoint lo hi drawn (tr_jammer_node topo) mob1 = Some mob"
    and "0 \<le> mc_formation_radius_m mc" "i < 3 * k"
  shows "\<exists>g. builder_gauss_markov = GaussMarkov g \<and> mob (UavNodeId (of_nat i)) = Some
    \<lparr> nm_model = GaussMarkov (g \<lparr> gm_mean_velocity := ConstantRv (mc_mean_velocity mc) \<rparr>),
      nm_pos = formation_pos mc (i mod 18 div 6) (i mod 6) \<rparr>"
proof -
  have k: "k \<le> 80" using assms(1) by (simp add: regular_def)
  note B = Build_mobility[OF assms(1,2)] and i = assms(6)
  let ?uavs = "map of_nat [4..<4 + 3 * k] :: u32 list"
  obtain m' where m': "helper_install (gauss_markov_of mc) (formation mc) ?uavs mob0 = Some m'"
    and mob1: "mob1 = fold (set_mean_velocity (mc_mean_velocity mc)) ?uavs m'"
    using assms(3) by (auto simp: InstallGaussMarkov_def B(1) built_def)
  have jam: "helper_install (RandomWaypoint (UniformRv lo hi) (ConstantRv 0)) [drawn] [of_nat (4 + 3 * k)] mob1 = Some mob"
    using assms(4) by (simp add: InstallRandomWaypoint_def B(1) built_def del: of_nat_add)
  have node: "UavNodeId (of_nat i) = of_nat (4 + i)" by (simp add: UavNodeId_def UAV0_NODE_ID_def)
  have "mob (of_nat (4 + i)) = mob1 (of_nat (4 + i))"
    using helper_install_other[OF jam, of "of_nat (4 + i)"] i k by (simp add: of_nat_u32_inj del: of_nat_add)
  moreover have "m' (of_nat (4 + i)) = Some \<lparr> nm_model = builder_gauss_markov, nm_pos = formation mc ! (i mod 18) \<rparr>"
    using helper_install_nth[OF m' built_distinct(1)[OF k], of i] B(2)[OF i] i formation_nth(1)[OF assms(5), of 0]
    by (auto simp del: of_nat_add)
  moreover obtain g where g: "builder_gauss_markov = GaussMarkov g" by (simp add: builder_gauss_markov_def)
  moreover have "of_nat (4 + i) \<in> set ?uavs" using i by (auto simp del: of_nat_add)
  ultimately have "mob (of_nat (4 + i)) = Some \<lparr> nm_model = GaussMarkov (g \<lparr> gm_mean_velocity := ConstantRv (mc_mean_velocity mc) \<rparr>),
      nm_pos = formation mc ! (i mod 18) \<rparr>"
    using fold_set_mean_velocity_at[of m' "of_nat (4 + i)" g "formation mc ! (i mod 18)" ?uavs "mc_mean_velocity mc"]
    by (simp add: mob1 del: of_nat_add)
  moreover have "i mod 18 mod 6 = i mod 6" by (simp add: mod_mod_cancel)
  ultimately show ?thesis
    using formation_nth(2)[OF assms(5), of "i mod 18"] g unfolding node by auto
qed

lemma installed_jammer:
  assumes "regular k cfg" "Build cfg 0 [] (\<lambda>_. None) = Some (topo, mob0)"
    and "InstallGaussMarkov mc (tr_uav_nodes topo) mob0 = Some mob1"
    and "InstallRandomWaypoint lo hi drawn (tr_jammer_node topo) mob1 = Some mob"
  shows "\<exists>j. tr_jammer_node topo = [j] \<and> mob j = Some \<lparr> nm_model = ConstantPosition, nm_pos = drawn \<rparr>"
proof -
  have k: "k \<le> 80" using assms(1) by (simp add: regular_def)
  note B = Build_mobility[OF assms(1,2)]
  let ?uavs = "map of_nat [4..<4 + 3 * k] :: u32 list" and ?j = "of_nat (4 + 3 * k) :: u32"
  have node: "tr_jammer_node topo = [?j]" by (simp add: B(1) built_def del: of_nat_add)
  obtain m' where m': "helper_install (gauss_markov_of mc) (formation mc) ?uavs mob0 = Some m'"
    and mob1: "mob1 = fold (set_mean_velocity (mc_mean_velocity mc)) ?uavs m'"
    using assms(3) by (auto simp: InstallGaussMarkov_def B(1) built_def)
  have jam: "helper_install (RandomWaypoint (UniformRv lo hi) (ConstantRv 0)) [drawn] [?j] mob1 = Some mob"
    using assms(4) by (simp add: InstallRandomWaypoint_def node del: of_nat_add)
  have "m' ?j = mob0 ?j"
    using helper_install_other[OF m', of ?j] built_distinct(3)[OF k, of "4 + 3 * k"] by (simp del: of_nat_add)
  then obtain m where m: "mob1 ?j = Some m" "gm_kind (nm_model m) = ConstantPosition"
    using B(4) fold_set_mean_velocity_kind[of "mc_mean_velocity mc" ?uavs m' ?j]
    by (auto simp: mob1 gm_kind_def simp del: of_nat_add)
  from m(2) have "nm_model m = ConstantPosition" by (auto simp: gm_kind_def split: MobilityModel.splits)
  with m(1) show ?thesis using helper_install_nth[OF jam, of 0] node by (simp del: of_nat_add)
qed

lemma sixes_iff:
  assumes "1 \<le> k"
  shows "(\<forall>i<3 * k. i div k = i mod 18 div 6) \<longleftrightarrow> k = (6 :: nat)"
proof
  assume all: "\<forall>i<3 * k. i div k = i mod 18 div 6"
  have "\<not> k < 6" using assms all[rule_format, of k] by auto
  moreover have "\<not> 6 < k" using all[rule_format, of 6] by auto
  ultimately show "k = 6" by linarith
qed simp

text \<open>
  C40.  What is left of the mobility settings.  \<open>InstallGaussMarkov\<close> leaves every UAV with exactly the
  Gauss-Markov model of the topology builder, except for the mean velocity, which it does set, and moves it to its place in the
  formation; so of its configuration only the mean velocity, the formation radius, the altitudes and the
  clamping of the positions to the area take effect, while alpha (0.3 stays), the bounds, the time step, the mean direction, the mean pitch
  and the variances do not.  Whatever \<open>InstallRandomWaypoint\<close> is asked for, the jammer keeps its
  \<open>ConstantPosition\<close> model and never moves.  UAV \<open>i\<close> stands in the
  formation of cluster \<open>i mod 18 / 6\<close>, so all UAVs of a run stand around their own SKDC if and only if the
  clusters have six UAVs.
\<close>

theorem deployment:
  assumes "regular k cfg" "Build cfg 0 [] (\<lambda>_. None) = Some (topo, mob0)"
    and "InstallGaussMarkov mc (tr_uav_nodes topo) mob0 = Some mob1"
    and "InstallRandomWaypoint lo hi drawn (tr_jammer_node topo) mob1 = Some mob"
    and "0 \<le> mc_formation_radius_m mc" "mc_formation_radius_m mc \<le> 240" "mc_area_x_m mc = 1500" "mc_area_y_m mc = 1500"
  shows "(\<exists>g. builder_gauss_markov = GaussMarkov g \<and> gm_alpha g = 0.3 \<and>
      (\<forall>i<3 * k. mob (UavNodeId (of_nat i)) = Some
         \<lparr> nm_model = GaussMarkov (g \<lparr> gm_mean_velocity := ConstantRv (mc_mean_velocity mc) \<rparr>),
           nm_pos = formation_pos mc (i mod 18 div 6) (i mod 6) \<rparr>)) \<and>
    (\<exists>j. tr_jammer_node topo = [j] \<and> mob j = Some \<lparr> nm_model = ConstantPosition, nm_pos = drawn \<rparr>) \<and>
    ((\<forall>i<3 * k. \<exists>m. mob (UavNodeId (of_nat i)) = Some m \<and>
        center_dist (vx (nm_pos m)) (vy (nm_pos m)) (of_nat (i div k)) \<le> mc_formation_radius_m mc) \<longleftrightarrow> k = 6)"
proof -
  have k: "1 \<le> k" using assms(1) by (simp add: regular_def)
  note uav = installed_uav[OF assms(1-5)]
  have near: "(\<exists>m. mob (UavNodeId (of_nat i)) = Some m \<and>
      center_dist (vx (nm_pos m)) (vy (nm_pos m)) (of_nat (i div k)) \<le> mc_formation_radius_m mc) \<longleftrightarrow> i div k = i mod 18 div 6"
    if i: "i < 3 * k" for i
  proof -
    have "i div k < 3" "i mod 18 div 6 < 3" using i k by (simp_all add: less_mult_imp_div_less)
    then show ?thesis using uav[OF i] formation_near[OF assms(5,6) _ _ assms(7,8)] by fastforce
  qed
  moreover obtain g where g: "builder_gauss_markov = GaussMarkov g" "gm_alpha g = 0.3" by (simp add: builder_gauss_markov_def)
  moreover have "mob (UavNodeId (of_nat i)) = Some \<lparr> nm_model = GaussMarkov (g \<lparr> gm_mean_velocity := ConstantRv (mc_mean_velocity mc) \<rparr>),
      nm_pos = formation_pos mc (i mod 18 div 6) (i mod 6) \<rparr>" if "i < 3 * k" for i
  proof -
    obtain g' where g': "builder_gauss_markov = GaussMarkov g'" "mob (UavNodeId (of_nat i)) = Some
        \<lparr> nm_model = GaussMarkov (g' \<lparr> gm_mean_velocity := ConstantRv (mc_mean_velocity mc) \<rparr>),
          nm_pos = formation_pos mc (i mod 18 div 6) (i mod 6) \<rparr>" using uav[OF \<open>i < 3 * k\<close>] by blast
    have "g' = g" using trans[OF g'(1)[symmetric] g(1)] by (rule MobilityModel.inject(1)[THEN iffD1])
    with g'(2) show ?thesis by (simp only:)
  qed
  ultimately show ?thesis using installed_jammer[OF assms(1-4)] sixes_iff[OF k] by blast
qed

lemma InstallRandomWaypoint_some: "\<exists>mob'. InstallRandomWaypoint lo hi drawn js mob = Some mob'"
  by (simp add: InstallRandomWaypoint_def helper_install_some)

lemma deployment_witness:
  "\<exists>topo mob0 mob1 mob j. Build TopologyConfig_new 0 [] (\<lambda>_. None) = Some (topo, mob0) \<and>
     InstallGaussMarkov MobilityConfig_new (tr_uav_nodes topo) mob0 = Some mob1 \<and>
     InstallRandomWaypoint 10 10 \<lparr> vx = 1, vy = 2, vz = 3 \<rparr> (tr_jammer_node topo) mob1 = Some mob \<and>
     tr_jammer_node topo = [j] \<and> map_option nm_model (mob j) = Some ConstantPosition \<and>
     (\<exists>g. map_option nm_model (mob (UavNodeId 0)) = Some (GaussMarkov g) \<and> gm_mean_velocity g = ConstantRv 15 \<and>
        gm_alpha g = 0.3)"
proof -
  let ?mc = MobilityConfig_new and ?v = "\<lparr> vx = 1, vy = 2, vz = 3 \<rparr>"
  have reg: "regular 6 TopologyConfig_new" by (simp add: regular_def TopologyConfig_new_def)
  obtain topo mob0 where b: "Build TopologyConfig_new 0 [] (\<lambda>_. None) = Some (topo, mob0)"
    using Build_built[OF reg] by blast
  have mc: "0 \<le> mc_formation_radius_m ?mc" "mc_formation_radius_m ?mc \<le> 240" "mc_area_x_m ?mc = 1500" "mc_area_y_m ?mc = 1500"
    by (simp_all add: MobilityConfig_new_def)
  have "formation ?mc \<noteq> []" using formation_nth(1)[OF mc(1), of 0] by auto
  then obtain mob1 where g: "InstallGaussMarkov ?mc (tr_uav_nodes topo) mob0 = Some mob1"
    using helper_install_some[of "formation ?mc" "tr_uav_nodes topo" "gauss_markov_of ?mc" mob0]
    by (auto simp: InstallGaussMarkov_def)
  obtain mob where w: "InstallRandomWaypoint 10 10 ?v (tr_jammer_node topo) mob1 = Some mob"
    using InstallRandomWaypoint_some by blast
  note left = deployment[OF reg b g w mc]
  obtain j where "tr_jammer_node topo = [j]" "mob j = Some \<lparr> nm_model = ConstantPosition, nm_pos = ?v \<rparr>" using left by blast
  moreover obtain g where "gm_alpha g = 0.3" and uavs: "\<forall>i<3 * 6. mob (UavNodeId (of_nat i)) = Some
      \<lparr> nm_model = GaussMarkov (g \<lparr> gm_mean_velocity := ConstantRv (mc_mean_velocity ?mc) \<rparr>),
        nm_pos = formation_pos ?mc (i mod 18 div 6) (i mod 6) \<rparr>" using left by blast
  moreover have "mc_mean_velocity ?mc = 15" by (simp add: MobilityConfig_new_def)
  ultimately show ?thesis using b g w uavs[rule_format, of 0] by force
qed

end
