(* ===== verification/Routing_Managers.thy ===== *)
theory Routing_Managers
  imports Topology_Facts
begin

text \<open>
  The managers that look at the built network: routing/uav-csma-backbone.cc, uav-olsr-manager.cc,
  uav-queue-manager.cc and uav-wifi-config.cc.  What they read of ns-3 is an argument: the routing protocol of a
  node and its route lookups, the mobility model of a node and the queues of the devices.  A pointer that
  may be null is an option, an access behind a container \<open>None\<close>.  Printed tables are left out.
\<close>

section \<open>The backbone\<close>

record BackboneStats =
  bb_kdc_to_skdc_pkts :: u64
  bb_skdc_to_kdc_pkts :: u64
  bb_skdc_to_skdc_pkts :: u64
  bb_handover_relays :: u64
  bb_tek_syncs :: u64
  bb_avg_latency_ms :: real

definition BackboneStats_new :: BackboneStats where
  "BackboneStats_new =
     \<lparr> bb_kdc_to_skdc_pkts = 0, bb_skdc_to_kdc_pkts = 0, bb_skdc_to_skdc_pkts = 0, bb_handover_relays = 0, bb_tek_syncs = 0,
       bb_avg_latency_ms = 1 \<rparr>"

definition Bb_GetKdcAddress :: "TopologyResult \<Rightarrow> u32 option" where
  "Bb_GetKdcAddress topo = container_get (tr_csma_interfaces topo) 0"

definition Bb_GetSkdcAddress :: "TopologyResult \<Rightarrow> u32 \<Rightarrow> u32 comp" where
  "Bb_GetSkdcAddress topo cluster =
     (if cluster \<ge> 3 then Some (Inl ConfigException)
      else map_option Inr (container_get (tr_csma_interfaces topo) (cluster + 1)))"

definition Bb_GetAllSkdcAddresses :: "TopologyResult \<Rightarrow> u32 list comp" where
  "Bb_GetAllSkdcAddresses topo =
     cbind (Bb_GetSkdcAddress topo 0) (\<lambda>a. cbind (Bb_GetSkdcAddress topo 1) (\<lambda>b. cbind (Bb_GetSkdcAddress topo 2) (\<lambda>c.
       cret [a, b, c])))"

definition Bb_GetNextHop :: "u32 \<Rightarrow> u32 \<Rightarrow> u32" where
  "Bb_GetNextHop src dst = dst"

text \<open>The log line reads the address of the SKDC after the counters were raised.\<close>

definition NotifyTekSync :: "TopologyResult \<Rightarrow> u32 \<Rightarrow> BackboneStats \<Rightarrow> BackboneStats \<times> u32 comp" where
  "NotifyTekSync topo cluster st =
     (st \<lparr> bb_tek_syncs := bb_tek_syncs st + 1, bb_kdc_to_skdc_pkts := bb_kdc_to_skdc_pkts st + 1 \<rparr>,
      Bb_GetSkdcAddress topo cluster)"

definition RelayHandover :: "u32 \<Rightarrow> u32 \<Rightarrow> BackboneStats \<Rightarrow> BackboneStats" where
  "RelayHandover old_cluster new_cluster st =
     st \<lparr> bb_handover_relays := bb_handover_relays st + 1, bb_skdc_to_skdc_pkts := bb_skdc_to_skdc_pkts st + 1 \<rparr>"

definition IsLinkActive :: "u32 \<Rightarrow> bool" where
  "IsLinkActive cluster = True"

definition Bb_ResetStats :: "BackboneStats \<Rightarrow> BackboneStats" where
  "Bb_ResetStats st = BackboneStats_new"

section \<open>OLSR\<close>

record OlsrState =
  ol_neighbors :: "u32 list"
  ol_two_hop :: "u32 list"

datatype Ipv4Routing = OlsrRouting OlsrState | ListRouting "Ipv4Routing list" | OtherRouting

text \<open>A node: its IPv4 object and the routing protocol of that, and whether \<open>RouteOutput\<close> finds a route.\<close>

record NetNode =
  nn_ipv4 :: "Ipv4Routing option option"
  nn_route :: "u32 \<Rightarrow> u32 \<Rightarrow> bool"

definition Olsr_GetUavWifiAddr :: "TopologyResult \<Rightarrow> u32 \<Rightarrow> u32 option" where
  "Olsr_GetUavWifiAddr topo uav_index = container_get (tr_wifi_interfaces topo) uav_index"

definition as_olsr :: "Ipv4Routing \<Rightarrow> OlsrState option" where
  "as_olsr r = (case r of OlsrRouting s \<Rightarrow> Some s | _ \<Rightarrow> None)"

definition GetOlsrProtocol :: "TopologyResult \<Rightarrow> (u32 \<Rightarrow> NetNode) \<Rightarrow> u32 \<Rightarrow> OlsrState option res" where
  "GetOlsrProtocol topo nodes uav_index =
     (if unat uav_index \<ge> length (tr_uav_nodes topo) then Inl ConfigException
      else
        case nn_ipv4 (nodes (tr_uav_nodes topo ! unat uav_index)) of
          None \<Rightarrow> Inr None
        | Some None \<Rightarrow> Inr None
        | Some (Some routing) \<Rightarrow>
            (case as_olsr routing of
               Some s \<Rightarrow> Inr (Some s)
             | None \<Rightarrow> (case routing of
                 ListRouting rs \<Rightarrow> Inr (first_some as_olsr rs)
               | _ \<Rightarrow> Inr None)))"

definition GetRoutingTable :: "TopologyResult \<Rightarrow> (u32 \<Rightarrow> NetNode) \<Rightarrow> u32 \<Rightarrow> (u32 \<times> u32 \<times> u32 \<times> u32) list res" where
  "GetRoutingTable topo nodes uav_index = rbind (GetOlsrProtocol topo nodes uav_index) (\<lambda>_. Inr [])"

definition HasRoute :: "TopologyResult \<Rightarrow> (u32 \<Rightarrow> NetNode) \<Rightarrow> u32 \<Rightarrow> u32 \<Rightarrow> bool option" where
  "HasRoute topo nodes uav_index dst =
     Option.bind (container_get (tr_uav_nodes topo) uav_index) (\<lambda>n.
       case nn_ipv4 (nodes n) of
         Some (Some _) \<Rightarrow> map_option (\<lambda>src. nn_route (nodes n) src dst) (Olsr_GetUavWifiAddr topo uav_index)
       | _ \<Rightarrow> Some False)"

definition GetNeighborCount :: "TopologyResult \<Rightarrow> (u32 \<Rightarrow> NetNode) \<Rightarrow> u32 \<Rightarrow> u32 res" where
  "GetNeighborCount topo nodes uav_index =
     rbind (GetOlsrProtocol topo nodes uav_index) (\<lambda>p.
       case p of None \<Rightarrow> Inr 0 | Some s \<Rightarrow> Inr (of_nat (length (ol_neighbors s))))"

definition GetHopDistance :: "TopologyResult \<Rightarrow> (u32 \<Rightarrow> NetNode) \<Rightarrow> u32 \<Rightarrow> u32 \<Rightarrow> u32 comp" where
  "GetHopDistance topo nodes uav_src uav_dst =
     (case GetOlsrProtocol topo nodes uav_src of
        Inl e \<Rightarrow> Some (Inl e)
      | Inr None \<Rightarrow> cret 99
      | Inr (Some s) \<Rightarrow>
          Option.bind (Olsr_GetUavWifiAddr topo uav_dst) (\<lambda>dst_addr.
            if dst_addr \<in> set (ol_neighbors s) then cret 1
            else if dst_addr \<in> set (ol_two_hop s) then cret 2
            else Option.bind (HasRoute topo nodes uav_src dst_addr) (\<lambda>has. cret (if has then 3 else 99))))"

text \<open>The loop over the UAVs of a cluster, from the UAV \<open>base + u\<close> on.\<close>

fun count_olsr :: "TopologyResult \<Rightarrow> (u32 \<Rightarrow> NetNode) \<Rightarrow> u32 \<Rightarrow> nat list \<Rightarrow> u32 \<Rightarrow> u32 res" where
  "count_olsr topo nodes base [] count = Inr count"
| "count_olsr topo nodes base (u # us) count =
     rbind (GetOlsrProtocol topo nodes (base + of_nat u)) (\<lambda>p.
       count_olsr topo nodes base us (if p \<noteq> None then count + 1 else count))"

definition GetIntraClusterConnected :: "TopologyResult \<Rightarrow> (u32 \<Rightarrow> NetNode) \<Rightarrow> u32 \<Rightarrow> u32 res" where
  "GetIntraClusterConnected topo nodes cluster =
     (if cluster \<ge> 3 then Inr 0 else count_olsr topo nodes (cluster * 6) [0..<6] 0)"

definition EstimateOverheadBps :: "TopologyResult \<Rightarrow> real" where
  "EstimateOverheadBps topo =
     (let n = real (length (tr_uav_nodes topo)); hello_bps = n * 64 / 2; tc_bps = n * 128 / 5 in hello_bps + tc_bps)"

record OlsrStats =
  os_node_id :: u32
  os_neighbor_count :: u32
  os_routing_entries :: u32
  os_hello_sent :: u64
  os_tc_sent :: u64
  os_hello_recv :: u64
  os_tc_recv :: u64
  os_routing_overhead :: real

definition OlsrStats_new :: OlsrStats where
  "OlsrStats_new = \<lparr> os_node_id = 0, os_neighbor_count = 0, os_routing_entries = 0, os_hello_sent = 0, os_tc_sent = 0,
     os_hello_recv = 0, os_tc_recv = 0, os_routing_overhead = 0 \<rparr>"

definition Olsr_GetNodeStats :: "TopologyResult \<Rightarrow> (u32 \<Rightarrow> NetNode) \<Rightarrow> u32 \<Rightarrow> OlsrStats res" where
  "Olsr_GetNodeStats topo nodes uav_index =
     rbind (GetNeighborCount topo nodes uav_index) (\<lambda>n.
     rbind (GetRoutingTable topo nodes uav_index) (\<lambda>routes.
       Inr (OlsrStats_new \<lparr> os_node_id := uav_index, os_neighbor_count := n, os_routing_entries := of_nat (length routes) \<rparr>)))"

section \<open>Queues\<close>

record QueueStats =
  qs_node_id :: u32
  qs_queue_size :: u32
  qs_max_size :: u32
  qs_total_enqueued :: u64
  qs_total_dropped :: u64
  qs_occupancy_pct :: real

definition QueueStats_new :: QueueStats where
  "QueueStats_new = \<lparr> qs_node_id = 0, qs_queue_size = 0, qs_max_size = 100, qs_total_enqueued = 0, qs_total_dropped = 0,
     qs_occupancy_pct = 0 \<rparr>"

definition MAX_QUEUE_SIZE :: u32 where "MAX_QUEUE_SIZE = 100"
definition CSMA_QUEUE_SIZE :: u32 where "CSMA_QUEUE_SIZE = 100"

text \<open>\<open>m_stats\<close> as an association list; the order of an \<open>unordered_map\<close> only shows in \<open>GetAllStats\<close>.\<close>

type_synonym QueueManager = "(u32 \<times> QueueStats) list"

definition put_stats :: "u32 \<Rightarrow> QueueStats \<Rightarrow> QueueManager \<Rightarrow> QueueManager" where
  "put_stats nid s q = (if map_of q nid \<noteq> None then map (\<lambda>(n, t). (n, if n = nid then s else t)) q else q @ [(nid, s)])"

definition QueueManager_new :: "TopologyResult \<Rightarrow> QueueManager" where
  "QueueManager_new topo =
     fold (\<lambda>nid. put_stats nid (QueueStats_new \<lparr> qs_node_id := nid, qs_max_size := CSMA_QUEUE_SIZE \<rparr>)) (tr_ground_nodes topo)
       (fold (\<lambda>nid. put_stats nid (QueueStats_new \<lparr> qs_node_id := nid, qs_max_size := MAX_QUEUE_SIZE \<rparr>)) (tr_uav_nodes topo) [])"

text \<open>The limits of the queues of devices: \<open>None\<close> a device that is no CSMA device or has no queue.\<close>

definition SetDeviceQueueSize :: "u32 option \<Rightarrow> u32 \<Rightarrow> u32 option" where
  "SetDeviceQueueSize queue max_size = (case queue of None \<Rightarrow> None | Some _ \<Rightarrow> Some max_size)"

definition ConfigureCsmaQueues :: "u32 option list \<Rightarrow> u32 option list" where
  "ConfigureCsmaQueues devices = map (\<lambda>d. SetDeviceQueueSize d CSMA_QUEUE_SIZE) devices"

definition GetWifiQueueDepth :: "TopologyResult \<Rightarrow> QueueManager \<Rightarrow> u32 \<Rightarrow> u32" where
  "GetWifiQueueDepth topo q uav_index =
     (if unat uav_index \<ge> length (tr_uav_nodes topo) then 0
      else case map_of q (tr_uav_nodes topo ! unat uav_index) of Some s \<Rightarrow> qs_queue_size s | None \<Rightarrow> 0)"

definition GetQueueStats :: "QueueManager \<Rightarrow> u32 \<Rightarrow> QueueStats" where
  "GetQueueStats q node_id = (case map_of q node_id of Some s \<Rightarrow> s | None \<Rightarrow> QueueStats_new)"

definition IsQueueNearFull :: "TopologyResult \<Rightarrow> QueueManager \<Rightarrow> u32 \<Rightarrow> bool" where
  "IsQueueNearFull topo q uav_index \<longleftrightarrow> GetWifiQueueDepth topo q uav_index > MAX_QUEUE_SIZE * 80 div 100"

definition RecordDrop :: "u32 \<Rightarrow> QueueManager \<Rightarrow> QueueManager" where
  "RecordDrop node_id q =
     map (\<lambda>(n, s). (n, if n = node_id then s \<lparr> qs_total_dropped := qs_total_dropped s + 1 \<rparr> else s)) q"

definition GetTotalDrops :: "QueueManager \<Rightarrow> u64" where
  "GetTotalDrops q = sum_list (map (\<lambda>(n, s). qs_total_dropped s) q)"

definition GetAllStats :: "QueueManager \<Rightarrow> QueueStats list" where
  "GetAllStats q = map snd q"

section \<open>Wireless links\<close>

record WifiNodeStats =
  ws_node_id :: u32
  ws_tx_packets :: u64
  ws_rx_packets :: u64
  ws_dropped :: u64
  ws_avg_sinr_db :: real
  ws_tx_power_dbm :: real
  ws_jammer_nearby :: bool

definition WifiNodeStats_new :: WifiNodeStats where
  "WifiNodeStats_new = \<lparr> ws_node_id = 0, ws_tx_packets = 0, ws_rx_packets = 0, ws_dropped = 0, ws_avg_sinr_db = 0,
     ws_tx_power_dbm = 20, ws_jammer_nearby = False \<rparr>"

definition SINR_FAIL_THRESHOLD_DB :: real where "SINR_FAIL_THRESHOLD_DB = 8"
definition UAV_TX_POWER_DBM :: real where "UAV_TX_POWER_DBM = 20"
definition JAMMER_TX_POWER_DBM :: real where "JAMMER_TX_POWER_DBM = - 999"

text \<open>The state: the statistics of the nodes and the power of the radio of every node that has one.\<close>

record WifiConfigManager =
  wc_stats :: "u32 \<Rightarrow> WifiNodeStats option"
  wc_phy :: "u32 \<Rightarrow> real option"

definition WifiConfigManager_new :: "TopologyResult \<Rightarrow> (u32 \<Rightarrow> real option) \<Rightarrow> WifiConfigManager" where
  "WifiConfigManager_new topo phy =
     (let uavs = fold (\<lambda>nid st. st(nid \<mapsto> WifiNodeStats_new \<lparr> ws_node_id := nid, ws_tx_power_dbm := UAV_TX_POWER_DBM \<rparr>))
                   (tr_uav_nodes topo) (\<lambda>_. None)
      in \<lparr> wc_stats = (case tr_jammer_node topo of
                         [] \<Rightarrow> uavs
                       | jid # _ \<Rightarrow> uavs(jid \<mapsto> WifiNodeStats_new \<lparr> ws_node_id := jid, ws_tx_power_dbm := JAMMER_TX_POWER_DBM \<rparr>)),
           wc_phy = phy \<rparr>)"

definition SetNodeTxPower :: "u32 \<Rightarrow> real \<Rightarrow> WifiConfigManager \<Rightarrow> WifiConfigManager" where
  "SetNodeTxPower nid power_dbm wc =
     (let wc = (case wc_phy wc nid of None \<Rightarrow> wc | Some _ \<Rightarrow> wc \<lparr> wc_phy := (wc_phy wc)(nid \<mapsto> power_dbm) \<rparr>)
      in case wc_stats wc nid of
           None \<Rightarrow> wc
         | Some s \<Rightarrow> wc \<lparr> wc_stats := (wc_stats wc)(nid \<mapsto> s \<lparr> ws_tx_power_dbm := power_dbm \<rparr>) \<rparr>)"

definition SetJammerTxPower :: "TopologyResult \<Rightarrow> WifiConfigManager \<Rightarrow> WifiConfigManager" where
  "SetJammerTxPower topo wc =
     (case tr_jammer_node topo of [] \<Rightarrow> wc | j # _ \<Rightarrow> SetNodeTxPower j JAMMER_TX_POWER_DBM wc)"

definition SetAllUavTxPowers :: "TopologyResult \<Rightarrow> WifiConfigManager \<Rightarrow> WifiConfigManager" where
  "SetAllUavTxPowers topo wc = fold (\<lambda>n. SetNodeTxPower n UAV_TX_POWER_DBM) (tr_uav_nodes topo) wc"

definition Wifi_GetDistance :: "mobilities \<Rightarrow> u32 \<Rightarrow> u32 \<Rightarrow> real" where
  "Wifi_GetDistance mob a b =
     (case (mob a, mob b) of
        (Some ma, Some mb) \<Rightarrow>
          let pa = nm_pos ma; pb = nm_pos mb; dx = vx pa - vx pb; dy = vy pa - vy pb; dz = vz pa - vz pb
          in sqrt (dx * dx + dy * dy + dz * dz)
      | _ \<Rightarrow> 9999)"

definition GetFreqHz :: real where "GetFreqHz = 5180000000"

definition FriisPathLossDb :: "real \<Rightarrow> real \<Rightarrow> real" where
  "FriisPathLossDb dist_m freq_hz =
     (let dist_m = (if dist_m < 1 then 1 else dist_m) in 20 * log 10 (4 * pi * dist_m * freq_hz / 300000000))"

definition ComputePathLossDb :: "mobilities \<Rightarrow> u32 \<Rightarrow> u32 \<Rightarrow> real" where
  "ComputePathLossDb mob tx rx = FriisPathLossDb (Wifi_GetDistance mob tx rx) GetFreqHz"

definition EstimateSinrDb :: "TopologyResult \<Rightarrow> mobilities \<Rightarrow> u32 \<Rightarrow> u32 \<Rightarrow> real" where
  "EstimateSinrDb topo mob tx rx =
     (let noise_floor = - 95;
          rx_power = UAV_TX_POWER_DBM - ComputePathLossDb mob tx rx;
          jammer_interference =
            (case tr_jammer_node topo of
               [] \<Rightarrow> - 200
             | j # _ \<Rightarrow>
                 let jammer_rx_power = JAMMER_TX_POWER_DBM - FriisPathLossDb (Wifi_GetDistance mob j rx) GetFreqHz
                 in if jammer_rx_power > noise_floor then jammer_rx_power else - 200);
          interference =
            (if jammer_interference > - 150
             then 10 * log 10 (10 powr (noise_floor / 10) + 10 powr (jammer_interference / 10))
             else noise_floor)
      in rx_power - interference)"

definition IsLinkUsable :: "TopologyResult \<Rightarrow> mobilities \<Rightarrow> u32 \<Rightarrow> u32 \<Rightarrow> bool" where
  "IsLinkUsable topo mob tx rx \<longleftrightarrow> EstimateSinrDb topo mob tx rx \<ge> SINR_FAIL_THRESHOLD_DB"

definition IsJammerNearby :: "TopologyResult \<Rightarrow> mobilities \<Rightarrow> u32 \<Rightarrow> real \<Rightarrow> bool" where
  "IsJammerNearby topo mob node range_m =
     (case tr_jammer_node topo of [] \<Rightarrow> False | j # _ \<Rightarrow> Wifi_GetDistance mob j node \<le> range_m)"

definition Wifi_GetNodeStats :: "WifiConfigManager \<Rightarrow> u32 \<Rightarrow> WifiNodeStats" where
  "Wifi_GetNodeStats wc node_id = (case wc_stats wc node_id of Some s \<Rightarrow> s | None \<Rightarrow> WifiNodeStats_new)"

definition UpdateNodeStats :: "u32 \<Rightarrow> WifiNodeStats \<Rightarrow> WifiConfigManager \<Rightarrow> WifiConfigManager" where
  "UpdateNodeStats node_id stats wc = wc \<lparr> wc_stats := (wc_stats wc)(node_id \<mapsto> stats) \<rparr>"

text \<open>The SKDC is fetched and not used.\<close>

definition GetConnectedUavsInCluster :: "TopologyResult \<Rightarrow> mobilities \<Rightarrow> u32 \<Rightarrow> u32 list option" where
  "GetConnectedUavsInCluster topo mob cluster =
     (if cluster \<ge> 3 then Some []
      else Option.bind (GetSkdcNode topo cluster) (\<lambda>_.
        let cn = tr_cluster_nodes topo ! unat cluster in
        Some (map of_nat (filter (\<lambda>i. i = 0 \<or> IsLinkUsable topo mob (cn ! i) (cn ! 0)) [0..<length cn]))))"

definition GetJammedUavCount :: "TopologyResult \<Rightarrow> mobilities \<Rightarrow> u32 \<Rightarrow> u32" where
  "GetJammedUavCount topo mob cluster =
     (if cluster \<ge> 3 then 0
      else of_nat (length (filter (\<lambda>n. IsJammerNearby topo mob n 300) (tr_cluster_nodes topo ! unat cluster))))"

section \<open>Lemmas\<close>

text \<open>
  The OLSR manager takes the UAV number as the index of the wireless interface, without the base of the UAVs that
  the SKDCs have in front: the UAVs 0 to 2 get the addresses of the SKDCs, every other UAV that of the UAV three
  before it.
\<close>

theorem olsr_addresses:
  assumes "1 \<le> k" "k \<le> 80" "u < 3 * k"
  shows "Olsr_GetUavWifiAddr (built k) (of_nat u) =
    (if u < 3 then GetSkdcWifiAddr (built k) (of_nat u) else GetUavWifiAddr (built k) (of_nat (u - 3)))"
    and "Olsr_GetUavWifiAddr (built k) (of_nat u) \<noteq> GetUavWifiAddr (built k) (of_nat u)"
proof -
  have wifi: "container_get (tr_wifi_interfaces (built k)) (of_nat i) = Some (wifi_addr i)" if "i < 4 + 3 * k" for i
    using container_get_map[of i "[0..<4 + 3 * k]" wifi_addr] that assms(2) by (simp add: built_def)
  have "(3 :: u32) + of_nat (u - 3) = of_nat u" if "\<not> u < 3" using that by (simp add: of_nat_diff)
  then show "Olsr_GetUavWifiAddr (built k) (of_nat u) =
    (if u < 3 then GetSkdcWifiAddr (built k) (of_nat u) else GetUavWifiAddr (built k) (of_nat (u - 3)))"
    by (simp add: Olsr_GetUavWifiAddr_def GetSkdcWifiAddr_def GetUavWifiAddr_def WIFI_SKDC_BASE_def WIFI_UAV_BASE_def)
  have "GetUavWifiAddr (built k) (of_nat u) = Some (wifi_addr (3 + u))"
    using wifi[of "3 + u"] assms(3) by (simp add: GetUavWifiAddr_def WIFI_UAV_BASE_def)
  moreover have "wifi_addr u \<noteq> wifi_addr (3 + u)" using assms by (subst wifi_addr_eq) simp_all
  ultimately show "Olsr_GetUavWifiAddr (built k) (of_nat u) \<noteq> GetUavWifiAddr (built k) (of_nat u)"
    using wifi[of u] assms(3) by (simp add: Olsr_GetUavWifiAddr_def)
qed

lemma GetHopDistance_values: "GetHopDistance topo nodes a b = Some (Inr d) \<Longrightarrow> d \<in> {1, 2, 3, 99}"
  by (auto simp: GetHopDistance_def cret_def split: sum.splits option.splits if_splits bind_splits)

lemma count_olsr_total:
  assumes "\<forall>u\<in>set us. unat (base + of_nat u) < length (tr_uav_nodes topo)"
  shows "\<exists>n. count_olsr topo nodes base us count = Inr n"
  using assms
proof (induction us arbitrary: count)
  case (Cons u us)
  then have "\<exists>p. GetOlsrProtocol topo nodes (base + of_nat u) = Inr p"
    by (auto simp: GetOlsrProtocol_def split: option.splits Ipv4Routing.splits)
  with Cons show ?case by auto
qed simp

text \<open>A drop at a node that is known raises the total by one, any other drop leaves everything.\<close>

lemma keys_RecordDrop [simp]: "map fst (RecordDrop n q) = map fst q"
  by (induction q) (auto simp: RecordDrop_def)

lemma GetTotalDrops_RecordDrop:
  assumes "distinct (map fst q)"
  shows "GetTotalDrops (RecordDrop n q) = GetTotalDrops q + (if n \<in> fst ` set q then 1 else 0)"
proof -
  have same: "RecordDrop n q = q" if "n \<notin> fst ` set q" for q
    using that by (induction q) (auto simp: RecordDrop_def)
  show ?thesis using assms
  proof (induction q)
    case (Cons e q)
    obtain m s where e: "e = (m, s)" by (cases e)
    show ?case
    proof (cases "m = n")
      case True
      with Cons.prems e have "n \<notin> fst ` set q" by auto
      from same[OF this] True e show ?thesis by (simp add: RecordDrop_def GetTotalDrops_def)
    next
      case False
      with Cons e show ?thesis by (auto simp: RecordDrop_def GetTotalDrops_def)
    qed
  qed (simp add: RecordDrop_def GetTotalDrops_def)
qed

definition queues_ok :: "QueueManager \<Rightarrow> bool" where
  "queues_ok q \<longleftrightarrow> distinct (map fst q) \<and> (\<forall>(n, s)\<in>set q. qs_queue_size s = 0)"

lemma put_stats_ok:
  assumes "queues_ok q" "qs_queue_size s = 0"
  shows "queues_ok (put_stats n s q)"
proof (cases "map_of q n")
  case None
  with assms show ?thesis by (auto simp: queues_ok_def put_stats_def map_of_eq_None_iff)
next
  case (Some t)
  let ?q = "map (\<lambda>(m, t). (m, if m = n then s else t)) q"
  have keys: "map fst ?q = map fst q" by (induction q) auto
  have sizes: "\<forall>(m, t)\<in>set ?q. qs_queue_size t = 0" using assms by (auto simp: queues_ok_def)
  have put: "put_stats n s q = ?q" using Some by (simp add: put_stats_def)
  have "distinct (map fst q)" using assms(1) by (simp add: queues_ok_def)
  then show ?thesis unfolding put queues_ok_def keys using sizes by blast
qed

lemma QueueManager_new_ok: "queues_ok (QueueManager_new topo)"
proof -
  have ok: "queues_ok (fold (\<lambda>nid. put_stats nid (QueueStats_new \<lparr> qs_node_id := nid, qs_max_size := m \<rparr>)) ns q)"
    if "queues_ok q" for m ns q
    using that by (induction ns arbitrary: q) (simp_all add: put_stats_ok QueueStats_new_def)
  have "queues_ok []" by (simp add: queues_ok_def)
  then show ?thesis unfolding QueueManager_new_def by (intro ok)
qed

lemma RecordDrop_ok: "queues_ok q \<Longrightarrow> queues_ok (RecordDrop n q)"
  unfolding queues_ok_def keys_RecordDrop by (fastforce simp: RecordDrop_def)

text \<open>
  Over any sequence of drops the total counts those at UAVs, KDC and SKDCs; the depth of every queue stays 0, so no queue is ever
  near full.
\<close>

theorem queue_run:
  fixes topo :: TopologyResult and drops :: "u32 list"
  defines "q \<equiv> fold RecordDrop drops (QueueManager_new topo)"
  shows "GetTotalDrops q = GetTotalDrops (QueueManager_new topo) +
      of_nat (length (filter (\<lambda>n. n \<in> fst ` set (QueueManager_new topo)) drops))"
    and "GetWifiQueueDepth topo q u = 0" and "\<not> IsQueueNearFull topo q u"
proof -
  have run: "queues_ok (fold RecordDrop drops q) \<and> fst ` set (fold RecordDrop drops q) = fst ` set q \<and>
      GetTotalDrops (fold RecordDrop drops q) = GetTotalDrops q + of_nat (length (filter (\<lambda>n. n \<in> fst ` set q) drops))"
    if "queues_ok q" for q
    using that
  proof (induction drops arbitrary: q)
    case (Cons d drops)
    have "fst ` set (RecordDrop d q) = fst ` set q" by (metis keys_RecordDrop list.set_map)
    with Cons.IH[OF RecordDrop_ok[OF Cons.prems]] Cons.prems show ?case
      by (simp add: GetTotalDrops_RecordDrop queues_ok_def add.assoc)
  qed simp
  from run[OF QueueManager_new_ok[of topo]]
  show "GetTotalDrops q = GetTotalDrops (QueueManager_new topo) +
      of_nat (length (filter (\<lambda>n. n \<in> fst ` set (QueueManager_new topo)) drops))"
    by (simp add: q_def)
  have "queues_ok q" using run[OF QueueManager_new_ok[of topo]] by (simp add: q_def)
  then show depth: "GetWifiQueueDepth topo q u = 0"
    by (auto simp: GetWifiQueueDepth_def queues_ok_def split: option.splits dest!: map_of_SomeD)
  show "\<not> IsQueueNearFull topo q u" by (simp add: IsQueueNearFull_def depth MAX_QUEUE_SIZE_def)
qed

text \<open>
  The jammer has -999 dBm here, so it never counts as interference: the SINR is 115 dB less the path loss, wherever the jammer
  is.  It never grows with the distance.
\<close>

lemma FriisPathLoss_mono: "d \<le> d' \<Longrightarrow> 0 < f \<Longrightarrow> FriisPathLossDb d f \<le> FriisPathLossDb d' f"
  by (auto simp: FriisPathLossDb_def Let_def divide_right_mono mult_left_mono mult_right_mono)

lemma FriisPathLoss_nonneg: "0 \<le> FriisPathLossDb d GetFreqHz"
proof -
  have "300000000 \<le> 4 * pi * (if d < 1 then 1 else d) * GetFreqHz"
  proof -
    have "8 \<le> 4 * pi" using pi_ge_two by simp
    then have "8 * 1 \<le> 4 * pi * (if d < 1 then 1 else d)" by (intro mult_mono) auto
    then have "8 * 5180000000 \<le> 4 * pi * (if d < 1 then 1 else d) * GetFreqHz"
      by (intro mult_mono) (auto simp: GetFreqHz_def)
    then show ?thesis by linarith
  qed
  then have "1 \<le> 4 * pi * (if d < 1 then 1 else d) * GetFreqHz / 300000000" by simp
  then have "0 \<le> log 10 (4 * pi * (if d < 1 then 1 else d) * GetFreqHz / 300000000)" by simp
  then show ?thesis unfolding FriisPathLossDb_def Let_def by linarith
qed

theorem jammer_not_in_sinr:
  "EstimateSinrDb topo mob tx rx = 115 - ComputePathLossDb mob tx rx"
  "IsLinkUsable topo mob tx rx \<longleftrightarrow> ComputePathLossDb mob tx rx \<le> 107"
proof -
  have "\<not> JAMMER_TX_POWER_DBM - FriisPathLossDb d GetFreqHz > - 95" for d
    using FriisPathLoss_nonneg[of d] by (simp add: JAMMER_TX_POWER_DBM_def)
  then show sinr: "EstimateSinrDb topo mob tx rx = 115 - ComputePathLossDb mob tx rx"
    by (auto simp: EstimateSinrDb_def Let_def UAV_TX_POWER_DBM_def split: list.splits)
  show "IsLinkUsable topo mob tx rx \<longleftrightarrow> ComputePathLossDb mob tx rx \<le> 107"
    by (auto simp: IsLinkUsable_def sinr SINR_FAIL_THRESHOLD_DB_def)
qed

lemma closer_link_usable:
  "Wifi_GetDistance mob a b \<le> Wifi_GetDistance mob c d \<Longrightarrow> IsLinkUsable topo mob c d \<Longrightarrow> IsLinkUsable topo mob a b"
  using FriisPathLoss_mono[of "Wifi_GetDistance mob a b" "Wifi_GetDistance mob c d" GetFreqHz]
  by (simp add: jammer_not_in_sinr ComputePathLossDb_def GetFreqHz_def)

end
