(* ===== verification/Animation.thy ===== *)
theory Animation
  imports Topology Perf_Scenario String_Utils
begin

text \<open>
  visualization/: the managers that draw a run, uav-netanim.cc, uav-node-color.cc, uav-packet-viz.cc and
  uav-event-annotations.cc.  The animation is the list of the calls \<open>AnimationInterface\<close> gets, \<open>None\<close> before there is
  one.  Topology, time and what the jammer manager says of a UAV are the environment \<open>VisEnv\<close>; the pointers between the
  managers are those main.cc sets, which are never null.  Access behind a container is \<open>None\<close>.  The printed statistics are left out.
\<close>

section \<open>State\<close>

datatype AnimCall =
    UpdateNodeColor u32 u8 u8 u8
  | UpdateNodeDescription u32 string
  | UpdateNodeSize u32 real real
  | UpdateLinkDescription u32 u32 string
  | SetConstantPosition u32 real real real
  | AddNodeCounter string
  | UpdateNodeCounter nat u32 real

datatype UavColorState = COL_NORMAL | COL_COMPROMISED | COL_HANDOVER | COL_JAMMED | COL_DISCONNECTED

record ColorChangeRecord =
  cr_time_s :: real
  cr_uav_id :: u32
  cr_old_state :: UavColorState
  cr_new_state :: UavColorState

record PacketVizRecord =
  pv_time_s :: real
  pv_pkt_type :: PacketType
  pv_src_id :: u32
  pv_dst_id :: u32
  pv_label :: string

text \<open>What is scheduled; the code of a lambda with what it captures is a constructor.\<close>

datatype VisTimer =
    LateColor u32 u8 u8 u8
  | JammerColorUpdateCallback
  | LabelUpdateCallback
  | JammerScanCallback
  | RestoreSkdc u32
  | RestoreHandover u32 u32
  | RestoreLeave u32

record VisEnv =
  ve_topo :: TopologyResult
  ve_now :: real
  ve_jammed :: "u32 \<Rightarrow> bool"
  ve_sinr :: "u32 \<Rightarrow> real"
  ve_fixed1 :: "real \<Rightarrow> string"

record Vis =
  vz_enabled :: bool
  vz_anim :: "AnimCall list option"
  vz_timers :: "(real \<times> VisTimer) list"
  nc_states :: "UavColorState list"
  nc_history :: "ColorChangeRecord list"
  nc_jammer :: bool
  nc_interval :: real
  pv_history :: "PacketVizRecord list"
  pv_total_events :: u64
  pv_mtk_events :: u64
  pv_rekey_events :: u64
  pv_data_events :: u64
  ea_initialized :: bool
  ea_counters :: "nat list"
  ea_uav_compromise :: "u32 list"
  ea_uav_handover :: "u32 list"
  ea_uav_join :: "u32 list"
  ea_skdc_rekey :: "u32 list"
  ea_skdc_tek :: "u32 list"
  ea_total :: u64
  ne_cluster :: "u32 list"
  ne_sinr :: "real list"
  ne_rekey_count :: "u32 list"
  ne_label_interval :: real
  ne_jammer :: bool
  ne_jammer_interval :: real

definition Vis_new :: Vis where
  "Vis_new =
     \<lparr> vz_enabled = True, vz_anim = None, vz_timers = [],
       nc_states = replicate 18 COL_NORMAL, nc_history = [], nc_jammer = False, nc_interval = 1,
       pv_history = [], pv_total_events = 0, pv_mtk_events = 0, pv_rekey_events = 0, pv_data_events = 0,
       ea_initialized = False, ea_counters = replicate 8 0, ea_uav_compromise = replicate 18 0,
       ea_uav_handover = replicate 18 0, ea_uav_join = replicate 18 0, ea_skdc_rekey = replicate 3 0, ea_skdc_tek = replicate 3 0,
       ea_total = 0, ne_cluster = map (\<lambda>i. of_nat (i div 6)) [0..<18], ne_sinr = replicate 18 0,
       ne_rekey_count = replicate 18 0, ne_label_interval = 1, ne_jammer = False, ne_jammer_interval = 2 \<rparr>"

text \<open>Operations that may access a container out of range, one after the other.\<close>

type_synonym vis_op = "Vis \<Rightarrow> Vis option"

fun vseq :: "vis_op list \<Rightarrow> vis_op" where
  "vseq [] v = Some v"
| "vseq (f # fs) v = Option.bind (f v) (vseq fs)"

definition anim_call :: "AnimCall \<Rightarrow> Vis \<Rightarrow> Vis" where
  "anim_call c v = v \<lparr> vz_anim := map_option (\<lambda>cs. cs @ [c]) (vz_anim v) \<rparr>"

definition anim_calls :: "AnimCall list \<Rightarrow> Vis \<Rightarrow> Vis" where
  "anim_calls cs v = fold anim_call cs v"

definition vis_schedule :: "VisEnv \<Rightarrow> real \<Rightarrow> VisTimer \<Rightarrow> Vis \<Rightarrow> Vis" where
  "vis_schedule env delay t v = v \<lparr> vz_timers := vz_timers v @ [(ve_now env + delay, t)] \<rparr>"

definition str :: "u32 \<Rightarrow> string" where "str n = dec_string (unat n)"

section \<open>NetAnimManager\<close>

definition CLUSTER_INIT_COLORS :: "(u8 \<times> u8 \<times> u8) list" where
  "CLUSTER_INIT_COLORS = [(0, 200, 80), (255, 165, 0), (0, 200, 200)]"

text \<open>The color of the UAV \<open>i\<close>: its cluster by the numbers of UAVs and SKDCs, at most 2.\<close>

definition init_color :: "TopologyResult \<Rightarrow> nat \<Rightarrow> u8 \<times> u8 \<times> u8" where
  "init_color topo i =
     (let upc = length (tr_uav_nodes topo) div max 1 (length (tr_skdc_nodes topo));
          c = (if upc > 0 then i div upc else 0)
      in CLUSTER_INIT_COLORS ! (if c \<ge> 3 then 2 else c))"

definition color_call :: "u32 \<Rightarrow> u8 \<times> u8 \<times> u8 \<Rightarrow> AnimCall" where
  "color_call node rgb = (case rgb of (r, g, b) \<Rightarrow> UpdateNodeColor node r g b)"

definition late_color :: "u32 \<Rightarrow> u8 \<times> u8 \<times> u8 \<Rightarrow> VisTimer" where
  "late_color node rgb = (case rgb of (r, g, b) \<Rightarrow> LateColor node r g b)"

definition first_node :: "u32 list \<Rightarrow> (u32 \<Rightarrow> Vis \<Rightarrow> Vis) \<Rightarrow> vis_op" where
  "first_node c f v = map_option (\<lambda>n. f n v) (container_get c 0)"

definition ApplyInitialColors :: "VisEnv \<Rightarrow> vis_op" where
  "ApplyInitialColors env =
     (let topo = ve_topo env; uavs = tr_uav_nodes topo in
      vseq
        [first_node (tr_kdc_node topo) (\<lambda>n. anim_call (UpdateNodeColor n 255 0 0)),
         Some \<circ> anim_calls (map (\<lambda>n. UpdateNodeColor n 255 165 0) (tr_skdc_nodes topo)),
         Some \<circ> anim_calls (map (\<lambda>i. color_call (uavs ! i) (init_color topo i)) [0..<length uavs]),
         Some \<circ> (case tr_jammer_node topo of [] \<Rightarrow> id | j # _ \<Rightarrow> anim_call (UpdateNodeColor j 128 0 128)),
         Some \<circ> fold (\<lambda>i. vis_schedule env 0.5 (late_color (uavs ! i) (init_color topo i))) [0..<length uavs]])"

definition uav_descr :: "nat \<Rightarrow> string" where
  "uav_descr i = ''UAV'' @ dec_string i @ ''_C'' @ dec_string (i div 6)"

definition Anim_ApplyInitialDescriptions :: "VisEnv \<Rightarrow> vis_op" where
  "Anim_ApplyInitialDescriptions env =
     (let topo = ve_topo env; skdcs = tr_skdc_nodes topo; uavs = tr_uav_nodes topo in
      vseq
        [first_node (tr_kdc_node topo) (\<lambda>n. anim_call (UpdateNodeDescription n ''KDC'')),
         Some \<circ> anim_calls (map (\<lambda>i. UpdateNodeDescription (skdcs ! i) (''SKDC'' @ dec_string i)) [0..<length skdcs]),
         Some \<circ> anim_calls (map (\<lambda>i. UpdateNodeDescription (uavs ! i) (uav_descr i)) [0..<length uavs]),
         Some \<circ> (case tr_jammer_node topo of [] \<Rightarrow> id | j # _ \<Rightarrow> anim_call (UpdateNodeDescription j ''JAMMER''))])"

definition ApplyInitialSizes :: "VisEnv \<Rightarrow> vis_op" where
  "ApplyInitialSizes env =
     (let topo = ve_topo env in
      vseq
        [first_node (tr_kdc_node topo) (\<lambda>n. anim_call (UpdateNodeSize n 3 3)),
         Some \<circ> anim_calls (map (\<lambda>n. UpdateNodeSize n 2 2) (tr_skdc_nodes topo)),
         Some \<circ> anim_calls (map (\<lambda>n. UpdateNodeSize n 1 1) (tr_uav_nodes topo)),
         Some \<circ> (case tr_jammer_node topo of [] \<Rightarrow> id | j # _ \<Rightarrow> anim_call (UpdateNodeSize j 2 2))])"

definition Anim_Initialize :: "VisEnv \<Rightarrow> vis_op" where
  "Anim_Initialize env v =
     (if \<not> vz_enabled v then Some v
      else vseq [ApplyInitialColors env, Anim_ApplyInitialDescriptions env, ApplyInitialSizes env] (v \<lparr> vz_anim := Some [] \<rparr>))"

text \<open>The updates at run time, on a UAV of the topology.\<close>

definition mark :: "VisEnv \<Rightarrow> u32 \<Rightarrow> (u32 \<Rightarrow> AnimCall list) \<Rightarrow> Vis \<Rightarrow> Vis" where
  "mark env uav_id calls v =
     (case container_get (tr_uav_nodes (ve_topo env)) uav_id of None \<Rightarrow> v | Some n \<Rightarrow> anim_calls (calls n) v)"

definition MarkCompromised :: "VisEnv \<Rightarrow> u32 \<Rightarrow> Vis \<Rightarrow> Vis" where
  "MarkCompromised env uav_id =
     mark env uav_id (\<lambda>n. [UpdateNodeColor n 0 0 0, UpdateNodeDescription n (''UAV'' @ str uav_id @ ''_COMPROMISED'')])"

definition MarkNormal :: "VisEnv \<Rightarrow> u32 \<Rightarrow> Vis \<Rightarrow> Vis" where
  "MarkNormal env uav_id =
     mark env uav_id (\<lambda>n. [UpdateNodeColor n 0 255 0, UpdateNodeDescription n (''UAV'' @ str uav_id @ ''_C'' @ str (uav_id div 6))])"

definition MarkHandover :: "VisEnv \<Rightarrow> u32 \<Rightarrow> Vis \<Rightarrow> Vis" where
  "MarkHandover env uav_id =
     mark env uav_id (\<lambda>n. [UpdateNodeColor n 255 255 0, UpdateNodeDescription n (''UAV'' @ str uav_id @ ''_HANDOVER'')])"

definition UpdateUavDescription :: "VisEnv \<Rightarrow> u32 \<Rightarrow> string \<Rightarrow> Vis \<Rightarrow> Vis" where
  "UpdateUavDescription env uav_id descr = mark env uav_id (\<lambda>n. [UpdateNodeDescription n descr])"

definition UpdateSkdcDescription :: "VisEnv \<Rightarrow> u32 \<Rightarrow> string \<Rightarrow> Vis \<Rightarrow> Vis" where
  "UpdateSkdcDescription env skdc_id descr v =
     (case container_get (tr_skdc_nodes (ve_topo env)) skdc_id of
        None \<Rightarrow> v | Some n \<Rightarrow> anim_call (UpdateNodeDescription n descr) v)"

section \<open>NodeColorManager\<close>

definition Color_Initialize :: "Vis \<Rightarrow> Vis" where
  "Color_Initialize v = (if \<not> vz_enabled v then v else v \<lparr> nc_states := replicate 18 COL_NORMAL \<rparr>)"

text \<open>The drawing of a state; the two last ones use the node without a check (\<open>None\<close>).\<close>

definition draw_color :: "VisEnv \<Rightarrow> u32 \<Rightarrow> UavColorState \<Rightarrow> vis_op" where
  "draw_color env uav_id new_state v =
     (let direct = (\<lambda>r g b suffix.
            if vz_anim v = None then Some v
            else map_option (\<lambda>n. anim_calls [UpdateNodeColor n r g b,
                   UpdateNodeDescription n (''UAV'' @ str uav_id @ suffix)] v)
                 (container_get (tr_uav_nodes (ve_topo env)) uav_id))
      in case new_state of
           COL_NORMAL \<Rightarrow> Some (MarkNormal env uav_id v)
         | COL_COMPROMISED \<Rightarrow> Some (MarkCompromised env uav_id v)
         | COL_HANDOVER \<Rightarrow> Some (MarkHandover env uav_id v)
         | COL_JAMMED \<Rightarrow> direct 255 0 0 ''_JAMMED''
         | COL_DISCONNECTED \<Rightarrow> direct 128 128 128 ''_DISC'')"

definition ApplyColor :: "VisEnv \<Rightarrow> u32 \<Rightarrow> UavColorState \<Rightarrow> vis_op" where
  "ApplyColor env uav_id new_state v =
     (if uav_id \<ge> 18 then Some v
      else
        let old_state = nc_states v ! unat uav_id in
        if old_state = new_state then Some v
        else draw_color env uav_id new_state
               (v \<lparr> nc_history := nc_history v @ [\<lparr> cr_time_s = ve_now env, cr_uav_id = uav_id, cr_old_state = old_state,
                                                    cr_new_state = new_state \<rparr>],
                    nc_states := (nc_states v)[unat uav_id := new_state] \<rparr>))"

definition SetUavCompromised :: "VisEnv \<Rightarrow> u32 \<Rightarrow> vis_op" where
  "SetUavCompromised env uav_id = ApplyColor env uav_id COL_COMPROMISED"

definition SetUavHandover :: "VisEnv \<Rightarrow> u32 \<Rightarrow> vis_op" where
  "SetUavHandover env uav_id = ApplyColor env uav_id COL_HANDOVER"

definition SetUavNormal :: "VisEnv \<Rightarrow> u32 \<Rightarrow> vis_op" where
  "SetUavNormal env uav_id = ApplyColor env uav_id COL_NORMAL"

definition SetUavJammed :: "VisEnv \<Rightarrow> u32 \<Rightarrow> vis_op" where
  "SetUavJammed env uav_id = ApplyColor env uav_id COL_JAMMED"

definition SetUavDisconnected :: "VisEnv \<Rightarrow> u32 \<Rightarrow> vis_op" where
  "SetUavDisconnected env uav_id = ApplyColor env uav_id COL_DISCONNECTED"

text \<open>The callback \<open>HookCompromiseDetector\<close> registers.\<close>

definition color_on_compromise :: "VisEnv \<Rightarrow> u32 \<Rightarrow> vis_op" where
  "color_on_compromise env uav_id = SetUavCompromised env uav_id"

definition Color_HookJammerManager :: "VisEnv \<Rightarrow> real \<Rightarrow> Vis \<Rightarrow> Vis" where
  "Color_HookJammerManager env interval_s v =
     vis_schedule env interval_s JammerColorUpdateCallback (v \<lparr> nc_jammer := True, nc_interval := interval_s \<rparr>)"

definition color_update :: "VisEnv \<Rightarrow> nat \<Rightarrow> vis_op" where
  "color_update env i v =
     (let jammed = ve_jammed env (of_nat i); s = nc_states v ! i in
      if jammed \<and> s = COL_NORMAL then ApplyColor env (of_nat i) COL_JAMMED v
      else if \<not> jammed \<and> s = COL_JAMMED then ApplyColor env (of_nat i) COL_NORMAL v
      else Some v)"

definition JammerColorUpdate :: "VisEnv \<Rightarrow> vis_op" where
  "JammerColorUpdate env v =
     (if \<not> nc_jammer v then Some v
      else map_option (\<lambda>v. vis_schedule env (nc_interval v) JammerColorUpdateCallback v)
             (vseq (map (color_update env) [0..<18]) v))"

definition GetUavState :: "Vis \<Rightarrow> u32 \<Rightarrow> UavColorState" where
  "GetUavState v uav_id = (if uav_id \<ge> 18 then COL_NORMAL else nc_states v ! unat uav_id)"

definition GetCompromisedCount :: "Vis \<Rightarrow> u32" where
  "GetCompromisedCount v = of_nat (length (filter (\<lambda>s. s = COL_COMPROMISED) (nc_states v)))"

definition GetJammedCount :: "Vis \<Rightarrow> u32" where
  "GetJammedCount v = of_nat (length (filter (\<lambda>s. s = COL_JAMMED) (nc_states v)))"

section \<open>PacketVizManager\<close>

definition UpdateLink :: "u32 \<Rightarrow> u32 \<Rightarrow> string \<Rightarrow> Vis \<Rightarrow> Vis" where
  "UpdateLink a b label v = anim_call (UpdateLinkDescription a b label) v"

definition Viz_Initialize :: "VisEnv \<Rightarrow> vis_op" where
  "Viz_Initialize env v =
     (if \<not> vz_enabled v \<or> vz_anim v = None then Some v
      else map_option (\<lambda>kdc.
             fold (\<lambda>i. UpdateLink kdc (tr_skdc_nodes (ve_topo env) ! i) (''KDC-SKDC'' @ dec_string i))
               [0..<length (tr_skdc_nodes (ve_topo env))] v)
           (container_get (tr_kdc_node (ve_topo env)) 0))"

definition Viz_RecordEvent :: "VisEnv \<Rightarrow> PacketType \<Rightarrow> u32 \<Rightarrow> u32 \<Rightarrow> string \<Rightarrow> Vis \<Rightarrow> Vis" where
  "Viz_RecordEvent env pkt_type src dst label v =
     v \<lparr> pv_history := pv_history v @ [\<lparr> pv_time_s = ve_now env, pv_pkt_type = pkt_type, pv_src_id = src, pv_dst_id = dst,
                                        pv_label = label \<rparr>],
         pv_total_events := pv_total_events v + 1 \<rparr>"

text \<open>The loop that labels the links of an SKDC to the six UAVs of a cluster that exist.\<close>

definition label_links :: "VisEnv \<Rightarrow> u32 \<Rightarrow> u32 \<Rightarrow> string \<Rightarrow> Vis \<Rightarrow> Vis" where
  "label_links env skdc cluster_id label =
     fold (\<lambda>i v. case container_get (tr_uav_nodes (ve_topo env)) (cluster_id * 6 + of_nat i) of
                   None \<Rightarrow> v | Some uav \<Rightarrow> UpdateLink skdc uav label v) [0..<6]"

definition Viz_OnMtkBroadcast :: "VisEnv \<Rightarrow> u32 \<Rightarrow> u32 \<Rightarrow> u32 \<Rightarrow> Vis \<Rightarrow> Vis" where
  "Viz_OnMtkBroadcast env skdc_id cluster_id version v =
     (case container_get (tr_skdc_nodes (ve_topo env)) skdc_id of
        None \<Rightarrow> v
      | Some skdc \<Rightarrow>
          let label = ''MTK_v'' @ str version;
              v = Viz_RecordEvent env MTK_PACKET skdc_id cluster_id label (label_links env skdc cluster_id label v)
          in v \<lparr> pv_mtk_events := pv_mtk_events v + 1 \<rparr>)"

definition OnRekeyBroadcast :: "VisEnv \<Rightarrow> u32 \<Rightarrow> u32 \<Rightarrow> Vis \<Rightarrow> Vis" where
  "OnRekeyBroadcast env skdc_id cluster_id v =
     (case container_get (tr_skdc_nodes (ve_topo env)) skdc_id of
        None \<Rightarrow> v
      | Some skdc \<Rightarrow>
          let v = Viz_RecordEvent env REKEY_PACKET skdc_id cluster_id ''REKEY'' (label_links env skdc cluster_id ''REKEY'' v)
          in v \<lparr> pv_rekey_events := pv_rekey_events v + 1 \<rparr>)"

definition OnJoinRequest :: "VisEnv \<Rightarrow> u32 \<Rightarrow> u32 \<Rightarrow> Vis \<Rightarrow> Vis" where
  "OnJoinRequest env uav_id skdc_id v =
     (case (container_get (tr_uav_nodes (ve_topo env)) uav_id, container_get (tr_skdc_nodes (ve_topo env)) skdc_id) of
        (Some uav, Some skdc) \<Rightarrow>
          let label = ''JOIN_UAV'' @ str uav_id
          in Viz_RecordEvent env JOIN_PACKET uav_id skdc_id label (UpdateLink uav skdc label v)
      | _ \<Rightarrow> v)"

definition OnDataPacket :: "VisEnv \<Rightarrow> u32 \<Rightarrow> u32 \<Rightarrow> Vis \<Rightarrow> Vis" where
  "OnDataPacket env uav_id skdc_id v =
     (case (container_get (tr_uav_nodes (ve_topo env)) uav_id, container_get (tr_skdc_nodes (ve_topo env)) skdc_id) of
        (Some uav, Some skdc) \<Rightarrow>
          let label = ''DATA_UAV'' @ str uav_id;
              v = Viz_RecordEvent env DATA_PACKET uav_id skdc_id label (UpdateLink uav skdc label v)
          in v \<lparr> pv_data_events := pv_data_events v + 1 \<rparr>
      | _ \<Rightarrow> v)"

definition Viz_OnHandover :: "VisEnv \<Rightarrow> u32 \<Rightarrow> u32 \<Rightarrow> u32 \<Rightarrow> Vis \<Rightarrow> Vis" where
  "Viz_OnHandover env uav_id old_skdc_id new_skdc_id v =
     (let label = ''HO_UAV'' @ str uav_id;
          uav = container_get (tr_uav_nodes (ve_topo env)) uav_id;
          link = (\<lambda>skdc_id suffix v.
            case (uav, container_get (tr_skdc_nodes (ve_topo env)) skdc_id) of
              (Some u, Some s) \<Rightarrow> UpdateLink u s (label @ suffix) v | _ \<Rightarrow> v)
      in Viz_RecordEvent env HANDOVER_PACKET uav_id new_skdc_id label
           (link new_skdc_id ''_JOIN'' (link old_skdc_id ''_LEAVE'' v)))"

definition ClearAllLinks :: "VisEnv \<Rightarrow> Vis \<Rightarrow> Vis" where
  "ClearAllLinks env v =
     (if vz_anim v = None then v
      else fold (\<lambda>c v. case container_get (tr_skdc_nodes (ve_topo env)) (of_nat c) of
                         None \<Rightarrow> v | Some skdc \<Rightarrow> label_links env skdc (of_nat c) '''' v) [0..<3] v)"

section \<open>EventAnnotationManager\<close>

datatype SecurityEventType =
    SE_JOIN | SE_LEAVE | SE_REKEY | SE_HANDOVER_START | SE_HANDOVER_COMPLETE | SE_COMPROMISE
  | SE_JAMMER_DETECTED | SE_AUTH_FAILURE | SE_REPLAY_DETECTED | SE_HMAC_FAILURE | SE_TEK_ROTATION

definition counter_names :: "string list" where
  "counter_names = [''Compromised'', ''Rekeys'', ''Joins'', ''Leaves'', ''Handovers'', ''JammerHits'', ''HmacFail'', ''TekRotations'']"

text \<open>\<open>AddNodeCounter\<close> returns the number of counters there were.\<close>

definition counters_so_far :: "Vis \<Rightarrow> nat" where
  "counters_so_far v =
     (case vz_anim v of None \<Rightarrow> 0 | Some cs \<Rightarrow> length (filter (\<lambda>c. case c of AddNodeCounter _ \<Rightarrow> True | _ \<Rightarrow> False) cs))"

definition Ann_Initialize :: "Vis \<Rightarrow> Vis" where
  "Ann_Initialize v =
     (if \<not> vz_enabled v \<or> vz_anim v = None then v
      else (anim_calls (map AddNodeCounter counter_names) v)
             \<lparr> ea_counters := map (\<lambda>i. counters_so_far v + i) [0..<8], ea_initialized := True \<rparr>)"

definition UpdateCounter :: "nat \<Rightarrow> u32 \<Rightarrow> real \<Rightarrow> Vis \<Rightarrow> Vis" where
  "UpdateCounter counter node_id val v =
     (if \<not> ea_initialized v \<or> vz_anim v = None then v
      else (anim_call (UpdateNodeCounter (ea_counters v ! counter) node_id val) v) \<lparr> ea_total := ea_total v + 1 \<rparr>)"

text \<open>A count of the UAV or SKDC \<open>i\<close> is raised and shown at its node.\<close>

definition Ann_OnCompromise :: "VisEnv \<Rightarrow> u32 \<Rightarrow> vis_op" where
  "Ann_OnCompromise env uav_id v =
     (if uav_id \<ge> 18 then Some v
      else let n = ea_uav_compromise v ! unat uav_id + 1;
               v = v \<lparr> ea_uav_compromise := (ea_uav_compromise v)[unat uav_id := n] \<rparr>
           in map_option (\<lambda>nid. UpdateCounter 0 nid (real (unat n)) v) (container_get (tr_uav_nodes (ve_topo env)) uav_id))"

definition Ann_OnRekey :: "VisEnv \<Rightarrow> u32 \<Rightarrow> vis_op" where
  "Ann_OnRekey env skdc_id v =
     (if skdc_id \<ge> 3 then Some v
      else let n = ea_skdc_rekey v ! unat skdc_id + 1;
               v = v \<lparr> ea_skdc_rekey := (ea_skdc_rekey v)[unat skdc_id := n] \<rparr>
           in map_option (\<lambda>nid. UpdateCounter 1 nid (real (unat n)) v) (container_get (tr_skdc_nodes (ve_topo env)) skdc_id))"

definition Ann_OnJoin :: "VisEnv \<Rightarrow> u32 \<Rightarrow> vis_op" where
  "Ann_OnJoin env uav_id v =
     (if uav_id \<ge> 18 then Some v
      else let n = ea_uav_join v ! unat uav_id + 1;
               v = v \<lparr> ea_uav_join := (ea_uav_join v)[unat uav_id := n] \<rparr>
           in map_option (\<lambda>nid. UpdateCounter 2 nid (real (unat n)) v) (container_get (tr_uav_nodes (ve_topo env)) uav_id))"

definition Ann_OnLeave :: "VisEnv \<Rightarrow> u32 \<Rightarrow> vis_op" where
  "Ann_OnLeave env uav_id v =
     (if uav_id \<ge> 18 then Some v
      else map_option (\<lambda>nid. UpdateCounter 3 nid 1 v) (container_get (tr_uav_nodes (ve_topo env)) uav_id))"

definition Ann_OnHandover :: "VisEnv \<Rightarrow> u32 \<Rightarrow> vis_op" where
  "Ann_OnHandover env uav_id v =
     (if uav_id \<ge> 18 then Some v
      else let n = ea_uav_handover v ! unat uav_id + 1;
               v = v \<lparr> ea_uav_handover := (ea_uav_handover v)[unat uav_id := n] \<rparr>
           in map_option (\<lambda>nid. UpdateCounter 4 nid (real (unat n)) v) (container_get (tr_uav_nodes (ve_topo env)) uav_id))"

definition OnJammerDetect :: "VisEnv \<Rightarrow> u32 \<Rightarrow> Vis \<Rightarrow> Vis" where
  "OnJammerDetect env affected_uavs v =
     (case tr_jammer_node (ve_topo env) of [] \<Rightarrow> v | nid # _ \<Rightarrow> UpdateCounter 5 nid (real (unat affected_uavs)) v)"

definition OnHmacFailure :: "VisEnv \<Rightarrow> u32 \<Rightarrow> vis_op" where
  "OnHmacFailure env uav_id v =
     (if uav_id \<ge> 18 then Some v
      else map_option (\<lambda>nid. UpdateCounter 6 nid 1 v) (container_get (tr_uav_nodes (ve_topo env)) uav_id))"

definition OnTekRotation :: "VisEnv \<Rightarrow> u32 \<Rightarrow> vis_op" where
  "OnTekRotation env skdc_id v =
     (if skdc_id \<ge> 3 then Some v
      else let n = ea_skdc_tek v ! unat skdc_id + 1;
               v = v \<lparr> ea_skdc_tek := (ea_skdc_tek v)[unat skdc_id := n] \<rparr>
           in map_option (\<lambda>nid. UpdateCounter 7 nid (real (unat n)) v) (container_get (tr_skdc_nodes (ve_topo env)) skdc_id))"

definition OnSecurityEvent :: "VisEnv \<Rightarrow> SecurityEventType \<Rightarrow> u32 \<Rightarrow> bool \<Rightarrow> vis_op" where
  "OnSecurityEvent env event_type node_id is_uav v =
     (case event_type of
        SE_JOIN \<Rightarrow> if is_uav then Ann_OnJoin env node_id v else Some v
      | SE_LEAVE \<Rightarrow> if is_uav then Ann_OnLeave env node_id v else Some v
      | SE_REKEY \<Rightarrow> if \<not> is_uav then Ann_OnRekey env node_id v else Some v
      | SE_HANDOVER_START \<Rightarrow> if is_uav then Ann_OnHandover env node_id v else Some v
      | SE_HANDOVER_COMPLETE \<Rightarrow> if is_uav then Ann_OnHandover env node_id v else Some v
      | SE_COMPROMISE \<Rightarrow> if is_uav then Ann_OnCompromise env node_id v else Some v
      | SE_HMAC_FAILURE \<Rightarrow> if is_uav then Ann_OnCompromise env node_id v else Some v
      | SE_AUTH_FAILURE \<Rightarrow> if is_uav then Ann_OnCompromise env node_id v else Some v
      | SE_TEK_ROTATION \<Rightarrow> if \<not> is_uav then OnTekRotation env node_id v else Some v
      | SE_JAMMER_DETECTED \<Rightarrow> Some (OnJammerDetect env node_id v)
      | SE_REPLAY_DETECTED \<Rightarrow> Some v)"

end
