(* ===== verification/Anim_Enhancer.thy ===== *)
theory Anim_Enhancer
  imports Animation
begin

text \<open>
  visualization/uav-netanim-enhancer.cc, the labels and colors of a run and the handlers of its events, with
  the timers of all visualization managers and the drawing part of the four scheduled events of
  main.cc.  The theorems show that the scan of the enhancer undoes what the color manager keeps, and that
  a leave is counted as two rekeys.
\<close>

section \<open>Labels and colors\<close>

definition nl :: string where "nl = [CHR 0x0A]"

definition CLUSTER_NODE_COLORS :: "(u8 \<times> u8 \<times> u8) list" where
  "CLUSTER_NODE_COLORS = [(0, 200, 80), (255, 140, 0), (0, 200, 200)]"

text \<open>\<open>std::to_string((int) x)\<close>.\<close>

definition int_string :: "real \<Rightarrow> string" where
  "int_string x = (if 0 \<le> x then dec_string (nat \<lfloor>x\<rfloor>)
     else if \<lfloor>- x\<rfloor> = 0 then ''0'' else CHR ''-'' # dec_string (nat \<lfloor>- x\<rfloor>))"

definition MakeUavLabel :: "VisEnv \<Rightarrow> Vis \<Rightarrow> u32 \<Rightarrow> string" where
  "MakeUavLabel env v uav_id =
     ''UAV-'' @ str uav_id @
     (if uav_id < 18 then
        nl @ ''C'' @ str (ne_cluster v ! unat uav_id) @
        (if ne_sinr v ! unat uav_id \<noteq> 0 then nl @ ''SINR:'' @ ve_fixed1 env (ne_sinr v ! unat uav_id) @ ''dB'' else []) @
        (if ne_rekey_count v ! unat uav_id > 0 then nl @ ''RK:'' @ str (ne_rekey_count v ! unat uav_id) else [])
      else [])"

definition MakeSkdcLabel :: "u32 \<Rightarrow> u32 \<Rightarrow> u32 \<Rightarrow> string" where
  "MakeSkdcLabel skdc_id members version =
     ''SKDC-C'' @ str skdc_id @ nl @ ''Members:'' @ str members @ nl @ ''TEK_v:'' @ str version"

text \<open>The calls for one UAV of the topology.\<close>

definition uav_call :: "VisEnv \<Rightarrow> u32 \<Rightarrow> (u32 \<Rightarrow> AnimCall list) \<Rightarrow> Vis \<Rightarrow> Vis" where
  "uav_call env uav_id calls v =
     (case container_get (tr_uav_nodes (ve_topo env)) uav_id of None \<Rightarrow> v | Some n \<Rightarrow> anim_calls (calls n) v)"

definition skdc_call :: "VisEnv \<Rightarrow> u32 \<Rightarrow> (u32 \<Rightarrow> AnimCall list) \<Rightarrow> Vis \<Rightarrow> Vis" where
  "skdc_call env skdc_id calls v =
     (case container_get (tr_skdc_nodes (ve_topo env)) skdc_id of None \<Rightarrow> v | Some n \<Rightarrow> anim_calls (calls n) v)"

definition cluster_color :: "u32 \<Rightarrow> u32 \<Rightarrow> AnimCall list" where
  "cluster_color c n = (if c \<ge> 3 then [] else [color_call n (CLUSTER_NODE_COLORS ! unat c)])"

text \<open>\<open>m_uav_cluster[i]\<close> for every UAV of the topology: an array of 18.\<close>

definition ApplyClusterColors :: "VisEnv \<Rightarrow> vis_op" where
  "ApplyClusterColors env v =
     (let uavs = tr_uav_nodes (ve_topo env) in
      if vz_anim v = None then Some v
      else if length uavs > 18 then None
      else Some (anim_calls (concat (map (\<lambda>i. cluster_color (ne_cluster v ! i) (uavs ! i)) [0..<length uavs])) v))"

definition Enh_ApplyInitialDescriptions :: "VisEnv \<Rightarrow> vis_op" where
  "Enh_ApplyInitialDescriptions env v =
     (let topo = ve_topo env; skdcs = tr_skdc_nodes topo; uavs = tr_uav_nodes topo in
      if vz_anim v = None then Some v
      else vseq
        [first_node (tr_kdc_node topo) (\<lambda>n. anim_calls
           [UpdateNodeDescription n (''KDC'' @ nl @ ''Hierarchical Root''), UpdateNodeSize n 4 4]),
         Some \<circ> anim_calls (concat (map (\<lambda>i.
           [UpdateNodeDescription (skdcs ! i) (''SKDC-C'' @ dec_string i @ nl @ ''Members:6'' @ nl @ ''TEK_v:1''),
            UpdateNodeSize (skdcs ! i) 3 3]) [0..<length skdcs])),
         Some \<circ> anim_calls (concat (map (\<lambda>i.
           [UpdateNodeDescription (uavs ! i) (MakeUavLabel env v (of_nat i)), UpdateNodeSize (uavs ! i) 1.5 1.5])
             [0..<length uavs])),
         Some \<circ> (case tr_jammer_node topo of
           [] \<Rightarrow> id
         | j # _ \<Rightarrow> anim_calls [UpdateNodeColor j 128 0 128, UpdateNodeDescription j (''JAMMER'' @ nl @ ''30dBm''),
                              UpdateNodeSize j 2.5 2.5])] v)"

text \<open>\<open>SetConstantPosition\<close> is a static function; \<open>skdc_x\<close> has three entries.\<close>

definition SetGroundNodePositions :: "VisEnv \<Rightarrow> vis_op" where
  "SetGroundNodePositions env v =
     (let skdcs = tr_skdc_nodes (ve_topo env) in
      Option.bind (first_node (tr_kdc_node (ve_topo env)) (\<lambda>n. anim_call (SetConstantPosition n 750 50 0)) v) (\<lambda>v.
      if length skdcs > 3 then None
      else Some (anim_calls (map (\<lambda>i. SetConstantPosition (skdcs ! i) ([250, 750, 1250] ! i) 150 0) [0..<length skdcs]) v)))"

definition Enh_Initialize :: "VisEnv \<Rightarrow> vis_op" where
  "Enh_Initialize env v =
     (let skdcs = tr_skdc_nodes (ve_topo env) in
      if vz_anim v = None then Some v
      else vseq
        [ApplyClusterColors env, Enh_ApplyInitialDescriptions env, SetGroundNodePositions env,
         first_node (tr_kdc_node (ve_topo env)) (\<lambda>kdc. anim_calls
           (map (\<lambda>i. UpdateLinkDescription kdc (skdcs ! i) (''CSMA|KDC-SKDC'' @ dec_string i)) [0..<length skdcs]))] v)"

section \<open>Timers\<close>

definition SchedulePeriodicLabelUpdate :: "VisEnv \<Rightarrow> real \<Rightarrow> Vis \<Rightarrow> Vis" where
  "SchedulePeriodicLabelUpdate env interval_s v =
     vis_schedule env interval_s LabelUpdateCallback (v \<lparr> ne_label_interval := interval_s \<rparr>)"

definition LabelUpdate :: "VisEnv \<Rightarrow> Vis \<Rightarrow> Vis" where
  "LabelUpdate env v =
     vis_schedule env (ne_label_interval v) LabelUpdateCallback
       (anim_calls (map (\<lambda>i. UpdateNodeDescription (tr_uav_nodes (ve_topo env) ! i) (MakeUavLabel env v (of_nat i)))
          [0..<length (tr_uav_nodes (ve_topo env))]) v)"

definition Enh_HookJammerManager :: "VisEnv \<Rightarrow> real \<Rightarrow> Vis \<Rightarrow> Vis" where
  "Enh_HookJammerManager env interval_s v =
     vis_schedule env interval_s JammerScanCallback (v \<lparr> ne_jammer := True, ne_jammer_interval := interval_s \<rparr>)"

text \<open>One round of the scan, for the UAV \<open>i\<close>.\<close>

definition scan_uav :: "VisEnv \<Rightarrow> nat \<Rightarrow> vis_op" where
  "scan_uav env i v =
     (let u = of_nat i; sinr = ve_sinr env u; v = v \<lparr> ne_sinr := (ne_sinr v)[i := sinr] \<rparr> in
      if ve_jammed env u
      then SetUavJammed env u (uav_call env u (\<lambda>n. [UpdateNodeColor n 255 0 0,
             UpdateNodeDescription n (''UAV-'' @ dec_string i @ nl @ ''JAMMED'' @ nl @ ''SINR:'' @ int_string sinr @ ''dB'')]) v)
      else SetUavNormal env u (uav_call env u (\<lambda>n. cluster_color (ne_cluster v ! i) n @
             [UpdateNodeDescription n (MakeUavLabel env v u)]) v))"

definition jammer_label :: "VisEnv \<Rightarrow> u32 \<Rightarrow> string \<Rightarrow> real \<Rightarrow> Vis \<Rightarrow> Vis" where
  "jammer_label env affected name sinr v =
     (case tr_jammer_node (ve_topo env) of
        [] \<Rightarrow> v
      | j # _ \<Rightarrow> anim_call (UpdateNodeDescription j (''JAMMER'' @ nl @ ''Affects:'' @ str affected @ nl @ name @
                              int_string sinr @ ''dB'')) v)"

definition JammerScan :: "VisEnv \<Rightarrow> vis_op" where
  "JammerScan env v =
     (if \<not> ne_jammer v then Some v
      else
        let jammed = filter (\<lambda>i. ve_jammed env (of_nat i)) [0..<18];
            min_sinr = fold (\<lambda>i m. if ve_sinr env (of_nat i) < m then ve_sinr env (of_nat i) else m) jammed 999
        in map_option (\<lambda>v. vis_schedule env (ne_jammer_interval v) JammerScanCallback
             (if jammed \<noteq> [] then jammer_label env (of_nat (length jammed)) ''MinSINR:'' min_sinr v else v))
             (vseq (map (scan_uav env) [0..<18]) v))"

section \<open>Events\<close>

definition OnRekeyEvent :: "VisEnv \<Rightarrow> u32 \<Rightarrow> u32 \<Rightarrow> RekeyMgrReason \<Rightarrow> vis_op" where
  "OnRekeyEvent env cluster_id tek_version reason v =
     (if vz_anim v = None then Some v
      else
        let v = skdc_call env cluster_id (\<lambda>n. [UpdateNodeDescription n (''SKDC-C'' @ str cluster_id @ nl @ ''REKEY!'' @ nl @
                  ''Reason:'' @ RekeyReasonStr reason), UpdateNodeColor n 255 0 0]) v;
            v = OnRekeyBroadcast env cluster_id cluster_id v;
            v = fold (\<lambda>i v. let uid = cluster_id * 6 + of_nat i in
                  if uid < 18
                  then let v = v \<lparr> ne_rekey_count := (ne_rekey_count v)[unat uid := ne_rekey_count v ! unat uid + 1] \<rparr>
                       in uav_call env uid (\<lambda>n. [UpdateNodeDescription n (MakeUavLabel env v uid)]) v
                  else v) [0..<6] v
        in map_option (vis_schedule env 1 (RestoreSkdc cluster_id)) (Ann_OnRekey env cluster_id v))"

definition OnHandoverEvent :: "VisEnv \<Rightarrow> u32 \<Rightarrow> u32 \<Rightarrow> u32 \<Rightarrow> vis_op" where
  "OnHandoverEvent env uav_id old_cluster new_cluster v =
     (let v = (if uav_id < 18 then v \<lparr> ne_cluster := (ne_cluster v)[unat uav_id := new_cluster] \<rparr> else v) in
      vseq
        [SetUavHandover env uav_id,
         Some \<circ> uav_call env uav_id (\<lambda>n. [UpdateNodeDescription n (''UAV-'' @ str uav_id @ nl @ ''HANDOVER'' @ nl @ ''C'' @
           str old_cluster @ arrow @ ''C'' @ str new_cluster)]),
         Some \<circ> Viz_OnHandover env uav_id old_cluster new_cluster,
         Ann_OnHandover env uav_id,
         Some \<circ> vis_schedule env 2 (RestoreHandover uav_id new_cluster)] v)"

definition OnJoinEvent :: "VisEnv \<Rightarrow> u32 \<Rightarrow> u32 \<Rightarrow> vis_op" where
  "OnJoinEvent env uav_id cluster_id =
     vseq
       [Some \<circ> uav_call env uav_id (\<lambda>n. [UpdateNodeDescription n (''UAV-'' @ str uav_id @ nl @ ''JOIN_REQ'' @ nl @ ''C'' @
          str cluster_id)]),
        Some \<circ> OnJoinRequest env uav_id cluster_id,
        Ann_OnJoin env uav_id]"

definition OnLeaveEvent :: "VisEnv \<Rightarrow> u32 \<Rightarrow> u32 \<Rightarrow> vis_op" where
  "OnLeaveEvent env uav_id cluster_id =
     vseq
       [Some \<circ> uav_call env uav_id (\<lambda>n. [UpdateNodeDescription n (''UAV-'' @ str uav_id @ nl @ ''HANDOVER_C'' @ str cluster_id),
          UpdateNodeColor n 255 255 0]),
        Ann_OnLeave env uav_id,
        Some \<circ> vis_schedule env 1 (RestoreLeave uav_id)]"

definition OnCompromiseEvent :: "VisEnv \<Rightarrow> u32 \<Rightarrow> vis_op" where
  "OnCompromiseEvent env uav_id =
     vseq
       [SetUavCompromised env uav_id,
        Some \<circ> uav_call env uav_id (\<lambda>n. [UpdateNodeDescription n (''UAV-'' @ str uav_id @ nl @ ''COMPROMISED'' @ nl @ ''REVOKED'')]),
        Ann_OnCompromise env uav_id]"

definition OnJammerEvent :: "VisEnv \<Rightarrow> u32 \<Rightarrow> real \<Rightarrow> Vis \<Rightarrow> Vis" where
  "OnJammerEvent env affected sinr_db v = OnJammerDetect env affected (jammer_label env affected ''SINR:'' sinr_db v)"

definition Enh_OnMtkBroadcast :: "VisEnv \<Rightarrow> u32 \<Rightarrow> u32 \<Rightarrow> u32 \<Rightarrow> Vis \<Rightarrow> Vis" where
  "Enh_OnMtkBroadcast env skdc_id cluster_id version v =
     Viz_OnMtkBroadcast env skdc_id cluster_id version
       (case container_get (tr_skdc_nodes (ve_topo env)) skdc_id of
          None \<Rightarrow> v
        | Some skdc \<Rightarrow>
            anim_call (UpdateNodeDescription skdc (''SKDC-C'' @ str skdc_id @ nl @ ''MTK_BROADCAST'' @ nl @ ''v='' @ str version))
              (label_links env skdc cluster_id (''[MTK_v'' @ str version @ '']'') v))"

definition UpdateSkdcStatus :: "VisEnv \<Rightarrow> u32 \<Rightarrow> u32 \<Rightarrow> u32 \<Rightarrow> Vis \<Rightarrow> Vis" where
  "UpdateSkdcStatus env skdc_id member_count tek_version =
     skdc_call env skdc_id (\<lambda>n. [UpdateNodeDescription n (MakeSkdcLabel skdc_id member_count tek_version),
       UpdateNodeColor n 255 140 0])"

text \<open>The callback \<open>HookRekeyManager\<close> registers; the version is not in the event.\<close>

definition enhancer_on_rekey :: "VisEnv \<Rightarrow> u32 \<Rightarrow> RekeyMgrReason \<Rightarrow> vis_op" where
  "enhancer_on_rekey env cluster_id reason = OnRekeyEvent env cluster_id 0 reason"

text \<open>What a timer does.  \<open>m_uav_cluster[uav_id]\<close> in the lambda of \<open>OnLeaveEvent\<close> is unchecked.\<close>

definition vis_fire :: "VisEnv \<Rightarrow> VisTimer \<Rightarrow> vis_op" where
  "vis_fire env t v =
     (case t of
        LateColor n r g b \<Rightarrow> Some (anim_call (UpdateNodeColor n r g b) v)
      | JammerColorUpdateCallback \<Rightarrow> JammerColorUpdate env v
      | LabelUpdateCallback \<Rightarrow> Some (LabelUpdate env v)
      | JammerScanCallback \<Rightarrow> JammerScan env v
      | RestoreSkdc c \<Rightarrow> Some (skdc_call env c (\<lambda>n. [UpdateNodeColor n 255 140 0]) v)
      | RestoreHandover u c \<Rightarrow>
          map_option (\<lambda>v. if c < 3 then uav_call env u (\<lambda>n. cluster_color c n @ [UpdateNodeDescription n (MakeUavLabel env v u)]) v
                          else v)
            (SetUavNormal env u v)
      | RestoreLeave u \<Rightarrow> if u \<ge> 18 then None else Some (uav_call env u (cluster_color (ne_cluster v ! unat u)) v))"

section \<open>The scheduled events of main.cc\<close>

definition vis_enhanced :: "bool \<Rightarrow> vis_op \<Rightarrow> vis_op" where
  "vis_enhanced anim f v = (if anim then f v else Some v)"

definition vis_ScheduledLeave :: "bool \<Rightarrow> VisEnv \<Rightarrow> vis_op" where
  "vis_ScheduledLeave anim env =
     vseq [Some \<circ> OnRekeyBroadcast env 0 0, Ann_OnLeave env 3, Ann_OnRekey env 0,
           vis_enhanced anim (OnLeaveEvent env 3 0), vis_enhanced anim (OnRekeyEvent env 0 0 RM_LEAVE)]"

definition vis_ScheduledHandover :: "bool \<Rightarrow> VisEnv \<Rightarrow> vis_op" where
  "vis_ScheduledHandover anim env =
     vseq [SetUavHandover env 5, SetUavNormal env 5, Some \<circ> Viz_OnHandover env 5 0 1, Ann_OnHandover env 5,
           Ann_OnRekey env 0, Ann_OnRekey env 1, vis_enhanced anim (OnHandoverEvent env 5 0 1)]"

definition vis_ScheduledJoin :: "bool \<Rightarrow> VisEnv \<Rightarrow> vis_op" where
  "vis_ScheduledJoin anim env =
     vseq [Some \<circ> OnJoinRequest env 6 2, Some \<circ> Viz_OnMtkBroadcast env 2 2 1, Ann_OnJoin env 6,
           vis_enhanced anim (OnJoinEvent env 6 2), vis_enhanced anim (Some \<circ> Enh_OnMtkBroadcast env 2 2 1)]"

definition vis_ScheduledGlobalRekey :: "bool \<Rightarrow> VisEnv \<Rightarrow> vis_op" where
  "vis_ScheduledGlobalRekey anim env =
     vseq (concat (map (\<lambda>c. [Some \<circ> OnRekeyBroadcast env c c, Ann_OnRekey env c, OnTekRotation env c,
       vis_enhanced anim (OnRekeyEvent env c 0 RM_KDC_INIT)]) [0, 1, 2]))"

section \<open>What the operations leave alone\<close>

lemma anim_call_frame [simp]:
  "nc_states (anim_call c v) = nc_states v" "nc_history (anim_call c v) = nc_history v"
  "ne_cluster (anim_call c v) = ne_cluster v" "ea_skdc_rekey (anim_call c v) = ea_skdc_rekey v"
  "ne_jammer (anim_call c v) = ne_jammer v" "vz_anim (anim_call c v) = None \<longleftrightarrow> vz_anim v = None"
  by (simp_all add: anim_call_def)

lemma anim_calls_frame [simp]:
  "nc_states (anim_calls cs v) = nc_states v" "nc_history (anim_calls cs v) = nc_history v"
  "ne_cluster (anim_calls cs v) = ne_cluster v" "ea_skdc_rekey (anim_calls cs v) = ea_skdc_rekey v"
  "ne_jammer (anim_calls cs v) = ne_jammer v" "vz_anim (anim_calls cs v) = None \<longleftrightarrow> vz_anim v = None"
  by (induction cs arbitrary: v) (simp_all add: anim_calls_def)

lemma calls_frame [simp]:
  "nc_states (uav_call env u f v) = nc_states v" "ea_skdc_rekey (uav_call env u f v) = ea_skdc_rekey v"
  "nc_states (skdc_call env u f v) = nc_states v" "ea_skdc_rekey (skdc_call env u f v) = ea_skdc_rekey v"
  "nc_states (mark env u f v) = nc_states v" "ea_skdc_rekey (mark env u f v) = ea_skdc_rekey v"
  "nc_history (mark env u f v) = nc_history v"
  "vz_anim (uav_call env u f v) = None \<longleftrightarrow> vz_anim v = None" "vz_anim (mark env u f v) = None \<longleftrightarrow> vz_anim v = None"
  "vz_anim (skdc_call env u f v) = None \<longleftrightarrow> vz_anim v = None"
  by (auto simp: uav_call_def skdc_call_def mark_def split: option.splits)

lemma schedule_frame [simp]:
  "nc_states (vis_schedule env d t v) = nc_states v" "ea_skdc_rekey (vis_schedule env d t v) = ea_skdc_rekey v"
  "vz_anim (vis_schedule env d t v) = vz_anim v"
  by (simp_all add: vis_schedule_def)

lemma draw_color_frame:
  "draw_color env u s v = Some v' \<Longrightarrow> nc_states v' = nc_states v \<and> nc_history v' = nc_history v \<and>
     ea_skdc_rekey v' = ea_skdc_rekey v \<and> (vz_anim v' = None \<longleftrightarrow> vz_anim v = None)"
  by (cases s) (auto simp: draw_color_def Let_def MarkNormal_def MarkCompromised_def MarkHandover_def split: if_splits)

lemma label_links_frame [simp]:
  "ea_skdc_rekey (label_links env s c l v) = ea_skdc_rekey v" "vz_anim (label_links env s c l v) = None \<longleftrightarrow> vz_anim v = None"
proof -
  let ?f = "\<lambda>i v. case container_get (tr_uav_nodes (ve_topo env)) (c * 6 + of_nat i) of
                   None \<Rightarrow> v | Some uav \<Rightarrow> UpdateLink s uav l v"
  have "ea_skdc_rekey (fold ?f is v) = ea_skdc_rekey v \<and> (vz_anim (fold ?f is v) = None \<longleftrightarrow> vz_anim v = None)" for "is"
    by (induction "is" arbitrary: v) (auto simp: UpdateLink_def split: option.split)
  then show "ea_skdc_rekey (label_links env s c l v) = ea_skdc_rekey v"
    "vz_anim (label_links env s c l v) = None \<longleftrightarrow> vz_anim v = None"
    by (simp_all add: label_links_def)
qed

lemma viz_frame [simp]:
  "ea_skdc_rekey (OnRekeyBroadcast env s c v) = ea_skdc_rekey v"
  "vz_anim (OnRekeyBroadcast env s c v) = None \<longleftrightarrow> vz_anim v = None"
  by (auto simp: OnRekeyBroadcast_def Viz_RecordEvent_def Let_def split: option.split)

lemma UpdateCounter_frame [simp]:
  "ea_skdc_rekey (UpdateCounter k n x v) = ea_skdc_rekey v" "vz_anim (UpdateCounter k n x v) = None \<longleftrightarrow> vz_anim v = None"
  by (simp_all add: UpdateCounter_def)

section \<open>Two color managers\<close>

text \<open>The topology main.cc builds: 18 UAVs and 3 SKDCs.\<close>

definition full_env :: "VisEnv \<Rightarrow> bool" where
  "full_env env \<longleftrightarrow> length (tr_uav_nodes (ve_topo env)) = 18 \<and> length (tr_skdc_nodes (ve_topo env)) = 3"

lemma full_get: "full_env env \<Longrightarrow> u < 18 \<Longrightarrow> \<exists>n. container_get (tr_uav_nodes (ve_topo env)) u = Some n"
  "full_env env \<Longrightarrow> u < 3 \<Longrightarrow> \<exists>n. container_get (tr_skdc_nodes (ve_topo env)) u = Some n"
  by (simp_all add: full_env_def container_get_def word_less_nat_alt)

lemma ApplyColor_full:
  assumes "full_env env"
  shows "\<exists>v'. ApplyColor env u s v = Some v' \<and>
    nc_states v' = (if u < 18 then (nc_states v)[unat u := s] else nc_states v)"
proof (cases "u < 18")
  case True
  obtain n where n: "container_get (tr_uav_nodes (ve_topo env)) u = Some n" using full_get(1)[OF assms True] by blast
  have draw: "\<exists>v'. draw_color env u s w = Some v' \<and> nc_states v' = nc_states w" for w
  proof -
    have "\<exists>v'. draw_color env u s w = Some v'"
      using n by (cases s; cases "vz_anim w = None") (simp_all add: draw_color_def Let_def)
    with draw_color_frame show ?thesis by blast
  qed
  have "u \<ge> 18 \<longleftrightarrow> False" using True by simp
  with True show ?thesis
    using draw[of "v \<lparr> nc_history := nc_history v @ [\<lparr> cr_time_s = ve_now env, cr_uav_id = u,
      cr_old_state = nc_states v ! unat u, cr_new_state = s \<rparr>], nc_states := (nc_states v)[unat u := s] \<rparr>"]
    by (auto simp: ApplyColor_def Let_def list_update_id)
next
  case False
  then have "u \<ge> 18" by simp
  with False show ?thesis by (simp add: ApplyColor_def)
qed

lemma vseq_pointwise:
  assumes "\<And>i v. i \<in> set is \<Longrightarrow> \<exists>v'. f i v = Some v' \<and> nc_states v' = (nc_states v)[i := g i (nc_states v ! i)]"
    and "distinct is"
  shows "\<exists>v'. vseq (map f is) v = Some v' \<and> length (nc_states v') = length (nc_states v) \<and>
    (\<forall>j<length (nc_states v). nc_states v' ! j = (if j \<in> set is then g j (nc_states v ! j) else nc_states v ! j))"
  using assms
proof (induction "is" arbitrary: v)
  case (Cons i "is")
  obtain w where w: "f i v = Some w" "nc_states w = (nc_states v)[i := g i (nc_states v ! i)]"
    using Cons.prems(1)[of i v] by auto
  obtain v' where v': "vseq (map f is) w = Some v'" "length (nc_states v') = length (nc_states w)"
    "\<forall>j<length (nc_states w). nc_states v' ! j = (if j \<in> set is then g j (nc_states w ! j) else nc_states w ! j)"
    using Cons.IH[of w] Cons.prems by auto
  have "nc_states w ! j = nc_states v ! j" if "j \<in> set is" for j
  proof -
    from that Cons.prems(2) have "i \<noteq> j" by auto
    with w(2) show ?thesis by simp
  qed
  moreover have "nc_states w ! i = g i (nc_states v ! i)" if "i < length (nc_states v)" using w(2) that by simp
  ultimately show ?case using w v' Cons.prems(2) by (auto simp: nth_list_update)
qed simp

lemma ApplyColor_full_iff:
  "full_env env \<Longrightarrow> (\<exists>v'. ApplyColor env u s v = Some v' \<and> nc_states v' = xs) \<longleftrightarrow>
     xs = (if u < 18 then (nc_states v)[unat u := s] else nc_states v)"
  using ApplyColor_full[of env u s v] by auto

text \<open>
  Compromised UAVs on the screen.  The periodic update of the color manager keeps a UAV that is shown as compromised so; the
  periodic scan of the enhancer, which main.cc starts beside it, shows every UAV as normal that is not jammed, so a
  compromised one is green again after at most one period.
\<close>

theorem scan_hides_compromise:
  assumes "full_env env" "length (nc_states v) = 18"
  shows "ne_jammer v \<Longrightarrow> \<exists>v'. JammerScan env v = Some v' \<and>
      (\<forall>i<18. nc_states v' ! i = (if ve_jammed env (of_nat i) then COL_JAMMED else COL_NORMAL))"
    and "nc_jammer v \<Longrightarrow> \<exists>v'. JammerColorUpdate env v = Some v' \<and>
      (\<forall>i<18. nc_states v ! i = COL_COMPROMISED \<longrightarrow> nc_states v' ! i = COL_COMPROMISED)"
proof -
  have u: "(of_nat i :: u32) < 18" "unat (of_nat i :: u32) = i" if "i < 18" for i
    using that by (simp_all add: word_less_nat_alt unat_of_nat)
  {
    assume "ne_jammer v"
    have "\<exists>v'. scan_uav env i w = Some v' \<and>
        nc_states v' = (nc_states w)[i := (if ve_jammed env (of_nat i) then COL_JAMMED else COL_NORMAL)]" if "i \<in> set [0..<18]" for i w
      using u[of i] that
      by (auto simp: scan_uav_def Let_def SetUavJammed_def SetUavNormal_def ApplyColor_full_iff[OF assms(1)])
    from vseq_pointwise[where v = v, of "[0..<18]" "scan_uav env" "\<lambda>i _. if ve_jammed env (of_nat i) then COL_JAMMED else COL_NORMAL", OF this]
    obtain w where w: "vseq (map (scan_uav env) [0..<18]) v = Some w"
      "\<forall>j<18. nc_states w ! j = (if ve_jammed env (of_nat j) then COL_JAMMED else COL_NORMAL)"
      using assms(2) by auto
    with \<open>ne_jammer v\<close> show "\<exists>v'. JammerScan env v = Some v' \<and>
      (\<forall>i<18. nc_states v' ! i = (if ve_jammed env (of_nat i) then COL_JAMMED else COL_NORMAL))"
      by (auto simp: JammerScan_def Let_def jammer_label_def split: list.splits simp del: upt_Suc)
  next
    assume "nc_jammer v"
    define g where "g i s = (if ve_jammed env (of_nat i) \<and> s = COL_NORMAL then COL_JAMMED
      else if \<not> ve_jammed env (of_nat i) \<and> s = COL_JAMMED then COL_NORMAL else s)" for i s
    have "\<exists>v'. color_update env i w = Some v' \<and> nc_states v' = (nc_states w)[i := g i (nc_states w ! i)]" if "i \<in> set [0..<18]" for i w
      using u[of i] that by (auto simp: color_update_def Let_def g_def ApplyColor_full_iff[OF assms(1)])
    from vseq_pointwise[where v = v, of "[0..<18]" "color_update env" g, OF this]
    obtain w where w: "vseq (map (color_update env) [0..<18]) v = Some w" "\<forall>j<18. nc_states w ! j = g j (nc_states v ! j)"
      using assms(2) by auto
    with \<open>nc_jammer v\<close> show "\<exists>v'. JammerColorUpdate env v = Some v' \<and>
      (\<forall>i<18. nc_states v ! i = COL_COMPROMISED \<longrightarrow> nc_states v' ! i = COL_COMPROMISED)"
      by (auto simp: JammerColorUpdate_def g_def simp del: upt_Suc)
  }
qed

section \<open>Rekeys that are counted twice\<close>

lemma Ann_OnRekey_full:
  assumes "full_env env" "c < 3"
  shows "\<exists>v'. Ann_OnRekey env c v = Some v' \<and>
    ea_skdc_rekey v' = (ea_skdc_rekey v)[unat c := ea_skdc_rekey v ! unat c + 1] \<and> (vz_anim v' = None \<longleftrightarrow> vz_anim v = None)"
  using full_get(2)[OF assms] assms(2) by (auto simp: Ann_OnRekey_def Let_def)

lemma Ann_OnLeave_full:
  assumes "full_env env" "u < 18"
  shows "\<exists>v'. Ann_OnLeave env u v = Some v' \<and> ea_skdc_rekey v' = ea_skdc_rekey v \<and> (vz_anim v' = None \<longleftrightarrow> vz_anim v = None)"
  using full_get(1)[OF assms] assms(2) by (auto simp: Ann_OnLeave_def)

lemma rekey_labels_frame:
  "ea_skdc_rekey (fold (\<lambda>i v. let uid = b + of_nat i in
       if uid < 18
       then let v = v \<lparr> ne_rekey_count := (ne_rekey_count v)[unat uid := ne_rekey_count v ! unat uid + 1] \<rparr>
            in uav_call env uid (\<lambda>n. [UpdateNodeDescription n (MakeUavLabel env v uid)]) v
       else v) is v) = ea_skdc_rekey v"
  by (induction "is" arbitrary: v) (simp_all add: Let_def)

lemma OnRekeyEvent_full:
  assumes "full_env env" "c < 3"
  shows "\<exists>v'. OnRekeyEvent env c ver reason v = Some v' \<and>
    ea_skdc_rekey v' = (if vz_anim v = None then ea_skdc_rekey v
                        else (ea_skdc_rekey v)[unat c := ea_skdc_rekey v ! unat c + 1])"
proof (cases "vz_anim v = None")
  case False
  define w where "w = OnRekeyBroadcast env c c (skdc_call env c (\<lambda>n. [UpdateNodeDescription n (''SKDC-C'' @ str c @ nl @
    ''REKEY!'' @ nl @ ''Reason:'' @ RekeyReasonStr reason), UpdateNodeColor n 255 0 0]) v)"
  define x where "x = fold (\<lambda>i v. let uid = c * 6 + of_nat i in
       if uid < 18
       then let v = v \<lparr> ne_rekey_count := (ne_rekey_count v)[unat uid := ne_rekey_count v ! unat uid + 1] \<rparr>
            in uav_call env uid (\<lambda>n. [UpdateNodeDescription n (MakeUavLabel env v uid)]) v
       else v) [0..<6] w"
  have ea: "ea_skdc_rekey x = ea_skdc_rekey v" by (simp only: x_def rekey_labels_frame) (simp add: w_def)
  have ev: "OnRekeyEvent env c ver reason v = map_option (vis_schedule env 1 (RestoreSkdc c)) (Ann_OnRekey env c x)"
    by (simp only: OnRekeyEvent_def x_def w_def Let_def False if_False)
  from Ann_OnRekey_full[OF assms, of x] obtain y where "Ann_OnRekey env c x = Some y"
    "ea_skdc_rekey y = (ea_skdc_rekey x)[unat c := ea_skdc_rekey x ! unat c + 1]" by blast
  with ea show ?thesis by (simp only: ev False if_False) simp
qed (simp add: OnRekeyEvent_def)

lemma OnLeaveEvent_full:
  assumes "full_env env" "u < 18"
  shows "\<exists>v'. OnLeaveEvent env u c v = Some v' \<and> ea_skdc_rekey v' = ea_skdc_rekey v \<and> (vz_anim v' = None \<longleftrightarrow> vz_anim v = None)"
proof -
  let ?w = "uav_call env u (\<lambda>n. [UpdateNodeDescription n (''UAV-'' @ str u @ nl @ ''HANDOVER_C'' @ str c), UpdateNodeColor n 255 255 0]) v"
  from Ann_OnLeave_full[OF assms, of ?w] show ?thesis by (auto simp: OnLeaveEvent_def)
qed

text \<open>
  With the animation the leave that main.cc schedules raises the rekey count of the cluster head by two, as main.cc
  and the enhancer both report the one rekey there was; without it by one.
\<close>

theorem leave_annotated_twice:
  assumes "full_env env" "length (ea_skdc_rekey v) = 3" "vz_anim v \<noteq> None"
  shows "\<exists>v'. vis_ScheduledLeave anim env v = Some v' \<and>
    ea_skdc_rekey v' ! 0 = ea_skdc_rekey v ! 0 + (if anim then 2 else 1)"
proof -
  let ?v1 = "OnRekeyBroadcast env 0 0 v"
  have s: "(0 :: u32) < 3" "(3 :: u32) < 18" by simp_all
  obtain v2 where v2: "Ann_OnLeave env 3 ?v1 = Some v2" "ea_skdc_rekey v2 = ea_skdc_rekey v" "vz_anim v2 \<noteq> None"
    using Ann_OnLeave_full[OF assms(1) s(2), of ?v1] assms(3) by auto
  obtain v3 where v3: "Ann_OnRekey env 0 v2 = Some v3"
    "ea_skdc_rekey v3 = (ea_skdc_rekey v)[0 := ea_skdc_rekey v ! 0 + 1]" "vz_anim v3 \<noteq> None"
    using Ann_OnRekey_full[OF assms(1) s(1), of v2] v2(2,3) by auto
  obtain v4 where v4: "OnLeaveEvent env 3 0 v3 = Some v4" "ea_skdc_rekey v4 = ea_skdc_rekey v3" "vz_anim v4 \<noteq> None"
    using OnLeaveEvent_full[OF assms(1) s(2), of 0 v3] v3(3) by auto
  obtain v5 where v5: "OnRekeyEvent env 0 0 RM_LEAVE v4 = Some v5"
    "ea_skdc_rekey v5 = (ea_skdc_rekey v4)[0 := ea_skdc_rekey v4 ! 0 + 1]"
    using OnRekeyEvent_full[OF assms(1) s(1), of 0 RM_LEAVE v4] v4(3) by auto
  show ?thesis using v2(1) v3(1,2) v4(1,2) v5 assms(2)
    by (cases anim) (auto simp: vis_ScheduledLeave_def vis_enhanced_def)
qed

end
