(* ===== verification/Spec2Isabelle.thy ===== *)
theory Spec2Isabelle
  imports Crt_Group Packet_Delivery Handover_Protocol Skdc_Latency Auto_Handover Jammer Telemetry_Path Uav_Runs Perf_Facts
    Baseline_Metrics Json_Config Csv_Logger Logger Params_Loader Routing_Managers Anim_Enhancer
begin

text \<open>
  The secure UAV network of \<open>scratch/uav-secure-fanet\<close>: a verification library.


  \<^bold>\<open>The program.\<close>  An ns-3 simulation of a network of UAVs with hierarchical group keys.  A key distribution centre
  (KDC) and three cluster heads (SKDCs) stand on the ground and are joined by a wired backbone; the UAVs fly in three
  clusters and reach the cluster heads by radio.  Every cluster has a traffic key (TEK).  The master key scheme of
  \<open>crypto/\<close> (MKE-MGKM) distributes a key \<open>T\<close> to the members of a group in one number, the token
  \<open>MT_K = T ^ e_MK mod N_group\<close>: the exponent is a Chinese-remainder sum over the members, so that exactly they can
  recover \<open>T\<close>, each with its own slave key, and a join or a leave adds or takes away one summand.  The applications
  of \<open>apps/\<close> broadcast the token, encrypt telemetry, rekey on events and carry a UAV from one cluster to another; the
  managers of \<open>apps/\<close> keep the groups and react to joins, leaves, handovers, compromises and jamming.  The packets of
  \<open>headers/\<close> are authenticated and carry replay tokens.  \<open>routing/\<close>, \<open>mobility/\<close> and \<open>main.cc\<close> build the
  network and schedule the events, \<open>metrics/\<close> and \<open>scenario/\<close> measure, \<open>visualization/\<close> draws, \<open>utils/\<close> has
  configuration, JSON, CSV, strings and logging.


  \<^bold>\<open>How the program is modelled.\<close>  Each theory stands for one or a few source files and keeps their names; a
  class is a record of its members, an enumeration a datatype, an integer a word of its width, a \<open>cpp_int\<close> an
  \<open>int\<close>, a \<open>double\<close> a \<open>real\<close>, a byte buffer a list of bytes, a string a list of characters.  A
  method takes the object and returns it.  An exception is \<open>Inl\<close> of its class in the result type
  \<open>'a res\<close>; nothing but the few catch clauses that are modelled where they are goes on after one.  The type
  \<open>'a comp = 'a res option\<close> has in addition the value \<open>None\<close>, for what C++ leaves undefined (an access behind a
  buffer or a container) and for loops that do not return.  What a program of this kind reads from outside is an
  argument: clocks and random generators are streams of readings, sockets are queues of datagrams, what a library
  computes is a record of functions with named laws.  Parameters of this kind are \<open>ext\<close> (boost's arithmetic and
  OpenSSL's primitives, theory \<open>External\<close>), \<open>World\<close> (clock, random bytes, time, sent datagrams,
  \<open>Sim_World\<close>), \<open>Fleet\<close> and \<open>mobilities\<close> (positions and mobility models), \<open>FlowNet\<close> (the flow
  monitor's view), \<open>NetNode\<close> (routing protocols), \<open>json_api\<close> and \<open>json_lib\<close> (nlohmann's library),
  \<open>CsvEnv\<close> and \<open>LogEnv\<close> (files) and \<open>VisEnv\<close> (what the drawing managers look at).  Printed text and log
  lines are left out, except where the code keeps or parses them.


  \<^bold>\<open>The theories, bottom up.\<close>

  \<^item> \<open>Uav_Prelude\<close>: machine types, exception classes (\<open>utils/uav-types.h\<close>, \<open>uav-error.h\<close>), the result
    types, and the collections \<open>wire_simps\<close>, \<open>fill_simps\<close>, \<open>parse_simps\<close> of facts about reading and writing
    slices of buffers that carry the packet proofs.  \<open>External\<close>: the third-party primitives and their laws.
    \<open>Unordered_Set\<close>: the member sets of \<open>apps/\<close>.
  \<^item> \<open>Modular_Arith\<close>: Fermat, the exponent law behind slave decryption, residues of a Chinese-remainder sum.
    \<open>Bigint\<close>: \<open>crypto/uav-bigint.cc\<close>.  \<open>Byte_Utils\<close>: \<open>utils/uav-byte-utils.cc\<close>.  \<open>Hmac_Aes\<close>:
    \<open>crypto/uav-hmac.cc\<close>, \<open>uav-aes.cc\<close>.
  \<^item> \<open>Crypto_Params\<close> and \<open>Params_Loader\<close>: the data, lookups, checks and parsing of \<open>crypto_params.json\<close>
    (\<open>crypto/uav-crypto-params.cc\<close>).  \<open>Crt_Manager\<close>: \<open>crypto/uav-crt-manager.cc\<close>, the algorithms
    \<open>MKeyGen\<close>, \<open>MTokenGen\<close>, \<open>JoKeyUpdate\<close>, \<open>LeKeyUpdate\<close>, \<open>SlaveDecrypt\<close> and the cluster state;
    \<open>Crt_Group\<close>: their correctness.
  \<^item> \<open>Replay\<close>: \<open>crypto/uav-replay.cc\<close>, the sliding windows and the nonce rings, with the abstract window they
    refine.  \<open>Packet_Enums\<close>, \<open>Base_Header\<close>, \<open>Packet_Codec\<close>, \<open>Packet_Bodies\<close>, \<open>Packets\<close>,
    \<open>Packet_Manager\<close>: the files of \<open>headers/\<close>; \<open>Packet_Delivery\<close>: what the packet layer promises from sender
    to handler.
  \<^item> \<open>Handover_Protocol\<close> and \<open>Key_Encoding\<close>: the four messages of a handover and the way a slave key travels in
    them (\<open>crypto/uav-handover-protocol.h\<close>, lambdas of \<open>apps/\<close>).
  \<^item> \<open>Sim_World\<close>, \<open>Tek_Manager\<close>, \<open>Skdc_App\<close>, \<open>Kdc_App\<close>, \<open>Uav_App\<close>: the TEK manager and the three
    applications (\<open>apps/uav-tek-manager.cc\<close>, \<open>uav-skdc-app.cc\<close>, \<open>uav-kdc-app.cc\<close>, \<open>uav-uav-app.cc\<close>).
    \<open>Skdc_Runs\<close>, \<open>Skdc_Latency\<close>, \<open>Uav_Runs\<close>: runs of a cluster head and of a UAV as step relations with a rule
    for every event the simulator can deliver.  \<open>Slave_Handover\<close>, \<open>Telemetry_Path\<close>: the applications together.
  \<^item> \<open>Multicast_Manager\<close>, \<open>Group_Managers\<close>: the managers of the KDC (\<open>apps/uav-multicast-manager.cc\<close>,
    \<open>uav-mtk-distribution.cc\<close>, \<open>uav-rekey-manager.cc\<close>, \<open>uav-join-event.cc\<close>, \<open>uav-leave-event.cc\<close>,
    \<open>uav-handover-manager.cc\<close>, \<open>uav-compromise-detector.cc\<close>) in the record \<open>Net\<close>, wired as \<open>main.cc\<close>
    wires them.  \<open>Group_Effects\<close>: what each operation changes and leaves alone; \<open>Group_Runs\<close>: runs of them.
    \<open>Main_Scenario\<close>: the events \<open>main.cc\<close> schedules; \<open>Auto_Handover\<close>: its periodic check; \<open>Jammer\<close>:
    \<open>apps/uav-jammer-manager.cc\<close> and the attack handler.
  \<^item> \<open>Mobility\<close>, \<open>Mobility_Setup\<close>, \<open>Topology\<close>, \<open>Topology_Facts\<close>, \<open>Routing_Managers\<close>: \<open>mobility/\<close>
    and \<open>routing/\<close> with the ns-3 helpers they call (\<open>MobilityHelper::Install\<close>, the container and address
    helpers).  \<open>Flow_Monitor\<close>: \<open>routing/uav-flowmonitor.cc\<close>.
  \<^item> \<open>Metrics_Framework\<close>, \<open>Timing_Profiler\<close>, \<open>Baseline_Metrics\<close>: the collectors of \<open>metrics/\<close>;
    \<open>Metrics_Facts\<close>: consistency, statistics and ranges.  \<open>Perf_Scenario\<close>, \<open>Perf_Facts\<close>:
    \<open>scenario/rekey_perf_scenario.cc\<close>, the series of measured runs.
  \<^item> \<open>String_Utils\<close>, \<open>Json_Config\<close>, \<open>Csv_Logger\<close>, \<open>Logger\<close>: \<open>utils/\<close>.  \<open>Animation\<close>,
    \<open>Anim_Enhancer\<close>: \<open>visualization/\<close> and the drawing part of the scheduled events.


  \<^bold>\<open>Interfaces.\<close>  \<open>body_codec\<close> (\<open>Packet_Codec\<close>) is what a packet class needs of its body; round trip,
  authenticity and errors of the wire layout are proved once in it and it is interpreted for the six bodies.
  \<open>replay_filter\<close> (\<open>Replay\<close>): a filter that blocks for ever what it has accepted never accepts twice;
  interpreted for the sequence check and for the cache with eviction.  \<open>membership\<close> (\<open>Crt_Group\<close>): in a system whose
  readers are its members after every step they are so after every run; interpreted for the CRT manager and
  for the multicast manager with consistent groups.  \<open>member_set\<close> (\<open>Unordered_Set\<close>): the laws of insertion and erasure.


  \<^bold>\<open>What is proved.\<close>  The properties carry their numbers where they are stated.

  \<^item> The key scheme: key generation, token and decryption fit together; a join or leave update equals a
    regeneration; exactly the members read the token, over all runs of the manager; who has left stays locked out
    whatever the others do; when the loops end; what
    \<open>ProcessLeave\<close> does not do; what a double join does.  Number codecs and random numbers.
  \<^item> Replay protection: no token is accepted twice, refinement of an abstract window, eviction.
  \<^item> Packets: header codec, delivery of every packet class from sender to handler, no delivery without a valid HMAC,
    the exception of MTK packets, the encrypted payload end to end.
  \<^item> Handover: round trips of the messages, the wrap of the length check, the delivery of the right slave key
    through the three applications.
  \<^item> Applications over runs: the token a cluster head broadcasts never changes, what a UAV takes from a broadcast and
    what it keeps, the rekey latency is reported once, the telemetry path.
  \<^item> Managers over runs: agreement of TEK manager and cluster heads, members of the multicast groups and the exponents that fit
    their tokens, from the parameter file on (\<open>multicast_run_members\<close>: by the number of copies of each slave in a token), revocation,
    the scheduled events, the automatic handovers.
  \<^item> Measurement: consistency of the counters and ranges of the figures, statistics against their
    definitions, the schedule of a run, and the figures that say nothing about it.  The traffic of the clusters
    adds up to that of the run (\<open>Flow_Monitor\<close>).
  \<^item> Set-up and tools: the addresses and positions the builder gives (\<open>Topology_Facts\<close>), the loading of the
    parameters and of the configuration and what the command line can do to it, CSV files that can be read back whole, the
    routing of log messages.


  \<^bold>\<open>Loops.\<close>  A loop with a bound the code shows is a recursion on that bound or a function with a measure.  The loops
  without one are partial functions with value \<open>None\<close> when they run for ever: \<open>gen_e_loop\<close> (exponents are drawn
  until one is coprime), \<open>enforce_mod4\<close> (until the exponent is 1 modulo 4), \<open>random_below_loop\<close> (until a draw
  is small enough), \<open>time_loop\<close> (the schedule of a run) and \<open>merge_items\<close> (the recursion of \<open>DeepMerge\<close>).  That
  \<open>enforce_mod4\<close>, \<open>time_loop\<close> and \<open>merge_items\<close> return, and when \<open>random_below_loop\<close> does not, is proved; key
  generation returns for draws among which every loop finds a coprime one.  No fuel is used.


  \<^bold>\<open>Not modelled.\<close>  Rounding, infinities and NaN of floating-point numbers (reals throughout).  The state of an object
  after an exception that nobody catches.  OpenSSL contexts and failures of its calls other than a wrong tag or a
  failing prime search.  ns-3 itself: sockets deliver what the environment says, events are steps in any order, radio,
  channels, OLSR and movement are inputs; the attributes of radio and channel are only handed to ns-3.  Console
  output, log texts, PCAP, XML and CSV exports of the metrics, PyViz, the parts of \<open>utils/\<close> that wrap the file system,
  the clock and the random generator of the standard library, \<open>Format\<close> (\<open>vsnprintf\<close>).  The order of the constructor
  calls of \<open>main\<close>.  A packet handler that calls back into its packet manager.  Scripts, tests, patches and backup files.


  \<^bold>\<open>What the model shows about the code.\<close>  The scheme itself is correct, but the program does not use it as it means
  to: a leave rotates the traffic key and leaves the old one in the token (\<open>ProcessLeave_effect\<close>), the cluster heads
  broadcast the token of the parameter file for ever (\<open>broadcasts_never_change\<close>), a UAV never replaces its traffic key
  (\<open>uav_run_keys\<close>), in the multicast groups 1 and 2 exactly the slaves that are no members have an
  exponent that fits the token (\<open>multicast_run_members\<close>), a member that joins twice is locked out (\<open>duplicate_join_locks_out\<close>), which the scheduled
  events and the automatic handovers do (\<open>scheduled_events\<close>, \<open>auto_handover_cascade\<close>), a forged MTK packet is delivered
  (\<open>Dispatch_accepts_forged_mtk\<close>), telemetry is opened with other additional data than it was sealed with
  (\<open>telemetry_opened_with_wrong_aad\<close>), the reported secrecy is constant (\<open>perf_secrecy_reported\<close>), most
  mobility settings have no effect and the jammer
  neither moves (\<open>deployment\<close>) nor jams (theory \<open>Jammer\<close>).
\<close>

end
